(* ===== verification/Prelude.thy ===== *)
theory Prelude
  imports Main "HOL-Library.Sublist" "HOL-Library.Multiset"
begin

text \<open>
  The shared layer of the development: the JavaScript string and array operations the
  front end of llM.Port (\<^verbatim>\<open>llm_port_frontend/app\<close>) uses, JSON values, and the
  lemmas about them that every component needs.

  Strings are byte lists (\<^typ>\<open>string\<close>), read as UTF-8: concatenation, prefix tests,
  \<open>includes\<close>, \<open>split\<close> and equality agree with the code-unit strings of JavaScript
  on well-formed text. \<open>trim\<close> and \<open>to_lower\<close> treat the ASCII white space and the ASCII
  letters; the other Unicode spaces and letters are left as they are.

  A value that JavaScript calls falsy because it is undefined, null or the empty string
  is an option or a string, and \<open>truthy\<close> is the test the code makes.
\<close>

named_theorems js_string \<open>facts about JavaScript string operations\<close>
named_theorems js_array \<open>facts about JavaScript array operations\<close>

subsection \<open>JSON values\<close>

datatype json =
    JNull
  | JBool bool
  | JNum int
  | JString string
  | JArray "json list"
  | JObject "(string \<times> json) list"

text \<open>A property read \<open>o.k\<close>: \<open>None\<close> is undefined.\<close>

fun json_get :: "json \<Rightarrow> string \<Rightarrow> json option" where
  "json_get (JObject kvs) k = map_of kvs k"
| "json_get _ k = None"

fun json_is_object :: "json \<Rightarrow> bool" where
  "json_is_object (JObject _) = True"
| "json_is_object (JArray _) = True"
| "json_is_object _ = False"

fun json_string :: "json option \<Rightarrow> string option" where
  "json_string (Some (JString s)) = Some s"
| "json_string _ = None"

fun json_array :: "json option \<Rightarrow> json list option" where
  "json_array (Some (JArray xs)) = Some xs"
| "json_array _ = None"

fun json_truthy :: "json option \<Rightarrow> bool" where
  "json_truthy None = False"
| "json_truthy (Some JNull) = False"
| "json_truthy (Some (JBool b)) = b"
| "json_truthy (Some (JNum n)) = (n \<noteq> 0)"
| "json_truthy (Some (JString s)) = (s \<noteq> [])"
| "json_truthy (Some _) = True"

definition truthy :: "string option \<Rightarrow> bool" where
  "truthy s = (case s of None \<Rightarrow> False | Some t \<Rightarrow> t \<noteq> [])"

lemma truthy_simps [simp]:
  "truthy None = False" "truthy (Some t) = (t \<noteq> [])"
  by (simp_all add: truthy_def)

lemma truthy_nonempty: "truthy m \<Longrightarrow> the m \<noteq> []"
  by (cases m) auto

subsection \<open>Strings\<close>

text \<open>\<open>has_infix s q\<close> is \<open>s.includes(q)\<close>.\<close>

definition is_ws :: "char \<Rightarrow> bool" where
  "is_ws c = (c \<in> {CHR '' '', CHR 0x09, CHR 0x0A, CHR 0x0B, CHR 0x0C, CHR 0x0D})"

definition trim :: "string \<Rightarrow> string" where
  "trim s = rev (dropWhile is_ws (rev (dropWhile is_ws s)))"

fun starts_with :: "'a list \<Rightarrow> 'a list \<Rightarrow> bool" where
  "starts_with s [] = True"
| "starts_with [] (p # ps) = False"
| "starts_with (c # s) (p # ps) = (c = p \<and> starts_with s ps)"

fun has_infix :: "'a list \<Rightarrow> 'a list \<Rightarrow> bool" where
  "has_infix [] q = (q = [])"
| "has_infix (c # s) q = (starts_with (c # s) q \<or> has_infix s q)"

definition lower_char :: "char \<Rightarrow> char" where
  "lower_char c =
     (let n = (of_char c :: nat) in if 65 \<le> n \<and> n \<le> 90 then char_of (n + 32) else c)"

definition to_lower :: "string \<Rightarrow> string" where
  "to_lower s = map lower_char s"

definition upper_char :: "char \<Rightarrow> char" where
  "upper_char c = (let n = (of_char c :: nat) in if 97 \<le> n \<and> n \<le> 122 then char_of (n - 32) else c)"

definition to_upper :: "string \<Rightarrow> string" where
  "to_upper s = map upper_char s"

fun split_on :: "'a \<Rightarrow> 'a list \<Rightarrow> 'a list list" where
  "split_on d [] = [[]]"
| "split_on d (c # s) =
     (if c = d then [] # split_on d s
      else (case split_on d s of [] \<Rightarrow> [[c]] | w # ws \<Rightarrow> (c # w) # ws))"

fun join :: "'a list \<Rightarrow> 'a list list \<Rightarrow> 'a list" where
  "join sep [] = []"
| "join sep [w] = w"
| "join sep (w # ws) = w @ sep @ join sep ws"

lemma starts_with_prefix [js_string]: "starts_with s p = prefix p s"
  by (induction s p rule: starts_with.induct) auto

lemma starts_with_append [simp]: "starts_with (p @ s) p"
  by (simp add: js_string)

lemma starts_with_refl [simp]: "starts_with s s"
  by (simp add: js_string)

lemma starts_with_trans: "starts_with s q \<Longrightarrow> starts_with q p \<Longrightarrow> starts_with s p"
  by (auto simp: js_string intro: prefix_order.trans)

lemma has_infix_sublist [js_string]: "has_infix s q = sublist q s"
  by (induction s q rule: has_infix.induct) (auto simp: starts_with_prefix sublist_Cons_right)

lemma split_on_nonempty [simp]: "split_on d s \<noteq> []"
  by (induction s) (auto split: list.splits)

lemma split_on_no_sep: "w \<in> set (split_on d s) \<Longrightarrow> d \<notin> set w"
  by (induction s arbitrary: w) (fastforce split: if_splits list.splits)+

lemma split_on_single [simp]: "d \<notin> set s \<Longrightarrow> split_on d s = [s]"
  by (induction s) auto

lemma split_on_line: "d \<notin> set w \<Longrightarrow> split_on d (w @ d # s) = w # split_on d s"
  by (induction w) auto

lemma trim_last: "trim s \<noteq> [] \<Longrightarrow> \<not> is_ws (last (trim s))"
  by (simp add: trim_def last_rev hd_dropWhile)

lemma trim_prepend:
  assumes "trim s = s" "s \<noteq> []" "\<not> is_ws c"
  shows "trim (c # p @ s) = c # p @ s"
proof -
  have "\<not> is_ws (last s)" using assms trim_last [of s] by simp
  then have "rev s = last s # tl (rev s)" "\<not> is_ws (hd (rev s))"
    using assms(2) by (metis hd_rev list.collapse rev_is_Nil_conv, simp add: hd_rev)
  then have "dropWhile is_ws (rev s @ r) = rev s @ r" for r
    by (metis append_Cons dropWhile.simps(2) hd_rev list.sel(1))
  with assms(3) show ?thesis by (simp add: trim_def)
qed

text \<open>Trimming is stripping at both ends.\<close>

definition lstrip :: "string \<Rightarrow> string" where "lstrip s = dropWhile is_ws s"
definition rstrip :: "string \<Rightarrow> string" where "rstrip s = rev (dropWhile is_ws (rev s))"

lemma trim_strips: "trim s = rstrip (lstrip s)"
  by (simp add: trim_def lstrip_def rstrip_def)

lemma rstrip_keep: "\<not> is_ws c \<Longrightarrow> rstrip (a @ c # b) = a @ c # rstrip b"
  by (simp add: rstrip_def dropWhile_append3)

lemma strips_commute: "lstrip (rstrip s) = rstrip (lstrip s)"
proof (cases "list_all is_ws s")
  case True
  then have "lstrip s = []" "rstrip s = []"
    by (auto simp: lstrip_def rstrip_def list_all_iff dropWhile_eq_Nil_conv)
  then show ?thesis by (simp only:) (simp add: lstrip_def rstrip_def)
next
  case False
  then obtain a c b where s: "s = a @ c # b" "list_all is_ws a" "\<not> is_ws c"
    using split_list_first_prop [of s "\<lambda>x. \<not> is_ws x"] by (auto simp: list_all_iff)
  have "lstrip (a @ c # t) = c # t" for t
    using s(2,3) by (induction a) (auto simp: lstrip_def)
  then show ?thesis using s rstrip_keep [of c a b] rstrip_keep [of c "[]" b] by simp
qed

lemma strip_idem [simp]: "rstrip (rstrip s) = rstrip s" "lstrip (lstrip s) = lstrip s"
  by (simp_all add: rstrip_def lstrip_def dropWhile_idem)

lemma trim_idem [simp]: "trim (trim s) = trim s"
  by (simp add: trim_strips strips_commute)

lemma trim_rstrip [simp]: "trim (rstrip s) = trim s"
  by (simp add: trim_strips strips_commute)

lemma trim_ws_Cons: "is_ws c \<Longrightarrow> trim (c # s) = trim s"
  by (simp add: trim_def)

lemma trim_ws_snoc: "is_ws c \<Longrightarrow> trim (s @ [c]) = trim s"
  unfolding trim_strips strips_commute [symmetric] by (simp add: rstrip_def)

lemma trim_subset: "set (trim s) \<subseteq> set s"
  by (auto simp: trim_def dest!: set_dropWhileD)

text \<open>The white space that the server strips.\<close>

definition py_ws :: "char \<Rightarrow> bool" where
  "py_ws c = (let n = (of_char c :: nat) in 9 \<le> n \<and> n \<le> 13 \<or> 28 \<le> n \<and> n \<le> 32 \<or> n = 133 \<or> n = 160)"

definition py_strip :: "string \<Rightarrow> string" where
  "py_strip s = rev (dropWhile py_ws (rev (dropWhile py_ws s)))"

text \<open>Splitting is undone by joining, so no character is lost or invented.\<close>

lemma join_split_on: "join [d] (split_on d s) = s"
proof (induction s)
  case (Cons c s)
  obtain w ws where ws: "split_on d s = w # ws"
    by (cases "split_on d s") auto
  show ?case using Cons ws by (cases ws) auto
qed simp

text \<open>
  Splitting a concatenation: the last piece of the first half and the first piece of the
  second half are one piece. This is what a line reader that keeps the incomplete tail
  relies on.
\<close>

lemma split_on_join:
  "ws \<noteq> [] \<Longrightarrow> (\<And>w. w \<in> set ws \<Longrightarrow> d \<notin> set w) \<Longrightarrow> split_on d (join [d] ws) = ws"
  by (induction "[d]" ws rule: join.induct) (auto simp: split_on_line)

lemma split_on_append:
  "split_on d (a @ b) =
     butlast (split_on d a) @ split_on d (last (split_on d a) @ b)"
proof (induction a)
  case (Cons c a)
  obtain w ws where ws: "split_on d a = w # ws"
    by (cases "split_on d a") auto
  show ?case
  proof (cases "ws = []")
    case True
    with ws have "d \<notin> set w"
      using split_on_no_sep [of w d a] by simp
    then show ?thesis using Cons ws True
      by (auto split: list.splits)
  next
    case False
    then show ?thesis using Cons ws by auto
  qed
qed simp

text \<open>The decimal digits of a number, as in a template literal.\<close>

fun show_nat :: "nat \<Rightarrow> string" where
  "show_nat n = (if n < 10 then [char_of (48 + n)] else show_nat (n div 10) @ [char_of (48 + n mod 10)])"

declare show_nat.simps [simp del]

text \<open>The digits of a text read back.\<close>

definition is_digit :: "char \<Rightarrow> bool" where
  "is_digit c = (48 \<le> (of_char c :: nat) \<and> (of_char c :: nat) \<le> 57)"

definition digits_value :: "string \<Rightarrow> nat" where
  "digits_value ds = foldl (\<lambda>n c. 10 * n + (of_char c - 48)) 0 ds"

lemma of_char_digit: "d < 10 \<Longrightarrow> (of_char (char_of (48 + d) :: char) :: nat) = 48 + d"
  by (simp add: of_char_of)

lemma is_digit_show: "list_all is_digit (show_nat n)"
proof (induction n rule: show_nat.induct)
  case (1 n)
  have "n < 10 \<Longrightarrow> is_digit (char_of (48 + n))" "is_digit (char_of (48 + n mod 10))"
    by (simp_all add: is_digit_def of_char_digit)
  with 1 show ?case by (subst show_nat.simps) auto
qed

lemma digits_value_snoc: "digits_value (ds @ [c]) = 10 * digits_value ds + (of_char c - 48)"
  by (simp add: digits_value_def)

lemma digits_value_show: "digits_value (show_nat n) = n"
proof (induction n rule: show_nat.induct)
  case (1 n)
  have single: "digits_value [char_of (48 + d)] = d" if "d < 10" for d
    using that by (simp add: digits_value_def of_char_digit)
  show ?case
  proof (cases "n < 10")
    case True
    then show ?thesis by (subst show_nat.simps) (simp add: single)
  next
    case False
    with 1 show ?thesis
      by (subst show_nat.simps) (simp add: digits_value_snoc of_char_digit)
  qed
qed

lemma digit_chars:
  "char_of (48 :: nat) = CHR ''0''"
  "char_of (49 :: nat) = CHR ''1''"
  "char_of (50 :: nat) = CHR ''2''"
  "char_of (51 :: nat) = CHR ''3''"
  "char_of (52 :: nat) = CHR ''4''"
  "char_of (53 :: nat) = CHR ''5''"
  "char_of (54 :: nat) = CHR ''6''"
  "char_of (55 :: nat) = CHR ''7''"
  "char_of (56 :: nat) = CHR ''8''"
  "char_of (57 :: nat) = CHR ''9''"
  by code_simp+

lemma show_nat_nonempty: "show_nat n \<noteq> []"
  by (subst show_nat.simps) simp

lemma trim_show: "trim (show_nat n) = show_nat n"
proof -
  have no_ws: "\<not> is_ws c" if "c \<in> set (show_nat n)" for c
    using that is_digit_show [of n] by (auto simp: list_all_iff is_digit_def is_ws_def)
  then have "dropWhile is_ws (show_nat n) = show_nat n"
    "dropWhile is_ws (rev (show_nat n)) = rev (show_nat n)"
    by (auto simp: dropWhile_eq_self_iff show_nat_nonempty hd_rev)
  then show ?thesis by (simp add: trim_def)
qed

lemma show_nat_inject [simp]: "show_nat m = show_nat n \<longleftrightarrow> m = n"
  by (metis digits_value_show)

definition show_int :: "int \<Rightarrow> string" where
  "show_int n = (if n < 0 then CHR ''-'' # show_nat (nat (- n)) else show_nat (nat n))"

text \<open>The text of a value in a string context: \<open>String(v)\<close>.\<close>

fun js_text :: "json \<Rightarrow> string" where
  "js_text JNull = ''null''"
| "js_text (JBool b) = (if b then ''true'' else ''false'')"
| "js_text (JNum n) = show_int n"
| "js_text (JString s) = s"
| "js_text (JArray vs) = join '','' (map (\<lambda>v. if v = JNull then [] else js_text v) vs)"
| "js_text (JObject kvs) = ''[object Object]''"

subsection \<open>Arrays\<close>

text \<open>\<open>indexOf\<close>: \<open>None\<close> is the \<open>-1\<close> of JavaScript.\<close>

fun index_of :: "'a \<Rightarrow> 'a list \<Rightarrow> nat option" where
  "index_of x [] = None"
| "index_of x (y # ys) = (if x = y then Some 0 else map_option Suc (index_of x ys))"

lemma index_of_None [js_array]: "index_of x xs = None \<longleftrightarrow> x \<notin> set xs"
  by (induction xs) auto

lemma index_of_append: "index_of x (xs @ x # ys) = Some (length xs) \<longleftrightarrow> x \<notin> set xs"
  by (induction xs) auto

lemma index_of_Some: "index_of x xs = Some i \<Longrightarrow> i < length xs \<and> xs ! i = x"
  by (induction xs arbitrary: i) (auto split: if_splits)

text \<open>A stable sort with a comparison.\<close>

fun insert_by :: "('a \<Rightarrow> 'a \<Rightarrow> bool) \<Rightarrow> 'a \<Rightarrow> 'a list \<Rightarrow> 'a list" where
  "insert_by le x [] = [x]"
| "insert_by le x (y # ys) = (if le x y then x # y # ys else y # insert_by le x ys)"

definition sort_by :: "('a \<Rightarrow> 'a \<Rightarrow> bool) \<Rightarrow> 'a list \<Rightarrow> 'a list" where
  "sort_by le xs = foldr (insert_by le) xs []"

lemma mset_insert_by [simp]: "mset (insert_by le x xs) = add_mset x (mset xs)"
  by (induction xs) auto

lemma mset_sort_by [simp]: "mset (sort_by le xs) = mset xs"
  by (induction xs) (simp_all add: sort_by_def)

lemma set_sort_by [simp]: "set (sort_by le xs) = set xs"
  using mset_sort_by by (metis set_mset_mset)

lemma sorted_insert_by:
  assumes "\<And>x y. le x y \<or> le y x" and "\<And>x y z. le x y \<Longrightarrow> le y z \<Longrightarrow> le x z"
  shows "sorted_wrt le xs \<Longrightarrow> sorted_wrt le (insert_by le x xs)"
proof (induction xs)
  case (Cons y ys)
  have "set (insert_by le x zs) = insert x (set zs)" for zs :: "'a list"
    by (metis mset_insert_by set_mset_add_mset_insert set_mset_mset)
  with Cons assms show ?case by (auto intro: assms(2))
qed simp

lemma sorted_sort_by:
  assumes "\<And>x y. le x y \<or> le y x" and "\<And>x y z. le x y \<Longrightarrow> le y z \<Longrightarrow> le x z"
  shows "sorted_wrt le (sort_by le xs)"
  by (induction xs) (simp_all add: sort_by_def sorted_insert_by [OF assms])

text \<open>
  Grouping by a key in the order of first occurrence: the loop that starts a group when its
  key is new and appends to it otherwise.
\<close>

fun group_add :: "('a \<Rightarrow> 'k) \<Rightarrow> 'a \<Rightarrow> ('k \<times> 'a list) list \<Rightarrow> ('k \<times> 'a list) list" where
  "group_add key x [] = [(key x, [x])]"
| "group_add key x ((k, ys) # gs) =
     (if k = key x then (k, ys @ [x]) # gs else (k, ys) # group_add key x gs)"

definition grouped :: "('a \<Rightarrow> 'k) \<Rightarrow> 'a list \<Rightarrow> ('k \<times> 'a list) list" where
  "grouped key xs = fold (group_add key) xs []"

lemma grouped_snoc: "grouped key (xs @ [x]) = group_add key x (grouped key xs)"
  by (simp add: grouped_def)

lemma grouped_Nil [simp]: "grouped key [] = []"
  by (simp add: grouped_def)

lemma group_add_keys: "set (map fst (group_add key x gs)) = insert (key x) (set (map fst gs))"
  by (induction key x gs rule: group_add.induct) auto

lemma group_add_distinct: "distinct (map fst gs) \<Longrightarrow> distinct (map fst (group_add key x gs))"
proof (induction key x gs rule: group_add.induct)
  case (2 key x k ys gs)
  then show ?case using group_add_keys [of key x gs] by auto
qed simp

lemma group_add_lookup:
  "map_of (group_add key x gs) k =
     (if key x = k then Some ((case map_of gs k of None \<Rightarrow> [] | Some ys \<Rightarrow> ys) @ [x]) else map_of gs k)"
  by (induction key x gs rule: group_add.induct) auto

lemma group_add_mset: "mset (concat (map snd (group_add key x gs))) = add_mset x (mset (concat (map snd gs)))"
  by (induction key x gs rule: group_add.induct) auto

lemma grouped_distinct: "distinct (map fst (grouped key xs))"
  by (induction xs rule: rev_induct) (simp_all add: grouped_snoc group_add_distinct)

lemma grouped_mset: "mset (concat (map snd (grouped key xs))) = mset xs"
  by (induction xs rule: rev_induct) (simp_all only: grouped_snoc group_add_mset, simp_all)

lemma grouped_lookup:
  "map_of (grouped key xs) k =
     (if filter (\<lambda>x. key x = k) xs = [] then None else Some (filter (\<lambda>x. key x = k) xs))"
  by (induction xs rule: rev_induct) (auto simp: grouped_snoc group_add_lookup split: option.split)

lemma grouped_entry:
  "(k, ys) \<in> set (grouped key xs) \<longleftrightarrow> ys = filter (\<lambda>x. key x = k) xs \<and> ys \<noteq> []"
  using map_of_eq_Some_iff [OF grouped_distinct, of key xs k ys] by (auto simp: grouped_lookup split: if_splits)

lemma grouped_keys: "k \<in> fst ` set (grouped key xs) \<longleftrightarrow> k \<in> key ` set xs"
proof -
  have "k \<in> fst ` set (grouped key xs) \<longleftrightarrow> map_of (grouped key xs) k \<noteq> None"
    by (simp add: map_of_eq_None_iff)
  then show ?thesis by (auto simp: grouped_lookup filter_empty_conv split: if_splits)
qed

text \<open>\<open>splice(i, 0, x)\<close>: insert at an index.\<close>

definition splice_in :: "nat \<Rightarrow> 'a \<Rightarrow> 'a list \<Rightarrow> 'a list" where
  "splice_in i x xs = take i xs @ x # drop i xs"

lemma mset_splice_in [simp, js_array]: "mset (splice_in i x xs) = add_mset x (mset xs)"
proof -
  have "mset (take i xs) + mset (drop i xs) = mset xs"
    by (metis append_take_drop_id mset_append)
  then show ?thesis by (simp add: splice_in_def)
qed

lemma set_splice_in [simp, js_array]: "set (splice_in i x xs) = insert x (set xs)"
  by (metis mset_splice_in set_mset_add_mset_insert set_mset_mset)

text \<open>Filtering one element out of a list without duplicates removes exactly that element.\<close>

lemma mset_filter_out [js_array]:
  "distinct xs \<Longrightarrow> x \<in> set xs \<Longrightarrow> add_mset x {#y \<in># mset xs. y \<noteq> x#} = mset xs"
proof (induction xs)
  case (Cons y ys)
  show ?case
  proof (cases "x = y")
    case True
    with Cons.prems have "{#z \<in># mset ys. z \<noteq> x#} = mset ys"
      by (intro filter_mset_eq_conv [THEN iffD2]) auto
    with True show ?thesis by simp
  next
    case False
    with Cons show ?thesis by (simp add: add_mset_commute)
  qed
qed simp

text \<open>Deleting and adding in a \<open>Set\<close>, kept as a list in insertion order.\<close>

definition set_toggle :: "'a \<Rightarrow> 'a list \<Rightarrow> 'a list" where
  "set_toggle x xs = (if x \<in> set xs then filter (\<lambda>y. y \<noteq> x) xs else xs @ [x])"

lemma set_toggle_mem [simp]:
  "y \<in> set (set_toggle x xs) \<longleftrightarrow> (if y = x then y \<notin> set xs else y \<in> set xs)"
  by (auto simp: set_toggle_def)

lemma set_toggle_distinct: "distinct xs \<Longrightarrow> distinct (set_toggle x xs)"
  by (auto simp: set_toggle_def)

text \<open>Equal sets and no duplicates: a permutation.\<close>

lemma mset_eq_of_distinct_set:
  "distinct xs \<Longrightarrow> distinct ys \<Longrightarrow> set xs = set ys \<Longrightarrow> mset xs = mset ys"
  by (simp add: set_eq_iff_mset_eq_distinct)

lemma filter_filter_id: "(\<And>x. x \<in> set xs \<Longrightarrow> P x) \<Longrightarrow> filter P xs = xs"
  by (induction xs) auto

lemma distinct_filter_more:
  "distinct (filter P xs) \<Longrightarrow> distinct (filter (\<lambda>x. Q x \<and> P x) xs)"
  "distinct (filter P xs) \<Longrightarrow> distinct (filter (\<lambda>x. P x \<and> Q x) xs)"
  by (induction xs) (auto split: if_splits)

lemma set_map_filter: "set (List.map_filter f xs) = {y. \<exists>x \<in> set xs. f x = Some y}"
  by (induction xs) (auto simp: List.map_filter_simps split: option.splits)

lemma map_filter_append: "List.map_filter f (xs @ ys) = List.map_filter f xs @ List.map_filter f ys"
  by (simp add: List.map_filter_def)

lemma find_SomeD: "find P xs = Some x \<Longrightarrow> x \<in> set xs \<and> P x"
  by (auto simp: find_Some_iff)

lemma find_split:
  "find P xs = Some x \<Longrightarrow> \<exists>ys zs. xs = ys @ x # zs \<and> P x \<and> list_all (\<lambda>y. \<not> P y) ys"
proof (induction xs)
  case (Cons y xs)
  show ?case
  proof (cases "P y")
    case True
    with Cons.prems show ?thesis by (intro exI [of _ "[]"] exI [of _ xs]) auto
  next
    case False
    with Cons obtain ys zs where "xs = ys @ x # zs" "P x" "list_all (\<lambda>y. \<not> P y) ys" by auto
    with False show ?thesis by (intro exI [of _ "y # ys"] exI [of _ zs]) auto
  qed
qed simp

text \<open>
  The contract of a membership toggle: toggling one key flips that key and no other. The
  sets of hidden columns, hidden sections and expanded rows all meet it.
\<close>

locale toggling =
  fixes toggle :: "'k \<Rightarrow> 's \<Rightarrow> 's"
    and member :: "'k \<Rightarrow> 's \<Rightarrow> bool"
  assumes member_toggle: "member y (toggle x s) \<longleftrightarrow> (if y = x then \<not> member y s else member y s)"
begin

lemma toggle_twice: "member y (toggle x (toggle x s)) \<longleftrightarrow> member y s"
  by (auto simp: member_toggle)

lemma toggle_commute: "member z (toggle x (toggle y s)) \<longleftrightarrow> member z (toggle y (toggle x s))"
  by (auto simp: member_toggle)

lemma toggle_other: "y \<noteq> x \<Longrightarrow> member y (toggle x s) \<longleftrightarrow> member y s"
  by (simp add: member_toggle)

text \<open>After any sequence of clicks only the parity of the clicks on a key counts.\<close>

lemma toggle_fold:
  "member y (fold toggle xs s) \<longleftrightarrow> (member y s \<longleftrightarrow> even (count_list xs y))"
  by (induction xs arbitrary: s) (auto simp: member_toggle)

end

interpretation list_toggle: toggling "set_toggle" "\<lambda>x xs. x \<in> set xs"
  by unfold_locales simp

end
