(* ===== verification/Browser.thy ===== *)
theory Browser
  imports Prelude
begin

text \<open>
  Web storage as the code sees it. \<open>localStorage\<close> and \<open>sessionStorage\<close> hold, under one
  key, nothing, an empty text, a text that \<open>JSON.parse\<close> rejects, or the text of a JSON
  value; a value written with \<open>JSON.stringify\<close> is read back as the same JSON value.
  Access can be disabled altogether (private mode: every call raises), and a write can
  raise because the quota is exceeded.
\<close>

datatype stored = EmptyText | Malformed | Json json

datatype storage_error = SecurityError | QuotaExceeded

datatype storage =
    Disabled
  | Storage (quota_exceeded: bool) (item: "stored option")

fun getItem :: "storage \<Rightarrow> storage_error + stored option" where
  "getItem Disabled = Inl SecurityError"
| "getItem (Storage q c) = Inr c"

fun setItem :: "stored \<Rightarrow> storage \<Rightarrow> storage_error + storage" where
  "setItem v Disabled = Inl SecurityError"
| "setItem v (Storage q c) = (if q then Inl QuotaExceeded else Inr (Storage q (Some v)))"

fun removeItem :: "storage \<Rightarrow> storage_error + storage" where
  "removeItem Disabled = Inl SecurityError"
| "removeItem (Storage q c) = Inr (Storage q None)"

text \<open>A storage call inside \<open>try {...} catch {}\<close>: on an exception nothing has changed.\<close>

fun attempt :: "storage_error + storage \<Rightarrow> storage \<Rightarrow> storage" where
  "attempt (Inl e) s = s"
| "attempt (Inr s') s = s'"

definition writable :: "storage \<Rightarrow> bool" where
  "writable s = (case s of Disabled \<Rightarrow> False | Storage q c \<Rightarrow> \<not> q)"

lemma writable_simps [simp]:
  "writable Disabled = False" "writable (Storage q c) = (\<not> q)"
  by (simp_all add: writable_def)

lemma writable_attempt_set [simp]: "writable (attempt (setItem v s) s) = writable s"
  by (cases s) auto

lemma writable_attempt_remove [simp]: "writable (attempt (removeItem s) s) = writable s"
  by (cases s) auto

lemma getItem_attempt_set: "writable s \<Longrightarrow> getItem (attempt (setItem v s) s) = Inr (Some v)"
  by (cases s) auto

lemma getItem_attempt_remove: "writable s \<Longrightarrow> getItem (attempt (removeItem s) s) = Inr None"
  by (cases s) auto

end
