(* ===== verification/Stored_Order.thy ===== *)
theory Stored_Order
  imports Browser
begin

text \<open>
  The contract of a reconciled order. The sidebar (\<^verbatim>\<open>lib/useNavOrder.ts\<close>) and the
  dashboard (\<^verbatim>\<open>lib/useDashboardLayout.ts\<close>) both keep a user's arrangement of a set
  of known ids and reconcile what they find in storage with the ids of the running
  version: dropped ids go, new ids are added, the others keep their places. The locale
  states what both promise; the lemmas proved from it are what the pages rely on.
\<close>

text \<open>The loop that both hooks share: keep what is known, add what is not placed.\<close>

definition keep_known :: "'a list \<Rightarrow> 'a list \<Rightarrow> 'a list" where
  "keep_known ids xs = filter (\<lambda>x. x \<in> set ids) xs"

lemma set_keep_known [simp]: "set (keep_known ids xs) = set xs \<inter> set ids"
  by (auto simp: keep_known_def)

lemma distinct_keep_known [simp]: "distinct xs \<Longrightarrow> distinct (keep_known ids xs)"
  by (simp add: keep_known_def)

lemma keep_known_id [simp]: "set xs \<subseteq> set ids \<Longrightarrow> keep_known ids xs = xs"
  by (auto simp: keep_known_def intro: filter_filter_id)

lemma subseq_keep_known: "subseq (keep_known ids xs) xs"
  by (simp add: keep_known_def)

locale reconciler =
  fixes recon :: "'s option \<Rightarrow> 'a list \<Rightarrow> 's"
    and items :: "'s \<Rightarrow> 'a list"
  assumes items_set: "set (items (recon st ids)) = set ids"
    and fresh_distinct: "distinct ids \<Longrightarrow> distinct (items (recon None ids))"
    and stored_distinct:
      "distinct ids \<Longrightarrow> distinct (items s) \<Longrightarrow> distinct (items (recon (Some s) ids))"
    and stable: "recon (Some (recon st ids)) ids = recon st ids"
begin

definition arranged :: "'a list \<Rightarrow> 's \<Rightarrow> bool" where
  "arranged ids s = (set (items s) = set ids \<and> distinct (items s))"

lemma arranged_mset: "arranged ids s \<Longrightarrow> distinct ids \<Longrightarrow> mset (items s) = mset ids"
  unfolding arranged_def by (intro mset_eq_of_distinct_set) auto

lemma arranged_length: "arranged ids s \<Longrightarrow> distinct ids \<Longrightarrow> length (items s) = length ids"
  by (drule (1) arranged_mset) (rule mset_eq_length)

lemma arranged_fresh: "distinct ids \<Longrightarrow> arranged ids (recon None ids)"
  by (simp add: arranged_def items_set fresh_distinct)

lemma arranged_recon: "distinct ids \<Longrightarrow> distinct (items s) \<Longrightarrow> arranged ids (recon (Some s) ids)"
  by (simp add: arranged_def items_set stored_distinct)

text \<open>An upgrade that adds and removes ids still arranges exactly the new ids.\<close>

lemma arranged_upgrade:
  "arranged ids s \<Longrightarrow> distinct ids' \<Longrightarrow> arranged ids' (recon (Some s) ids')"
  by (simp add: arranged_def items_set stored_distinct)

text \<open>Reloading any number of times changes nothing after the first.\<close>

lemma reload_stable: "((\<lambda>s. recon (Some s) ids) ^^ n) (recon st ids) = recon st ids"
  by (induction n) (simp_all add: stable)

text \<open>An operation that permutes the items keeps the arrangement.\<close>

lemma arranged_permute: "arranged ids s \<Longrightarrow> mset (items s') = mset (items s) \<Longrightarrow> arranged ids s'"
  unfolding arranged_def using mset_eq_imp_distinct_iff mset_eq_setD by blast

end

end
