(* ===== verification/Nav_Order.thy ===== *)
theory Nav_Order
  imports Stored_Order
begin

text \<open>
  The order of the sidebar entries: the hook \<^verbatim>\<open>lib/useNavOrder.ts\<close> and the drag
  and drop handlers of \<^verbatim>\<open>components/AdminSidebar.tsx\<close>. \<open>arrayMove\<close> is a function of
  the package \<^verbatim>\<open>@dnd-kit/sortable\<close> and a parameter here.
\<close>

record nav_order =
  mainIds :: "string list"
  pinnedIds :: "string list"

text \<open>The loop over \<open>allIds\<close>; \<open>placed\<close> is the set built before it and is not updated.\<close>

fun place_new :: "string list \<Rightarrow> string set \<Rightarrow> string list \<Rightarrow> string list \<times> string list
    \<Rightarrow> string list \<times> string list" where
  "place_new dp placed [] (main, pinned) = (main, pinned)"
| "place_new dp placed (i # is) (main, pinned) =
     (if i \<in> placed then place_new dp placed is (main, pinned)
      else if i \<in> set dp then place_new dp placed is (main, pinned @ [i])
      else place_new dp placed is (main @ [i], pinned))"

definition reconcile_nav :: "nav_order option \<Rightarrow> string list \<Rightarrow> string list \<Rightarrow> nav_order" where
  "reconcile_nav stored allIds defaultPinnedIds =
     (case stored of
        None \<Rightarrow>
          \<lparr>mainIds = filter (\<lambda>i. i \<notin> set defaultPinnedIds) allIds,
           pinnedIds = filter (\<lambda>i. i \<in> set allIds) defaultPinnedIds\<rparr>
      | Some s \<Rightarrow>
          (let main = keep_known allIds (mainIds s);
               pinned = keep_known allIds (pinnedIds s);
               (m, p) = place_new defaultPinnedIds (set main \<union> set pinned) allIds (main, pinned)
           in \<lparr>mainIds = m, pinnedIds = p\<rparr>))"

text \<open>
  \<open>readStored\<close>. The stored arrays are not checked element by element; an element that is
  not a string is dropped here and in the code by the \<open>allSet.has(id)\<close> filters of
  \<open>reconcile\<close>, which is applied to the result at once.
\<close>

definition json_strings :: "json list \<Rightarrow> string list" where
  "json_strings xs = concat (map (\<lambda>j. case j of JString s \<Rightarrow> [s] | _ \<Rightarrow> []) xs)"

lemma json_strings_map [simp]: "json_strings (map JString xs) = xs"
  by (induction xs) (auto simp: json_strings_def)

definition readStored_nav :: "bool \<Rightarrow> storage \<Rightarrow> nav_order option" where
  "readStored_nav window s =
     (if \<not> window then None
      else (case getItem s of
          Inr (Some (Json parsed)) \<Rightarrow>
            (case (json_array (json_get parsed ''mainIds''),
                   json_array (json_get parsed ''pinnedIds'')) of
               (Some m, Some p) \<Rightarrow>
                 Some \<lparr>mainIds = json_strings m, pinnedIds = json_strings p\<rparr>
             | _ \<Rightarrow> None)
        | _ \<Rightarrow> None))"

definition nav_json :: "nav_order \<Rightarrow> json" where
  "nav_json ord = JObject [(''mainIds'', JArray (map JString (mainIds ord))),
                           (''pinnedIds'', JArray (map JString (pinnedIds ord)))]"

text \<open>
  The hook: its state is the order and the storage it is written to. The persisting effect
  runs after the first render and after every change of \<open>order\<close>, so also after
  \<open>resetOrder\<close> has removed the stored item.
\<close>

record nav_hook =
  nav_ord :: nav_order
  nav_store :: storage

definition persist_nav :: "bool \<Rightarrow> nav_hook \<Rightarrow> nav_hook" where
  "persist_nav window h =
     (if \<not> window then h
      else h\<lparr>nav_store := attempt (setItem (Json (nav_json (nav_ord h))) (nav_store h)) (nav_store h)\<rparr>)"

definition useNavOrder :: "bool \<Rightarrow> storage \<Rightarrow> string list \<Rightarrow> string list \<Rightarrow> nav_hook" where
  "useNavOrder window s allIds dp =
     persist_nav window \<lparr>nav_ord = reconcile_nav (readStored_nav window s) allIds dp, nav_store = s\<rparr>"

definition setOrder :: "bool \<Rightarrow> (nav_order \<Rightarrow> nav_order) \<Rightarrow> nav_hook \<Rightarrow> nav_hook" where
  "setOrder window f h = persist_nav window (h\<lparr>nav_ord := f (nav_ord h)\<rparr>)"

definition resetOrder :: "bool \<Rightarrow> string list \<Rightarrow> string list \<Rightarrow> nav_hook \<Rightarrow> nav_hook" where
  "resetOrder window allIds dp h =
     persist_nav window
       \<lparr>nav_ord = reconcile_nav None allIds dp,
        nav_store = (if window then attempt (removeItem (nav_store h)) (nav_store h)
                     else nav_store h)\<rparr>"

subsection \<open>Drag and drop\<close>

datatype container = Main | Pinned

definition findContainerForItem :: "nav_order \<Rightarrow> string \<Rightarrow> container option" where
  "findContainerForItem order itemId =
     (if itemId \<in> set (mainIds order) then Some Main
      else if itemId \<in> set (pinnedIds order) then Some Pinned
      else None)"

definition resolveContainer :: "nav_order \<Rightarrow> string \<Rightarrow> container option" where
  "resolveContainer order i =
     (case findContainerForItem order i of
        Some c \<Rightarrow> Some c
      | None \<Rightarrow> (if i = ''droppable-main'' then Some Main
                 else if i = ''droppable-pinned'' then Some Pinned
                 else None))"

fun ids_of :: "container \<Rightarrow> nav_order \<Rightarrow> string list" where
  "ids_of Main ord = mainIds ord"
| "ids_of Pinned ord = pinnedIds ord"

fun set_ids :: "container \<Rightarrow> string list \<Rightarrow> nav_order \<Rightarrow> nav_order" where
  "set_ids Main xs ord = ord\<lparr>mainIds := xs\<rparr>"
| "set_ids Pinned xs ord = ord\<lparr>pinnedIds := xs\<rparr>"

text \<open>
  \<open>handleDragOver\<close> reads the containers from the order of the last render (\<open>order\<close>) and
  updates the current one (\<open>prev\<close>); \<open>over\<close> is \<open>None\<close> when the pointer is over nothing.
\<close>

definition handleDragOver :: "nav_order \<Rightarrow> string \<Rightarrow> string option \<Rightarrow> nav_order \<Rightarrow> nav_order" where
  "handleDragOver order aId over prev =
     (case over of None \<Rightarrow> prev
      | Some oId \<Rightarrow>
         (case (findContainerForItem order aId, resolveContainer order oId) of
            (Some from, Some to) \<Rightarrow>
              (if from = to then prev
               else
                 let fromList = filter (\<lambda>i. i \<noteq> aId) (ids_of from prev);
                     toList = ids_of to prev;
                     at = (case index_of oId toList of Some i \<Rightarrow> i | None \<Rightarrow> length toList);
                     toList' = splice_in at aId toList
                 in \<lparr>mainIds = (if from = Main then fromList else toList'),
                     pinnedIds = (if from = Pinned then fromList else toList')\<rparr>)
          | _ \<Rightarrow> prev))"

definition handleDragEnd ::
  "(string list \<Rightarrow> nat \<Rightarrow> nat \<Rightarrow> string list) \<Rightarrow> nav_order \<Rightarrow> string \<Rightarrow> string option \<Rightarrow> nav_order \<Rightarrow> nav_order" where
  "handleDragEnd arrayMove order aId over prev =
     (case over of None \<Rightarrow> prev
      | Some oId \<Rightarrow>
         (if aId = oId then prev
          else (case findContainerForItem order aId of None \<Rightarrow> prev
            | Some c \<Rightarrow>
               (if findContainerForItem order oId \<noteq> Some c then prev
                else (let xs = ids_of c prev in
                  case (index_of aId xs, index_of oId xs) of
                    (Some i, Some j) \<Rightarrow> set_ids c (arrayMove xs i j) prev
                  | _ \<Rightarrow> prev)))))"

subsection \<open>What reconciliation and dragging keep\<close>

lemma place_new_fst: "fst (place_new dp pl is (m, p)) = m @ filter (\<lambda>i. i \<notin> pl \<and> i \<notin> set dp) is"
  by (induction dp pl "is" "(m, p)" arbitrary: m p rule: place_new.induct) auto

lemma place_new_snd: "snd (place_new dp pl is (m, p)) = p @ filter (\<lambda>i. i \<notin> pl \<and> i \<in> set dp) is"
  by (induction dp pl "is" "(m, p)" arbitrary: m p rule: place_new.induct) auto

lemma reconcile_nav_Some:
  "reconcile_nav (Some s) ids dp =
    (let m = keep_known ids (mainIds s); p = keep_known ids (pinnedIds s);
         new = filter (\<lambda>i. i \<notin> set m \<union> set p) ids
     in \<lparr>mainIds = m @ filter (\<lambda>i. i \<notin> set dp) new,
         pinnedIds = p @ filter (\<lambda>i. i \<in> set dp) new\<rparr>)"
  by (simp add: reconcile_nav_def Let_def split_beta place_new_fst place_new_snd conj_commute conj_left_commute)

definition nav_items :: "nav_order \<Rightarrow> string list" where
  "nav_items ord = mainIds ord @ pinnedIds ord"

lemma reconcile_nav_set: "set (nav_items (reconcile_nav st ids dp)) = set ids"
proof (cases st)
  case None
  then show ?thesis by (auto simp: reconcile_nav_def nav_items_def)
next
  case (Some s)
  then show ?thesis by (auto simp: reconcile_nav_Some nav_items_def Let_def)
qed

lemma reconcile_nav_distinct:
  "distinct ids \<Longrightarrow> distinct (nav_items s) \<Longrightarrow> distinct (nav_items (reconcile_nav (Some s) ids dp))"
  by (auto simp: reconcile_nav_Some nav_items_def Let_def)

lemma reconcile_nav_fresh_distinct:
  "distinct dp \<Longrightarrow> distinct ids \<Longrightarrow> distinct (nav_items (reconcile_nav None ids dp))"
  by (auto simp: reconcile_nav_def nav_items_def)

text \<open>Nothing to drop and nothing to add: the stored order is taken as it is.\<close>

lemma reconcile_nav_id:
  assumes "set (nav_items s) = set ids"
  shows "reconcile_nav (Some s) ids dp = s"
proof -
  obtain m p where s: "s = \<lparr>mainIds = m, pinnedIds = p\<rparr>"
    by (cases s)
  with assms have "keep_known ids m = m" "keep_known ids p = p"
    by (auto simp: nav_items_def intro!: keep_known_id)
  moreover have "filter (\<lambda>i. i \<notin> set m \<union> set p) ids = []"
    using assms s by (auto simp: nav_items_def filter_empty_conv)
  ultimately show ?thesis
    by (auto simp: reconcile_nav_Some s Let_def filter_empty_conv)
qed

lemma reconcile_nav_stable:
  "reconcile_nav (Some (reconcile_nav st ids dp)) ids dp = reconcile_nav st ids dp"
  by (rule reconcile_nav_id) (rule reconcile_nav_set)

lemma nav_ord_persist [simp]: "nav_ord (persist_nav w h) = nav_ord h"
  by (simp add: persist_nav_def)

lemma readStored_persisted:
  "writable (nav_store h) \<Longrightarrow> readStored_nav True (nav_store (persist_nav True h)) = Some (nav_ord h)"
  by (simp add: readStored_nav_def persist_nav_def getItem_attempt_set nav_json_def)


lemma drag_over_mset:
  assumes "distinct (nav_items ord)"
  shows "mset (nav_items (handleDragOver ord a ov ord)) = mset (nav_items ord)"
proof -
  from assms have d: "distinct (mainIds ord)" "distinct (pinnedIds ord)"
    by (simp_all add: nav_items_def)
  show ?thesis
  proof (cases "handleDragOver ord a ov ord = ord")
    case False
    then obtain oId f t where *: "ov = Some oId" "findContainerForItem ord a = Some f"
        "resolveContainer ord oId = Some t" "f \<noteq> t"
      by (auto simp: handleDragOver_def split: option.splits if_splits)
    then have "a \<in> set (ids_of f ord)"
      by (auto simp: findContainerForItem_def split: if_splits)
    with * d show ?thesis
      by (cases f; cases t) (simp_all add: handleDragOver_def nav_items_def mset_filter_out Let_def flip: add_mset_add_single)
  qed simp
qed

lemma drag_end_mset:
  assumes mv: "\<And>xs i j. i < length xs \<Longrightarrow> j < length xs \<Longrightarrow> mset (mv xs i j) = mset xs"
  shows "mset (nav_items (handleDragEnd mv ord a ov prev)) = mset (nav_items prev)"
proof -
  have "mset (nav_items (set_ids c (mv (ids_of c prev) i j) prev)) = mset (nav_items prev)"
    if "index_of a (ids_of c prev) = Some i" "index_of b (ids_of c prev) = Some j" for c b i j
  proof -
    have "mset (mv (ids_of c prev) i j) = mset (ids_of c prev)"
      using that [THEN index_of_Some] by (intro mv) auto
    then show ?thesis by (cases c) (simp_all add: nav_items_def)
  qed
  then show ?thesis
    by (auto simp: handleDragEnd_def Let_def split: option.splits)
qed

text \<open>A session of pointer events over the sidebar, each seen by a freshly rendered list.\<close>

datatype nav_event =
    DragOver string "string option"
  | DragEnd string "string option"
  | Reset

fun nav_step :: "(string list \<Rightarrow> nat \<Rightarrow> nat \<Rightarrow> string list) \<Rightarrow> string list \<Rightarrow> string list
    \<Rightarrow> nav_event \<Rightarrow> nav_order \<Rightarrow> nav_order" where
  "nav_step mv ids dp (DragOver a ov) ord = handleDragOver ord a ov ord"
| "nav_step mv ids dp (DragEnd a ov) ord = handleDragEnd mv ord a ov ord"
| "nav_step mv ids dp Reset ord = reconcile_nav None ids dp"

text \<open>\<^verbatim>\<open>DEFAULT_PINNED_IDS\<close> of \<^verbatim>\<open>lib/adminConstants.tsx\<close>.\<close>

definition DEFAULT_PINNED_IDS :: "string list" where
  "DEFAULT_PINNED_IDS = [''settings'']"

interpretation nav: reconciler
  "\<lambda>st ids. reconcile_nav st ids DEFAULT_PINNED_IDS" nav_items
  by unfold_locales
    (simp_all add: reconcile_nav_set reconcile_nav_distinct reconcile_nav_fresh_distinct
      reconcile_nav_stable DEFAULT_PINNED_IDS_def)

lemma nav_step_arranged:
  assumes "\<And>xs i j. i < length xs \<Longrightarrow> j < length xs \<Longrightarrow> mset (mv xs i j) = mset xs"
    and "distinct ids" and "nav.arranged ids ord"
  shows "nav.arranged ids (nav_step mv ids DEFAULT_PINNED_IDS e ord)"
proof (cases e)
  case (DragOver a ov)
  have "distinct (nav_items ord)"
    using assms(3) by (simp add: nav.arranged_def)
  then show ?thesis
    unfolding DragOver nav_step.simps
    by (intro nav.arranged_permute [OF assms(3)] drag_over_mset)
next
  case (DragEnd a ov)
  show ?thesis
    unfolding DragEnd nav_step.simps
    by (intro nav.arranged_permute [OF assms(3)] drag_end_mset assms(1))
next
  case Reset
  with assms show ?thesis by (simp add: nav.arranged_fresh)
qed

subsection \<open>Properties\<close>

text \<open>
  Reconciling whatever order is in storage, or none, with the navigation entries of the
  running version places every entry of that version and no other, and the entries that the
  stored order had in a section stay in front of it in the stored order.
\<close>

theorem nav_reconcile_complete:
  "set (nav_items (reconcile_nav st ids dp)) = set ids
   \<and> (case st of None \<Rightarrow> True
      | Some s \<Rightarrow> prefix (keep_known ids (mainIds s)) (mainIds (reconcile_nav st ids dp))
               \<and> prefix (keep_known ids (pinnedIds s)) (pinnedIds (reconcile_nav st ids dp)))"
  by (simp add: reconcile_nav_set reconcile_nav_Some Let_def split: option.split)

text \<open>
  C26: whatever the user drags, drops or resets, and in whatever order, the two sections of the
  sidebar together stay a rearrangement of the navigation entries without duplicates, given
  that the library's \<open>arrayMove\<close> returns a permutation of its array.
\<close>

theorem nav_session_arranged:
  assumes mv: "\<And>xs i j. i < length xs \<Longrightarrow> j < length xs \<Longrightarrow> mset (mv xs i j) = mset xs"
    and ids: "distinct ids"
    and start: "distinct (nav_items s)"
  shows "mset (nav_items (fold (nav_step mv ids DEFAULT_PINNED_IDS) es
            (reconcile_nav (Some s) ids DEFAULT_PINNED_IDS))) = mset ids"
proof -
  have "nav.arranged ids (fold (nav_step mv ids DEFAULT_PINNED_IDS) es ord)"
    if "nav.arranged ids ord" for ord
    using that
  proof (induction es arbitrary: ord)
    case (Cons e es)
    show ?case
      using Cons.IH [OF nav_step_arranged [OF mv ids Cons.prems]] by simp
  qed simp
  then show ?thesis
    by (intro nav.arranged_mset ids) (simp add: nav.arranged_recon ids start)
qed

definition array_move :: "'a list \<Rightarrow> nat \<Rightarrow> nat \<Rightarrow> 'a list" where
  "array_move xs i j = splice_in j (xs ! i) (take i xs @ drop (Suc i) xs)"

lemma mset_array_move: "i < length xs \<Longrightarrow> mset (array_move xs i j) = mset xs"
proof -
  assume "i < length xs"
  then have "mset xs = mset (take i xs @ xs ! i # drop (Suc i) xs)"
    using id_take_nth_drop by metis
  then show ?thesis by (simp add: array_move_def)
qed

lemma nav_session_arranged_witness:
  "mset (nav_items (fold (nav_step array_move [''a'', ''b'', ''settings''] DEFAULT_PINNED_IDS)
      [DragOver ''a'' (Some ''settings''), DragEnd ''a'' (Some ''settings'')]
      (reconcile_nav (Some \<lparr>mainIds = [''b''], pinnedIds = [''gone'']\<rparr>)
         [''a'', ''b'', ''settings''] DEFAULT_PINNED_IDS)))
   = mset [''a'', ''b'', ''settings'']"
  by (rule nav_session_arranged) (simp_all add: mset_array_move nav_items_def)

text \<open>
  An order the user has set survives a reload: mounting the hook on the storage that
  \<open>setOrder\<close> left, with the same entries, starts from exactly that order, and mounting it
  again changes nothing.
\<close>

theorem nav_reload_roundtrip:
  assumes "writable (nav_store h)" and "set (nav_items (f (nav_ord h))) = set ids"
  shows "nav_ord (useNavOrder True (nav_store (setOrder True f h)) ids dp) = f (nav_ord h)"
  using assms
  by (simp add: useNavOrder_def setOrder_def readStored_persisted reconcile_nav_id)

lemma nav_reload_roundtrip_witness:
  "nav_ord (useNavOrder True (nav_store (setOrder True (\<lambda>_. \<lparr>mainIds = [''b''], pinnedIds = [''a'']\<rparr>)
      \<lparr>nav_ord = \<lparr>mainIds = [''a''], pinnedIds = [''b'']\<rparr>, nav_store = Storage False None\<rparr>))
      [''a'', ''b''] [])
   = \<lparr>mainIds = [''b''], pinnedIds = [''a'']\<rparr>"
  by (subst nav_reload_roundtrip) (auto simp: nav_items_def)

end
