(* ===== verification/Dashboard_Layout.thy ===== *)
theory Dashboard_Layout
  imports Nav_Order
begin

text \<open>
  The dashboard sections: order and visibility, \<^verbatim>\<open>lib/useDashboardLayout.ts\<close>. The
  section ids are an enumeration in the display order of the code; the stored arrays are
  read as strings and an unknown string is dropped, as the \<open>allSet.has\<close> filters do.
\<close>

datatype SectionId =
    gauges | node_fleet | stat_cards | grafana | dependency_health
  | module_status | data_residency | top_containers | quick_links

definition DASHBOARD_SECTIONS :: "SectionId list" where
  "DASHBOARD_SECTIONS =
     [gauges, node_fleet, stat_cards, grafana, dependency_health, module_status,
      data_residency, top_containers, quick_links]"

fun section_name :: "SectionId \<Rightarrow> string" where
  "section_name gauges = ''gauges''"
| "section_name node_fleet = ''node_fleet''"
| "section_name stat_cards = ''stat_cards''"
| "section_name grafana = ''grafana''"
| "section_name dependency_health = ''dependency_health''"
| "section_name module_status = ''module_status''"
| "section_name data_residency = ''data_residency''"
| "section_name top_containers = ''top_containers''"
| "section_name quick_links = ''quick_links''"

definition section_of :: "string \<Rightarrow> SectionId option" where
  "section_of s = find (\<lambda>i. section_name i = s) DASHBOARD_SECTIONS"

definition sections_of :: "json list \<Rightarrow> SectionId list" where
  "sections_of xs = concat (map (\<lambda>s. case section_of s of Some i \<Rightarrow> [i] | None \<Rightarrow> []) (json_strings xs))"

record dashboard_layout =
  order :: "SectionId list"
  hidden :: "SectionId list"

definition reconcile_dashboard :: "dashboard_layout option \<Rightarrow> SectionId list \<Rightarrow> dashboard_layout" where
  "reconcile_dashboard stored allIds =
     (case stored of
        None \<Rightarrow> \<lparr>order = allIds, hidden = []\<rparr>
      | Some s \<Rightarrow>
          (let kept = keep_known allIds (order s);
               new = filter (\<lambda>i. i \<notin> set kept) allIds
           in \<lparr>order = kept @ new, hidden = keep_known allIds (hidden s)\<rparr>))"

definition readStored_dashboard :: "bool \<Rightarrow> storage \<Rightarrow> dashboard_layout option" where
  "readStored_dashboard window s =
     (if \<not> window then None
      else (case getItem s of
          Inr (Some (Json parsed)) \<Rightarrow>
            (case (json_array (json_get parsed ''order''), json_array (json_get parsed ''hidden'')) of
               (Some m, Some p) \<Rightarrow> Some \<lparr>order = sections_of m, hidden = sections_of p\<rparr>
             | _ \<Rightarrow> None)
        | _ \<Rightarrow> None))"

definition dashboard_json :: "dashboard_layout \<Rightarrow> json" where
  "dashboard_json l =
     JObject [(''order'', JArray (map (JString \<circ> section_name) (order l))),
              (''hidden'', JArray (map (JString \<circ> section_name) (hidden l)))]"

record dashboard_hook =
  layout :: dashboard_layout
  layout_store :: storage

definition persist_layout :: "bool \<Rightarrow> dashboard_hook \<Rightarrow> dashboard_hook" where
  "persist_layout window h =
     (if \<not> window then h
      else h\<lparr>layout_store :=
               attempt (setItem (Json (dashboard_json (layout h))) (layout_store h)) (layout_store h)\<rparr>)"

definition useDashboardLayout :: "bool \<Rightarrow> storage \<Rightarrow> dashboard_hook" where
  "useDashboardLayout window s =
     persist_layout window
       \<lparr>layout = reconcile_dashboard (readStored_dashboard window s) DASHBOARD_SECTIONS,
        layout_store = s\<rparr>"

text \<open>
  \<open>reorder\<close> gets ids from the drag and drop library as plain strings, which need not name
  a section.
\<close>

definition reorder ::
  "(SectionId list \<Rightarrow> nat \<Rightarrow> nat \<Rightarrow> SectionId list) \<Rightarrow> string \<Rightarrow> string
     \<Rightarrow> dashboard_layout \<Rightarrow> dashboard_layout" where
  "reorder arrayMove activeId overId prev =
     (case (index_of activeId (map section_name (order prev)),
            index_of overId (map section_name (order prev))) of
        (Some oldIndex, Some newIndex) \<Rightarrow> prev\<lparr>order := arrayMove (order prev) oldIndex newIndex\<rparr>
      | _ \<Rightarrow> prev)"

definition toggleVisibility :: "SectionId \<Rightarrow> dashboard_layout \<Rightarrow> dashboard_layout" where
  "toggleVisibility sectionId prev =
     prev\<lparr>hidden := (if sectionId \<in> set (hidden prev)
                     then filter (\<lambda>i. i \<noteq> sectionId) (hidden prev)
                     else hidden prev @ [sectionId])\<rparr>"

definition update_layout ::
  "bool \<Rightarrow> (dashboard_layout \<Rightarrow> dashboard_layout) \<Rightarrow> dashboard_hook \<Rightarrow> dashboard_hook" where
  "update_layout window f h = persist_layout window (h\<lparr>layout := f (layout h)\<rparr>)"

definition resetLayout :: "bool \<Rightarrow> dashboard_hook \<Rightarrow> dashboard_hook" where
  "resetLayout window h =
     persist_layout window
       \<lparr>layout = reconcile_dashboard None DASHBOARD_SECTIONS,
        layout_store = (if window then attempt (removeItem (layout_store h)) (layout_store h)
                        else layout_store h)\<rparr>"

subsection \<open>Lemmas\<close>

lemma section_of_name [simp]: "section_of (section_name i) = Some i"
  by (cases i) (simp_all add: section_of_def DASHBOARD_SECTIONS_def)

lemma sections_of_names [simp]: "sections_of (map (JString \<circ> section_name) xs) = xs"
proof -
  have "json_strings (map (JString \<circ> section_name) xs) = map section_name xs"
    by (metis json_strings_map map_map)
  then show ?thesis by (induction xs) (simp_all add: sections_of_def comp_def json_strings_def)
qed

lemma set_DASHBOARD_SECTIONS [simp]: "set DASHBOARD_SECTIONS = UNIV"
  using SectionId.exhaust by (auto simp: DASHBOARD_SECTIONS_def)

lemma distinct_DASHBOARD_SECTIONS [simp]: "distinct DASHBOARD_SECTIONS"
  by (simp add: DASHBOARD_SECTIONS_def)

lemma layout_persist [simp]: "layout (persist_layout w h) = layout h"
  by (simp add: persist_layout_def)

lemma readStored_layout:
  "writable (layout_store h) \<Longrightarrow>
     readStored_dashboard True (layout_store (persist_layout True h)) = Some (layout h)"
  by (simp add: readStored_dashboard_def persist_layout_def getItem_attempt_set dashboard_json_def)

lemma reconcile_dashboard_id:
  "set (order s) = set ids \<Longrightarrow> set (hidden s) \<subseteq> set ids \<Longrightarrow> reconcile_dashboard (Some s) ids = s"
  by (cases s) (simp add: reconcile_dashboard_def Let_def filter_empty_conv)

lemma reconcile_dashboard_hidden: "set (hidden (reconcile_dashboard st ids)) \<subseteq> set ids"
  by (auto simp: reconcile_dashboard_def Let_def split: option.split)

lemma reconcile_dashboard_set: "set (order (reconcile_dashboard st ids)) = set ids"
  by (auto simp: reconcile_dashboard_def Let_def split: option.split)

interpretation dash: reconciler reconcile_dashboard order
proof
  fix st and ids :: "SectionId list"
  show "set (order (reconcile_dashboard st ids)) = set ids"
    by (rule reconcile_dashboard_set)
  show "reconcile_dashboard (Some (reconcile_dashboard st ids)) ids = reconcile_dashboard st ids"
    by (intro reconcile_dashboard_id reconcile_dashboard_set reconcile_dashboard_hidden)
qed (auto simp: reconcile_dashboard_def Let_def)

interpretation dash_hidden: toggling toggleVisibility "\<lambda>i l. i \<in> set (hidden l)"
  by unfold_locales (auto simp: toggleVisibility_def)

lemma order_toggle [simp]: "order (toggleVisibility i l) = order l"
  by (simp add: toggleVisibility_def)

lemma hidden_reorder [simp]: "hidden (reorder mv a b l) = hidden l"
  by (simp add: reorder_def split: option.split)

lemma mset_reorder:
  assumes "\<And>xs i j. i < length xs \<Longrightarrow> j < length xs \<Longrightarrow> mset (mv xs i j) = mset xs"
  shows "mset (order (reorder mv a b l)) = mset (order l)"
  using assms by (auto simp: reorder_def split: option.split dest!: index_of_Some)

subsection \<open>Properties\<close>

datatype dash_event = Reorder string string | Toggle SectionId | ResetLayout

fun dash_step :: "(SectionId list \<Rightarrow> nat \<Rightarrow> nat \<Rightarrow> SectionId list) \<Rightarrow> dash_event
    \<Rightarrow> dashboard_hook \<Rightarrow> dashboard_hook" where
  "dash_step mv (Reorder a b) h = update_layout True (reorder mv a b) h"
| "dash_step mv (Toggle i) h = update_layout True (toggleVisibility i) h"
| "dash_step mv ResetLayout h = resetLayout True h"

lemma dash_step_arranged:
  assumes "\<And>xs i j. i < length xs \<Longrightarrow> j < length xs \<Longrightarrow> mset (mv xs i j) = mset xs"
    and "dash.arranged DASHBOARD_SECTIONS (layout h)"
  shows "dash.arranged DASHBOARD_SECTIONS (layout (dash_step mv e h))"
  using assms(2)
  by (cases e)
    (auto simp: update_layout_def resetLayout_def dash.arranged_fresh
      intro!: dash.arranged_permute [OF assms(2)] mset_reorder [OF assms(1)])

lemma dash_step_writable: "writable (layout_store (dash_step mv e h)) = writable (layout_store h)"
  by (cases e) (simp_all add: update_layout_def resetLayout_def persist_layout_def)

lemma dash_step_stored:
  "writable (layout_store h) \<Longrightarrow>
     readStored_dashboard True (layout_store (dash_step mv e h)) = Some (layout (dash_step mv e h))"
  by (cases e) (simp_all add: update_layout_def resetLayout_def readStored_layout)

text \<open>
  C24: after any sequence of drags, visibility toggles and resets the dashboard still shows a
  rearrangement of all its sections, and mounting it again on the storage those steps left
  shows the same layout, order and hidden sections alike (\<open>arrayMove\<close> permuting its array).
\<close>

theorem dashboard_session_roundtrip:
  assumes mv: "\<And>xs i j. i < length xs \<Longrightarrow> j < length xs \<Longrightarrow> mset (mv xs i j) = mset xs"
    and start: "dash.arranged DASHBOARD_SECTIONS (layout h)"
    and w: "writable (layout_store h)" and ne: "es \<noteq> []"
    and h': "h' = fold (dash_step mv) es h"
  shows "mset (order (layout h')) = mset DASHBOARD_SECTIONS
       \<and> layout (useDashboardLayout True (layout_store h')) = layout h'"
proof -
  have inv: "dash.arranged DASHBOARD_SECTIONS (layout (fold (dash_step mv) es g))
        \<and> writable (layout_store (fold (dash_step mv) es g))"
    if "dash.arranged DASHBOARD_SECTIONS (layout g)" "writable (layout_store g)" for g es
    using that
  proof (induction es arbitrary: g)
    case (Cons e es)
    show ?case
      using Cons.IH [OF dash_step_arranged [OF mv Cons.prems(1)]] Cons.prems(2)
      by (simp add: dash_step_writable)
  qed simp
  obtain es' e where es: "es = es' @ [e]" using ne by (metis rev_exhaust)
  have arr: "dash.arranged DASHBOARD_SECTIONS (layout h')"
    unfolding h' using inv [OF start w] by blast
  have "readStored_dashboard True (layout_store h') = Some (layout h')"
    unfolding h' es using inv [OF start w, of es'] by (simp add: dash_step_stored)
  then have "layout (useDashboardLayout True (layout_store h')) = layout h'"
    using arr
    by (simp add: useDashboardLayout_def dash.arranged_def reconcile_dashboard_id)
  then show ?thesis using dash.arranged_mset [OF arr] by simp
qed

definition dash_demo :: dashboard_hook where
  "dash_demo = fold (dash_step array_move) [Toggle grafana, Reorder ''gauges'' ''quick_links'']
                 (useDashboardLayout True (Storage False None))"

lemma dashboard_session_roundtrip_witness:
  "mset (order (layout dash_demo)) = mset DASHBOARD_SECTIONS
   \<and> layout (useDashboardLayout True (layout_store dash_demo)) = layout dash_demo"
  by (rule dashboard_session_roundtrip [OF _ _ _ _ dash_demo_def])
    (simp_all add: mset_array_move useDashboardLayout_def dash.arranged_def
      reconcile_dashboard_set readStored_dashboard_def reconcile_dashboard_def persist_layout_def)

text \<open>
  Only the parity of the clicks counts: after any clicks on visibility toggles a section is
  hidden exactly when it was hidden before and clicked an even number of times, or was shown
  and clicked an odd number of times; the order never changes.
\<close>

theorem dashboard_toggle_parity:
  "(i \<in> set (hidden (fold toggleVisibility cs l))) = (i \<in> set (hidden l) \<longleftrightarrow> even (count_list cs i))
   \<and> order (fold toggleVisibility cs l) = order l"
proof -
  have "order (fold toggleVisibility cs l) = order l"
    by (induction cs arbitrary: l) simp_all
  then show ?thesis using dash_hidden.toggle_fold by simp
qed

end
