(* ===== verification/Vllm_Registry.thy ===== *)
theory Vllm_Registry
  imports Prelude Complex_Main
begin

text \<open>
  The catalogue of vLLM engine arguments, \<^verbatim>\<open>lib/vllm/types.ts\<close> and
  \<^verbatim>\<open>lib/vllm/registry.ts\<close>: the categories, the argument definitions with every
  field the code gives them, and the version filter. JavaScript numbers are rationals here:
  the catalogue holds decimal literals, which are only compared. Text is UTF-8, so a
  typographic dash is three bytes.
\<close>

datatype arg_type = TString | TNumber | TBoolean | TEnum

datatype arg_value = VStr string | VNum rat | VBool bool

record engine_arg_def =
  a_flag :: string
  a_type :: arg_type
  a_category :: string
  a_description :: string
  a_default :: "arg_value option"
  a_choices :: "string list option"
  a_minVersion :: "string option"
  a_maxVersion :: "string option"
  a_step :: "rat option"
  a_min :: "rat option"
  a_max :: "rat option"

text \<open>A definition with none of the optional fields.\<close>

definition engine_arg :: "string \<Rightarrow> arg_type \<Rightarrow> string \<Rightarrow> string \<Rightarrow> engine_arg_def" where
  "engine_arg f t c d =
     \<lparr>a_flag = f, a_type = t, a_category = c, a_description = d, a_default = None,
      a_choices = None, a_minVersion = None, a_maxVersion = None, a_step = None,
      a_min = None, a_max = None\<rparr>"

record vllm_category =
  c_id :: string
  c_label :: string

definition VLLM_CATEGORIES :: "vllm_category list" where
  "VLLM_CATEGORIES =
    [\<lparr>c_id = ''model'', c_label = ''Model & Tokenizer''\<rparr>,
     \<lparr>c_id = ''compute'', c_label = ''Memory & Compute''\<rparr>,
     \<lparr>c_id = ''parallel'', c_label = ''Parallelism''\<rparr>,
     \<lparr>c_id = ''scheduling'', c_label = ''Scheduling''\<rparr>,
     \<lparr>c_id = ''quantization'', c_label = ''Quantization''\<rparr>,
     \<lparr>c_id = ''lora'', c_label = ''LoRA Adapters''\<rparr>,
     \<lparr>c_id = ''tool_calling'', c_label = ''Tool & Function Calling''\<rparr>,
     \<lparr>c_id = ''serving'', c_label = ''Serving & Output''\<rparr>,
     \<lparr>c_id = ''advanced'', c_label = ''Advanced''\<rparr>]"

subsection \<open>The argument definitions, one list per section of the file\<close>

definition args_model :: "engine_arg_def list" where
  "args_model =
    [(engine_arg ''task'' TEnum ''model''
       ''The task to use the model for. Each vLLM instance only supports one task.'')
       \<lparr>a_default := Some (VStr ''auto''), a_choices := Some
       [''auto'', ''generate'', ''embedding'', ''embed'', ''classify'', ''score'', ''reward'',
        ''transcription'']\<rparr>,
     (engine_arg ''trust-remote-code'' TBoolean ''model''
       ''Trust remote code from HuggingFace. Required for some models (e.g. Jina, Qwen).'')
       \<lparr>a_default := Some (VBool False)\<rparr>,
     (engine_arg ''tokenizer-mode'' TEnum ''model''
       ([CHR 0x22] @ ''auto'' @ [CHR 0x22] @ '' uses the fast tokenizer if available; '' @ [CHR 0x22] @ ''slow'' @ [CHR 0x22] @ '' always uses the slow tokenizer; '' @ [CHR 0x22] @ ''custom'' @ [CHR 0x22] @ '' uses a preregistered tokenizer.''))
       \<lparr>a_default := Some (VStr ''auto''), a_choices := Some
       [''auto'', ''slow'', ''mistral'', ''custom'']\<rparr>,
     (engine_arg ''revision'' TString ''model''
       ''Model version to use (branch name, tag, or commit id). Defaults to the latest.''),
     (engine_arg ''load-format'' TEnum ''model''
       (''Format of the model weights to load. '' @ [CHR 0x22] @ ''auto'' @ [CHR 0x22] @ '' tries safetensors, then pytorch.''))
       \<lparr>a_default := Some (VStr ''auto''), a_choices := Some
       [''auto'', ''pt'', ''safetensors'', ''npcache'', ''dummy'', ''tensorizer'',
        ''sharded_state'', ''gguf'', ''bitsandbytes'', ''mistral'', ''runai_streamer'']\<rparr>,
     (engine_arg ''config-format'' TEnum ''model''
       ''Format of the model config to load.'')
       \<lparr>a_default := Some (VStr ''auto''), a_choices := Some
       [''auto'', ''hf'', ''mistral'']\<rparr>]"

definition args_compute :: "engine_arg_def list" where
  "args_compute =
    [(engine_arg ''dtype'' TEnum ''compute''
       (''Data type for weights and activations. '' @ [CHR 0x22] @ ''auto'' @ [CHR 0x22] @ '' uses FP16 for FP32/FP16 models and BF16 for BF16 models.''))
       \<lparr>a_default := Some (VStr ''auto''), a_choices := Some
       [''auto'', ''half'', ''float16'', ''bfloat16'', ''float'', ''float32'']\<rparr>,
     (engine_arg ''kv-cache-dtype'' TEnum ''compute''
       (''KV cache data type. '' @ [CHR 0x22] @ ''auto'' @ [CHR 0x22] @ '' uses the model data type. CUDA 11.8+ supports fp8.''))
       \<lparr>a_default := Some (VStr ''auto''), a_choices := Some
       [''auto'', ''fp8'', ''fp8_e5m2'', ''fp8_e4m3'']\<rparr>,
     (engine_arg ''max-model-len'' TNumber ''compute''
       ''Model context length. If unspecified, derived from the model config automatically.'')
       \<lparr>a_min := Some (1), a_step := Some (256)\<rparr>,
     (engine_arg ''gpu-memory-utilization'' TNumber ''compute''
       (''Fraction of GPU memory for the model executor (0.0'' @ [CHR 0xE2, CHR 0x80, CHR 0x93] @ ''1.0). Per-instance limit.''))
       \<lparr>a_default := Some (VNum (9 / 10)), a_min := Some (1 / 20), a_max := Some (1), a_step := Some (1 / 20)\<rparr>,
     (engine_arg ''swap-space'' TNumber ''compute''
       ''CPU swap space size (GiB) per GPU.'')
       \<lparr>a_default := Some (VNum (4)), a_min := Some (0), a_step := Some (1)\<rparr>,
     (engine_arg ''cpu-offload-gb'' TNumber ''compute''
       ''Space in GiB to offload to CPU per GPU. Virtually increases GPU memory. Requires fast CPU-GPU interconnect.'')
       \<lparr>a_default := Some (VNum (0)), a_min := Some (0), a_step := Some (1)\<rparr>,
     (engine_arg ''enforce-eager'' TBoolean ''compute''
       ''Always use eager-mode PyTorch. Required for GPUs with compute capability < 8.0 (Turing, Volta).'')
       \<lparr>a_default := Some (VBool False)\<rparr>,
     (engine_arg ''max-seq-len-to-capture'' TNumber ''compute''
       ''Maximum sequence length covered by CUDA graphs. Longer sequences fall back to eager mode.'')
       \<lparr>a_default := Some (VNum (8192)), a_min := Some (1), a_step := Some (256)\<rparr>,
     (engine_arg ''enable-prefix-caching'' TBoolean ''compute''
       ''Enable automatic prefix caching for repeated prompt prefixes.'')
       \<lparr>a_default := Some (VBool False)\<rparr>,
     (engine_arg ''block-size'' TEnum ''compute''
       ''Token block size for contiguous chunks. On CUDA, only up to 32 is supported.'')
       \<lparr>a_choices := Some
       [''8'', ''16'', ''32'', ''64'', ''128'']\<rparr>]"

definition args_parallel :: "engine_arg_def list" where
  "args_parallel =
    [(engine_arg ''tensor-parallel-size'' TNumber ''parallel''
       ''Number of tensor parallel replicas. Set to the number of GPUs to use.'')
       \<lparr>a_default := Some (VNum (1)), a_min := Some (1), a_step := Some (1)\<rparr>,
     (engine_arg ''pipeline-parallel-size'' TNumber ''parallel''
       ''Number of pipeline stages.'')
       \<lparr>a_default := Some (VNum (1)), a_min := Some (1), a_step := Some (1)\<rparr>,
     (engine_arg ''distributed-executor-backend'' TEnum ''parallel''
       (''Backend for distributed model workers. '' @ [CHR 0x22] @ ''mp'' @ [CHR 0x22] @ '' for single host, '' @ [CHR 0x22] @ ''ray'' @ [CHR 0x22] @ '' for multi-node.''))
       \<lparr>a_choices := Some
       [''ray'', ''mp'', ''uni'', ''external_launcher'']\<rparr>,
     (engine_arg ''max-parallel-loading-workers'' TNumber ''parallel''
       ''Load model sequentially in multiple batches to avoid RAM OOM with tensor parallel.'')
       \<lparr>a_min := Some (1), a_step := Some (1)\<rparr>]"

definition args_scheduling :: "engine_arg_def list" where
  "args_scheduling =
    [(engine_arg ''max-num-batched-tokens'' TNumber ''scheduling''
       ''Maximum number of batched tokens per iteration.'')
       \<lparr>a_min := Some (1), a_step := Some (64)\<rparr>,
     (engine_arg ''max-num-seqs'' TNumber ''scheduling''
       ''Maximum number of sequences per iteration.'')
       \<lparr>a_min := Some (1), a_step := Some (1)\<rparr>,
     (engine_arg ''num-scheduler-steps'' TNumber ''scheduling''
       ''Maximum number of forward steps per scheduler call.'')
       \<lparr>a_default := Some (VNum (1)), a_min := Some (1), a_step := Some (1)\<rparr>,
     (engine_arg ''scheduler-delay-factor'' TNumber ''scheduling''
       ''Delay factor multiplied by previous prompt latency before scheduling next prompt.'')
       \<lparr>a_default := Some (VNum (0)), a_min := Some (0), a_step := Some (1 / 10)\<rparr>,
     (engine_arg ''enable-chunked-prefill'' TBoolean ''scheduling''
       ''Allow prefill requests to be chunked based on max_num_batched_tokens.'')
       \<lparr>a_default := Some (VBool False)\<rparr>,
     (engine_arg ''scheduling-policy'' TEnum ''scheduling''
       ([CHR 0x22] @ ''fcfs'' @ [CHR 0x22] @ '' = first come first served; '' @ [CHR 0x22] @ ''priority'' @ [CHR 0x22] @ '' = requests handled by given priority.''))
       \<lparr>a_default := Some (VStr ''fcfs''), a_choices := Some
       [''fcfs'', ''priority'']\<rparr>]"

definition args_quantization :: "engine_arg_def list" where
  "args_quantization =
    [(engine_arg ''quantization'' TEnum ''quantization''
       ''Method used to quantize weights. Auto-detected from model config if not set.'')
       \<lparr>a_choices := Some
       [''aqlm'', ''awq'', ''deepspeedfp'', ''tpu_int8'', ''fp8'', ''ptpc_fp8'',
        ''fbgemm_fp8'', ''modelopt'', ''marlin'', ''gguf'', ''gptq_marlin_24'',
        ''gptq_marlin'', ''awq_marlin'', ''gptq'', ''compressed-tensors'', ''bitsandbytes'',
        ''qqq'', ''hqq'', ''experts_int8'', ''neuron_quant'', ''ipex'', ''quark'', ''moe_wna16'']\<rparr>,
     (engine_arg ''rope-scaling'' TString ''quantization''
       (''RoPE scaling configuration in JSON format. e.g. {'' @ [CHR 0x22] @ ''rope_type'' @ [CHR 0x22] @ '':'' @ [CHR 0x22] @ ''dynamic'' @ [CHR 0x22] @ '','' @ [CHR 0x22] @ ''factor'' @ [CHR 0x22] @ '':2.0}'')),
     (engine_arg ''rope-theta'' TNumber ''quantization''
       ''RoPE theta value. Use with rope-scaling to improve performance of scaled models.'')
       \<lparr>a_min := Some (0), a_step := Some (1000)\<rparr>]"

definition args_lora :: "engine_arg_def list" where
  "args_lora =
    [(engine_arg ''enable-lora'' TBoolean ''lora''
       ''Enable handling of LoRA adapters.'')
       \<lparr>a_default := Some (VBool False)\<rparr>,
     (engine_arg ''max-loras'' TNumber ''lora''
       ''Max number of LoRAs in a single batch.'')
       \<lparr>a_default := Some (VNum (1)), a_min := Some (1), a_step := Some (1)\<rparr>,
     (engine_arg ''max-lora-rank'' TNumber ''lora''
       ''Max LoRA rank.'')
       \<lparr>a_default := Some (VNum (16)), a_min := Some (1), a_step := Some (8)\<rparr>,
     (engine_arg ''lora-extra-vocab-size'' TNumber ''lora''
       ''Maximum extra vocabulary size that can be present in a LoRA adapter.'')
       \<lparr>a_default := Some (VNum (256)), a_min := Some (0), a_step := Some (64)\<rparr>,
     (engine_arg ''lora-dtype'' TEnum ''lora''
       ''Data type for LoRA. If auto, defaults to base model dtype.'')
       \<lparr>a_default := Some (VStr ''auto''), a_choices := Some
       [''auto'', ''float16'', ''bfloat16'']\<rparr>]"

definition args_tool_calling :: "engine_arg_def list" where
  "args_tool_calling =
    [(engine_arg ''enable-auto-tool-choice'' TBoolean ''tool_calling''
       ''Enable the model to generate its own tool calls when it deems appropriate. Required for automatic function calling.'')
       \<lparr>a_default := Some (VBool True)\<rparr>,
     (engine_arg ''tool-call-parser'' TEnum ''tool_calling''
       (''Select the tool-call output parser matching your model family. Determines how the model'' @ [CHR 0x27] @ ''s raw output is parsed into structured tool calls.''))
       \<lparr>a_default := Some (VStr ''openai''), a_choices := Some
       [''hermes'', ''mistral'', ''llama3_json'', ''llama4_pythonic'', ''pythonic'',
        ''internlm'', ''jamba'', ''xlam'', ''granite'', ''granite4'', ''granite-20b-fc'',
        ''minimax'', ''deepseek_v3'', ''deepseek_v31'', ''openai'', ''kimi_k2'',
        ''hunyuan_a13b'', ''longcat'', ''glm45'', ''glm47'', ''functiongemma'', ''qwen3_xml'',
        ''olmo3'', ''gigachat3'']\<rparr>,
     (engine_arg ''chat-template'' TString ''tool_calling''
       (''Path or HuggingFace identifier for a Jinja chat template that handles tool-role messages. Required for some models (Llama, Mistral, xLAM). Use '' @ [CHR 0x27] @ ''tool_use'' @ [CHR 0x27] @ '' to select the model'' @ [CHR 0x27] @ ''s built-in tool template.''))]"

definition args_serving :: "engine_arg_def list" where
  "args_serving =
    [(engine_arg ''device'' TEnum ''serving''
       ''Device type for vLLM execution.'')
       \<lparr>a_default := Some (VStr ''auto''), a_choices := Some
       [''auto'', ''cuda'', ''neuron'', ''cpu'', ''openvino'', ''tpu'', ''xpu'', ''hpu'']\<rparr>,
     (engine_arg ''served-model-name'' TString ''serving''
       ''Model name(s) used in the API. If not specified, the model name from --model is used.''),
     (engine_arg ''guided-decoding-backend'' TEnum ''serving''
       ''Engine for guided decoding (JSON schema / regex). Can be overridden per request.'')
       \<lparr>a_default := Some (VStr ''xgrammar''), a_choices := Some
       [''outlines'', ''lm-format-enforcer'', ''xgrammar'']\<rparr>,
     (engine_arg ''disable-log-stats'' TBoolean ''serving''
       ''Disable logging statistics.'')
       \<lparr>a_default := Some (VBool False)\<rparr>,
     (engine_arg ''disable-log-requests'' TBoolean ''serving''
       ''Disable logging individual requests.'')
       \<lparr>a_default := Some (VBool False)\<rparr>,
     (engine_arg ''seed'' TNumber ''serving''
       ''Random seed for operations.'')
       \<lparr>a_default := Some (VNum (0)), a_min := Some (0), a_step := Some (1)\<rparr>]"

definition args_advanced :: "engine_arg_def list" where
  "args_advanced =
    [(engine_arg ''compilation-config'' TString ''advanced''
       ''torch.compile optimisation level (0-3) or full JSON config. Level 3 recommended for production.''),
     (engine_arg ''hf-overrides'' TString ''advanced''
       ''Extra arguments for the HuggingFace config, as a JSON string.''),
     (engine_arg ''preemption-mode'' TEnum ''advanced''
       ([CHR 0x22] @ ''recompute'' @ [CHR 0x22] @ '' preempts by recomputing; '' @ [CHR 0x22] @ ''swap'' @ [CHR 0x22] @ '' preempts by block swapping.''))
       \<lparr>a_choices := Some
       [''recompute'', ''swap'']\<rparr>,
     (engine_arg ''model-impl'' TEnum ''advanced''
       (''Model implementation to use. '' @ [CHR 0x22] @ ''auto'' @ [CHR 0x22] @ '' prefers vLLM, falls back to Transformers.''))
       \<lparr>a_default := Some (VStr ''auto''), a_choices := Some
       [''auto'', ''vllm'', ''transformers''], a_minVersion := Some ''0.7.0''\<rparr>,
     (engine_arg ''enable-sleep-mode'' TBoolean ''advanced''
       ''Enable sleep mode for the engine (CUDA only).'')
       \<lparr>a_default := Some (VBool False), a_minVersion := Some ''0.7.0''\<rparr>,
     (engine_arg ''override-pooler-config'' TString ''advanced''
       (''Override pooling method for pooling models. JSON, e.g. {'' @ [CHR 0x22] @ ''pooling_type'' @ [CHR 0x22] @ '':'' @ [CHR 0x22] @ ''mean'' @ [CHR 0x22] @ '','' @ [CHR 0x22] @ ''normalize'' @ [CHR 0x22] @ '':false}.''))]"

definition VLLM_ENGINE_ARGS :: "engine_arg_def list" where
  "VLLM_ENGINE_ARGS = args_model @ args_compute @ args_parallel @ args_scheduling @ args_quantization @ args_lora @ args_tool_calling @ args_serving @ args_advanced"

subsection \<open>Versions\<close>

text \<open>
  \<open>Number\<close> on a version component: a sequence of digits is its value, the empty text is
  0, and anything else is taken for not-a-number (\<open>None\<close>). Signs, exponents, hexadecimal
  and padded components, which \<open>Number\<close> would also read, do not occur in version texts.
\<close>

definition is_digit :: "char \<Rightarrow> bool" where
  "is_digit c = (c \<in> set ''0123456789'')"

fun digits_value :: "int \<Rightarrow> string \<Rightarrow> int" where
  "digits_value n [] = n"
| "digits_value n (c # cs) = digits_value (10 * n + (of_char c - 48)) cs"

definition js_Number :: "string \<Rightarrow> int option" where
  "js_Number s = (if list_all is_digit s then Some (digits_value 0 s) else None)"

text \<open>
  The loop of \<open>compareVersions\<close> over two component lists; a missing component is 0, and
  not-a-number differs from everything and makes the difference not-a-number.
\<close>

definition cmp_component :: "int option \<Rightarrow> int option \<Rightarrow> int option \<Rightarrow> int option" where
  "cmp_component va vb rest =
     (case (va, vb) of
        (Some x, Some y) \<Rightarrow> (if x \<noteq> y then Some (x - y) else rest)
      | _ \<Rightarrow> None)"

fun cmp_components :: "int option list \<Rightarrow> int option list \<Rightarrow> int option" where
  "cmp_components [] [] = Some 0"
| "cmp_components (a # as) [] = cmp_component a (Some 0) (cmp_components as [])"
| "cmp_components [] (b # bs) = cmp_component (Some 0) b (cmp_components [] bs)"
| "cmp_components (a # as) (b # bs) = cmp_component a b (cmp_components as bs)"

definition compareVersions :: "string \<Rightarrow> string \<Rightarrow> int option" where
  "compareVersions a b =
     cmp_components (map js_Number (split_on CHR ''.'' a)) (map js_Number (split_on CHR ''.'' b))"

text \<open>A comparison with not-a-number is false.\<close>

definition js_neg :: "int option \<Rightarrow> bool" where
  "js_neg d = (case d of None \<Rightarrow> False | Some n \<Rightarrow> n < 0)"

definition js_pos :: "int option \<Rightarrow> bool" where
  "js_pos d = (case d of None \<Rightarrow> False | Some n \<Rightarrow> n > 0)"

definition arg_supported :: "string \<Rightarrow> engine_arg_def \<Rightarrow> bool" where
  "arg_supported version a =
     (if truthy (a_minVersion a) \<and> js_neg (compareVersions version (the (a_minVersion a))) then False
      else if truthy (a_maxVersion a) \<and> js_pos (compareVersions version (the (a_maxVersion a))) then False
      else True)"

definition filterArgsByVersion :: "engine_arg_def list \<Rightarrow> string \<Rightarrow> engine_arg_def list" where
  "filterArgsByVersion args version = filter (arg_supported version) args"

subsection \<open>Comparing versions is a total preorder\<close>

definition valid_version :: "string \<Rightarrow> bool" where
  "valid_version v = list_all (list_all is_digit) (split_on CHR ''.'' v)"

definition components :: "string \<Rightarrow> int list" where
  "components v = map (digits_value 0) (split_on CHR ''.'' v)"

fun cmp_ints :: "int list \<Rightarrow> int list \<Rightarrow> int" where
  "cmp_ints [] [] = 0"
| "cmp_ints (a # as) [] = (if a \<noteq> 0 then a else cmp_ints as [])"
| "cmp_ints [] (b # bs) = (if b \<noteq> 0 then - b else cmp_ints [] bs)"
| "cmp_ints (a # as) (b # bs) = (if a \<noteq> b then a - b else cmp_ints as bs)"

lemma cmp_components_ints:
  "cmp_components (map Some xs) (map Some ys) = Some (cmp_ints xs ys)"
  by (induction xs ys rule: cmp_ints.induct) (auto simp: cmp_component_def)

lemma map_js_Number:
  "valid_version v \<Longrightarrow> map js_Number (split_on CHR ''.'' v) = map Some (components v)"
  by (simp add: valid_version_def components_def js_Number_def list_all_iff)

lemma compareVersions_valid:
  "valid_version a \<Longrightarrow> valid_version b \<Longrightarrow>
     compareVersions a b = Some (cmp_ints (components a) (components b))"
  by (simp add: compareVersions_def map_js_Number cmp_components_ints)

lemma cmp_ints_refl [simp]: "cmp_ints xs xs = 0"
  by (induction xs) auto

lemma cmp_ints_flip: "cmp_ints xs ys = - cmp_ints ys xs"
  by (induction xs ys rule: cmp_ints.induct) auto

lemma cmp_ints_trans: "cmp_ints xs ys \<le> 0 \<Longrightarrow> cmp_ints ys zs \<le> 0 \<Longrightarrow> cmp_ints xs zs \<le> 0"
proof (induction xs ys arbitrary: zs rule: cmp_ints.induct)
  case 1
  then show ?case by simp
next
  case (2 a as)
  then show ?case by (cases zs) (auto split: if_splits)
next
  case (3 b bs)
  then show ?case by (cases zs) (auto split: if_splits)
next
  case (4 a as b bs)
  then show ?case by (cases zs) (auto split: if_splits)
qed

subsection \<open>Properties\<close>

text \<open>What a definition of each type must carry for its input control.\<close>

definition arg_ok :: "engine_arg_def \<Rightarrow> bool" where
  "arg_ok a =
     (a_category a \<in> set (map c_id VLLM_CATEGORIES) \<and>
      (case a_type a of
         TEnum \<Rightarrow> (case a_choices a of None \<Rightarrow> False
                 | Some cs \<Rightarrow> distinct cs \<and> (case a_default a of
                     None \<Rightarrow> True | Some (VStr d) \<Rightarrow> d \<in> set cs | _ \<Rightarrow> False))
       | TBoolean \<Rightarrow> (case a_default a of Some (VBool b) \<Rightarrow> True | _ \<Rightarrow> False)
       | TNumber \<Rightarrow> (case a_default a of None \<Rightarrow> True
                   | Some (VNum n) \<Rightarrow>
                       (case a_min a of None \<Rightarrow> True | Some lo \<Rightarrow> lo \<le> n)
                       \<and> (case a_max a of None \<Rightarrow> True | Some hi \<Rightarrow> n \<le> hi)
                   | _ \<Rightarrow> False)
       | TString \<Rightarrow> (case a_default a of None \<Rightarrow> True | Some (VStr d) \<Rightarrow> d \<noteq> [] | _ \<Rightarrow> False)))"

lemma registry_flags_distinct: "distinct (map a_flag VLLM_ENGINE_ARGS)"
  by code_simp

lemma registry_args_ok: "list_all arg_ok VLLM_ENGINE_ARGS"
  by code_simp

text \<open>
  The catalogue is well formed: no flag is defined twice, every definition sits in a
  declared category, an enumeration lists distinct choices and its default is one of them, a
  boolean has a boolean default and a numeric default lies within its bounds.
\<close>

theorem registry_well_formed:
  "distinct (map a_flag VLLM_ENGINE_ARGS) \<and> list_all arg_ok VLLM_ENGINE_ARGS"
  by (simp only: registry_flags_distinct registry_args_ok)

definition versions_ok :: "engine_arg_def \<Rightarrow> bool" where
  "versions_ok a = (a_maxVersion a = None
     \<and> (case a_minVersion a of None \<Rightarrow> True | Some v \<Rightarrow> v \<noteq> [] \<and> valid_version v))"

lemma registry_versions_ok: "list_all versions_ok VLLM_ENGINE_ARGS"
  by code_simp

lemma arg_supported_mono:
  assumes "versions_ok a" "valid_version v" "valid_version w"
    and "\<not> js_pos (compareVersions v w)" and "arg_supported v a"
  shows "arg_supported w a"
proof (cases "a_minVersion a")
  case None
  with assms(1) show ?thesis by (simp add: arg_supported_def versions_ok_def)
next
  case (Some m)
  with assms(1) have m: "valid_version m" "m \<noteq> []" "a_maxVersion a = None"
    by (simp_all add: versions_ok_def)
  have "cmp_ints (components m) (components v) \<le> 0"
    using assms(2,5) Some m cmp_ints_flip [of "components m" "components v"]
    by (simp add: arg_supported_def js_neg_def compareVersions_valid split: if_splits)
  moreover have "cmp_ints (components v) (components w) \<le> 0"
    using assms(2-4) by (simp add: js_pos_def compareVersions_valid)
  ultimately have "cmp_ints (components m) (components w) \<le> 0"
    by (rule cmp_ints_trans)
  then show ?thesis
    using assms(3) Some m cmp_ints_flip [of "components m" "components w"]
    by (simp add: arg_supported_def js_neg_def compareVersions_valid)
qed

text \<open>
  Moving to a newer vLLM never hides an argument of the catalogue: for versions of digits
  and dots, if \<open>compareVersions\<close> does not put \<open>v\<close> after \<open>w\<close>, every argument offered for
  \<open>v\<close> is offered for \<open>w\<close>.
\<close>

theorem newer_version_keeps_args:
  assumes "valid_version v" "valid_version w" and "\<not> js_pos (compareVersions v w)"
  shows "set (filterArgsByVersion VLLM_ENGINE_ARGS v) \<subseteq> set (filterArgsByVersion VLLM_ENGINE_ARGS w)"
proof
  fix a assume a: "a \<in> set (filterArgsByVersion VLLM_ENGINE_ARGS v)"
  then have "versions_ok a"
    using registry_versions_ok by (auto simp: filterArgsByVersion_def list_all_iff)
  with a show "a \<in> set (filterArgsByVersion VLLM_ENGINE_ARGS w)"
    by (auto simp: filterArgsByVersion_def intro: arg_supported_mono [OF _ assms])
qed

lemma newer_version_keeps_args_witness:
  "set (filterArgsByVersion VLLM_ENGINE_ARGS ''0.6.6'') \<subseteq> set (filterArgsByVersion VLLM_ENGINE_ARGS ''0.7.3'')"
proof (rule newer_version_keeps_args)
  show "valid_version ''0.6.6''" by code_simp
  show "valid_version ''0.7.3''" by code_simp
  show "\<not> js_pos (compareVersions ''0.6.6'' ''0.7.3'')" by code_simp
qed

text \<open>
  On versions of digits and dots \<open>compareVersions\<close> is a total preorder: it always gives a
  number, swapping the arguments negates it, a version compares equal to itself, and
  "not after" is transitive.
\<close>

theorem compareVersions_preorder:
  assumes "valid_version a" "valid_version b" "valid_version c"
  shows "compareVersions a a = Some 0
    \<and> (\<exists>n. compareVersions a b = Some n \<and> compareVersions b a = Some (- n))
    \<and> (\<not> js_pos (compareVersions a b) \<and> \<not> js_pos (compareVersions b c)
        \<longrightarrow> \<not> js_pos (compareVersions a c))"
  using assms cmp_ints_flip [of "components a" "components b"]
    cmp_ints_trans [of "components a" "components b" "components c"]
  by (simp add: compareVersions_valid js_pos_def not_less)

lemma compareVersions_preorder_witness:
  "compareVersions ''0.7'' ''0.7'' = Some 0 \<and> \<not> js_pos (compareVersions ''0.7'' ''0.10'')"
proof -
  have v: "valid_version ''0.7''" "valid_version ''0.7.0''" "valid_version ''0.10''"
    by code_simp+
  have "\<not> js_pos (compareVersions ''0.7'' ''0.7.0'')" "\<not> js_pos (compareVersions ''0.7.0'' ''0.10'')"
    by code_simp+
  with compareVersions_preorder [OF v] show ?thesis by blast
qed

end
