(* ===== verification/Vllm_Recipes.thy ===== *)
theory Vllm_Recipes
  imports Vllm_Registry
begin

text \<open>
  The built-in recipes and their suggestion, \<^verbatim>\<open>lib/vllm/recipes.ts\<close>. The model
  patterns are JavaScript regular expressions; the constructs they use (alternatives,
  sequences, literal characters, \<open>.*\<close>, the flag \<open>i\<close>) are a datatype here, with the language
  they denote and a derivative matcher that \<open>RegExp.test\<close> is modelled by.
\<close>

subsection \<open>Regular expressions\<close>

datatype regex =
    Empty
  | Eps
  | Chr char
  | Dot
  | Seq regex regex
  | Alt regex regex
  | Many regex

text \<open>With the flag \<open>i\<close> characters are compared without case; \<open>Dot\<close> matches no line end.\<close>

definition char_eq :: "char \<Rightarrow> char \<Rightarrow> bool" where
  "char_eq c d = (lower_char c = lower_char d)"

definition dot_char :: "char \<Rightarrow> bool" where
  "dot_char c = (c \<noteq> CHR 0x0A \<and> c \<noteq> CHR 0x0D)"

inductive matches :: "regex \<Rightarrow> string \<Rightarrow> bool" where
  Eps: "matches Eps []"
| Chr: "char_eq c d \<Longrightarrow> matches (Chr c) [d]"
| Dot: "dot_char c \<Longrightarrow> matches Dot [c]"
| Seq: "matches r u \<Longrightarrow> matches s v \<Longrightarrow> matches (Seq r s) (u @ v)"
| AltL: "matches r u \<Longrightarrow> matches (Alt r s) u"
| AltR: "matches s u \<Longrightarrow> matches (Alt r s) u"
| Many0: "matches (Many r) []"
| ManyS: "matches r (c # u) \<Longrightarrow> matches (Many r) v \<Longrightarrow> matches (Many r) (c # u @ v)"

inductive_simps matches_simps [simp]:
  "matches Empty u" "matches Eps u" "matches (Chr c) u" "matches Dot u" "matches (Alt r s) u"
inductive_simps matches_Seq_iff: "matches (Seq r s) u"
inductive_simps matches_Many_Nil [simp]: "matches (Many r) []"
inductive_simps matches_Many_Cons: "matches (Many r) (c # w)"

fun nullable :: "regex \<Rightarrow> bool" where
  "nullable Empty = False"
| "nullable Eps = True"
| "nullable (Chr c) = False"
| "nullable Dot = False"
| "nullable (Seq r s) = (nullable r \<and> nullable s)"
| "nullable (Alt r s) = (nullable r \<or> nullable s)"
| "nullable (Many r) = True"

fun deriv :: "char \<Rightarrow> regex \<Rightarrow> regex" where
  "deriv c Empty = Empty"
| "deriv c Eps = Empty"
| "deriv c (Chr d) = (if char_eq d c then Eps else Empty)"
| "deriv c Dot = (if dot_char c then Eps else Empty)"
| "deriv c (Seq r s) =
     (if nullable r then Alt (Seq (deriv c r) s) (deriv c s) else Seq (deriv c r) s)"
| "deriv c (Alt r s) = Alt (deriv c r) (deriv c s)"
| "deriv c (Many r) = Seq (deriv c r) (Many r)"

fun match_here :: "regex \<Rightarrow> string \<Rightarrow> bool" where
  "match_here r [] = nullable r"
| "match_here r (c # s) = (nullable r \<or> match_here (deriv c r) s)"

text \<open>\<open>RegExp.test\<close>: a match anywhere in the text.\<close>

fun regex_test :: "regex \<Rightarrow> string \<Rightarrow> bool" where
  "regex_test r [] = match_here r []"
| "regex_test r (c # s) = (match_here r (c # s) \<or> regex_test r s)"

lemma nullable_matches: "nullable r \<longleftrightarrow> matches r []"
  by (induction r) (auto simp: matches_Seq_iff)

lemma matches_Seq_Cons:
  "matches (Seq r s) (c # w) \<longleftrightarrow>
     (\<exists>u v. w = u @ v \<and> matches r (c # u) \<and> matches s v) \<or> (matches r [] \<and> matches s (c # w))"
  by (auto simp: matches_Seq_iff Cons_eq_append_conv)

lemma deriv_matches: "matches (deriv c r) w \<longleftrightarrow> matches r (c # w)"
proof (induction r arbitrary: w)
  case (Seq r s)
  have step: "matches (Seq (deriv c r) s) w \<longleftrightarrow>
      (\<exists>u v. w = u @ v \<and> matches r (c # u) \<and> matches s v)"
    by (simp add: matches_Seq_iff Seq.IH(1))
  show ?case
    by (simp add: step matches_Seq_Cons nullable_matches Seq.IH(2))
next
  case (Many r)
  then show ?case
    by (auto simp: matches_Many_Cons matches_Seq_iff)
qed auto

lemma match_here_iff: "match_here r s \<longleftrightarrow> (\<exists>w. prefix w s \<and> matches r w)"
proof (induction s arbitrary: r)
  case Nil
  then show ?case by (simp add: nullable_matches)
next
  case (Cons c s)
  have "(\<exists>w. prefix w (c # s) \<and> matches r w)
      \<longleftrightarrow> matches r [] \<or> (\<exists>w. prefix w s \<and> matches r (c # w))"
    by (auto simp: prefix_Cons)
  then show ?case by (simp add: nullable_matches Cons.IH deriv_matches)
qed

lemma regex_test_iff: "regex_test r s \<longleftrightarrow> (\<exists>w. sublist w s \<and> matches r w)"
proof (induction s)
  case Nil
  then show ?case by (simp add: nullable_matches)
next
  case (Cons c s)
  show ?case
    unfolding regex_test.simps Cons.IH match_here_iff by (auto simp: sublist_Cons_right)
qed

subsection \<open>The patterns\<close>

definition lit :: "string \<Rightarrow> regex" where
  "lit s = foldr (\<lambda>c r. Seq (Chr c) r) s Eps"

definition seqs :: "regex list \<Rightarrow> regex" where
  "seqs rs = foldr Seq rs Eps"

definition alts :: "regex list \<Rightarrow> regex" where
  "alts rs = foldr Alt rs Empty"

definition anything :: regex where
  "anything = Many Dot"

definition pattern_embedding :: regex where
  "pattern_embedding = alts (map lit [''embed'', ''jina'', ''bge'', ''e5'', ''gte'', ''instructor'', ''nomic''])"

definition pattern_chat_small :: regex where
  "pattern_chat_small =
     alts (map lit [''7b'', ''8b'', ''3b'', ''2b'', ''1b'', ''phi'']
       @ [seqs [lit ''gemma'', anything, lit ''2b''], seqs [lit ''gemma'', anything, lit ''7b''],
          seqs [lit ''mistral'', anything, lit ''7b''], seqs [lit ''qwen'', anything, lit ''7b'']])"

definition pattern_chat_large :: regex where
  "pattern_chat_large =
     alts (map lit [''70b'', ''72b'', ''65b'', ''34b'', ''mixtral'']
       @ [seqs [lit ''deepseek'', anything, lit ''67b'']])"

definition pattern_tool_llama :: regex where
  "pattern_tool_llama = seqs [lit ''llama'', anything, alts (map lit [''3.1'', ''3.2'', ''3-''])]"

definition pattern_tool_llama4 :: regex where
  "pattern_tool_llama4 = seqs [lit ''llama'', anything, lit ''4'']"

definition pattern_tool_qwen :: regex where
  "pattern_tool_qwen = alts [seqs [lit ''qwen'', anything, lit ''2.5''], lit ''qwq'']"

definition pattern_tool_mistral :: regex where
  "pattern_tool_mistral = lit ''mistral''"

definition pattern_tool_deepseek :: regex where
  "pattern_tool_deepseek = seqs [lit ''deepseek'', anything, alts (map lit [''v3'', ''r1''])]"

definition pattern_tool_hermes :: regex where
  "pattern_tool_hermes = lit ''hermes''"

subsection \<open>The recipes\<close>

record recipe =
  r_id :: string
  r_name :: string
  r_description :: string
  r_pattern :: "regex option"
  r_args :: "(string \<times> arg_value) list"

definition recipe_embedding :: recipe where
  "recipe_embedding =
    \<lparr>r_id = ''embedding'', r_name = ''Embedding Model'',
     r_description =
       ''Optimised for embedding/reranker models (Jina, BGE, E5, etc.). Low memory footprint, short context.'',
     r_pattern = Some pattern_embedding,
     r_args = [(''task'', VStr ''embed''),
       (''trust-remote-code'', VBool True),
       (''max-model-len'', VNum (8192)),
       (''gpu-memory-utilization'', VNum (3 / 10)),
       (''dtype'', VStr ''float16'')]\<rparr>"

definition recipe_chat_small :: recipe where
  "recipe_chat_small =
    \<lparr>r_id = ''chat-small'', r_name = (''Chat Model ('' @ [CHR 0xE2, CHR 0x89, CHR 0xA4] @ '' 13B)''),
     r_description =
       (''Good defaults for small chat/instruct models '' @ [CHR 0xE2, CHR 0x80, CHR 0x94] @ '' Llama 7B/8B, Mistral 7B, Phi, Gemma 2B/7B.''),
     r_pattern = Some pattern_chat_small,
     r_args = [(''gpu-memory-utilization'', VNum (9 / 10)),
       (''enable-prefix-caching'', VBool True)]\<rparr>"

definition recipe_chat_large :: recipe where
  "recipe_chat_large =
    \<lparr>r_id = ''chat-large'', r_name = (''Chat Model ('' @ [CHR 0xE2, CHR 0x89, CHR 0xA5] @ '' 30B, multi-GPU)''),
     r_description =
       (''Multi-GPU configuration for large models '' @ [CHR 0xE2, CHR 0x80, CHR 0x94] @ '' Llama 70B, Mixtral 8'' @ [CHR 0xC3, CHR 0x97] @ ''7B, Qwen 72B.''),
     r_pattern = Some pattern_chat_large,
     r_args = [(''tensor-parallel-size'', VNum (2)),
       (''gpu-memory-utilization'', VNum (19 / 20)),
       (''enable-prefix-caching'', VBool True)]\<rparr>"

definition recipe_legacy_gpu :: recipe where
  "recipe_legacy_gpu =
    \<lparr>r_id = ''legacy-gpu'', r_name = ''Legacy GPU (Turing/Volta)'',
     r_description =
       ''For GPUs with compute capability < 8.0 (GTX 10/20 series, TITAN RTX, V100). Uses eager mode and XFormers backend.'',
     r_pattern = None,
     r_args = [(''enforce-eager'', VBool True),
       (''dtype'', VStr ''float16''),
       (''swap-space'', VNum (1))]\<rparr>"

definition recipe_cpu_only :: recipe where
  "recipe_cpu_only =
    \<lparr>r_id = ''cpu-only'', r_name = ''CPU Only'',
     r_description =
       ''Run vLLM without a GPU. Slow but useful for testing or very small models.'',
     r_pattern = None,
     r_args = [(''device'', VStr ''cpu''),
       (''dtype'', VStr ''float32'')]\<rparr>"

definition recipe_low_memory :: recipe where
  "recipe_low_memory =
    \<lparr>r_id = ''low-memory'', r_name = (''Low VRAM ('' @ [CHR 0xE2, CHR 0x89, CHR 0xA4] @ '' 8 GB)''),
     r_description =
       ''Squeeze a model into limited GPU memory with reduced context, offloading, and FP16.'',
     r_pattern = None,
     r_args = [(''gpu-memory-utilization'', VNum (19 / 20)),
       (''max-model-len'', VNum (2048)),
       (''dtype'', VStr ''float16''),
       (''cpu-offload-gb'', VNum (4)),
       (''swap-space'', VNum (2))]\<rparr>"

definition recipe_high_throughput :: recipe where
  "recipe_high_throughput =
    \<lparr>r_id = ''high-throughput'', r_name = ''High Throughput Server'',
     r_description =
       ''Optimised for high-throughput production serving with prefix caching and chunked prefill.'',
     r_pattern = None,
     r_args = [(''enable-prefix-caching'', VBool True),
       (''enable-chunked-prefill'', VBool True),
       (''gpu-memory-utilization'', VNum (19 / 20)),
       (''disable-log-requests'', VBool True)]\<rparr>"

definition recipe_tool_llama :: recipe where
  "recipe_tool_llama =
    \<lparr>r_id = ''tool-llama'', r_name = (''Tool Calling '' @ [CHR 0xE2, CHR 0x80, CHR 0x94] @ '' Llama 3.x / 4''),
     r_description =
       ''Enable function calling for Meta Llama 3.1, 3.2, and 4 models using the llama3_json parser.'',
     r_pattern = Some pattern_tool_llama,
     r_args = [(''enable-auto-tool-choice'', VBool True),
       (''tool-call-parser'', VStr ''llama3_json'')]\<rparr>"

definition recipe_tool_llama4 :: recipe where
  "recipe_tool_llama4 =
    \<lparr>r_id = ''tool-llama4'', r_name = (''Tool Calling '' @ [CHR 0xE2, CHR 0x80, CHR 0x94] @ '' Llama 4''),
     r_description =
       ''Enable function calling for Meta Llama 4 models using the pythonic parser.'',
     r_pattern = Some pattern_tool_llama4,
     r_args = [(''enable-auto-tool-choice'', VBool True),
       (''tool-call-parser'', VStr ''llama4_pythonic'')]\<rparr>"

definition recipe_tool_qwen :: recipe where
  "recipe_tool_qwen =
    \<lparr>r_id = ''tool-qwen'', r_name = (''Tool Calling '' @ [CHR 0xE2, CHR 0x80, CHR 0x94] @ '' Qwen 2.5 / QwQ''),
     r_description =
       ''Enable function calling for Qwen 2.5 and QwQ models using the hermes parser.'',
     r_pattern = Some pattern_tool_qwen,
     r_args = [(''enable-auto-tool-choice'', VBool True),
       (''tool-call-parser'', VStr ''hermes'')]\<rparr>"

definition recipe_tool_mistral :: recipe where
  "recipe_tool_mistral =
    \<lparr>r_id = ''tool-mistral'', r_name = (''Tool Calling '' @ [CHR 0xE2, CHR 0x80, CHR 0x94] @ '' Mistral''),
     r_description =
       ''Enable function calling for Mistral instruct models.'',
     r_pattern = Some pattern_tool_mistral,
     r_args = [(''enable-auto-tool-choice'', VBool True),
       (''tool-call-parser'', VStr ''mistral'')]\<rparr>"

definition recipe_tool_deepseek :: recipe where
  "recipe_tool_deepseek =
    \<lparr>r_id = ''tool-deepseek'', r_name = (''Tool Calling '' @ [CHR 0xE2, CHR 0x80, CHR 0x94] @ '' DeepSeek V3 / R1''),
     r_description =
       ''Enable function calling for DeepSeek-V3 and DeepSeek-R1 models.'',
     r_pattern = Some pattern_tool_deepseek,
     r_args = [(''enable-auto-tool-choice'', VBool True),
       (''tool-call-parser'', VStr ''deepseek_v3'')]\<rparr>"

definition recipe_tool_hermes :: recipe where
  "recipe_tool_hermes =
    \<lparr>r_id = ''tool-hermes'', r_name = (''Tool Calling '' @ [CHR 0xE2, CHR 0x80, CHR 0x94] @ '' Hermes / NousResearch''),
     r_description =
       ''Enable function calling for NousResearch Hermes-series models.'',
     r_pattern = Some pattern_tool_hermes,
     r_args = [(''enable-auto-tool-choice'', VBool True),
       (''tool-call-parser'', VStr ''hermes'')]\<rparr>"

definition VLLM_RECIPES :: "recipe list" where
  "VLLM_RECIPES =
    [recipe_embedding,
     recipe_chat_small,
     recipe_chat_large,
     recipe_legacy_gpu,
     recipe_cpu_only,
     recipe_low_memory,
     recipe_high_throughput,
     recipe_tool_llama,
     recipe_tool_llama4,
     recipe_tool_qwen,
     recipe_tool_mistral,
     recipe_tool_deepseek,
     recipe_tool_hermes]"

text \<open>\<open>suggestRecipe\<close>: the loop returns the id of the first recipe whose pattern matches.\<close>

fun suggest_in :: "string \<Rightarrow> recipe list \<Rightarrow> string option" where
  "suggest_in lower [] = None"
| "suggest_in lower (r # rs) =
     (case r_pattern r of
        Some p \<Rightarrow> (if regex_test p lower then Some (r_id r) else suggest_in lower rs)
      | None \<Rightarrow> suggest_in lower rs)"

definition suggestRecipe :: "string \<Rightarrow> recipe list \<Rightarrow> string option" where
  "suggestRecipe modelDisplayName recipes = suggest_in (to_lower modelDisplayName) recipes"

definition applies :: "string \<Rightarrow> recipe \<Rightarrow> bool" where
  "applies lower r =
     (\<exists>p w. r_pattern r = Some p \<and> sublist w lower \<and> matches p w)"

lemma suggest_in_Cons:
  "suggest_in lower (r # rs) = (if applies lower r then Some (r_id r) else suggest_in lower rs)"
  by (auto simp: applies_def regex_test_iff split: option.split)

lemma suggest_in_first:
  "suggest_in lower rs = Some i \<longleftrightarrow>
     (\<exists>pre r post. rs = pre @ r # post \<and> applies lower r \<and> r_id r = i
        \<and> (\<forall>q \<in> set pre. \<not> applies lower q))"
proof (induction rs)
  case (Cons r rs)
  have split: "(\<exists>pre q post. r # rs = pre @ q # post \<and> P q \<and> (\<forall>x \<in> set pre. \<not> Q x))
      \<longleftrightarrow> P r \<or> (\<not> Q r \<and> (\<exists>pre q post. rs = pre @ q # post \<and> P q \<and> (\<forall>x \<in> set pre. \<not> Q x)))"
    (is "?A \<longleftrightarrow> P r \<or> (\<not> Q r \<and> ?B)") for P Q
  proof
    assume ?A
    then obtain pre q post where *: "r # rs = pre @ q # post" "P q" "\<forall>x \<in> set pre. \<not> Q x" by blast
    then show "P r \<or> (\<not> Q r \<and> ?B)" by (cases pre) auto
  next
    assume "P r \<or> (\<not> Q r \<and> ?B)"
    then show ?A
    proof
      assume "P r" then show ?A by (intro exI [of _ "[]"]) auto
    next
      assume b: "\<not> Q r \<and> ?B"
      then obtain pre q post where "rs = pre @ q # post" "P q" "\<forall>x \<in> set pre. \<not> Q x" by blast
      with b show ?A by (intro exI [of _ "r # pre"] exI [of _ q] exI [of _ post]) auto
    qed
  qed
  show ?case
    using split [of "\<lambda>q. applies lower q \<and> r_id q = i" "applies lower"] Cons.IH
    unfolding suggest_in_Cons by auto
qed simp

lemma suggest_in_None: "suggest_in lower rs = None \<longleftrightarrow> (\<forall>r \<in> set rs. \<not> applies lower r)"
  by (induction rs) (auto simp: suggest_in_Cons simp del: suggest_in.simps(2))

subsection \<open>Properties\<close>

text \<open>
  The matcher decides the language of a pattern: the test succeeds exactly when some
  contiguous part of the text is in the language that the pattern denotes.
\<close>

theorem regex_test_correct: "regex_test r s = (\<exists>w. sublist w s \<and> matches r w)"
  by (rule regex_test_iff)

text \<open>
  The suggestion is the first recipe of the list that has a pattern whose language
  contains a part of the lower-cased model name, and there is no suggestion exactly when no
  recipe has one.
\<close>

theorem suggestRecipe_first_match:
  "(suggestRecipe m rs = Some i) =
     (\<exists>pre r post. rs = pre @ r # post \<and> applies (to_lower m) r \<and> r_id r = i
        \<and> list_all (\<lambda>q. \<not> applies (to_lower m) q) pre)
   \<and> (suggestRecipe m rs = None) = list_all (\<lambda>r. \<not> applies (to_lower m) r) rs"
  unfolding suggestRecipe_def suggest_in_first suggest_in_None list_all_iff by (rule conjI refl)+

text \<open>What a catalogue definition accepts as a value of its flag.\<close>

definition value_ok :: "engine_arg_def \<Rightarrow> arg_value \<Rightarrow> bool" where
  "value_ok a v =
     (case (a_type a, v) of
        (TEnum, VStr s) \<Rightarrow> s \<in> set (case a_choices a of None \<Rightarrow> [] | Some cs \<Rightarrow> cs)
      | (TBoolean, VBool b) \<Rightarrow> True
      | (TNumber, VNum n) \<Rightarrow>
          (case a_min a of None \<Rightarrow> True | Some lo \<Rightarrow> lo \<le> n)
          \<and> (case a_max a of None \<Rightarrow> True | Some hi \<Rightarrow> n \<le> hi)
      | (TString, VStr s) \<Rightarrow> s \<noteq> []
      | _ \<Rightarrow> False)"

definition find_arg :: "string \<Rightarrow> engine_arg_def list \<Rightarrow> engine_arg_def option" where
  "find_arg f args = find (\<lambda>a. a_flag a = f) args"

definition recipe_ok :: "recipe \<Rightarrow> bool" where
  "recipe_ok r =
     (distinct (map fst (r_args r)) \<and>
      list_all (\<lambda>(f, v). case find_arg f VLLM_ENGINE_ARGS of None \<Rightarrow> False | Some a \<Rightarrow> value_ok a v)
        (r_args r))"

text \<open>
  Recipe ids are unique, and every recipe sets each flag at most once, only flags of the
  catalogue, and each to a value its definition accepts (a listed choice, a number in range).
\<close>

theorem recipes_well_formed:
  "distinct (map r_id VLLM_RECIPES) \<and> list_all recipe_ok VLLM_RECIPES"
proof
  show "distinct (map r_id VLLM_RECIPES)" by code_simp
  show "list_all recipe_ok VLLM_RECIPES" by code_simp
qed

text \<open>The settings of a recipe that repeat the default of the catalogue.\<close>

definition redundant_args :: "recipe \<Rightarrow> string list" where
  "redundant_args r =
     map fst (filter (\<lambda>(f, v). case find_arg f VLLM_ENGINE_ARGS of
                 None \<Rightarrow> False | Some a \<Rightarrow> a_default a = Some v) (r_args r))"

text \<open>
  The recipes do not list non-default values only, as their file says they do: the recipe
  for small chat models and all six tool calling recipes repeat a catalogue default.
\<close>

theorem recipes_repeat_defaults:
  "filter (\<lambda>(i, fs). fs \<noteq> []) (map (\<lambda>r. (r_id r, redundant_args r)) VLLM_RECIPES) =
     [(''chat-small'', [''gpu-memory-utilization'']),
      (''tool-llama'', [''enable-auto-tool-choice'']),
      (''tool-llama4'', [''enable-auto-tool-choice'']),
      (''tool-qwen'', [''enable-auto-tool-choice'']),
      (''tool-mistral'', [''enable-auto-tool-choice'']),
      (''tool-deepseek'', [''enable-auto-tool-choice'']),
      (''tool-hermes'', [''enable-auto-tool-choice''])]"
  by code_simp

end
