(* ===== verification/Vllm_Args.thy ===== *)
theory Vllm_Args
  imports Prelude
begin

text \<open>
  The parser of raw engine arguments, \<open>parseRawVllmArgs\<close> of \<^verbatim>\<open>lib/vllm/index.ts\<close>:
  the two regular expressions of the code as character tests, and the loop over the tokens
  with its \<open>expectValue\<close> flag.
\<close>

definition is_alnum :: "char \<Rightarrow> bool" where
  "is_alnum c =
     (let n = (of_char c :: nat)
      in (48 \<le> n \<and> n \<le> 57) \<or> (65 \<le> n \<and> n \<le> 90) \<or> (97 \<le> n \<and> n \<le> 122))"

text \<open>The flag name test: a letter or digit, then letters, digits, underscores and dashes.\<close>

definition valid_flag_name :: "string \<Rightarrow> bool" where
  "valid_flag_name name =
     (case name of [] \<Rightarrow> False
      | c # cs \<Rightarrow> is_alnum c \<and> list_all (\<lambda>d. is_alnum d \<or> d = CHR ''_'' \<or> d = CHR ''-'') cs)"

text \<open>The characters a plain value may have: word characters, dot, at, slash, comma, equals,
  plus, backslash and dash.\<close>

definition value_char :: "char \<Rightarrow> bool" where
  "value_char c =
     (is_alnum c \<or> c \<in> {CHR ''_'', CHR ''.'', CHR ''@'', CHR ''/'', CHR '','', CHR ''='', CHR ''+'',
                        CHR 0x5C, CHR ''-''})"

text \<open>\<open>raw.split(/\s+/)\<close> with the empty pieces skipped.\<close>

definition tokens :: "string \<Rightarrow> string list" where
  "tokens raw =
     filter (\<lambda>t. t \<noteq> []) (split_on CHR '' '' (map (\<lambda>c. if is_ws c then CHR '' '' else c) raw))"

datatype issue = InvalidFlag string | UnexpectedValue string | InvalidValue string

definition is_flag :: "string \<Rightarrow> bool" where
  "is_flag tok = starts_with tok ''--''"

text \<open>The name of a flag token, up to the first equals sign.\<close>

definition flag_name :: "string \<Rightarrow> string" where
  "flag_name tok = takeWhile (\<lambda>c. c \<noteq> CHR ''='') (drop 2 tok)"

definition has_eq :: "string \<Rightarrow> bool" where
  "has_eq tok = (CHR ''='' \<in> set (drop 2 tok))"

fun parse_tokens :: "bool \<Rightarrow> string list \<Rightarrow> string list \<times> issue list" where
  "parse_tokens expectValue [] = ([], [])"
| "parse_tokens expectValue (tok # toks) =
     (if is_flag tok then
        if \<not> valid_flag_name (flag_name tok) then
          (let (args, issues) = parse_tokens False toks in (args, InvalidFlag tok # issues))
        else
          (let (args, issues) = parse_tokens (\<not> has_eq tok) toks in (tok # args, issues))
      else if \<not> expectValue then
        (let (args, issues) = parse_tokens expectValue toks in (args, UnexpectedValue tok # issues))
      else if \<not> list_all value_char tok then
        (let (args, issues) = parse_tokens expectValue toks in (args, InvalidValue tok # issues))
      else
        (let (args, issues) = parse_tokens False toks in (tok # args, issues)))"

definition parseRawVllmArgs :: "string \<Rightarrow> string list \<times> issue list" where
  "parseRawVllmArgs raw = parse_tokens False (tokens raw)"

subsection \<open>Lemmas\<close>

lemma tokens_no_ws: "t \<in> set (tokens raw) \<Longrightarrow> t \<noteq> [] \<and> list_all (\<lambda>c. \<not> is_ws c) t"
proof -
  assume t: "t \<in> set (tokens raw)"
  let ?f = "\<lambda>c. if is_ws c then CHR '' '' else c"
  have "CHR '' '' \<notin> set t"
    using t split_on_no_sep unfolding tokens_def by fastforce
  moreover have "set t \<subseteq> set (map ?f raw)"
  proof -
    have "set w \<subseteq> set s" if "w \<in> set (split_on d s)" for w d and s :: string
      using that by (induction s arbitrary: w) (fastforce split: if_splits list.splits)+
    then show ?thesis using t unfolding tokens_def by fastforce
  qed
  ultimately have "\<not> is_ws c" if "c \<in> set t" for c
    using that by (auto simp: image_iff split: if_splits)
  then show ?thesis using t by (auto simp: tokens_def list_all_iff)
qed

lemma tokens_join:
  assumes "\<And>t. t \<in> set ts \<Longrightarrow> t \<noteq> [] \<and> list_all (\<lambda>c. \<not> is_ws c) t"
  shows "tokens (join '' '' ts) = ts"
proof (cases "ts = []")
  case True
  then show ?thesis by (simp add: tokens_def)
next
  case False
  let ?f = "\<lambda>c. if is_ws c then CHR '' '' else c"
  have ws: "is_ws CHR '' ''" by (simp add: is_ws_def)
  have "map ?f (join '' '' ts) = join '' '' ts"
    using assms
  proof (induction "'' ''" ts rule: join.induct)
    case (2 w)
    then show ?case by (auto simp: list_all_iff intro: map_idI)
  next
    case (3 w v vs)
    have "map ?f w = w" using 3(2) [of w] by (auto simp: list_all_iff intro: map_idI)
    with 3 show ?case by (simp add: ws)
  qed simp
  moreover have "split_on CHR '' '' (join '' '' ts) = ts"
    using assms False ws by (intro split_on_join) (auto simp: list_all_iff)
  ultimately show ?thesis using assms by (auto simp: tokens_def intro: filter_filter_id)
qed

text \<open>The shape of an accepted argument list: a plain value only right after a bare flag.\<close>

fun well_shaped :: "bool \<Rightarrow> string list \<Rightarrow> bool" where
  "well_shaped ev [] = True"
| "well_shaped ev (t # ts) =
     (if is_flag t then valid_flag_name (flag_name t) \<and> well_shaped (\<not> has_eq t) ts
      else ev \<and> list_all value_char t \<and> well_shaped False ts)"

lemma well_shaped_weaken: "well_shaped False ts \<Longrightarrow> well_shaped ev ts"
  by (cases ts) (auto split: if_splits)

lemma parse_tokens_shape: "well_shaped ev (fst (parse_tokens ev toks))"
  by (induction ev toks rule: parse_tokens.induct)
    (auto simp: split_beta Let_def intro: well_shaped_weaken)

lemma parse_tokens_shaped_id: "well_shaped ev ts \<Longrightarrow> parse_tokens ev ts = (ts, [])"
  by (induction ev ts rule: parse_tokens.induct) (auto split: if_splits)

lemma parse_tokens_subseq: "subseq (fst (parse_tokens ev toks)) toks"
  by (induction ev toks rule: parse_tokens.induct) (auto simp: split_beta Let_def)

lemma parse_tokens_length:
  "length (fst (parse_tokens ev toks)) + length (snd (parse_tokens ev toks)) = length toks"
  by (induction ev toks rule: parse_tokens.induct) (auto simp: split_beta Let_def)

lemma parse_again:
  "parseRawVllmArgs (join '' '' (fst (parseRawVllmArgs raw))) = (fst (parseRawVllmArgs raw), [])"
proof -
  have "tokens (join '' '' (fst (parseRawVllmArgs raw))) = fst (parseRawVllmArgs raw)"
  proof (rule tokens_join)
    fix t assume "t \<in> set (fst (parseRawVllmArgs raw))"
    then have "t \<in> set (tokens raw)"
      unfolding parseRawVllmArgs_def by (auto elim: list_emb_set [OF parse_tokens_subseq])
    then show "t \<noteq> [] \<and> list_all (\<lambda>c. \<not> is_ws c) t" by (rule tokens_no_ws)
  qed
  then show ?thesis
    using parse_tokens_shape [of False "tokens raw"]
    by (simp add: parseRawVllmArgs_def parse_tokens_shaped_id)
qed

subsection \<open>Properties\<close>

text \<open>
  No token is lost: the accepted arguments are a subsequence of the tokens, and every
  token that is not accepted is reported, exactly one issue each.
\<close>

theorem parse_accounts_for_tokens:
  "subseq (fst (parseRawVllmArgs raw)) (tokens raw)
   \<and> length (fst (parseRawVllmArgs raw)) + length (snd (parseRawVllmArgs raw)) = length (tokens raw)"
  by (simp add: parseRawVllmArgs_def parse_tokens_subseq parse_tokens_length)

text \<open>
  The accepted arguments are a well-shaped command line: a token that starts with two
  dashes has a valid flag name, and any other token consists of value characters only and
  stands right after a flag that has no value of its own.
\<close>

theorem parse_well_shaped: "well_shaped False (fst (parseRawVllmArgs raw))"
  by (simp add: parseRawVllmArgs_def parse_tokens_shape)

text \<open>The accepted arguments, written out again with spaces, parse to themselves with no issue.\<close>

theorem parse_roundtrip:
  "parseRawVllmArgs (join '' '' (fst (parseRawVllmArgs raw))) = (fst (parseRawVllmArgs raw), [])"
  by (rule parse_again)






text \<open>
  What follows the equals sign of a flag is not checked at all, so the claim of the code's
  comment that tokens with shell metacharacters are rejected fails: every text without white
  space is accepted there.
\<close>

theorem flag_value_unchecked:
  assumes "list_all (\<lambda>c. \<not> is_ws c) v"
  shows "parseRawVllmArgs (''--x='' @ v) = ([''--x='' @ v], [])"
proof -
  have "tokens (join '' '' [''--x='' @ v]) = [''--x='' @ v]"
    using assms by (intro tokens_join) (auto simp: list_all_iff is_ws_def)
  then show ?thesis
    by (simp add: parseRawVllmArgs_def is_flag_def flag_name_def has_eq_def valid_flag_name_def
        is_alnum_def Let_def)
qed

lemma flag_value_unchecked_witness:
  "parseRawVllmArgs (''--x='' @ '';reboot'') = ([''--x='' @ '';reboot''], [])"
  by (rule flag_value_unchecked) code_simp

end
