(* ===== verification/Vllm_Panel.thy ===== *)
theory Vllm_Panel
  imports Vllm_Recipes Vllm_Args "HOL-Library.AList"
begin

text \<open>
  The engine argument panel, \<^verbatim>\<open>components/VllmEngineArgsPanel.tsx\<close>: its handlers over
  the values record (an association list in insertion order), the filters that choose what is
  shown, and the conversion each kind of input control makes. The parent component owns the
  values; \<open>onChange\<close> is the replacement of that field. \<open>num_str\<close> stands for the text
  JavaScript prints for a number.
\<close>

type_synonym arg_values = "(string \<times> arg_value) list"

record panel =
  p_values :: arg_values
  p_search :: string
  p_recipe :: string

subsection \<open>Handlers\<close>

definition handleArgChange :: "engine_arg_def list \<Rightarrow> string \<Rightarrow> arg_value option \<Rightarrow> panel \<Rightarrow> panel" where
  "handleArgChange availableArgs flag value p =
     (let nxt = p_values p;
          def = find_arg flag availableArgs;
          nxt' =
            (case value of
               None \<Rightarrow> AList.delete flag nxt
             | Some v \<Rightarrow>
                 if v = VStr [] \<or> (\<exists>d \<in> set_option def. a_default d = Some v)
                 then AList.delete flag nxt
                 else AList.update flag v nxt)
      in p\<lparr>p_recipe := [], p_values := nxt'\<rparr>)"

definition handleRecipeChange :: "string \<Rightarrow> panel \<Rightarrow> panel" where
  "handleRecipeChange recipeId p =
     (let p' = p\<lparr>p_recipe := recipeId\<rparr>
      in if recipeId = [] then p'\<lparr>p_values := []\<rparr>
         else (case find (\<lambda>r. r_id r = recipeId) VLLM_RECIPES of
                 None \<Rightarrow> p'
               | Some recipe \<Rightarrow> p'\<lparr>p_values := r_args recipe\<rparr>))"

definition handleReset :: "panel \<Rightarrow> panel" where
  "handleReset p = p\<lparr>p_recipe := [], p_values := []\<rparr>"

definition changedCount :: "panel \<Rightarrow> nat" where
  "changedCount p = length (p_values p)"

subsection \<open>What is shown\<close>

definition filteredArgs :: "engine_arg_def list \<Rightarrow> string \<Rightarrow> engine_arg_def list" where
  "filteredArgs availableArgs search =
     (let q = to_lower (trim search)
      in if q = [] then availableArgs
         else filter (\<lambda>a. has_infix (a_flag a) q \<or> has_infix (to_lower (a_description a)) q
                        \<or> has_infix (a_category a) q) availableArgs)"

definition visibleCategories :: "engine_arg_def list \<Rightarrow> vllm_category list" where
  "visibleCategories filtered =
     (let catIds = set (map a_category filtered)
      in filter (\<lambda>c. c_id c \<in> catIds) VLLM_CATEGORIES)"

text \<open>The arguments of one accordion, and how many of them are changed.\<close>

definition catArgs :: "engine_arg_def list \<Rightarrow> vllm_category \<Rightarrow> engine_arg_def list" where
  "catArgs filtered cat = filter (\<lambda>a. a_category a = c_id cat) filtered"

definition catChanged :: "engine_arg_def list \<Rightarrow> vllm_category \<Rightarrow> panel \<Rightarrow> nat" where
  "catChanged filtered cat p =
     length (filter (\<lambda>a. a_flag a \<in> set (map fst (p_values p))) (catArgs filtered cat))"

subsection \<open>The input controls\<close>

text \<open>
  What the control of an argument hands over: the state of a check box, the text of a select
  or text field, or the content of a number field, which is empty or a number.
\<close>

datatype field_input = Checked bool | Entered string | Numeric "rat option"

fun js_String :: "(rat \<Rightarrow> string) \<Rightarrow> arg_value \<Rightarrow> string" where
  "js_String num_str (VStr s) = s"
| "js_String num_str (VNum n) = num_str n"
| "js_String num_str (VBool b) = (if b then ''true'' else ''false'')"

definition default_text :: "(rat \<Rightarrow> string) \<Rightarrow> engine_arg_def \<Rightarrow> string" where
  "default_text num_str def =
     (case a_default def of None \<Rightarrow> [] | Some d \<Rightarrow> js_String num_str d)"

definition booleanChange :: "engine_arg_def \<Rightarrow> bool \<Rightarrow> arg_value option" where
  "booleanChange def c =
     (if VBool c = (case a_default def of None \<Rightarrow> VBool False | Some d \<Rightarrow> d) then None
      else Some (VBool c))"

definition textChange :: "(rat \<Rightarrow> string) \<Rightarrow> engine_arg_def \<Rightarrow> string \<Rightarrow> arg_value option" where
  "textChange num_str def v =
     (if v = [] \<or> v = default_text num_str def then None else Some (VStr v))"

definition numberChange :: "engine_arg_def \<Rightarrow> rat option \<Rightarrow> arg_value option" where
  "numberChange def n =
     (case n of
        None \<Rightarrow> None
      | Some n \<Rightarrow> if a_default def = Some (VNum n) then None else Some (VNum n))"

fun argFieldChange :: "(rat \<Rightarrow> string) \<Rightarrow> engine_arg_def \<Rightarrow> field_input \<Rightarrow> arg_value option" where
  "argFieldChange num_str def (Checked c) = booleanChange def c"
| "argFieldChange num_str def (Entered v) = textChange num_str def v"
| "argFieldChange num_str def (Numeric n) = numberChange def n"

lemmas change_defs = booleanChange_def textChange_def numberChange_def

text \<open>The value a control shows: the stored one, else the default, else nothing.\<close>

definition shown_value :: "engine_arg_def \<Rightarrow> panel \<Rightarrow> arg_value option" where
  "shown_value def p =
     (case map_of (p_values p) (a_flag def) of
        Some v \<Rightarrow> Some v
      | None \<Rightarrow> a_default def)"

text \<open>The control that matches the type of the argument.\<close>

fun fits :: "arg_type \<Rightarrow> field_input \<Rightarrow> bool" where
  "fits TBoolean (Checked c) = True"
| "fits TEnum (Entered v) = True"
| "fits TString (Entered v) = True"
| "fits TNumber (Numeric n) = True"
| "fits _ _ = False"

subsection \<open>The values record\<close>

definition minimal :: "engine_arg_def list \<Rightarrow> arg_values \<Rightarrow> bool" where
  "minimal args vs =
     (distinct (map fst vs) \<and>
      (\<forall>(f, v) \<in> set vs. v \<noteq> VStr [] \<and> (\<forall>d \<in> set_option (find_arg f args). a_default d \<noteq> Some v)))"

lemma find_arg_flag: "find_arg f args = Some d \<Longrightarrow> a_flag d = f \<and> d \<in> set args"
  by (auto simp: find_arg_def find_Some_iff)

lemma find_arg_distinct:
  "distinct (map a_flag args) \<Longrightarrow> d \<in> set args \<Longrightarrow> find_arg (a_flag d) args = Some d"
proof (induction args)
  case (Cons a args)
  then show ?case by (force simp: find_arg_def)
qed simp

lemma minimal_delete: "minimal args vs \<Longrightarrow> minimal args (AList.delete f vs)"
  using distinct_delete [of vs f] by (auto simp: minimal_def AList.delete_eq)

lemma set_update_subset: "set (AList.update k v al) \<subseteq> insert (k, v) (set al)"
  by (induction al) (auto split: if_splits)

lemma minimal_update:
  assumes "minimal args vs" "v \<noteq> VStr []" "\<forall>d \<in> set_option (find_arg f args). a_default d \<noteq> Some v"
  shows "minimal args (AList.update f v vs)"
  using assms set_update_subset [of f v vs] by (fastforce simp: minimal_def distinct_update)

lemma handleArgChange_minimal:
  "minimal args (p_values p) \<Longrightarrow> minimal args (p_values (handleArgChange args f v p))"
  by (auto simp: handleArgChange_def Let_def intro: minimal_delete minimal_update split: option.split)

lemma handleArgChange_other:
  "g \<noteq> f \<Longrightarrow> map_of (p_values (handleArgChange args f v p)) g = map_of (p_values p) g"
  by (auto simp: handleArgChange_def Let_def delete_conv' update_conv' split: option.split)

lemma handleArgChange_same:
  "map_of (p_values (handleArgChange args f v p)) f =
     (case v of None \<Rightarrow> None
      | Some w \<Rightarrow> if w = VStr [] \<or> (\<exists>d \<in> set_option (find_arg f args). a_default d = Some w)
                 then None else Some w)"
  by (auto simp: handleArgChange_def Let_def delete_conv' update_conv' split: option.split)

subsection \<open>Properties\<close>

text \<open>A user's session on the panel: fields edited one after the other.\<close>

definition edit_fields :: "engine_arg_def list \<Rightarrow> (string \<times> arg_value option) list \<Rightarrow> panel \<Rightarrow> panel" where
  "edit_fields args es p = fold (\<lambda>(f, v). handleArgChange args f v) es p"

text \<open>
  Manual editing stores non-default values only: from values in which no entry is empty or
  equal to its default, with each flag once, any sequence of edits leads to values of the same
  kind, and no recipe is shown as selected.
\<close>

theorem manual_edits_minimal:
  assumes "minimal args (p_values p)" and "es \<noteq> []"
  shows "minimal args (p_values (edit_fields args es p)) \<and> p_recipe (edit_fields args es p) = []"
proof -
  have min: "minimal args (p_values (edit_fields args es q))" if "minimal args (p_values q)" for q
    using that
    by (induction es arbitrary: q) (auto simp: edit_fields_def handleArgChange_minimal)
  obtain es' f v where es: "es = es' @ [(f, v)]"
    using assms(2) by (metis rev_exhaust surj_pair)
  have "p_recipe (edit_fields args es p) = []"
    unfolding es by (simp add: edit_fields_def handleArgChange_def Let_def)
  with min [OF assms(1)] show ?thesis by simp
qed

lemma manual_edits_minimal_witness:
  "minimal VLLM_ENGINE_ARGS (p_values (edit_fields VLLM_ENGINE_ARGS
       [(''dtype'', Some (VStr ''half'')), (''dtype'', Some (VStr ''auto''))]
       \<lparr>p_values = [], p_search = [], p_recipe = ''cpu-only''\<rparr>))
   \<and> p_recipe (edit_fields VLLM_ENGINE_ARGS
       [(''dtype'', Some (VStr ''half'')), (''dtype'', Some (VStr ''auto''))]
       \<lparr>p_values = [], p_search = [], p_recipe = ''cpu-only''\<rparr>) = []"
  by (rule manual_edits_minimal) (simp_all add: minimal_def)

definition entered_value :: "field_input \<Rightarrow> arg_value option" where
  "entered_value i =
     (case i of Checked c \<Rightarrow> Some (VBool c)
      | Entered v \<Rightarrow> (if v = [] then None else Some (VStr v))
      | Numeric n \<Rightarrow> map_option VNum n)"

lemma registry_defaults:
  assumes "d \<in> set VLLM_ENGINE_ARGS"
  shows "a_type d = TBoolean \<Longrightarrow> \<exists>b. a_default d = Some (VBool b)"
    and "a_type d = TEnum \<or> a_type d = TString \<Longrightarrow>
           a_default d = None \<or> (\<exists>s. a_default d = Some (VStr s))"
proof -
  have "arg_ok d"
    using assms registry_args_ok by (simp add: list_all_iff)
  then show "a_type d = TBoolean \<Longrightarrow> \<exists>b. a_default d = Some (VBool b)"
    and "a_type d = TEnum \<or> a_type d = TString \<Longrightarrow>
           a_default d = None \<or> (\<exists>s. a_default d = Some (VStr s))"
    by (auto simp: arg_ok_def split: option.splits arg_value.splits)
qed

lemma edit_same:
  assumes "d \<in> set VLLM_ENGINE_ARGS"
  shows "shown_value d (handleArgChange VLLM_ENGINE_ARGS (a_flag d) v p) =
     (case v of None \<Rightarrow> a_default d
      | Some w \<Rightarrow> if w = VStr [] then a_default d else Some w)"
proof -
  have "find_arg (a_flag d) VLLM_ENGINE_ARGS = Some d"
    by (intro find_arg_distinct registry_flags_distinct assms)
  then show ?thesis
    by (auto simp: shown_value_def handleArgChange_same split: option.splits)
qed

text \<open>
  An edit shows what was entered: after a field of the catalogue hands over an input, the
  control of that field shows the entered value (a choice or a non-empty text as text, a
  number as that number, a check box as ticked), and every other control shows what it showed.
  Texts are compared as \<open>String(default)\<close> gives them, so a text field whose default is a text.
\<close>

theorem field_edit_shown:
  assumes d: "d \<in> set VLLM_ENGINE_ARGS" and fit: "fits (a_type d) i"
  shows "shown_value d (handleArgChange VLLM_ENGINE_ARGS (a_flag d) (argFieldChange num_str d i) p)
       = (case entered_value i of None \<Rightarrow> a_default d | Some v \<Rightarrow> Some v)
     \<and> (\<forall>e. a_flag e \<noteq> a_flag d \<longrightarrow>
          shown_value e (handleArgChange VLLM_ENGINE_ARGS (a_flag d) (argFieldChange num_str d i) p)
            = shown_value e p)"
proof
  show "shown_value d (handleArgChange VLLM_ENGINE_ARGS (a_flag d) (argFieldChange num_str d i) p)
       = (case entered_value i of None \<Rightarrow> a_default d | Some v \<Rightarrow> Some v)"
  proof (cases i)
    case (Checked c)
    with fit have "a_type d = TBoolean" by (cases "a_type d") auto
    with registry_defaults(1) [OF d] obtain b where "a_default d = Some (VBool b)" by blast
    with Checked show ?thesis by (simp add: edit_same [OF d] entered_value_def change_defs)
  next
    case (Entered v)
    with fit have "a_type d = TEnum \<or> a_type d = TString" by (cases "a_type d") auto
    from registry_defaults(2) [OF d this] Entered show ?thesis
      by (auto simp: edit_same [OF d] entered_value_def change_defs default_text_def)
  next
    case (Numeric n)
    then show ?thesis by (cases n) (simp_all add: edit_same [OF d] entered_value_def change_defs)
  qed
qed (simp add: shown_value_def handleArgChange_other)

definition demo_arg :: engine_arg_def where
  "demo_arg = (engine_arg ''swap-space'' TNumber ''compute''
       ''CPU swap space size (GiB) per GPU.'')
       \<lparr>a_default := Some (VNum (4)), a_min := Some (0), a_step := Some (1)\<rparr>"

lemma demo_arg_in: "demo_arg \<in> set VLLM_ENGINE_ARGS"
  by (simp add: VLLM_ENGINE_ARGS_def args_compute_def demo_arg_def)

lemma field_edit_shown_witness:
  "shown_value demo_arg (handleArgChange VLLM_ENGINE_ARGS (a_flag demo_arg)
      (argFieldChange (\<lambda>_. []) demo_arg (Numeric (Some 2))) \<lparr>p_values = [], p_search = [], p_recipe = []\<rparr>)
   = Some (VNum 2)"
proof -
  have "fits (a_type demo_arg) (Numeric (Some 2))"
    by (simp add: demo_arg_def engine_arg_def)
  from field_edit_shown [OF demo_arg_in this, THEN conjunct1] show ?thesis
    by (simp add: entered_value_def)
qed

text \<open>
  Choosing a recipe can leave a value that equals its default in the record, so the panel
  counts as modified a parameter that it shows at its default; editing any field by hand then
  keeps that entry.
\<close>

theorem recipe_values_not_minimal:
  "\<not> minimal VLLM_ENGINE_ARGS (p_values (handleRecipeChange ''tool-mistral'' p))
   \<and> changedCount (handleRecipeChange ''tool-mistral'' p) = 2"
proof -
  have f: "find (\<lambda>r. r_id r = ''tool-mistral'') VLLM_RECIPES = Some recipe_tool_mistral"
    by code_simp
  have g: "map_option a_default (find_arg ''enable-auto-tool-choice'' VLLM_ENGINE_ARGS) = Some (Some (VBool True))"
    by code_simp
  then obtain d where "find_arg ''enable-auto-tool-choice'' VLLM_ENGINE_ARGS = Some d"
      "a_default d = Some (VBool True)" by auto
  then show ?thesis
    by (simp add: handleRecipeChange_def f Let_def minimal_def recipe_tool_mistral_def changedCount_def)
qed

text \<open>
  The accordions show exactly the arguments that pass the search: their categories are the
  declared ones with a hit, in display order, and concatenating the accordions gives each
  filtered argument of the catalogue once.
\<close>

theorem accordions_partition:
  assumes "set args \<subseteq> set VLLM_ENGINE_ARGS"
  shows "mset (concat (map (catArgs (filteredArgs args s)) (visibleCategories (filteredArgs args s))))
       = mset (filteredArgs args s)
     \<and> (\<forall>c \<in> set (visibleCategories (filteredArgs args s)). catArgs (filteredArgs args s) c \<noteq> [])"
proof
  let ?fs = "filteredArgs args s"
  have sub: "set ?fs \<subseteq> set VLLM_ENGINE_ARGS"
    using assms by (auto simp: filteredArgs_def Let_def split: if_splits)
  then have cat: "a_category a \<in> set (map c_id VLLM_CATEGORIES)" if "a \<in> set ?fs" for a
    using that registry_args_ok by (auto simp: list_all_iff arg_ok_def)
  show "\<forall>c \<in> set (visibleCategories ?fs). catArgs ?fs c \<noteq> []"
    by (auto simp: visibleCategories_def catArgs_def Let_def filter_empty_conv)
  have part: "mset (concat (map (catArgs xs) cs)) = mset xs"
    if "distinct (map c_id cs)" "\<forall>a \<in> set xs. a_category a \<in> set (map c_id cs)" for xs cs
    using that
  proof (induction cs arbitrary: xs)
    case (Cons c cs)
    let ?ys = "filter (\<lambda>a. a_category a \<noteq> c_id c) xs"
    have "catArgs xs d = catArgs ?ys d" if "d \<in> set cs" for d
      using that Cons.prems(1) by (force simp: catArgs_def intro: filter_cong)
    then have "concat (map (catArgs xs) cs) = concat (map (catArgs ?ys) cs)"
      by (intro arg_cong [where f = concat] map_cong) auto
    moreover have "mset (concat (map (catArgs ?ys) cs)) = mset ?ys"
      using Cons.prems by (intro Cons.IH) auto
    ultimately have rest: "mset (concat (map (catArgs xs) cs)) = mset ?ys" by (rule trans [OF arg_cong])
    have "mset (concat (map (catArgs xs) (c # cs))) = mset (catArgs xs c) + mset ?ys"
      using rest by (simp only: list.map concat.simps mset_append)
    also have "\<dots> = mset xs"
      unfolding catArgs_def mset_filter by (rule multiset_partition [symmetric])
    finally show ?case .
  qed simp
  have drop: "concat (map (catArgs ?fs) (visibleCategories ?fs)) = concat (map (catArgs ?fs) cs)"
    if "cs = VLLM_CATEGORIES" for cs
  proof -
    have "concat (map (catArgs ?fs) (filter (\<lambda>c. c_id c \<in> a_category ` set ?fs) cs))
        = concat (map (catArgs ?fs) cs)" for cs
      by (induction cs) (auto simp: catArgs_def filter_empty_conv image_iff)
    then show ?thesis by (simp add: visibleCategories_def Let_def that)
  qed
  show "mset (concat (map (catArgs ?fs) (visibleCategories ?fs))) = mset ?fs"
    unfolding drop [OF refl]
    by (intro part ballI cat) (simp_all add: VLLM_CATEGORIES_def)
qed

lemma accordions_partition_witness:
  "mset (concat (map (catArgs (filteredArgs VLLM_ENGINE_ARGS ''gpu''))
       (visibleCategories (filteredArgs VLLM_ENGINE_ARGS ''gpu''))))
   = mset (filteredArgs VLLM_ENGINE_ARGS ''gpu'')"
  using accordions_partition [OF subset_refl, of "''gpu''"] by simp

end
