(* ===== verification/Ttl_Cache.thy ===== *)
theory Ttl_Cache
  imports Browser
begin

text \<open>
  The contract of a cache with a time to live. Three modules keep one: the access cache of
  the admin layout, the services manifest and the RAG mode. Each is an interpretation of
  \<open>ttl_cache\<close>; what a caller may expect of reads after writes is proved here once. Times
  are the milliseconds of \<open>Date.now()\<close>.
\<close>

locale ttl_cache =
  fixes put :: "'v \<Rightarrow> int \<Rightarrow> 'w \<Rightarrow> 'w"
    and fetch :: "int \<Rightarrow> 'w \<Rightarrow> 'v option"
    and ok :: "'w \<Rightarrow> bool"
    and ttl :: int
  assumes ok_write: "ok w \<Longrightarrow> ok (put v t w)"
    and read_fresh: "ok w \<Longrightarrow> now < t + ttl \<Longrightarrow> fetch now (put v t w) = Some v"
    and read_stale: "ok w \<Longrightarrow> t + ttl \<le> now \<Longrightarrow> fetch now (put v t w) = None"
begin

lemma read_write: "ok w \<Longrightarrow> fetch now (put v t w) = (if now < t + ttl then Some v else None)"
  by (simp add: read_fresh read_stale)

lemma ok_writes: "ok w \<Longrightarrow> ok (fold (\<lambda>(v, t). put v t) ws w)"
  by (induction ws arbitrary: w) (auto simp: ok_write)

text \<open>Only the last put counts, and only while it is younger than the time to live.\<close>

lemma read_last_write:
  "ok w \<Longrightarrow>
     fetch now (fold (\<lambda>(v, t). put v t) (ws @ [(v, t)]) w) = (if now < t + ttl then Some v else None)"
  by (simp add: read_write ok_writes)

lemma read_monotone:
  "ok w \<Longrightarrow> fetch now (put v t w) = Some v' \<Longrightarrow> now' \<le> now \<Longrightarrow> fetch now' (put v t w) = Some v'"
  by (auto simp: read_write split: if_splits)

end

end
