(* ===== verification/Access_Cache.thy ===== *)
theory Access_Cache
  imports Ttl_Cache
begin

text \<open>
  The cached access rights of the signed-in user, \<^verbatim>\<open>lib/adminConstants.tsx\<close>: a memory
  copy in front of an entry in \<open>sessionStorage\<close>. A storage call outside a \<open>try\<close> block, and
  one inside a \<open>catch\<close> block, lets its exception escape; those results are \<open>Inl\<close>.
\<close>

definition ACCESS_CACHE_TTL_MS :: int where
  "ACCESS_CACHE_TTL_MS = 5 * 60000"

record access_entry =
  email :: string
  isSuperuser :: bool
  permissions :: "string list"
  expiresAt :: int

record access_world =
  window :: bool
  accessCacheMemory :: "access_entry option"
  session :: storage

fun all_strings :: "json list \<Rightarrow> string list option" where
  "all_strings [] = Some []"
| "all_strings (JString s # xs) = map_option (\<lambda>ss. s # ss) (all_strings xs)"
| "all_strings (_ # xs) = None"

text \<open>The type guard, giving the entry it has validated.\<close>

definition isValidAccessCache :: "json \<Rightarrow> access_entry option" where
  "isValidAccessCache v =
     (case (json_get v ''email'', json_get v ''isSuperuser'', json_get v ''permissions'',
            json_get v ''expiresAt'') of
        (Some (JString e), Some (JBool su), Some (JArray ps), Some (JNum x)) \<Rightarrow>
          (case all_strings ps of
             Some perms \<Rightarrow> Some \<lparr>email = e, isSuperuser = su, permissions = perms, expiresAt = x\<rparr>
           | None \<Rightarrow> None)
      | _ \<Rightarrow> None)"

definition access_json :: "access_entry \<Rightarrow> json" where
  "access_json e =
     JObject [(''email'', JString (email e)), (''isSuperuser'', JBool (isSuperuser e)),
              (''permissions'', JArray (map JString (permissions e))),
              (''expiresAt'', JNum (expiresAt e))]"

text \<open>The \<open>catch\<close> block of the readers: drop the item, which may raise again.\<close>

definition drop_item :: "access_world \<Rightarrow> (storage_error + access_entry option) \<times> access_world" where
  "drop_item w =
     (case removeItem (session w) of
        Inl e \<Rightarrow> (Inl e, w)
      | Inr s \<Rightarrow> (Inr None, w\<lparr>session := s\<rparr>))"

definition readCachedAccess ::
  "int \<Rightarrow> access_world \<Rightarrow> (storage_error + access_entry option) \<times> access_world" where
  "readCachedAccess now w =
     (if \<exists>e \<in> set_option (accessCacheMemory w). expiresAt e > now then (Inr (accessCacheMemory w), w)
      else if \<not> window w then (Inr None, w)
      else (case getItem (session w) of
              Inl err \<Rightarrow> drop_item w
            | Inr None \<Rightarrow> (Inr None, w)
            | Inr (Some EmptyText) \<Rightarrow> (Inr None, w)
            | Inr (Some Malformed) \<Rightarrow> drop_item w
            | Inr (Some (Json parsed)) \<Rightarrow>
                (case isValidAccessCache parsed of
                   None \<Rightarrow> drop_item w
                 | Some e \<Rightarrow>
                     if expiresAt e \<le> now then drop_item w
                     else (Inr (Some e), w\<lparr>accessCacheMemory := Some e\<rparr>))))"

definition readCachedAccessAnyAge ::
  "access_world \<Rightarrow> (storage_error + access_entry option) \<times> access_world" where
  "readCachedAccessAnyAge w =
     (if accessCacheMemory w \<noteq> None then (Inr (accessCacheMemory w), w)
      else if \<not> window w then (Inr None, w)
      else (case getItem (session w) of
              Inl err \<Rightarrow> drop_item w
            | Inr None \<Rightarrow> (Inr None, w)
            | Inr (Some EmptyText) \<Rightarrow> (Inr None, w)
            | Inr (Some Malformed) \<Rightarrow> drop_item w
            | Inr (Some (Json parsed)) \<Rightarrow>
                (case isValidAccessCache parsed of
                   None \<Rightarrow> drop_item w
                 | Some e \<Rightarrow> (Inr (Some e), w\<lparr>accessCacheMemory := Some e\<rparr>))))"

text \<open>\<open>writeCachedAccess\<close>: the entry without its expiry, at the time \<open>now\<close>.\<close>

definition writeCachedAccess :: "string \<Rightarrow> bool \<Rightarrow> string list \<Rightarrow> int \<Rightarrow> access_world \<Rightarrow> access_world" where
  "writeCachedAccess em su perms now w =
     (let value = \<lparr>email = em, isSuperuser = su, permissions = perms,
                   expiresAt = now + ACCESS_CACHE_TTL_MS\<rparr>;
          w' = w\<lparr>accessCacheMemory := Some value\<rparr>
      in if \<not> window w then w'
         else w'\<lparr>session := attempt (setItem (Json (access_json value)) (session w)) (session w)\<rparr>)"

definition clearCachedAccess :: "access_world \<Rightarrow> access_world" where
  "clearCachedAccess w =
     (let w' = w\<lparr>accessCacheMemory := None\<rparr>
      in if \<not> window w then w' else w'\<lparr>session := attempt (removeItem (session w)) (session w)\<rparr>)"

subsection \<open>Lemmas\<close>

lemma all_strings_map [simp]: "all_strings (map JString ss) = Some ss"
  by (induction ss) auto

lemma isValid_access_json [simp]: "isValidAccessCache (access_json e) = Some e"
  by (simp add: isValidAccessCache_def access_json_def)

lemma fst_drop_item: "fst (drop_item w) = Inr (Some e) \<Longrightarrow> False"
  by (auto simp: drop_item_def split: sum.splits)

type_synonym access_value = "string \<times> bool \<times> string list"

fun entry_value :: "access_entry \<Rightarrow> access_value" where
  "entry_value e = (email e, isSuperuser e, permissions e)"

definition write_access :: "access_value \<Rightarrow> int \<Rightarrow> access_world \<Rightarrow> access_world" where
  "write_access v t w = (case v of (em, su, ps) \<Rightarrow> writeCachedAccess em su ps t w)"

definition read_access :: "int \<Rightarrow> access_world \<Rightarrow> access_value option" where
  "read_access now w =
     (case fst (readCachedAccess now w) of Inl e \<Rightarrow> None | Inr r \<Rightarrow> map_option entry_value r)"

definition access_ok :: "access_world \<Rightarrow> bool" where
  "access_ok w = (window w \<and> writable (session w))"

interpretation access_ttl: ttl_cache write_access read_access access_ok ACCESS_CACHE_TTL_MS
proof
  fix w :: access_world and v :: access_value and t :: int
  obtain em su ps where v: "v = (em, su, ps)" by (cases v)
  assume ok: "access_ok w"
  then show "access_ok (write_access v t w)"
    by (simp add: access_ok_def write_access_def writeCachedAccess_def Let_def v)
  show "read_access now (write_access v t w) = Some v" if "now < t + ACCESS_CACHE_TTL_MS" for now
    using ok that
    by (simp add: read_access_def write_access_def writeCachedAccess_def readCachedAccess_def
        access_ok_def Let_def v)
  show "read_access now (write_access v t w) = None" if "t + ACCESS_CACHE_TTL_MS \<le> now" for now
    using ok that
    by (auto simp: read_access_def write_access_def writeCachedAccess_def readCachedAccess_def
        access_ok_def Let_def v getItem_attempt_set drop_item_def split: sum.splits)
qed

subsection \<open>Properties\<close>

text \<open>
  With working storage the access cache answers exactly the last access written to it, and
  only while that is younger than five minutes, whatever was written before.
\<close>

theorem access_cache_last_write:
  assumes "access_ok w"
  shows "read_access now (fold (\<lambda>(v, t). write_access v t) (ws @ [(v, t)]) w)
       = (if now < t + 300000 then Some v else None)"
  using access_ttl.read_last_write [OF assms, of now ws v t] by (simp add: ACCESS_CACHE_TTL_MS_def)

lemma access_cache_last_write_witness:
  "read_access 299999 (fold (\<lambda>(v, t). write_access v t)
      ([((''a'', True, []), -5)] @ [((''b'', False, [''x'']), 0)])
      \<lparr>window = True, accessCacheMemory = None, session = Storage False None\<rparr>)
   = (if (299999::int) < 0 + 300000 then Some (''b'', False, [''x'']) else None)"
  by (rule access_cache_last_write) (simp add: access_ok_def)

text \<open>
  An expired entry is never returned, in whatever state memory and storage are, even with
  entries a third party put there; and an entry of the wrong shape is never returned either.
\<close>

theorem read_never_expired:
  assumes "fst (readCachedAccess now w) = Inr (Some e)"
  shows "now < expiresAt e \<and>
    (accessCacheMemory w = Some e
     \<or> (\<exists>j. getItem (session w) = Inr (Some (Json j)) \<and> isValidAccessCache j = Some e))"
  using assms fst_drop_item
  by (auto simp: readCachedAccess_def split: if_splits sum.splits option.splits stored.splits)

lemma read_never_expired_witness:
  "(5::int) < expiresAt \<lparr>email = ''a'', isSuperuser = True, permissions = [], expiresAt = 9\<rparr>"
  using read_never_expired [of 5 "\<lparr>window = False, accessCacheMemory = Some
      \<lparr>email = ''a'', isSuperuser = True, permissions = [], expiresAt = 9\<rparr>, session = Disabled\<rparr>"]
  by (simp add: readCachedAccess_def)

text \<open>
  Signing out works also where storage is disabled: after \<open>clearCachedAccess\<close> the memory
  copy is gone, and no reader returns an entry unless storage could not be cleared.
\<close>

theorem clear_forgets:
  "accessCacheMemory (clearCachedAccess w) = None
   \<and> fst (readCachedAccess now (clearCachedAccess w)) \<in> {Inr None, Inl SecurityError}
   \<and> fst (readCachedAccessAnyAge (clearCachedAccess w)) \<in> {Inr None, Inl SecurityError}"
  by (cases "session w")
    (auto simp: clearCachedAccess_def readCachedAccess_def readCachedAccessAnyAge_def Let_def
      drop_item_def split: option.splits)

text \<open>
  With \<open>sessionStorage\<close> disabled the readers do not degrade to "nothing cached" as the
  writers do: their catch block touches storage again and the exception escapes, for the fresh
  read whenever memory holds no fresh entry.
\<close>

theorem disabled_storage_escapes:
  assumes "window w" "session w = Disabled" "accessCacheMemory w = None"
  shows "fst (readCachedAccess now w) = Inl SecurityError
       \<and> fst (readCachedAccessAnyAge w) = Inl SecurityError
       \<and> accessCacheMemory (writeCachedAccess em su ps now w) \<noteq> None"
  using assms
  by (simp add: readCachedAccess_def readCachedAccessAnyAge_def drop_item_def writeCachedAccess_def Let_def)

lemma disabled_storage_escapes_witness:
  "fst (readCachedAccess 0 \<lparr>window = True, accessCacheMemory = None, session = Disabled\<rparr>)
     = Inl SecurityError"
  using disabled_storage_escapes
    [of "\<lparr>window = True, accessCacheMemory = None, session = Disabled\<rparr>" 0 "[]" False "[]"]
  by simp

end
