(* ===== verification/Services.thy ===== *)
theory Services
  imports Ttl_Cache
begin

text \<open>
  The manifest of optional modules and what depends on it: the cache and the context provider
  of \<^verbatim>\<open>lib/ServicesContext.tsx\<close>, the RAG mode hook \<^verbatim>\<open>lib/useRagMode.ts\<close>, the
  route guard \<^verbatim>\<open>components/ModuleGuard.tsx\<close> and the entry check of
  \<^verbatim>\<open>routes/chat.tsx\<close>. A service is the JSON object the backend sent; the code reads its
  fields without checking them, and so do the definitions here.
\<close>

subsection \<open>The session caches\<close>

definition CACHE_TTL_MS :: int where
  "CACHE_TTL_MS = 60000"

text \<open>
  \<open>parsed.expiresAt <= Date.now()\<close>: null and booleans are converted to numbers, an absent
  field and objects to not-a-number, which compares as false. (A numeric text would be
  converted too; the modules only ever write numbers.)
\<close>

definition expired :: "int \<Rightarrow> json \<Rightarrow> bool" where
  "expired now parsed =
     (case json_get parsed ''expiresAt'' of
        Some (JNum x) \<Rightarrow> x \<le> now
      | Some JNull \<Rightarrow> 0 \<le> now
      | Some (JBool b) \<Rightarrow> (if b then 1 else 0) \<le> now
      | _ \<Rightarrow> False)"

text \<open>
  The reader that the two modules share up to the name of the payload. The outer \<open>None\<close> is
  null (nothing usable), an inner \<open>None\<close> is undefined (no such field).
\<close>

definition read_session_cache ::
  "string \<Rightarrow> bool \<Rightarrow> int \<Rightarrow> storage \<Rightarrow> json option option \<times> storage" where
  "read_session_cache payload window now s =
     (if \<not> window then (None, s)
      else (case getItem s of
              Inr (Some (Json parsed)) \<Rightarrow>
                if parsed = JNull then (None, s)
                else if expired now parsed then (None, attempt (removeItem s) s)
                else (Some (json_get parsed payload), s)
            | _ \<Rightarrow> (None, s)))"

definition write_session_cache :: "string \<Rightarrow> bool \<Rightarrow> json \<Rightarrow> int \<Rightarrow> storage \<Rightarrow> storage" where
  "write_session_cache payload window v now s =
     (if \<not> window then s
      else attempt (setItem (Json (JObject [(payload, v), (''expiresAt'', JNum (now + CACHE_TTL_MS))])) s) s)"

definition services_readCache :: "bool \<Rightarrow> int \<Rightarrow> storage \<Rightarrow> json option option \<times> storage" where
  "services_readCache = read_session_cache ''manifest''"

definition services_writeCache :: "bool \<Rightarrow> json \<Rightarrow> int \<Rightarrow> storage \<Rightarrow> storage" where
  "services_writeCache = write_session_cache ''manifest''"

definition rag_readCache :: "bool \<Rightarrow> int \<Rightarrow> storage \<Rightarrow> json option option \<times> storage" where
  "rag_readCache = read_session_cache ''mode''"

definition rag_writeCache :: "bool \<Rightarrow> json \<Rightarrow> int \<Rightarrow> storage \<Rightarrow> storage" where
  "rag_writeCache = write_session_cache ''mode''"

lemma read_write_session_cache:
  assumes "payload \<noteq> ''expiresAt''" and "writable s"
  shows "fst (read_session_cache payload True now (write_session_cache payload True v t s))
       = (if now < t + CACHE_TTL_MS then Some (Some v) else None)"
  using assms
  by (simp add: read_session_cache_def write_session_cache_def getItem_attempt_set expired_def)

lemma writable_write_session_cache [simp]:
  "writable (write_session_cache payload w v t s) = writable s"
  by (simp add: write_session_cache_def)

interpretation services_ttl: ttl_cache
  "services_writeCache True" "\<lambda>now s. Option.bind (fst (services_readCache True now s)) id"
  writable CACHE_TTL_MS
  by unfold_locales
    (simp_all add: services_writeCache_def services_readCache_def read_write_session_cache)

interpretation rag_ttl: ttl_cache
  "rag_writeCache True" "\<lambda>now s. Option.bind (fst (rag_readCache True now s)) id"
  writable CACHE_TTL_MS
  by unfold_locales (simp_all add: rag_writeCache_def rag_readCache_def read_write_session_cache)

subsection \<open>The services context\<close>

record services_ctx =
  services :: "json list"
  loading :: bool
  error :: "string option"
  ctx_store :: storage

definition services_of :: "json \<Rightarrow> json list" where
  "services_of manifest = (case json_get manifest ''services'' of Some (JArray xs) \<Rightarrow> xs | _ \<Rightarrow> [])"

text \<open>The two state initialisers of the provider, each of which reads the cache.\<close>

definition ServicesProvider_init :: "bool \<Rightarrow> int \<Rightarrow> storage \<Rightarrow> services_ctx" where
  "ServicesProvider_init window now s =
     (let (cached, s1) = services_readCache window now s;
          (again, s2) = services_readCache window now s1
      in \<lparr>services = (case cached of Some (Some m) \<Rightarrow> services_of m | _ \<Rightarrow> []),
          loading = (again = None), error = None, ctx_store = s2\<rparr>)"

text \<open>
  \<open>fetchManifest\<close> when the request has settled: a manifest, or a failure with the message of
  an \<open>Error\<close> (\<open>None\<close> for any other thrown value).
\<close>

definition fetchManifest :: "bool \<Rightarrow> int \<Rightarrow> string option + json \<Rightarrow> services_ctx \<Rightarrow> services_ctx" where
  "fetchManifest window now r c =
     (case r of
        Inr manifest \<Rightarrow>
          c\<lparr>services := services_of manifest, error := None,
            ctx_store := services_writeCache window manifest now (ctx_store c), loading := False\<rparr>
      | Inl msg \<Rightarrow>
          c\<lparr>error := Some (case msg of Some m \<Rightarrow> m | None \<Rightarrow> ''Failed to load services''),
            loading := False\<rparr>)"

text \<open>\<open>serviceMap.get(name)\<close>: the map is filled in order, so the last service of a name wins.\<close>

definition getModule :: "services_ctx \<Rightarrow> string \<Rightarrow> json option" where
  "getModule c name = find (\<lambda>svc. json_get svc ''name'' = Some (JString name)) (rev (services c))"

definition svc_enabled :: "json option \<Rightarrow> bool" where
  "svc_enabled svc = (case svc of None \<Rightarrow> False | Some s \<Rightarrow> json_get s ''enabled'' = Some (JBool True))"

definition isModuleEnabled :: "services_ctx \<Rightarrow> string \<Rightarrow> bool" where
  "isModuleEnabled c name =
     (if svc_enabled (getModule c name) then True
      else if name = ''rag'' then svc_enabled (getModule c ''rag_lite'')
      else False)"

subsection \<open>The RAG mode hook\<close>

record rag_hook =
  rag_mode :: "json option"
  rag_loading :: bool
  rag_store :: storage

definition useRagMode_init :: "bool \<Rightarrow> int \<Rightarrow> storage \<Rightarrow> rag_hook" where
  "useRagMode_init window now s =
     (let (m, s1) = rag_readCache window now s;
          (again, s2) = rag_readCache window now s1
      in \<lparr>rag_mode = Option.bind m id, rag_loading = (again = None), rag_store = s2\<rparr>)"

text \<open>
  The effect once the health request has settled; \<open>cancelled\<close> is set when the component has
  gone. \<open>resp.mode ?? "pro"\<close>: absent or null counts as the full engine.
\<close>

definition rag_settled :: "bool \<Rightarrow> int \<Rightarrow> bool \<Rightarrow> unit + json \<Rightarrow> rag_hook \<Rightarrow> rag_hook" where
  "rag_settled window now cancelled r h =
     (if cancelled then h
      else (case r of
              Inr resp \<Rightarrow>
                (let m = (case json_get resp ''mode'' of
                            None \<Rightarrow> JString ''pro'' | Some JNull \<Rightarrow> JString ''pro'' | Some m \<Rightarrow> m)
                 in h\<lparr>rag_mode := Some m, rag_store := rag_writeCache window m now (rag_store h),
                      rag_loading := False\<rparr>)
            | Inl _ \<Rightarrow> h\<lparr>rag_mode := None, rag_loading := False\<rparr>))"

subsection \<open>The route guard\<close>

text \<open>What the guard renders; the placeholder carries the fallback of the display name.\<close>

datatype guard_view = Spinner | Nothing | Placeholder json | Children

definition ModuleGuard :: "services_ctx \<Rightarrow> string \<Rightarrow> bool \<Rightarrow> guard_view" where
  "ModuleGuard c module redirect =
     (if loading c then Spinner
      else if \<not> isModuleEnabled c module then
        (if redirect then Nothing
         else Placeholder
           (case Option.bind (getModule c module) (\<lambda>i. json_get i ''display_name'') of
              None \<Rightarrow> JString module | Some JNull \<Rightarrow> JString module | Some d \<Rightarrow> d))
      else Children)"

text \<open>The effect of the guard: the route it replaces the current one by, if any.\<close>

definition ModuleGuard_effect :: "services_ctx \<Rightarrow> string \<Rightarrow> bool \<Rightarrow> string \<Rightarrow> string option" where
  "ModuleGuard_effect c module redirect redirectTo =
     (if \<not> loading c \<and> \<not> isModuleEnabled c module \<and> redirect then Some redirectTo else None)"

subsection \<open>The entry of the chat\<close>

datatype chat_entry = ToLogin | Cancelled | Ready "string list"

text \<open>
  The requests of \<^verbatim>\<open>routes/chat.tsx\<close> in order: the user, the manifest, the access rights;
  \<open>Inl\<close> is a failed request. \<open>c1\<close> and \<open>c2\<close> say whether the component had gone when the
  first and the last of them settled. \<open>Ready\<close> carries the permission keys.
\<close>

text \<open>
  The search for the chat module: a null before the module raises a \<open>TypeError\<close> (\<open>None\<close>), as does an
  answer without an array of services. Errors of this check are caught and the user is let in.
\<close>

fun find_chat :: "json list \<Rightarrow> json option option" where
  "find_chat [] = Some None"
| "find_chat (JNull # xs) = None"
| "find_chat (x # xs) = (if json_get x ''name'' = Some (JString ''chat'') then Some (Some x) else find_chat xs)"

definition chat_allowed :: "unit + json \<Rightarrow> bool" where
  "chat_allowed manifest =
     (case manifest of
        Inl _ \<Rightarrow> True
      | Inr m \<Rightarrow>
          (case json_get m ''services'' of
             Some (JArray xs) \<Rightarrow>
               (case find_chat xs of
                  None \<Rightarrow> True
                | Some None \<Rightarrow> False
                | Some (Some svc) \<Rightarrow> json_truthy (json_get svc ''enabled''))
           | _ \<Rightarrow> True))"

definition chat_guard ::
  "unit + unit \<Rightarrow> unit + json \<Rightarrow> unit + bool \<times> (string \<times> string) list \<Rightarrow> bool \<Rightarrow> bool \<Rightarrow> chat_entry" where
  "chat_guard me manifest access c1 c2 =
     (case me of
        Inl _ \<Rightarrow> (if c1 then Cancelled else ToLogin)
      | Inr _ \<Rightarrow>
         if c1 then Cancelled
         else if \<not> chat_allowed manifest then ToLogin
         else if c2 then Cancelled
         else Ready (case access of
                       Inl _ \<Rightarrow> []
                     | Inr (is_superuser, perms) \<Rightarrow>
                         if is_superuser then [''*'']
                         else map (\<lambda>(r, a). r @ '':'' @ a) perms))"

text \<open>\<open>canDebug\<close> of \<^verbatim>\<open>pages/chat/ChatPage.tsx\<close>.\<close>

definition canDebug :: "string list \<Rightarrow> bool" where
  "canDebug perms = (''*'' \<in> set perms \<or> ''chat.debug:read'' \<in> set perms)"

subsection \<open>Properties\<close>

definition fetches ::
  "bool \<Rightarrow> (int \<times> (string option + json)) list \<Rightarrow> services_ctx \<Rightarrow> services_ctx" where
  "fetches window rs c = fold (\<lambda>(now, r). fetchManifest window now r) rs c"

text \<open>The services of the last request that succeeded, else what was there before.\<close>

fun last_services :: "json list \<Rightarrow> (int \<times> (string option + json)) list \<Rightarrow> json list" where
  "last_services xs [] = xs"
| "last_services xs ((now, Inr m) # rs) = last_services (services_of m) rs"
| "last_services xs ((now, Inl e) # rs) = last_services xs rs"

lemma fetches_services: "services (fetches w rs c) = last_services (services c) rs"
  by (induction "services c" rs arbitrary: c rule: last_services.induct)
    (simp_all add: fetches_def fetchManifest_def)

lemma find_rev_SomeD: "find P (rev xs) = Some x \<Longrightarrow> x \<in> set xs \<and> P x"
  by (auto simp: find_Some_iff) (metis nth_mem set_rev length_rev)

text \<open>
  C4: a guarded page is shown only for a module that the last successful answer of the backend
  (or the session cache, before any) lists with \<open>enabled\<close> true, where RAG Lite may stand in for
  RAG; a failed request never enables anything.
\<close>

theorem guard_shows_enabled_only:
  assumes "ModuleGuard (fetches w rs c) module redirect = Children"
  shows "\<exists>svc \<in> set (last_services (services c) rs).
           json_get svc ''enabled'' = Some (JBool True)
           \<and> (json_get svc ''name'' = Some (JString module)
              \<or> module = ''rag'' \<and> json_get svc ''name'' = Some (JString ''rag_lite''))"
proof -
  have "svc_enabled (getModule (fetches w rs c) module)
      \<or> module = ''rag'' \<and> svc_enabled (getModule (fetches w rs c) ''rag_lite'')"
    using assms by (auto simp: ModuleGuard_def isModuleEnabled_def split: if_splits)
  then show ?thesis
    unfolding svc_enabled_def getModule_def fetches_services
    by (auto dest!: find_rev_SomeD split: option.splits)
qed

definition lite_manifest :: json where
  "lite_manifest = JObject [(''services'', JArray
     [JObject [(''name'', JString ''rag_lite''), (''enabled'', JBool True)]])]"

lemma guard_shows_enabled_only_witness:
  "\<exists>svc \<in> set (last_services [] [(7, Inr lite_manifest), (8, Inl None)]).
     json_get svc ''enabled'' = Some (JBool True)
     \<and> (json_get svc ''name'' = Some (JString ''rag'')
        \<or> ''rag'' = ''rag'' \<and> json_get svc ''name'' = Some (JString ''rag_lite''))"
proof -
  let ?c = "ServicesProvider_init True 0 (Storage False None)"
  let ?rs = "[(7, Inr lite_manifest), (8, Inl None)]"
  have "ModuleGuard (fetches True ?rs ?c) ''rag'' True = Children"
    by (simp add: fetches_def fetchManifest_def ModuleGuard_def isModuleEnabled_def getModule_def
        svc_enabled_def lite_manifest_def services_of_def)
  from guard_shows_enabled_only [OF this] show ?thesis
    by (simp add: ServicesProvider_init_def services_readCache_def read_session_cache_def)
qed

text \<open>
  The guard is consistent: it redirects exactly when it renders nothing, so no page is left
  blank without a redirect and no redirect leaves a page that is shown, and while the first
  request is under way it neither shows the page nor redirects.
\<close>

theorem guard_redirect_iff_blank:
  "(ModuleGuard c module redirect = Nothing) = (ModuleGuard_effect c module redirect to \<noteq> None)
   \<and> (loading c \<longrightarrow> ModuleGuard c module redirect = Spinner
        \<and> ModuleGuard_effect c module redirect to = None)"
  by (simp add: ModuleGuard_def ModuleGuard_effect_def)

lemma guard_redirect_iff_blank_witness:
  "loading (ServicesProvider_init False 0 Disabled)
   \<and> ModuleGuard (ServicesProvider_init False 0 Disabled) ''pii'' True = Spinner"
proof -
  have l: "loading (ServicesProvider_init False 0 Disabled)"
    by (simp add: ServicesProvider_init_def services_readCache_def read_session_cache_def)
  with guard_redirect_iff_blank [of "ServicesProvider_init False 0 Disabled" "''pii''" True "''/''"]
  show ?thesis by simp
qed

text \<open>
  The manifest survives a reload for a minute: after a successful request at time \<open>t\<close> a
  provider that mounts on the same storage starts with exactly the services of that answer and
  not loading before \<open>t\<close> plus 60000, and with nothing and loading from then on.
\<close>

theorem services_survive_reload:
  assumes "writable (ctx_store c)"
  shows "let c' = ServicesProvider_init True now (ctx_store (fetchManifest True t (Inr m) c))
         in (now < t + 60000 \<longrightarrow> services c' = services_of m \<and> \<not> loading c')
          \<and> (t + 60000 \<le> now \<longrightarrow> services c' = [] \<and> loading c')"
proof -
  let ?s = "write_session_cache ''manifest'' True m t (ctx_store c)"
  have fresh: "read_session_cache ''manifest'' True now ?s = (Some (Some m), ?s)"
    if "now < t + 60000"
    using assms that
    by (simp add: read_session_cache_def write_session_cache_def getItem_attempt_set expired_def
        CACHE_TTL_MS_def)
  have stale: "read_session_cache ''manifest'' True now ?s = (None, attempt (removeItem ?s) ?s)
      \<and> read_session_cache ''manifest'' True now (attempt (removeItem ?s) ?s)
          = (None, attempt (removeItem ?s) ?s)"
    if "t + 60000 \<le> now"
    using assms that
    by (simp add: read_session_cache_def write_session_cache_def getItem_attempt_set
        getItem_attempt_remove expired_def CACHE_TTL_MS_def)
  show ?thesis
    using fresh stale
    by (auto simp: ServicesProvider_init_def fetchManifest_def services_readCache_def
        services_writeCache_def Let_def)
qed

definition lite_start :: services_ctx where
  "lite_start = ServicesProvider_init True 0 (Storage False None)"

lemma services_survive_reload_witness:
  "let c' = ServicesProvider_init True 60006 (ctx_store (fetchManifest True 7 (Inr lite_manifest) lite_start))
   in services c' = services_of lite_manifest \<and> \<not> loading c'"
proof -
  have "writable (ctx_store lite_start)"
    by (simp add: lite_start_def ServicesProvider_init_def services_readCache_def read_session_cache_def)
  from services_survive_reload [OF this, of 60006 7 lite_manifest]
  show ?thesis by (simp add: Let_def)
qed

lemma first_with_Cons:
  "(\<exists>ys v zs. x # xs = ys @ v # zs \<and> (\<forall>y \<in> set ys. N y) \<and> Q v)
     \<longleftrightarrow> Q x \<or> N x \<and> (\<exists>ys v zs. xs = ys @ v # zs \<and> (\<forall>y \<in> set ys. N y) \<and> Q v)"
proof
  assume "\<exists>ys v zs. x # xs = ys @ v # zs \<and> (\<forall>y \<in> set ys. N y) \<and> Q v"
  then obtain ys v zs where s: "x # xs = ys @ v # zs" "\<forall>y \<in> set ys. N y" "Q v" by blast
  then show "Q x \<or> N x \<and> (\<exists>ys v zs. xs = ys @ v # zs \<and> (\<forall>y \<in> set ys. N y) \<and> Q v)"
    by (cases ys) auto
next
  assume "Q x \<or> N x \<and> (\<exists>ys v zs. xs = ys @ v # zs \<and> (\<forall>y \<in> set ys. N y) \<and> Q v)"
  then show "\<exists>ys v zs. x # xs = ys @ v # zs \<and> (\<forall>y \<in> set ys. N y) \<and> Q v"
  proof
    assume "Q x"
    then have "x # xs = [] @ x # xs \<and> (\<forall>y \<in> set []. N y) \<and> Q x" by simp
    then show ?thesis by blast
  next
    assume "N x \<and> (\<exists>ys v zs. xs = ys @ v # zs \<and> (\<forall>y \<in> set ys. N y) \<and> Q v)"
    then obtain ys v zs where "xs = ys @ v # zs" "\<forall>y \<in> set ys. N y" "Q v" "N x" by blast
    then have "x # xs = (x # ys) @ v # zs \<and> (\<forall>y \<in> set (x # ys). N y) \<and> Q v" by simp
    then show ?thesis by blast
  qed
qed

definition not_chat :: "json \<Rightarrow> bool" where
  "not_chat y = (y \<noteq> JNull \<and> json_get y ''name'' \<noteq> Some (JString ''chat''))"

definition lets_in :: "json \<Rightarrow> bool" where
  "lets_in svc = (svc = JNull \<or> json_get svc ''name'' = Some (JString ''chat'') \<and> json_truthy (json_get svc ''enabled''))"

lemma find_chat_first:
  "(case find_chat xs of None \<Rightarrow> True | Some None \<Rightarrow> False | Some (Some svc) \<Rightarrow> json_truthy (json_get svc ''enabled''))
     \<longleftrightarrow> (\<exists>ys svc zs. xs = ys @ svc # zs \<and> (\<forall>y \<in> set ys. not_chat y) \<and> lets_in svc)"
proof (induction xs)
  case (Cons x xs)
  show ?case
  proof (cases "x = JNull")
    case True
    then show ?thesis unfolding first_with_Cons by (simp add: lets_in_def)
  next
    case False
    then have "find_chat (x # xs) = (if json_get x ''name'' = Some (JString ''chat'') then Some (Some x) else find_chat xs)"
      by (cases x) simp_all
    then show ?thesis
      unfolding first_with_Cons using False Cons by (simp add: lets_in_def not_chat_def)
  qed
qed simp

text \<open>
  C23: who gets into the chat, exactly. The session check succeeded, the page is still there, and the answer about
  the services does not switch the chat off: it failed, has no array of services, or the first of its
  services that is named chat has \<open>enabled\<close> true (a null before that one makes the check fail, which lets
  the user in). The permissions are exactly the pairs of the access answer, the star alone for a superuser, and
  none when that answer failed.
\<close>

theorem chat_guard_sound:
  "chat_guard me manifest access c1 c2 = Ready perms \<longleftrightarrow>
     me = Inr () \<and> \<not> c1 \<and> \<not> c2
   \<and> (\<forall>m xs. manifest = Inr m \<and> json_get m ''services'' = Some (JArray xs) \<longrightarrow>
        (\<exists>ys svc zs. xs = ys @ svc # zs
           \<and> (\<forall>y \<in> set ys. y \<noteq> JNull \<and> json_get y ''name'' \<noteq> Some (JString ''chat''))
           \<and> (svc = JNull \<or> json_get svc ''name'' = Some (JString ''chat'') \<and> json_truthy (json_get svc ''enabled''))))
   \<and> perms = (case access of Inl _ \<Rightarrow> [] | Inr (su, ps) \<Rightarrow> if su then [''*''] else map (\<lambda>(r, a). r @ '':'' @ a) ps)"
proof -
  have a: "chat_allowed manifest \<longleftrightarrow> (\<forall>m xs. manifest = Inr m \<and> json_get m ''services'' = Some (JArray xs) \<longrightarrow>
      (\<exists>ys svc zs. xs = ys @ svc # zs \<and> (\<forall>y \<in> set ys. not_chat y) \<and> lets_in svc))"
    unfolding chat_allowed_def find_chat_first by (simp split: sum.split option.split json.split)
  have g: "chat_guard me manifest access c1 c2 = Ready perms \<longleftrightarrow> me = Inr () \<and> \<not> c1 \<and> \<not> c2 \<and> chat_allowed manifest
      \<and> perms = (case access of Inl _ \<Rightarrow> [] | Inr (su, ps) \<Rightarrow> if su then [''*''] else map (\<lambda>(r, a). r @ '':'' @ a) ps)"
    unfolding chat_guard_def by (cases me) (simp_all add: eq_commute [of perms])
  show ?thesis unfolding g a not_chat_def lets_in_def by blast
qed

lemma chat_guard_sound_witness:
  "chat_guard (Inr ()) (Inr (JObject [(''services'', JArray [JObject [(''name'', JString ''chat''), (''enabled'', JBool True)]])]))
     (Inr (False, [(''chat.debug'', ''read'')])) False False = Ready [''chat.debug:read'']"
proof -
  let ?svc = "JObject [(''name'', JString ''chat''), (''enabled'', JBool True)]"
  have "\<exists>ys svc zs. [?svc] = ys @ svc # zs
      \<and> (\<forall>y \<in> set ys. y \<noteq> JNull \<and> json_get y ''name'' \<noteq> Some (JString ''chat''))
      \<and> (svc = JNull \<or> json_get svc ''name'' = Some (JString ''chat'') \<and> json_truthy (json_get svc ''enabled''))"
    by (rule exI [of _ "[]"], rule exI [of _ ?svc], rule exI [of _ "[]"]) simp
  then show ?thesis unfolding chat_guard_sound by simp
qed

text \<open>
  The debug view is open to superusers and to holders of its permission only, and to nobody when the rights
  could not be fetched.
\<close>

theorem debug_needs_right:
  assumes "chat_guard me manifest access c1 c2 = Ready perms" "canDebug perms"
  shows "\<exists>su ps. access = Inr (su, ps) \<and> (su \<or> (\<exists>(r, a) \<in> set ps. r @ '':'' @ a \<in> {''*'', ''chat.debug:read''}))"
proof -
  have "perms = (case access of Inl _ \<Rightarrow> [] | Inr (su, ps) \<Rightarrow> if su then [''*''] else map (\<lambda>(r, a). r @ '':'' @ a) ps)"
    using assms(1) unfolding chat_guard_def by (cases me) (simp_all split: if_splits)
  with assms(2) show ?thesis
    by (cases access) (force simp: canDebug_def split: if_splits prod.splits)+
qed

lemma debug_needs_right_witness:
  "\<exists>su ps. (Inr (False, [(''chat.debug'', ''read'')]) :: unit + bool \<times> (string \<times> string) list) = Inr (su, ps)
     \<and> (su \<or> (\<exists>(r, a) \<in> set ps. r @ '':'' @ a \<in> {''*'', ''chat.debug:read''}))"
proof (rule debug_needs_right)
  show "chat_guard (Inr ()) (Inl ()) (Inr (False, [(''chat.debug'', ''read'')])) False False = Ready [''chat.debug:read'']"
    by (simp add: chat_guard_def chat_allowed_def)
  show "canDebug [''chat.debug:read'']" by (simp add: canDebug_def)
qed

end
