(* ===== verification/Route_Match.thy ===== *)
theory Route_Match
  imports Prelude
begin

text \<open>
  Tables of route prefixes that are searched from the top, the first prefix of the path
  winning: the page titles of \<^verbatim>\<open>lib/adminConstants.tsx\<close> and the page help of
  \<^verbatim>\<open>lib/pageHelp.ts\<close>. Both rely on the more specific prefixes coming first, which is the
  assumption of the locale below; it makes the first match the longest one and keeps every
  entry reachable.
\<close>

definition first_match :: "(string \<times> 'a) list \<Rightarrow> string \<Rightarrow> (string \<times> 'a) option" where
  "first_match rules path = find (\<lambda>(p, x). starts_with path p) rules"

lemma first_match_None:
  "first_match rules path = None \<longleftrightarrow> list_all (\<lambda>p. \<not> starts_with path p) (map fst rules)"
  by (auto simp: first_match_def find_None_iff list_all_iff)

text \<open>A longer path still matches: what has an entry keeps having one.\<close>

lemma first_match_extend:
  assumes "first_match rules p \<noteq> None" and "prefix p q"
  shows "first_match rules q \<noteq> None"
  using assms by (auto simp: first_match_None list_all_iff js_string intro: prefix_order.trans)

text \<open>A prefix that is comparable with no rule can be continued in any way without matching.\<close>

lemma first_match_incomparable:
  assumes "list_all (\<lambda>(p, x). \<not> starts_with p q \<and> \<not> starts_with q p) rules"
  shows "first_match rules (q @ r) = None"
proof -
  have "\<not> prefix p (q @ r)" if "(p, x) \<in> set rules" for p x
  proof
    assume "prefix p (q @ r)"
    moreover have "prefix q (q @ r)" by simp
    ultimately have "prefix p q \<or> prefix q p" by (metis prefix_same_cases)
    with assms that show False by (auto simp: js_string list_all_iff)
  qed
  then show ?thesis by (auto simp: first_match_None list_all_iff js_string)
qed

definition specific_before :: "(string \<times> 'a) list \<Rightarrow> bool" where
  "specific_before rules = sorted_wrt (\<lambda>p q. \<not> starts_with q p) (map fst rules)"

lemma find_before:
  assumes "sorted_wrt R xs" "find P xs = Some x" "y \<in> set xs" "P y"
  shows "x = y \<or> R x y"
  using assms by (induction xs) (auto split: if_splits)

locale prefix_table =
  fixes rules :: "(string \<times> 'a) list"
  assumes specific: "specific_before rules"
begin

lemma first_is_longest:
  assumes m: "first_match rules path = Some (p, x)" and q: "(q, y) \<in> set rules" "starts_with path q"
  shows "starts_with p q"
proof -
  have p: "starts_with path p"
    using m find_SomeD [of "\<lambda>(p, x). starts_with path p" rules] by (auto simp: first_match_def)
  have "sorted_wrt (\<lambda>a b. \<not> starts_with (fst b) (fst a)) rules"
    using specific by (simp add: specific_before_def sorted_wrt_map)
  from find_before [OF this m [unfolded first_match_def] q(1)] q(2)
  have "p = q \<or> \<not> prefix p q" by (auto simp: js_string)
  moreover have "prefix p q \<or> prefix q p"
    using p q(2) by (metis prefix_same_cases starts_with_prefix)
  ultimately show ?thesis by (auto simp: js_string)
qed

lemma entry_live:
  assumes "(p, x) \<in> set rules"
  shows "first_match rules p = Some (p, x)"
proof -
  have d: "sorted_wrt (\<lambda>a b. \<not> starts_with (fst b) (fst a)) rules"
    using specific by (simp add: specific_before_def sorted_wrt_map)
  obtain q y where m: "first_match rules p = Some (q, y)"
    using assms by (cases "first_match rules p") (auto simp: first_match_None list_all_iff)
  then have "starts_with p q"
    using find_SomeD [of "\<lambda>(q, x). starts_with p q" rules] by (auto simp: first_match_def)
  with find_before [OF d m [unfolded first_match_def] assms] m show ?thesis by auto
qed

end

end
