(* ===== verification/Admin_Nav.thy ===== *)
theory Admin_Nav
  imports Route_Match
begin

text \<open>
  The static structure of the admin area: the navigation tree \<open>NAV\<close> and the page titles of
  \<^verbatim>\<open>lib/adminConstants.tsx\<close> and the route table of \<^verbatim>\<open>routes.ts\<close>. The icons of the
  entries and the page components of the routes are not modelled.
\<close>

subsection \<open>The navigation tree\<close>

datatype rag_mode = Lite | Pro

record nav_child =
  c_to :: string
  c_labelKey :: string
  c_permission :: "string option"
  c_module :: "string option"
  c_ragMode :: "rag_mode option"

datatype nav_entry =
    NavGroup (ne_id: string) (ne_label: string) (ne_module: "string option") (ne_children: "nav_child list")
  | NavLeaf (ne_id: string) (ne_to: string) (ne_label: string) (ne_permission: "string option")
      (ne_module: "string option") (ne_superuserOnly: bool)

definition nav_dashboard :: nav_entry where
  "nav_dashboard = NavLeaf ''dashboard'' ''/admin/dashboard'' ''nav.dashboard'' None None False"

definition nav_observability :: nav_entry where
  "nav_observability = NavGroup ''observability'' ''nav.observability_group'' None
     [\<lparr>c_to = ''/admin/observability'', c_labelKey = ''nav.cost_dashboard'', c_permission = Some ''observability:read'',
       c_module = None, c_ragMode = None\<rparr>,
      \<lparr>c_to = ''/admin/security-map'', c_labelKey = ''nav.data_residency'', c_permission = None,
       c_module = None, c_ragMode = None\<rparr>,
      \<lparr>c_to = ''/admin/llm/agent-trace'', c_labelKey = ''nav.llm_calls'', c_permission = Some ''llm.graph:read'',
       c_module = None, c_ragMode = None\<rparr>]"

definition nav_containers :: nav_entry where
  "nav_containers = NavGroup ''containers'' ''nav.containers_group'' None
     [\<lparr>c_to = ''/admin/containers'', c_labelKey = ''nav.containers'', c_permission = Some ''containers:read'',
       c_module = None, c_ragMode = None\<rparr>,
      \<lparr>c_to = ''/admin/images'', c_labelKey = ''nav.images'', c_permission = Some ''images:read'',
       c_module = None, c_ragMode = None\<rparr>,
      \<lparr>c_to = ''/admin/networks'', c_labelKey = ''nav.networks'', c_permission = Some ''networks:read'',
       c_module = None, c_ragMode = None\<rparr>,
      \<lparr>c_to = ''/admin/stacks'', c_labelKey = ''nav.stacks'', c_permission = Some ''stacks:read'',
       c_module = None, c_ragMode = None\<rparr>]"

definition nav_llm :: nav_entry where
  "nav_llm = NavGroup ''llm'' ''nav.llm_group'' None
     [\<lparr>c_to = ''/admin/llm/providers'', c_labelKey = ''nav.providers'', c_permission = Some ''llm.providers:read'',
       c_module = None, c_ragMode = None\<rparr>,
      \<lparr>c_to = ''/admin/llm/models'', c_labelKey = ''nav.models'', c_permission = Some ''llm.models:read'',
       c_module = None, c_ragMode = None\<rparr>,
      \<lparr>c_to = ''/admin/llm/endpoint'', c_labelKey = ''nav.endpoint'', c_permission = Some ''llm.graph:read'',
       c_module = None, c_ragMode = None\<rparr>]"

definition nav_utilities :: nav_entry where
  "nav_utilities = NavGroup ''utilities'' ''nav.utilities_group'' None
     [\<lparr>c_to = ''/admin/nodes'', c_labelKey = ''nav.nodes'', c_permission = Some ''system.nodes:read'',
       c_module = None, c_ragMode = None\<rparr>,
      \<lparr>c_to = ''/admin/nodes/profiles'', c_labelKey = ''nav.node_profiles'', c_permission = Some ''system.node_profiles:read'',
       c_module = None, c_ragMode = None\<rparr>,
      \<lparr>c_to = ''/admin/scheduler'', c_labelKey = ''nav.scheduler'', c_permission = Some ''llm.jobs:read'',
       c_module = None, c_ragMode = None\<rparr>,
      \<lparr>c_to = ''/admin/logs'', c_labelKey = ''nav.logs'', c_permission = Some ''logs:read'',
       c_module = None, c_ragMode = None\<rparr>]"

definition nav_access_control :: nav_entry where
  "nav_access_control = NavGroup ''access-control'' ''nav.access_control_group'' None
     [\<lparr>c_to = ''/admin/users'', c_labelKey = ''nav.users'', c_permission = None,
       c_module = None, c_ragMode = None\<rparr>,
      \<lparr>c_to = ''/admin/roles'', c_labelKey = ''nav.roles'', c_permission = None,
       c_module = None, c_ragMode = None\<rparr>,
      \<lparr>c_to = ''/admin/groups'', c_labelKey = ''nav.groups'', c_permission = None,
       c_module = None, c_ragMode = None\<rparr>,
      \<lparr>c_to = ''/admin/auth-providers'', c_labelKey = ''nav.auth_providers'', c_permission = None,
       c_module = Some ''auth'', c_ragMode = None\<rparr>]"

definition nav_pii :: nav_entry where
  "nav_pii = NavGroup ''pii'' ''nav.pii_group'' (Some ''pii'')
     [\<lparr>c_to = ''/admin/pii/dashboard'', c_labelKey = ''nav.pii_dashboard'', c_permission = None,
       c_module = None, c_ragMode = None\<rparr>,
      \<lparr>c_to = ''/admin/pii/activity'', c_labelKey = ''nav.pii_activity'', c_permission = None,
       c_module = None, c_ragMode = None\<rparr>,
      \<lparr>c_to = ''/admin/pii/policies'', c_labelKey = ''nav.pii_policies'', c_permission = None,
       c_module = None, c_ragMode = None\<rparr>]"

definition nav_rag :: nav_entry where
  "nav_rag = NavGroup ''rag'' ''nav.rag_group'' (Some ''rag'')
     [\<lparr>c_to = ''/admin/rag/knowledge-base'', c_labelKey = ''nav.rag_knowledge_base'', c_permission = Some ''rag.search:read'',
       c_module = None, c_ragMode = Some Lite\<rparr>,
      \<lparr>c_to = ''/admin/rag/collectors'', c_labelKey = ''nav.rag_collectors'', c_permission = Some ''rag.jobs:read'',
       c_module = None, c_ragMode = Some Pro\<rparr>,
      \<lparr>c_to = ''/admin/rag/explorer'', c_labelKey = ''nav.rag_explorer'', c_permission = Some ''rag.containers:read'',
       c_module = None, c_ragMode = Some Pro\<rparr>,
      \<lparr>c_to = ''/admin/rag/publishes'', c_labelKey = ''nav.rag_publishes'', c_permission = Some ''rag.publish:read'',
       c_module = None, c_ragMode = Some Pro\<rparr>,
      \<lparr>c_to = ''/admin/rag/search'', c_labelKey = ''nav.rag_search'', c_permission = Some ''rag.search:read'',
       c_module = None, c_ragMode = None\<rparr>,
      \<lparr>c_to = ''/admin/rag/runtime'', c_labelKey = ''nav.rag_runtime'', c_permission = Some ''rag.runtime:read'',
       c_module = None, c_ragMode = None\<rparr>]"

definition nav_chat_workspace :: nav_entry where
  "nav_chat_workspace = NavGroup ''chat-workspace'' ''nav.chat_group'' (Some ''chat'')
     [\<lparr>c_to = ''/admin/chat/projects'', c_labelKey = ''nav.chat_projects'', c_permission = None,
       c_module = None, c_ragMode = None\<rparr>,
      \<lparr>c_to = ''/admin/chat/sessions'', c_labelKey = ''nav.chat_sessions'', c_permission = None,
       c_module = None, c_ragMode = None\<rparr>,
      \<lparr>c_to = ''/admin/chat/attachments'', c_labelKey = ''nav.chat_attachments'', c_permission = None,
       c_module = None, c_ragMode = None\<rparr>]"

definition nav_extensions :: nav_entry where
  "nav_extensions = NavGroup ''extensions'' ''nav.extensions_group'' None
     [\<lparr>c_to = ''/admin/mcp/servers'', c_labelKey = ''nav.mcp_hub'', c_permission = None,
       c_module = Some ''mcp'', c_ragMode = None\<rparr>,
      \<lparr>c_to = ''/admin/skills'', c_labelKey = ''nav.skills_hub'', c_permission = None,
       c_module = Some ''skills'', c_ragMode = None\<rparr>]"

definition nav_settings :: nav_entry where
  "nav_settings = NavLeaf ''settings'' ''/admin/settings?tab=general'' ''nav.settings'' None None True"

definition NAV :: "nav_entry list" where
  "NAV =
     [nav_dashboard, nav_observability, nav_containers, nav_llm,
      nav_utilities, nav_access_control, nav_pii, nav_rag,
      nav_chat_workspace, nav_extensions, nav_settings]"

definition ALL_NAV_IDS :: "string list" where
  "ALL_NAV_IDS = map ne_id NAV"

lemmas nav_defs = nav_dashboard_def nav_observability_def nav_containers_def nav_llm_def
  nav_utilities_def nav_access_control_def nav_pii_def nav_rag_def nav_chat_workspace_def
  nav_extensions_def nav_settings_def

subsection \<open>The route table\<close>

text \<open>
  The admin routes: the segments of the path (a segment that starts with a colon is a
  parameter) and the module of the guard layout around the route, if any.
\<close>

definition admin_routes :: "(string list \<times> string option) list" where
  "admin_routes =
     [([''admin''], None),
      ([''admin'', ''dashboard''], None),
      ([''admin'', ''containers''], None),
      ([''admin'', ''containers'', ''new''], None),
      ([''admin'', ''containers'', '':id''], None),
      ([''admin'', ''images''], None),
      ([''admin'', ''networks''], None),
      ([''admin'', ''stacks''], None),
      ([''admin'', ''logs''], None),
      ([''admin'', ''audit''], None),
      ([''admin'', ''settings''], None),
      ([''admin'', ''users''], None),
      ([''admin'', ''roles''], None),
      ([''admin'', ''groups''], None),
      ([''admin'', ''auth-providers''], None),
      ([''admin'', ''llm'', ''providers''], None),
      ([''admin'', ''llm'', ''models''], None),
      ([''admin'', ''llm'', ''models'', '':id''], None),
      ([''admin'', ''llm'', ''runtimes''], None),
      ([''admin'', ''llm'', ''runtimes'', '':id''], None),
      ([''admin'', ''nodes''], None),
      ([''admin'', ''nodes'', ''profiles''], None),
      ([''admin'', ''nodes'', '':id''], None),
      ([''admin'', ''scheduler''], None),
      ([''admin'', ''llm'', ''agent-trace''], None),
      ([''admin'', ''llm'', ''endpoint''], None),
      ([''admin'', ''pii'', ''dashboard''], Some ''pii''),
      ([''admin'', ''pii'', ''activity''], Some ''pii''),
      ([''admin'', ''pii'', ''policies''], Some ''pii''),
      ([''admin'', ''security-map''], None),
      ([''admin'', ''observability''], None),
      ([''admin'', ''profile''], None),
      ([''admin'', ''chat'', ''projects''], Some ''chat''),
      ([''admin'', ''chat'', ''sessions''], Some ''chat''),
      ([''admin'', ''chat'', ''attachments''], Some ''chat''),
      ([''admin'', ''rag'', ''runtime''], Some ''rag''),
      ([''admin'', ''rag'', ''collectors''], Some ''rag''),
      ([''admin'', ''rag'', ''explorer''], Some ''rag''),
      ([''admin'', ''rag'', ''publishes''], Some ''rag''),
      ([''admin'', ''rag'', ''search''], Some ''rag''),
      ([''admin'', ''rag'', ''knowledge-base''], Some ''rag''),
      ([''admin'', ''rag'', ''documents''], Some ''rag''),
      ([''admin'', ''rag'', ''collections''], Some ''rag''),
      ([''admin'', ''mcp'', ''servers''], Some ''mcp''),
      ([''admin'', ''mcp'', ''servers'', '':id''], Some ''mcp''),
      ([''admin'', ''skills''], Some ''skills''),
      ([''admin'', ''skills'', ''create''], Some ''skills''),
      ([''admin'', ''skills'', '':id''], Some ''skills'')]"

text \<open>The path of a route for given values of its parameters.\<close>

definition fill_segment :: "(string \<Rightarrow> string) \<Rightarrow> string \<Rightarrow> string" where
  "fill_segment f s = (case s of CHR '':'' # n \<Rightarrow> f n | _ \<Rightarrow> s)"

fun route_path :: "(string \<Rightarrow> string) \<Rightarrow> string list \<Rightarrow> string" where
  "route_path f [] = []"
| "route_path f (s # ss) = CHR ''/'' # fill_segment f s @ route_path f ss"

text \<open>The part of the path before the first parameter.\<close>

fun static_path :: "string list \<Rightarrow> string" where
  "static_path [] = []"
| "static_path (s # ss) =
     (case s of CHR '':'' # n \<Rightarrow> ''/'' | _ \<Rightarrow> CHR ''/'' # s @ static_path ss)"

lemma static_path_prefix: "prefix (static_path ss) (route_path f ss)"
proof (induction ss)
  case (Cons s ss)
  then show ?case
    by (cases s) (auto simp: fill_segment_def split: char.splits bool.splits)
qed simp

subsection \<open>Page titles\<close>

datatype title = Key string | Plain string

text \<open>
  The conditions of \<open>adminPageTitle\<close> up to the logs page, in order; the text of a page is
  the translation of a key or a fixed text.
\<close>

definition title_rules :: "(string \<times> title) list" where
  "title_rules =
     [(''/admin/dashboard'', Key ''dashboard.title''),
      (''/admin/security-map'', Key ''nav.data_residency''),
      (''/admin/observability'', Plain ''Cost Observability''),
      (''/admin/profile'', Key ''profile.title''),
      (''/admin/containers/new'', Key ''create_container.title''),
      (''/admin/containers/'', Key ''container_detail.page_title''),
      (''/admin/containers'', Key ''containers.title''),
      (''/admin/images'', Key ''images.title''),
      (''/admin/networks'', Key ''networks.title''),
      (''/admin/stacks'', Key ''stacks.title''),
      (''/admin/llm/providers'', Key ''llm_providers.title''),
      (''/admin/llm/models/'', Key ''llm_model_detail.page_title''),
      (''/admin/llm/models'', Key ''llm_models.title''),
      (''/admin/llm/runtimes/'', Key ''llm_runtime_detail.page_title''),
      (''/admin/llm/runtimes'', Key ''llm_providers.title''),
      (''/admin/nodes/onboarding'', Plain ''Node Onboarding''),
      (''/admin/nodes/profiles'', Plain ''Node Profiles''),
      (''/admin/nodes'', Plain ''Node Fleet''),
      (''/admin/llm/jobs'', Key ''scheduler.title''),
      (''/admin/scheduler'', Key ''scheduler.title''),
      (''/admin/llm/endpoint'', Key ''nav.endpoint''),
      (''/admin/pii/dashboard'', Key ''pii_dashboard.title''),
      (''/admin/pii/activity'', Key ''pii_log.title''),
      (''/admin/pii/policies'', Key ''pii_policy.tenants_title''),
      (''/admin/users'', Key ''users.title''),
      (''/admin/roles'', Key ''roles.title''),
      (''/admin/groups'', Key ''groups.title''),
      (''/admin/auth-providers'', Key ''auth_providers.title''),
      (''/admin/rag/runtime'', Key ''rag_runtime.title''),
      (''/admin/rag/collectors'', Key ''rag_collectors.title''),
      (''/admin/rag/explorer'', Key ''rag_explorer.title''),
      (''/admin/rag/publishes'', Key ''rag_publishes.title''),
      (''/admin/rag/search'', Key ''rag_search.title''),
      (''/admin/rag/knowledge-base'', Key ''rag_lite.knowledge_base_title''),
      (''/admin/rag/documents'', Key ''rag_lite.documents_title''),
      (''/admin/rag/collections'', Key ''rag_lite.collections_title''),
      (''/admin/chat/projects'', Key ''chat_admin.projects_title''),
      (''/admin/chat/sessions'', Key ''chat_admin.sessions_title''),
      (''/admin/chat/attachments'', Key ''chat_admin.attachments_title''),
      (''/admin/llm/agent-trace'', Key ''nav.llm_calls''),
      (''/admin/agents/api-docs'', Key ''nav.endpoint''),
      (''/admin/agents/graph'', Key ''nav.llm_calls''),
      (''/admin/llm/graph'', Key ''nav.llm_calls'')]"

text \<open>
  \<open>new URLSearchParams(search).get(k)\<close>: a leading question mark is dropped, the pieces
  between ampersands are split at the first equals sign, and plus signs and percent escapes
  are decoded.
\<close>

definition hex_value :: "char \<Rightarrow> nat option" where
  "hex_value c =
     (let n = (of_char c :: nat)
      in if 48 \<le> n \<and> n \<le> 57 then Some (n - 48)
         else if 65 \<le> n \<and> n \<le> 70 then Some (n - 55)
         else if 97 \<le> n \<and> n \<le> 102 then Some (n - 87)
         else None)"

fun form_decode :: "string \<Rightarrow> string" where
  "form_decode [] = []"
| "form_decode (c # cs) =
     (if c = CHR ''+'' then CHR '' '' # form_decode cs
      else if c = CHR ''%'' then
        (case cs of
           a # b # rest \<Rightarrow>
             (case (hex_value a, hex_value b) of
                (Some x, Some y) \<Rightarrow> char_of (16 * x + y) # form_decode rest
              | _ \<Rightarrow> c # form_decode cs)
         | _ \<Rightarrow> c # form_decode cs)
      else c # form_decode cs)"

definition query_pair :: "string \<Rightarrow> string \<times> string" where
  "query_pair p =
     (form_decode (takeWhile (\<lambda>c. c \<noteq> CHR ''='') p),
      form_decode (drop 1 (dropWhile (\<lambda>c. c \<noteq> CHR ''='') p)))"

definition search_param :: "string \<Rightarrow> string \<Rightarrow> string option" where
  "search_param search k =
     (let q = (case search of c # cs \<Rightarrow> (if c = CHR ''?'' then cs else search) | [] \<Rightarrow> [])
      in map_of (map query_pair (filter (\<lambda>p. p \<noteq> []) (split_on CHR ''&'' q))) k)"

definition page_title :: "string \<Rightarrow> string \<Rightarrow> title" where
  "page_title pathname search =
     (case first_match title_rules pathname of
        Some (p, x) \<Rightarrow> x
      | None \<Rightarrow>
         if starts_with pathname ''/admin/logs'' then
           (if search_param search ''tab'' = Some ''audit'' then Key ''logs.tab_audit''
            else Key ''logs.tab_logs'')
         else if starts_with pathname ''/admin/settings'' \<or> starts_with pathname ''/admin/users''
         then Key ''settings.title''
         else Key ''app.title'')"

fun title_text :: "(string \<Rightarrow> string) \<Rightarrow> title \<Rightarrow> string" where
  "title_text tr (Key k) = tr k"
| "title_text tr (Plain s) = s"

definition adminPageTitle :: "string \<Rightarrow> string \<Rightarrow> (string \<Rightarrow> string) \<Rightarrow> string" where
  "adminPageTitle pathname search tr = title_text tr (page_title pathname search)"

text \<open>The text the layout puts into the title of the document.\<close>

definition document_title :: "string \<Rightarrow> string \<Rightarrow> (string \<Rightarrow> string) \<Rightarrow> string" where
  "document_title pathname search tr =
     adminPageTitle pathname search tr @ '' | '' @ tr ''app.title''"

subsection \<open>Lemmas\<close>

lemma distinct_nav_ids: "distinct ALL_NAV_IDS"
  by code_simp

text \<open>
  The conditions are in the right order: the title is that of the longest prefix, and none of
  the conditions is dead.
\<close>

interpretation titles: prefix_table title_rules
  by unfold_locales code_simp

text \<open>Whether a path falls through the whole chain does not depend on the query.\<close>

definition untitled :: "string \<Rightarrow> bool" where
  "untitled p =
     list_all (\<lambda>q. \<not> starts_with p q)
       (map fst title_rules @ [''/admin/logs'', ''/admin/settings'', ''/admin/users''])"

lemma rule_titles: "list_all (\<lambda>(p, x). x \<noteq> Key ''app.title'') title_rules"
  by code_simp

lemma page_title_untitled: "(page_title p s = Key ''app.title'') = untitled p"
proof (cases "first_match title_rules p")
  case None
  moreover have "list_all (\<lambda>q. \<not> starts_with p q) (map fst title_rules)"
    using None by (simp add: first_match_None)
  ultimately show ?thesis by (simp add: page_title_def untitled_def)
next
  case (Some a)
  then have "a \<in> set title_rules" "starts_with p (fst a)"
    using find_SomeD [OF Some [unfolded first_match_def]] by auto
  then show ?thesis using Some rule_titles
    by (auto simp: page_title_def untitled_def list_all_iff split: prod.splits)
qed

subsection \<open>Properties\<close>

text \<open>
  The pages of the MCP hub and of the skills, which the navigation offers, have no title of
  their own: whatever follows the prefix, the chain of conditions falls through to the name
  of the application, so the document is called by that name twice. Every other page of the
  route table except the two redirects has a title of its own.
\<close>

theorem pages_without_title:
  "document_title (''/admin/mcp/servers'' @ r) s tr = tr ''app.title'' @ '' | '' @ tr ''app.title''
   \<and> document_title (''/admin/skills'' @ r) s tr = tr ''app.title'' @ '' | '' @ tr ''app.title''
   \<and> map fst (filter (\<lambda>(ss, g). page_title (static_path ss) s = Key ''app.title'') admin_routes) =
      [[''admin''], [''admin'', ''audit''], [''admin'', ''mcp'', ''servers''],
       [''admin'', ''mcp'', ''servers'', '':id''], [''admin'', ''skills''],
       [''admin'', ''skills'', ''create''], [''admin'', ''skills'', '':id'']]"
proof -
  have r: "list_all (\<lambda>(p, x). \<not> starts_with p ''/admin/mcp/servers'' \<and> \<not> starts_with ''/admin/mcp/servers'' p) title_rules"
    "list_all (\<lambda>(p, x). \<not> starts_with p ''/admin/skills'' \<and> \<not> starts_with ''/admin/skills'' p) title_rules"
    by code_simp+
  have "page_title (''/admin/mcp/servers'' @ r) s = Key ''app.title''"
    unfolding page_title_def first_match_incomparable [OF r(1)] by simp
  moreover have "page_title (''/admin/skills'' @ r) s = Key ''app.title''"
    unfolding page_title_def first_match_incomparable [OF r(2)] by simp
  moreover have "map fst (filter (\<lambda>(ss, g). page_title (static_path ss) s = Key ''app.title'') admin_routes) =
      [[''admin''], [''admin'', ''audit''], [''admin'', ''mcp'', ''servers''],
       [''admin'', ''mcp'', ''servers'', '':id''], [''admin'', ''skills''],
       [''admin'', ''skills'', ''create''], [''admin'', ''skills'', '':id'']]"
    unfolding page_title_untitled by code_simp
  ultimately show ?thesis by (simp add: document_title_def adminPageTitle_def)
qed

end
