(* ===== verification/Page_Help.thy ===== *)
theory Page_Help
  imports Route_Match Admin_Nav
begin

text \<open>
  The help registry of \<^verbatim>\<open>lib/pageHelp.ts\<close> behind the "About This Page" drawer: one table
  definition per section of \<open>ROUTE_MAP\<close>, and \<open>resolvePageHelp\<close>.
\<close>

record page_help_entry =
  titleKey :: string
  descriptionKey :: string
  actionKeys :: "string list"

type_synonym route_mapping = "string \<times> page_help_entry"

definition help_mapping :: "string \<Rightarrow> string \<Rightarrow> string \<Rightarrow> string list \<Rightarrow> route_mapping" where
  "help_mapping p ti de acts =
     (p, \<lparr>titleKey = ti, descriptionKey = de, actionKeys = acts\<rparr>)"

definition help_dashboard :: "route_mapping list" where
  "help_dashboard =
     [help_mapping ''/admin/dashboard'' ''page_help.dashboard.title'' ''page_help.dashboard.description''
        [''page_help.dashboard.action_health'', ''page_help.dashboard.action_containers'', ''page_help.dashboard.action_metrics'']]"

definition help_containers :: "route_mapping list" where
  "help_containers =
     [help_mapping ''/admin/containers/new'' ''page_help.create_container.title'' ''page_help.create_container.description''
        [''page_help.create_container.action_image'', ''page_help.create_container.action_config''],
      help_mapping ''/admin/containers/'' ''page_help.container_detail.title'' ''page_help.container_detail.description''
        [''page_help.container_detail.action_logs'', ''page_help.container_detail.action_restart'', ''page_help.container_detail.action_env''],
      help_mapping ''/admin/containers'' ''page_help.containers.title'' ''page_help.containers.description''
        [''page_help.containers.action_list'', ''page_help.containers.action_start_stop'', ''page_help.containers.action_create'']]"

definition help_images_networks_stacks :: "route_mapping list" where
  "help_images_networks_stacks =
     [help_mapping ''/admin/images'' ''page_help.images.title'' ''page_help.images.description''
        [''page_help.images.action_pull'', ''page_help.images.action_remove''],
      help_mapping ''/admin/networks'' ''page_help.networks.title'' ''page_help.networks.description''
        [''page_help.networks.action_inspect'', ''page_help.networks.action_create''],
      help_mapping ''/admin/stacks'' ''page_help.stacks.title'' ''page_help.stacks.description''
        [''page_help.stacks.action_manage'', ''page_help.stacks.action_deploy'']]"

definition help_observability :: "route_mapping list" where
  "help_observability =
     [help_mapping ''/admin/observability'' ''page_help.observability.title'' ''page_help.observability.description''
        [''page_help.observability.action_cost'', ''page_help.observability.action_latency'', ''page_help.observability.action_tokens'']]"

definition help_logs_audit :: "route_mapping list" where
  "help_logs_audit =
     [help_mapping ''/admin/logs'' ''page_help.logs.title'' ''page_help.logs.description''
        [''page_help.logs.action_filter'', ''page_help.logs.action_audit'']]"

definition help_security_map :: "route_mapping list" where
  "help_security_map =
     [help_mapping ''/admin/security-map'' ''page_help.security_map.title'' ''page_help.security_map.description''
        [''page_help.security_map.action_residency'', ''page_help.security_map.action_providers'']]"

definition help_llm :: "route_mapping list" where
  "help_llm =
     [help_mapping ''/admin/llm/agent-trace'' ''page_help.agent_trace.title'' ''page_help.agent_trace.description''
        [''page_help.agent_trace.action_inspect'', ''page_help.agent_trace.action_replay''],
      help_mapping ''/admin/llm/endpoint'' ''page_help.endpoint.title'' ''page_help.endpoint.description''
        [''page_help.endpoint.action_docs'', ''page_help.endpoint.action_test''],
      help_mapping ''/admin/llm/models/'' ''page_help.model_detail.title'' ''page_help.model_detail.description''
        [''page_help.model_detail.action_params'', ''page_help.model_detail.action_test''],
      help_mapping ''/admin/llm/models'' ''page_help.models.title'' ''page_help.models.description''
        [''page_help.models.action_browse'', ''page_help.models.action_pull'', ''page_help.models.action_assign''],
      help_mapping ''/admin/llm/runtimes/'' ''page_help.runtime_detail.title'' ''page_help.runtime_detail.description''
        [''page_help.runtime_detail.action_config'', ''page_help.runtime_detail.action_models''],
      help_mapping ''/admin/llm/runtimes'' ''page_help.runtimes.title'' ''page_help.runtimes.description''
        [''page_help.runtimes.action_list'', ''page_help.runtimes.action_health''],
      help_mapping ''/admin/llm/providers'' ''page_help.providers.title'' ''page_help.providers.description''
        [''page_help.providers.action_add'', ''page_help.providers.action_test'', ''page_help.providers.action_route'']]"

definition help_nodes :: "route_mapping list" where
  "help_nodes =
     [help_mapping ''/admin/nodes/profiles'' ''page_help.node_profiles.title'' ''page_help.node_profiles.description''
        [''page_help.node_profiles.action_create'', ''page_help.node_profiles.action_assign''],
      help_mapping ''/admin/nodes/'' ''page_help.node_detail.title'' ''page_help.node_detail.description''
        [''page_help.node_detail.action_status'', ''page_help.node_detail.action_drain''],
      help_mapping ''/admin/nodes'' ''page_help.nodes.title'' ''page_help.nodes.description''
        [''page_help.nodes.action_enroll'', ''page_help.nodes.action_monitor'', ''page_help.nodes.action_schedule'']]"

definition help_scheduler :: "route_mapping list" where
  "help_scheduler =
     [help_mapping ''/admin/scheduler'' ''page_help.scheduler.title'' ''page_help.scheduler.description''
        [''page_help.scheduler.action_queue'', ''page_help.scheduler.action_policies'']]"

definition help_access_control :: "route_mapping list" where
  "help_access_control =
     [help_mapping ''/admin/users'' ''page_help.users.title'' ''page_help.users.description''
        [''page_help.users.action_create'', ''page_help.users.action_roles'', ''page_help.users.action_keys''],
      help_mapping ''/admin/roles'' ''page_help.roles.title'' ''page_help.roles.description''
        [''page_help.roles.action_create'', ''page_help.roles.action_permissions''],
      help_mapping ''/admin/groups'' ''page_help.groups.title'' ''page_help.groups.description''
        [''page_help.groups.action_create'', ''page_help.groups.action_members''],
      help_mapping ''/admin/auth-providers'' ''page_help.auth_providers.title'' ''page_help.auth_providers.description''
        [''page_help.auth_providers.action_add'', ''page_help.auth_providers.action_test'']]"

definition help_pii :: "route_mapping list" where
  "help_pii =
     [help_mapping ''/admin/pii/dashboard'' ''page_help.pii_dashboard.title'' ''page_help.pii_dashboard.description''
        [''page_help.pii_dashboard.action_stats'', ''page_help.pii_dashboard.action_entities''],
      help_mapping ''/admin/pii/activity'' ''page_help.pii_activity.title'' ''page_help.pii_activity.description''
        [''page_help.pii_activity.action_filter'', ''page_help.pii_activity.action_export''],
      help_mapping ''/admin/pii/policies'' ''page_help.pii_policies.title'' ''page_help.pii_policies.description''
        [''page_help.pii_policies.action_create'', ''page_help.pii_policies.action_assign'']]"

definition help_rag :: "route_mapping list" where
  "help_rag =
     [help_mapping ''/admin/rag/knowledge-base'' ''page_help.rag_knowledge_base.title'' ''page_help.rag_knowledge_base.description''
        [''page_help.rag_knowledge_base.action_upload'', ''page_help.rag_knowledge_base.action_search''],
      help_mapping ''/admin/rag/documents'' ''page_help.rag_documents.title'' ''page_help.rag_documents.description''
        [''page_help.rag_documents.action_browse'', ''page_help.rag_documents.action_delete''],
      help_mapping ''/admin/rag/collections'' ''page_help.rag_collections.title'' ''page_help.rag_collections.description''
        [''page_help.rag_collections.action_create'', ''page_help.rag_collections.action_manage''],
      help_mapping ''/admin/rag/runtime'' ''page_help.rag_runtime.title'' ''page_help.rag_runtime.description''
        [''page_help.rag_runtime.action_config'', ''page_help.rag_runtime.action_status''],
      help_mapping ''/admin/rag/collectors'' ''page_help.rag_collectors.title'' ''page_help.rag_collectors.description''
        [''page_help.rag_collectors.action_add'', ''page_help.rag_collectors.action_schedule''],
      help_mapping ''/admin/rag/explorer'' ''page_help.rag_explorer.title'' ''page_help.rag_explorer.description''
        [''page_help.rag_explorer.action_query'', ''page_help.rag_explorer.action_chunks''],
      help_mapping ''/admin/rag/publishes'' ''page_help.rag_publishes.title'' ''page_help.rag_publishes.description''
        [''page_help.rag_publishes.action_publish'', ''page_help.rag_publishes.action_status''],
      help_mapping ''/admin/rag/search'' ''page_help.rag_search.title'' ''page_help.rag_search.description''
        [''page_help.rag_search.action_query'', ''page_help.rag_search.action_compare'']]"

definition help_chat :: "route_mapping list" where
  "help_chat =
     [help_mapping ''/admin/chat/projects'' ''page_help.chat_projects.title'' ''page_help.chat_projects.description''
        [''page_help.chat_projects.action_create'', ''page_help.chat_projects.action_models''],
      help_mapping ''/admin/chat/sessions'' ''page_help.chat_sessions.title'' ''page_help.chat_sessions.description''
        [''page_help.chat_sessions.action_browse'', ''page_help.chat_sessions.action_export''],
      help_mapping ''/admin/chat/attachments'' ''page_help.chat_attachments.title'' ''page_help.chat_attachments.description''
        [''page_help.chat_attachments.action_browse'', ''page_help.chat_attachments.action_clean'']]"

definition help_mcp :: "route_mapping list" where
  "help_mcp =
     [help_mapping ''/admin/mcp/servers/'' ''page_help.mcp_detail.title'' ''page_help.mcp_detail.description''
        [''page_help.mcp_detail.action_tools'', ''page_help.mcp_detail.action_config''],
      help_mapping ''/admin/mcp/servers'' ''page_help.mcp_servers.title'' ''page_help.mcp_servers.description''
        [''page_help.mcp_servers.action_register'', ''page_help.mcp_servers.action_health'']]"

definition help_skills :: "route_mapping list" where
  "help_skills =
     [help_mapping ''/admin/skills/create'' ''page_help.skills_create.title'' ''page_help.skills_create.description''
        [''page_help.skills_create.action_define'', ''page_help.skills_create.action_test''],
      help_mapping ''/admin/skills/'' ''page_help.skill_detail.title'' ''page_help.skill_detail.description''
        [''page_help.skill_detail.action_edit'', ''page_help.skill_detail.action_test''],
      help_mapping ''/admin/skills'' ''page_help.skills.title'' ''page_help.skills.description''
        [''page_help.skills.action_browse'', ''page_help.skills.action_create'']]"

definition help_settings :: "route_mapping list" where
  "help_settings =
     [help_mapping ''/admin/settings'' ''page_help.settings.title'' ''page_help.settings.description''
        [''page_help.settings.action_general'', ''page_help.settings.action_security'', ''page_help.settings.action_features'']]"

definition help_profile :: "route_mapping list" where
  "help_profile =
     [help_mapping ''/admin/profile'' ''page_help.profile.title'' ''page_help.profile.description''
        [''page_help.profile.action_info'', ''page_help.profile.action_password'']]"

definition ROUTE_MAP :: "route_mapping list" where
  "ROUTE_MAP =
     help_dashboard @
     help_containers @
     help_images_networks_stacks @
     help_observability @
     help_logs_audit @
     help_security_map @
     help_llm @
     help_nodes @
     help_scheduler @
     help_access_control @
     help_pii @
     help_rag @
     help_chat @
     help_mcp @
     help_skills @
     help_settings @
     help_profile"

fun resolve_in :: "route_mapping list \<Rightarrow> string \<Rightarrow> page_help_entry option" where
  "resolve_in [] pathname = None"
| "resolve_in ((p, e) # ms) pathname =
     (if starts_with pathname p then Some e else resolve_in ms pathname)"

definition resolvePageHelp :: "string \<Rightarrow> page_help_entry option" where
  "resolvePageHelp pathname = resolve_in ROUTE_MAP pathname"

subsection \<open>Lemmas\<close>

lemma resolve_in_first_match: "resolve_in ms pathname = map_option snd (first_match ms pathname)"
  by (induction ms pathname rule: resolve_in.induct) (auto simp: first_match_def)

interpretation drawer: prefix_table ROUTE_MAP
  by unfold_locales code_simp

text \<open>The two admin routes that render nothing but a redirect.\<close>

definition redirect_routes :: "string list list" where
  "redirect_routes = [[''admin''], [''admin'', ''audit'']]"

lemma static_paths_have_help:
  "list_all (\<lambda>(ss, g). ss \<in> set redirect_routes \<or> resolvePageHelp (static_path ss) \<noteq> None) admin_routes"
  by code_simp

subsection \<open>Properties\<close>

text \<open>
  The drawer shows the most specific help there is: the entry found for a path belongs to a
  prefix of the path that every other matching prefix of the table is a prefix of, so the
  first match is the longest one and no entry is shadowed by an earlier one.
\<close>

theorem page_help_most_specific:
  assumes "resolvePageHelp pathname = Some e"
  shows "\<exists>p. (p, e) \<in> set ROUTE_MAP \<and> starts_with pathname p
    \<and> list_all (\<lambda>(q, e'). starts_with pathname q \<longrightarrow> starts_with p q) ROUTE_MAP
    \<and> resolvePageHelp p = Some e"
proof -
  obtain p where m: "first_match ROUTE_MAP pathname = Some (p, e)"
    using assms by (auto simp: resolvePageHelp_def resolve_in_first_match)
  then have p: "(p, e) \<in> set ROUTE_MAP" "starts_with pathname p"
    using find_SomeD [OF m [unfolded first_match_def]] by auto
  then have "resolvePageHelp p = Some e"
    by (simp add: resolvePageHelp_def resolve_in_first_match drawer.entry_live)
  with p drawer.first_is_longest [OF m] show ?thesis
    by (auto simp: list_all_iff)
qed

lemma page_help_most_specific_witness:
  "\<exists>p e. (p, e) \<in> set ROUTE_MAP \<and> starts_with ''/admin/containers/new'' p \<and> resolvePageHelp p = Some e"
proof -
  obtain e where "resolvePageHelp ''/admin/containers/new'' = Some e"
    using drawer.entry_live by (fastforce simp: resolvePageHelp_def resolve_in_first_match
        ROUTE_MAP_def help_containers_def help_mapping_def)
  from page_help_most_specific [OF this] show ?thesis by blast
qed

text \<open>
  Every admin page has help: the path of each admin route, whatever its parameters, resolves
  to an entry, except the two routes that only redirect (\<^verbatim>\<open>/admin\<close> and
  \<^verbatim>\<open>/admin/audit\<close>).
\<close>

theorem page_help_total:
  assumes "(ss, g) \<in> set admin_routes" and "ss \<notin> set redirect_routes"
  shows "resolvePageHelp (route_path f ss) \<noteq> None"
proof -
  have "resolvePageHelp (static_path ss) \<noteq> None"
    using assms static_paths_have_help by (auto simp: list_all_iff)
  then show ?thesis
    using first_match_extend [OF _ static_path_prefix]
    by (simp add: resolvePageHelp_def resolve_in_first_match)
qed

lemma page_help_total_witness:
  "resolvePageHelp (route_path (\<lambda>x. ''42'') [''admin'', ''llm'', ''models'', '':id'']) \<noteq> None"
  by (rule page_help_total [where g = None]) code_simp+

end
