(* ===== verification/Admin_Layout.thy ===== *)
theory Admin_Layout
  imports Admin_Nav Nav_Order Access_Cache Services
begin

text \<open>
  The admin shell of \<^verbatim>\<open>routes/admin.tsx\<close>: who gets in, what the navigation shows, and the
  onboarding dialogs. The requests are inputs of the handlers: \<open>Inl\<close> is a failed request.
  \<open>encodeURIComponent\<close> works on the UTF-8 bytes, which is what the model's strings are.
\<close>

subsection \<open>Getting in\<close>

record me_access =
  me_email :: string
  me_superuser :: bool
  me_permissions :: "(string \<times> string) list"

record admin =
  authReady :: bool
  currentUserEmail :: string
  isSuper :: bool
  permissionKeys :: "string list"
  navigated :: "string option"
  access_caches :: access_world

definition permission_keys :: "me_access \<Rightarrow> string list" where
  "permission_keys acc = map (\<lambda>(r, a). r @ '':'' @ a) (me_permissions acc)"

definition applyAccessState :: "int \<Rightarrow> me_access \<Rightarrow> admin \<Rightarrow> admin" where
  "applyAccessState now acc s =
     s\<lparr>currentUserEmail := me_email acc, isSuper := me_superuser acc,
       permissionKeys := permission_keys acc, authReady := True,
       access_caches := writeCachedAccess (me_email acc) (me_superuser acc) (permission_keys acc)
         now (access_caches s)\<rparr>"

definition uri_unreserved :: "char \<Rightarrow> bool" where
  "uri_unreserved c =
     (let n = (of_char c :: nat)
      in 48 \<le> n \<and> n \<le> 57 \<or> 65 \<le> n \<and> n \<le> 90 \<or> 97 \<le> n \<and> n \<le> 122
         \<or> c \<in> set ''-_.!~*()'' \<or> n = 39)"

definition hex_digit :: "nat \<Rightarrow> char" where
  "hex_digit n = char_of (if n < 10 then 48 + n else 55 + n)"

definition encodeURIComponent :: "string \<Rightarrow> string" where
  "encodeURIComponent s =
     concat (map (\<lambda>c. if uri_unreserved c then [c]
       else [CHR ''%'', hex_digit (of_char c div 16), hex_digit (of_char c mod 16)]) s)"

definition login_query :: "string \<Rightarrow> string \<Rightarrow> string" where
  "login_query pathname search = ''?next='' @ encodeURIComponent (pathname @ search)"

definition ensureAuthenticated ::
  "string \<Rightarrow> string \<Rightarrow> int \<Rightarrow> unit + me_access \<Rightarrow> admin \<Rightarrow> admin" where
  "ensureAuthenticated pathname search now res s =
     (case res of
        Inr acc \<Rightarrow>
          if \<not> me_superuser acc then
            s\<lparr>access_caches := writeCachedAccess (me_email acc) (me_superuser acc)
                (permission_keys acc) now (access_caches s),
              navigated := Some ''/chat''\<rparr>
          else applyAccessState now acc s
      | Inl _ \<Rightarrow>
          s\<lparr>access_caches := clearCachedAccess (access_caches s),
            navigated := Some (''/login'' @ login_query pathname search)\<rparr>)"

text \<open>
  The effect on mount; the Boolean says whether the access request is sent. A storage error of
  the cache escapes.
\<close>

definition mount_with :: "access_entry option \<Rightarrow> admin \<Rightarrow> admin \<times> bool" where
  "mount_with cached s =
     (case cached of
        None \<Rightarrow> (s, True)
      | Some e \<Rightarrow>
          if \<not> isSuperuser e then (s\<lparr>navigated := Some ''/chat''\<rparr>, False)
          else (s\<lparr>currentUserEmail := email e, isSuper := isSuperuser e,
                  permissionKeys := permissions e, authReady := True\<rparr>, True))"

definition admin_mount :: "int \<Rightarrow> admin \<Rightarrow> storage_error + admin \<times> bool" where
  "admin_mount now s =
     (case readCachedAccess now (access_caches s) of
        (Inl e, w) \<Rightarrow> Inl e
      | (Inr (Some c), w) \<Rightarrow> Inr (mount_with (Some c) (s\<lparr>access_caches := w\<rparr>))
      | (Inr None, w) \<Rightarrow>
          (case readCachedAccessAnyAge w of
             (Inl e, w') \<Rightarrow> Inl e
           | (Inr c, w') \<Rightarrow> Inr (mount_with c (s\<lparr>access_caches := w'\<rparr>))))"

definition admin_start :: "access_world \<Rightarrow> admin" where
  "admin_start w = \<lparr>authReady = False, currentUserEmail = [], isSuper = False,
     permissionKeys = [], navigated = None, access_caches = w\<rparr>"

definition handleLogout :: "admin \<Rightarrow> admin" where
  "handleLogout s = s\<lparr>access_caches := clearCachedAccess (access_caches s),
     navigated := Some ''/login''\<rparr>"

subsection \<open>The login page\<close>

definition login_next :: "string \<Rightarrow> string" where
  "login_next search =
     (case search_param search ''next'' of
        Some t \<Rightarrow> if t = [] then ''/admin/dashboard'' else t
      | None \<Rightarrow> ''/admin/dashboard'')"

definition resolvePostLoginPath :: "bool \<Rightarrow> string \<Rightarrow> string" where
  "resolvePostLoginPath superuser target =
     (if \<not> superuser \<and> starts_with target ''/admin'' then ''/chat'' else target)"

subsection \<open>What the navigation shows\<close>

definition hasPermission :: "bool \<Rightarrow> string list \<Rightarrow> string option \<Rightarrow> bool" where
  "hasPermission su keys p = (\<not> truthy p \<or> su \<or> the p \<in> set keys)"

definition module_off :: "services_ctx \<Rightarrow> string option \<Rightarrow> bool" where
  "module_off c m = (truthy m \<and> \<not> isModuleEnabled c (the m))"

definition visible_child ::
  "bool \<Rightarrow> string list \<Rightarrow> services_ctx \<Rightarrow> rag_mode option \<Rightarrow> nav_child \<Rightarrow> bool" where
  "visible_child su keys c mode ch =
     (if module_off c (c_module ch) then False
      else if \<not> hasPermission su keys (c_permission ch) then False
      else if c_ragMode ch \<noteq> None \<and> mode \<noteq> None \<and> c_ragMode ch \<noteq> mode then False
      else True)"

fun visible_entry ::
  "bool \<Rightarrow> string list \<Rightarrow> services_ctx \<Rightarrow> rag_mode option \<Rightarrow> nav_entry \<Rightarrow> nav_entry option" where
  "visible_entry su keys c mode (NavLeaf i to lab perm m suOnly) =
     (if module_off c m then None
      else if suOnly \<and> \<not> su then None
      else if hasPermission su keys perm then Some (NavLeaf i to lab perm m suOnly) else None)"
| "visible_entry su keys c mode (NavGroup i lab m chs) =
     (if module_off c m then None
      else let chs' = filter (visible_child su keys c mode) chs
           in if length chs' > 0 then Some (NavGroup i lab m chs') else None)"

definition visibleEntries ::
  "bool \<Rightarrow> string list \<Rightarrow> services_ctx \<Rightarrow> rag_mode option \<Rightarrow> nav_entry list" where
  "visibleEntries su keys c mode = List.map_filter (visible_entry su keys c mode) NAV"

definition visibleById :: "nav_entry list \<Rightarrow> string \<Rightarrow> nav_entry option" where
  "visibleById vis i = map_of (rev (map (\<lambda>e. (ne_id e, e)) vis)) i"

definition mainVisible :: "nav_entry list \<Rightarrow> nav_order \<Rightarrow> nav_entry list" where
  "mainVisible vis ord = List.map_filter (visibleById vis) (mainIds ord)"

definition pinnedVisible :: "nav_entry list \<Rightarrow> nav_order \<Rightarrow> nav_entry list" where
  "pinnedVisible vis ord = List.map_filter (visibleById vis) (pinnedIds ord)"

fun entry_links :: "nav_entry \<Rightarrow> string list" where
  "entry_links (NavLeaf i to lab perm m suOnly) = [to]"
| "entry_links (NavGroup i lab m chs) = map c_to chs"

subsection \<open>Onboarding\<close>

text \<open>
  The dialogs of the profile flow. A handler that sends requests returns them beside the new
  state; whether they succeed does not matter, every failure is ignored. \<open>profile_saved\<close> and
  \<open>module_applied\<close> are the parts of \<open>handleProfileSelect\<close> and \<open>handleModuleApply\<close> after their
  requests have settled, and \<open>open_guided_setup\<close> is the guided-setup entry of the top bar. The
  state after \<open>handleResetGuides\<close> is the one after its request.
\<close>

record onboarding =
  showProfileSelect :: bool
  showModuleRecommend :: bool
  selectedProfile :: string
  profileConfirmed :: bool
  prefsLoaded :: bool
  guidedSetupActive :: bool
  guidedSetupInitialStep :: nat

definition onb_start :: onboarding where
  "onb_start = \<lparr>showProfileSelect = False, showModuleRecommend = False,
     selectedProfile = ''private'', profileConfirmed = False, prefsLoaded = False,
     guidedSetupActive = False, guidedSetupInitialStep = 0\<rparr>"

definition load_preferences :: "unit + string option \<Rightarrow> onboarding \<Rightarrow> onboarding" where
  "load_preferences res o1 =
     (let o2 = (case res of
                  Inl _ \<Rightarrow> o1
                | Inr profile \<Rightarrow>
                    if truthy profile then o1\<lparr>selectedProfile := the profile, profileConfirmed := True\<rparr>
                    else o1\<lparr>showProfileSelect := True\<rparr>)
      in o2\<lparr>prefsLoaded := True\<rparr>)"

datatype onb_request =
    UpdateProfile string
  | ClearProgress
  | EnableModule string
  | DisableModule string

definition handleProfileSelect :: "string \<Rightarrow> onboarding \<Rightarrow> onboarding \<times> onb_request list" where
  "handleProfileSelect p ob =
     (ob\<lparr>selectedProfile := p, profileConfirmed := True, showProfileSelect := False\<rparr>,
      [UpdateProfile p])"

definition profile_saved :: "onboarding \<Rightarrow> onboarding" where
  "profile_saved ob = ob\<lparr>showModuleRecommend := True\<rparr>"

definition handleProfileSkip :: "onboarding \<Rightarrow> onboarding \<times> onb_request list" where
  "handleProfileSkip ob =
     (ob\<lparr>selectedProfile := ''private'', profileConfirmed := True, showProfileSelect := False\<rparr>,
      [UpdateProfile ''private''])"

definition handleModuleApply :: "(string \<times> bool) list \<Rightarrow> onb_request list" where
  "handleModuleApply modules =
     map (\<lambda>(name, enabled). if enabled then EnableModule name else DisableModule name) modules"

definition launch_tour :: "onboarding \<Rightarrow> onboarding" where
  "launch_tour ob = ob\<lparr>guidedSetupInitialStep := 0, guidedSetupActive := True\<rparr>"

definition module_applied :: "onboarding \<Rightarrow> onboarding" where
  "module_applied ob = launch_tour (ob\<lparr>showModuleRecommend := False\<rparr>)"

definition handleModuleSkip :: "onboarding \<Rightarrow> onboarding" where
  "handleModuleSkip ob = launch_tour (ob\<lparr>showModuleRecommend := False\<rparr>)"

definition handleResetGuides :: "onboarding \<Rightarrow> onboarding \<times> onb_request list" where
  "handleResetGuides ob =
     (ob\<lparr>selectedProfile := ''private'', profileConfirmed := False, showProfileSelect := False,
         guidedSetupActive := False\<rparr>,
      [ClearProgress])"

definition open_guided_setup :: "onboarding \<Rightarrow> onboarding" where
  "open_guided_setup ob =
     (if \<not> profileConfirmed ob then ob\<lparr>showProfileSelect := True\<rparr> else launch_tour ob)"

definition tour_finished :: "onboarding \<Rightarrow> onboarding" where
  "tour_finished ob = ob\<lparr>guidedSetupActive := False\<rparr>"

lemmas onb_defs = onb_start_def load_preferences_def handleProfileSelect_def profile_saved_def
  handleProfileSkip_def launch_tour_def module_applied_def handleModuleSkip_def handleResetGuides_def
  open_guided_setup_def tour_finished_def

subsection \<open>Lemmas\<close>

lemma hex_value_digit: "n < 16 \<Longrightarrow> hex_value (hex_digit n) = Some n"
  by (auto simp: hex_value_def hex_digit_def Let_def)

lemma of_char_split: "char_of (16 * ((of_char c :: nat) div 16) + of_char c mod 16) = c"
  by (simp add: mult.commute)

lemma of_char_hex: "(of_char c :: nat) div 16 < 16" "(of_char c :: nat) mod 16 < 16"
proof -
  have "(of_char c :: nat) < 256" using nat_of_char_less_256 [of c] by simp
  then show "(of_char c :: nat) div 16 < 16" by (simp add: less_mult_imp_div_less)
qed simp

lemma decode_encode: "form_decode (encodeURIComponent s) = s"
proof (induction s)
  case Nil
  then show ?case by (simp add: encodeURIComponent_def)
next
  case (Cons c s)
  have u: "uri_unreserved c \<Longrightarrow> c \<noteq> CHR ''+'' \<and> c \<noteq> CHR ''%''"
    by (auto simp: uri_unreserved_def Let_def)
  have e: "encodeURIComponent (c # s) =
      (if uri_unreserved c then [c]
       else [CHR ''%'', hex_digit (of_char c div 16), hex_digit (of_char c mod 16)]) @ encodeURIComponent s"
    by (simp add: encodeURIComponent_def)
  show ?case
  proof (cases "uri_unreserved c")
    case True
    with u Cons e show ?thesis by simp
  next
    case False
    with Cons e show ?thesis
      by (simp add: hex_value_digit of_char_hex of_char_split)
  qed
qed

lemma hex_digit_not_amp: "n < 16 \<Longrightarrow> CHR ''&'' \<noteq> hex_digit n"
proof
  assume "n < 16" and c: "CHR ''&'' = hex_digit n"
  then have "hex_value CHR ''&'' = Some n" using hex_value_digit by simp
  moreover have "hex_value CHR ''&'' = None" by code_simp
  ultimately show False by simp
qed

lemma encoded_no_amp: "CHR ''&'' \<notin> set (encodeURIComponent s)"
proof -
  have "\<not> uri_unreserved CHR ''&''" by code_simp
  then show ?thesis
    using hex_digit_not_amp [OF of_char_hex(1)] hex_digit_not_amp [OF of_char_hex(2)]
    by (auto simp: encodeURIComponent_def split: if_splits)
qed

lemma search_param_login: "search_param (login_query p q) ''next'' = Some (p @ q)"
proof -
  have "split_on CHR ''&'' (''next='' @ encodeURIComponent (p @ q)) = [''next='' @ encodeURIComponent (p @ q)]"
    using encoded_no_amp by (intro split_on_single) auto
  moreover have "form_decode ''next'' = ''next''" by code_simp
  ultimately show ?thesis
    by (simp add: search_param_def login_query_def query_pair_def decode_encode)
qed

text \<open>Sessions: the mount, then any number of answers to access requests.\<close>

definition admin_answers ::
  "string \<Rightarrow> string \<Rightarrow> (int \<times> (unit + me_access)) list \<Rightarrow> admin \<Rightarrow> admin" where
  "admin_answers pathname search rs s =
     fold (\<lambda>(now, r). ensureAuthenticated pathname search now r) rs s"

lemma ensure_ready:
  assumes "authReady s \<longrightarrow> isSuper s"
  shows "authReady (ensureAuthenticated p q now r s) \<longrightarrow> isSuper (ensureAuthenticated p q now r s)"
  using assms by (auto simp: ensureAuthenticated_def applyAccessState_def split: sum.splits)

lemma answers_ready:
  "authReady s \<longrightarrow> isSuper s
    \<Longrightarrow> authReady (admin_answers p q rs s) \<longrightarrow> isSuper (admin_answers p q rs s)"
proof (induction rs arbitrary: s)
  case (Cons r rs)
  then show ?case
    using ensure_ready [of s p q "fst r" "snd r"]
    by (cases r) (simp add: admin_answers_def)
qed (simp add: admin_answers_def)

lemma mount_ready:
  "admin_mount now (admin_start w) = Inr (s, sent) \<Longrightarrow> authReady s \<longrightarrow> isSuper s"
  by (auto simp: admin_mount_def mount_with_def admin_start_def split: sum.splits option.splits
      prod.splits if_splits)

text \<open>The navigation of a superuser does not depend on the permissions.\<close>

lemma hasPermission_super [simp]: "hasPermission True keys p"
  by (simp add: hasPermission_def)

lemma visible_entry_super: "visible_entry True keys c mode e = visible_entry True [] c mode e"
proof -
  have "visible_child True keys c mode = visible_child True [] c mode"
    by (rule ext) (simp add: visible_child_def)
  then show ?thesis by (cases e) simp_all
qed

lemma visible_entry_id: "visible_entry su keys c mode e = Some e' \<Longrightarrow> ne_id e' = ne_id e"
  by (cases e) (auto simp: Let_def split: if_splits)

lemma map_filter_subseq_ids:
  "subseq (map ne_id (List.map_filter (visible_entry su keys c mode) es)) (map ne_id es)"
  by (induction es) (auto simp: List.map_filter_simps visible_entry_id split: option.splits)

lemma visible_ids: "distinct (map ne_id (visibleEntries su keys c mode))
    \<and> set (map ne_id (visibleEntries su keys c mode)) \<subseteq> set ALL_NAV_IDS"
proof -
  have s: "subseq (map ne_id (visibleEntries su keys c mode)) ALL_NAV_IDS"
    unfolding visibleEntries_def ALL_NAV_IDS_def by (rule map_filter_subseq_ids)
  then obtain N where n: "map ne_id (visibleEntries su keys c mode) = nths ALL_NAV_IDS N"
    by (auto simp: subseq_conv_nths)
  show ?thesis unfolding n using distinct_nav_ids set_nths_subset by (metis distinct_nthsI)
qed

lemma visibleById_inverse:
  assumes "distinct (map ne_id vis)" "e \<in> set vis"
  shows "visibleById vis (ne_id e) = Some e"
  unfolding visibleById_def
proof (rule map_of_is_SomeI)
  show "distinct (map fst (rev (map (\<lambda>e. (ne_id e, e)) vis)))"
    using assms(1) by (simp add: rev_map [symmetric] comp_def)
  show "(ne_id e, e) \<in> set (rev (map (\<lambda>e. (ne_id e, e)) vis))"
    using assms(2) by auto
qed

lemma visibleById_SomeD: "visibleById vis i = Some e \<Longrightarrow> e \<in> set vis \<and> ne_id e = i"
  by (auto simp: visibleById_def dest!: map_of_SomeD)

text \<open>Selecting by a list of identifiers selects each visible entry once.\<close>

lemma select_mset:
  assumes d: "distinct (map ne_id vis)" and i: "distinct ids" "set (map ne_id vis) \<subseteq> set ids"
  shows "mset (List.map_filter (visibleById vis) ids) = mset vis"
proof (rule mset_eq_of_distinct_set)
  show "distinct vis" using d by (simp add: distinct_map)
  have "distinct (map ne_id (List.map_filter (visibleById vis) ids))
      \<and> set (map ne_id (List.map_filter (visibleById vis) ids)) \<subseteq> set ids"
    using i(1)
  proof (induction ids)
    case (Cons i ids)
    then show ?case
      by (auto simp: List.map_filter_simps dest: visibleById_SomeD split: option.splits)
  qed (simp add: List.map_filter_simps)
  then show "distinct (List.map_filter (visibleById vis) ids)" by (simp add: distinct_map)
  show "set (List.map_filter (visibleById vis) ids) = set vis"
  proof (rule set_eqI, rule iffI)
    fix e assume "e \<in> set vis"
    then have "visibleById vis (ne_id e) = Some e" "ne_id e \<in> set ids"
      using i(2) visibleById_inverse [OF d] by auto
    then show "e \<in> set (List.map_filter (visibleById vis) ids)"
      by (auto simp: set_map_filter)
  qed (auto simp: set_map_filter dest: visibleById_SomeD)
qed

text \<open>
  Where a link of the navigation leads: its path is a static route, and the guard of the route,
  if any, asks for the module of the entry or of the link.
\<close>

definition link_guards :: "nav_entry \<Rightarrow> (string \<times> string option) list" where
  "link_guards e =
     (case e of
        NavLeaf i to lab perm m suOnly \<Rightarrow> [(to, m)]
      | NavGroup i lab m chs \<Rightarrow>
          map (\<lambda>ch. (c_to ch, if truthy m then m else c_module ch)) chs)"

definition guard_of_path :: "string \<Rightarrow> string option option" where
  "guard_of_path path = map_option snd
     (find (\<lambda>(ss, g). route_path (\<lambda>n. []) ss = path \<and> list_all (\<lambda>s. s \<noteq> [] \<and> hd s \<noteq> CHR '':'') ss) admin_routes)"

definition link_path :: "string \<Rightarrow> string" where
  "link_path l = takeWhile (\<lambda>ch. ch \<noteq> CHR ''?'') l"

lemma nav_guards_agree:
  "list_all (\<lambda>e. list_all (\<lambda>(l, m).
     (case guard_of_path (link_path l) of None \<Rightarrow> False | Some g \<Rightarrow> g = None \<or> g = m)) (link_guards e)) NAV"
  by code_simp

lemma guards_named: "list_all (\<lambda>(ss, g). g \<noteq> Some []) admin_routes"
  by code_simp

lemma visible_entry_links:
  assumes "visible_entry su keys c mode e = Some e'" "l \<in> set (entry_links e')"
  shows "\<exists>m. (l, m) \<in> set (link_guards e) \<and> \<not> module_off c m"
proof (cases e)
  case (NavGroup i lab m chs)
  then have e': "e' = NavGroup i lab m (filter (visible_child su keys c mode) chs)" "\<not> module_off c m"
    using assms(1) by (auto simp: Let_def split: if_splits)
  then obtain ch where ch: "ch \<in> set chs" "visible_child su keys c mode ch" "l = c_to ch"
    using assms(2) by auto
  then have "\<not> module_off c (c_module ch)"
    by (auto simp: visible_child_def split: if_splits)
  with e'(2) have "\<not> module_off c (if truthy m then m else c_module ch)" by simp
  with ch NavGroup show ?thesis by (auto simp: link_guards_def)
next
  case (NavLeaf i to lab perm m suOnly)
  with assms show ?thesis by (auto simp: link_guards_def split: if_splits)
qed

subsection \<open>Properties\<close>

text \<open>
  C1: The admin area is ready only for superusers: after the mount and any sequence of answers,
  good, bad or failed, the shell is shown only when the last accepted access is a superuser's,
  and then its navigation is that of a superuser, whatever the permissions are.
\<close>

theorem admin_ready_superuser:
  assumes "admin_mount now (admin_start w) = Inr (s, sent)"
    and "authReady (admin_answers p q rs s)"
  shows "isSuper (admin_answers p q rs s)
    \<and> visibleEntries (isSuper (admin_answers p q rs s)) (permissionKeys (admin_answers p q rs s)) c mode
      = visibleEntries True [] c mode"
proof -
  have "isSuper (admin_answers p q rs s)"
    using answers_ready [OF mount_ready [OF assms(1)]] assms(2) by blast
  moreover have "visibleEntries True keys c mode = visibleEntries True [] c mode" for keys
    unfolding visibleEntries_def by (rule arg_cong [where f = "\<lambda>f. List.map_filter f NAV"])
      (rule ext, rule visible_entry_super)
  ultimately show ?thesis by auto
qed

definition demo_world :: access_world where
  "demo_world = \<lparr>window = True, accessCacheMemory = None, session = Storage False None\<rparr>"

definition demo_access :: me_access where
  "demo_access = \<lparr>me_email = ''root'', me_superuser = True, me_permissions = [(''logs'', ''read'')]\<rparr>"

lemma admin_ready_superuser_witness:
  "isSuper (admin_answers ''/admin'' [] [(5, Inr demo_access)] (admin_start demo_world))"
proof -
  have "admin_mount 0 (admin_start demo_world) = Inr (admin_start demo_world, True)"
    by (simp add: admin_mount_def admin_start_def demo_world_def readCachedAccess_def
        readCachedAccessAnyAge_def mount_with_def)
  moreover have "authReady (admin_answers ''/admin'' [] [(5, Inr demo_access)] (admin_start demo_world))"
    by (simp add: admin_answers_def ensureAuthenticated_def applyAccessState_def demo_access_def)
  ultimately show ?thesis using admin_ready_superuser by blast
qed

text \<open>
  C27: Every link the navigation shows leads somewhere: its path is a static admin route, and if
  that route lies behind a module guard then the guard shows the page or its spinner, never
  the placeholder, because the module is enabled.
\<close>

theorem nav_links_reach_pages:
  assumes "e \<in> set (visibleEntries su keys c mode)" and "l \<in> set (entry_links e)"
  shows "\<exists>g. guard_of_path (link_path l) = Some g
    \<and> (g = None \<or> ModuleGuard c (the g) False \<in> {Children, Spinner})"
proof -
  obtain e' where e': "e' \<in> set NAV" "visible_entry su keys c mode e' = Some e"
    using assms(1) by (auto simp: visibleEntries_def set_map_filter)
  from visible_entry_links [OF e'(2) assms(2)]
  obtain m where m: "(l, m) \<in> set (link_guards e')" "\<not> module_off c m" by blast
  with e'(1) nav_guards_agree obtain g where
    g: "guard_of_path (link_path l) = Some g" "g = None \<or> g = m"
    by (fastforce simp: list_all_iff split: option.splits)
  have "ModuleGuard c x False \<in> {Children, Spinner}" if "g = Some x" for x
  proof -
    have "x \<noteq> []"
    proof
      assume "x = []"
      with that g(1) guards_named show False by (auto simp: guard_of_path_def list_all_iff dest!: find_SomeD)
    qed
    with that g(2) m(2) have "isModuleEnabled c x" by (auto simp: module_off_def)
    then show ?thesis by (simp add: ModuleGuard_def)
  qed
  with g(1) show ?thesis by (cases g) auto
qed

lemma nav_links_reach_pages_witness:
  "\<exists>g. guard_of_path ''/admin/settings'' = Some g
     \<and> (g = None \<or> ModuleGuard lite_start (the g) False \<in> {Children, Spinner})"
proof -
  have "nav_settings \<in> set (visibleEntries True [] lite_start None)"
    unfolding visibleEntries_def set_map_filter
    by (rule CollectI, rule bexI [where x = nav_settings])
      (auto simp: NAV_def nav_settings_def module_off_def hasPermission_def)
  moreover have "''/admin/settings?tab=general'' \<in> set (entry_links nav_settings)"
    by (simp add: nav_settings_def)
  moreover have "link_path ''/admin/settings?tab=general'' = ''/admin/settings''"
    by code_simp
  ultimately show ?thesis using nav_links_reach_pages by metis
qed

text \<open>
  The two lists of the sidebar together show every visible entry exactly once, whatever
  order the user has made of the entries.
\<close>

theorem sidebar_shows_each_once:
  assumes "mset (mainIds ord @ pinnedIds ord) = mset ALL_NAV_IDS"
  shows "mset (mainVisible (visibleEntries su keys c mode) ord
      @ pinnedVisible (visibleEntries su keys c mode) ord) = mset (visibleEntries su keys c mode)"
proof -
  let ?v = "visibleEntries su keys c mode"
  have "distinct (mainIds ord @ pinnedIds ord)"
    using assms distinct_nav_ids by (metis mset_eq_imp_distinct_iff)
  moreover have "set (mainIds ord @ pinnedIds ord) = set ALL_NAV_IDS"
    using assms by (metis mset_eq_setD)
  ultimately have "mset (List.map_filter (visibleById ?v) (mainIds ord @ pinnedIds ord)) = mset ?v"
    using visible_ids by (intro select_mset) auto
  then show ?thesis by (simp add: mainVisible_def pinnedVisible_def map_filter_append)
qed

lemma sidebar_shows_each_once_witness:
  "mset (mainVisible (visibleEntries False [] lite_start None) (reconcile_nav None ALL_NAV_IDS DEFAULT_PINNED_IDS)
      @ pinnedVisible (visibleEntries False [] lite_start None) (reconcile_nav None ALL_NAV_IDS DEFAULT_PINNED_IDS))
   = mset (visibleEntries False [] lite_start None)"
proof (rule sidebar_shows_each_once)
  have "mainIds (reconcile_nav None ALL_NAV_IDS DEFAULT_PINNED_IDS)
      @ pinnedIds (reconcile_nav None ALL_NAV_IDS DEFAULT_PINNED_IDS) = ALL_NAV_IDS"
    by code_simp
  then show "mset (mainIds (reconcile_nav None ALL_NAV_IDS DEFAULT_PINNED_IDS)
      @ pinnedIds (reconcile_nav None ALL_NAV_IDS DEFAULT_PINNED_IDS)) = mset ALL_NAV_IDS"
    by simp
qed

text \<open>
  After the login the user is where the session ended: the path the shell hands to the login
  page comes back from the query exactly, for every page and query and every character in
  them; a superuser is sent there, and a user who is not one never lands in the admin area.
\<close>

theorem login_returns_to_page:
  "login_next (login_query (CHR ''/'' # p) q) = CHR ''/'' # p @ q
   \<and> resolvePostLoginPath True t = t
   \<and> \<not> starts_with (resolvePostLoginPath False t) ''/admin''"
  using search_param_login [of "CHR ''/'' # p" q]
  by (simp add: login_next_def resolvePostLoginPath_def)

text \<open>
  Resetting the guides starts the onboarding over: from any state, the next launch of the
  guided setup opens the choice of a profile and no tour, and after the choice and the
  modules (applied or skipped) the tour is launched with the profile chosen and asked for its
  first step.
\<close>

theorem reset_restarts_onboarding:
  "let ob' = open_guided_setup (fst (handleResetGuides ob));
       chosen = profile_saved (fst (handleProfileSelect p ob'))
   in showProfileSelect ob' \<and> \<not> guidedSetupActive ob'
    \<and> showModuleRecommend chosen \<and> \<not> showProfileSelect chosen \<and> \<not> guidedSetupActive chosen
    \<and> module_applied chosen = handleModuleSkip chosen
    \<and> guidedSetupActive (handleModuleSkip chosen)
    \<and> guidedSetupInitialStep (handleModuleSkip chosen) = 0
    \<and> selectedProfile (handleModuleSkip chosen) = p
    \<and> \<not> showModuleRecommend (handleModuleSkip chosen)"
  by (simp add: onb_defs Let_def)

end
