(* ===== verification/Api_Error.thy ===== *)
theory Api_Error
  imports Prelude
begin

text \<open>
  Error answers of the API, from \<^verbatim>\<open>api/chatClient.ts\<close>: \<open>parseApiErrorMessage\<close> and
  \<open>buildApiError\<close>. \<open>JSON.parse\<close> is the argument \<open>json_parse\<close>, so that every statement holds
  whatever texts are JSON: \<open>Inr\<close> the value, or \<open>Inl\<close> the message of the syntax error.
\<close>

subsection \<open>Property access\<close>

text \<open>\<open>o?.k\<close> on a value that may be undefined or null.\<close>

definition chain :: "json option \<Rightarrow> string \<Rightarrow> json option" where
  "chain v k =
     (case v of None \<Rightarrow> None | Some JNull \<Rightarrow> None | Some j \<Rightarrow> json_get j k)"

text \<open>A truthy value of type object (which includes arrays), else null.\<close>

definition as_object :: "json option \<Rightarrow> json option" where
  "as_object v = (case v of None \<Rightarrow> None | Some j \<Rightarrow> if json_is_object j then Some j else None)"

text \<open>The first of the candidates that is a string.\<close>

fun first_string :: "json option list \<Rightarrow> string option" where
  "first_string [] = None"
| "first_string (v # vs) =
     (case json_string v of Some s \<Rightarrow> Some s | None \<Rightarrow> first_string vs)"

subsection \<open>Error messages\<close>

definition rate_limit_hint :: string where
  "rate_limit_hint =
     ''Rate limit reached (429). Please wait and retry, or choose another model/provider.''"

definition rate_limit_codes :: "string list" where
  "rate_limit_codes = [''rate_limit_error'', ''rate_limit_rpm'', ''rate_limit_tpm'']"

definition parseApiErrorMessage :: "json \<Rightarrow> nat \<Rightarrow> string option" where
  "parseApiErrorMessage payload status =
     (if \<not> json_is_object payload then None
      else
        let detail = as_object (json_get payload ''detail'');
            error = (case as_object (chain detail ''error'') of
                       Some e \<Rightarrow> Some e
                     | None \<Rightarrow> as_object (json_get payload ''error''));
            code = first_string [chain error ''code'', chain detail ''code''];
            type = first_string [chain error ''type'', chain detail ''type''];
            message = first_string [chain error ''message'', chain detail ''message'',
                                    json_get payload ''message'']
        in if status = 429 \<or> (\<exists>c \<in> set_option code. c \<in> set rate_limit_codes)
              \<or> type = Some ''rate_limit_error''
           then Some (if truthy message then ''Rate limit reached (429): '' @ the message
                      else rate_limit_hint)
           else message)"

definition buildApiError ::
  "(string \<Rightarrow> string + json) \<Rightarrow> nat \<Rightarrow> string \<Rightarrow> unit + string \<Rightarrow> string" where
  "buildApiError json_parse status statusText body =
     (let fallback = (\<lambda>text. ''API '' @ show_nat status @ '': '' @ text)
      in case body of
           Inl _ \<Rightarrow> fallback statusText
         | Inr raw \<Rightarrow>
             let text = (if raw \<noteq> [] then raw else statusText)
             in case json_parse raw of
                  Inl _ \<Rightarrow> fallback text
                | Inr parsed \<Rightarrow>
                    let m = parseApiErrorMessage parsed status
                    in if truthy m then the m else fallback text)"

subsection \<open>Lemmas\<close>

text \<open>The error shapes the gateway uses: nested in a detail, or at the top.\<close>

definition error_body :: "string \<Rightarrow> string \<Rightarrow> json" where
  "error_body ty msg = JObject [(''type'', JString ty), (''message'', JString msg)]"

lemma parse_error_shapes:
  "parseApiErrorMessage (JObject [(''error'', error_body ty msg)]) st =
     parseApiErrorMessage (JObject [(''detail'', JObject [(''error'', error_body ty msg)])]) st"
  by (simp add: parseApiErrorMessage_def error_body_def as_object_def chain_def Let_def)

lemma parse_message_429: "json_is_object j \<Longrightarrow> truthy (parseApiErrorMessage j 429)"
  by (auto simp: parseApiErrorMessage_def Let_def rate_limit_hint_def)

subsection \<open>Properties\<close>

text \<open>
  An error is never silent: whatever the answer is, readable or not, JSON or not, the
  message is not empty; with status 429 a body that is a
  JSON object is always reported as a rate limit, and an unreadable body or one that is no
  JSON is reported with the status and the text there is.
\<close>

theorem api_error_never_silent:
  "buildApiError json_parse status statusText body \<noteq> []
   \<and> (case body of
        Inl _ \<Rightarrow> buildApiError json_parse status statusText body
                 = ''API '' @ show_nat status @ '': '' @ statusText
      | Inr raw \<Rightarrow>
          (case json_parse raw of
             Inl _ \<Rightarrow> buildApiError json_parse status statusText body
                      = ''API '' @ show_nat status @ '': '' @ (if raw = [] then statusText else raw)
           | Inr (JObject kvs) \<Rightarrow>
               starts_with (buildApiError json_parse 429 statusText body) ''Rate limit reached (429)''
           | Inr _ \<Rightarrow> True))"
proof -
  have "starts_with (the (parseApiErrorMessage j 429)) ''Rate limit reached (429)''"
    if "json_is_object j" for j
    using that by (auto simp: parseApiErrorMessage_def Let_def rate_limit_hint_def)
  then show ?thesis
    using parse_message_429
    by (auto simp: buildApiError_def Let_def truthy_nonempty split: sum.splits json.splits)
qed

end
