(* ===== verification/Sse_Stream.thy ===== *)
theory Sse_Stream
  imports Api_Error
begin

text \<open>
  The streams of \<^verbatim>\<open>api/chatClient.ts\<close>: \<open>streamChat\<close> starts a completion and
  \<open>resumeStream\<close> reconnects to one. Both read the body of the answer in chunks, cut it into
  lines and turn the lines that carry data into deltas. The chunks are byte lists; decoding
  them as a stream of UTF-8 is the identity on the strings of the model. As before
  \<open>JSON.parse\<close> is an argument.

  A client of the line reader is given by what one complete line does to its state and by
  when it has stopped reading.
\<close>

subsection \<open>Reading lines\<close>

definition newline :: char where
  "newline = CHR 0x0A"

text \<open>
  The loop over the chunks: append the chunk to the buffer, split, keep the last piece. When
  the body ends the piece that is left is dropped.
\<close>

fun read_lines :: "(string \<Rightarrow> 's \<Rightarrow> 's) \<Rightarrow> ('s \<Rightarrow> bool) \<Rightarrow> string list \<Rightarrow> string \<Rightarrow> 's \<Rightarrow> 's" where
  "read_lines on_line stopped [] buffer s = s"
| "read_lines on_line stopped (chunk # chunks) buffer s =
     (if stopped s then s
      else let lines = split_on newline (buffer @ chunk)
           in read_lines on_line stopped chunks (last lines) (fold on_line (butlast lines) s))"

locale line_client =
  fixes on_line :: "string \<Rightarrow> 's \<Rightarrow> 's"
    and stopped :: "'s \<Rightarrow> bool"
  assumes stopped_stays: "stopped s \<Longrightarrow> on_line l s = s"
begin

lemma stopped_fold: "stopped s \<Longrightarrow> fold on_line ls s = s"
  by (induction ls) (auto simp: stopped_stays)

text \<open>The state after the stream is that of its complete lines, however it was cut.\<close>

lemma read_lines_eq:
  assumes "newline \<notin> set buffer"
  shows "read_lines on_line stopped chunks buffer s
    = fold on_line (butlast (split_on newline (buffer @ concat chunks))) s"
  using assms
proof (induction chunks arbitrary: buffer s)
  case Nil
  then show ?case by simp
next
  case (Cons chunk chunks)
  let ?ls = "split_on newline (buffer @ chunk)"
  have "newline \<notin> set (last ?ls)"
    using split_on_no_sep last_in_set split_on_nonempty by metis
  then have "read_lines on_line stopped chunks (last ?ls) (fold on_line (butlast ?ls) s)
      = fold on_line (butlast ?ls @ butlast (split_on newline (last ?ls @ concat chunks))) s"
    using Cons.IH by simp
  also have "butlast ?ls @ butlast (split_on newline (last ?ls @ concat chunks))
      = butlast (split_on newline (buffer @ concat (chunk # chunks)))"
    using split_on_append [of newline "buffer @ chunk" "concat chunks"]
    by (simp add: butlast_append)
  finally show ?case
    by (cases "stopped s") (simp_all add: stopped_fold Let_def)
qed

lemma chunks_irrelevant:
  "concat chunks = concat chunks' \<Longrightarrow>
     read_lines on_line stopped chunks [] s = read_lines on_line stopped chunks' [] s"
  by (simp add: read_lines_eq)

end

subsection \<open>Deltas\<close>

record token_usage =
  prompt_tokens :: json
  completion_tokens :: json
  total_tokens :: json

record stream_delta =
  content :: "json option"
  finish_reason :: "json option"
  usage :: "token_usage option"
  trace_id :: "string option"

definition or_zero :: "json option \<Rightarrow> json" where
  "or_zero v = (case v of None \<Rightarrow> JNum 0 | Some JNull \<Rightarrow> JNum 0 | Some j \<Rightarrow> j)"

text \<open>\<open>choices?.[0]\<close>.\<close>

definition first_choice :: "json option \<Rightarrow> json option" where
  "first_choice v =
     (case v of
        Some (JArray (x # xs)) \<Rightarrow> Some x
      | Some (JObject kvs) \<Rightarrow> map_of kvs ''0''
      | Some (JString (ch # cs)) \<Rightarrow> Some (JString [ch])
      | _ \<Rightarrow> None)"

definition truthy_only :: "json option \<Rightarrow> json option" where
  "truthy_only v = (if json_truthy v then v else None)"

text \<open>The delta of a payload; the trace goes to the first one, \<open>emitted\<close> says it has gone.\<close>

definition delta_of :: "string option \<Rightarrow> bool \<Rightarrow> json \<Rightarrow> stream_delta" where
  "delta_of traceId emitted parsed =
     (let choice = first_choice (json_get parsed ''choices'');
          u = json_get parsed ''usage''
      in \<lparr>content = truthy_only (chain (chain choice ''delta'') ''content''),
          finish_reason = truthy_only (chain choice ''finish_reason''),
          usage = (if json_truthy u
                   then Some \<lparr>prompt_tokens = or_zero (chain u ''prompt_tokens''),
                              completion_tokens = or_zero (chain u ''completion_tokens''),
                              total_tokens = or_zero (chain u ''total_tokens'')\<rparr>
                   else None),
          trace_id = (if truthy traceId \<and> \<not> emitted then traceId else None)\<rparr>)"

definition delta_empty :: "stream_delta \<Rightarrow> bool" where
  "delta_empty d =
     (content d = None \<and> finish_reason d = None \<and> usage d = None \<and> trace_id d = None)"

subsection \<open>The two clients\<close>

datatype stream_error =
    SyntaxError string
  | NullAccess
  | GatewayError json
  | HttpError string
  | NoBody
  | Thrown string string

datatype stream_end = Reading | Done | Failed stream_error

record sse =
  traceIdEmitted :: bool
  yielded :: "stream_delta list"
  ending :: stream_end

definition sse_start :: sse where
  "sse_start = \<lparr>traceIdEmitted = False, yielded = [], ending = Reading\<rparr>"

text \<open>The data of a line: \<open>None\<close> for a line that is skipped.\<close>

definition line_data :: "string \<Rightarrow> string option" where
  "line_data line =
     (let trimmed = trim line
      in if trimmed = [] \<or> \<not> starts_with trimmed ''data:'' then None
         else Some (trim (drop 5 trimmed)))"

definition emit :: "string option \<Rightarrow> json \<Rightarrow> sse \<Rightarrow> sse" where
  "emit traceId parsed s =
     (let d = delta_of traceId (traceIdEmitted s) parsed
      in s\<lparr>traceIdEmitted := traceIdEmitted s \<or> trace_id d \<noteq> None,
           yielded := (if delta_empty d then yielded s else yielded s @ [d])\<rparr>)"

text \<open>The message of an error payload, and the error of \<open>streamChat\<close> for it.\<close>

definition gateway_message :: "json \<Rightarrow> json" where
  "gateway_message parsed =
     (let m = parseApiErrorMessage parsed 500;
          e = json_get parsed ''error''
      in if truthy m then JString (the m)
         else if json_truthy (chain e ''message'') then the (chain e ''message'')
         else if json_truthy (chain e ''type'') then the (chain e ''type'')
         else JString ''Unknown streaming error'')"

definition end_of_input :: string where
  "end_of_input = ''Unexpected end of JSON input''"

definition rethrow :: "stream_error \<Rightarrow> bool" where
  "rethrow err =
     (case err of
        SyntaxError m \<Rightarrow> m \<noteq> end_of_input
      | GatewayError j \<Rightarrow> js_text j \<noteq> end_of_input
      | _ \<Rightarrow> True)"

definition fail_with :: "stream_error \<Rightarrow> sse \<Rightarrow> sse" where
  "fail_with err s = (if rethrow err then s\<lparr>ending := Failed err\<rparr> else s)"

definition chat_line :: "(string \<Rightarrow> string + json) \<Rightarrow> string option \<Rightarrow> string \<Rightarrow> sse \<Rightarrow> sse" where
  "chat_line json_parse traceId line s =
     (if ending s \<noteq> Reading then s
      else case line_data line of
        None \<Rightarrow> s
      | Some d \<Rightarrow>
          if d = ''[DONE]'' then s\<lparr>ending := Done\<rparr>
          else case json_parse d of
            Inl m \<Rightarrow> fail_with (SyntaxError m) s
          | Inr JNull \<Rightarrow> fail_with NullAccess s
          | Inr parsed \<Rightarrow>
              if json_truthy (json_get parsed ''error'')
              then fail_with (GatewayError (gateway_message parsed)) s
              else emit traceId parsed s)"

definition resume_line :: "(string \<Rightarrow> string + json) \<Rightarrow> string option \<Rightarrow> string \<Rightarrow> sse \<Rightarrow> sse" where
  "resume_line json_parse traceId line s =
     (if ending s \<noteq> Reading then s
      else case line_data line of
        None \<Rightarrow> s
      | Some d \<Rightarrow>
          if d = ''[DONE]'' then s\<lparr>ending := Done\<rparr>
          else case json_parse d of
            Inl m \<Rightarrow> s
          | Inr JNull \<Rightarrow> s
          | Inr parsed \<Rightarrow>
              if json_truthy (json_get parsed ''error'') then s
              else emit traceId parsed s)"

definition stopped_reading :: "sse \<Rightarrow> bool" where
  "stopped_reading s = (ending s \<noteq> Reading)"

text \<open>
  An answer: its status, the trace header, the text of the body (for an error answer), and the
  chunks of the body, after which it is closed or breaks with an exception (a network error,
  or an abort). The request itself can fail, too: that is an \<open>Inl\<close> with the exception.
\<close>

record http_response =
  r_status :: nat
  r_statusText :: string
  r_trace :: "string option"
  r_text :: "unit + string"
  r_body :: "string list option"
  r_break :: "(string \<times> string) option"

definition res_ok :: "http_response \<Rightarrow> bool" where
  "res_ok r = (200 \<le> r_status r \<and> r_status r < 300)"

definition body_over :: "(string \<times> string) option \<Rightarrow> sse \<Rightarrow> sse" where
  "body_over brk s =
     (if ending s \<noteq> Reading then s
      else case brk of
             None \<Rightarrow> s\<lparr>ending := Done\<rparr>
           | Some (name, msg) \<Rightarrow> s\<lparr>ending := Failed (Thrown name msg)\<rparr>)"

definition streamChat ::
  "(string \<Rightarrow> string + json) \<Rightarrow> string \<times> string + http_response \<Rightarrow> sse" where
  "streamChat json_parse answer =
     (case answer of
        Inl (name, msg) \<Rightarrow> sse_start\<lparr>ending := Failed (Thrown name msg)\<rparr>
      | Inr r \<Rightarrow>
          if \<not> res_ok r then
            sse_start\<lparr>ending := Failed (HttpError
              (buildApiError json_parse (r_status r) (r_statusText r) (r_text r)))\<rparr>
          else case r_body r of
            None \<Rightarrow> sse_start\<lparr>ending := Failed NoBody\<rparr>
          | Some chunks \<Rightarrow>
              body_over (r_break r)
                (read_lines (chat_line json_parse (r_trace r)) stopped_reading chunks [] sse_start))"

text \<open>A resumed stream without a buffer (status 204), with an error status or no body is empty.\<close>

definition resumeStream ::
  "(string \<Rightarrow> string + json) \<Rightarrow> string \<times> string + http_response \<Rightarrow> sse" where
  "resumeStream json_parse answer =
     (case answer of
        Inl (name, msg) \<Rightarrow> sse_start\<lparr>ending := Failed (Thrown name msg)\<rparr>
      | Inr r \<Rightarrow>
          if r_status r = 204 \<or> \<not> res_ok r then sse_start\<lparr>ending := Done\<rparr>
          else case r_body r of
            None \<Rightarrow> sse_start\<lparr>ending := Done\<rparr>
          | Some chunks \<Rightarrow>
              body_over (r_break r)
                (read_lines (resume_line json_parse (r_trace r)) stopped_reading chunks [] sse_start))"

subsection \<open>The clients meet the contract of the reader\<close>

interpretation chat_reader: line_client "chat_line json_parse traceId" stopped_reading
  by unfold_locales (simp add: chat_line_def stopped_reading_def)

interpretation resume_reader: line_client "resume_line json_parse traceId" stopped_reading
  by unfold_locales (simp add: resume_line_def stopped_reading_def)

subsection \<open>What the server sends\<close>

text \<open>The events of a completion: one data line per payload, a blank line after each, and the end mark.\<close>

definition sse_event :: "string \<Rightarrow> string" where
  "sse_event doc = ''data: '' @ doc @ [newline, newline]"

definition sse_body :: "string list \<Rightarrow> string" where
  "sse_body docs = concat (map sse_event docs) @ sse_event ''[DONE]''"

text \<open>A payload as it is printed by \<open>JSON.stringify\<close>: one line, no outer white space, an object.\<close>

definition payload_ok :: "(string \<Rightarrow> string + json) \<Rightarrow> string \<Rightarrow> bool" where
  "payload_ok json_parse doc =
     (newline \<notin> set doc \<and> trim doc = doc \<and> doc \<noteq> [] \<and> doc \<noteq> ''[DONE]''
      \<and> (case json_parse doc of
           Inr (JObject kvs) \<Rightarrow> \<not> json_truthy (map_of kvs ''error'')
         | _ \<Rightarrow> False))"

lemma split_event:
  assumes "newline \<notin> set d"
  shows "split_on newline (sse_event d @ s) = (''data: '' @ d) # [] # split_on newline s"
proof -
  have "newline \<notin> set (''data: '' @ d)" using assms by (simp add: newline_def)
  from split_on_line [OF this, of "newline # s"] show ?thesis
    by (simp add: sse_event_def)
qed

lemma split_events:
  "list_all (\<lambda>d. newline \<notin> set d) ds \<Longrightarrow>
     split_on newline (concat (map sse_event ds)) = concat (map (\<lambda>d. [''data: '' @ d, []]) ds) @ [[]]"
  by (induction ds) (simp_all add: split_event)

lemma lines_of_body:
  assumes "list_all (payload_ok json_parse) docs"
  shows "butlast (split_on newline (sse_body docs))
    = concat (map (\<lambda>d. [''data: '' @ d, []]) docs) @ [''data: [DONE]'', []]"
proof -
  have "list_all (\<lambda>d. newline \<notin> set d) (docs @ [''[DONE]''])"
    using assms by (auto simp: list_all_iff payload_ok_def newline_def)
  from split_events [OF this] show ?thesis by (simp add: sse_body_def butlast_append)
qed

lemma line_data_blank [simp]: "line_data [] = None"
  by (simp add: line_data_def trim_def)

lemma line_data_event:
  assumes "trim d = d" "d \<noteq> []"
  shows "line_data (''data: '' @ d) = Some d"
proof -
  have "trim (''data: '' @ d) = ''data: '' @ d"
    using trim_prepend [OF assms, of "CHR ''d''" "''ata: ''"] by (simp add: is_ws_def)
  moreover have "trim (CHR '' '' # d) = trim d" by (simp add: trim_def is_ws_def)
  ultimately show ?thesis using assms by (simp add: line_data_def)
qed

lemma line_data_done: "line_data ''data: [DONE]'' = Some ''[DONE]''"
  by code_simp

text \<open>The state after the payloads of a completion, for both clients.\<close>

definition payload_of :: "(string \<Rightarrow> string + json) \<Rightarrow> string \<Rightarrow> json" where
  "payload_of json_parse doc = (case json_parse doc of Inr j \<Rightarrow> j | Inl _ \<Rightarrow> JNull)"

definition received :: "string option \<Rightarrow> json list \<Rightarrow> sse" where
  "received traceId js = fold (emit traceId) js sse_start"

lemma emit_ending [simp]: "ending (emit traceId j s) = ending s"
  by (simp add: emit_def Let_def)

lemma fold_emit_ending [simp]: "ending (fold (emit traceId) js s) = ending s"
  by (induction js arbitrary: s) auto

lemma payload_ok_cases:
  assumes "payload_ok json_parse d"
  obtains kvs where "json_parse d = Inr (JObject kvs)" "\<not> json_truthy (map_of kvs ''error'')"
    "trim d = d" "d \<noteq> ''[DONE]''" "d \<noteq> []"
  using assms by (auto simp: payload_ok_def split: sum.splits json.splits)

text \<open>
  What the two clients have in common: while reading they pass a blank line over, turn a
  payload into its delta and end at the end mark.
\<close>

locale completion_client = line_client on_line stopped_reading
  for on_line :: "string \<Rightarrow> sse \<Rightarrow> sse" +
  fixes json_parse :: "string \<Rightarrow> string + json"
    and traceId :: "string option"
  assumes on_blank: "on_line [] s = s"
    and on_payload: "payload_ok json_parse d \<Longrightarrow> ending s = Reading
      \<Longrightarrow> on_line (''data: '' @ d) s = emit traceId (payload_of json_parse d) s"
    and on_done: "ending s = Reading \<Longrightarrow> on_line ''data: [DONE]'' s = s\<lparr>ending := Done\<rparr>"
begin

lemma fold_payloads:
  assumes "list_all (payload_ok json_parse) docs" "ending s = Reading"
  shows "fold on_line (concat (map (\<lambda>d. [''data: '' @ d, []]) docs)) s
    = fold (emit traceId) (map (payload_of json_parse) docs) s"
  using assms
proof (induction docs arbitrary: s)
  case (Cons d docs)
  then show ?case using on_payload [of d s] on_blank by simp
qed simp

lemma reads_completion:
  assumes "list_all (payload_ok json_parse) docs" "concat chunks = sse_body docs"
  shows "read_lines on_line stopped_reading chunks [] sse_start
    = (received traceId (map (payload_of json_parse) docs))\<lparr>ending := Done\<rparr>"
proof -
  have "read_lines on_line stopped_reading chunks [] sse_start
      = fold on_line (butlast (split_on newline (sse_body docs))) sse_start"
    using assms(2) by (simp add: read_lines_eq)
  also have "\<dots> = on_line [] (on_line ''data: [DONE]'' (received traceId (map (payload_of json_parse) docs)))"
    using fold_payloads [OF assms(1), of sse_start]
    by (simp add: lines_of_body [OF assms(1)] received_def sse_start_def)
  finally show ?thesis
    using on_done [of "received traceId (map (payload_of json_parse) docs)"] on_blank
    by (simp add: received_def sse_start_def)
qed

end

interpretation chat_completion: completion_client "chat_line json_parse traceId" json_parse traceId
proof
  fix s show "chat_line json_parse traceId [] s = s" by (simp add: chat_line_def)
next
  fix d and s :: sse assume "payload_ok json_parse d" "ending s = Reading"
  then show "chat_line json_parse traceId (''data: '' @ d) s = emit traceId (payload_of json_parse d) s"
    by (elim payload_ok_cases) (simp add: chat_line_def line_data_event [simplified] payload_of_def)
next
  fix s :: sse assume "ending s = Reading"
  then show "chat_line json_parse traceId ''data: [DONE]'' s = s\<lparr>ending := Done\<rparr>"
    by (simp add: chat_line_def line_data_done)
qed

interpretation resume_completion: completion_client "resume_line json_parse traceId" json_parse traceId
proof
  fix s show "resume_line json_parse traceId [] s = s" by (simp add: resume_line_def)
next
  fix d and s :: sse assume "payload_ok json_parse d" "ending s = Reading"
  then show "resume_line json_parse traceId (''data: '' @ d) s = emit traceId (payload_of json_parse d) s"
    by (elim payload_ok_cases) (simp add: resume_line_def line_data_event [simplified] payload_of_def)
next
  fix s :: sse assume "ending s = Reading"
  then show "resume_line json_parse traceId ''data: [DONE]'' s = s\<lparr>ending := Done\<rparr>"
    by (simp add: resume_line_def line_data_done)
qed

subsection \<open>The trace and the text\<close>

definition trace_first :: "string option \<Rightarrow> sse \<Rightarrow> bool" where
  "trace_first traceId s =
     (list_all (\<lambda>d. trace_id d = None) (drop 1 (yielded s))
      \<and> list_all (\<lambda>d. trace_id d = (if truthy traceId then traceId else None)) (take 1 (yielded s))
      \<and> (truthy traceId \<longrightarrow> (traceIdEmitted s = (yielded s \<noteq> []))))"

lemma emit_trace_first: "trace_first traceId s \<Longrightarrow> trace_first traceId (emit traceId j s)"
  by (cases "yielded s"; cases traceId)
    (auto simp: trace_first_def emit_def delta_of_def delta_empty_def Let_def)

lemma line_trace_first:
  "trace_first traceId s \<Longrightarrow> trace_first traceId (chat_line json_parse traceId l s)"
  "trace_first traceId s \<Longrightarrow> trace_first traceId (resume_line json_parse traceId l s)"
proof -
  have e: "trace_first traceId (s\<lparr>ending := e\<rparr>) = trace_first traceId s" for e s
    by (simp add: trace_first_def)
  show "trace_first traceId s \<Longrightarrow> trace_first traceId (chat_line json_parse traceId l s)"
    using emit_trace_first
    by (auto simp: chat_line_def fail_with_def e split: option.splits sum.splits json.splits)
  show "trace_first traceId s \<Longrightarrow> trace_first traceId (resume_line json_parse traceId l s)"
    using emit_trace_first
    by (auto simp: resume_line_def e split: option.splits sum.splits json.splits)
qed

lemma fold_invariant: "(\<And>l s. P s \<Longrightarrow> P (f l s)) \<Longrightarrow> P s \<Longrightarrow> P (fold f ls s)"
  by (induction ls arbitrary: s) auto

lemma read_invariant:
  assumes "\<And>l s. P s \<Longrightarrow> P (on_line l s)" "P s"
  shows "P (read_lines on_line stopped chunks buffer s)"
  using assms(2)
proof (induction chunks arbitrary: buffer s)
  case (Cons chunk chunks)
  then have "P (fold on_line ls s)" for ls
    using fold_invariant [of P on_line, OF assms(1)] by blast
  then show ?case using Cons by (simp add: Let_def)
qed simp

lemma body_over_simps [simp]:
  "yielded (body_over b s) = yielded s" "traceIdEmitted (body_over b s) = traceIdEmitted s"
  by (auto simp: body_over_def split: option.splits)

subsection \<open>Properties\<close>

text \<open>
  C3: How the network cuts a stream into chunks does not matter, not even inside a line or a
  character: two answers whose bodies are the same bytes give the same deltas in the same
  order and the same end, for a new completion and for a resumed one.
\<close>

theorem chunking_irrelevant:
  assumes "concat chunks = concat chunks'"
  shows "streamChat json_parse (Inr (r\<lparr>r_body := Some chunks\<rparr>))
      = streamChat json_parse (Inr (r\<lparr>r_body := Some chunks'\<rparr>))
    \<and> resumeStream json_parse (Inr (r\<lparr>r_body := Some chunks\<rparr>))
      = resumeStream json_parse (Inr (r\<lparr>r_body := Some chunks'\<rparr>))"
  using chat_reader.chunks_irrelevant [OF assms] resume_reader.chunks_irrelevant [OF assms]
  by (simp add: streamChat_def resumeStream_def res_ok_def)

definition ok_response :: "string list \<Rightarrow> http_response" where
  "ok_response chunks = \<lparr>r_status = 200, r_statusText = ''OK'', r_trace = Some ''tr-1'',
     r_text = Inl (), r_body = Some chunks, r_break = None\<rparr>"

lemma chunking_irrelevant_witness:
  "streamChat (\<lambda>s. Inl s) (Inr (ok_response [''data: [DO'', ''NE]'' @ [newline]]))
    = streamChat (\<lambda>s. Inl s) (Inr (ok_response [''data: [DONE]'' @ [newline]]))"
  using chunking_irrelevant [of "[''data: [DO'', ''NE]'' @ [newline]]" "[''data: [DONE]'' @ [newline]]"
      "\<lambda>s. Inl s" "ok_response []"]
  by (simp add: ok_response_def)

text \<open>
  A chunk of a completion as the service sends it: the text it adds and the reason of the
  end, if it has one.
\<close>

definition chunk_json :: "string \<times> string option \<Rightarrow> json" where
  "chunk_json c =
     JObject [(''choices'', JArray [JObject
       [(''delta'', JObject [(''content'', JString (fst c))]),
        (''finish_reason'', case snd c of None \<Rightarrow> JNull | Some x \<Rightarrow> JString x)]])]"

definition present :: "('a \<Rightarrow> 'b option) \<Rightarrow> 'a list \<Rightarrow> 'b list" where
  "present f xs = concat (map (\<lambda>x. case f x of None \<Rightarrow> [] | Some y \<Rightarrow> [y]) xs)"

lemma present_append [simp]: "present f (xs @ ys) = present f xs @ present f ys"
  by (simp add: present_def)

lemma emit_chunk:
  "present content (yielded (emit traceId (chunk_json c) s))
     = present content (yielded s) @ (if fst c = [] then [] else [JString (fst c)])"
  "present finish_reason (yielded (emit traceId (chunk_json c) s))
     = present finish_reason (yielded s)
       @ (case snd c of None \<Rightarrow> [] | Some x \<Rightarrow> if x = [] then [] else [JString x])"
  by (auto simp: emit_def delta_of_def delta_empty_def chunk_json_def truthy_only_def first_choice_def
      present_def Let_def chain_def split: option.splits)

lemma emit_chunks:
  "present content (yielded (fold (emit traceId) (map chunk_json cs) s))
     = present content (yielded s) @ map JString (filter (\<lambda>t. t \<noteq> []) (map fst cs))"
  "present finish_reason (yielded (fold (emit traceId) (map chunk_json cs) s))
     = present finish_reason (yielded s) @ map JString (filter (\<lambda>x. x \<noteq> []) (present snd cs))"
proof (induction cs arbitrary: s)
  case (Cons c cs)
  have p: "present snd (c # cs) = (case snd c of None \<Rightarrow> [] | Some x \<Rightarrow> [x]) @ present snd cs"
    by (simp add: present_def)
  { case 1 show ?case using Cons.IH(1) by (simp add: emit_chunk) }
  { case 2 show ?case using Cons.IH(2) unfolding p by (simp add: emit_chunk split: option.split) }
qed (simp_all add: present_def)

text \<open>
  C6: what the service writes is what the page reads. A completion is written as chunks with
  a text and perhaps a reason of the end, each printed on one line as an event, and the end mark;
  then \<open>streamChat\<close> and \<open>resumeStream\<close>, however the body is cut, give exactly the texts that
  are not empty, in order, exactly the reasons, and a normal end.
\<close>

theorem completion_roundtrip:
  assumes "\<And>c. c \<in> set cs \<Longrightarrow> json_parse (print c) = Inr (chunk_json c) \<and> newline \<notin> set (print c)
      \<and> trim (print c) = print c \<and> print c \<noteq> [] \<and> print c \<noteq> ''[DONE]''"
    and "concat chunks = sse_body (map print cs)"
    and "200 \<le> r_status r" "r_status r < 300" "r_status r \<noteq> 204" "r_body r = Some chunks"
    and "s \<in> {streamChat json_parse (Inr r), resumeStream json_parse (Inr r)}"
  shows "present content (yielded s) = map JString (filter (\<lambda>t. t \<noteq> []) (map fst cs))
    \<and> present finish_reason (yielded s) = map JString (filter (\<lambda>x. x \<noteq> []) (present snd cs))
    \<and> ending s = Done"
proof -
  have ok: "list_all (payload_ok json_parse) (map print cs)"
    using assms(1) by (auto simp: list_all_iff payload_ok_def chunk_json_def)
  have js: "map (payload_of json_parse) (map print cs) = map chunk_json cs"
    using assms(1) by (simp add: payload_of_def)
  note reads = chat_completion.reads_completion [OF ok assms(2), unfolded js]
    resume_completion.reads_completion [OF ok assms(2), unfolded js]
  have "s = (received (r_trace r) (map chunk_json cs))\<lparr>ending := Done\<rparr>"
    using assms(3-) by (auto simp: streamChat_def resumeStream_def res_ok_def body_over_def reads)
  then show ?thesis by (simp add: received_def emit_chunks) (simp add: sse_start_def present_def)
qed

definition demo_parse :: "string \<Rightarrow> string + json" where
  "demo_parse s = (if s = ''{}'' then Inr (chunk_json (''Hi'', None))
     else if s = ''{1}'' then Inr (chunk_json ([], Some ''stop'')) else Inl ''Unexpected token'')"

definition demo_print :: "string \<times> string option \<Rightarrow> string" where
  "demo_print c = (if c = (''Hi'', None) then ''{}'' else ''{1}'')"

lemma completion_roundtrip_witness:
  "present content (yielded (streamChat demo_parse (Inr (ok_response [sse_body [''{}'', ''{1}'']]))))
    = [JString ''Hi'']"
proof -
  let ?cs = "[(''Hi'', None), ([], Some ''stop'')]"
  have "json_parse_ok c" if "c \<in> set ?cs" and
    "json_parse_ok = (\<lambda>c. demo_parse (demo_print c) = Inr (chunk_json c) \<and> newline \<notin> set (demo_print c)
      \<and> trim (demo_print c) = demo_print c \<and> demo_print c \<noteq> [] \<and> demo_print c \<noteq> ''[DONE]'')" for c json_parse_ok
    using that by (auto simp: demo_parse_def demo_print_def newline_def trim_def is_ws_def)
  then have ok: "demo_parse (demo_print c) = Inr (chunk_json c) \<and> newline \<notin> set (demo_print c)
      \<and> trim (demo_print c) = demo_print c \<and> demo_print c \<noteq> [] \<and> demo_print c \<noteq> ''[DONE]''"
    if "c \<in> set ?cs" for c using that by blast
  show ?thesis
    using completion_roundtrip [where cs = ?cs and json_parse = demo_parse and print = demo_print
        and chunks = "[sse_body [''{}'', ''{1}'']]" and r = "ok_response [sse_body [''{}'', ''{1}'']]", OF ok]
    by (simp add: ok_response_def demo_print_def)
qed

text \<open>
  The trace of the answer is attached to the first delta and to no other, whatever the lines
  of the stream are, and no delta has it when the answer has no trace.
\<close>

theorem trace_on_first_delta:
  "trace_first (r_trace r) (streamChat json_parse (Inr r))
   \<and> trace_first (r_trace r) (resumeStream json_parse (Inr r))"
proof -
  have s: "trace_first tid sse_start" "trace_first tid (sse_start\<lparr>ending := e\<rparr>)" for tid e
    by (simp_all add: trace_first_def sse_start_def)
  have b: "trace_first tid (body_over brk s) = trace_first tid s" for tid brk s
    by (simp add: trace_first_def)
  have r: "trace_first tid (read_lines (chat_line json_parse tid) stopped_reading cs [] sse_start)"
    "trace_first tid (read_lines (resume_line json_parse tid) stopped_reading cs [] sse_start)" for tid cs
    by (rule read_invariant, rule line_trace_first, assumption, rule s)+
  have "trace_first (r_trace r) (streamChat json_parse (Inr r))"
    by (cases "r_body r") (simp_all add: streamChat_def s r b)
  moreover have "trace_first (r_trace r) (resumeStream json_parse (Inr r))"
    by (cases "r_body r") (simp_all add: resumeStream_def s r b)
  ultimately show ?thesis ..
qed

lemma complete_lines:
  assumes "newline \<notin> set l" "pre = [] \<or> last pre = newline"
  shows "butlast (split_on newline (pre @ l @ newline # rest))
    = butlast (split_on newline pre) @ l # butlast (split_on newline rest)"
    and "butlast (split_on newline (pre @ rest)) = butlast (split_on newline pre) @ butlast (split_on newline rest)"
proof -
  have e: "last (split_on newline pre) = []"
  proof (cases "pre = []")
    case False
    with assms(2) obtain q where "pre = q @ [newline]" by (metis append_butlast_last_id)
    moreover have "newline \<notin> set (last (split_on newline q))"
      using split_on_no_sep last_in_set split_on_nonempty by metis
    ultimately show ?thesis
      using split_on_append [of newline q "[newline]"] split_on_line [of newline "last (split_on newline q)" "[]"] by simp
  qed simp
  have "split_on newline (pre @ xs) = butlast (split_on newline pre) @ split_on newline xs" for xs
    using split_on_append [of newline pre xs] e by simp
  then show "butlast (split_on newline (pre @ l @ newline # rest))
      = butlast (split_on newline pre) @ l # butlast (split_on newline rest)"
    and "butlast (split_on newline (pre @ rest)) = butlast (split_on newline pre) @ butlast (split_on newline rest)"
    using split_on_line [OF assms(1), of rest] by (simp_all add: butlast_append)
qed

text \<open>
  C40: what a data line that is no JSON does, wherever it stands after complete lines that are read without an
  end. A resumed stream reads on as if the line were not there, and so does a new completion when the
  message of the syntax error is the one for a text that ends too early. With any other message the new
  completion fails with the error, what was read before is kept and what follows is not read.
\<close>

theorem malformed_line:
  assumes "json_parse d = Inl m" "trim d = d" "d \<noteq> []" "d \<noteq> ''[DONE]''" "newline \<notin> set d"
    and "pre = [] \<or> last pre = newline" "res_ok r"
    and "ending (read_lines (chat_line json_parse (r_trace r)) stopped_reading [pre] [] sse_start) = Reading"
    and "concat chunks = pre @ ''data: '' @ d @ newline # rest"
  shows "streamChat json_parse (Inr (r\<lparr>r_body := Some chunks\<rparr>))
      = (if m = end_of_input then streamChat json_parse (Inr (r\<lparr>r_body := Some [pre @ rest]\<rparr>))
         else (read_lines (chat_line json_parse (r_trace r)) stopped_reading [pre] [] sse_start)
                \<lparr>ending := Failed (SyntaxError m)\<rparr>)
    \<and> resumeStream json_parse (Inr (r\<lparr>r_body := Some chunks\<rparr>))
      = resumeStream json_parse (Inr (r\<lparr>r_body := Some [pre @ rest]\<rparr>))"
proof -
  let ?c = "chat_line json_parse (r_trace r)" and ?l = "''data: '' @ d"
  let ?s = "fold ?c (butlast (split_on newline pre)) sse_start"
  have s: "read_lines ?c stopped_reading [pre] [] sse_start = ?s"
    using chat_reader.read_lines_eq [of "[]" json_parse "r_trace r" "[pre]" sse_start] by simp
  have c: "?c ?l ?s = (if m = end_of_input then ?s else ?s\<lparr>ending := Failed (SyntaxError m)\<rparr>)"
    using assms(1,4,8) line_data_event [OF assms(2,3)] unfolding s
    by (simp add: chat_line_def fail_with_def rethrow_def)
  have res: "resume_line json_parse tid ?l s = s" for tid and s :: sse
    using assms(1,4) line_data_event [OF assms(2,3)] by (simp add: resume_line_def)
  have n: "newline \<notin> set ?l" using assms(5) by (simp add: newline_def)
  note lines = complete_lines [OF n assms(6), of rest]
  have b: "butlast (split_on newline (concat chunks))
      = butlast (split_on newline pre) @ ?l # butlast (split_on newline rest)"
    using lines(1) assms(9) by simp
  have stop: "fold ?c ls (?s\<lparr>ending := Failed (SyntaxError m)\<rparr>) = ?s\<lparr>ending := Failed (SyntaxError m)\<rparr>" for ls
    by (rule chat_reader.stopped_fold) (simp add: stopped_reading_def)
  have ro: "res_ok (r\<lparr>r_body := x\<rparr>) = res_ok r" for x by (simp add: res_ok_def)
  have rl: "read_lines (resume_line json_parse tid) stopped_reading chunks [] sse_start
      = read_lines (resume_line json_parse tid) stopped_reading [pre @ rest] [] sse_start" for tid
    using resume_reader.read_lines_eq [of "[]" json_parse tid chunks sse_start]
      resume_reader.read_lines_eq [of "[]" json_parse tid "[pre @ rest]" sse_start]
    by (simp add: b lines(2) res [simplified] del: read_lines.simps)
  have cl: "read_lines ?c stopped_reading chunks [] sse_start
      = (if m = end_of_input then read_lines ?c stopped_reading [pre @ rest] [] sse_start
         else ?s\<lparr>ending := Failed (SyntaxError m)\<rparr>)"
    using chat_reader.read_lines_eq [of "[]" json_parse "r_trace r" chunks sse_start]
      chat_reader.read_lines_eq [of "[]" json_parse "r_trace r" "[pre @ rest]" sse_start]
    by (simp add: b lines(2) c [simplified] stop del: read_lines.simps)
  have "resumeStream json_parse (Inr (r\<lparr>r_body := Some chunks\<rparr>))
      = resumeStream json_parse (Inr (r\<lparr>r_body := Some [pre @ rest]\<rparr>))"
    by (simp add: resumeStream_def ro rl del: read_lines.simps)
  moreover have "streamChat json_parse (Inr (r\<lparr>r_body := Some chunks\<rparr>))
      = (if m = end_of_input then streamChat json_parse (Inr (r\<lparr>r_body := Some [pre @ rest]\<rparr>))
         else ?s\<lparr>ending := Failed (SyntaxError m)\<rparr>)"
    using assms(7) by (simp add: streamChat_def ro cl body_over_def del: read_lines.simps)
  ultimately show ?thesis unfolding s by simp
qed

lemma malformed_line_witness:
  "ending (streamChat demo_parse (Inr (ok_response [sse_event ''{}'' @ ''data: <html>'' @ newline # sse_body [''{}'']])))
    = Failed (SyntaxError ''Unexpected token'')"
proof -
  have p: "demo_parse ''<html>'' = Inl ''Unexpected token''" "''Unexpected token'' \<noteq> end_of_input"
    "trim ''<html>'' = ''<html>''" "newline \<notin> set ''<html>''" "last (sse_event ''{}'') = newline"
    by code_simp+
  have e: "ending (read_lines (chat_line demo_parse (Some ''tr-1'')) stopped_reading [sse_event ''{}''] [] sse_start) = Reading"
    by code_simp
  show ?thesis
    using malformed_line [where json_parse = demo_parse and d = "''<html>''" and m = "''Unexpected token''"
        and pre = "sse_event ''{}''" and r = "ok_response []" and rest = "sse_body [''{}'']"
        and chunks = "[sse_event ''{}'' @ ''data: <html>'' @ newline # sse_body [''{}'']]"] p e
    by (simp add: ok_response_def res_ok_def)
qed

end
