(* ===== verification/Chat_Stream.thy ===== *)
theory Chat_Stream
  imports Sse_Stream
begin

text \<open>
  The chat hook of \<^verbatim>\<open>pages/chat/hooks/useChatStream.ts\<close>: the messages of a session, the
  text that is streaming in, and the operations \<open>send\<close>, \<open>retry\<close>, \<open>stop\<close> and
  \<open>loadHistory\<close>. What happens outside is the script of an operation: the answers of the
  requests, what occurs while the stream is read (a delta, an animation frame that shows the
  text so far, the stop button) in any order, and how the stream ends. Times are inputs.

  The fields of a message that are always null (content parts, tool calls, provider) and its
  time of creation are left out. An operation that has not settled when another one starts is
  not modelled.
\<close>

subsection \<open>State\<close>

datatype role = User | Assistant | System

record chat_message =
  m_id :: string
  m_session :: string
  m_role :: role
  m_content :: string
  m_model :: "string option"
  m_tokens :: "json option"
  m_trace :: "string option"

text \<open>What is thrown: the name and the text (\<open>message\<close> of an error, else its string).\<close>

record thrown =
  t_name :: string
  t_text :: string

record send_args =
  sa_text :: string
  sa_model :: string
  sa_files :: "string list"

record chat =
  messages :: "chat_message list"
  streamingContent :: string
  streamingUsage :: "token_usage option"
  isStreaming :: bool
  isLoading :: bool
  error :: "string option"
  lastResponseMs :: "int option"
  responseMs :: "(string \<times> int) list"
  abortable :: bool
  session_id :: "string option"
  lastSend :: "send_args option"
  accRef :: string
  frame_pending :: bool
  sessions_created :: "string list"
  sessions_updated :: "json list"

definition chat_start :: "string option \<Rightarrow> chat" where
  "chat_start sid = \<lparr>messages = [], streamingContent = [], streamingUsage = None,
     isStreaming = False, isLoading = False, error = None, lastResponseMs = None,
     responseMs = [], abortable = False, session_id = sid, lastSend = None, accRef = [],
     frame_pending = False, sessions_created = [], sessions_updated = []\<rparr>"

subsection \<open>The throttle\<close>

definition push :: "string \<Rightarrow> chat \<Rightarrow> chat" where
  "push text c = c\<lparr>accRef := text, frame_pending := True\<rparr>"

definition frame :: "chat \<Rightarrow> chat" where
  "frame c = (if frame_pending c then c\<lparr>frame_pending := False, streamingContent := accRef c\<rparr> else c)"

definition flush :: "chat \<Rightarrow> chat" where
  "flush c = c\<lparr>frame_pending := False, streamingContent := accRef c\<rparr>"

definition reset_throttle :: "chat \<Rightarrow> chat" where
  "reset_throttle c = c\<lparr>accRef := [], frame_pending := False\<rparr>"

subsection \<open>Reading a stream\<close>

datatype stream_event =
    Delta stream_delta
  | Frame
  | Stop

definition stop :: "chat \<Rightarrow> chat" where
  "stop c = c\<lparr>abortable := False, isStreaming := False\<rparr>"

record reading =
  accumulated :: string
  finalUsage :: "token_usage option"
  traceId :: "string option"

definition reading_start :: reading where
  "reading_start = \<lparr>accumulated = [], finalUsage = None, traceId = None\<rparr>"

definition on_delta :: "stream_delta \<Rightarrow> reading \<times> chat \<Rightarrow> reading \<times> chat" where
  "on_delta d rc =
     (let (r, c) = rc;
          (r, c) = (case content d of
                      None \<Rightarrow> (r, c)
                    | Some j \<Rightarrow> let a = accumulated r @ js_text j
                                in (r\<lparr>accumulated := a\<rparr>, push a c));
          (r, c) = (case usage d of
                      None \<Rightarrow> (r, c)
                    | Some u \<Rightarrow> (r\<lparr>finalUsage := Some u\<rparr>, c\<lparr>streamingUsage := Some u\<rparr>))
      in (case trace_id d of
            None \<Rightarrow> (r, c)
          | Some t \<Rightarrow> (if t = [] then r else r\<lparr>traceId := Some t\<rparr>, c)))"

fun on_event :: "stream_event \<Rightarrow> reading \<times> chat \<Rightarrow> reading \<times> chat" where
  "on_event (Delta d) rc = on_delta d rc"
| "on_event Frame (r, c) = (r, frame c)"
| "on_event Stop (r, c) = (r, stop c)"

text \<open>The start of a stream, common to \<open>send\<close> and \<open>loadHistory\<close>.\<close>

definition begin_stream :: "chat \<Rightarrow> chat" where
  "begin_stream c =
     (reset_throttle (c\<lparr>isStreaming := True\<rparr>))\<lparr>streamingContent := [], streamingUsage := None\<rparr>"

definition end_stream :: "chat \<Rightarrow> chat" where
  "end_stream c =
     (flush c)\<lparr>streamingContent := [], streamingUsage := None, isStreaming := False, abortable := False\<rparr>"

subsection \<open>Sending\<close>

text \<open>
  The script of \<open>send\<close>: the answers of the session and upload requests, the events of the
  stream and its end (\<open>None\<close>: the stream is complete), the answer of the final session
  request, the times and the translated texts.
\<close>

record send_script =
  s_create :: "thrown + string"
  s_upload :: "thrown + unit"
  s_events :: "stream_event list"
  s_end :: "thrown option"
  s_get :: "thrown + json"
  s_now :: int
  s_now2 :: int
  s_elapsed :: int

definition msg_select_model :: string where
  "msg_select_model = ''Please select a model before sending a message.''"

definition msg_no_response :: string where
  "msg_no_response = ''No response received from the model.''"

definition send_failed :: "thrown \<Rightarrow> chat \<Rightarrow> chat" where
  "send_failed err c =
     (if t_name err \<noteq> ''AbortError'' then c\<lparr>error := Some (t_text err)\<rparr> else c)
       \<lparr>isStreaming := False, abortable := False\<rparr>"

definition plain_error :: "string \<Rightarrow> thrown" where
  "plain_error m = \<lparr>t_name = ''Error'', t_text = m\<rparr>"

definition user_message :: "string \<Rightarrow> string \<Rightarrow> int \<Rightarrow> chat_message" where
  "user_message sid text now =
     \<lparr>m_id = ''tmp-'' @ show_int now, m_session = sid, m_role = User, m_content = text,
      m_model = None, m_tokens = None, m_trace = None\<rparr>"

definition assistant_message :: "string \<Rightarrow> reading \<Rightarrow> string option \<Rightarrow> int \<Rightarrow> chat_message" where
  "assistant_message sid r model now =
     \<lparr>m_id = ''tmp-'' @ show_int now @ ''-a'', m_session = sid, m_role = Assistant,
      m_content = accumulated r, m_model = model,
      m_tokens = map_option total_tokens (finalUsage r), m_trace = traceId r\<rparr>"

text \<open>The optimistic user message, unless the last message is the same text by the user.\<close>

definition append_user :: "chat_message \<Rightarrow> chat_message list \<Rightarrow> chat_message list" where
  "append_user u prev =
     (if prev \<noteq> [] \<and> m_role (last prev) = User \<and> m_content (last prev) = m_content u
      then prev else prev @ [u])"

definition send_stream :: "string \<Rightarrow> send_args \<Rightarrow> send_script \<Rightarrow> chat \<Rightarrow> chat" where
  "send_stream sid a s c =
     (let c = c\<lparr>messages := append_user (user_message sid (sa_text a) (s_now s)) (messages c)\<rparr>;
          c = begin_stream c
      in if sa_model a = [] then send_failed (plain_error msg_select_model) c
         else
           let (r, c) = fold on_event (s_events s) (reading_start, c\<lparr>abortable := True\<rparr>)
           in case s_end s of
                Some err \<Rightarrow> send_failed err c
              | None \<Rightarrow>
                  if trim (accumulated r) = [] then send_failed (plain_error msg_no_response) c
                  else
                    let msg = assistant_message sid r (Some (sa_model a)) (s_now2 s);
                        c = c\<lparr>messages := messages c @ [msg],
                              responseMs := (m_id msg, s_elapsed s) # responseMs c,
                              lastResponseMs := Some (s_elapsed s)\<rparr>;
                        c = end_stream c
                    in case s_get s of
                         Inl _ \<Rightarrow> c
                       | Inr updated \<Rightarrow> c\<lparr>sessions_updated := sessions_updated c @ [updated]\<rparr>)"

definition send :: "send_args \<Rightarrow> send_script \<Rightarrow> chat \<Rightarrow> chat" where
  "send a s c =
     (let c = c\<lparr>error := None, lastSend := Some a\<rparr>;
          with_session = (\<lambda>sid c.
            if sa_files a \<noteq> [] then
              (case s_upload s of
                 Inl err \<Rightarrow> send_failed err c
               | Inr _ \<Rightarrow> send_stream sid a s c)
            else send_stream sid a s c)
      in if truthy (session_id c) then with_session (the (session_id c)) c
         else (case s_create s of
                 Inl err \<Rightarrow> send_failed err c
               | Inr sid \<Rightarrow>
                   with_session sid (c\<lparr>session_id := Some sid,
                     sessions_created := sessions_created c @ [sid]\<rparr>)))"

text \<open>\<open>retry\<close> reloads the messages and sends the last text again with the selected model.\<close>

definition retry :: "string \<Rightarrow> thrown + chat_message list \<Rightarrow> send_script \<Rightarrow> chat \<Rightarrow> chat" where
  "retry selectedModel fresh s c =
     (case lastSend c of
        None \<Rightarrow> c
      | Some a \<Rightarrow>
          let model = (if selectedModel \<noteq> [] then selectedModel else sa_model a);
              c = c\<lparr>error := None\<rparr>;
              c = (if truthy (session_id c)
                   then (case fresh of Inl _ \<Rightarrow> c | Inr ms \<Rightarrow> c\<lparr>messages := ms\<rparr>)
                   else c)
          in send (a\<lparr>sa_model := model\<rparr>) s c)"

subsection \<open>Loading the history\<close>

record load_script =
  l_messages :: "thrown + chat_message list"
  l_status :: "thrown + bool"
  l_events :: "stream_event list"
  l_end :: "thrown option"
  l_now :: int

definition msg_no_reply :: string where
  "msg_no_reply = ''The last message did not receive a response. You can retry.''"

definition retry_prompt :: "chat_message list \<Rightarrow> chat \<Rightarrow> chat" where
  "retry_prompt msgs c =
     (if msgs \<noteq> [] \<and> m_role (last msgs) = User
      then c\<lparr>lastSend := Some \<lparr>sa_text = m_content (last msgs), sa_model = [], sa_files = []\<rparr>,
             error := Some msg_no_reply\<rparr>
      else c)"

definition resume_reading :: "string \<Rightarrow> load_script \<Rightarrow> chat_message list \<Rightarrow> chat \<Rightarrow> chat" where
  "resume_reading sid l msgs c =
     (let (r, c) = fold on_event (l_events l) (reading_start, (begin_stream c)\<lparr>abortable := True\<rparr>)
      in case l_end l of
           Some err \<Rightarrow> retry_prompt msgs c
         | None \<Rightarrow>
             end_stream
               (if trim (accumulated r) \<noteq> []
                then c\<lparr>messages := messages c @ [assistant_message sid r None (l_now l)]\<rparr>
                else c))"

definition loadHistory :: "load_script \<Rightarrow> chat \<Rightarrow> chat" where
  "loadHistory l c =
     (if \<not> truthy (session_id c) then c
      else
        let sid = the (session_id c); c = c\<lparr>isLoading := True\<rparr>
        in (case l_messages l of
              Inl err \<Rightarrow> c\<lparr>error := Some (t_text err)\<rparr>
            | Inr msgs \<Rightarrow>
                let c = c\<lparr>messages := msgs\<rparr>
                in (case l_status l of
                      Inr True \<Rightarrow> resume_reading sid l msgs c
                    | _ \<Rightarrow> retry_prompt msgs c)) \<lparr>isLoading := False\<rparr>)"

subsection \<open>Lemmas\<close>

fun event_text :: "stream_event \<Rightarrow> string" where
  "event_text (Delta d) = (case content d of None \<Rightarrow> [] | Some j \<Rightarrow> js_text j)"
| "event_text _ = []"

definition stream_text :: "stream_event list \<Rightarrow> string" where
  "stream_text evs = concat (map event_text evs)"

lemma on_event_accumulated: "accumulated (fst (on_event e rc)) = accumulated (fst rc) @ event_text e"
  by (cases rc; cases e)
    (auto simp: on_delta_def Let_def split: option.splits)

lemma fold_accumulated:
  "accumulated (fst (fold on_event evs rc)) = accumulated (fst rc) @ stream_text evs"
  by (induction evs arbitrary: rc) (auto simp: on_event_accumulated stream_text_def)

lemmas throttle_defs = push_def frame_def flush_def reset_throttle_def stop_def

text \<open>What the events of a stream leave alone.\<close>

lemma on_event_keeps:
  "messages (snd (on_event e rc)) = messages (snd rc)"
  "error (snd (on_event e rc)) = error (snd rc)"
  "lastSend (snd (on_event e rc)) = lastSend (snd rc)"
  "responseMs (snd (on_event e rc)) = responseMs (snd rc)"
  "session_id (snd (on_event e rc)) = session_id (snd rc)"
  "isLoading (snd (on_event e rc)) = isLoading (snd rc)"
  by (cases rc; cases e; simp add: on_delta_def throttle_defs Let_def split: option.splits)+

lemma fold_keeps:
  "messages (snd (fold on_event evs rc)) = messages (snd rc)"
  "error (snd (fold on_event evs rc)) = error (snd rc)"
  "lastSend (snd (fold on_event evs rc)) = lastSend (snd rc)"
  "responseMs (snd (fold on_event evs rc)) = responseMs (snd rc)"
  "session_id (snd (fold on_event evs rc)) = session_id (snd rc)"
  "isLoading (snd (fold on_event evs rc)) = isLoading (snd rc)"
  by (induction evs arbitrary: rc) (simp_all add: on_event_keeps)

text \<open>Without the stop button the stream stays on.\<close>

lemma fold_streaming:
  "Stop \<notin> set evs \<Longrightarrow> isStreaming (snd (fold on_event evs rc)) = isStreaming (snd rc)
     \<and> abortable (snd (fold on_event evs rc)) = abortable (snd rc)"
proof (induction evs arbitrary: rc)
  case (Cons e evs)
  have "isStreaming (snd (on_event e rc)) = isStreaming (snd rc)
      \<and> abortable (snd (on_event e rc)) = abortable (snd rc)" if "e \<noteq> Stop"
    using that by (cases rc; cases e) (simp_all add: on_delta_def throttle_defs Let_def split: option.splits)
  with Cons show ?case by auto
qed simp

text \<open>The throttle shows an earlier state of the text that has come in.\<close>

definition shows_prefix :: "reading \<times> chat \<Rightarrow> bool" where
  "shows_prefix rc =
     (prefix (streamingContent (snd rc)) (accRef (snd rc)) \<and> accRef (snd rc) = accumulated (fst rc))"

lemma on_event_shows_prefix: "shows_prefix rc \<Longrightarrow> shows_prefix (on_event e rc)"
  by (cases rc; cases e)
    (auto simp: shows_prefix_def on_delta_def throttle_defs Let_def split: option.splits
      intro: prefix_order.trans)

lemma begin_stream_simps [simp]:
  "messages (begin_stream c) = messages c" "error (begin_stream c) = error c"
  "lastSend (begin_stream c) = lastSend c" "responseMs (begin_stream c) = responseMs c"
  "session_id (begin_stream c) = session_id c" "isLoading (begin_stream c) = isLoading c"
  "isStreaming (begin_stream c)"
  by (simp_all add: begin_stream_def reset_throttle_def)

lemma end_stream_simps [simp]:
  "messages (end_stream c) = messages c" "error (end_stream c) = error c"
  "lastSend (end_stream c) = lastSend c" "responseMs (end_stream c) = responseMs c"
  "isLoading (end_stream c) = isLoading c"
  "\<not> isStreaming (end_stream c)" "\<not> abortable (end_stream c)"
  "streamingContent (end_stream c) = []" "streamingUsage (end_stream c) = None"
  by (simp_all add: end_stream_def flush_def)

lemma send_failed_simps [simp]:
  "messages (send_failed err c) = messages c" "lastSend (send_failed err c) = lastSend c"
  "\<not> isStreaming (send_failed err c)" "\<not> abortable (send_failed err c)"
  "error (send_failed err c) = (if t_name err = ''AbortError'' then error c else Some (t_text err))"
  by (simp_all add: send_failed_def)

lemma append_user_bounds:
  "prefix ms (append_user u ms) \<and> length (append_user u ms) \<le> length ms + 1"
  by (simp add: append_user_def)

text \<open>How the streaming part of \<open>send\<close> settles, in every case.\<close>

definition settled :: "send_args \<Rightarrow> chat \<Rightarrow> chat \<Rightarrow> bool" where
  "settled a c c' =
     (\<not> isStreaming c' \<and> \<not> abortable c' \<and> lastSend c' = Some a
      \<and> prefix (messages c) (messages c') \<and> length (messages c') \<le> length (messages c) + 2)"

lemma send_stream_settled:
  assumes "lastSend c = Some a"
  shows "settled a c (send_stream sid a s c)"
  using assms append_user_bounds [of "messages c" "user_message sid (sa_text a) (s_now s)"]
  by (auto simp: settled_def send_stream_def Let_def fold_keeps case_prod_beta
      split: option.splits sum.splits)

lemma settled_start: "settled a (c\<lparr>error := e, lastSend := l, session_id := i, sessions_created := n\<rparr>) c' = settled a c c'"
  by (simp add: settled_def)

lemma send_settled: "settled a c (send a s c)"
proof -
  have st: "settled a c (send_stream sid a s (c\<lparr>error := None, lastSend := Some a\<rparr>))"
    "settled a c (send_stream sid a s (c\<lparr>error := None, lastSend := Some a, session_id := i, sessions_created := n\<rparr>))" for sid i n
    using send_stream_settled [of "c\<lparr>error := None, lastSend := Some a\<rparr>" a sid s]
      send_stream_settled [of "c\<lparr>error := None, lastSend := Some a, session_id := i, sessions_created := n\<rparr>" a sid s]
    by (simp_all add: settled_def)
  have f: "settled a c (send_failed err (c\<lparr>error := None, lastSend := Some a\<rparr>))"
    "settled a c (send_failed err (c\<lparr>error := None, lastSend := Some a, session_id := i, sessions_created := n\<rparr>))" for err i n
    by (simp_all add: settled_def)
  show ?thesis
    by (auto simp: send_def Let_def st f split: sum.splits)
qed

text \<open>A complete stream with some text.\<close>

definition completes :: "send_args \<Rightarrow> send_script \<Rightarrow> bool" where
  "completes a s =
     (sa_model a \<noteq> [] \<and> s_end s = None \<and> trim (stream_text (s_events s)) \<noteq> []
      \<and> (sa_files a = [] \<or> s_upload s = Inr ()))"

definition final_reading :: "send_script \<Rightarrow> chat \<Rightarrow> reading" where
  "final_reading s c = fst (fold on_event (s_events s) (reading_start, c))"

lemma send_stream_success:
  assumes "completes a s"
  shows "\<exists>msg. m_role msg = Assistant \<and> m_content msg = stream_text (s_events s)
      \<and> m_session msg = sid \<and> m_model msg = Some (sa_model a)
      \<and> messages (send_stream sid a s c)
          = append_user (user_message sid (sa_text a) (s_now s)) (messages c) @ [msg]
      \<and> error (send_stream sid a s c) = error c
      \<and> streamingContent (send_stream sid a s c) = [] \<and> streamingUsage (send_stream sid a s c) = None
      \<and> map_of (responseMs (send_stream sid a s c)) (m_id msg) = Some (s_elapsed s)"
  using assms
  by (auto simp: completes_def send_stream_def Let_def fold_keeps fold_accumulated
      case_prod_beta reading_start_def assistant_message_def split: sum.splits)

subsection \<open>Properties\<close>

text \<open>
  C21: While a stream is read, the text on the screen is always an earlier state of the text that
  has come in, and nothing of that text is lost: for every order of deltas, frames and
  stops, the text collected is the concatenation of the contents of the deltas, and what is
  shown is a prefix of it.
\<close>

theorem shown_text_is_prefix:
  "let (r, c') = fold on_event evs (reading_start, begin_stream c)
   in accumulated r = stream_text evs \<and> prefix (streamingContent c') (accumulated r)"
proof -
  have "shows_prefix (fold on_event evs (reading_start, begin_stream c))"
  proof (rule fold_invariant [of shows_prefix])
    show "shows_prefix (reading_start, begin_stream c)"
      by (simp add: shows_prefix_def begin_stream_def reset_throttle_def reading_start_def)
  qed (rule on_event_shows_prefix)
  then show ?thesis
    using fold_accumulated [of evs "(reading_start, begin_stream c)"]
    by (auto simp: shows_prefix_def reading_start_def case_prod_beta)
qed

text \<open>
  C22: However a request goes (refused, broken, stopped, empty or complete), \<open>send\<close> leaves
  the hook at rest: not streaming, nothing to abort, the arguments kept for a retry, and the
  messages the old ones with at most the user's and the assistant's message after them.
\<close>

theorem send_settles:
  "\<not> isStreaming (send a s c) \<and> \<not> abortable (send a s c) \<and> lastSend (send a s c) = Some a
   \<and> prefix (messages c) (messages (send a s c))
   \<and> length (messages (send a s c)) \<le> length (messages c) + 2"
  using send_settled [of a c s] by (simp add: settled_def)

text \<open>
  C7: a send whose stream is complete, in a session that exists, appends to the messages the user's own, with
  the session and the text that was sent, and then one reply; the user's is left out only when the last message
  already is the user's with the same text. The reply is the assistant's in that session, by the model asked, and its
  content is the text of all deltas whatever frames and stops came between them. The error and the streaming
  text are cleared, and the response time is recorded under the reply.
\<close>

theorem send_adds_reply:
  assumes "completes a s" and "truthy (session_id c)"
  shows "\<exists>question reply.
    m_role question = User \<and> m_content question = sa_text a \<and> m_session question = the (session_id c)
    \<and> m_role reply = Assistant \<and> m_content reply = stream_text (s_events s)
    \<and> m_session reply = the (session_id c) \<and> m_model reply = Some (sa_model a)
    \<and> messages (send a s c) = messages c
        @ (if messages c \<noteq> [] \<and> m_role (last (messages c)) = User \<and> m_content (last (messages c)) = sa_text a
           then [] else [question])
        @ [reply]
    \<and> error (send a s c) = None \<and> streamingContent (send a s c) = []
    \<and> map_of (responseMs (send a s c)) (m_id reply) = Some (s_elapsed s)"
proof -
  have "send a s c = send_stream (the (session_id c)) a s (c\<lparr>error := None, lastSend := Some a\<rparr>)"
    using assms by (auto simp: send_def completes_def Let_def)
  with send_stream_success [OF assms(1), of "the (session_id c)" "c\<lparr>error := None, lastSend := Some a\<rparr>"]
  obtain reply where r: "m_role reply = Assistant" "m_content reply = stream_text (s_events s)"
    "m_session reply = the (session_id c)" "m_model reply = Some (sa_model a)"
    "messages (send a s c) = append_user (user_message (the (session_id c)) (sa_text a) (s_now s)) (messages c) @ [reply]"
    "error (send a s c) = None" "streamingContent (send a s c) = []"
    "map_of (responseMs (send a s c)) (m_id reply) = Some (s_elapsed s)" by auto
  show ?thesis
    by (rule exI [of _ "user_message (the (session_id c)) (sa_text a) (s_now s)"], rule exI [of _ reply])
      (simp add: r append_user_def user_message_def)
qed

definition demo_delta :: stream_delta where
  "demo_delta = \<lparr>content = Some (JString ''Hello''), finish_reason = None, usage = None, trace_id = None\<rparr>"

definition demo_script :: send_script where
  "demo_script = \<lparr>s_create = Inr ''s1'', s_upload = Inr (), s_events = [Delta demo_delta, Frame, Delta demo_delta],
     s_end = None, s_get = Inr JNull, s_now = 1, s_now2 = 2, s_elapsed = 30\<rparr>"

definition demo_args :: send_args where
  "demo_args = \<lparr>sa_text = ''Hi'', sa_model = ''m'', sa_files = []\<rparr>"

lemma demo_completes: "completes demo_args demo_script"
  by code_simp

lemma send_adds_reply_witness:
  "\<exists>msg :: chat_message. m_content msg = ''HelloHello''
    \<and> map_of (responseMs (send demo_args demo_script (chat_start (Some ''s1'')))) (m_id msg) = Some 30"
proof -
  have "stream_text (s_events demo_script) = ''HelloHello''" "s_elapsed demo_script = 30"
    by (simp_all add: demo_script_def demo_delta_def stream_text_def)
  note demo = this
  have "truthy (session_id (chat_start (Some ''s1'')))" by (simp add: chat_start_def)
  from send_adds_reply [OF demo_completes this] show ?thesis
    unfolding demo by metis
qed

text \<open>
  A retry does not repeat the question: when the server has stored the user's message, so
  that its messages end with it, a retry that completes shows the server's messages followed
  by the reply alone.
\<close>

theorem retry_asks_once:
  assumes "lastSend c = Some a" and "truthy (session_id c)"
    and "ms \<noteq> []" "m_role (last ms) = User" "m_content (last ms) = sa_text a"
    and "completes (a\<lparr>sa_model := (if model = [] then sa_model a else model)\<rparr>) s"
  shows "\<exists>msg. messages (retry model (Inr ms) s c) = ms @ [msg]
    \<and> m_role msg = Assistant \<and> m_content msg = stream_text (s_events s)"
proof -
  let ?a = "a\<lparr>sa_model := (if model = [] then sa_model a else model)\<rparr>"
  let ?c = "c\<lparr>error := None, messages := ms\<rparr>"
  have r: "retry model (Inr ms) s c = send ?a s ?c"
    using assms(1,2) by (simp add: retry_def Let_def)
  have st: "send ?a s ?c
      = send_stream (the (session_id c)) ?a s (?c\<lparr>error := None, lastSend := Some ?a\<rparr>)"
    using assms(2,6) by (auto simp: send_def completes_def Let_def)
  obtain msg where "m_role msg = Assistant" "m_content msg = stream_text (s_events s)"
    "messages (send ?a s ?c)
      = append_user (user_message (the (session_id c)) (sa_text ?a) (s_now s)) ms @ [msg]"
    using send_stream_success [OF assms(6), of "the (session_id c)" "?c\<lparr>error := None, lastSend := Some ?a\<rparr>"]
    unfolding st by auto
  moreover have "append_user (user_message sid (sa_text a) n) ms = ms" for sid n
    using assms(3-5) by (simp add: append_user_def user_message_def)
  ultimately show ?thesis unfolding r by auto
qed

lemma retry_asks_once_witness:
  "\<exists>msg. messages (retry [] (Inr [user_message ''s1'' ''Hi'' 1]) demo_script
      ((chat_start (Some ''s1''))\<lparr>lastSend := Some demo_args\<rparr>)) = [user_message ''s1'' ''Hi'' 1] @ [msg]
    \<and> m_content msg = ''HelloHello''"
proof -
  have "stream_text (s_events demo_script) = ''HelloHello''"
    by (simp add: demo_script_def demo_delta_def stream_text_def)
  with retry_asks_once [of "(chat_start (Some ''s1''))\<lparr>lastSend := Some demo_args\<rparr>" demo_args
      "[user_message ''s1'' ''Hi'' 1]" "[]" demo_script] demo_completes
  show ?thesis by (auto simp: chat_start_def user_message_def demo_args_def)
qed

text \<open>
  A resumed stream that breaks leaves the hook streaming for ever: when the status request
  says there is a stream and reading it fails, the history has loaded and a prompt to retry
  may be shown, but the streaming flag and the stop function stay on although nothing is
  being read any more.
\<close>

theorem broken_resume_keeps_streaming:
  assumes "truthy (session_id c)" and "l_messages l = Inr msgs" "l_status l = Inr True"
    and "l_end l = Some err" "Stop \<notin> set (l_events l)"
  shows "isStreaming (loadHistory l c) \<and> abortable (loadHistory l c) \<and> \<not> isLoading (loadHistory l c)"
proof -
  have k: "isStreaming (retry_prompt ms c) = isStreaming c \<and> abortable (retry_prompt ms c) = abortable c" for ms c
    by (simp add: retry_prompt_def)
  have "isStreaming (resume_reading sid l ms c) \<and> abortable (resume_reading sid l ms c)" for sid ms c
    using fold_streaming [OF assms(5), of "(reading_start, (begin_stream c)\<lparr>abortable := True\<rparr>)"] assms(4)
    by (simp add: resume_reading_def case_prod_beta Let_def k)
  then show ?thesis using assms(1-3) by (simp add: loadHistory_def Let_def)
qed

lemma broken_resume_keeps_streaming_witness:
  "isStreaming (loadHistory \<lparr>l_messages = Inr [], l_status = Inr True, l_events = [Delta demo_delta, Frame],
      l_end = Some \<lparr>t_name = ''TypeError'', t_text = ''network error''\<rparr>, l_now = 0\<rparr> (chat_start (Some ''s1'')))"
  using broken_resume_keeps_streaming [of "chat_start (Some ''s1'')"
      "\<lparr>l_messages = Inr [], l_status = Inr True, l_events = [Delta demo_delta, Frame],
        l_end = Some \<lparr>t_name = ''TypeError'', t_text = ''network error''\<rparr>, l_now = 0\<rparr>" "[]"]
  by (simp add: chat_start_def)

end
