(* ===== verification/Pii_Policy.thy ===== *)
theory Pii_Policy
  imports Prelude Complex_Main
begin

text \<open>
  The privacy policy of a chat session: \<^verbatim>\<open>pages/chat/hooks/useSessionPiiPolicy.ts\<close>, the
  controls of \<^verbatim>\<open>pages/chat/components/PiiPanel.tsx\<close> and the flush of
  \<^verbatim>\<open>pages/chat/ChatPage.tsx\<close>. A policy has a floor, which the system sets; a session may
  strengthen it by an override. Before there is a session the override is kept locally.

  A field of an override is absent, null or a value: \<open>None\<close>, \<open>Some None\<close> or \<open>Some (Some v)\<close>.
  Thresholds are rationals.
\<close>

subsection \<open>Policies\<close>

datatype egress_mode = Redact | TokenizeReversible

datatype fail_action = Block | Allow | FallbackToLocal

datatype telemetry_mode = Sanitized | MetricsOnly

record telemetry_policy =
  t_enabled :: bool
  t_mode :: telemetry_mode
  t_store_raw :: bool

record egress_policy =
  g_cloud :: bool
  g_local :: bool
  g_mode :: egress_mode
  g_fail :: fail_action

record presidio_policy =
  d_language :: string
  d_threshold :: rat
  d_entities :: "string list"

record pii_config =
  telemetry :: telemetry_policy
  egress :: egress_policy
  presidio :: presidio_policy

type_synonym 'a field = "'a option option"

record pii_override =
  o_pii_enabled :: "bool field"
  o_cloud :: "bool field"
  o_local :: "bool field"
  o_mode :: "egress_mode field"
  o_fail :: "fail_action field"
  o_telemetry :: "bool field"
  o_telemetry_mode :: "telemetry_mode field"
  o_threshold :: "rat field"
  o_entities :: "string list field"

definition no_override :: pii_override where
  "no_override = \<lparr>o_pii_enabled = None, o_cloud = None, o_local = None, o_mode = None,
     o_fail = None, o_telemetry = None, o_telemetry_mode = None, o_threshold = None,
     o_entities = None\<rparr>"

text \<open>\<open>v != null\<close>: the value of a field, if it has one, else the default.\<close>

definition field_or :: "'a \<Rightarrow> 'a field \<Rightarrow> 'a" where
  "field_or d f = (case f of Some (Some v) \<Rightarrow> v | _ \<Rightarrow> d)"

lemma field_or_simps [simp]:
  "field_or d None = d" "field_or d (Some None) = d" "field_or d (Some (Some v)) = v"
  by (simp_all add: field_or_def)

definition has_value :: "'a field \<Rightarrow> bool" where
  "has_value f = (case f of Some (Some v) \<Rightarrow> True | _ \<Rightarrow> False)"

definition applyOverride :: "pii_config \<Rightarrow> pii_override \<Rightarrow> pii_config" where
  "applyOverride fl ov =
     \<lparr>telemetry = (telemetry fl)
        \<lparr>t_enabled := field_or (t_enabled (telemetry fl)) (o_telemetry ov),
         t_mode := field_or (t_mode (telemetry fl)) (o_telemetry_mode ov)\<rparr>,
      egress = (egress fl)
        \<lparr>g_cloud := field_or (g_cloud (egress fl)) (o_cloud ov),
         g_local := field_or (g_local (egress fl)) (o_local ov),
         g_mode := field_or (g_mode (egress fl)) (o_mode ov),
         g_fail := field_or (g_fail (egress fl)) (o_fail ov)\<rparr>,
      presidio = (presidio fl)
        \<lparr>d_threshold := field_or (d_threshold (presidio fl)) (o_threshold ov),
         d_entities := d_entities (presidio fl) @ field_or [] (o_entities ov)\<rparr>\<rparr>"

text \<open>\<open>Object.values(ov).some(v => v != null)\<close>.\<close>

definition any_override :: "pii_override \<Rightarrow> bool" where
  "any_override ov =
     (has_value (o_pii_enabled ov) \<or> has_value (o_cloud ov) \<or> has_value (o_local ov)
      \<or> has_value (o_mode ov) \<or> has_value (o_fail ov) \<or> has_value (o_telemetry ov)
      \<or> has_value (o_telemetry_mode ov) \<or> has_value (o_threshold ov) \<or> has_value (o_entities ov))"

subsection \<open>The hook\<close>

record session_policy =
  sp_session :: string
  sp_has_override :: bool
  sp_override :: "pii_override option"
  sp_floor :: "pii_config option"
  sp_effective :: "pii_config option"

record pii_hook =
  h_policy :: "session_policy option"
  h_loading :: bool
  h_error :: "string option"
  h_defaults :: "session_policy option"
  h_local :: pii_override
  h_prev :: "string option option"

definition pii_start :: pii_hook where
  "pii_start = \<lparr>h_policy = None, h_loading = False, h_error = None, h_defaults = None,
     h_local = no_override, h_prev = None\<rparr>"

text \<open>The effect that recomputes the policy when the session, the defaults or the local overrides change.\<close>

definition recompute :: "string option \<Rightarrow> pii_hook \<Rightarrow> pii_hook" where
  "recompute sid h =
     (if truthy sid then h
      else case h_defaults h of
        None \<Rightarrow> h
      | Some d \<Rightarrow>
          (case sp_floor d of
             None \<Rightarrow> h
           | Some fl \<Rightarrow>
               if any_override (h_local h) then
                 h\<lparr>h_policy := Some (d\<lparr>sp_has_override := True, sp_override := Some (h_local h),
                    sp_effective := Some (applyOverride fl (h_local h))\<rparr>)\<rparr>
               else h\<lparr>h_policy := Some d\<rparr>))"

text \<open>The answers of the two requests; \<open>Inl\<close> carries the message.\<close>

definition defaults_loaded :: "string option \<Rightarrow> string + session_policy \<Rightarrow> pii_hook \<Rightarrow> pii_hook" where
  "defaults_loaded sid res h =
     (case res of
        Inr d \<Rightarrow> recompute sid (h\<lparr>h_defaults := Some d, h_policy := Some d\<rparr>)
      | Inl e \<Rightarrow> h\<lparr>h_error := Some e\<rparr>)\<lparr>h_loading := False\<rparr>"

definition session_loaded :: "string + session_policy \<Rightarrow> pii_hook \<Rightarrow> pii_hook" where
  "session_loaded res h =
     (case res of Inr p \<Rightarrow> h\<lparr>h_policy := Some p\<rparr> | Inl e \<Rightarrow> h\<lparr>h_error := Some e\<rparr>)\<lparr>h_loading := False\<rparr>"

datatype pii_request =
    GetDefaults
  | GetSession string
  | Patch string pii_override
  | Clear string

definition refresh :: "string option \<Rightarrow> pii_hook \<Rightarrow> pii_hook \<times> pii_request list" where
  "refresh sid h =
     (h\<lparr>h_loading := True, h_error := None\<rparr>,
      [if truthy sid then GetSession (the sid) else GetDefaults])"

text \<open>The effect that fetches when the session has changed.\<close>

definition session_effect :: "string option \<Rightarrow> pii_hook \<Rightarrow> pii_hook \<times> pii_request list" where
  "session_effect sid h =
     (let (h', reqs) =
        (if truthy sid then
           (if Some sid \<noteq> h_prev h
            then (let (h', r) = refresh sid h in (recompute sid (h'\<lparr>h_local := no_override\<rparr>), r))
            else (h, []))
         else if h_prev h \<noteq> Some sid then refresh sid h
         else (h, []))
      in (h'\<lparr>h_prev := Some sid\<rparr>, reqs))"

definition merge_field :: "'a field \<Rightarrow> 'a field \<Rightarrow> 'a field" where
  "merge_field prev patch = (case patch of None \<Rightarrow> prev | Some v \<Rightarrow> Some v)"

text \<open>The elements of a \<open>Set\<close> built from an array: the first occurrences, in order.\<close>

fun unique :: "'a list \<Rightarrow> 'a list" where
  "unique [] = []"
| "unique (x # xs) = x # filter (\<lambda>y. y \<noteq> x) (unique xs)"

definition merge_override :: "pii_override \<Rightarrow> pii_override \<Rightarrow> pii_override" where
  "merge_override prev patch =
     \<lparr>o_pii_enabled = merge_field (o_pii_enabled prev) (o_pii_enabled patch),
      o_cloud = merge_field (o_cloud prev) (o_cloud patch),
      o_local = merge_field (o_local prev) (o_local patch),
      o_mode = merge_field (o_mode prev) (o_mode patch),
      o_fail = merge_field (o_fail prev) (o_fail patch),
      o_telemetry = merge_field (o_telemetry prev) (o_telemetry patch),
      o_telemetry_mode = merge_field (o_telemetry_mode prev) (o_telemetry_mode patch),
      o_threshold = merge_field (o_threshold prev) (o_threshold patch),
      o_entities =
        (case o_entities patch of
           Some (Some add) \<Rightarrow> Some (Some (unique (field_or [] (o_entities prev) @ add)))
         | _ \<Rightarrow> merge_field (o_entities prev) (o_entities patch))\<rparr>"

text \<open>
  \<open>updateOverride\<close>: with a session the server answers the patch (\<open>Inl\<close>: it failed, and the
  session is fetched again, with the second answer); without one the patch is merged locally.
\<close>

definition updateOverride ::
  "string option \<Rightarrow> pii_override \<Rightarrow> string + session_policy \<Rightarrow> string + session_policy \<Rightarrow> pii_hook
    \<Rightarrow> pii_hook \<times> pii_request list" where
  "updateOverride sid patch res again h =
     (if truthy sid then
        (case res of
           Inr p \<Rightarrow> (h\<lparr>h_error := None, h_policy := Some p\<rparr>, [Patch (the sid) patch])
         | Inl e \<Rightarrow>
             let (h', reqs) = refresh sid (h\<lparr>h_error := Some e\<rparr>)
             in (session_loaded again h', Patch (the sid) patch # reqs))
      else (recompute sid (h\<lparr>h_local := merge_override (h_local h) patch\<rparr>), []))"

definition clearOverride ::
  "string option \<Rightarrow> string + unit \<Rightarrow> string + session_policy \<Rightarrow> pii_hook \<Rightarrow> pii_hook \<times> pii_request list" where
  "clearOverride sid res again h =
     (if truthy sid then
        (case res of
           Inr _ \<Rightarrow>
             let (h', reqs) = refresh sid (h\<lparr>h_error := None\<rparr>)
             in (session_loaded again h', Clear (the sid) # reqs)
         | Inl e \<Rightarrow> (h\<lparr>h_error := Some e\<rparr>, [Clear (the sid)]))
      else (recompute sid (h\<lparr>h_local := no_override\<rparr>), []))"

text \<open>The flush of the local overrides into a new session.\<close>

definition flush_overrides :: "string \<Rightarrow> pii_override \<Rightarrow> pii_request list" where
  "flush_overrides sid ov = (if any_override ov then [Patch sid ov] else [])"

subsection \<open>The panel\<close>

record panel_view =
  v_floorCloud :: bool
  v_floorLocal :: bool
  v_floorTelemetry :: bool
  v_floorThreshold :: rat
  v_floorEntities :: "string list"
  v_allEntities :: "string list"
  v_addedEntities :: "string list"

definition panel_view :: "session_policy option \<Rightarrow> panel_view" where
  "panel_view pol =
     (let fl = Option.bind pol sp_floor; eff = Option.bind pol sp_effective;
          fe = (case fl of None \<Rightarrow> [] | Some c \<Rightarrow> d_entities (presidio c));
          ae = (case eff of None \<Rightarrow> [] | Some c \<Rightarrow> d_entities (presidio c))
      in \<lparr>v_floorCloud = (case fl of None \<Rightarrow> False | Some c \<Rightarrow> g_cloud (egress c)),
          v_floorLocal = (case fl of None \<Rightarrow> False | Some c \<Rightarrow> g_local (egress c)),
          v_floorTelemetry = (case fl of None \<Rightarrow> False | Some c \<Rightarrow> t_enabled (telemetry c)),
          v_floorThreshold = (case fl of None \<Rightarrow> 0 | Some c \<Rightarrow> d_threshold (presidio c)),
          v_floorEntities = fe, v_allEntities = ae,
          v_addedEntities = filter (\<lambda>e. e \<notin> set fe) ae\<rparr>)"

text \<open>
  What the user does, and the patch it saves: a locked switch saves nothing, and the slider
  moves between the floor and one.
\<close>

datatype panel_action =
    CloudSwitch bool
  | LocalSwitch bool
  | ModeSelect egress_mode
  | FailSelect fail_action
  | TelemetrySwitch bool
  | ThresholdSlide rat
  | DeleteEntity string
  | AddEntity string

text \<open>What each control saves: nothing while it is disabled.\<close>

definition cloudSwitch :: "panel_view \<Rightarrow> bool \<Rightarrow> pii_override option" where
  "cloudSwitch v b =
     (if v_floorCloud v then None else Some (no_override\<lparr>o_cloud := Some (Some b)\<rparr>))"

definition localSwitch :: "panel_view \<Rightarrow> bool \<Rightarrow> pii_override option" where
  "localSwitch v b =
     (if v_floorLocal v then None else Some (no_override\<lparr>o_local := Some (Some b)\<rparr>))"

definition telemetrySwitch :: "panel_view \<Rightarrow> bool \<Rightarrow> pii_override option" where
  "telemetrySwitch v b =
     (if v_floorTelemetry v then None else Some (no_override\<lparr>o_telemetry := Some (Some b)\<rparr>))"

definition thresholdSlider :: "panel_view \<Rightarrow> rat \<Rightarrow> pii_override option" where
  "thresholdSlider v x =
     (if v_floorThreshold v \<le> x \<and> x \<le> 1
      then Some (no_override\<lparr>o_threshold := Some (Some x)\<rparr>) else None)"

definition deleteEntity :: "panel_view \<Rightarrow> string \<Rightarrow> pii_override option" where
  "deleteEntity v e =
     (if e \<in> set (v_addedEntities v) then
        (let rest = filter (\<lambda>x. x \<noteq> e) (v_addedEntities v)
         in Some (no_override\<lparr>o_entities := Some (if length rest > 0 then Some rest else None)\<rparr>))
      else None)"

definition COMMON_ENTITIES :: "string list" where
  "COMMON_ENTITIES = [''PERSON'', ''EMAIL_ADDRESS'', ''PHONE_NUMBER'', ''CREDIT_CARD'', ''IBAN_CODE'',
     ''IP_ADDRESS'', ''US_SSN'', ''LOCATION'', ''DATE_TIME'', ''NRP'', ''MEDICAL_LICENSE'', ''URL'',
     ''US_DRIVER_LICENSE'', ''US_PASSPORT'', ''US_BANK_NUMBER'', ''UK_NHS'', ''CRYPTO'', ''AU_ABN'',
     ''AU_ACN'', ''AU_TFN'', ''AU_MEDICARE'']"

definition available_entities :: "string list \<Rightarrow> string list" where
  "available_entities existing = filter (\<lambda>e. e \<notin> set existing) COMMON_ENTITIES"

definition addEntity :: "panel_view \<Rightarrow> string \<Rightarrow> pii_override option" where
  "addEntity v e =
     (if e \<in> set (available_entities (v_allEntities v))
      then Some (no_override\<lparr>o_entities := Some (Some (v_addedEntities v @ [e]))\<rparr>) else None)"

fun panel_patch :: "panel_view \<Rightarrow> panel_action \<Rightarrow> pii_override option" where
  "panel_patch v (CloudSwitch b) = cloudSwitch v b"
| "panel_patch v (LocalSwitch b) = localSwitch v b"
| "panel_patch v (ModeSelect m) = Some (no_override\<lparr>o_mode := Some (Some m)\<rparr>)"
| "panel_patch v (FailSelect a) = Some (no_override\<lparr>o_fail := Some (Some a)\<rparr>)"
| "panel_patch v (TelemetrySwitch b) = telemetrySwitch v b"
| "panel_patch v (ThresholdSlide x) = thresholdSlider v x"
| "panel_patch v (DeleteEntity e) = deleteEntity v e"
| "panel_patch v (AddEntity e) = addEntity v e"

lemmas control_defs = cloudSwitch_def localSwitch_def telemetrySwitch_def thresholdSlider_def
  deleteEntity_def addEntity_def

text \<open>An action of the user before there is a session.\<close>

definition local_action :: "panel_action \<Rightarrow> pii_hook \<Rightarrow> pii_hook" where
  "local_action a h =
     (case (if h_policy h = None then None else panel_patch (panel_view (h_policy h)) a) of
        None \<Rightarrow> h
      | Some patch \<Rightarrow> fst (updateOverride None patch (Inl []) (Inl []) h))"

subsection \<open>Lemmas\<close>

lemma set_unique [simp]: "set (unique xs) = set xs"
  by (induction xs) auto

lemma has_value_field_or: "\<not> has_value f \<Longrightarrow> field_or d f = d"
  by (auto simp: has_value_def field_or_def split: option.splits)

lemma field_or_merge: "field_or d (merge_field prev patch) =
    (case patch of None \<Rightarrow> field_or d prev | Some v \<Rightarrow> field_or d (Some v))"
  by (simp add: merge_field_def split: option.splits)

lemma apply_no_values: "\<not> any_override ov \<Longrightarrow> applyOverride fl ov = fl"
  by (simp add: any_override_def applyOverride_def has_value_field_or)

text \<open>What the controls of the panel guarantee of the local overrides.\<close>

definition keeps_floor :: "pii_config \<Rightarrow> pii_override \<Rightarrow> bool" where
  "keeps_floor fl ov =
     ((g_cloud (egress fl) \<longrightarrow> field_or True (o_cloud ov))
      \<and> (g_local (egress fl) \<longrightarrow> field_or True (o_local ov))
      \<and> (t_enabled (telemetry fl) \<longrightarrow> field_or True (o_telemetry ov))
      \<and> d_threshold (presidio fl) \<le> field_or (d_threshold (presidio fl)) (o_threshold ov))"

lemma recompute_keeps [simp]:
  "h_defaults (recompute sid h) = h_defaults h" "h_local (recompute sid h) = h_local h"
  by (auto simp: recompute_def split: option.splits)

lemma recompute_policy:
  "h_defaults h = Some d \<Longrightarrow> sp_floor d = Some fl \<Longrightarrow>
     h_policy (recompute None h) =
       Some (if any_override (h_local h)
             then d\<lparr>sp_has_override := True, sp_override := Some (h_local h),
                    sp_effective := Some (applyOverride fl (h_local h))\<rparr>
             else d)"
  by (simp add: recompute_def)

text \<open>The state before there is a session: the defaults are loaded and the policy is up to date.\<close>

definition pii_ready :: "session_policy \<Rightarrow> pii_config \<Rightarrow> pii_hook \<Rightarrow> bool" where
  "pii_ready d fl h =
     (h_defaults h = Some d \<and> sp_floor d = Some fl
      \<and> h_policy h = h_policy (recompute None h) \<and> keeps_floor fl (h_local h))"

lemma ready_view:
  assumes "pii_ready d fl h"
  shows "v_floorCloud (panel_view (h_policy h)) = g_cloud (egress fl)"
    "v_floorLocal (panel_view (h_policy h)) = g_local (egress fl)"
    "v_floorTelemetry (panel_view (h_policy h)) = t_enabled (telemetry fl)"
    "v_floorThreshold (panel_view (h_policy h)) = d_threshold (presidio fl)"
  using assms recompute_policy [of h d fl]
  by (auto simp: pii_ready_def panel_view_def Let_def)

lemma ready_policy: "pii_ready d fl h \<Longrightarrow> h_policy h \<noteq> None"
  by (auto simp: pii_ready_def recompute_policy)

lemma patch_keeps_floor:
  assumes "pii_ready d fl h" "panel_patch (panel_view (h_policy h)) a = Some patch"
  shows "keeps_floor fl (merge_override (h_local h) patch)"
  using assms(2) ready_view [OF assms(1)] assms(1)
  by (cases a)
    (auto simp: pii_ready_def keeps_floor_def merge_override_def field_or_merge no_override_def
      control_defs Let_def split: if_splits)

lemma local_action_ready: "pii_ready d fl h \<Longrightarrow> pii_ready d fl (local_action a h)"
proof -
  assume r: "pii_ready d fl h"
  have "pii_ready d fl (recompute None (h\<lparr>h_local := merge_override (h_local h) patch\<rparr>))"
    if "panel_patch (panel_view (h_policy h)) a = Some patch" for patch
    using patch_keeps_floor [OF r that] r
    by (simp add: pii_ready_def recompute_policy)
  with r show ?thesis
    by (auto simp: local_action_def updateOverride_def split: option.splits)
qed

lemma actions_ready: "pii_ready d fl h \<Longrightarrow> pii_ready d fl (fold local_action as h)"
  by (induction "as" arbitrary: h) (auto simp: local_action_ready)

lemma loaded_ready:
  assumes "sp_floor d = Some fl" "h_local h = no_override"
  shows "pii_ready d fl (defaults_loaded None (Inr d) h)"
proof -
  have "\<not> any_override no_override" by (simp add: any_override_def no_override_def has_value_def)
  with assms show ?thesis
    by (simp add: pii_ready_def defaults_loaded_def keeps_floor_def no_override_def recompute_def)
qed

lemma ready_effective:
  assumes "pii_ready d fl h" "sp_effective d = Some fl"
  shows "Option.bind (h_policy h) sp_effective = Some (applyOverride fl (h_local h))"
  using assms recompute_policy [of h d fl]
  by (auto simp: pii_ready_def apply_no_values)


subsection \<open>Properties\<close>






definition strict_floor :: pii_config where
  "strict_floor =
     \<lparr>telemetry = \<lparr>t_enabled = True, t_mode = Sanitized, t_store_raw = False\<rparr>,
      egress = \<lparr>g_cloud = True, g_local = False, g_mode = Redact, g_fail = Block\<rparr>,
      presidio = \<lparr>d_language = ''en'', d_threshold = 1 / 2, d_entities = [''PERSON'']\<rparr>\<rparr>"

definition strict_defaults :: session_policy where
  "strict_defaults = \<lparr>sp_session = [], sp_has_override = False, sp_override = None,
     sp_floor = Some strict_floor, sp_effective = Some strict_floor\<rparr>"


text \<open>
  Before there is a session an entity the user has added cannot be taken back while there is
  another one: deleting its chip merges the remaining entities into the ones kept, so the
  entities of the policy are the same set as before.
\<close>

theorem added_entity_not_deleted:
  assumes "sp_floor d = Some fl" and "sp_effective d = Some fl"
    and "h = fold local_action acts (defaults_loaded None (Inr d) pii_start)"
    and "e \<in> set (v_addedEntities (panel_view (h_policy h)))"
    and "e' \<in> set (v_addedEntities (panel_view (h_policy h)))" "e' \<noteq> e"
  shows "set (v_allEntities (panel_view (h_policy (local_action (DeleteEntity e) h))))
    = set (v_allEntities (panel_view (h_policy h)))"
proof -
  let ?add = "v_addedEntities (panel_view (h_policy h))"
  have r: "pii_ready d fl h"
    unfolding assms(3) by (rule actions_ready, rule loaded_ready, rule assms(1)) (simp add: pii_start_def)
  have all: "v_allEntities (panel_view (h_policy h0)) = d_entities (presidio fl) @ field_or [] (o_entities (h_local h0))"
    if "pii_ready d fl h0" for h0
    using ready_effective [OF that assms(2)]
    by (cases "h_policy h0") (simp_all add: panel_view_def applyOverride_def Let_def)
  have sub: "set ?add \<subseteq> set (field_or [] (o_entities (h_local h)))"
    using all [OF r] r by (auto simp: panel_view_def Let_def pii_ready_def recompute_policy)
  have "filter (\<lambda>x. x \<noteq> e) ?add \<noteq> []"
    using assms(5,6) by (auto simp: filter_empty_conv)
  then have "set (field_or [] (o_entities (h_local (local_action (DeleteEntity e) h))))
      = set (field_or [] (o_entities (h_local h)))"
    using assms(4) sub ready_policy [OF r]
    by (auto simp: local_action_def updateOverride_def merge_override_def deleteEntity_def Let_def)
  then show ?thesis
    using all [OF r] all [OF local_action_ready [OF r, of "DeleteEntity e"]] by simp
qed

lemma added_entity_not_deleted_witness:
  "''URL'' \<in> set (v_allEntities (panel_view (h_policy (local_action (DeleteEntity ''URL'')
     (fold local_action [AddEntity ''URL'', AddEntity ''NRP''] (defaults_loaded None (Inr strict_defaults) pii_start))))))"
proof -
  let ?h = "fold local_action [AddEntity ''URL'', AddEntity ''NRP''] (defaults_loaded None (Inr strict_defaults) pii_start)"
  have v: "v_addedEntities (panel_view (h_policy ?h)) = [''URL'', ''NRP'']"
    "''URL'' \<in> set (v_allEntities (panel_view (h_policy ?h)))"
    by code_simp+
  have "set (v_allEntities (panel_view (h_policy (local_action (DeleteEntity ''URL'') ?h))))
      = set (v_allEntities (panel_view (h_policy ?h)))"
  proof (rule added_entity_not_deleted [OF _ _ refl])
    show "sp_floor strict_defaults = Some strict_floor" "sp_effective strict_defaults = Some strict_floor"
      by (simp_all add: strict_defaults_def)
    show "''URL'' \<in> set (v_addedEntities (panel_view (h_policy ?h)))"
      "''NRP'' \<in> set (v_addedEntities (panel_view (h_policy ?h)))"
      unfolding v(1) by simp_all
  qed simp
  with v(2) show ?thesis by blast
qed

text \<open>
  The message of an update the server refused is lost: the hook sets it and then fetches the
  session again, which clears it, so when that succeeds the panel shows no error.
\<close>

theorem refused_update_unreported:
  assumes "truthy sid"
  shows "h_error (fst (updateOverride sid patch (Inl e) (Inr p) h)) = None
    \<and> h_policy (fst (updateOverride sid patch (Inl e) (Inr p) h)) = Some p"
  using assms by (simp add: updateOverride_def refresh_def session_loaded_def)

lemma refused_update_unreported_witness:
  "h_error (fst (updateOverride (Some ''s1'') no_override (Inl ''403'') (Inr strict_defaults) pii_start)) = None"
  using refused_update_unreported [of "Some ''s1''"] by simp

end
