(* ===== verification/Tool_Policy.thy ===== *)
theory Tool_Policy
  imports Prelude
begin

text \<open>
  The tools of a chat: the policy hook \<^verbatim>\<open>pages/chat/hooks/useToolPolicy.ts\<close> and the catalogue
  panel \<^verbatim>\<open>pages/chat/components/ToolPanel.tsx\<close>. The comparison \<open>localeCompare\<close> depends on the
  locale of the browser and is an argument (\<open>le a b\<close>: not after); sorting is stable.
\<close>

datatype execution_mode = LocalOnly | ServerOnly | Hybrid

record tool =
  tool_id :: string
  display_name :: "string option"
  source :: string
  realm :: string
  effective_enabled :: bool
  policy_allowed :: bool
  user_enabled :: bool
  available :: bool

record tool_override =
  ov_tool :: string
  ov_enabled :: bool

text \<open>A patch of the tool policy of a session: the fields that are present.\<close>

record tool_patch =
  tp_mode :: "execution_mode option"
  tp_overrides :: "tool_override list option"

datatype tool_request =
    GetPolicy string
  | PatchTools string tool_patch
  | GetTools string
  | GetCatalog execution_mode

subsection \<open>The policy hook\<close>

record tool_hook =
  th_policy :: "(string \<times> execution_mode) option"
  th_loading :: bool
  th_mode :: execution_mode
  th_prev :: "string option"

definition tool_hook_start :: tool_hook where
  "tool_hook_start = \<lparr>th_policy = None, th_loading = False, th_mode = ServerOnly, th_prev = None\<rparr>"

definition refresh_policy :: "string option \<Rightarrow> tool_hook \<Rightarrow> tool_hook \<times> tool_request list" where
  "refresh_policy sid h =
     (if \<not> truthy sid then (h, [])
      else (h\<lparr>th_loading := True\<rparr>, [GetPolicy (the sid)]))"

definition policy_loaded :: "unit + string \<times> execution_mode \<Rightarrow> tool_hook \<Rightarrow> tool_hook" where
  "policy_loaded res h =
     (case res of
        Inr (s, m) \<Rightarrow> h\<lparr>th_policy := Some (s, m), th_mode := m\<rparr>
      | Inl _ \<Rightarrow> h)\<lparr>th_loading := False\<rparr>"

text \<open>The effect that runs on mount and when the session changes.\<close>

definition tool_session_effect :: "string option \<Rightarrow> tool_hook \<Rightarrow> tool_hook \<times> tool_request list" where
  "tool_session_effect sid h =
     (let (h', reqs) =
        (if truthy sid then
           (if th_prev h \<noteq> None \<and> th_prev h \<noteq> sid then refresh_policy sid h else (h, []))
         else (h\<lparr>th_policy := None\<rparr>, []))
      in (h'\<lparr>th_prev := sid\<rparr>, reqs))"

text \<open>\<open>setExecutionMode\<close> and, with a session, the answer to its patch (\<open>None\<close>: refused).\<close>

definition setExecutionMode ::
  "string option \<Rightarrow> execution_mode \<Rightarrow> (string \<times> execution_mode) option \<Rightarrow> tool_hook
    \<Rightarrow> tool_hook \<times> tool_request list" where
  "setExecutionMode sid mode answer h =
     (let h = h\<lparr>th_mode := mode\<rparr>
      in if \<not> truthy sid then (h, [])
         else let patch = PatchTools (the sid) \<lparr>tp_mode = Some mode, tp_overrides = None\<rparr>
              in case answer of
                   Some p \<Rightarrow> (h\<lparr>th_policy := Some p\<rparr>, [patch])
                 | None \<Rightarrow> (let (h', reqs) = refresh_policy sid h in (h', patch # reqs)))"

subsection \<open>Groups\<close>

record tool_group =
  tg_key :: string
  tg_label :: string
  tg_source :: string
  tg_realm :: string
  tg_tools :: "tool list"

definition group_key :: "tool \<Rightarrow> string" where
  "group_key t =
     (case split_on CHR ''.'' (tool_id t) of
        a # b # r \<Rightarrow> a @ ''.'' @ b
      | _ \<Rightarrow> source t)"

definition group_label :: "tool \<Rightarrow> string" where
  "group_label t =
     (case split_on CHR ''.'' (tool_id t) of a # b # r \<Rightarrow> b | _ \<Rightarrow> source t)"

text \<open>The map of the groups, in the order of insertion.\<close>

fun add_tool :: "tool \<Rightarrow> tool_group list \<Rightarrow> tool_group list" where
  "add_tool t [] =
     [\<lparr>tg_key = group_key t, tg_label = group_label t, tg_source = source t,
       tg_realm = realm t, tg_tools = [t]\<rparr>]"
| "add_tool t (g # gs) =
     (if tg_key g = group_key t then g\<lparr>tg_tools := tg_tools g @ [t]\<rparr> # gs
      else g # add_tool t gs)"

definition tool_name :: "tool \<Rightarrow> string" where
  "tool_name t = (case display_name t of Some n \<Rightarrow> n | None \<Rightarrow> tool_id t)"

definition buildGroups :: "(string \<Rightarrow> string \<Rightarrow> bool) \<Rightarrow> tool list \<Rightarrow> tool_group list" where
  "buildGroups le tools =
     (let groups = sort_by (\<lambda>a b. le (tg_label a) (tg_label b)) (fold add_tool tools [])
      in map (\<lambda>g. g\<lparr>tg_tools := sort_by (\<lambda>a b. le (tool_name a) (tool_name b)) (tg_tools g)\<rparr>) groups)"

definition toolShortName :: "tool \<Rightarrow> string" where
  "toolShortName t = last (split_on CHR ''.'' (tool_name t))"

subsection \<open>The panel\<close>

record tool_panel =
  pn_catalog :: "tool list option"
  pn_loading :: bool
  pn_expanded :: "string list"

definition panel_refresh ::
  "string option \<Rightarrow> execution_mode \<Rightarrow> tool_panel \<Rightarrow> tool_panel \<times> tool_request list" where
  "panel_refresh sid mode p =
     (p\<lparr>pn_loading := True\<rparr>, [if truthy sid then GetTools (the sid) else GetCatalog mode])"

definition catalog_loaded :: "unit + tool list \<Rightarrow> tool_panel \<Rightarrow> tool_panel" where
  "catalog_loaded res p =
     (case res of Inr ts \<Rightarrow> p\<lparr>pn_catalog := Some ts\<rparr> | Inl _ \<Rightarrow> p)\<lparr>pn_loading := False\<rparr>"

definition panel_tools :: "tool_panel \<Rightarrow> tool list" where
  "panel_tools p = (case pn_catalog p of None \<Rightarrow> [] | Some ts \<Rightarrow> ts)"

definition enabledCount :: "tool_panel \<Rightarrow> nat" where
  "enabledCount p = length (filter effective_enabled (panel_tools p))"

text \<open>The effect that opens every group when none is open.\<close>

definition expand_effect :: "tool_group list \<Rightarrow> tool_panel \<Rightarrow> tool_panel" where
  "expand_effect groups p =
     (if length groups > 0 \<and> pn_expanded p = [] then p\<lparr>pn_expanded := map tg_key groups\<rparr> else p)"

definition switch_tool :: "string option \<Rightarrow> bool \<Rightarrow> tool \<Rightarrow> tool" where
  "switch_tool sid enabled t =
     t\<lparr>user_enabled := enabled,
       effective_enabled :=
         (if truthy sid then enabled \<and> policy_allowed t \<and> available t else enabled \<and> available t)\<rparr>"

definition switch_tools :: "string option \<Rightarrow> string list \<Rightarrow> bool \<Rightarrow> tool_panel \<Rightarrow> tool_panel" where
  "switch_tools sid ids enabled p =
     p\<lparr>pn_catalog := map_option (map (\<lambda>t. if tool_id t \<in> set ids then switch_tool sid enabled t else t))
         (pn_catalog p)\<rparr>"

text \<open>
  The handlers: the panel, the overrides handed to the page (only without a session), and the
  requests; \<open>ok\<close> says whether the patch is accepted.
\<close>

definition toggle_tools ::
  "string option \<Rightarrow> execution_mode \<Rightarrow> string list \<Rightarrow> bool \<Rightarrow> bool \<Rightarrow> tool_panel
    \<Rightarrow> tool_panel \<times> (string \<times> bool) list \<times> tool_request list" where
  "toggle_tools sid mode ids enabled ok p =
     (let p' = switch_tools sid ids enabled p
      in if \<not> truthy sid then (p', map (\<lambda>i. (i, enabled)) ids, [])
         else
           let patch = PatchTools (the sid) \<lparr>tp_mode = None,
                 tp_overrides = Some (map (\<lambda>i. \<lparr>ov_tool = i, ov_enabled = enabled\<rparr>) ids)\<rparr>
           in if ok then (p', [], [patch])
              else (let (p'', reqs) = panel_refresh sid mode p' in (p'', [], patch # reqs)))"

definition toggleTool ::
  "string option \<Rightarrow> execution_mode \<Rightarrow> string \<Rightarrow> bool \<Rightarrow> bool \<Rightarrow> tool_panel
    \<Rightarrow> tool_panel \<times> (string \<times> bool) list \<times> tool_request list" where
  "toggleTool sid mode toolId enabled ok p = toggle_tools sid mode [toolId] enabled ok p"

definition toggleGroup ::
  "string option \<Rightarrow> execution_mode \<Rightarrow> tool_group \<Rightarrow> bool \<Rightarrow> bool \<Rightarrow> tool_panel
    \<Rightarrow> tool_panel \<times> (string \<times> bool) list \<times> tool_request list" where
  "toggleGroup sid mode g enabled ok p =
     toggle_tools sid mode (map tool_id (tg_tools g)) enabled ok p"

definition toggleExpand :: "string \<Rightarrow> tool_panel \<Rightarrow> tool_panel" where
  "toggleExpand key p = p\<lparr>pn_expanded := set_toggle key (pn_expanded p)\<rparr>"

interpretation tool_expand: toggling toggleExpand "\<lambda>k p. k \<in> set (pn_expanded p)"
  by unfold_locales (simp add: toggleExpand_def)

subsection \<open>Lemmas\<close>

definition group_tools :: "tool_group list \<Rightarrow> tool multiset" where
  "group_tools gs = sum_list (map (\<lambda>g. mset (tg_tools g)) gs)"

lemma group_tools_add: "group_tools (add_tool t gs) = add_mset t (group_tools gs)"
  by (induction gs) (auto simp: group_tools_def)

lemma group_tools_fold: "group_tools (fold add_tool ts gs) = mset ts + group_tools gs"
  by (induction ts arbitrary: gs) (auto simp: group_tools_add)

definition group_ok :: "tool_group \<Rightarrow> bool" where
  "group_ok g = (tg_tools g \<noteq> [] \<and> list_all (\<lambda>t. group_key t = tg_key g) (tg_tools g))"

definition groups_ok :: "tool_group list \<Rightarrow> bool" where
  "groups_ok gs = (distinct (map tg_key gs) \<and> (\<forall>g \<in> set gs. group_ok g))"

lemma add_tool_keys: "set (map tg_key (add_tool t gs)) = insert (group_key t) (set (map tg_key gs))"
  by (induction gs) auto

lemma add_tool_distinct: "distinct (map tg_key gs) \<Longrightarrow> distinct (map tg_key (add_tool t gs))"
  using add_tool_keys [of t] by (induction gs) auto

lemma group_ok_append: "group_ok g \<Longrightarrow> tg_key g = group_key t \<Longrightarrow> group_ok (g\<lparr>tg_tools := tg_tools g @ [t]\<rparr>)"
  by (simp add: group_ok_def)

lemma add_tool_group_ok: "\<forall>g \<in> set gs. group_ok g \<Longrightarrow> \<forall>g \<in> set (add_tool t gs). group_ok g"
proof (induction gs)
  case Nil
  show ?case by (simp add: group_ok_def)
next
  case (Cons g gs)
  then show ?case using group_ok_append [of g t] by (cases "tg_key g = group_key t") auto
qed

lemma add_tool_ok: "groups_ok gs \<Longrightarrow> groups_ok (add_tool t gs)"
  unfolding groups_ok_def using add_tool_distinct add_tool_group_ok by blast

lemma fold_add_ok: "groups_ok gs \<Longrightarrow> groups_ok (fold add_tool ts gs)"
  by (induction ts arbitrary: gs) (auto simp: add_tool_ok)

lemma sort_groups_ok: "groups_ok gs \<Longrightarrow> groups_ok (sort_by le gs)"
proof -
  have "distinct (map tg_key (sort_by le gs)) = distinct (map tg_key gs)"
    by (rule mset_eq_imp_distinct_iff) simp
  then show "groups_ok gs \<Longrightarrow> groups_ok (sort_by le gs)" by (simp add: groups_ok_def)
qed

lemma sum_list_mset: "mset xs = mset ys \<Longrightarrow> sum_list (map f xs) = (sum_list (map f ys) :: 'a multiset)"
  by (metis mset_map sum_mset_sum_list)

subsection \<open>Properties\<close>

text \<open>
  The groups of the panel are a partition of the tools: however names compare, every tool is
  in exactly one group, the group of its key; the keys are distinct and no group is empty.
\<close>

theorem tool_groups_partition:
  "group_tools (buildGroups le tools) = mset tools \<and> groups_ok (buildGroups le tools)"
proof -
  let ?gs = "sort_by (\<lambda>a b. le (tg_label a) (tg_label b)) (fold add_tool tools [])"
  let ?s = "\<lambda>g. g\<lparr>tg_tools := sort_by (\<lambda>a b. le (tool_name a) (tool_name b)) (tg_tools g)\<rparr>"
  have "group_tools (map ?s ?gs) = group_tools ?gs"
    by (simp add: group_tools_def comp_def)
  also have "\<dots> = group_tools (fold add_tool tools [])"
    unfolding group_tools_def by (rule sum_list_mset) simp
  finally have "group_tools (map ?s ?gs) = mset tools"
    by (simp add: group_tools_fold) (simp add: group_tools_def)
  moreover have "groups_ok (map ?s ?gs)"
  proof -
    have g: "groups_ok ?gs" by (intro sort_groups_ok fold_add_ok) (simp add: groups_ok_def)
    have "sort_by f xs \<noteq> []" if "xs \<noteq> []" for f :: "tool \<Rightarrow> tool \<Rightarrow> bool" and xs
      using that by (metis mset_sort_by mset_zero_iff)
    then have "group_ok g \<Longrightarrow> group_ok (?s g)" for g
      by (simp add: group_ok_def list_all_iff)
    with g show ?thesis by (simp add: groups_ok_def comp_def del: set_sort_by)
  qed
  ultimately show ?thesis by (simp add: buildGroups_def Let_def)
qed

text \<open>What the user does with the switches of the panel.\<close>

definition respects_policy :: "tool_panel \<Rightarrow> bool" where
  "respects_policy p =
     list_all (\<lambda>t. effective_enabled t \<longrightarrow> policy_allowed t \<and> available t) (panel_tools p)"

definition switches :: "string option \<Rightarrow> execution_mode \<Rightarrow> (string list \<times> bool \<times> bool) list \<Rightarrow> tool_panel \<Rightarrow> tool_panel" where
  "switches sid mode acts p =
     fold (\<lambda>(ids, enabled, ok) p. fst (toggle_tools sid mode ids enabled ok p)) acts p"

lemma toggle_tools_panel:
  "panel_tools (fst (toggle_tools sid mode ids enabled ok p)) =
     map (\<lambda>t. if tool_id t \<in> set ids then switch_tool sid enabled t else t) (panel_tools p)"
  by (simp add: toggle_tools_def switch_tools_def panel_refresh_def panel_tools_def Let_def
      split: option.splits)

lemma switches_ids: "map tool_id (panel_tools (switches sid mode acts p)) = map tool_id (panel_tools p)"
  by (induction acts arbitrary: p)
    (auto simp: switches_def toggle_tools_panel switch_tool_def)

lemma switches_respect:
  assumes "truthy sid"
  shows "respects_policy p \<Longrightarrow> respects_policy (switches sid mode acts p)"
proof (induction acts arbitrary: p)
  case (Cons a acts)
  obtain ids enabled ok where a: "a = (ids, enabled, ok)" by (cases a)
  have "respects_policy (fst (toggle_tools sid mode ids enabled ok p))"
    using Cons.prems assms
    by (auto simp: respects_policy_def toggle_tools_panel list_all_iff switch_tool_def)
  with Cons.IH show ?case by (simp add: switches_def a)
qed (simp add: switches_def)

text \<open>
  C12: With a session no switch enables what the policy forbids: if every enabled tool of the
  catalogue is allowed and available then so it is after any switches of tools and groups,
  accepted or refused, and no tool appears or disappears. Without a session the switch does
  not ask the policy: a tool that is available is shown as enabled although it is forbidden.
\<close>

theorem switches_respect_policy:
  assumes "truthy sid" and "respects_policy p"
  shows "respects_policy (switches sid mode acts p)
    \<and> map tool_id (panel_tools (switches sid mode acts p)) = map tool_id (panel_tools p)
    \<and> effective_enabled (switch_tool None True (t\<lparr>available := True, policy_allowed := False\<rparr>))"
  using switches_respect [OF assms] switches_ids by (simp add: switch_tool_def)

definition demo_tool :: tool where
  "demo_tool = \<lparr>tool_id = ''mcp.github.search'', display_name = None, source = ''mcp'',
     realm = ''mcp_remote'', effective_enabled = False, policy_allowed = False,
     user_enabled = False, available = True\<rparr>"

definition demo_panel :: tool_panel where
  "demo_panel = \<lparr>pn_catalog = Some [demo_tool], pn_loading = False, pn_expanded = []\<rparr>"

lemma switches_respect_policy_witness:
  "enabledCount (switches (Some ''s1'') Hybrid [([''mcp.github.search''], True, True)] demo_panel) = 0"
proof -
  let ?p = "switches (Some ''s1'') Hybrid [([''mcp.github.search''], True, True)] demo_panel"
  have "respects_policy demo_panel"
    by (simp add: respects_policy_def demo_panel_def panel_tools_def demo_tool_def)
  with switches_respect_policy [of "Some ''s1''" demo_panel Hybrid "[([''mcp.github.search''], True, True)]"]
  have "respects_policy ?p" by simp
  moreover have "list_all (\<lambda>t. \<not> policy_allowed t) (panel_tools ?p)" by code_simp
  ultimately show ?thesis
    by (auto simp: enabledCount_def respects_policy_def list_all_iff filter_empty_conv)
qed

text \<open>
  The page does not learn the mode of the session it opens: on mount with a session, and also
  after a visit to the page without a session, no request is sent and the mode shown stays
  what it was, \<open>server_only\<close> on mount, whatever the mode of the session is; only a change
  from one session to another fetches it.
\<close>

theorem mode_not_fetched_on_open:
  "snd (tool_session_effect (Some s) tool_hook_start) = []
   \<and> th_mode (fst (tool_session_effect (Some s) tool_hook_start)) = ServerOnly
   \<and> snd (tool_session_effect (Some s) (fst (tool_session_effect None h))) = []
   \<and> th_mode (fst (tool_session_effect (Some s) (fst (tool_session_effect None h)))) = th_mode h
   \<and> snd (tool_session_effect (Some (c # cs)) (h\<lparr>th_prev := Some (d # c # cs)\<rparr>)) = [GetPolicy (c # cs)]"
  by (simp add: tool_session_effect_def tool_hook_start_def refresh_policy_def Let_def)

end
