(* ===== verification/Chat_Page.thy ===== *)
theory Chat_Page
  imports Pii_Policy Tool_Policy "HOL-Library.AList"
begin

text \<open>
  The chat page \<^verbatim>\<open>pages/chat/ChatPage.tsx\<close> and its sidebar
  \<^verbatim>\<open>pages/chat/components/ChatSidebar.tsx\<close>: the lists of sessions and projects, the choices
  made before there is a session, and what is sent when one is created. A \<open>Map\<close> is an
  association list in the order of insertion; setting a key again keeps its place.
\<close>

record chat_session =
  cs_id :: string
  cs_project :: "string option"
  cs_title :: "string option"

record chat_project =
  cp_id :: string
  cp_name :: string
  cp_description :: "string option"
  cp_instructions :: "string option"

record chat_page =
  pg_sessions :: "chat_session list"
  pg_projects :: "chat_project list"
  pg_tools :: "(string \<times> bool) list"
  pg_route :: "string option"

datatype chat_request =
    ToolRequest tool_request
  | PiiRequest pii_request
  | DeleteSession string
  | CreateProject string
  | DeleteProject string
  | UpdateProject string "string option" "string option" "string option"
  | UpdateSession string "string option"
  | ListAll

subsection \<open>Handlers\<close>

definition refreshSidebar ::
  "unit + chat_session list \<times> chat_project list \<Rightarrow> chat_page \<Rightarrow> chat_page" where
  "refreshSidebar res p =
     (case res of Inr (ss, ps) \<Rightarrow> p\<lparr>pg_sessions := ss, pg_projects := ps\<rparr> | Inl _ \<Rightarrow> p)"

definition handleLocalToolOverride :: "string \<Rightarrow> bool \<Rightarrow> chat_page \<Rightarrow> chat_page" where
  "handleLocalToolOverride toolId enabled p = p\<lparr>pg_tools := AList.update toolId enabled (pg_tools p)\<rparr>"

text \<open>What is sent for a new session: the mode and the tool overrides, then the privacy overrides.\<close>

definition creation_requests ::
  "execution_mode \<Rightarrow> (string \<times> bool) list \<Rightarrow> pii_override \<Rightarrow> string \<Rightarrow> chat_request list" where
  "creation_requests mode tools pii sid =
     (let hasOverrides = length tools > 0
      in (if mode \<noteq> ServerOnly \<or> hasOverrides then
            [ToolRequest (PatchTools sid
               \<lparr>tp_mode = (if mode \<noteq> ServerOnly then Some mode else None),
                tp_overrides = (if hasOverrides
                  then Some (map (\<lambda>(i, e). \<lparr>ov_tool = i, ov_enabled = e\<rparr>) tools) else None)\<rparr>)]
          else [])
         @ map PiiRequest (flush_overrides sid pii))"

text \<open>
  The handler has the choices of the render it was made in: those of the moment a message was sent on the welcome
  page, which waits for the session before it calls the handler. When the requests are answered the choice
  of tools is cleared, whatever it is by then.
\<close>

record choices =
  ch_mode :: execution_mode
  ch_tools :: "(string \<times> bool) list"
  ch_pii :: pii_override

definition handleSessionCreated :: "choices \<Rightarrow> chat_session \<Rightarrow> chat_page \<Rightarrow> chat_page \<times> chat_request list" where
  "handleSessionCreated ch sess p =
     (p\<lparr>pg_sessions := sess # pg_sessions p\<rparr>,
      creation_requests (ch_mode ch) (ch_tools ch) (ch_pii ch) (cs_id sess))"

definition session_prepared :: "chat_session \<Rightarrow> chat_page \<Rightarrow> chat_page" where
  "session_prepared sess p = p\<lparr>pg_tools := [], pg_route := Some (''/chat/'' @ cs_id sess)\<rparr>"

text \<open>
  The welcome page (\<^verbatim>\<open>pages/chat/components/ChatWelcome.tsx\<close>) until its session is there: the choices there are,
  the ones captured while a message is being sent, and the new session while its requests are waited for.
\<close>

record welcome_page =
  wl_page :: chat_page
  wl_mode :: execution_mode
  wl_pii :: pii_override
  wl_sending :: "choices option"
  wl_session :: "chat_session option"
  wl_sent :: "chat_request list"

datatype welcome_event =
    ToolChoice string bool
  | ModeChoice execution_mode
  | PrivacyChoice pii_override
  | PressSend
  | SessionRefused
  | SessionAnswered chat_session
  | RequestsAnswered

fun welcome_step :: "welcome_event \<Rightarrow> welcome_page \<Rightarrow> welcome_page" where
  "welcome_step (ToolChoice i e) w = w\<lparr>wl_page := handleLocalToolOverride i e (wl_page w)\<rparr>"
| "welcome_step (ModeChoice m) w = w\<lparr>wl_mode := m\<rparr>"
| "welcome_step (PrivacyChoice patch) w = w\<lparr>wl_pii := merge_override (wl_pii w) patch\<rparr>"
| "welcome_step PressSend w =
     (if wl_sending w \<noteq> None then w
      else w\<lparr>wl_sending := Some \<lparr>ch_mode = wl_mode w, ch_tools = pg_tools (wl_page w), ch_pii = wl_pii w\<rparr>\<rparr>)"
| "welcome_step SessionRefused w = (if wl_session w = None then w\<lparr>wl_sending := None\<rparr> else w)"
| "welcome_step (SessionAnswered s) w =
     (case (wl_sending w, wl_session w) of
        (Some ch, None) \<Rightarrow>
          (let (p, reqs) = handleSessionCreated ch s (wl_page w)
           in w\<lparr>wl_page := p, wl_session := Some s, wl_sent := wl_sent w @ reqs\<rparr>)
      | _ \<Rightarrow> w)"
| "welcome_step RequestsAnswered w =
     (case wl_session w of
        Some s \<Rightarrow> w\<lparr>wl_page := session_prepared s (wl_page w), wl_session := None, wl_sending := None\<rparr>
      | None \<Rightarrow> w)"

text \<open>A request that fails raises before the state changes: \<open>ok\<close> says whether it succeeds.\<close>

definition handleDeleteSession ::
  "string option \<Rightarrow> string \<Rightarrow> bool \<Rightarrow> chat_page \<Rightarrow> chat_page \<times> chat_request list" where
  "handleDeleteSession current i ok p =
     ((if \<not> ok then p
       else p\<lparr>pg_sessions := filter (\<lambda>s. cs_id s \<noteq> i) (pg_sessions p),
              pg_route := (if current = Some i then Some ''/chat'' else pg_route p)\<rparr>),
      [DeleteSession i])"

definition handleCreateProject :: "string \<Rightarrow> chat_project option \<Rightarrow> chat_page \<Rightarrow> chat_page \<times> chat_request list" where
  "handleCreateProject name res p =
     ((case res of None \<Rightarrow> p | Some proj \<Rightarrow> p\<lparr>pg_projects := pg_projects p @ [proj]\<rparr>),
      [CreateProject name])"

definition handleDeleteProject ::
  "string \<Rightarrow> bool \<Rightarrow> unit + chat_session list \<times> chat_project list \<Rightarrow> chat_page \<Rightarrow> chat_page \<times> chat_request list" where
  "handleDeleteProject i ok res p =
     (if \<not> ok then (p, [DeleteProject i])
      else (refreshSidebar res (p\<lparr>pg_projects := filter (\<lambda>q. cp_id q \<noteq> i) (pg_projects p)\<rparr>),
            [DeleteProject i, ListAll]))"

text \<open>
  The body of the update has a project only when the target is one: a null target becomes
  undefined, which \<open>JSON.stringify\<close> leaves out.
\<close>

definition handleMoveSession ::
  "string \<Rightarrow> string option \<Rightarrow> bool \<Rightarrow> chat_page \<Rightarrow> chat_page \<times> chat_request list" where
  "handleMoveSession sessId projectId ok p =
     ((if \<not> ok then p
       else p\<lparr>pg_sessions := map (\<lambda>s. if cs_id s = sessId then s\<lparr>cs_project := projectId\<rparr> else s)
                (pg_sessions p)\<rparr>),
      [UpdateSession sessId projectId])"

definition or_keep :: "'a option \<Rightarrow> 'a \<Rightarrow> 'a" where
  "or_keep v d = (case v of None \<Rightarrow> d | Some x \<Rightarrow> x)"

definition handleUpdateProject ::
  "string \<Rightarrow> string option \<Rightarrow> string option \<Rightarrow> string option \<Rightarrow> bool \<Rightarrow> chat_page \<Rightarrow> chat_page \<times> chat_request list" where
  "handleUpdateProject i name desc instr ok p =
     ((if \<not> ok then p
       else p\<lparr>pg_projects := map (\<lambda>q. if cp_id q = i
                then q\<lparr>cp_name := or_keep name (cp_name q),
                       cp_description := or_keep (map_option Some desc) (cp_description q),
                       cp_instructions := or_keep (map_option Some instr) (cp_instructions q)\<rparr>
                else q) (pg_projects p)\<rparr>),
      [UpdateProject i name desc instr])"

definition handleSessionUpdated :: "chat_session \<Rightarrow> chat_page \<Rightarrow> chat_page" where
  "handleSessionUpdated u p =
     p\<lparr>pg_sessions := map (\<lambda>s. if cs_id s = cs_id u then u else s) (pg_sessions p)\<rparr>"

subsection \<open>The sidebar\<close>

definition orphanSessions :: "chat_session list \<Rightarrow> chat_session list" where
  "orphanSessions ss = filter (\<lambda>s. \<not> truthy (cs_project s)) ss"

definition sessionsByProject :: "chat_session list \<Rightarrow> (string \<times> chat_session list) list" where
  "sessionsByProject ss =
     fold (\<lambda>s m. if truthy (cs_project s)
                 then AList.update (the (cs_project s))
                        ((case map_of m (the (cs_project s)) of None \<Rightarrow> [] | Some l \<Rightarrow> l) @ [s]) m
                 else m) ss []"

text \<open>Dropping a session: the move it asks for, if any.\<close>

definition sidebar_drop :: "chat_session list \<Rightarrow> string \<Rightarrow> string option \<Rightarrow> (string \<times> string option) option" where
  "sidebar_drop sessions active over =
     (case over of
        None \<Rightarrow> None
      | Some target \<Rightarrow>
          let projectId = (if target = ''__no_project__'' then None else Some target)
          in (case find (\<lambda>s. cs_id s = active) sessions of
                None \<Rightarrow> None
              | Some s \<Rightarrow> if cs_project s = projectId then None else Some (active, projectId)))"

definition toggleProject :: "string \<Rightarrow> string list \<Rightarrow> string list" where
  "toggleProject i collapsed = set_toggle i collapsed"

text \<open>The name a new project is created with; nothing is created for a blank one.\<close>

definition new_project_name :: "string \<Rightarrow> string option" where
  "new_project_name s = (let name = trim s in if name = [] then None else Some name)"

subsection \<open>Lemmas\<close>

definition local_choices :: "(string \<times> bool) list \<Rightarrow> chat_page \<Rightarrow> chat_page" where
  "local_choices cs p = fold (\<lambda>(i, e). handleLocalToolOverride i e) cs p"

lemma local_choices_map:
  "map_of (pg_tools (local_choices cs p)) i
    = (case map_of (rev cs) i of Some e \<Rightarrow> Some e | None \<Rightarrow> map_of (pg_tools p) i)"
proof (induction cs arbitrary: p)
  case (Cons c cs)
  then show ?case
    by (cases c) (auto simp: local_choices_def handleLocalToolOverride_def update_conv' map_add_def
        split: option.splits)
qed (simp add: local_choices_def)

lemma local_choices_distinct:
  "distinct (map fst (pg_tools p)) \<Longrightarrow> distinct (map fst (pg_tools (local_choices cs p)))"
  by (induction cs arbitrary: p)
    (auto simp: local_choices_def handleLocalToolOverride_def distinct_update)

lemma local_choices_route [simp]: "pg_sessions (local_choices cs p) = pg_sessions p"
  by (induction cs arbitrary: p) (auto simp: local_choices_def handleLocalToolOverride_def)

definition project_step :: "chat_session \<Rightarrow> (string \<times> chat_session list) list \<Rightarrow> (string \<times> chat_session list) list" where
  "project_step s m =
     (if truthy (cs_project s)
      then AList.update (the (cs_project s))
             ((case map_of m (the (cs_project s)) of None \<Rightarrow> [] | Some l \<Rightarrow> l) @ [s]) m
      else m)"

lemma sessionsByProject_fold: "sessionsByProject ss = fold project_step ss []"
  by (simp add: sessionsByProject_def project_step_def [abs_def])

lemma project_step_map:
  "map_of (project_step s m) pid =
     (if truthy (cs_project s) \<and> cs_project s = Some pid
      then Some ((case map_of m pid of None \<Rightarrow> [] | Some l \<Rightarrow> l) @ [s]) else map_of m pid)"
  by (cases "cs_project s") (auto simp: project_step_def update_conv')

lemma fold_projects:
  "pid \<noteq> [] \<Longrightarrow> (case map_of (fold project_step ss m) pid of None \<Rightarrow> [] | Some l \<Rightarrow> l)
     = (case map_of m pid of None \<Rightarrow> [] | Some l \<Rightarrow> l) @ filter (\<lambda>s. cs_project s = Some pid) ss"
  by (induction ss arbitrary: m) (auto simp: project_step_map)

subsection \<open>Properties\<close>

text \<open>What was chosen in a sequence of events.\<close>

definition tool_choices :: "welcome_event list \<Rightarrow> (string \<times> bool) list" where
  "tool_choices evs = concat (map (\<lambda>e. case e of ToolChoice i b \<Rightarrow> [(i, b)] | _ \<Rightarrow> []) evs)"

definition last_mode :: "welcome_event list \<Rightarrow> execution_mode \<Rightarrow> execution_mode" where
  "last_mode = fold (\<lambda>e m. case e of ModeChoice x \<Rightarrow> x | _ \<Rightarrow> m)"

definition privacy_choices :: "welcome_event list \<Rightarrow> pii_override \<Rightarrow> pii_override" where
  "privacy_choices = fold (\<lambda>e ov. case e of PrivacyChoice patch \<Rightarrow> merge_override ov patch | _ \<Rightarrow> ov)"

definition is_choice :: "welcome_event \<Rightarrow> bool" where
  "is_choice e = (case e of ToolChoice i b \<Rightarrow> True | ModeChoice m \<Rightarrow> True | PrivacyChoice p \<Rightarrow> True | _ \<Rightarrow> False)"

lemma choices_fold:
  assumes "list_all (\<lambda>e. is_choice e \<or> e = PressSend \<and> wl_sending w \<noteq> None) evs"
  shows "fold welcome_step evs w = w\<lparr>wl_page := local_choices (tool_choices evs) (wl_page w),
    wl_mode := last_mode evs (wl_mode w), wl_pii := privacy_choices evs (wl_pii w)\<rparr>"
  using assms
proof (induction evs arbitrary: w)
  case (Cons e evs)
  then show ?case
    by (cases e) (auto simp: is_choice_def tool_choices_def last_mode_def privacy_choices_def local_choices_def)
qed (simp add: tool_choices_def last_mode_def privacy_choices_def local_choices_def)

lemma chosen_tools:
  assumes "pg_tools p = []"
  shows "map_of (pg_tools (local_choices cs p)) = map_of (rev cs)"
    and "pg_tools (local_choices cs p) = [] \<longleftrightarrow> cs = []"
proof -
  show m: "map_of (pg_tools (local_choices cs p)) = map_of (rev cs)"
    using assms by (intro ext) (auto simp: local_choices_map split: option.splits)
  show "pg_tools (local_choices cs p) = [] \<longleftrightarrow> cs = []"
  proof
    assume "pg_tools (local_choices cs p) = []"
    with m have "map_of (rev cs) = Map.empty" by simp
    then have "set (map fst (rev cs)) = {}" by (metis dom_empty dom_map_of_conv_image_fst set_map)
    then show "cs = []" by simp
  qed (simp add: local_choices_def assms)
qed

text \<open>
  C18: what the user chose before sending the first message is what the new session gets. The patch names
  each tool that was switched before, once, with its last choice, and the mode when it is not the default; a
  second patch has the privacy choices when there are any, and nothing is sent when nothing was chosen.
  What is chosen after sending, while the session or its patches are waited for, is not sent, and
  the choices of tools are all cleared at the end, sent or not.
\<close>

theorem choices_reach_session:
  fixes w :: welcome_page and s :: chat_session and before meanwhile later :: "welcome_event list"
  assumes "pg_tools (wl_page w) = []" "wl_sending w = None" "wl_session w = None"
    and "list_all is_choice before" and "list_all (\<lambda>e. is_choice e \<or> e = PressSend) (meanwhile @ later)"
  defines "w' \<equiv> fold welcome_step
    (before @ [PressSend] @ meanwhile @ [SessionAnswered s] @ later @ [RequestsAnswered]) w"
    and "mode \<equiv> last_mode before (wl_mode w)" and "pii \<equiv> privacy_choices before (wl_pii w)"
  shows "\<exists>tools. distinct (map fst tools) \<and> map_of tools = map_of (rev (tool_choices before))
    \<and> wl_sent w' = wl_sent w
       @ (if tool_choices before = [] \<and> mode = ServerOnly then []
          else [ToolRequest (PatchTools (cs_id s)
            \<lparr>tp_mode = (if mode = ServerOnly then None else Some mode),
             tp_overrides = (if tool_choices before = [] then None
               else Some (map (\<lambda>(i, e). \<lparr>ov_tool = i, ov_enabled = e\<rparr>) tools))\<rparr>)])
       @ (if any_override pii then [PiiRequest (Patch (cs_id s) pii)] else [])
    \<and> pg_tools (wl_page w') = [] \<and> pg_sessions (wl_page w') = s # pg_sessions (wl_page w)
    \<and> pg_route (wl_page w') = Some (''/chat/'' @ cs_id s)"
proof -
  let ?p = "local_choices (tool_choices before) (wl_page w)"
  let ?ch = "\<lparr>ch_mode = mode, ch_tools = pg_tools ?p, ch_pii = pii\<rparr>"
  define w1 where "w1 = welcome_step PressSend (fold welcome_step before w)"
  have b: "list_all (\<lambda>e. is_choice e \<or> e = PressSend \<and> wl_sending w \<noteq> None) before"
    using assms(4) by (auto simp: list_all_iff)
  have w1: "wl_sending w1 = Some ?ch" "wl_session w1 = None" "wl_sent w1 = wl_sent w"
    "pg_sessions (wl_page w1) = pg_sessions (wl_page w)"
    unfolding w1_def choices_fold [OF b] using assms(2,3) by (simp_all add: mode_def pii_def)
  have "list_all (\<lambda>e. is_choice e \<or> e = PressSend \<and> wl_sending w1 \<noteq> None) meanwhile"
    using assms(5) w1(1) by (auto simp: list_all_iff)
  note m = choices_fold [OF this]
  define w2 where "w2 = welcome_step (SessionAnswered s) (fold welcome_step meanwhile w1)"
  have w2: "wl_sending w2 = Some ?ch" "wl_session w2 = Some s"
    "wl_sent w2 = wl_sent w @ creation_requests mode (pg_tools ?p) pii (cs_id s)"
    "pg_sessions (wl_page w2) = s # pg_sessions (wl_page w)"
    unfolding w2_def m using w1 by (simp_all add: handleSessionCreated_def)
  have "list_all (\<lambda>e. is_choice e \<or> e = PressSend \<and> wl_sending w2 \<noteq> None) later"
    using assms(5) w2(1) by (auto simp: list_all_iff)
  note l = choices_fold [OF this]
  have w': "w' = welcome_step RequestsAnswered (fold welcome_step later w2)"
    by (simp add: w'_def w1_def w2_def)
  have f: "pg_tools (wl_page w') = []" "pg_sessions (wl_page w') = s # pg_sessions (wl_page w)"
    "pg_route (wl_page w') = Some (''/chat/'' @ cs_id s)"
    "wl_sent w' = wl_sent w @ creation_requests mode (pg_tools ?p) pii (cs_id s)"
    unfolding w' l using w2 by (simp_all add: session_prepared_def)
  show ?thesis
    by (rule exI [of _ "pg_tools ?p"])
      (use f chosen_tools [OF assms(1)] local_choices_distinct [of "wl_page w"] assms(1) in
        \<open>auto simp: creation_requests_def flush_overrides_def Let_def\<close>)
qed

definition demo_page :: chat_page where
  "demo_page = \<lparr>pg_sessions = [], pg_projects = [], pg_tools = [], pg_route = None\<rparr>"

definition demo_welcome :: welcome_page where
  "demo_welcome = \<lparr>wl_page = demo_page, wl_mode = ServerOnly, wl_pii = no_override, wl_sending = None,
     wl_session = None, wl_sent = []\<rparr>"

lemma choices_reach_session_witness:
  "\<exists>tools. distinct (map fst tools) \<and> map_of tools = [''a'' \<mapsto> False]
     \<and> pg_tools (wl_page (fold welcome_step ([ToolChoice ''a'' True, ToolChoice ''a'' False] @ [PressSend]
          @ [ToolChoice ''b'' True] @ [SessionAnswered \<lparr>cs_id = ''s1'', cs_project = None, cs_title = None\<rparr>]
          @ [PrivacyChoice no_override] @ [RequestsAnswered]) demo_welcome)) = []"
proof -
  have "pg_tools (wl_page demo_welcome) = []" "wl_sending demo_welcome = None" "wl_session demo_welcome = None"
    by (simp_all add: demo_welcome_def demo_page_def)
  moreover have "list_all is_choice [ToolChoice ''a'' True, ToolChoice ''a'' False]"
    "list_all (\<lambda>e. is_choice e \<or> e = PressSend) ([ToolChoice ''b'' True] @ [PrivacyChoice no_override])"
    by (simp_all add: is_choice_def)
  ultimately show ?thesis
    using choices_reach_session [of demo_welcome "[ToolChoice ''a'' True, ToolChoice ''a'' False]" "[ToolChoice ''b'' True]"
        "[PrivacyChoice no_override]" "\<lparr>cs_id = ''s1'', cs_project = None, cs_title = None\<rparr>"]
    by (auto simp: tool_choices_def)
qed

text \<open>
  A tool switched while the session is being created is lost: the request of the new session does not name it,
  and the page forgets it.
\<close>

theorem late_choice_lost:
  fixes w :: welcome_page and s :: chat_session and i :: string and e :: bool
  assumes "pg_tools (wl_page w) = []" "wl_sending w = None" "wl_session w = None" "wl_mode w = ServerOnly"
    and "\<not> any_override (wl_pii w)"
  defines "w' \<equiv> fold welcome_step [PressSend, ToolChoice i e, SessionAnswered s, RequestsAnswered] w"
  shows "wl_sent w' = wl_sent w \<and> pg_tools (wl_page w') = []"
  using assms(1-5) unfolding w'_def
  by (simp add: handleSessionCreated_def creation_requests_def flush_overrides_def session_prepared_def)

lemma late_choice_lost_witness:
  "wl_sent (fold welcome_step [PressSend, ToolChoice ''a'' False,
     SessionAnswered \<lparr>cs_id = ''s1'', cs_project = None, cs_title = None\<rparr>, RequestsAnswered] demo_welcome) = []"
proof -
  have "\<not> any_override (wl_pii demo_welcome)"
    by (simp add: demo_welcome_def any_override_def no_override_def has_value_def)
  from late_choice_lost [OF _ _ _ _ this] show ?thesis by (simp add: demo_welcome_def demo_page_def)
qed

text \<open>
  The sidebar loses no session: each session is under no project or, in the order of the
  list, under exactly the project it belongs to.
\<close>

theorem sidebar_partition:
  "mset (filter (\<lambda>s. truthy (cs_project s)) ss @ orphanSessions ss) = mset ss
   \<and> (case map_of (sessionsByProject ss) (c # cs) of None \<Rightarrow> [] | Some l \<Rightarrow> l)
      = filter (\<lambda>s. cs_project s = Some (c # cs)) ss"
  using fold_projects [of "c # cs" ss "[]"]
  by (simp add: sessionsByProject_fold orphanSessions_def)

text \<open>
  Taking a session out of its project is not stored: dropping it on the area without a
  project sends an update without any field, although the page shows the session as moved.
\<close>

theorem move_out_not_sent:
  assumes "find (\<lambda>s. cs_id s = i) (pg_sessions p) = Some s" and "cs_project s = Some pid"
  shows "sidebar_drop (pg_sessions p) i (Some ''__no_project__'') = Some (i, None)
    \<and> snd (handleMoveSession i None True p) = [UpdateSession i None]
    \<and> list_all (\<lambda>s. (cs_id s = i) \<le> (cs_project s = None)) (pg_sessions (fst (handleMoveSession i None True p)))"
proof (intro conjI)
  show "sidebar_drop (pg_sessions p) i (Some ''__no_project__'') = Some (i, None)"
    by (simp add: sidebar_drop_def assms)
  show "list_all (\<lambda>s. (cs_id s = i) \<le> (cs_project s = None)) (pg_sessions (fst (handleMoveSession i None True p)))"
    by (simp add: handleMoveSession_def list_all_length)
qed (simp add: handleMoveSession_def)

definition demo_session :: chat_session where
  "demo_session = \<lparr>cs_id = ''s1'', cs_project = Some ''p1'', cs_title = None\<rparr>"

lemma move_out_not_sent_witness:
  "snd (handleMoveSession ''s1'' None True (demo_page\<lparr>pg_sessions := [demo_session]\<rparr>)) = [UpdateSession ''s1'' None]"
proof -
  have "find (\<lambda>s. cs_id s = ''s1'') (pg_sessions (demo_page\<lparr>pg_sessions := [demo_session]\<rparr>)) = Some demo_session"
    "cs_project demo_session = Some ''p1''"
    by (simp_all add: demo_session_def)
  from move_out_not_sent [OF this] show ?thesis by blast
qed

end
