(* ===== verification/System_Update.thy ===== *)
theory System_Update
  imports Api_Error
begin

text \<open>
  The dialog that updates the system packages and the firmware of a node,
  \<^verbatim>\<open>pages/admin/nodes/SystemUpdateDialog.tsx\<close>, as a state machine. A command is issued, an
  interval then asks for its timeline every two seconds, and a reply with a final status
  decides what the dialog shows. Requests in flight are part of the state: the interval does
  not wait for a reply before it asks again, so replies can come late and in any order.
\<close>

subsection \<open>State\<close>

datatype update_stage = Idle | Checking | Checked | Applying | Done | Error

datatype apply_scope = ScopeAll | ScopeSystem | ScopeFirmware

datatype command = CheckUpdates | ApplyUpdates apply_scope | Reboot

datatype status = Succeeded | Failed | TimedOut | Canceled | Pending string

type_synonym result = "(string \<times> json) list"

record timeline =
  tl_status :: status
  tl_result :: "result option"
  tl_error :: "string option"

text \<open>
  \<open>polling\<close> is the command the interval asks for; \<open>issuing\<close> and \<open>asking\<close> are the requests in
  flight. \<open>accepted\<close> records the commands the node has taken, for the statements only.
\<close>

record update =
  is_open :: bool
  stage :: update_stage
  checkResult :: "result option"
  activeCommandId :: "string option"
  timeline_shown :: "timeline option"
  errorMsg :: "string option"
  applyResult :: "result option"
  polling :: "string option"
  issuing :: "command list"
  asking :: "string list"
  accepted :: "(string \<times> command) list"

definition update_start :: update where
  "update_start = \<lparr>is_open = False, stage = Idle, checkResult = None, activeCommandId = None,
     timeline_shown = None, errorMsg = None, applyResult = None, polling = None,
     issuing = [], asking = [], accepted = []\<rparr>"

subsection \<open>Handlers\<close>

definition isRunning :: "update \<Rightarrow> bool" where
  "isRunning s = (stage s = Checking \<or> stage s = Applying)"

definition updates_available :: "string \<Rightarrow> update \<Rightarrow> bool" where
  "updates_available part s =
     (case checkResult s of
        None \<Rightarrow> False
      | Some r \<Rightarrow> json_truthy (chain (map_of r part) ''updates_available''))"

definition hasSysPkgs :: "update \<Rightarrow> bool" where
  "hasSysPkgs s = updates_available ''system_packages'' s"

definition hasFwUpdates :: "update \<Rightarrow> bool" where
  "hasFwUpdates s = updates_available ''firmware'' s"

definition activeStep :: "update_stage \<Rightarrow> nat" where
  "activeStep st =
     (case st of Checking \<Rightarrow> 0 | Checked \<Rightarrow> 1 | Applying \<Rightarrow> 1 | Done \<Rightarrow> 3 | _ \<Rightarrow> 0)"

definition open_dialog :: "update \<Rightarrow> update" where
  "open_dialog s = s\<lparr>is_open := True, stage := Idle, checkResult := None, activeCommandId := None,
     timeline_shown := None, errorMsg := None, applyResult := None\<rparr>"

definition issue :: "command \<Rightarrow> update \<Rightarrow> update" where
  "issue c s =
     s\<lparr>stage := (if c = CheckUpdates then Checking else Applying), errorMsg := None,
       issuing := issuing s @ [c]\<rparr>"

definition handleCheckUpdates :: "update \<Rightarrow> update" where
  "handleCheckUpdates s = issue CheckUpdates s"

definition handleApplyUpdates :: "apply_scope \<Rightarrow> update \<Rightarrow> update" where
  "handleApplyUpdates scope s = issue (ApplyUpdates scope) s"

definition handleReboot :: "update \<Rightarrow> update" where
  "handleReboot s = issue Reboot s"

text \<open>The answers to an issued command; polling a new command stops the interval of the old one.\<close>

definition command_issued :: "command \<Rightarrow> string \<Rightarrow> update \<Rightarrow> update" where
  "command_issued c i s =
     s\<lparr>issuing := remove1 c (issuing s), activeCommandId := Some i, polling := Some i,
       accepted := accepted s @ [(i, c)]\<rparr>"

definition command_refused :: "command \<Rightarrow> string \<Rightarrow> update \<Rightarrow> update" where
  "command_refused c msg s =
     s\<lparr>issuing := remove1 c (issuing s), errorMsg := Some msg, stage := Error\<rparr>"

fun status_text :: "status \<Rightarrow> string" where
  "status_text Succeeded = ''succeeded''"
| "status_text Failed = ''failed''"
| "status_text TimedOut = ''timed_out''"
| "status_text Canceled = ''canceled''"
| "status_text (Pending t) = t"

definition final_status :: "status \<Rightarrow> bool" where
  "final_status st = (case st of Pending t \<Rightarrow> False | _ \<Rightarrow> True)"

definition timeline_reply :: "string \<Rightarrow> timeline \<Rightarrow> update \<Rightarrow> update" where
  "timeline_reply i tml s =
     (let s = s\<lparr>asking := remove1 i (asking s), timeline_shown := Some tml\<rparr>
      in if \<not> final_status (tl_status tml) then s
         else
           let s = s\<lparr>polling := None\<rparr>
           in if tl_status tml = Succeeded then
                (let result = (case tl_result tml of None \<Rightarrow> [] | Some r \<Rightarrow> r)
                 in if ''system_packages'' \<in> set (map fst result)
                    then s\<lparr>checkResult := Some result, stage := Checked\<rparr>
                    else s\<lparr>applyResult := Some result, stage := Done\<rparr>)
              else s\<lparr>errorMsg := Some (case tl_error tml of Some m \<Rightarrow> m | None \<Rightarrow> status_text (tl_status tml)),
                     stage := Error\<rparr>)"

subsection \<open>Steps\<close>

text \<open>
  The buttons are there only in their stages: the check in the idle stage, its repetition after
  an error, the updates for what the check has found, the reboot when one is needed.
\<close>

inductive ustep :: "update \<Rightarrow> update \<Rightarrow> bool" where
  Open: "\<not> is_open s \<Longrightarrow> ustep s (open_dialog s)"
| Close: "is_open s \<Longrightarrow> \<not> isRunning s \<Longrightarrow> ustep s (s\<lparr>is_open := False\<rparr>)"
| Check: "is_open s \<Longrightarrow> stage s \<in> {Idle, Error} \<Longrightarrow> ustep s (handleCheckUpdates s)"
| ApplyAll: "is_open s \<Longrightarrow> stage s = Checked \<Longrightarrow> hasSysPkgs s \<Longrightarrow> hasFwUpdates s
    \<Longrightarrow> ustep s (handleApplyUpdates ScopeAll s)"
| ApplySystem: "is_open s \<Longrightarrow> stage s = Checked \<Longrightarrow> hasSysPkgs s
    \<Longrightarrow> ustep s (handleApplyUpdates ScopeSystem s)"
| ApplyFirmware: "is_open s \<Longrightarrow> stage s = Checked \<Longrightarrow> hasFwUpdates s
    \<Longrightarrow> ustep s (handleApplyUpdates ScopeFirmware s)"
| RebootNow: "is_open s \<Longrightarrow> stage s = Done \<Longrightarrow> applyResult s = Some r
    \<Longrightarrow> json_truthy (map_of r ''reboot_required'') \<Longrightarrow> ustep s (handleReboot s)"
| Issued: "c \<in> set (issuing s) \<Longrightarrow> i \<notin> fst ` set (accepted s) \<Longrightarrow> ustep s (command_issued c i s)"
| Refused: "c \<in> set (issuing s) \<Longrightarrow> ustep s (command_refused c msg s)"
| Tick: "polling s = Some i \<Longrightarrow> ustep s (s\<lparr>asking := asking s @ [i]\<rparr>)"
| Reply: "i \<in> set (asking s) \<Longrightarrow> ustep s (timeline_reply i tml s)"
| AskFailed: "i \<in> set (asking s) \<Longrightarrow> ustep s (s\<lparr>asking := remove1 i (asking s)\<rparr>)"

inductive reachable :: "update \<Rightarrow> bool" where
  Start: "reachable update_start"
| Step: "reachable s \<Longrightarrow> ustep s s' \<Longrightarrow> reachable s'"

inductive_cases ustepE: "ustep s s'"

lemmas update_defs = open_dialog_def issue_def handleCheckUpdates_def handleApplyUpdates_def
  handleReboot_def command_issued_def command_refused_def timeline_reply_def isRunning_def

subsection \<open>Invariants\<close>

text \<open>What the stage shows is there.\<close>

definition shown_ok :: "update \<Rightarrow> bool" where
  "shown_ok s =
     ((stage s = Checked \<longrightarrow> checkResult s \<noteq> None)
      \<and> (stage s = Done \<longrightarrow> applyResult s \<noteq> None)
      \<and> (stage s = Error \<longrightarrow> errorMsg s \<noteq> None))"

text \<open>A dialog that shows progress is open and waits for something.\<close>

definition waits :: "update \<Rightarrow> bool" where
  "waits s = (isRunning s \<longrightarrow> issuing s \<noteq> [] \<or> polling s \<noteq> None)"

lemma ustep_shown_ok: "ustep s s' \<Longrightarrow> shown_ok s \<Longrightarrow> shown_ok s'"
  by (induction rule: ustep.induct) (auto simp: shown_ok_def update_defs Let_def)

lemma ustep_waits: "ustep s s' \<Longrightarrow> waits s \<Longrightarrow> waits s'"
  by (induction rule: ustep.induct) (auto simp: waits_def update_defs Let_def)

lemma reachable_invariants: "reachable s \<Longrightarrow> shown_ok s \<and> waits s"
  by (induction rule: reachable.induct)
    (auto simp: ustep_shown_ok ustep_waits, simp_all add: shown_ok_def waits_def update_start_def isRunning_def)

subsection \<open>Properties\<close>

text \<open>
  C15: The dialog never hangs and never shows what is not there: in every reachable state,
  whatever replies come and in whatever order, a dialog that shows progress has a command
  request in flight or an interval asking for its command, the result of the check, the
  result of the update and the error message exist in the stages that show them.
\<close>

theorem update_dialog_invariants:
  assumes "reachable s"
  shows "(stage s = Checked \<longrightarrow> checkResult s \<noteq> None) \<and> (stage s = Done \<longrightarrow> applyResult s \<noteq> None)
    \<and> (stage s = Error \<longrightarrow> errorMsg s \<noteq> None)
    \<and> (isRunning s \<longrightarrow> issuing s \<noteq> [] \<or> polling s \<noteq> None)"
  using reachable_invariants [OF assms] by (simp add: shown_ok_def waits_def)

text \<open>A check whose timeline is asked for twice before the first reply.\<close>

definition found :: timeline where
  "found = \<lparr>tl_status = Succeeded, tl_result = Some [(''system_packages'',
     JObject [(''updates_available'', JBool True)])], tl_error = None\<rparr>"

definition asked_twice :: update where
  "asked_twice =
     (let s = command_issued CheckUpdates ''c1'' (handleCheckUpdates (open_dialog update_start))
      in s\<lparr>asking := [''c1'', ''c1'']\<rparr>)"

definition applying :: update where
  "applying = command_issued (ApplyUpdates ScopeSystem) ''c2''
     (handleApplyUpdates ScopeSystem (timeline_reply ''c1'' found asked_twice))"

lemma reachable_asked_twice: "reachable asked_twice"
proof -
  let ?o = "open_dialog update_start"
  let ?i = "command_issued CheckUpdates ''c1'' (handleCheckUpdates ?o)"
  have "reachable ?o"
    by (rule Step [OF Start], rule Open) (simp add: update_start_def)
  then have "reachable (handleCheckUpdates ?o)"
    by (rule Step) (rule Check, simp_all add: update_defs)
  then have "reachable ?i"
    by (rule Step) (rule Issued, simp_all add: update_defs update_start_def)
  then have "reachable (?i\<lparr>asking := asking ?i @ [''c1'']\<rparr>)"
    by (rule Step) (rule Tick, simp add: update_defs)
  then have "reachable (?i\<lparr>asking := asking ?i @ [''c1'']\<rparr>
      \<lparr>asking := asking (?i\<lparr>asking := asking ?i @ [''c1'']\<rparr>) @ [''c1'']\<rparr>)"
    by (rule Step) (rule Tick, simp add: update_defs)
  then show ?thesis
    by (simp add: asked_twice_def update_defs update_start_def Let_def)
qed

lemma reachable_applying: "reachable applying"
proof -
  let ?c = "timeline_reply ''c1'' found asked_twice"
  have "reachable ?c"
    by (rule Step [OF reachable_asked_twice], rule Reply) (simp add: asked_twice_def Let_def)
  then have "reachable (handleApplyUpdates ScopeSystem ?c)"
    by (rule Step) (rule ApplySystem, simp_all add: asked_twice_def found_def update_defs
        update_start_def hasSysPkgs_def updates_available_def chain_def final_status_def Let_def)
  then show ?thesis
    unfolding applying_def
    by (rule Step) (rule Issued, simp_all add: asked_twice_def found_def update_defs
        update_start_def final_status_def Let_def)
qed

lemma update_dialog_invariants_witness: "polling applying \<noteq> None"
proof -
  have "isRunning applying" "issuing applying = []"
    by (simp_all add: applying_def asked_twice_def found_def update_defs update_start_def
        final_status_def Let_def)
  with update_dialog_invariants [OF reachable_applying] show ?thesis by blast
qed

text \<open>
  A late reply can lose an update: because the interval does not wait for replies, a second
  reply to the check can arrive after the update has been started. The dialog then goes back
  to the result of the check and stops asking, with the update accepted by the node, nothing
  in flight, and the buttons to start it again.
\<close>

theorem late_reply_loses_update:
  "\<exists>s. reachable s \<and> (''c2'', ApplyUpdates ScopeSystem) \<in> set (accepted s)
     \<and> stage s = Checked \<and> hasSysPkgs s \<and> polling s = None \<and> issuing s = [] \<and> asking s = []"
proof (intro exI conjI)
  let ?s = "timeline_reply ''c1'' found applying"
  show "reachable ?s"
    by (rule Step [OF reachable_applying], rule Reply)
      (simp add: applying_def asked_twice_def found_def update_defs final_status_def Let_def)
  show "(''c2'', ApplyUpdates ScopeSystem) \<in> set (accepted ?s)" "stage ?s = Checked"
    "hasSysPkgs ?s" "polling ?s = None" "issuing ?s = []" "asking ?s = []"
    by (simp_all add: applying_def asked_twice_def found_def update_defs update_start_def
        hasSysPkgs_def updates_available_def chain_def final_status_def Let_def)
qed

end
