(* ===== verification/Auth_Client.thy ===== *)
theory Auth_Client
  imports Main
begin

text \<open>
  The identity cache of \<^verbatim>\<open>api/auth.ts\<close>: \<open>me\<close> keeps its answer for thirty seconds and shares
  a request that is in flight; \<open>login\<close>, \<open>devLogin\<close> and \<open>logout\<close> clear the cache when their
  answer has come. The session the server holds is part of the state: a request gets the user
  of the session at the moment the server handles it, and its answer may take its time. The session
  also changes without this page, when it expires or another tab logs in or out.
\<close>

definition ME_CACHE_TTL_MS :: int where
  "ME_CACHE_TTL_MS = 30000"

text \<open>
  \<open>flying\<close> are the requests of \<open>me\<close> in flight, with the answer and its time once the server has handled
  them; \<open>changing\<close> says that a login or logout of the page has been handled but its answer has not come.
  For the properties, \<open>handled\<close> records what the session was whenever a request was handled since the last login
  or logout of the page, and \<open>elsewhere\<close> whether it has changed otherwise since.
\<close>

record auth_state =
  server_session :: "string option"
  meCache :: "(string \<times> int) option"
  meInFlight :: "nat option"
  flying :: "(nat \<times> (string option \<times> int) option) list"
  next_request :: nat
  changing :: bool
  clock :: int
  handled :: "(string option \<times> int) list"
  elsewhere :: bool

definition auth_start :: auth_state where
  "auth_start = \<lparr>server_session = None, meCache = None, meInFlight = None, flying = [],
     next_request = 0, changing = False, clock = 0, handled = [], elsewhere = False\<rparr>"

definition clearMeCache :: "auth_state \<Rightarrow> auth_state" where
  "clearMeCache s = s\<lparr>meCache := None, meInFlight := None\<rparr>"

text \<open>A call of \<open>me\<close>: the cached user, or the request it waits for.\<close>

definition me :: "int \<Rightarrow> auth_state \<Rightarrow> (string + nat) \<times> auth_state" where
  "me now s =
     (case meCache s of
        Some (u, expiresAt) \<Rightarrow> if expiresAt > now then (Inl u, s) else
          (case meInFlight s of
             Some i \<Rightarrow> (Inr i, s)
           | None \<Rightarrow> (Inr (next_request s), s\<lparr>meInFlight := Some (next_request s),
               flying := flying s @ [(next_request s, None)], next_request := Suc (next_request s)\<rparr>))
      | None \<Rightarrow>
          (case meInFlight s of
             Some i \<Rightarrow> (Inr i, s)
           | None \<Rightarrow> (Inr (next_request s), s\<lparr>meInFlight := Some (next_request s),
               flying := flying s @ [(next_request s, None)], next_request := Suc (next_request s)\<rparr>)))"

definition server_handles :: "nat \<Rightarrow> auth_state \<Rightarrow> auth_state" where
  "server_handles i s =
     s\<lparr>flying := map (\<lambda>(j, a). if j = i \<and> a = None then (j, Some (server_session s, clock s)) else (j, a)) (flying s),
       handled := (server_session s, clock s) # handled s\<rparr>"

text \<open>The answer of a request: a user is cached, a refusal (no session) is not.\<close>

definition me_answered :: "int \<Rightarrow> nat \<Rightarrow> string option \<Rightarrow> auth_state \<Rightarrow> auth_state" where
  "me_answered now i ans s =
     s\<lparr>flying := filter (\<lambda>(j, a). j \<noteq> i) (flying s), meInFlight := None,
       meCache := (case ans of Some u \<Rightarrow> Some (u, now + ME_CACHE_TTL_MS) | None \<Rightarrow> meCache s)\<rparr>"

text \<open>\<open>meFresh\<close> forgets the cache and asks for itself; its answer is not cached.\<close>

definition meFresh :: "auth_state \<Rightarrow> auth_state" where
  "meFresh s = clearMeCache s"

text \<open>A login (of a user) or logout: the server changes the session, then the client is told.\<close>

definition session_changed :: "string option \<Rightarrow> auth_state \<Rightarrow> auth_state" where
  "session_changed u s = s\<lparr>server_session := u, changing := True, handled := [], elsewhere := False\<rparr>"

text \<open>The session expires, or another tab or device ends it or logs in.\<close>

definition changed_elsewhere :: "string option \<Rightarrow> auth_state \<Rightarrow> auth_state" where
  "changed_elsewhere u s = s\<lparr>server_session := u, elsewhere := True\<rparr>"

definition change_confirmed :: "auth_state \<Rightarrow> auth_state" where
  "change_confirmed s = (clearMeCache s)\<lparr>changing := False\<rparr>"

text \<open>
  \<open>careful\<close> restricts the logins and logouts of the page to moments without a request in flight, and \<open>delay\<close>
  is the longest time an answer is under way.
\<close>

inductive astep :: "bool \<Rightarrow> int \<Rightarrow> auth_state \<Rightarrow> auth_state \<Rightarrow> bool" for careful delay where
  Me: "astep careful delay s (snd (me (clock s) s))"
| Time: "clock s \<le> t \<Longrightarrow> astep careful delay s (s\<lparr>clock := t\<rparr>)"
| Handle: "(i, None) \<in> set (flying s) \<Longrightarrow> astep careful delay s (server_handles i s)"
| Answer: "(i, Some (ans, t)) \<in> set (flying s) \<Longrightarrow> clock s \<le> t + delay
    \<Longrightarrow> astep careful delay s (me_answered (clock s) i ans s)"
| Lost: "(i, a) \<in> set (flying s) \<Longrightarrow> astep careful delay s (me_answered (clock s) i None s)"
| Change: "careful \<longrightarrow> flying s = [] \<Longrightarrow> astep careful delay s (session_changed u s)"
| Elsewhere: "astep careful delay s (changed_elsewhere u s)"
| Fresh: "astep careful delay s (meFresh s)"
| Confirm: "changing s \<Longrightarrow> astep careful delay s (change_confirmed s)"

inductive areach :: "bool \<Rightarrow> int \<Rightarrow> auth_state \<Rightarrow> bool" for careful delay where
  Start: "areach careful delay auth_start"
| Step: "areach careful delay s \<Longrightarrow> astep careful delay s s' \<Longrightarrow> areach careful delay s'"

subsection \<open>Lemmas\<close>




subsection \<open>Properties\<close>


definition logged_in :: auth_state where
  "logged_in = change_confirmed (session_changed (Some ''ann'') auth_start)"

definition asked :: auth_state where
  "asked = server_handles 0 (snd (me 0 logged_in))"

lemmas auth_simps = asked_def logged_in_def change_confirmed_def session_changed_def changed_elsewhere_def
  clearMeCache_def auth_start_def me_def server_handles_def me_answered_def ME_CACHE_TTL_MS_def

lemma areach_asked: "areach careful delay asked"
proof -
  have "areach careful delay (session_changed (Some ''ann'') auth_start)"
    by (rule Step [OF Start], rule Change) (simp add: auth_start_def)
  then have "areach careful delay logged_in"
    unfolding logged_in_def by (rule Step) (rule Confirm, simp add: session_changed_def)
  then have "areach careful delay (snd (me (clock logged_in) logged_in))"
    by (rule Step) (rule Me)
  moreover have "clock logged_in = 0" by (simp add: auth_simps)
  ultimately have "areach careful delay (snd (me 0 logged_in))" by simp
  then show ?thesis
    unfolding asked_def by (rule Step) (rule Handle, simp add: auth_simps)
qed

definition answered_ann :: auth_state where
  "answered_ann = me_answered 5 0 (Some ''ann'') (asked\<lparr>clock := 5\<rparr>)"

lemma areach_answered: "areach careful 5 answered_ann"
proof -
  have "areach careful 5 (asked\<lparr>clock := 5\<rparr>)"
    by (rule Step [OF areach_asked], rule Time) (simp add: auth_simps)
  then have "areach careful 5 (me_answered (clock (asked\<lparr>clock := 5\<rparr>)) 0 (Some ''ann'') (asked\<lparr>clock := 5\<rparr>))"
    by (rule Step) (rule Answer [where t = 0], simp_all add: auth_simps)
  then show ?thesis by (simp add: answered_ann_def)
qed


text \<open>The bound is reached: with the session ended in another tab the user is returned up to it.\<close>

theorem ended_elsewhere_returned:
  "\<exists>s. areach True 5 s \<and> server_session s = None \<and> flying s = [] \<and> clock s = 30004
     \<and> fst (me (clock s) s) = Inl ''ann'' \<and> fst (me 30005 s) \<noteq> Inl ''ann''"
proof (intro exI conjI)
  let ?s = "(changed_elsewhere None answered_ann)\<lparr>clock := 30004\<rparr>"
  have "areach True 5 (changed_elsewhere None answered_ann)"
    by (rule Step [OF areach_answered], rule Elsewhere)
  then show "areach True 5 ?s"
    by (rule Step) (rule Time, simp add: answered_ann_def auth_simps)
  show "server_session ?s = None" "flying ?s = []" "clock ?s = 30004"
    "fst (me (clock ?s) ?s) = Inl ''ann''" "fst (me 30005 ?s) \<noteq> Inl ''ann''"
    by (simp_all add: answered_ann_def auth_simps)
qed

text \<open>
  A request in flight brings the old user back: when \<open>me\<close> has been handled by the server
  before a logout but its answer comes after the logout has cleared the cache, the answer is
  cached, and for thirty seconds \<open>me\<close> returns a user although the page has logged out.
\<close>

theorem late_answer_revives_user:
  "\<exists>s. areach False 0 s \<and> \<not> changing s \<and> server_session s = None \<and> flying s = [] \<and> handled s = []
     \<and> fst (me (clock s + 29999) s) = Inl ''ann'' \<and> fst (me (clock s + 30000) s) \<noteq> Inl ''ann''"
proof (intro exI conjI)
  let ?o = "change_confirmed (session_changed None asked)"
  let ?s = "me_answered (clock ?o) 0 (Some ''ann'') ?o"
  have "areach False 0 (session_changed None asked)"
    by (rule Step [OF areach_asked], rule Change) simp
  then have "areach False 0 ?o"
    by (rule Step) (rule Confirm, simp add: session_changed_def)
  then show "areach False 0 ?s"
    by (rule Step) (rule Answer [where t = 0], simp_all add: auth_simps)
  show "\<not> changing ?s" "server_session ?s = None" "flying ?s = []" "handled ?s = []"
    "fst (me (clock ?s + 29999) ?s) = Inl ''ann''" "fst (me (clock ?s + 30000) ?s) \<noteq> Inl ''ann''"
    by (simp_all add: auth_simps)
qed

end
