(* ===== verification/Async_Data.thy ===== *)
theory Async_Data
  imports Main
begin

text \<open>
  The hook \<^verbatim>\<open>lib/useAsyncData.ts\<close> that every admin page loads its data with. A load clears
  the error, starts the fetcher of the current dependencies and, when its answer comes, sets
  the data or the error if the component is still mounted. A change of the dependencies
  runs the cleanup and the effect again: \<open>mountedRef\<close> is set to false and to true, so it
  does not tell the loads of different dependencies apart. Requests in flight are kept with
  the dependencies they were started for.
\<close>

subsection \<open>State and handlers\<close>

text \<open>
  \<open>latest\<close> is the last answer the component accepted, with the dependencies of its load; it is
  there for the statements only.
\<close>

record ('d, 'a) async =
  deps :: 'd
  fetched :: 'a
  loading :: bool
  failure :: "string option"
  mountedRef :: bool
  flying :: "'d list"
  latest :: "('d \<times> (string + 'a)) option"

definition async_start :: "'d \<Rightarrow> 'a \<Rightarrow> ('d, 'a) async" where
  "async_start d initialValue = \<lparr>deps = d, fetched = initialValue, loading = True, failure = None,
     mountedRef = True, flying = [], latest = None\<rparr>"

definition load :: "('d, 'a) async \<Rightarrow> ('d, 'a) async" where
  "load s = s\<lparr>loading := True, failure := None, flying := flying s @ [deps s]\<rparr>"

text \<open>The answer of a load: the \<open>try\<close>, \<open>catch\<close> and \<open>finally\<close> parts, each guarded.\<close>

definition settle :: "'d \<Rightarrow> string + 'a \<Rightarrow> ('d, 'a) async \<Rightarrow> ('d, 'a) async" where
  "settle d res s =
     (let s = s\<lparr>flying := remove1 d (flying s)\<rparr>
      in if mountedRef s
         then (case res of
                 Inr result \<Rightarrow> s\<lparr>fetched := result\<rparr>
               | Inl msg \<Rightarrow> s\<lparr>failure := Some msg\<rparr>)\<lparr>loading := False, latest := Some (d, res)\<rparr>
         else s)"

text \<open>The effect on mount, its cleanup, and both when the dependencies change.\<close>

definition mount :: "('d, 'a) async \<Rightarrow> ('d, 'a) async" where
  "mount s = load (s\<lparr>mountedRef := True\<rparr>)"

definition unmount :: "('d, 'a) async \<Rightarrow> ('d, 'a) async" where
  "unmount s = s\<lparr>mountedRef := False\<rparr>"

definition change_deps :: "'d \<Rightarrow> ('d, 'a) async \<Rightarrow> ('d, 'a) async" where
  "change_deps d s = mount ((unmount s)\<lparr>deps := d\<rparr>)"

definition setError :: "string option \<Rightarrow> ('d, 'a) async \<Rightarrow> ('d, 'a) async" where
  "setError msg s = s\<lparr>failure := msg\<rparr>"

text \<open>
  The steps of a component: \<open>one_at_a_time\<close> restricts them to loads that start when no
  other is in flight.
\<close>

inductive load_step :: "bool \<Rightarrow> ('d, 'a) async \<Rightarrow> ('d, 'a) async \<Rightarrow> bool" for one_at_a_time where
  Refresh: "mountedRef s \<Longrightarrow> one_at_a_time \<longrightarrow> flying s = [] \<Longrightarrow> load_step one_at_a_time s (load s)"
| Change: "mountedRef s \<Longrightarrow> one_at_a_time \<longrightarrow> flying s = []
    \<Longrightarrow> load_step one_at_a_time s (change_deps d s)"
| Settle: "d \<in> set (flying s) \<Longrightarrow> load_step one_at_a_time s (settle d res s)"
| SetError: "mountedRef s \<Longrightarrow> load_step one_at_a_time s (setError msg s)"
| Unmount: "load_step one_at_a_time s (unmount s)"

inductive loads :: "bool \<Rightarrow> ('d, 'a) async \<Rightarrow> bool" for one_at_a_time where
  Start: "loads one_at_a_time (mount (async_start d v))"
| Step: "loads one_at_a_time s \<Longrightarrow> load_step one_at_a_time s s' \<Longrightarrow> loads one_at_a_time s'"

lemmas async_defs = load_def settle_def mount_def unmount_def change_deps_def async_start_def
  setError_def

subsection \<open>Lemmas\<close>

text \<open>A spinner waits for an answer.\<close>

definition spinner_waits :: "('d, 'a) async \<Rightarrow> bool" where
  "spinner_waits s = (mountedRef s \<and> loading s \<longrightarrow> flying s \<noteq> [])"

lemma load_step_waits: "load_step c s s' \<Longrightarrow> spinner_waits s \<Longrightarrow> spinner_waits s'"
  by (induction rule: load_step.induct)
    (auto simp: spinner_waits_def async_defs Let_def split: sum.splits)

lemma loads_waits: "loads c s \<Longrightarrow> spinner_waits s"
  by (induction rule: loads.induct)
    (auto simp: load_step_waits, simp add: spinner_waits_def async_defs)

text \<open>One load at a time: what is shown without a spinner is the answer for the dependencies.\<close>

definition shows_current :: "('d, 'a) async \<Rightarrow> bool" where
  "shows_current s =
     (mountedRef s \<longrightarrow>
        (if loading s then flying s = [deps s]
         else flying s = [] \<and>
           (case latest s of
              None \<Rightarrow> False
            | Some (d, res) \<Rightarrow> d = deps s \<and> (case res of Inl m \<Rightarrow> True | Inr v \<Rightarrow> fetched s = v))))"

lemma load_step_current: "load_step True s s' \<Longrightarrow> shows_current s \<Longrightarrow> shows_current s'"
proof (induction rule: load_step.induct)
  case (Settle d s res)
  then show ?case
    by (auto simp: shows_current_def async_defs Let_def split: sum.splits if_splits)
qed (auto simp: shows_current_def async_defs split: if_splits option.splits prod.splits sum.splits)

lemma loads_current: "loads True s \<Longrightarrow> shows_current s"
  by (induction rule: loads.induct)
    (auto simp: load_step_current, simp add: shows_current_def async_defs)

subsection \<open>Properties\<close>

text \<open>
  C31: a page shows the data it asks for, as long as it starts one load at a time: whenever
  its spinner is gone, the last answer is that of the current dependencies, and if it was data
  then the page has exactly that data.
\<close>

theorem async_data_current:
  assumes "loads True s" and "mountedRef s" and "\<not> loading s"
  shows "map_option fst (latest s) = Some (deps s)
    \<and> (case latest s of Some (d, Inr v) \<Rightarrow> fetched s = v | _ \<Rightarrow> True)"
  using loads_current [OF assms(1)] assms(2,3)
  by (auto simp: shows_current_def split: option.splits prod.splits sum.splits)

lemma async_data_current_witness:
  "map_option fst (latest (settle (2::nat) (Inr ''b'') (change_deps 2 (settle 1 (Inr ''a'')
     (mount (async_start 1 []))))) ) = Some 2"
proof -
  let ?m = "mount (async_start (1::nat) [])"
  let ?c = "change_deps 2 (settle 1 (Inr ''a'') ?m)"
  have "loads True (settle 1 (Inr ''a'') ?m)"
    by (rule Step [OF Start], rule Settle) (simp add: async_defs)
  then have "loads True ?c"
    by (rule Step) (rule Change, simp_all add: async_defs)
  then have "loads True (settle 2 (Inr ''b'') ?c)"
    by (rule Step) (rule Settle, simp add: async_defs)
  from async_data_current [OF this] show ?thesis
    by (simp add: async_defs)
qed

text \<open>
  With loads that overlap the page can show the wrong data: after a change of the
  dependencies the late answer for the old ones is accepted, and the page ends with that data,
  without spinner or error and with nothing in flight.
\<close>

theorem late_answer_shown:
  "\<exists>s. loads False s \<and> mountedRef s \<and> deps s = d' \<and> \<not> loading s \<and> failure s = None \<and> flying s = []
     \<and> latest s = Some (d, Inr v) \<and> fetched s = v"
proof (intro exI conjI)
  let ?c = "change_deps d' (mount (async_start d v))"
  let ?s = "settle d (Inr v) (settle d' (Inr v') ?c)"
  have "loads False ?c"
    by (rule Step [OF Start], rule Change) (simp_all add: async_defs)
  then have "loads False (settle d' (Inr v') ?c)"
    by (rule Step) (rule Settle, simp add: async_defs)
  then show "loads False ?s"
    by (rule Step) (rule Settle, simp add: async_defs)
  show "mountedRef ?s" "deps ?s = d'" "\<not> loading ?s" "failure ?s = None" "flying ?s = []"
    "latest ?s = Some (d, Inr v)" "fetched ?s = v"
    by (simp_all add: async_defs)
qed

text \<open>
  A spinner always waits for something, whatever overlaps, and nothing that arrives after
  the page is gone changes it.
\<close>

theorem async_spinner_waits:
  assumes "loads c s" and "mountedRef s" and "loading s"
  shows "flying s \<noteq> [] \<and> fold (\<lambda>(d, r). settle d r) rs (unmount s)
    = (unmount s)\<lparr>flying := fold remove1 (map fst rs) (flying s)\<rparr>"
proof -
  have "fold (\<lambda>(d, r). settle d r) rs u = u\<lparr>flying := fold remove1 (map fst rs) (flying u)\<rparr>"
    if "\<not> mountedRef u" for u :: "('a, 'b) async"
    using that by (induction rs arbitrary: u) (auto simp: settle_def Let_def)
  then have "fold (\<lambda>(d, r). settle d r) rs (unmount s)
      = (unmount s)\<lparr>flying := fold remove1 (map fst rs) (flying s)\<rparr>"
    by (simp add: unmount_def)
  with loads_waits [OF assms(1)] assms(2,3) show ?thesis
    by (simp add: spinner_waits_def)
qed

lemma async_spinner_waits_witness:
  "flying (mount (async_start (1::nat) ''a'')) \<noteq> []"
  using async_spinner_waits [of False "mount (async_start (1::nat) ''a'')", OF Start]
  by (simp add: async_defs)

end
