(* ===== verification/Data_Table.thy ===== *)
theory Data_Table
  imports Browser
begin

text \<open>
  The table of the admin pages, \<^verbatim>\<open>components/DataTable.tsx\<close>: the text search, the columns a
  user hides (kept in local storage under the key the page passes), the expanded rows and the
  rows the table shows. Sorting and pagination are done by TanStack Table; its row models are
  the parameters \<open>sort_rows\<close> and \<open>page_rows\<close>.
\<close>

subsection \<open>Columns\<close>

datatype sort_value = SText string | SNumber int

record 'r column =
  col_key :: string
  col_label :: string
  col_sortable :: "bool option"
  searchValue :: "('r \<Rightarrow> string) option"
  sortValue :: "('r \<Rightarrow> sort_value) option"
  col_width :: "int option"
  hideable :: "bool option"

text \<open>What TanStack gets for a column.\<close>

record 'r tan_column =
  tan_id :: string
  tan_header :: string
  accessorFn :: "'r \<Rightarrow> sort_value"
  enableSorting :: bool
  tan_size :: "int option"

definition tan_column_of :: "'r column \<Rightarrow> 'r tan_column" where
  "tan_column_of c =
     \<lparr>tan_id = col_key c, tan_header = col_label c,
      accessorFn = (case sortValue c of None \<Rightarrow> (\<lambda>r. SText []) | Some f \<Rightarrow> f),
      enableSorting = (case col_sortable c of None \<Rightarrow> False | Some b \<Rightarrow> b),
      tan_size = col_width c\<rparr>"

subsection \<open>State\<close>

text \<open>
  \<open>hiddenCols\<close> is the \<open>Set\<close> of what the storage held, in insertion order; its elements need not
  be strings. \<open>column_store\<close> is the item of the key, if the page passes one.
\<close>

record table =
  search :: string
  hiddenCols :: "json list"
  expandedIds :: "string list"
  column_store :: storage

text \<open>The elements of a new \<open>Set\<close>: equal primitive values count once.\<close>

fun set_elements :: "json list \<Rightarrow> json list" where
  "set_elements [] = []"
| "set_elements (x # xs) =
     x # filter (\<lambda>y. y \<noteq> x \<or> json_is_object x) (set_elements xs)"

text \<open>\<open>new Set(v)\<close>: \<open>None\<close> is the \<open>TypeError\<close> for what is not iterable.\<close>

fun new_set :: "json \<Rightarrow> json list option" where
  "new_set JNull = Some []"
| "new_set (JArray xs) = Some (set_elements xs)"
| "new_set (JString s) = Some (set_elements (map (\<lambda>c. JString [c]) s))"
| "new_set _ = None"

definition loadHiddenCols :: "string option \<Rightarrow> storage \<Rightarrow> json list" where
  "loadHiddenCols key s =
     (if \<not> truthy key then []
      else (case getItem s of
              Inr (Some (Json v)) \<Rightarrow> (case new_set v of None \<Rightarrow> [] | Some xs \<Rightarrow> xs)
            | _ \<Rightarrow> []))"

definition table_start :: "string option \<Rightarrow> storage \<Rightarrow> table" where
  "table_start key s = \<lparr>search = [], hiddenCols = loadHiddenCols key s, expandedIds = [], column_store = s\<rparr>"

subsection \<open>Operations\<close>

text \<open>The write to the storage is not guarded: its exception leaves the updater.\<close>

definition toggleColumn :: "string option \<Rightarrow> string \<Rightarrow> table \<Rightarrow> storage_error + table" where
  "toggleColumn key k t =
     (let nxt = set_toggle (JString k) (hiddenCols t)
      in if truthy key
         then (case setItem (Json (JArray nxt)) (column_store t) of
                 Inl e \<Rightarrow> Inl e
               | Inr s \<Rightarrow> Inr (t\<lparr>hiddenCols := nxt, column_store := s\<rparr>))
         else Inr (t\<lparr>hiddenCols := nxt\<rparr>))"

definition toggleExpanded :: "string \<Rightarrow> table \<Rightarrow> table" where
  "toggleExpanded i t = t\<lparr>expandedIds := set_toggle i (expandedIds t)\<rparr>"

definition setSearch :: "string \<Rightarrow> table \<Rightarrow> table" where
  "setSearch q t = t\<lparr>search := q\<rparr>"

definition visibleColumns :: "'r column list \<Rightarrow> table \<Rightarrow> 'r column list" where
  "visibleColumns cols t = filter (\<lambda>c. JString (col_key c) \<notin> set (hiddenCols t)) cols"

definition hideableColumns :: "'r column list \<Rightarrow> 'r column list" where
  "hideableColumns cols = filter (\<lambda>c. hideable c \<noteq> Some False) cols"

text \<open>The menu of columns is offered when there is a key, with the columns that can be hidden.\<close>

definition column_menu :: "string option \<Rightarrow> 'r column list \<Rightarrow> 'r column list" where
  "column_menu key cols = (if truthy key then hideableColumns cols else [])"

definition tanColumns :: "'r column list \<Rightarrow> table \<Rightarrow> 'r tan_column list" where
  "tanColumns cols t = map tan_column_of (visibleColumns cols t)"

definition column_matches :: "string \<Rightarrow> 'r \<Rightarrow> 'r column \<Rightarrow> bool" where
  "column_matches q row c =
     (case searchValue c of None \<Rightarrow> False | Some f \<Rightarrow> has_infix (to_lower (f row)) q)"

definition filteredRows :: "'r column list \<Rightarrow> string \<Rightarrow> 'r list \<Rightarrow> 'r list" where
  "filteredRows cols srch rows =
     (let q = to_lower (trim srch)
      in if q = [] then rows else filter (\<lambda>row. list_ex (column_matches q row) cols) rows)"

datatype pagination = NoPagination | DefaultPageSize | PageSize int

definition isPaginated :: "pagination \<Rightarrow> bool" where
  "isPaginated p = (p \<noteq> NoPagination)"

definition initialPageSize :: "pagination \<Rightarrow> int" where
  "initialPageSize p = (case p of PageSize n \<Rightarrow> n | _ \<Rightarrow> 25)"

definition visibleRows ::
  "('r tan_column list \<Rightarrow> 'r list \<Rightarrow> 'r list) \<Rightarrow> ('r list \<Rightarrow> 'r list) \<Rightarrow> pagination
     \<Rightarrow> 'r column list \<Rightarrow> 'r list \<Rightarrow> table \<Rightarrow> 'r list" where
  "visibleRows sort_rows page_rows pagi cols rows t =
     (let sorted = sort_rows (tanColumns cols t) (filteredRows cols (search t) rows)
      in if isPaginated pagi then page_rows sorted else sorted)"

text \<open>The text of a filter with several choices.\<close>

definition filter_summary :: "string list \<Rightarrow> nat \<Rightarrow> string" where
  "filter_summary selected n_options =
     (if length selected = 0 \<or> length selected = n_options then ''All''
      else if length selected \<le> 2 then join '', '' selected
      else show_nat (length selected) @ '' selected'')"

subsection \<open>Lemmas\<close>

lemma set_set_elements [simp]: "set (set_elements xs) = set xs"
  by (induction xs) auto

abbreviation primitives :: "json list \<Rightarrow> json list" where
  "primitives \<equiv> filter (\<lambda>x. \<not> json_is_object x)"

lemma set_elements_id: "distinct (primitives xs) \<Longrightarrow> set_elements xs = xs"
  by (induction xs) (auto intro: filter_filter_id split: if_splits)

lemma set_elements_distinct: "distinct (primitives (set_elements xs))"
  by (induction xs) (auto simp: distinct_filter_more)

lemma new_set_distinct: "new_set v = Some xs \<Longrightarrow> distinct (primitives xs)"
  by (cases v) (auto simp: set_elements_distinct simp del: filter_False filter_True)

lemma loadHiddenCols_distinct: "distinct (primitives (loadHiddenCols key s))"
  by (auto simp: loadHiddenCols_def new_set_distinct split: sum.splits option.splits stored.splits)

lemma set_toggle_primitives:
  "distinct (primitives xs) \<Longrightarrow> distinct (primitives (set_toggle (JString k) xs))"
  by (auto simp: set_toggle_def distinct_filter_more)

text \<open>A user's session with the menu: columns clicked one after the other.\<close>

definition click_columns :: "string option \<Rightarrow> string list \<Rightarrow> table \<Rightarrow> storage_error + table" where
  "click_columns key ks t =
     fold (\<lambda>k r. case r of Inl e \<Rightarrow> Inl e | Inr t \<Rightarrow> toggleColumn key k t) ks (Inr t)"

definition column_hidden :: "string \<Rightarrow> json list \<Rightarrow> bool" where
  "column_hidden k h = (JString k \<in> set h)"

interpretation columns: toggling "\<lambda>k. set_toggle (JString k)" column_hidden
  by unfold_locales (simp add: column_hidden_def)

interpretation expansion: toggling toggleExpanded "\<lambda>i t. i \<in> set (expandedIds t)"
  by unfold_locales (simp add: toggleExpanded_def)

lemma click_columns_writable:
  assumes "writable (column_store t)"
  shows "\<exists>t'. click_columns key ks t = Inr t' \<and> writable (column_store t')
    \<and> hiddenCols t' = fold (\<lambda>k. set_toggle (JString k)) ks (hiddenCols t)
    \<and> (truthy key \<and> ks \<noteq> [] \<longrightarrow> getItem (column_store t') = Inr (Some (Json (JArray (hiddenCols t')))))
    \<and> (ks = [] \<longrightarrow> t' = t)"
  using assms
proof (induction ks rule: rev_induct)
  case (snoc k ks)
  then obtain t' where t': "click_columns key ks t = Inr t'" "writable (column_store t')"
    "hiddenCols t' = fold (\<lambda>k. set_toggle (JString k)) ks (hiddenCols t)" by blast
  then obtain q c where "column_store t' = Storage q c" "\<not> q"
    by (cases "column_store t'") auto
  with t' show ?case
    by (auto simp: click_columns_def toggleColumn_def Let_def split: sum.splits)
qed (simp add: click_columns_def)

lemma click_columns_distinct:
  "distinct (primitives h) \<Longrightarrow> distinct (primitives (fold (\<lambda>k. set_toggle (JString k)) ks h))"
  by (induction ks arbitrary: h) (auto simp: set_toggle_primitives simp del: filter_False filter_True)

lemma to_lower_Nil: "to_lower s = [] \<longleftrightarrow> s = []"
  by (simp add: to_lower_def)

lemma column_matches_sublist:
  "column_matches q r = (\<lambda>c. case searchValue c of None \<Rightarrow> False | Some f \<Rightarrow> sublist q (to_lower (f r)))"
  by (rule ext) (simp add: column_matches_def has_infix_sublist split: option.splits)

lemma has_infix_trans: "has_infix s q' \<Longrightarrow> has_infix q' q \<Longrightarrow> has_infix s q"
  by (auto simp: has_infix_sublist intro: sublist_order.order_trans)

subsection \<open>Properties\<close>

text \<open>
  C25: the choice of columns survives a reload and never takes what the page fixes: after any
  clicks in the menu the hidden columns are those clicked an odd number of times more than at
  the start, a column that cannot be hidden is still shown, and the table that is mounted
  next shows the same columns.
\<close>

theorem column_choice_survives:
  assumes "writable s" and "truthy key" and "t = table_start key s"
    and "list_all (\<lambda>k. k \<in> set (map col_key (column_menu key cols))) ks"
    and "distinct (map col_key cols)"
  shows "\<exists>t'. click_columns key ks t = Inr t'
    \<and> visibleColumns cols t'
      = filter (\<lambda>c. column_hidden (col_key c) (hiddenCols t) = odd (count_list ks (col_key c))) cols
    \<and> filter (\<lambda>c. hideable c = Some False) (visibleColumns cols t')
      = filter (\<lambda>c. hideable c = Some False) (visibleColumns cols t)
    \<and> visibleColumns cols (table_start key (column_store t')) = visibleColumns cols t'"
proof -
  have "writable (column_store t)" using assms(1,3) by (simp add: table_start_def)
  from click_columns_writable [OF this, of key ks] obtain t' where t':
    "click_columns key ks t = Inr t'" "hiddenCols t' = fold (\<lambda>k. set_toggle (JString k)) ks (hiddenCols t)"
    "ks \<noteq> [] \<longrightarrow> getItem (column_store t') = Inr (Some (Json (JArray (hiddenCols t'))))"
    "ks = [] \<longrightarrow> t' = t"
    using assms(2) by auto
  have hid: "column_hidden k (hiddenCols t') = (column_hidden k (hiddenCols t) = even (count_list ks k))" for k
    unfolding t'(2) by (rule columns.toggle_fold)
  then have vis: "visibleColumns cols t'
      = filter (\<lambda>c. column_hidden (col_key c) (hiddenCols t) = odd (count_list ks (col_key c))) cols"
    by (auto simp: visibleColumns_def column_hidden_def intro!: filter_cong)
  have "count_list ks (col_key c) = 0" if "c \<in> set cols" "hideable c = Some False" for c
  proof -
    have "col_key c \<notin> set ks"
      using assms(4,5) that inj_on_eq_iff [of col_key "set cols"]
      by (fastforce simp: list_all_iff column_menu_def hideableColumns_def distinct_map split: if_splits)
    then show ?thesis by (simp add: count_list_0_iff)
  qed
  then have fixd: "filter (\<lambda>c. hideable c = Some False) (visibleColumns cols t')
      = filter (\<lambda>c. hideable c = Some False) (visibleColumns cols t)"
    unfolding vis by (auto simp: visibleColumns_def column_hidden_def intro!: filter_cong)
  have "distinct (primitives (hiddenCols t'))"
    unfolding t'(2) assms(3)
    by (rule click_columns_distinct) (simp add: table_start_def loadHiddenCols_distinct)
  then have "hiddenCols (table_start key (column_store t')) = hiddenCols t'" 
    using t'(3,4) assms(2,3)
    by (cases "ks = []") (auto simp: table_start_def loadHiddenCols_def set_elements_id)
  then have "visibleColumns cols (table_start key (column_store t')) = visibleColumns cols t'"
    by (simp add: visibleColumns_def)
  with t'(1) vis fixd show ?thesis by blast
qed

definition demo_column :: "string \<Rightarrow> bool option \<Rightarrow> string column" where
  "demo_column k h = \<lparr>col_key = k, col_label = k, col_sortable = None, searchValue = Some (\<lambda>r. r),
     sortValue = None, col_width = None, hideable = h\<rparr>"

lemma column_choice_survives_witness:
  "\<exists>t'. click_columns (Some ''dt'') [''name'', ''host'', ''name''] (table_start (Some ''dt'') (Storage False None)) = Inr t'
     \<and> map col_key (visibleColumns [demo_column ''name'' None, demo_column ''host'' None, demo_column ''act'' (Some False)]
         (table_start (Some ''dt'') (column_store t'))) = [''name'', ''act'']"
  using column_choice_survives [of "Storage False None" "Some ''dt''" "table_start (Some ''dt'') (Storage False None)"
      "[demo_column ''name'' None, demo_column ''host'' None, demo_column ''act'' (Some False)]" "[''name'', ''host'', ''name'']"]
  by (auto simp: demo_column_def column_menu_def hideableColumns_def table_start_def loadHiddenCols_def column_hidden_def)

text \<open>
  The search loses and invents no row: whatever TanStack's sorting does with equal rows, the
  table without pages shows exactly the rows with a column that contains the search text, in
  any letter case, each as often as it occurs; typing more only narrows, and a blank search
  shows all rows.
\<close>

theorem search_shows_matches:
  assumes "\<And>cs rs. mset (sort_rows cs rs) = mset rs"
  shows "mset (visibleRows sort_rows page_rows NoPagination cols rows t) =
       {#r \<in># mset rows. trim (search t) = []
          \<or> list_ex (\<lambda>c. case searchValue c of None \<Rightarrow> False
                        | Some f \<Rightarrow> sublist (to_lower (trim (search t))) (to_lower (f r))) cols#}
    \<and> (has_infix (to_lower (trim q')) (to_lower (trim q))
         \<le> subseq (filteredRows cols q' rows) (filteredRows cols q rows))"
proof
  show "mset (visibleRows sort_rows page_rows NoPagination cols rows t) =
       {#r \<in># mset rows. trim (search t) = []
          \<or> list_ex (\<lambda>c. case searchValue c of None \<Rightarrow> False
                        | Some f \<Rightarrow> sublist (to_lower (trim (search t))) (to_lower (f r))) cols#}"
    by (auto simp: visibleRows_def isPaginated_def assms filteredRows_def Let_def to_lower_Nil
        column_matches_sublist intro!: filter_mset_cong)
  have narrow: "filter P (filter Q rows) = filter P rows" if "\<And>r. P r \<Longrightarrow> Q r" for P Q
    using that by (induction rows) auto
  show "has_infix (to_lower (trim q')) (to_lower (trim q))
         \<le> subseq (filteredRows cols q' rows) (filteredRows cols q rows)"
  proof (rule le_boolI)
    assume i: "has_infix (to_lower (trim q')) (to_lower (trim q))"
    let ?P = "\<lambda>q r. list_ex (column_matches (to_lower (trim q)) r) cols"
    have imp: "?P q' r \<Longrightarrow> ?P q r" for r
      using has_infix_trans [OF _ i]
      by (fastforce simp: list_ex_iff column_matches_def split: option.splits)
    show "subseq (filteredRows cols q' rows) (filteredRows cols q rows)"
    proof (cases "to_lower (trim q) = []")
      case True
      then show ?thesis by (simp add: filteredRows_def Let_def)
    next
      case False
      with i have "to_lower (trim q') \<noteq> []" by auto
      with False have "filteredRows cols q' rows = filter (?P q') (filteredRows cols q rows)"
        using narrow [of "?P q'" "?P q"] imp by (simp add: filteredRows_def)
      then show ?thesis by simp
    qed
  qed
qed

lemma search_shows_matches_witness:
  "mset (visibleRows (\<lambda>cs rs. rev rs) (\<lambda>rs. rs) NoPagination [demo_column ''name'' None]
     [''Alpha'', ''beta''] (setSearch '' LPH '' (table_start None Disabled))) = {#''Alpha''#}"
proof -
  have m: "\<And>cs rs. mset (rev rs) = mset rs" by simp
  have "to_lower (trim '' LPH '') = ''lph''" "trim '' LPH '' \<noteq> []" "to_lower ''Alpha'' = ''alpha''" "to_lower ''beta'' = ''beta''"
    by code_simp+
  moreover have "sublist ''lph'' ''alpha''" "\<not> sublist ''lph'' ''beta''"
    by (simp_all add: has_infix_sublist [symmetric])
  ultimately show ?thesis
    using search_shows_matches [of "\<lambda>cs rs. rev rs", OF m, THEN conjunct1,
      of "\<lambda>rs. rs" "[demo_column ''name'' None]" "[''Alpha'', ''beta'']" "setSearch '' LPH '' (table_start None Disabled)"]
    by (simp add: demo_column_def setSearch_def)
qed

text \<open>
  Hiding a column breaks the page when the storage cannot be written: the exception of the
  storage leaves the state updater, and nothing is hidden.
\<close>

theorem unwritable_storage_breaks_columns:
  assumes "truthy key" and "\<not> writable (column_store t)"
  shows "\<exists>e. toggleColumn key k t = Inl e"
  using assms by (cases "column_store t") (auto simp: toggleColumn_def Let_def)

lemma unwritable_storage_breaks_columns_witness:
  "\<exists>e. toggleColumn (Some ''dt'') ''name'' (table_start (Some ''dt'') Disabled) = Inl e"
  by (rule unwritable_storage_breaks_columns) (simp_all add: table_start_def)

end
