(* ===== verification/Service_Urls.thy ===== *)
theory Service_Urls
  imports Prelude
begin

text \<open>
  The addresses of the services the pages link to, \<^verbatim>\<open>lib/serviceUrls.ts\<close>: host and port come
  from the environment of the build when it has them, else from the page and from fixed ports.
  The environment is a map; \<open>window\<close> is the host name and the protocol of the page, if there is
  a page. The browser's URL object, which the Grafana address is made with, is a parameter.
\<close>

subsection \<open>Numbers\<close>

text \<open>\<open>Number.parseInt(s, 10)\<close>: the digits at the start, after white space and a sign; \<open>None\<close> is NaN.\<close>

definition parseInt :: "string \<Rightarrow> int option" where
  "parseInt s =
     (let s = dropWhile is_ws s;
          neg = starts_with s ''-'';
          s = (if neg \<or> starts_with s ''+'' then drop 1 s else s);
          ds = takeWhile is_digit s
      in if ds = [] then None
         else Some (if neg then - int (digits_value ds) else int (digits_value ds)))"

subsection \<open>Addresses\<close>

type_synonym env = "string \<Rightarrow> string option"
type_synonym window = "(string \<times> string) option"

definition portFromEnv :: "env \<Rightarrow> string \<Rightarrow> int \<Rightarrow> int" where
  "portFromEnv env envName fallback =
     (let raw = map_option trim (env envName);
          parsed = (if truthy raw then parseInt (the raw) else None)
      in case parsed of
           Some n \<Rightarrow> if n > 0 \<and> n \<le> 65535 then n else fallback
         | None \<Rightarrow> fallback)"

text \<open>The operands of \<open>||\<close>: the first that is a text with characters.\<close>

definition finalHost :: "window \<Rightarrow> string option \<Rightarrow> string" where
  "finalHost window host =
     (if truthy host \<and> trim (the host) \<noteq> [] then trim (the host)
      else if (case window of None \<Rightarrow> [] | Some (hostname, protocol) \<Rightarrow> hostname) \<noteq> []
        then (case window of None \<Rightarrow> [] | Some (hostname, protocol) \<Rightarrow> hostname)
      else ''localhost'')"

definition buildUrl :: "window \<Rightarrow> string option \<Rightarrow> int \<Rightarrow> string \<Rightarrow> string" where
  "buildUrl window host port path =
     (let proto = (case window of
                     Some (hostname, protocol) \<Rightarrow> if protocol \<noteq> [] then protocol else ''http:''
                   | None \<Rightarrow> ''http:'')
      in proto @ ''//'' @ finalHost window host @ '':'' @ show_int port @ path)"

definition apiDocsUrl :: "env \<Rightarrow> window \<Rightarrow> string" where
  "apiDocsUrl env window =
     buildUrl window (env ''VITE_LLM_PORT_API_HOST'') (portFromEnv env ''VITE_LLM_PORT_API_PORT'' 8001)
       ''/api/docs''"

definition GRAFANA_OVERVIEW_PATH :: string where
  "GRAFANA_OVERVIEW_PATH = ''/grafana/d/llm-port-overview/llm-port-overview''"

definition grafanaOverviewUrl ::
  "(string \<Rightarrow> (string \<times> string) list \<Rightarrow> string) \<Rightarrow> env \<Rightarrow> window \<Rightarrow> string \<Rightarrow> string" where
  "grafanaOverviewUrl url_with_params env window theme =
     (let override = map_option trim (env ''VITE_GRAFANA_DASHBOARD_URL'')
      in if truthy override then
           the override @ (if has_infix (the override) ''?'' then ''&'' else ''?'') @ ''theme='' @ theme
         else url_with_params
           (buildUrl window (env ''VITE_GRAFANA_HOST'') (portFromEnv env ''VITE_GRAFANA_PORT'' 3001)
              GRAFANA_OVERVIEW_PATH)
           [(''orgId'', ''1''), (''from'', ''now-6h''), (''to'', ''now''), (''timezone'', ''browser''),
            (''refresh'', ''30s''), (''theme'', theme)])"

subsection \<open>Lemmas\<close>

lemma finalHost_nonempty: "finalHost window host \<noteq> []"
  by (simp add: finalHost_def)

lemma parseInt_show:
  assumes "s = [] \<or> \<not> is_digit (hd s)"
  shows "parseInt (show_nat n @ s) = Some (int n)"
proof -
  obtain c r where c: "show_nat n = c # r" by (cases "show_nat n") (auto simp: show_nat_nonempty)
  with is_digit_show [of n] have d: "is_digit c" by simp
  then have "\<not> is_ws c" "c \<noteq> CHR ''-''" "c \<noteq> CHR ''+''"
    by (auto simp: is_digit_def is_ws_def)
  moreover have "takeWhile is_digit (show_nat n @ s) = show_nat n"
    using is_digit_show [of n] assms
    by (cases s) (auto simp: takeWhile_append list_all_iff takeWhile_eq_Nil_iff)
  moreover have "digits_value (c # r) = n" using digits_value_show [of n] c by simp
  ultimately show ?thesis
    by (simp add: parseInt_def c Let_def)
qed

subsection \<open>Properties\<close>

text \<open>
  A link always has a host and a valid port: the port is in the range of ports whatever the
  environment holds, a number configured there is used exactly when it is such a port, and
  otherwise the fallback is; the host is not empty.
\<close>

theorem service_port_bounds:
  "1 \<le> portFromEnv env name 8001 \<and> portFromEnv env name 8001 \<le> 65535
   \<and> portFromEnv (env(name \<mapsto> show_nat n)) name 8001 = (if 1 \<le> n \<and> n \<le> 65535 then int n else 8001)
   \<and> (\<exists>proto host. apiDocsUrl env window = proto @ ''//'' @ host @ '':''
        @ show_int (portFromEnv env ''VITE_LLM_PORT_API_PORT'' 8001) @ ''/api/docs'' \<and> host \<noteq> [])"
proof (intro conjI)
  show "1 \<le> portFromEnv env name 8001" "portFromEnv env name 8001 \<le> 65535"
    by (auto simp: portFromEnv_def Let_def split: option.splits)
  show "portFromEnv (env(name \<mapsto> show_nat n)) name 8001 = (if 1 \<le> n \<and> n \<le> 65535 then int n else 8001)"
    using parseInt_show [of "[]" n] by (auto simp: portFromEnv_def Let_def trim_show show_nat_nonempty)
  show "\<exists>proto host. apiDocsUrl env window = proto @ ''//'' @ host @ '':''
        @ show_int (portFromEnv env ''VITE_LLM_PORT_API_PORT'' 8001) @ ''/api/docs'' \<and> host \<noteq> []"
    unfolding apiDocsUrl_def buildUrl_def Let_def using finalHost_nonempty by blast
qed

end
