(* ===== verification/Provider_Wizard.thy ===== *)
theory Provider_Wizard
  imports Vllm_Panel Vllm_Args
begin

text \<open>
  The wizard that creates a provider, \<^verbatim>\<open>components/ProviderWizardDialog.tsx\<close>, as a state
  machine: its two steps, the choice of the container image, and the requests that check
  whether the image is on the server and pull it. An answer of a cancelled request changes
  nothing, so only the last check and the last hardware request are kept; a pull is not
  cancelled when the choice changes. The images the server has are part of the state.
\<close>

subsection \<open>State\<close>

datatype provider_type = Vllm | Llamacpp | Tgi | Ollama
datatype provider_target = LocalDocker | RemoteEndpoint
datatype model_source = SyncFromServer | DownloadFromHf
datatype image_status = ImgIdle | ImgChecking | ImgAvailable | ImgMissing | ImgPulling | ImgPulled | ImgError

type_synonym image = "string \<times> string"

definition CUSTOM_IMAGE_VALUE :: string where "CUSTOM_IMAGE_VALUE = ''__custom__''"
definition AUTO_IMAGE_VALUE :: string where "AUTO_IMAGE_VALUE = ''__auto__''"

record hw_info =
  image_presets :: "(string \<times> bool) list"
  recommended_vllm_image :: "string option"
  legacy_vllm_image :: "string option"

record wizard =
  is_open :: bool
  step :: nat
  busy :: bool
  prov_name :: string
  target :: provider_target
  selectedNodeId :: string
  modelSource :: model_source
  hfRepoId :: string
  modelId :: string
  hwInfo :: "hw_info option"
  hwLoading :: bool
  imageChoice :: string
  customImage :: string
  legacyGpu :: bool
  imageStatus :: image_status
  imageError :: string
  pullPercent :: nat
  pullLayers :: "nat \<times> nat"
  hw_request :: bool
  check_request :: "image option"
  pull_requests :: "image list"
  sseRef :: "image option"
  on_server :: "image list"

definition wizard_start :: "image list \<Rightarrow> wizard" where
  "wizard_start server = \<lparr>is_open = False, step = 0, busy = False, prov_name = [], target = LocalDocker,
     selectedNodeId = [], modelSource = SyncFromServer, hfRepoId = [], modelId = [], hwInfo = None,
     hwLoading = False, imageChoice = AUTO_IMAGE_VALUE, customImage = [], legacyGpu = False,
     imageStatus = ImgIdle, imageError = [], pullPercent = 0, pullLayers = (0, 0), hw_request = False,
     check_request = None, pull_requests = [], sseRef = None, on_server = server\<rparr>"

subsection \<open>The image\<close>

definition last_index_of :: "'a \<Rightarrow> 'a list \<Rightarrow> nat option" where
  "last_index_of x xs = map_option (\<lambda>i. length xs - 1 - i) (index_of x (rev xs))"

text \<open>\<open>None\<close> and the empty text are what the code calls no image.\<close>

definition resolvedImage :: "wizard \<Rightarrow> string option" where
  "resolvedImage w =
     (if imageChoice w = AUTO_IMAGE_VALUE then Option.bind (hwInfo w) recommended_vllm_image
      else if imageChoice w = CUSTOM_IMAGE_VALUE then Some (trim (customImage w))
      else Some (imageChoice w))"

definition split_image :: "string \<Rightarrow> image" where
  "split_image s =
     (case last_index_of (CHR '':'') s of
        Some i \<Rightarrow> if i > 0 then (take i s, drop (Suc i) s) else (s, ''latest'')
      | None \<Rightarrow> (s, ''latest''))"

definition chosen_image :: "wizard \<Rightarrow> image option" where
  "chosen_image w = (if truthy (resolvedImage w) then Some (split_image (the (resolvedImage w))) else None)"

subsection \<open>Effects\<close>

definition isRemoteWithInternet :: "wizard \<Rightarrow> bool" where
  "isRemoteWithInternet w = (selectedNodeId w \<noteq> [] \<and> modelSource w = DownloadFromHf)"

definition image_effect :: "wizard \<Rightarrow> wizard" where
  "image_effect w =
     (let w = w\<lparr>check_request := None\<rparr>
      in if \<not> is_open w \<or> step w \<noteq> 1 \<or> target w \<noteq> LocalDocker then w
         else if isRemoteWithInternet w then w\<lparr>imageStatus := ImgIdle\<rparr>
         else (case chosen_image w of
                 None \<Rightarrow> w\<lparr>imageStatus := ImgIdle\<rparr>
               | Some i \<Rightarrow> w\<lparr>imageStatus := ImgChecking, imageError := [], check_request := Some i\<rparr>))"

definition hardware_effect :: "wizard \<Rightarrow> wizard" where
  "hardware_effect w =
     (if \<not> is_open w \<or> step w \<noteq> 1 \<or> target w \<noteq> LocalDocker then w\<lparr>hw_request := False\<rparr>
      else w\<lparr>hwLoading := True, hw_request := True\<rparr>)"

definition recommended :: "hw_info \<Rightarrow> string option" where
  "recommended info = map_option fst (find snd (image_presets info))"

definition legacy_effect :: "wizard \<Rightarrow> wizard" where
  "legacy_effect w =
     w\<lparr>imageChoice := (if legacyGpu w
        then (case Option.bind (hwInfo w) legacy_vllm_image of None \<Rightarrow> AUTO_IMAGE_VALUE | Some i \<Rightarrow> i)
        else (case Option.bind (hwInfo w) recommended of None \<Rightarrow> AUTO_IMAGE_VALUE | Some i \<Rightarrow> i))\<rparr>"

text \<open>On closing everything but what the requests in flight keep is set back.\<close>

definition reset_on_close :: "wizard \<Rightarrow> wizard" where
  "reset_on_close w =
     (wizard_start (on_server w))\<lparr>hwLoading := hwLoading w, pull_requests := pull_requests w\<rparr>"

subsection \<open>Answers\<close>

definition hardware_loaded :: "hw_info \<Rightarrow> wizard \<Rightarrow> wizard" where
  "hardware_loaded info w =
     (let w = w\<lparr>hwInfo := Some info, hwLoading := False, hw_request := False\<rparr>
      in image_effect (case recommended info of None \<Rightarrow> w | Some i \<Rightarrow> w\<lparr>imageChoice := i\<rparr>))"

definition hardware_failed :: "wizard \<Rightarrow> wizard" where
  "hardware_failed w = w\<lparr>hwLoading := False, hw_request := False\<rparr>"

definition subscribeToPull :: "image \<Rightarrow> wizard \<Rightarrow> wizard" where
  "subscribeToPull i w =
     w\<lparr>sseRef := Some i, imageStatus := ImgPulling, pullPercent := 0, pullLayers := (0, 0)\<rparr>"

datatype check_answer = InProgress | Exists bool | CheckFailed

definition check_answered :: "image \<Rightarrow> check_answer \<Rightarrow> wizard \<Rightarrow> wizard" where
  "check_answered i ans w =
     (let w = w\<lparr>check_request := None\<rparr>
      in case ans of
           InProgress \<Rightarrow> subscribeToPull i w
         | Exists b \<Rightarrow> w\<lparr>imageStatus := (if b then ImgAvailable else ImgMissing)\<rparr>
         | CheckFailed \<Rightarrow> w\<lparr>imageStatus := ImgIdle\<rparr>)"

definition handlePullImage :: "wizard \<Rightarrow> wizard" where
  "handlePullImage w =
     (case chosen_image w of
        None \<Rightarrow> w
      | Some i \<Rightarrow> w\<lparr>pull_requests := pull_requests w @ [i]\<rparr>)"

definition pull_accepted :: "image \<Rightarrow> wizard \<Rightarrow> wizard" where
  "pull_accepted i w = subscribeToPull i (w\<lparr>pull_requests := remove1 i (pull_requests w)\<rparr>)"

definition pull_refused :: "image \<Rightarrow> string \<Rightarrow> wizard \<Rightarrow> wizard" where
  "pull_refused i msg w =
     w\<lparr>pull_requests := remove1 i (pull_requests w), imageStatus := ImgError, imageError := msg\<rparr>"

definition pull_progress :: "nat option \<Rightarrow> nat option \<Rightarrow> nat option \<Rightarrow> wizard \<Rightarrow> wizard" where
  "pull_progress percent layers_done layers_total w =
     (let dflt = (\<lambda>x. case x of None \<Rightarrow> 0 | Some n \<Rightarrow> n)
      in w\<lparr>pullPercent := dflt percent, pullLayers := (dflt layers_done, dflt layers_total)\<rparr>)"

text \<open>The end of a pull: the server has the image.\<close>

definition pull_done :: "image \<Rightarrow> wizard \<Rightarrow> wizard" where
  "pull_done i w = w\<lparr>imageStatus := ImgPulled, pullPercent := 100, sseRef := None, on_server := i # on_server w\<rparr>"

definition pull_failed :: "string option \<Rightarrow> wizard \<Rightarrow> wizard" where
  "pull_failed err w =
     w\<lparr>imageStatus := ImgError, sseRef := None,
       imageError := (case err of None \<Rightarrow> ''Connection lost'' | Some e \<Rightarrow> e)\<rparr>"

subsection \<open>Buttons\<close>

definition localImageReady :: "wizard \<Rightarrow> bool" where
  "localImageReady w = (imageStatus w = ImgAvailable \<or> imageStatus w = ImgPulled)"

definition localCheckInProgress :: "wizard \<Rightarrow> bool" where
  "localCheckInProgress w = (hwLoading w \<or> imageStatus w = ImgChecking)"

definition hasModel :: "wizard \<Rightarrow> bool" where
  "hasModel w = (if isRemoteWithInternet w then trim (hfRepoId w) \<noteq> [] else modelId w \<noteq> [])"

definition localCreateBlocked :: "wizard \<Rightarrow> bool" where
  "localCreateBlocked w =
     (if isRemoteWithInternet w then \<not> hasModel w
      else \<not> hasModel w \<or> \<not> localImageReady w \<or> localCheckInProgress w)"

definition isLast :: "wizard \<Rightarrow> bool" where
  "isLast w = (step w \<ge> 1)"

definition create_enabled :: "wizard \<Rightarrow> bool" where
  "create_enabled w =
     (is_open w \<and> isLast w \<and> \<not> (busy w \<or> prov_name w = [] \<or> (target w = LocalDocker \<and> localCreateBlocked w)))"

definition choose_node :: "string \<Rightarrow> wizard \<Rightarrow> wizard" where
  "choose_node n w =
     w\<lparr>selectedNodeId := n, hwInfo := None, imageChoice := AUTO_IMAGE_VALUE, imageStatus := ImgIdle\<rparr>"

definition go_next :: "wizard \<Rightarrow> wizard" where
  "go_next w = image_effect (hardware_effect (w\<lparr>step := step w + 1\<rparr>))"

definition go_back :: "wizard \<Rightarrow> wizard" where
  "go_back w = image_effect (hardware_effect (w\<lparr>step := step w - 1\<rparr>))"

definition toggle_legacy :: "bool \<Rightarrow> wizard \<Rightarrow> wizard" where
  "toggle_legacy b w =
     (let w' = legacy_effect (w\<lparr>legacyGpu := b\<rparr>)
      in if imageChoice w' = imageChoice w then w' else image_effect w')"

subsection \<open>Steps\<close>

text \<open>
  What the user can do in each step of the wizard, and the answers. While the hardware is
  loaded or the image is checked the select of the image is covered; while an image is pulled
  it is not. \<open>careful\<close> restricts the steps that change the image to moments without a pull.
\<close>

definition quiet :: "wizard \<Rightarrow> bool" where
  "quiet w = (pull_requests w = [] \<and> sseRef w = None)"

definition runtime_step :: "wizard \<Rightarrow> bool" where
  "runtime_step w = (is_open w \<and> step w = 1 \<and> target w = LocalDocker)"

inductive wstep :: "bool \<Rightarrow> wizard \<Rightarrow> wizard \<Rightarrow> bool" for careful where
  Open: "\<not> is_open w \<Longrightarrow> wstep careful w (w\<lparr>is_open := True\<rparr>)"
| Close: "is_open w \<Longrightarrow> careful \<longrightarrow> pull_requests w = [] \<Longrightarrow> wstep careful w (reset_on_close w)"
| Name: "is_open w \<Longrightarrow> step w = 0 \<Longrightarrow> wstep careful w (w\<lparr>prov_name := n\<rparr>)"
| Target: "is_open w \<Longrightarrow> step w = 0 \<Longrightarrow> wstep careful w (image_effect (hardware_effect (w\<lparr>target := tgt\<rparr>)))"
| Node: "is_open w \<Longrightarrow> step w = 0 \<Longrightarrow> careful \<longrightarrow> quiet w \<Longrightarrow> wstep careful w (image_effect (choose_node n w))"
| Source: "is_open w \<Longrightarrow> step w = 0 \<Longrightarrow> selectedNodeId w \<noteq> [] \<Longrightarrow> wstep careful w (image_effect (w\<lparr>modelSource := src\<rparr>))"
| Next: "is_open w \<Longrightarrow> step w = 0 \<Longrightarrow> prov_name w \<noteq> [] \<Longrightarrow> wstep careful w (go_next w)"
| Back: "is_open w \<Longrightarrow> step w > 0 \<Longrightarrow> \<not> busy w \<Longrightarrow> wstep careful w (go_back w)"
| Model: "runtime_step w \<Longrightarrow> wstep careful w (w\<lparr>modelId := m\<rparr>)"
| Repo: "runtime_step w \<Longrightarrow> wstep careful w (w\<lparr>hfRepoId := r\<rparr>)"
| Choose: "runtime_step w \<Longrightarrow> \<not> localCheckInProgress w \<Longrightarrow> c \<noteq> imageChoice w \<Longrightarrow> careful \<longrightarrow> quiet w
    \<Longrightarrow> wstep careful w (image_effect (w\<lparr>imageChoice := c\<rparr>))"
| Custom: "runtime_step w \<Longrightarrow> imageChoice w = CUSTOM_IMAGE_VALUE \<Longrightarrow> c \<noteq> customImage w \<Longrightarrow> careful \<longrightarrow> quiet w
    \<Longrightarrow> wstep careful w (image_effect (w\<lparr>customImage := c\<rparr>))"
| Legacy: "runtime_step w \<Longrightarrow> b \<noteq> legacyGpu w \<Longrightarrow> careful \<longrightarrow> quiet w
    \<Longrightarrow> wstep careful w (toggle_legacy b w)"
| Pull: "runtime_step w \<Longrightarrow> \<not> isRemoteWithInternet w \<Longrightarrow> imageStatus w \<in> {ImgMissing, ImgError}
    \<Longrightarrow> wstep careful w (handlePullImage w)"
| Hardware: "hw_request w \<Longrightarrow> careful \<longrightarrow> quiet w \<Longrightarrow> wstep careful w (hardware_loaded info w)"
| HardwareFailed: "hw_request w \<Longrightarrow> wstep careful w (hardware_failed w)"
| Checked: "check_request w = Some i \<Longrightarrow> (case ans of Exists b \<Rightarrow> b = (i \<in> set (on_server w)) | _ \<Rightarrow> True)
    \<Longrightarrow> wstep careful w (check_answered i ans w)"
| Accepted: "i \<in> set (pull_requests w) \<Longrightarrow> wstep careful w (pull_accepted i w)"
| Declined: "i \<in> set (pull_requests w) \<Longrightarrow> wstep careful w (pull_refused i msg w)"
| Progress: "sseRef w = Some i \<Longrightarrow> wstep careful w (pull_progress p d t w)"
| Pulled: "sseRef w = Some i \<Longrightarrow> wstep careful w (pull_done i w)"
| PullFailed: "sseRef w = Some i \<Longrightarrow> wstep careful w (pull_failed err w)"

inductive wizard_reach :: "bool \<Rightarrow> wizard \<Rightarrow> bool" for careful where
  Start: "wizard_reach careful (wizard_start server)"
| Step: "wizard_reach careful w \<Longrightarrow> wstep careful w w' \<Longrightarrow> wizard_reach careful w'"

lemmas wizard_handlers = choose_node_def go_next_def go_back_def toggle_legacy_def legacy_effect_def
  handlePullImage_def hardware_loaded_def hardware_failed_def check_answered_def pull_accepted_def
  pull_refused_def pull_progress_def pull_done_def pull_failed_def subscribeToPull_def
  reset_on_close_def wizard_start_def

subsection \<open>Lemmas\<close>

text \<open>
  Everything in flight is about the chosen image, and a status that lets the user go on says
  that the server has it.
\<close>

definition image_ok :: "wizard \<Rightarrow> bool" where
  "image_ok w =
     (list_all (\<lambda>i. chosen_image w = Some i) (pull_requests w)
      \<and> (\<forall>i \<in> set_option (sseRef w) \<union> set_option (check_request w). chosen_image w = Some i)
      \<and> (localImageReady w \<longrightarrow> (\<exists>i. chosen_image w = Some i \<and> i \<in> set (on_server w)))
      \<and> (hw_request w \<longrightarrow> runtime_step w))"

lemma chosen_image_cong:
  "imageChoice w = imageChoice v \<Longrightarrow> customImage w = customImage v \<Longrightarrow> hwInfo w = hwInfo v
     \<Longrightarrow> chosen_image w = chosen_image v"
  by (simp add: chosen_image_def resolvedImage_def)

lemma chosen_image_updates [simp]:
  "chosen_image (w\<lparr>check_request := r\<rparr>) = chosen_image w"
  "chosen_image (w\<lparr>imageStatus := st\<rparr>) = chosen_image w"
  "chosen_image (w\<lparr>imageError := e\<rparr>) = chosen_image w"
  "chosen_image (w\<lparr>pull_requests := ps\<rparr>) = chosen_image w"
  "chosen_image (w\<lparr>sseRef := s\<rparr>) = chosen_image w"
  "chosen_image (w\<lparr>hw_request := h\<rparr>) = chosen_image w"
  "chosen_image (w\<lparr>hwLoading := b\<rparr>) = chosen_image w"
  "chosen_image (w\<lparr>step := n\<rparr>) = chosen_image w"
  "chosen_image (w\<lparr>is_open := b\<rparr>) = chosen_image w"
  "chosen_image (w\<lparr>prov_name := nm\<rparr>) = chosen_image w"
  "chosen_image (w\<lparr>target := tg\<rparr>) = chosen_image w"
  "chosen_image (w\<lparr>modelSource := ms\<rparr>) = chosen_image w"
  "chosen_image (w\<lparr>modelId := m\<rparr>) = chosen_image w"
  "chosen_image (w\<lparr>hfRepoId := m\<rparr>) = chosen_image w"
  "chosen_image (w\<lparr>pullPercent := p\<rparr>) = chosen_image w"
  "chosen_image (w\<lparr>pullLayers := l\<rparr>) = chosen_image w"
  "chosen_image (w\<lparr>on_server := srv\<rparr>) = chosen_image w"
  by (rule chosen_image_cong; simp)+

lemma chosen_image_none: "chosen_image (w\<lparr>hwInfo := None, imageChoice := AUTO_IMAGE_VALUE\<rparr>) = None"
  by (simp add: chosen_image_def resolvedImage_def)

lemma image_effect_simps [simp]:
  "chosen_image (image_effect w) = chosen_image w" "pull_requests (image_effect w) = pull_requests w"
  "sseRef (image_effect w) = sseRef w" "on_server (image_effect w) = on_server w"
  "hw_request (image_effect w) = hw_request w" "runtime_step (image_effect w) = runtime_step w"
  by (auto simp: image_effect_def runtime_step_def Let_def split: option.splits)

text \<open>The effect makes the state consistent when no pull is running, whatever the image was before.\<close>

lemma image_effect_ok:
  assumes "list_all (\<lambda>i. chosen_image w = Some i) (pull_requests w)"
    "\<forall>i \<in> set_option (sseRef w). chosen_image w = Some i" "hw_request w \<longrightarrow> runtime_step w"
    "runtime_step w \<or> (localImageReady w \<longrightarrow> (\<exists>i. chosen_image w = Some i \<and> i \<in> set (on_server w)))"
  shows "image_ok (image_effect w)"
proof -
  have "localImageReady (image_effect w) \<longrightarrow> (\<exists>i. chosen_image w = Some i \<and> i \<in> set (on_server w))"
    using assms(4) by (auto simp: image_effect_def runtime_step_def localImageReady_def Let_def split: option.splits)
  moreover have "check_request (image_effect w) = None \<or> check_request (image_effect w) = chosen_image w"
    by (auto simp: image_effect_def Let_def split: option.splits)
  ultimately show ?thesis using assms(1-3) by (auto simp: image_ok_def)
qed

lemma image_okD:
  assumes "image_ok w"
  shows "list_all (\<lambda>i. chosen_image w = Some i) (pull_requests w)"
    "\<forall>i \<in> set_option (sseRef w). chosen_image w = Some i"
    "localImageReady w \<longrightarrow> (\<exists>i. chosen_image w = Some i \<and> i \<in> set (on_server w))"
    "hw_request w \<longrightarrow> runtime_step w"
    "check_request w = Some i \<Longrightarrow> chosen_image w = Some i"
  using assms by (auto simp: image_ok_def)

lemma list_all_remove1: "list_all P xs \<Longrightarrow> list_all P (remove1 x xs)"
  by (induction xs) auto

lemma hardware_effect_simps [simp]:
  "chosen_image (hardware_effect w) = chosen_image w" "pull_requests (hardware_effect w) = pull_requests w"
  "sseRef (hardware_effect w) = sseRef w" "on_server (hardware_effect w) = on_server w"
  "imageStatus (hardware_effect w) = imageStatus w"
  "runtime_step (hardware_effect w) = runtime_step w" "hw_request (hardware_effect w) = runtime_step w"
  by (auto simp: hardware_effect_def runtime_step_def localImageReady_def)

lemma both_effects_ok:
  assumes "image_ok w" "chosen_image v = chosen_image w" "pull_requests v = pull_requests w"
    "sseRef v = sseRef w" "imageStatus v = imageStatus w" "on_server v = on_server w"
  shows "image_ok (image_effect (hardware_effect v))"
  using image_okD [OF assms(1)] assms(2-)
  by (intro image_effect_ok) (simp_all add: localImageReady_def)

lemma changed_image_ok:
  assumes "quiet v" "runtime_step v"
  shows "image_ok (image_effect v)"
  using assms by (intro image_effect_ok) (simp_all add: quiet_def)

lemma wstep_image_ok: "wstep True w w' \<Longrightarrow> image_ok w \<Longrightarrow> image_ok w'"
proof (induction rule: wstep.induct)
  case (Open w)
  then show ?case
    by (auto simp: image_ok_def localImageReady_def runtime_step_def)
next
  case (Close w)
  then show ?case by (simp add: image_ok_def wizard_handlers localImageReady_def)
next
  case (Name w n)
  then show ?case by (simp add: image_ok_def localImageReady_def runtime_step_def)
next
  case (Target w tgt)
  then show ?case by (intro both_effects_ok) simp_all
next
  case (Node w n)
  then have "hw_request w = False" by (auto simp: image_ok_def runtime_step_def)
  with Node show ?case
    by (intro image_effect_ok) (simp_all add: choose_node_def quiet_def localImageReady_def)
next
  case (Source w src)
  then show ?case
    using image_okD [OF Source(4)]
    by (intro image_effect_ok) (auto simp: localImageReady_def runtime_step_def)
next
  case (Next w)
  then show ?case unfolding go_next_def by (intro both_effects_ok) simp_all
next
  case (Back w)
  then show ?case unfolding go_back_def by (intro both_effects_ok) simp_all
next
  case (Model w m)
  then show ?case by (simp add: image_ok_def localImageReady_def runtime_step_def)
next
  case (Repo w r)
  then show ?case by (simp add: image_ok_def localImageReady_def runtime_step_def)
next
  case (Choose w c)
  then show ?case by (intro changed_image_ok) (simp_all add: quiet_def runtime_step_def)
next
  case (Custom w c)
  then show ?case by (intro changed_image_ok) (simp_all add: quiet_def runtime_step_def)
next
  case (Legacy w b)
  let ?v = "legacy_effect (w\<lparr>legacyGpu := b\<rparr>)"
  show ?case
  proof (cases "imageChoice ?v = imageChoice w")
    case True
    have "chosen_image ?v = chosen_image w"
      by (rule chosen_image_cong) (simp_all add: True, simp_all add: legacy_effect_def)
    with True Legacy show ?thesis
      by (simp add: toggle_legacy_def Let_def image_ok_def localImageReady_def runtime_step_def)
        (simp add: legacy_effect_def)
  next
    case False
    have "quiet ?v" "runtime_step ?v"
      using Legacy by (simp_all add: legacy_effect_def quiet_def runtime_step_def)
    with False show ?thesis by (simp add: toggle_legacy_def Let_def changed_image_ok)
  qed
next
  case (Pull w)
  then show ?case
    by (auto simp: handlePullImage_def image_ok_def localImageReady_def runtime_step_def split: option.splits)
next
  case (Hardware w info)
  then have "runtime_step w" "quiet w" by (simp_all add: image_ok_def)
  then show ?case
    unfolding hardware_loaded_def Let_def
    by (intro changed_image_ok) (auto simp: quiet_def runtime_step_def split: option.splits)
next
  case (HardwareFailed w)
  then show ?case by (simp add: image_ok_def hardware_failed_def localImageReady_def)
next
  case (Checked w i ans)
  then have "chosen_image w = Some i" by (simp add: image_ok_def)
  with Checked show ?case
    by (cases ans) (auto simp: check_answered_def subscribeToPull_def image_ok_def localImageReady_def runtime_step_def)
next
  case (Accepted i w)
  then have "chosen_image w = Some i" by (auto simp: image_ok_def list_all_iff)
  moreover have "list_all (\<lambda>j. chosen_image w = Some j) (remove1 i (pull_requests w))"
    using Accepted by (intro list_all_remove1) (simp add: image_ok_def)
  ultimately show ?case using Accepted(2)
    by (simp add: pull_accepted_def subscribeToPull_def image_ok_def localImageReady_def runtime_step_def)
next
  case (Declined i w msg)
  then have "list_all (\<lambda>j. chosen_image w = Some j) (remove1 i (pull_requests w))"
    by (intro list_all_remove1) (simp add: image_ok_def)
  with Declined(2) show ?case
    by (simp add: pull_refused_def image_ok_def localImageReady_def runtime_step_def)
next
  case (Progress w i p d t)
  moreover have "image_ok (pull_progress p d t w) = image_ok w"
    by (simp add: pull_progress_def Let_def image_ok_def localImageReady_def runtime_step_def)
  ultimately show ?case by simp
next
  case (Pulled w i)
  then have "chosen_image w = Some i" by (simp add: image_ok_def)
  with Pulled show ?case
    by (simp add: pull_done_def image_ok_def localImageReady_def runtime_step_def)
next
  case (PullFailed w i err)
  have "image_ok w \<Longrightarrow> image_ok (pull_failed err w)"
    by (simp add: pull_failed_def image_ok_def localImageReady_def runtime_step_def)
  with PullFailed show ?case by simp
qed

lemma wizard_reach_image_ok: "wizard_reach True w \<Longrightarrow> image_ok w"
  by (induction rule: wizard_reach.induct)
    (auto simp: wstep_image_ok, simp add: image_ok_def wizard_start_def chosen_image_def
      resolvedImage_def localImageReady_def)

subsection \<open>Properties\<close>

text \<open>
  C8: the wizard does not create a local runtime for an image that is not there: as long as the
  choice of the image is not changed while a pull is running, in every reachable state that
  enables the button for a Docker provider whose node does not pull the image itself, an image
  is chosen and the server has it.
\<close>

theorem create_has_image:
  assumes "wizard_reach True w" and "create_enabled w" and "target w = LocalDocker"
    and "\<not> isRemoteWithInternet w"
  shows "\<exists>i. chosen_image w = Some i \<and> i \<in> set (on_server w)"
  using wizard_reach_image_ok [OF assms(1)] assms(2-)
  by (auto simp: create_enabled_def localCreateBlocked_def image_ok_def)

definition demo_hw :: hw_info where
  "demo_hw = \<lparr>image_presets = [(''vllm:1'', True), (''vllm:2'', False)],
     recommended_vllm_image = None, legacy_vllm_image = None\<rparr>"

text \<open>The wizard opened, with a name, on the second step, the hardware loaded and a model chosen.\<close>

definition at_runtime :: wizard where
  "at_runtime = (hardware_loaded demo_hw (go_next ((wizard_start [])\<lparr>is_open := True, prov_name := ''p''\<rparr>)))\<lparr>modelId := ''m''\<rparr>"

definition pulling_first :: wizard where
  "pulling_first = pull_accepted (''vllm'', ''1'') (handlePullImage (check_answered (''vllm'', ''1'') (Exists False) at_runtime))"

lemmas wizard_eval = wizard_handlers at_runtime_def pulling_first_def demo_hw_def image_effect_def
  hardware_effect_def recommended_def runtime_step_def isRemoteWithInternet_def localCheckInProgress_def
  AUTO_IMAGE_VALUE_def CUSTOM_IMAGE_VALUE_def chosen_image_def resolvedImage_def split_image_def
  last_index_of_def quiet_def

lemma reach_pulling_first: "wizard_reach careful pulling_first"
proof -
  let ?o = "(wizard_start [])\<lparr>is_open := True\<rparr>"
  have "wizard_reach careful ?o"
    by (rule Step [OF Start], rule Open) (simp add: wizard_start_def)
  then have "wizard_reach careful (?o\<lparr>prov_name := ''p''\<rparr>)"
    by (rule Step) (rule Name, simp_all add: wizard_start_def)
  then have "wizard_reach careful (go_next (?o\<lparr>prov_name := ''p''\<rparr>))"
    by (rule Step) (rule Next, simp_all add: wizard_start_def)
  then have "wizard_reach careful (hardware_loaded demo_hw (go_next (?o\<lparr>prov_name := ''p''\<rparr>)))"
    by (rule Step) (rule Hardware, simp_all add: wizard_eval)
  then have "wizard_reach careful at_runtime"
    unfolding at_runtime_def by (rule Step) (rule Model, simp add: wizard_eval)
  then have "wizard_reach careful (check_answered (''vllm'', ''1'') (Exists False) at_runtime)"
    by (rule Step) (rule Checked, simp_all add: wizard_eval)
  then have "wizard_reach careful (handlePullImage (check_answered (''vllm'', ''1'') (Exists False) at_runtime))"
    by (rule Step) (rule Pull, simp_all add: wizard_eval)
  then show ?thesis
    unfolding pulling_first_def by (rule Step) (rule Accepted, simp add: wizard_eval)
qed

lemma create_has_image_witness:
  "\<exists>i. chosen_image (pull_done (''vllm'', ''1'') pulling_first) = Some i
     \<and> i \<in> set (on_server (pull_done (''vllm'', ''1'') pulling_first))"
proof (rule create_has_image)
  show "wizard_reach True (pull_done (''vllm'', ''1'') pulling_first)"
    by (rule Step [OF reach_pulling_first], rule Pulled) (simp add: wizard_eval)
qed (simp_all add: wizard_eval create_enabled_def isLast_def localCreateBlocked_def hasModel_def localImageReady_def)

text \<open>
  A pull that ends late enables the button for another image: the connection of a pull stays
  open when the choice changes, and its end sets the status for whatever image is chosen then.
  The wizard then offers to create a provider whose image the server has just said it lacks.
\<close>

theorem late_pull_enables_create:
  "\<exists>w i. wizard_reach False w \<and> create_enabled w \<and> \<not> isRemoteWithInternet w
     \<and> target w = LocalDocker \<and> chosen_image w = Some i \<and> i \<notin> set (on_server w)"
proof (intro exI conjI)
  let ?c = "image_effect (pulling_first\<lparr>imageChoice := ''vllm:2''\<rparr>)"
  let ?m = "check_answered (''vllm'', ''2'') (Exists False) ?c"
  let ?w = "pull_done (''vllm'', ''1'') ?m"
  have "wizard_reach False ?c"
    by (rule Step [OF reach_pulling_first], rule Choose) (simp_all add: wizard_eval)
  then have "wizard_reach False ?m"
    by (rule Step) (rule Checked, simp_all add: wizard_eval)
  then show "wizard_reach False ?w"
    by (rule Step) (rule Pulled, simp add: wizard_eval)
  show "create_enabled ?w" "\<not> isRemoteWithInternet ?w" "target ?w = LocalDocker"
    "chosen_image ?w = Some (''vllm'', ''2'')" "(''vllm'', ''2'') \<notin> set (on_server ?w)"
    by (simp_all add: wizard_eval create_enabled_def isLast_def localCreateBlocked_def hasModel_def localImageReady_def)
qed

lemma last_index_of_last: "x \<notin> set ys \<Longrightarrow> last_index_of x (xs @ x # ys) = Some (length xs)"
  using index_of_append [of x "rev ys" "rev xs"] by (simp add: last_index_of_def)

text \<open>
  The name and the tag of an image are what was joined, but a registry with a port is
  misread: for an image of such a registry without a tag the port becomes the tag, so the check
  and the pull ask for another image.
\<close>

theorem split_image_roundtrip:
  assumes "name \<noteq> []" and "CHR '':'' \<notin> set tag"
  shows "split_image (name @ CHR '':'' # tag) = (name, tag)
    \<and> (CHR '':'' \<in> set name \<or> split_image name = (name, ''latest''))
    \<and> split_image (name @ '':5000/'' @ tag) = (name, ''5000/'' @ tag)"
proof -
  have "split_image (name @ CHR '':'' # t) = (name, t)" if "CHR '':'' \<notin> set t" for t
    using last_index_of_last [OF that, of name] assms(1) by (simp add: split_image_def)
  from this [OF assms(2)] this [of "''5000/'' @ tag"] assms
  have a: "split_image (name @ CHR '':'' # tag) = (name, tag)"
    "split_image (name @ '':5000/'' @ tag) = (name, ''5000/'' @ tag)" by simp_all
  have "split_image name = (name, ''latest'')" if "CHR '':'' \<notin> set name"
    using that index_of_None [of "CHR '':''" "rev name"] by (simp add: split_image_def last_index_of_def)
  with a show ?thesis by blast
qed

lemma split_image_roundtrip_witness:
  "split_image (''localhost'' @ '':5000/'' @ ''vllm'') = (''localhost'', ''5000/'' @ ''vllm'')"
  using split_image_roundtrip [of "''localhost''" "''vllm''"] by simp

end
