(* ===== verification/Provider_Finish.thy ===== *)
theory Provider_Finish
  imports Provider_Wizard
begin

text \<open>
  The end of the provider wizard: \<open>handleFinish\<close> and \<open>handleTestConnection\<close> of
  \<^verbatim>\<open>components/ProviderWizardDialog.tsx\<close>. The answers of the requests are arguments, and the
  result has the requests in order with their answers, so that their effect on the server can
  be stated. The payloads keep the optional fields of the code as options.
\<close>

subsection \<open>The form\<close>

record container_resources =
  gpuRequest :: string
  ipcMode :: string
  shmSize :: string
  memoryLimit :: string
  cpuLimit :: string
  containerPort :: string

datatype test_status = TestIdle | Testing | TestSuccess | TestError

record provider_form =
  engine :: provider_type
  endpointUrl :: string
  apiKey :: string
  remoteModel :: string
  litellmProvider :: string
  testStatus :: test_status
  testMessage :: string
  discoveredModels :: "string list"
  pricingInputPrice :: rat
  pricingOutputPrice :: rat
  engineArgs :: arg_values
  openaiCompat :: bool
  extraArgsRaw :: string
  containerRes :: container_resources

subsection \<open>Payloads\<close>

datatype payload_type = Engine provider_type | Cloud

record provider_payload =
  pp_name :: string
  pp_type :: payload_type
  pp_target :: provider_target
  pp_endpoint_url :: "string option"
  pp_api_key :: "string option"
  pp_remote_model :: "string option"
  pp_litellm_provider :: "string option"
  pp_litellm_model :: "string option"

record pricing_payload =
  pr_provider :: string
  pr_model :: string
  pr_input :: rat
  pr_output :: rat

record provider_config =
  pc_image :: "string option"
  pc_engine_args :: "arg_values option"
  pc_extra_args :: "string list option"
  pc_gpu_request :: "string option"
  pc_ipc_mode :: "string option"
  pc_shm_size :: "string option"
  pc_memory_limit :: "string option"
  pc_cpu_limit :: "string option"
  pc_container_port :: "string option"

record generic_config =
  gc_max_model_len :: "arg_value option"
  gc_dtype :: "arg_value option"
  gc_gpu_memory_utilization :: "arg_value option"
  gc_tensor_parallel_size :: "arg_value option"
  gc_enforce_eager :: "bool option"

datatype image_source = PullFromRegistry | TransferFromServer

record runtime_payload =
  rp_name :: string
  rp_provider_id :: string
  rp_model_id :: string
  rp_openai_compat :: bool
  rp_generic_config :: "generic_config option"
  rp_provider_config :: "provider_config option"
  rp_target_node_id :: "string option"
  rp_model_source :: "model_source option"
  rp_image_source :: "image_source option"

datatype request =
    CreateProvider provider_payload
  | CreatePricing pricing_payload
  | DownloadModel string string
  | CreateRuntime runtime_payload
  | DeleteProvider string

text \<open>A field that is there only when its text is not empty.\<close>

definition when_text :: "string \<Rightarrow> string option" where
  "when_text s = (if s = [] then None else Some s)"

definition prov_payload :: "wizard \<Rightarrow> provider_form \<Rightarrow> provider_payload" where
  "prov_payload w f =
     (let remote = (target w = RemoteEndpoint);
          field = (\<lambda>s. if remote then when_text s else None)
      in \<lparr>pp_name = prov_name w,
          pp_type = (if target w = LocalDocker then Engine (engine f) else Cloud),
          pp_target = target w,
          pp_endpoint_url = field (endpointUrl f),
          pp_api_key = field (apiKey f),
          pp_remote_model = field (trim (remoteModel f)),
          pp_litellm_provider = field (litellmProvider f),
          pp_litellm_model = field (trim (remoteModel f))\<rparr>)"

definition pricing :: "wizard \<Rightarrow> provider_form \<Rightarrow> pricing_payload" where
  "pricing w f =
     \<lparr>pr_provider = (if litellmProvider f \<noteq> [] then litellmProvider f else prov_name w),
      pr_model = trim (remoteModel f), pr_input = pricingInputPrice f, pr_output = pricingOutputPrice f\<rparr>"

definition mergedArgs :: "wizard \<Rightarrow> provider_form \<Rightarrow> arg_values" where
  "mergedArgs w f =
     (if legacyGpu w then AList.update ''enforce-eager'' (VBool True) (engineArgs f) else engineArgs f)"

definition config_image :: "wizard \<Rightarrow> string option" where
  "config_image w =
     (if imageChoice w = CUSTOM_IMAGE_VALUE then when_text (trim (customImage w))
      else if imageChoice w = AUTO_IMAGE_VALUE then None
      else when_text (imageChoice w))"

definition prov_config :: "wizard \<Rightarrow> provider_form \<Rightarrow> provider_config" where
  "prov_config w f =
     (let merged = mergedArgs w f; parsedExtra = fst (parseRawVllmArgs (extraArgsRaw f));
          res = containerRes f
      in \<lparr>pc_image = config_image w,
          pc_engine_args = (if length merged > 0 then Some merged else None),
          pc_extra_args = (if length parsedExtra > 0 then Some parsedExtra else None),
          pc_gpu_request = when_text (trim (gpuRequest res)),
          pc_ipc_mode = when_text (trim (ipcMode res)),
          pc_shm_size = when_text (trim (shmSize res)),
          pc_memory_limit = when_text (trim (memoryLimit res)),
          pc_cpu_limit = when_text (trim (cpuLimit res)),
          pc_container_port = when_text (trim (containerPort res))\<rparr>)"

definition no_prov_config :: provider_config where
  "no_prov_config = \<lparr>pc_image = None, pc_engine_args = None, pc_extra_args = None, pc_gpu_request = None,
     pc_ipc_mode = None, pc_shm_size = None, pc_memory_limit = None, pc_cpu_limit = None,
     pc_container_port = None\<rparr>"

fun arg_truthy :: "arg_value \<Rightarrow> bool" where
  "arg_truthy (VStr s) = (s \<noteq> [])"
| "arg_truthy (VNum n) = (n \<noteq> 0)"
| "arg_truthy (VBool b) = b"

definition gen_config :: "wizard \<Rightarrow> provider_form \<Rightarrow> generic_config" where
  "gen_config w f =
     (let arg = map_of (mergedArgs w f)
      in \<lparr>gc_max_model_len = arg ''max-model-len'', gc_dtype = arg ''dtype'',
          gc_gpu_memory_utilization = arg ''gpu-memory-utilization'',
          gc_tensor_parallel_size = arg ''tensor-parallel-size'',
          gc_enforce_eager = (case arg ''enforce-eager'' of
             None \<Rightarrow> None | Some v \<Rightarrow> if arg_truthy v then Some True else None)\<rparr>)"

definition no_gen_config :: generic_config where
  "no_gen_config = \<lparr>gc_max_model_len = None, gc_dtype = None, gc_gpu_memory_utilization = None,
     gc_tensor_parallel_size = None, gc_enforce_eager = None\<rparr>"

text \<open>The last part of a repository id.\<close>

definition repo_name :: "string \<Rightarrow> string" where
  "repo_name r = last (split_on (CHR ''/'') r)"

definition downloads :: "wizard \<Rightarrow> bool" where
  "downloads w = (isRemoteWithInternet w \<and> trim (hfRepoId w) \<noteq> [])"

definition runtime_name :: "(string \<times> string) list \<Rightarrow> wizard \<Rightarrow> string \<Rightarrow> string" where
  "runtime_name models w resolvedModelId =
     (if downloads w \<and> repo_name (trim (hfRepoId w)) \<noteq> [] then repo_name (trim (hfRepoId w))
      else (case find (\<lambda>m. fst m = resolvedModelId) models of
              Some m \<Rightarrow> snd m | None \<Rightarrow> prov_name w))"

definition rt_payload ::
  "(string \<times> string) list \<Rightarrow> wizard \<Rightarrow> provider_form \<Rightarrow> string \<Rightarrow> string \<Rightarrow> runtime_payload" where
  "rt_payload models w f provId resolvedModelId =
     (let on_node = (selectedNodeId w \<noteq> [])
      in \<lparr>rp_name = runtime_name models w resolvedModelId, rp_provider_id = provId,
          rp_model_id = resolvedModelId, rp_openai_compat = openaiCompat f,
          rp_generic_config = (if gen_config w f = no_gen_config then None else Some (gen_config w f)),
          rp_provider_config = (if prov_config w f = no_prov_config then None else Some (prov_config w f)),
          rp_target_node_id = when_text (selectedNodeId w),
          rp_model_source = (if on_node then Some (modelSource w) else None),
          rp_image_source = (if on_node then Some (if modelSource w = DownloadFromHf
             then PullFromRegistry else TransferFromServer) else None)\<rparr>)"

subsection \<open>Finishing\<close>

fun issue_text :: "issue \<Rightarrow> string" where
  "issue_text (InvalidFlag t) = ''Invalid flag: '' @ t"
| "issue_text (UnexpectedValue t) = ''Unexpected value: '' @ t"
| "issue_text (InvalidValue t) = ''Invalid value: '' @ t"

text \<open>The answers the server gives: the error message, or the id of what was created.\<close>

record finish_answers =
  ans_provider :: "string + string"
  ans_pricing :: "string + string"
  ans_download :: "string + string"
  ans_runtime :: "string + string"
  ans_delete :: "string + string"

record finished =
  sent :: "(request \<times> (string + string)) list"
  created :: bool
  alerts :: "string list"

definition rollback :: "finish_answers \<Rightarrow> string \<Rightarrow> string \<Rightarrow> finished \<Rightarrow> finished" where
  "rollback a provId msg r =
     r\<lparr>sent := sent r @ [(DeleteProvider provId, ans_delete a)], alerts := alerts r @ [msg]\<rparr>"

definition create_runtime ::
  "finish_answers \<Rightarrow> (string \<times> string) list \<Rightarrow> wizard \<Rightarrow> provider_form \<Rightarrow> string \<Rightarrow> string
     \<Rightarrow> finished \<Rightarrow> finished" where
  "create_runtime a models w f provId resolvedModelId r =
     (let r = r\<lparr>sent := sent r @ [(CreateRuntime (rt_payload models w f provId resolvedModelId), ans_runtime a)]\<rparr>
      in case ans_runtime a of
           Inl e \<Rightarrow> rollback a provId e r
         | Inr i \<Rightarrow> r\<lparr>created := True\<rparr>)"

definition finish_local ::
  "finish_answers \<Rightarrow> (string \<times> string) list \<Rightarrow> wizard \<Rightarrow> provider_form \<Rightarrow> string \<Rightarrow> finished \<Rightarrow> finished" where
  "finish_local a models w f provId r =
     (let issues = snd (parseRawVllmArgs (extraArgsRaw f));
          r = (if length issues > 0
               then r\<lparr>alerts := alerts r @ [''Some extra arguments were invalid and have been ignored: ''
                        @ join '', '' (map issue_text issues)]\<rparr>
               else r)
      in if downloads w then
           (let repo = trim (hfRepoId w);
                r = r\<lparr>sent := sent r @ [(DownloadModel repo (repo_name repo), ans_download a)]\<rparr>
            in case ans_download a of
                 Inl e \<Rightarrow> rollback a provId e r
               | Inr i \<Rightarrow> create_runtime a models w f provId i r)
         else create_runtime a models w f provId (modelId w) r)"

definition handleFinish ::
  "finish_answers \<Rightarrow> (string \<times> string) list \<Rightarrow> wizard \<Rightarrow> provider_form \<Rightarrow> finished" where
  "handleFinish a models w f =
     (let r = \<lparr>sent = [(CreateProvider (prov_payload w f), ans_provider a)], created = False, alerts = []\<rparr>
      in case ans_provider a of
           Inl e \<Rightarrow> r\<lparr>alerts := [e]\<rparr>
         | Inr provId \<Rightarrow>
             (let r = (if target w = RemoteEndpoint \<and> (pricingInputPrice f > 0 \<or> pricingOutputPrice f > 0)
                       then r\<lparr>sent := sent r @ [(CreatePricing (pricing w f), ans_pricing a)]\<rparr> else r)
              in if target w = LocalDocker then finish_local a models w f provId r
                 else r\<lparr>created := True\<rparr>))"

subsection \<open>The connection test\<close>

datatype test_answer = TestFailed | Tested bool "string list" "string option"

definition test_started :: "provider_form \<Rightarrow> provider_form" where
  "test_started f = f\<lparr>testStatus := Testing, testMessage := []\<rparr>"

text \<open>\<open>tr\<close> is the translation of a key with the number of models.\<close>

definition test_answered :: "(string \<Rightarrow> nat \<Rightarrow> string) \<Rightarrow> test_answer \<Rightarrow> provider_form \<Rightarrow> provider_form" where
  "test_answered tr ans f =
     (case ans of
        TestFailed \<Rightarrow> f\<lparr>testStatus := TestError, testMessage := tr ''llm_providers.test_connection_failed'' 0\<rparr>
      | Tested compatible models err \<Rightarrow>
          if compatible then
            (let f = f\<lparr>testStatus := TestSuccess,
                       testMessage := tr ''llm_providers.test_connection_success'' (length models)\<rparr>
             in if length models > 0
                then f\<lparr>discoveredModels := models,
                       remoteModel := (if trim (remoteModel f) = [] then hd models else remoteModel f)\<rparr>
                else f)
          else f\<lparr>testStatus := TestError,
                 testMessage := (case err of Some e \<Rightarrow> e
                                 | None \<Rightarrow> tr ''llm_providers.test_connection_failed'' 0)\<rparr>)"

definition change_endpoint :: "string \<Rightarrow> provider_form \<Rightarrow> provider_form" where
  "change_endpoint u f = f\<lparr>endpointUrl := u, testStatus := TestIdle, discoveredModels := []\<rparr>"

definition change_api_key :: "string \<Rightarrow> provider_form \<Rightarrow> provider_form" where
  "change_api_key k f = f\<lparr>apiKey := k, testStatus := TestIdle\<rparr>"

definition change_litellm :: "string \<Rightarrow> provider_form \<Rightarrow> provider_form" where
  "change_litellm p f = f\<lparr>litellmProvider := p, discoveredModels := []\<rparr>"

subsection \<open>What the server is left with\<close>

text \<open>
  The effect of an accepted request on what the wizard asks for: providers, runtimes with their provider and
  model, records of models, and prices with their provider and model. The download of a model makes its record
  (\<open>start_download\<close> of \<^verbatim>\<open>services/llm/service.py\<close> in the backend); no request of the wizard removes one.
  What the server adds for an endpoint by itself is in the theory of the providers.
\<close>

record server =
  providers :: "string list"
  runtimes :: "(string \<times> string) list"
  model_records :: "string list"
  prices :: "(string \<times> string) list"

fun apply_request :: "request \<times> (string + string) \<Rightarrow> server \<Rightarrow> server" where
  "apply_request (CreateProvider p, Inr i) s = s\<lparr>providers := providers s @ [i]\<rparr>"
| "apply_request (CreatePricing p, Inr j) s = s\<lparr>prices := prices s @ [(pr_provider p, pr_model p)]\<rparr>"
| "apply_request (DownloadModel repo name, Inr m) s = s\<lparr>model_records := model_records s @ [m]\<rparr>"
| "apply_request (CreateRuntime p, Inr i) s =
     s\<lparr>runtimes := runtimes s @ [(rp_provider_id p, rp_model_id p)]\<rparr>"
| "apply_request (DeleteProvider i, Inr j) s = s\<lparr>providers := filter (\<lambda>p. p \<noteq> i) (providers s)\<rparr>"
| "apply_request (r, a) s = s"







lemmas finish_defs = handleFinish_def finish_local_def create_runtime_def rollback_def

lemma rt_payload_ids [simp]:
  "rp_provider_id (rt_payload models w f i m) = i" "rp_model_id (rt_payload models w f i m) = m"
  by (simp_all add: rt_payload_def Let_def)


definition demo_form :: provider_form where
  "demo_form = \<lparr>engine = Vllm, endpointUrl = ''https://x'', apiKey = ''k'', remoteModel = '' gpt '',
     litellmProvider = [], testStatus = TestIdle, testMessage = [], discoveredModels = [],
     pricingInputPrice = 0, pricingOutputPrice = 0, engineArgs = [], openaiCompat = True,
     extraArgsRaw = ''--seed 1 ; rm'', containerRes = \<lparr>gpuRequest = [], ipcMode = [], shmSize = [],
     memoryLimit = [], cpuLimit = [], containerPort = []\<rparr>\<rparr>"



text \<open>A failed runtime leaves the record of the model that was downloaded for it.\<close>

theorem failed_runtime_keeps_model:
  assumes "ans_provider a = Inr i" "ans_download a = Inr m" "ans_runtime a = Inl e" "target w = LocalDocker" "downloads w"
  shows "\<not> created (handleFinish a models w f)
    \<and> model_records (fold apply_request (sent (handleFinish a models w f)) s) = model_records s @ [m]"
  using assms by (cases "ans_delete a") (simp_all add: finish_defs Let_def)

definition is_runtime :: "request \<times> (string + string) \<Rightarrow> bool" where
  "is_runtime r = (case fst r of CreateRuntime p \<Rightarrow> True | DownloadModel x y \<Rightarrow> True | _ \<Rightarrow> False)"

definition is_pricing :: "request \<times> (string + string) \<Rightarrow> bool" where
  "is_pricing r = (case fst r of CreatePricing p \<Rightarrow> True | _ \<Rightarrow> False)"

lemma rollback_kinds [simp]:
  "list_ex is_pricing (sent (rollback a i e r)) = list_ex is_pricing (sent r)"
  "list_ex is_runtime (sent (rollback a i e r)) = list_ex is_runtime (sent r)"
  by (simp_all add: rollback_def is_pricing_def is_runtime_def)

lemma create_runtime_kinds [simp]:
  "list_ex is_pricing (sent (create_runtime a models w f i m r)) = list_ex is_pricing (sent r)"
  by (simp add: create_runtime_def Let_def is_pricing_def split: sum.splits)

lemma sent_nonempty:
  "sent r \<noteq> [] \<Longrightarrow> sent (rollback a i e r) \<noteq> [] \<and> hd (sent (rollback a i e r)) = hd (sent r)"
  "sent r \<noteq> [] \<Longrightarrow> sent (create_runtime a models w f i m r) \<noteq> []
     \<and> hd (sent (create_runtime a models w f i m r)) = hd (sent r)"
  by (simp_all add: rollback_def create_runtime_def Let_def split: sum.splits)

lemma finish_local_hd:
  "sent r \<noteq> [] \<Longrightarrow> hd (sent (finish_local a models w f i r)) = hd (sent r)"
  by (cases "ans_download a") (simp_all add: finish_local_def Let_def sent_nonempty)

lemma first_request:
  "hd (sent (handleFinish a models w f)) = (CreateProvider (prov_payload w f), ans_provider a)"
  by (cases "ans_provider a") (simp_all add: handleFinish_def Let_def finish_local_hd)

text \<open>
  C34: the first request is the creation of the provider and carries exactly what belongs to its target. For
  an endpoint its address, key, provider and trimmed model can be read back from it, an empty text being left
  out; for Docker all of them are left out, whatever was typed before, and the type is that of the
  engine. Nothing is priced for Docker, and no model or runtime is asked for an endpoint.
\<close>

theorem payload_matches_target:
  "hd (sent (handleFinish a models w f)) = (CreateProvider (prov_payload w f), ans_provider a)
   \<and> pp_name (prov_payload w f) = prov_name w \<and> pp_target (prov_payload w f) = target w
   \<and> (let p = prov_payload w f; text = (\<lambda>x. case x of None \<Rightarrow> [] | Some t \<Rightarrow> t);
          fields = [pp_endpoint_url p, pp_api_key p, pp_litellm_provider p, pp_remote_model p, pp_litellm_model p]
      in case target w of
           LocalDocker \<Rightarrow>
             pp_type p = Engine (engine f) \<and> fields = [None, None, None, None, None]
             \<and> \<not> list_ex is_pricing (sent (handleFinish a models w f))
         | RemoteEndpoint \<Rightarrow>
             pp_type p = Cloud \<and> Some [] \<notin> set fields
             \<and> map text fields = [endpointUrl f, apiKey f, litellmProvider f, trim (remoteModel f), trim (remoteModel f)]
             \<and> \<not> list_ex is_runtime (sent (handleFinish a models w f)))"
proof (cases "target w")
  case LocalDocker
  have "\<not> list_ex is_pricing (sent (handleFinish a models w f))"
    by (simp add: handleFinish_def finish_local_def Let_def is_pricing_def LocalDocker split: sum.splits)
  with LocalDocker show ?thesis by (simp add: first_request) (simp add: prov_payload_def Let_def)
next
  case RemoteEndpoint
  have "\<not> list_ex is_runtime (sent (handleFinish a models w f))"
    by (cases "ans_provider a") (simp_all add: handleFinish_def Let_def is_runtime_def RemoteEndpoint)
  moreover have "(case when_text s of None \<Rightarrow> [] | Some t \<Rightarrow> t) = s" "when_text s \<noteq> Some []" for s
    by (auto simp: when_text_def)
  ultimately show ?thesis
    using RemoteEndpoint by (simp add: first_request) (simp add: prov_payload_def Let_def eq_commute)
qed

text \<open>
  What reaches the command line of a local runtime has been checked: the extra arguments are
  the accepted ones of the parser, a sequence of flags with at most one value each, and a
  creation that succeeds without a rejected argument alerts nothing; the legacy switch is in the engine arguments and in the generic configuration.
\<close>

theorem runtime_args_checked:
  "list_all (well_shaped False) (case pc_extra_args (prov_config w f) of None \<Rightarrow> [] | Some xs \<Rightarrow> [xs])
   \<and> (created (handleFinish a models w f) \<and> target w = LocalDocker
        \<and> snd (parseRawVllmArgs (extraArgsRaw f)) = []) \<le> (alerts (handleFinish a models w f) = [])
   \<and> legacyGpu w \<le> (map_of (mergedArgs w f) ''enforce-eager'' = Some (VBool True)
        \<and> gc_enforce_eager (gen_config w f) = Some True)"
proof -
  have "well_shaped False (fst (parseRawVllmArgs raw))" for raw
    unfolding parseRawVllmArgs_def by (rule parse_tokens_shape)
  moreover have "map_of (AList.update ''enforce-eager'' (VBool True) (engineArgs f)) ''enforce-eager'' = Some (VBool True)"
    by (simp add: update_conv')
  ultimately show ?thesis
    by (auto simp: prov_config_def Let_def mergedArgs_def gen_config_def finish_defs
        split: sum.splits if_splits)
qed

text \<open>
  The result of a connection test can be about another endpoint: an answer that comes after
  the endpoint was changed is shown as the success of the new one and fills in its model.
\<close>

theorem late_test_shown:
  assumes "ms \<noteq> []" and "trim (remoteModel f) = []"
  shows "let f' = test_answered tr (Tested True ms None) (change_endpoint u (test_started f))
    in endpointUrl f' = u \<and> testStatus f' = TestSuccess \<and> discoveredModels f' = ms \<and> remoteModel f' = hd ms"
  using assms by (simp add: test_answered_def change_endpoint_def test_started_def Let_def)

lemma late_test_shown_witness:
  "remoteModel (test_answered (\<lambda>k n. k) (Tested True [''m''] None)
     (change_endpoint ''https://y'' (test_started (demo_form\<lparr>remoteModel := []\<rparr>)))) = ''m''"
proof -
  have "trim (remoteModel (demo_form\<lparr>remoteModel := []\<rparr>)) = []" by (simp add: trim_def)
  from late_test_shown [OF _ this, of "[''m'']"] show ?thesis by (simp add: Let_def)
qed

end
