(* ===== verification/Pipeline_Graph.thy ===== *)
theory Pipeline_Graph
  imports Prelude Complex_Main
begin

text \<open>
  The graph of a request's way through the gateway, \<^verbatim>\<open>components/PipelineGraph.tsx\<close>: the
  thirteen stages with their status and detail as functions of the request log, and the nodes
  and edges built from them, with their positions. Colours of the theme are named, not computed.
  Texts with a dot or an ellipsis carry these characters as their UTF-8 bytes.
\<close>

subsection \<open>Stages\<close>

datatype category = GatewayCat | SecurityCat | AiCat | DataCat | ToolCat

datatype stage_status = Active | Skipped | Errored

record request_log =
  endpoint :: string
  status_code :: int
  model_alias :: "string option"
  provider_instance_id :: "string option"
  chunk_count :: "int option"
  skills_used :: "string list option"
  error_code :: "string option"
  latency_ms :: int
  stream :: "bool option"
  retry_count :: "int option"
  mcp_tool_call_count :: "int option"
  mcp_tool_loop_iterations :: "int option"
  finish_reason :: "string option"

record stage =
  stage_id :: string
  labelKey :: string
  fallbackLabel :: string
  stage_category :: category
  status_of :: "request_log \<Rightarrow> stage_status"
  detail_of :: "request_log \<Rightarrow> string option"

definition or_zero :: "int option \<Rightarrow> int" where
  "or_zero n = (case n of None \<Rightarrow> 0 | Some k \<Rightarrow> k)"

definition middle_dot :: string where "middle_dot = [CHR '' '', CHR 0xC2, CHR 0xB7, CHR '' '']"
definition ellipsis :: string where "ellipsis = [CHR 0xE2, CHR 0x80, CHR 0xA6]"

definition no_text :: "string \<Rightarrow> string option" where
  "no_text s = (if s = [] then None else Some s)"

definition provider_status :: "request_log \<Rightarrow> stage_status" where
  "provider_status r =
     (if truthy (provider_instance_id r) then Active
      else if status_code r \<ge> 500 then Errored else Active)"

definition provider_detail :: "request_log \<Rightarrow> string option" where
  "provider_detail r =
     (if truthy (provider_instance_id r) then
        (let p = the (provider_instance_id r)
         in Some (if length p > 12 then ellipsis @ drop (length p - 8) p else p))
      else None)"

definition upstream_detail :: "request_log \<Rightarrow> string option" where
  "upstream_detail r =
     (let parts = (if latency_ms r \<noteq> 0 then [show_int (latency_ms r) @ '' ms''] else [])
            @ (case stream r of None \<Rightarrow> [] | Some b \<Rightarrow> [if b then ''stream'' else ''non-stream''])
      in no_text (join middle_dot parts))"

definition has_skills :: "request_log \<Rightarrow> bool" where
  "has_skills r = (case skills_used r of None \<Rightarrow> False | Some ns \<Rightarrow> length ns > 0)"

definition STAGES :: "stage list" where
  "STAGES =
    [\<lparr>stage_id = ''request_in'', labelKey = ''observability.pipeline.request_in'',
      fallbackLabel = ''Request In'', stage_category = GatewayCat,
      status_of = (\<lambda>r. Active), detail_of = (\<lambda>r. Some (endpoint r))\<rparr>,
     \<lparr>stage_id = ''rate_limit'', labelKey = ''observability.pipeline.rate_limit'',
      fallbackLabel = ''Rate Limit'', stage_category = SecurityCat,
      status_of = (\<lambda>r. if status_code r = 429 then Errored else Active), detail_of = (\<lambda>r. None)\<rparr>,
     \<lparr>stage_id = ''model_resolve'', labelKey = ''observability.pipeline.model_resolve'',
      fallbackLabel = ''Model Resolve'', stage_category = AiCat,
      status_of = (\<lambda>r. Active), detail_of = model_alias\<rparr>,
     \<lparr>stage_id = ''provider_select'', labelKey = ''observability.pipeline.provider_select'',
      fallbackLabel = ''Provider Select'', stage_category = AiCat,
      status_of = provider_status, detail_of = provider_detail\<rparr>,
     \<lparr>stage_id = ''rag_inject'', labelKey = ''observability.pipeline.rag_inject'',
      fallbackLabel = ''RAG Context'', stage_category = DataCat,
      status_of = (\<lambda>r. if chunk_count r \<noteq> None then Active else Skipped),
      detail_of = (\<lambda>r. map_option (\<lambda>n. show_int n @ '' chunks'') (chunk_count r))\<rparr>,
     \<lparr>stage_id = ''skills'', labelKey = ''observability.pipeline.skills'',
      fallbackLabel = ''Skills'', stage_category = DataCat,
      status_of = (\<lambda>r. if has_skills r then Active else Skipped),
      detail_of = (\<lambda>r. if has_skills r then Some (join '', '' (the (skills_used r))) else None)\<rparr>,
     \<lparr>stage_id = ''pii_egress'', labelKey = ''observability.pipeline.pii_egress'',
      fallbackLabel = ''PII Scan (out)'', stage_category = SecurityCat,
      status_of = (\<lambda>r. Active), detail_of = (\<lambda>r. None)\<rparr>,
     \<lparr>stage_id = ''upstream'', labelKey = ''observability.pipeline.upstream'',
      fallbackLabel = ''Upstream LLM'', stage_category = AiCat,
      status_of = (\<lambda>r. if truthy (error_code r) \<or> status_code r \<ge> 500 then Errored else Active),
      detail_of = upstream_detail\<rparr>,
     \<lparr>stage_id = ''retry'', labelKey = ''observability.pipeline.retry'',
      fallbackLabel = ''Retry'', stage_category = AiCat,
      status_of = (\<lambda>r. if or_zero (retry_count r) > 0 then Active else Skipped),
      detail_of = (\<lambda>r. if or_zero (retry_count r) > 0
                        then Some (show_int (or_zero (retry_count r)) @ '' retries'') else None)\<rparr>,
     \<lparr>stage_id = ''mcp_tools'', labelKey = ''observability.pipeline.mcp_tools'',
      fallbackLabel = ''MCP Tool Loop'', stage_category = ToolCat,
      status_of = (\<lambda>r. if or_zero (mcp_tool_call_count r) > 0 then Active else Skipped),
      detail_of = (\<lambda>r. if or_zero (mcp_tool_call_count r) > 0
                        then Some (show_int (or_zero (mcp_tool_call_count r)) @ '' calls'' @ middle_dot
                                   @ show_int (or_zero (mcp_tool_loop_iterations r)) @ '' iters'')
                        else None)\<rparr>,
     \<lparr>stage_id = ''pii_ingress'', labelKey = ''observability.pipeline.pii_ingress'',
      fallbackLabel = ''PII Detokenize'', stage_category = SecurityCat,
      status_of = (\<lambda>r. if stream r = Some True then Skipped else Active), detail_of = (\<lambda>r. None)\<rparr>,
     \<lparr>stage_id = ''audit'', labelKey = ''observability.pipeline.audit'',
      fallbackLabel = ''Audit Log'', stage_category = DataCat,
      status_of = (\<lambda>r. Active),
      detail_of = (\<lambda>r. if truthy (finish_reason r) then Some (''finish: '' @ the (finish_reason r)) else None)\<rparr>,
     \<lparr>stage_id = ''response_out'', labelKey = ''observability.pipeline.response_out'',
      fallbackLabel = ''Response'', stage_category = GatewayCat,
      status_of = (\<lambda>r. if status_code r \<ge> 400 then Errored else Active),
      detail_of = (\<lambda>r. Some (show_int (status_code r)))\<rparr>]"

subsection \<open>Nodes and edges\<close>

definition NODE_W :: rat where "NODE_W = 156"
definition NODE_H :: rat where "NODE_H = 58"
definition GAP_X :: rat where "GAP_X = 32"
definition GAP_Y :: rat where "GAP_Y = 82"
definition COLS :: nat where "COLS = 5"

record flow_node =
  n_id :: string
  n_pos :: "rat \<times> rat"
  n_label :: string
  n_detail :: "string option"
  n_status :: stage_status

datatype stroke = ErrorStroke | ActiveStroke | InactiveStroke | ToolStroke

record flow_edge =
  e_id :: string
  e_source :: string
  e_target :: string
  e_animated :: bool
  e_stroke :: stroke

record tool_call =
  tool_name :: string
  mcp_server :: "string option"
  tool_latency_ms :: int
  is_error :: bool

text \<open>The rows of the graph run to the right and to the left in turn.\<close>

definition grid_cell :: "nat \<Rightarrow> nat \<times> nat" where
  "grid_cell i =
     (let row = i div COLS; colInRow = i mod COLS
      in (if row mod 2 = 0 then colInRow else COLS - 1 - colInRow, row))"

definition grid_pos :: "nat \<Rightarrow> rat \<times> rat" where
  "grid_pos i =
     (let (col, row) = grid_cell i in (of_nat col * (NODE_W + GAP_X), of_nat row * (NODE_H + GAP_Y)))"

definition stage_node :: "(string \<Rightarrow> string \<Rightarrow> string) \<Rightarrow> request_log \<Rightarrow> nat \<times> stage \<Rightarrow> flow_node" where
  "stage_node tr r = (\<lambda>(i, s).
     \<lparr>n_id = stage_id s, n_pos = grid_pos i, n_label = tr (labelKey s) (fallbackLabel s),
      n_detail = detail_of s r, n_status = status_of s r\<rparr>)"

definition stage_edge :: "request_log \<Rightarrow> stage \<times> stage \<Rightarrow> flow_edge" where
  "stage_edge r = (\<lambda>(prev, s).
     let edgeActive = (status_of s r \<noteq> Skipped \<and> status_of prev r \<noteq> Skipped)
     in \<lparr>e_id = ''e-'' @ stage_id prev @ ''-'' @ stage_id s, e_source = stage_id prev, e_target = stage_id s,
         e_animated = edgeActive,
         e_stroke = (if status_of s r = Errored then ErrorStroke
                     else if edgeActive then ActiveStroke else InactiveStroke)\<rparr>)"

definition tool_id :: "nat \<Rightarrow> string" where
  "tool_id j = ''tc-'' @ show_nat j"

definition mcp_index :: nat where
  "mcp_index = length (takeWhile (\<lambda>s. stage_id s \<noteq> ''mcp_tools'') STAGES)"

definition tool_pos :: "nat \<Rightarrow> rat \<times> rat" where
  "tool_pos j =
     (let (mcpX, mcpY) = grid_pos mcp_index
      in (mcpX - 40 + of_nat (j mod 3) * (NODE_W * 72 / 100 + 6), mcpY + NODE_H + 24 + of_nat (j div 3) * 48))"

definition tool_node :: "nat \<times> tool_call \<Rightarrow> flow_node" where
  "tool_node = (\<lambda>(j, tc).
     \<lparr>n_id = tool_id j, n_pos = tool_pos j,
      n_label = (if length (tool_name tc) > 16 then take 14 (tool_name tc) @ ellipsis else tool_name tc),
      n_detail = Some (show_int (tool_latency_ms tc) @ '' ms''
         @ (if truthy (mcp_server tc) then middle_dot @ the (mcp_server tc) else [])),
      n_status = (if is_error tc then Errored else Active)\<rparr>)"

definition tool_edge :: "nat \<times> tool_call \<Rightarrow> flow_edge" where
  "tool_edge = (\<lambda>(j, tc).
     \<lparr>e_id = ''e-mcp-'' @ tool_id j, e_source = ''mcp_tools'', e_target = tool_id j, e_animated = True,
      e_stroke = (if is_error tc then ErrorStroke else ToolStroke)\<rparr>)"

definition pipeline_graph ::
  "(string \<Rightarrow> string \<Rightarrow> string) \<Rightarrow> request_log \<Rightarrow> tool_call list \<Rightarrow> flow_node list \<times> flow_edge list" where
  "pipeline_graph tr r calls =
     (map (stage_node tr r) (enumerate 0 STAGES) @ map tool_node (enumerate 0 calls),
      map (stage_edge r) (zip STAGES (tl STAGES)) @ map tool_edge (enumerate 0 calls))"

subsection \<open>Lemmas\<close>

lemma enumerate_ids: "map (\<lambda>(j, x). g j) (enumerate n xs) = map g [n..<n + length xs]"
proof -
  have "map (\<lambda>(j, x). g j) ps = map g (map fst ps)" for ps :: "(nat \<times> 'b) list"
    by (induction ps) auto
  from this [of "enumerate n xs"] show ?thesis by (simp only: map_fst_enumerate)
qed

lemma tool_node_ids: "map (n_id \<circ> tool_node) (enumerate n calls) = map tool_id [n..<n + length calls]"
  unfolding enumerate_ids [symmetric] by (rule map_cong) (auto simp: tool_node_def)

lemma tool_edge_targets: "map (e_target \<circ> tool_edge) (enumerate n calls) = map tool_id [n..<n + length calls]"
  unfolding enumerate_ids [symmetric] by (rule map_cong) (auto simp: tool_edge_def)

lemma stage_node_ids: "map (n_id \<circ> stage_node tr r) (enumerate n ss) = map stage_id ss"
  by (induction ss arbitrary: n) (auto simp: stage_node_def)

lemma stage_edge_targets: "map (e_target \<circ> stage_edge r) (zip ss (tl ss)) = map stage_id (tl ss)"
proof -
  have "map (e_target \<circ> stage_edge r) (zip ss ts) = map stage_id (take (length ss) ts)" for ts :: "stage list"
    by (induction ss arbitrary: ts) (auto simp: stage_edge_def zip_Cons1 Let_def split: list.splits)
  then show ?thesis by simp
qed

lemma stage_ids: "map stage_id STAGES =
    [''request_in'', ''rate_limit'', ''model_resolve'', ''provider_select'', ''rag_inject'', ''skills'',
     ''pii_egress'', ''upstream'', ''retry'', ''mcp_tools'', ''pii_ingress'', ''audit'', ''response_out'']"
  by (simp add: STAGES_def)

lemma graph_ids: "map n_id (fst (pipeline_graph tr r calls)) = map stage_id STAGES @ map tool_id [0..<length calls]"
  using tool_node_ids [of 0 calls] stage_node_ids [of tr r 0 STAGES] by (simp add: pipeline_graph_def)

lemma edge_sources:
  "e \<in> set (snd (pipeline_graph tr r calls)) \<Longrightarrow> e_source e \<in> set (map stage_id STAGES)"
proof -
  assume "e \<in> set (snd (pipeline_graph tr r calls))"
  then consider p where "p \<in> set (zip STAGES (tl STAGES))" "e = stage_edge r p"
    | q where "e = tool_edge q"
    by (auto simp: pipeline_graph_def)
  then show ?thesis
  proof cases
    case (1 p)
    obtain a b where p: "p = (a, b)" by (cases p)
    with 1(1) have "a \<in> set STAGES" by (auto dest: set_zip_leftD)
    with 1(2) p show ?thesis by (simp add: stage_edge_def Let_def)
  next
    case (2 q)
    then show ?thesis by (cases q) (simp add: tool_edge_def stage_ids)
  qed
qed

subsection \<open>Properties\<close>

text \<open>
  The graph shows an error exactly when the request had one: some stage is marked as failed
  if and only if the status is an error or the log names an error code.
\<close>

theorem pipeline_error_iff:
  "list_ex (\<lambda>s. status_of s r = Errored) STAGES \<longleftrightarrow> status_code r \<ge> 400 \<or> truthy (error_code r)"
  by (auto simp: STAGES_def provider_status_def)

text \<open>
  The graph is a tree from the request to the response: whatever the log and the tool calls
  are, the identifiers of the nodes are distinct, every edge starts at a stage, and every node
  but the first is the target of exactly one edge, in the order of the nodes.
\<close>

theorem pipeline_graph_tree:
  "let (ns, es) = pipeline_graph tr r calls
   in distinct (map n_id ns) \<and> map e_target es = tl (map n_id ns)
      \<and> list_all (\<lambda>e. e_source e \<in> set (map stage_id STAGES)) es"
proof -
  have "distinct (map n_id (fst (pipeline_graph tr r calls)))"
    unfolding graph_ids stage_ids
    by (auto simp: distinct_map inj_on_def tool_id_def)
  moreover have "map e_target (snd (pipeline_graph tr r calls)) = tl (map n_id (fst (pipeline_graph tr r calls)))"
    unfolding graph_ids
    using tool_edge_targets [of 0 calls] stage_edge_targets [of r STAGES]
    by (simp add: pipeline_graph_def map_tl tl_append STAGES_def)
  ultimately show ?thesis
    using edge_sources [of _ tr r calls] by (simp add: case_prod_beta list_all_iff)
qed

text \<open>Boxes on the canvas: the corner, the width and the height.\<close>

definition boxes_apart :: "rat \<times> rat \<Rightarrow> rat \<times> rat \<Rightarrow> rat \<times> rat \<Rightarrow> rat \<times> rat \<Rightarrow> bool" where
  "boxes_apart p sp q sq =
     (fst p + fst sp \<le> fst q \<or> fst q + fst sq \<le> fst p \<or> snd p + snd sp \<le> snd q \<or> snd q + snd sq \<le> snd p)"

text \<open>
  The stages never overlap and consecutive stages are neighbours, one column or one row
  apart; but tool calls do overlap stages: the fourth tool node, of at least its minimal width
  and a line of text with padding, lies on the stage that detokenizes the answer.
\<close>

theorem pipeline_layout:
  "sorted_wrt (\<lambda>p q. boxes_apart p (NODE_W, NODE_H) q (NODE_W, NODE_H)) (map grid_pos [0..<length STAGES])
   \<and> list_all (\<lambda>i. let (x, y) = grid_pos i; (x', y') = grid_pos (Suc i)
        in \<bar>x - x'\<bar> = NODE_W + GAP_X \<and> y = y' \<or> x = x' \<and> y' - y = NODE_H + GAP_Y) [0..<12]
   \<and> \<not> boxes_apart (tool_pos 3) (100, 20) (grid_pos 10) (NODE_W, NODE_H)"
  by code_simp

end
