(* ===== verification/Trace_Stream.thy ===== *)
theory Trace_Stream
  imports Main
begin

text \<open>
  The live traces of \<^verbatim>\<open>pages/admin/llm/GraphPage.tsx\<close>: a first page of traces (the seed), a
  stream of events that are queued and moved to the rows by an interval, reconnection with a
  growing delay, and a switch that pauses the stream. Events are told apart by their number.
\<close>

subsection \<open>State\<close>

definition MAX_TRACE_ROWS :: nat where "MAX_TRACE_ROWS = 2000"

record trace_event =
  event_id :: nat
  trace_text :: string

text \<open>
  \<open>eventSource\<close> is the open connection with the number it resumes after; \<open>reconnectTimer\<close> the
  delay of the timer that is set.
\<close>

record traces =
  traceRows :: "trace_event list"
  streamPaused :: bool
  queue :: "trace_event list"
  seenEventIds :: "nat list"
  lastEventId :: "nat option"
  eventSource :: "nat option option"
  reconnectTimer :: "nat option"
  reconnectAttempt :: nat

definition traces_start :: traces where
  "traces_start = \<lparr>traceRows = [], streamPaused = False, queue = [], seenEventIds = [],
     lastEventId = None, eventSource = None, reconnectTimer = None, reconnectAttempt = 0\<rparr>"

subsection \<open>Handlers\<close>

definition closeStream :: "traces \<Rightarrow> traces" where
  "closeStream s = s\<lparr>eventSource := None, reconnectTimer := None\<rparr>"

text \<open>\<open>paused\<close> is the value the callback was created with.\<close>

definition connectStream :: "bool \<Rightarrow> traces \<Rightarrow> traces" where
  "connectStream paused s =
     (if paused then s else (closeStream s)\<lparr>eventSource := Some (lastEventId s)\<rparr>)"

definition on_event :: "trace_event \<Rightarrow> traces \<Rightarrow> traces" where
  "on_event ev s =
     s\<lparr>reconnectAttempt := 0, queue := queue s @ [ev], lastEventId := Some (event_id ev)\<rparr>"

definition reconnect_delay :: "nat \<Rightarrow> nat" where
  "reconnect_delay attempt = min 10000 (1000 * 2 ^ attempt)"

definition on_error :: "traces \<Rightarrow> traces" where
  "on_error s =
     (let s = closeStream s; s = s\<lparr>reconnectAttempt := reconnectAttempt s + 1\<rparr>
      in s\<lparr>reconnectTimer := Some (reconnect_delay (reconnectAttempt s))\<rparr>)"

text \<open>The last rows: \<open>slice(-n)\<close>.\<close>

definition last_n :: "nat \<Rightarrow> 'a list \<Rightarrow> 'a list" where
  "last_n n xs = drop (length xs - n) xs"

text \<open>The events not seen before, with their numbers recorded as seen.\<close>

fun take_fresh :: "trace_event list \<Rightarrow> nat list \<Rightarrow> trace_event list \<times> nat list" where
  "take_fresh [] seen = ([], seen)"
| "take_fresh (ev # evs) seen =
     (if event_id ev \<in> set seen then take_fresh evs seen
      else (let (fresh, seen') = take_fresh evs (event_id ev # seen) in (ev # fresh, seen')))"

definition add_rows :: "trace_event list \<Rightarrow> traces \<Rightarrow> traces" where
  "add_rows evs s =
     (let (fresh, seen) = take_fresh evs (seenEventIds s)
      in s\<lparr>traceRows := last_n MAX_TRACE_ROWS (traceRows s @ fresh), seenEventIds := seen\<rparr>)"

text \<open>The answer of the seed request; its callback was created before any pause.\<close>

definition seed :: "trace_event list \<Rightarrow> traces \<Rightarrow> traces" where
  "seed items s =
     connectStream False
       (let s = add_rows items s
        in if length items > 0 then s\<lparr>lastEventId := Some (event_id (last items))\<rparr> else s)"

definition seed_failed :: "traces \<Rightarrow> traces" where
  "seed_failed s = connectStream False s"

definition flush :: "traces \<Rightarrow> traces" where
  "flush s = (if length (queue s) = 0 then s else add_rows (queue s) (s\<lparr>queue := []\<rparr>))"

text \<open>The effect of the pause: its cleanup, then the effect with the new value.\<close>

definition set_paused :: "bool \<Rightarrow> traces \<Rightarrow> traces" where
  "set_paused b s =
     (let s = closeStream (s\<lparr>streamPaused := b\<rparr>)
      in if \<not> b then connectStream b s else closeStream s)"

subsection \<open>Runs\<close>

datatype trace_op =
    Seed "trace_event list"
  | SeedFailed
  | Event trace_event
  | StreamError
  | Timer
  | Flush
  | Pause bool

text \<open>Events and errors come from an open connection only, and only a timer that is set fires.\<close>

fun trace_step :: "trace_op \<Rightarrow> traces \<Rightarrow> traces" where
  "trace_step (Seed items) s = seed items s"
| "trace_step SeedFailed s = seed_failed s"
| "trace_step (Event ev) s = (if eventSource s = None then s else on_event ev s)"
| "trace_step StreamError s = (if eventSource s = None then s else on_error s)"
| "trace_step Timer s =
     (if reconnectTimer s = None then s else connectStream False (s\<lparr>reconnectTimer := None\<rparr>))"
| "trace_step Flush s = flush s"
| "trace_step (Pause b) s = set_paused b s"

definition mount_traces :: traces where
  "mount_traces = connectStream False traces_start"

definition run_traces :: "trace_op list \<Rightarrow> traces" where
  "run_traces ops = fold trace_step ops mount_traces"

subsection \<open>The specification of the rows\<close>

text \<open>
  What has been handed to the page, in order: the items of the seed and the events of the
  stream as they are flushed.
\<close>

definition handed_step :: "trace_op \<Rightarrow> traces \<times> trace_event list \<Rightarrow> traces \<times> trace_event list" where
  "handed_step a p =
     (let (s, h) = p
      in (trace_step a s,
          h @ (case a of Seed items \<Rightarrow> items | Flush \<Rightarrow> queue s | _ \<Rightarrow> [])))"

definition handed :: "trace_op list \<Rightarrow> trace_event list" where
  "handed ops = snd (fold handed_step ops (mount_traces, []))"

text \<open>Each number once, at its first occurrence.\<close>

fun first_occurrences :: "trace_event list \<Rightarrow> trace_event list" where
  "first_occurrences [] = []"
| "first_occurrences (ev # evs) =
     ev # filter (\<lambda>e. event_id e \<noteq> event_id ev) (first_occurrences evs)"

subsection \<open>Lemmas\<close>

lemma last_n_append: "last_n n (last_n n xs @ ys) = last_n n (xs @ ys)"
  by (simp add: last_n_def) (metis (no_types) diff_diff_cancel diff_is_0_eq drop_drop le_cases
      add.commute diff_diff_left le_add_diff_inverse drop_all)

lemma last_n_length: "length (last_n n xs) \<le> n"
  by (simp add: last_n_def)

lemma set_last_n: "set (last_n n xs) \<subseteq> set xs"
  by (simp add: last_n_def set_drop_subset)

lemma take_fresh_ids: "set (snd (take_fresh evs seen)) = set seen \<union> event_id ` set evs"
  by (induction evs seen rule: take_fresh.induct) (auto simp: case_prod_beta)

lemma take_fresh_rows:
  "fst (take_fresh evs seen) = filter (\<lambda>e. event_id e \<notin> set seen) (first_occurrences evs)"
proof (induction evs seen rule: take_fresh.induct)
  case (2 ev evs seen)
  show ?case
  proof (cases "event_id ev \<in> set seen")
    case True
    then have "filter (\<lambda>e. event_id e \<noteq> event_id ev \<and> event_id e \<notin> set seen) (first_occurrences evs)
        = filter (\<lambda>e. event_id e \<notin> set seen) (first_occurrences evs)"
      by (intro filter_cong) auto
    with True 2 show ?thesis by simp
  next
    case False
    with 2 show ?thesis by (simp add: case_prod_beta conj_commute)
  qed
qed simp

lemma first_occurrences_append:
  "first_occurrences (xs @ ys) =
     first_occurrences xs @ filter (\<lambda>e. event_id e \<notin> event_id ` set xs) (first_occurrences ys)"
  by (induction xs) (auto intro: filter_cong)

lemma first_occurrences_distinct: "distinct (map event_id (first_occurrences xs))"
proof (induction xs)
  case (Cons x xs)
  then show ?case by (auto simp: distinct_map inj_on_def)
qed simp

definition rows_ok :: "traces \<times> trace_event list \<Rightarrow> bool" where
  "rows_ok p =
     (traceRows (fst p) = last_n MAX_TRACE_ROWS (first_occurrences (snd p))
      \<and> set (seenEventIds (fst p)) = event_id ` set (snd p))"

lemma add_rows_ok: "rows_ok (s, h) \<Longrightarrow> rows_ok (add_rows evs s, h @ evs)"
  using take_fresh_ids [of evs "seenEventIds s"] take_fresh_rows [of evs "seenEventIds s"]
  by (simp add: rows_ok_def add_rows_def case_prod_beta last_n_append first_occurrences_append image_Un)

lemma rows_ok_cong:
  "traceRows s' = traceRows s \<Longrightarrow> seenEventIds s' = seenEventIds s \<Longrightarrow> rows_ok (s', h) = rows_ok (s, h)"
  by (simp add: rows_ok_def)

lemma connection_rows [simp]:
  "traceRows (connectStream b s) = traceRows s" "seenEventIds (connectStream b s) = seenEventIds s"
  "traceRows (closeStream s) = traceRows s" "seenEventIds (closeStream s) = seenEventIds s"
  by (simp_all add: connectStream_def closeStream_def)

lemma handed_step_ok: "rows_ok p \<Longrightarrow> rows_ok (handed_step a p)"
proof (cases a)
  case (Seed items)
  assume ok: "rows_ok p"
  obtain s h where p: "p = (s, h)" by (cases p)
  have "rows_ok (add_rows items s, h @ items)" using ok p by (simp add: add_rows_ok)
  then show ?thesis
    by (auto simp: p Seed handed_step_def seed_def Let_def rows_ok_def)
next
  case Flush
  assume ok: "rows_ok p"
  obtain s h where p: "p = (s, h)" by (cases p)
  have "rows_ok (add_rows (queue s) (s\<lparr>queue := []\<rparr>), h @ queue s)"
    using ok p by (intro add_rows_ok) (simp add: rows_ok_def)
  with ok show ?thesis by (simp add: p Flush handed_step_def flush_def)
qed (simp_all add: handed_step_def case_prod_beta rows_ok_def seed_failed_def on_event_def on_error_def
      set_paused_def Let_def closeStream_def connectStream_def)

lemma fst_handed_step: "fst (handed_step a p) = trace_step a (fst p)"
  by (simp add: handed_step_def case_prod_beta)

lemma handed_run: "rows_ok (fold handed_step ops (mount_traces, [])) \<and> fst (fold handed_step ops (mount_traces, [])) = run_traces ops"
proof (induction ops rule: rev_induct)
  case Nil
  then show ?case
    by (simp add: run_traces_def rows_ok_def mount_traces_def traces_start_def last_n_def connectStream_def closeStream_def)
next
  case (snoc a ops)
  then show ?case
    by (simp add: handed_step_ok run_traces_def fst_handed_step)
qed

lemma trace_rows: "traceRows (run_traces ops) = last_n MAX_TRACE_ROWS (first_occurrences (handed ops))"
  using handed_run [of ops] by (auto simp: rows_ok_def handed_def)

subsection \<open>Properties\<close>

text \<open>
  C13: the table of traces is what it should be: whatever happens in whatever order (the seed
  early or late, events sent again after a reconnection, errors, pauses), the rows are the last
  two thousand of the events handed to the page, each number once, at its first occurrence.
\<close>

theorem trace_rows_spec:
  "traceRows (run_traces ops) = last_n MAX_TRACE_ROWS (first_occurrences (handed ops))
   \<and> distinct (map event_id (traceRows (run_traces ops)))
   \<and> length (traceRows (run_traces ops)) \<le> MAX_TRACE_ROWS"
proof -
  note rows = trace_rows [of ops]
  have "distinct (map event_id (last_n n xs))" if "distinct (map event_id xs)" for n xs
    using that by (simp add: last_n_def drop_map [symmetric])
  with rows first_occurrences_distinct [of "handed ops"] show ?thesis
    by (simp add: last_n_length)
qed

definition timer_ok :: "traces \<Rightarrow> bool" where
  "timer_ok s = (case reconnectTimer s of
       None \<Rightarrow> True | Some d \<Rightarrow> d = reconnect_delay (reconnectAttempt s) \<and> reconnectAttempt s > 0 \<and> eventSource s = None)"

lemma reconnect_delay_mono: "m \<le> n \<Longrightarrow> reconnect_delay m \<le> reconnect_delay n"
  by (simp add: reconnect_delay_def min.coboundedI2 power_increasing)

lemma add_rows_connection [simp]:
  "reconnectTimer (add_rows evs s) = reconnectTimer s" "reconnectAttempt (add_rows evs s) = reconnectAttempt s"
  "eventSource (add_rows evs s) = eventSource s"
  by (simp_all add: add_rows_def case_prod_beta)

lemma trace_step_timer: "timer_ok s \<Longrightarrow> timer_ok (trace_step a s)"
  by (cases a)
    (auto simp: timer_ok_def seed_def seed_failed_def on_event_def on_error_def flush_def set_paused_def
      connectStream_def closeStream_def Let_def split: option.splits)

lemma run_timer_ok: "timer_ok (run_traces ops)"
proof (induction ops rule: rev_induct)
  case Nil
  then show ?case by (simp add: run_traces_def timer_ok_def mount_traces_def connectStream_def closeStream_def)
next
  case (snoc a ops)
  then show ?case by (simp add: run_traces_def trace_step_timer)
qed

text \<open>How many connections have broken in a row, without an event received.\<close>

definition failure_step :: "trace_op \<Rightarrow> traces \<times> nat \<Rightarrow> traces \<times> nat" where
  "failure_step a p =
     (trace_step a (fst p),
      if eventSource (fst p) = None then snd p
      else case a of StreamError \<Rightarrow> snd p + 1 | Event ev \<Rightarrow> 0 | _ \<Rightarrow> snd p)"

definition failures :: "trace_op list \<Rightarrow> nat" where
  "failures ops = snd (fold failure_step ops (mount_traces, 0))"

definition is_event :: "trace_op \<Rightarrow> bool" where
  "is_event a = (case a of Event ev \<Rightarrow> True | _ \<Rightarrow> False)"

lemma flush_connection [simp]: "reconnectAttempt (flush s) = reconnectAttempt s"
  by (simp add: flush_def)

lemma trace_step_attempt:
  "reconnectAttempt (trace_step a s) =
     (if eventSource s = None then reconnectAttempt s
      else case a of StreamError \<Rightarrow> reconnectAttempt s + 1 | Event ev \<Rightarrow> 0 | _ \<Rightarrow> reconnectAttempt s)"
  by (cases a) (auto simp: seed_def seed_failed_def on_event_def on_error_def set_paused_def
      connectStream_def closeStream_def Let_def)

lemma failures_attempt: "fold failure_step ops (mount_traces, 0) = (run_traces ops, reconnectAttempt (run_traces ops))"
proof (induction ops rule: rev_induct)
  case Nil
  then show ?case by (simp add: run_traces_def mount_traces_def connectStream_def closeStream_def traces_start_def)
next
  case (snoc a ops)
  have "run_traces (ops @ [a]) = trace_step a (run_traces ops)" by (simp add: run_traces_def)
  then have "failure_step a (run_traces ops, reconnectAttempt (run_traces ops))
      = (run_traces (ops @ [a]), reconnectAttempt (run_traces (ops @ [a])))"
    by (cases a) (simp_all add: failure_step_def trace_step_attempt del: trace_step.simps)
  then show ?case using snoc by simp
qed

lemma attempt_grows: "list_all (\<lambda>a. \<not> is_event a) ops \<Longrightarrow> reconnectAttempt s \<le> reconnectAttempt (fold trace_step ops s)"
proof (induction ops arbitrary: s)
  case (Cons a ops)
  have "reconnectAttempt s \<le> reconnectAttempt (trace_step a s)"
    unfolding trace_step_attempt using Cons.prems by (cases a) (simp_all add: is_event_def)
  with Cons.IH [of "trace_step a s"] Cons.prems show ?case by simp
qed simp

text \<open>
  C39: how long the page waits before it connects again, in every run. There is no connection meanwhile; the time
  is a second doubled for each connection that has broken in a row, at least two and at most ten seconds. As long
  as no event comes, no later wait is shorter; a connection that breaks right after an event is tried again
  after two seconds, however long the waits were before.
\<close>

theorem reconnect_bounds:
  assumes "reconnectTimer (run_traces ops) = Some d"
  shows "eventSource (run_traces ops) = None \<and> failures ops > 0 \<and> d = min 10000 (1000 * 2 ^ failures ops)
    \<and> 2000 \<le> d \<and> d \<le> 10000
    \<and> (\<forall>more d'. list_all (\<lambda>a. \<not> is_event a) more \<and> reconnectTimer (run_traces (ops @ more)) = Some d' \<longrightarrow> d \<le> d')
    \<and> (\<forall>more ev. eventSource (run_traces (ops @ more)) \<noteq> None
         \<longrightarrow> reconnectTimer (run_traces (ops @ more @ [Event ev, StreamError])) = Some 2000)"
proof -
  have t: "d' = reconnect_delay (reconnectAttempt (run_traces ops'))" "reconnectAttempt (run_traces ops') > 0"
    "eventSource (run_traces ops') = None" if "reconnectTimer (run_traces ops') = Some d'" for ops' d'
    using run_timer_ok [of ops'] that by (simp_all add: timer_ok_def)
  note d = t [OF assms]
  have f: "failures ops = reconnectAttempt (run_traces ops)" by (simp add: failures_def failures_attempt)
  have "reconnect_delay 1 \<le> d" unfolding d(1) using d(2) by (intro reconnect_delay_mono) simp
  moreover have "d \<le> d'" if "list_all (\<lambda>a. \<not> is_event a) more" "reconnectTimer (run_traces (ops @ more)) = Some d'" for more d'
  proof -
    have "reconnectAttempt (run_traces ops) \<le> reconnectAttempt (run_traces (ops @ more))"
      using attempt_grows [OF that(1), of "run_traces ops"] by (simp add: run_traces_def)
    then show ?thesis unfolding d(1) t(1) [OF that(2)] by (rule reconnect_delay_mono)
  qed
  moreover have "reconnectTimer (run_traces (ops @ more @ [Event ev, StreamError])) = Some 2000"
    if "eventSource (run_traces (ops @ more)) \<noteq> None" for more ev
  proof -
    have "run_traces (ops @ more @ [Event ev, StreamError]) = trace_step StreamError (trace_step (Event ev) (run_traces (ops @ more)))"
      by (simp add: run_traces_def)
    moreover from that obtain y where "eventSource (run_traces (ops @ more)) = Some y" by auto
    ultimately have "run_traces (ops @ more @ [Event ev, StreamError]) = on_error (on_event ev (run_traces (ops @ more)))"
      by (simp add: on_event_def)
    then show ?thesis by (simp add: on_event_def on_error_def closeStream_def reconnect_delay_def)
  qed
  ultimately show ?thesis using d f by (auto simp: reconnect_delay_def)
qed

lemma reconnect_bounds_witness: "eventSource (run_traces [StreamError]) = None"
proof -
  have "reconnectTimer (run_traces [StreamError]) = Some 2000" by code_simp
  from reconnect_bounds [OF this] show ?thesis by simp
qed

definition seeds :: "trace_op \<Rightarrow> bool" where
  "seeds a = (case a of Seed items \<Rightarrow> True | SeedFailed \<Rightarrow> True | _ \<Rightarrow> False)"

definition unpauses :: "trace_op \<Rightarrow> bool" where
  "unpauses a = (case a of Pause b \<Rightarrow> \<not> b | _ \<Rightarrow> False)"

lemma stays_closed:
  assumes "eventSource s = None" "reconnectTimer s = None" "list_all (\<lambda>a. \<not> seeds a \<and> \<not> unpauses a) ops"
  shows "eventSource (fold trace_step ops s) = None \<and> reconnectTimer (fold trace_step ops s) = None"
  using assms
proof (induction ops arbitrary: s)
  case (Cons a ops)
  have "eventSource (trace_step a s) = None \<and> reconnectTimer (trace_step a s) = None"
    using Cons.prems
    by (cases a) (auto simp: seeds_def unpauses_def flush_def set_paused_def closeStream_def Let_def)
  with Cons show ?case by simp
qed simp

text \<open>
  Pausing is undone by a late seed: paused before the first page of traces has come, the
  stream is opened by its answer, because the callback was created before the pause; without
  such an answer a paused stream stays closed.
\<close>

theorem pause_closes_until_seed:
  assumes "list_all (\<lambda>a. \<not> seeds a \<and> \<not> unpauses a) ops"
  shows "eventSource (run_traces (before @ Pause True # ops)) = None
    \<and> (let s = run_traces (before @ Pause True # ops @ [Seed items])
       in streamPaused s \<and> eventSource s \<noteq> None)"
proof -
  let ?s = "trace_step (Pause True) (run_traces before)"
  have "eventSource ?s = None" "reconnectTimer ?s = None"
    by (simp_all add: set_paused_def closeStream_def Let_def)
  from stays_closed [OF this assms] have "eventSource (run_traces (before @ Pause True # ops)) = None"
    by (simp add: run_traces_def)
  moreover have "streamPaused (fold trace_step ops s)" if "streamPaused s" for s
    using that assms
  proof (induction ops arbitrary: s)
    case (Cons a ops)
    then have "streamPaused (trace_step a s)"
      by (cases a) (auto simp: seeds_def unpauses_def on_event_def on_error_def flush_def set_paused_def
          add_rows_def case_prod_beta connectStream_def closeStream_def Let_def)
    with Cons show ?case by simp
  qed simp
  then have "streamPaused (fold trace_step ops ?s)"
    by (simp add: set_paused_def closeStream_def Let_def)
  then have "streamPaused (run_traces (before @ Pause True # ops @ [Seed items]))
      \<and> eventSource (run_traces (before @ Pause True # ops @ [Seed items])) \<noteq> None"
    by (simp add: run_traces_def seed_def connectStream_def closeStream_def add_rows_def case_prod_beta Let_def)
  ultimately show ?thesis by (simp add: Let_def)
qed

lemma pause_closes_until_seed_witness:
  "eventSource (run_traces ([] @ Pause True # [Flush])) = None"
  using pause_closes_until_seed [of "[Flush]" "[]"] by (simp add: seeds_def unpauses_def)

text \<open>
  A late seed is appended after newer events, so the rows need not be in the order of the
  numbers although both the seed and the stream are.
\<close>

theorem late_seed_out_of_order:
  "map event_id (traceRows (run_traces
     [Event \<lparr>event_id = 9, trace_text = t\<rparr>, Flush, Seed [\<lparr>event_id = 7, trace_text = t\<rparr>, \<lparr>event_id = 8, trace_text = t\<rparr>]]))
   = [9, 7, 8]"
  unfolding trace_rows
  by (simp add: handed_def handed_step_def mount_traces_def connectStream_def closeStream_def traces_start_def
      on_event_def last_n_def MAX_TRACE_ROWS_def)

end
