(* ===== verification/Topology_Graph.thy ===== *)
theory Topology_Graph
  imports Prelude
begin

text \<open>
  The topology of providers, runtimes and models on \<^verbatim>\<open>pages/admin/llm/GraphPage.tsx\<close>:
  \<open>toFlowNodes\<close>, which gives every node a column and a row, and the search and status filters.
  The maps of the code are maps, its counters are functions with zero where nothing was counted.
\<close>

subsection \<open>Nodes and rows\<close>

record graph_node =
  gn_id :: string
  gn_type :: string
  gn_label :: string
  gn_status :: "string option"

record graph_edge =
  ge_id :: string
  ge_source :: string
  ge_target :: string

definition parentOf :: "graph_edge list \<Rightarrow> string \<Rightarrow> string option" where
  "parentOf edges = map_of (map (\<lambda>e. (ge_target e, ge_source e)) (rev edges))"

definition group :: "string \<Rightarrow> graph_node list \<Rightarrow> graph_node list" where
  "group ty nodes = filter (\<lambda>n. gn_type n = ty) nodes"

fun place_providers :: "nat \<Rightarrow> graph_node list \<Rightarrow> (string \<Rightarrow> nat option) \<Rightarrow> string \<Rightarrow> nat option" where
  "place_providers i [] rows = rows"
| "place_providers i (p # ps) rows = place_providers (Suc i) ps (rows(gn_id p \<mapsto> i))"

text \<open>A child is placed in the row of its parent, moved down by the siblings placed before it.\<close>

fun place_children ::
  "(string \<Rightarrow> string option) \<Rightarrow> (string \<Rightarrow> nat) \<Rightarrow> graph_node list \<Rightarrow> (string \<Rightarrow> nat option)
     \<Rightarrow> string \<Rightarrow> nat option" where
  "place_children par counters [] rows = rows"
| "place_children par counters (n # ns) rows =
     (let pid = par (gn_id n);
          pRow = (case Option.bind pid rows of None \<Rightarrow> 0 | Some r \<Rightarrow> r);
          key = (case pid of None \<Rightarrow> ''__orphan__'' | Some p \<Rightarrow> p);
          off = counters key
      in place_children par (counters(key := off + 1)) ns (rows(gn_id n \<mapsto> pRow + off)))"

definition nodeRow :: "graph_node list \<Rightarrow> graph_edge list \<Rightarrow> string \<Rightarrow> nat option" where
  "nodeRow nodes edges =
     place_children (parentOf edges) (\<lambda>k. 0) (group ''model'' nodes)
       (place_children (parentOf edges) (\<lambda>k. 0) (group ''runtime'' nodes)
         (place_providers 0 (group ''provider'' nodes) (\<lambda>i. None)))"

definition groupOrder :: "string \<Rightarrow> nat" where
  "groupOrder ty = (if ty = ''provider'' then 0 else if ty = ''runtime'' then 1 else if ty = ''model'' then 2 else 3)"

definition typeLabel :: "string \<Rightarrow> string" where
  "typeLabel ty = (case ty of [] \<Rightarrow> [] | c # cs \<Rightarrow> upper_char c # cs)"

record topo_node =
  tn_id :: string
  tn_pos :: "nat \<times> nat"
  tn_label :: string
  tn_status :: "string option"

definition node_pos :: "(string \<Rightarrow> nat option) \<Rightarrow> graph_node \<Rightarrow> nat \<times> nat" where
  "node_pos rows n =
     (groupOrder (gn_type n) * 340, (case rows (gn_id n) of None \<Rightarrow> 0 | Some r \<Rightarrow> r) * 120)"

definition toFlowNodes :: "graph_node list \<Rightarrow> graph_edge list \<Rightarrow> topo_node list" where
  "toFlowNodes nodes edges =
     map (\<lambda>n. \<lparr>tn_id = gn_id n, tn_pos = node_pos (nodeRow nodes edges) n,
               tn_label = ''['' @ typeLabel (gn_type n) @ ''] '' @ gn_label n, tn_status = gn_status n\<rparr>) nodes"

subsection \<open>Filters\<close>

definition visibleNodes :: "string \<Rightarrow> string \<Rightarrow> topo_node list \<Rightarrow> topo_node list" where
  "visibleNodes search statusFilter nodes =
     (let needle = to_lower (trim search)
      in filter (\<lambda>n. (statusFilter = ''all'' \<or> (case tn_status n of None \<Rightarrow> [] | Some st \<Rightarrow> st) = statusFilter)
           \<and> (length needle = 0 \<or> has_infix (to_lower (tn_label n)) needle
              \<or> has_infix (to_lower (tn_id n)) needle)) nodes)"

definition visibleEdges :: "topo_node list \<Rightarrow> graph_edge list \<Rightarrow> graph_edge list" where
  "visibleEdges shown edges =
     (let ids = set (map tn_id shown) in filter (\<lambda>e. ge_source e \<in> ids \<and> ge_target e \<in> ids) edges)"

subsection \<open>Lemmas\<close>

lemma place_providers_other: "i \<notin> gn_id ` set ps \<Longrightarrow> place_providers k ps rows i = rows i"
  by (induction k ps rows rule: place_providers.induct) auto

lemma place_providers_nth:
  "distinct (map gn_id ps) \<Longrightarrow> j < length ps \<Longrightarrow> place_providers k ps rows (gn_id (ps ! j)) = Some (k + j)"
proof (induction k ps rows arbitrary: j rule: place_providers.induct)
  case (2 k p ps rows)
  show ?case
  proof (cases j)
    case 0
    with 2 show ?thesis by (simp add: place_providers_other)
  next
    case (Suc i)
    with 2 show ?thesis by (simp del: fun_upd_apply)
  qed
qed simp

lemma place_providers_inj:
  assumes "distinct (map gn_id ps)" "p \<in> set ps" "q \<in> set ps"
    "place_providers 0 ps rows (gn_id p) = place_providers 0 ps rows (gn_id q)"
  shows "p = q"
proof -
  obtain i j where "i < length ps" "ps ! i = p" "j < length ps" "ps ! j = q"
    using assms(2,3) by (auto simp: in_set_conv_nth)
  with place_providers_nth [OF assms(1)] assms(4) show ?thesis by fastforce
qed

lemma place_children_other: "i \<notin> gn_id ` set ns \<Longrightarrow> place_children par cnt ns rows i = rows i"
  by (induction par cnt ns rows rule: place_children.induct) (auto simp: Let_def)

text \<open>Children with different parents are in the rows of their parents.\<close>

lemma place_children_rows:
  assumes "distinct (map gn_id ns)" "distinct (map (par \<circ> gn_id) ns)"
    "list_all (\<lambda>n. case par (gn_id n) of None \<Rightarrow> False
       | Some q \<Rightarrow> cnt q = 0 \<and> q \<notin> gn_id ` set ns \<and> rows q \<noteq> None) ns"
    "n \<in> set ns"
  shows "place_children par cnt ns rows (gn_id n) = rows (the (par (gn_id n)))"
  using assms
proof (induction ns arbitrary: cnt rows)
  case (Cons m ns)
  obtain q r where q: "par (gn_id m) = Some q" "cnt q = 0" "q \<notin> gn_id ` set (m # ns)" "rows q = Some r"
    using Cons.prems(3) by (auto split: option.splits)
  let ?rows = "rows(gn_id m \<mapsto> r)" and ?cnt = "cnt(q := 1)"
  have step: "place_children par cnt (m # ns) rows = place_children par ?cnt ns ?rows"
    using q by simp
  show ?case
  proof (cases "n = m")
    case True
    with Cons.prems(1) have "gn_id n \<notin> gn_id ` set ns" by simp
    with True q show ?thesis unfolding step by (simp add: place_children_other)
  next
    case False
    with Cons.prems(4) have n: "n \<in> set ns" by simp
    have "list_all (\<lambda>n. case par (gn_id n) of None \<Rightarrow> False
        | Some q' \<Rightarrow> ?cnt q' = 0 \<and> q' \<notin> gn_id ` set ns \<and> ?rows q' \<noteq> None) ns"
      using Cons.prems(2,3) q(1) by (fastforce simp: list_all_iff image_iff split: option.splits)
    then have "place_children par ?cnt ns ?rows (gn_id n) = ?rows (the (par (gn_id n)))"
      using Cons.prems(1,2) n by (intro Cons.IH) simp_all
    moreover have "the (par (gn_id n)) \<noteq> gn_id m"
      using Cons.prems(3) n by (fastforce simp: list_all_iff split: option.splits)
    ultimately show ?thesis unfolding step by simp
  qed
qed simp

text \<open>
  A topology in which no two runtimes share a provider and no two models share a runtime.
\<close>

definition one_child_each :: "graph_node list \<Rightarrow> graph_edge list \<Rightarrow> bool" where
  "one_child_each nodes edges =
     (distinct (map gn_id nodes)
      \<and> list_all (\<lambda>n. gn_type n \<in> {''provider'', ''runtime'', ''model''}) nodes
      \<and> list_all (\<lambda>(child, par).
           distinct (map (parentOf edges \<circ> gn_id) (group child nodes))
           \<and> list_all (\<lambda>n. parentOf edges (gn_id n) \<in> Some ` gn_id ` set (group par nodes)) (group child nodes))
         [(''runtime'', ''provider''), (''model'', ''runtime'')])"

lemma distinct_group: "distinct (map gn_id nodes) \<Longrightarrow> distinct (map gn_id (group ty nodes))"
  by (auto simp: group_def distinct_map intro: inj_on_subset)

lemma group_apart:
  "distinct (map gn_id nodes) \<Longrightarrow> ty \<noteq> ty' \<Longrightarrow> n \<in> set (group ty nodes) \<Longrightarrow> m \<in> set (group ty' nodes)
     \<Longrightarrow> gn_id n \<noteq> gn_id m"
  by (auto simp: group_def distinct_map inj_on_def)

lemma children_rows_inj:
  assumes d: "distinct (map gn_id nodes)" and ne: "child \<noteq> par_ty"
    and dp: "distinct (map (par \<circ> gn_id) (group child nodes))"
    and ps: "list_all (\<lambda>n. par (gn_id n) \<in> Some ` gn_id ` set (group par_ty nodes)) (group child nodes)"
    and inj: "\<And>p q. p \<in> set (group par_ty nodes) \<Longrightarrow> q \<in> set (group par_ty nodes)
        \<Longrightarrow> rows (gn_id p) = rows (gn_id q) \<Longrightarrow> p = q"
    and def: "\<And>p. p \<in> set (group par_ty nodes) \<Longrightarrow> rows (gn_id p) \<noteq> None"
    and n: "n \<in> set (group child nodes)" and m: "m \<in> set (group child nodes)"
  shows "place_children par (\<lambda>k. 0) (group child nodes) rows (gn_id n) \<noteq> None"
    and "place_children par (\<lambda>k. 0) (group child nodes) rows (gn_id n)
        = place_children par (\<lambda>k. 0) (group child nodes) rows (gn_id m) \<Longrightarrow> n = m"
proof -
  have parent: "\<exists>p. par (gn_id k) = Some (gn_id p) \<and> p \<in> set (group par_ty nodes)"
    if "k \<in> set (group child nodes)" for k
    using ps that by (auto simp: list_all_iff)
  have ok: "list_all (\<lambda>n. case par (gn_id n) of None \<Rightarrow> False
       | Some q \<Rightarrow> (0::nat) = 0 \<and> q \<notin> gn_id ` set (group child nodes) \<and> rows q \<noteq> None) (group child nodes)"
    unfolding list_all_iff
  proof
    fix k assume k: "k \<in> set (group child nodes)"
    from parent [OF k] obtain p where p: "par (gn_id k) = Some (gn_id p)" "p \<in> set (group par_ty nodes)" by blast
    then have "gn_id p \<notin> gn_id ` set (group child nodes)"
      using group_apart [OF d ne] by (metis imageE)
    with p def show "case par (gn_id k) of None \<Rightarrow> False
       | Some q \<Rightarrow> (0::nat) = 0 \<and> q \<notin> gn_id ` set (group child nodes) \<and> rows q \<noteq> None" by simp
  qed
  have row: "place_children par (\<lambda>k. 0) (group child nodes) rows (gn_id k) = rows (the (par (gn_id k)))"
    if "k \<in> set (group child nodes)" for k
    using place_children_rows [OF distinct_group [OF d] dp, of "\<lambda>k. 0" rows k] ok that by simp
  obtain p q where pq: "par (gn_id n) = Some (gn_id p)" "p \<in> set (group par_ty nodes)"
    "par (gn_id m) = Some (gn_id q)" "q \<in> set (group par_ty nodes)"
    using parent [OF n] parent [OF m] by blast
  then show "place_children par (\<lambda>k. 0) (group child nodes) rows (gn_id n) \<noteq> None"
    using row [OF n] def by simp
  assume "place_children par (\<lambda>k. 0) (group child nodes) rows (gn_id n)
        = place_children par (\<lambda>k. 0) (group child nodes) rows (gn_id m)"
  then have "p = q" using row [OF n] row [OF m] pq inj by simp
  with pq have "(par \<circ> gn_id) n = (par \<circ> gn_id) m" by simp
  with dp n m show "n = m" by (auto simp: distinct_map inj_on_def)
qed

lemma nodeRow_inj:
  assumes one: "one_child_each nodes edges"
    and n: "n \<in> set nodes" and m: "m \<in> set nodes" and ty: "gn_type n = gn_type m"
  shows "nodeRow nodes edges (gn_id n) \<noteq> None"
    and "nodeRow nodes edges (gn_id n) = nodeRow nodes edges (gn_id m) \<Longrightarrow> n = m"
proof -
  have d: "distinct (map gn_id nodes)"
    and rt: "distinct (map (parentOf edges \<circ> gn_id) (group ''runtime'' nodes))"
      "list_all (\<lambda>n. parentOf edges (gn_id n) \<in> Some ` gn_id ` set (group ''provider'' nodes)) (group ''runtime'' nodes)"
    and md: "distinct (map (parentOf edges \<circ> gn_id) (group ''model'' nodes))"
      "list_all (\<lambda>n. parentOf edges (gn_id n) \<in> Some ` gn_id ` set (group ''runtime'' nodes)) (group ''model'' nodes)"
    using one by (simp_all add: one_child_each_def)
  define R0 where "R0 = place_providers 0 (group ''provider'' nodes) (\<lambda>i. None)"
  define R1 where "R1 = place_children (parentOf edges) (\<lambda>k. 0) (group ''runtime'' nodes) R0"
  define R2 where "R2 = place_children (parentOf edges) (\<lambda>k. 0) (group ''model'' nodes) R1"
  have inj0: "p = q" if "p \<in> set (group ''provider'' nodes)" "q \<in> set (group ''provider'' nodes)"
      "R0 (gn_id p) = R0 (gn_id q)" for p q
    using place_providers_inj [OF distinct_group [OF d]] that unfolding R0_def by blast
  have def0: "R0 (gn_id p) \<noteq> None" if "p \<in> set (group ''provider'' nodes)" for p
    using that place_providers_nth [OF distinct_group [OF d, of "''provider''"], of _ 0]
    unfolding R0_def by (metis in_set_conv_nth option.distinct(1))
  note run_inj = children_rows_inj [where child = "''runtime''" and par_ty = "''provider''"
      and par = "parentOf edges" and rows = R0 and nodes = nodes]
  have run1: "R1 (gn_id k) \<noteq> None" if "k \<in> set (group ''runtime'' nodes)" for k
    unfolding R1_def by (rule run_inj(1)) (use d rt inj0 def0 that in \<open>blast | simp\<close>)+
  have run2: "k = l" if "k \<in> set (group ''runtime'' nodes)" "l \<in> set (group ''runtime'' nodes)"
      "R1 (gn_id k) = R1 (gn_id l)" for k l
    by (rule run_inj(2)) (use d rt inj0 def0 that [unfolded R1_def] in \<open>blast | simp\<close>)+
  note model_inj = children_rows_inj [where child = "''model''" and par_ty = "''runtime''"
      and par = "parentOf edges" and rows = R1 and nodes = nodes]
  have model1: "R2 (gn_id k) \<noteq> None" if "k \<in> set (group ''model'' nodes)" for k
    unfolding R2_def by (rule model_inj(1)) (use d md run1 run2 that in \<open>blast | simp\<close>)+
  have model2: "k = l" if "k \<in> set (group ''model'' nodes)" "l \<in> set (group ''model'' nodes)"
      "R2 (gn_id k) = R2 (gn_id l)" for k l
    by (rule model_inj(2)) (use d md run1 run2 that [unfolded R2_def] in \<open>blast | simp\<close>)+
  note run = run1 run2 and model = model1 model2
  have up1: "R1 (gn_id p) = R0 (gn_id p)" if "p \<in> set (group ''provider'' nodes)" for p
    unfolding R1_def using group_apart [OF d, of "''provider''" "''runtime''"] that
    by (intro place_children_other) auto
  have up2: "R2 (gn_id p) = R1 (gn_id p)" if "p \<in> set (group ty nodes)" "ty \<noteq> ''model''" for p ty
    unfolding R2_def using group_apart [OF d that(2)] that(1)
    by (intro place_children_other) auto
  have R2: "nodeRow nodes edges = R2" by (simp add: nodeRow_def R0_def R1_def R2_def)
  consider "gn_type n = ''provider''" | "gn_type n = ''runtime''" | "gn_type n = ''model''"
    using one n by (auto simp: one_child_each_def list_all_iff)
  then have "nodeRow nodes edges (gn_id n) \<noteq> None
      \<and> (nodeRow nodes edges (gn_id n) = nodeRow nodes edges (gn_id m) \<longrightarrow> n = m)"
  proof cases
    case 1
    with n m ty have "n \<in> set (group ''provider'' nodes)" "m \<in> set (group ''provider'' nodes)"
      by (simp_all add: group_def)
    then show ?thesis
      using inj0 def0 up1 up2 [of _ "''provider''"] unfolding R2 by simp
  next
    case 2
    with n m ty have "n \<in> set (group ''runtime'' nodes)" "m \<in> set (group ''runtime'' nodes)"
      by (simp_all add: group_def)
    then show ?thesis
      using run up2 [of _ "''runtime''"] unfolding R2 by simp
  next
    case 3
    with n m ty have "n \<in> set (group ''model'' nodes)" "m \<in> set (group ''model'' nodes)"
      by (simp_all add: group_def)
    then show ?thesis using model unfolding R2 by simp
  qed
  then show "nodeRow nodes edges (gn_id n) \<noteq> None"
    and "nodeRow nodes edges (gn_id n) = nodeRow nodes edges (gn_id m) \<Longrightarrow> n = m" by blast+
qed

subsection \<open>Properties\<close>

text \<open>
  A simple topology is drawn without collisions: when no two runtimes share a provider and
  no two models share a runtime, no two nodes are at the same place, whatever the order of the
  nodes and edges is.
\<close>

theorem topology_places_distinct:
  assumes "one_child_each nodes edges"
  shows "distinct (map tn_pos (toFlowNodes nodes edges))"
proof -
  have "n = m" if nm: "n \<in> set nodes" "m \<in> set nodes"
      and pos: "node_pos (nodeRow nodes edges) n = node_pos (nodeRow nodes edges) m" for n m
  proof -
    have "gn_type n \<in> {''provider'', ''runtime'', ''model''}" "gn_type m \<in> {''provider'', ''runtime'', ''model''}"
      using assms nm by (auto simp: one_child_each_def list_all_iff)
    with pos have ty: "gn_type n = gn_type m"
      by (auto simp: node_pos_def groupOrder_def)
    from nodeRow_inj(1) [OF assms nm ty] nodeRow_inj(1) [OF assms nm(2,1) ty [symmetric]] pos
    have "nodeRow nodes edges (gn_id n) = nodeRow nodes edges (gn_id m)"
      by (auto simp: node_pos_def split: option.splits)
    with nodeRow_inj(2) [OF assms nm ty] show ?thesis by blast
  qed
  moreover have "distinct nodes"
    using assms by (simp add: one_child_each_def distinct_map)
  ultimately show ?thesis
    by (auto simp: toFlowNodes_def distinct_map inj_on_def comp_def)
qed

definition demo_node :: "string \<Rightarrow> string \<Rightarrow> graph_node" where
  "demo_node i ty = \<lparr>gn_id = i, gn_type = ty, gn_label = i, gn_status = None\<rparr>"

definition demo_edge :: "string \<Rightarrow> string \<Rightarrow> graph_edge" where
  "demo_edge a b = \<lparr>ge_id = a @ b, ge_source = a, ge_target = b\<rparr>"

lemma topology_places_distinct_witness:
  "distinct (map tn_pos (toFlowNodes
     [demo_node ''m'' ''model'', demo_node ''p'' ''provider'', demo_node ''q'' ''provider'', demo_node ''r'' ''runtime'']
     [demo_edge ''q'' ''r'', demo_edge ''r'' ''m'']))"
  by (rule topology_places_distinct) code_simp

text \<open>
  A provider with two runtimes collides with the next provider's: the rows of the second
  provider start one below the first's, where its second runtime already is, so two nodes are
  drawn at the same place.
\<close>

theorem siblings_collide:
  "let nodes = [demo_node ''p'' ''provider'', demo_node ''q'' ''provider'',
        demo_node ''r1'' ''runtime'', demo_node ''r2'' ''runtime'', demo_node ''r3'' ''runtime''];
       edges = [demo_edge ''p'' ''r1'', demo_edge ''p'' ''r2'', demo_edge ''q'' ''r3'']
   in map tn_pos (filter (\<lambda>n. tn_id n \<in> {''r2'', ''r3''}) (toFlowNodes nodes edges)) = [(340, 120), (340, 120)]"
  by code_simp

text \<open>
  The filters never leave an edge hanging: every edge shown connects nodes that are shown,
  every edge between them is shown, and without a search and a status everything is.
\<close>

theorem filters_keep_edges:
  "list_all (\<lambda>e. ge_source e \<in> set (map tn_id (visibleNodes q st ns)) \<and> ge_target e \<in> set (map tn_id (visibleNodes q st ns)))
      (visibleEdges (visibleNodes q st ns) es)
   \<and> set (filter (\<lambda>e. {ge_source e, ge_target e} \<subseteq> set (map tn_id (visibleNodes q st ns))) es)
      = set (visibleEdges (visibleNodes q st ns) es)
   \<and> visibleNodes [] ''all'' ns = ns"
  by (auto simp: visibleEdges_def visibleNodes_def Let_def list_all_iff trim_def to_lower_def)

end
