(* ===== verification/Guided_Tour.thy ===== *)
theory Guided_Tour
  imports Admin_Layout
begin

text \<open>
  The guided setup: the step catalogues and their eligibility
  (\<^verbatim>\<open>lib/tourEngine.ts\<close>, \<^verbatim>\<open>data/tours/*.json\<close>), the tour that walks through them and
  from page to page (\<^verbatim>\<open>components/GuidedSetupTour.tsx\<close>), and the walk of a task flow
  (\<open>advanceToStep\<close> of \<^verbatim>\<open>components/TaskFlowTour.tsx\<close>). The overlay that shows a step and
  reports the buttons pressed is a library: its events are the inputs of the handlers. The
  translation \<open>t\<close> of the texts is a parameter.
\<close>

subsection \<open>Catalogues\<close>

record tour_step =
  ts_target :: string
  ts_titleKey :: string
  ts_contentKey :: string
  ts_placement :: string
  ts_route :: "string option"
  ts_module :: "string option"
  ts_superuser :: bool
  ts_disableBeacon :: bool

record flow_step =
  fs_target :: string
  fs_titleKey :: string
  fs_contentKey :: string
  fs_placement :: string
  fs_waitForTarget :: bool
  fs_disableBeacon :: bool

record task_flow =
  flowId :: string
  flow_titleKey :: string
  flow_descriptionKey :: string
  flow_icon :: string
  flow_route :: string
  flow_module :: "string option"
  flow_superuser :: bool
  flow_steps :: "flow_step list"

definition data_tour_id :: "string \<Rightarrow> string" where
  "data_tour_id i = ''[data-tour-id='' @ [CHR 0x27] @ i @ [CHR 0x27, CHR '']'']"

text \<open>An entry of the files: the keys of a step are its name with \<open>title\<close> and \<open>content\<close>.\<close>

definition tour_def ::
  "string \<Rightarrow> string \<Rightarrow> string \<Rightarrow> string option \<Rightarrow> string option \<Rightarrow> bool \<Rightarrow> tour_step" where
  "tour_def anchor key place rt md su =
     \<lparr>ts_target = data_tour_id anchor, ts_titleKey = key @ ''title'', ts_contentKey = key @ ''content'',
      ts_placement = place, ts_route = rt, ts_module = md, ts_superuser = su, ts_disableBeacon = True\<rparr>"

definition flow_def :: "string \<Rightarrow> string \<Rightarrow> string \<Rightarrow> bool \<Rightarrow> flow_step" where
  "flow_def anchor key place wt =
     \<lparr>fs_target = data_tour_id anchor, fs_titleKey = key @ ''title'', fs_contentKey = key @ ''content'',
      fs_placement = place, fs_waitForTarget = wt, fs_disableBeacon = True\<rparr>"

definition orientation_steps :: "tour_step list" where
  "orientation_steps =
    [tour_def ''sidebar.dashboard'' ''orientation.dashboard.'' ''right'' (Some ''/admin/dashboard'') None False,
     tour_def ''sidebar.observability'' ''orientation.observability.'' ''right'' None None False,
     tour_def ''sidebar.containers'' ''orientation.containers.'' ''right'' None None False,
     tour_def ''sidebar.llm'' ''orientation.llm.'' ''right'' None None False,
     tour_def ''sidebar.utilities'' ''orientation.utilities.'' ''right'' None None False,
     tour_def ''sidebar.access-control'' ''orientation.access_control.'' ''right'' None None False,
     tour_def ''sidebar.pii'' ''orientation.pii.'' ''right'' None (Some ''pii'') False,
     tour_def ''sidebar.rag'' ''orientation.rag.'' ''right'' None (Some ''rag'') False,
     tour_def ''sidebar.chat-workspace'' ''orientation.chat.'' ''right'' None (Some ''chat'') False,
     tour_def ''sidebar.extensions'' ''orientation.extensions.'' ''right'' None None False,
     tour_def ''sidebar.settings'' ''orientation.settings.'' ''right'' None None True,
     tour_def ''topbar.help'' ''orientation.help.'' ''bottom'' None None False]"

definition private_steps :: "tour_step list" where
  "private_steps =
    [tour_def ''sidebar.llm'' ''private.providers.'' ''right'' (Some ''/admin/llm/providers'') None False,
     tour_def ''sidebar.chat-workspace'' ''private.chat.'' ''right'' (Some ''/admin/chat/projects'') (Some ''chat'') False,
     tour_def ''sidebar.pii'' ''private.pii.'' ''right'' (Some ''/admin/pii/dashboard'') (Some ''pii'') False,
     tour_def ''sidebar.rag'' ''private.rag.'' ''right'' (Some ''/admin/rag/knowledge-base'') (Some ''rag'') False]"

definition team_steps :: "tour_step list" where
  "team_steps =
    [tour_def ''sidebar.llm'' ''team.providers.'' ''right'' (Some ''/admin/llm/providers'') None False,
     tour_def ''sidebar.utilities'' ''team.nodes.'' ''right'' (Some ''/admin/nodes'') None False,
     tour_def ''sidebar.access-control'' ''team.access.'' ''right'' (Some ''/admin/users'') None False,
     tour_def ''sidebar.extensions'' ''team.mcp.'' ''right'' (Some ''/admin/mcp/servers'') (Some ''mcp'') False,
     tour_def ''sidebar.chat-workspace'' ''team.chat.'' ''right'' (Some ''/admin/chat/projects'') (Some ''chat'') False,
     tour_def ''sidebar.pii'' ''team.pii.'' ''right'' (Some ''/admin/pii/dashboard'') (Some ''pii'') False,
     tour_def ''sidebar.rag'' ''team.rag.'' ''right'' (Some ''/admin/rag/knowledge-base'') (Some ''rag'') False]"

definition enterprise_steps :: "tour_step list" where
  "enterprise_steps =
    [tour_def ''sidebar.access-control'' ''enterprise.access.'' ''right'' (Some ''/admin/users'') None False,
     tour_def ''sidebar.llm'' ''enterprise.providers.'' ''right'' (Some ''/admin/llm/providers'') None False,
     tour_def ''sidebar.utilities'' ''enterprise.nodes.'' ''right'' (Some ''/admin/nodes'') None False,
     tour_def ''sidebar.pii'' ''enterprise.pii.'' ''right'' (Some ''/admin/pii/dashboard'') (Some ''pii'') False,
     tour_def ''sidebar.observability'' ''enterprise.observability.'' ''right'' (Some ''/admin/observability'') None False,
     tour_def ''sidebar.extensions'' ''enterprise.mcp.'' ''right'' (Some ''/admin/mcp/servers'') (Some ''mcp'') False,
     tour_def ''sidebar.rag'' ''enterprise.rag.'' ''right'' (Some ''/admin/rag/knowledge-base'') (Some ''rag'') False,
     tour_def ''sidebar.chat-workspace'' ''enterprise.chat.'' ''right'' (Some ''/admin/chat/projects'') (Some ''chat'') False]"

definition registerRemoteEndpoint :: task_flow where
  "registerRemoteEndpoint =
    \<lparr>flowId = ''register_remote_endpoint'', flow_titleKey = ''taskflows.remote_endpoint.title'',
     flow_descriptionKey = ''taskflows.remote_endpoint.description'', flow_icon = ''Cloud'',
     flow_route = ''/admin/llm/providers'', flow_module = None, flow_superuser = False,
     flow_steps =
      [flow_def ''providers.add'' ''taskflows.remote_endpoint.step1_'' ''bottom'' False,
       flow_def ''providers.wizard'' ''taskflows.remote_endpoint.step2_'' ''right'' True,
       flow_def ''providers.wizard.name'' ''taskflows.remote_endpoint.step3_'' ''bottom'' True,
       flow_def ''providers.wizard.target'' ''taskflows.remote_endpoint.step4_'' ''bottom'' True,
       flow_def ''providers.wizard.litellm'' ''taskflows.remote_endpoint.step5_'' ''bottom'' True,
       flow_def ''providers.wizard.apikey'' ''taskflows.remote_endpoint.step6_'' ''bottom'' True,
       flow_def ''providers.wizard.test'' ''taskflows.remote_endpoint.step7_'' ''bottom'' True,
       flow_def ''providers.wizard.create'' ''taskflows.remote_endpoint.step8_'' ''top'' True]\<rparr>"

definition setupRemoteNode :: task_flow where
  "setupRemoteNode =
    \<lparr>flowId = ''setup_remote_node'', flow_titleKey = ''taskflows.remote_node.title'',
     flow_descriptionKey = ''taskflows.remote_node.description'', flow_icon = ''Dns'',
     flow_route = ''/admin/nodes'', flow_module = None, flow_superuser = False,
     flow_steps =
      [flow_def ''nodes.add'' ''taskflows.remote_node.step1_'' ''bottom'' False,
       flow_def ''nodes.onboarding'' ''taskflows.remote_node.step2_'' ''left'' True,
       flow_def ''nodes.onboarding.note'' ''taskflows.remote_node.step3_'' ''bottom'' True,
       flow_def ''nodes.onboarding.create'' ''taskflows.remote_node.step4_'' ''bottom'' True]\<rparr>"

definition runLocalModel :: task_flow where
  "runLocalModel =
    \<lparr>flowId = ''run_local_model'', flow_titleKey = ''taskflows.local_model.title'',
     flow_descriptionKey = ''taskflows.local_model.description'', flow_icon = ''Memory'',
     flow_route = ''/admin/llm/providers'', flow_module = None, flow_superuser = False,
     flow_steps =
      [flow_def ''providers.add'' ''taskflows.local_model.step1_'' ''bottom'' False,
       flow_def ''providers.wizard'' ''taskflows.local_model.step2_'' ''right'' True,
       flow_def ''providers.wizard.name'' ''taskflows.local_model.step3_'' ''bottom'' True,
       flow_def ''providers.wizard.target'' ''taskflows.local_model.step4_'' ''bottom'' True,
       flow_def ''providers.wizard.create'' ''taskflows.local_model.step5_'' ''top'' True]\<rparr>"

text \<open>The profiles are the ones of the onboarding; the code has no catalogue for another name.\<close>

datatype profile = Private | Team | Enterprise

fun profile_name :: "profile \<Rightarrow> string" where
  "profile_name Private = ''private''"
| "profile_name Team = ''team''"
| "profile_name Enterprise = ''enterprise''"

fun PROFILE_CATALOGS :: "profile \<Rightarrow> tour_step list" where
  "PROFILE_CATALOGS Private = private_steps"
| "PROFILE_CATALOGS Team = team_steps"
| "PROFILE_CATALOGS Enterprise = enterprise_steps"

definition guidedSetupTourId :: "profile \<Rightarrow> string" where
  "guidedSetupTourId p = ''guided_setup_'' @ profile_name p"

definition loadGuidedSetupSteps :: "profile \<Rightarrow> tour_step list" where
  "loadGuidedSetupSteps p = orientation_steps @ PROFILE_CATALOGS p"

definition TASK_FLOW_CATALOGS :: "task_flow list" where
  "TASK_FLOW_CATALOGS = [registerRemoteEndpoint, setupRemoteNode, runLocalModel]"

subsection \<open>Eligibility\<close>

record eligibility =
  el_module :: "string \<Rightarrow> bool"
  el_superuser :: bool

record resolved_step =
  rs_target :: string
  rs_title :: string
  rs_content :: string
  rs_placement :: string
  rs_skipBeacon :: bool
  rs_route :: "string option"
  originalIndex :: nat

definition step_blocked :: "eligibility \<Rightarrow> string option \<Rightarrow> bool \<Rightarrow> bool" where
  "step_blocked ctx md su =
     (truthy md \<and> \<not> el_module ctx (the md) \<or> su \<and> \<not> el_superuser ctx)"

fun resolve_from ::
  "nat \<Rightarrow> tour_step list \<Rightarrow> eligibility \<Rightarrow> (string \<Rightarrow> string) \<Rightarrow> resolved_step list" where
  "resolve_from i [] ctx t = []"
| "resolve_from i (s # ss) ctx t =
     (if step_blocked ctx (ts_module s) (ts_superuser s) then resolve_from (Suc i) ss ctx t
      else \<lparr>rs_target = ts_target s, rs_title = t (ts_titleKey s), rs_content = t (ts_contentKey s),
            rs_placement = ts_placement s, rs_skipBeacon = ts_disableBeacon s, rs_route = ts_route s,
            originalIndex = i\<rparr> # resolve_from (Suc i) ss ctx t)"

definition resolveEligibleSteps ::
  "tour_step list \<Rightarrow> eligibility \<Rightarrow> (string \<Rightarrow> string) \<Rightarrow> resolved_step list" where
  "resolveEligibleSteps ss ctx t = resolve_from 0 ss ctx t"

definition getTaskFlow :: "string \<Rightarrow> task_flow option" where
  "getTaskFlow i = find (\<lambda>f. flowId f = i) TASK_FLOW_CATALOGS"

definition resolveEligibleTaskFlows :: "eligibility \<Rightarrow> task_flow list" where
  "resolveEligibleTaskFlows ctx =
     filter (\<lambda>f. \<not> step_blocked ctx (flow_module f) (flow_superuser f)) TASK_FLOW_CATALOGS"

record resolved_flow_step =
  rf_target :: string
  rf_title :: string
  rf_content :: string
  rf_placement :: string
  rf_hideOverlay :: bool
  rf_waitForTarget :: bool
  rf_skipBeacon :: bool
  rf_originalIndex :: nat

definition resolveTaskFlowSteps :: "task_flow \<Rightarrow> (string \<Rightarrow> string) \<Rightarrow> resolved_flow_step list" where
  "resolveTaskFlowSteps f t =
     map (\<lambda>(i, s). \<lparr>rf_target = fs_target s, rf_title = t (fs_titleKey s), rf_content = t (fs_contentKey s),
        rf_placement = fs_placement s, rf_hideOverlay = fs_waitForTarget s,
        rf_waitForTarget = fs_waitForTarget s, rf_skipBeacon = fs_disableBeacon s, rf_originalIndex = i\<rparr>)
       (enumerate 0 (flow_steps f))"

subsection \<open>The tour\<close>

text \<open>
  \<open>stepTimer\<close> is the 300 ms timer of the resuming effect with the step it will show,
  \<open>navTimer\<close> whether the 100 ms timer of a change of page is running, \<open>navTarget\<close> the page that
  the router has been asked for and not shown yet, \<open>saved\<close> the steps sent to the preferences,
  \<open>completed\<close> whether the completion has been sent.
\<close>

record tour =
  stepIndex :: nat
  isNavigating :: bool
  pendingStepRef :: "nat option"
  stepTimer :: "nat option"
  navTimer :: bool
  pathname :: string
  navTarget :: "string option"
  saved :: "nat list"
  completed :: bool

text \<open>Only the first render reads \<open>initialStep\<close>; the component stays mounted.\<close>

definition mount_tour :: "nat \<Rightarrow> string \<Rightarrow> tour" where
  "mount_tour initialStep path =
     \<lparr>stepIndex = initialStep, isNavigating = False, pendingStepRef = None, stepTimer = None,
      navTimer = False, pathname = path, navTarget = None, saved = [], completed = False\<rparr>"

definition rerender_tour :: "nat \<Rightarrow> tour \<Rightarrow> tour" where
  "rerender_tour initialStep s = s"

text \<open>
  The effect that resumes the tour, on a change of the page or of \<open>isNavigating\<close>: the clean-up
  of its previous run clears the timer that run had set.
\<close>

definition resume_effect :: "tour \<Rightarrow> tour" where
  "resume_effect s =
     (let s = s\<lparr>stepTimer := None\<rparr> in
      case pendingStepRef s of
        Some p \<Rightarrow> if \<not> isNavigating s then s\<lparr>pendingStepRef := None, stepTimer := Some p\<rparr> else s
      | None \<Rightarrow> s)"

definition set_navigating :: "bool \<Rightarrow> tour \<Rightarrow> tour" where
  "set_navigating b s =
     (if isNavigating s = b then s else resume_effect (s\<lparr>isNavigating := b\<rparr>))"

datatype tour_status = Running | Finished | Skipped

datatype joyride_action = Next | Prev

definition target_index :: "joyride_action \<Rightarrow> nat \<Rightarrow> int" where
  "target_index a i = (case a of Prev \<Rightarrow> int i - 1 | Next \<Rightarrow> int i + 1)"

definition elsewhere :: "tour \<Rightarrow> resolved_step \<Rightarrow> bool" where
  "elsewhere s st = (truthy (rs_route st) \<and> \<not> starts_with (pathname s) (the (rs_route st)))"

definition step_after :: "resolved_step list \<Rightarrow> joyride_action \<Rightarrow> tour \<Rightarrow> tour" where
  "step_after steps a s =
     (let n = target_index a (stepIndex s) in
      if n < 0 \<or> n \<ge> int (length steps) then s
      else
        (let next = nat n; st = steps ! next;
             s = (if elsewhere s st
                  then set_navigating True
                         (s\<lparr>pendingStepRef := Some next, navTarget := rs_route st, navTimer := True\<rparr>)
                  else s\<lparr>stepIndex := next\<rparr>)
         in s\<lparr>saved := saved s @ [next]\<rparr>))"

text \<open>The handler; the flag is whether \<open>onFinish\<close> has been called.\<close>

definition tour_event ::
  "tour_status \<Rightarrow> bool \<Rightarrow> joyride_action \<Rightarrow> resolved_step list \<Rightarrow> tour \<Rightarrow> tour \<times> bool" where
  "tour_event status is_step_after a steps s =
     (if status \<noteq> Running then (if status = Finished then s\<lparr>completed := True\<rparr> else s, True)
      else if is_step_after then (step_after steps a s, False)
      else (s, False))"

definition nav_timer_fired :: "tour \<Rightarrow> tour" where
  "nav_timer_fired s = set_navigating False (s\<lparr>navTimer := False\<rparr>)"

definition located :: "string \<Rightarrow> tour \<Rightarrow> tour" where
  "located p s =
     (let s' = s\<lparr>pathname := p, navTarget := None\<rparr>
      in if p = pathname s then s' else resume_effect s')"

definition step_timer_fired :: "tour \<Rightarrow> tour" where
  "step_timer_fired s =
     (case stepTimer s of None \<Rightarrow> s | Some p \<Rightarrow> s\<lparr>stepIndex := p, stepTimer := None\<rparr>)"

text \<open>What is highlighted: nothing when the index is past the steps.\<close>

definition current_step :: "resolved_step list \<Rightarrow> tour \<Rightarrow> resolved_step option" where
  "current_step steps s =
     (if stepIndex s < length steps then Some (steps ! stepIndex s) else None)"

text \<open>
  The overlay runs only while the tour does not navigate, so it reports a button only then.
\<close>

inductive tour_move :: "resolved_step list \<Rightarrow> tour \<Rightarrow> tour \<Rightarrow> bool" for steps where
  button: "\<not> isNavigating s \<Longrightarrow> tour_move steps s (step_after steps a s)"
| nav_timer: "navTimer s \<Longrightarrow> tour_move steps s (nav_timer_fired s)"
| page: "tour_move steps s (located p s)"
| step_timer: "stepTimer s \<noteq> None \<Longrightarrow> tour_move steps s (step_timer_fired s)"

inductive tour_reach :: "resolved_step list \<Rightarrow> tour \<Rightarrow> tour \<Rightarrow> bool" for steps where
  here: "tour_reach steps s s"
| move: "tour_reach steps s s' \<Longrightarrow> tour_move steps s' s'' \<Longrightarrow> tour_reach steps s s''"

text \<open>
  A press of Next and everything it starts. The page asked for arrives before the first timer
  (100 ms), between the two, or after both (300 ms more).
\<close>

datatype arrival = AtOnce | Between | AtLast

definition settle :: "arrival \<Rightarrow> tour \<Rightarrow> tour" where
  "settle w s =
     (case navTarget s of
        None \<Rightarrow> s
      | Some r \<Rightarrow>
          (case w of
             AtOnce \<Rightarrow> step_timer_fired (nav_timer_fired (located r s))
           | Between \<Rightarrow> step_timer_fired (located r (nav_timer_fired s))
           | AtLast \<Rightarrow> located r (step_timer_fired (nav_timer_fired s))))"

definition press_next :: "resolved_step list \<Rightarrow> arrival \<Rightarrow> tour \<Rightarrow> tour" where
  "press_next steps w s = settle w (step_after steps Next s)"

subsection \<open>The walk of a task flow\<close>

text \<open>
  \<open>advanceToStep\<close> with the times of its waits. \<open>appears\<close> is when the target of a step comes
  into the page; it stays. A wait gives up after 15 seconds and passes to the next step. \<open>off\<close> is when the guide
  is stopped, which clears \<open>waitingRef\<close>: a target that appears after that during the same wait is not
  shown, but a wait that gives up goes on and sets the flag again.
\<close>

datatype walk = NoStep | ShowStep nat nat | FlowDone nat | Given_up nat nat

function advanceToStep ::
  "(string \<Rightarrow> nat option) \<Rightarrow> nat option \<Rightarrow> resolved_flow_step list \<Rightarrow> nat \<Rightarrow> nat \<Rightarrow> walk" where
  "advanceToStep appears off steps now next_i =
     (if next_i \<ge> length steps then NoStep
      else
        (let st = steps ! next_i in
         if rf_waitForTarget st then
           (case appears (rf_target st) of
              Some at \<Rightarrow>
                if at \<le> now then ShowStep next_i now
                else if at < now + 15000 then
                  (if (case off of None \<Rightarrow> False | Some u \<Rightarrow> now \<le> u \<and> u \<le> at) then Given_up next_i at
                   else ShowStep next_i (at + 200))
                else if next_i + 1 < length steps then advanceToStep appears off steps (now + 15000) (next_i + 1)
                else FlowDone (now + 15000)
            | None \<Rightarrow>
                if next_i + 1 < length steps then advanceToStep appears off steps (now + 15000) (next_i + 1)
                else FlowDone (now + 15000))
         else ShowStep next_i now))"
  by pat_completeness auto
termination
  by (relation "measure (\<lambda>(appears, off, steps, now, i). length steps - i)") auto

declare advanceToStep.simps [simp del]

subsection \<open>Lemmas\<close>

lemma nth_Cons_shift: "Suc i \<le> k \<Longrightarrow> (s # ss) ! (k - i) = ss ! (k - Suc i)"
  by (metis Suc_diff_Suc Suc_le_lessD nth_Cons_Suc)

lemma resolve_from_filter:
  "map originalIndex (resolve_from i ss ctx t) =
     filter (\<lambda>k. \<not> step_blocked ctx (ts_module (ss ! (k - i))) (ts_superuser (ss ! (k - i)))) [i..<i + length ss]"
proof (induction ss arbitrary: i)
  case Nil
  then show ?case by simp
next
  case (Cons s ss)
  have up: "[i..<i + length (s # ss)] = i # [Suc i..<Suc i + length ss]"
    by (simp add: upt_conv_Cons del: upt_Suc)
  have "filter (\<lambda>k. \<not> step_blocked ctx (ts_module ((s # ss) ! (k - i))) (ts_superuser ((s # ss) ! (k - i)))) [Suc i..<Suc i + length ss]
      = filter (\<lambda>k. \<not> step_blocked ctx (ts_module (ss ! (k - Suc i))) (ts_superuser (ss ! (k - Suc i)))) [Suc i..<Suc i + length ss]"
    by (rule filter_cong [OF refl]) (auto simp only: set_upt atLeastLessThan_iff nth_Cons_shift)
  then show ?case using Cons [of "Suc i"] unfolding up filter.simps by (simp del: upt_Suc)
qed

lemma resolve_from_fields:
  "list_all (\<lambda>r. rs_target r = ts_target (ss ! (originalIndex r - i)) \<and> rs_route r = ts_route (ss ! (originalIndex r - i))
       \<and> rs_title r = t (ts_titleKey (ss ! (originalIndex r - i)))
       \<and> rs_content r = t (ts_contentKey (ss ! (originalIndex r - i))) \<and> i \<le> originalIndex r)
     (resolve_from i ss ctx t)"
proof (induction ss arbitrary: i)
  case (Cons s ss)
  from Cons [of "Suc i"] show ?case
    by (auto simp: list_all_iff nth_Cons_shift)
qed simp

definition tour_ok :: "resolved_step list \<Rightarrow> tour \<Rightarrow> bool" where
  "tour_ok steps s =
     (stepIndex s < length steps
      \<and> (case pendingStepRef s of None \<Rightarrow> True | Some p \<Rightarrow> p < length steps)
      \<and> (case stepTimer s of None \<Rightarrow> True | Some p \<Rightarrow> p < length steps)
      \<and> list_all (\<lambda>p. p < length steps) (saved s)
      \<and> (isNavigating s \<le> navTimer s)
      \<and> (pendingStepRef s \<noteq> None) \<le> isNavigating s)"

named_theorems tour_defs

declare resume_effect_def [tour_defs] set_navigating_def [tour_defs] nav_timer_fired_def [tour_defs]
  located_def [tour_defs] step_timer_fired_def [tour_defs] elsewhere_def [tour_defs]
  target_index_def [tour_defs]

lemma tour_ok_step_after: "tour_ok steps s \<Longrightarrow> tour_ok steps (step_after steps a s)"
  by (auto simp: tour_ok_def step_after_def tour_defs Let_def split: option.splits joyride_action.splits)

lemma tour_ok_timers:
  "tour_ok steps s \<Longrightarrow> tour_ok steps (nav_timer_fired s)"
  "tour_ok steps s \<Longrightarrow> tour_ok steps (located p s)"
  "tour_ok steps s \<Longrightarrow> tour_ok steps (step_timer_fired s)"
  by (auto simp: tour_ok_def tour_defs Let_def split: option.splits)

lemma tour_ok_reach: "tour_reach steps s s' \<Longrightarrow> tour_ok steps s \<Longrightarrow> tour_ok steps s'"
  by (induction rule: tour_reach.induct)
    (auto elim!: tour_move.cases intro: tour_ok_step_after tour_ok_timers)

text \<open>A tour at rest, and how many presses of Next it is from its last step at most.\<close>

definition at_rest :: "resolved_step list \<Rightarrow> tour \<Rightarrow> bool" where
  "at_rest steps s =
     (stepIndex s < length steps \<and> \<not> isNavigating s \<and> pendingStepRef s = None \<and> stepTimer s = None
      \<and> navTarget s = None)"

definition presses_left :: "resolved_step list \<Rightarrow> tour \<Rightarrow> nat" where
  "presses_left steps s =
     (if Suc (stepIndex s) < length steps
      then 2 * (length steps - 1 - stepIndex s) - of_bool (\<not> elsewhere s (steps ! Suc (stepIndex s)))
      else 0)"

lemma no_presses_left: "at_rest steps s \<Longrightarrow> presses_left steps s = 0 \<Longrightarrow> Suc (stepIndex s) = length steps"
  by (cases "elsewhere s (steps ! Suc (stepIndex s))")
    (auto simp: at_rest_def presses_left_def split: if_splits)

lemma press_next_here:
  assumes "at_rest steps s" and "Suc (stepIndex s) < length steps"
    and "\<not> elsewhere s (steps ! Suc (stepIndex s))"
  shows "at_rest steps (press_next steps w s) \<and> stepIndex (press_next steps w s) = Suc (stepIndex s)"
  using assms by (simp add: at_rest_def press_next_def step_after_def settle_def target_index_def nat_add_distrib Let_def)

lemma press_next_away:
  assumes "at_rest steps s" and "Suc (stepIndex s) < length steps"
    and "elsewhere s (steps ! Suc (stepIndex s))"
  shows "at_rest steps (press_next steps w s)"
    and "stepIndex (press_next steps w s) = (if w = Between then stepIndex s else Suc (stepIndex s))"
    and "\<not> elsewhere (press_next steps w s) (steps ! Suc (stepIndex s))"
  using assms
  by (auto simp: at_rest_def press_next_def step_after_def settle_def tour_defs nat_add_distrib Let_def truthy_def
      split: option.splits arrival.splits)

lemma press_next_progress:
  assumes "at_rest steps s"
  shows "at_rest steps (press_next steps w s)
    \<and> presses_left steps (press_next steps w s) \<le> presses_left steps s - 1"
proof (cases "Suc (stepIndex s) < length steps")
  case False
  with assms have "press_next steps w s = s"
    by (auto simp: at_rest_def press_next_def step_after_def settle_def target_index_def)
  with assms False show ?thesis by (simp add: presses_left_def)
next
  case True
  show ?thesis
  proof (cases "elsewhere s (steps ! Suc (stepIndex s))")
    case False
    with press_next_here [OF assms True] True show ?thesis by (auto simp: presses_left_def)
  next
    case away: True
    from press_next_away [OF assms True away, of w] True away show ?thesis
      by (cases w) (auto simp: presses_left_def)
  qed
qed

lemma presses_progress:
  "at_rest steps s \<Longrightarrow>
     at_rest steps (fold (press_next steps) ws s)
     \<and> presses_left steps (fold (press_next steps) ws s) \<le> presses_left steps s - length ws"
proof (induction ws arbitrary: s)
  case (Cons w ws)
  from press_next_progress [OF Cons.prems, of w] Cons.IH [of "press_next steps w s"]
  show ?case by auto
qed simp

definition waited ::
  "(string \<Rightarrow> nat option) \<Rightarrow> resolved_flow_step list \<Rightarrow> nat \<Rightarrow> nat \<Rightarrow> nat \<Rightarrow> bool" where
  "waited appears steps now i k =
     (rf_waitForTarget (steps ! k)
      \<and> (case appears (rf_target (steps ! k)) of None \<Rightarrow> True | Some u \<Rightarrow> now + 15000 * (Suc k - i) \<le> u))"

definition walk_spec ::
  "(string \<Rightarrow> nat option) \<Rightarrow> nat option \<Rightarrow> resolved_flow_step list \<Rightarrow> nat \<Rightarrow> nat \<Rightarrow> walk \<Rightarrow> bool" where
  "walk_spec appears off steps now i w =
     (case w of
        NoStep \<Rightarrow> length steps \<le> i
      | ShowStep j at \<Rightarrow>
          i \<le> j \<and> j < length steps \<and> now + 15000 * (j - i) \<le> at \<and> at < now + 15000 * (j - i) + 15200
          \<and> (\<not> rf_waitForTarget (steps ! j)
             \<or> (case appears (rf_target (steps ! j)) of None \<Rightarrow> False | Some u \<Rightarrow> u \<le> at))
          \<and> list_all (waited appears steps now i) [i..<j]
      | Given_up j at \<Rightarrow>
          i \<le> j \<and> j < length steps \<and> now + 15000 * (j - i) < at \<and> at < now + 15000 * (j - i) + 15000
          \<and> appears (rf_target (steps ! j)) = Some at
          \<and> (case off of None \<Rightarrow> False | Some u \<Rightarrow> now + 15000 * (j - i) \<le> u \<and> u \<le> at)
          \<and> list_all (waited appears steps now i) [i..<j]
      | FlowDone at \<Rightarrow>
          i < length steps \<and> at = now + 15000 * (length steps - i)
          \<and> list_all (waited appears steps now i) [i..<length steps])"

lemma walk_spec_later:
  assumes "walk_spec appears off steps (now + 15000) (Suc i) w" and "waited appears steps now i i"
    and "Suc i < length steps"
  shows "walk_spec appears off steps now i w"
proof -
  have up: "waited appears steps now i k" if "waited appears steps (now + 15000) (Suc i) k" "Suc i \<le> k" for k
    using that by (auto simp: waited_def Suc_diff_le split: option.splits)
  have l: "list_all (waited appears steps now i) [i..<j]"
    if h: "list_all (waited appears steps (now + 15000) (Suc i)) [Suc i..<j]" for j
    unfolding list_all_iff
  proof
    fix k assume k: "k \<in> set [i..<j]"
    show "waited appears steps now i k"
    proof (cases "k = i")
      case False
      with h k show ?thesis by (intro up) (auto simp: list_all_iff)
    qed (simp add: assms(2))
  qed
  from assms(1,3) show ?thesis
    by (cases w) (auto simp: walk_spec_def l algebra_simps Suc_diff_le split: option.splits)
qed

subsection \<open>Properties\<close>

text \<open>
  The steps of a guided setup are exactly the eligible ones of its catalogue, in the order
  of the catalogue: the original indices are those of the steps whose module is enabled and,
  where they ask for one, for a superuser; each has the target and the page of its entry.
\<close>

theorem guided_steps_eligible:
  "let ss = loadGuidedSetupSteps p; rs = resolveEligibleSteps ss ctx t in
     map originalIndex rs
       = filter (\<lambda>k. \<not> step_blocked ctx (ts_module (ss ! k)) (ts_superuser (ss ! k))) [0..<length ss]
     \<and> list_all (\<lambda>r. rs_target r = ts_target (ss ! originalIndex r) \<and> rs_route r = ts_route (ss ! originalIndex r)
          \<and> rs_title r = t (ts_titleKey (ss ! originalIndex r))) rs"
  using resolve_from_filter [of 0] resolve_from_fields [of _ 0]
  by (auto simp: resolveEligibleSteps_def Let_def list_all_iff)

text \<open>
  C33: while its list of steps stays the same, a tour that was mounted at a step that exists stays within
  its steps, whatever buttons are pressed and in whatever order pages and timers come: the step shown, a step
  waited for and every step saved exist, the overlay is never stopped without a timer that starts it again,
  and a step waits only while it is stopped. (A restart with another profile changes the list:
  \<open>restarted_tour_keeps_step\<close>.)
\<close>

theorem tour_stays_in_bounds:
  assumes "tour_reach steps (mount_tour i path) s" and "i < length steps"
  shows "tour_ok steps s"
  using assms(2) by (intro tour_ok_reach [OF assms(1)]) (simp add: tour_ok_def mount_tour_def)

definition demo_steps :: "profile \<Rightarrow> resolved_step list" where
  "demo_steps p = resolveEligibleSteps (loadGuidedSetupSteps p) \<lparr>el_module = (\<lambda>m. True), el_superuser = True\<rparr> (\<lambda>k. k)"

lemma demo_steps_length:
  "length (demo_steps Private) = 16" "length (demo_steps Enterprise) = 20"
  by code_simp+

lemma tour_stays_in_bounds_witness:
  "tour_ok (demo_steps Private) (step_after (demo_steps Private) Next (mount_tour 0 ''/admin/dashboard''))"
  by (rule tour_stays_in_bounds [of _ 0 "''/admin/dashboard''"], rule tour_reach.move, rule tour_reach.here,
      rule tour_move.button) (simp_all add: mount_tour_def demo_steps_length)

text \<open>
  C16: the tour reaches its end: from rest, with twice as many presses of Next as there are
  steps left the last step is shown, whenever the pages asked for arrive.
\<close>

theorem tour_reaches_end:
  assumes "at_rest steps s" and "2 * (length steps - 1 - stepIndex s) \<le> length ws"
  shows "Suc (stepIndex (fold (press_next steps) ws s)) = length steps"
proof -
  have "presses_left steps s \<le> length ws"
    using assms(2) by (auto simp: presses_left_def)
  with presses_progress [OF assms(1), of ws]
  have "at_rest steps (fold (press_next steps) ws s)" "presses_left steps (fold (press_next steps) ws s) = 0"
    by auto
  then show ?thesis by (rule no_presses_left)
qed

lemma tour_reaches_end_witness:
  "Suc (stepIndex (fold (press_next (demo_steps Private)) (replicate 30 Between) (mount_tour 0 ''/admin/dashboard''))) = 16"
  by (subst tour_reaches_end) (simp_all add: at_rest_def mount_tour_def demo_steps_length)

text \<open>
  A page that takes longer than 100 ms loses the step: with the private tour at its last
  orientation step, a press of Next whose page arrives between the two timers opens the page
  and saves step 12 as the progress, and the tour still shows step 11.
\<close>

theorem late_page_loses_step:
  "let s = (mount_tour 11 ''/admin/dashboard''); s' = press_next (demo_steps Private) Between s in
     pathname s' = ''/admin/llm/providers'' \<and> saved s' = [12] \<and> stepIndex s' = 11
     \<and> at_rest (demo_steps Private) s'
     \<and> stepIndex (press_next (demo_steps Private) AtOnce s) = 12"
  by code_simp

text \<open>
  A restarted tour does not start at its first step: launching it asks for step 0, but the
  tour, once mounted, keeps the step where it was closed; an enterprise tour closed at its last
  step and restarted as a private one shows nothing.
\<close>

theorem restarted_tour_keeps_step:
  "let ob' = handleModuleSkip (profile_saved (fst (handleProfileSelect ''private'' (fst (handleResetGuides ob)))));
       s' = rerender_tour (guidedSetupInitialStep ob') s
   in guidedSetupActive ob' \<and> guidedSetupInitialStep ob' = 0 \<and> stepIndex s' = stepIndex s
      \<and> current_step (demo_steps Private)
          (rerender_tour (guidedSetupInitialStep ob')
            (fold (press_next (demo_steps Enterprise)) (replicate 40 AtOnce) (mount_tour 0 ''/admin/dashboard''))) = None"
proof -
  let ?s = "mount_tour 0 ''/admin/dashboard''"
  have r: "at_rest (demo_steps Enterprise) ?s" "presses_left (demo_steps Enterprise) ?s \<le> 40"
    by (simp_all add: at_rest_def presses_left_def mount_tour_def demo_steps_length)
  from presses_progress [OF r(1), of "replicate 40 AtOnce"] r(2)
  have "stepIndex (fold (press_next (demo_steps Enterprise)) (replicate 40 AtOnce) ?s) = 19"
    using no_presses_left [of "demo_steps Enterprise"] by (force simp: demo_steps_length)
  then show ?thesis
    by (simp add: Let_def rerender_tour_def current_step_def demo_steps_length onb_defs)
qed

text \<open>
  The walk of a task flow ends: it passes over a step only after waiting 15 seconds for a target that had not
  come, it shows a step that waits only when its target is there, it is given up only when the guide was stopped
  during the last wait, and the flow is finished only after every step has been waited for. It ends within
  15 seconds for each step passed and 15.2 seconds at the last.
\<close>

theorem flow_walk_ends: "walk_spec appears off steps now i (advanceToStep appears off steps now i)"
proof (induction "length steps - i" arbitrary: now i rule: less_induct)
  case less
  let ?st = "steps ! i"
  let ?late = "case appears (rf_target ?st) of None \<Rightarrow> True | Some u \<Rightarrow> now + 15000 \<le> u"
  show ?case
  proof (cases "i < length steps \<and> rf_waitForTarget ?st \<and> ?late")
    case False
    then show ?thesis
      by (subst advanceToStep.simps) (auto simp: walk_spec_def Let_def not_less split: option.splits)
  next
    case late: True
    show ?thesis
    proof (cases "i + 1 < length steps")
      case False
      with late have "length steps = Suc i" by simp
      with late show ?thesis
        by (subst advanceToStep.simps) (auto simp: walk_spec_def waited_def Let_def split: option.splits)
    next
      case more: True
      have rec: "advanceToStep appears off steps now i = advanceToStep appears off steps (now + 15000) (i + 1)"
        using late more by (subst advanceToStep.simps) (auto simp: Let_def split: option.splits)
      have "length steps - (i + 1) < length steps - i" using more by simp
      from less [OF this, of "now + 15000"] have
        "walk_spec appears off steps (now + 15000) (Suc i) (advanceToStep appears off steps now i)"
        unfolding rec by simp
      then show ?thesis
        by (rule walk_spec_later) (use late more in \<open>auto simp: waited_def split: option.splits\<close>)
    qed
  qed
qed

text \<open>
  Every guide on offer is found by its name; its first step shows at once and
  the others wait for their targets with the overlay hidden.
\<close>

theorem task_flows_found:
  "list_all (\<lambda>f. getTaskFlow (flowId f) = Some f
       \<and> map rf_waitForTarget (resolveTaskFlowSteps f t) = False # replicate (length (flow_steps f) - 1) True
       \<and> list_all (\<lambda>r. rf_hideOverlay r = rf_waitForTarget r) (resolveTaskFlowSteps f t))
     (resolveEligibleTaskFlows ctx)"
proof -
  have waits: "map rf_waitForTarget (resolveTaskFlowSteps f t) = map fs_waitForTarget (flow_steps f)" for f
    by (rule nth_equalityI) (auto simp: resolveTaskFlowSteps_def nth_enumerate_eq)
  have hides: "list_all (\<lambda>r. rf_hideOverlay r = rf_waitForTarget r) (resolveTaskFlowSteps f t)" for f
    by (auto simp: resolveTaskFlowSteps_def list_all_iff)
  have "list_all (\<lambda>f. getTaskFlow (flowId f) = Some f
      \<and> map fs_waitForTarget (flow_steps f) = False # replicate (length (flow_steps f) - 1) True) TASK_FLOW_CATALOGS"
    by code_simp
  then show ?thesis
    using hides by (auto simp: waits resolveEligibleTaskFlows_def list_all_iff)
qed

end
