(* ===== verification/Create_Container.thy ===== *)
theory Create_Container
  imports Prelude "HOL-Library.Char_ord" "HOL-Library.List_Lexorder"
begin

text \<open>
  The form that creates a container, \<^verbatim>\<open>pages/admin/CreateContainerPage.tsx\<close>: the three lists of
  rows, the splitting of the command into arguments, the payload that is sent, and the images on
  offer. The request and its answer are arguments of \<open>handleSubmit\<close>.
\<close>

subsection \<open>Rows\<close>

record port_binding =
  host_port :: string
  container_port :: string

record env_row =
  env_key :: string
  env_value :: string

record volume_row =
  volume_host :: string
  volume_container :: string

datatype container_class = SystemCore | SystemAux | TenantApp | Untrusted
datatype container_policy = Free | Restricted | Locked

record container_form =
  image :: string
  cname :: string
  containerClass :: container_class
  policy :: container_policy
  ownerScope :: string
  autoStart :: bool
  network :: string
  cmdRaw :: string
  ports :: "port_binding list"
  envRows :: "env_row list"
  volumeRows :: "volume_row list"
  submitting :: bool
  submitError :: "string option"

definition form_start :: container_form where
  "form_start = \<lparr>image = [], cname = [], containerClass = Untrusted, policy = Free,
     ownerScope = ''platform'', autoStart = False, network = [], cmdRaw = [], ports = [], envRows = [],
     volumeRows = [], submitting = False, submitError = None\<rparr>"

text \<open>\<open>r.map((row, i) => i === index ? f(row) : row)\<close> and \<open>r.filter((_, i) => i !== index)\<close>.\<close>

definition map_at :: "nat \<Rightarrow> ('r \<Rightarrow> 'r) \<Rightarrow> 'r list \<Rightarrow> 'r list" where
  "map_at index f rows = map (\<lambda>(i, r). if i = index then f r else r) (enumerate 0 rows)"

definition drop_at :: "nat \<Rightarrow> 'r list \<Rightarrow> 'r list" where
  "drop_at index rows = map snd (filter (\<lambda>(i, r). i \<noteq> index) (enumerate 0 rows))"

definition addPort :: "container_form \<Rightarrow> container_form" where
  "addPort f = f\<lparr>ports := ports f @ [\<lparr>host_port = [], container_port = []\<rparr>]\<rparr>"

definition updatePort :: "nat \<Rightarrow> (port_binding \<Rightarrow> port_binding) \<Rightarrow> container_form \<Rightarrow> container_form" where
  "updatePort i set_field f = f\<lparr>ports := map_at i set_field (ports f)\<rparr>"

definition removePort :: "nat \<Rightarrow> container_form \<Rightarrow> container_form" where
  "removePort i f = f\<lparr>ports := drop_at i (ports f)\<rparr>"

definition addEnv :: "container_form \<Rightarrow> container_form" where
  "addEnv f = f\<lparr>envRows := envRows f @ [\<lparr>env_key = [], env_value = []\<rparr>]\<rparr>"

definition updateEnv :: "nat \<Rightarrow> (env_row \<Rightarrow> env_row) \<Rightarrow> container_form \<Rightarrow> container_form" where
  "updateEnv i set_field f = f\<lparr>envRows := map_at i set_field (envRows f)\<rparr>"

definition removeEnv :: "nat \<Rightarrow> container_form \<Rightarrow> container_form" where
  "removeEnv i f = f\<lparr>envRows := drop_at i (envRows f)\<rparr>"

definition addVolume :: "container_form \<Rightarrow> container_form" where
  "addVolume f = f\<lparr>volumeRows := volumeRows f @ [\<lparr>volume_host = [], volume_container = []\<rparr>]\<rparr>"

definition updateVolume :: "nat \<Rightarrow> (volume_row \<Rightarrow> volume_row) \<Rightarrow> container_form \<Rightarrow> container_form" where
  "updateVolume i set_field f = f\<lparr>volumeRows := map_at i set_field (volumeRows f)\<rparr>"

definition removeVolume :: "nat \<Rightarrow> container_form \<Rightarrow> container_form" where
  "removeVolume i f = f\<lparr>volumeRows := drop_at i (volumeRows f)\<rparr>"

subsection \<open>The command\<close>

definition dquote :: char where "dquote = CHR 0x22"
definition squote :: char where "squote = CHR 0x27"

text \<open>
  The longest match of \<open>(?:[^\s"']+|"[^"]*"|'[^']*')+\<close> at the start of a text, and the rest.
  Each alternative has one way to match, so the greedy loop needs no backtracking; a quote
  that is not closed ends the match.
\<close>

function take_word :: "string \<Rightarrow> string \<times> string" where
  "take_word s =
     (case s of
        [] \<Rightarrow> ([], [])
      | c # cs \<Rightarrow>
          if is_ws c then ([], s)
          else if c = dquote \<or> c = squote then
            (case index_of c cs of
               None \<Rightarrow> ([], s)
             | Some i \<Rightarrow> (let (w, r) = take_word (drop (Suc i) cs) in (c # take (Suc i) cs @ w, r)))
          else (let (w, r) = take_word cs in (c # w, r)))"
  by pat_completeness auto
termination
  by (relation "measure length") auto

declare take_word.simps [simp del]

lemma take_word_append: "fst (take_word s) @ snd (take_word s) = s"
proof (induction s rule: take_word.induct)
  case (1 s)
  show ?case
  proof (cases s)
    case (Cons c cs)
    have "take (Suc i) cs @ drop (Suc i) cs = cs" for i by (rule append_take_drop_id)
    then show ?thesis
      using 1 [OF Cons] Cons
      by (subst (1 2) take_word.simps) (auto simp: case_prod_beta split: option.splits)
  qed (simp add: take_word.simps)
qed

text \<open>All matches, from left to right: where none starts, one character is passed over.\<close>

function words :: "string \<Rightarrow> string list" where
  "words s =
     (case s of
        [] \<Rightarrow> []
      | c # cs \<Rightarrow>
          (case take_word s of
             ([], r) \<Rightarrow> words cs
           | (x # w, r) \<Rightarrow> (x # w) # words r))"
  by pat_completeness auto
termination
proof (relation "measure length")
  fix s c cs x y ys r
  assume "s = c # cs" "(y, r) = take_word s" "y = x # ys"
  with take_word_append [of s] show "(r, s) \<in> measure length"
    by (metis append_Cons fst_conv in_measure length_Cons length_append less_add_Suc2 snd_conv)
qed auto

declare words.simps [simp del]

text \<open>\<open>s.replace(/^["']|["']$/g, "")\<close>.\<close>

definition is_quote :: "char \<Rightarrow> bool" where
  "is_quote c = (c = dquote \<or> c = squote)"

definition strip_quotes :: "string \<Rightarrow> string" where
  "strip_quotes s =
     (let s = (if s \<noteq> [] \<and> is_quote (hd s) then tl s else s)
      in if s \<noteq> [] \<and> is_quote (last s) then butlast s else s)"

definition parse_cmd :: "string \<Rightarrow> string list option" where
  "parse_cmd raw = (if trim raw \<noteq> [] then Some (map strip_quotes (words (trim raw))) else None)"

subsection \<open>The payload\<close>

record container_payload =
  cp_image :: string
  cp_name :: "string option"
  cp_class :: container_class
  cp_owner_scope :: string
  cp_policy :: container_policy
  cp_auto_start :: bool
  cp_ports :: "port_binding list option"
  cp_env :: "string list option"
  cp_cmd :: "string list option"
  cp_network :: "string option"
  cp_volumes :: "string list option"

definition or_undefined :: "'a list \<Rightarrow> 'a list option" where
  "or_undefined xs = (if xs = [] then None else Some xs)"

definition validPorts :: "container_form \<Rightarrow> port_binding list" where
  "validPorts f = filter (\<lambda>p. host_port p \<noteq> [] \<and> container_port p \<noteq> []) (ports f)"

definition env_text :: "env_row \<Rightarrow> string" where
  "env_text r = trim (env_key r) @ ''='' @ env_value r"

definition validEnv :: "container_form \<Rightarrow> string list" where
  "validEnv f = map env_text (filter (\<lambda>r. trim (env_key r) \<noteq> []) (envRows f))"

definition volume_text :: "volume_row \<Rightarrow> string" where
  "volume_text r = trim (volume_host r) @ '':'' @ trim (volume_container r)"

definition validVolumes :: "container_form \<Rightarrow> string list" where
  "validVolumes f =
     map volume_text (filter (\<lambda>r. trim (volume_host r) \<noteq> [] \<and> trim (volume_container r) \<noteq> []) (volumeRows f))"

definition container_payload_of :: "container_form \<Rightarrow> container_payload" where
  "container_payload_of f =
     \<lparr>cp_image = trim (image f), cp_name = or_undefined (trim (cname f)), cp_class = containerClass f,
      cp_owner_scope = (if trim (ownerScope f) \<noteq> [] then trim (ownerScope f) else ''platform''),
      cp_policy = policy f, cp_auto_start = autoStart f, cp_ports = or_undefined (validPorts f),
      cp_env = or_undefined (validEnv f), cp_cmd = parse_cmd (cmdRaw f),
      cp_network = or_undefined (network f), cp_volumes = or_undefined (validVolumes f)\<rparr>"

text \<open>The answer: the message of a failure, or the id of the new container.\<close>

definition submit_enabled :: "container_form \<Rightarrow> bool" where
  "submit_enabled f = (\<not> (submitting f \<or> trim (image f) = []))"

definition submit_sent :: "container_form \<Rightarrow> container_form \<times> container_payload" where
  "submit_sent f = (f\<lparr>submitError := None, submitting := True\<rparr>, container_payload_of f)"

definition submit_answered :: "string + string \<Rightarrow> container_form \<Rightarrow> container_form \<times> string option" where
  "submit_answered ans f =
     (case ans of
        Inr i \<Rightarrow> (f\<lparr>submitting := False\<rparr>, Some (''/admin/containers/'' @ i))
      | Inl e \<Rightarrow> (f\<lparr>submitError := Some e, submitting := False\<rparr>, None))"

text \<open>The images on offer: the tags of all images, each once, sorted.\<close>

definition imageOptions :: "string list list \<Rightarrow> string list" where
  "imageOptions repo_tags =
     sort (remdups (filter (\<lambda>t. t \<noteq> [] \<and> t \<noteq> ''<none>:<none>'') (concat repo_tags)))"

subsection \<open>Lists of rows\<close>

lemma map_at_update: "map_at i f rows = (if i < length rows then rows[i := f (rows ! i)] else rows)"
  by (rule nth_equalityI) (auto simp: map_at_def nth_enumerate_eq nth_list_update)

lemma drop_at_enumerate:
  "map snd (filter (\<lambda>(j, r). j \<noteq> i) (enumerate n rows)) = (if n \<le> i then take (i - n) rows @ drop (Suc i - n) rows else rows)"
proof (induction rows arbitrary: n)
  case (Cons r rows)
  show ?case
  proof (cases "n < i")
    case True
    then show ?thesis using Cons [of "Suc n"] by (auto simp: Suc_diff_Suc take_Cons' drop_Cons')
  next
    case False
    then show ?thesis using Cons [of "Suc n"] by auto
  qed
qed simp

lemma drop_at_eq: "drop_at i rows = take i rows @ drop (Suc i) rows"
  by (simp add: drop_at_def drop_at_enumerate)

text \<open>What the three lists of the form have in common.\<close>

locale row_list =
  fixes rows :: "'s \<Rightarrow> 'r list"
    and add :: "'s \<Rightarrow> 's"
    and upd :: "nat \<Rightarrow> ('r \<Rightarrow> 'r) \<Rightarrow> 's \<Rightarrow> 's"
    and remove :: "nat \<Rightarrow> 's \<Rightarrow> 's"
    and blank :: 'r
  assumes rows_add: "rows (add s) = rows s @ [blank]"
    and rows_upd: "rows (upd i f s) = map_at i f (rows s)"
    and rows_remove: "rows (remove i s) = drop_at i (rows s)"
begin

lemma rows_typed: "rows (upd (length (rows s)) f (add s)) = rows s @ [f blank]"
  by (simp add: rows_add rows_upd map_at_update)

lemma length_rows: "length (rows (add s)) = Suc (length (rows s))" "length (rows (upd i f s)) = length (rows s)"
  by (simp_all add: rows_add rows_upd map_at_def)

lemma remove_added: "rows (remove (length (rows s)) (add s)) = rows s"
  by (simp add: rows_add rows_remove drop_at_eq)

lemma upd_other: "j \<noteq> i \<Longrightarrow> j < length (rows s) \<Longrightarrow> rows (upd i f s) ! j = rows s ! j"
  by (simp add: rows_upd map_at_update)

text \<open>A row for each value: adding it and typing the value in two fields.\<close>

definition type_row :: "('v \<Rightarrow> 'r \<Rightarrow> 'r) \<Rightarrow> ('v \<Rightarrow> 'r \<Rightarrow> 'r) \<Rightarrow> 'v \<Rightarrow> 's \<Rightarrow> 's" where
  "type_row f g v s = upd (length (rows s)) (g v) (upd (length (rows s)) (f v) (add s))"

lemma rows_type_row: "rows (type_row f g v s) = rows s @ [g v (f v blank)]"
  by (simp add: type_row_def rows_add rows_upd map_at_update)

lemma rows_type_rows: "rows (fold (type_row f g) vs s) = rows s @ map (\<lambda>v. g v (f v blank)) vs"
  by (induction vs arbitrary: s) (simp_all add: rows_type_row)

end

interpretation port_rows: row_list ports addPort updatePort removePort "\<lparr>host_port = [], container_port = []\<rparr>"
  by unfold_locales (simp_all add: addPort_def updatePort_def removePort_def)

interpretation env_rows: row_list envRows addEnv updateEnv removeEnv "\<lparr>env_key = [], env_value = []\<rparr>"
  by unfold_locales (simp_all add: addEnv_def updateEnv_def removeEnv_def)

interpretation volume_rows: row_list volumeRows addVolume updateVolume removeVolume
    "\<lparr>volume_host = [], volume_container = []\<rparr>"
  by unfold_locales (simp_all add: addVolume_def updateVolume_def removeVolume_def)

definition type_env :: "string \<times> string \<Rightarrow> container_form \<Rightarrow> container_form" where
  "type_env = (\<lambda>(k, v) f.
     updateEnv (length (envRows f)) (env_value_update (\<lambda>_. v))
       (updateEnv (length (envRows f)) (env_key_update (\<lambda>_. k)) (addEnv f)))"

lemma type_env_rows: "type_env = env_rows.type_row (\<lambda>(k, v). env_key_update (\<lambda>_. k)) (\<lambda>(k, v). env_value_update (\<lambda>_. v))"
  by (auto simp: type_env_def env_rows.type_row_def fun_eq_iff)

subsection \<open>Words\<close>

definition plain :: "char \<Rightarrow> bool" where
  "plain c = (\<not> is_ws c \<and> \<not> is_quote c)"

lemma take_word_plain: "list_all plain a \<Longrightarrow> take_word (a @ s) = (a @ fst (take_word s), snd (take_word s))"
  by (induction a) (simp_all add: take_word.simps [of "_ # _"] plain_def is_quote_def case_prod_beta)

lemma take_word_stop: "s = [] \<or> is_ws (hd s) \<Longrightarrow> take_word s = ([], s)"
  by (cases s) (auto simp: take_word.simps)

lemma take_word_quoted:
  assumes "dquote \<notin> set a"
  shows "take_word (dquote # a @ dquote # s) = (dquote # a @ dquote # fst (take_word s), snd (take_word s))"
proof -
  have "\<not> is_ws dquote" by (simp add: is_ws_def dquote_def)
  with assms show ?thesis
    by (subst take_word.simps) (simp add: index_of_append [THEN iffD2] case_prod_beta)
qed

definition quote_arg :: "string \<Rightarrow> string" where
  "quote_arg a = (if a \<noteq> [] \<and> list_all plain a then a else dquote # a @ [dquote])"

lemma take_word_arg:
  "dquote \<notin> set a \<Longrightarrow> s = [] \<or> is_ws (hd s) \<Longrightarrow> take_word (quote_arg a @ s) = (quote_arg a, s)"
  using take_word_quoted [of a s] take_word_plain [of a s] take_word_stop [of s]
  by (auto simp: quote_arg_def)

lemma strip_quote_arg: "dquote \<notin> set a \<Longrightarrow> strip_quotes (quote_arg a) = a"
  by (auto simp: strip_quotes_def quote_arg_def is_quote_def plain_def list_all_iff Let_def butlast_append)

lemma quote_arg_nonempty: "quote_arg a \<noteq> []"
  by (auto simp: quote_arg_def)

lemma words_arg: "dquote \<notin> set a \<Longrightarrow> s = [] \<or> is_ws (hd s) \<Longrightarrow> words (quote_arg a @ s) = quote_arg a # words s"
  using take_word_arg [of a s] quote_arg_nonempty [of a]
  by (cases "quote_arg a") (simp_all add: words.simps [of "_ # _"])

lemma words_blank: "words (CHR '' '' # s) = words s"
  by (subst words.simps) (simp add: take_word.simps is_ws_def)

lemma words_command:
  "list_all (\<lambda>a. dquote \<notin> set a) args \<Longrightarrow> words (join '' '' (map quote_arg args)) = map quote_arg args"
proof (induction args rule: induct_list012)
  case (2 a)
  then show ?case using words_arg [of a "[]"] by (simp add: words.simps [of "[]"])
next
  case (3 a b args)
  then have "words (quote_arg a @ '' '' @ join '' '' (map quote_arg (b # args)))
      = quote_arg a # words ('' '' @ join '' '' (map quote_arg (b # args)))"
    by (intro words_arg) (simp_all add: is_ws_def)
  with 3 show ?case by (simp add: words_blank)
qed (simp add: words.simps)

lemma quote_arg_ends: "\<not> is_ws (hd (quote_arg a))" "\<not> is_ws (last (quote_arg a))"
  by (auto simp: quote_arg_def is_ws_def dquote_def plain_def list_all_iff hd_append)

lemma trim_ends: "s \<noteq> [] \<Longrightarrow> \<not> is_ws (hd s) \<Longrightarrow> \<not> is_ws (last s) \<Longrightarrow> trim s = s"
proof -
  assume s: "s \<noteq> []" "\<not> is_ws (hd s)" "\<not> is_ws (last s)"
  then have "dropWhile is_ws s = s" "dropWhile is_ws (rev s) = rev s"
    by (simp_all add: dropWhile_eq_self_iff hd_rev)
  then show ?thesis by (simp add: trim_def)
qed

lemma command_ends:
  assumes "args \<noteq> []"
  shows "join '' '' (map quote_arg args) \<noteq> []" and "\<not> is_ws (hd (join '' '' (map quote_arg args)))"
    and "\<not> is_ws (last (join '' '' (map quote_arg args)))"
proof -
  have "join '' '' (map quote_arg args) \<noteq> [] \<and> \<not> is_ws (hd (join '' '' (map quote_arg args)))
      \<and> \<not> is_ws (last (join '' '' (map quote_arg args)))"
    using assms
    by (induction args rule: induct_list012) (auto simp: quote_arg_ends quote_arg_nonempty hd_append last_append)
  then show "join '' '' (map quote_arg args) \<noteq> []" and "\<not> is_ws (hd (join '' '' (map quote_arg args)))"
    and "\<not> is_ws (last (join '' '' (map quote_arg args)))" by blast+
qed

subsection \<open>Properties\<close>

text \<open>
  C30: a command written with double quotes around the arguments that need them comes out as its
  arguments: whatever blanks and single quotes they contain, and also when one is empty.
\<close>

theorem command_roundtrip:
  assumes "args \<noteq> []" and "list_all (\<lambda>a. dquote \<notin> set a) args"
  shows "parse_cmd (join '' '' (map quote_arg args)) = Some args"
proof -
  have "map strip_quotes (map quote_arg args) = args"
    using assms(2) by (induction args) (simp_all add: strip_quote_arg)
  with assms trim_ends [OF command_ends [OF assms(1)]] show ?thesis
    by (simp add: parse_cmd_def words_command command_ends)
qed

lemma command_roundtrip_witness:
  "parse_cmd (join '' '' (map quote_arg [''/bin/sh'', ''-c'', ''echo hello'', []])) = Some [''/bin/sh'', ''-c'', ''echo hello'', []]"
  by (rule command_roundtrip) (simp_all add: dquote_def)

text \<open>
  Other ways to quote are not those of a shell: of an option whose value is quoted only the
  closing quote is taken off, and an apostrophe splits a word and disappears.
\<close>

theorem half_quoted_argument:
  "parse_cmd (''sh --name='' @ [dquote] @ ''a b'' @ [dquote]) = Some [''sh'', ''--name='' @ [dquote] @ ''a b'']
   \<and> parse_cmd (''echo it'' @ [squote] @ ''s'') = Some [''echo'', ''it'', ''s'']"
  by code_simp

text \<open>
  The payload is what was typed: after rows have been added and filled in, the environment
  that is sent has exactly those with a name, in order, each as its trimmed name and its value;
  the rows left incomplete are not sent, and a list without rows is left out.
\<close>

theorem typed_rows_sent:
  "cp_env (container_payload_of (fold type_env kvs form_start))
     = or_undefined (map (\<lambda>(k, v). trim k @ ''='' @ v) (filter (\<lambda>(k, v). trim k \<noteq> []) kvs))
   \<and> (case cp_ports (container_payload_of f) of
        None \<Rightarrow> validPorts f = []
      | Some ps \<Rightarrow> ps \<noteq> [] \<and> subseq ps (ports f)
          \<and> list_all (\<lambda>p. host_port p \<noteq> [] \<and> container_port p \<noteq> []) ps)
   \<and> cp_owner_scope (container_payload_of f) \<noteq> [] \<and> cp_name (container_payload_of f) \<noteq> Some []"
proof -
  have "validEnv (fold type_env kvs form_start) = map (\<lambda>(k, v). trim k @ ''='' @ v) (filter (\<lambda>(k, v). trim k \<noteq> []) kvs)"
    by (simp add: validEnv_def type_env_rows env_rows.rows_type_rows form_start_def filter_map comp_def
        case_prod_unfold env_text_def)
  then show ?thesis
    by (auto simp: container_payload_of_def or_undefined_def validPorts_def list_all_iff)
qed

text \<open>
  The images on offer are the tags of all images, sorted and without repetition, without
  the tag of images that have none.
\<close>

theorem image_options_sorted:
  "sorted (imageOptions tags) \<and> distinct (imageOptions tags)
   \<and> set (imageOptions tags) = \<Union> (set ` set tags) - {[], ''<none>:<none>''}"
  by (auto simp: imageOptions_def)

end
