(* ===== verification/Logs_Page.thy ===== *)
theory Logs_Page
  imports Prelude
begin

text \<open>
  The page of the logs, \<^verbatim>\<open>pages/admin/LogsPage.tsx\<close>: the query built from the chosen labels and
  the search text, the merging of streams that arrive live, and the connection of the live tail.
  The labels of a stream are its object in insertion order, which is what the key
  \<open>JSON.stringify(labels)\<close> tells apart. A frame of the tail that cannot be read is \<open>None\<close>.
\<close>

subsection \<open>The query\<close>

text \<open>\<open>s.replaceAll(c, r)\<close>.\<close>

definition replace_char :: "char \<Rightarrow> string \<Rightarrow> string \<Rightarrow> string" where
  "replace_char c r s = concat (map (\<lambda>x. if x = c then r else [x]) s)"

definition dq :: char where "dq = CHR 0x22"
definition backslash :: char where "backslash = CHR 0x5C"

definition escape_quotes :: "string \<Rightarrow> string" where
  "escape_quotes s = replace_char dq [backslash, dq] s"

definition star_regex :: "string \<Rightarrow> string" where
  "star_regex value =
     (let regex = replace_char (CHR ''*'') ''.*'' value in if regex = ''.*'' then ''.+'' else regex)"

definition matcher :: "string \<Rightarrow> string \<Rightarrow> string" where
  "matcher label value =
     (if CHR ''*'' \<in> set value then label @ ''=~'' @ [dq] @ star_regex value @ [dq]
      else label @ ''='' @ [dq] @ escape_quotes value @ [dq])"

definition LABEL_PRIORITY :: "string list" where
  "LABEL_PRIORITY = [''compose_service'', ''container'', ''job'', ''host'', ''level'']"

definition query_parts :: "(string \<times> string) list \<Rightarrow> string option \<Rightarrow> string list" where
  "query_parts selectedLabels fallbackLabel =
     (let parts = map (\<lambda>(l, v). matcher l v) (filter (\<lambda>(l, v). v \<noteq> []) selectedLabels)
      in if length parts = 0
         then [(case fallbackLabel of None \<Rightarrow> ''job'' | Some l \<Rightarrow> l) @ ''=~'' @ [dq] @ ''.+'' @ [dq]]
         else parts)"

definition buildLogql :: "(string \<times> string) list \<Rightarrow> string \<Rightarrow> string option \<Rightarrow> string" where
  "buildLogql selectedLabels search fallbackLabel =
     (let selector = ''{'' @ join '','' (query_parts selectedLabels fallbackLabel) @ ''}''
      in if trim search = [] then selector
         else selector @ '' |= '' @ [dq] @ escape_quotes search @ [dq])"

text \<open>The labels on offer, most useful first.\<close>

definition availableLabelKeys :: "string list \<Rightarrow> string list" where
  "availableLabelKeys labels = filter (\<lambda>k. k \<in> set labels) LABEL_PRIORITY"

subsection \<open>Streams\<close>

record log_entry =
  ts :: string
  line :: string
  structured :: "json option"

record log_stream =
  labels :: "(string \<times> string) list"
  entries :: "log_entry list"

fun put_stream :: "log_stream \<Rightarrow> log_stream list \<Rightarrow> log_stream list" where
  "put_stream st [] = [st]"
| "put_stream st (x # xs) = (if labels x = labels st then st # xs else x # put_stream st xs)"

fun push_stream :: "log_stream \<Rightarrow> log_stream list \<Rightarrow> log_stream list" where
  "push_stream st [] = [st]"
| "push_stream st (x # xs) =
     (if labels x = labels st then x\<lparr>entries := entries x @ entries st\<rparr> # xs else x # push_stream st xs)"

definition mergeStreams :: "log_stream list \<Rightarrow> log_stream list \<Rightarrow> log_stream list" where
  "mergeStreams current incoming = fold push_stream incoming (fold put_stream current [])"

text \<open>The milliseconds of a time in nanoseconds: its first thirteen digits.\<close>

definition ns_to_ms :: "string \<Rightarrow> nat" where
  "ns_to_ms ns = digits_value (if length ns > 13 then take 13 ns else ns)"

definition parse_line :: "(string \<Rightarrow> json option) \<Rightarrow> (nat \<Rightarrow> string) \<Rightarrow> string \<times> string \<Rightarrow> log_entry" where
  "parse_line json_parse to_iso = (\<lambda>(t, l).
     \<lparr>ts = to_iso (ns_to_ms t), line = l,
      structured = (case json_parse l of Some (JObject kvs) \<Rightarrow> Some (JObject kvs) | _ \<Rightarrow> None)\<rparr>)"

definition parseTailPayload ::
  "(string \<Rightarrow> json option) \<Rightarrow> (nat \<Rightarrow> string) \<Rightarrow> ((string \<times> string) list \<times> (string \<times> string) list) list
     \<Rightarrow> log_stream list" where
  "parseTailPayload json_parse to_iso frame =
     map (\<lambda>(ls, vs). \<lparr>labels = ls, entries = map (parse_line json_parse to_iso) vs\<rparr>) frame"

subsection \<open>The live tail\<close>

datatype log_failure = QueryFailed string | LiveFailed | LiveDisconnected

text \<open>
  Sockets are numbers; \<open>wsRef\<close> is the current one, and \<open>closing\<close> are those closed by the page
  whose close event has not come yet; \<open>sock_open\<close> is whether the current one is still open.
\<close>

record logs_page =
  on_logs_tab :: bool
  live :: bool
  query :: string
  streams :: "log_stream list"
  loading :: bool
  failure :: "log_failure option"
  wsRef :: "nat option"
  sock_open :: bool
  manualClose :: bool
  closing :: "nat list"
  next_socket :: nat

definition logs_start :: "string \<Rightarrow> logs_page" where
  "logs_start q = \<lparr>on_logs_tab = True, live = False, query = q, streams = [], loading = False,
     failure = None, wsRef = None, sock_open = False, manualClose = False, closing = [], next_socket = 0\<rparr>"

definition closeSocket :: "logs_page \<Rightarrow> logs_page" where
  "closeSocket s =
     s\<lparr>manualClose := True,
       closing := (case wsRef s of None \<Rightarrow> closing s
                   | Some i \<Rightarrow> if sock_open s then closing s @ [i] else closing s),
       wsRef := None, sock_open := False\<rparr>"

definition startLiveTail :: "logs_page \<Rightarrow> logs_page" where
  "startLiveTail s =
     (let s = closeSocket (s\<lparr>failure := None\<rparr>)
      in s\<lparr>manualClose := False, wsRef := Some (next_socket s), sock_open := True, next_socket := Suc (next_socket s)\<rparr>)"

text \<open>The effect on a change of \<open>live\<close>, the query or the tab.\<close>

definition live_effect :: "logs_page \<Rightarrow> logs_page" where
  "live_effect s =
     (if \<not> on_logs_tab s then
        (let s' = closeSocket s in if live s' then closeSocket (s'\<lparr>live := False\<rparr>) else s')
      else if live s then startLiveTail s
      else closeSocket s)"

definition set_live :: "bool \<Rightarrow> logs_page \<Rightarrow> logs_page" where
  "set_live b s = (if live s = b then s else live_effect (s\<lparr>live := b\<rparr>))"

definition set_query :: "string \<Rightarrow> logs_page \<Rightarrow> logs_page" where
  "set_query q s = (if query s = q then s else live_effect (s\<lparr>query := q\<rparr>))"

definition set_tab :: "bool \<Rightarrow> logs_page \<Rightarrow> logs_page" where
  "set_tab b s = (if on_logs_tab s = b then s else live_effect (s\<lparr>on_logs_tab := b\<rparr>))"

definition socket_message :: "log_stream list option \<Rightarrow> logs_page \<Rightarrow> logs_page" where
  "socket_message frame s =
     (case frame of None \<Rightarrow> s | Some incoming \<Rightarrow> s\<lparr>streams := mergeStreams (streams s) incoming\<rparr>)"

definition socket_error :: "logs_page \<Rightarrow> logs_page" where
  "socket_error s = set_live False (s\<lparr>failure := Some LiveFailed\<rparr>)"

definition socket_closed :: "nat \<Rightarrow> logs_page \<Rightarrow> logs_page" where
  "socket_closed i s =
     (let s = s\<lparr>closing := removeAll i (closing s), sock_open := (sock_open s \<and> wsRef s \<noteq> Some i)\<rparr>
      in if \<not> manualClose s then set_live False (s\<lparr>failure := Some LiveDisconnected\<rparr>) else s)"

definition fetch_sent :: "logs_page \<Rightarrow> logs_page" where
  "fetch_sent s = s\<lparr>loading := True, failure := None\<rparr>"

definition fetch_answered :: "string + log_stream list \<Rightarrow> logs_page \<Rightarrow> logs_page" where
  "fetch_answered res s =
     (case res of
        Inr found \<Rightarrow> s\<lparr>streams := found\<rparr>
      | Inl e \<Rightarrow> s\<lparr>failure := Some (QueryFailed e)\<rparr>)\<lparr>loading := False\<rparr>"

definition onApplyFilters :: "logs_page \<Rightarrow> logs_page" where
  "onApplyFilters s = (if \<not> live s then fetch_sent s else s)"

text \<open>Messages come from the current socket only, close events also from one being closed.\<close>

inductive logs_step :: "logs_page \<Rightarrow> logs_page \<Rightarrow> bool" where
  Live: "logs_step s (set_live b s)"
| Query: "logs_step s (set_query q s)"
| Tab: "logs_step s (set_tab b s)"
| Message: "wsRef s = Some i \<Longrightarrow> sock_open s \<Longrightarrow> logs_step s (socket_message frame s)"
| Failed: "wsRef s = Some i \<Longrightarrow> sock_open s \<Longrightarrow> logs_step s (socket_error s)"
| Closed: "wsRef s = Some i \<and> sock_open s \<or> i \<in> set (closing s) \<Longrightarrow> logs_step s (socket_closed i s)"
| Apply: "logs_step s (onApplyFilters s)"
| Fetched: "logs_step s (fetch_answered res s)"

inductive logs_reach :: "logs_page \<Rightarrow> bool" where
  Start: "logs_reach (fetch_sent (live_effect (logs_start q)))"
| Step: "logs_reach s \<Longrightarrow> logs_step s s' \<Longrightarrow> logs_reach s'"

subsection \<open>Reading a query back\<close>

text \<open>
  The literals and selectors of the query language: in a literal a backslash escapes a quote or a
  backslash, any other backslash is an error.
\<close>

fun read_literal :: "string \<Rightarrow> (string \<times> string) option" where
  "read_literal [] = None"
| "read_literal (c # s) =
     (if c = dq then Some ([], s)
      else if c = backslash then
        (case s of
           d # r \<Rightarrow> if d = dq \<or> d = backslash then map_option (apfst (Cons d)) (read_literal r) else None
         | [] \<Rightarrow> None)
      else map_option (apfst (Cons c)) (read_literal s))"

datatype match_op = Equals string | Matches string

definition read_matcher :: "string \<Rightarrow> ((string \<times> match_op) \<times> string) option" where
  "read_matcher s =
     (let label = takeWhile (\<lambda>c. c \<noteq> CHR ''='') s; r = dropWhile (\<lambda>c. c \<noteq> CHR ''='') s
      in if starts_with r (''=~'' @ [dq])
         then map_option (\<lambda>(v, r). ((label, Matches v), r)) (read_literal (drop 3 r))
         else if starts_with r (''='' @ [dq])
         then map_option (\<lambda>(v, r). ((label, Equals v), r)) (read_literal (drop 2 r))
         else None)"

lemma read_literal_shorter: "read_literal s = Some (v, r) \<Longrightarrow> length r < length s"
  by (induction s arbitrary: v rule: read_literal.induct) (fastforce split: if_splits list.splits)+

lemma read_matcher_shorter: "read_matcher s = Some (m, r) \<Longrightarrow> length r < length s"
  using length_dropWhile_le [of "\<lambda>c. c \<noteq> CHR ''=''" s]
  by (auto simp: read_matcher_def Let_def dest!: read_literal_shorter split: if_splits)

function read_matchers :: "string \<Rightarrow> ((string \<times> match_op) list \<times> string) option" where
  "read_matchers s =
     (case read_matcher s of
        None \<Rightarrow> None
      | Some (m, r) \<Rightarrow>
          (case r of
             [] \<Rightarrow> None
           | c # r' \<Rightarrow>
               if c = CHR '','' then map_option (apfst (Cons m)) (read_matchers r')
               else if c = CHR ''}'' then Some ([m], r')
               else None))"
  by pat_completeness auto
termination
  by (relation "measure length") (auto dest: read_matcher_shorter)

declare read_matchers.simps [simp del]

definition read_query :: "string \<Rightarrow> ((string \<times> match_op) list \<times> string option) option" where
  "read_query q =
     (case q of
        [] \<Rightarrow> None
      | c # s \<Rightarrow>
          if c \<noteq> CHR ''{'' then None
          else (case read_matchers s of
                  None \<Rightarrow> None
                | Some (ms, r) \<Rightarrow>
                    if r = [] then Some (ms, None)
                    else if starts_with r ('' |= '' @ [dq]) then
                      (case read_literal (drop 5 r) of
                         Some (v, []) \<Rightarrow> Some (ms, Some v) | _ \<Rightarrow> None)
                    else None))"

definition wanted :: "string \<times> string \<Rightarrow> string \<times> match_op" where
  "wanted = (\<lambda>(l, v). (l, if CHR ''*'' \<in> set v then Matches (star_regex v) else Equals v))"

text \<open>The texts the page can quote.\<close>

definition quotable :: "string \<times> string \<Rightarrow> bool" where
  "quotable = (\<lambda>(l, v). CHR ''='' \<notin> set l \<and> backslash \<notin> set v \<and> \<not> (CHR ''*'' \<in> set v \<and> dq \<in> set v))"

lemma replace_char_simps [simp]:
  "replace_char c r [] = []" "replace_char c r (x # s) = (if x = c then r else [x]) @ replace_char c r s"
  by (simp_all add: replace_char_def)

lemma set_replace_char: "set (replace_char c r s) \<subseteq> set s \<union> set r"
  by (auto simp: replace_char_def)

lemma read_plain: "dq \<notin> set v \<Longrightarrow> backslash \<notin> set v \<Longrightarrow> read_literal (v @ dq # r) = Some (v, r)"
  by (induction v) (auto simp: dq_def backslash_def)

lemma read_escaped: "backslash \<notin> set v \<Longrightarrow> read_literal (escape_quotes v @ dq # r) = Some (v, r)"
  by (induction v) (auto simp: escape_quotes_def dq_def backslash_def)

lemma star_regex_quotable: "c \<in> {dq, backslash} \<Longrightarrow> c \<notin> set v \<Longrightarrow> c \<notin> set (star_regex v)"
  using set_replace_char [of "CHR ''*''" "''.*''" v]
  by (simp add: star_regex_def Let_def) (auto simp: dq_def backslash_def split: if_splits)

lemma read_matcher_regex:
  assumes "CHR ''='' \<notin> set l" "dq \<notin> set v" "backslash \<notin> set v"
  shows "read_matcher (l @ ''=~'' @ dq # v @ dq # r) = Some ((l, Matches v), r)"
  using assms read_plain [of v r]
  by (simp add: read_matcher_def Let_def takeWhile_append dropWhile_append list_all_iff)

lemma read_matcher_matcher:
  assumes "quotable (l, v)"
  shows "read_matcher (matcher l v @ r) = Some (wanted (l, v), r)"
proof -
  have tw: "takeWhile (\<lambda>c. c \<noteq> CHR ''='') (l @ CHR ''='' # s) = l"
    "dropWhile (\<lambda>c. c \<noteq> CHR ''='') (l @ CHR ''='' # s) = CHR ''='' # s" for s
    using assms by (auto simp: quotable_def takeWhile_append dropWhile_append)
  show ?thesis
  proof (cases "CHR ''*'' \<in> set v")
    case True
    with assms have "dq \<notin> set v" "backslash \<notin> set v" by (auto simp: quotable_def)
    then have "read_literal (star_regex v @ dq # r) = Some (star_regex v, r)"
      using star_regex_quotable [of dq v] star_regex_quotable [of backslash v] by (intro read_plain) simp_all
    with True show ?thesis
      by (simp add: read_matcher_def matcher_def wanted_def tw Let_def)
  next
    case False
    have "read_literal (escape_quotes v @ dq # r) = Some (v, r)"
      using assms by (intro read_escaped) (simp add: quotable_def)
    with False show ?thesis
      by (simp add: read_matcher_def matcher_def wanted_def tw Let_def) (simp add: dq_def)
  qed
qed

lemma read_matchers_join:
  assumes "\<And>p r. p \<in> set ps \<Longrightarrow> read_matcher (f p @ r) = Some (w p, r)" and "ps \<noteq> []"
  shows "read_matchers (join '','' (map f ps) @ ''}'' @ r) = Some (map w ps, r)"
  using assms
proof (induction ps rule: induct_list012)
  case (2 p)
  then show ?case by (simp add: read_matchers.simps)
next
  case (3 p q ps)
  have "read_matchers (join '','' (map f (q # ps)) @ ''}'' @ r) = Some (map w (q # ps), r)"
    using 3 by simp
  then show ?case
    using 3(3) [of p] by (subst read_matchers.simps) simp
qed simp

lemma query_parts_read:
  "list_all quotable sel \<Longrightarrow> CHR ''='' \<notin> set (case fb of None \<Rightarrow> ''job'' | Some l \<Rightarrow> l) \<Longrightarrow>
     read_matchers (join '','' (query_parts sel fb) @ ''}'' @ r)
       = Some (let chosen = filter (\<lambda>(l, v). v \<noteq> []) sel in
               if chosen = [] then [(case fb of None \<Rightarrow> ''job'' | Some l \<Rightarrow> l, Matches ''.+'')] else map wanted chosen, r)"
proof -
  assume q: "list_all quotable sel" and f: "CHR ''='' \<notin> set (case fb of None \<Rightarrow> ''job'' | Some l \<Rightarrow> l)"
  let ?chosen = "filter (\<lambda>(l, v). v \<noteq> []) sel"
  let ?job = "case fb of None \<Rightarrow> ''job'' | Some l \<Rightarrow> l"
  show ?thesis
  proof (cases "?chosen = []")
    case True
    have "read_matcher ((?job @ ''=~'' @ [dq] @ ''.+'' @ [dq]) @ r) = Some ((?job, Matches ''.+''), r)" for r
      using read_matcher_regex [OF f, of "''.+''" r] by (simp add: dq_def backslash_def)
    then have "read_matchers (join '','' (map (\<lambda>j. j @ ''=~'' @ [dq] @ ''.+'' @ [dq]) [?job]) @ ''}'' @ r)
        = Some (map (\<lambda>j. (j, Matches ''.+'')) [?job], r)"
      by (intro read_matchers_join) simp_all
    with True show ?thesis by (simp add: query_parts_def Let_def)
  next
    case False
    have "read_matchers (join '','' (map (\<lambda>p. case p of (l, v) \<Rightarrow> matcher l v) ?chosen) @ ''}'' @ r)
        = Some (map wanted ?chosen, r)"
      using q False read_matcher_matcher by (intro read_matchers_join) (auto simp: list_all_iff)
    with False show ?thesis by (simp add: query_parts_def Let_def)
  qed
qed

subsection \<open>Lemmas about streams and the tail\<close>

definition entries_of :: "(string \<times> string) list \<Rightarrow> log_stream list \<Rightarrow> log_entry list" where
  "entries_of ls sts = concat (map entries (filter (\<lambda>s. labels s = ls) sts))"

lemma entries_of_simps [simp]:
  "entries_of ls [] = []"
  "entries_of ls (x # xs) = (if labels x = ls then entries x else []) @ entries_of ls xs"
  "entries_of ls (xs @ ys) = entries_of ls xs @ entries_of ls ys"
  by (simp_all add: entries_of_def)

lemma entries_of_none: "ls \<notin> labels ` set sts \<Longrightarrow> entries_of ls sts = []"
  by (induction sts) auto

lemma put_stream_new: "labels st \<notin> labels ` set m \<Longrightarrow> put_stream st m = m @ [st]"
  by (induction m) auto

lemma put_streams_distinct: "distinct (map labels (m @ sts)) \<Longrightarrow> fold put_stream sts m = m @ sts"
  by (induction sts arbitrary: m) (auto simp: put_stream_new)

lemma push_stream_labels: "set (map labels (push_stream st m)) = insert (labels st) (set (map labels m))"
  by (induction m) auto

lemma push_stream_distinct: "distinct (map labels m) \<Longrightarrow> distinct (map labels (push_stream st m))"
  by (induction m) (auto simp: push_stream_labels [unfolded set_map])

lemma push_stream_entries:
  "distinct (map labels m) \<Longrightarrow>
     entries_of ls (push_stream st m) = entries_of ls m @ (if labels st = ls then entries st else [])"
proof (induction m)
  case (Cons x m)
  then show ?case by (auto simp: entries_of_none)
qed auto

lemma push_streams:
  "distinct (map labels m) \<Longrightarrow>
     distinct (map labels (fold push_stream sts m))
     \<and> entries_of ls (fold push_stream sts m) = entries_of ls m @ entries_of ls sts"
  by (induction sts arbitrary: m) (simp_all add: push_stream_distinct push_stream_entries)

definition tail_ok :: "logs_page \<Rightarrow> bool" where
  "tail_ok s =
     ((wsRef s \<noteq> None) = live s \<and> (live s \<le> on_logs_tab s) \<and> (sock_open s \<le> (wsRef s \<noteq> None))
      \<and> list_all (\<lambda>i. i < next_socket s) (closing s) \<and> distinct (closing s)
      \<and> (case wsRef s of None \<Rightarrow> True | Some i \<Rightarrow> i < next_socket s \<and> i \<notin> set (closing s)))"

lemmas tail_defs = closeSocket_def startLiveTail_def live_effect_def set_live_def set_query_def set_tab_def
  socket_message_def socket_error_def fetch_sent_def fetch_answered_def onApplyFilters_def

lemma tail_ok_live_effect:
  assumes "tail_ok (s\<lparr>live := l, on_logs_tab := b\<rparr>)"
  shows "tail_ok (live_effect s)"
  using assms
  by (auto simp: tail_ok_def live_effect_def startLiveTail_def closeSocket_def Let_def list_all_iff split: option.splits)

lemma tail_ok_set:
  assumes "tail_ok s"
  shows "tail_ok (set_live l s)" "tail_ok (set_query q s)" "tail_ok (set_tab b s)"
proof -
  have "tail_ok (live_effect (s\<lparr>live := l\<rparr>))"
    using assms by (intro tail_ok_live_effect [where l = "live s" and b = "on_logs_tab s"]) simp
  then show "tail_ok (set_live l s)" using assms by (simp add: set_live_def)
  have "tail_ok (live_effect (s\<lparr>query := q\<rparr>))"
    using assms by (intro tail_ok_live_effect [where l = "live s" and b = "on_logs_tab s"]) (auto simp: tail_ok_def split: option.splits)
  then show "tail_ok (set_query q s)" using assms by (simp add: set_query_def)
  have "tail_ok (live_effect (s\<lparr>on_logs_tab := b\<rparr>))"
    using assms by (intro tail_ok_live_effect [where l = "live s" and b = "on_logs_tab s"]) simp
  then show "tail_ok (set_tab b s)" using assms by (simp add: set_tab_def)
qed

lemma tail_ok_closed:
  "tail_ok s \<Longrightarrow> b \<le> sock_open s \<Longrightarrow> tail_ok (s\<lparr>closing := removeAll i (closing s), sock_open := b, failure := e\<rparr>)"
  by (auto simp: tail_ok_def list_all_iff distinct_removeAll split: option.splits)

lemma tail_ok_step: "logs_step s s' \<Longrightarrow> tail_ok s \<Longrightarrow> tail_ok s'"
proof (induction rule: logs_step.induct)
  case (Closed s i)
  note k = tail_ok_closed [OF Closed.prems, where b = "sock_open s \<and> wsRef s \<noteq> Some i" and i = i]
  from k [where e = "failure s"] k [where e = "Some LiveDisconnected"] show ?case
    by (simp add: socket_closed_def Let_def tail_ok_set)
next
  case (Failed s i)
  then have "tail_ok (s\<lparr>failure := Some LiveFailed\<rparr>)" by (auto simp: tail_ok_def split: option.splits)
  then show ?case by (simp add: socket_error_def tail_ok_set)
qed (simp_all add: tail_ok_set, auto simp: tail_ok_def socket_message_def fetch_sent_def onApplyFilters_def
      fetch_answered_def split: option.splits sum.splits)

lemma tail_ok_reach: "logs_reach s \<Longrightarrow> tail_ok s"
  by (induction rule: logs_reach.induct)
    (auto simp: tail_ok_step, simp add: tail_ok_def tail_defs logs_start_def)

subsection \<open>Properties\<close>

text \<open>
  C28: the query asks for what was chosen, when no value and not the search has a backslash, no value has both a
  star and a quote, and no label has an equals sign. Read by the rules of the query language it then has
  exactly the labels with a value, each with its value or, when it has a star, its pattern (the fallback label when
  there is none), and the search text as its filter, quotes included. Without the conditions the
  query can be unreadable (\<open>backslash_breaks_query\<close>).
\<close>

theorem logql_reads_back:
  assumes "list_all quotable sel" and "backslash \<notin> set search"
    and "CHR ''='' \<notin> set (case fb of None \<Rightarrow> ''job'' | Some l \<Rightarrow> l)"
  shows "read_query (buildLogql sel search fb) = Some
      (let chosen = filter (\<lambda>(l, v). v \<noteq> []) sel in
         if chosen = [] then [(case fb of None \<Rightarrow> ''job'' | Some l \<Rightarrow> l, Matches ''.+'')] else map wanted chosen,
       if trim search = [] then None else Some search)"
proof -
  note read = query_parts_read [OF assms(1,3)]
  have lit: "read_literal (escape_quotes search @ [dq]) = Some (search, [])"
    using read_escaped [OF assms(2), of "[]"] by simp
  show ?thesis
  proof (cases "trim search = []")
    case True
    with read [of "[]"] show ?thesis by (simp add: buildLogql_def read_query_def)
  next
    case False
    with read [of "'' |= '' @ dq # escape_quotes search @ [dq]"] lit show ?thesis
      by (simp add: buildLogql_def read_query_def Let_def)
  qed
qed

lemma logql_reads_back_witness:
  "read_query (buildLogql [(''job'', ''api''), (''level'', []), (''host'', ''node-*'')] (''say '' @ [dq] @ ''hi'' @ [dq]) None)
     = Some ([(''job'', Equals ''api''), (''host'', Matches ''node-.*'')], Some (''say '' @ [dq] @ ''hi'' @ [dq]))"
proof -
  have t: "trim (''say '' @ [dq] @ ''hi'' @ [dq]) \<noteq> []" by code_simp
  show ?thesis
    by (subst logql_reads_back) (use t in \<open>simp_all add: quotable_def wanted_def star_regex_def dq_def backslash_def\<close>)
qed

text \<open>
  A backslash breaks the query: a search for a path that ends in one quotes the closing
  quote, so the query cannot be read; a quote beside a star is not escaped either.
\<close>

theorem backslash_breaks_query:
  "read_query (buildLogql [(''job'', ''api'')] (''C:'' @ [backslash]) fb) = None
   \<and> read_query (buildLogql [(''job'', ''*'' @ [dq] @ ''x'')] [] fb) = None"
  by (simp add: buildLogql_def query_parts_def matcher_def Let_def) code_simp

text \<open>
  Merging loses and invents no line: the streams keep different labels, and the lines of
  each labels are those shown before followed by those that came, in order.
\<close>

theorem merge_keeps_lines:
  assumes "distinct (map labels current)"
  shows "distinct (map labels (mergeStreams current incoming))
    \<and> entries_of ls (mergeStreams current incoming) = entries_of ls current @ entries_of ls incoming"
  using assms put_streams_distinct [of "[]" current] push_streams [of current]
  by (simp add: mergeStreams_def)

lemma merge_keeps_lines_witness:
  "map line (entries_of [(''job'', ''a'')] (mergeStreams
      [\<lparr>labels = [(''job'', ''a'')], entries = [\<lparr>ts = [], line = ''x'', structured = None\<rparr>]\<rparr>]
      [\<lparr>labels = [(''job'', ''b'')], entries = []\<rparr>,
       \<lparr>labels = [(''job'', ''a'')], entries = [\<lparr>ts = [], line = ''y'', structured = None\<rparr>]\<rparr>])) = [''x'', ''y'']"
  by (subst merge_keeps_lines [THEN conjunct2]) simp_all

text \<open>
  C35: the page is live exactly when it has a connection: whatever the user does and in whatever
  order messages, failures and late close events come, there is a current connection if and
  only if the switch is on, then the tab of the logs is open, and no connection that is being
  closed is the current one.
\<close>

theorem tail_connected_iff_live:
  assumes "logs_reach s"
  shows "(wsRef s \<noteq> None) = live s \<and> (live s \<le> on_logs_tab s)
    \<and> (case wsRef s of None \<Rightarrow> True | Some i \<Rightarrow> i \<notin> set (closing s))"
  using tail_ok_reach [OF assms] by (simp add: tail_ok_def split: option.splits)

lemma live_reach: "logs_reach (set_live True (fetch_sent (live_effect (logs_start q))))"
  by (rule logs_reach.Step, rule logs_reach.Start, rule logs_step.Live)

lemma tail_connected_iff_live_witness:
  "wsRef (set_live True (fetch_sent (live_effect (logs_start ''{}'')))) = Some 0"
  using tail_connected_iff_live [OF live_reach [of "''{}''"]]
  by (simp add: tail_defs logs_start_def)

text \<open>
  Changing the query stops the live tail: the old connection is closed by hand, but the flag
  that says so is taken back when the new one is opened, before the close event of the old one
  comes; that event is then taken for a lost connection, reports it and ends the new one.
\<close>

theorem requery_kills_tail:
  assumes "logs_reach s" and "live s" and "sock_open s" and "q \<noteq> query s"
  shows "\<exists>i. i \<in> set (closing (set_query q s)) \<and> live (set_query q s) \<and> failure (set_query q s) = None
    \<and> (let s' = socket_closed i (set_query q s)
       in logs_reach s' \<and> \<not> live s' \<and> wsRef s' = None \<and> failure s' = Some LiveDisconnected)"
proof -
  from tail_ok_reach [OF assms(1)] assms(2,3) obtain i where i: "wsRef s = Some i" "i < next_socket s" "on_logs_tab s"
    by (auto simp: tail_ok_def split: option.splits)
  have "logs_reach (set_query q s)"
    using assms(1) by (rule logs_reach.Step) (rule logs_step.Query)
  moreover have c: "i \<in> set (closing (set_query q s))" "live (set_query q s)" "failure (set_query q s) = None"
    using assms i by (simp_all add: tail_defs Let_def)
  ultimately have "logs_reach (socket_closed i (set_query q s))"
    by (intro logs_reach.Step [OF _ logs_step.Closed]) simp_all
  moreover have "\<not> live (socket_closed i (set_query q s)) \<and> wsRef (socket_closed i (set_query q s)) = None
      \<and> failure (socket_closed i (set_query q s)) = Some LiveDisconnected"
    using assms i by (simp add: socket_closed_def tail_defs Let_def)
  ultimately show ?thesis using c by (auto simp: Let_def)
qed

lemma requery_kills_tail_witness:
  "\<exists>i. live (set_query ''{a}'' (set_live True (fetch_sent (live_effect (logs_start ''{}'')))))
     \<and> \<not> live (socket_closed i (set_query ''{a}'' (set_live True (fetch_sent (live_effect (logs_start ''{}''))))))"
  using requery_kills_tail [OF live_reach [of "''{}''"], of "''{a}''"]
  by (auto simp: Let_def tail_defs logs_start_def)

text \<open>
  The milliseconds of a time in nanoseconds are its digits without the last ones, and a time
  of nineteen digits, as now, is divided by a million.
\<close>

theorem ns_to_ms_divides:
  assumes "length ns = 19" and "list_all is_digit ns"
  shows "ns_to_ms ns = digits_value ns div 10 ^ 6"
proof -
  have value_bound: "list_all is_digit ds \<Longrightarrow> digits_value ds < 10 ^ length ds" for ds
  proof (induction ds rule: rev_induct)
    case (snoc c ds)
    then show ?case by (auto simp: digits_value_snoc is_digit_def)
  qed (simp add: digits_value_def)
  have value_append: "digits_value (a @ b) = digits_value a * 10 ^ length b + digits_value b" for a b
    by (induction b rule: rev_induct) (simp_all add: digits_value_def flip: append_assoc)
  have "ns = take 13 ns @ drop 13 ns" "length (drop 13 ns) = 6" using assms(1) by simp_all
  moreover have "list_all is_digit (drop 13 ns)"
    using assms(2) by (auto simp: list_all_iff dest: in_set_dropD)
  ultimately show ?thesis
    using value_append [of "take 13 ns" "drop 13 ns"] value_bound [of "drop 13 ns"] assms(1)
    by (simp add: ns_to_ms_def)
qed

lemma ns_to_ms_divides_witness: "ns_to_ms ''1700000000123456789'' = 1700000000123"
  by (subst ns_to_ms_divides) (simp_all add: is_digit_def digits_value_def)

end
