(* ===== verification/Logs_Table.thy ===== *)
theory Logs_Table
  imports Logs_Page "HOL-Library.Char_ord" "HOL-Library.List_Lexorder"
begin

text \<open>
  The table of the logs, \<^verbatim>\<open>pages/admin/logs/LogsTable.tsx\<close>: the lines of all streams as rows, the
  filters by level and container with their options, and the number of rows shown. The time of
  a date text is a parameter; \<open>None\<close> is a text that is not a date.
\<close>

subsection \<open>Rows\<close>

definition PAGE_SIZE :: nat where "PAGE_SIZE = 200"

record flat_log =
  fl_entry :: log_entry
  fl_id :: string
  fl_labels :: "(string \<times> string) list"
  fl_level :: string
  fl_service :: string
  fl_container :: string
  fl_host :: string
  fl_job :: string
  fl_ms :: int

text \<open>The first label that is there, or the empty text.\<close>

fun first_label :: "(string \<times> string) list \<Rightarrow> string list \<Rightarrow> string" where
  "first_label ls [] = []"
| "first_label ls (k # ks) = (case map_of ls k of Some v \<Rightarrow> v | None \<Rightarrow> first_label ls ks)"

definition flat_row ::
  "(string \<Rightarrow> int option) \<Rightarrow> nat \<Rightarrow> (string \<times> string) list \<times> log_entry \<Rightarrow> flat_log" where
  "flat_row date_ms idx = (\<lambda>(ls, e).
     \<lparr>fl_entry = e, fl_id = ts e @ ''-'' @ show_nat idx, fl_labels = ls,
      fl_level = first_label ls [''level''],
      fl_service = first_label ls [''compose_service'', ''service_name''],
      fl_container = first_label ls [''container'', ''container_id''],
      fl_host = first_label ls [''host''], fl_job = first_label ls [''job''],
      fl_ms = (case date_ms (ts e) of None \<Rightarrow> 0 | Some m \<Rightarrow> m)\<rparr>)"

definition all_lines :: "log_stream list \<Rightarrow> ((string \<times> string) list \<times> log_entry) list" where
  "all_lines sts = concat (map (\<lambda>st. map (Pair (labels st)) (entries st)) sts)"

text \<open>JavaScript sorts stably.\<close>

definition flatLogs :: "(string \<Rightarrow> int option) \<Rightarrow> log_stream list \<Rightarrow> flat_log list" where
  "flatLogs date_ms sts =
     sort_key (\<lambda>r. - fl_ms r) (map (\<lambda>(i, p). flat_row date_ms i p) (enumerate 0 (all_lines sts)))"

definition options_of :: "(flat_log \<Rightarrow> string) \<Rightarrow> flat_log list \<Rightarrow> string list" where
  "options_of field rows = sort (remdups (filter (\<lambda>v. v \<noteq> []) (map field rows)))"

subsection \<open>Filters\<close>

record log_table =
  levelFilter :: "string list"
  containerFilter :: "string list"
  visibleCount :: nat

definition log_table_start :: log_table where
  "log_table_start = \<lparr>levelFilter = [], containerFilter = [], visibleCount = PAGE_SIZE\<rparr>"

definition row_passes :: "string list \<Rightarrow> string list \<Rightarrow> string \<Rightarrow> bool" where
  "row_passes chosen opts v =
     (let active = (length chosen > 0 \<and> length chosen < length opts)
      in \<not> (active \<and> v \<notin> set chosen))"

definition filteredRows :: "flat_log list \<Rightarrow> log_table \<Rightarrow> flat_log list" where
  "filteredRows rows t =
     filter (\<lambda>r. row_passes (levelFilter t) (options_of fl_level rows) (fl_level r)
                 \<and> row_passes (containerFilter t) (options_of fl_container rows) (fl_container r)) rows"

definition visibleRows :: "flat_log list \<Rightarrow> log_table \<Rightarrow> flat_log list" where
  "visibleRows rows t = take (visibleCount t) (filteredRows rows t)"

definition withDefaults :: "string list \<Rightarrow> string list \<Rightarrow> string list" where
  "withDefaults prev allValues =
     (if length allValues = 0 then []
      else if length prev = 0 then allValues
      else filter (\<lambda>v. v \<in> set prev) allValues @ filter (\<lambda>v. v \<notin> set prev) allValues)"

text \<open>
  The effects after the streams have changed: both filters get their defaults, which are new
  arrays, so the number of rows is set back as well. A choice in a filter sets it back too.
\<close>

definition new_streams :: "flat_log list \<Rightarrow> log_table \<Rightarrow> log_table" where
  "new_streams rows t =
     t\<lparr>levelFilter := withDefaults (levelFilter t) (options_of fl_level rows),
       containerFilter := withDefaults (containerFilter t) (options_of fl_container rows),
       visibleCount := PAGE_SIZE\<rparr>"

definition choose_levels :: "string list \<Rightarrow> log_table \<Rightarrow> log_table" where
  "choose_levels vs t = t\<lparr>levelFilter := vs, visibleCount := PAGE_SIZE\<rparr>"

definition choose_containers :: "string list \<Rightarrow> log_table \<Rightarrow> log_table" where
  "choose_containers vs t = t\<lparr>containerFilter := vs, visibleCount := PAGE_SIZE\<rparr>"

definition load_more :: "flat_log list \<Rightarrow> log_table \<Rightarrow> log_table" where
  "load_more rows t =
     (if visibleCount t < length (filteredRows rows t) then t\<lparr>visibleCount := visibleCount t + PAGE_SIZE\<rparr> else t)"

text \<open>The colour of a level.\<close>

datatype level_color = ErrorColor | WarningColor | DefaultColor | InfoColor

definition levelUi :: "string \<Rightarrow> string \<times> level_color" where
  "levelUi level =
     (let value = to_lower level in
      if value = ''error'' \<or> value = ''fatal'' then (value, ErrorColor)
      else if value = ''warn'' \<or> value = ''warning'' then (value, WarningColor)
      else if value = ''debug'' \<or> value = ''trace'' then (value, DefaultColor)
      else ((if value \<noteq> [] then value else ''info''), InfoColor))"

subsection \<open>Lemmas\<close>

lemma dash_digits: "a @ CHR ''-'' # show_nat m = b @ CHR ''-'' # show_nat n \<Longrightarrow> m = n"
proof -
  assume eq: "a @ CHR ''-'' # show_nat m = b @ CHR ''-'' # show_nat n"
  have "takeWhile (\<lambda>c. c \<noteq> CHR ''-'') (rev (x @ CHR ''-'' # show_nat k)) = rev (show_nat k)" for x k
    using is_digit_show [of k] by (subst rev_append) (auto simp: takeWhile_append list_all_iff is_digit_def)
  from this [of a m] this [of b n] eq show ?thesis by simp
qed

lemma flat_ids_distinct:
  "distinct (map (\<lambda>(i, p). fl_id (flat_row date_ms i p)) (enumerate n ps))"
proof -
  have "inj_on (\<lambda>(i, p). fl_id (flat_row date_ms i p)) (set (enumerate n ps))"
  proof (rule inj_onI)
    fix x y
    assume xy: "x \<in> set (enumerate n ps)" "y \<in> set (enumerate n ps)"
      "(\<lambda>(i, p). fl_id (flat_row date_ms i p)) x = (\<lambda>(i, p). fl_id (flat_row date_ms i p)) y"
    then have "fst x = fst y"
      by (auto simp: flat_row_def case_prod_unfold dest: dash_digits)
    with xy(1,2) show "x = y" by (auto simp: in_set_enumerate_eq intro: prod_eqI)
  qed
  then show ?thesis by (simp add: distinct_map)
qed

lemma flat_entries: "map (\<lambda>(i, p). fl_entry (flat_row date_ms i p)) (enumerate n ps) = map snd ps"
  by (induction ps arbitrary: n) (auto simp: flat_row_def)

lemma withDefaults_length: "length (withDefaults prev vs) = length vs"
  by (simp add: withDefaults_def sum_length_filter_compl)

lemma withDefaults_set: "set (withDefaults prev vs) = set vs"
  by (auto simp: withDefaults_def)

subsection \<open>Properties\<close>

text \<open>
  C38: every line is a row once: the rows have different keys, they are the lines of all streams,
  the latest first, and lines of the same time stay in the order of the streams.
\<close>

theorem flat_rows_complete:
  "distinct (map fl_id (flatLogs date_ms sts))
   \<and> mset (map fl_entry (flatLogs date_ms sts)) = mset (concat (map entries sts))
   \<and> sorted (map (\<lambda>r. - fl_ms r) (flatLogs date_ms sts))
   \<and> map fl_entry (filter (\<lambda>r. fl_ms r = m) (flatLogs date_ms sts))
       = filter (\<lambda>e. (case date_ms (ts e) of None \<Rightarrow> 0 | Some k \<Rightarrow> k) = m) (concat (map entries sts))"
proof -
  let ?ps = "enumerate 0 (all_lines sts)" and ?f = "\<lambda>(i, p). flat_row date_ms i p"
  have ents: "map snd (all_lines sts) = concat (map entries sts)"
    by (simp add: all_lines_def map_concat comp_def)
  have ms: "mset (map g (flatLogs date_ms sts)) = mset (map (g \<circ> ?f) ?ps)" for g :: "flat_log \<Rightarrow> 'x"
    unfolding flatLogs_def map_map [symmetric] by (simp only: mset_map mset_sort)
  have e: "map (fl_entry \<circ> ?f) ?ps = concat (map entries sts)"
    using flat_entries [of date_ms 0 "all_lines sts"] ents by (simp add: comp_def case_prod_unfold)
  have "distinct (map (fl_id \<circ> ?f) ?ps)"
    using flat_ids_distinct [of date_ms 0 "all_lines sts"] by (simp add: comp_def case_prod_unfold)
  moreover have "mset (map fl_id (flatLogs date_ms sts)) = mset (map (fl_id \<circ> ?f) ?ps)" by (rule ms)
  ultimately have "distinct (map fl_id (flatLogs date_ms sts))"
    by (metis mset_eq_imp_distinct_iff)
  moreover have "map fl_entry (filter (\<lambda>r. fl_ms r = m) (flatLogs date_ms sts))
      = filter (\<lambda>e. (case date_ms (ts e) of None \<Rightarrow> 0 | Some k \<Rightarrow> k) = m) (concat (map entries sts))"
  proof -
    have "filter (\<lambda>r. fl_ms r = m) (flatLogs date_ms sts) = filter (\<lambda>r. fl_ms r = m) (map ?f ?ps)"
      using sort_key_stable [of "\<lambda>r. - fl_ms r" "- m" "map ?f ?ps"] by (simp add: flatLogs_def)
    moreover have "(fl_ms (?f q) = m) = ((case date_ms (ts (fl_entry (?f q))) of None \<Rightarrow> 0 | Some k \<Rightarrow> k) = m)" for q
      by (simp add: flat_row_def case_prod_unfold)
    ultimately show ?thesis unfolding e [symmetric]
      by (simp add: filter_map comp_def)
  qed
  ultimately show ?thesis
    using ms [of fl_entry] e by (simp add: flatLogs_def)
qed

text \<open>
  The filters show what is chosen: with some but not all levels and containers chosen, the
  rows are those of a chosen level and a chosen container; with none or all of the options
  chosen a filter hides nothing.
\<close>

theorem filters_show_chosen:
  assumes "distinct ls" and "set ls \<subseteq> set (options_of fl_level rows)" and "ls \<noteq> []"
  shows "filteredRows rows (choose_levels ls (t\<lparr>containerFilter := []\<rparr>))
      = filter (\<lambda>r. fl_level r \<in> set ls \<or> set ls = set (options_of fl_level rows)) rows
    \<and> filteredRows rows (choose_levels [] (t\<lparr>containerFilter := []\<rparr>)) = rows"
proof -
  have "distinct (options_of fl_level rows)" by (simp add: options_of_def)
  with assms have "length ls < length (options_of fl_level rows) \<longleftrightarrow> set ls \<noteq> set (options_of fl_level rows)"
    by (metis distinct_card finite_set less_irrefl psubset_card_mono psubsetI)
  with assms(3) show ?thesis
    by (auto simp: filteredRows_def choose_levels_def row_passes_def intro!: filter_cong)
qed

lemma filters_show_chosen_witness:
  "let rows = map (\<lambda>l. \<lparr>fl_entry = \<lparr>ts = [], line = l, structured = None\<rparr>, fl_id = l, fl_labels = [], fl_level = l,
        fl_service = [], fl_container = [], fl_host = [], fl_job = [], fl_ms = 0\<rparr>) [''info'', ''error'']
   in map fl_level (filteredRows rows (choose_levels [''error''] (log_table_start\<lparr>containerFilter := []\<rparr>))) = [''error'']"
  unfolding Let_def
  by (subst filters_show_chosen [THEN conjunct1]) (simp_all add: options_of_def)

text \<open>
  A choice does not last: when new lines come, or the query is run again, the filters take
  every option that was left out as a newly found one, so nothing is filtered any more, and the
  rows loaded beyond the first page are hidden again.
\<close>

theorem new_lines_undo_filters:
  "filteredRows rows (new_streams rows t) = rows
   \<and> set (levelFilter (new_streams rows t)) = set (options_of fl_level rows)
   \<and> visibleRows rows (new_streams rows t) = take PAGE_SIZE rows"
  by (simp add: visibleRows_def filteredRows_def new_streams_def row_passes_def withDefaults_length withDefaults_set)

lemma load_more_filters: "filteredRows rows (load_more rows t) = filteredRows rows t"
  by (simp add: load_more_def filteredRows_def)

lemma load_more_count:
  "filteredRows rows ((load_more rows ^^ n) t) = filteredRows rows t
   \<and> min (length (filteredRows rows t)) (n * PAGE_SIZE) \<le> visibleCount ((load_more rows ^^ n) t)"
proof (induction n)
  case (Suc n)
  let ?t = "(load_more rows ^^ n) t"
  have "visibleCount (load_more rows ?t) =
      (if visibleCount ?t < length (filteredRows rows ?t) then visibleCount ?t + PAGE_SIZE else visibleCount ?t)"
    by (simp add: load_more_def)
  with Suc show ?case by (auto simp: load_more_filters min_def split: if_splits)
qed simp

text \<open>Loading more shows more: enough of it shows every row that passes the filters.\<close>

theorem load_more_reaches_all:
  "visibleRows rows ((load_more rows ^^ (length rows div PAGE_SIZE + 1)) t) = filteredRows rows t"
proof -
  let ?n = "length rows div PAGE_SIZE + 1"
  have "length (filteredRows rows t) \<le> length rows" by (simp add: filteredRows_def)
  also have "length rows \<le> ?n * PAGE_SIZE"
    using div_mult_mod_eq [of "length rows" PAGE_SIZE] mod_less_divisor [of PAGE_SIZE "length rows"]
    by (simp add: PAGE_SIZE_def)
  finally show ?thesis
    using load_more_count [of rows ?n t] by (simp add: visibleRows_def)
qed

end
