(* ===== verification/System_Settings.thy ===== *)
theory System_Settings
  imports Prelude "HOL-Library.Word"
begin

text \<open>
  The system settings: the general tab (\<^verbatim>\<open>pages/admin/SettingsPage.tsx\<close>) and the settings and
  switches of the modules (\<^verbatim>\<open>components/ModulesTab.tsx\<close>). Both pages load the schema and the
  values, keep edited values, save one setting at a time and load again. \<open>num\<close> is the value
  \<open>Number\<close> gives for a text, \<open>json_parse\<close> and \<open>stringify\<close> are those of the engine.
\<close>

subsection \<open>The schema\<close>

datatype setting_type = TString | TInt | TBool | TSecret | TJson | TEnum

datatype apply_scope = LiveReload | ServiceRestart | StackRecreate

record setting =
  skey :: string
  stype :: setting_type
  category :: string
  sgroup :: string
  slabel :: string
  description :: string
  is_secret :: bool
  dflt :: json
  scope :: apply_scope
  service_targets :: "string list"
  protected_setting :: bool
  enum_values :: "string list"

record setting_value =
  sv_secret :: bool
  sv_configured :: "bool option"
  sv_value :: "json option"
  sv_masked :: "string option"

subsection \<open>Which page shows a setting\<close>

definition isPiiSettingKey :: "string \<Rightarrow> bool" where
  "isPiiSettingKey k = starts_with k ''llm_port_api.pii_''"

definition isMailerSettingKey :: "string \<Rightarrow> bool" where
  "isMailerSettingKey k = starts_with k ''llm_port_mailer.''"

definition isMcpSettingKey :: "string \<Rightarrow> bool" where
  "isMcpSettingKey k = (starts_with k ''llm_port_api.mcp_'' \<or> starts_with k ''llm_port_mcp.'')"

definition isSkillsSettingKey :: "string \<Rightarrow> bool" where
  "isSkillsSettingKey k = (starts_with k ''llm_port_api.skills_'' \<or> starts_with k ''llm_port_skills.'')"

definition isRagLiteSettingKey :: "string \<Rightarrow> bool" where
  "isRagLiteSettingKey k = (starts_with k ''llm_port_api.rag_lite_'' \<or> starts_with k ''llm_port_rag.'')"

definition explicitModuleFlags :: "string list" where
  "explicitModuleFlags =
    [''llm_port_api.pii_enabled'', ''llm_port_api.mailer_enabled'', ''llm_port_api.mcp_enabled'',
     ''llm_port_api.skills_enabled'', ''llm_port_api.rag_lite_enabled'', ''llm_port_pii.enabled'',
     ''llm_port_mailer.enabled'', ''llm_port_mcp.enabled'', ''llm_port_skills.enabled'', ''llm_port_rag.enabled'']"

definition ends_with :: "string \<Rightarrow> string \<Rightarrow> bool" where
  "ends_with s e = starts_with (rev s) (rev e)"

text \<open>The pattern \<open>/(?:^|\.)(pii|mailer|mcp|skills|rag_lite)_enabled$/\<close>.\<close>

definition isModuleEnableFlag :: "string \<Rightarrow> bool" where
  "isModuleEnableFlag k =
     (k \<in> set explicitModuleFlags
      \<or> list_ex (\<lambda>m. k = m @ ''_enabled'' \<or> ends_with k (''.'' @ m @ ''_enabled''))
          [''pii'', ''mailer'', ''mcp'', ''skills'', ''rag_lite''])"

definition module_key :: "string \<Rightarrow> string \<Rightarrow> bool" where
  "module_key m k =
     (if m = ''pii'' then isPiiSettingKey k
      else if m = ''mailer'' then isMailerSettingKey k
      else if m = ''mcp'' then isMcpSettingKey k
      else if m = ''skills'' then isSkillsSettingKey k
      else if m = ''rag_lite'' then isRagLiteSettingKey k
      else False)"

definition moduleSettingsFor :: "string \<Rightarrow> setting list \<Rightarrow> setting list" where
  "moduleSettingsFor m schema = filter (\<lambda>i. module_key m (skey i) \<and> \<not> isModuleEnableFlag (skey i)) schema"

definition visibleSchema :: "setting list \<Rightarrow> setting list" where
  "visibleSchema schema =
     filter (\<lambda>i. \<not> isPiiSettingKey (skey i) \<and> \<not> isMailerSettingKey (skey i) \<and> to_lower (category i) \<noteq> ''modules'') schema"





subsection \<open>Editing\<close>

record settings_page =
  schema :: "setting list"
  values_of :: "string \<Rightarrow> json option"
  secretMasked :: "string \<Rightarrow> string option"
  loading :: bool
  busyKey :: "string option"
  statusMessage :: "string option"
  failure :: "string option"

definition settings_start :: settings_page where
  "settings_start = \<lparr>schema = [], values_of = (\<lambda>k. None), secretMasked = (\<lambda>k. None), loading = False,
     busyKey = None, statusMessage = None, failure = None\<rparr>"

definition asInputValue :: "(json \<Rightarrow> string) \<Rightarrow> json option \<Rightarrow> string" where
  "asInputValue stringify v =
     (case v of
        None \<Rightarrow> []
      | Some JNull \<Rightarrow> []
      | Some (JString s) \<Rightarrow> s
      | Some (JNum n) \<Rightarrow> js_text (JNum n)
      | Some (JBool b) \<Rightarrow> js_text (JBool b)
      | Some w \<Rightarrow> stringify w)"

definition parse_setting :: "(string \<Rightarrow> json) \<Rightarrow> (string \<Rightarrow> json option) \<Rightarrow> string \<Rightarrow> setting_type \<Rightarrow> json" where
  "parse_setting num json_parse raw ty =
     (case ty of
        TInt \<Rightarrow> num raw
      | TBool \<Rightarrow> JBool (raw = ''true'')
      | TJson \<Rightarrow> (if trim raw \<noteq> [] then (case json_parse raw of Some v \<Rightarrow> v | None \<Rightarrow> JString raw) else JObject [])
      | _ \<Rightarrow> JString raw)"

definition setLocalValue ::
  "(string \<Rightarrow> json) \<Rightarrow> (string \<Rightarrow> json option) \<Rightarrow> string \<Rightarrow> string \<Rightarrow> setting_type \<Rightarrow> settings_page \<Rightarrow> settings_page" where
  "setLocalValue num json_parse key raw ty s =
     s\<lparr>values_of := (values_of s)(key \<mapsto> parse_setting num json_parse raw ty)\<rparr>"

definition switch_on :: "json option \<Rightarrow> bool" where
  "switch_on v = (v = Some (JBool True) \<or> v = Some (JString ''true''))"

definition set_switch :: "string \<Rightarrow> bool \<Rightarrow> settings_page \<Rightarrow> settings_page" where
  "set_switch key b s = s\<lparr>values_of := (values_of s)(key \<mapsto> JBool b)\<rparr>"

subsection \<open>Loading and saving\<close>

definition nullish_or :: "json option \<Rightarrow> json \<Rightarrow> json" where
  "nullish_or v d = (case v of None \<Rightarrow> d | Some JNull \<Rightarrow> d | Some w \<Rightarrow> w)"

definition loaded_value :: "(string \<Rightarrow> setting_value option) \<Rightarrow> setting \<Rightarrow> json" where
  "loaded_value items i =
     (case items (skey i) of
        None \<Rightarrow> dflt i
      | Some v \<Rightarrow> if is_secret i then JString [] else nullish_or (sv_value v) (dflt i))"

definition load_sent :: "settings_page \<Rightarrow> settings_page" where
  "load_sent s = s\<lparr>loading := True, failure := None\<rparr>"

definition loaded_values :: "setting list \<Rightarrow> (string \<Rightarrow> setting_value option) \<Rightarrow> string \<Rightarrow> json option" where
  "loaded_values sch items = fold (\<lambda>i m. m(skey i \<mapsto> loaded_value items i)) sch (\<lambda>k. None)"

definition loaded_masks :: "setting list \<Rightarrow> (string \<Rightarrow> setting_value option) \<Rightarrow> string \<Rightarrow> string option" where
  "loaded_masks sch items =
     fold (\<lambda>i m. case items (skey i) of
             Some v \<Rightarrow> if is_secret i
                       then m(skey i \<mapsto> (case sv_masked v of None \<Rightarrow> [] | Some t \<Rightarrow> t)) else m
           | None \<Rightarrow> m) sch (\<lambda>k. None)"

definition load_answered ::
  "string + setting list \<times> (string \<Rightarrow> setting_value option) \<Rightarrow> settings_page \<Rightarrow> settings_page" where
  "load_answered res s =
     (case res of
        Inl e \<Rightarrow> s\<lparr>failure := Some e\<rparr>
      | Inr (sch, items) \<Rightarrow>
          s\<lparr>schema := sch, values_of := loaded_values sch items, secretMasked := loaded_masks sch items\<rparr>)
     \<lparr>loading := False\<rparr>"

text \<open>What is sent: the key and the value, which is left out of the body when it is undefined.\<close>

definition save_sent :: "setting \<Rightarrow> json option \<Rightarrow> settings_page \<Rightarrow> settings_page \<times> (string \<times> json option)" where
  "save_sent i overrideValue s =
     (s\<lparr>busyKey := Some (skey i), statusMessage := None, failure := None\<rparr>,
      (skey i, case overrideValue of None \<Rightarrow> values_of s (skey i) | Some JNull \<Rightarrow> values_of s (skey i) | Some v \<Rightarrow> Some v))"

text \<open>The answer with its status and scope, or the message of the failure; then loading starts again.\<close>

definition save_answered :: "setting \<Rightarrow> string + string \<times> string \<Rightarrow> settings_page \<Rightarrow> settings_page" where
  "save_answered i res s =
     (let s = (case res of
                 Inr (status, sc) \<Rightarrow>
                   (let s = s\<lparr>statusMessage := Some (slabel i @ '': '' @ status @ '' ('' @ sc @ '')'')\<rparr>
                    in if is_secret i then s\<lparr>values_of := (values_of s)(skey i \<mapsto> JString [])\<rparr> else s)
               | Inl e \<Rightarrow> s\<lparr>failure := Some e\<rparr>)
      in load_sent (s\<lparr>busyKey := None\<rparr>))"

subsection \<open>Secrets\<close>

definition alphabet :: string where
  "alphabet = ''ABCDEFGHIJKLMNOPQRSTUVWXYZabcdefghijklmnopqrstuvwxyz0123456789-_''"

definition token_char :: "8 word \<Rightarrow> char" where
  "token_char b = alphabet ! (unat b mod length alphabet)"

definition generateSecureToken :: "8 word list \<Rightarrow> string" where
  "generateSecureToken bytes = map token_char bytes"

subsection \<open>Switching modules\<close>

record modules_tab =
  busy_module :: "string option"
  actionError :: "string option"
  actionSuccess :: "(string \<times> bool) option"
  confirmDialog :: "(string \<times> bool) option"

definition handleToggle :: "string \<Rightarrow> bool \<Rightarrow> modules_tab \<Rightarrow> modules_tab" where
  "handleToggle m enable s = s\<lparr>confirmDialog := Some (m, enable)\<rparr>"

definition cancel_dialog :: "modules_tab \<Rightarrow> modules_tab" where
  "cancel_dialog s = s\<lparr>confirmDialog := None\<rparr>"

definition confirmAction :: "modules_tab \<Rightarrow> modules_tab \<times> (string \<times> bool) list" where
  "confirmAction s =
     (case confirmDialog s of
        None \<Rightarrow> (s, [])
      | Some (m, enable) \<Rightarrow>
          (s\<lparr>confirmDialog := None, busy_module := Some m, actionError := None, actionSuccess := None\<rparr>,
           [(m, enable)]))"

text \<open>The answer is the list of errors of the containers; then the services are loaded again.\<close>

definition action_answered :: "string \<Rightarrow> bool \<Rightarrow> string + string list \<Rightarrow> modules_tab \<Rightarrow> modules_tab" where
  "action_answered m enable res s =
     (case res of
        Inl e \<Rightarrow> s\<lparr>actionError := Some e\<rparr>
      | Inr errors \<Rightarrow>
          if length errors > 0 then s\<lparr>actionError := Some (join ''; '' errors)\<rparr>
          else s\<lparr>actionSuccess := Some (m, enable)\<rparr>)\<lparr>busy_module := None\<rparr>"

definition switch_enabled :: "string \<Rightarrow> modules_tab \<Rightarrow> bool" where
  "switch_enabled m s = (busy_module s \<noteq> Some m)"

subsection \<open>Lemmas\<close>

lemma prefixes_comparable: "starts_with s p \<Longrightarrow> starts_with s q \<Longrightarrow> starts_with p q \<or> starts_with q p"
  unfolding js_string by (metis prefix_same_cases)

lemmas module_keys = isPiiSettingKey_def isMailerSettingKey_def isMcpSettingKey_def
  isSkillsSettingKey_def isRagLiteSettingKey_def

lemma module_prefix_unique:
  assumes "list_ex (starts_with k) ps" and "list_ex (starts_with k) qs"
    and "list_all (\<lambda>p. list_all (\<lambda>q. \<not> starts_with p q \<and> \<not> starts_with q p) qs) ps"
  shows False
proof -
  from assms(1) obtain p where p: "p \<in> set ps" "starts_with k p" by (auto simp: list_ex_iff)
  from assms(2) obtain q where q: "q \<in> set qs" "starts_with k q" by (auto simp: list_ex_iff)
  with p assms(3) prefixes_comparable [of k p q] show False by (auto simp: list_all_iff)
qed

definition module_prefixes :: "string \<Rightarrow> string list" where
  "module_prefixes m =
     (if m = ''pii'' then [''llm_port_api.pii_'']
      else if m = ''mailer'' then [''llm_port_mailer.'']
      else if m = ''mcp'' then [''llm_port_api.mcp_'', ''llm_port_mcp.'']
      else if m = ''skills'' then [''llm_port_api.skills_'', ''llm_port_skills.'']
      else if m = ''rag_lite'' then [''llm_port_api.rag_lite_'', ''llm_port_rag.'']
      else [])"

definition module_names :: "string list" where
  "module_names = [''pii'', ''mailer'', ''mcp'', ''skills'', ''rag_lite'']"

lemma module_key_prefixes: "module_key m k = list_ex (starts_with k) (module_prefixes m)"
  by (simp add: module_key_def module_prefixes_def module_keys)

lemma module_prefixes_apart:
  assumes "m \<noteq> m'"
  shows "list_all (\<lambda>p. list_all (\<lambda>q. \<not> starts_with p q \<and> \<not> starts_with q p) (module_prefixes m')) (module_prefixes m)"
proof -
  have table: "list_all (\<lambda>a. list_all (\<lambda>b. a \<noteq> b \<longrightarrow>
      list_all (\<lambda>p. list_all (\<lambda>q. \<not> starts_with p q \<and> \<not> starts_with q p) (module_prefixes b)) (module_prefixes a)) module_names) module_names"
    by code_simp
  have "k \<in> set module_names \<or> module_prefixes k = []" for k
    by (simp add: module_prefixes_def module_names_def)
  then consider "module_prefixes m = []" | "module_prefixes m' = []"
    | "m \<in> set module_names" "m' \<in> set module_names"
    by metis
  then show ?thesis
  proof cases
    case 3
    have "list_all (\<lambda>b. m \<noteq> b \<longrightarrow>
      list_all (\<lambda>p. list_all (\<lambda>q. \<not> starts_with p q \<and> \<not> starts_with q p) (module_prefixes b)) (module_prefixes m)) module_names"
      using list_all_iff [THEN iffD1, OF table] 3(1) by (rule bspec)
    with 3(2) assms show ?thesis
      by (simp add: list_all_iff)
  next
    case 2
    then show ?thesis by (simp add: list_all_iff)
  qed simp
qed

lemma module_key_unique: "module_key m k \<Longrightarrow> module_key m' k \<Longrightarrow> m = m'"
  using module_prefix_unique [of k "module_prefixes m" "module_prefixes m'"] module_prefixes_apart [of m m']
  by (auto simp: module_key_prefixes)



lemma loaded_values_of:
  "distinct (map skey sch) \<Longrightarrow> i \<in> set sch \<Longrightarrow> loaded_values sch items (skey i) = Some (loaded_value items i)"
proof -
  have other: "k \<notin> skey ` set sch \<Longrightarrow> fold (\<lambda>i m. m(skey i \<mapsto> loaded_value items i)) sch m k = m k" for k m and sch :: "setting list"
    by (induction sch arbitrary: m) auto
  have "distinct (map skey sch) \<Longrightarrow> i \<in> set sch \<Longrightarrow>
      fold (\<lambda>i m. m(skey i \<mapsto> loaded_value items i)) sch m (skey i) = Some (loaded_value items i)" for m
    by (induction sch arbitrary: m) (auto simp: other)
  then show "distinct (map skey sch) \<Longrightarrow> i \<in> set sch \<Longrightarrow> loaded_values sch items (skey i) = Some (loaded_value items i)"
    by (simp add: loaded_values_def)
qed

subsection \<open>Properties\<close>

text \<open>
  A setting belongs to one module at most, a module's page shows exactly its settings but
  never the switch that enables it, and the settings of PII and mail are never on the general
  tab.
\<close>

theorem module_settings_split:
  "(m \<noteq> m') \<le> (set (moduleSettingsFor m sch) \<inter> set (moduleSettingsFor m' sch) = {})
   \<and> list_all (\<lambda>i. \<not> isModuleEnableFlag (skey i) \<and> module_key m (skey i)) (moduleSettingsFor m sch)
   \<and> (m \<in> {''pii'', ''mailer''}) \<le> (set (moduleSettingsFor m sch) \<inter> set (visibleSchema sch) = {})"
proof -
  have "\<not> (module_key m k \<and> module_key m' k)" if "m \<noteq> m'" for k
    using that module_key_unique by blast
  moreover have "isPiiSettingKey k \<or> isMailerSettingKey k" if "m \<in> {''pii'', ''mailer''}" "module_key m k" for k
    using that by (auto simp only: module_key_def insert_iff empty_iff split: if_splits)
  ultimately show ?thesis
    unfolding moduleSettingsFor_def visibleSchema_def list_all_iff le_bool_def by fastforce
qed




definition demo_setting :: "string \<Rightarrow> setting" where
  "demo_setting k = \<lparr>skey = k, stype = TString, category = ''general'', sgroup = ''ui'', slabel = k,
     description = [], is_secret = False, dflt = JString ''old'', scope = LiveReload,
     service_targets = [], protected_setting = False, enum_values = []\<rparr>"


text \<open>
  A failed save is not reported: loading starts again at once and clears the message, so
  the page shows neither an error nor a success, whatever the message was.
\<close>

theorem failed_save_unreported:
  "failure (save_answered i (Inl e) s) = None
   \<and> failure (load_answered (Inr r) (save_answered i (Inl e) s)) = None
   \<and> statusMessage (load_answered (Inr r) (save_answered i (Inl e) (fst (save_sent i ov s)))) = None"
  by (cases r) (simp add: save_answered_def load_sent_def load_answered_def save_sent_def Let_def)

text \<open>
  Saving one setting discards the edits of all others: after the save, whatever it gave, the
  page has the values of the server, the ones that were edited and not saved included.
\<close>

theorem save_discards_other_edits:
  assumes "distinct (map skey sch)" and "j \<in> set sch"
  shows "values_of (load_answered (Inr (sch, items)) (save_answered i res s)) (skey j) = Some (loaded_value items j)"
  using loaded_values_of [OF assms] by (simp add: load_answered_def)

lemma save_discards_other_edits_witness:
  "values_of (load_answered (Inr ([demo_setting ''a'', demo_setting ''b''], (\<lambda>k. None)))
     (save_answered (demo_setting ''a'') (Inr (''ok'', ''live_reload''))
        (setLocalValue JString (\<lambda>t. None) ''b'' ''typed'' TString settings_start))) ''b'' = Some (JString ''old'')"
  using save_discards_other_edits [of "[demo_setting ''a'', demo_setting ''b'']" "demo_setting ''b''"]
  by (simp add: demo_setting_def loaded_value_def)

text \<open>
  What is typed is what the field shows next: a text, a choice or a secret always, a whole
  number in decimal notation, the two values of a switch, and a JSON text that cannot be parsed.
\<close>

theorem typed_setting_shown:
  assumes "num (show_int n) = JNum n"
  shows "asInputValue stringify (values_of (setLocalValue num json_parse k raw TString s) k) = raw
    \<and> asInputValue stringify (values_of (setLocalValue num json_parse k raw TSecret s) k) = raw
    \<and> asInputValue stringify (values_of (setLocalValue num json_parse k raw TEnum s) k) = raw
    \<and> asInputValue stringify (values_of (setLocalValue num json_parse k (show_int n) TInt s) k) = show_int n
    \<and> switch_on (values_of (set_switch k b s) k) = b
    \<and> (json_parse raw = None \<and> trim raw \<noteq> [])
        \<le> (asInputValue stringify (values_of (setLocalValue num json_parse k raw TJson s) k) = raw)"
  using assms by (simp add: asInputValue_def setLocalValue_def parse_setting_def switch_on_def set_switch_def)

lemma typed_setting_shown_witness:
  "asInputValue js_text (values_of (setLocalValue (\<lambda>t. JNum (int (digits_value t))) (\<lambda>t. None) ''k'' (show_int 42) TInt settings_start) ''k'')
     = show_int 42"
  using typed_setting_shown [of "\<lambda>t. JNum (int (digits_value t))" 42]
  by (simp add: show_int_def digits_value_show)

text \<open>
  A generated secret is as long as its random bytes, made of the alphabet, and every
  character of it stands for exactly four of the 256 bytes, so none is more likely.
\<close>

theorem token_uniform:
  "length (generateSecureToken bs) = length bs \<and> set (generateSecureToken bs) \<subseteq> set alphabet
   \<and> distinct alphabet \<and> map (\<lambda>n. token_char (word_of_nat n)) [0..<256] = concat (replicate 4 alphabet)"
proof -
  have "length alphabet = 64" by code_simp
  then have "token_char b \<in> set alphabet" for b by (simp add: token_char_def)
  moreover have "distinct alphabet" by code_simp
  moreover have "map (\<lambda>n. token_char (word_of_nat n)) [0..<256] = concat (replicate 4 alphabet)"
    by code_simp
  ultimately show ?thesis by (auto simp: generateSecureToken_def)
qed

text \<open>
  A module is started or stopped only after its dialog was confirmed, and then the outcome is
  reported, a success only when no container had an error; but the page knows one busy module
  only: while a second one is switched, the switch of the first is free again.
\<close>

theorem module_action_reported:
  "snd (confirmAction (handleToggle m b s)) = [(m, b)] \<and> snd (confirmAction (cancel_dialog s)) = []
   \<and> \<not> switch_enabled m (fst (confirmAction (handleToggle m b s)))
   \<and> (let s' = action_answered m b res (fst (confirmAction (handleToggle m b s)))
      in (actionSuccess s' = Some (m, b)) = (res = Inr []) \<and> (actionError s' = None) = (res = Inr []))
   \<and> (m \<noteq> m') \<le> switch_enabled m (fst (confirmAction (handleToggle m' b' (fst (confirmAction (handleToggle m b s))))))"
  by (auto simp: confirmAction_def handleToggle_def cancel_dialog_def action_answered_def switch_enabled_def Let_def
      split: sum.splits)

end
