(* ===== verification/Pii_Admin.thy ===== *)
theory Pii_Admin
  imports Pii_Policy
begin

text \<open>
  The administration of privacy policies: the normalisation of what the server sends
  (\<^verbatim>\<open>api/pii.ts\<close>), the form that edits a policy (\<^verbatim>\<open>components/PiiPolicyForm.tsx\<close>) and the
  page of the tenants (\<^verbatim>\<open>pages/admin/pii/PIITenantPoliciesPage.tsx\<close>). \<open>num\<close> is the value that
  \<open>Number\<close> gives for a value that is not a number, \<open>None\<close> if it is not finite.
\<close>

subsection \<open>Values of any shape\<close>

datatype wire =
    WNull
  | WBool bool
  | WNum rat
  | WText string
  | WList "wire list"
  | WObj "(string \<times> wire) list"

fun wire_get :: "wire \<Rightarrow> string \<Rightarrow> wire option" where
  "wire_get (WObj kvs) k = map_of kvs k"
| "wire_get _ k = None"

fun wire_true :: "wire option \<Rightarrow> bool" where
  "wire_true None = False"
| "wire_true (Some WNull) = False"
| "wire_true (Some (WBool b)) = b"
| "wire_true (Some (WNum q)) = (q \<noteq> 0)"
| "wire_true (Some (WText s)) = (s \<noteq> [])"
| "wire_true (Some _) = True"

text \<open>\<open>raw.section ?? {}\<close>.\<close>

definition wire_section :: "wire \<Rightarrow> string \<Rightarrow> wire" where
  "wire_section raw k = (case wire_get raw k of None \<Rightarrow> WObj [] | Some WNull \<Rightarrow> WObj [] | Some w \<Rightarrow> w)"

record pii_options =
  po_from_service :: bool
  po_entities :: "string list"
  po_languages :: "string list"
  po_sanitize_modes :: "string list"
  po_telemetry_modes :: "telemetry_mode list"
  po_egress_modes :: "egress_mode list"
  po_fail_actions :: "fail_action list"
  po_language :: string
  po_threshold :: "rat option"

subsection \<open>Normalisation\<close>

definition clamp :: "rat \<Rightarrow> rat" where
  "clamp q = max 0 (min 1 q)"

definition defaultPolicyFromOptions :: "pii_options option \<Rightarrow> pii_config" where
  "defaultPolicyFromOptions opts =
     (let defaultLanguage = (case opts of None \<Rightarrow> ''en'' | Some p \<Rightarrow> if po_language p \<noteq> [] then po_language p else ''en'');
          defaultThreshold = (case Option.bind opts po_threshold of Some q \<Rightarrow> q | None \<Rightarrow> 6 / 10)
      in \<lparr>telemetry = \<lparr>t_enabled = False, t_mode = Sanitized, t_store_raw = False\<rparr>,
          egress = \<lparr>g_cloud = True, g_local = False, g_mode = Redact, g_fail = Block\<rparr>,
          presidio = \<lparr>d_language = defaultLanguage, d_threshold = clamp defaultThreshold, d_entities = []\<rparr>\<rparr>)"

definition threshold_num :: "(wire \<Rightarrow> rat option) \<Rightarrow> rat \<Rightarrow> wire option \<Rightarrow> rat option" where
  "threshold_num num d w =
     (case w of None \<Rightarrow> Some d | Some WNull \<Rightarrow> Some d | Some (WNum q) \<Rightarrow> Some q | Some v \<Rightarrow> num v)"

definition wire_texts :: "wire option \<Rightarrow> string list" where
  "wire_texts w =
     (case w of
        Some (WList ws) \<Rightarrow> List.map_filter (\<lambda>v. case v of WText s \<Rightarrow> Some s | _ \<Rightarrow> None) ws
      | _ \<Rightarrow> [])"

definition normalizePIIPolicy ::
  "(wire \<Rightarrow> rat option) \<Rightarrow> wire option \<Rightarrow> pii_options option \<Rightarrow> pii_config" where
  "normalizePIIPolicy num v opts =
     (let defaults = defaultPolicyFromOptions opts
      in if \<not> (case v of Some (WList ws) \<Rightarrow> True | Some (WObj kvs) \<Rightarrow> True | _ \<Rightarrow> False) then defaults
         else let raw = the v;
                  te = wire_section raw ''telemetry'';
                  eg = wire_section raw ''egress'';
                  pr = wire_section raw ''presidio''
              in \<lparr>telemetry = \<lparr>t_enabled = wire_true (wire_get te ''enabled''),
                    t_mode = (if wire_get te ''mode'' = Some (WText ''metrics_only'') then MetricsOnly else Sanitized),
                    t_store_raw = wire_true (wire_get te ''store_raw'')\<rparr>,
                  egress = \<lparr>g_cloud = wire_true (wire_get eg ''enabled_for_cloud''),
                    g_local = wire_true (wire_get eg ''enabled_for_local''),
                    g_mode = (if wire_get eg ''mode'' = Some (WText ''tokenize_reversible'')
                              then TokenizeReversible else Redact),
                    g_fail = (if wire_get eg ''fail_action'' = Some (WText ''allow'') then Allow
                              else if wire_get eg ''fail_action'' = Some (WText ''fallback_to_local'')
                              then FallbackToLocal else Block)\<rparr>,
                  presidio = \<lparr>d_language =
                      (case wire_get pr ''language'' of
                         Some (WText s) \<Rightarrow> if s \<noteq> [] then s else d_language (presidio defaults)
                       | _ \<Rightarrow> d_language (presidio defaults)),
                    d_threshold =
                      (case threshold_num num (d_threshold (presidio defaults)) (wire_get pr ''threshold'') of
                         Some q \<Rightarrow> clamp q
                       | None \<Rightarrow> d_threshold (presidio defaults)),
                    d_entities = wire_texts (wire_get pr ''entities'')\<rparr>\<rparr>)"

subsection \<open>The form\<close>

definition selectedEntities :: "pii_options option \<Rightarrow> pii_config \<Rightarrow> string list" where
  "selectedEntities opts p =
     (case opts of None \<Rightarrow> d_entities (presidio p)
      | Some po \<Rightarrow> filter (\<lambda>e. e \<in> set (po_entities po)) (d_entities (presidio p)))"

definition legacyEntities :: "pii_options option \<Rightarrow> pii_config \<Rightarrow> string list" where
  "legacyEntities opts p =
     (case opts of None \<Rightarrow> []
      | Some po \<Rightarrow> filter (\<lambda>e. e \<notin> set (po_entities po)) (d_entities (presidio p)))"

definition availableEntities :: "pii_options option \<Rightarrow> pii_config \<Rightarrow> string list" where
  "availableEntities opts p =
     filter (\<lambda>e. e \<notin> set (selectedEntities opts p)) (case opts of None \<Rightarrow> [] | Some po \<Rightarrow> po_entities po)"

text \<open>The effect that keeps the entity to add among those on offer.\<close>

definition entity_effect :: "pii_options option \<Rightarrow> pii_config \<Rightarrow> string \<Rightarrow> string" where
  "entity_effect opts p entityToAdd =
     (if entityToAdd \<notin> set (availableEntities opts p)
      then (case availableEntities opts p of [] \<Rightarrow> [] | e # es \<Rightarrow> e) else entityToAdd)"

definition patch_policy ::
  "telemetry_policy option \<Rightarrow> egress_policy option \<Rightarrow> presidio_policy option \<Rightarrow> pii_config \<Rightarrow> pii_config" where
  "patch_policy te eg pr p =
     \<lparr>telemetry = (case te of None \<Rightarrow> telemetry p | Some t \<Rightarrow> t),
      egress = (case eg of None \<Rightarrow> egress p | Some g \<Rightarrow> g),
      presidio = (case pr of None \<Rightarrow> presidio p | Some d \<Rightarrow> d)\<rparr>"

definition setEntities :: "pii_options option \<Rightarrow> string list \<Rightarrow> pii_config \<Rightarrow> pii_config" where
  "setEntities opts nextKnown p =
     patch_policy None None (Some ((presidio p)\<lparr>d_entities := unique (nextKnown @ legacyEntities opts p)\<rparr>)) p"

definition addEntity :: "pii_options option \<Rightarrow> string \<Rightarrow> pii_config \<Rightarrow> pii_config" where
  "addEntity opts entityToAdd p =
     (if entityToAdd = [] \<or> entityToAdd \<in> set (selectedEntities opts p) then p
      else setEntities opts (selectedEntities opts p @ [entityToAdd]) p)"

definition removeEntity :: "pii_options option \<Rightarrow> string \<Rightarrow> pii_config \<Rightarrow> pii_config" where
  "removeEntity opts e p = setEntities opts (filter (\<lambda>i. i \<noteq> e) (selectedEntities opts p)) p"

text \<open>The controls of the form; the text of the threshold is read by \<open>Number\<close>.\<close>

datatype form_edit =
    EditTelemetry bool
  | EditTelemetryMode telemetry_mode
  | EditStoreRaw bool
  | EditCloud bool
  | EditLocal bool
  | EditEgressMode egress_mode
  | EditFailAction fail_action
  | EditLanguage string
  | EditThreshold string
  | AddEntity string
  | RemoveEntity string

fun apply_edit :: "(wire \<Rightarrow> rat option) \<Rightarrow> pii_options option \<Rightarrow> form_edit \<Rightarrow> pii_config \<Rightarrow> pii_config" where
  "apply_edit num opts (EditTelemetry b) p = patch_policy (Some ((telemetry p)\<lparr>t_enabled := b\<rparr>)) None None p"
| "apply_edit num opts (EditTelemetryMode m) p = patch_policy (Some ((telemetry p)\<lparr>t_mode := m\<rparr>)) None None p"
| "apply_edit num opts (EditStoreRaw b) p = patch_policy (Some ((telemetry p)\<lparr>t_store_raw := b\<rparr>)) None None p"
| "apply_edit num opts (EditCloud b) p = patch_policy None (Some ((egress p)\<lparr>g_cloud := b\<rparr>)) None p"
| "apply_edit num opts (EditLocal b) p = patch_policy None (Some ((egress p)\<lparr>g_local := b\<rparr>)) None p"
| "apply_edit num opts (EditEgressMode m) p = patch_policy None (Some ((egress p)\<lparr>g_mode := m\<rparr>)) None p"
| "apply_edit num opts (EditFailAction a) p = patch_policy None (Some ((egress p)\<lparr>g_fail := a\<rparr>)) None p"
| "apply_edit num opts (EditLanguage l) p = patch_policy None None (Some ((presidio p)\<lparr>d_language := l\<rparr>)) p"
| "apply_edit num opts (EditThreshold t) p =
     patch_policy None None (Some ((presidio p)\<lparr>d_threshold :=
       (case num (WText t) of Some q \<Rightarrow> clamp q | None \<Rightarrow> 0)\<rparr>)) p"
| "apply_edit num opts (AddEntity e) p = addEntity opts e p"
| "apply_edit num opts (RemoveEntity e) p = removeEntity opts e p"

text \<open>What the controls offer: the languages of the options, the entities on offer, the chips.\<close>

definition edit_offered :: "pii_options option \<Rightarrow> pii_config \<Rightarrow> form_edit \<Rightarrow> bool" where
  "edit_offered opts p ed =
     (case ed of
        EditLanguage l \<Rightarrow> l \<in> set (case opts of None \<Rightarrow> [''en''] | Some po \<Rightarrow> po_languages po)
      | EditTelemetryMode m \<Rightarrow> m \<in> set (case opts of None \<Rightarrow> [Sanitized, MetricsOnly] | Some po \<Rightarrow> po_telemetry_modes po)
      | EditEgressMode m \<Rightarrow> m \<in> set (case opts of None \<Rightarrow> [Redact, TokenizeReversible] | Some po \<Rightarrow> po_egress_modes po)
      | EditFailAction a \<Rightarrow> a \<in> set (case opts of None \<Rightarrow> [Block, Allow, FallbackToLocal] | Some po \<Rightarrow> po_fail_actions po)
      | AddEntity e \<Rightarrow> e \<in> set (availableEntities opts p)
      | RemoveEntity e \<Rightarrow> e \<in> set (selectedEntities opts p)
      | _ \<Rightarrow> True)"

subsection \<open>The page of the tenants\<close>

record tenant_payload =
  tenant_id :: string
  has_override :: bool
  override_policy :: "wire option"
  default_policy :: "wire option"
  effective_policy :: "wire option"

text \<open>
  The fields after the messages are the requests in flight: the loads, the saved policies and
  the cleared tenants.
\<close>

record tenant_page =
  pii_opts :: "pii_options option"
  optionsLoading :: bool
  optionsError :: "string option"
  tenantQuery :: string
  tenantLoading :: bool
  tenantError :: "string option"
  tenantData :: "tenant_payload option"
  draftPolicy :: pii_config
  saving :: bool
  statusMessage :: "string option"
  loads_out :: "string list"
  saves_out :: "(string \<times> pii_config) list"
  clears_out :: "string list"

definition tenant_start :: "(wire \<Rightarrow> rat option) \<Rightarrow> tenant_page" where
  "tenant_start num = \<lparr>pii_opts = None, optionsLoading = True, optionsError = None, tenantQuery = [],
     tenantLoading = False, tenantError = None, tenantData = None,
     draftPolicy = normalizePIIPolicy num None None, saving = False, statusMessage = None,
     loads_out = [], saves_out = [], clears_out = []\<rparr>"

definition options_answered :: "string + pii_options \<Rightarrow> tenant_page \<Rightarrow> tenant_page" where
  "options_answered res s =
     (case res of Inr po \<Rightarrow> s\<lparr>pii_opts := Some po, optionsError := None\<rparr>
      | Inl e \<Rightarrow> s\<lparr>optionsError := Some e\<rparr>)\<lparr>optionsLoading := False\<rparr>"

definition type_tenant :: "string \<Rightarrow> tenant_page \<Rightarrow> tenant_page" where
  "type_tenant q s = s\<lparr>tenantQuery := q\<rparr>"

definition loadTenant :: "string \<Rightarrow> tenant_page \<Rightarrow> tenant_page" where
  "loadTenant tenantId s =
     (let trimmed = trim tenantId
      in if trimmed = [] then s
         else s\<lparr>tenantLoading := True, tenantError := None, statusMessage := None,
                loads_out := loads_out s @ [trimmed]\<rparr>)"

definition base_draft :: "(wire \<Rightarrow> rat option) \<Rightarrow> pii_options option \<Rightarrow> wire option list \<Rightarrow> pii_config" where
  "base_draft num opts policies =
     (case List.find (\<lambda>p. p \<noteq> None) policies of
        Some p \<Rightarrow> normalizePIIPolicy num p opts
      | None \<Rightarrow> normalizePIIPolicy num None opts)"

definition load_answered ::
  "(wire \<Rightarrow> rat option) \<Rightarrow> string \<Rightarrow> string + tenant_payload \<Rightarrow> tenant_page \<Rightarrow> tenant_page" where
  "load_answered num i res s =
     (case res of
        Inr d \<Rightarrow> s\<lparr>tenantData := Some d,
                   draftPolicy := base_draft num (pii_opts s) [override_policy d, default_policy d]\<rparr>
      | Inl e \<Rightarrow> s\<lparr>tenantError := Some e, tenantData := None\<rparr>)
     \<lparr>tenantLoading := False, loads_out := remove1 i (loads_out s)\<rparr>"

definition asked_tenant :: "tenant_page \<Rightarrow> string" where
  "asked_tenant s = (case tenantData s of Some d \<Rightarrow> tenant_id d | None \<Rightarrow> trim (tenantQuery s))"

definition saveOverride :: "tenant_page \<Rightarrow> tenant_page" where
  "saveOverride s =
     (if asked_tenant s = [] then s
      else s\<lparr>saving := True, tenantError := None, statusMessage := None,
             saves_out := saves_out s @ [(asked_tenant s, draftPolicy s)]\<rparr>)"

definition save_answered :: "string \<times> pii_config \<Rightarrow> string + tenant_payload \<Rightarrow> tenant_page \<Rightarrow> tenant_page" where
  "save_answered r res s =
     (case res of
        Inr d \<Rightarrow> s\<lparr>tenantData := Some d, statusMessage := Some ''Tenant override saved.''\<rparr>
      | Inl e \<Rightarrow> s\<lparr>tenantError := Some e\<rparr>)\<lparr>saving := False, saves_out := remove1 r (saves_out s)\<rparr>"

definition clearOverride :: "tenant_page \<Rightarrow> tenant_page" where
  "clearOverride s =
     (if asked_tenant s = [] then s
      else s\<lparr>saving := True, tenantError := None, statusMessage := None,
             clears_out := clears_out s @ [asked_tenant s]\<rparr>)"

definition clear_answered ::
  "(wire \<Rightarrow> rat option) \<Rightarrow> string \<Rightarrow> string + tenant_payload \<Rightarrow> tenant_page \<Rightarrow> tenant_page" where
  "clear_answered num i res s =
     (case res of
        Inr d \<Rightarrow> s\<lparr>tenantData := Some d, draftPolicy := base_draft num (pii_opts s) [default_policy d],
                   statusMessage := Some ''Tenant override cleared.''\<rparr>
      | Inl e \<Rightarrow> s\<lparr>tenantError := Some e\<rparr>)\<lparr>saving := False, clears_out := remove1 i (clears_out s)\<rparr>"

definition edit_draft :: "(wire \<Rightarrow> rat option) \<Rightarrow> form_edit \<Rightarrow> tenant_page \<Rightarrow> tenant_page" where
  "edit_draft num ed s = s\<lparr>draftPolicy := apply_edit num (pii_opts s) ed (draftPolicy s)\<rparr>"

subsection \<open>Suggestions of tenants\<close>

text \<open>
  The effect on the text of the tenant. \<open>sg_current\<close> is the number of the current effect, if its
  query is not blank; the answers of earlier ones are cancelled.
\<close>

record suggestions =
  sg_items :: "string list"
  sg_loading :: bool
  sg_current :: "nat option"
  sg_next :: nat

definition query_effect :: "string \<Rightarrow> suggestions \<Rightarrow> suggestions" where
  "query_effect tenantQ s =
     (if trim tenantQ = [] then s\<lparr>sg_items := [], sg_current := None\<rparr>
      else s\<lparr>sg_loading := True, sg_current := Some (sg_next s), sg_next := Suc (sg_next s)\<rparr>)"

definition suggestions_answered :: "nat \<Rightarrow> unit + string list \<Rightarrow> suggestions \<Rightarrow> suggestions" where
  "suggestions_answered i res s =
     (if sg_current s \<noteq> Some i then s
      else s\<lparr>sg_items := (case res of Inr items \<Rightarrow> items | Inl _ \<Rightarrow> []), sg_loading := False\<rparr>)"

subsection \<open>Lemmas\<close>

definition policy_ok :: "pii_config \<Rightarrow> bool" where
  "policy_ok p = (0 \<le> d_threshold (presidio p) \<and> d_threshold (presidio p) \<le> 1 \<and> d_language (presidio p) \<noteq> [])"

lemma clamp_bounds [simp]: "0 \<le> clamp q" "clamp q \<le> 1"
  by (simp_all add: clamp_def)

lemma clamp_id: "0 \<le> q \<Longrightarrow> q \<le> 1 \<Longrightarrow> clamp q = q"
  by (simp add: clamp_def)

lemma default_policy_ok: "policy_ok (defaultPolicyFromOptions opts)"
  by (simp add: policy_ok_def defaultPolicyFromOptions_def Let_def split: option.splits)

lemma normalize_ok: "policy_ok (normalizePIIPolicy num v opts)"
proof -
  have d: "0 \<le> d_threshold (presidio (defaultPolicyFromOptions opts))"
    "d_threshold (presidio (defaultPolicyFromOptions opts)) \<le> 1"
    "d_language (presidio (defaultPolicyFromOptions opts)) \<noteq> []"
    using default_policy_ok [of opts] by (simp_all add: policy_ok_def)
  then have "policy_ok (normalizePIIPolicy num (Some raw) opts)" for raw
    using default_policy_ok
    by (simp add: normalizePIIPolicy_def policy_ok_def Let_def split: option.splits wire.splits)
  then show ?thesis
    using default_policy_ok by (cases v) (simp_all add: normalizePIIPolicy_def Let_def)
qed

text \<open>The JSON of a policy.\<close>

definition policy_wire :: "pii_config \<Rightarrow> wire" where
  "policy_wire p = WObj
    [(''telemetry'', WObj
       [(''enabled'', WBool (t_enabled (telemetry p))),
        (''mode'', WText (case t_mode (telemetry p) of Sanitized \<Rightarrow> ''sanitized'' | MetricsOnly \<Rightarrow> ''metrics_only'')),
        (''store_raw'', WBool (t_store_raw (telemetry p)))]),
     (''egress'', WObj
       [(''enabled_for_cloud'', WBool (g_cloud (egress p))),
        (''enabled_for_local'', WBool (g_local (egress p))),
        (''mode'', WText (case g_mode (egress p) of Redact \<Rightarrow> ''redact'' | TokenizeReversible \<Rightarrow> ''tokenize_reversible'')),
        (''fail_action'', WText (case g_fail (egress p) of Block \<Rightarrow> ''block'' | Allow \<Rightarrow> ''allow''
            | FallbackToLocal \<Rightarrow> ''fallback_to_local''))]),
     (''presidio'', WObj
       [(''language'', WText (d_language (presidio p))),
        (''threshold'', WNum (d_threshold (presidio p))),
        (''entities'', WList (map WText (d_entities (presidio p))))])]"

lemma wire_texts_map [simp]: "wire_texts (Some (WList (map WText es))) = es"
  by (induction es) (simp_all add: wire_texts_def map_filter_simps)

lemma unique_set [simp]: "set (unique xs) = set xs"
  by (induction xs) auto

lemma setEntities_entities:
  "set (d_entities (presidio (setEntities opts es p))) = set es \<union> set (legacyEntities opts p)"
  by (simp add: setEntities_def patch_policy_def)

lemma legacy_known:
  "set (legacyEntities opts p) = (case opts of None \<Rightarrow> {} | Some po \<Rightarrow> set (d_entities (presidio p)) - set (po_entities po))"
  by (auto simp: legacyEntities_def split: option.splits)

lemma selected_known:
  "set (selectedEntities opts p) = (case opts of None \<Rightarrow> set (d_entities (presidio p))
     | Some po \<Rightarrow> set (d_entities (presidio p)) \<inter> set (po_entities po))"
  by (auto simp: selectedEntities_def split: option.splits)

lemmas entity_sets = setEntities_entities legacy_known selected_known availableEntities_def
  addEntity_def removeEntity_def

lemma add_entity_set:
  "e \<in> set (availableEntities opts p) \<Longrightarrow> e \<noteq> [] \<Longrightarrow>
     set (d_entities (presidio (addEntity opts e p))) = insert e (set (d_entities (presidio p)))"
  by (auto simp: entity_sets split: option.splits)

lemma remove_entity_set:
  "e \<in> set (selectedEntities opts p) \<Longrightarrow>
     set (d_entities (presidio (removeEntity opts e p))) = set (d_entities (presidio p)) - {e}"
  by (auto simp: entity_sets split: option.splits)

lemma setEntities_others [simp]:
  "telemetry (setEntities opts es p) = telemetry p" "egress (setEntities opts es p) = egress p"
  "d_language (presidio (setEntities opts es p)) = d_language (presidio p)"
  "d_threshold (presidio (setEntities opts es p)) = d_threshold (presidio p)"
  by (simp_all add: setEntities_def patch_policy_def)

lemma apply_edit_ok:
  assumes "policy_ok p" and "edit_offered opts p ed" and "list_all (\<lambda>l. l \<noteq> []) (case opts of None \<Rightarrow> [] | Some po \<Rightarrow> po_languages po)"
  shows "policy_ok (apply_edit num opts ed p)"
  using assms
  by (cases ed) (auto simp: policy_ok_def patch_policy_def edit_offered_def addEntity_def removeEntity_def list_all_iff
      split: option.splits)

lemma apply_edit_legacy:
  assumes "edit_offered opts p ed"
  shows "set (legacyEntities opts (apply_edit num opts ed p)) = set (legacyEntities opts p)"
  using assms
  by (cases ed) (auto simp: edit_offered_def entity_sets patch_policy_def split: option.splits)

subsection \<open>Runs of the page\<close>

text \<open>
  What can happen on the page, with the tenant the draft was made for as a further component.
  The buttons are enabled as the page enables them; a payload is the one of the tenant it was
  asked for. In an orderly run a request starts only while none is in flight; the page itself
  locks the saving buttons while it saves and its loading button while it loads, but neither
  against the other, and the suggestions not at all.
\<close>

definition idle :: "tenant_page \<Rightarrow> bool" where
  "idle s = (loads_out s = [] \<and> saves_out s = [] \<and> clears_out s = [])"

fun of_tenant :: "string \<Rightarrow> string + tenant_payload \<Rightarrow> bool" where
  "of_tenant i (Inl e) = True"
| "of_tenant i (Inr d) = (tenant_id d = i)"

inductive tenant_reach :: "(wire \<Rightarrow> rat option) \<Rightarrow> bool \<Rightarrow> tenant_page \<Rightarrow> string \<Rightarrow> bool" for num orderly where
  Start: "tenant_reach num orderly (tenant_start num) []"
| Options: "tenant_reach num orderly s t \<Longrightarrow> tenant_reach num orderly (options_answered po s) t"
| Type: "tenant_reach num orderly s t \<Longrightarrow> tenant_reach num orderly (type_tenant q s) t"
| Load: "tenant_reach num orderly s t \<Longrightarrow> (orderly \<longrightarrow> idle s) \<Longrightarrow> tenant_reach num orderly (loadTenant i s) t"
| Loaded: "tenant_reach num orderly s t \<Longrightarrow> i \<in> set (loads_out s) \<Longrightarrow> of_tenant i res \<Longrightarrow>
     tenant_reach num orderly (load_answered num i res s) (case res of Inl e \<Rightarrow> t | Inr d \<Rightarrow> i)"
| Edit: "tenant_reach num orderly s t \<Longrightarrow> tenantData s \<noteq> None \<Longrightarrow> \<not> optionsLoading s \<and> \<not> saving s \<Longrightarrow>
     tenant_reach num orderly (edit_draft num ed s) t"
| Save: "tenant_reach num orderly s t \<Longrightarrow> tenantData s \<noteq> None \<Longrightarrow> \<not> optionsLoading s \<and> \<not> saving s \<Longrightarrow>
     (orderly \<longrightarrow> idle s) \<Longrightarrow>
     tenant_reach num orderly (saveOverride s) t"
| Saved: "tenant_reach num orderly s t \<Longrightarrow> r \<in> set (saves_out s) \<Longrightarrow> of_tenant (fst r) res \<Longrightarrow>
     tenant_reach num orderly (save_answered r res s) t"
| Clear: "tenant_reach num orderly s t \<Longrightarrow> tenantData s \<noteq> None \<Longrightarrow> \<not> saving s \<Longrightarrow>
     (orderly \<longrightarrow> idle s) \<Longrightarrow>
     tenant_reach num orderly (clearOverride s) t"
| Cleared: "tenant_reach num orderly s t \<Longrightarrow> i \<in> set (clears_out s) \<Longrightarrow> of_tenant i res \<Longrightarrow>
     tenant_reach num orderly (clear_answered num i res s) (case res of Inl e \<Rightarrow> t | Inr d \<Rightarrow> i)"

text \<open>
  In an orderly run: the draft is that of the tenant shown, and a request in flight is for the
  tenant shown.
\<close>

definition draft_owned :: "tenant_page \<Rightarrow> string \<Rightarrow> bool" where
  "draft_owned s t =
     ((case tenantData s of None \<Rightarrow> saves_out s = [] \<and> clears_out s = []
       | Some d \<Rightarrow> tenant_id d = t)
      \<and> list_all (\<lambda>(i, p). i = t \<and> p = draftPolicy s) (saves_out s) \<and> list_all (\<lambda>i. i = t) (clears_out s)
      \<and> length (loads_out s) + length (saves_out s) + length (clears_out s) \<le> 1
      \<and> saving s = (saves_out s \<noteq> [] \<or> clears_out s \<noteq> []))"

lemmas tenant_defs = options_answered_def type_tenant_def loadTenant_def load_answered_def saveOverride_def
  save_answered_def clearOverride_def clear_answered_def edit_draft_def asked_tenant_def tenant_start_def

lemma only_request: "length xs + length ys + length zs \<le> 1 \<Longrightarrow> x \<in> set xs \<Longrightarrow> xs = [x] \<and> ys = [] \<and> zs = []"
  by (cases xs; cases ys; cases zs) auto

lemma draft_owned_reach: "tenant_reach num True s t \<Longrightarrow> draft_owned s t"
proof (induction rule: tenant_reach.induct)
  case (Loaded s t i res)
  then have "loads_out s = [i]" "saves_out s = []" "clears_out s = []" "\<not> saving s"
    using only_request [of "loads_out s" "saves_out s" "clears_out s" i]
    by (simp_all add: draft_owned_def)
  with Loaded show ?case
    by (cases res) (auto simp: draft_owned_def load_answered_def)
next
  case (Saved s t r res)
  then have "saves_out s = [r]" "loads_out s = []" "clears_out s = []"
    using only_request [of "saves_out s" "loads_out s" "clears_out s" r]
    by (simp_all add: draft_owned_def)
  with Saved show ?case
    by (cases res) (auto simp: draft_owned_def save_answered_def split: option.splits)
next
  case (Cleared s t i res)
  then have "clears_out s = [i]" "loads_out s = []" "saves_out s = []"
    using only_request [of "clears_out s" "loads_out s" "saves_out s" i]
    by (simp_all add: draft_owned_def)
  with Cleared show ?case
    by (cases res) (auto simp: draft_owned_def clear_answered_def split: option.splits)
qed (auto simp: draft_owned_def tenant_defs idle_def Let_def split: sum.splits option.splits)

subsection \<open>Properties\<close>

text \<open>
  Whatever the server or an editor left in the setting, and whatever the options are, the
  normalised policy can be used: its threshold is between 0 and 1 and its language is not empty;
  and a usable policy comes back from its JSON unchanged, so saving and loading again lose
  nothing.
\<close>

theorem normalize_valid_roundtrip:
  "policy_ok (normalizePIIPolicy num v opts)
   \<and> policy_ok p \<le> (normalizePIIPolicy num (Some (policy_wire p)) opts = p)"
proof -
  have "normalizePIIPolicy num (Some (policy_wire p)) opts = p" if "policy_ok p"
  proof -
    obtain te eg pr where p: "p = \<lparr>telemetry = te, egress = eg, presidio = pr\<rparr>" by (cases p)
    obtain e m r where te: "te = \<lparr>t_enabled = e, t_mode = m, t_store_raw = r\<rparr>" by (cases te)
    obtain c l g f where eg: "eg = \<lparr>g_cloud = c, g_local = l, g_mode = g, g_fail = f\<rparr>" by (cases eg)
    obtain la th es where pr: "pr = \<lparr>d_language = la, d_threshold = th, d_entities = es\<rparr>" by (cases pr)
    from that show ?thesis
      unfolding p te eg pr
      by (cases m; cases g; cases f)
        (simp_all add: normalizePIIPolicy_def policy_wire_def wire_section_def Let_def threshold_num_def
          clamp_id policy_ok_def)
  qed
  then show ?thesis by (simp add: normalize_ok)
qed

text \<open>
  A policy without its section on outgoing data is weaker than no policy: with no policy the
  requests to cloud providers are protected, with a policy that lacks the section, or the field,
  they are not.
\<close>

theorem partial_policy_unprotected:
  "g_cloud (egress (normalizePIIPolicy num None opts))
   \<and> \<not> g_cloud (egress (normalizePIIPolicy num (Some (WObj [])) opts))
   \<and> \<not> g_cloud (egress (normalizePIIPolicy num (Some (WObj [(''presidio'', pr)])) opts))
   \<and> \<not> g_cloud (egress (normalizePIIPolicy num (Some (WObj [(''egress'', WObj [(''mode'', m)])])) opts))"
  by (simp add: normalizePIIPolicy_def defaultPolicyFromOptions_def wire_section_def Let_def)

text \<open>
  The form keeps the policy usable and never drops an entity that the service does not know
  any more: after any edit it offers, of a usable policy and with languages that have a name,
  the policy is usable and its legacy entities are the same; and adding and removing entities
  does exactly that.
\<close>

theorem form_keeps_policy:
  assumes "policy_ok p" and "edit_offered opts p ed"
    and "list_all (\<lambda>l. l \<noteq> []) (case opts of None \<Rightarrow> [] | Some po \<Rightarrow> po_languages po)"
  shows "policy_ok (apply_edit num opts ed p)
    \<and> set (legacyEntities opts (apply_edit num opts ed p)) = set (legacyEntities opts p)
    \<and> (case ed of
         AddEntity e \<Rightarrow> e = [] \<or> set (d_entities (presidio (apply_edit num opts ed p))) = insert e (set (d_entities (presidio p)))
       | RemoveEntity e \<Rightarrow> set (d_entities (presidio (apply_edit num opts ed p))) = set (d_entities (presidio p)) - {e}
       | _ \<Rightarrow> d_entities (presidio (apply_edit num opts ed p)) = d_entities (presidio p))"
proof -
  have "case ed of
         AddEntity e \<Rightarrow> e = [] \<or> set (d_entities (presidio (apply_edit num opts ed p))) = insert e (set (d_entities (presidio p)))
       | RemoveEntity e \<Rightarrow> set (d_entities (presidio (apply_edit num opts ed p))) = set (d_entities (presidio p)) - {e}
       | _ \<Rightarrow> d_entities (presidio (apply_edit num opts ed p)) = d_entities (presidio p)"
    using assms(2) add_entity_set [of _ opts p] remove_entity_set [of _ opts p]
    by (cases ed) (auto simp: edit_offered_def patch_policy_def)
  with apply_edit_ok [OF assms] apply_edit_legacy [OF assms(2)] show ?thesis by blast
qed

definition demo_options :: pii_options where
  "demo_options = \<lparr>po_from_service = True, po_entities = [''PERSON'', ''IBAN''], po_languages = [''en'', ''de''],
     po_sanitize_modes = [],
     po_telemetry_modes = [Sanitized], po_egress_modes = [Redact], po_fail_actions = [Block],
     po_language = ''de'', po_threshold = None\<rparr>"

lemma form_keeps_policy_witness:
  "let p = normalizePIIPolicy (\<lambda>w. None)
        (Some (WObj [(''presidio'', WObj [(''entities'', WList [WText ''OLD'', WText ''PERSON''])])])) (Some demo_options)
   in set (d_entities (presidio (apply_edit (\<lambda>w. None) (Some demo_options) (AddEntity ''IBAN'') p)))
        = {''OLD'', ''PERSON'', ''IBAN''}"
proof -
  let ?p = "normalizePIIPolicy (\<lambda>w. None)
        (Some (WObj [(''presidio'', WObj [(''entities'', WList [WText ''OLD'', WText ''PERSON''])])])) (Some demo_options)"
  have es: "d_entities (presidio (normalizePIIPolicy (\<lambda>w. None)
        (Some (WObj [(''presidio'', WObj [(''entities'', WList [WText ''OLD'', WText ''PERSON''])])])) opts)) = [''OLD'', ''PERSON'']" for opts
    by (simp add: normalizePIIPolicy_def wire_section_def Let_def wire_texts_def map_filter_simps)
  have "edit_offered (Some demo_options) ?p (AddEntity ''IBAN'')"
    by (simp add: edit_offered_def availableEntities_def selectedEntities_def es demo_options_def)
  from form_keeps_policy [OF normalize_ok this] es show ?thesis
    by (auto simp: Let_def demo_options_def)
qed

text \<open>
  With one request at a time the draft on the page is the policy of the tenant shown, and
  what is being saved is that draft for that tenant.
\<close>

theorem draft_of_shown_tenant:
  assumes "tenant_reach num True s t"
  shows "(case tenantData s of None \<Rightarrow> \<not> saving s | Some d \<Rightarrow> tenant_id d = t)
    \<and> list_all (\<lambda>(i, p). i = t \<and> p = draftPolicy s \<and> tenantData s \<noteq> None) (saves_out s)"
  using draft_owned_reach [OF assms]
  by (auto simp: draft_owned_def list_all_iff split: option.splits)

definition payload_of :: "string \<Rightarrow> tenant_payload" where
  "payload_of i = \<lparr>tenant_id = i, has_override = False, override_policy = None, default_policy = None, effective_policy = None\<rparr>"

lemma reach_shown: "tenant_reach num orderly
    (load_answered num ''a'' (Inr (payload_of ''a'')) (loadTenant ''a'' (options_answered (Inr demo_options) (tenant_start num)))) ''a''"
proof -
  have "tenant_reach num orderly (loadTenant ''a'' (options_answered (Inr demo_options) (tenant_start num))) []"
    by (intro tenant_reach.Load tenant_reach.Options tenant_reach.Start)
      (simp add: idle_def options_answered_def tenant_start_def)
  from tenant_reach.Loaded [OF this, of "''a''" "Inr (payload_of ''a'')"] show ?thesis
    by (simp add: payload_of_def loadTenant_def trim_def is_ws_def)
qed

lemma draft_of_shown_tenant_witness:
  "\<not> saving (load_answered (\<lambda>w. None) ''a'' (Inr (payload_of ''a''))
      (loadTenant ''a'' (options_answered (Inr demo_options) (tenant_start (\<lambda>w. None)))))
   \<and> tenant_id (payload_of ''a'') = ''a''"
  using draft_of_shown_tenant [OF reach_shown [of "\<lambda>w. None" True]]
  by (simp add: load_answered_def payload_of_def loadTenant_def options_answered_def tenant_start_def trim_def is_ws_def)

text \<open>
  With two requests at a time the policy of one tenant ends up on another: the first tenant
  is saved, meanwhile the second is opened from the suggestions, and the late answer to the save
  puts the first tenant back over the draft of the second; Save then sends that draft for the
  first tenant.
\<close>

theorem late_save_swaps_tenants:
  "\<exists>s. tenant_reach num False s ''b'' \<and> map_option tenant_id (tenantData s) = Some ''a'' \<and> saves_out s = []
     \<and> tenant_reach num False (saveOverride s) ''b'' \<and> saves_out (saveOverride s) = [(''a'', draftPolicy s)]"
proof -
  let ?s1 = "load_answered num ''a'' (Inr (payload_of ''a'')) (loadTenant ''a'' (options_answered (Inr demo_options) (tenant_start num)))"
  let ?s2 = "loadTenant ''b'' (saveOverride ?s1)"
  let ?s3 = "load_answered num ''b'' (Inr (payload_of ''b'')) ?s2"
  let ?r = "(''a'', draftPolicy ?s1)"
  let ?s4 = "save_answered ?r (Inr (payload_of ''a'')) ?s3"
  note defs = tenant_defs payload_of_def trim_def is_ws_def
  have r1: "tenant_reach num False ?s1 ''a''" by (rule reach_shown)
  have f1: "tenantData ?s1 = Some (payload_of ''a'')" "\<not> optionsLoading ?s1" "\<not> saving ?s1"
    "saves_out ?s1 = []" "loads_out ?s1 = []"
    by (simp_all add: defs)
  have r2: "tenant_reach num False ?s2 ''a''"
    using r1 f1 by (intro tenant_reach.Load tenant_reach.Save) simp_all
  have f2: "loads_out ?s2 = [''b'']" "saves_out ?s2 = [?r]" "\<not> optionsLoading ?s2"
    by (simp_all add: defs)
  from tenant_reach.Loaded [OF r2, of "''b''" "Inr (payload_of ''b'')"] f2
  have r3: "tenant_reach num False ?s3 ''b''" by (simp add: payload_of_def)
  have f3: "saves_out ?s3 = [?r]" using f2 by (simp add: load_answered_def)
  from tenant_reach.Saved [OF r3, of ?r "Inr (payload_of ''a'')"] f3
  have r4: "tenant_reach num False ?s4 ''b''" by (simp add: payload_of_def)
  have f4: "tenantData ?s4 = Some (payload_of ''a'')" "saves_out ?s4 = []" "\<not> saving ?s4" "\<not> optionsLoading ?s4"
    using f3 f2 by (simp_all add: save_answered_def load_answered_def)
  have "tenant_reach num False (saveOverride ?s4) ''b''"
    using r4 f4 by (intro tenant_reach.Save) simp_all
  moreover have "saves_out (saveOverride ?s4) = [(''a'', draftPolicy ?s4)]"
    using f4 by (simp add: saveOverride_def asked_tenant_def payload_of_def)
  ultimately show ?thesis using r4 f4 by (intro exI [of _ ?s4]) (simp add: payload_of_def)
qed

text \<open>
  Clearing the text while suggestions are asked for leaves the spinner on: the answer is
  cancelled, and nobody else takes the spinner away.
\<close>

theorem cleared_query_keeps_spinner:
  assumes "trim q \<noteq> []" and "trim q' = []"
  shows "sg_loading (suggestions_answered i res (query_effect q' (query_effect q s)))"
  using assms by (simp add: query_effect_def suggestions_answered_def)

lemma cleared_query_keeps_spinner_witness:
  "sg_loading (suggestions_answered 0 (Inr [''tenant''])
      (query_effect [] (query_effect ''ten'' \<lparr>sg_items = [], sg_loading = False, sg_current = None, sg_next = 0\<rparr>)))"
  by (rule cleared_query_keeps_spinner) (simp_all add: trim_def is_ws_def)

text \<open>The entity to add is always one on offer, and the effect that sees to it runs once.\<close>

theorem entity_to_add_offered:
  "(if availableEntities opts p = [] then entity_effect opts p e = []
    else entity_effect opts p e \<in> set (availableEntities opts p))
   \<and> entity_effect opts p (entity_effect opts p e) = entity_effect opts p e"
  by (cases "availableEntities opts p") (auto simp: entity_effect_def)

end
