(* ===== verification/Rag_Tree.thy ===== *)
theory Rag_Tree
  imports Prelude "HOL-Library.AList"
begin

text \<open>
  The knowledge base of \<^verbatim>\<open>pages/admin/rag/RagLiteKnowledgeBasePage.tsx\<close>: the tree made of flat
  lists of collections and documents, moving its rows by dragging, the dialog that creates a
  collection, uploads, and the cell that edits a description. The nodes of the tree are objects
  shared by a map and by the arrays of their parents; here \<open>sub_rows\<close> is the array of the node
  with an id, and a tree is read off it with fuel, for which the number of collections is enough.
  \<open>le\<close> says that \<open>localeCompare\<close> does not order a name after another.
\<close>

subsection \<open>Data\<close>

record rag_collection =
  rc_id :: string
  rc_name :: string
  rc_description :: "string option"
  rc_parent :: "string option"
  rc_count :: nat
  rc_created :: string
  rc_updated :: string

record rag_document =
  rd_id :: string
  rd_filename :: string
  rd_doc_type :: string
  rd_collection :: "string option"
  rd_size :: nat
  rd_chunks :: nat
  rd_status :: string
  rd_summary :: "string option"
  rd_created :: string

record tree_node =
  tn_id :: string
  tn_coll :: bool
  tn_name :: string
  tn_description :: "string option"
  tn_parent :: "string option"
  tn_count :: "nat option"
  tn_doc_type :: "string option"
  tn_size :: "nat option"
  tn_chunks :: "nat option"
  tn_status :: "string option"
  tn_collection :: "string option"
  tn_created :: string

definition coll_node :: "rag_collection \<Rightarrow> tree_node" where
  "coll_node c = \<lparr>tn_id = rc_id c, tn_coll = True, tn_name = rc_name c, tn_description = rc_description c,
     tn_parent = rc_parent c, tn_count = Some (rc_count c), tn_doc_type = None, tn_size = None,
     tn_chunks = None, tn_status = None, tn_collection = None, tn_created = rc_created c\<rparr>"

definition doc_node :: "rag_document \<Rightarrow> tree_node" where
  "doc_node d = \<lparr>tn_id = rd_id d, tn_coll = False, tn_name = rd_filename d, tn_description = rd_summary d,
     tn_parent = None, tn_count = None, tn_doc_type = Some (rd_doc_type d), tn_size = Some (rd_size d),
     tn_chunks = Some (rd_chunks d), tn_status = Some (rd_status d), tn_collection = rd_collection d,
     tn_created = rd_created d\<rparr>"

subsection \<open>The tree\<close>

type_synonym sub_rows = "string \<Rightarrow> tree_node list"

definition coll_map :: "rag_collection list \<Rightarrow> (string \<times> tree_node) list" where
  "coll_map cs = fold (\<lambda>c. AList.update (rc_id c) (coll_node c)) cs []"

definition push_row :: "string \<Rightarrow> tree_node \<Rightarrow> sub_rows \<Rightarrow> sub_rows" where
  "push_row k n subs = subs(k := subs k @ [n])"

definition place_doc :: "string list \<Rightarrow> rag_document \<Rightarrow> sub_rows \<times> tree_node list \<Rightarrow> sub_rows \<times> tree_node list" where
  "place_doc ids d = (\<lambda>(subs, rootDocs).
     case rd_collection d of
       Some k \<Rightarrow> if k \<noteq> [] \<and> k \<in> set ids then (push_row k (doc_node d) subs, rootDocs)
                 else (subs, rootDocs @ [doc_node d])
     | None \<Rightarrow> (subs, rootDocs @ [doc_node d]))"

definition place_coll :: "string list \<Rightarrow> tree_node \<Rightarrow> sub_rows \<times> tree_node list \<Rightarrow> sub_rows \<times> tree_node list" where
  "place_coll ids n = (\<lambda>(subs, roots).
     case tn_parent n of
       Some k \<Rightarrow> if k \<noteq> [] \<and> k \<noteq> tn_id n \<and> k \<in> set ids then (push_row k n subs, roots)
                 else (subs, roots @ [n])
     | None \<Rightarrow> (subs, roots @ [n]))"

definition node_le :: "(string \<Rightarrow> string \<Rightarrow> bool) \<Rightarrow> tree_node \<Rightarrow> tree_node \<Rightarrow> bool" where
  "node_le le a b = (if tn_coll a \<noteq> tn_coll b then tn_coll a else le (tn_name a) (tn_name b))"

definition tree_links ::
  "(string \<Rightarrow> string \<Rightarrow> bool) \<Rightarrow> rag_collection list \<Rightarrow> rag_document list \<Rightarrow> sub_rows \<times> tree_node list" where
  "tree_links le cs ds =
     (let m = coll_map cs;
          (subs, rootDocs) = fold (place_doc (map fst m)) ds (\<lambda>k. [], []);
          (subs, roots) = fold (place_coll (map fst m)) (map snd m) (subs, [])
      in (\<lambda>k. sort_by (node_le le) (subs k), sort_by (node_le le) (roots @ rootDocs)))"

datatype tree = Tree tree_node "tree list"

fun read_tree :: "nat \<Rightarrow> sub_rows \<Rightarrow> tree_node \<Rightarrow> tree" where
  "read_tree 0 subs n = Tree n []"
| "read_tree (Suc k) subs n = Tree n (if tn_coll n then map (read_tree k subs) (subs (tn_id n)) else [])"

definition buildTree ::
  "(string \<Rightarrow> string \<Rightarrow> bool) \<Rightarrow> rag_collection list \<Rightarrow> rag_document list \<Rightarrow> tree list" where
  "buildTree le cs ds =
     (let (subs, roots) = tree_links le cs ds in map (read_tree (length (coll_map cs)) subs) roots)"

fun find_node :: "string \<Rightarrow> tree \<Rightarrow> tree_node option"
  and find_nodes :: "string \<Rightarrow> tree list \<Rightarrow> tree_node option" where
  "find_node i (Tree n ts) = (if tn_id n = i then Some n else find_nodes i ts)"
| "find_nodes i [] = None"
| "find_nodes i (t # ts) = (case find_node i t of Some n \<Rightarrow> Some n | None \<Rightarrow> find_nodes i ts)"

subsection \<open>The page\<close>

record rag_page =
  collections :: "rag_collection list"
  documents :: "rag_document list"
  loading :: bool
  failure :: "string option"
  dragActiveId :: "string option"
  dlgOpen :: bool
  dlgParentId :: "string option"
  dlgName :: string
  dlgDesc :: string
  creating :: bool
  uploading :: bool
  uploadColId :: "string option"

definition rag_start :: rag_page where
  "rag_start = \<lparr>collections = [], documents = [], loading = True, failure = None, dragActiveId = None,
     dlgOpen = False, dlgParentId = None, dlgName = [], dlgDesc = [], creating = False,
     uploading = False, uploadColId = None\<rparr>"

datatype rag_request =
    UpdateCollection string "string option option" "string option"
  | UpdateSummary string string
  | DeleteCollection string
  | DeleteDocument string
  | MoveDocument string string
  | CreateCollection string "string option" "string option"
  | Upload string "string option"

definition load_answered ::
  "string + rag_collection list \<times> rag_document list \<Rightarrow> rag_page \<Rightarrow> rag_page" where
  "load_answered res s =
     (case res of
        Inr (cs, ds) \<Rightarrow> s\<lparr>collections := cs, documents := ds, failure := None\<rparr>
      | Inl e \<Rightarrow> s\<lparr>failure := Some e\<rparr>)\<lparr>loading := False\<rparr>"

definition refreshes :: "rag_page \<Rightarrow> bool" where
  "refreshes s = list_ex (\<lambda>d. rd_status d = ''processing'' \<or> rd_status d = ''pending'') (documents s)"

text \<open>The requests of the handlers; each is followed by loading again, and a failure is shown.\<close>

definition handleDescSave :: "string \<Rightarrow> bool \<Rightarrow> string \<Rightarrow> rag_request" where
  "handleDescSave i coll txt =
     (if coll then UpdateCollection i (Some (if txt \<noteq> [] then Some txt else None)) None else UpdateSummary i txt)"

definition handleDelete :: "string \<Rightarrow> bool \<Rightarrow> rag_request" where
  "handleDelete i coll = (if coll then DeleteCollection i else DeleteDocument i)"

definition onDragStart :: "string \<Rightarrow> rag_page \<Rightarrow> rag_page" where
  "onDragStart i s = s\<lparr>dragActiveId := Some i\<rparr>"

text \<open>\<open>over\<close> is the id of the row under the pointer; \<open>data\<close> says whether the dragged row is a document.\<close>

definition onDragEnd :: "string \<Rightarrow> bool option \<Rightarrow> string option \<Rightarrow> rag_page \<Rightarrow> rag_page \<times> rag_request list" where
  "onDragEnd src data over s =
     (s\<lparr>dragActiveId := None\<rparr>,
      case over of
        None \<Rightarrow> []
      | Some tgt \<Rightarrow>
          if src = tgt then []
          else (case data of
                  None \<Rightarrow> []
                | Some is_doc \<Rightarrow> [if is_doc then MoveDocument src tgt else UpdateCollection src None (Some tgt)]))"

definition openCreateDlg :: "string option \<Rightarrow> rag_page \<Rightarrow> rag_page" where
  "openCreateDlg p s = s\<lparr>dlgParentId := p, dlgOpen := True\<rparr>"

definition cancelCreateDlg :: "rag_page \<Rightarrow> rag_page" where
  "cancelCreateDlg s = s\<lparr>dlgOpen := False, dlgParentId := None\<rparr>"

definition handleCreate :: "rag_page \<Rightarrow> rag_page \<times> rag_request list" where
  "handleCreate s =
     (if trim (dlgName s) = [] then (s, [])
      else (s\<lparr>creating := True\<rparr>,
            [CreateCollection (trim (dlgName s)) (if trim (dlgDesc s) \<noteq> [] then Some (trim (dlgDesc s)) else None)
               (dlgParentId s)]))"

definition create_answered :: "string + unit \<Rightarrow> rag_page \<Rightarrow> rag_page" where
  "create_answered res s =
     (case res of
        Inr u \<Rightarrow> s\<lparr>dlgOpen := False, dlgName := [], dlgDesc := [], dlgParentId := None\<rparr>
      | Inl e \<Rightarrow> s\<lparr>failure := Some e\<rparr>)\<lparr>creating := False\<rparr>"

definition triggerUpload :: "string option \<Rightarrow> rag_page \<Rightarrow> rag_page" where
  "triggerUpload c s = s\<lparr>uploadColId := c\<rparr>"

definition handleUpload :: "string option \<Rightarrow> rag_page \<Rightarrow> rag_page \<times> rag_request list" where
  "handleUpload file s =
     (case file of None \<Rightarrow> (s, []) | Some f \<Rightarrow> (s\<lparr>uploading := True\<rparr>, [Upload f (uploadColId s)]))"

definition upload_answered :: "string + unit \<Rightarrow> rag_page \<Rightarrow> rag_page" where
  "upload_answered res s =
     (case res of Inr u \<Rightarrow> s | Inl e \<Rightarrow> s\<lparr>failure := Some e\<rparr>)\<lparr>uploading := False, uploadColId := None\<rparr>"

subsection \<open>The description of a row\<close>

record desc_cell =
  editing :: bool
  cell_text :: string

definition cell_value :: "string option \<Rightarrow> string" where
  "cell_value v = (case v of None \<Rightarrow> [] | Some t \<Rightarrow> t)"

definition cell_start :: "string option \<Rightarrow> desc_cell" where
  "cell_start v = \<lparr>editing = False, cell_text = cell_value v\<rparr>"

definition sync_effect :: "string option \<Rightarrow> desc_cell \<Rightarrow> desc_cell" where
  "sync_effect v c = (if \<not> editing c then c\<lparr>cell_text := cell_value v\<rparr> else c)"

definition start_editing :: "desc_cell \<Rightarrow> desc_cell" where
  "start_editing c = c\<lparr>editing := True\<rparr>"

definition type_text :: "string \<Rightarrow> desc_cell \<Rightarrow> desc_cell" where
  "type_text t c = c\<lparr>cell_text := t\<rparr>"

text \<open>\<open>save\<close> also runs when the field loses the focus; its second part is the text it saves.\<close>

definition cell_save :: "string option \<Rightarrow> desc_cell \<Rightarrow> desc_cell \<times> string option" where
  "cell_save v c =
     (sync_effect v (c\<lparr>editing := False\<rparr>), if cell_text c \<noteq> cell_value v then Some (cell_text c) else None)"

datatype cell_key = EnterKey bool | EscapeKey | OtherKey

definition cell_on_key :: "string option \<Rightarrow> cell_key \<Rightarrow> desc_cell \<Rightarrow> desc_cell \<times> string option" where
  "cell_on_key v k c =
     (case k of
        EnterKey shift \<Rightarrow> if \<not> shift then cell_save v c else (c, None)
      | EscapeKey \<Rightarrow> (sync_effect v (c\<lparr>cell_text := cell_value v, editing := False\<rparr>), None)
      | OtherKey \<Rightarrow> (c, None))"

definition ai_answered :: "unit + string \<Rightarrow> desc_cell \<Rightarrow> desc_cell" where
  "ai_answered res c = (case res of Inr summary \<Rightarrow> c\<lparr>cell_text := summary\<rparr> | Inl _ \<Rightarrow> c)"

subsection \<open>Levels of the tree\<close>

definition coll_parent :: "rag_collection list \<Rightarrow> rag_collection \<Rightarrow> string option" where
  "coll_parent cs c =
     (case rc_parent c of
        Some k \<Rightarrow> if k \<noteq> [] \<and> k \<noteq> rc_id c \<and> k \<in> rc_id ` set cs then Some k else None
      | None \<Rightarrow> None)"

definition doc_parent :: "rag_collection list \<Rightarrow> rag_document \<Rightarrow> string option" where
  "doc_parent cs d =
     (case rd_collection d of Some k \<Rightarrow> if k \<noteq> [] \<and> k \<in> rc_id ` set cs then Some k else None | None \<Rightarrow> None)"

fun nodes_of :: "tree \<Rightarrow> tree_node list" where
  "nodes_of (Tree n ts) = n # concat (map nodes_of ts)"

text \<open>A collection is rooted if going up from it ends; the others are in or under a cycle.\<close>

inductive rooted :: "rag_collection list \<Rightarrow> string \<Rightarrow> bool" for cs where
  Top: "c \<in> set cs \<Longrightarrow> coll_parent cs c = None \<Longrightarrow> rooted cs (rc_id c)"
| Sub: "c \<in> set cs \<Longrightarrow> coll_parent cs c = Some p \<Longrightarrow> rooted cs p \<Longrightarrow> rooted cs (rc_id c)"

definition under :: "('x \<Rightarrow> string option) \<Rightarrow> string set \<Rightarrow> 'x list \<Rightarrow> 'x list" where
  "under par is xs = filter (\<lambda>x. case par x of None \<Rightarrow> False | Some p \<Rightarrow> p \<in> is) xs"

fun level :: "rag_collection list \<Rightarrow> nat \<Rightarrow> rag_collection list" where
  "level cs 0 = filter (\<lambda>c. coll_parent cs c = None) cs"
| "level cs (Suc j) = under (coll_parent cs) (rc_id ` set (level cs j)) cs"

lemma AList_update_new: "k \<notin> fst ` set m \<Longrightarrow> AList.update k v m = m @ [(k, v)]"
  by (induction m) auto

lemma coll_map_distinct: "distinct (map rc_id cs) \<Longrightarrow> coll_map cs = map (\<lambda>c. (rc_id c, coll_node c)) cs"
proof -
  have "distinct (map rc_id cs) \<Longrightarrow> fst ` set m \<inter> rc_id ` set cs = {} \<Longrightarrow>
      fold (\<lambda>c. AList.update (rc_id c) (coll_node c)) cs m = m @ map (\<lambda>c. (rc_id c, coll_node c)) cs" for m
    by (induction cs arbitrary: m) (auto simp: AList_update_new)
  then show "distinct (map rc_id cs) \<Longrightarrow> ?thesis" by (simp add: coll_map_def)
qed

lemma fold_place:
  "fold (\<lambda>x (subs, roots). case p x of Some k \<Rightarrow> (push_row k (f x) subs, roots) | None \<Rightarrow> (subs, roots @ [f x])) xs (subs, roots)
     = (\<lambda>k. subs k @ map f (filter (\<lambda>x. p x = Some k) xs), roots @ map f (filter (\<lambda>x. p x = None) xs))"
  by (induction xs arbitrary: subs roots) (auto simp: push_row_def fun_eq_iff split: option.splits)

lemma tree_links_rows:
  assumes "distinct (map rc_id cs)"
  shows "tree_links le cs ds =
    (\<lambda>k. sort_by (node_le le) (map doc_node (filter (\<lambda>d. doc_parent cs d = Some k) ds)
            @ map coll_node (filter (\<lambda>c. coll_parent cs c = Some k) cs)),
     sort_by (node_le le) (map coll_node (level cs 0) @ map doc_node (filter (\<lambda>d. doc_parent cs d = None) ds)))"
proof -
  let ?ids = "map rc_id cs"
  have d: "place_doc ?ids = (\<lambda>d (subs, roots). case doc_parent cs d of
      Some k \<Rightarrow> (push_row k (doc_node d) subs, roots) | None \<Rightarrow> (subs, roots @ [doc_node d]))"
    by (simp add: place_doc_def doc_parent_def fun_eq_iff split: option.splits)
  have c: "place_coll ?ids \<circ> coll_node = (\<lambda>c (subs, roots). case coll_parent cs c of
      Some k \<Rightarrow> (push_row k (coll_node c) subs, roots) | None \<Rightarrow> (subs, roots @ [coll_node c]))"
    by (simp add: place_coll_def coll_parent_def coll_node_def fun_eq_iff split: option.splits)
  have "fold (place_doc ?ids) ds (subs, rs) =
      (\<lambda>k. subs k @ map doc_node (filter (\<lambda>d. doc_parent cs d = Some k) ds), rs @ map doc_node (filter (\<lambda>d. doc_parent cs d = None) ds))" for subs rs
    unfolding d by (rule fold_place)
  moreover have "fold (place_coll ?ids) (map coll_node xs) (subs, rs) =
      (\<lambda>k. subs k @ map coll_node (filter (\<lambda>c. coll_parent cs c = Some k) xs), rs @ map coll_node (filter (\<lambda>c. coll_parent cs c = None) xs))" for subs rs xs
    unfolding fold_map c by (rule fold_place)
  ultimately show ?thesis
    using assms by (simp add: tree_links_def coll_map_distinct comp_def)
qed

text \<open>Sums over filtered lists.\<close>

lemma sum_filter_disjoint:
  "(\<And>x. \<not> (P x \<and> Q x)) \<Longrightarrow>
     (\<Sum>x\<leftarrow>filter P xs. F x) + (\<Sum>x\<leftarrow>filter Q xs. F x) = (\<Sum>x\<leftarrow>filter (\<lambda>x. P x \<or> Q x) xs. F x :: 'm multiset)"
  by (induction xs) (auto simp: ac_simps)

lemma sum_children:
  "distinct ps \<Longrightarrow> (\<Sum>p\<leftarrow>ps. \<Sum>x\<leftarrow>filter (\<lambda>x. par x = Some p) xs. F x) = (\<Sum>x\<leftarrow>under par (set ps) xs. F x :: 'm multiset)"
proof (induction ps)
  case Nil
  have "under par {} xs = []" by (auto simp: under_def filter_empty_conv split: option.splits)
  then show ?case by simp
next
  case (Cons p ps)
  have "under par (set (p # ps)) xs = filter (\<lambda>x. par x = Some p \<or> (case par x of None \<Rightarrow> False | Some q \<Rightarrow> q \<in> set ps)) xs"
    by (auto simp: under_def intro!: filter_cong split: option.splits)
  moreover have "\<not> (par x = Some p \<and> (case par x of None \<Rightarrow> False | Some q \<Rightarrow> q \<in> set ps))" for x
    using Cons.prems by auto
  ultimately show ?case
    using Cons sum_filter_disjoint [of "\<lambda>x. par x = Some p" "\<lambda>x. case par x of None \<Rightarrow> False | Some q \<Rightarrow> q \<in> set ps" F xs]
    by (simp add: under_def)
qed

lemma sum_mset_list: "(\<Sum>x\<leftarrow>xs. {#f x#}) = mset (map f xs)"
  by (induction xs) simp_all

lemma mset_concat_map: "mset (concat (map f xs)) = (\<Sum>x\<leftarrow>xs. mset (f x))"
  by (induction xs) simp_all

lemma sum_sort_by: "(\<Sum>x\<leftarrow>sort_by le xs. F x) = (\<Sum>x\<leftarrow>xs. F x :: 'm multiset)"
  by (metis mset_map mset_sort_by sum_mset_sum_list)

lemma level_set: "set (level cs j) \<subseteq> set cs"
  by (cases j) (auto simp: under_def)

lemma level_distinct: "distinct (map rc_id cs) \<Longrightarrow> distinct (map rc_id (level cs j))"
  by (cases j) (simp_all add: under_def distinct_map_filter)

lemma sum_three: "(\<Sum>c\<leftarrow>xs. {#f c#} + A (g c) + B (g c)) = (\<Sum>c\<leftarrow>xs. {#f c#}) + (\<Sum>i\<leftarrow>map g xs. A i) + (\<Sum>i\<leftarrow>map g xs. B i :: 'm multiset)"
  by (induction xs) (simp_all add: ac_simps)

lemma doc_node_read [simp]: "nodes_of (read_tree k subs (doc_node d)) = [doc_node d]"
  by (cases k) (simp_all add: doc_node_def)

lemma level_nodes:
  assumes "distinct (map rc_id cs)"
    and subs: "\<And>k. subs k = sort_by le (map doc_node (filter (\<lambda>d. doc_parent cs d = Some k) ds)
            @ map coll_node (filter (\<lambda>c. coll_parent cs c = Some k) cs))"
  shows "(\<Sum>c\<leftarrow>level cs j. mset (nodes_of (read_tree k subs (coll_node c)))) =
    (\<Sum>i\<leftarrow>[0..<Suc k]. mset (map coll_node (level cs (j + i))))
    + (\<Sum>i\<leftarrow>[0..<k]. mset (map doc_node (under (doc_parent cs) (rc_id ` set (level cs (j + i))) ds)))"
proof (induction k arbitrary: j)
  case 0
  then show ?case by (simp add: sum_mset_list)
next
  case (Suc k)
  let ?F = "\<lambda>n. mset (nodes_of (read_tree k subs n))" and ?ids = "map rc_id (level cs j)"
  have "mset (nodes_of (read_tree (Suc k) subs (coll_node c))) =
      {#coll_node c#} + (\<Sum>d\<leftarrow>filter (\<lambda>d. doc_parent cs d = Some (rc_id c)) ds. {#doc_node d#})
      + (\<Sum>c'\<leftarrow>filter (\<lambda>c'. coll_parent cs c' = Some (rc_id c)) cs. ?F (coll_node c'))" for c
    by (simp add: subs mset_concat_map comp_def sum_sort_by coll_node_def)
  then have "(\<Sum>c\<leftarrow>level cs j. mset (nodes_of (read_tree (Suc k) subs (coll_node c)))) =
      (\<Sum>c\<leftarrow>level cs j. {#coll_node c#})
      + (\<Sum>i\<leftarrow>?ids. \<Sum>d\<leftarrow>filter (\<lambda>d. doc_parent cs d = Some i) ds. {#doc_node d#})
      + (\<Sum>i\<leftarrow>?ids. \<Sum>c'\<leftarrow>filter (\<lambda>c'. coll_parent cs c' = Some i) cs. ?F (coll_node c'))"
    by (simp only: sum_three [where f = coll_node and g = rc_id
        and A = "\<lambda>i. \<Sum>d\<leftarrow>filter (\<lambda>d. doc_parent cs d = Some i) ds. {#doc_node d#}"
        and B = "\<lambda>i. \<Sum>c'\<leftarrow>filter (\<lambda>c'. coll_parent cs c' = Some i) cs. ?F (coll_node c')"])
  also have "\<dots> = mset (map coll_node (level cs j))
      + mset (map doc_node (under (doc_parent cs) (rc_id ` set (level cs j)) ds))
      + (\<Sum>c\<leftarrow>level cs (Suc j). ?F (coll_node c))"
    unfolding sum_children [OF level_distinct [OF assms(1)]]
    by (simp only: sum_mset_list set_map level.simps)
  finally show ?case
    unfolding Suc.IH by (simp add: upt_conv_Cons map_Suc_upt [symmetric] comp_def del: upt_Suc)
qed

lemma parent_unique:
  assumes "distinct (map rc_id cs)" and "c \<in> set cs" and "c' \<in> set cs" and "rc_id c = rc_id c'"
  shows "c = c'"
  using assms by (metis distinct_map inj_onD)

lemma level_unique:
  assumes "distinct (map rc_id cs)"
  shows "c \<in> set (level cs i) \<Longrightarrow> c \<in> set (level cs j) \<Longrightarrow> i = j"
proof (induction i arbitrary: j c)
  case 0
  then show ?case by (cases j) (auto simp: under_def)
next
  case (Suc i)
  from Suc.prems(1) obtain q where q: "q \<in> set (level cs i)" "coll_parent cs c = Some (rc_id q)"
    by (auto simp: under_def split: option.splits)
  with Suc.prems(2) obtain j' q' where j: "j = Suc j'" "q' \<in> set (level cs j')" "rc_id q' = rc_id q"
    by (cases j) (auto simp: under_def)
  with q level_set have "q' = q" by (intro parent_unique [OF assms]) blast+
  with Suc.IH [OF q(1)] j show ?case by simp
qed

lemma level_down: "level cs (Suc j) \<noteq> [] \<Longrightarrow> level cs j \<noteq> []"
  by (cases "level cs j") (auto simp: under_def filter_empty_conv split: option.splits)

lemma level_upto: "level cs j \<noteq> [] \<Longrightarrow> i \<le> j \<Longrightarrow> level cs i \<noteq> []"
  by (induction j) (metis le_zero_eq, metis le_SucE level_down)

lemma rooted_level:
  assumes "distinct (map rc_id cs)"
  shows "rooted cs i \<longleftrightarrow> (\<exists>j. i \<in> rc_id ` set (level cs j))"
proof
  show "rooted cs i \<Longrightarrow> \<exists>j. i \<in> rc_id ` set (level cs j)"
  proof (induction rule: rooted.induct)
    case (Top c)
    then show ?case by (intro exI [of _ 0]) auto
  next
    case (Sub c p)
    then obtain j where "p \<in> rc_id ` set (level cs j)" by blast
    with Sub have "c \<in> set (level cs (Suc j))" by (simp add: under_def)
    then show ?case by blast
  qed
  have "c \<in> set (level cs j) \<Longrightarrow> rooted cs (rc_id c)" for j c
  proof (induction j arbitrary: c)
    case 0
    then show ?case by (auto intro: rooted.Top)
  next
    case (Suc j)
    then obtain q where "q \<in> set (level cs j)" "c \<in> set cs" "coll_parent cs c = Some (rc_id q)"
      by (auto simp: under_def split: option.splits)
    with Suc.IH show ?case by (auto intro: rooted.Sub)
  qed
  then show "\<exists>j. i \<in> rc_id ` set (level cs j) \<Longrightarrow> rooted cs i" by blast
qed

text \<open>Disjoint levels add up to a filter.\<close>

lemma levels_filter:
  assumes "\<And>x i j. P i x \<Longrightarrow> P j x \<Longrightarrow> i = j"
  shows "(\<Sum>i\<leftarrow>[0..<n]. mset (map f (filter (P i) xs))) = mset (map f (filter (\<lambda>x. \<exists>i<n. P i x) xs))"
proof (induction n)
  case (Suc n)
  have "\<not> ((\<exists>i<n. P i x) \<and> P n x)" for x using assms by blast
  then have "(\<Sum>x\<leftarrow>filter (\<lambda>x. \<exists>i<n. P i x) xs. {#f x#}) + (\<Sum>x\<leftarrow>filter (P n) xs. {#f x#})
      = (\<Sum>x\<leftarrow>filter (\<lambda>x. (\<exists>i<n. P i x) \<or> P n x) xs. {#f x#})"
    by (intro sum_filter_disjoint) blast
  moreover have "(\<exists>i<Suc n. P i x) = ((\<exists>i<n. P i x) \<or> P n x)" for x using less_Suc_eq by auto
  ultimately show ?case using Suc by (simp add: sum_mset_list)
qed simp

lemma level_filter: "level cs j = filter (\<lambda>c. c \<in> set (level cs j)) cs"
  by (cases j) (auto simp: under_def intro!: filter_cong)

lemma level_sum:
  assumes "distinct (map rc_id cs)"
  shows "(\<Sum>i\<leftarrow>[0..<n]. mset (map f (level cs i))) = mset (map f (filter (\<lambda>c. \<exists>i<n. c \<in> set (level cs i)) cs))"
  using levels_filter [of "\<lambda>i c. c \<in> set (level cs i)" f cs n] level_unique [OF assms]
  by (simp flip: level_filter)

lemma level_end:
  assumes "distinct (map rc_id cs)" and "length cs \<le> j"
  shows "level cs j = []"
proof (rule ccontr)
  assume "level cs j \<noteq> []"
  then have ne: "level cs i \<noteq> []" if "i \<le> j" for i using that by (rule level_upto)
  have "n \<le> size (\<Sum>i\<leftarrow>[0..<n]. mset (map id (level cs i)))" if "n \<le> Suc j" for n
    using that
  proof (induction n)
    case (Suc n)
    with ne [of n] have "1 \<le> length (level cs n)" by (cases "level cs n") simp_all
    with Suc show ?case by simp
  qed simp
  from this [of "Suc j"] have "Suc j \<le> length (filter (\<lambda>c. \<exists>i<Suc j. c \<in> set (level cs i)) cs)"
    unfolding level_sum [OF assms(1)] by (simp only: size_mset length_map)
  with assms(2) length_filter_le [of "\<lambda>c. \<exists>i<Suc j. c \<in> set (level cs i)" cs] show False by simp
qed

lemma level_docs_unique:
  assumes "distinct (map rc_id cs)"
    and "case doc_parent cs d of None \<Rightarrow> False | Some p \<Rightarrow> p \<in> rc_id ` set (level cs i)"
    and "case doc_parent cs d of None \<Rightarrow> False | Some p \<Rightarrow> p \<in> rc_id ` set (level cs j)"
  shows "i = j"
proof -
  from assms(2,3) obtain c c' where c: "c \<in> set (level cs i)" "c' \<in> set (level cs j)" "rc_id c = rc_id c'"
    by (auto split: option.splits)
  with level_set have "c = c'" by (intro parent_unique [OF assms(1)]) blast+
  with c level_unique [OF assms(1)] show ?thesis by blast
qed

lemma rooted_levels:
  assumes "distinct (map rc_id cs)"
  shows "rooted cs i \<longleftrightarrow> (\<exists>j<length cs. i \<in> rc_id ` set (level cs j))"
  using rooted_level [OF assms] level_end [OF assms]
  by (metis empty_iff image_is_empty leI list.set(1))

lemma rooted_member:
  assumes "distinct (map rc_id cs)" and "c \<in> set cs"
  shows "rooted cs (rc_id c) \<longleftrightarrow> (\<exists>j<length cs. c \<in> set (level cs j))"
  using rooted_levels [OF assms(1)] parent_unique [OF assms(1,2)] level_set [of cs] by blast

lemma rag_tree_complete_mset:
  assumes "distinct (map rc_id cs)"
  shows "mset (concat (map nodes_of (buildTree le cs ds))) =
    mset (map coll_node (filter (\<lambda>c. rooted cs (rc_id c)) cs))
    + mset (map doc_node (filter (\<lambda>d. case doc_parent cs d of None \<Rightarrow> True | Some p \<Rightarrow> rooted cs p) ds))"
proof -
  let ?n = "length cs"
  obtain subs roots where l: "tree_links le cs ds = (subs, roots)" by fastforce
  have subs: "subs k = sort_by (node_le le) (map doc_node (filter (\<lambda>d. doc_parent cs d = Some k) ds)
            @ map coll_node (filter (\<lambda>c. coll_parent cs c = Some k) cs))" for k
    using l tree_links_rows [OF assms, of le ds] by auto
  have roots: "roots = sort_by (node_le le) (map coll_node (level cs 0) @ map doc_node (filter (\<lambda>d. doc_parent cs d = None) ds))"
    using l tree_links_rows [OF assms, of le ds] by auto
  have "mset (concat (map nodes_of (buildTree le cs ds))) =
      (\<Sum>c\<leftarrow>level cs 0. mset (nodes_of (read_tree ?n subs (coll_node c))))
      + mset (map doc_node (filter (\<lambda>d. doc_parent cs d = None) ds))"
    unfolding buildTree_def l roots
    by (simp add: coll_map_distinct [OF assms] mset_concat_map comp_def sum_sort_by sum_mset_list)
  also have "(\<Sum>c\<leftarrow>level cs 0. mset (nodes_of (read_tree ?n subs (coll_node c)))) =
      (\<Sum>i\<leftarrow>[0..<Suc ?n]. mset (map coll_node (level cs i)))
      + (\<Sum>i\<leftarrow>[0..<?n]. mset (map doc_node (under (doc_parent cs) (rc_id ` set (level cs i)) ds)))"
    using level_nodes [OF assms subs, where j = 0 and k = ?n] by (simp only: add_0)
  also have "(\<Sum>i\<leftarrow>[0..<Suc ?n]. mset (map coll_node (level cs i))) =
      mset (map coll_node (filter (\<lambda>c. rooted cs (rc_id c)) cs))"
    using level_sum [OF assms, of coll_node ?n] level_end [OF assms, of ?n] rooted_member [OF assms]
    by (simp del: mset_map cong: filter_cong)
  also have "(\<Sum>i\<leftarrow>[0..<?n]. mset (map doc_node (under (doc_parent cs) (rc_id ` set (level cs i)) ds))) =
      mset (map doc_node (filter (\<lambda>d. case doc_parent cs d of None \<Rightarrow> False | Some p \<Rightarrow> rooted cs p) ds))"
  proof -
    have "(\<exists>i<?n. case doc_parent cs d of None \<Rightarrow> False | Some p \<Rightarrow> p \<in> rc_id ` set (level cs i))
        = (case doc_parent cs d of None \<Rightarrow> False | Some p \<Rightarrow> rooted cs p)" for d
      by (simp add: rooted_levels [OF assms] split: option.splits)
    with levels_filter [of "\<lambda>i d. case doc_parent cs d of None \<Rightarrow> False | Some p \<Rightarrow> p \<in> rc_id ` set (level cs i)" doc_node ds ?n]
      level_docs_unique [OF assms]
    show ?thesis by (simp only: under_def)
  qed
  finally have e: "mset (concat (map nodes_of (buildTree le cs ds))) =
      mset (map coll_node (filter (\<lambda>c. rooted cs (rc_id c)) cs))
      + (mset (map doc_node (filter (\<lambda>d. case doc_parent cs d of None \<Rightarrow> False | Some p \<Rightarrow> rooted cs p) ds))
         + mset (map doc_node (filter (\<lambda>d. doc_parent cs d = None) ds)))"
    by (simp only: add.assoc)
  have "mset (map doc_node (filter (\<lambda>d. case doc_parent cs d of None \<Rightarrow> False | Some p \<Rightarrow> rooted cs p) ds))
      + mset (map doc_node (filter (\<lambda>d. doc_parent cs d = None) ds))
      = mset (map doc_node (filter (\<lambda>d. case doc_parent cs d of None \<Rightarrow> True | Some p \<Rightarrow> rooted cs p) ds))"
    by (induction ds) (auto split: option.splits)
  with e show ?thesis by (simp only:)
qed

lemma two_cycle_not_rooted:
  assumes "\<And>x. x \<in> set cs \<Longrightarrow> rc_id x = i \<Longrightarrow> coll_parent cs x = Some j"
    and "\<And>x. x \<in> set cs \<Longrightarrow> rc_id x = j \<Longrightarrow> coll_parent cs x = Some i"
  shows "rooted cs k \<Longrightarrow> k \<noteq> i \<and> k \<noteq> j"
proof (induction rule: rooted.induct)
  case (Top c)
  then show ?case using assms [of c] by auto
next
  case (Sub c p)
  then show ?case using assms [of c] by auto
qed

lemma tree_members:
  assumes "distinct (map rc_id cs)"
  shows "set (concat (map nodes_of (buildTree le cs ds))) =
    coll_node ` {c \<in> set cs. rooted cs (rc_id c)}
    \<union> doc_node ` {d \<in> set ds. case doc_parent cs d of None \<Rightarrow> True | Some p \<Rightarrow> rooted cs p}"
  using arg_cong [OF rag_tree_complete_mset [OF assms, of le ds], of set_mset]
  by (simp only: set_mset_mset set_mset_union set_map set_filter)

text \<open>A node is neither the folder with an id nor a document in it.\<close>

definition hidden_from :: "string \<Rightarrow> tree_node \<Rightarrow> bool" where
  "hidden_from i n = (if tn_coll n then tn_id n \<noteq> i else tn_collection n \<noteq> Some i)"

lemma unrooted_hidden:
  assumes "distinct (map rc_id cs)" and "\<not> rooted cs i" and "i \<in> rc_id ` set cs - {[]}"
    and "n \<in> set (concat (map nodes_of (buildTree le cs ds)))"
  shows "hidden_from i n"
proof -
  from assms(4) consider x where "n = coll_node x" "rooted cs (rc_id x)"
    | x where "n = doc_node x" "case doc_parent cs x of None \<Rightarrow> True | Some p \<Rightarrow> rooted cs p"
    unfolding tree_members [OF assms(1)] by blast
  then show ?thesis
  proof cases
    case 1
    with assms(2) show ?thesis by (auto simp: hidden_from_def coll_node_def)
  next
    case 2
    have "rd_collection x \<noteq> Some i"
    proof
      assume "rd_collection x = Some i"
      with assms(3) have "doc_parent cs x = Some i" by (simp add: doc_parent_def)
      with 2(2) assms(2) show False by simp
    qed
    with 2(1) show ?thesis by (simp add: hidden_from_def doc_node_def)
  qed
qed

subsection \<open>Properties\<close>

text \<open>
  Nothing is lost in the tree and nothing shown twice: with collections of different ids
  the tree has, each exactly once, the collections from which going up ends, the documents in
  them and the documents that are in no collection.
\<close>

theorem rag_tree_complete:
  assumes "distinct (map rc_id cs)"
  shows "mset (concat (map nodes_of (buildTree le cs ds))) =
    mset (map coll_node (filter (\<lambda>c. rooted cs (rc_id c)) cs))
    + mset (map doc_node (filter (\<lambda>d. case doc_parent cs d of None \<Rightarrow> True | Some p \<Rightarrow> rooted cs p) ds))"
  using assms by (rule rag_tree_complete_mset)

definition demo_coll :: "string \<Rightarrow> string option \<Rightarrow> rag_collection" where
  "demo_coll i p = \<lparr>rc_id = i, rc_name = i, rc_description = None, rc_parent = p, rc_count = 0, rc_created = [], rc_updated = []\<rparr>"

lemma rag_tree_complete_witness:
  "mset (map tn_id (concat (map nodes_of (buildTree (\<lambda>a b. True) [demo_coll ''b'' (Some ''a''), demo_coll ''a'' None] []))))
     = {#''a'', ''b''#}"
proof -
  let ?cs = "[demo_coll ''b'' (Some ''a''), demo_coll ''a'' None]"
  have d: "distinct (map rc_id ?cs)" by (simp add: demo_coll_def)
  have a: "rooted ?cs ''a''"
    using rooted.Top [of "demo_coll ''a'' None" ?cs] by (simp add: demo_coll_def coll_parent_def)
  then have "rooted ?cs ''b''"
    using rooted.Sub [of "demo_coll ''b'' (Some ''a'')" ?cs "''a''"] by (simp add: demo_coll_def coll_parent_def)
  with a rag_tree_complete [OF d, of "\<lambda>a b. True" "[]"] show ?thesis
    by (simp only: mset_map) (simp add: demo_coll_def coll_node_def)
qed

text \<open>
  C36: Without a cycle everything is shown: if every collection is above its parent in some
  numbering, all collections and all documents are in the tree exactly once.
\<close>

theorem rag_tree_shows_all:
  assumes "distinct (map rc_id cs)"
    and "list_all (\<lambda>c. case coll_parent cs c of None \<Rightarrow> True | Some p \<Rightarrow> (height p :: nat) < height (rc_id c)) cs"
  shows "mset (concat (map nodes_of (buildTree le cs ds))) = mset (map coll_node cs) + mset (map doc_node ds)"
proof -
  have known: "\<exists>q\<in>set cs. rc_id q = p" if "coll_parent cs c = Some p" for c p
    using that by (auto simp: coll_parent_def split: option.splits if_splits)
  have "c \<in> set cs \<Longrightarrow> rooted cs (rc_id c)" for c
  proof (induction "height (rc_id c)" arbitrary: c rule: less_induct)
    case less
    show ?case
    proof (cases "coll_parent cs c")
      case None
      with less.prems show ?thesis by (rule rooted.Top)
    next
      case (Some p)
      with known obtain q where q: "q \<in> set cs" "rc_id q = p" by blast
      moreover from Some less.prems assms(2) have "height p < height (rc_id c)"
        by (auto simp: list_all_iff)
      ultimately have "rooted cs p" using less.hyps by blast
      with less.prems Some show ?thesis by (rule rooted.Sub)
    qed
  qed
  moreover have "rooted cs p" if "doc_parent cs d = Some p" for d p
    using that calculation by (auto simp: doc_parent_def split: option.splits if_splits)
  ultimately have "filter (\<lambda>c. rooted cs (rc_id c)) cs = cs"
    "filter (\<lambda>d. case doc_parent cs d of None \<Rightarrow> True | Some p \<Rightarrow> rooted cs p) ds = ds"
    by (auto simp: filter_id_conv split: option.splits)
  with rag_tree_complete_mset [OF assms(1), of le ds] show ?thesis by simp
qed

lemma rag_tree_shows_all_witness:
  "mset (concat (map nodes_of (buildTree (\<lambda>a b. True) [demo_coll ''b'' (Some ''a''), demo_coll ''a'' None] [])))
     = {#coll_node (demo_coll ''b'' (Some ''a'')), coll_node (demo_coll ''a'' None)#}"
  by (subst rag_tree_shows_all [where height = "\<lambda>i. if i = ''a'' then 0 else 1"])
    (simp_all add: demo_coll_def coll_parent_def)

text \<open>
  In every row the folders come before the documents, and each group is in the order of
  the names, for any consistent comparison of names.
\<close>

theorem rag_rows_sorted:
  assumes "\<And>x y. le x y \<or> le y x" and "\<And>x y z. le x y \<Longrightarrow> le y z \<Longrightarrow> le x z"
  shows "sorted_wrt (node_le le) (fst (tree_links le cs ds) k) \<and> sorted_wrt (node_le le) (snd (tree_links le cs ds))"
proof -
  have "node_le le a b \<or> node_le le b a" for a b using assms(1) by (auto simp: node_le_def)
  moreover have "node_le le a c" if "node_le le a b" "node_le le b c" for a b c
    using that assms(2) by (auto simp: node_le_def split: if_splits)
  ultimately have "sorted_wrt (node_le le) (sort_by (node_le le) xs)" for xs
    by (rule sorted_sort_by)
  then show ?thesis by (simp add: tree_links_def Let_def split: prod.splits)
qed

lemma rag_rows_sorted_witness:
  "sorted_wrt (node_le (\<lambda>a b. length a \<le> length b))
     (snd (tree_links (\<lambda>a b. length a \<le> length b) [demo_coll ''bb'' None, demo_coll ''a'' None] []))"
  by (rule rag_rows_sorted [THEN conjunct2]) auto

text \<open>The server after a request that moves a collection.\<close>

fun apply_move :: "rag_request \<Rightarrow> rag_collection list \<Rightarrow> rag_collection list" where
  "apply_move (UpdateCollection i d (Some p)) cs = map (\<lambda>c. if rc_id c = i then c\<lparr>rc_parent := Some p\<rparr> else c) cs"
| "apply_move r cs = cs"

text \<open>
  A folder dropped on a folder in it disappears: the page asks to move it there, and once
  that is done neither of them nor a document in them is in the tree any more.
\<close>

theorem drop_into_child_hides:
  assumes "distinct (map rc_id cs)" and "c \<in> set cs" and "d \<in> set cs" and "coll_parent cs d = Some (rc_id c)"
    and "rc_id d \<noteq> []"
  shows "\<exists>r. snd (onDragEnd (rc_id c) (Some False) (Some (rc_id d)) s) = [r]
    \<and> list_all (\<lambda>n. hidden_from (rc_id c) n \<and> hidden_from (rc_id d) n)
        (concat (map nodes_of (buildTree le (apply_move r cs) ds)))"
proof -
  let ?r = "UpdateCollection (rc_id c) None (Some (rc_id d))"
  let ?cs = "apply_move ?r cs"
  have ne: "rc_id c \<noteq> rc_id d" and c0: "rc_id c \<noteq> []"
    using assms(4) by (auto simp: coll_parent_def split: option.splits if_splits)
  have ids: "map rc_id ?cs = map rc_id cs" by (simp add: comp_def if_distrib cong: if_cong)
  then have ids': "rc_id ` set ?cs = rc_id ` set cs" by (metis set_map)
  have pc: "coll_parent ?cs x = Some (rc_id d)" if "x \<in> set ?cs" "rc_id x = rc_id c" for x
    using that ne assms(3,5) by (auto simp: coll_parent_def ids' simp del: apply_move.simps) (auto split: if_splits)
  have pd: "coll_parent ?cs x = Some (rc_id c)" if "x \<in> set ?cs" "rc_id x = rc_id d" for x
  proof -
    from that ne have "x \<in> set cs" by (auto split: if_splits)
    with that(2) assms(1,3) have "x = d" by (intro parent_unique)
    with assms(4) show ?thesis by (simp only: coll_parent_def ids')
  qed
  note cyc = two_cycle_not_rooted [OF pc pd]
  then have nr: "\<not> rooted ?cs (rc_id c)" "\<not> rooted ?cs (rc_id d)" by blast+
  have "distinct (map rc_id ?cs)" unfolding ids by (rule assms(1))
  moreover have "{rc_id c, rc_id d} \<subseteq> rc_id ` set ?cs - {[]}"
    unfolding ids' using assms(2,3,5) c0 by auto
  ultimately have "hidden_from (rc_id c) n \<and> hidden_from (rc_id d) n"
    if "n \<in> set (concat (map nodes_of (buildTree le ?cs ds)))" for n
    using that nr unrooted_hidden by blast
  then have "list_all (\<lambda>n. hidden_from (rc_id c) n \<and> hidden_from (rc_id d) n) (concat (map nodes_of (buildTree le ?cs ds)))"
    unfolding list_all_iff by blast
  with ne show ?thesis by (simp add: onDragEnd_def del: apply_move.simps)
qed

lemma drop_into_child_hides_witness:
  "let cs = [demo_coll ''a'' None, demo_coll ''b'' (Some ''a'')]
   in \<exists>r. snd (onDragEnd ''a'' (Some False) (Some ''b'') rag_start) = [r]
      \<and> list_all (\<lambda>n. hidden_from ''a'' n \<and> hidden_from ''b'' n)
          (concat (map nodes_of (buildTree (\<lambda>x y. True) (apply_move r cs) [])))"
  using drop_into_child_hides [of "[demo_coll ''a'' None, demo_coll ''b'' (Some ''a'')]" "demo_coll ''a'' None"
      "demo_coll ''b'' (Some ''a'')" rag_start "\<lambda>x y. True" "[]"]
  by (simp add: demo_coll_def coll_parent_def Let_def)

text \<open>
  The text of a description is saved exactly when it was changed, and with the escape key
  never; whatever is pressed, a cell that is left shows the stored description.
\<close>

theorem description_saved_when_changed:
  "snd (cell_on_key v (EnterKey False) (type_text t (start_editing (cell_start v))))
      = (if t = cell_value v then None else Some t)
   \<and> snd (cell_on_key v EscapeKey (type_text t (start_editing (cell_start v)))) = None
   \<and> (\<not> editing (fst (cell_on_key v k (start_editing c))))
       \<le> (cell_text (fst (cell_on_key v k (start_editing c))) = cell_value v)"
  by (auto simp: cell_on_key_def cell_save_def sync_effect_def type_text_def start_editing_def cell_start_def
      split: cell_key.splits)

text \<open>
  A summary that arrives after the cell was left is not dropped: it is not shown, but it is
  the text with which the next edit starts, and leaving the cell again stores it although the
  user typed nothing.
\<close>

theorem late_summary_saved:
  assumes "summary \<noteq> cell_value v"
  shows "let left = fst (cell_save v (start_editing (cell_start v)));
             back = start_editing (ai_answered (Inr summary) left)
         in cell_text left = cell_value v \<and> cell_text back = summary \<and> snd (cell_save v back) = Some summary"
  using assms
  by (simp add: cell_save_def sync_effect_def start_editing_def cell_start_def ai_answered_def Let_def)

lemma late_summary_saved_witness:
  "snd (cell_save None (start_editing (ai_answered (Inr ''about X'') (fst (cell_save None (start_editing (cell_start None)))))))
     = Some ''about X''"
  using late_summary_saved [of "''about X''" None] by (simp add: cell_value_def Let_def)

text \<open>
  Cancelling the dialog that creates a collection keeps what was typed, so the next one
  starts with it, also below another folder; a successful creation clears it.
\<close>

theorem cancelled_dialog_keeps_text:
  "dlgName (openCreateDlg p (cancelCreateDlg s)) = dlgName s
   \<and> dlgName (openCreateDlg p (create_answered (Inr ()) s)) = []
   \<and> (trim (dlgName s) \<noteq> []) \<le>
       (snd (handleCreate (openCreateDlg p (cancelCreateDlg s)))
          = [CreateCollection (trim (dlgName s)) (if trim (dlgDesc s) \<noteq> [] then Some (trim (dlgDesc s)) else None) p])"
  by (simp add: openCreateDlg_def cancelCreateDlg_def create_answered_def handleCreate_def)

end
