(* ===== verification/Formats.thy ===== *)
theory Formats
  imports Prelude Complex_Main
begin

text \<open>
  The texts for sizes, times and states on the pages of the nodes and the dashboard:
  \<^verbatim>\<open>pages/admin/nodes/NodeDetailPage.tsx\<close>, \<^verbatim>\<open>components/dashboard/NodePerformanceCard.tsx\<close>,
  \<^verbatim>\<open>pages/admin/DashboardPage.tsx\<close>, \<^verbatim>\<open>pages/admin/rag/RagLiteKnowledgeBasePage.tsx\<close>. A finite
  number of JavaScript is a rational, and dividing it by 1024 is exact. \<open>toFixed\<close> is the method
  of the language for numbers below \<open>10\<^sup>2\<^sup>1\<close>: the nearest decimal, the larger one of two.
\<close>

subsection \<open>Decimals\<close>

definition fixed_num :: "nat \<Rightarrow> rat \<Rightarrow> nat" where
  "fixed_num f x = nat \<lfloor>x * 10 ^ f + 1 / 2\<rfloor>"

definition pad_digits :: "nat \<Rightarrow> nat \<Rightarrow> string" where
  "pad_digits f k = replicate (f - length (show_nat k)) (CHR ''0'') @ show_nat k"

definition fixed_text :: "nat \<Rightarrow> rat \<Rightarrow> string" where
  "fixed_text f x =
     (let n = fixed_num f x
      in if f = 0 then show_nat n else show_nat (n div 10 ^ f) @ ''.'' @ pad_digits f (n mod 10 ^ f))"

definition toFixed :: "rat \<Rightarrow> nat \<Rightarrow> string" where
  "toFixed x f = (if x < 0 then ''-'' @ fixed_text f (- x) else fixed_text f x)"

subsection \<open>Sizes\<close>

definition units :: "string list" where
  "units = [''B'', ''KB'', ''MB'', ''GB'', ''TB'']"

function scale_bytes :: "rat \<Rightarrow> nat \<Rightarrow> rat \<times> nat" where
  "scale_bytes n i = (if 1024 \<le> n \<and> i < length units - 1 then scale_bytes (n / 1024) (Suc i) else (n, i))"
  by pat_completeness auto

termination scale_bytes
  by (relation "measure (\<lambda>(n, i). length units - i)") auto

declare scale_bytes.simps [simp del]

definition fmtBytes :: "rat option \<Rightarrow> string" where
  "fmtBytes value =
     (case value of
        None \<Rightarrow> ''N/A''
      | Some v \<Rightarrow> (let (n, i) = scale_bytes v 0 in toFixed n (if i = 0 then 0 else 1) @ '' '' @ units ! i))"

definition rag_fmtBytes :: "nat \<Rightarrow> string" where
  "rag_fmtBytes b =
     (if b < 1024 then show_nat b @ '' B''
      else if b < 1048576 then toFixed (of_nat b / 1024) 1 @ '' KB''
      else toFixed (of_nat b / 1048576) 1 @ '' MB'')"

definition fmtPct :: "rat option \<Rightarrow> string" where
  "fmtPct value = (case value of None \<Rightarrow> ''N/A'' | Some v \<Rightarrow> toFixed v 1 @ ''%'')"

definition fmtRatio :: "rat option \<Rightarrow> rat option \<Rightarrow> string" where
  "fmtRatio used tot =
     (case (used, tot) of
        (Some u, Some t) \<Rightarrow> if t \<le> 0 then ''N/A'' else fmtBytes used @ '' / '' @ fmtBytes tot
      | _ \<Rightarrow> ''N/A'')"

subsection \<open>Times\<close>

text \<open>\<open>parse\<close> gives the milliseconds of a text, \<open>None\<close> if it is not a time.\<close>

definition relativeTime :: "(string \<Rightarrow> int option) \<Rightarrow> int \<Rightarrow> string option \<Rightarrow> string" where
  "relativeTime parse now seen =
     (if \<not> truthy seen then ''never''
      else case parse (the seen) of
        None \<Rightarrow> ''NaNd ago''
      | Some t \<Rightarrow>
          (let diff = now - t; sec = diff div 1000
           in if sec < 60 then show_int sec @ ''s ago''
              else let mins = sec div 60
                   in if mins < 60 then show_int mins @ ''m ago''
                      else let hr = mins div 60
                           in if hr < 24 then show_int hr @ ''h ago''
                              else show_int (hr div 24) @ ''d ago''))"

subsection \<open>Colours of states\<close>

datatype chip_color = Success | Warning | Error_color | Info_color | Default_color

definition node_status_color :: "string \<Rightarrow> chip_color" where
  "node_status_color status =
     (if status = ''healthy'' then Success
      else if status = ''maintenance'' \<or> status = ''draining'' \<or> status = ''degraded'' then Warning
      else if status = ''offline'' \<or> status = ''error'' then Error_color
      else Default_color)"

definition card_status_color :: "string \<Rightarrow> chip_color" where
  "card_status_color status =
     (if status = ''healthy'' then Success
      else if status = ''maintenance'' then Warning
      else if status = ''offline'' \<or> status = ''unhealthy'' then Error_color
      else Default_color)"

definition barColor :: "rat \<Rightarrow> chip_color" where
  "barColor v = (if v \<le> 60 then Success else if v \<le> 85 then Warning else Error_color)"

definition healthColor :: "string \<Rightarrow> chip_color" where
  "healthColor status =
     (let v = to_lower status
      in if v = ''up'' \<or> v = ''healthy'' then Success
         else if v = ''degraded'' \<or> v = ''unknown'' then Warning
         else if v = ''down'' then Error_color
         else Default_color)"

definition systemBadgeColor :: "string \<Rightarrow> chip_color" where
  "systemBadgeColor badge =
     (if badge = ''green'' then Success else if badge = ''yellow'' then Warning
      else if badge = ''red'' then Error_color else Default_color)"

definition statusChipColor :: "string \<Rightarrow> chip_color" where
  "statusChipColor s =
     (if s = ''ready'' then Success
      else if s = ''processing'' \<or> s = ''pending'' then Info_color
      else if s = ''error'' then Error_color
      else Default_color)"

subsection \<open>Lemmas\<close>

lemma digits_value_append: "digits_value (a @ b) = digits_value a * 10 ^ length b + digits_value b"
proof (induction b rule: rev_induct)
  case (snoc c b)
  have "digits_value (a @ b @ [c]) = 10 * digits_value (a @ b) + (of_char c - 48)"
    using digits_value_snoc [of "a @ b" c] by simp
  with snoc show ?case by (simp add: digits_value_snoc algebra_simps)
qed (simp add: digits_value_def)

lemma digits_value_zeros: "digits_value (replicate k (CHR ''0'')) = 0"
  by (induction k) (simp_all add: digits_value_def)

lemma digits_value_pad [simp]: "digits_value (pad_digits f k) = k"
  by (simp add: pad_digits_def digits_value_append digits_value_zeros digits_value_show)

lemma length_show: "0 < f \<Longrightarrow> k < 10 ^ f \<Longrightarrow> length (show_nat k) \<le> f"
proof (induction f arbitrary: k)
  case (Suc f)
  show ?case
  proof (cases "k < 10")
    case True
    then show ?thesis by (subst show_nat.simps) simp
  next
    case False
    with Suc.prems have "0 < f" by (cases f) auto
    moreover have "k div 10 < 10 ^ f" using Suc.prems by (simp add: less_mult_imp_div_less mult.commute)
    ultimately show ?thesis using Suc.IH [of "k div 10"] False by (subst show_nat.simps) simp
  qed
qed simp

lemma length_pad: "0 < f \<Longrightarrow> k < 10 ^ f \<Longrightarrow> length (pad_digits f k) = f"
  using length_show [of f k] by (simp add: pad_digits_def)

lemma digits_show [simp]: "filter is_digit (show_nat k) = show_nat k"
  using is_digit_show [of k] by (simp add: filter_id_conv list_all_iff)

lemma digits_pad [simp]: "filter is_digit (pad_digits f k) = pad_digits f k"
  by (simp add: pad_digits_def is_digit_def)

text \<open>The digits of a decimal are the number that was rounded.\<close>

lemma fixed_text_digits: "digits_value (filter is_digit (fixed_text f x)) = fixed_num f x"
proof (cases "f = 0")
  case False
  have dot: "\<not> is_digit (CHR ''.'')" by (simp add: is_digit_def)
  have "length (pad_digits f (fixed_num f x mod 10 ^ f)) = f"
    using False by (intro length_pad) simp_all
  with False dot show ?thesis
    by (simp add: fixed_text_def Let_def digits_value_append digits_value_show div_mult_mod_eq)
qed (simp add: fixed_text_def digits_value_show)

lemma fixed_num_close: "0 \<le> x \<Longrightarrow> \<bar>of_nat (fixed_num f x) - x * 10 ^ f\<bar> \<le> 1 / 2"
proof -
  assume "0 \<le> x"
  then have "0 \<le> \<lfloor>x * 10 ^ f + 1 / 2\<rfloor>" by simp
  then have "of_nat (fixed_num f x) = (of_int \<lfloor>x * 10 ^ f + 1 / 2\<rfloor> :: rat)"
    by (simp add: fixed_num_def)
  then show ?thesis
    using of_int_floor_le [of "x * 10 ^ f + 1 / 2"] floor_correct [of "x * 10 ^ f + 1 / 2"] by linarith
qed

lemma tenth_close: "\<bar>a - n * 10\<bar> \<le> 1 / 2 \<Longrightarrow> \<bar>a / 10 - n\<bar> \<le> 1 / 20" for a n :: rat
  by (simp add: abs_le_iff field_simps)

lemma fixed_num_eq: "of_nat k \<le> x * 10 ^ f + 1 / 2 \<Longrightarrow> x * 10 ^ f + 1 / 2 < of_nat k + 1 \<Longrightarrow> fixed_num f x = k"
  using floor_unique [of "int k" "x * 10 ^ f + 1 / 2"] by (simp add: fixed_num_def)

lemma scale_bytes_spec:
  "scale_bytes n i = (m, j) \<Longrightarrow> i \<le> 4 \<Longrightarrow>
     i \<le> j \<and> j \<le> 4 \<and> m * 1024 ^ (j - i) = n \<and> (j < 4 \<longrightarrow> m < 1024) \<and> (i < j \<longrightarrow> 1 \<le> m)"
proof (induction n i arbitrary: m j rule: scale_bytes.induct)
  case (1 n i)
  show ?case
  proof (cases "1024 \<le> n \<and> i < length units - 1")
    case True
    with 1 have r: "Suc i \<le> j" "j \<le> 4" "m * 1024 ^ (j - Suc i) = n / 1024" "j < 4 \<longrightarrow> m < 1024" "Suc i < j \<longrightarrow> 1 \<le> m"
      by (auto simp: scale_bytes.simps [of n i] units_def)
    have "j - i = Suc (j - Suc i)" using r(1) by simp
    then have "m * 1024 ^ (j - i) = n" using r(3) by simp
    moreover have "1 \<le> m" if "j = Suc i"
      using that r(3) True by simp
    ultimately show ?thesis using r by auto
  next
    case False
    with 1 show ?thesis by (auto simp: scale_bytes.simps [of n i] units_def)
  qed
qed

subsection \<open>Properties\<close>

text \<open>
  A size is shown to the last digit: the loop ends at one of the five units, the number in
  front of it is below 1024 before it is rounded, except for the largest unit, and at least 1
  except for the smallest, and the digits shown differ from the exact size by at most half of
  the last one.
\<close>

theorem size_text_close:
  assumes "0 \<le> v" and "scale_bytes v 0 = (n, i)"
  shows "fmtBytes (Some v) = fixed_text (if i = 0 then 0 else 1) n @ '' '' @ units ! i
    \<and> i < length units \<and> n * 1024 ^ i = v \<and> (n < 1024 \<or> i = 4) \<and> (1 \<le> n \<or> i = 0)
    \<and> \<bar>of_nat (digits_value (filter is_digit (fixed_text 1 n))) / 10 * 1024 ^ i - v\<bar> \<le> 1024 ^ i / 20"
proof -
  from scale_bytes_spec [OF assms(2)]
  have s: "i \<le> 4" "n * 1024 ^ i = v" "n < 1024 \<or> i = 4" "1 \<le> n \<or> i = 0" by auto
  have n0: "0 \<le> n"
  proof (rule ccontr)
    assume "\<not> 0 \<le> n"
    then have "n * 1024 ^ i < 0" by (simp add: mult_neg_pos)
    with s(2) assms(1) show False by simp
  qed
  have "\<bar>of_nat (fixed_num 1 n) / 10 - n\<bar> \<le> 1 / 20"
    by (rule tenth_close) (use fixed_num_close [OF n0, of 1] in simp)
  then have "\<bar>of_nat (fixed_num 1 n) / 10 - n\<bar> * 1024 ^ i \<le> 1 / 20 * 1024 ^ i"
    by (intro mult_right_mono) simp_all
  moreover have "of_nat (fixed_num 1 n) / 10 * 1024 ^ i - v = (of_nat (fixed_num 1 n) / 10 - n) * 1024 ^ i"
    using s(2) by (simp add: algebra_simps)
  ultimately have "\<bar>of_nat (fixed_num 1 n) / 10 * 1024 ^ i - v\<bar> \<le> 1024 ^ i / 20"
    by (simp add: abs_mult)
  with s n0 show ?thesis
    by (simp add: fmtBytes_def assms(2) toFixed_def fixed_text_digits units_def)
qed

lemma size_text_close_witness:
  "fmtBytes (Some 1536) = ''1.5 KB''"
proof -
  have s: "scale_bytes 1536 0 = (3 / 2, 1)" by (simp add: scale_bytes.simps units_def)
  have "fixed_num 1 (3 / 2) = 15" by (rule fixed_num_eq; simp)
  moreover have "show_nat 1 = ''1''" "show_nat 5 = ''5''" by code_simp+
  ultimately have t: "fixed_text 1 (3 / 2) = ''1.5''" unfolding fixed_text_def by (simp add: Let_def pad_digits_def)
  show ?thesis using size_text_close [THEN conjunct1, OF _ s] t [simplified] by (simp add: units_def)
qed

text \<open>
  The unit is chosen before rounding: one byte less than a megabyte is shown as a thousand
  and twenty-four kilobytes; the knowledge base has no unit above megabytes.
\<close>

theorem size_rounds_to_unit:
  "fmtBytes (Some 1048575) = ''1024.0 KB'' \<and> rag_fmtBytes 1048575 = ''1024.0 KB''
   \<and> fmtBytes (Some 1099511627776) = ''1.0 TB'' \<and> rag_fmtBytes 1099511627776 = ''1048576.0 MB''"
proof -
  have f: "fixed_num 1 (1048575 / 1024) = 10240" "fixed_num 1 1 = 10" "fixed_num 1 1048576 = 10485760"
    by (rule fixed_num_eq; simp)+
  have "show_nat 1024 = ''1024''" "show_nat 0 = ''0''" "show_nat 1 = ''1''" "show_nat 1048576 = ''1048576''"
    by (simp_all add: show_nat.simps digit_chars)
  then have t: "fixed_text 1 (1048575 / 1024) = ''1024.0''" "fixed_text 1 1 = ''1.0''" "fixed_text 1 1048576 = ''1048576.0''"
    unfolding fixed_text_def f by (simp_all add: Let_def pad_digits_def)
  show ?thesis
    by (simp add: fmtBytes_def rag_fmtBytes_def scale_bytes.simps units_def toFixed_def t [simplified])
qed

definition shown_age :: "string \<Rightarrow> int \<times> int" where
  "shown_age txt =
     (let (ds, unit) = (takeWhile is_digit txt, dropWhile is_digit txt)
      in (int (digits_value ds),
          if unit = ''s ago'' then 1 else if unit = ''m ago'' then 60
          else if unit = ''h ago'' then 3600 else if unit = ''d ago'' then 86400 else 0))"

lemma show_split: "takeWhile is_digit (show_nat k @ c # s) = show_nat k \<and> dropWhile is_digit (show_nat k @ c # s) = c # s"
  if "\<not> is_digit c"
  using that is_digit_show [of k] by (auto simp: list_all_iff takeWhile_append dropWhile_append)

lemma shown_age_text:
  "0 \<le> k \<Longrightarrow> \<not> is_digit c \<Longrightarrow>
     shown_age (show_int k @ c # s) = (k, if c # s = ''s ago'' then 1 else if c # s = ''m ago'' then 60
          else if c # s = ''h ago'' then 3600 else if c # s = ''d ago'' then 86400 else 0)"
  by (simp add: shown_age_def show_int_def show_split digits_value_show Let_def)

lemma split_bounds: "0 < (m :: int) \<Longrightarrow> x div m * m \<le> x \<and> x < (x div m + 1) * m"
  using div_mult_mod_eq [of x m] pos_mod_bound [of m x] pos_mod_sign [of m x]
  by (simp only: distrib_right mult_1 True_implies_equals) linarith

definition age_ok :: "int \<Rightarrow> int \<times> int \<Rightarrow> bool" where
  "age_ok sec = (\<lambda>(k, u). u \<in> {1, 60, 3600, 86400} \<and> k * u \<le> sec \<and> sec < (k + 1) * u
    \<and> (u = 86400 \<or> k < (if u = 3600 then 24 else 60)))"

lemma age_bounds:
  assumes "0 \<le> sec"
  shows "age_ok sec (shown_age
      (if sec < 60 then show_int sec @ ''s ago''
       else if sec div 60 < 60 then show_int (sec div 60) @ ''m ago''
       else if sec div 60 div 60 < 24 then show_int (sec div 60 div 60) @ ''h ago''
       else show_int (sec div 60 div 60 div 24) @ ''d ago''))"
proof -
  have c: "\<not> is_digit (CHR ''s'')" "\<not> is_digit (CHR ''m'')" "\<not> is_digit (CHR ''h'')" "\<not> is_digit (CHR ''d'')"
    by (simp_all add: is_digit_def)
  have d: "sec div 60 div 60 = sec div 3600" "sec div 3600 div 24 = sec div 86400"
    by (simp_all add: zdiv_zmult2_eq [symmetric])
  have n: "0 \<le> sec div 60" "0 \<le> sec div 3600" "0 \<le> sec div 86400"
    using assms by (simp_all add: pos_imp_zdiv_nonneg_iff)
  note b = split_bounds [of 60 sec] split_bounds [of 3600 sec] split_bounds [of 86400 sec]
  show ?thesis
    unfolding d using assms n b
    by (simp add: shown_age_text c age_ok_def)
qed

text \<open>
  The age is right: for a time in the past the number shown is that of the whole units that
  have passed, and it is below 60 for seconds and minutes and below 24 for hours.
\<close>

theorem age_text_right:
  assumes "seen \<noteq> []" and "parse seen = Some t" and "t \<le> now"
  shows "age_ok ((now - t) div 1000) (shown_age (relativeTime parse now (Some seen)))"
proof -
  from assms(3) have "0 \<le> (now - t) div 1000" by (simp add: pos_imp_zdiv_nonneg_iff)
  from age_bounds [OF this] assms(1,2) show ?thesis
    by (simp only: relativeTime_def Let_def truthy_simps option.sel option.case not_not if_False simp_thms)
qed

lemma age_text_right_witness:
  "age_ok 7200 (shown_age (relativeTime (\<lambda>s. Some 0) 7200000 (Some ''1970'')))"
  using age_text_right [of "''1970''" "\<lambda>s. Some 0" 0 7200000] by simp

text \<open>
  A clock that is behind is shown: a time in the future gives a negative number of seconds,
  however far away it is.
\<close>

theorem future_age_negative:
  assumes "seen \<noteq> []" and "parse seen = Some t" and "now < t"
  shows "hd (relativeTime parse now (Some seen)) = CHR ''-''"
proof -
  have "(now - t) div 1000 < 0" using assms(3) by simp
  with assms show ?thesis by (simp add: relativeTime_def show_int_def)
qed

lemma future_age_negative_witness: "hd (relativeTime (\<lambda>s. Some 90000000) 0 (Some ''x'')) = CHR ''-''"
  by (rule future_age_negative [where t = 90000000]) simp_all

text \<open>
  The two pages of a node do not agree on its state: a draining or degraded node is a
  warning on its page and neutral on the dashboard, an unhealthy one the other way round an
  error on the dashboard only.
\<close>

theorem node_colors_differ:
  "(node_status_color s \<noteq> card_status_color s) = (s \<in> {''draining'', ''degraded'', ''error'', ''unhealthy''})"
  by (auto simp: node_status_color_def card_status_color_def)

end
