(* ===== verification/Runtime_Page.thy ===== *)
theory Runtime_Page
  imports Vllm_Args "HOL-Library.AList"
begin

text \<open>
  The page of a runtime, \<^verbatim>\<open>pages/admin/llm/RuntimeDetailPage.tsx\<close>: the progress of its
  deployment on a node, the editor of its configuration with what is sent on saving, loading,
  and the polling of a runtime that is not settled. A configuration is an object of JSON, its
  fields an association list. Requests are answered by arguments, \<open>Inl\<close> with the message of
  the error. Metadata fields, the panel of the resources and the styles are not modelled.
\<close>

subsection \<open>Types\<close>

datatype runtime_status = Creating | Starting | Running | Stopping | Stopped | Errored

type_synonym config = "(string \<times> json) list"

record runtime =
  rt_id :: string
  rt_name :: string
  rt_provider_id :: string
  rt_model_id :: string
  rt_status :: runtime_status
  generic_config :: "config option"
  provider_config :: "config option"
  assigned_node_id :: "string option"
  last_command_id :: "string option"
  status_message :: "string option"

record provider =
  prov_id :: string
  prov_remote :: bool
  endpoint_url :: "string option"
  remote_model :: "string option"

record health =
  healthy :: bool
  health_detail :: string

record node_event =
  ev_phase :: string
  ev_payload :: "json option"

record timeline =
  cmd_status :: string
  cmd_error :: "string option"
  events :: "node_event list"

subsection \<open>The progress of a deployment\<close>

definition DEPLOY_STAGES :: "string list" where
  "DEPLOY_STAGES =
     [''dispatched'', ''validate'', ''remove_stale'', ''sync_model'', ''pull_image'',
      ''start_container'', ''resolve_endpoint'', ''waiting_for_ready'', ''ready'']"

definition STAGE_LABELS :: "(string \<times> string) list" where
  "STAGE_LABELS =
     [(''dispatched'', ''Dispatched''), (''validate'', ''Validate''), (''remove_stale'', ''Cleanup''),
      (''sync_model'', ''Sync Model''), (''pull_image'', ''Pull Image''),
      (''start_container'', ''Start Container''), (''resolve_endpoint'', ''Resolve Endpoint''),
      (''waiting_for_ready'', ''Health Check''), (''ready'', ''Ready'')]"

definition isFailed :: "timeline \<Rightarrow> bool" where
  "isFailed tm = (cmd_status tm \<in> {''failed'', ''canceled'', ''timed_out''})"

definition isFinished :: "timeline \<Rightarrow> bool" where
  "isFinished tm = (cmd_status tm = ''succeeded'')"

definition isPostDeployFailure :: "timeline \<Rightarrow> runtime_status option \<Rightarrow> bool" where
  "isPostDeployFailure tm st = (isFinished tm \<and> st = Some Errored)"

text \<open>The phase of an event: the field of its payload, when it is a known stage.\<close>

definition known_phase :: "node_event \<Rightarrow> string option" where
  "known_phase ev =
     (case json_string (case ev_payload ev of None \<Rightarrow> None | Some p \<Rightarrow> json_get p ''phase'') of
        None \<Rightarrow> None
      | Some phase \<Rightarrow> if phase \<in> set DEPLOY_STAGES then Some phase else None)"

fun lastPhase :: "string option \<Rightarrow> node_event list \<Rightarrow> string option" where
  "lastPhase found [] = found"
| "lastPhase found (ev # evs) =
     lastPhase (case known_phase ev of None \<Rightarrow> found | Some p \<Rightarrow> Some p) evs"

definition activeStep :: "timeline \<Rightarrow> nat" where
  "activeStep tm =
     (if isFinished tm then length DEPLOY_STAGES
      else case lastPhase None (events tm) of
             Some phase \<Rightarrow> (case index_of phase DEPLOY_STAGES of Some i \<Rightarrow> i | None \<Rightarrow> 0)
           | None \<Rightarrow> if cmd_status tm = ''queued'' then 0
                     else if cmd_status tm = ''dispatched'' then 0
                     else if cmd_status tm = ''running'' then 1
                     else 0)"

text \<open>The step that carries the error; \<open>None\<close> is the \<open>-1\<close> of the code.\<close>

definition errorStep :: "timeline \<Rightarrow> runtime_status option \<Rightarrow> nat option" where
  "errorStep tm st =
     (if isFailed tm then Some (activeStep tm)
      else if isPostDeployFailure tm st then Some (length DEPLOY_STAGES - 1)
      else None)"

definition showError :: "timeline \<Rightarrow> runtime_status option \<Rightarrow> bool" where
  "showError tm st = (isFailed tm \<or> isPostDeployFailure tm st)"

record step_view =
  step_label :: string
  completed :: bool
  in_error :: bool

definition step_view_of :: "timeline \<Rightarrow> runtime_status option \<Rightarrow> nat \<Rightarrow> step_view" where
  "step_view_of tm st idx =
     (let phase = DEPLOY_STAGES ! idx in
      \<lparr>step_label = (case map_of STAGE_LABELS phase of None \<Rightarrow> phase | Some l \<Rightarrow> l),
       completed = (if showError tm st then (case errorStep tm st of None \<Rightarrow> False | Some e \<Rightarrow> idx < e)
                    else activeStep tm > idx),
       in_error = (showError tm st \<and> errorStep tm st = Some idx)\<rparr>)"

definition steps_view :: "timeline \<Rightarrow> runtime_status option \<Rightarrow> step_view list" where
  "steps_view tm st = map (step_view_of tm st) [0..<length DEPLOY_STAGES]"

definition progress_bar :: "timeline \<Rightarrow> runtime_status option \<Rightarrow> bool" where
  "progress_bar tm st =
     (\<not> isFinished tm \<and> \<not> isFailed tm \<and> \<not> isPostDeployFailure tm st \<and> cmd_status tm = ''running'')"

subsection \<open>The editor\<close>

definition GC_TO_FLAG :: "(string \<times> string) list" where
  "GC_TO_FLAG =
     [(''max_model_len'', ''max-model-len''), (''dtype'', ''dtype''),
      (''gpu_memory_utilization'', ''gpu-memory-utilization''),
      (''tensor_parallel_size'', ''tensor-parallel-size''), (''swap_space'', ''swap-space''),
      (''enforce_eager'', ''enforce-eager'')]"

definition FLAG_TO_GC :: "(string \<times> string) list" where
  "FLAG_TO_GC =
     [(''max-model-len'', ''max_model_len''), (''dtype'', ''dtype''),
      (''gpu-memory-utilization'', ''gpu_memory_utilization''),
      (''tensor-parallel-size'', ''tensor_parallel_size''), (''swap-space'', ''swap_space''),
      (''enforce-eager'', ''enforce_eager'')]"

record res_values =
  gpuRequest :: string
  ipcMode :: string
  shmSize :: string
  memoryLimit :: string
  cpuLimit :: string
  containerPort :: string

record editor =
  editName :: string
  engineArgs :: config
  containerRes :: res_values
  editRemoteModel :: string
  editEndpointUrl :: string
  editApiKey :: string
  editImage :: string
  editExtraArgs :: string
  editModelSource :: json

text \<open>A field that is neither undefined nor null, and \<open>String(v ?? "")\<close>.\<close>

definition field :: "config \<Rightarrow> string \<Rightarrow> json option" where
  "field c k = (case map_of c k of None \<Rightarrow> None | Some v \<Rightarrow> if v = JNull then None else Some v)"

definition field_text :: "config \<Rightarrow> string \<Rightarrow> string" where
  "field_text c k = (case field c k of None \<Rightarrow> [] | Some v \<Rightarrow> js_text v)"

text \<open>The own entries of a value that is spread into an object.\<close>

fun spread :: "json \<Rightarrow> config" where
  "spread (JObject kvs) = kvs"
| "spread (JArray vs) = zip (map show_nat [0..<length vs]) vs"
| "spread (JString s) = zip (map show_nat [0..<length s]) (map (\<lambda>c. JString [c]) s)"
| "spread _ = []"

definition overlay :: "config \<Rightarrow> (string \<times> string) \<Rightarrow> config \<Rightarrow> config" where
  "overlay gc = (\<lambda>(gcKey, flag) args.
     (case field gc gcKey of
        None \<Rightarrow> args
      | Some v \<Rightarrow> if map_of args flag = None then AList.update flag v args else args))"

definition or_empty :: "config option \<Rightarrow> config" where
  "or_empty c = (case c of None \<Rightarrow> [] | Some kvs \<Rightarrow> kvs)"

definition seed_args :: "runtime \<Rightarrow> config" where
  "seed_args rt =
     fold (overlay (or_empty (generic_config rt))) GC_TO_FLAG
       (case field (or_empty (provider_config rt)) ''engine_args'' of None \<Rightarrow> [] | Some v \<Rightarrow> spread v)"

definition extra_text :: "config \<Rightarrow> string" where
  "extra_text pc =
     (case map_of pc ''extra_args'' of
        Some (JArray vs) \<Rightarrow> join '' '' (map (\<lambda>v. if v = JNull then [] else js_text v) vs)
      | _ \<Rightarrow> [])"

definition or_text :: "string option \<Rightarrow> string" where
  "or_text s = (case s of None \<Rightarrow> [] | Some t \<Rightarrow> t)"

definition edit_of :: "provider option \<Rightarrow> runtime \<Rightarrow> editor" where
  "edit_of p rt =
     (let pc = or_empty (provider_config rt) in
      \<lparr>editName = rt_name rt,
       engineArgs = seed_args rt,
       containerRes =
         \<lparr>gpuRequest = field_text pc ''gpu_request'', ipcMode = field_text pc ''ipc_mode'',
          shmSize = field_text pc ''shm_size'', memoryLimit = field_text pc ''memory_limit'',
          cpuLimit = field_text pc ''cpu_limit'', containerPort = field_text pc ''container_port''\<rparr>,
       editRemoteModel = (case p of None \<Rightarrow> [] | Some q \<Rightarrow> or_text (remote_model q)),
       editEndpointUrl = (case p of None \<Rightarrow> [] | Some q \<Rightarrow> or_text (endpoint_url q)),
       editApiKey = [],
       editImage = field_text pc ''image'',
       editExtraArgs = extra_text pc,
       editModelSource =
         (case field pc ''model_source'' of None \<Rightarrow> JString ''sync_from_server'' | Some v \<Rightarrow> v)\<rparr>)"

subsection \<open>Saving\<close>

definition put :: "string \<Rightarrow> json option \<Rightarrow> config \<Rightarrow> config" where
  "put k v c = (case v of None \<Rightarrow> AList.delete k c | Some j \<Rightarrow> AList.update k j c)"

definition text_field :: "string \<Rightarrow> json option" where
  "text_field s = (if trim s \<noteq> [] then Some (JString (trim s)) else None)"

definition saved_generic :: "config \<Rightarrow> runtime \<Rightarrow> config" where
  "saved_generic args rt =
     fold (\<lambda>(flag, gcKey) c. case field args flag of None \<Rightarrow> c | Some v \<Rightarrow> AList.update gcKey v c) FLAG_TO_GC
       (fold (\<lambda>gcKey c. AList.delete gcKey c) (map snd FLAG_TO_GC) (or_empty (generic_config rt)))"

definition put_args :: "config \<Rightarrow> config \<Rightarrow> config" where
  "put_args args = put ''engine_args'' (if length args > 0 then Some (JObject args) else None)"

definition put_extra :: "string list \<Rightarrow> config \<Rightarrow> config" where
  "put_extra xs = put ''extra_args'' (if length xs > 0 then Some (JArray (map JString xs)) else None)"

definition put_source :: "json \<Rightarrow> config \<Rightarrow> config" where
  "put_source src c =
     AList.update ''image_source''
       (JString (if src = JString ''download_from_hf'' then ''pull_from_registry'' else ''transfer_from_server''))
       (AList.update ''model_source'' src c)"

definition put_resources :: "res_values \<Rightarrow> config \<Rightarrow> config" where
  "put_resources r c =
     put ''container_port'' (text_field (containerPort r))
      (put ''cpu_limit'' (text_field (cpuLimit r))
       (put ''memory_limit'' (text_field (memoryLimit r))
        (put ''shm_size'' (text_field (shmSize r))
         (put ''ipc_mode'' (text_field (ipcMode r))
          (put ''gpu_request'' (text_field (gpuRequest r)) c)))))"

definition isNodeDeployment :: "runtime \<Rightarrow> bool" where
  "isNodeDeployment rt = truthy (assigned_node_id rt)"

definition saved_provider :: "editor \<Rightarrow> runtime \<Rightarrow> config" where
  "saved_provider e rt =
     put_resources (containerRes e)
      ((if isNodeDeployment rt then put_source (editModelSource e) else id)
        (put ''image'' (text_field (editImage e))
          (put_extra (fst (parseRawVllmArgs (editExtraArgs e)))
            (put_args (engineArgs e) (or_empty (provider_config rt))))))"

definition saved_issues :: "editor \<Rightarrow> issue list" where
  "saved_issues e = snd (parseRawVllmArgs (editExtraArgs e))"

subsection \<open>The page\<close>

record page =
  pg_id :: "string option"
  rt :: "runtime option"
  provider :: "provider option"
  model :: "json option"
  health :: "health option"
  logs :: string
  logsRefreshing :: bool
  loading :: bool
  error :: "string option"
  editing :: bool
  edit :: editor
  resourcesOpen :: bool
  saving :: bool
  cmdTimeline :: "timeline option"
  alerts :: "string list"

definition openEditor :: "page \<Rightarrow> page" where
  "openEditor p =
     (case rt p of None \<Rightarrow> p
      | Some r \<Rightarrow> p\<lparr>edit := edit_of (provider p) r, resourcesOpen := False, editing := True\<rparr>)"

definition isRemoteProvider :: "page \<Rightarrow> bool" where
  "isRemoteProvider p = (case provider p of None \<Rightarrow> False | Some q \<Rightarrow> prov_remote q)"

datatype request =
    UpdateProvider string config
  | UpdateRuntime string "string option" "(config \<times> config) option"

record save_answers =
  ans_provider :: "string + provider"
  ans_runtime :: "string + runtime"

definition or_null :: "string \<Rightarrow> json" where
  "or_null s = (if s \<noteq> [] then JString s else JNull)"

definition provUpdate :: "editor \<Rightarrow> provider \<Rightarrow> config" where
  "provUpdate e q =
     (if trim (editRemoteModel e) \<noteq> or_text (remote_model q)
      then [(''remote_model'', or_null (trim (editRemoteModel e)))] else []) @
     (if trim (editEndpointUrl e) \<noteq> or_text (endpoint_url q)
      then [(''endpoint_url'', or_null (trim (editEndpointUrl e)))] else []) @
     (if trim (editApiKey e) \<noteq> [] then [(''api_key'', JString (trim (editApiKey e)))] else [])"

definition new_name :: "editor \<Rightarrow> runtime \<Rightarrow> string option" where
  "new_name e r = (if editName e \<noteq> rt_name r then Some (editName e) else None)"

definition save_done :: "page \<Rightarrow> page" where
  "save_done p = p\<lparr>editing := False, logs := [], health := None, saving := False\<rparr>"

definition save_failed :: "string \<Rightarrow> page \<Rightarrow> page" where
  "save_failed msg p = p\<lparr>alerts := alerts p @ [msg], saving := False\<rparr>"

definition runtime_answered :: "save_answers \<Rightarrow> page \<Rightarrow> page" where
  "runtime_answered a p =
     (case ans_runtime a of
        Inl msg \<Rightarrow> save_failed msg p
      | Inr r \<Rightarrow> save_done (p\<lparr>rt := Some r\<rparr>))"

definition save_remote :: "save_answers \<Rightarrow> string \<Rightarrow> runtime \<Rightarrow> provider \<Rightarrow> page \<Rightarrow> page \<times> request list" where
  "save_remote a i r q p =
     (let upd = provUpdate (edit p) q; name_req = UpdateRuntime i (new_name (edit p) r) None in
      if length upd > 0 then
        (case ans_provider a of
           Inl msg \<Rightarrow> (save_failed msg p, [UpdateProvider (prov_id q) upd])
         | Inr q' \<Rightarrow> (runtime_answered a (p\<lparr>provider := Some q'\<rparr>),
                      [UpdateProvider (prov_id q) upd, name_req]))
      else (runtime_answered a p, [name_req]))"

definition issue_text :: "issue \<Rightarrow> string" where
  "issue_text i =
     (case i of InvalidFlag s \<Rightarrow> ''Invalid flag: '' @ s
      | UnexpectedValue s \<Rightarrow> ''Unexpected value: '' @ s
      | InvalidValue s \<Rightarrow> ''Invalid value: '' @ s)"

definition issues_alert :: "issue list \<Rightarrow> string list" where
  "issues_alert iss =
     (if length iss > 0
      then [''Some extra arguments were invalid and have been ignored: '' @ join '', '' (map issue_text iss)]
      else [])"

definition save_local :: "save_answers \<Rightarrow> string \<Rightarrow> runtime \<Rightarrow> page \<Rightarrow> page \<times> request list" where
  "save_local a i r p =
     (let e = edit p in
      (runtime_answered a (p\<lparr>alerts := alerts p @ issues_alert (saved_issues e)\<rparr>),
       [UpdateRuntime i (new_name e r) (Some (saved_generic (engineArgs e) r, saved_provider e r))]))"

definition handleSaveAndRestart :: "save_answers \<Rightarrow> page \<Rightarrow> page \<times> request list" where
  "handleSaveAndRestart a p =
     (case (pg_id p, rt p) of
        (Some i, Some r) \<Rightarrow>
          if i = [] then (p, [])
          else (case provider p of
                  Some q \<Rightarrow> if prov_remote q then save_remote a i r q (p\<lparr>saving := True\<rparr>)
                            else save_local a i r (p\<lparr>saving := True\<rparr>)
                | None \<Rightarrow> save_local a i r (p\<lparr>saving := True\<rparr>))
      | _ \<Rightarrow> (p, []))"

subsection \<open>Loading and polling\<close>

record load_answers =
  l_runtime :: "string + runtime"
  l_parts :: "string + (provider \<times> json)"
  l_health :: "string + health"
  l_logs :: "string + string"
  l_timeline :: "string + timeline"

definition wants_timeline :: "runtime \<Rightarrow> bool" where
  "wants_timeline r = (truthy (assigned_node_id r) \<and> truthy (last_command_id r))"

definition keep_timeline :: "string + timeline \<Rightarrow> runtime \<Rightarrow> page \<Rightarrow> page" where
  "keep_timeline a r p =
     (if wants_timeline r then (case a of Inl _ \<Rightarrow> p | Inr tm \<Rightarrow> p\<lparr>cmdTimeline := Some tm\<rparr>) else p)"

definition load_health :: "load_answers \<Rightarrow> runtime \<Rightarrow> page \<Rightarrow> page" where
  "load_health a r p =
     (if rt_status r \<in> {Running, Starting, Errored} then
        (let p' = (if rt_status r \<noteq> Errored
                   then p\<lparr>health := (case l_health a of Inl _ \<Rightarrow> None | Inr h \<Rightarrow> Some h)\<rparr> else p)
         in p'\<lparr>logs := (case l_logs a of Inl _ \<Rightarrow> [] | Inr s \<Rightarrow> s)\<rparr>)
      else p)"

definition load :: "load_answers \<Rightarrow> page \<Rightarrow> page" where
  "load a p =
     (if \<not> truthy (pg_id p) then p
      else let p0 = p\<lparr>loading := True, error := None\<rparr> in
        (case l_runtime a of
           Inl msg \<Rightarrow> p0\<lparr>error := Some msg\<rparr>
         | Inr r \<Rightarrow>
             (case l_parts a of
                Inl msg \<Rightarrow> p0\<lparr>rt := Some r, error := Some msg\<rparr>
              | Inr (q, m) \<Rightarrow>
                  keep_timeline (l_timeline a) r
                    (load_health a r (p0\<lparr>rt := Some r, provider := Some q, model := Some m\<rparr>))))
        \<lparr>loading := False\<rparr>)"

text \<open>Whether the interval runs: the guards of the polling effect.\<close>

definition polling :: "page \<Rightarrow> bool" where
  "polling p =
     (case rt p of None \<Rightarrow> False
      | Some r \<Rightarrow>
          truthy (pg_id p) \<and>
          (rt_status r \<in> {Starting, Creating} \<or>
           rt_status r = Running \<and> \<not> (case health p of None \<Rightarrow> False | Some h \<Rightarrow> healthy h)))"

record tick_answers =
  t_runtime :: "string + runtime"
  t_timeline :: "string + timeline"
  t_health :: "string + health"
  t_logs :: "string + string"

definition tick_logs :: "tick_answers \<Rightarrow> page \<Rightarrow> page" where
  "tick_logs a p = (case t_logs a of Inl _ \<Rightarrow> p | Inr s \<Rightarrow> p\<lparr>logs := s\<rparr>)"

text \<open>One tick of the interval; the second component says whether it calls \<open>load\<close>.\<close>

definition tick :: "tick_answers \<Rightarrow> page \<Rightarrow> page \<times> bool" where
  "tick a p =
     (case t_runtime a of
        Inl _ \<Rightarrow> (p, False)
      | Inr r \<Rightarrow>
          let p1 = keep_timeline (t_timeline a) r (p\<lparr>rt := Some r\<rparr>) in
          if rt_status r \<in> {Errored, Stopped} then (p1, True)
          else if rt_status r = Running then
            (case t_health a of
               Inl _ \<Rightarrow> (tick_logs a (p1\<lparr>health := None\<rparr>), False)
             | Inr h \<Rightarrow> if healthy h then (p1\<lparr>health := Some h\<rparr>, True)
                        else (tick_logs a (p1\<lparr>health := Some h\<rparr>), False))
          else (p1, False))"

definition handleAction :: "string + runtime \<Rightarrow> page \<Rightarrow> page" where
  "handleAction a p =
     (if \<not> truthy (pg_id p) then p
      else case a of
        Inl msg \<Rightarrow> p\<lparr>alerts := alerts p @ [msg]\<rparr>
      | Inr r \<Rightarrow> p\<lparr>rt := Some r, logs := [], health := None\<rparr>)"

definition refreshLogs :: "string + string \<Rightarrow> page \<Rightarrow> page" where
  "refreshLogs a p =
     (if \<not> truthy (pg_id p) then p
      else p\<lparr>logs := (case a of Inl _ \<Rightarrow> [] | Inr s \<Rightarrow> s), logsRefreshing := False\<rparr>)"

text \<open>Deleting: the answer of the question, then of the request; the page that is opened.\<close>

definition handleDelete :: "bool \<Rightarrow> string option \<Rightarrow> page \<Rightarrow> page \<times> string option" where
  "handleDelete confirmed failure p =
     (if \<not> truthy (pg_id p) \<or> \<not> confirmed then (p, None)
      else case failure of
        None \<Rightarrow> (p, Some ''/admin/llm/providers'')
      | Some msg \<Rightarrow> (p\<lparr>alerts := alerts p @ [msg]\<rparr>, None))"

subsection \<open>What is shown\<close>

definition isRunning :: "runtime \<Rightarrow> bool" where
  "isRunning r = (rt_status r \<in> {Running, Starting})"

definition isStopped :: "runtime \<Rightarrow> bool" where
  "isStopped r = (rt_status r \<in> {Stopped, Errored})"

definition showLogs :: "page \<Rightarrow> runtime \<Rightarrow> bool" where
  "showLogs p r = (\<not> editing p \<and> (isRunning r \<or> isStopped r))"

text \<open>The chip of the health: \<open>Some b\<close> is shown, \<open>b\<close> the good one.\<close>

definition health_chip :: "page \<Rightarrow> bool option" where
  "health_chip p =
     (case (rt p, health p) of
        (Some r, Some h) \<Rightarrow>
          if \<not> editing p \<and> (isRunning r \<or> rt_status r = Errored) then Some (healthy h) else None
      | _ \<Rightarrow> None)"

record runtime_buttons =
  start_shown :: bool
  stop_shown :: bool
  delete_enabled :: bool

definition buttons :: "page \<Rightarrow> runtime \<Rightarrow> runtime_buttons" where
  "buttons p r =
     \<lparr>start_shown = isStopped r, stop_shown = isRunning r, delete_enabled = (\<not> (isRunning r \<or> editing p))\<rparr>"

definition runtime_alert :: "page \<Rightarrow> runtime \<Rightarrow> string option" where
  "runtime_alert p r =
     (let shown = (case cmdTimeline p of
                     Some tm \<Rightarrow> if truthy (cmd_error tm) then cmd_error tm else status_message r
                   | None \<Rightarrow> status_message r)
      in if rt_status r = Errored \<and> truthy shown then shown else None)"

subsection \<open>Lemmas on the configuration\<close>

named_theorems config_simps \<open>lookups in configurations\<close>

lemma map_of_put [config_simps]: "map_of (put k v c) j = (if j = k then v else map_of c j)"
  by (cases v) (simp_all add: put_def update_conv' delete_conv')

lemma field_put [config_simps]:
  "field (put k v c) j = (if j = k then (case v of None \<Rightarrow> None | Some u \<Rightarrow> if u = JNull then None else Some u)
     else field c j)"
  by (simp add: field_def config_simps)

lemma text_field_trim [simp]: "text_field (trim s) = text_field s"
  by (simp add: text_field_def)

lemma field_text_put [config_simps]:
  "field_text (put k v c) j =
     (if j = k then (case v of None \<Rightarrow> [] | Some u \<Rightarrow> if u = JNull then [] else js_text u)
      else field_text c j)"
  by (simp add: field_text_def config_simps split: option.split)

lemma text_field_text [config_simps]:
  "(case text_field s of None \<Rightarrow> [] | Some u \<Rightarrow> if u = JNull then [] else js_text u) = trim s"
  by (simp add: text_field_def)

lemma map_of_put_source [config_simps]:
  "map_of (put_source src c) j =
     (if j = ''image_source''
      then Some (JString (if src = JString ''download_from_hf'' then ''pull_from_registry'' else ''transfer_from_server''))
      else if j = ''model_source'' then Some src else map_of c j)"
  by (simp add: put_source_def update_conv')

lemma map_of_put_resources:
  "map_of (put_resources v c) j =
     (if j = ''container_port'' then text_field (containerPort v)
      else if j = ''cpu_limit'' then text_field (cpuLimit v)
      else if j = ''memory_limit'' then text_field (memoryLimit v)
      else if j = ''shm_size'' then text_field (shmSize v)
      else if j = ''ipc_mode'' then text_field (ipcMode v)
      else if j = ''gpu_request'' then text_field (gpuRequest v)
      else map_of c j)"
  by (simp add: put_resources_def config_simps)

lemma map_of_saved_provider:
  "map_of (saved_provider e r) j =
     (if j = ''container_port'' then text_field (containerPort (containerRes e))
      else if j = ''cpu_limit'' then text_field (cpuLimit (containerRes e))
      else if j = ''memory_limit'' then text_field (memoryLimit (containerRes e))
      else if j = ''shm_size'' then text_field (shmSize (containerRes e))
      else if j = ''ipc_mode'' then text_field (ipcMode (containerRes e))
      else if j = ''gpu_request'' then text_field (gpuRequest (containerRes e))
      else if j = ''image_source'' \<and> isNodeDeployment r
      then Some (JString (if editModelSource e = JString ''download_from_hf'' then ''pull_from_registry'' else ''transfer_from_server''))
      else if j = ''model_source'' \<and> isNodeDeployment r then Some (editModelSource e)
      else if j = ''image'' then text_field (editImage e)
      else if j = ''extra_args''
      then (if fst (parseRawVllmArgs (editExtraArgs e)) \<noteq> [] then Some (JArray (map JString (fst (parseRawVllmArgs (editExtraArgs e))))) else None)
      else if j = ''engine_args'' then (if engineArgs e \<noteq> [] then Some (JObject (engineArgs e)) else None)
      else map_of (or_empty (provider_config r)) j)"
  by (simp add: saved_provider_def map_of_put_resources config_simps put_extra_def put_args_def)

lemma map_of_fold_delete: "map_of (fold AList.delete ks c) j = (if j \<in> set ks then None else map_of c j)"
  by (induction ks arbitrary: c) (auto simp: delete_conv')

lemma map_of_fold_copy:
  "distinct (map snd ps) \<Longrightarrow>
   map_of (fold (\<lambda>(flag, k) c. case f flag of None \<Rightarrow> c | Some v \<Rightarrow> AList.update k v c) ps c) j =
     (case map_of (map prod.swap ps) j of
        None \<Rightarrow> map_of c j
      | Some flag \<Rightarrow> (case f flag of None \<Rightarrow> map_of c j | Some v \<Rightarrow> Some v))"
proof (induction ps arbitrary: c)
  case (Cons q ps)
  obtain flag k where q: "q = (flag, k)" by (cases q)
  have "map_of (map prod.swap ps) k = None"
    using Cons.prems q by (auto simp: map_of_eq_None_iff image_iff)
  then show ?case
    using Cons q by (cases "f flag") (auto simp: update_conv' split: option.split)
qed simp

lemma map_of_saved_generic:
  "map_of (saved_generic args r) j =
     (case map_of GC_TO_FLAG j of
        Some flag \<Rightarrow> field args flag
      | None \<Rightarrow> map_of (or_empty (generic_config r)) j)"
proof -
  have swap: "map prod.swap FLAG_TO_GC = GC_TO_FLAG" and dist: "distinct (map snd FLAG_TO_GC)"
    by (simp_all add: FLAG_TO_GC_def GC_TO_FLAG_def)
  have keys: "j \<in> set (map snd FLAG_TO_GC) \<longleftrightarrow> map_of GC_TO_FLAG j \<noteq> None"
    by (auto simp: swap [symmetric] map_of_eq_None_iff image_iff)
  show ?thesis
    using keys by (auto simp: saved_generic_def map_of_fold_copy [OF dist] map_of_fold_delete swap split: option.split)
qed


text \<open>What a stored argument is read as again.\<close>

definition stored :: "editor \<Rightarrow> runtime \<Rightarrow> runtime" where
  "stored e r =
     r\<lparr>generic_config := Some (saved_generic (engineArgs e) r), provider_config := Some (saved_provider e r)\<rparr>"

lemma overlay_stored: "fold (overlay (saved_generic args r)) ps args = args"
  if "set ps \<subseteq> set GC_TO_FLAG"
  using that
proof (induction ps)
  case (Cons q ps)
  obtain k flag where q: "q = (k, flag)" by (cases q)
  have "map_of GC_TO_FLAG k = Some flag"
    using Cons.prems q by (intro map_of_is_SomeI) (auto simp: GC_TO_FLAG_def)
  then have "map_of (saved_generic args r) k = field args flag"
    by (simp add: map_of_saved_generic)
  then have "overlay (saved_generic args r) q args = args"
    by (auto simp: overlay_def q field_def split: option.split if_splits)
  with Cons show ?case by simp
qed simp

lemma seed_args_stored: "seed_args (stored e r) = engineArgs e"
proof -
  have "(case field (saved_provider e r) ''engine_args'' of None \<Rightarrow> [] | Some v \<Rightarrow> spread v) = engineArgs e"
    by (simp add: field_def map_of_saved_provider)
  then show ?thesis
    by (simp add: seed_args_def stored_def or_empty_def overlay_stored)
qed

lemma extra_text_stored:
  "extra_text (saved_provider e r) = join '' '' (fst (parseRawVllmArgs (editExtraArgs e)))"
  by (simp add: extra_text_def map_of_saved_provider comp_def)

lemma field_text_of_text_field:
  "map_of c k = text_field s \<Longrightarrow> field_text c k = trim s"
  by (simp add: field_text_def field_def text_field_def)

lemma stored_texts:
  "field_text (saved_provider e r) ''container_port'' = trim (containerPort (containerRes e))"
  "field_text (saved_provider e r) ''cpu_limit'' = trim (cpuLimit (containerRes e))"
  "field_text (saved_provider e r) ''memory_limit'' = trim (memoryLimit (containerRes e))"
  "field_text (saved_provider e r) ''shm_size'' = trim (shmSize (containerRes e))"
  "field_text (saved_provider e r) ''ipc_mode'' = trim (ipcMode (containerRes e))"
  "field_text (saved_provider e r) ''gpu_request'' = trim (gpuRequest (containerRes e))"
  "field_text (saved_provider e r) ''image'' = trim (editImage e)"
  by (rule field_text_of_text_field, simp add: map_of_saved_provider)+

lemma second_save:
  fixes q :: "provider option" and e :: editor and r :: runtime
  defines "r' \<equiv> stored e r"
  defines "e' \<equiv> edit_of q r'"
  assumes "editModelSource e \<noteq> JNull"
  shows "saved_issues e' = []"
    and "map_of (saved_generic (engineArgs e') r') = map_of (saved_generic (engineArgs e) r)"
    and "map_of (saved_provider e' r') = map_of (saved_provider e r)"
proof -
  have args: "engineArgs e' = engineArgs e"
    by (simp add: e'_def r'_def edit_of_def Let_def seed_args_stored)
  have extra: "parseRawVllmArgs (editExtraArgs e') = (fst (parseRawVllmArgs (editExtraArgs e)), [])"
    by (simp add: e'_def r'_def edit_of_def Let_def stored_def or_empty_def extra_text_stored parse_again)
  then show "saved_issues e' = []" by (simp add: saved_issues_def)
  show "map_of (saved_generic (engineArgs e') r') = map_of (saved_generic (engineArgs e) r)"
    by (rule ext)
      (simp add: map_of_saved_generic args r'_def stored_def or_empty_def split: option.split)
  have src: "isNodeDeployment r \<Longrightarrow> editModelSource e' = editModelSource e"
    using assms(3) by (simp add: e'_def r'_def edit_of_def Let_def stored_def or_empty_def field_def map_of_saved_provider)
  have node: "isNodeDeployment r' = isNodeDeployment r"
    by (simp add: r'_def stored_def isNodeDeployment_def)
  have texts: "editImage e' = trim (editImage e)"
    "containerPort (containerRes e') = trim (containerPort (containerRes e))"
    "cpuLimit (containerRes e') = trim (cpuLimit (containerRes e))"
    "memoryLimit (containerRes e') = trim (memoryLimit (containerRes e))"
    "shmSize (containerRes e') = trim (shmSize (containerRes e))"
    "ipcMode (containerRes e') = trim (ipcMode (containerRes e))"
    "gpuRequest (containerRes e') = trim (gpuRequest (containerRes e))"
    by (simp_all add: e'_def r'_def edit_of_def Let_def stored_def or_empty_def stored_texts)
  have old: "map_of (or_empty (provider_config r')) = map_of (saved_provider e r)"
    by (simp add: r'_def stored_def or_empty_def)
  show "map_of (saved_provider e' r') = map_of (saved_provider e r)"
    by (rule ext) (simp add: map_of_saved_provider [of e' r'] texts args extra node src old,
      simp add: map_of_saved_provider)
qed


text \<open>
  Saving is stable: when a stored configuration is opened and saved again without a change, no
  argument is reported and both configurations are sent as they are stored.
\<close>

theorem second_save_same:
  assumes "editModelSource e \<noteq> JNull"
  shows "let r' = stored e r; e' = edit_of q r' in
    saved_issues e' = []
    \<and> map_of (saved_generic (engineArgs e') r') = map_of (saved_generic (engineArgs e) r)
    \<and> map_of (saved_provider e' r') = map_of (saved_provider e r)"
  using second_save [OF assms] by (simp add: Let_def)

subsection \<open>The progress follows the events\<close>

lemma lastPhase_snoc:
  "lastPhase found (evs @ [ev]) = (case known_phase ev of None \<Rightarrow> lastPhase found evs | Some p \<Rightarrow> Some p)"
  by (induction evs arbitrary: found) (simp_all split: option.split)

lemma known_phase_stage: "known_phase ev = Some p \<Longrightarrow> p \<in> set DEPLOY_STAGES"
  by (auto simp: known_phase_def split: option.splits if_splits)

text \<open>The position of the stage an event reports.\<close>

definition stage_of :: "node_event \<Rightarrow> nat option" where
  "stage_of ev = (case known_phase ev of None \<Rightarrow> None | Some p \<Rightarrow> index_of p DEPLOY_STAGES)"

lemma stage_of_Some: "known_phase ev = Some p \<Longrightarrow> \<exists>i. stage_of ev = Some i \<and> index_of p DEPLOY_STAGES = Some i"
  using known_phase_stage [of ev p] by (cases "index_of p DEPLOY_STAGES") (auto simp: stage_of_def index_of_None)

lemma active_of_events:
  "\<not> isFinished tm \<Longrightarrow>
   activeStep tm =
     (if List.map_filter stage_of (events tm) = []
      then if cmd_status tm = ''running'' then 1 else 0
      else last (List.map_filter stage_of (events tm)))"
proof -
  assume open_: "\<not> isFinished tm"
  define evs where "evs = events tm"
  have key: "(case lastPhase None evs of
           Some phase \<Rightarrow> (case index_of phase DEPLOY_STAGES of Some i \<Rightarrow> i | None \<Rightarrow> 0)
         | None \<Rightarrow> d) = (if List.map_filter stage_of evs = [] then d else last (List.map_filter stage_of evs))" for d :: nat
  proof (induction evs rule: rev_induct)
    case (snoc ev evs)
    show ?case
    proof (cases "known_phase ev")
      case None
      then have "stage_of ev = None" by (simp add: stage_of_def)
      with None snoc show ?thesis by (simp add: lastPhase_snoc map_filter_append List.map_filter_simps)
    next
      case (Some p)
      then obtain i where "stage_of ev = Some i" "index_of p DEPLOY_STAGES = Some i"
        using stage_of_Some by blast
      with Some show ?thesis
        by (simp add: lastPhase_snoc map_filter_append List.map_filter_simps)
    qed
  qed (simp add: List.map_filter_simps)
  show ?thesis
    using open_ key [of "if cmd_status tm = ''running'' then 1 else 0"]
    by (auto simp: activeStep_def evs_def split: option.splits if_splits)
qed

lemma sorted_le_last: "sorted is \<Longrightarrow> j \<in> set is \<Longrightarrow> j \<le> last (is :: nat list)"
  by (induction "is") auto

text \<open>
  While a deployment goes on, a stage is ticked off exactly when an event of a later stage has
  come, provided the agent reports the stages in their order.
\<close>

theorem ticked_iff_passed:
  assumes "\<not> isFinished tm" "\<not> isFailed tm"
    and "List.map_filter stage_of (events tm) \<noteq> []"
    and "sorted (List.map_filter stage_of (events tm))"
    and "i < length DEPLOY_STAGES"
  shows "completed (steps_view tm st ! i) \<longleftrightarrow> (\<exists>ev \<in> set (events tm). \<exists>j > i. stage_of ev = Some j)"
proof -
  let ?is = "List.map_filter stage_of (events tm)"
  have "completed (steps_view tm st ! i) \<longleftrightarrow> i < last ?is"
    using assms by (simp add: steps_view_def step_view_of_def Let_def showError_def
      isPostDeployFailure_def active_of_events)
  also have "\<dots> \<longleftrightarrow> (\<exists>j \<in> set ?is. i < j)"
  proof
    assume "\<exists>j \<in> set ?is. i < j"
    then obtain j where j: "j \<in> set ?is" "i < j" by blast
    have "j \<le> last ?is"
      using assms(4) j(1) by (rule sorted_le_last)
    with j(2) show "i < last ?is" by simp
  qed (use assms(3) in auto)
  finally show ?thesis by (auto simp: set_map_filter)
qed

text \<open>
  Whatever the state of the command and of the runtime, the ticked stages are the first ones,
  at most one stage carries the error, and it is the first that is not ticked.
\<close>

theorem error_after_ticked:
  "\<exists>k. map completed (steps_view tm st) = map (\<lambda>i. i < k) [0..<length DEPLOY_STAGES]
     \<and> map in_error (steps_view tm st) = map (\<lambda>i. showError tm st \<and> i = k) [0..<length DEPLOY_STAGES]
     \<and> (\<exists>s \<in> set (steps_view tm st). in_error s) = showError tm st"
proof -
  let ?k = "if showError tm st then the (errorStep tm st) else activeStep tm"
  have bound: "activeStep tm < length DEPLOY_STAGES" if "\<not> isFinished tm"
    using that index_of_Some by (auto simp: activeStep_def DEPLOY_STAGES_def split: option.split dest!: index_of_Some)
  have notboth: "isFailed tm \<Longrightarrow> \<not> isFinished tm"
    by (auto simp: isFailed_def isFinished_def)
  show ?thesis
    using bound notboth
    by (intro exI [of _ ?k]) (auto simp: steps_view_def step_view_of_def Let_def showError_def errorStep_def
      DEPLOY_STAGES_def)
qed


subsection \<open>Saving, loading and polling\<close>

text \<open>
  After every save of a local runtime the generic configuration agrees with the arguments of
  the engine on each field that has a flag, and every other field is kept.
\<close>

theorem saved_generic_mirrors:
  "(\<forall>(k, flag) \<in> set GC_TO_FLAG. map_of (saved_generic args r) k = field args flag) \<and>
   (\<forall>k. k \<notin> fst ` set GC_TO_FLAG \<longrightarrow>
     map_of (saved_generic args r) k = map_of (or_empty (generic_config r)) k)"
proof -
  have "map_of GC_TO_FLAG k = Some flag" if "(k, flag) \<in> set GC_TO_FLAG" for k flag
    using that by (intro map_of_is_SomeI) (auto simp: GC_TO_FLAG_def)
  then show ?thesis
    by (auto simp: map_of_saved_generic map_of_eq_None_iff [THEN iffD2])
qed

text \<open>A save is all or nothing for the editor: it is closed with the runtime of the answer, or
  it stays as it is over the runtime as it was.\<close>

theorem save_closes_or_keeps:
  assumes "editing p"
  shows "case handleSaveAndRestart a p of (p', reqs) \<Rightarrow>
    edit p' = edit p \<and>
    (if editing p' then rt p' = rt p
     else rt p' = (case ans_runtime a of Inl _ \<Rightarrow> None | Inr r \<Rightarrow> Some r) \<and> health p' = None
       \<and> (\<exists>i n c. last reqs = UpdateRuntime i n c \<and> pg_id p = Some i))"
  using assms
  by (auto simp: handleSaveAndRestart_def save_local_def save_remote_def runtime_answered_def save_done_def
      save_failed_def Let_def split: option.split sum.split)

text \<open>A tick that finds the runtime healthy, stopped or failed is the last one, and a tick
  whose request fails changes nothing.\<close>

theorem tick_settles:
  assumes "t_runtime a = Inr r"
    and "rt_status r \<in> {Errored, Stopped, Stopping} \<or>
         rt_status r = Running \<and> (\<exists>h. t_health a = Inr h \<and> healthy h)"
  shows "\<not> polling (fst (tick a p))"
  using assms
  by (auto simp: tick_def polling_def Let_def keep_timeline_def tick_logs_def split: sum.split)

theorem failed_tick_keeps: "t_runtime a = Inl msg \<Longrightarrow> tick a p = (p, False)"
  by (simp add: tick_def)

text \<open>Loading a runtime that has failed keeps the health of before, and the page shows it.\<close>

theorem failed_runtime_shown_healthy:
  assumes "truthy (pg_id p)" "l_runtime a = Inr r" "rt_status r = Errored" "l_parts a = Inr qm"
    and "health p = Some h" "healthy h" "\<not> editing p"
  shows "health_chip (load a p) = Some True \<and> rt (load a p) = Some r"
  using assms
  by (auto simp: load_def load_health_def keep_timeline_def health_chip_def Let_def
      split: prod.split sum.split)

text \<open>
  Opening and saving without a change: an extra argument with a blank or a brace is dropped
  from the configuration, since the field joins the arguments with blanks and reads them as a
  command line of plain words.
\<close>

definition quant_runtime :: runtime where
  "quant_runtime =
     \<lparr>rt_id = ''r1'', rt_name = ''qwen'', rt_provider_id = ''p1'', rt_model_id = ''m1'', rt_status = Running,
      generic_config = None,
      provider_config = Some [(''extra_args'', JArray [JString ''--hf-overrides'', JString ''{a: 1}''])],
      assigned_node_id = None, last_command_id = None, status_message = None\<rparr>"

theorem unchanged_save_drops_argument:
  "map_of (saved_provider (edit_of None quant_runtime) quant_runtime) ''extra_args'' =
     Some (JArray [JString ''--hf-overrides''])
   \<and> saved_issues (edit_of None quant_runtime) = [InvalidValue ''{a:'', InvalidValue ''1}'']"
  by code_simp


theorem second_save_same_witness:
  "let e = edit_of None quant_runtime; r' = stored e quant_runtime; e' = edit_of None r' in
    saved_issues e' = []
    \<and> map_of (saved_generic (engineArgs e') r') = map_of (saved_generic (engineArgs e) quant_runtime)
    \<and> map_of (saved_provider e' r') = map_of (saved_provider e quant_runtime)"
proof -
  have "editModelSource (edit_of None quant_runtime) \<noteq> JNull" by code_simp
  from second_save_same [OF this, of quant_runtime None] show ?thesis by (simp add: Let_def)
qed

text \<open>A deployment on its way: the image is being pulled.\<close>

definition pulling :: timeline where
  "pulling =
     \<lparr>cmd_status = ''running'', cmd_error = None,
      events = [\<lparr>ev_phase = ''progress'', ev_payload = Some (JObject [(''phase'', JString ''validate'')])\<rparr>,
                \<lparr>ev_phase = ''progress'', ev_payload = None\<rparr>,
                \<lparr>ev_phase = ''progress'', ev_payload = Some (JObject [(''phase'', JString ''pull_image'')])\<rparr>]\<rparr>"

theorem ticked_iff_passed_witness:
  "completed (steps_view pulling None ! 3) \<longleftrightarrow> (\<exists>ev \<in> set (events pulling). \<exists>j > 3. stage_of ev = Some j)"
proof (rule ticked_iff_passed)
  have "List.map_filter stage_of (events pulling) = [1, 4]" by code_simp
  then show "List.map_filter stage_of (events pulling) \<noteq> []" "sorted (List.map_filter stage_of (events pulling))"
    by simp_all
qed (code_simp+)

end
