(* ===== verification/Residency.thy ===== *)
theory Residency
  imports Prelude "HOL-Library.AList" Complex_Main
begin

text \<open>
  Where the data is processed: \<^verbatim>\<open>pages/admin/SecurityMapPage.tsx\<close> with its cards of providers,
  and the card of the dashboard, \<^verbatim>\<open>components/DataResidencyCard.tsx\<close>. A \<open>Map\<close> is an association
  list in the order of insertion, a \<open>Set\<close> a list without repetition. The shares are computed in
  floating point; \<open>pct a b\<close>, the value of \<open>(a / b) * 100\<close>, is a parameter with the error bound of
  two roundings. The texts of sizes and counts are not modelled here.
\<close>

subsection \<open>Badges\<close>

datatype residency_badge = AirGapped | Hybrid | CloudOnly | NoProviders

definition classifyBadge :: "nat \<Rightarrow> nat \<Rightarrow> residency_badge" where
  "classifyBadge lo re =
     (if lo = 0 \<and> re = 0 then NoProviders
      else if re = 0 then AirGapped
      else if lo = 0 then CloudOnly
      else Hybrid)"

definition card_classifyBadge :: "nat \<Rightarrow> nat \<Rightarrow> residency_badge" where
  "card_classifyBadge lo re =
     (if lo = 0 \<and> re = 0 then NoProviders
      else if re = 0 then AirGapped
      else if lo = 0 then CloudOnly
      else Hybrid)"

datatype badge_color = Success | Warning | Danger | Default

record badge_meta =
  badge_color :: badge_color
  labelKey :: string
  fallback :: string

fun BADGE_META :: "residency_badge \<Rightarrow> badge_meta" where
  "BADGE_META AirGapped =
     \<lparr>badge_color = Success, labelKey = ''security_map.badge_air_gapped'', fallback = ''Air-Gapped '' @ [CHR 0xE2, CHR 0x9C, CHR 0x93]\<rparr>"
| "BADGE_META Hybrid =
     \<lparr>badge_color = Warning, labelKey = ''security_map.badge_hybrid'', fallback = ''Hybrid''\<rparr>"
| "BADGE_META CloudOnly =
     \<lparr>badge_color = Danger, labelKey = ''security_map.badge_cloud_only'', fallback = ''Cloud Only''\<rparr>"
| "BADGE_META NoProviders =
     \<lparr>badge_color = Default, labelKey = ''security_map.badge_none'', fallback = ''No Providers''\<rparr>"

subsection \<open>Usage\<close>

record instance_usage =
  provider_instance_id :: string
  total_requests :: nat
  total_prompt_tokens :: nat
  total_completion_tokens :: nat
  total_tokens :: nat
  error_count :: nat

record aggregated_usage =
  totalRequests :: nat
  totalTokens :: nat
  totalPromptTokens :: nat
  totalCompletionTokens :: nat
  errorCount :: nat

definition no_usage :: aggregated_usage where
  "no_usage =
     \<lparr>totalRequests = 0, totalTokens = 0, totalPromptTokens = 0, totalCompletionTokens = 0, errorCount = 0\<rparr>"

definition add_usage :: "(string \<times> instance_usage) list \<Rightarrow> string \<Rightarrow> aggregated_usage \<Rightarrow> aggregated_usage" where
  "add_usage usage rid acc =
     (case map_of usage rid of
        None \<Rightarrow> acc
      | Some u \<Rightarrow>
          \<lparr>totalRequests = totalRequests acc + total_requests u,
           totalTokens = totalTokens acc + total_tokens u,
           totalPromptTokens = totalPromptTokens acc + total_prompt_tokens u,
           totalCompletionTokens = totalCompletionTokens acc + total_completion_tokens u,
           errorCount = errorCount acc + error_count u\<rparr>)"

definition aggregateUsage :: "string list \<Rightarrow> (string \<times> instance_usage) list \<Rightarrow> aggregated_usage" where
  "aggregateUsage runtimeIds usage = fold (add_usage usage) runtimeIds no_usage"

text \<open>The elements of a \<open>Set\<close> made of a list.\<close>

definition js_set :: "'a list \<Rightarrow> 'a list" where
  "js_set xs = rev (remdups (rev xs))"

definition tokensToBytes :: "nat \<Rightarrow> nat" where
  "tokensToBytes tokens = tokens * 4"

subsection \<open>The page\<close>

datatype provider_target = LocalDocker | RemoteEndpoint

record provider =
  p_id :: string
  p_target :: provider_target

record runtime =
  r_id :: string
  r_provider_id :: string
  r_status :: string

definition runtimeMap :: "runtime list \<Rightarrow> (string \<times> runtime list) list" where
  "runtimeMap rs = fold (group_add r_provider_id) rs []"

definition runtimes_of :: "runtime list \<Rightarrow> provider \<Rightarrow> runtime list" where
  "runtimes_of rs p = (case map_of (runtimeMap rs) (p_id p) of None \<Rightarrow> [] | Some l \<Rightarrow> l)"

definition instMap :: "instance_usage list option \<Rightarrow> (string \<times> instance_usage) list" where
  "instMap usage =
     (case usage of None \<Rightarrow> []
      | Some is \<Rightarrow> fold (\<lambda>i m. AList.update (provider_instance_id i) i m) is [])"

record security_map =
  localProviders :: "provider list"
  remoteProviders :: "provider list"
  badge :: residency_badge
  localPct :: int
  localRuntimeCount :: nat
  remoteRuntimeCount :: nat
  localUsage :: aggregated_usage
  remoteUsage :: aggregated_usage
  localDataPct :: int

text \<open>\<open>Math.round\<close>: the nearest integer, the larger of two.\<close>

definition js_round :: "rat \<Rightarrow> int" where
  "js_round x = \<lfloor>x + 1 / 2\<rfloor>"

definition share :: "(nat \<Rightarrow> nat \<Rightarrow> rat) \<Rightarrow> nat \<Rightarrow> nat \<Rightarrow> int" where
  "share pct part whole = (if whole > 0 then js_round (pct part whole) else 100)"

definition count_runtimes :: "runtime list \<Rightarrow> provider list \<Rightarrow> nat" where
  "count_runtimes rs ps = foldl (\<lambda>n p. n + length (runtimes_of rs p)) 0 ps"

definition side_ids :: "runtime list \<Rightarrow> provider list \<Rightarrow> string list" where
  "side_ids rs ps = js_set (concat (map (\<lambda>p. map r_id (runtimes_of rs p)) ps))"

definition security_data ::
  "(nat \<Rightarrow> nat \<Rightarrow> rat) \<Rightarrow> provider list \<Rightarrow> runtime list \<Rightarrow> instance_usage list option \<Rightarrow> security_map" where
  "security_data pct ps rs usage =
     (let lo = filter (\<lambda>p. p_target p = LocalDocker) ps;
          re = filter (\<lambda>p. p_target p = RemoteEndpoint) ps;
          whole = length lo + length re;
          loUsg = aggregateUsage (side_ids rs lo) (instMap usage);
          reUsg = aggregateUsage (side_ids rs re) (instMap usage);
          tokens = totalTokens loUsg + totalTokens reUsg
      in \<lparr>localProviders = lo, remoteProviders = re,
          badge = classifyBadge (length lo) (length re),
          localPct = share pct (length lo) whole,
          localRuntimeCount = count_runtimes rs lo, remoteRuntimeCount = count_runtimes rs re,
          localUsage = loUsg, remoteUsage = reUsg,
          localDataPct = share pct (totalTokens loUsg) tokens\<rparr>)"

definition runtimeStatusColor :: "string \<Rightarrow> badge_color" where
  "runtimeStatusColor status =
     (if status = ''running'' then Success
      else if status = ''starting'' \<or> status = ''creating'' \<or> status = ''stopping'' then Warning
      else if status = ''error'' then Danger
      else Default)"

record provider_card =
  activeRuntimes :: nat
  card_runtimes :: nat
  card_usage :: aggregated_usage
  estimatedBytes :: nat
  volume_shown :: bool

definition ProviderCard :: "runtime list \<Rightarrow> (string \<times> instance_usage) list \<Rightarrow> provider_card" where
  "ProviderCard rs usage =
     (let u = aggregateUsage (js_set (map r_id rs)) usage
      in \<lparr>activeRuntimes = length (filter (\<lambda>r. r_status r = ''running'') rs), card_runtimes = length rs,
          card_usage = u, estimatedBytes = tokensToBytes (totalTokens u),
          volume_shown = (totalRequests u > 0)\<rparr>)"

definition provider_card_of :: "runtime list \<Rightarrow> instance_usage list option \<Rightarrow> provider \<Rightarrow> provider_card" where
  "provider_card_of rs usage p = ProviderCard (runtimes_of rs p) (instMap usage)"

subsection \<open>The card of the dashboard\<close>

record residency_card =
  c_local :: nat
  c_remote :: nat
  c_badge :: residency_badge
  c_localPct :: int

definition DataResidencyCard :: "(nat \<Rightarrow> nat \<Rightarrow> rat) \<Rightarrow> provider list \<Rightarrow> residency_card" where
  "DataResidencyCard pct ps =
     (let loc = length (filter (\<lambda>p. p_target p = LocalDocker) ps);
          rem = length (filter (\<lambda>p. p_target p = RemoteEndpoint) ps);
          whole = loc + rem
      in \<lparr>c_local = loc, c_remote = rem, c_badge = card_classifyBadge loc rem,
          c_localPct = share pct loc whole\<rparr>)"

fun BADGE_COLOR :: "residency_badge \<Rightarrow> badge_color" where
  "BADGE_COLOR AirGapped = Success"
| "BADGE_COLOR Hybrid = Warning"
| "BADGE_COLOR CloudOnly = Danger"
| "BADGE_COLOR NoProviders = Default"

subsection \<open>Loading\<close>

record map_state =
  allProviders :: "provider list"
  allRuntimes :: "runtime list"
  dataUsage :: "instance_usage list option"
  loading :: bool
  load_error :: "string option"

text \<open>The end of the requests, \<open>cancelled\<close> when the page was left; usage that fails is null.\<close>

definition map_loaded ::
  "bool \<Rightarrow> string + (provider list \<times> runtime list) \<Rightarrow> instance_usage list option \<Rightarrow> map_state \<Rightarrow> map_state" where
  "map_loaded cancelled answer usage s =
     (if cancelled then s
      else case answer of
        Inl msg \<Rightarrow> s\<lparr>load_error := Some msg, loading := False\<rparr>
      | Inr (ps, rs) \<Rightarrow>
          s\<lparr>allProviders := ps, allRuntimes := rs, dataUsage := usage, loading := False\<rparr>)"

subsection \<open>Lemmas\<close>

definition usage_plus :: "aggregated_usage \<Rightarrow> aggregated_usage \<Rightarrow> aggregated_usage" where
  "usage_plus a b =
     \<lparr>totalRequests = totalRequests a + totalRequests b, totalTokens = totalTokens a + totalTokens b,
      totalPromptTokens = totalPromptTokens a + totalPromptTokens b,
      totalCompletionTokens = totalCompletionTokens a + totalCompletionTokens b,
      errorCount = errorCount a + errorCount b\<rparr>"

lemma usage_plus_no [simp]: "usage_plus a no_usage = a" "usage_plus no_usage a = a"
  by (simp_all add: usage_plus_def no_usage_def)

lemma fold_add_usage:
  "fold (add_usage m) ids a = usage_plus a (fold (add_usage m) ids no_usage)"
proof (induction ids arbitrary: a)
  case (Cons i ids)
  have "fold (add_usage m) ids (add_usage m i a) =
      usage_plus a (usage_plus (add_usage m i no_usage) (fold (add_usage m) ids no_usage))"
    by (subst Cons) (auto simp: usage_plus_def add_usage_def no_usage_def split: option.split)
  also have "\<dots> = usage_plus a (fold (add_usage m) ids (add_usage m i no_usage))"
    by (subst (2) Cons) simp
  finally show ?case by simp
qed simp

lemma aggregate_append: "aggregateUsage (xs @ ys) m = usage_plus (aggregateUsage xs m) (aggregateUsage ys m)"
  by (simp add: aggregateUsage_def, subst fold_add_usage, simp)

lemma js_set_distinct: "distinct xs \<Longrightarrow> js_set xs = xs"
  by (simp add: js_set_def distinct_remdups_id)

lemma runtimes_of_filter: "runtimes_of rs p = filter (\<lambda>r. r_provider_id r = p_id p) rs"
  using grouped_lookup [of r_provider_id rs "p_id p"]
  by (auto simp: runtimes_of_def runtimeMap_def grouped_def [symmetric] filter_empty_conv)

lemma distinct_side:
  assumes "distinct (map r_id rs)" "distinct (map p_id ps)"
  shows "distinct (concat (map (\<lambda>p. map r_id (runtimes_of rs p)) ps))"
  using assms(2)
proof (induction ps)
  case (Cons p ps)
  have inj: "inj_on r_id (set rs)" using assms(1) by (simp add: distinct_map)
  have "map r_id (runtimes_of rs p) = map r_id (filter (\<lambda>r. r_provider_id r = p_id p) rs)"
    by (simp add: runtimes_of_filter)
  then have "distinct (map r_id (runtimes_of rs p))"
    using assms(1) by (auto simp: distinct_map inj_on_def)
  moreover have False
    if "q \<in> set ps" "r \<in> set rs" "r' \<in> set rs" "r_id r = r_id r'" "r_provider_id r = p_id p" "r_provider_id r' = p_id q"
    for q r r'
  proof -
    have "r = r'" using inj that(2-4) by (auto simp: inj_on_def)
    then have "p_id q = p_id p" using that(5,6) by simp
    then have "p_id p \<in> p_id ` set ps" using that(1) by (metis image_eqI)
    with Cons.prems show False by simp
  qed
  ultimately show ?case using Cons by (fastforce simp: runtimes_of_filter)
qed simp

lemma aggregate_concat:
  "distinct (map r_id rs) \<Longrightarrow>
   aggregateUsage (concat (map (\<lambda>p. map r_id (runtimes_of rs p)) ps)) m =
     fold usage_plus (map (\<lambda>p. aggregateUsage (js_set (map r_id (runtimes_of rs p))) m) ps) no_usage"
proof (induction ps rule: rev_induct)
  case (snoc p ps)
  have "js_set (map r_id (runtimes_of rs p)) = map r_id (runtimes_of rs p)"
    using snoc.prems by (intro js_set_distinct) (auto simp: runtimes_of_filter distinct_map inj_on_def)
  with snoc show ?case
    by (simp add: aggregate_append) (simp add: usage_plus_def add.commute)
qed (simp add: aggregateUsage_def)

lemma distinct_part: "distinct (map f xs) \<Longrightarrow> distinct (map f (filter P xs))"
  by (auto simp: distinct_map inj_on_def)

lemma total_tokens_sum:
  "totalTokens (aggregateUsage ids m) = (\<Sum>i\<leftarrow>ids. case map_of m i of None \<Rightarrow> 0 | Some u \<Rightarrow> total_tokens u)"
proof (induction ids)
  case (Cons i ids)
  have "aggregateUsage (i # ids) m = usage_plus (aggregateUsage [i] m) (aggregateUsage ids m)"
    using aggregate_append [of "[i]" ids m] by simp
  with Cons show ?case
    by (simp add: usage_plus_def) (simp add: aggregateUsage_def add_usage_def no_usage_def split: option.split)
qed (simp add: aggregateUsage_def no_usage_def)

lemma count_runtimes_sum: "count_runtimes rs ps = (\<Sum>p\<leftarrow>ps. length (runtimes_of rs p))"
proof -
  have "foldl (\<lambda>n p. n + length (runtimes_of rs p)) k ps = k + (\<Sum>p\<leftarrow>ps. length (runtimes_of rs p))" for k
    by (induction ps arbitrary: k) simp_all
  then show ?thesis by (simp add: count_runtimes_def)
qed

lemma distinct_fold_update:
  "distinct (map fst m) \<Longrightarrow> distinct (map fst (fold (\<lambda>i m. AList.update (f i) i m) is m))"
  by (induction "is" arbitrary: m) (simp_all add: distinct_update)

lemma instMap_distinct: "distinct (map fst (instMap usage))"
  by (cases usage) (simp_all add: instMap_def distinct_fold_update)

subsection \<open>Properties\<close>

text \<open>
  The totals of the two sides are the sums over the cards shown below them: nothing is counted
  on both sides or twice.
\<close>

theorem cards_add_up:
  fixes pct :: "nat \<Rightarrow> nat \<Rightarrow> rat" and usage :: "instance_usage list option"
  assumes "distinct (map p_id ps)" "distinct (map r_id rs)"
  defines "d \<equiv> security_data pct ps rs usage"
  shows "localUsage d = fold usage_plus (map (card_usage \<circ> provider_card_of rs usage) (localProviders d)) no_usage
    \<and> remoteUsage d = fold usage_plus (map (card_usage \<circ> provider_card_of rs usage) (remoteProviders d)) no_usage
    \<and> localRuntimeCount d = (\<Sum>p\<leftarrow>localProviders d. card_runtimes (provider_card_of rs usage p))
    \<and> remoteRuntimeCount d = (\<Sum>p\<leftarrow>remoteProviders d. card_runtimes (provider_card_of rs usage p))"
proof -
  have side: "aggregateUsage (side_ids rs qs) (instMap usage) =
      fold usage_plus (map (card_usage \<circ> provider_card_of rs usage) qs) no_usage" if "distinct (map p_id qs)" for qs
    using distinct_side [OF assms(2) that] aggregate_concat [OF assms(2), of qs "instMap usage"]
    by (simp add: side_ids_def js_set_distinct provider_card_of_def ProviderCard_def Let_def comp_def)
  show ?thesis
    using side [OF distinct_part [OF assms(1)]]
    by (simp add: d_def security_data_def Let_def count_runtimes_sum provider_card_of_def ProviderCard_def)
qed

text \<open>
  No token is counted twice: both sides together have at most the tokens of all instances, and
  all of them when every instance is a runtime of a provider.
\<close>

theorem tokens_counted_once:
  fixes pct :: "nat \<Rightarrow> nat \<Rightarrow> rat" and usage :: "instance_usage list option"
  assumes "distinct (map p_id ps)" "distinct (map r_id rs)"
  defines "d \<equiv> security_data pct ps rs usage"
  defines "whole \<equiv> (\<Sum>u\<leftarrow>map snd (instMap usage). total_tokens u)"
  shows "totalTokens (localUsage d) + totalTokens (remoteUsage d) \<le> whole
    \<and> (fst ` set (instMap usage) \<subseteq> {r_id r | r. r \<in> set rs \<and> r_provider_id r \<in> p_id ` set ps}
       \<longrightarrow> totalTokens (localUsage d) + totalTokens (remoteUsage d) = whole)"
proof -
  let ?lo = "filter (\<lambda>p. p_target p = LocalDocker) ps"
  let ?re = "filter (\<lambda>p. p_target p = RemoteEndpoint) ps"
  let ?ids = "concat (map (\<lambda>p. map r_id (runtimes_of rs p)) (?lo @ ?re))"
  let ?m = "instMap usage"
  let ?t = "\<lambda>i. case map_of ?m i of None \<Rightarrow> 0 | Some u \<Rightarrow> total_tokens u"
  have perm: "mset (?lo @ ?re) = mset ps"
  proof (induction ps)
    case (Cons p ps) then show ?case by (cases "p_target p") simp_all
  qed simp
  have "distinct (map p_id (?lo @ ?re))"
    using assms(1) perm by (metis mset_eq_imp_distinct_iff mset_map)
  then have dist: "distinct ?ids" by (rule distinct_side [OF assms(2)])
  then have parts: "distinct (concat (map (\<lambda>p. map r_id (runtimes_of rs p)) ?lo))"
    "distinct (concat (map (\<lambda>p. map r_id (runtimes_of rs p)) ?re))" by simp_all
  have "totalTokens (localUsage d) + totalTokens (remoteUsage d) = (\<Sum>i\<leftarrow>?ids. ?t i)"
    using parts by (simp add: d_def security_data_def Let_def total_tokens_sum side_ids_def js_set_distinct)
  also have "\<dots> = (\<Sum>i\<in>set ?ids. ?t i)"
    using dist by (simp only: sum_list_distinct_conv_sum_set)
  also have "\<dots> = (\<Sum>i\<in>set ?ids \<inter> fst ` set ?m. ?t i)"
    by (rule sum.mono_neutral_right) (auto split: option.splits dest: map_of_SomeD intro: rev_image_eqI)
  finally have total: "totalTokens (localUsage d) + totalTokens (remoteUsage d) =
      (\<Sum>i\<in>set ?ids \<inter> fst ` set ?m. ?t i)" .
  have "whole = (\<Sum>e\<leftarrow>?m. ?t (fst e))"
    unfolding whole_def using instMap_distinct [of usage]
    by (simp add: comp_def) (intro arg_cong [of _ _ sum_list] map_cong, auto)
  also have "\<dots> = (\<Sum>i\<in>fst ` set ?m. ?t i)"
    using instMap_distinct [of usage]
    by (simp add: sum_list_distinct_conv_sum_set distinct_map comp_def sum.reindex)
  finally have w: "whole = (\<Sum>i\<in>fst ` set ?m. ?t i)" .
  have "set (?lo @ ?re) = set ps" using perm by (metis set_mset_mset)
  moreover have "set (concat (map (\<lambda>p. map r_id (runtimes_of rs p)) qs)) =
      {r_id r | r. r \<in> set rs \<and> r_provider_id r \<in> p_id ` set qs}" for qs
    by (auto simp: runtimes_of_filter)
  ultimately have ids: "set ?ids = {r_id r | r. r \<in> set rs \<and> r_provider_id r \<in> p_id ` set ps}"
    by (simp only:)
  show ?thesis
    unfolding total w ids [symmetric] by (auto intro: sum_mono2 simp: Int_absorb1)
qed

text \<open>The card of the dashboard and the page agree on counts, share, badge and its colour.\<close>

theorem card_agrees_with_map:
  "let d = security_data pct ps rs usage; c = DataResidencyCard pct ps in
     c_local c = length (localProviders d) \<and> c_remote c = length (remoteProviders d)
     \<and> c_badge c = badge d \<and> c_localPct c = localPct d
     \<and> BADGE_COLOR (c_badge c) = badge_color (BADGE_META (badge d))"
proof -
  have "BADGE_COLOR b = badge_color (BADGE_META b)" for b by (cases b) simp_all
  then show ?thesis
    by (simp add: security_data_def DataResidencyCard_def Let_def classifyBadge_def card_classifyBadge_def)
qed

definition pct_close :: "(nat \<Rightarrow> nat \<Rightarrow> rat) \<Rightarrow> bool" where
  "pct_close pct =
     (\<forall>a b. 0 < b \<longrightarrow> \<bar>pct a b - 100 * of_nat a / of_nat b\<bar> \<le> 100 * of_nat a / of_nat b / 2 ^ 51)"

text \<open>A share is a percentage; from 99.6 on it is shown as 100 although the rest goes out.\<close>

theorem share_bounds:
  assumes "pct_close pct" "part \<le> whole"
  shows "0 \<le> share pct part whole \<and> share pct part whole \<le> 100"
proof (cases "whole > 0")
  case True
  define q :: rat where "q = 100 * of_nat part / of_nat whole"
  have q: "0 \<le> q" "q \<le> 100" using True assms(2) by (simp_all add: q_def field_simps)
  have "\<bar>pct part whole - q\<bar> \<le> q / 2 ^ 51"
    using assms(1) True by (simp add: pct_close_def q_def)
  moreover have "q / 2 ^ 51 \<le> 1 / 20" using q by simp
  ultimately have "- 1 / 2 < pct part whole" "pct part whole < 100 + 1 / 2"
    using q by linarith+
  then show ?thesis using True by (simp add: share_def js_round_def floor_le_iff le_floor_iff)
qed (simp add: share_def)

theorem share_hides_cloud:
  assumes "pct_close pct" "part < whole" "996 * whole \<le> 1000 * part"
  shows "share pct part whole = 100"
proof -
  define q :: rat where "q = 100 * of_nat part / of_nat whole"
  have "(of_nat (996 * whole) :: rat) \<le> of_nat (1000 * part)" using assms(3) by (simp only: of_nat_le_iff)
  then have q: "996 / 10 \<le> q" "q \<le> 100" using assms(2) by (simp_all add: q_def field_simps)
  have "\<bar>pct part whole - q\<bar> \<le> q / 2 ^ 51"
    using assms(1,2) by (simp add: pct_close_def q_def)
  moreover have "q / 2 ^ 51 \<le> 1 / 20" using q by simp
  ultimately have "199 / 2 < pct part whole" "pct part whole < 100 + 1 / 2"
    using q by linarith+
  then show ?thesis using assms(2) by (simp add: share_def js_round_def floor_eq_iff)
qed

end
