(* ===== verification/User_Admin.thy ===== *)
theory User_Admin
  imports Prelude
begin

text \<open>
  Users, roles and groups: \<^verbatim>\<open>pages/admin/RolesPage.tsx\<close>, \<^verbatim>\<open>pages/admin/UsersPage.tsx\<close>,
  \<^verbatim>\<open>pages/admin/GroupsPage.tsx\<close>, and what the server does with the changes
  (\<^verbatim>\<open>update_role\<close> and \<^verbatim>\<open>set_group_members\<close> of the backend). A \<open>Set\<close> of the code is a list
  without repetition in the order of insertion. A save is a function of the answers of its
  request and of the loading that follows; the dialog of the members is a state with its requests
  in flight, since nothing keeps them apart; the order in which the server lists the members is not
  modelled. Dates, flags and the table columns are not modelled.
\<close>

subsection \<open>Types\<close>

record permission =
  pm_id :: string
  pm_resource :: string
  pm_action :: string

record role =
  role_id :: string
  role_name :: string
  role_desc :: "string option"
  is_builtin :: bool
  role_perms :: "permission list"

record user =
  user_id :: string
  user_email :: string
  user_roles :: "role list"

record group =
  group_id :: string
  group_name :: string
  group_desc :: "string option"
  group_roles :: "role list"
  member_count :: nat

text \<open>What an editor sends: an empty description is left out.\<close>

record edit_payload =
  pl_name :: string
  pl_description :: "string option"
  pl_ids :: "string list"

definition or_undefined :: "string \<Rightarrow> string option" where
  "or_undefined s = (if s = [] then None else Some s)"

definition or_blank :: "string option \<Rightarrow> string" where
  "or_blank s = (case s of None \<Rightarrow> [] | Some t \<Rightarrow> t)"

text \<open>Adding to and deleting from a \<open>Set\<close>, and the \<open>Set\<close> of a list.\<close>

definition set_add :: "'a \<Rightarrow> 'a list \<Rightarrow> 'a list" where
  "set_add x xs = (if x \<in> set xs then xs else xs @ [x])"

definition set_delete :: "'a \<Rightarrow> 'a list \<Rightarrow> 'a list" where
  "set_delete x xs = filter (\<lambda>y. y \<noteq> x) xs"

definition set_of :: "'a list \<Rightarrow> 'a list" where
  "set_of xs = fold set_add xs []"

subsection \<open>Roles\<close>

definition groupByResource :: "permission list \<Rightarrow> (string \<times> permission list) list" where
  "groupByResource perms = fold (group_add pm_resource) perms []"

record roles_page =
  roles :: "role list"
  allPermissions :: "permission list"
  r_loading :: bool
  r_error :: "string option"
  editorOpen :: bool
  editingRole :: "role option"
  roleName :: string
  roleDesc :: string
  selectedPermIds :: "string list"
  saving :: bool
  deleteTarget :: "role option"
  deleting :: bool

definition openCreate :: "roles_page \<Rightarrow> roles_page" where
  "openCreate p =
     p\<lparr>editingRole := None, roleName := [], roleDesc := [], selectedPermIds := [], editorOpen := True\<rparr>"

definition openEdit :: "role \<Rightarrow> roles_page \<Rightarrow> roles_page" where
  "openEdit r p =
     p\<lparr>editingRole := Some r, roleName := role_name r, roleDesc := or_blank (role_desc r),
       selectedPermIds := set_of (map pm_id (role_perms r)), editorOpen := True\<rparr>"

definition togglePerm :: "string \<Rightarrow> roles_page \<Rightarrow> roles_page" where
  "togglePerm i p = p\<lparr>selectedPermIds := set_toggle i (selectedPermIds p)\<rparr>"

definition resource_perms :: "roles_page \<Rightarrow> string \<Rightarrow> permission list" where
  "resource_perms p resource =
     (case map_of (groupByResource (allPermissions p)) resource of None \<Rightarrow> [] | Some perms \<Rightarrow> perms)"

definition allChecked :: "roles_page \<Rightarrow> string \<Rightarrow> bool" where
  "allChecked p resource = list_all (\<lambda>m. pm_id m \<in> set (selectedPermIds p)) (resource_perms p resource)"

definition someChecked :: "roles_page \<Rightarrow> string \<Rightarrow> bool" where
  "someChecked p resource =
     (list_ex (\<lambda>m. pm_id m \<in> set (selectedPermIds p)) (resource_perms p resource) \<and> \<not> allChecked p resource)"

definition toggleResource :: "string \<Rightarrow> roles_page \<Rightarrow> roles_page" where
  "toggleResource resource p =
     p\<lparr>selectedPermIds :=
         fold (\<lambda>m. if allChecked p resource then set_delete (pm_id m) else set_add (pm_id m))
           (resource_perms p resource) (selectedPermIds p)\<rparr>"

datatype role_request = CreateRole edit_payload | UpdateRole string edit_payload

definition role_payload :: "roles_page \<Rightarrow> edit_payload" where
  "role_payload p =
     \<lparr>pl_name = roleName p, pl_description = or_undefined (roleDesc p), pl_ids = selectedPermIds p\<rparr>"

definition save_request :: "roles_page \<Rightarrow> role_request" where
  "save_request p =
     (case editingRole p of
        Some r \<Rightarrow> UpdateRole (role_id r) (role_payload p)
      | None \<Rightarrow> CreateRole (role_payload p))"

definition submit_enabled :: "roles_page \<Rightarrow> bool" where
  "submit_enabled p = (\<not> (saving p \<or> trim (roleName p) = []))"

text \<open>The loading hook: what starts it and what its answer does.\<close>

definition reload :: "string + (role list \<times> permission list) \<Rightarrow> roles_page \<Rightarrow> roles_page" where
  "reload a p =
     (case a of
        Inl msg \<Rightarrow> p\<lparr>r_error := Some msg, r_loading := False\<rparr>
      | Inr (rs, ps) \<Rightarrow> p\<lparr>r_error := None, roles := rs, allPermissions := ps, r_loading := False\<rparr>)"

definition save :: "string option \<Rightarrow> string + (role list \<times> permission list) \<Rightarrow> roles_page \<Rightarrow> roles_page" where
  "save failure a p =
     (case failure of
        Some msg \<Rightarrow> p\<lparr>r_error := Some msg\<rparr>
      | None \<Rightarrow> reload a (p\<lparr>r_error := None, editorOpen := False\<rparr>))\<lparr>saving := False\<rparr>"

definition confirmDelete :: "string option \<Rightarrow> string + (role list \<times> permission list) \<Rightarrow> roles_page \<Rightarrow> roles_page" where
  "confirmDelete failure a p =
     (if deleteTarget p = None then p
      else (case failure of
          Some msg \<Rightarrow> p\<lparr>r_error := Some msg\<rparr>
        | None \<Rightarrow> reload a (p\<lparr>r_error := None, deleteTarget := None\<rparr>))\<lparr>deleting := False\<rparr>)"

text \<open>The buttons of a row: a built-in role has none.\<close>

definition role_actions :: "role \<Rightarrow> bool" where
  "role_actions r = (\<not> is_builtin r)"

text \<open>The update on the server: a field that is not there is kept, the permissions replaced.\<close>

record stored_role =
  st_name :: string
  st_desc :: "string option"
  st_perms :: "string set"

definition update_role :: "edit_payload \<Rightarrow> stored_role \<Rightarrow> stored_role" where
  "update_role pl s =
     s\<lparr>st_name := pl_name pl,
       st_desc := (case pl_description pl of None \<Rightarrow> st_desc s | Some d \<Rightarrow> Some d),
       st_perms := set (pl_ids pl)\<rparr>"

subsection \<open>Users\<close>

record users_page =
  users :: "user list"
  u_error :: "string option"
  editing :: "user option"
  selectedRoleIds :: "string list"
  createOpen :: bool
  newEmail :: string
  newPassword :: string
  newSuperuser :: bool
  newRoleIds :: "string list"

definition toggle_id :: "string \<Rightarrow> string list \<Rightarrow> string list" where
  "toggle_id i prev = (if i \<in> set prev then filter (\<lambda>j. j \<noteq> i) prev else prev @ [i])"

definition edit_user :: "user \<Rightarrow> users_page \<Rightarrow> users_page" where
  "edit_user u p = p\<lparr>editing := Some u, selectedRoleIds := map role_id (user_roles u)\<rparr>"

definition toggleRole :: "string \<Rightarrow> users_page \<Rightarrow> users_page" where
  "toggleRole i p = p\<lparr>selectedRoleIds := toggle_id i (selectedRoleIds p)\<rparr>"

definition saveRoles :: "users_page \<Rightarrow> (string \<times> string list) option" where
  "saveRoles p = (case editing p of None \<Rightarrow> None | Some u \<Rightarrow> Some (user_id u, selectedRoleIds p))"

definition saveRoles_answered :: "string + user list \<Rightarrow> users_page \<Rightarrow> users_page" where
  "saveRoles_answered a p =
     (case a of Inl msg \<Rightarrow> p\<lparr>u_error := Some msg\<rparr>
      | Inr us \<Rightarrow> p\<lparr>editing := None, u_error := None, users := us\<rparr>)"

definition open_create_user :: "users_page \<Rightarrow> users_page" where
  "open_create_user p =
     p\<lparr>newEmail := [], newPassword := [], newSuperuser := False, newRoleIds := [], createOpen := True\<rparr>"

definition toggleNewRole :: "string \<Rightarrow> users_page \<Rightarrow> users_page" where
  "toggleNewRole i p = p\<lparr>newRoleIds := toggle_id i (newRoleIds p)\<rparr>"

record create_user =
  cu_email :: string
  cu_password :: string
  cu_superuser :: bool
  cu_roles :: "string list"

definition create_user_enabled :: "users_page \<Rightarrow> bool" where
  "create_user_enabled p = (\<not> (trim (newEmail p) = [] \<or> length (newPassword p) < 6))"

definition handleCreate :: "users_page \<Rightarrow> create_user" where
  "handleCreate p =
     \<lparr>cu_email = newEmail p, cu_password = newPassword p, cu_superuser = newSuperuser p, cu_roles = newRoleIds p\<rparr>"

definition handleCreate_answered :: "string + user list \<Rightarrow> users_page \<Rightarrow> users_page" where
  "handleCreate_answered a p =
     (case a of Inl msg \<Rightarrow> p\<lparr>u_error := Some msg\<rparr>
      | Inr us \<Rightarrow> p\<lparr>createOpen := False, u_error := None, users := us\<rparr>)"

definition rolePermissionCount :: "role list \<Rightarrow> string \<Rightarrow> nat option" where
  "rolePermissionCount rs = fold (\<lambda>r m. m(role_id r \<mapsto> length (role_perms r))) rs Map.empty"

subsection \<open>Groups: the editor\<close>

record groups_page =
  editingGroup :: "group option"
  groupName :: string
  groupDesc :: string
  groupRoleIds :: "string list"
  groupEditorOpen :: bool

definition openCreate_group :: "groups_page \<Rightarrow> groups_page" where
  "openCreate_group p =
     p\<lparr>editingGroup := None, groupName := [], groupDesc := [], groupRoleIds := [], groupEditorOpen := True\<rparr>"

definition openEdit_group :: "group \<Rightarrow> groups_page \<Rightarrow> groups_page" where
  "openEdit_group g p =
     p\<lparr>editingGroup := Some g, groupName := group_name g, groupDesc := or_blank (group_desc g),
       groupRoleIds := set_of (map role_id (group_roles g)), groupEditorOpen := True\<rparr>"

definition toggle_group_role :: "string \<Rightarrow> groups_page \<Rightarrow> groups_page" where
  "toggle_group_role i p = p\<lparr>groupRoleIds := set_toggle i (groupRoleIds p)\<rparr>"

definition handleSave :: "groups_page \<Rightarrow> string option \<times> edit_payload" where
  "handleSave p =
     (map_option group_id (editingGroup p),
      \<lparr>pl_name = groupName p, pl_description = or_undefined (groupDesc p), pl_ids = groupRoleIds p\<rparr>)"

subsection \<open>Groups: the members\<close>

text \<open>The dialogs of the members with the requests in flight, and the members on the server.\<close>

record members_state =
  membersGroup :: "string option"
  members :: "string list"
  membersLoading :: bool
  addMemberOpen :: bool
  selectedUserIds :: "string list"
  list_reqs :: "string list"
  saves :: "(string \<times> string list) list"
  removes :: "(string \<times> string) list"
  server :: "string \<Rightarrow> string list"

datatype member_event =
    OpenMembers string
  | ListAnswered string
  | ListFailed string
  | CloseMembers
  | OpenAdd
  | ToggleUser string
  | CancelAdd
  | SaveMembers
  | SaveAnswered string "string list"
  | SaveFailed string "string list"
  | RemoveMember string
  | RemoveAnswered string string
  | RemoveFailed string string

text \<open>What the dialogs allow: they are modal, and an answer needs its request.\<close>

fun can :: "member_event \<Rightarrow> members_state \<Rightarrow> bool" where
  "can (OpenMembers g) s = (membersGroup s = None)"
| "can (ListAnswered g) s = (g \<in> set (list_reqs s))"
| "can (ListFailed g) s = (g \<in> set (list_reqs s))"
| "can CloseMembers s = (membersGroup s \<noteq> None \<and> \<not> addMemberOpen s)"
| "can OpenAdd s = (membersGroup s \<noteq> None \<and> \<not> addMemberOpen s)"
| "can (ToggleUser u) s = addMemberOpen s"
| "can CancelAdd s = addMemberOpen s"
| "can SaveMembers s = addMemberOpen s"
| "can (SaveAnswered g us) s = ((g, us) \<in> set (saves s))"
| "can (SaveFailed g us) s = ((g, us) \<in> set (saves s))"
| "can (RemoveMember u) s =
     (membersGroup s \<noteq> None \<and> \<not> addMemberOpen s \<and> \<not> membersLoading s \<and> u \<in> set (members s))"
| "can (RemoveAnswered g u) s = ((g, u) \<in> set (removes s))"
| "can (RemoveFailed g u) s = ((g, u) \<in> set (removes s))"

definition openMembers :: "string \<Rightarrow> members_state \<Rightarrow> members_state" where
  "openMembers g s = s\<lparr>membersGroup := Some g, membersLoading := True, list_reqs := g # list_reqs s\<rparr>"

definition members_listed :: "string \<Rightarrow> members_state \<Rightarrow> members_state" where
  "members_listed g s = s\<lparr>members := server s g, membersLoading := False, list_reqs := remove1 g (list_reqs s)\<rparr>"

definition members_failed :: "string \<Rightarrow> members_state \<Rightarrow> members_state" where
  "members_failed g s = s\<lparr>members := [], membersLoading := False, list_reqs := remove1 g (list_reqs s)\<rparr>"

definition openAddMembers :: "members_state \<Rightarrow> members_state" where
  "openAddMembers s =
     (if membersGroup s = None then s
      else s\<lparr>selectedUserIds := set_of (members s), addMemberOpen := True\<rparr>)"

definition handleSetMembers :: "members_state \<Rightarrow> members_state" where
  "handleSetMembers s =
     (case membersGroup s of None \<Rightarrow> s | Some g \<Rightarrow> s\<lparr>saves := (g, selectedUserIds s) # saves s\<rparr>)"

text \<open>The server replaces the members and answers with the new ones.\<close>

definition set_group_members :: "string \<Rightarrow> string list \<Rightarrow> (string \<Rightarrow> string list) \<Rightarrow> string \<Rightarrow> string list" where
  "set_group_members g us srv = srv(g := remdups us)"

definition members_set :: "string \<Rightarrow> string list \<Rightarrow> members_state \<Rightarrow> members_state" where
  "members_set g us s =
     (let srv = set_group_members g us (server s)
      in s\<lparr>server := srv, members := srv g, addMemberOpen := False, saves := remove1 (g, us) (saves s)\<rparr>)"

definition handleRemoveMember :: "string \<Rightarrow> members_state \<Rightarrow> members_state" where
  "handleRemoveMember u s =
     (case membersGroup s of None \<Rightarrow> s | Some g \<Rightarrow> s\<lparr>removes := (g, u) # removes s\<rparr>)"

definition member_removed :: "string \<Rightarrow> string \<Rightarrow> members_state \<Rightarrow> members_state" where
  "member_removed g u s =
     s\<lparr>server := (server s)(g := filter (\<lambda>v. v \<noteq> u) (server s g)),
       members := filter (\<lambda>v. v \<noteq> u) (members s), removes := remove1 (g, u) (removes s)\<rparr>"

fun act :: "member_event \<Rightarrow> members_state \<Rightarrow> members_state" where
  "act (OpenMembers g) s = openMembers g s"
| "act (ListAnswered g) s = members_listed g s"
| "act (ListFailed g) s = members_failed g s"
| "act CloseMembers s = s\<lparr>membersGroup := None\<rparr>"
| "act OpenAdd s = openAddMembers s"
| "act (ToggleUser u) s = s\<lparr>selectedUserIds := set_toggle u (selectedUserIds s)\<rparr>"
| "act CancelAdd s = s\<lparr>addMemberOpen := False\<rparr>"
| "act SaveMembers s = handleSetMembers s"
| "act (SaveAnswered g us) s = members_set g us s"
| "act (SaveFailed g us) s = s\<lparr>saves := remove1 (g, us) (saves s)\<rparr>"
| "act (RemoveMember u) s = handleRemoveMember u s"
| "act (RemoveAnswered g u) s = member_removed g u s"
| "act (RemoveFailed g u) s = s\<lparr>removes := remove1 (g, u) (removes s)\<rparr>"

definition members_start :: "(string \<Rightarrow> string list) \<Rightarrow> members_state" where
  "members_start srv =
     \<lparr>membersGroup = None, members = [], membersLoading = False, addMemberOpen = False,
      selectedUserIds = [], list_reqs = [], saves = [], removes = [], server = srv\<rparr>"

fun run_members :: "member_event list \<Rightarrow> members_state \<Rightarrow> members_state option" where
  "run_members [] s = Some s"
| "run_members (e # es) s = (if can e s then run_members es (act e s) else None)"

definition availableUsers :: "user list \<Rightarrow> members_state \<Rightarrow> user list" where
  "availableUsers us s = filter (\<lambda>u. user_id u \<notin> set (members s)) us"

subsection \<open>Lemmas on sets\<close>

lemma set_add_mem [simp]: "set (set_add x xs) = insert x (set xs)"
  by (auto simp: set_add_def)

lemma set_delete_mem [simp]: "set (set_delete x xs) = set xs - {x}"
  by (auto simp: set_delete_def)

lemma fold_set_add: "set (fold (\<lambda>m. set_add (f m)) ms xs) = set xs \<union> f ` set ms"
  by (induction ms arbitrary: xs) auto

lemma fold_set_delete: "set (fold (\<lambda>m. set_delete (f m)) ms xs) = set xs - f ` set ms"
  by (induction ms arbitrary: xs) auto

lemma set_set_of [simp]: "set (set_of xs) = set xs"
  using fold_set_add [of "\<lambda>x. x" xs "[]"] by (simp add: set_of_def)

lemma set_of_distinct: "distinct (set_of xs)"
proof -
  have "distinct ys \<Longrightarrow> distinct (fold set_add xs ys)" for ys
    by (induction xs arbitrary: ys) (auto simp: set_add_def)
  then show ?thesis by (simp add: set_of_def)
qed

interpretation role_choice: toggling toggle_id "\<lambda>x xs. x \<in> set xs"
  by unfold_locales (auto simp: toggle_id_def)

interpretation perm_choice: toggling togglePerm "\<lambda>i p. i \<in> set (selectedPermIds p)"
  by unfold_locales (simp add: togglePerm_def)

lemma resource_perms_filter:
  "resource_perms p res = filter (\<lambda>m. pm_resource m = res) (allPermissions p)"
  using grouped_lookup [of pm_resource "allPermissions p" res]
  by (auto simp: resource_perms_def groupByResource_def grouped_def [symmetric] filter_empty_conv)

subsection \<open>Properties of roles and users\<close>

text \<open>The permissions of the editor: every permission once, under its own resource.\<close>

theorem permissions_grouped:
  "distinct (map fst (groupByResource ps))
   \<and> mset (concat (map snd (groupByResource ps))) = mset ps
   \<and> list_all (\<lambda>(res, ms). ms \<noteq> [] \<and> ms = filter (\<lambda>m. pm_resource m = res) ps) (groupByResource ps)"
  using grouped_distinct [of pm_resource ps] grouped_mset [of pm_resource ps]
  by (auto simp: groupByResource_def grouped_def [symmetric] list_all_iff grouped_entry)

text \<open>
  The box of a resource takes all its permissions, or none when it had all, and no other; it
  is never left half checked, and a second click undoes a click on a full or empty box.
\<close>

theorem toggle_resource_all_or_none:
  "let p' = toggleResource res p in
     (\<forall>i. i \<in> set (selectedPermIds p') \<longleftrightarrow>
        (if i \<in> pm_id ` set (resource_perms p res) then \<not> allChecked p res else i \<in> set (selectedPermIds p)))
     \<and> \<not> someChecked p' res
     \<and> (allChecked p' res = (\<not> allChecked p res \<or> resource_perms p res = []))"
proof -
  have ids: "set (selectedPermIds (toggleResource res p)) =
      (if allChecked p res then set (selectedPermIds p) - pm_id ` set (resource_perms p res)
       else set (selectedPermIds p) \<union> pm_id ` set (resource_perms p res))"
    by (simp add: toggleResource_def fold_set_add fold_set_delete)
  have perms: "resource_perms (toggleResource res p) res = resource_perms p res"
    by (simp add: toggleResource_def resource_perms_def)
  show ?thesis
    unfolding Let_def
    by (cases "allChecked p res") (auto simp: ids perms someChecked_def allChecked_def list_all_iff list_ex_iff
      neq_Nil_conv)
qed

text \<open>
  From the editor to the server: after any clicks on single permissions the role has exactly
  the permissions whose number of clicks says so, and its new name; the description is the one
  typed, unless it was emptied, when the old one stays.
\<close>

definition edited :: "role \<Rightarrow> string list \<Rightarrow> string \<Rightarrow> string \<Rightarrow> roles_page \<Rightarrow> roles_page" where
  "edited r clicks n d p = (fold togglePerm clicks (openEdit r p))\<lparr>roleName := n, roleDesc := d\<rparr>"

theorem role_edit_stored:
  assumes "st = \<lparr>st_name = role_name r, st_desc = role_desc r, st_perms = pm_id ` set (role_perms r)\<rparr>"
  shows "\<exists>pl. save_request (edited r clicks n d p) = UpdateRole (role_id r) pl
    \<and> st_name (update_role pl st) = n
    \<and> st_desc (update_role pl st) = (if d = [] then role_desc r else Some d)
    \<and> (\<forall>i. i \<in> st_perms (update_role pl st) \<longleftrightarrow> (i \<in> pm_id ` set (role_perms r) \<longleftrightarrow> even (count_list clicks i)))"
proof -
  have keep: "editingRole (fold togglePerm clicks q) = editingRole q" for q
    by (induction clicks arbitrary: q) (simp_all add: togglePerm_def)
  show ?thesis
    using perm_choice.toggle_fold [where xs = clicks and s = "openEdit r p"] assms
    by (simp add: edited_def save_request_def role_payload_def update_role_def or_undefined_def keep openEdit_def)
qed

text \<open>A failed save keeps the dialog and everything in it, with the message.\<close>

theorem failed_role_save_keeps:
  "let p' = save (Some msg) a p in
     r_error p' = Some msg \<and> editorOpen p' = editorOpen p \<and> save_request p' = save_request p \<and> \<not> saving p'"
  by (simp add: save_def save_request_def role_payload_def Let_def split: option.split)

text \<open>The roles of a user that are sent are those of the user, toggled by the clicks.\<close>

theorem user_roles_sent:
  "\<exists>ids. saveRoles (fold toggleRole clicks (edit_user u p)) = Some (user_id u, ids)
     \<and> (\<forall>i. i \<in> set ids \<longleftrightarrow> (i \<in> role_id ` set (user_roles u) \<longleftrightarrow> even (count_list clicks i)))"
proof -
  have "editing (fold toggleRole clicks q) = editing q"
    "selectedRoleIds (fold toggleRole clicks q) = fold toggle_id clicks (selectedRoleIds q)" for q
    by (induction clicks arbitrary: q) (simp_all add: toggleRole_def)
  then show ?thesis
    using role_choice.toggle_fold [where xs = clicks and s = "map role_id (user_roles u)"]
    by (simp add: saveRoles_def edit_user_def)
qed


subsection \<open>Properties of the members\<close>

definition idle :: "members_state \<Rightarrow> bool" where
  "idle s = (list_reqs s = [] \<and> saves s = [] \<and> removes s = [])"

text \<open>
  A calm user sends nothing while a request is under way and opens the selection only when the
  members are there; and no list fails.
\<close>

fun calm :: "member_event \<Rightarrow> members_state \<Rightarrow> bool" where
  "calm (OpenMembers g) s = idle s"
| "calm SaveMembers s = idle s"
| "calm (RemoveMember u) s = idle s"
| "calm (ListFailed g) s = False"
| "calm OpenAdd s = (\<not> membersLoading s)"
| "calm _ s = True"

inductive calm_reach :: "(string \<Rightarrow> string list) \<Rightarrow> members_state \<Rightarrow> bool" for srv where
  calm_start: "calm_reach srv (members_start srv)"
| calm_act: "calm_reach srv s \<Longrightarrow> can e s \<Longrightarrow> calm e s \<Longrightarrow> calm_reach srv (act e s)"

text \<open>One request at most, and it is for the group shown; without one the members are current.\<close>

definition members_ok :: "members_state \<Rightarrow> bool" where
  "members_ok s =
     (length (list_reqs s) + length (saves s) + length (removes s) \<le> 1
      \<and> (list_reqs s \<noteq> [] \<longleftrightarrow> membersLoading s)
      \<and> (\<forall>g. membersGroup s = Some g \<longrightarrow>
           set (list_reqs s) \<union> fst ` set (saves s) \<union> fst ` set (removes s) \<subseteq> {g}
           \<and> (list_reqs s = [] \<longrightarrow> set (members s) = set (server s g))))"

lemma one_of_three:
  "length xs + (length ys + length zs) \<le> 1 \<Longrightarrow> x \<in> set xs \<Longrightarrow> xs = [x] \<and> ys = [] \<and> zs = []"
  by (cases xs) auto

lemma single_request:
  assumes "members_ok s"
  shows "g \<in> set (list_reqs s) \<Longrightarrow> list_reqs s = [g] \<and> saves s = [] \<and> removes s = []"
    and "q \<in> set (saves s) \<Longrightarrow> saves s = [q] \<and> list_reqs s = [] \<and> removes s = []"
    and "r \<in> set (removes s) \<Longrightarrow> removes s = [r] \<and> list_reqs s = [] \<and> saves s = []"
proof -
  have one: "length (list_reqs s) + (length (saves s) + length (removes s)) \<le> 1"
    "length (saves s) + (length (list_reqs s) + length (removes s)) \<le> 1"
    "length (removes s) + (length (list_reqs s) + length (saves s)) \<le> 1"
    using assms by (simp_all add: members_ok_def)
  show "list_reqs s = [g] \<and> saves s = [] \<and> removes s = []" if "g \<in> set (list_reqs s)"
    using one(1) that by (rule one_of_three)
  show "saves s = [q] \<and> list_reqs s = [] \<and> removes s = []" if "q \<in> set (saves s)"
    using one(2) that by (rule one_of_three)
  show "removes s = [r] \<and> list_reqs s = [] \<and> saves s = []" if "r \<in> set (removes s)"
    using one(3) that by (rule one_of_three)
qed

lemma members_okD:
  assumes "members_ok s"
  shows "membersLoading s = (list_reqs s \<noteq> [])"
    and "membersGroup s = Some h \<Longrightarrow>
      set (list_reqs s) \<subseteq> {h} \<and> fst ` set (saves s) \<subseteq> {h} \<and> fst ` set (removes s) \<subseteq> {h}"
    and "membersGroup s = Some h \<Longrightarrow> list_reqs s = [] \<Longrightarrow> set (members s) = set (server s h)"
  using assms by (auto simp: members_ok_def)

lemma members_ok_act:
  assumes "members_ok s" "can e s" "calm e s"
  shows "members_ok (act e s)"
proof (cases e)
  case (ListAnswered g)
  then have only: "list_reqs s = [g]" "saves s = []" "removes s = []"
    using assms(2) single_request(1) [OF assms(1), of "g"] by simp_all
  then show ?thesis
    using members_okD [OF assms(1)] unfolding ListAnswered act.simps members_ok_def members_listed_def
    by auto
next
  case (SaveAnswered g us)
  then have only: "saves s = [(g, us)]" "list_reqs s = []" "removes s = []"
    using assms(2) single_request(2) [OF assms(1), of "(g, us)"] by simp_all
  then show ?thesis
    using members_okD [OF assms(1)] unfolding SaveAnswered act.simps members_ok_def members_set_def set_group_members_def Let_def
    by auto
next
  case (SaveFailed g us)
  then have only: "saves s = [(g, us)]" "list_reqs s = []" "removes s = []"
    using assms(2) single_request(2) [OF assms(1), of "(g, us)"] by simp_all
  then show ?thesis
    using members_okD [OF assms(1)] unfolding SaveFailed act.simps members_ok_def
    by auto
next
  case (RemoveAnswered g u)
  then have only: "removes s = [(g, u)]" "list_reqs s = []" "saves s = []"
    using assms(2) single_request(3) [OF assms(1), of "(g, u)"] by simp_all
  then show ?thesis
    using members_okD [OF assms(1)] unfolding RemoveAnswered act.simps members_ok_def member_removed_def
    by auto
next
  case (RemoveFailed g u)
  then have only: "removes s = [(g, u)]" "list_reqs s = []" "saves s = []"
    using assms(2) single_request(3) [OF assms(1), of "(g, u)"] by simp_all
  then show ?thesis
    using members_okD [OF assms(1)] unfolding RemoveFailed act.simps members_ok_def
    by auto
qed (use assms in \<open>auto simp: members_ok_def idle_def openMembers_def openAddMembers_def
  handleSetMembers_def handleRemoveMember_def split: option.split\<close>)

lemma calm_members_ok: "calm_reach srv s \<Longrightarrow> members_ok s"
proof (induction rule: calm_reach.induct)
  case calm_start
  then show ?case by (simp add: members_ok_def members_start_def)
qed (rule members_ok_act)

text \<open>
  With a calm user the members shown, when no request is under way, are those of the group on
  the server.
\<close>

theorem calm_members_current:
  assumes "calm_reach srv s" "idle s" "membersGroup s = Some g"
  shows "set (members s) = set (server s g)"
  using calm_members_ok [OF assms(1)] assms(2,3) by (simp add: members_ok_def idle_def)

lemma run_members_append:
  "run_members (es @ es') s = (case run_members es s of None \<Rightarrow> None | Some s' \<Rightarrow> run_members es' s')"
  by (induction es arbitrary: s) simp_all

lemma run_toggles:
  "addMemberOpen s \<Longrightarrow> run_members (map ToggleUser us) s =
     Some (s\<lparr>selectedUserIds := fold set_toggle us (selectedUserIds s)\<rparr>)"
  by (induction us arbitrary: s) simp_all

text \<open>
  C32: What a calm user selects is what the group gets: opening the selection, any clicks on users
  and saving changes the membership of exactly those users that were clicked an odd number of
  times, in this group only.
\<close>

theorem membership_edit_exact:
  assumes "calm_reach srv s" "idle s" "membersGroup s = Some g" "\<not> addMemberOpen s"
  shows "\<exists>ids s'. run_members (OpenAdd # map ToggleUser us @ [SaveMembers, SaveAnswered g ids]) s = Some s'
    \<and> (\<forall>u. u \<in> set (server s' g) \<longleftrightarrow> (u \<in> set (server s g) \<longleftrightarrow> even (count_list us u)))
    \<and> (\<forall>h. h \<noteq> g \<longrightarrow> server s' h = server s h)"
proof -
  let ?ids = "fold set_toggle us (set_of (members s))"
  have "u \<in> set ?ids \<longleftrightarrow> (u \<in> set (server s g) \<longleftrightarrow> even (count_list us u))" for u
    using list_toggle.toggle_fold [where xs = us and s = "set_of (members s)" and y = u]
      calm_members_current [OF assms(1-3)] by simp
  moreover have "\<exists>s'. run_members (OpenAdd # map ToggleUser us @ [SaveMembers, SaveAnswered g ?ids]) s = Some s'
      \<and> server s' = (server s)(g := remdups ?ids)"
    using assms(3,4) by (simp add: openAddMembers_def run_members_append run_toggles handleSetMembers_def
      members_set_def set_group_members_def Let_def)
  ultimately show ?thesis
    by (elim exE conjE) (intro exI [of _ ?ids] exI conjI, assumption, simp_all)
qed

text \<open>
  A quicker user loses the members of a group: when the selection is opened while the members
  of a group are still being loaded, it has the members of the group that was shown before, and
  saving it replaces the ones by the others.
\<close>

theorem early_selection_replaces_members:
  assumes "a \<noteq> b"
  shows "\<exists>s'. run_members [OpenMembers a, ListAnswered a, CloseMembers, OpenMembers b, OpenAdd, SaveMembers,
      SaveAnswered b (set_of (srv a))] (members_start srv) = Some s' \<and> set (server s' b) = set (srv a)"
  by (simp add: members_start_def openMembers_def members_listed_def openAddMembers_def handleSetMembers_def
      members_set_def set_group_members_def Let_def)

text \<open>The same happens to a late list, and a list that failed is taken for an empty group.\<close>

theorem late_list_replaces_members:
  assumes "a \<noteq> b"
  shows "\<exists>s'. run_members [OpenMembers a, CloseMembers, OpenMembers b, ListAnswered b, ListAnswered a, OpenAdd,
      SaveMembers, SaveAnswered b (set_of (srv a))] (members_start srv) = Some s' \<and> set (server s' b) = set (srv a)"
  using assms by (simp add: members_start_def openMembers_def members_listed_def openAddMembers_def
      handleSetMembers_def members_set_def set_group_members_def Let_def)

theorem failed_list_empties_group:
  "\<exists>s'. run_members [OpenMembers g, ListFailed g, OpenAdd, ToggleUser u, SaveMembers, SaveAnswered g [u]]
      (members_start srv) = Some s' \<and> server s' g = [u]"
  by (simp add: members_start_def openMembers_def members_failed_def openAddMembers_def handleSetMembers_def
      members_set_def set_group_members_def Let_def set_of_def set_toggle_def)

theorem membership_edit_exact_witness:
  "\<exists>ids s'. run_members (OpenAdd # map ToggleUser [''u2''] @ [SaveMembers, SaveAnswered ''g'' ids])
      (members_listed ''g'' (openMembers ''g'' (members_start (\<lambda>_. [''u1''])))) = Some s'
    \<and> (\<forall>u. u \<in> set (server s' ''g'') \<longleftrightarrow> (u \<in> {''u1''} \<longleftrightarrow> even (count_list [''u2''] u)))
    \<and> (\<forall>h. h \<noteq> ''g'' \<longrightarrow> server s' h = [''u1''])"
proof -
  let ?srv = "\<lambda>_. [''u1'']" and ?open = "openMembers ''g'' (members_start (\<lambda>_. [''u1'']))"
  have "calm_reach ?srv (act (OpenMembers ''g'') (members_start ?srv))"
    by (rule calm_act [OF calm_start]) (simp_all add: members_start_def idle_def)
  then have open_reached: "calm_reach ?srv ?open" by simp
  have "calm_reach ?srv (act (ListAnswered ''g'') ?open)"
    by (rule calm_act [OF open_reached]) (simp_all add: openMembers_def members_start_def)
  from membership_edit_exact [OF this, of "''g''" "[''u2'']"] show ?thesis
    by (simp add: members_listed_def openMembers_def members_start_def idle_def)
qed

end
