(* ===== verification/Job_Pages.thy ===== *)
theory Job_Pages
  imports Prelude
begin

text \<open>
  The lists of background jobs, \<^verbatim>\<open>pages/admin/SchedulerPage.tsx\<close> and \<^verbatim>\<open>pages/admin/llm/JobsPage.tsx\<close>,
  and the prices, \<^verbatim>\<open>pages/admin/observability/PricingTab.tsx\<close>. Both job pages load with a
  filter, poll while a job is active, and cancel or retry jobs; one list over the type of the
  filter and of the jobs models them. A function of a render keeps the filter of that render,
  so the timer and a running action carry theirs. The columns are not modelled.
\<close>

subsection \<open>Jobs\<close>

datatype job_status = Queued | Running | Succeeded | Failed | Canceled

datatype job_type = ModelDownload | RagIngest

record unified_job =
  j_id :: string
  j_type :: job_type
  j_status :: job_status
  j_label :: string
  j_progress :: int

record download_job =
  d_id :: string
  d_model :: string
  d_status :: job_status

definition scheduler_active :: "unified_job \<Rightarrow> bool" where
  "scheduler_active j = (j_status j = Running \<or> j_status j = Queued)"

definition download_active :: "download_job \<Rightarrow> bool" where
  "download_active j = (d_status j = Running \<or> d_status j = Queued)"

definition isDownload :: "unified_job \<Rightarrow> bool" where
  "isDownload j = (j_type j = ModelDownload)"

definition cancelable :: "unified_job \<Rightarrow> bool" where
  "cancelable j = (isDownload j \<and> (j_status j = Queued \<or> j_status j = Running))"

definition retryable :: "unified_job \<Rightarrow> bool" where
  "retryable j =
     (isDownload j \<and> (j_status j = Queued \<or> j_status j = Failed \<or> j_status j = Canceled))"

definition download_cancelable :: "download_job \<Rightarrow> bool" where
  "download_cancelable j = (d_status j = Queued \<or> d_status j = Running)"

definition download_retryable :: "download_job \<Rightarrow> bool" where
  "download_retryable j = (d_status j = Queued \<or> d_status j = Failed \<or> d_status j = Canceled)"

text \<open>The job that the address of the page points at, by its label.\<close>

definition highlightId :: "string option \<Rightarrow> unified_job list \<Rightarrow> string option" where
  "highlightId highlightLabel js =
     (if \<not> truthy highlightLabel then None
      else map_option j_id (find (\<lambda>j. to_lower (j_label j) = to_lower (the highlightLabel)) js))"

text \<open>What the filters select when the list is asked for: the empty text is no filter.\<close>

definition scheduler_query :: "string \<times> string \<Rightarrow> string option \<times> string option" where
  "scheduler_query f = (let sel = (\<lambda>s. if s \<noteq> [] then Some s else None) in (sel (fst f), sel (snd f)))"

definition jobs_query :: "string \<Rightarrow> string option" where
  "jobs_query f = (if f \<noteq> [] then Some f else None)"

subsection \<open>A polled list\<close>

text \<open>
  \<open>rows_for\<close> is the filter the rows were asked with. It is not a state of the code, and no
  operation reads it.
\<close>

record ('f, 'j) job_list =
  jl_filter :: 'f
  rows :: "'j list"
  rows_for :: 'f
  in_flight :: "'f list"
  actions :: "'f list"
  timer :: "'f option"
  jl_loading :: bool
  jl_error :: "string option"
  jl_alerts :: "string list"

definition mount :: "'f \<Rightarrow> ('f, 'j) job_list" where
  "mount f =
     \<lparr>jl_filter = f, rows = [], rows_for = f, in_flight = [f], actions = [], timer = None,
      jl_loading = True, jl_error = None, jl_alerts = []\<rparr>"

definition load :: "'f \<Rightarrow> ('f, 'j) job_list \<Rightarrow> ('f, 'j) job_list" where
  "load f s = s\<lparr>in_flight := f # in_flight s, jl_loading := True, jl_error := None\<rparr>"

definition set_filter :: "'f \<Rightarrow> ('f, 'j) job_list \<Rightarrow> ('f, 'j) job_list" where
  "set_filter f s = (if f = jl_filter s then s else load f (s\<lparr>jl_filter := f\<rparr>))"

text \<open>The effect on the rows: the old interval is cleared, a new one set if a job is active.\<close>

definition poll_effect :: "('j \<Rightarrow> bool) \<Rightarrow> ('f, 'j) job_list \<Rightarrow> ('f, 'j) job_list" where
  "poll_effect active s = s\<lparr>timer := if list_ex active (rows s) then Some (jl_filter s) else None\<rparr>"

definition loaded :: "('j \<Rightarrow> bool) \<Rightarrow> 'f \<Rightarrow> 'j list \<Rightarrow> ('f, 'j) job_list \<Rightarrow> ('f, 'j) job_list" where
  "loaded active f js s =
     poll_effect active
       (s\<lparr>rows := js, rows_for := f, in_flight := remove1 f (in_flight s), jl_loading := False\<rparr>)"

definition load_failed :: "'f \<Rightarrow> string \<Rightarrow> ('f, 'j) job_list \<Rightarrow> ('f, 'j) job_list" where
  "load_failed f msg s = s\<lparr>in_flight := remove1 f (in_flight s), jl_loading := False, jl_error := Some msg\<rparr>"

definition tick :: "('f, 'j) job_list \<Rightarrow> ('f, 'j) job_list" where
  "tick s = (case timer s of None \<Rightarrow> s | Some f \<Rightarrow> load f s)"

text \<open>\<open>handleCancel\<close> and \<open>handleRetry\<close>: the request of the click, then its answer.\<close>

definition act_sent :: "('f, 'j) job_list \<Rightarrow> ('f, 'j) job_list" where
  "act_sent s = s\<lparr>actions := jl_filter s # actions s\<rparr>"

definition act_done :: "'f \<Rightarrow> ('f, 'j) job_list \<Rightarrow> ('f, 'j) job_list" where
  "act_done f s = load f (s\<lparr>actions := remove1 f (actions s)\<rparr>)"

definition act_failed :: "'f \<Rightarrow> string \<Rightarrow> ('f, 'j) job_list \<Rightarrow> ('f, 'j) job_list" where
  "act_failed f msg s = s\<lparr>actions := remove1 f (actions s), jl_alerts := jl_alerts s @ [msg]\<rparr>"

datatype ('f, 'j) job_event =
    Filter 'f
  | Loaded 'f "'j list"
  | LoadFailed 'f string
  | Tick
  | Act
  | ActDone 'f
  | ActFailed 'f string

fun can :: "('f, 'j) job_event \<Rightarrow> ('f, 'j) job_list \<Rightarrow> bool" where
  "can (Loaded f js) s = (f \<in> set (in_flight s))"
| "can (LoadFailed f msg) s = (f \<in> set (in_flight s))"
| "can Tick s = (timer s \<noteq> None)"
| "can (ActDone f) s = (f \<in> set (actions s))"
| "can (ActFailed f msg) s = (f \<in> set (actions s))"
| "can _ s = True"

fun job_act :: "('j \<Rightarrow> bool) \<Rightarrow> ('f, 'j) job_event \<Rightarrow> ('f, 'j) job_list \<Rightarrow> ('f, 'j) job_list" where
  "job_act active (Filter f) s = set_filter f s"
| "job_act active (Loaded f js) s = loaded active f js s"
| "job_act active (LoadFailed f msg) s = load_failed f msg s"
| "job_act active Tick s = tick s"
| "job_act active Act s = act_sent s"
| "job_act active (ActDone f) s = act_done f s"
| "job_act active (ActFailed f msg) s = act_failed f msg s"

inductive job_reach :: "('j \<Rightarrow> bool) \<Rightarrow> 'f \<Rightarrow> ('f, 'j) job_list \<Rightarrow> bool" for active f0 where
  job_start: "job_reach active f0 (mount f0)"
| job_step: "job_reach active f0 s \<Longrightarrow> can e s \<Longrightarrow> job_reach active f0 (job_act active e s)"

text \<open>A calm run: nothing is asked while something is under way, and no loading fails.\<close>

definition idle :: "('f, 'j) job_list \<Rightarrow> bool" where
  "idle s = (in_flight s = [] \<and> actions s = [])"

fun calm :: "('f, 'j) job_event \<Rightarrow> ('f, 'j) job_list \<Rightarrow> bool" where
  "calm (Filter f) s = idle s"
| "calm Tick s = idle s"
| "calm Act s = idle s"
| "calm (LoadFailed f msg) s = False"
| "calm _ s = True"

inductive calm_jobs :: "('j \<Rightarrow> bool) \<Rightarrow> 'f \<Rightarrow> ('f, 'j) job_list \<Rightarrow> bool" for active f0 where
  calm_job_start: "calm_jobs active f0 (mount f0)"
| calm_job_step: "calm_jobs active f0 s \<Longrightarrow> can e s \<Longrightarrow> calm e s \<Longrightarrow> calm_jobs active f0 (job_act active e s)"

subsection \<open>Prices\<close>

record pricing_entry =
  pe_id :: string
  pe_provider :: string
  pe_model :: string
  pe_active :: bool

record pricing_tab =
  entries :: "pricing_entry list"
  p_error :: "string option"
  historyFor :: "(string \<times> string) option"
  history :: "pricing_entry list"
  historyLoading :: bool
  h_requests :: "(string \<times> string) list"

definition handleShowHistory :: "string \<Rightarrow> string \<Rightarrow> pricing_tab \<Rightarrow> pricing_tab" where
  "handleShowHistory prov mdl p =
     (if historyFor p = Some (prov, mdl) then p\<lparr>historyFor := None\<rparr>
      else p\<lparr>historyFor := Some (prov, mdl), historyLoading := True, h_requests := (prov, mdl) # h_requests p\<rparr>)"

definition history_answered :: "string \<times> string \<Rightarrow> string + pricing_entry list \<Rightarrow> pricing_tab \<Rightarrow> pricing_tab" where
  "history_answered k a p =
     p\<lparr>history := (case a of Inl _ \<Rightarrow> [] | Inr h \<Rightarrow> h), historyLoading := False,
       h_requests := remove1 k (h_requests p)\<rparr>"

text \<open>Deactivating a price, the answer of the request and of the loading after it.\<close>

definition prices_loaded :: "string + pricing_entry list \<Rightarrow> pricing_tab \<Rightarrow> pricing_tab" where
  "prices_loaded a p =
     (case a of Inl msg \<Rightarrow> p\<lparr>p_error := Some msg\<rparr> | Inr es \<Rightarrow> p\<lparr>p_error := None, entries := es\<rparr>)"

definition price_deleted :: "string option \<Rightarrow> string + pricing_entry list \<Rightarrow> pricing_tab \<Rightarrow> pricing_tab" where
  "price_deleted failure a p =
     (case failure of Some msg \<Rightarrow> p\<lparr>p_error := Some msg\<rparr> | None \<Rightarrow> prices_loaded a p)"

subsection \<open>Properties\<close>

text \<open>A job that is settled offers no cancellation, one that succeeded nothing at all, and every
  other download can be cancelled or retried.\<close>

theorem job_actions_offered:
  "(cancelable j \<le> scheduler_active j) \<and> (j_status j = Succeeded) \<le> (\<not> cancelable j \<and> \<not> retryable j)
   \<and> (isDownload j \<and> j_status j \<noteq> Succeeded) \<le> (cancelable j \<or> retryable j)"
  by (cases "j_status j") (auto simp: cancelable_def retryable_def scheduler_active_def)

text \<open>In every run the page polls exactly while it shows an active job.\<close>

theorem polls_while_active:
  "job_reach active f0 s \<Longrightarrow> timer s \<noteq> None \<longleftrightarrow> list_ex active (rows s)"
proof (induction rule: job_reach.induct)
  case (job_step s e)
  then show ?case
    by (cases e) (auto simp: set_filter_def load_def loaded_def poll_effect_def load_failed_def tick_def
      act_sent_def act_done_def act_failed_def split: option.split)
qed (simp add: mount_def)

definition jobs_ok :: "('f, 'j) job_list \<Rightarrow> bool" where
  "jobs_ok s =
     (length (in_flight s) + length (actions s) \<le> 1
      \<and> set (in_flight s) \<union> set (actions s) \<subseteq> {jl_filter s}
      \<and> (in_flight s = [] \<longrightarrow> rows_for s = jl_filter s \<and> (timer s = None \<or> timer s = Some (jl_filter s))))"

lemma jobs_ok_act: "jobs_ok s \<Longrightarrow> can e s \<Longrightarrow> calm e s \<Longrightarrow> jobs_ok (job_act active e s)"
  by (cases e; cases "in_flight s"; cases "actions s")
    (auto simp: jobs_ok_def idle_def set_filter_def load_def loaded_def poll_effect_def tick_def
      act_sent_def act_done_def act_failed_def)

text \<open>In a calm run the rows shown are those of the filter that is set.\<close>

theorem calm_rows_current:
  assumes "calm_jobs active f0 s" "in_flight s = []"
  shows "rows_for s = jl_filter s"
proof -
  from assms(1) have "jobs_ok s"
  proof (induction rule: calm_jobs.induct)
    case (calm_job_step s e)
    then show ?case by (simp add: jobs_ok_act)
  qed (simp add: jobs_ok_def mount_def)
  with assms(2) show ?thesis by (simp add: jobs_ok_def)
qed

text \<open>
  When loading with a new filter fails, the timer set before goes on with the old filter, and
  its next answer replaces the message by the rows of the old filter under the new one.
\<close>

theorem failed_filter_polls_old:
  fixes msg :: string
  assumes "f \<noteq> g" "list_ex active js" "list_ex active js'"
  defines "s \<equiv> loaded active g js' (tick (load_failed f msg (set_filter f (loaded active g js (mount g)))))"
  shows "job_reach active g s" "jl_filter s = f" "rows_for s = g" "rows s = js'" "jl_error s = None"
proof -
  have "job_reach active g (job_act active (Loaded g js) (mount g))"
    by (rule job_step [OF job_start]) (simp add: mount_def)
  then have "job_reach active g (job_act active (Filter f) (loaded active g js (mount g)))"
    by (intro job_step) simp_all
  then have "job_reach active g (job_act active (LoadFailed f msg) (set_filter f (loaded active g js (mount g))))"
    using assms(1) by (intro job_step) (simp_all add: set_filter_def loaded_def poll_effect_def mount_def load_def)
  then have "job_reach active g
      (job_act active Tick (load_failed f msg (set_filter f (loaded active g js (mount g)))))"
    using assms(1,2) by (intro job_step)
      (simp_all add: set_filter_def loaded_def poll_effect_def mount_def load_def load_failed_def)
  then have "job_reach active g (job_act active (Loaded g js')
      (tick (load_failed f msg (set_filter f (loaded active g js (mount g))))))"
    using assms(1,2) by (intro job_step)
      (simp_all add: set_filter_def loaded_def poll_effect_def mount_def load_def load_failed_def tick_def)
  then show "job_reach active g s" by (simp add: s_def)
qed (use assms(1,2) in \<open>simp_all add: s_def set_filter_def loaded_def poll_effect_def mount_def load_def
    load_failed_def tick_def\<close>)

text \<open>A late history is shown for the model that was opened last.\<close>

theorem late_history_shown:
  fixes h1 h2 :: "pricing_entry list" and p :: pricing_tab
  assumes "(p1, m1) \<noteq> (p2, m2)" "historyFor p = None"
  defines "q \<equiv> history_answered (p1, m1) (Inr h1)
    (history_answered (p2, m2) (Inr h2) (handleShowHistory p2 m2 (handleShowHistory p1 m1 p)))"
  shows "historyFor q = Some (p2, m2)" "history q = h1" "\<not> historyLoading q"
  using assms by (auto simp: history_answered_def handleShowHistory_def)

text \<open>The highlighted job has the label of the address, and is the first one with it.\<close>

theorem highlight_first:
  "highlightId lbl js = Some i \<Longrightarrow>
   \<exists>a j b. js = a @ j # b \<and> j_id j = i \<and> to_lower (j_label j) = to_lower (the lbl)
     \<and> list_all (\<lambda>k. to_lower (j_label k) \<noteq> to_lower (the lbl)) a"
  by (auto simp: highlightId_def split: if_splits dest!: find_split)

end
