(* ===== verification/Module_Choice.thy ===== *)
theory Module_Choice
  imports Admin_Layout "HOL-Library.AList"
begin

text \<open>
  The choice of a profile and its modules: \<^verbatim>\<open>components/ProfileSelectionDialog.tsx\<close> and
  \<^verbatim>\<open>components/ModuleRecommendationDialog.tsx\<close>, between the manifest of \<open>Services\<close> and the
  requests of \<open>Admin_Layout.handleModuleApply\<close>. The server is the set of its enabled modules; a
  request that fails is ignored by the code and changes nothing.
\<close>

subsection \<open>Profiles\<close>

datatype profile = Private | Team | Enterprise

fun profile_id :: "profile \<Rightarrow> string" where
  "profile_id Private = ''private''"
| "profile_id Team = ''team''"
| "profile_id Enterprise = ''enterprise''"

definition PROFILES :: "profile list" where
  "PROFILES = [Private, Team, Enterprise]"

text \<open>The button Continue of the first dialog.\<close>

definition handleContinue :: "profile option \<Rightarrow> onboarding \<Rightarrow> onboarding \<times> onb_request list" where
  "handleContinue selected ob =
     (case selected of None \<Rightarrow> (ob, []) | Some p \<Rightarrow> handleProfileSelect (profile_id p) ob)"

subsection \<open>Recommended modules\<close>

datatype recommendation = ByDefault | Optional

fun PROFILE_MODULES :: "profile \<Rightarrow> (string \<times> recommendation) list" where
  "PROFILE_MODULES Private =
     [(''pii'', ByDefault), (''rag_lite'', Optional), (''mcp'', Optional), (''skills'', Optional),
      (''auth'', Optional)]"
| "PROFILE_MODULES Team =
     [(''pii'', ByDefault), (''rag_lite'', ByDefault), (''mcp'', Optional), (''skills'', Optional),
      (''auth'', Optional)]"
| "PROFILE_MODULES Enterprise =
     [(''pii'', ByDefault), (''rag_lite'', ByDefault), (''mcp'', ByDefault), (''skills'', ByDefault),
      (''auth'', ByDefault)]"

definition MODULE_LABELS :: "(string \<times> string \<times> string) list" where
  "MODULE_LABELS =
     [(''pii'', ''module_recommend.module_pii'', ''PII Guard''),
      (''rag_lite'', ''module_recommend.module_rag_lite'', ''RAG Lite''),
      (''mcp'', ''module_recommend.module_mcp'', ''MCP Registry''),
      (''skills'', ''module_recommend.module_skills'', ''Skills Registry''),
      (''auth'', ''module_recommend.module_auth'', ''Auth Providers (SSO)'')]"

type_synonym toggles = "(string \<times> bool) list"

text \<open>The effect on the profile and on opening.\<close>

definition initial_toggles :: "services_ctx \<Rightarrow> profile \<Rightarrow> toggles" where
  "initial_toggles c p =
     map (\<lambda>(name, rec). (name, rec = ByDefault \<or> isModuleEnabled c name)) (PROFILE_MODULES p)"

definition checked :: "toggles \<Rightarrow> string \<Rightarrow> bool" where
  "checked ts name = (case map_of ts name of None \<Rightarrow> False | Some b \<Rightarrow> b)"

definition handleToggle :: "string \<Rightarrow> toggles \<Rightarrow> toggles" where
  "handleToggle name ts = AList.update name (\<not> checked ts name) ts"

definition handleApply :: "toggles \<Rightarrow> onb_request list" where
  "handleApply ts = handleModuleApply ts"

text \<open>What the requests do to the server, \<open>ok\<close> telling which of them succeed.\<close>

definition serve :: "(onb_request \<Rightarrow> bool) \<Rightarrow> onb_request list \<Rightarrow> (string \<Rightarrow> bool) \<Rightarrow> string \<Rightarrow> bool" where
  "serve ok reqs enabled =
     fold (\<lambda>r m. if \<not> ok r then m
                  else case r of EnableModule n \<Rightarrow> m(n := True) | DisableModule n \<Rightarrow> m(n := False) | _ \<Rightarrow> m)
       reqs enabled"

subsection \<open>Lemmas\<close>

interpretation module_toggle: toggling handleToggle "\<lambda>n ts. checked ts n"
  by unfold_locales (auto simp: handleToggle_def checked_def update_conv')

lemma toggles_keys: "name \<in> fst ` set ts \<Longrightarrow> map fst (handleToggle name ts) = map fst ts"
  by (auto simp: handleToggle_def update_keys map_of_eq_None_iff)

lemma fold_toggles_keys:
  "set clicks \<subseteq> fst ` set ts \<Longrightarrow> map fst (fold handleToggle clicks ts) = map fst ts"
proof (induction clicks arbitrary: ts)
  case (Cons n clicks)
  have "set (map fst (handleToggle n ts)) = set (map fst ts)"
    using Cons.prems by (simp add: toggles_keys)
  then have "fst ` set (handleToggle n ts) = fst ` set ts" by simp
  with Cons show ?case by (simp add: toggles_keys)
qed simp

lemma module_names: "map fst (initial_toggles c p) = map fst (PROFILE_MODULES p)"
  by (simp add: initial_toggles_def comp_def split_beta)

lemma profile_modules_distinct: "distinct (map fst (PROFILE_MODULES p))"
  by (cases p) simp_all

lemma serve_apply:
  "distinct (map fst ts) \<Longrightarrow>
   serve ok (handleModuleApply ts) enabled n =
     (case map_of ts n of
        None \<Rightarrow> enabled n
      | Some b \<Rightarrow> if ok (if b then EnableModule n else DisableModule n) then b else enabled n)"
proof (induction ts arbitrary: enabled)
  case (Cons e ts)
  obtain m b where e: "e = (m, b)" by (cases e)
  have "map_of ts m = None" using Cons.prems e by (simp add: map_of_eq_None_iff)
  with Cons e show ?case
    by (auto simp: serve_def handleModuleApply_def split: option.split)
qed (simp add: serve_def handleModuleApply_def)

lemma initial_checked:
  "checked (initial_toggles c p) n =
     (case map_of (PROFILE_MODULES p) n of None \<Rightarrow> False | Some r \<Rightarrow> r = ByDefault \<or> isModuleEnabled c n)"
proof -
  have "map_of (map (\<lambda>(name, rec). (name, rec = ByDefault \<or> isModuleEnabled c name)) ps) n =
      map_option (\<lambda>r. r = ByDefault \<or> isModuleEnabled c n) (map_of ps n)" for ps
    by (induction ps) auto
  then show ?thesis by (simp add: checked_def initial_toggles_def split: option.split)
qed

subsection \<open>Properties\<close>

text \<open>Every module offered has a label, and every profile offers the same modules.\<close>

theorem offered_modules_labelled:
  "map fst (PROFILE_MODULES p) = map fst MODULE_LABELS"
  by (cases p) (simp_all add: MODULE_LABELS_def)

text \<open>A larger profile recommends at least what a smaller one does.\<close>

theorem profiles_grow:
  "list_all (\<lambda>n. (map_of (PROFILE_MODULES Private) n = Some ByDefault) \<le> (map_of (PROFILE_MODULES Team) n = Some ByDefault)
     \<and> (map_of (PROFILE_MODULES Team) n = Some ByDefault) \<le> (map_of (PROFILE_MODULES Enterprise) n = Some ByDefault))
   (map fst MODULE_LABELS)"
  by (simp add: MODULE_LABELS_def)

text \<open>
  What is applied: after any clicks on the boxes a module of the profile is enabled exactly
  when its box is checked, that is when the recommendation or the manifest said so and the
  number of clicks is even, or neither and it is odd; all other modules are left alone, and
  so is a module whose request fails.
\<close>

definition final_modules ::
  "(onb_request \<Rightarrow> bool) \<Rightarrow> services_ctx \<Rightarrow> profile \<Rightarrow> string list \<Rightarrow> (string \<Rightarrow> bool) \<Rightarrow> string \<Rightarrow> bool" where
  "final_modules ok c p clicks enabled =
     serve ok (handleApply (fold handleToggle clicks (initial_toggles c p))) enabled"

theorem applied_modules:
  assumes "set clicks \<subseteq> fst ` set (PROFILE_MODULES p)"
  shows "final_modules ok c p clicks enabled n =
    (case map_of (PROFILE_MODULES p) n of
       None \<Rightarrow> enabled n
     | Some r \<Rightarrow>
         let want = ((r = ByDefault \<or> isModuleEnabled c n) \<longleftrightarrow> even (count_list clicks n))
         in if ok (if want then EnableModule n else DisableModule n) then want else enabled n)"
proof -
  let ?ts = "fold handleToggle clicks (initial_toggles c p)"
  have "set (map fst (initial_toggles c p)) = set (map fst (PROFILE_MODULES p))"
    by (simp only: module_names)
  with assms have "set clicks \<subseteq> fst ` set (initial_toggles c p)" by simp
  then have keys: "map fst ?ts = map fst (PROFILE_MODULES p)"
    by (simp add: fold_toggles_keys module_names)
  then have dist: "distinct (map fst ?ts)" using profile_modules_distinct by simp
  have None: "map_of ?ts n = None \<longleftrightarrow> map_of (PROFILE_MODULES p) n = None"
    using keys by (metis map_of_eq_None_iff set_map)
  have want: "checked ?ts n \<longleftrightarrow> (checked (initial_toggles c p) n \<longleftrightarrow> even (count_list clicks n))"
    by (rule module_toggle.toggle_fold)
  show ?thesis
  proof (cases "map_of (PROFILE_MODULES p) n")
    case None
    then show ?thesis
      using \<open>map_of ?ts n = None \<longleftrightarrow> _\<close> by (simp add: final_modules_def handleApply_def serve_apply [OF dist])
  next
    case (Some r)
    then obtain b where b: "map_of ?ts n = Some b" using None by auto
    with want Some have "b = ((r = ByDefault \<or> isModuleEnabled c n) \<longleftrightarrow> even (count_list clicks n))"
      by (simp add: checked_def [of ?ts] initial_checked)
    with b Some show ?thesis
      by (simp add: final_modules_def handleApply_def serve_apply [OF dist] Let_def)
  qed
qed

text \<open>
  With a manifest that is current, applying the recommendation as it is disables nothing.
\<close>

theorem recommendation_disables_nothing:
  assumes "\<And>m. isModuleEnabled c m = enabled m" and "enabled n"
  shows "final_modules ok c p [] enabled n"
  using assms by (simp add: applied_modules Let_def split: option.split)

text \<open>
  With a manifest that was not loaded, it disables every optional module that is running.
\<close>

theorem unloaded_manifest_disables:
  assumes "services c = []" and "map_of (PROFILE_MODULES p) n = Some Optional" and "ok (DisableModule n)"
  shows "\<not> final_modules ok c p [] enabled n"
proof -
  have "\<not> isModuleEnabled c n"
    using assms(1) by (simp add: isModuleEnabled_def getModule_def svc_enabled_def)
  with assms(2,3) show ?thesis by (simp add: applied_modules Let_def)
qed

text \<open>The chosen profile is stored and leads to the modules; without a choice nothing happens.\<close>

theorem continue_stores_profile:
  "handleContinue (Some p) ob = (ob', reqs) \<Longrightarrow>
   reqs = [UpdateProfile (profile_id p)] \<and> selectedProfile ob' = profile_id p \<and> profileConfirmed ob'
   \<and> \<not> showProfileSelect ob' \<and> showModuleRecommend (profile_saved ob')"
  by (auto simp: handleContinue_def handleProfileSelect_def profile_saved_def)

end
