(* ===== verification/Node_Page.thy ===== *)
theory Node_Page
  imports Prelude Complex_Main
begin

text \<open>
  The page of a node, \<^verbatim>\<open>pages/admin/nodes/NodeDetailPage.tsx\<close>: its commands and the timeline of the
  last deployment, the lines of its logs, the actions with the lock of their buttons, profile
  and enrolment token. \<open>t_of\<close>, the time of a text in milliseconds, is an argument (\<open>None\<close> when it
  is not a time). Shares are exact rationals. The charts, the tables and the update dialog (\<open>System_Update\<close>) are not
  modelled here.
\<close>

subsection \<open>Commands\<close>

record node_command =
  nc_id :: string
  nc_type :: string
  nc_status :: string
  issued_at :: string

text \<open>Newest first; the times of the commands are times.\<close>

definition newer :: "(string \<Rightarrow> int) \<Rightarrow> node_command \<Rightarrow> node_command \<Rightarrow> bool" where
  "newer t_of a b = (t_of (issued_at b) \<le> t_of (issued_at a))"

definition sortedCommands :: "(string \<Rightarrow> int) \<Rightarrow> node_command list \<Rightarrow> node_command list" where
  "sortedCommands t_of cmds = sort_by (newer t_of) cmds"

definition deployCmds :: "(string \<Rightarrow> int) \<Rightarrow> node_command list \<Rightarrow> node_command list" where
  "deployCmds t_of cmds = sort_by (newer t_of) (filter (\<lambda>c. nc_type c = ''deploy_workload'') cmds)"

subsection \<open>Logs\<close>

record log_line =
  ll_ts :: string
  ll_line :: string
  ll_ms :: int
  ll_container :: string

record log_stream =
  ls_container :: "string option"
  ls_entries :: "(string \<times> string) list"

definition line_ms :: "(string \<Rightarrow> int option) \<Rightarrow> string \<Rightarrow> int" where
  "line_ms t_of ts = (case t_of ts of None \<Rightarrow> 0 | Some t \<Rightarrow> t)"

definition stream_lines :: "(string \<Rightarrow> int option) \<Rightarrow> log_stream \<Rightarrow> log_line list" where
  "stream_lines t_of st =
     map (\<lambda>(ts, l). \<lparr>ll_ts = ts, ll_line = l, ll_ms = line_ms t_of ts,
            ll_container = (case ls_container st of None \<Rightarrow> [] | Some c \<Rightarrow> c)\<rparr>) (ls_entries st)"

definition flatLogs :: "(string \<Rightarrow> int option) \<Rightarrow> log_stream list \<Rightarrow> log_line list" where
  "flatLogs t_of sts = take 100 (sort_by (\<lambda>a b. ll_ms b \<le> ll_ms a) (concat (map (stream_lines t_of) sts)))"

definition flatContainerLogs :: "(string \<Rightarrow> int option) \<Rightarrow> log_stream list \<Rightarrow> log_line list" where
  "flatContainerLogs t_of sts =
     (let s = sort_by (\<lambda>a b. ll_ms a \<le> ll_ms b) (concat (map (stream_lines t_of) sts))
      in drop (length s - 200) s)"

definition host_query :: "string \<Rightarrow> string" where
  "host_query host = ''{host='' @ [CHR 0x22] @ host @ [CHR 0x22] @ ''}''"

definition container_query :: "string \<Rightarrow> string" where
  "container_query host =
     ''{job='' @ [CHR 0x22] @ ''node-container'' @ [CHR 0x22] @ '', host='' @ [CHR 0x22] @ host @ [CHR 0x22] @ ''}''"

subsection \<open>Graphics memory\<close>

record gpu_info =
  gpu_count :: "nat option"
  total_vram :: "rat option"
  used_vram :: "rat option"
  gpu_devices :: nat

definition gpuVramPct :: "gpu_info option \<Rightarrow> rat option" where
  "gpuVramPct gpu =
     (case gpu of None \<Rightarrow> None
      | Some g \<Rightarrow>
          (case total_vram g of None \<Rightarrow> None
           | Some t \<Rightarrow>
               if t > 0 then Some ((case used_vram g of None \<Rightarrow> 0 | Some u \<Rightarrow> u) / t * 100) else None))"

definition hasGpu :: "nat option \<Rightarrow> gpu_info option \<Rightarrow> bool" where
  "hasGpu inv_count gpu =
     ((case inv_count of Some n \<Rightarrow> n
       | None \<Rightarrow> (case gpu of None \<Rightarrow> 0 | Some g \<Rightarrow> (case gpu_count g of None \<Rightarrow> 0 | Some n \<Rightarrow> n))) > 0
      \<and> (gpuVramPct gpu \<noteq> None \<or> (case gpu of None \<Rightarrow> False | Some g \<Rightarrow> gpu_devices g > 0)))"

subsection \<open>The page\<close>

record managed_node =
  mn_id :: string
  mn_host :: string
  maintenance_mode :: bool
  draining :: bool
  mn_profile :: "string option"

record node_page =
  node :: "managed_node option"
  commands :: "node_command list"
  timeline :: "string option"
  deployTimeline :: "string option"
  np_loading :: bool
  busyKey :: "string option"
  np_error :: "string option"
  enrollToken :: "string option"
  enrollBusy :: bool
  enrollCopied :: bool
  profileBusy :: bool
  running :: "string list"

text \<open>\<open>running\<close> holds the keys of the actions under way; no operation of the code reads it.\<close>

definition load_sent :: "node_page \<Rightarrow> node_page" where
  "load_sent p = p\<lparr>np_loading := True, np_error := None\<rparr>"

definition load_answered :: "string + (managed_node \<times> node_command list) \<Rightarrow> node_page \<Rightarrow> node_page" where
  "load_answered a p =
     (case a of
        Inl msg \<Rightarrow> p\<lparr>np_error := Some msg\<rparr>
      | Inr (n, cs) \<Rightarrow> p\<lparr>node := Some n, commands := cs\<rparr>)\<lparr>np_loading := False\<rparr>"

definition silentRefresh :: "string + managed_node \<Rightarrow> node_page \<Rightarrow> node_page" where
  "silentRefresh a p = (case a of Inl _ \<Rightarrow> p | Inr n \<Rightarrow> p\<lparr>node := Some n\<rparr>)"

text \<open>The timeline of the last deployment: the command asked for, and the answer.\<close>

definition loadDeployTimeline ::
  "(string \<Rightarrow> int) \<Rightarrow> (string \<Rightarrow> string + string) \<Rightarrow> node_page \<Rightarrow> node_page" where
  "loadDeployTimeline t_of ask p =
     (case deployCmds t_of (commands p) of
        [] \<Rightarrow> p\<lparr>deployTimeline := None\<rparr>
      | c # _ \<Rightarrow> (case ask (nc_id c) of Inl _ \<Rightarrow> p | Inr tm \<Rightarrow> p\<lparr>deployTimeline := Some tm\<rparr>))"

text \<open>The effect on the commands: without commands the timeline is not touched.\<close>

definition commands_effect ::
  "(string \<Rightarrow> int) \<Rightarrow> (string \<Rightarrow> string + string) \<Rightarrow> node_page \<Rightarrow> node_page" where
  "commands_effect t_of ask p = (if length (commands p) > 0 then loadDeployTimeline t_of ask p else p)"

definition runAction :: "string \<Rightarrow> node_page \<Rightarrow> node_page" where
  "runAction key p = p\<lparr>busyKey := Some key, running := key # running p\<rparr>"

definition action_done :: "string \<Rightarrow> string + (managed_node \<times> node_command list) \<Rightarrow> node_page \<Rightarrow> node_page" where
  "action_done key a p =
     (load_answered a (load_sent p))\<lparr>busyKey := None, running := remove1 key (running p)\<rparr>"

definition action_failed :: "string \<Rightarrow> string \<Rightarrow> node_page \<Rightarrow> node_page" where
  "action_failed key msg p = p\<lparr>np_error := Some msg, busyKey := None, running := remove1 key (running p)\<rparr>"

definition button_enabled :: "string \<Rightarrow> node_page \<Rightarrow> bool" where
  "button_enabled key p = (busyKey p \<noteq> Some key)"

definition timeline_key :: "string \<Rightarrow> string" where
  "timeline_key commandId = ''timeline:'' @ commandId"

definition loadTimeline :: "string \<Rightarrow> string + string \<Rightarrow> node_page \<Rightarrow> node_page" where
  "loadTimeline commandId a p =
     (case a of Inl msg \<Rightarrow> p\<lparr>np_error := Some msg\<rparr> | Inr tm \<Rightarrow> p\<lparr>timeline := Some tm\<rparr>)\<lparr>busyKey := None\<rparr>"

definition generateEnrollToken :: "string + string \<Rightarrow> node_page \<Rightarrow> node_page" where
  "generateEnrollToken a p =
     (case a of
        Inl msg \<Rightarrow> p\<lparr>enrollCopied := False, np_error := Some msg\<rparr>
      | Inr tok \<Rightarrow> p\<lparr>enrollCopied := False, enrollToken := Some tok\<rparr>)\<lparr>enrollBusy := False\<rparr>"

definition copyEnrollToken :: "bool \<Rightarrow> node_page \<Rightarrow> node_page" where
  "copyEnrollToken ok p =
     (if enrollToken p = None then p
      else if ok then p\<lparr>enrollCopied := True\<rparr>
      else p\<lparr>np_error := Some ''Failed to copy token to clipboard.''\<rparr>)"

datatype profile_request = AssignProfile string | UnassignProfile

definition handleProfileChange :: "string \<Rightarrow> profile_request" where
  "handleProfileChange profileId = (if profileId = [] then UnassignProfile else AssignProfile profileId)"

definition profile_changed :: "string option \<Rightarrow> string + managed_node \<Rightarrow> node_page \<Rightarrow> node_page" where
  "profile_changed failure refreshed p =
     (case failure of Some msg \<Rightarrow> p\<lparr>np_error := Some msg\<rparr> | None \<Rightarrow> silentRefresh refreshed p)\<lparr>profileBusy := False\<rparr>"

text \<open>What the two switches send: the opposite of what is shown.\<close>

definition switch_maintenance :: "node_page \<Rightarrow> bool option" where
  "switch_maintenance p = map_option (\<lambda>n. \<not> maintenance_mode n) (node p)"

definition switch_drain :: "node_page \<Rightarrow> bool option" where
  "switch_drain p = map_option (\<lambda>n. \<not> draining n) (node p)"

subsection \<open>Lemmas\<close>

lemma newer_total: "newer t_of a b \<or> newer t_of b a"
  by (auto simp: newer_def)

lemma newer_trans: "newer t_of a b \<Longrightarrow> newer t_of b c \<Longrightarrow> newer t_of a c"
  by (auto simp: newer_def)

lemma cut_sorted:
  assumes "sorted_wrt le xs"
  shows "\<exists>rest. mset (take n xs) + mset rest = mset xs \<and> (\<forall>x \<in> set (take n xs). \<forall>y \<in> set rest. le x y)"
    and "\<exists>rest. mset (drop n xs) + mset rest = mset xs \<and> (\<forall>x \<in> set (drop n xs). \<forall>y \<in> set rest. le y x)"
proof -
  have parts: "mset (take n xs) + mset (drop n xs) = mset xs"
    by (metis append_take_drop_id mset_append)
  have "sorted_wrt le (take n xs @ drop n xs)" using assms by simp
  then have le: "\<forall>x \<in> set (take n xs). \<forall>y \<in> set (drop n xs). le x y"
    unfolding sorted_wrt_append by blast
  show "\<exists>rest. mset (take n xs) + mset rest = mset xs \<and> (\<forall>x \<in> set (take n xs). \<forall>y \<in> set rest. le x y)"
    by (rule exI [of _ "drop n xs"]) (use parts le in simp)
  show "\<exists>rest. mset (drop n xs) + mset rest = mset xs \<and> (\<forall>x \<in> set (drop n xs). \<forall>y \<in> set rest. le y x)"
    by (rule exI [of _ "take n xs"]) (use parts le in \<open>simp add: add.commute\<close>)
qed

lemma length_sort_by [simp]: "length (sort_by le xs) = length xs"
  by (metis mset_sort_by size_mset)

subsection \<open>Properties\<close>

text \<open>
  The timeline of the last deployment is asked for a deployment of the node, and no deployment
  is newer; without one it is cleared.
\<close>

theorem last_deployment:
  "case deployCmds t_of cs of
     [] \<Rightarrow> (\<forall>c \<in> set cs. nc_type c \<noteq> ''deploy_workload'')
   | c # _ \<Rightarrow> c \<in> set cs \<and> nc_type c = ''deploy_workload''
       \<and> (\<forall>d \<in> set cs. nc_type d = ''deploy_workload'' \<longrightarrow> newer t_of c d)"
proof -
  have s: "c \<in> set (deployCmds t_of cs) \<longleftrightarrow> c \<in> set cs \<and> nc_type c = ''deploy_workload''" for c
    by (simp add: deployCmds_def)
  have sorted: "sorted_wrt (newer t_of) (deployCmds t_of cs)"
    unfolding deployCmds_def by (rule sorted_sort_by) (fact newer_total, fact newer_trans)
  show ?thesis
  proof (cases "deployCmds t_of cs")
    case Nil
    with s show ?thesis by auto
  next
    case (Cons c ds)
    have "newer t_of c d" if "d \<in> set (deployCmds t_of cs)" for d
      using that sorted Cons newer_total [of t_of c c] by auto
    moreover have "c \<in> set cs \<and> nc_type c = ''deploy_workload''" using s [of c] Cons by simp
    ultimately show ?thesis using s Cons by simp
  qed
qed

text \<open>
  Both panels show the newest lines: the first hundred of the node, newest first, and the last
  two hundred of its containers, oldest first; no line left out is newer than one shown, and
  none is shown twice.
\<close>

theorem newest_lines_shown:
  "length (flatLogs t_of sts) = min 100 (length (concat (map (stream_lines t_of) sts)))
   \<and> (\<exists>rest. mset (flatLogs t_of sts) + mset rest = mset (concat (map (stream_lines t_of) sts))
        \<and> (\<forall>x \<in> set (flatLogs t_of sts). \<forall>y \<in> set rest. ll_ms y \<le> ll_ms x))
   \<and> sorted_wrt (\<lambda>a b. ll_ms b \<le> ll_ms a) (flatLogs t_of sts)"
proof -
  let ?s = "sort_by (\<lambda>a b. ll_ms b \<le> ll_ms a) (concat (map (stream_lines t_of) sts))"
  have sorted: "sorted_wrt (\<lambda>a b. ll_ms b \<le> ll_ms a) ?s" by (rule sorted_sort_by) auto
  have "length (flatLogs t_of sts) = min 100 (length (concat (map (stream_lines t_of) sts)))"
    unfolding flatLogs_def by (simp only: length_take length_sort_by min.commute)
  then show ?thesis
    using cut_sorted(1) [OF sorted, of 100] sorted_wrt_take [OF sorted, of 100]
    unfolding flatLogs_def mset_sort_by by blast
qed

theorem newest_container_lines_shown:
  "length (flatContainerLogs t_of sts) = min 200 (length (concat (map (stream_lines t_of) sts)))
   \<and> (\<exists>rest. mset (flatContainerLogs t_of sts) + mset rest = mset (concat (map (stream_lines t_of) sts))
        \<and> (\<forall>x \<in> set (flatContainerLogs t_of sts). \<forall>y \<in> set rest. ll_ms y \<le> ll_ms x))
   \<and> sorted_wrt (\<lambda>a b. ll_ms a \<le> ll_ms b) (flatContainerLogs t_of sts)"
proof -
  let ?s = "sort_by (\<lambda>a b. ll_ms a \<le> ll_ms b) (concat (map (stream_lines t_of) sts))"
  have sorted: "sorted_wrt (\<lambda>a b. ll_ms a \<le> ll_ms b) ?s" by (rule sorted_sort_by) auto
  have "length (flatContainerLogs t_of sts) = min 200 (length (concat (map (stream_lines t_of) sts)))"
    unfolding flatContainerLogs_def Let_def by (simp only: length_drop length_sort_by)
  then show ?thesis
    using cut_sorted(2) [OF sorted, of "length ?s - 200"] sorted_wrt_drop [OF sorted, of "length ?s - 200"]
    unfolding flatContainerLogs_def Let_def mset_sort_by by blast
qed

text \<open>A button is locked while its action is the only one under way.\<close>

inductive action_reach :: "node_page \<Rightarrow> node_page \<Rightarrow> bool" for p0 where
  action_start: "running p0 = [] \<Longrightarrow> busyKey p0 = None \<Longrightarrow> action_reach p0 p0"
| action_sent: "action_reach p0 p \<Longrightarrow> button_enabled key p \<Longrightarrow> action_reach p0 (runAction key p)"
| action_ok: "action_reach p0 p \<Longrightarrow> key \<in> set (running p) \<Longrightarrow> action_reach p0 (action_done key a p)"
| action_err: "action_reach p0 p \<Longrightarrow> key \<in> set (running p) \<Longrightarrow> action_reach p0 (action_failed key msg p)"

lemma load_keeps [simp]:
  "running (load_answered a (load_sent p)) = running p"
  "busyKey (load_answered a (load_sent p)) = busyKey p"
  by (auto simp: load_answered_def load_sent_def split: sum.split prod.split)

theorem busy_button_runs:
  "action_reach p0 p \<Longrightarrow> busyKey p = Some key \<Longrightarrow> key \<in> set (running p)"
  by (induction rule: action_reach.induct) (auto simp: runAction_def action_done_def action_failed_def)

text \<open>
  But a second action frees the button of the first while that is still under way, so the
  same action can be sent twice.
\<close>

theorem second_action_frees_first:
  assumes "running p = []" "busyKey p = None" "k1 \<noteq> k2"
  shows "action_reach p (runAction k1 (runAction k2 (runAction k1 p)))
    \<and> running (runAction k1 (runAction k2 (runAction k1 p))) = [k1, k2, k1]"
proof -
  have "action_reach p p" using assms(1,2) by (rule action_start)
  then have "action_reach p (runAction k1 p)"
    by (rule action_sent) (use assms(2) in \<open>simp add: button_enabled_def\<close>)
  then have "action_reach p (runAction k2 (runAction k1 p))"
    by (rule action_sent) (use assms(3) in \<open>simp add: button_enabled_def runAction_def\<close>)
  then have "action_reach p (runAction k1 (runAction k2 (runAction k1 p)))"
    by (rule action_sent) (use assms(3) in \<open>simp add: button_enabled_def runAction_def\<close>)
  with assms(1) show ?thesis by (simp add: runAction_def)
qed

text \<open>A failed action is reported and keeps what is shown.\<close>

theorem failed_action_reported:
  "np_error (action_failed key msg p) = Some msg \<and> node (action_failed key msg p) = node p
   \<and> commands (action_failed key msg p) = commands p \<and> busyKey (action_failed key msg p) = None"
  by (simp add: action_failed_def)

text \<open>Graphics memory is a share in percent when the numbers are sensible.\<close>

theorem vram_share:
  assumes "gpuVramPct (Some g) = Some x" "used_vram g = Some u" "0 \<le> u" "total_vram g = Some t" "u \<le> t"
  shows "0 \<le> x \<and> x \<le> 100"
proof -
  from assms have "0 < t" "x = u / t * 100" by (auto simp: gpuVramPct_def split: if_splits)
  with assms(3,5) show ?thesis by (simp add: divide_le_eq)
qed

end
