(* ===== verification/Mcp_Servers.thy ===== *)
theory Mcp_Servers
  imports Vllm_Args "HOL-Library.AList"
begin

text \<open>
  The tool servers: \<^verbatim>\<open>pages/admin/mcp/MCPServersPage.tsx\<close> with registration and the scan of a
  host, and the settings of a server, \<^verbatim>\<open>pages/admin/mcp/MCPSettingsPanel.tsx\<close>. Names are read as
  ASCII. \<open>parse_int\<close> and \<open>parse_float\<close>, the number at the start of a text if there is one, are
  arguments, and the numbers read are integers. The table, the page of a single server, the timer of
  the message after a save and the JSX are not modelled.
\<close>

subsection \<open>Prefixes of tools\<close>

definition lower_alnum :: "char \<Rightarrow> bool" where
  "lower_alnum c = (let n = (of_char c :: nat) in (97 \<le> n \<and> n \<le> 122) \<or> (48 \<le> n \<and> n \<le> 57))"

definition us :: char where "us = CHR ''_''"

definition underscored :: "string \<Rightarrow> string" where
  "underscored s = map (\<lambda>c. if lower_alnum c then c else us) (to_lower s)"

fun collapse :: "string \<Rightarrow> string" where
  "collapse (c # d # s) = (if c = us \<and> d = us then collapse (d # s) else c # collapse (d # s))"
| "collapse s = s"

definition strip_ends :: "string \<Rightarrow> string" where
  "strip_ends s =
     (let t = (case s of [] \<Rightarrow> [] | c # r \<Rightarrow> if c = us then r else s)
      in if t \<noteq> [] \<and> last t = us then butlast t else t)"

record discovered_server =
  ds_port :: nat
  ds_url :: string
  ds_name :: string
  already_registered :: bool

definition quick_prefix :: "discovered_server \<Rightarrow> string" where
  "quick_prefix srv =
     (let p = strip_ends (collapse (underscored (ds_name srv)))
      in if p \<noteq> [] then p else ''mcp_'' @ show_nat (ds_port srv))"

subsection \<open>Registration\<close>

datatype transport = Stdio | Sse | StreamableHttp

datatype pii_mode = Allow | Redact | Block

record register_form =
  newName :: string
  newTransport :: transport
  newPrefix :: string
  newUrl :: string
  newCommand :: string
  newPiiMode :: pii_mode

definition openCreate :: register_form where
  "openCreate =
     \<lparr>newName = [], newTransport = StreamableHttp, newPrefix = [], newUrl = [], newCommand = [],
      newPiiMode = Redact\<rparr>"

record register_payload =
  rg_name :: string
  rg_transport :: transport
  rg_prefix :: string
  rg_url :: "string option"
  rg_command :: "string list option"
  rg_pii :: "pii_mode option"
  auto_discover :: bool

definition new_prefix :: "register_form \<Rightarrow> string" where
  "new_prefix f = (if newPrefix f \<noteq> [] then newPrefix f else underscored (newName f))"

definition register :: "register_form \<Rightarrow> register_payload" where
  "register f =
     \<lparr>rg_name = newName f, rg_transport = newTransport f, rg_prefix = new_prefix f,
      rg_url = (if newTransport f = Sse \<or> newTransport f = StreamableHttp then Some (newUrl f) else None),
      rg_command = (if newTransport f = Stdio then Some (tokens (newCommand f)) else None),
      rg_pii = Some (newPiiMode f), auto_discover = True\<rparr>"

definition submitDisabled :: "register_form \<Rightarrow> bool" where
  "submitDisabled f =
     (trim (newName f) = [] \<or>
      (newTransport f = Sse \<or> newTransport f = StreamableHttp) \<and> trim (newUrl f) = [])"

definition quick_register :: "discovered_server \<Rightarrow> register_payload" where
  "quick_register srv =
     \<lparr>rg_name = ds_name srv, rg_transport = StreamableHttp, rg_prefix = quick_prefix srv,
      rg_url = Some (ds_url srv), rg_command = None, rg_pii = None, auto_discover = True\<rparr>"

subsection \<open>The scan\<close>

text \<open>Replacing a text wherever it occurs, the case of letters ignored; the counter skips a match.\<close>

fun replace_ci :: "string \<Rightarrow> string \<Rightarrow> nat \<Rightarrow> string \<Rightarrow> string" where
  "replace_ci pat rep k [] = []"
| "replace_ci pat rep (Suc k) (c # s) = replace_ci pat rep k s"
| "replace_ci pat rep 0 (c # s) =
     (if pat \<noteq> [] \<and> to_lower (take (length pat) (c # s)) = pat
      then rep @ replace_ci pat rep (length pat - 1) s
      else c # replace_ci pat rep 0 s)"

definition typo :: string where "typo = ''host.docker.internel''"
definition docker_host :: string where "docker_host = ''host.docker.internal''"

definition strip_scheme :: "string \<Rightarrow> string" where
  "strip_scheme s =
     (if to_lower (take 7 s) = ''http://'' then drop 7 s
      else if to_lower (take 8 s) = ''https://'' then drop 8 s
      else s)"

definition normalizeScanHost :: "string \<Rightarrow> string" where
  "normalizeScanHost raw =
     (if trim raw = [] then []
      else hd (split_on CHR ''/'' (strip_scheme (replace_ci typo docker_host 0 (trim raw)))))"

record scan =
  scanHost :: string
  scanPortStart :: nat
  scanPortEnd :: nat
  scanning :: bool
  scanResults :: "discovered_server list"
  scanDone :: bool
  scanError :: "string option"
  registeringUrl :: "string option"

definition openScan :: scan where
  "openScan =
     \<lparr>scanHost = docker_host, scanPortStart = 8000, scanPortEnd = 9000, scanning = False, scanResults = [],
      scanDone = False, scanError = None, registeringUrl = None\<rparr>"

definition handleScan :: "scan \<Rightarrow> scan \<times> (string \<times> nat \<times> nat)" where
  "handleScan s =
     (let host = normalizeScanHost (scanHost s)
      in (s\<lparr>scanHost := host, scanning := True, scanError := None, scanResults := [], scanDone := False\<rparr>,
          (host, scanPortStart s, scanPortEnd s)))"

definition scan_answered :: "string + discovered_server list \<Rightarrow> scan \<Rightarrow> scan" where
  "scan_answered a s =
     (case a of Inl msg \<Rightarrow> s\<lparr>scanError := Some msg\<rparr> | Inr found \<Rightarrow> s\<lparr>scanResults := found, scanDone := True\<rparr>)
     \<lparr>scanning := False\<rparr>"

definition handleQuickRegister :: "discovered_server \<Rightarrow> scan \<Rightarrow> scan \<times> register_payload" where
  "handleQuickRegister srv s = (s\<lparr>registeringUrl := Some (ds_url srv)\<rparr>, quick_register srv)"

definition quick_registered :: "discovered_server \<Rightarrow> bool \<Rightarrow> scan \<Rightarrow> scan" where
  "quick_registered srv ok s =
     (if ok then s\<lparr>scanResults := map (\<lambda>d. if ds_url d = ds_url srv then d\<lparr>already_registered := True\<rparr> else d)
                     (scanResults s)\<rparr> else s)
     \<lparr>registeringUrl := None\<rparr>"

subsection \<open>Settings of a server\<close>

datatype prop_kind = PBoolean | PEnum "string list" | PInteger | PNumber | PString bool

record schema_property =
  sp_type :: "string option"
  sp_enum :: "string list option"
  sp_minimum :: "int option"
  sensitive :: bool

text \<open>The kind of control of a property, by the order of the tests.\<close>

definition SettingsField :: "schema_property \<Rightarrow> prop_kind" where
  "SettingsField p =
     (if sp_type p = Some ''boolean'' then PBoolean
      else case sp_enum p of
        Some (o1 # os) \<Rightarrow> PEnum (o1 # os)
      | _ \<Rightarrow> if sp_type p = Some ''integer'' then PInteger
             else if sp_type p = Some ''number'' then PNumber
             else PString (sensitive p))"

text \<open>The value an input stores; a switch gives its state as a text here.\<close>

definition number_value :: "(string \<Rightarrow> int option) \<Rightarrow> string \<Rightarrow> json" where
  "number_value parse v = (case parse v of None \<Rightarrow> JNum 0 | Some n \<Rightarrow> JNum n)"

definition field_value ::
  "(string \<Rightarrow> int option) \<Rightarrow> (string \<Rightarrow> int option) \<Rightarrow> schema_property \<Rightarrow> string \<Rightarrow> json" where
  "field_value parse_int parse_float p v =
     (case SettingsField p of
        PBoolean \<Rightarrow> JBool (v = ''true'')
      | PEnum os \<Rightarrow> JString v
      | PInteger \<Rightarrow> number_value parse_int v
      | PNumber \<Rightarrow> number_value parse_float v
      | PString b \<Rightarrow> JString v)"

record settings_panel =
  form_values :: "(string \<times> json) list"
  st_saving :: bool
  st_error :: "string option"
  success :: bool

definition handleChange :: "string \<Rightarrow> json \<Rightarrow> settings_panel \<Rightarrow> settings_panel" where
  "handleChange k v p = p\<lparr>form_values := AList.update k v (form_values p)\<rparr>"

definition settings_saved :: "string + (string \<times> json) list \<Rightarrow> settings_panel \<Rightarrow> settings_panel" where
  "settings_saved a p =
     (case a of
        Inl msg \<Rightarrow> p\<lparr>st_error := Some msg, success := False\<rparr>
      | Inr vs \<Rightarrow> p\<lparr>st_error := None, form_values := vs, success := True\<rparr>)\<lparr>st_saving := False\<rparr>"

subsection \<open>Lemmas\<close>

definition prefix_char :: "char \<Rightarrow> bool" where
  "prefix_char c = (lower_alnum c \<or> c = us)"

text \<open>A prefix as it should be: small letters, digits and single underscores between them.\<close>

definition proper_prefix :: "string \<Rightarrow> bool" where
  "proper_prefix p =
     (p \<noteq> [] \<and> list_all prefix_char p \<and> successively (\<lambda>c d. \<not> (c = us \<and> d = us)) p \<and> hd p \<noteq> us \<and> last p \<noteq> us)"

lemma lower_alnum_us [simp]: "\<not> lower_alnum us"
  by (simp add: lower_alnum_def us_def)

lemma underscored_chars: "list_all prefix_char (underscored s)"
  by (auto simp: underscored_def prefix_char_def list_all_iff)

lemma collapse_hd: "s \<noteq> [] \<Longrightarrow> collapse s \<noteq> [] \<and> hd (collapse s) = hd s"
  by (induction s rule: collapse.induct) auto

lemma collapse_single: "successively (\<lambda>c d. \<not> (c = us \<and> d = us)) (collapse s)"
proof (induction s rule: collapse.induct)
  case (1 c d s)
  show ?case
  proof (cases "c = us \<and> d = us")
    case False
    then show ?thesis
      using 1(2) collapse_hd [of "d # s"] by (cases "collapse (d # s)") auto
  qed (use 1(1) in simp)
qed simp_all

lemma collapse_chars: "set (collapse s) = set s"
  by (induction s rule: collapse.induct) auto

lemma collapse_id: "successively (\<lambda>c d. \<not> (c = us \<and> d = us)) s \<Longrightarrow> collapse s = s"
  by (induction s rule: collapse.induct) auto

lemma successively_butlast: "successively P s \<Longrightarrow> successively P (butlast s)"
  by (induction s rule: induct_list012) (auto split: if_splits)

lemma strip_ends_proper:
  assumes "successively (\<lambda>c d. \<not> (c = us \<and> d = us)) s" "list_all prefix_char s" "strip_ends s \<noteq> []"
  shows "proper_prefix (strip_ends s)"
proof -
  define t where "t = (case s of [] \<Rightarrow> [] | c # r \<Rightarrow> if c = us then r else s)"
  have t: "successively (\<lambda>c d. \<not> (c = us \<and> d = us)) t" "list_all prefix_char t" "t \<noteq> [] \<Longrightarrow> hd t \<noteq> us"
    using assms(1,2) by (auto simp: t_def successively_Cons split: list.splits if_splits)
  show ?thesis
  proof (cases "t \<noteq> [] \<and> last t = us")
    case True
    then have s: "strip_ends s = butlast t" by (simp add: strip_ends_def t_def Let_def)
    have b: "t = butlast t @ [us]" using append_butlast_last_id [of t] True by simp
    have ne: "butlast t \<noteq> []" using assms(3) s by simp
    have "successively (\<lambda>c d. \<not> (c = us \<and> d = us)) (butlast t @ [us])" using t(1) b by simp
    then have "last (butlast t) \<noteq> us" using ne by (simp add: successively_append_iff)
    moreover have "hd (butlast t) = hd t" using b ne by (metis hd_append2)
    ultimately show ?thesis
      using t ne True s successively_butlast [OF t(1)]
      by (auto simp: proper_prefix_def list_all_iff dest: in_set_butlastD)
  next
    case False
    then have "strip_ends s = t" by (auto simp: strip_ends_def t_def Let_def)
    with assms(3) t False show ?thesis by (simp add: proper_prefix_def)
  qed
qed

lemma digit_prefix_char: "is_digit c \<Longrightarrow> prefix_char c \<and> c \<noteq> us"
  by (auto simp: is_digit_def prefix_char_def lower_alnum_def us_def Let_def)

lemma successively_without: "us \<notin> set ds \<Longrightarrow> successively (\<lambda>c d. \<not> (c = us \<and> d = us)) ds"
  by (induction ds rule: induct_list012) auto

lemma digits_proper:
  assumes "list_all is_digit ds" "ds \<noteq> []"
  shows "proper_prefix (''mcp_'' @ ds)"
proof -
  have no: "us \<notin> set ds" and chars: "list_all prefix_char ds"
    using assms(1) digit_prefix_char by (auto simp: list_all_iff)
  have "hd ds \<noteq> us" "last ds \<noteq> us"
    using no assms(2) hd_in_set [of ds] last_in_set [of ds] by (metis, metis)
  moreover have "list_all prefix_char ''mcp_''" "hd (''mcp_'' @ ds) \<noteq> us"
    by (simp_all add: prefix_char_def lower_alnum_def us_def)
  moreover have "successively (\<lambda>c d. \<not> (c = us \<and> d = us)) (''mcp_'' @ ds)"
    using successively_without [OF no] \<open>hd ds \<noteq> us\<close>
    by (cases ds) (simp_all add: us_def)
  ultimately show ?thesis
    using assms(2) chars
    by (simp only: proper_prefix_def list_all_append last_append append_is_Nil_conv) simp
qed

lemma replace_ci_skip: "length s \<le> k \<Longrightarrow> replace_ci pat rep k s = []"
proof (induction s arbitrary: k)
  case (Cons c s)
  then show ?case by (cases k) auto
qed simp

lemma replace_ci_none:
  "\<not> has_infix (to_lower s) pat \<Longrightarrow> replace_ci pat rep 0 s = s"
proof (induction s)
  case (Cons c s)
  have "\<not> has_infix (to_lower s) pat" "\<not> starts_with (to_lower (c # s)) pat"
    using Cons.prems by (auto simp: to_lower_def)
  moreover have "to_lower (take (length pat) (c # s)) \<noteq> pat"
    using \<open>\<not> starts_with (to_lower (c # s)) pat\<close>
    by (metis starts_with_prefix take_is_prefix take_map to_lower_def)
  ultimately show ?case using Cons.IH by simp
qed simp

subsection \<open>Properties\<close>

text \<open>A server found by a scan is registered under a proper prefix, whatever its name.\<close>

theorem quick_prefix_proper: "proper_prefix (quick_prefix srv)"
proof -
  let ?c = "collapse (underscored (ds_name srv))"
  have "list_all prefix_char ?c"
    using underscored_chars [of "ds_name srv"] by (simp add: list_all_iff collapse_chars)
  then show ?thesis
    using strip_ends_proper [OF collapse_single, of "underscored (ds_name srv)"]
      digits_proper [OF is_digit_show show_nat_nonempty]
    by (simp add: quick_prefix_def Let_def)
qed

text \<open>A name that is a proper prefix already is its own prefix on both ways.\<close>

lemma lower_char_alnum: "prefix_char c \<Longrightarrow> lower_char c = c"
  by (auto simp: prefix_char_def lower_alnum_def lower_char_def us_def Let_def)

theorem proper_name_is_prefix:
  assumes "proper_prefix (ds_name srv)"
  shows "quick_prefix srv = ds_name srv"
    and "newName f = ds_name srv \<Longrightarrow> newPrefix f = [] \<Longrightarrow> new_prefix f = ds_name srv"
proof -
  have chars: "list_all prefix_char (ds_name srv)" using assms by (simp add: proper_prefix_def)
  have under: "underscored (ds_name srv) = ds_name srv"
    unfolding underscored_def to_lower_def map_map comp_def
    by (rule map_idI) (use chars in \<open>auto simp: list_all_iff lower_char_alnum prefix_char_def\<close>)
  have "strip_ends (ds_name srv) = ds_name srv"
    using assms by (auto simp: strip_ends_def proper_prefix_def split: list.split)
  then show "quick_prefix srv = ds_name srv"
    using assms by (simp add: quick_prefix_def under collapse_id proper_prefix_def)
  show "newName f = ds_name srv \<Longrightarrow> newPrefix f = [] \<Longrightarrow> new_prefix f = ds_name srv"
    by (simp add: new_prefix_def under)
qed

text \<open>
  Otherwise the two ways differ: the same name typed into the form keeps doubled underscores and
  those at its ends.
\<close>

theorem prefixes_differ:
  "quick_prefix \<lparr>ds_port = 8000, ds_url = [], ds_name = ''Brave  Search!'', already_registered = False\<rparr> = ''brave_search''
   \<and> new_prefix (openCreate\<lparr>newName := ''Brave  Search!''\<rparr>) = ''brave__search_''
   \<and> \<not> proper_prefix ''brave__search_''"
  by code_simp

text \<open>A form that can be submitted names the server and has a prefix, and what it sends fits the
  transport: an address for the two remote ones, a command for the local one.\<close>

theorem register_fits_transport:
  "submitDisabled f \<or>
   rg_prefix (register f) \<noteq> []
   \<and> (rg_url (register f) \<noteq> None) = (newTransport f \<noteq> Stdio)
   \<and> (rg_command (register f) \<noteq> None) = (newTransport f = Stdio)
   \<and> rg_url (register f) \<noteq> Some []"
proof (cases "submitDisabled f")
  case False
  then have "newName f \<noteq> []" by (auto simp: submitDisabled_def trim_def)
  then have "new_prefix f \<noteq> []" by (simp add: new_prefix_def underscored_def to_lower_def)
  moreover have "newTransport f \<noteq> Stdio \<Longrightarrow> newUrl f \<noteq> []"
    using False by (cases "newTransport f") (auto simp: submitDisabled_def trim_def)
  ultimately show ?thesis by (cases "newTransport f") (auto simp: register_def)
qed simp

text \<open>A local server can be registered without a command, and quotes do not keep an argument together.\<close>

theorem stdio_without_command:
  "\<not> submitDisabled (openCreate\<lparr>newName := ''x'', newTransport := Stdio\<rparr>)
   \<and> rg_command (register (openCreate\<lparr>newName := ''x'', newTransport := Stdio\<rparr>)) = Some []"
  by code_simp

text \<open>The host that is scanned has no path; a plain host is scanned as it is.\<close>

theorem scan_host_plain:
  "CHR ''/'' \<notin> set (normalizeScanHost raw)"
  by (simp add: normalizeScanHost_def split_on_no_sep [OF hd_in_set [OF split_on_nonempty]])

lemma lower_char_slash: "c \<noteq> CHR ''/'' \<Longrightarrow> lower_char c \<noteq> CHR ''/''"
proof
  assume c: "c \<noteq> CHR ''/''" and l: "lower_char c = CHR ''/''"
  then have n: "65 \<le> (of_char c :: nat)" "(of_char c :: nat) \<le> 90"
    by (auto simp: lower_char_def Let_def split: if_splits)
  then have "lower_char c = char_of ((of_char c :: nat) + 32)" by (simp add: lower_char_def Let_def)
  then have "of_char (lower_char c) = (of_char c :: nat) + 32" using n by (simp add: of_char_of)
  with l n show False by simp
qed

theorem plain_host_kept:
  assumes "trim h = h" "CHR ''/'' \<notin> set h" "\<not> has_infix (to_lower h) typo"
  shows "normalizeScanHost h = h"
proof -
  have "to_lower (take n h) \<noteq> ''http://'' \<and> to_lower (take n h) \<noteq> ''https://''" for n
  proof -
    have "CHR ''/'' \<notin> set (to_lower (take n h))"
    proof
      assume "CHR ''/'' \<in> set (to_lower (take n h))"
      then obtain c where "c \<in> set (take n h)" "lower_char c = CHR ''/''"
        by (auto simp: to_lower_def simp del: set_take_subset)
      then have "c = CHR ''/''" "c \<in> set h" using lower_char_slash in_set_takeD by metis+
      with assms(2) show False by simp
    qed
    then show ?thesis by (metis list.set_intros(1,2))
  qed
  then show ?thesis
    using assms by (simp add: normalizeScanHost_def replace_ci_none strip_scheme_def)
qed

text \<open>The port of an address stays in the host, beside the two ports that are sent.\<close>

theorem port_stays_in_host:
  "normalizeScanHost ''http://Host.docker.internel:8000/mcp'' = ''host.docker.internal:8000''"
  by code_simp

text \<open>A registered server is marked, no other is, and nothing is marked after a failure.\<close>

theorem marks_registered:
  "map already_registered (scanResults (quick_registered srv ok s)) =
     map (\<lambda>d. already_registered d \<or> ok \<and> ds_url d = ds_url srv) (scanResults s)
   \<and> map ds_url (scanResults (quick_registered srv ok s)) = map ds_url (scanResults s)"
  by (auto simp: quick_registered_def)

text \<open>An emptied number is stored as zero, below the least value of its property.\<close>

theorem emptied_number_is_zero:
  assumes "SettingsField p = PInteger" "sp_minimum p = Some m" "0 < m" "parse_int [] = None"
  shows "field_value parse_int parse_float p [] = JNum 0"
  using assms by (simp add: field_value_def number_value_def)

end
