(* ===== verification/Skill_Pages.thy ===== *)
theory Skill_Pages
  imports Prelude
begin

text \<open>
  Skills: the form the two pages share (\<^verbatim>\<open>pages/admin/skills/SkillFormFields.tsx\<close>), the wizard
  \<^verbatim>\<open>CreateSkillPage.tsx\<close>, the page of a skill, \<^verbatim>\<open>SkillDetailPage.tsx\<close>, and the document the
  server makes of a skill (\<^verbatim>\<open>_compose_content\<close> of the backend, \<^verbatim>\<open>parse_skill_document\<close> and
  \<^verbatim>\<open>update_skill_metadata\<close> of the skills service). The fields of the form other than the lists are
  sent as they are; a priority is an integer. YAML is a parameter: only the text of the front
  matter is modelled. An action is a function of the answer of its request. Export, the table
  of the list page and the JSX are not modelled.
\<close>

subsection \<open>Skills and the form\<close>

datatype skill_scope = GlobalScope | TenantScope | WorkspaceScope | AssistantScope | UserScope

datatype skill_status = Draft | Published | Archived

record skill =
  sk_name :: string
  sk_slug :: string
  sk_scope :: skill_scope
  sk_status :: skill_status
  sk_priority :: int
  sk_tags :: "string list option"
  sk_version :: nat
  sk_description :: "string option"
  sk_body :: "string option"
  sk_allowed :: "string list option"
  sk_forbidden :: "string list option"
  sk_preferred :: "string list option"
  sk_sources :: "string list option"

record skill_form =
  fo_name :: string
  fo_description :: string
  fo_scope :: skill_scope
  fo_priority :: int
  fo_tags :: string
  fo_body :: string
  fo_allowed :: string
  fo_preferred :: string
  fo_forbidden :: string
  fo_sources :: string
  fo_note :: string

definition EMPTY_FORM :: skill_form where
  "EMPTY_FORM =
     \<lparr>fo_name = [], fo_description = [], fo_scope = GlobalScope, fo_priority = 50, fo_tags = [], fo_body = [],
      fo_allowed = [], fo_preferred = [], fo_forbidden = [], fo_sources = [], fo_note = []\<rparr>"

definition splitCsv :: "string \<Rightarrow> string list" where
  "splitCsv s = filter (\<lambda>v. v \<noteq> []) (map trim (split_on CHR '','' s))"

definition csv :: "string list option \<Rightarrow> string" where
  "csv xs = (case xs of None \<Rightarrow> [] | Some ws \<Rightarrow> join '', '' ws)"

definition blank_or :: "string option \<Rightarrow> string" where
  "blank_or s = (case s of None \<Rightarrow> [] | Some t \<Rightarrow> t)"

definition undefined_or :: "string \<Rightarrow> string option" where
  "undefined_or s = (if s \<noteq> [] then Some s else None)"

definition populateForm :: "skill \<Rightarrow> skill_form" where
  "populateForm s =
     \<lparr>fo_name = sk_name s, fo_description = blank_or (sk_description s), fo_scope = sk_scope s,
      fo_priority = sk_priority s, fo_tags = csv (sk_tags s), fo_body = blank_or (sk_body s),
      fo_allowed = csv (sk_allowed s), fo_preferred = csv (sk_preferred s),
      fo_forbidden = csv (sk_forbidden s), fo_sources = csv (sk_sources s), fo_note = []\<rparr>"

definition dirty :: "skill option \<Rightarrow> skill_form \<Rightarrow> bool" where
  "dirty sk f =
     (case sk of None \<Rightarrow> False
      | Some s \<Rightarrow>
          fo_name f \<noteq> sk_name s \<or> fo_description f \<noteq> blank_or (sk_description s)
          \<or> fo_body f \<noteq> blank_or (sk_body s) \<or> fo_scope f \<noteq> sk_scope s \<or> fo_priority f \<noteq> sk_priority s
          \<or> fo_tags f \<noteq> csv (sk_tags s) \<or> fo_allowed f \<noteq> csv (sk_allowed s)
          \<or> fo_forbidden f \<noteq> csv (sk_forbidden s) \<or> fo_preferred f \<noteq> csv (sk_preferred s)
          \<or> fo_sources f \<noteq> csv (sk_sources s))"

subsection \<open>What is sent\<close>

text \<open>A missing property is \<open>None\<close>.\<close>

record skill_payload =
  py_name :: string
  py_description :: "string option"
  py_body :: string
  py_scope :: skill_scope
  py_priority :: int
  py_tags :: "string list option"
  py_allowed :: "string list option"
  py_forbidden :: "string list option"
  py_preferred :: "string list option"
  py_sources :: "string list option"
  py_note :: "string option"

definition update_payload :: "skill_form \<Rightarrow> skill_payload" where
  "update_payload f =
     \<lparr>py_name = fo_name f, py_description = undefined_or (fo_description f), py_body = fo_body f,
      py_scope = fo_scope f, py_priority = fo_priority f, py_tags = Some (splitCsv (fo_tags f)),
      py_allowed = Some (splitCsv (fo_allowed f)), py_forbidden = Some (splitCsv (fo_forbidden f)),
      py_preferred = Some (splitCsv (fo_preferred f)), py_sources = Some (splitCsv (fo_sources f)),
      py_note = undefined_or (fo_note f)\<rparr>"

definition nonempty_list :: "string list \<Rightarrow> string list option" where
  "nonempty_list ws = (if ws \<noteq> [] then Some ws else None)"

definition default_body :: "string \<Rightarrow> string" where
  "default_body name = ''# '' @ name @ [CHR 0x0A, CHR 0x0A] @ ''Describe the skill instructions here.'' @ [CHR 0x0A]"

definition create_payload :: "skill_form \<Rightarrow> skill_payload" where
  "create_payload f =
     \<lparr>py_name = fo_name f, py_description = undefined_or (fo_description f),
      py_body = (if fo_body f \<noteq> [] then fo_body f else default_body (fo_name f)),
      py_scope = fo_scope f, py_priority = fo_priority f, py_tags = nonempty_list (splitCsv (fo_tags f)),
      py_allowed = nonempty_list (splitCsv (fo_allowed f)),
      py_forbidden = nonempty_list (splitCsv (fo_forbidden f)),
      py_preferred = nonempty_list (splitCsv (fo_preferred f)),
      py_sources = nonempty_list (splitCsv (fo_sources f)), py_note = None\<rparr>"

subsection \<open>The wizard\<close>

record skill_wizard =
  step :: nat
  values_of :: skill_form
  wz_error :: "string option"
  wz_saving :: bool

definition new_wizard :: skill_wizard where
  "new_wizard = \<lparr>step = 0, values_of = EMPTY_FORM, wz_error = None, wz_saving = False\<rparr>"

definition canAdvance :: "skill_wizard \<Rightarrow> bool" where
  "canAdvance w = (step w = 0 \<and> trim (fo_name (values_of w)) \<noteq> [])"

definition handleCreate :: "skill_wizard \<Rightarrow> skill_wizard \<times> skill_payload" where
  "handleCreate w = (w\<lparr>wz_saving := True, wz_error := None\<rparr>, create_payload (values_of w))"

text \<open>The new page is the address of the skill, or none after a failure.\<close>

definition created :: "string + string \<Rightarrow> skill_wizard \<Rightarrow> skill_wizard \<times> string option" where
  "created a w =
     (case a of
        Inl msg \<Rightarrow> (w\<lparr>wz_error := Some msg, wz_saving := False\<rparr>, None)
      | Inr i \<Rightarrow> (w\<lparr>wz_saving := False\<rparr>, Some (''/admin/skills/'' @ i)))"

text \<open>
  The steps a user can make: the first page edits the basics, the second the content; a
  disabled field or button does nothing.
\<close>

definition same_content :: "skill_form \<Rightarrow> skill_form \<Rightarrow> bool" where
  "same_content f g =
     (fo_body f = fo_body g \<and> fo_allowed f = fo_allowed g \<and> fo_preferred f = fo_preferred g
      \<and> fo_forbidden f = fo_forbidden g \<and> fo_sources f = fo_sources g \<and> fo_note f = fo_note g)"

definition same_basics :: "skill_form \<Rightarrow> skill_form \<Rightarrow> bool" where
  "same_basics f g =
     (fo_name f = fo_name g \<and> fo_description f = fo_description g \<and> fo_scope f = fo_scope g
      \<and> fo_priority f = fo_priority g \<and> fo_tags f = fo_tags g)"

inductive wizard_step :: "skill_wizard \<Rightarrow> skill_wizard \<Rightarrow> bool" where
  edit_basics: "step w = 0 \<Longrightarrow> \<not> wz_saving w \<Longrightarrow> same_content (values_of w) f \<Longrightarrow> wizard_step w (w\<lparr>values_of := f\<rparr>)"
| edit_content: "step w = 1 \<Longrightarrow> \<not> wz_saving w \<Longrightarrow> same_basics (values_of w) f \<Longrightarrow> wizard_step w (w\<lparr>values_of := f\<rparr>)"
| next_step: "step w < 1 \<Longrightarrow> canAdvance w \<Longrightarrow> wizard_step w (w\<lparr>step := step w + 1\<rparr>)"
| back_step: "0 < step w \<Longrightarrow> \<not> wz_saving w \<Longrightarrow> wizard_step w (w\<lparr>step := step w - 1\<rparr>)"
| submit: "step w = 1 \<Longrightarrow> \<not> wz_saving w \<Longrightarrow> trim (fo_name (values_of w)) \<noteq> [] \<Longrightarrow> wizard_step w (fst (handleCreate w))"
| answer: "wz_saving w \<Longrightarrow> wizard_step w (fst (created a w))"
| dismiss: "wizard_step w (w\<lparr>wz_error := None\<rparr>)"

subsection \<open>The page of a skill\<close>

record assignment =
  as_id :: string
  as_type :: string
  as_target :: string

record skill_page =
  pg_skill :: "skill option"
  pg_loading :: bool
  pg_error :: "string option"
  pg_saving :: bool
  pg_tab :: nat
  pg_form :: skill_form
  versions :: "nat list"
  versionsLoading :: bool
  assignments :: "assignment list"
  assignmentsLoading :: bool
  assignOpen :: bool
  assignTargetType :: string
  assignTargetId :: string
  assigning :: bool

definition opened :: skill_page where
  "opened =
     \<lparr>pg_skill = None, pg_loading = True, pg_error = None, pg_saving = False, pg_tab = 0,
      pg_form = EMPTY_FORM, versions = [], versionsLoading = False, assignments = [],
      assignmentsLoading = False, assignOpen = False, assignTargetType = ''tenant'', assignTargetId = [],
      assigning = False\<rparr>"

definition show_skill :: "skill \<Rightarrow> skill_page \<Rightarrow> skill_page" where
  "show_skill s p = p\<lparr>pg_skill := Some s, pg_form := populateForm s\<rparr>"

definition loaded :: "string + skill \<Rightarrow> skill_page \<Rightarrow> skill_page" where
  "loaded a p =
     (case a of Inl msg \<Rightarrow> p\<lparr>pg_error := Some msg\<rparr> | Inr s \<Rightarrow> show_skill s p)\<lparr>pg_loading := False\<rparr>"

definition handleSave :: "skill_page \<Rightarrow> skill_page \<times> skill_payload" where
  "handleSave p = (p\<lparr>pg_saving := True, pg_error := None\<rparr>, update_payload (pg_form p))"

definition saved :: "string + skill \<Rightarrow> skill_page \<Rightarrow> skill_page" where
  "saved a p =
     (case a of Inl msg \<Rightarrow> p\<lparr>pg_error := Some msg\<rparr> | Inr s \<Rightarrow> show_skill s p)\<lparr>pg_saving := False\<rparr>"

text \<open>Publishing and archiving end in the same way.\<close>

definition handlePublish :: "string + skill \<Rightarrow> skill_page \<Rightarrow> skill_page" where
  "handlePublish a p = (case a of Inl msg \<Rightarrow> p\<lparr>pg_error := Some msg\<rparr> | Inr s \<Rightarrow> show_skill s p)"

definition handleArchive :: "string + skill \<Rightarrow> skill_page \<Rightarrow> skill_page" where
  "handleArchive a p = (case a of Inl msg \<Rightarrow> p\<lparr>pg_error := Some msg\<rparr> | Inr s \<Rightarrow> show_skill s p)"

definition save_enabled :: "skill_page \<Rightarrow> bool" where
  "save_enabled p = (\<not> pg_saving p \<and> dirty (pg_skill p) (pg_form p))"

datatype skill_request = ListVersions | ListAssignments

definition change_tab :: "nat \<Rightarrow> skill_page \<Rightarrow> skill_page \<times> skill_request list" where
  "change_tab v p =
     (let p1 = p\<lparr>pg_tab := v\<rparr>;
          p2 = (if v = 2 \<and> versions p = [] then p1\<lparr>versionsLoading := True\<rparr> else p1);
          p3 = (if v = 3 \<and> assignments p = [] then p2\<lparr>assignmentsLoading := True\<rparr> else p2)
      in (p3, (if v = 2 \<and> versions p = [] then [ListVersions] else [])
            @ (if v = 3 \<and> assignments p = [] then [ListAssignments] else [])))"

definition loadVersions :: "string + nat list \<Rightarrow> skill_page \<Rightarrow> skill_page" where
  "loadVersions a p =
     (case a of Inl msg \<Rightarrow> p\<lparr>pg_error := Some msg\<rparr> | Inr vs \<Rightarrow> p\<lparr>versions := vs\<rparr>)\<lparr>versionsLoading := False\<rparr>"

definition loadAssignments :: "string + assignment list \<Rightarrow> skill_page \<Rightarrow> skill_page" where
  "loadAssignments a p =
     (case a of Inl msg \<Rightarrow> p\<lparr>pg_error := Some msg\<rparr> | Inr xs \<Rightarrow> p\<lparr>assignments := xs\<rparr>)\<lparr>assignmentsLoading := False\<rparr>"

definition handleCreateAssignment ::
  "string option \<Rightarrow> string + assignment list \<Rightarrow> skill_page \<Rightarrow> skill_page" where
  "handleCreateAssignment failed listed p =
     (case failed of
        Some msg \<Rightarrow> p\<lparr>pg_error := Some msg\<rparr>
      | None \<Rightarrow> loadAssignments listed (p\<lparr>assignOpen := False, assignTargetId := []\<rparr>))\<lparr>assigning := False\<rparr>"

definition handleDeleteAssignment ::
  "string option \<Rightarrow> string + assignment list \<Rightarrow> skill_page \<Rightarrow> skill_page" where
  "handleDeleteAssignment failed listed p =
     (case failed of Some msg \<Rightarrow> p\<lparr>pg_error := Some msg\<rparr> | None \<Rightarrow> loadAssignments listed p)"

text \<open>The lifecycle button of the page and of a row of the list.\<close>

definition offers_publish :: "skill \<Rightarrow> bool" where
  "offers_publish s = (sk_status s = Draft)"

definition offers_archive :: "skill \<Rightarrow> bool" where
  "offers_archive s = (sk_status s = Published)"

subsection \<open>The server\<close>

text \<open>\<open>update_skill_metadata\<close> writes the properties that were sent, and no other.\<close>

definition update_skill_metadata :: "skill_payload \<Rightarrow> skill \<Rightarrow> skill" where
  "update_skill_metadata y s =
     (let or_old = (\<lambda>new old. case new of None \<Rightarrow> old | Some x \<Rightarrow> Some x)
      in s\<lparr>sk_name := py_name y, sk_scope := py_scope y, sk_priority := py_priority y,
           sk_description := or_old (py_description y) (sk_description s)\<rparr>
          \<lparr>sk_tags := (case py_tags y of None \<Rightarrow> sk_tags s | Some xs \<Rightarrow> Some xs),
           sk_allowed := (case py_allowed y of None \<Rightarrow> sk_allowed s | Some xs \<Rightarrow> Some xs),
           sk_forbidden := (case py_forbidden y of None \<Rightarrow> sk_forbidden s | Some xs \<Rightarrow> Some xs),
           sk_preferred := (case py_preferred y of None \<Rightarrow> sk_preferred s | Some xs \<Rightarrow> Some xs),
           sk_sources := (case py_sources y of None \<Rightarrow> sk_sources s | Some xs \<Rightarrow> Some xs)\<rparr>)"

definition newline :: char where "newline = CHR 0x0A"
definition dashes :: string where "dashes = ''---''"

text \<open>The document of a front matter, as YAML text, and a body.\<close>

definition compose_content :: "string \<Rightarrow> string \<Rightarrow> string" where
  "compose_content fm_yaml body = dashes @ [newline] @ fm_yaml @ [newline] @ dashes @ [newline, newline] @ body"

text \<open>The text before and after the first occurrence of another.\<close>

fun cut_at :: "string \<Rightarrow> string \<Rightarrow> (string \<times> string) option" where
  "cut_at q [] = (if q = [] then Some ([], []) else None)"
| "cut_at q (c # s) =
     (if starts_with (c # s) q then Some ([], drop (length q) (c # s))
      else map_option (\<lambda>(a, b). (c # a, b)) (cut_at q s))"

record parsed_skill =
  raw_frontmatter :: string
  parsed_body :: string

definition parse_skill_document :: "string \<Rightarrow> parsed_skill" where
  "parse_skill_document content =
     (let content = trim content in
      if \<not> starts_with content dashes then \<lparr>raw_frontmatter = [], parsed_body = content\<rparr>
      else case cut_at dashes (drop 3 content) of
        None \<Rightarrow> \<lparr>raw_frontmatter = [], parsed_body = content\<rparr>
      | Some (fm, body) \<Rightarrow> \<lparr>raw_frontmatter = trim fm, parsed_body = trim body\<rparr>)"

text \<open>
  The whole update: the metadata, then the document, whose front matter is read again. \<open>dump\<close> gives
  the YAML text of a payload, and \<open>reread\<close> writes the metadata a YAML text has.
\<close>

definition update_skill ::
  "(skill_payload \<Rightarrow> string) \<Rightarrow> (string \<Rightarrow> skill \<Rightarrow> skill) \<Rightarrow> skill_payload \<Rightarrow> skill \<Rightarrow> skill" where
  "update_skill dump reread y s =
     (let doc = parse_skill_document (compose_content (dump y) (py_body y))
      in (reread (raw_frontmatter doc) (update_skill_metadata y s))
           \<lparr>sk_body := Some (parsed_body doc), sk_version := sk_version s + 1\<rparr>)"

subsection \<open>Lemmas\<close>

definition tidy_word :: "string \<Rightarrow> bool" where
  "tidy_word w = (w \<noteq> [] \<and> trim w = w \<and> CHR '','' \<notin> set w)"

lemma split_on_space: "map trim (split_on CHR '','' (CHR '' '' # s)) = map trim (split_on CHR '','' s)"
  by (cases "split_on CHR '','' s") (simp_all add: trim_ws_Cons is_ws_def)

lemma split_csv: "ws \<noteq> [] \<Longrightarrow> list_all tidy_word ws \<Longrightarrow> map trim (split_on CHR '','' (join '', '' ws)) = ws"
proof (induction "'', ''" ws rule: join.induct)
  case (3 w v ws)
  have "map trim (split_on CHR '','' (join '', '' (w # v # ws)))
      = trim w # map trim (split_on CHR '','' (CHR '' '' # join '', '' (v # ws)))"
    using 3(3) by (simp add: split_on_line tidy_word_def)
  also have "\<dots> = w # map trim (split_on CHR '','' (join '', '' (v # ws)))"
    using 3(3) by (simp only: split_on_space) (simp add: tidy_word_def)
  finally show ?case using 3 by simp
qed (simp_all add: tidy_word_def)

lemma splitCsv_words: "list_all tidy_word (splitCsv s)"
proof -
  have "tidy_word (trim w)" if "w \<in> set (split_on CHR '','' s)" "trim w \<noteq> []" for w
    using that split_on_no_sep [OF that(1)] trim_subset [of w] by (auto simp: tidy_word_def)
  then show ?thesis by (auto simp: splitCsv_def list_all_iff)
qed

lemma cut_at_line:
  assumes "\<not> has_infix y q" "c \<notin> set q" "q \<noteq> []"
  shows "cut_at q (y @ c # q @ r) = Some (y @ [c], r)"
  using assms(1)
proof (induction y)
  case Nil
  obtain a q' where q: "q = a # q'" using assms(3) by (cases q) auto
  then have "\<not> starts_with (c # q @ r) q" using assms(2) by auto
  moreover have "cut_at q (q @ r) = Some ([], r)" using q by (simp add: starts_with_append [of "a # q'", simplified])
  ultimately show ?case by simp
next
  case (Cons a y)
  have "\<not> starts_with (a # y @ c # q @ r) q"
  proof
    assume "starts_with (a # y @ c # q @ r) q"
    then have "prefix q ((a # y) @ c # q @ r)" by (simp add: js_string)
    then have "prefix q (a # y) \<or> (\<exists>us. q = (a # y) @ us \<and> us \<noteq> [] \<and> prefix us (c # q @ r))"
      unfolding prefix_append by (metis append_Nil2 prefix_order.refl)
    then consider "prefix q (a # y)" | us where "q = (a # y) @ us" "us \<noteq> []" "prefix us (c # q @ r)"
      by blast
    then show False
    proof cases
      case 1
      then show False using Cons.prems by (simp add: js_string prefix_imp_sublist)
    next
      case 2
      then have "c \<in> set q" by (cases us) auto
      with assms(2) show False by simp
    qed
  qed
  then show ?case using Cons by simp
qed

lemma parse_document:
  assumes "\<not> has_infix y dashes" "c \<notin> set dashes"
  shows "parse_skill_document (dashes @ newline # y @ c # dashes @ t) =
    \<lparr>raw_frontmatter = trim (newline # y @ [c]), parsed_body = trim t\<rparr>"
proof -
  have "rstrip ((dashes @ newline # y @ c # ''--'') @ CHR ''-'' # t) = (dashes @ newline # y @ c # ''--'') @ CHR ''-'' # rstrip t"
    by (rule rstrip_keep) (simp add: is_ws_def)
  then have doc: "trim (dashes @ newline # y @ c # dashes @ t) = dashes @ newline # y @ c # dashes @ rstrip t"
    by (simp add: trim_strips lstrip_def dashes_def is_ws_def)
  have "\<not> has_infix (newline # y) dashes" using assms(1) by (simp add: newline_def dashes_def)
  then have "cut_at dashes ((newline # y) @ c # dashes @ rstrip t) = Some ((newline # y) @ [c], rstrip t)"
    by (rule cut_at_line) (use assms(2) in \<open>simp_all add: dashes_def\<close>)
  moreover have "drop 3 (dashes @ u) = u" for u by (simp add: dashes_def)
  ultimately show ?thesis
    by (simp add: parse_skill_document_def doc)
qed

subsection \<open>Properties\<close>

text \<open>A list shown in a field and read again is the list, if its words are trimmed and have no comma.\<close>

theorem csv_read_back:
  assumes "list_all tidy_word ws"
  shows "splitCsv (csv (Some ws)) = ws"
proof (cases "ws = []")
  case False
  then show ?thesis
    using split_csv [OF False assms] assms by (auto simp: splitCsv_def csv_def tidy_word_def list_all_iff filter_id_conv)
qed (simp add: splitCsv_def csv_def trim_def)

text \<open>A field that is stored once and shown again stays as it is stored.\<close>

theorem csv_stable: "splitCsv (csv (Some (splitCsv s))) = splitCsv s"
  by (rule csv_read_back) (rule splitCsv_words)

text \<open>A word with a comma comes back as two.\<close>

theorem comma_splits: "splitCsv (csv (Some [''a,b''])) = [''a'', ''b'']"
  by code_simp

text \<open>The save button waits for an edit: of anything but the note of the change.\<close>

theorem dirty_iff_edited:
  "dirty (Some s) f \<longleftrightarrow> f\<lparr>fo_note := []\<rparr> \<noteq> populateForm s"
  by (cases f) (auto simp: dirty_def populateForm_def)

theorem shown_skill_clean: "\<not> save_enabled (show_skill s p)"
  by (simp add: save_enabled_def show_skill_def dirty_def populateForm_def)

text \<open>Publishing repopulates the form: edits that were not saved are gone.\<close>

theorem publish_discards_edits:
  "pg_form (handlePublish (Inr s) p) = populateForm s \<and> pg_form (handleArchive (Inr s) p) = populateForm s
   \<and> pg_form (handlePublish (Inl m) p) = pg_form p \<and> pg_form (handleArchive (Inl m) p) = pg_form p"
  by (simp add: handlePublish_def handleArchive_def show_skill_def)

text \<open>
  The versions are asked for when none is shown: once they are, neither a save nor the
  tab asks again.
\<close>

theorem versions_stale:
  "versions p = [] \<or>
   (versions (saved a p) = versions p
    \<and> snd (change_tab v (saved a p)) = (if v = 3 \<and> assignments p = [] then [ListAssignments] else []))"
  by (cases a) (auto simp: saved_def show_skill_def change_tab_def)

text \<open>
  The document of a skill is read back as it was composed, its ends trimmed, when the front
  matter has no three dashes.
\<close>

theorem document_roundtrip:
  assumes "\<not> has_infix y dashes"
  shows "parse_skill_document (compose_content y b) = \<lparr>raw_frontmatter = trim y, parsed_body = trim b\<rparr>"
proof -
  have "newline \<notin> set dashes" by (simp add: newline_def dashes_def)
  moreover have "is_ws newline" by (simp add: newline_def is_ws_def)
  ultimately show ?thesis
    using parse_document [OF assms, of newline "newline # newline # b"]
    by (simp add: compose_content_def trim_ws_Cons trim_ws_snoc)
qed

text \<open>
  Three dashes inside it, of a description say, end the front matter: what follows is read as
  the body.
\<close>

theorem dashes_cut_document:
  assumes "\<not> has_infix y dashes" "c \<notin> set dashes"
  shows "parse_skill_document (compose_content (y @ c # dashes @ r) b) =
    \<lparr>raw_frontmatter = trim (y @ [c]), parsed_body = trim (r @ newline # dashes @ newline # newline # b)\<rparr>"
  using parse_document [OF assms, of "r @ newline # dashes @ newline # newline # b"]
  by (simp add: compose_content_def trim_ws_Cons newline_def is_ws_def)

text \<open>
  After a save the page shows what was edited: the plain fields as they were, the lists in their
  normal form, the body trimmed, and no save is offered.
\<close>

theorem save_shows_edits:
  assumes "\<not> has_infix (dump (update_payload f)) dashes"
    and "trim (dump (update_payload f)) = dump (update_payload f)"
    and "\<And>s. reread (dump (update_payload f)) (update_skill_metadata (update_payload f) s)
              = update_skill_metadata (update_payload f) s"
    and "fo_description f \<noteq> [] \<or> \<not> truthy (sk_description s)"
  shows "pg_form (saved (Inr (update_skill dump reread (snd (handleSave (p\<lparr>pg_form := f\<rparr>))) s)) q) =
    f\<lparr>fo_body := trim (fo_body f), fo_tags := csv (Some (splitCsv (fo_tags f))),
      fo_allowed := csv (Some (splitCsv (fo_allowed f))), fo_preferred := csv (Some (splitCsv (fo_preferred f))),
      fo_forbidden := csv (Some (splitCsv (fo_forbidden f))), fo_sources := csv (Some (splitCsv (fo_sources f))),
      fo_note := []\<rparr>"
proof -
  have body: "py_body (update_payload f) = fo_body f" by (simp add: update_payload_def)
  have "update_skill dump reread (update_payload f) s =
      (update_skill_metadata (update_payload f) s)\<lparr>sk_body := Some (trim (fo_body f)), sk_version := sk_version s + 1\<rparr>"
    using document_roundtrip [OF assms(1)] by (simp add: update_skill_def body assms(2,3) Let_def)
  then show ?thesis
    using assms(4)
    by (cases "sk_description s")
      (auto simp: saved_def show_skill_def handleSave_def populateForm_def update_skill_metadata_def
        update_payload_def undefined_or_def blank_or_def Let_def)
qed

theorem save_shows_edits_witness:
  "pg_form (saved (Inr (update_skill (\<lambda>y. ''name: A'') (\<lambda>t s. s)
      (snd (handleSave (opened\<lparr>pg_form := EMPTY_FORM\<lparr>fo_name := ''A'', fo_tags := ''x ,y,''\<rparr>\<rparr>)))
      \<lparr>sk_name = ''B'', sk_slug = ''b'', sk_scope = GlobalScope, sk_status = Draft, sk_priority = 50, sk_tags = None,
       sk_version = 1, sk_description = None, sk_body = None, sk_allowed = None, sk_forbidden = None,
       sk_preferred = None, sk_sources = None\<rparr>)) opened) =
   EMPTY_FORM\<lparr>fo_name := ''A'', fo_tags := ''x, y''\<rparr>"
proof -
  let ?f = "EMPTY_FORM\<lparr>fo_name := ''A'', fo_tags := ''x ,y,''\<rparr>"
  have "csv (Some (splitCsv ''x ,y,'')) = ''x, y''" "csv (Some (splitCsv [])) = []" "trim [] = []"
    by code_simp+
  moreover have "\<not> has_infix ''name: A'' dashes" "trim ''name: A'' = ''name: A''"
    by code_simp+
  ultimately show ?thesis
    by (subst save_shows_edits) (simp_all add: EMPTY_FORM_def)
qed

text \<open>A description cannot be emptied: it is not sent, so the old one is kept and shown again.\<close>

theorem emptied_description_kept:
  assumes "fo_description f = []"
  shows "sk_description (update_skill_metadata (update_payload f) s) = sk_description s"
  using assms by (simp add: update_payload_def update_skill_metadata_def undefined_or_def)

text \<open>A payload of a save always has a body, so that every save makes a version, one further than the last.\<close>

theorem save_makes_version:
  "sk_version (update_skill dump reread (snd (handleSave p)) s) = sk_version s + 1"
  by (simp add: update_skill_def Let_def)

text \<open>The wizard creates a skill with a name and a body only.\<close>

theorem wizard_names_skill:
  assumes "wizard_step\<^sup>*\<^sup>* new_wizard w"
  shows "step w = 0 \<or> step w = 1 \<and> trim (py_name (snd (handleCreate w))) \<noteq> [] \<and> py_body (snd (handleCreate w)) \<noteq> []"
proof -
  have "step w = 0 \<or> step w = 1 \<and> trim (fo_name (values_of w)) \<noteq> []"
    using assms
  proof (induction rule: rtranclp_induct)
    case (step w w')
    show ?case
      using step(2,3)
    proof cases
      case answer
      then show ?thesis using step(3) by (auto simp: created_def split: sum.splits)
    qed (use step(3) in \<open>auto simp: canAdvance_def same_basics_def handleCreate_def\<close>)
  qed (simp add: new_wizard_def)
  then show ?thesis by (auto simp: handleCreate_def create_payload_def default_body_def)
qed

text \<open>An assignment that was made closes the dialog, and one that failed keeps what was typed.\<close>

theorem assignment_dialog:
  "assignOpen (handleCreateAssignment failed listed p) = (failed \<noteq> None \<and> assignOpen p)
   \<and> assignTargetId (handleCreateAssignment failed listed p) = (if failed = None then [] else assignTargetId p)
   \<and> \<not> assigning (handleCreateAssignment failed listed p)"
  by (cases failed; cases listed) (auto simp: handleCreateAssignment_def loadAssignments_def)

end
