(* ===== verification/Dashboard_Page.thy ===== *)
theory Dashboard_Page
  imports Formats Residency Node_Page
begin

text \<open>
  The dashboard, \<^verbatim>\<open>pages/admin/DashboardPage.tsx\<close>, with the card of a node,
  \<^verbatim>\<open>components/dashboard/NodePerformanceCard.tsx\<close>: its requests, which are answered one by one in any
  order, the gauges and the figures. The state holds the requests in flight. Numbers are rationals;
  the arrangement of the sections is in \<open>Dashboard_Layout\<close>, the texts of numbers in \<open>Formats\<close>.
  Translations are left out: a text of a card is the part that is not translated.
\<close>

subsection \<open>Figures\<close>

record top_user =
  container_id :: string
  tu_name :: string
  tu_value :: rat
  tu_unit :: string

record dashboard_overview =
  system_status :: string
  system_badge :: string
  cpu_percent :: "rat option"
  ram_used_bytes :: "rat option"
  ram_total_bytes :: "rat option"
  swap_used_bytes :: "rat option"
  swap_total_bytes :: "rat option"
  disk_free_bytes :: rat
  disk_total_bytes :: rat
  disk_free_percent :: rat
  network_rx_bytes :: "rat option"
  network_tx_bytes :: "rat option"
  containers_running :: nat
  containers_total :: nat
  containers_restarting :: nat
  restart_rate_1h :: nat
  restart_rate_24h :: nat
  api_error_rate_5xx :: rat
  postgres_connections :: "nat option"
  postgres_max_connections :: "nat option"
  gpu_util_percent :: "rat option"
  gpu_vram_used_bytes :: "rat option"
  gpu_vram_total_bytes :: "rat option"
  top_cpu_containers :: "top_user list"
  top_memory_containers :: "top_user list"

record health_item =
  hi_name :: string
  hi_status :: string
  hi_detail :: "string option"

record dashboard_health =
  overall_status :: string
  health_items :: "health_item list"

record gpu_device =
  gd_index :: nat
  gd_vendor :: string
  gd_model :: string
  vram_bytes :: rat

record hardware_info =
  hw_devices :: "gpu_device list"
  primary_vendor :: string
  primary_compute_api :: string
  has_gpu :: bool
  device_count :: nat

text \<open>A share of two sizes: none when one of them is missing or zero.\<close>

definition used_share :: "rat option \<Rightarrow> rat option \<Rightarrow> rat option" where
  "used_share used whole =
     (case (used, whole) of
        (Some u, Some t) \<Rightarrow> if u \<noteq> 0 \<and> t \<noteq> 0 \<and> \<not> t \<le> 0 then Some (u / t * 100) else None
      | _ \<Rightarrow> None)"

definition ramPercent :: "dashboard_overview option \<Rightarrow> rat option" where
  "ramPercent ov =
     (case ov of None \<Rightarrow> None | Some v \<Rightarrow> used_share (ram_used_bytes v) (ram_total_bytes v))"

definition diskUsedPercent :: "dashboard_overview option \<Rightarrow> rat option" where
  "diskUsedPercent ov = (case ov of None \<Rightarrow> None | Some v \<Rightarrow> Some (100 - disk_free_percent v))"

definition gpuVramPercent :: "dashboard_overview option \<Rightarrow> rat option" where
  "gpuVramPercent ov =
     (case ov of None \<Rightarrow> None | Some v \<Rightarrow> used_share (gpu_vram_used_bytes v) (gpu_vram_total_bytes v))"

definition gpu_util :: "dashboard_overview option \<Rightarrow> rat option" where
  "gpu_util ov = (case ov of None \<Rightarrow> None | Some v \<Rightarrow> gpu_util_percent v)"

definition detected :: "hardware_info option \<Rightarrow> bool" where
  "detected h = (case h of None \<Rightarrow> False | Some i \<Rightarrow> has_gpu i)"

definition gauge_shown :: "hardware_info option \<Rightarrow> dashboard_overview option \<Rightarrow> bool" where
  "gauge_shown h ov = (detected h \<or> gpu_util ov \<noteq> None \<or> gpuVramPercent ov \<noteq> None)"

definition gauge_value :: "dashboard_overview option \<Rightarrow> rat option" where
  "gauge_value ov = (case gpu_util ov of Some u \<Rightarrow> Some u | None \<Rightarrow> gpuVramPercent ov)"

definition gauge_text :: "dashboard_overview option \<Rightarrow> string option" where
  "gauge_text ov =
     (case (gpu_util ov, gpuVramPercent ov) of (None, Some v) \<Rightarrow> Some (toFixed v 1 @ ''%'') | _ \<Rightarrow> None)"

definition gauge_detail :: "dashboard_overview option \<Rightarrow> string option" where
  "gauge_detail ov =
     (case ov of None \<Rightarrow> None
      | Some v \<Rightarrow> if gpu_vram_total_bytes v \<noteq> None
                  then Some (fmtRatio (gpu_vram_used_bytes v) (gpu_vram_total_bytes v)) else None)"

text \<open>The model that is named: the first device of the main vendor, or the first of all.\<close>

definition primary_model :: "hardware_info \<Rightarrow> string" where
  "primary_model i =
     (case find (\<lambda>d. gd_vendor d = primary_vendor i) (hw_devices i) of
        Some d \<Rightarrow> gd_model d
      | None \<Rightarrow> (case hw_devices i of [] \<Rightarrow> [] | d # ds \<Rightarrow> gd_model d))"

text \<open>Value and detail of a card; the texts of the translation are left out.\<close>

definition count_text :: "nat option \<Rightarrow> string" where
  "count_text n = (case n of None \<Rightarrow> ''N/A'' | Some k \<Rightarrow> show_nat k)"

definition cards :: "dashboard_overview option \<Rightarrow> (string \<times> nat option) list" where
  "cards ov =
     (case ov of None \<Rightarrow> []
      | Some v \<Rightarrow>
          [(fmtBytes (network_rx_bytes v) @ '' / '' @ fmtBytes (network_tx_bytes v), None),
           (show_nat (containers_running v) @ '' / '' @ show_nat (containers_total v), Some (containers_restarting v)),
           (show_nat (restart_rate_1h v) @ '' / '' @ show_nat (restart_rate_24h v), None),
           (fmtPct (Some (api_error_rate_5xx v)), None),
           (count_text (postgres_connections v), postgres_max_connections v)])"

definition health_label :: "health_item \<Rightarrow> string" where
  "health_label i =
     (if truthy (hi_detail i) then hi_name i @ '': '' @ hi_status i @ '' ('' @ the (hi_detail i) @ '')''
      else hi_name i @ '': '' @ hi_status i)"

subsection \<open>The card of a node\<close>

record fleet_node =
  fn_id :: string
  fn_host :: string
  fn_status :: string
  fn_maintenance :: bool
  fn_cpu :: "rat option"
  fn_ram :: "rat option"
  fn_gpu :: "gpu_info option"

definition card_has_gpu :: "fleet_node \<Rightarrow> bool" where
  "card_has_gpu n =
     (case fn_gpu n of None \<Rightarrow> False
      | Some g \<Rightarrow> (case gpu_count g of None \<Rightarrow> False | Some k \<Rightarrow> 0 < k))"

definition card_vram_pct :: "fleet_node \<Rightarrow> rat option" where
  "card_vram_pct n =
     (case fn_gpu n of None \<Rightarrow> None
      | Some g \<Rightarrow>
          (case total_vram g of None \<Rightarrow> None
           | Some t \<Rightarrow>
               if t \<noteq> 0 \<and> t > 0 then Some ((case used_vram g of None \<Rightarrow> 0 | Some u \<Rightarrow> u) / t * 100) else None))"

text \<open>The length of a bar and the text beside it.\<close>

definition ProgressBar :: "rat option \<Rightarrow> (rat \<times> string) option" where
  "ProgressBar v = map_option (\<lambda>x. (min x 100, toFixed x 1 @ ''%'')) v"

definition card_bars :: "fleet_node \<Rightarrow> (rat \<times> string) option list" where
  "card_bars n =
     map ProgressBar ([fn_cpu n, fn_ram n] @ (if card_has_gpu n then [card_vram_pct n] else []))"

definition card_state :: "fleet_node \<Rightarrow> string" where
  "card_state n = (if fn_maintenance n then ''maintenance'' else fn_status n)"

subsection \<open>The page and its requests\<close>

datatype part = PtOverview | PtHealth | PtHardware | PtProviders | PtNodes

record dashboard =
  overview :: "dashboard_overview option"
  health :: "dashboard_health option"
  hw :: "hardware_info option"
  llmProviders :: "provider list"
  nodes :: "fleet_node list"
  refreshing :: bool
  rescanning :: bool
  db_error :: "string option"
  initialNodeFetchDone :: bool
  parts :: "part list"
  polls :: nat
  gets :: "string list"
  cards_refreshing :: "string list"

text \<open>The value a part of the page gets; a failure is \<open>Inl\<close>.\<close>

datatype loaded_value =
    VOverview dashboard_overview
  | VHealth dashboard_health
  | VHardware hardware_info
  | VProviders "provider list"
  | VNodes "fleet_node list"

fun part_of :: "loaded_value \<Rightarrow> part" where
  "part_of (VOverview _) = PtOverview"
| "part_of (VHealth _) = PtHealth"
| "part_of (VHardware _) = PtHardware"
| "part_of (VProviders _) = PtProviders"
| "part_of (VNodes _) = PtNodes"

definition empty_dashboard :: dashboard where
  "empty_dashboard =
     \<lparr>overview = None, health = None, hw = None, llmProviders = [], nodes = [], refreshing = True,
      rescanning = False, db_error = None, initialNodeFetchDone = False, parts = [], polls = 0, gets = [],
      cards_refreshing = []\<rparr>"

definition loadAll :: "dashboard \<Rightarrow> dashboard" where
  "loadAll d =
     d\<lparr>refreshing := True, db_error := None,
       parts := [PtOverview, PtHealth, PtHardware, PtProviders, PtNodes]\<rparr>"

text \<open>The effect on the nodes: once there are nodes, each is asked for, once.\<close>

definition nodes_effect :: "dashboard \<Rightarrow> dashboard" where
  "nodes_effect d =
     (if nodes d = [] \<or> initialNodeFetchDone d then d
      else d\<lparr>initialNodeFetchDone := True, gets := gets d @ map fn_id (nodes d)\<rparr>)"

definition set_nodes :: "fleet_node list \<Rightarrow> dashboard \<Rightarrow> dashboard" where
  "set_nodes ns d = nodes_effect (d\<lparr>nodes := ns\<rparr>)"

definition handleRefreshNode :: "fleet_node \<Rightarrow> dashboard \<Rightarrow> dashboard" where
  "handleRefreshNode u d = set_nodes (map (\<lambda>n. if fn_id n = fn_id u then u else n) (nodes d)) d"

fun take_value :: "loaded_value \<Rightarrow> dashboard \<Rightarrow> dashboard" where
  "take_value (VOverview v) d = d\<lparr>overview := Some v\<rparr>"
| "take_value (VHealth v) d = d\<lparr>health := Some v\<rparr>"
| "take_value (VHardware v) d = d\<lparr>hw := Some v\<rparr>"
| "take_value (VProviders v) d = d\<lparr>llmProviders := v\<rparr>"
| "take_value (VNodes v) d = set_nodes v d"

text \<open>One of the five is answered; the last answer ends the refresh.\<close>

definition settle :: "part \<Rightarrow> dashboard \<Rightarrow> dashboard" where
  "settle p d =
     (let rest = remove1 p (parts d)
      in d\<lparr>parts := rest, refreshing := (if rest = [] then False else refreshing d)\<rparr>)"

definition part_loaded :: "loaded_value \<Rightarrow> dashboard \<Rightarrow> dashboard" where
  "part_loaded v d = settle (part_of v) (take_value v d)"

definition part_failed :: "part \<Rightarrow> string \<Rightarrow> dashboard \<Rightarrow> dashboard" where
  "part_failed p msg d = settle p (if p = PtOverview then d\<lparr>db_error := Some msg\<rparr> else d)"

definition poll_tick :: "dashboard \<Rightarrow> dashboard" where
  "poll_tick d = d\<lparr>polls := polls d + 1\<rparr>"

definition poll_answered :: "fleet_node list option \<Rightarrow> dashboard \<Rightarrow> dashboard" where
  "poll_answered a d =
     (let d1 = d\<lparr>polls := polls d - 1\<rparr> in case a of None \<Rightarrow> d1 | Some ns \<Rightarrow> set_nodes ns d1)"

definition get_answered :: "string \<Rightarrow> fleet_node option \<Rightarrow> dashboard \<Rightarrow> dashboard" where
  "get_answered i a d =
     (let d1 = d\<lparr>gets := remove1 i (gets d)\<rparr> in case a of None \<Rightarrow> d1 | Some u \<Rightarrow> handleRefreshNode u d1)"

text \<open>The button of a card, and its answer.\<close>

definition card_refresh :: "string \<Rightarrow> dashboard \<Rightarrow> dashboard" where
  "card_refresh i d = d\<lparr>cards_refreshing := i # cards_refreshing d\<rparr>"

definition card_refreshed :: "string \<Rightarrow> fleet_node option \<Rightarrow> dashboard \<Rightarrow> dashboard" where
  "card_refreshed i a d =
     (let d1 = (case a of None \<Rightarrow> d | Some u \<Rightarrow> handleRefreshNode u d)
      in d1\<lparr>cards_refreshing := remove1 i (cards_refreshing d1)\<rparr>)"

definition rescanGpu :: "dashboard \<Rightarrow> dashboard" where
  "rescanGpu d = d\<lparr>rescanning := True\<rparr>"

definition rescanned :: "string + hardware_info \<Rightarrow> dashboard \<Rightarrow> dashboard" where
  "rescanned a d =
     (case a of Inl msg \<Rightarrow> d\<lparr>db_error := Some msg\<rparr> | Inr h \<Rightarrow> d\<lparr>hw := Some h\<rparr>)\<lparr>rescanning := False\<rparr>"

text \<open>
  The steps, for a server that answers a request for a node with that node. \<open>visible\<close> tells whether
  the fleet is shown, which the timer of the polling needs. The button of a card is disabled while
  the card waits; a card that was removed and shown again starts anew, so no step asks for it.
\<close>

inductive dash_step :: "bool \<Rightarrow> dashboard \<Rightarrow> dashboard \<Rightarrow> bool" for visible where
  refresh: "\<not> refreshing d \<Longrightarrow> dash_step visible d (loadAll d)"
| loaded: "part_of v \<in> set (parts d) \<Longrightarrow> dash_step visible d (part_loaded v d)"
| failed: "p \<in> set (parts d) \<Longrightarrow> dash_step visible d (part_failed p msg d)"
| tick: "visible \<Longrightarrow> dash_step visible d (poll_tick d)"
| polled: "0 < polls d \<Longrightarrow> dash_step visible d (poll_answered a d)"
| got: "i \<in> set (gets d) \<Longrightarrow> (\<forall>u. a = Some u \<longrightarrow> fn_id u = i) \<Longrightarrow> dash_step visible d (get_answered i a d)"
| press: "i \<in> fn_id ` set (nodes d) \<Longrightarrow> dash_step visible d (card_refresh i d)"
| pressed: "i \<in> set (cards_refreshing d) \<Longrightarrow> (\<forall>u. a = Some u \<longrightarrow> fn_id u = i) \<Longrightarrow>
    dash_step visible d (card_refreshed i a d)"
| rescan: "\<not> rescanning d \<Longrightarrow> dash_step visible d (rescanGpu d)"
| scanned: "rescanning d \<Longrightarrow> dash_step visible d (rescanned a d)"

definition dash_reachable :: "bool \<Rightarrow> dashboard \<Rightarrow> bool" where
  "dash_reachable visible d = (dash_step visible)\<^sup>*\<^sup>* (loadAll empty_dashboard) d"

subsection \<open>Lemmas\<close>

lemma set_nodes_fields [simp]:
  "nodes (set_nodes ns d) = ns" "parts (set_nodes ns d) = parts d" "refreshing (set_nodes ns d) = refreshing d"
  "polls (set_nodes ns d) = polls d" "db_error (set_nodes ns d) = db_error d"
  "health (set_nodes ns d) = health d" "overview (set_nodes ns d) = overview d" "hw (set_nodes ns d) = hw d"
  "cards_refreshing (set_nodes ns d) = cards_refreshing d" "llmProviders (set_nodes ns d) = llmProviders d"
  by (simp_all add: set_nodes_def nodes_effect_def)

lemma handleRefreshNode_fields [simp]:
  "parts (handleRefreshNode u d) = parts d" "refreshing (handleRefreshNode u d) = refreshing d"
  "polls (handleRefreshNode u d) = polls d" "db_error (handleRefreshNode u d) = db_error d"
  "nodes (handleRefreshNode u d) = map (\<lambda>n. if fn_id n = fn_id u then u else n) (nodes d)"
  by (simp_all add: handleRefreshNode_def)

lemma take_value_fields [simp]:
  "parts (take_value v d) = parts d" "refreshing (take_value v d) = refreshing d" "polls (take_value v d) = polls d"
  "db_error (take_value v d) = db_error d"
  by (cases v; simp)+

lemma settle_fields [simp]:
  "parts (settle p d) = remove1 p (parts d)" "polls (settle p d) = polls d" "nodes (settle p d) = nodes d"
  "refreshing (settle p d) = (remove1 p (parts d) \<noteq> [] \<and> refreshing d)" "db_error (settle p d) = db_error d"
  "initialNodeFetchDone (settle p d) = initialNodeFetchDone d" "gets (settle p d) = gets d"
  by (simp_all add: settle_def Let_def)

lemma part_loaded_fields [simp]:
  "parts (part_loaded v d) = remove1 (part_of v) (parts d)"
  "refreshing (part_loaded v d) = (remove1 (part_of v) (parts d) \<noteq> [] \<and> refreshing d)"
  "polls (part_loaded v d) = polls d"
  by (simp_all add: part_loaded_def)

lemma part_failed_fields [simp]:
  "parts (part_failed p msg d) = remove1 p (parts d)"
  "refreshing (part_failed p msg d) = (remove1 p (parts d) \<noteq> [] \<and> refreshing d)"
  "polls (part_failed p msg d) = polls d"
  by (simp_all add: part_failed_def)

definition spinner_ok :: "dashboard \<Rightarrow> bool" where
  "spinner_ok d = (distinct (parts d) \<and> (refreshing d \<longleftrightarrow> parts d \<noteq> []))"

lemma spinner_step: "dash_step visible d e \<Longrightarrow> spinner_ok d \<Longrightarrow> spinner_ok e"
  by (induction rule: dash_step.induct)
    (auto simp: spinner_ok_def loadAll_def poll_tick_def poll_answered_def get_answered_def card_refresh_def
      card_refreshed_def rescanGpu_def rescanned_def Let_def split: option.splits sum.splits)

subsection \<open>Properties\<close>

text \<open>The spinner turns exactly while one of the five requests of a refresh waits.\<close>

theorem spinner_iff_waiting:
  assumes "dash_reachable visible d"
  shows "distinct (parts d) \<and> (refreshing d \<longleftrightarrow> parts d \<noteq> [])"
proof -
  have "spinner_ok d"
    using assms unfolding dash_reachable_def
    by (induction rule: rtranclp_induct) (simp add: spinner_ok_def loadAll_def, rule spinner_step)
  then show ?thesis by (simp add: spinner_ok_def)
qed

text \<open>However the five are answered, and in which order, the refresh ends.\<close>

datatype part_answer = Failed part string | Loaded loaded_value

fun answered_part :: "part_answer \<Rightarrow> part" where
  "answered_part (Failed p _) = p"
| "answered_part (Loaded v) = part_of v"

fun answer_part :: "part_answer \<Rightarrow> dashboard \<Rightarrow> dashboard" where
  "answer_part (Failed p msg) d = part_failed p msg d"
| "answer_part (Loaded v) d = part_loaded v d"

lemma answer_part_fields [simp]:
  "parts (answer_part a d) = remove1 (answered_part a) (parts d)"
  "refreshing (answer_part a d) = (remove1 (answered_part a) (parts d) \<noteq> [] \<and> refreshing d)"
  by (cases a; simp)+

theorem refresh_settles:
  assumes "mset (map answered_part answers) = mset (parts d)" "refreshing d \<longleftrightarrow> parts d \<noteq> []"
  shows "\<not> refreshing (fold answer_part answers d) \<and> parts (fold answer_part answers d) = []"
  using assms
proof (induction answers arbitrary: d)
  case (Cons a answers)
  have "mset (map answered_part answers) = mset (remove1 (answered_part a) (parts d))"
    using Cons.prems(1) by (metis add_mset_remove_trivial list.simps(9) mset.simps(2) mset_remove1)
  moreover have "parts d \<noteq> []" using Cons.prems(1) by auto
  ultimately show ?case using Cons by simp
qed simp

text \<open>Only the overview and the scan report a failure; the other parts keep what they show.\<close>

theorem failure_reported:
  "db_error (part_failed p msg d) = (if p = PtOverview then Some msg else db_error d)
   \<and> overview (part_failed p msg d) = overview d \<and> health (part_failed p msg d) = health d
   \<and> hw (part_failed p msg d) = hw d \<and> llmProviders (part_failed p msg d) = llmProviders d
   \<and> nodes (part_failed p msg d) = nodes d"
  by (simp add: part_failed_def settle_def Let_def)

text \<open>A refreshed node replaces itself; no node comes or goes by it.\<close>

theorem node_replaced:
  "map fn_id (nodes (handleRefreshNode u d)) = map fn_id (nodes d)
   \<and> (\<forall>n. n \<in> set (nodes (handleRefreshNode u d)) \<longleftrightarrow>
        (if fn_id n = fn_id u then n = u \<and> fn_id u \<in> fn_id ` set (nodes d) else n \<in> set (nodes d)))"
  by (auto simp: comp_def intro: rev_image_eqI)

text \<open>The nodes are asked for one by one once, as soon as there are nodes.\<close>

theorem asked_with_first_nodes:
  assumes "dash_reachable visible d"
  shows "initialNodeFetchDone d \<or> nodes d = [] \<and> gets d = []"
  using assms unfolding dash_reachable_def
proof (induction rule: rtranclp_induct)
  case (step d e)
  have set_ok: "initialNodeFetchDone (set_nodes ns d) \<or> nodes (set_nodes ns d) = [] \<and> gets (set_nodes ns d) = []"
    if "initialNodeFetchDone d \<or> gets d = []" for ns d
    using that by (auto simp: set_nodes_def nodes_effect_def)
  have take_ok: "initialNodeFetchDone (take_value v d) \<or> nodes (take_value v d) = [] \<and> gets (take_value v d) = []" for v
    using step.IH set_ok by (cases v) auto
  show ?case
    using step.hyps(2)
  proof cases
    case (loaded v)
    then show ?thesis using take_ok [of v] by (auto simp: part_loaded_def)
  next
    case (failed p msg)
    then show ?thesis using step.IH by (auto simp: part_failed_def)
  next
    case (polled a)
    then show ?thesis using step.IH set_ok [of "d\<lparr>polls := polls d - 1\<rparr>"]
      by (auto simp: poll_answered_def Let_def split: option.splits)
  next
    case (got i a)
    then have "initialNodeFetchDone d" using step.IH by auto
    with got show ?thesis
      by (auto simp: get_answered_def handleRefreshNode_def set_nodes_def nodes_effect_def Let_def split: option.splits)
  next
    case (pressed i a)
    then show ?thesis
      using step.IH set_ok [of d]
      by (auto simp: card_refreshed_def handleRefreshNode_def Let_def split: option.splits)
  qed (use step.IH in \<open>auto simp: loadAll_def poll_tick_def card_refresh_def rescanGpu_def rescanned_def split: sum.splits\<close>)
qed (simp add: loadAll_def empty_dashboard_def)

text \<open>A fleet that is not shown is not polled.\<close>

theorem hidden_fleet_not_polled:
  assumes "dash_reachable False d"
  shows "polls d = 0"
  using assms unfolding dash_reachable_def
proof (induction rule: rtranclp_induct)
  case (step d e)
  from step.hyps(2) show ?case
    by cases (use step.IH in \<open>auto simp: loadAll_def get_answered_def card_refresh_def card_refreshed_def
        rescanGpu_def rescanned_def Let_def split: option.splits sum.splits\<close>)
qed (simp add: loadAll_def empty_dashboard_def)

text \<open>A list that was asked for before a node was refreshed replaces what the refresh showed.\<close>

theorem old_list_replaces_refresh:
  "nodes (poll_answered (Some ns) (card_refreshed i a d)) = ns"
  by (simp add: poll_answered_def Let_def)

text \<open>A share is a percentage when the part is a part of the whole.\<close>

theorem share_is_percentage:
  assumes "used_share (Some u) (Some w) = Some x" "0 \<le> u" "u \<le> w"
  shows "0 < x \<and> x \<le> 100"
proof -
  have "x = u / w * 100" "0 < w" "0 < u" using assms by (auto simp: used_share_def split: if_splits)
  with assms(3) show ?thesis by (simp add: divide_le_eq)
qed

text \<open>The gauge of the graphics card is shown with a value, or for a card that was detected.\<close>

theorem gauge_has_value:
  "gauge_shown h ov = (detected h \<or> gauge_value ov \<noteq> None)"
  by (auto simp: gauge_shown_def gauge_value_def split: option.splits)

text \<open>The text inside the gauge is the share of its memory, and only where no load is known.\<close>

theorem gauge_text_is_value:
  "gauge_text ov = (case gpu_util ov of None \<Rightarrow> map_option (\<lambda>x. toFixed x 1 @ ''%'') (gauge_value ov) | Some u \<Rightarrow> None)"
  by (simp add: gauge_text_def gauge_value_def split: option.splits)

text \<open>
  An idle graphics card, none of its memory used, is no value for the gauge of the dashboard, while the
  card of a node shows it as zero.
\<close>

theorem idle_memory_differs:
  assumes "0 < w"
  shows "used_share (Some 0) (Some w) = None
    \<and> card_vram_pct \<lparr>fn_id = i, fn_host = h, fn_status = st, fn_maintenance = m, fn_cpu = c, fn_ram = r,
         fn_gpu = Some \<lparr>gpu_count = k, total_vram = Some w, used_vram = Some 0, gpu_devices = 0\<rparr>\<rparr> = Some 0"
  using assms by (simp add: used_share_def card_vram_pct_def)

text \<open>The bars of a node are no longer than the card, and there are two or three of them.\<close>

theorem bars_fit:
  "list_all (\<lambda>b. case b of None \<Rightarrow> True | Some (len, _) \<Rightarrow> len \<le> 100) (card_bars n)
   \<and> length (card_bars n) = (if card_has_gpu n then 3 else 2)"
  by (auto simp: card_bars_def ProgressBar_def list_all_iff split: option.splits)

text \<open>The model shown is of the main vendor whenever a device of that vendor is listed.\<close>

theorem primary_model_of_vendor:
  "list_all (\<lambda>d. gd_vendor d \<noteq> primary_vendor i) (hw_devices i)
   \<or> primary_model i \<in> gd_model ` {d \<in> set (hw_devices i). gd_vendor d = primary_vendor i}"
proof (cases "find (\<lambda>d. gd_vendor d = primary_vendor i) (hw_devices i)")
  case None
  then show ?thesis by (auto simp: find_None_iff list_all_iff)
next
  case (Some d)
  then show ?thesis using find_SomeD [OF Some] by (auto simp: primary_model_def)
qed

end
