(* ===== verification/Container_Policy.thy ===== *)
theory Container_Policy
  imports Prelude
begin

text \<open>
  What may be done to a container: the tests of the front end (\<^verbatim>\<open>canStop\<close> and its neighbours in
  \<^verbatim>\<open>api/admin.ts\<close>) and the buttons of \<^verbatim>\<open>pages/admin/ContainersPage.tsx\<close> and
  \<^verbatim>\<open>pages/admin/ContainerDetailPage.tsx\<close>, against the policy of the server
  (\<^verbatim>\<open>services/policy/enforcement.py\<close> of the backend) and its classification of containers by name.
  An action of a page is a function of the answers of its requests. The columns of the table are
  not modelled.
\<close>

subsection \<open>The server\<close>

datatype container_class = SystemCore | SystemAux | Mcp | TenantApp | Untrusted

datatype container_policy = Locked | Restricted | Free

datatype action =
    View | LogsView | Start | Stop | Restart | Pause | Unpause | Exec | UpdateConfig | Delete
  | ImagePull | ImagePrune | StackDeploy | StackUpdate | StackRollback

text \<open>The matrix of what an administrator may do without root mode.\<close>

definition tenant_allow :: "action \<Rightarrow> bool" where
  "tenant_allow a = (a \<noteq> ImagePrune)"

definition system_allow :: "action \<Rightarrow> bool" where
  "system_allow a = (a \<in> {View, LogsView, Start, Stop, Restart, ImagePull})"

definition core_allow :: "action \<Rightarrow> bool" where
  "core_allow a = (a \<in> {View, LogsView, Start, Restart, ImagePull})"

definition untrusted_allow :: "action \<Rightarrow> bool" where
  "untrusted_allow a = (a \<in> {View, LogsView})"

fun ADMIN_ALLOW :: "container_class \<Rightarrow> action \<Rightarrow> bool" where
  "ADMIN_ALLOW TenantApp a = tenant_allow a"
| "ADMIN_ALLOW SystemAux a = system_allow a"
| "ADMIN_ALLOW Mcp a = system_allow a"
| "ADMIN_ALLOW SystemCore a = core_allow a"
| "ADMIN_ALLOW Untrusted a = untrusted_allow a"

definition LOCKED_DENY_ACTIONS :: "action list" where
  "LOCKED_DENY_ACTIONS = [Stop, Pause, Exec, UpdateConfig, Delete]"

definition check :: "action \<Rightarrow> container_class \<Rightarrow> container_policy \<Rightarrow> bool \<Rightarrow> bool" where
  "check a c p root =
     (if p = Locked \<and> a \<in> set LOCKED_DENY_ACTIONS then False
      else if root then True
      else ADMIN_ALLOW c a)"

text \<open>The class of a container that is not registered: the first group with a word in its name.\<close>

definition core_words :: "string list" where
  "core_words =
     [''postgres'', ''clickhouse'', ''redis'', ''nginx'', ''rabbitmq'', ''rmq'', ''minio'', ''loki'', ''grafana'',
      ''alloy'', ''langfuse'', ''llm-port-worker'', ''llm-port-web'']"

definition aux_words :: "string list" where
  "aux_words =
     [''llm-port-api'', ''llm_port_api'', ''llm-port-backend'', ''llm-port-frontend'', ''llm-port-mcp'',
      ''llm-port-skills'', ''llm-port-pii'', ''llm-port-rag'', ''llm-port-auth'', ''llm-port-mailer'',
      ''llm-port-docling'', ''llm-port-ee'', ''migrator'']"

definition mcp_words :: "string list" where
  "mcp_words = [''mcp-brave'', ''mcp-searxng'', ''mcp-'']"

definition AUTO_CLASS_RULES :: "(string list \<times> container_class \<times> string) list" where
  "AUTO_CLASS_RULES =
     [(core_words, SystemCore, ''platform''), (aux_words, SystemAux, ''platform''), (mcp_words, Mcp, ''platform'')]"

definition has_word :: "string \<Rightarrow> string list \<Rightarrow> bool" where
  "has_word name ws = list_ex (\<lambda>w. has_infix (to_lower name) w) ws"

definition classify_by_name :: "string \<Rightarrow> container_class \<times> string" where
  "classify_by_name name =
     (case find (\<lambda>r. has_word name (fst r)) AUTO_CLASS_RULES of
        Some r \<Rightarrow> snd r
      | None \<Rightarrow> (Untrusted, ''unknown''))"

subsection \<open>The tests of the front end\<close>

definition canExec :: "container_class \<Rightarrow> bool \<Rightarrow> bool" where
  "canExec c root = (if c = TenantApp then True else root)"

definition canStop :: "container_class \<Rightarrow> bool \<Rightarrow> bool" where
  "canStop c root =
     (if c = Untrusted then False
      else if c = TenantApp \<or> c = SystemAux \<or> c = Mcp then True
      else if c = SystemCore then root
      else False)"

definition canDelete :: "container_class \<Rightarrow> bool \<Rightarrow> bool" where
  "canDelete c root = (if c = Untrusted then False else if c = TenantApp then True else root)"

definition canPause :: "container_class \<Rightarrow> bool \<Rightarrow> bool" where
  "canPause c root = (if c = Untrusted \<or> c = Mcp then False else if c = TenantApp then True else root)"

definition canLogs :: "container_class \<Rightarrow> bool \<Rightarrow> bool" where
  "canLogs c root = True"

subsection \<open>The list of containers\<close>

record container =
  ct_id :: string
  ct_name :: string
  ct_state :: string
  ct_class :: container_class
  ct_policy :: container_policy
  ct_scope :: string

definition is_running :: "container \<Rightarrow> bool" where
  "is_running c = (to_lower (ct_state c) = ''running'')"

definition is_paused :: "container \<Rightarrow> bool" where
  "is_paused c = (to_lower (ct_state c) = ''paused'')"

text \<open>The buttons of a row, each with its action.\<close>

definition row_buttons :: "bool \<Rightarrow> container \<Rightarrow> action list" where
  "row_buttons root c =
     (let running = is_running c; paused = is_paused c; cls = ct_class c
      in (if \<not> running \<and> \<not> paused then [Start] else [])
       @ (if (running \<or> paused) \<and> canStop cls root then [Stop] else [])
       @ (if running \<and> canPause cls root then [Pause] else [])
       @ (if paused then [Unpause] else [])
       @ (if running then [Restart] else [])
       @ (if canDelete cls root then [Delete] else []))"

text \<open>The console of the page of a container.\<close>

definition console_buttons :: "bool \<Rightarrow> container \<Rightarrow> action list" where
  "console_buttons root c = (if canExec (ct_class c) root then [Exec] else [])"

definition CLASS_OPTIONS :: "container_class list" where
  "CLASS_OPTIONS = [SystemCore, SystemAux, Mcp, TenantApp, Untrusted]"

definition LOCKED_CLASSES :: "container_class list" where
  "LOCKED_CLASSES = [SystemCore]"

text \<open>The classes a row offers; a locked one is shown without a choice.\<close>

definition class_choice :: "container \<Rightarrow> container_class list" where
  "class_choice c = (if ct_class c \<in> set LOCKED_CLASSES then [] else CLASS_OPTIONS)"

record containers_page =
  rows :: "container list"
  filterClasses :: "container_class list"
  actionLoading :: "string option"
  shown_alert :: "string option"

definition containers_opened :: containers_page where
  "containers_opened = \<lparr>rows = [], filterClasses = CLASS_OPTIONS, actionLoading = None, shown_alert = None\<rparr>"

definition shown_rows :: "containers_page \<Rightarrow> container list" where
  "shown_rows p = filter (\<lambda>c. ct_class c \<in> set (filterClasses p)) (rows p)"

definition highlightId :: "string option \<Rightarrow> containers_page \<Rightarrow> string option" where
  "highlightId name p =
     (if \<not> truthy name then None
      else map_option ct_id (find (\<lambda>c. has_infix (to_lower (ct_name c)) (to_lower (the name))) (rows p)))"

definition row_busy :: "containers_page \<Rightarrow> container \<Rightarrow> bool" where
  "row_busy p c = (case actionLoading p of None \<Rightarrow> False | Some k \<Rightarrow> starts_with k (ct_id c))"

fun action_name :: "action \<Rightarrow> string" where
  "action_name Start = ''start''"
| "action_name Stop = ''stop''"
| "action_name Restart = ''restart''"
| "action_name Pause = ''pause''"
| "action_name Unpause = ''unpause''"
| "action_name _ = ''delete''"

definition action_key :: "string \<Rightarrow> string \<Rightarrow> string" where
  "action_key i a = i @ ''-'' @ a"

text \<open>
  An action and its answer: a failure of the action is shown; after a success the list is loaded
  again, \<open>Inl\<close> a failure of that, which the list itself reports.
\<close>

definition handleAction :: "string \<Rightarrow> action \<Rightarrow> containers_page \<Rightarrow> containers_page" where
  "handleAction i a p = p\<lparr>actionLoading := Some (action_key i (action_name a))\<rparr>"

definition handleDelete :: "bool \<Rightarrow> string \<Rightarrow> containers_page \<Rightarrow> containers_page" where
  "handleDelete confirmed i p =
     (if \<not> confirmed then p else p\<lparr>actionLoading := Some (action_key i ''delete'')\<rparr>)"

definition action_answered :: "string option \<Rightarrow> string + container list \<Rightarrow> containers_page \<Rightarrow> containers_page" where
  "action_answered failed listed p =
     (case failed of
        Some msg \<Rightarrow> p\<lparr>shown_alert := Some msg\<rparr>
      | None \<Rightarrow> (case listed of Inl e \<Rightarrow> p | Inr cs \<Rightarrow> p\<lparr>rows := cs\<rparr>))\<lparr>actionLoading := None\<rparr>"

text \<open>What is registered when a class is chosen, if anything is.\<close>

definition handleClassChange ::
  "container \<Rightarrow> container_class \<Rightarrow> containers_page
     \<Rightarrow> containers_page \<times> (string \<times> container_class \<times> string \<times> container_policy) option" where
  "handleClassChange c new p =
     (if new = ct_class c then (p, None)
      else (p\<lparr>actionLoading := Some (action_key (ct_id c) ''class'')\<rparr>,
            Some (ct_id c, new, ct_scope c, ct_policy c)))"

subsection \<open>Properties\<close>

text \<open>
  Stop, pause, delete and the console are offered only where the server allows them, unless the
  container is locked; for the console the two agree.
\<close>

theorem guarded_buttons_allowed:
  assumes "a \<in> set (row_buttons root c @ console_buttons root c)" "a \<in> {Stop, Pause, Delete, Exec}" "ct_policy c \<noteq> Locked"
  shows "check a (ct_class c) (ct_policy c) root"
  using assms
  by (cases "ct_class c")
    (auto simp: row_buttons_def console_buttons_def check_def canStop_def canPause_def canDelete_def canExec_def
      tenant_allow_def system_allow_def core_allow_def untrusted_allow_def Let_def split: if_splits)

theorem guarded_buttons_allowed_witness:
  "check Delete TenantApp Free False"
  using guarded_buttons_allowed [of Delete False
      "\<lparr>ct_id = ''a'', ct_name = ''a'', ct_state = ''exited'', ct_class = TenantApp, ct_policy = Free, ct_scope = []\<rparr>"]
  by (simp add: row_buttons_def canDelete_def Let_def)

theorem console_as_allowed:
  assumes "ct_policy c \<noteq> Locked"
  shows "console_buttons root c = [Exec] \<longleftrightarrow> check Exec (ct_class c) (ct_policy c) root"
  using assms
  by (cases "ct_class c")
    (auto simp: console_buttons_def canExec_def check_def tenant_allow_def system_allow_def core_allow_def untrusted_allow_def)

text \<open>
  What the server allows is offered as well, but for untrusted containers, and for pausing a tool server
  in root mode.
\<close>

theorem allowed_actions_offered:
  assumes "check a (ct_class c) (ct_policy c) root" "ct_class c \<noteq> Untrusted" "ct_policy c \<noteq> Locked"
  shows "(a = Stop \<longrightarrow> canStop (ct_class c) root) \<and> (a = Delete \<longrightarrow> canDelete (ct_class c) root)
    \<and> (a = Pause \<and> ct_class c \<noteq> Mcp \<longrightarrow> canPause (ct_class c) root)"
  using assms
  by (cases "ct_class c")
    (auto simp: check_def canStop_def canPause_def canDelete_def tenant_allow_def system_allow_def core_allow_def
      split: if_splits)

text \<open>Three actions are offered without a test: the server refuses them for some containers.\<close>

theorem unguarded_buttons_refused:
  "(Unpause \<in> set (row_buttons False c) \<longrightarrow> ct_class c = TenantApp \<or> \<not> check Unpause (ct_class c) (ct_policy c) False)
   \<and> (Start \<in> set (row_buttons False c) \<and> ct_class c = Untrusted \<longrightarrow> \<not> check Start (ct_class c) (ct_policy c) False)
   \<and> (Restart \<in> set (row_buttons False c) \<and> ct_class c = Untrusted \<longrightarrow> \<not> check Restart (ct_class c) (ct_policy c) False)"
  by (cases "ct_class c")
    (auto simp: check_def LOCKED_DENY_ACTIONS_def system_allow_def core_allow_def untrusted_allow_def)

text \<open>A locked container has its buttons too, and the server refuses them also in root mode.\<close>

theorem locked_buttons_refused:
  assumes "ct_policy c = Locked" "ct_class c \<noteq> Untrusted"
  shows "Delete \<in> set (row_buttons True c) \<and> \<not> check Delete (ct_class c) (ct_policy c) True"
  using assms by (simp add: check_def LOCKED_DENY_ACTIONS_def row_buttons_def canDelete_def Let_def)

text \<open>A row offers each action once, and one that changes the state whenever there is one.\<close>

theorem row_buttons_distinct: "distinct (row_buttons root c)"
  by (auto simp: row_buttons_def Let_def)

theorem row_never_stuck:
  "Start \<in> set (row_buttons root c) \<or> Restart \<in> set (row_buttons root c) \<or> Unpause \<in> set (row_buttons root c)"
  by (auto simp: row_buttons_def Let_def)

text \<open>A choice of the class that makes a container part of the core cannot be taken back.\<close>

theorem core_choice_final:
  "(ct_class c = SystemCore \<or> SystemCore \<in> set (class_choice c)) \<and> class_choice (c\<lparr>ct_class := SystemCore\<rparr>) = []"
  by (simp add: class_choice_def LOCKED_CLASSES_def CLASS_OPTIONS_def)

text \<open>
  The choice of a class asks for no root mode: a container that may not be deleted without it can
  be registered as one of a tenant, and then be deleted.
\<close>

theorem reclassifying_lifts_policy:
  assumes "ct_class c \<in> {SystemAux, Mcp, Untrusted}" "ct_policy c \<noteq> Locked"
  shows "\<not> check Delete (ct_class c) (ct_policy c) False
    \<and> TenantApp \<in> set (class_choice c)
    \<and> snd (handleClassChange c TenantApp p) = Some (ct_id c, TenantApp, ct_scope c, ct_policy c)
    \<and> check Delete TenantApp (ct_policy c) False
    \<and> Delete \<in> set (row_buttons False (c\<lparr>ct_class := TenantApp\<rparr>))"
  using assms
  by (auto simp: check_def system_allow_def untrusted_allow_def tenant_allow_def class_choice_def LOCKED_CLASSES_def
    CLASS_OPTIONS_def handleClassChange_def row_buttons_def canDelete_def Let_def)

theorem reclassifying_lifts_policy_witness:
  "check Delete TenantApp Free False"
  using reclassifying_lifts_policy [of "\<lparr>ct_id = ''a'', ct_name = ''a'', ct_state = ''exited'', ct_class = Mcp, ct_policy = Free, ct_scope = []\<rparr>"]
  by simp

text \<open>Registering a class keeps scope and policy, and the same class is not registered again.\<close>

theorem class_change_request:
  "snd (handleClassChange c new p) = (if new = ct_class c then None else Some (ct_id c, new, ct_scope c, ct_policy c))"
  by (simp add: handleClassChange_def)

text \<open>Every class is among those the filter starts with, so all rows are shown at first.\<close>

theorem all_shown_at_first: "filterClasses p = CLASS_OPTIONS \<Longrightarrow> shown_rows p = rows p"
proof -
  have "c \<in> set CLASS_OPTIONS" for c by (cases c) (simp_all add: CLASS_OPTIONS_def)
  then show "filterClasses p = CLASS_OPTIONS \<Longrightarrow> shown_rows p = rows p" by (simp add: shown_rows_def)
qed

text \<open>A row with an action under way is busy, and a row whose id is a proper beginning of another's too.\<close>

theorem acting_row_busy:
  "row_busy (handleAction i a p) c = starts_with (action_key i (action_name a)) (ct_id c)
   \<and> (ct_id c = i \<longrightarrow> row_busy (handleAction i a p) c)"
  by (simp add: row_busy_def handleAction_def action_key_def)

text \<open>A name is classified by the first group with a word in it; only a name without any is untrusted.\<close>

theorem classified_by_first_group:
  "fst (classify_by_name name) =
     (if has_word name core_words then SystemCore else if has_word name aux_words then SystemAux
      else if has_word name mcp_words then Mcp else Untrusted)"
  by (simp add: classify_by_name_def AUTO_CLASS_RULES_def)

text \<open>So an unregistered container of a tenant that is named after a data base is part of the core.\<close>

theorem tenant_named_like_core:
  "fst (classify_by_name ''shop-postgres-1'') = SystemCore \<and> \<not> check Stop SystemCore Free False"
  by code_simp

end
