(* ===== verification/Image_Page.thy ===== *)
theory Image_Page
  imports Formats Container_Policy
begin

text \<open>
  The images of the engine, \<^verbatim>\<open>pages/admin/ImagesPage.tsx\<close> with \<^verbatim>\<open>pullProgress\<close> of \<^verbatim>\<open>api/admin.ts\<close>: a
  pull whose progress is read from a stream of events, and the pruning. The streams that are open are
  part of the state; one that is closed delivers no event. The loading of the list is counted. The table is
  not modelled.
\<close>

subsection \<open>Sizes\<close>

definition bytes :: "nat \<Rightarrow> string" where
  "bytes n =
     (if n < 1024 then show_nat n @ '' B''
      else if n < 1024 ^ 2 then toFixed (of_nat n / 1024) 1 @ '' KB''
      else if n < 1024 ^ 3 then toFixed (of_nat n / 1024 ^ 2) 1 @ '' MB''
      else toFixed (of_nat n / 1024 ^ 3) 2 @ '' GB'')"

subsection \<open>The page\<close>

record pull_event =
  ev_percent :: "rat option"
  ev_done :: "nat option"
  ev_total :: "nat option"
  ev_error :: "string option"

record prune_report =
  deleted :: "string list"
  space_reclaimed :: nat
  dry_run :: bool

record images_page =
  pullImage :: string
  pullTag :: string
  pulling :: bool
  pullPercent :: rat
  layers_done :: nat
  layers_total :: nat
  pullError :: "string option"
  pruneReport :: "prune_report option"
  pruning :: bool
  im_alert :: "string option"
  sseRef :: "string option"
  streams :: "string list"
  asked :: nat
  loads :: nat

definition images_opened :: images_page where
  "images_opened =
     \<lparr>pullImage = [], pullTag = ''latest'', pulling = False, pullPercent = 0, layers_done = 0, layers_total = 0,
      pullError = None, pruneReport = None, pruning = False, im_alert = None, sseRef = None, streams = [],
      asked = 0, loads = 1\<rparr>"

text \<open>The form asks for a pull; the answer names the pull, whose stream is opened.\<close>

definition handlePull :: "images_page \<Rightarrow> images_page \<times> (string \<times> string)" where
  "handlePull p = (p\<lparr>pullError := None, asked := asked p + 1\<rparr>, (pullImage p, pullTag p))"

definition close_current :: "images_page \<Rightarrow> images_page" where
  "close_current p =
     (case sseRef p of None \<Rightarrow> p | Some s \<Rightarrow> p\<lparr>streams := removeAll s (streams p), sseRef := None\<rparr>)"

definition reset_progress :: "images_page \<Rightarrow> images_page" where
  "reset_progress p = p\<lparr>pullPercent := 0, layers_done := 0, layers_total := 0\<rparr>"

definition subscribeToPull :: "string \<Rightarrow> images_page \<Rightarrow> images_page" where
  "subscribeToPull pull p =
     (let q = reset_progress ((close_current p)\<lparr>pulling := True\<rparr>)
      in q\<lparr>streams := pull # streams q, sseRef := Some pull\<rparr>)"

definition pull_answered :: "string + string \<Rightarrow> images_page \<Rightarrow> images_page" where
  "pull_answered a p =
     (let q = p\<lparr>asked := asked p - 1\<rparr>
      in case a of Inl msg \<Rightarrow> q\<lparr>pullError := Some msg\<rparr> | Inr pull \<Rightarrow> subscribeToPull pull q)"

definition onProgress :: "pull_event \<Rightarrow> images_page \<Rightarrow> images_page" where
  "onProgress e p =
     p\<lparr>pullPercent := (case ev_percent e of None \<Rightarrow> 0 | Some x \<Rightarrow> x),
       layers_done := (case ev_done e of None \<Rightarrow> 0 | Some n \<Rightarrow> n),
       layers_total := (case ev_total e of None \<Rightarrow> 0 | Some n \<Rightarrow> n)\<rparr>"

text \<open>The handlers of the page, and the closing of the stream that follows them.\<close>

definition onComplete :: "string \<Rightarrow> images_page \<Rightarrow> images_page" where
  "onComplete s p =
     (let q = reset_progress (p\<lparr>pulling := False\<rparr>)
      in q\<lparr>pullImage := [], pullTag := ''latest'', sseRef := None, loads := loads q + 1,
           streams := removeAll s (streams q)\<rparr>)"

definition onError :: "string \<Rightarrow> pull_event option \<Rightarrow> images_page \<Rightarrow> images_page" where
  "onError s e p =
     (let msg = (case e of None \<Rightarrow> ''Connection lost''
                 | Some d \<Rightarrow> (case ev_error d of None \<Rightarrow> ''Connection lost'' | Some m \<Rightarrow> m))
      in p\<lparr>pulling := False, pullError := Some msg, sseRef := None, streams := removeAll s (streams p)\<rparr>)"

definition prune_enabled :: "bool \<Rightarrow> images_page \<Rightarrow> bool" where
  "prune_enabled rootModeActive p = (\<not> (\<not> rootModeActive \<or> pruning p))"

definition handlePrune :: "images_page \<Rightarrow> images_page" where
  "handlePrune p = p\<lparr>pruning := True\<rparr>"

definition pruned :: "bool \<Rightarrow> string + prune_report \<Rightarrow> images_page \<Rightarrow> images_page" where
  "pruned dry a p =
     (case a of
        Inl msg \<Rightarrow> p\<lparr>im_alert := Some msg\<rparr>
      | Inr r \<Rightarrow> p\<lparr>pruneReport := Some r, loads := (if dry then loads p else loads p + 1)\<rparr>)\<lparr>pruning := False\<rparr>"

text \<open>
  The steps. The button of the form is disabled while a pull is shown, not while the request that
  starts one waits. A pull that is answered is a new one.
\<close>

inductive image_step :: "images_page \<Rightarrow> images_page \<Rightarrow> bool" where
  edit: "image_step p (p\<lparr>pullImage := i, pullTag := t\<rparr>)"
| ask: "\<not> pulling p \<Longrightarrow> pullImage p \<noteq> [] \<Longrightarrow> image_step p (fst (handlePull p))"
| refused: "0 < asked p \<Longrightarrow> image_step p (pull_answered (Inl msg) p)"
| started: "0 < asked p \<Longrightarrow> pull \<notin> set (streams p) \<Longrightarrow> image_step p (pull_answered (Inr pull) p)"
| progress: "s \<in> set (streams p) \<Longrightarrow> image_step p (onProgress e p)"
| complete: "s \<in> set (streams p) \<Longrightarrow> image_step p (onComplete s p)"
| failed: "s \<in> set (streams p) \<Longrightarrow> image_step p (onError s e p)"
| prune: "prune_enabled rm p \<Longrightarrow> image_step p (handlePrune p)"
| prune_done: "pruning p \<Longrightarrow> image_step p (pruned dry a p)"

definition image_reachable :: "images_page \<Rightarrow> bool" where
  "image_reachable p = image_step\<^sup>*\<^sup>* images_opened p"

subsection \<open>Lemmas\<close>

text \<open>One stream is open, the current one, exactly while a pull is shown.\<close>

definition one_stream :: "images_page \<Rightarrow> bool" where
  "one_stream p =
     (streams p = (case sseRef p of None \<Rightarrow> [] | Some s \<Rightarrow> [s]) \<and> (pulling p \<longleftrightarrow> sseRef p \<noteq> None))"

lemma one_stream_step: "image_step p q \<Longrightarrow> one_stream p \<Longrightarrow> one_stream q"
  by (induction rule: image_step.induct)
    (auto simp: one_stream_def handlePull_def pull_answered_def subscribeToPull_def close_current_def
      reset_progress_def onProgress_def onComplete_def onError_def handlePrune_def pruned_def Let_def
      split: option.splits sum.splits)

subsection \<open>Properties\<close>

text \<open>At most one stream is open, and it is the one the page shows.\<close>

theorem streams_of_page:
  assumes "image_reachable p"
  shows "streams p = (case sseRef p of None \<Rightarrow> [] | Some s \<Rightarrow> [s]) \<and> (pulling p \<longleftrightarrow> sseRef p \<noteq> None)"
proof -
  have "one_stream p"
    using assms unfolding image_reachable_def
    by (induction rule: rtranclp_induct) (simp add: one_stream_def images_opened_def, rule one_stream_step)
  then show ?thesis by (simp add: one_stream_def)
qed

text \<open>A pull that completes loads the list again and leaves a form for the next; one that fails keeps the form.\<close>

theorem pull_ends:
  assumes "image_reachable p" "s \<in> set (streams p)"
  shows "\<not> pulling (onComplete s p) \<and> streams (onComplete s p) = [] \<and> loads (onComplete s p) = loads p + 1
    \<and> pullImage (onComplete s p) = []
    \<and> \<not> pulling (onError s e p) \<and> streams (onError s e p) = [] \<and> pullError (onError s e p) \<noteq> None
    \<and> pullImage (onError s e p) = pullImage p"
  using streams_of_page [OF assms(1)] assms(2)
  by (auto simp: onComplete_def onError_def reset_progress_def Let_def split: option.splits)

text \<open>
  The form can be sent twice before the first answer: the second pull takes the place of the first, whose
  stream is closed, so that neither its end nor its failure is seen.
\<close>

theorem second_pull_hides_first:
  assumes "image_reachable p" "\<not> pulling p" "pullImage p \<noteq> []" "first \<noteq> second"
  shows "\<exists>q. image_step\<^sup>*\<^sup>* p q \<and> pulling q \<and> streams q = [second] \<and> first \<notin> set (streams q)"
proof -
  let ?p1 = "fst (handlePull p)"
  let ?p2 = "fst (handlePull ?p1)"
  let ?p3 = "pull_answered (Inr first) ?p2"
  let ?p4 = "pull_answered (Inr second) ?p3"
  have s: "streams p = []" "sseRef p = None" using streams_of_page [OF assms(1)] assms(2) by auto
  have "image_step p ?p1" using assms(2,3) by (rule image_step.ask)
  moreover have "image_step ?p1 ?p2" by (rule image_step.ask) (use assms(2,3) in \<open>simp_all add: handlePull_def\<close>)
  moreover have "image_step ?p2 ?p3"
    by (rule image_step.started) (use s in \<open>simp_all add: handlePull_def\<close>)
  moreover have "image_step ?p3 ?p4"
    by (rule image_step.started)
      (use s assms(4) in \<open>simp_all add: handlePull_def pull_answered_def subscribeToPull_def close_current_def
         reset_progress_def Let_def\<close>)
  ultimately have "image_step\<^sup>*\<^sup>* p ?p4" by (meson rtranclp.rtrancl_into_rtrancl rtranclp.rtrancl_refl)
  moreover have "pulling ?p4" "streams ?p4 = [second]"
    using s by (simp_all add: handlePull_def pull_answered_def subscribeToPull_def close_current_def
      reset_progress_def Let_def)
  ultimately show ?thesis using assms(4) by auto
qed

text \<open>An image can be pruned from the page exactly where the server allows it.\<close>

theorem prune_as_allowed:
  "prune_enabled rm p = (check ImagePrune SystemCore Free rm \<and> \<not> pruning p)"
  by (auto simp: prune_enabled_def check_def core_allow_def)

text \<open>Only a real pruning loads the list again, and its report says so.\<close>

theorem prune_reported:
  "pruneReport (pruned dry (Inr r) p) = Some r
   \<and> loads (pruned dry (Inr r) p) = (if dry then loads p else loads p + 1)
   \<and> pruneReport (pruned dry (Inl msg) p) = pruneReport p"
  by (simp add: pruned_def)

end
