(* ===== verification/Node_Fleet.thy ===== *)
theory Node_Fleet
  imports Prelude
begin

text \<open>
  The fleet of nodes, \<^verbatim>\<open>pages/admin/nodes/NodeFleetPage.tsx\<close>, with the dialog that confirms a deletion,
  \<^verbatim>\<open>components/ConfirmDialog.tsx\<close>. Opening the dialog asks for the runtimes and providers of the node;
  the requests that have not been answered are part of the state, with the node each was made for.
  \<open>to_num\<close>, the number of a JSON value if it is finite, is an argument. The table is not modelled.
\<close>

subsection \<open>Graphics cards of a node\<close>

definition count_or_zero :: "(json \<Rightarrow> int option) \<Rightarrow> json option \<Rightarrow> int option" where
  "count_or_zero to_num v = to_num (case v of None \<Rightarrow> JNum 0 | Some JNull \<Rightarrow> JNum 0 | Some j \<Rightarrow> j)"

definition gpuCount :: "(json \<Rightarrow> int option) \<Rightarrow> json \<Rightarrow> int" where
  "gpuCount to_num caps =
     (case count_or_zero to_num (json_get caps ''gpu_count'') of
        Some n \<Rightarrow> if n > 0 then n else
          (case json_get caps ''gpu'' of
             Some g \<Rightarrow> if json_is_object g
                then (case count_or_zero to_num (json_get g ''count'') of
                        Some k \<Rightarrow> if k > 0 then k else 0 | None \<Rightarrow> 0)
                else 0
           | None \<Rightarrow> 0)
      | None \<Rightarrow>
          (case json_get caps ''gpu'' of
             Some g \<Rightarrow> if json_is_object g
                then (case count_or_zero to_num (json_get g ''count'') of
                        Some k \<Rightarrow> if k > 0 then k else 0 | None \<Rightarrow> 0)
                else 0
           | None \<Rightarrow> 0))"

subsection \<open>The dialog that confirms\<close>

definition textMatch :: "string option \<Rightarrow> string \<Rightarrow> bool" where
  "textMatch confirmText typed = (\<not> truthy confirmText \<or> confirmText = Some typed)"

definition confirm_enabled :: "bool \<Rightarrow> string option \<Rightarrow> string \<Rightarrow> bool" where
  "confirm_enabled loading confirmText typed = (\<not> (loading \<or> \<not> textMatch confirmText typed))"

subsection \<open>Deleting a node\<close>

record fleet_runtime =
  fr_id :: string
  fr_provider :: string
  assigned_node :: "string option"

record node_row =
  row_id :: string
  row_host :: string
  row_maintenance :: bool
  row_draining :: bool

record fleet =
  fleet_rows :: "node_row list"
  actionBusyKey :: "string option"
  fleet_error :: "string option"
  deleteTarget :: "node_row option"
  deleting :: bool
  nodeRuntimes :: "fleet_runtime list"
  nodeProviders :: "string list"
  cascadeDelete :: bool
  loadingAssociations :: bool
  typed_text :: string
  waiting :: "node_row list"

definition fleet_opened :: "node_row list \<Rightarrow> fleet" where
  "fleet_opened rs =
     \<lparr>fleet_rows = rs, actionBusyKey = None, fleet_error = None, deleteTarget = None, deleting = False,
      nodeRuntimes = [], nodeProviders = [], cascadeDelete = False, loadingAssociations = False,
      typed_text = [], waiting = []\<rparr>"

definition openDeleteDialog :: "node_row \<Rightarrow> fleet \<Rightarrow> fleet" where
  "openDeleteDialog n f =
     f\<lparr>deleteTarget := Some n, cascadeDelete := False, loadingAssociations := True, typed_text := [],
       waiting := n # waiting f\<rparr>"

text \<open>The answer to the question for the node \<open>n\<close>: all runtimes and the ids of all providers.\<close>

definition matched :: "node_row \<Rightarrow> fleet_runtime list \<Rightarrow> fleet_runtime list" where
  "matched n rts = filter (\<lambda>r. assigned_node r = Some (row_id n)) rts"

definition providers_with :: "fleet_runtime list \<Rightarrow> string list \<Rightarrow> string list" where
  "providers_with rts ps = filter (\<lambda>p. p \<in> fr_provider ` set rts) ps"

definition associations_answered :: "node_row \<Rightarrow> (fleet_runtime list \<times> string list) option \<Rightarrow> fleet \<Rightarrow> fleet" where
  "associations_answered n a f =
     (case a of
        None \<Rightarrow> f\<lparr>nodeRuntimes := [], nodeProviders := []\<rparr>
      | Some (rts, ps) \<Rightarrow> f\<lparr>nodeRuntimes := matched n rts, nodeProviders := providers_with (matched n rts) ps\<rparr>)
     \<lparr>loadingAssociations := False, waiting := remove1 n (waiting f)\<rparr>"

definition close_dialog :: "fleet \<Rightarrow> fleet" where
  "close_dialog f = f\<lparr>deleteTarget := None, nodeRuntimes := [], nodeProviders := []\<rparr>"

definition cascade_shown :: "fleet \<Rightarrow> bool" where
  "cascade_shown f = (deleteTarget f \<noteq> None \<and> \<not> loadingAssociations f \<and> nodeRuntimes f \<noteq> [])"

definition toggle_cascade :: "bool \<Rightarrow> fleet \<Rightarrow> fleet" where
  "toggle_cascade b f = f\<lparr>cascadeDelete := b\<rparr>"

datatype fleet_request = DeleteProvider string | DeleteNode string

text \<open>What a confirmation sends: the providers first, all at once, and the node when none failed.\<close>

definition provider_requests :: "fleet \<Rightarrow> fleet_request list" where
  "provider_requests f = (if cascadeDelete f \<and> nodeProviders f \<noteq> [] then map DeleteProvider (nodeProviders f) else [])"

definition onConfirm :: "(fleet_request \<Rightarrow> string option) \<Rightarrow> fleet \<Rightarrow> fleet_request list" where
  "onConfirm fails f =
     (case deleteTarget f of
        None \<Rightarrow> []
      | Some n \<Rightarrow> provider_requests f
          @ (if list_all (\<lambda>r. fails r = None) (provider_requests f) then [DeleteNode (row_id n)] else []))"

definition deletion_failed :: "string \<Rightarrow> fleet \<Rightarrow> fleet" where
  "deletion_failed msg f = f\<lparr>fleet_error := Some msg, deleting := False\<rparr>"

definition deletion_done :: "node_row list option \<Rightarrow> fleet \<Rightarrow> fleet" where
  "deletion_done listed f =
     (close_dialog f)\<lparr>fleet_rows := (case listed of None \<Rightarrow> fleet_rows f | Some rs \<Rightarrow> rs), deleting := False\<rparr>"

definition can_confirm :: "fleet \<Rightarrow> bool" where
  "can_confirm f =
     (deleteTarget f \<noteq> None \<and> confirm_enabled (deleting f) (map_option row_host (deleteTarget f)) (typed_text f))"

text \<open>
  The steps. Nothing but the dialog can be used while it is open. With \<open>patient\<close> the user closes it
  only when its associations are shown.
\<close>

inductive fleet_step :: "bool \<Rightarrow> fleet \<Rightarrow> fleet \<Rightarrow> bool" for patient where
  ask: "deleteTarget f = None \<Longrightarrow> n \<in> set (fleet_rows f) \<Longrightarrow> fleet_step patient f (openDeleteDialog n f)"
| answer: "n \<in> set (waiting f) \<Longrightarrow> fleet_step patient f (associations_answered n a f)"
| cascade: "cascade_shown f \<Longrightarrow> fleet_step patient f (toggle_cascade b f)"
| type_host: "deleteTarget f \<noteq> None \<Longrightarrow> fleet_step patient f (f\<lparr>typed_text := t\<rparr>)"
| cancel: "deleteTarget f \<noteq> None \<Longrightarrow> \<not> deleting f \<Longrightarrow> patient \<longrightarrow> \<not> loadingAssociations f \<Longrightarrow>
    fleet_step patient f (close_dialog f)"
| confirm: "can_confirm f \<Longrightarrow> patient \<longrightarrow> \<not> loadingAssociations f \<Longrightarrow> fleet_step patient f (f\<lparr>deleting := True\<rparr>)"
| refused: "deleting f \<Longrightarrow> fleet_step patient f (deletion_failed msg f)"
| finish: "deleting f \<Longrightarrow> fleet_step patient f (deletion_done listed f)"

definition fleet_reachable :: "bool \<Rightarrow> node_row list \<Rightarrow> fleet \<Rightarrow> bool" where
  "fleet_reachable patient rs f = (fleet_step patient)\<^sup>*\<^sup>* (fleet_opened rs) f"

subsection \<open>Lemmas\<close>

text \<open>
  With patience the only question that waits is the one of the open dialog, and what is shown belongs
  to its node.
\<close>

definition dialog_ok :: "fleet \<Rightarrow> bool" where
  "dialog_ok f =
     (waiting f = (if loadingAssociations f then [the (deleteTarget f)] else [])
      \<and> (loadingAssociations f \<longrightarrow> deleteTarget f \<noteq> None \<and> \<not> deleting f \<and> \<not> cascadeDelete f \<and> nodeRuntimes f = [])
      \<and> (deleting f \<longrightarrow> deleteTarget f \<noteq> None)
      \<and> (deleteTarget f = None \<longrightarrow> nodeRuntimes f = [] \<and> nodeProviders f = [])
      \<and> (\<forall>r \<in> set (nodeRuntimes f). assigned_node r = map_option row_id (deleteTarget f))
      \<and> set (nodeProviders f) \<subseteq> fr_provider ` set (nodeRuntimes f))"

lemma providers_with_subset: "set (providers_with rts ps) \<subseteq> fr_provider ` set rts"
  by (auto simp: providers_with_def)

lemma matched_assigned: "r \<in> set (matched n rts) \<Longrightarrow> assigned_node r = Some (row_id n)"
  by (simp add: matched_def)

lemma dialog_ok_answer:
  assumes "dialog_ok f" "n \<in> set (waiting f)"
  shows "dialog_ok (associations_answered n a f)"
proof -
  from assms have n: "deleteTarget f = Some n" "loadingAssociations f" "\<not> deleting f" "waiting f = [n]"
    by (auto simp: dialog_ok_def split: if_splits)
  show ?thesis
  proof (cases a)
    case None
    with n show ?thesis by (simp add: dialog_ok_def associations_answered_def)
  next
    case (Some x)
    obtain rts ps where x: "x = (rts, ps)" by (cases x)
    show ?thesis
      using n Some x providers_with_subset [of "matched n rts" ps] matched_assigned [of _ n rts]
      by (simp add: dialog_ok_def associations_answered_def)
  qed
qed

lemma dialog_ok_step: "fleet_step True f g \<Longrightarrow> dialog_ok f \<Longrightarrow> dialog_ok g"
proof (induction rule: fleet_step.induct)
  case (answer n f a)
  then show ?case by (simp add: dialog_ok_answer)
qed (auto simp: dialog_ok_def openDeleteDialog_def close_dialog_def toggle_cascade_def cascade_shown_def
      deletion_failed_def deletion_done_def can_confirm_def)

lemma reachable_dialog_ok: "fleet_reachable True rs f \<Longrightarrow> dialog_ok f"
  unfolding fleet_reachable_def
  by (induction rule: rtranclp_induct) (simp add: dialog_ok_def fleet_opened_def, rule dialog_ok_step)

subsection \<open>Properties\<close>

text \<open>
  A dialog that is closed and confirmed only after its associations are shown deletes its node, and of
  the providers only those with a runtime on that node.
\<close>

theorem patient_delete_exact:
  assumes "fleet_reachable True rs f" "r \<in> set (onConfirm fails f)"
  shows "\<exists>n. deleteTarget f = Some n \<and>
    (r = DeleteNode (row_id n)
     \<or> (\<exists>rt \<in> set (nodeRuntimes f). assigned_node rt = Some (row_id n) \<and> r = DeleteProvider (fr_provider rt)))"
proof -
  have ok: "dialog_ok f" using assms(1) by (rule reachable_dialog_ok)
  obtain n where n: "deleteTarget f = Some n"
    using assms(2) by (cases "deleteTarget f") (auto simp: onConfirm_def)
  consider "r = DeleteNode (row_id n)" | "r \<in> set (provider_requests f)"
    using assms(2) n by (auto simp: onConfirm_def split: if_splits)
  then show ?thesis
  proof cases
    case 2
    then obtain p where p: "r = DeleteProvider p" "p \<in> set (nodeProviders f)"
      by (auto simp: provider_requests_def split: if_splits)
    then obtain rt where "rt \<in> set (nodeRuntimes f)" "p = fr_provider rt" using ok by (auto simp: dialog_ok_def)
    moreover have "assigned_node rt = Some (row_id n)" using ok n calculation(1) by (simp add: dialog_ok_def)
    ultimately show ?thesis using n p by auto
  qed (use n in auto)
qed

text \<open>
  Without the patience a late answer does harm: a dialog for a second node shows the runtimes of the
  first, and with the box ticked its confirmation deletes the providers of the first node.
\<close>

definition two_nodes :: "node_row list" where
  "two_nodes =
     [\<lparr>row_id = ''a'', row_host = ''host-a'', row_maintenance = False, row_draining = False\<rparr>,
      \<lparr>row_id = ''b'', row_host = ''host-b'', row_maintenance = False, row_draining = False\<rparr>]"

theorem late_answer_deletes_other:
  "\<exists>f. fleet_reachable False two_nodes f \<and> can_confirm f
     \<and> onConfirm (\<lambda>r. None) f = [DeleteProvider ''p'', DeleteNode ''b'']
     \<and> (\<forall>rt \<in> set (nodeRuntimes f). assigned_node rt = Some ''a'')"
proof -
  let ?a = "two_nodes ! 0" and ?b = "two_nodes ! 1"
  let ?rts = "[\<lparr>fr_id = ''r'', fr_provider = ''p'', assigned_node = Some ''a''\<rparr>]"
  let ?f0 = "fleet_opened two_nodes"
  let ?f1 = "openDeleteDialog ?a ?f0"
  let ?f2 = "close_dialog ?f1"
  let ?f3 = "openDeleteDialog ?b ?f2"
  let ?f4 = "associations_answered ?a (Some (?rts, [''p''])) ?f3"
  let ?f5 = "toggle_cascade True ?f4"
  let ?f6 = "?f5\<lparr>typed_text := ''host-b''\<rparr>"
  note defs = fleet_opened_def openDeleteDialog_def close_dialog_def associations_answered_def toggle_cascade_def
    two_nodes_def matched_def providers_with_def cascade_shown_def
  have "fleet_step False ?f0 ?f1" by (rule fleet_step.ask) (simp_all add: defs)
  moreover have "fleet_step False ?f1 ?f2" by (rule fleet_step.cancel) (simp_all add: defs)
  moreover have "fleet_step False ?f2 ?f3" by (rule fleet_step.ask) (simp_all add: defs)
  moreover have "fleet_step False ?f3 ?f4" by (rule fleet_step.answer) (simp add: defs)
  moreover have "fleet_step False ?f4 ?f5" by (rule fleet_step.cascade) (simp add: defs)
  moreover have "fleet_step False ?f5 ?f6" by (rule fleet_step.type_host) (simp add: defs)
  ultimately have "fleet_reachable False two_nodes ?f6"
    unfolding fleet_reachable_def by (meson rtranclp.rtrancl_into_rtrancl rtranclp.rtrancl_refl)
  moreover have "can_confirm ?f6" by (simp add: can_confirm_def confirm_enabled_def textMatch_def defs)
  moreover have "onConfirm (\<lambda>r. None) ?f6 = [DeleteProvider ''p'', DeleteNode ''b'']"
    by (auto simp: onConfirm_def provider_requests_def defs image_iff)
  moreover have "\<forall>rt \<in> set (nodeRuntimes ?f6). assigned_node rt = Some ''a''" by (simp add: defs)
  ultimately show ?thesis by blast
qed

text \<open>The host of the node has to be typed, and nothing can be confirmed twice.\<close>

theorem confirm_needs_host:
  "can_confirm f \<longleftrightarrow>
     (\<exists>n. deleteTarget f = Some n \<and> (row_host n = [] \<or> typed_text f = row_host n) \<and> \<not> deleting f)"
  by (auto simp: can_confirm_def confirm_enabled_def textMatch_def)

text \<open>The node is deleted last, and not at all when a provider could not be.\<close>

theorem node_deleted_last:
  "deleteTarget f = None \<or>
   onConfirm fails f =
     (if list_all (\<lambda>r. fails r = None) (provider_requests f)
      then provider_requests f @ [DeleteNode (row_id (the (deleteTarget f)))] else provider_requests f)"
  by (auto simp: onConfirm_def split: option.splits)

text \<open>
  A deletion that failed half way is repeated as it was: providers that are gone are asked to be deleted
  again, and as that fails the node stays.
\<close>

theorem failed_cascade_repeats:
  assumes "p \<in> set (nodeProviders f)" "cascadeDelete f" "deleteTarget f = Some n" "fails (DeleteProvider p) \<noteq> None"
  shows "onConfirm fails (deletion_failed msg f) = map DeleteProvider (nodeProviders f)"
  using assms
  by (auto simp: onConfirm_def deletion_failed_def provider_requests_def list_all_iff)

text \<open>A provider that has runtimes on other nodes too is among those that are deleted.\<close>

theorem shared_provider_deleted:
  assumes "rt \<in> set rts" "assigned_node rt = Some (row_id n)" "fr_provider rt \<in> set ps"
  shows "DeleteProvider (fr_provider rt) \<in> set (provider_requests (toggle_cascade True (associations_answered n (Some (rts, ps)) f)))"
  using assms
  by (auto simp: provider_requests_def toggle_cascade_def associations_answered_def providers_with_def matched_def
    filter_empty_conv)

text \<open>A failure to find the associations looks like a node without any.\<close>

theorem failed_associations_hidden:
  "associations_answered n None f = associations_answered n (Some ([], ps)) f"
  by (simp add: associations_answered_def matched_def providers_with_def)

text \<open>The number of cards is never negative, and the flat count wins over the nested one.\<close>

theorem gpu_count_flat:
  "gpuCount to_num caps \<ge> 0
   \<and> (\<forall>n. count_or_zero to_num (json_get caps ''gpu_count'') = Some n \<and> 0 < n \<longrightarrow> gpuCount to_num caps = n)"
  by (auto simp: gpuCount_def split: option.splits)

end
