(* ===== verification/Models_Page.thy ===== *)
theory Models_Page
  imports Prelude
begin

text \<open>
  The models, \<^verbatim>\<open>pages/admin/llm/ModelsPage.tsx\<close>: loading with its guard, polling while a model is downloaded,
  adding and deleting; and the search for repositories, \<^verbatim>\<open>components/HfModelSearch.tsx\<close>, which the page has a copy of.
  A list that is asked for is answered with any list. The columns and the dialogs' JSX are not
  modelled.
\<close>

subsection \<open>Models\<close>

record instance_of =
  in_runtime :: string
  runtime_status :: string
  execution_target :: string
  provider_type :: string
  provider_name :: string
  node_host :: "string option"

record model =
  md_id :: string
  md_name :: string
  md_status :: string
  instances :: "instance_of list"

text \<open>Label and colour of the chip of an instance.\<close>

definition instance_label :: "instance_of \<Rightarrow> string" where
  "instance_label i =
     (if provider_type i = ''cloud'' then provider_name i
      else if execution_target i = ''node'' then (case node_host i of None \<Rightarrow> ''Remote'' | Some h \<Rightarrow> h)
      else if execution_target i = ''remote'' then ''Remote''
      else ''Local'')"

definition instance_color :: "instance_of \<Rightarrow> string" where
  "instance_color i =
     (if runtime_status i = ''running'' then ''success'' else if runtime_status i = ''error'' then ''error''
      else if runtime_status i = ''stopped'' then ''default'' else ''warning'')"

definition active_instances :: "model \<Rightarrow> instance_of list" where
  "active_instances m = filter (\<lambda>i. runtime_status i \<noteq> ''stopped'' \<and> runtime_status i \<noteq> ''error'') (instances m)"

subsection \<open>The page\<close>

record models_page =
  data :: "model list"
  loading :: bool
  mp_error :: "string option"
  loadingRef :: bool
  silent_load :: bool
  showAdd :: bool
  inUseModel :: "model option"
  hfRepo :: string
  hfRevision :: string
  dlDisplayName :: string
  regName :: string
  regPath :: string
  mp_alert :: "string option"
  downloads :: nat
  registers :: nat
  deletes :: nat

definition load :: "bool \<Rightarrow> models_page \<Rightarrow> models_page" where
  "load silent p =
     (if loadingRef p then p
      else let q = p\<lparr>loadingRef := True, silent_load := silent\<rparr>
           in if silent then q else q\<lparr>loading := True, mp_error := None\<rparr>)"

definition list_answered :: "string + model list \<Rightarrow> models_page \<Rightarrow> models_page" where
  "list_answered a p =
     (let q = (case a of
                 Inl msg \<Rightarrow> if silent_load p then p else p\<lparr>mp_error := Some msg\<rparr>
               | Inr xs \<Rightarrow> p\<lparr>data := xs, mp_error := None\<rparr>)
      in (if silent_load p then q else q\<lparr>loading := False\<rparr>)\<lparr>loadingRef := False\<rparr>)"

definition models_opened :: models_page where
  "models_opened =
     load False \<lparr>data = [], loading = True, mp_error = None, loadingRef = False, silent_load = False, showAdd = False,
       inUseModel = None, hfRepo = [], hfRevision = [], dlDisplayName = [], regName = [], regPath = [], mp_alert = None,
       downloads = 0, registers = 0, deletes = 0\<rparr>"

text \<open>The timer runs while a model that is shown is being downloaded.\<close>

definition timer_on :: "models_page \<Rightarrow> bool" where
  "timer_on p = list_ex (\<lambda>m. md_status m = ''downloading'') (data p)"

definition resetForm :: "models_page \<Rightarrow> models_page" where
  "resetForm p = p\<lparr>hfRepo := [], hfRevision := [], dlDisplayName := [], regName := [], regPath := []\<rparr>"

record download_payload =
  hf_repo_id :: string
  hf_revision :: "string option"
  display_name :: "string option"

definition handleDownload :: "models_page \<Rightarrow> models_page \<times> download_payload" where
  "handleDownload p =
     (p\<lparr>downloads := downloads p + 1\<rparr>,
      \<lparr>hf_repo_id = hfRepo p,
       hf_revision = (if hfRevision p \<noteq> [] then Some (hfRevision p) else None),
       display_name = (if dlDisplayName p \<noteq> [] then Some (dlDisplayName p) else None)\<rparr>)"

text \<open>The answer: the model, and an error when its download was not dispatched.\<close>

definition download_answered :: "string + model \<times> string option \<Rightarrow> models_page \<Rightarrow> models_page" where
  "download_answered a p =
     (let p = p\<lparr>downloads := downloads p - 1\<rparr>
      in case a of
           Inl msg \<Rightarrow> load True (p\<lparr>mp_alert := Some msg\<rparr>)
         | Inr (m, failed) \<Rightarrow>
             (let q = resetForm (p\<lparr>data := m # data p, showAdd := False\<rparr>)
              in case failed of None \<Rightarrow> q | Some e \<Rightarrow> q\<lparr>mp_alert := Some e\<rparr>))"

definition handleRegister :: "models_page \<Rightarrow> models_page \<times> (string \<times> string)" where
  "handleRegister p = (p\<lparr>registers := registers p + 1\<rparr>, (regName p, regPath p))"

definition register_answered :: "string option \<Rightarrow> models_page \<Rightarrow> models_page" where
  "register_answered failed p =
     (let p = p\<lparr>registers := registers p - 1\<rparr>
      in case failed of Some msg \<Rightarrow> p\<lparr>mp_alert := Some msg\<rparr> | None \<Rightarrow> load True (resetForm (p\<lparr>showAdd := False\<rparr>)))"

text \<open>What is deleted, if anything: an active model opens the dialog instead.\<close>

definition requestDelete :: "bool \<Rightarrow> model \<Rightarrow> models_page \<Rightarrow> models_page \<times> string option" where
  "requestDelete confirmed m p =
     (if active_instances m \<noteq> [] then (p\<lparr>inUseModel := Some m\<rparr>, None)
      else if \<not> confirmed then (p, None)
      else (p\<lparr>data := filter (\<lambda>x. md_id x \<noteq> md_id m) (data p), deletes := deletes p + 1\<rparr>, Some (md_id m)))"

definition delete_answered :: "string option \<Rightarrow> models_page \<Rightarrow> models_page" where
  "delete_answered failed p =
     (let p = p\<lparr>deletes := deletes p - 1\<rparr>
      in case failed of None \<Rightarrow> p | Some msg \<Rightarrow> load True (p\<lparr>mp_alert := Some msg\<rparr>))"

text \<open>The button of the table calls \<open>load\<close> with the event of the click for \<open>silent\<close>, which is truthy.\<close>

definition refresh_clicked :: "models_page \<Rightarrow> models_page" where
  "refresh_clicked p = load True p"

inductive models_step :: "models_page \<Rightarrow> models_page \<Rightarrow> bool" where
  refresh: "models_step p (refresh_clicked p)"
| poll: "timer_on p \<Longrightarrow> models_step p (load True p)"
| listed: "loadingRef p \<Longrightarrow> models_step p (list_answered a p)"
| edit: "models_step p (p\<lparr>hfRepo := r, hfRevision := v, dlDisplayName := n, regName := g, regPath := h\<rparr>)"
| download: "models_step p (fst (handleDownload p))"
| downloaded: "0 < downloads p \<Longrightarrow> models_step p (download_answered b p)"
| register: "models_step p (fst (handleRegister p))"
| registered: "0 < registers p \<Longrightarrow> models_step p (register_answered f p)"
| delete: "m \<in> set (data p) \<Longrightarrow> models_step p (fst (requestDelete c m p))"
| deleted: "0 < deletes p \<Longrightarrow> models_step p (delete_answered f p)"
| dismiss: "models_step p (p\<lparr>inUseModel := None\<rparr>)"

definition models_reachable :: "models_page \<Rightarrow> bool" where
  "models_reachable p = models_step\<^sup>*\<^sup>* models_opened p"

subsection \<open>The search for repositories\<close>

text \<open>
  The options carry the text they were found for. A text that waits for its timer is the current one;
  a search that was sent is not withdrawn.
\<close>

record hf_search =
  inputValue :: string
  options :: "string list"
  found_for :: string
  timer :: "string option"
  searches :: "string list"

definition no_search :: hf_search where
  "no_search = \<lparr>inputValue = [], options = [], found_for = [], timer = None, searches = []\<rparr>"

definition type_text :: "string \<Rightarrow> hf_search \<Rightarrow> hf_search" where
  "type_text t s =
     (if t = inputValue s then s
      else if length t < 2 then s\<lparr>inputValue := t, options := [], timer := None\<rparr>
      else s\<lparr>inputValue := t, timer := Some t\<rparr>)"

definition timer_fires :: "hf_search \<Rightarrow> hf_search" where
  "timer_fires s =
     (case timer s of None \<Rightarrow> s | Some t \<Rightarrow> s\<lparr>timer := None, searches := searches s @ [t]\<rparr>)"

definition search_answered :: "string \<Rightarrow> string list option \<Rightarrow> hf_search \<Rightarrow> hf_search" where
  "search_answered t a s =
     s\<lparr>options := (case a of None \<Rightarrow> [] | Some xs \<Rightarrow> xs), found_for := t, searches := remove1 t (searches s)\<rparr>"

inductive search_step :: "bool \<Rightarrow> hf_search \<Rightarrow> hf_search \<Rightarrow> bool" for patient where
  type_in: "patient \<longrightarrow> searches s = [] \<Longrightarrow> search_step patient s (type_text t s)"
| fire: "timer s \<noteq> None \<Longrightarrow> search_step patient s (timer_fires s)"
| found: "t \<in> set (searches s) \<Longrightarrow> search_step patient s (search_answered t a s)"

definition search_reachable :: "bool \<Rightarrow> hf_search \<Rightarrow> bool" where
  "search_reachable patient s = (search_step patient)\<^sup>*\<^sup>* no_search s"

definition search_ok :: "hf_search \<Rightarrow> bool" where
  "search_ok s =
     ((\<forall>t. timer s = Some t \<longrightarrow> t = inputValue s \<and> searches s = []) \<and> set (searches s) \<subseteq> {inputValue s}
      \<and> length (searches s) \<le> 1
      \<and> (timer s = None \<and> searches s = [] \<longrightarrow> options s = [] \<or> found_for s = inputValue s))"

lemma search_ok_step: "search_step True s u \<Longrightarrow> search_ok s \<Longrightarrow> search_ok u"
proof (induction rule: search_step.induct)
  case (found t s a)
  then have "searches s = [t]" by (cases "searches s") (auto simp: search_ok_def)
  with found show ?case by (auto simp: search_ok_def search_answered_def)
qed (auto simp: search_ok_def type_text_def timer_fires_def split: option.splits)

subsection \<open>Lemmas on the page\<close>

definition load_ok :: "models_page \<Rightarrow> bool" where
  "load_ok p = (loading p \<longrightarrow> loadingRef p \<and> \<not> silent_load p)"

lemma load_ok_step: "models_step p q \<Longrightarrow> load_ok p \<Longrightarrow> load_ok q"
  by (induction rule: models_step.induct)
    (auto simp: load_ok_def load_def list_answered_def handleDownload_def download_answered_def resetForm_def
      handleRegister_def register_answered_def requestDelete_def delete_answered_def refresh_clicked_def Let_def
      split: sum.splits option.splits prod.splits)

subsection \<open>Properties\<close>

text \<open>The page that shows its spinner waits for a list, and the answer ends it.\<close>

theorem spinner_waits_for_list:
  assumes "models_reachable p"
  shows "(loading p \<longrightarrow> loadingRef p \<and> \<not> silent_load p) \<and> \<not> loading (list_answered a p) \<and> \<not> loadingRef (list_answered a p)"
proof -
  have "load_ok p"
    using assms unfolding models_reachable_def
    by (induction rule: rtranclp_induct) (simp add: load_ok_def models_opened_def load_def, rule load_ok_step)
  then show ?thesis by (auto simp: load_ok_def list_answered_def Let_def split: sum.splits)
qed

text \<open>A model with an active instance is not deleted; one without is, and leaves the list at once.\<close>

theorem delete_only_idle:
  "snd (requestDelete c m p) = (if c \<and> list_all (\<lambda>i. runtime_status i \<in> {''stopped'', ''error''}) (instances m)
     then Some (md_id m) else None)
   \<and> (\<forall>i. snd (requestDelete c m p) = Some i \<longrightarrow> i \<notin> md_id ` set (data (fst (requestDelete c m p))))"
  by (auto simp: requestDelete_def active_instances_def list_all_iff filter_empty_conv)

text \<open>A list that was asked for before a download started makes the new model disappear, and the polling with it.\<close>

theorem download_disappears:
  "\<exists>p. models_reachable p \<and> data p = [] \<and> \<not> timer_on p \<and> \<not> loadingRef p
     \<and> (\<exists>q m. models_reachable q \<and> data q = [m] \<and> md_status m = ''downloading'' \<and> models_step q p)"
proof -
  let ?m = "\<lparr>md_id = ''m'', md_name = ''m'', md_status = ''downloading'', instances = []\<rparr>"
  let ?p1 = "fst (handleDownload models_opened)"
  let ?p2 = "download_answered (Inr (?m, None)) ?p1"
  let ?p3 = "list_answered (Inr []) ?p2"
  note defs = models_opened_def load_def handleDownload_def download_answered_def resetForm_def list_answered_def
  have "models_step models_opened ?p1" by (rule models_step.download)
  moreover have "models_step ?p1 ?p2" by (rule models_step.downloaded) (simp add: defs)
  ultimately have q: "models_reachable ?p2"
    unfolding models_reachable_def by (meson rtranclp.rtrancl_into_rtrancl rtranclp.rtrancl_refl)
  have s: "models_step ?p2 ?p3" by (rule models_step.listed) (simp add: defs Let_def)
  have "models_reachable ?p3" using q s unfolding models_reachable_def by (rule rtranclp.rtrancl_into_rtrancl)
  moreover have "data ?p3 = []" "\<not> timer_on ?p3" "\<not> loadingRef ?p3" "data ?p2 = [?m]"
    by (simp_all add: defs Let_def timer_on_def)
  moreover have "md_status ?m = ''downloading''" by simp
  ultimately show ?thesis using q s by blast
qed

text \<open>While a list is loaded, the reload after a registration or a failed deletion is left out.\<close>

theorem reload_left_out:
  assumes "loadingRef p"
  shows "data (register_answered None p) = data p \<and> silent_load (register_answered None p) = silent_load p
    \<and> data (delete_answered (Some msg) p) = data p \<and> load silent p = p"
  using assms by (simp add: register_answered_def delete_answered_def resetForm_def load_def Let_def)

text \<open>A refresh by the button is silent, so its failure is not shown.\<close>

theorem refresh_hides_failure:
  assumes "\<not> loadingRef p"
  shows "mp_error (list_answered (Inl msg) (refresh_clicked p)) = mp_error p
    \<and> data (list_answered (Inl msg) (refresh_clicked p)) = data p \<and> loading (refresh_clicked p) = loading p"
  using assms by (simp add: refresh_clicked_def load_def list_answered_def Let_def)

text \<open>So a model whose deletion failed stays away until the next list, and one that was deleted can come back with an old one.\<close>

theorem old_list_restores_deleted:
  "data (list_answered (Inr xs) (fst (requestDelete True m p))) = xs"
  by (simp add: list_answered_def Let_def)

text \<open>The form sends what was typed, without the empty options, and is emptied by a success.\<close>

theorem download_payload_right:
  "hf_repo_id (snd (handleDownload p)) = hfRepo p
   \<and> hf_revision (snd (handleDownload p)) \<noteq> Some [] \<and> display_name (snd (handleDownload p)) \<noteq> Some []
   \<and> hfRepo (download_answered (Inr (m, f)) p) = [] \<and> hd (data (download_answered (Inr (m, f)) p)) = m
   \<and> hfRepo (download_answered (Inl msg) p) = hfRepo p"
  by (simp add: handleDownload_def download_answered_def resetForm_def load_def Let_def split: option.split)

text \<open>
  A search that has come to rest shows what was found for the text in the field, if no text was typed while a
  search was under way.
\<close>

theorem search_settles:
  assumes "search_reachable True s" "timer s = None" "searches s = []"
  shows "options s = [] \<or> found_for s = inputValue s"
proof -
  have "search_ok s"
    using assms(1) unfolding search_reachable_def
    by (induction rule: rtranclp_induct) (simp add: search_ok_def no_search_def, rule search_ok_step)
  then show ?thesis using assms(2,3) by (simp add: search_ok_def)
qed

text \<open>Otherwise the answer that comes last is shown, even for a text that was typed before, or for an emptied field.\<close>

theorem late_search_shown:
  "\<exists>s. search_reachable False s \<and> timer s = None \<and> searches s = [] \<and> inputValue s = [] \<and> options s = [''llama'']"
proof -
  let ?s1 = "type_text ''ll'' no_search"
  let ?s2 = "timer_fires ?s1"
  let ?s3 = "type_text [] ?s2"
  let ?s4 = "search_answered ''ll'' (Some [''llama'']) ?s3"
  note defs = type_text_def timer_fires_def search_answered_def no_search_def
  have "search_step False no_search ?s1" by (rule search_step.type_in) simp
  moreover have "search_step False ?s1 ?s2" by (rule search_step.fire) (simp add: defs)
  moreover have "search_step False ?s2 ?s3" by (rule search_step.type_in) simp
  moreover have "search_step False ?s3 ?s4" by (rule search_step.found) (simp add: defs)
  ultimately have "search_reachable False ?s4"
    unfolding search_reachable_def by (meson rtranclp.rtrancl_into_rtrancl rtranclp.rtrancl_refl)
  moreover have "timer ?s4 = None" "searches ?s4 = []" "inputValue ?s4 = []" "options ?s4 = [''llama'']"
    by (simp_all add: defs)
  ultimately show ?thesis by blast
qed

text \<open>An instance in the cloud is named after its provider, one on a node after its host if it is known.\<close>

theorem instance_named:
  "instance_label i \<in> {provider_name i, ''Remote'', ''Local''} \<union> set_option (node_host i)
   \<and> (instance_color i = ''success'' \<longleftrightarrow> runtime_status i = ''running'')"
  by (auto simp: instance_label_def instance_color_def split: option.splits)

end
