(* ===== verification/Chat_View.thy ===== *)
theory Chat_View
  imports Chat_Page Tool_Policy Formats
begin

text \<open>
  The parts of the chat a user types and clicks in: \<^verbatim>\<open>ChatInput.tsx\<close>, \<^verbatim>\<open>ModelSelector.tsx\<close>,
  \<^verbatim>\<open>ChatWelcome.tsx\<close>, \<^verbatim>\<open>ChatWindow.tsx\<close>, \<^verbatim>\<open>TokenUsageBadge.tsx\<close>, \<^verbatim>\<open>ExecutionModeSelector.tsx\<close>,
  \<^verbatim>\<open>ProjectSettingsDialog.tsx\<close> and \<^verbatim>\<open>MessageDebugPanel.tsx\<close>, all under \<^verbatim>\<open>pages/chat/components\<close>. A file is
  its name. Focus, scrolling, menus of languages and themes and the JSX are not modelled.
\<close>

subsection \<open>The input\<close>

record chat_input =
  in_text :: string
  in_files :: "string list"

definition empty_input :: chat_input where
  "empty_input = \<lparr>in_text = [], in_files = []\<rparr>"

definition canSend :: "bool \<Rightarrow> bool \<Rightarrow> chat_input \<Rightarrow> bool" where
  "canSend disabled streaming c = (trim (in_text c) \<noteq> [] \<and> \<not> disabled \<and> \<not> streaming)"

text \<open>What is handed to \<open>onSend\<close>, if anything is.\<close>

definition handleSend :: "bool \<Rightarrow> bool \<Rightarrow> chat_input \<Rightarrow> chat_input \<times> (string \<times> string list) option" where
  "handleSend disabled streaming c =
     (if \<not> canSend disabled streaming c then (c, None)
      else (empty_input, Some (trim (in_text c), in_files c)))"

text \<open>A key: the result tells whether the line break of the key is suppressed.\<close>

definition handleKeyDown ::
  "string \<Rightarrow> bool \<Rightarrow> bool \<Rightarrow> bool \<Rightarrow> chat_input \<Rightarrow> (chat_input \<times> (string \<times> string list) option) \<times> bool" where
  "handleKeyDown key shift disabled streaming c =
     (if key = ''Enter'' \<and> \<not> shift then (handleSend disabled streaming c, True) else ((c, None), False))"

definition handleFileSelect :: "string list option \<Rightarrow> chat_input \<Rightarrow> chat_input" where
  "handleFileSelect selected c = (case selected of None \<Rightarrow> c | Some fs \<Rightarrow> c\<lparr>in_files := in_files c @ fs\<rparr>)"

definition removeFile :: "nat \<Rightarrow> chat_input \<Rightarrow> chat_input" where
  "removeFile index c = c\<lparr>in_files := map fst (filter (\<lambda>(f, i). i \<noteq> index) (zip (in_files c) [0 ..< length (in_files c)]))\<rparr>"

subsection \<open>The model\<close>

text \<open>The effect on the list of models, the value that is shown, and the one that is sent.\<close>

definition auto_select :: "string list \<Rightarrow> string \<Rightarrow> string" where
  "auto_select models chosen =
     (if chosen = [] then (case models of [] \<Rightarrow> chosen | m # ms \<Rightarrow> m) else chosen)"

definition shown_model :: "string list \<Rightarrow> string \<Rightarrow> string" where
  "shown_model models chosen = (if chosen \<in> set models then chosen else [])"

definition no_models :: "bool \<Rightarrow> string list \<Rightarrow> bool" where
  "no_models loading models = (\<not> loading \<and> models = [])"

subsection \<open>The first message\<close>

record initial_state =
  initialMessage :: string
  initialModel :: string
  initialFiles :: "string list option"

record welcome_page =
  sending :: bool
  wl_input :: chat_input

text \<open>The title that is asked for, if a session is.\<close>

definition welcome_send :: "string \<Rightarrow> welcome_page \<Rightarrow> welcome_page \<times> string option" where
  "welcome_send t w = (if sending w then (w, None) else (w\<lparr>sending := True\<rparr>, Some (take 100 t)))"

definition session_answered ::
  "string \<Rightarrow> string \<Rightarrow> string list \<Rightarrow> bool \<Rightarrow> welcome_page \<Rightarrow> welcome_page \<times> initial_state option" where
  "session_answered model t fs ok w =
     (if ok then (w, Some \<lparr>initialMessage = t, initialModel = model, initialFiles = (if fs \<noteq> [] then Some fs else None)\<rparr>)
      else (w\<lparr>sending := False\<rparr>, None))"

text \<open>The input of the page, which is disabled while the session is made.\<close>

definition welcome_input :: "string \<Rightarrow> welcome_page \<Rightarrow> welcome_page \<times> string option" where
  "welcome_input model w =
     (case handleSend (sending w) False (wl_input w) of
        (c, None) \<Rightarrow> (w, None)
      | (c, Some (t, fs)) \<Rightarrow> welcome_send t (w\<lparr>wl_input := c\<rparr>))"

text \<open>What the window does when it opens: sends the first message or loads the history.\<close>

datatype first_act = SendFirst string string "string list option" | LoadHistory

definition open_window :: "initial_state option \<Rightarrow> bool \<Rightarrow> first_act \<times> initial_state option" where
  "open_window st already_sent =
     (case st of
        Some i \<Rightarrow> if initialMessage i \<noteq> [] \<and> \<not> already_sent
                  then (SendFirst (initialMessage i) (initialModel i) (initialFiles i), None)
                  else (LoadHistory, st)
      | None \<Rightarrow> (LoadHistory, st))"

subsection \<open>Usage\<close>

record token_usage =
  prompt_tokens :: nat
  completion_tokens :: nat
  total_tokens :: nat

definition usageFromMessage :: "nat option \<Rightarrow> token_usage option" where
  "usageFromMessage e =
     (case e of None \<Rightarrow> None
      | Some n \<Rightarrow> if n = 0 then None else Some \<lparr>prompt_tokens = 0, completion_tokens = n, total_tokens = n\<rparr>)"

definition fmtNum :: "nat \<Rightarrow> string" where
  "fmtNum n = (if n \<ge> 1000 then toFixed (of_nat n / 1000) 1 @ ''k'' else show_nat n)"

subsection \<open>The mode of execution\<close>

text \<open>
  The selector hands the mode to the hook (\<open>setExecutionMode\<close>, with the answer to its patch) and sends a patch of
  its own, whose refusal it ignores. The requests are those of the two, not in their order.
\<close>

definition selector_enabled :: "bool \<Rightarrow> string option \<Rightarrow> bool" where
  "selector_enabled disabled sid = (\<not> (disabled \<or> \<not> truthy sid))"

definition select_mode ::
  "string option \<Rightarrow> execution_mode \<Rightarrow> (string \<times> execution_mode) option \<Rightarrow> tool_hook \<Rightarrow> tool_hook \<times> tool_request list" where
  "select_mode sid mode answer h =
     (case setExecutionMode sid mode answer h of
        (h', reqs) \<Rightarrow>
          (h', reqs @ (if truthy sid then [PatchTools (the sid) \<lparr>tp_mode = Some mode, tp_overrides = None\<rparr>] else [])))"

subsection \<open>The settings of a project\<close>

record project_settings =
  ps_name :: string
  ps_description :: string
  ps_prompt :: string

definition settings_of :: "chat_project \<Rightarrow> project_settings" where
  "settings_of q =
     \<lparr>ps_name = cp_name q,
      ps_description = (case cp_description q of None \<Rightarrow> [] | Some d \<Rightarrow> d),
      ps_prompt = (case cp_instructions q of None \<Rightarrow> [] | Some d \<Rightarrow> d)\<rparr>"

definition trim_or_undefined :: "string \<Rightarrow> string option" where
  "trim_or_undefined s = (if trim s \<noteq> [] then Some (trim s) else None)"

definition save_settings ::
  "chat_project \<Rightarrow> project_settings \<Rightarrow> bool \<Rightarrow> chat_page \<Rightarrow> chat_page \<times> chat_request list" where
  "save_settings q s ok p =
     handleUpdateProject (cp_id q) (Some (trim (ps_name s))) (trim_or_undefined (ps_description s))
       (trim_or_undefined (ps_prompt s)) ok p"

subsection \<open>The debug panel\<close>

record debug_request =
  dr_trace :: string
  dr_id :: string

record debug_panel =
  dp_trace :: string
  dp_request :: "debug_request option"
  toolCalls :: "(string \<times> string list) option"
  dp_loading :: bool
  dp_error :: "string option"
  dp_tab :: nat
  trace_flight :: "string option"
  tool_flights :: "string list"

text \<open>
  \<open>toolCalls\<close> keeps with the calls the request they were asked for. The question for the trace is
  dropped when the trace changes; those for the tool calls are not.
\<close>

definition open_trace :: "string \<Rightarrow> debug_panel \<Rightarrow> debug_panel" where
  "open_trace tr d =
     (if tr = [] then d
      else d\<lparr>dp_trace := tr, dp_request := None, toolCalls := None, dp_loading := True, dp_error := None, dp_tab := 0,
             trace_flight := Some tr\<rparr>)"

definition trace_answered :: "string + string \<Rightarrow> debug_panel \<Rightarrow> debug_panel" where
  "trace_answered a d =
     (case trace_flight d of
        None \<Rightarrow> d
      | Some tr \<Rightarrow>
          (case a of Inl msg \<Rightarrow> d\<lparr>dp_error := Some msg\<rparr> | Inr i \<Rightarrow> d\<lparr>dp_request := Some \<lparr>dr_trace = tr, dr_id = i\<rparr>\<rparr>)
          \<lparr>dp_loading := False, trace_flight := None\<rparr>)"

definition tools_effect :: "debug_panel \<Rightarrow> debug_panel" where
  "tools_effect d =
     (case dp_request d of
        None \<Rightarrow> d
      | Some r \<Rightarrow> if dp_tab d \<noteq> 1 \<or> toolCalls d \<noteq> None then d else d\<lparr>tool_flights := tool_flights d @ [dr_id r]\<rparr>)"

definition debug_tab :: "nat \<Rightarrow> debug_panel \<Rightarrow> debug_panel" where
  "debug_tab t d = (if t = dp_tab d then d else tools_effect (d\<lparr>dp_tab := t\<rparr>))"

definition tools_answered :: "string \<Rightarrow> string list option \<Rightarrow> debug_panel \<Rightarrow> debug_panel" where
  "tools_answered i a d =
     d\<lparr>toolCalls := Some (i, case a of None \<Rightarrow> [] | Some cs \<Rightarrow> cs), tool_flights := remove1 i (tool_flights d)\<rparr>"

definition closed_panel :: debug_panel where
  "closed_panel =
     \<lparr>dp_trace = [], dp_request = None, toolCalls = None, dp_loading = False, dp_error = None, dp_tab = 0,
      trace_flight = None, tool_flights = []\<rparr>"

inductive debug_step :: "bool \<Rightarrow> debug_panel \<Rightarrow> debug_panel \<Rightarrow> bool" for patient where
  trace: "tr \<noteq> dp_trace d \<Longrightarrow> patient \<longrightarrow> tool_flights d = [] \<Longrightarrow> debug_step patient d (open_trace tr d)"
| traced: "trace_flight d \<noteq> None \<Longrightarrow> debug_step patient d (trace_answered a d)"
| tab: "dp_request d \<noteq> None \<Longrightarrow> t \<le> 1 \<Longrightarrow> debug_step patient d (debug_tab t d)"
| tools: "i \<in> set (tool_flights d) \<Longrightarrow> debug_step patient d (tools_answered i a d)"

definition debug_reachable :: "bool \<Rightarrow> debug_panel \<Rightarrow> bool" where
  "debug_reachable patient d = (debug_step patient)\<^sup>*\<^sup>* closed_panel d"

subsection \<open>Lemmas\<close>

lemma filter_zip_index:
  "map fst (filter (\<lambda>(f, i). i \<noteq> n) (zip xs [k ..< k + length xs])) =
     (if k \<le> n \<and> n < k + length xs then take (n - k) xs @ drop (Suc (n - k)) xs else xs)"
proof (induction xs arbitrary: k)
  case (Cons x xs)
  have "map fst (filter (\<lambda>(f, i). i \<noteq> n) (zip xs [Suc k ..< Suc k + length xs])) =
     (if Suc k \<le> n \<and> n < Suc k + length xs then take (n - Suc k) xs @ drop (Suc (n - Suc k)) xs else xs)"
    by (rule Cons.IH)
  moreover have "zip (x # xs) [k ..< k + length (x # xs)] = (x, k) # zip xs [Suc k ..< Suc k + length xs]"
    by (simp add: upt_conv_Cons del: upt_Suc)
  moreover have "k < n \<Longrightarrow> n - k = Suc (n - Suc k)" by simp
  ultimately show ?case by (cases "n = k") (auto simp del: upt_Suc)
qed simp

definition debug_ok :: "debug_panel \<Rightarrow> bool" where
  "debug_ok d =
     ((\<forall>r. dp_request d = Some r \<longrightarrow> dr_trace r = dp_trace d)
      \<and> (\<forall>tr. trace_flight d = Some tr \<longrightarrow> tr = dp_trace d \<and> dp_request d = None)
      \<and> (\<forall>i \<in> set (tool_flights d). map_option dr_id (dp_request d) = Some i)
      \<and> (\<forall>i cs. toolCalls d = Some (i, cs) \<longrightarrow> map_option dr_id (dp_request d) = Some i))"

lemma debug_ok_step: "debug_step True d e \<Longrightarrow> debug_ok d \<Longrightarrow> debug_ok e"
proof (induction rule: debug_step.induct)
  case (traced d a)
  then show ?case by (auto simp: debug_ok_def trace_answered_def split: option.splits sum.splits)
next
  case (tools i d a)
  then show ?case by (auto simp: debug_ok_def tools_answered_def dest: in_set_remove1 [THEN iffD1, rotated] notin_set_remove1)
qed (auto simp: debug_ok_def open_trace_def debug_tab_def tools_effect_def split: option.splits)

subsection \<open>Properties\<close>

text \<open>A message is sent trimmed and never blank, with its files, and leaves the input empty.\<close>

theorem input_sent:
  "handleSend disabled streaming c =
     (if trim (in_text c) = [] \<or> disabled \<or> streaming then (c, None) else (empty_input, Some (trim (in_text c), in_files c)))"
  by (simp add: handleSend_def canSend_def)

text \<open>Enter sends, but its line break is lost also where nothing can be sent.\<close>

theorem enter_sends:
  "handleKeyDown key shift disabled streaming c =
     (if key = ''Enter'' \<and> \<not> shift then (handleSend disabled streaming c, True) else ((c, None), False))"
  by (rule handleKeyDown_def)

text \<open>Removing a file removes that one and keeps the order of the others.\<close>

theorem file_removed:
  "in_files (removeFile n c) =
     (if n < length (in_files c) then take n (in_files c) @ drop (Suc n) (in_files c) else in_files c)"
  using filter_zip_index [of n "in_files c" 0] by (simp add: removeFile_def)

text \<open>
  A model is selected as soon as there is one, and a selection is kept; but one that is no longer offered is
  shown as none and used all the same.
\<close>

theorem model_selected:
  "(auto_select models m \<noteq> [] \<longleftrightarrow> m \<noteq> [] \<or> (models \<noteq> [] \<and> hd models \<noteq> []))
   \<and> (m \<noteq> [] \<longrightarrow> auto_select models m = m)"
  by (auto simp: auto_select_def split: list.splits)

theorem withdrawn_model_kept:
  assumes "m \<noteq> []" "m \<notin> set models"
  shows "auto_select models m = m \<and> shown_model models m = []"
  using assms by (simp add: auto_select_def shown_model_def)

text \<open>The first message reaches the window of its session, with its model and files, and is sent once.\<close>

theorem first_message_sent:
  assumes "sending w = False" "trim (in_text (wl_input w)) \<noteq> []"
  shows "snd (welcome_input model w) = Some (take 100 (trim (in_text (wl_input w))))
    \<and> (case snd (session_answered model (trim (in_text (wl_input w))) (in_files (wl_input w)) True (fst (welcome_input model w))) of
        None \<Rightarrow> False
      | Some st \<Rightarrow> open_window (Some st) False =
           (SendFirst (trim (in_text (wl_input w))) model
              (if in_files (wl_input w) \<noteq> [] then Some (in_files (wl_input w)) else None), None)
         \<and> open_window (snd (open_window (Some st) False)) True = (LoadHistory, None))"
  using assms
  by (simp add: welcome_input_def handleSend_def canSend_def welcome_send_def session_answered_def open_window_def)

text \<open>If the session cannot be made, the message is gone: the input was emptied when it was sent.\<close>

theorem failed_session_loses_message:
  assumes "sending w = False" "trim (in_text (wl_input w)) \<noteq> []"
  shows "wl_input (fst (session_answered model t fs False (fst (welcome_input model w)))) = empty_input"
  using assms
  by (simp add: welcome_input_def handleSend_def canSend_def welcome_send_def session_answered_def)

text \<open>While a session is made no second one is asked for.\<close>

theorem one_session_at_a_time: "sending w \<Longrightarrow> welcome_input model w = (w, None) \<and> welcome_send t w = (w, None)"
  by (simp add: welcome_input_def handleSend_def canSend_def welcome_send_def)

text \<open>Every change of the mode in a session is sent twice, and a refused one leaves the new value shown.\<close>

theorem mode_sent_twice:
  assumes "truthy sid"
  shows "2 \<le> length (filter (\<lambda>r. r = PatchTools (the sid) \<lparr>tp_mode = Some mode, tp_overrides = None\<rparr>)
                  (snd (select_mode sid mode answer h)))"
  using assms by (auto simp: select_mode_def setExecutionMode_def Let_def split: option.splits prod.splits)

text \<open>Before a session the mode cannot be chosen: the selector is disabled.\<close>

theorem mode_fixed_before_session: "\<not> selector_enabled disabled None"
  by (simp add: selector_enabled_def)

text \<open>
  Settings of a project that are saved unchanged change nothing, for texts that are trimmed and not empty
  where they are present.
\<close>

definition tidy_text :: "string option \<Rightarrow> bool" where
  "tidy_text d = (case d of None \<Rightarrow> True | Some t \<Rightarrow> t \<noteq> [] \<and> trim t = t)"

theorem settings_unchanged:
  assumes "\<And>r. r \<in> set (pg_projects p) \<Longrightarrow> cp_id r = cp_id q \<Longrightarrow> r = q"
    and "trim (cp_name q) = cp_name q" "tidy_text (cp_description q)" "tidy_text (cp_instructions q)"
  shows "pg_projects (fst (save_settings q (settings_of q) True p)) = pg_projects p"
proof -
  have "trim_or_undefined (case d of None \<Rightarrow> [] | Some t \<Rightarrow> t) = d" if "tidy_text d" for d
  proof -
    have "trim [] = []" by (simp add: trim_def)
    then show ?thesis using that by (auto simp: trim_or_undefined_def tidy_text_def split: option.splits)
  qed
  then have "fst (save_settings q (settings_of q) True p) =
      p\<lparr>pg_projects := map (\<lambda>r. if cp_id r = cp_id q
         then r\<lparr>cp_name := cp_name q, cp_description := or_keep (map_option Some (cp_description q)) (cp_description r),
                cp_instructions := or_keep (map_option Some (cp_instructions q)) (cp_instructions r)\<rparr>
         else r) (pg_projects p)\<rparr>"
    using assms(2-4) by (simp add: save_settings_def settings_of_def handleUpdateProject_def or_keep_def)
  moreover have "map (\<lambda>r. if cp_id r = cp_id q
         then r\<lparr>cp_name := cp_name q, cp_description := or_keep (map_option Some (cp_description q)) (cp_description r),
                cp_instructions := or_keep (map_option Some (cp_instructions q)) (cp_instructions r)\<rparr>
         else r) (pg_projects p) = pg_projects p"
  proof (rule map_idI)
    fix r assume "r \<in> set (pg_projects p)"
    then show "(if cp_id r = cp_id q
         then r\<lparr>cp_name := cp_name q, cp_description := or_keep (map_option Some (cp_description q)) (cp_description r),
                cp_instructions := or_keep (map_option Some (cp_instructions q)) (cp_instructions r)\<rparr>
         else r) = r"
      using assms(1) [of r] by (cases q) (auto simp: or_keep_def split: option.splits)
  qed
  ultimately show ?thesis by simp
qed

text \<open>A description or an instruction that is emptied is not sent, so it stays.\<close>

theorem emptied_project_text_kept:
  assumes "trim (ps_description s) = []" "trim (ps_prompt s) = []"
  shows "map cp_description (pg_projects (fst (save_settings q s ok p))) = map cp_description (pg_projects p)
    \<and> map cp_instructions (pg_projects (fst (save_settings q s ok p))) = map cp_instructions (pg_projects p)"
  using assms
  by (auto simp: save_settings_def handleUpdateProject_def trim_or_undefined_def or_keep_def)

text \<open>
  The panel shows the request of its trace; when no question for tool calls is left behind, the tool calls
  are those of that request too.
\<close>

theorem debug_panel_consistent:
  assumes "debug_reachable True d"
  shows "(\<forall>r. dp_request d = Some r \<longrightarrow> dr_trace r = dp_trace d)
    \<and> (\<forall>i cs. toolCalls d = Some (i, cs) \<longrightarrow> map_option dr_id (dp_request d) = Some i)"
proof -
  have "debug_ok d"
    using assms unfolding debug_reachable_def
    by (induction rule: rtranclp_induct) (simp add: debug_ok_def closed_panel_def, rule debug_ok_step)
  then show ?thesis by (simp add: debug_ok_def)
qed

text \<open>Otherwise the calls of the last request can be shown for the next one.\<close>

theorem late_calls_of_other_request:
  "\<exists>d. debug_reachable False d \<and> dp_request d = Some \<lparr>dr_trace = ''t2'', dr_id = ''r2''\<rparr>
     \<and> toolCalls d = Some (''r1'', [''search'']) \<and> tool_flights (debug_tab 1 d) = []"
proof -
  let ?d1 = "open_trace ''t1'' closed_panel"
  let ?d2 = "trace_answered (Inr ''r1'') ?d1"
  let ?d3 = "debug_tab 1 ?d2"
  let ?d4 = "open_trace ''t2'' ?d3"
  let ?d5 = "trace_answered (Inr ''r2'') ?d4"
  let ?d6 = "tools_answered ''r1'' (Some [''search'']) ?d5"
  note defs = open_trace_def trace_answered_def debug_tab_def tools_effect_def tools_answered_def closed_panel_def
  have "debug_step False closed_panel ?d1" by (rule debug_step.trace) (simp_all add: defs)
  moreover have "debug_step False ?d1 ?d2" by (rule debug_step.traced) (simp add: defs)
  moreover have "debug_step False ?d2 ?d3" by (rule debug_step.tab) (simp_all add: defs)
  moreover have "debug_step False ?d3 ?d4" by (rule debug_step.trace) (simp_all add: defs)
  moreover have "debug_step False ?d4 ?d5" by (rule debug_step.traced) (simp add: defs)
  moreover have "debug_step False ?d5 ?d6" by (rule debug_step.tools) (simp add: defs)
  ultimately have "debug_reachable False ?d6"
    unfolding debug_reachable_def by (meson rtranclp.rtrancl_into_rtrancl rtranclp.rtrancl_refl)
  moreover have "dp_request ?d6 = Some \<lparr>dr_trace = ''t2'', dr_id = ''r2''\<rparr>"
    "toolCalls ?d6 = Some (''r1'', [''search''])" "tool_flights (debug_tab 1 ?d6) = []"
    by (simp_all add: defs)
  ultimately show ?thesis by blast
qed

end
