(* ===== verification/Rag_Pages.thy ===== *)
theory Rag_Pages
  imports Skill_Pages "HOL-Library.Word"
begin

text \<open>
  The pages of the retrieval service: \<^verbatim>\<open>pages/admin/rag/RagExplorerPage.tsx\<close>, which uploads files to
  drafts and publishes them, the search of \<^verbatim>\<open>RagSearchPage.tsx\<close> and the configuration of
  \<^verbatim>\<open>RagRuntimeConfigPage.tsx\<close>. The digest of a file is an argument, its text is modelled. The server
  makes a draft for the container it was asked for. Drafts that have been asked for are part of the state
  of the explorer. \<open>splitCsv\<close> is the one of \<open>Skill_Pages\<close>, which the search page repeats. JSX is not modelled.
\<close>

subsection \<open>The text of a digest\<close>

definition hex_digit :: "nat \<Rightarrow> char" where
  "hex_digit n = ''0123456789abcdef'' ! n"

text \<open>\<open>toString(16)\<close> of a byte, padded to two places.\<close>

definition byte_hex :: "8 word \<Rightarrow> string" where
  "byte_hex b =
     (let n = unat b; t = (if n < 16 then [hex_digit n] else [hex_digit (n div 16), hex_digit (n mod 16)])
      in replicate (2 - length t) (CHR ''0'') @ t)"

definition sha256Hex :: "('f \<Rightarrow> 8 word list) \<Rightarrow> 'f \<Rightarrow> string" where
  "sha256Hex digest file = concat (map byte_hex (digest file))"

subsection \<open>The explorer\<close>

record rag_file =
  rf_name :: string
  rf_type :: string
  rf_size :: nat

definition contentTypeOf :: "rag_file \<Rightarrow> string" where
  "contentTypeOf f = (if rf_type f \<noteq> [] then rf_type f else ''application/octet-stream'')"

record rag_draft =
  d_id :: string
  d_container :: string
  d_status :: string
  d_operations :: "string list"

record explorer =
  tenantId :: string
  workspaceId :: string
  containers :: "string list"
  selectedContainer :: string
  draft :: "rag_draft option"
  scheduleAt :: string
  busy :: bool
  ex_error :: "string option"
  ex_success :: "string option"
  asked_for :: "string list"

definition new_explorer :: explorer where
  "new_explorer =
     \<lparr>tenantId = ''tenant_default'', workspaceId = [], containers = [], selectedContainer = [], draft = None,
      scheduleAt = [], busy = False, ex_error = None, ex_success = None, asked_for = []\<rparr>"

text \<open>A draft of the container that is not published serves; otherwise one is asked for.\<close>

definition draft_serves :: "string \<Rightarrow> rag_draft option \<Rightarrow> bool" where
  "draft_serves c dr = (case dr of None \<Rightarrow> False | Some d \<Rightarrow> d_container d = c \<and> d_status d \<noteq> ''published'')"

definition ensureDraft :: "string \<Rightarrow> explorer \<Rightarrow> explorer" where
  "ensureDraft c e = (if draft_serves c (draft e) then e else e\<lparr>asked_for := asked_for e @ [c]\<rparr>)"

definition draft_created :: "rag_draft option \<Rightarrow> string \<Rightarrow> explorer \<Rightarrow> explorer" where
  "draft_created a c e =
     (let e = e\<lparr>asked_for := remove1 c (asked_for e)\<rparr> in case a of None \<Rightarrow> e | Some d \<Rightarrow> e\<lparr>draft := Some d\<rparr>)"

text \<open>The effect on the selection.\<close>

definition select_container :: "string \<Rightarrow> explorer \<Rightarrow> explorer" where
  "select_container c e =
     (if c = selectedContainer e then e
      else let e = e\<lparr>selectedContainer := c\<rparr> in if c = [] then e else ensureDraft c e)"

definition containers_loaded :: "string list \<Rightarrow> explorer \<Rightarrow> explorer" where
  "containers_loaded cs e =
     (let e = e\<lparr>containers := cs\<rparr>
      in if selectedContainer e = [] \<and> cs \<noteq> [] then select_container (hd cs) e else e)"

definition change_tenant :: "string \<Rightarrow> explorer \<Rightarrow> explorer" where
  "change_tenant t e = e\<lparr>tenantId := t\<rparr>"

text \<open>What a new container is asked for with: the tenant and the parent.\<close>

definition handleCreateContainer :: "string \<Rightarrow> explorer \<Rightarrow> (string \<times> string option \<times> string) option" where
  "handleCreateContainer name e =
     (if trim name = [] then None
      else Some (tenantId e, (if selectedContainer e \<noteq> [] then Some (selectedContainer e) else None), trim name))"

text \<open>
  An upload, with the draft the server makes if one is needed and the failures of the files: the files that
  are completed, each with its container and draft, and the first failure.
\<close>

record completed_upload =
  up_file :: rag_file
  up_container :: string
  up_draft :: string

fun upload_files :: "(rag_file \<Rightarrow> string option) \<Rightarrow> string \<Rightarrow> string \<Rightarrow> rag_file list \<Rightarrow> completed_upload list \<times> string option" where
  "upload_files fails c d [] = ([], None)"
| "upload_files fails c d (f # fs) =
     (case fails f of
        Some msg \<Rightarrow> ([], Some msg)
      | None \<Rightarrow>
          (case upload_files fails c d fs of
             (done_files, r) \<Rightarrow> (\<lparr>up_file = f, up_container = c, up_draft = d\<rparr> # done_files, r)))"

definition upload_enabled :: "explorer \<Rightarrow> bool" where
  "upload_enabled e = (\<not> busy e \<and> selectedContainer e \<in> set (containers e))"

definition active_draft :: "(string \<Rightarrow> string + rag_draft) \<Rightarrow> explorer \<Rightarrow> string + rag_draft" where
  "active_draft create e =
     (if draft_serves (selectedContainer e) (draft e) then Inr (the (draft e)) else create (selectedContainer e))"

definition handleUpload ::
  "rag_file list \<Rightarrow> (string \<Rightarrow> string + rag_draft) \<Rightarrow> (rag_file \<Rightarrow> string option) \<Rightarrow> explorer
     \<Rightarrow> explorer \<times> completed_upload list" where
  "handleUpload files create fails e =
     (if files = [] \<or> selectedContainer e = [] then (e, [])
      else
        let c = selectedContainer e;
            e = e\<lparr>ex_error := None, ex_success := None\<rparr>
        in case active_draft create e of
             Inl msg \<Rightarrow> (e\<lparr>ex_error := Some msg\<rparr>, [])
           | Inr d \<Rightarrow>
               (case upload_files fails c (d_id d) files of
                  (ups, Some msg) \<Rightarrow> (e\<lparr>draft := Some d, ex_error := Some msg\<rparr>, ups)
                | (ups, None) \<Rightarrow>
                    (e\<lparr>draft := Some (d\<lparr>d_operations := d_operations d @ map (rf_name \<circ> up_file) ups\<rparr>),
                       ex_success := Some ''Files uploaded to draft.''\<rparr>, ups)))"

definition publish_enabled :: "bool \<Rightarrow> explorer \<Rightarrow> bool" where
  "publish_enabled now e =
     (\<not> busy e \<and> draft e \<noteq> None \<and> (now \<or> scheduleAt e \<noteq> []))"

text \<open>The draft that is published, with the time of the schedule, as text.\<close>

definition handlePublish :: "(string \<Rightarrow> string) \<Rightarrow> bool \<Rightarrow> explorer \<Rightarrow> (string \<times> string option) option" where
  "handlePublish iso_time now e =
     (case draft e of None \<Rightarrow> None
      | Some d \<Rightarrow> Some (d_id d, if now then None else if scheduleAt e \<noteq> [] then Some (iso_time (scheduleAt e)) else None))"

inductive explorer_step :: "explorer \<Rightarrow> explorer \<Rightarrow> bool" where
  pick: "c \<in> set (containers e) \<Longrightarrow> explorer_step e (select_container c e)"
| containers: "[] \<notin> set cs \<Longrightarrow> explorer_step e (containers_loaded cs e)"
| drafted: "c \<in> set (asked_for e) \<Longrightarrow> (\<forall>d. a = Some d \<longrightarrow> d_container d = c) \<Longrightarrow> explorer_step e (draft_created a c e)"
| tenant: "explorer_step e (change_tenant t e)"
| upload: "upload_enabled e \<Longrightarrow> (\<forall>c d. create c = Inr d \<longrightarrow> d_container d = c) \<Longrightarrow>
    explorer_step e (fst (handleUpload files create fails e))"

definition explorer_reachable :: "explorer \<Rightarrow> bool" where
  "explorer_reachable e = explorer_step\<^sup>*\<^sup>* new_explorer e"

subsection \<open>Search\<close>

record search_form =
  sf_tenant :: string
  sf_workspace :: string
  sf_query :: string
  sf_user :: string
  sf_groups :: string
  sf_sources :: string
  sf_tags :: string
  sf_types :: string
  sf_top_k :: int

record search_request =
  sr_tenant :: string
  sr_workspace :: "string option"
  sr_query :: string
  sr_user :: string
  sr_groups :: "string list"
  sr_sources :: "string list"
  sr_tags :: "string list"
  sr_types :: "string list"
  sr_top_k :: int

definition runSearch :: "search_form \<Rightarrow> search_request" where
  "runSearch f =
     \<lparr>sr_tenant = sf_tenant f, sr_workspace = (if sf_workspace f \<noteq> [] then Some (sf_workspace f) else None),
      sr_query = sf_query f, sr_user = sf_user f, sr_groups = splitCsv (sf_groups f),
      sr_sources = splitCsv (sf_sources f), sr_tags = splitCsv (sf_tags f), sr_types = splitCsv (sf_types f),
      sr_top_k = sf_top_k f\<rparr>"

text \<open>The number of results that is kept for a typed one; \<open>None\<close> is not a number.\<close>

definition clamp_top_k :: "int option \<Rightarrow> int" where
  "clamp_top_k v = max 1 (min 50 (case v of None \<Rightarrow> 1 | Some n \<Rightarrow> if n = 0 then 1 else n))"

subsection \<open>Configuration\<close>

record rag_config =
  embedding_provider :: string
  embedding_model :: string
  embedding_base_url :: "string option"
  embedding_api_key_ref :: "string option"
  embedding_dim :: int
  max_tokens :: int
  overlap :: int
  by_headings :: bool

definition defaultPayload :: rag_config where
  "defaultPayload =
     \<lparr>embedding_provider = ''openai_compat'', embedding_model = [], embedding_base_url = Some [],
      embedding_api_key_ref = Some [], embedding_dim = 1024, max_tokens = 512, overlap = 64, by_headings = False\<rparr>"

record config_page =
  cf_loading :: bool
  cf_saving :: bool
  cf_health :: string
  cf_error :: "string option"
  cf_success :: bool
  updatedAt :: "string option"
  embeddingApiKey :: string
  payload :: rag_config

definition config_loaded :: "string option \<Rightarrow> (rag_config \<times> string) option \<Rightarrow> config_page \<Rightarrow> config_page" where
  "config_loaded h c p =
     (let p = p\<lparr>cf_error := None, cf_health := (case h of None \<Rightarrow> ''unreachable'' | Some s \<Rightarrow> s)\<rparr>;
          p = (case c of None \<Rightarrow> p\<lparr>payload := defaultPayload, updatedAt := None\<rparr>
               | Some (v, t) \<Rightarrow> p\<lparr>payload := v, updatedAt := Some t\<rparr>)
      in p\<lparr>cf_loading := False\<rparr>)"

definition null_if_blank :: "string option \<Rightarrow> string option" where
  "null_if_blank s = (case s of None \<Rightarrow> None | Some t \<Rightarrow> if t = [] then None else Some t)"

text \<open>The payload that is sent, and the key.\<close>

definition config_sent :: "config_page \<Rightarrow> rag_config \<times> string option" where
  "config_sent p =
     ((payload p)\<lparr>embedding_base_url := null_if_blank (embedding_base_url (payload p)),
        embedding_api_key_ref := null_if_blank (embedding_api_key_ref (payload p))\<rparr>,
      null_if_blank (Some (embeddingApiKey p)))"

definition config_saved :: "string + rag_config \<times> string \<Rightarrow> config_page \<Rightarrow> config_page" where
  "config_saved a p =
     (case a of
        Inl msg \<Rightarrow> p\<lparr>cf_error := Some msg, cf_success := False\<rparr>
      | Inr (v, t) \<Rightarrow> p\<lparr>payload := v, updatedAt := Some t, embeddingApiKey := [], cf_success := True, cf_error := None\<rparr>)
     \<lparr>cf_saving := False\<rparr>"

subsection \<open>Lemmas\<close>

definition hex_value :: "char \<Rightarrow> nat" where
  "hex_value c = length (takeWhile (\<lambda>d. d \<noteq> c) ''0123456789abcdef'')"

lemma digest_digit_value: "n < 16 \<Longrightarrow> hex_value (hex_digit n) = n"
proof -
  have "list_all (\<lambda>n. hex_value (hex_digit n) = n) [0 ..< 16]" by code_simp
  then show "n < 16 \<Longrightarrow> hex_value (hex_digit n) = n" by (simp add: list_all_iff)
qed

fun unhex :: "string \<Rightarrow> 8 word list" where
  "unhex (a # b # s) = of_nat (16 * hex_value a + hex_value b) # unhex s"
| "unhex s = []"

lemma byte_hex_two: "byte_hex b = [hex_digit (unat b div 16), hex_digit (unat b mod 16)]"
  by (auto simp: byte_hex_def Let_def hex_digit_def numeral_2_eq_2)

lemma byte_div: "unat (b :: 8 word) div 16 < 16"
  proof -
  have "unat b < 2 ^ LENGTH(8)" by (rule unsigned_less)
  then show ?thesis by simp
qed

lemma upload_files_prefix:
  "map up_file (fst (upload_files fails c d fs)) = takeWhile (\<lambda>f. fails f = None) fs
   \<and> (snd (upload_files fails c d fs) = None \<longleftrightarrow> list_all (\<lambda>f. fails f = None) fs)
   \<and> list_all (\<lambda>u. up_container u = c \<and> up_draft u = d) (fst (upload_files fails c d fs))"
  by (induction fs) (auto split: option.splits prod.splits)

subsection \<open>Properties\<close>

text \<open>The text of a digest is two digits a byte, from which the digest can be read back.\<close>

theorem digest_text_roundtrip:
  "unhex (sha256Hex digest f) = digest f \<and> length (sha256Hex digest f) = 2 * length (digest f)"
proof -
  have "unhex (concat (map byte_hex bs)) = bs \<and> length (concat (map byte_hex bs)) = 2 * length bs" for bs
  proof (induction bs)
    case (Cons b bs)
    have "of_nat (16 * (unat b div 16) + unat b mod 16) = b" by simp
    then show ?case using Cons byte_div [of b] by (simp add: byte_hex_two digest_digit_value)
  qed simp
  then show ?thesis by (simp add: sha256Hex_def)
qed

text \<open>
  The files of an upload are completed in their order up to the first failure, all in the container that is
  selected and in one draft, which is a draft of that container.
\<close>

theorem upload_in_selected_container:
  assumes "\<And>c d. create c = Inr d \<Longrightarrow> d_container d = c"
  shows "map up_file (snd (handleUpload files create fails e)) \<in> {[], takeWhile (\<lambda>f. fails f = None) files}
    \<and> list_all (\<lambda>u. up_container u = selectedContainer e
        \<and> (\<exists>d. draft (fst (handleUpload files create fails e)) = Some d \<and> up_draft u = d_id d \<and> d_container d = selectedContainer e))
        (snd (handleUpload files create fails e))"
proof (cases "files = [] \<or> selectedContainer e = []")
  case True
  then show ?thesis by (auto simp: handleUpload_def)
next
  case False
  let ?c = "selectedContainer e" and ?e = "e\<lparr>ex_error := None, ex_success := None\<rparr>"
  show ?thesis
  proof (cases "active_draft create ?e")
    case (Inl msg)
    then show ?thesis using False by (simp add: handleUpload_def Let_def)
  next
    case (Inr d)
    then have d: "d_container d = ?c"
      using assms by (auto simp: active_draft_def draft_serves_def split: if_splits option.splits)
    obtain ups r where u: "upload_files fails ?c (d_id d) files = (ups, r)"
      by (cases "upload_files fails ?c (d_id d) files")
    have "map up_file ups = takeWhile (\<lambda>f. fails f = None) files"
      "list_all (\<lambda>u. up_container u = ?c \<and> up_draft u = d_id d) ups"
      using upload_files_prefix [of fails ?c "d_id d" files] by (simp_all add: u)
    with Inr False d u show ?thesis
      by (cases r) (simp_all add: handleUpload_def Let_def list_all_iff)
  qed
qed

text \<open>The draft shown need not be of the container that is selected: publishing then publishes another container's.\<close>

theorem publish_of_other_container:
  "\<exists>e d. explorer_reachable e \<and> draft e = Some d \<and> d_container d = ''a'' \<and> selectedContainer e = ''b''
     \<and> publish_enabled True e \<and> handlePublish id True e = Some (d_id d, None)"
proof -
  let ?d = "\<lparr>d_id = ''1'', d_container = ''a'', d_status = ''open'', d_operations = []\<rparr>"
  let ?e1 = "containers_loaded [''a'', ''b''] new_explorer"
  let ?e2 = "draft_created (Some ?d) ''a'' ?e1"
  let ?e3 = "select_container ''b'' ?e2"
  note defs = containers_loaded_def new_explorer_def select_container_def ensureDraft_def draft_serves_def draft_created_def
  have "explorer_step new_explorer ?e1" by (rule explorer_step.containers) simp
  moreover have "explorer_step ?e1 ?e2" by (rule explorer_step.drafted) (simp_all add: defs Let_def)
  moreover have "explorer_step ?e2 ?e3" by (rule explorer_step.pick) (simp add: defs Let_def)
  ultimately have "explorer_reachable ?e3"
    unfolding explorer_reachable_def by (meson rtranclp.rtrancl_into_rtrancl rtranclp.rtrancl_refl)
  moreover have "draft ?e3 = Some ?d" "selectedContainer ?e3 = ''b''" "publish_enabled True ?e3"
    "handlePublish id True ?e3 = Some (''1'', None)"
    by (simp_all add: defs Let_def publish_enabled_def handlePublish_def)
  ultimately show ?thesis by (intro exI [of _ ?e3] exI [of _ ?d]) simp
qed

text \<open>Going to another container and back asks for a new draft: the files of the first are no longer shown.\<close>

theorem draft_lost_on_return:
  assumes "draft e = Some d" "selectedContainer e = d_container d" "asked_for e = []" "d_container d \<noteq> []"
    and "b \<noteq> []" "b \<noteq> d_container d" "d_container d2 = b"
  shows "asked_for (select_container (d_container d) (draft_created (Some d2) b (select_container b e))) = [d_container d]"
  using assms by (auto simp: select_container_def draft_created_def ensureDraft_def draft_serves_def Let_def)

text \<open>A change of the tenant keeps the selection, so that a new container gets a parent of the old tenant.\<close>

theorem parent_of_old_tenant:
  assumes "selectedContainer e \<noteq> []" "trim name \<noteq> []"
  shows "handleCreateContainer name (containers_loaded cs (change_tenant t e)) = Some (t, Some (selectedContainer e), trim name)"
  using assms by (simp add: handleCreateContainer_def containers_loaded_def change_tenant_def Let_def)

text \<open>The search asks for one to fifty results, and its lists have no blank and no untrimmed word.\<close>

theorem search_request_tidy:
  "1 \<le> clamp_top_k v \<and> clamp_top_k v \<le> 50 \<and> (\<forall>n. v = Some n \<and> 1 \<le> n \<and> n \<le> 50 \<longrightarrow> clamp_top_k v = n)
   \<and> list_all tidy_word (sr_groups (runSearch f) @ sr_sources (runSearch f) @ sr_tags (runSearch f) @ sr_types (runSearch f))"
  by (auto simp: clamp_top_k_def runSearch_def splitCsv_words)

text \<open>
  A configuration that cannot be loaded is shown as the defaults, without an error, and a save then sends
  the defaults.
\<close>

theorem failed_load_saves_defaults:
  "cf_error (config_loaded h None p) = None
   \<and> fst (config_sent (config_loaded h None p)) = defaultPayload\<lparr>embedding_base_url := None, embedding_api_key_ref := None\<rparr>"
  by (simp add: config_loaded_def config_sent_def null_if_blank_def defaultPayload_def Let_def)

text \<open>A configuration that is loaded and saved unchanged is sent as it was, blank texts as missing; the key only if it was typed.\<close>

theorem unchanged_config_sent:
  assumes "embedding_base_url c \<noteq> Some []" "embedding_api_key_ref c \<noteq> Some []" "embeddingApiKey p = []"
  shows "config_sent (config_loaded h (Some (c, t)) p) = (c, None)"
  using assms
  by (simp add: config_loaded_def config_sent_def null_if_blank_def Let_def split: option.splits)

theorem saved_config_shown:
  "payload (config_saved (Inr (c, t)) p) = c \<and> embeddingApiKey (config_saved (Inr (c, t)) p) = []
   \<and> payload (config_saved (Inl m) p) = payload p \<and> embeddingApiKey (config_saved (Inl m) p) = embeddingApiKey p"
  by (simp add: config_saved_def)

end
