(* ===== verification/Api_Requests.thy ===== *)
theory Api_Requests
  imports Admin_Layout
begin

text \<open>
  The request wrappers under \<^verbatim>\<open>api\<close>: what an answer of the server becomes for the caller, the
  query strings built from parameters, and the paths built from identifiers. The reader of a
  query string is \<open>search_param\<close> of \<^verbatim>\<open>Admin_Nav\<close>. How the server cuts the path of a request
  into pieces is the argument \<open>segments\<close>; it is documented to decode the path before that.
\<close>

subsection \<open>Answers\<close>

text \<open>Reading the text or the JSON of an answer may fail: \<open>Inl\<close>.\<close>

record response =
  res_status :: nat
  statusText :: string
  res_text :: "unit + string"
  res_json :: "string + json"

definition res_ok :: "response \<Rightarrow> bool" where
  "res_ok r = (200 \<le> res_status r \<and> res_status r < 300)"

text \<open>An outcome is the message of the error, or the value, which is undefined for 204.\<close>

type_synonym outcome = "string + json option"

definition read_json :: "response \<Rightarrow> outcome" where
  "read_json r = (case res_json r of Inl e \<Rightarrow> Inl e | Inr j \<Rightarrow> Inr (Some j))"

definition text_or :: "string \<Rightarrow> response \<Rightarrow> string" where
  "text_or d r = (case res_text r of Inl _ \<Rightarrow> d | Inr t \<Rightarrow> t)"

definition api_message :: "response \<Rightarrow> string" where
  "api_message r = ''API '' @ show_nat (res_status r) @ '': '' @ text_or (statusText r) r"

text \<open>The wrapper of nodes, jobs, knowledge bases and models, and that of graph and logs.\<close>

definition request :: "response \<Rightarrow> outcome" where
  "request r =
     (if \<not> res_ok r then Inl (api_message r)
      else if res_status r = 204 then Inr None
      else read_json r)"

definition graph_request :: "response \<Rightarrow> outcome" where
  "graph_request r = (if \<not> res_ok r then Inl (api_message r) else read_json r)"

text \<open>The wrapper of the admin area, which forgets the cached access when it is refused.\<close>

definition admin_request :: "response \<Rightarrow> access_world \<Rightarrow> outcome \<times> access_world" where
  "admin_request r w =
     (if \<not> res_ok r then
        (Inl (api_message r),
         if res_status r = 401 \<or> res_status r = 403 then clearCachedAccess w else w)
      else if res_status r = 204 then (Inr None, w)
      else (read_json r, w))"

text \<open>The wrappers whose message is the text of the answer, with the name of the API for none.\<close>

definition named_request :: "string \<Rightarrow> response \<Rightarrow> outcome" where
  "named_request api r =
     (if \<not> res_ok r then
        Inl (let t = text_or [] r
             in if t \<noteq> [] then t else api @ '' failed: '' @ show_nat (res_status r))
      else if res_status r = 204 then Inr None
      else read_json r)"

definition pii_request :: "response \<Rightarrow> outcome" where
  "pii_request r =
     (if \<not> res_ok r then Inl (''PII API failed: '' @ show_nat (res_status r)) else read_json r)"

subsection \<open>Query strings\<close>

text \<open>\<open>URLSearchParams\<close>: \<open>set\<close> replaces the first entry of a name and removes the others.\<close>

type_synonym params = "(string \<times> string) list"

fun set_param :: "string \<Rightarrow> string \<Rightarrow> params \<Rightarrow> params" where
  "set_param k v [] = [(k, v)]"
| "set_param k v (p # ps) =
     (if fst p = k then (k, v) # filter (\<lambda>q. fst q \<noteq> k) ps else p # set_param k v ps)"

definition form_safe :: "char \<Rightarrow> bool" where
  "form_safe c =
     (let n = (of_char c :: nat)
      in 48 \<le> n \<and> n \<le> 57 \<or> 65 \<le> n \<and> n \<le> 90 \<or> 97 \<le> n \<and> n \<le> 122 \<or> c \<in> set ''*-._'')"

definition form_encode :: "string \<Rightarrow> string" where
  "form_encode s =
     concat (map (\<lambda>c. if form_safe c then [c]
       else if c = CHR '' '' then ''+''
       else [CHR ''%'', hex_digit (of_char c div 16), hex_digit (of_char c mod 16)]) s)"

definition pair_text :: "string \<times> string \<Rightarrow> string" where
  "pair_text p = form_encode (fst p) @ CHR ''='' # form_encode (snd p)"

definition params_text :: "params \<Rightarrow> string" where
  "params_text ps = join ''&'' (map pair_text ps)"

text \<open>The suffix of a path: nothing, or a question mark and the query.\<close>

definition suffix :: "params \<Rightarrow> string" where
  "suffix ps = (if params_text ps \<noteq> [] then ''?'' @ params_text ps else [])"

definition opt_param :: "string \<Rightarrow> string option \<Rightarrow> params \<Rightarrow> params" where
  "opt_param k v ps = (if truthy v then set_param k (the v) ps else ps)"

definition num_param :: "string \<Rightarrow> nat option \<Rightarrow> params \<Rightarrow> params" where
  "num_param k v ps = (case v of None \<Rightarrow> ps | Some n \<Rightarrow> set_param k (show_nat n) ps)"

definition positive_param :: "string \<Rightarrow> nat option \<Rightarrow> params \<Rightarrow> params" where
  "positive_param k v ps =
     (case v of None \<Rightarrow> ps | Some n \<Rightarrow> if n = 0 then ps else set_param k (show_nat n) ps)"

text \<open>\<open>qs\<close> of the observability pages encodes the values and leaves out those that are empty.\<close>

definition qs_pair :: "string \<times> string \<Rightarrow> string" where
  "qs_pair p = fst p @ CHR ''='' # encodeURIComponent (snd p)"

definition qs_parts :: "(string \<times> string option) list \<Rightarrow> params" where
  "qs_parts ps = map (\<lambda>p. (fst p, the (snd p))) (filter (\<lambda>p. truthy (snd p)) ps)"

definition qs :: "(string \<times> string option) list \<Rightarrow> string" where
  "qs ps = (let parts = map qs_pair (qs_parts ps)
            in if parts \<noteq> [] then ''?'' @ join ''&'' parts else [])"

definition requests_query :: "string \<Rightarrow> string \<Rightarrow> nat \<Rightarrow> string option \<Rightarrow> string option \<Rightarrow> string" where
  "requests_query from until page alias user =
     qs [(''start'', Some from), (''end'', Some until), (''page'', Some (show_nat page)),
         (''limit'', Some (show_nat 50)), (''model_alias'', alias), (''user_id'', user)]"

subsection \<open>The queries\<close>

record audit_params =
  ap_actor :: "string option"
  ap_action :: "string option"
  ap_target :: "string option"
  ap_since :: "string option"
  ap_limit :: "nat option"
  ap_offset :: "nat option"

definition audit_query :: "audit_params \<Rightarrow> string" where
  "audit_query p =
     suffix (num_param ''offset'' (ap_offset p) (num_param ''limit'' (ap_limit p)
       (opt_param ''since'' (ap_since p) (opt_param ''target_id'' (ap_target p)
       (opt_param ''action'' (ap_action p) (opt_param ''actor_id'' (ap_actor p) []))))))"

definition jobs_query :: "string option \<Rightarrow> string option \<Rightarrow> string" where
  "jobs_query st modelId = suffix (opt_param ''model_id'' modelId (opt_param ''status_filter'' st []))"

definition scheduler_query :: "string option \<Rightarrow> string option \<Rightarrow> string" where
  "scheduler_query jobType st =
     suffix (opt_param ''status_filter'' st (opt_param ''job_type'' jobType []))"

record logs_params =
  lp_query :: string
  lp_start :: "string option"
  lp_end :: "string option"
  lp_limit :: "nat option"
  lp_direction :: "string option"

definition range_query :: "logs_params \<Rightarrow> string" where
  "range_query p =
     ''?'' @ params_text (opt_param ''direction'' (lp_direction p) (num_param ''limit'' (lp_limit p)
       (opt_param ''end'' (lp_end p) (opt_param ''start'' (lp_start p)
       (set_param ''query'' (lp_query p) [])))))"

definition tail_query :: "string \<Rightarrow> string" where
  "tail_query q = ''?query='' @ encodeURIComponent q"

definition traces_query :: "nat \<Rightarrow> nat option \<Rightarrow> string" where
  "traces_query limit after =
     ''?'' @ params_text (num_param ''after_event_id'' after (set_param ''limit'' (show_nat limit) []))"

definition stream_query :: "nat option \<Rightarrow> string" where
  "stream_query cursor = suffix (num_param ''cursor'' cursor [])"

record events_params =
  ev_operation :: "string option"
  ev_source :: "string option"
  ev_pii_only :: bool
  ev_since :: "string option"
  ev_limit :: "nat option"
  ev_offset :: "nat option"

definition events_query :: "events_params \<Rightarrow> string" where
  "events_query p =
     suffix (positive_param ''offset'' (ev_offset p) (positive_param ''limit'' (ev_limit p)
       (opt_param ''since'' (ev_since p)
       (opt_param ''pii_only'' (if ev_pii_only p then Some ''true'' else None)
       (opt_param ''source'' (ev_source p) (opt_param ''operation'' (ev_operation p) []))))))"

definition stats_query :: "string option \<Rightarrow> string option \<Rightarrow> string" where
  "stats_query since until = suffix (opt_param ''until'' until (opt_param ''since'' since []))"

definition tenants_query :: "string \<Rightarrow> nat \<Rightarrow> string" where
  "tenants_query q limit =
     ''?'' @ params_text (set_param ''limit'' (show_nat limit) (opt_param ''query'' (Some q) []))"

definition tree_query :: "string option \<Rightarrow> string option \<Rightarrow> string" where
  "tree_query tenantId workspaceId =
     suffix (opt_param ''workspace_id'' workspaceId (opt_param ''tenant_id'' tenantId []))"

definition documents_query :: "string option \<Rightarrow> nat \<Rightarrow> nat \<Rightarrow> string" where
  "documents_query collectionId limit offset =
     ''?'' @ params_text (opt_param ''collection_id'' collectionId
       [(''limit'', show_nat limit), (''offset'', show_nat offset)])"

definition attachments_query :: "string option \<Rightarrow> string option \<Rightarrow> string" where
  "attachments_query sessionId projectId =
     suffix (opt_param ''project_id'' projectId (opt_param ''session_id'' sessionId []))"

definition skills_query :: "string option \<Rightarrow> string option \<Rightarrow> string option \<Rightarrow> string" where
  "skills_query st scope tag =
     suffix (opt_param ''tag'' tag (opt_param ''scope'' scope (opt_param ''status'' st [])))"

definition completions_query :: "string \<Rightarrow> string option \<Rightarrow> string" where
  "completions_query field typed = ''?'' @ params_text (opt_param ''prefix'' typed [(''field'', field)])"

definition bool_text :: "bool \<Rightarrow> string" where
  "bool_text b = (if b then ''true'' else ''false'')"

definition flag_param :: "string \<Rightarrow> bool option \<Rightarrow> params \<Rightarrow> params" where
  "flag_param k v ps = (case v of None \<Rightarrow> ps | Some b \<Rightarrow> set_param k (bool_text b) ps)"

definition available_query :: "string \<Rightarrow> bool option \<Rightarrow> bool option \<Rightarrow> string" where
  "available_query sessionId includeDisabled includeUnavailable =
     ''?'' @ params_text (flag_param ''include_unavailable'' includeUnavailable
       (flag_param ''include_disabled'' includeDisabled [(''session_id'', sessionId)]))"

definition check_query :: "string \<Rightarrow> string \<Rightarrow> string" where
  "check_query img tag = ''?image='' @ encodeURIComponent img @ ''&tag='' @ encodeURIComponent tag"

definition upload_query :: "string option \<Rightarrow> string" where
  "upload_query collectionId =
     (if truthy collectionId then ''?collection_id='' @ the collectionId else [])"

subsection \<open>Paths\<close>

definition command_path :: "string \<Rightarrow> string \<Rightarrow> string" where
  "command_path nodeId commandId =
     ''/nodes/'' @ encodeURIComponent nodeId @ ''/commands/'' @ encodeURIComponent commandId"

definition tool_policy_path :: "string \<Rightarrow> string" where
  "tool_policy_path sessionId = ''/sessions/'' @ encodeURIComponent sessionId @ ''/tool-policy''"

definition module_logs_path :: "string \<Rightarrow> string \<Rightarrow> string" where
  "module_logs_path m containerName =
     ''/services/'' @ encodeURIComponent m @ ''/logs/'' @ encodeURIComponent containerName"

definition history_path :: "string \<Rightarrow> string \<Rightarrow> string" where
  "history_path provider model =
     ''/pricing/'' @ encodeURIComponent provider @ ''/'' @ encodeURIComponent model @ ''/history''"

definition stack_path :: "string \<Rightarrow> string" where
  "stack_path stackId = ''/stacks/'' @ stackId @ ''/revisions''"

text \<open>The decoding of a path: percent escapes, and nothing else.\<close>

fun percent_decode :: "string \<Rightarrow> string" where
  "percent_decode [] = []"
| "percent_decode (c # cs) =
     (if c = CHR ''%'' then
        (case cs of
           a # b # rest \<Rightarrow>
             (case (hex_value a, hex_value b) of
                (Some x, Some y) \<Rightarrow> char_of (16 * x + y) # percent_decode rest
              | _ \<Rightarrow> c # percent_decode cs)
         | _ \<Rightarrow> c # percent_decode cs)
      else c # percent_decode cs)"

subsection \<open>Lemmas\<close>

lemma hex_digit_unreserved: "n < 16 \<Longrightarrow> uri_unreserved (hex_digit n) \<and> form_safe (hex_digit n)"
  by (auto simp: uri_unreserved_def form_safe_def hex_digit_def Let_def)

lemma encoded_chars: "c \<in> set (encodeURIComponent s) \<Longrightarrow> uri_unreserved c \<or> c = CHR ''%''"
  using hex_digit_unreserved [OF of_char_hex(1)] hex_digit_unreserved [OF of_char_hex(2)]
  by (auto simp: encodeURIComponent_def split: if_splits)

lemma form_chars: "c \<in> set (form_encode s) \<Longrightarrow> form_safe c \<or> c = CHR ''%'' \<or> c = CHR ''+''"
  using hex_digit_unreserved [OF of_char_hex(1)] hex_digit_unreserved [OF of_char_hex(2)]
  by (auto simp: form_encode_def split: if_splits)

lemma reserved_chars:
  "\<not> uri_unreserved CHR ''/''" "\<not> uri_unreserved CHR ''?''" "\<not> uri_unreserved CHR ''&''"
  "\<not> uri_unreserved CHR ''=''" "\<not> form_safe CHR ''&''" "\<not> form_safe CHR ''=''"
  by code_simp+

lemma encoded_clean [simp]:
  "CHR ''/'' \<notin> set (encodeURIComponent s)" "CHR ''?'' \<notin> set (encodeURIComponent s)"
  "CHR ''&'' \<notin> set (encodeURIComponent s)" "CHR ''='' \<notin> set (encodeURIComponent s)"
  "CHR ''&'' \<notin> set (form_encode s)" "CHR ''='' \<notin> set (form_encode s)"
  using encoded_chars [of _ s] form_chars [of _ s] reserved_chars by fastforce+

lemma form_decode_plain: "\<forall>c \<in> set s. uri_unreserved c \<Longrightarrow> form_decode s = s"
  by (induction s) (auto simp: uri_unreserved_def Let_def)

lemma form_decode_encode [simp]: "form_decode (form_encode s) = s"
proof (induction s)
  case Nil
  then show ?case by (simp add: form_encode_def)
next
  case (Cons c s)
  have u: "form_safe c \<Longrightarrow> c \<noteq> CHR ''+'' \<and> c \<noteq> CHR ''%''"
    by (auto simp: form_safe_def Let_def)
  have e: "form_encode (c # s) =
      (if form_safe c then [c] else if c = CHR '' '' then ''+''
       else [CHR ''%'', hex_digit (of_char c div 16), hex_digit (of_char c mod 16)]) @ form_encode s"
    by (simp add: form_encode_def)
  have "form_decode (CHR ''%'' # hex_digit (of_char c div 16) # hex_digit (of_char c mod 16) # form_encode s)
      = c # s"
    using Cons by (simp add: hex_value_digit of_char_hex of_char_split)
  with u e Cons show ?case by auto
qed

lemma percent_decode_plain: "CHR ''%'' \<notin> set s \<Longrightarrow> percent_decode (s @ t) = s @ percent_decode t"
  by (induction s) auto

lemma percent_decode_encode: "percent_decode (encodeURIComponent s @ t) = s @ percent_decode t"
proof (induction s)
  case Nil
  then show ?case by (simp add: encodeURIComponent_def)
next
  case (Cons c s)
  have u: "uri_unreserved c \<Longrightarrow> c \<noteq> CHR ''%''" by (auto simp: uri_unreserved_def Let_def)
  have e: "encodeURIComponent (c # s) =
      (if uri_unreserved c then [c]
       else [CHR ''%'', hex_digit (of_char c div 16), hex_digit (of_char c mod 16)]) @ encodeURIComponent s"
    by (simp add: encodeURIComponent_def)
  have "percent_decode (CHR ''%'' # hex_digit (of_char c div 16) # hex_digit (of_char c mod 16)
      # encodeURIComponent s @ t) = c # s @ percent_decode t"
    using Cons by (simp add: hex_value_digit of_char_hex of_char_split)
  with u e Cons show ?case by auto
qed

lemma query_pair_pieces:
  "\<forall>c \<in> set k. c \<noteq> CHR ''='' \<Longrightarrow> query_pair (k @ CHR ''='' # v) = (form_decode k, form_decode v)"
proof -
  assume k: "\<forall>c \<in> set k. c \<noteq> CHR ''=''"
  then have "takeWhile (\<lambda>c. c \<noteq> CHR ''='') (k @ CHR ''='' # v) = k"
    and "dropWhile (\<lambda>c. c \<noteq> CHR ''='') (k @ CHR ''='' # v) = CHR ''='' # v"
    by (simp_all add: takeWhile_append2 dropWhile_append2)
  then show ?thesis by (simp add: query_pair_def)
qed

lemma query_pair_text: "query_pair (pair_text p) = p"
  using query_pair_pieces [of "form_encode (fst p)" "form_encode (snd p)"]
    encoded_clean(6) [of "fst p"]
  by (metis form_decode_encode pair_text_def prod.collapse)

text \<open>What is read from a joined list of pieces.\<close>

lemma search_param_join:
  assumes "\<forall>w \<in> set ws. w \<noteq> [] \<and> CHR ''&'' \<notin> set w"
  shows "search_param (CHR ''?'' # join ''&'' ws) k = map_of (map query_pair ws) k"
proof (cases "ws = []")
  case False
  with assms have "split_on CHR ''&'' (join ''&'' ws) = ws" by (intro split_on_join) auto
  moreover have "filter (\<lambda>p. p \<noteq> []) ws = ws" using assms by (simp add: filter_id_conv)
  ultimately show ?thesis by (simp add: search_param_def)
qed (simp add: search_param_def)

lemma map_pair_text: "map query_pair (map pair_text ps) = ps"
  by (induction ps) (simp_all add: query_pair_text)

lemma search_params_text: "search_param (CHR ''?'' # params_text ps) k = map_of ps k"
proof -
  have "\<forall>w \<in> set (map pair_text ps). w \<noteq> [] \<and> CHR ''&'' \<notin> set w"
    by (auto simp: pair_text_def)
  from search_param_join [OF this, of k] show ?thesis
    by (simp only: params_text_def map_pair_text)
qed

lemma params_text_empty: "params_text ps = [] \<Longrightarrow> ps = []"
proof (cases ps)
  case (Cons p qs')
  then show "params_text ps = [] \<Longrightarrow> ps = []"
    by (cases qs') (simp_all add: params_text_def pair_text_def)
qed simp

lemma search_suffix: "search_param (suffix ps) k = map_of ps k"
proof (cases "params_text ps = []")
  case True
  then have "ps = []" by (rule params_text_empty)
  with True show ?thesis by (simp add: suffix_def search_param_def)
qed (simp add: suffix_def search_params_text)

lemma map_of_filtered: "map_of (filter (\<lambda>q. fst q \<noteq> k) ps) k' = (if k' = k then None else map_of ps k')"
  by (induction ps) auto

lemma map_of_set_param: "map_of (set_param k v ps) k' = (if k' = k then Some v else map_of ps k')"
  by (induction ps) (auto simp: map_of_filtered)

text \<open>A parameter that is there, and one that has a text.\<close>

definition given :: "string option \<Rightarrow> string option" where
  "given v = (if truthy v then v else None)"

lemma map_of_opt_param:
  "map_of (opt_param k v ps) k' = (if k' = k \<and> truthy v then v else map_of ps k')"
  by (cases v) (auto simp: opt_param_def map_of_set_param)

lemma map_of_num_param:
  "map_of (num_param k v ps) k' = (if k' = k \<and> v \<noteq> None then map_option show_nat v else map_of ps k')"
  by (cases v) (auto simp: num_param_def map_of_set_param)

lemma map_of_positive_param:
  "map_of (positive_param k v ps) k' =
     (if k' = k \<and> v \<noteq> None \<and> v \<noteq> Some 0 then map_option show_nat v else map_of ps k')"
  by (cases v) (auto simp: positive_param_def map_of_set_param)

lemma map_of_flag_param:
  "map_of (flag_param k v ps) k' = (if k' = k \<and> v \<noteq> None then map_option bool_text v else map_of ps k')"
  by (cases v) (auto simp: flag_param_def map_of_set_param)

lemmas read_params = search_suffix search_params_text map_of_set_param map_of_opt_param
  map_of_num_param map_of_positive_param map_of_flag_param given_def

subsection \<open>Properties: queries\<close>

text \<open>
  Whatever is put into \<open>URLSearchParams\<close>, the reader gets back; the first entry counts, and
  \<open>set\<close> leaves one.
\<close>

theorem params_roundtrip:
  "search_param (suffix ps) k = map_of ps k
   \<and> search_param (suffix (set_param k v ps)) k = Some v"
  by (simp add: read_params)

text \<open>The same for the hand-made query of the observability pages, whose names are plain.\<close>

lemma search_qs:
  assumes "\<forall>p \<in> set ps. \<forall>c \<in> set (fst p). uri_unreserved c"
  shows "search_param (qs ps) k = map_of (qs_parts ps) k"
proof (cases "qs_parts ps = []")
  case False
  have sub: "\<forall>p \<in> set (qs_parts ps). \<forall>c \<in> set (fst p). uri_unreserved c"
    using assms by (auto simp: qs_parts_def)
  have "query_pair (qs_pair p) = p" if "p \<in> set (qs_parts ps)" for p
  proof -
    have k: "\<forall>c \<in> set (fst p). uri_unreserved c" using sub that by blast
    then have "\<forall>c \<in> set (fst p). c \<noteq> CHR ''=''" using reserved_chars by auto
    from query_pair_pieces [OF this, of "encodeURIComponent (snd p)"] show ?thesis
      by (simp add: qs_pair_def form_decode_plain [OF k] decode_encode)
  qed
  then have "map query_pair (map qs_pair (qs_parts ps)) = qs_parts ps"
    by (simp add: comp_def map_idI)
  moreover have "\<forall>w \<in> set (map qs_pair (qs_parts ps)). w \<noteq> [] \<and> CHR ''&'' \<notin> set w"
    using sub reserved_chars by (fastforce simp: qs_pair_def)
  ultimately have "search_param (CHR ''?'' # join ''&'' (map qs_pair (qs_parts ps))) k = map_of (qs_parts ps) k"
    using search_param_join by metis
  with False show ?thesis by (simp add: qs_def)
qed (simp add: qs_def search_param_def)

lemma map_of_qs_parts:
  "distinct (map fst ps) \<Longrightarrow>
   map_of (qs_parts ps) k = (case map_of ps k of None \<Rightarrow> None | Some v \<Rightarrow> given v)"
proof (induction ps)
  case (Cons p ps)
  have "map_of ps (fst p) = None" using Cons.prems by (simp add: map_of_eq_None_iff)
  with Cons show ?case by (cases "snd p") (auto simp: qs_parts_def given_def split: option.splits)
qed (simp add: qs_parts_def)

lemma requests_query_read:
  "search_param (requests_query s e n alias user) ''model_alias'' = given alias
   \<and> search_param (requests_query s e n alias user) ''user_id'' = given user
   \<and> search_param (requests_query s e n alias user) ''page'' = Some (show_nat n)"
proof -
  have plain: "list_all (\<lambda>k. \<forall>c \<in> set k. uri_unreserved c)
      [''start'', ''end'', ''page'', ''limit'', ''model_alias'', ''user_id'']" by code_simp
  have n: "show_nat n \<noteq> []" by (subst show_nat.simps) simp
  have "search_param (requests_query s e n alias user) k = map_of (qs_parts
      [(''start'', Some s), (''end'', Some e), (''page'', Some (show_nat n)),
       (''limit'', Some (show_nat 50)), (''model_alias'', alias), (''user_id'', user)]) k" for k
    unfolding requests_query_def by (rule search_qs) (use plain in simp)
  with n show ?thesis by (simp add: map_of_qs_parts) (simp add: given_def)
qed

text \<open>Every optional filter arrives as it was given, and an empty one does not.\<close>

theorem audit_query_read:
  "search_param (audit_query p) ''actor_id'' = given (ap_actor p)
   \<and> search_param (audit_query p) ''action'' = given (ap_action p)
   \<and> search_param (audit_query p) ''target_id'' = given (ap_target p)
   \<and> search_param (audit_query p) ''since'' = given (ap_since p)
   \<and> search_param (audit_query p) ''limit'' = map_option show_nat (ap_limit p)
   \<and> search_param (audit_query p) ''offset'' = map_option show_nat (ap_offset p)"
  by (auto simp: audit_query_def read_params split: option.splits)

theorem jobs_queries_read:
  "search_param (jobs_query st m) ''status_filter'' = given st
   \<and> search_param (jobs_query st m) ''model_id'' = given m
   \<and> search_param (scheduler_query ty st) ''job_type'' = given ty
   \<and> search_param (scheduler_query ty st) ''status_filter'' = given st"
  by (auto simp: jobs_query_def scheduler_query_def read_params)

text \<open>A query of the logs arrives unchanged, from the page of results and from the live tail.\<close>

theorem logs_query_read:
  "search_param (range_query p) ''query'' = Some (lp_query p)
   \<and> search_param (range_query p) ''direction'' = given (lp_direction p)
   \<and> search_param (range_query p) ''limit'' = map_option show_nat (lp_limit p)
   \<and> search_param (tail_query q) ''query'' = Some q"
proof -
  have "search_param (tail_query q) ''query'' = Some q"
    using search_qs [of "[(''query'', Some q)]" "''query''"]
  proof (cases "q = []")
    case True
    then show ?thesis by (simp add: tail_query_def encodeURIComponent_def search_param_def query_pair_def)
  next
    case False
    moreover have "\<forall>c \<in> set ''query''. uri_unreserved c" by code_simp
    ultimately show ?thesis
      using search_qs [of "[(''query'', Some q)]" "''query''"]
      by (simp add: tail_query_def qs_def qs_parts_def qs_pair_def)
  qed
  then show ?thesis by (auto simp: range_query_def read_params split: option.splits)
qed

text \<open>
  The two pagers differ at zero: the audit log sends an offset of 0, the events of the privacy
  service leave it out, and with it a limit of 0.
\<close>

theorem zero_parameters:
  "search_param (audit_query (p\<lparr>ap_offset := Some 0\<rparr>)) ''offset'' = Some (show_nat 0)
   \<and> search_param (events_query (e\<lparr>ev_limit := Some 0\<rparr>)) ''limit'' = None
   \<and> search_param (events_query e) ''pii_only'' = (if ev_pii_only e then Some ''true'' else None)"
  by (simp add: audit_query_def events_query_def read_params)

text \<open>The collection of an upload is not encoded: an ampersand in it would add parameters.\<close>

lemma upload_query_open:
  "search_param (upload_query (Some ''a&limit=1'')) ''collection_id'' = Some ''a''
   \<and> search_param (upload_query (Some ''a&limit=1'')) ''limit'' = Some ''1''
   \<and> search_param (documents_query (Some ''a&limit=1'') l n) ''collection_id'' = Some ''a&limit=1''"
proof (intro conjI)
  show "search_param (upload_query (Some ''a&limit=1'')) ''collection_id'' = Some ''a''" by code_simp
  show "search_param (upload_query (Some ''a&limit=1'')) ''limit'' = Some ''1''" by code_simp
qed (simp add: documents_query_def read_params)

subsection \<open>Properties: paths\<close>

text \<open>
  An encoded identifier stays one piece of the path, whatever it holds, and decodes to itself.
\<close>

lemma split_pieces:
  "CHR ''/'' \<notin> set a \<Longrightarrow> split_on CHR ''/'' (a @ CHR ''/'' # s) = a # split_on CHR ''/'' s"
  by (rule split_on_line)

theorem encoded_path_pieces:
  "map percent_decode (split_on CHR ''/'' (command_path n c)) = [[], ''nodes'', n, ''commands'', c]
   \<and> map percent_decode (split_on CHR ''/'' (tool_policy_path n)) = [[], ''sessions'', n, ''tool-policy'']
   \<and> map percent_decode (split_on CHR ''/'' (module_logs_path n c)) = [[], ''services'', n, ''logs'', c]"
proof -
  have d: "percent_decode (encodeURIComponent s) = s" for s
    using percent_decode_encode [of s "[]"] by simp
  have e: "split_on CHR ''/'' (encodeURIComponent s) = [encodeURIComponent s]" for s
    by simp
  show ?thesis
    by (simp add: command_path_def tool_policy_path_def module_logs_path_def split_pieces d)
qed

text \<open>
  The server decodes a path before it cuts it into pieces. A model with a slash in its name,
  as the models of a hub have, adds a piece, and the path is no longer that of a history.
\<close>

lemma history_of_slashed_model:
  assumes "\<And>p. segments p = split_on CHR ''/'' (percent_decode p)"
    and "CHR ''/'' \<notin> set provider" "CHR ''/'' \<notin> set org" "CHR ''/'' \<notin> set model"
  shows "segments (history_path provider model) = [[], ''pricing'', provider, model, ''history'']"
    and "segments (history_path provider (org @ CHR ''/'' # model))
           = [[], ''pricing'', provider, org, model, ''history'']"
proof -
  have h: "percent_decode (history_path provider m) = ''/pricing/'' @ provider @ ''/'' @ m @ ''/history''" for m
    by (simp add: history_path_def percent_decode_encode)
  show "segments (history_path provider model) = [[], ''pricing'', provider, model, ''history'']"
    using assms(2-4) by (simp add: assms(1) h split_pieces)
  show "segments (history_path provider (org @ CHR ''/'' # model))
      = [[], ''pricing'', provider, org, model, ''history'']"
    using assms(2-4) by (simp add: assms(1) h split_pieces)
qed

subsection \<open>Properties: answers\<close>

text \<open>
  A value comes from a successful answer only, an answer that failed is an error with a
  message, and the wrappers agree on the successful answers that have a body.
\<close>

theorem wrappers_agree:
  "(res_ok r \<and> res_status r \<noteq> 204 \<longrightarrow>
      request r = read_json r \<and> graph_request r = read_json r \<and> pii_request r = read_json r
      \<and> named_request api r = read_json r \<and> fst (admin_request r w) = read_json r)
   \<and> (\<not> res_ok r \<longrightarrow>
      (\<exists>m1 m2 m3. request r = Inl m1 \<and> graph_request r = Inl m1 \<and> fst (admin_request r w) = Inl m1
         \<and> pii_request r = Inl m2 \<and> named_request api r = Inl m3
         \<and> m1 \<noteq> [] \<and> m2 \<noteq> [] \<and> m3 \<noteq> []))"
  by (auto simp: request_def graph_request_def pii_request_def named_request_def admin_request_def
      api_message_def Let_def)

text \<open>
  A deletion is answered with 204 and no body. The wrappers of the graph, of the privacy
  service and of the settings try to read it and fail.
\<close>

lemma empty_answer:
  assumes "res_status r = 204" "res_json r = Inl e"
  shows "request r = Inr None" "fst (admin_request r w) = Inr None" "named_request api r = Inr None"
    "graph_request r = Inl e" "pii_request r = Inl e"
  using assms
  by (simp_all add: request_def admin_request_def named_request_def graph_request_def
      pii_request_def read_json_def res_ok_def)

text \<open>
  When the server refuses a request of the admin area as not allowed, the cached access is
  forgotten, so the next visit asks again; no other answer changes it.
\<close>

theorem refusal_forgets_access:
  assumes "window w" "writable (session w)"
  shows "(res_status r \<in> {401, 403} \<longrightarrow>
            fst (readCachedAccessAnyAge (snd (admin_request r w))) = Inr None)
         \<and> (res_status r \<notin> {401, 403} \<longrightarrow> snd (admin_request r w) = w)"
  using assms
  by (auto simp: admin_request_def res_ok_def clearCachedAccess_def readCachedAccessAnyAge_def
      Let_def getItem_attempt_remove)

end
