(* ===== verification/Page_Load.thy ===== *)
theory Page_Load
  imports Prelude
begin

text \<open>
  Pages that load on every change of what they ask for, without telling an old answer from a
  new one: the interface they share, and the paging of lists that servers and pages share.
\<close>

subsection \<open>Loading without a guard\<close>

text \<open>
  A state asks a query, has requests in flight, the oldest first, and shows the answer of a
  query. A load asks for the current query; an answer takes its request out and is shown.
\<close>

locale page_load =
  fixes query :: "'s \<Rightarrow> 'q"
    and pending :: "'s \<Rightarrow> 'q list"
    and shows_answer :: "'s \<Rightarrow> 'q \<Rightarrow> bool"
    and load :: "'s \<Rightarrow> 's"
    and answered :: "nat \<Rightarrow> 'a \<Rightarrow> 's \<Rightarrow> 's"
    and served :: "'q \<Rightarrow> 'a \<Rightarrow> bool"
  assumes load_query: "query (load s) = query s"
    and load_pending: "pending (load s) = pending s @ [query s]"
    and answered_query: "query (answered i a s) = query s"
    and answered_pending: "i < length (pending s) \<Longrightarrow>
      pending (answered i a s) = take i (pending s) @ drop (Suc i) (pending s)"
    and answered_shown: "i < length (pending s) \<Longrightarrow> served (pending s ! i) a \<Longrightarrow>
      shows_answer (answered i a s) (pending s ! i)"
begin

text \<open>
  What holds while answers come in the order of their requests: the last request is the
  current query, and when none is left its answer is shown.
\<close>

definition in_step :: "'s \<Rightarrow> bool" where
  "in_step s = (if pending s = [] then shows_answer s (query s) else last (pending s) = query s)"

lemma load_in_step: "in_step (load s)"
  by (simp add: in_step_def load_query load_pending)

lemma first_answer_in_step:
  assumes "in_step s" "pending s \<noteq> []" "served (hd (pending s)) a"
  shows "in_step (answered 0 a s)"
proof -
  obtain q qs where p: "pending s = q # qs" using assms(2) by (cases "pending s") auto
  have rest: "pending (answered 0 a s) = qs" using p answered_pending [of 0 s a] by simp
  have "shows_answer (answered 0 a s) q" using p assms(3) answered_shown [of 0 s a] by simp
  then show ?thesis
    using assms(1) p rest by (auto simp: in_step_def answered_query)
qed

text \<open>A change that leaves the query keeps this, and one that does not is followed by a load.\<close>

definition after_change :: "'s \<Rightarrow> 's \<Rightarrow> 's" where
  "after_change old s = (if query s = query old then s else load s)"

lemma change_in_step:
  assumes "in_step old" "pending s = pending old"
    and "query s = query old \<Longrightarrow> shows_answer s (query s) = shows_answer old (query s)"
  shows "in_step (after_change old s)"
  using assms by (auto simp: after_change_def in_step_def load_query load_pending)

text \<open>An answer out of order is shown whatever the page asks for by then.\<close>

lemma last_request_early:
  assumes "pending s = [q, query s]" "served (query s) a" "served q b"
  shows "shows_answer (answered 0 b (answered 1 a s)) q"
proof -
  have "pending (answered 1 a s) = [q]" using assms(1) answered_pending [of 1 s a] by simp
  then show ?thesis using assms(3) answered_shown [of 0 "answered 1 a s" b] by simp
qed

end

subsection \<open>Paging\<close>

text \<open>The rows of a page, from an offset, and the number of pages.\<close>

definition page_rows :: "nat \<Rightarrow> nat \<Rightarrow> 'a list \<Rightarrow> 'a list" where
  "page_rows limit offset xs = take limit (drop offset xs)"

definition page_count :: "nat \<Rightarrow> nat \<Rightarrow> nat" where
  "page_count n limit = (n + limit - 1) div limit"

lemma pages_prefix:
  "concat (map (\<lambda>p. page_rows limit (p * limit) xs) [0..<n]) = take (n * limit) xs"
proof (induction n)
  case (Suc n)
  then show ?case by (simp add: page_rows_def take_add add.commute [of limit])
qed simp

lemma page_count_covers: "0 < limit \<Longrightarrow> n \<le> page_count n limit * limit"
proof -
  assume l: "0 < limit"
  have "n + limit - 1 < ((n + limit - 1) div limit) * limit + limit"
    using dividend_less_div_times [OF l, of "n + limit - 1"] by (simp add: add.commute)
  then show ?thesis using l by (simp add: page_count_def)
qed

text \<open>All pages in turn give every row once and in order.\<close>

lemma pages_cover:
  "0 < limit \<Longrightarrow>
   concat (map (\<lambda>p. page_rows limit (p * limit) xs) [0..<page_count (length xs) limit]) = xs"
  using page_count_covers [of limit "length xs"] by (simp add: pages_prefix)

text \<open>A page before the count has rows, and one after it has none.\<close>

lemma page_beyond_empty:
  assumes "0 < limit"
  shows "page_rows limit (p * limit) xs = [] \<longleftrightarrow> page_count (length xs) limit \<le> p"
proof -
  have "length xs \<le> p * limit \<longleftrightarrow> (length xs + limit - 1) div limit < Suc p"
    using assms by (simp add: less_mult_imp_div_less div_less_iff_less_mult) linarith
  then show ?thesis using assms by (simp add: page_rows_def page_count_def less_Suc_eq_le)
qed

end
