(* ===== verification/Usage_Pages.thy ===== *)
theory Usage_Pages
  imports Page_Load
begin

text \<open>
  The pages of past requests: \<^verbatim>\<open>pages/admin/observability/RequestsTab.tsx\<close> and
  \<^verbatim>\<open>ObservabilityPage.tsx\<close> with the list the server returns
  (\<^verbatim>\<open>services/observability/service.py\<close> of the backend), and
  \<^verbatim>\<open>pages/admin/pii/PIIActivityLogPage.tsx\<close> with its list (\<^verbatim>\<open>db/dao/pii_event_dao.py\<close>).
  Times are integers, and a day has 24 hours (\<open>daysAgo\<close> goes by the calendar, so an hour more
  or less where the clocks change). The server leaves open the order of rows with equal times; the model
  keeps that of the table.
\<close>

subsection \<open>The server: requests\<close>

record usage_row =
  ur_id :: string
  ur_request :: string
  ur_alias :: "string option"
  ur_user :: string
  ur_status :: nat
  ur_created :: int

record usage_list =
  ul_items :: "usage_row list"
  ul_total :: nat
  ul_page :: nat
  ul_limit :: nat

definition MAX_QUERY_ROWS :: nat where
  "MAX_QUERY_ROWS = 500"

definition usage_filter ::
  "int \<Rightarrow> int \<Rightarrow> string option \<Rightarrow> string option \<Rightarrow> nat option \<Rightarrow> usage_row \<Rightarrow> bool" where
  "usage_filter from until alias user code r =
     (from \<le> ur_created r \<and> ur_created r < until
      \<and> (truthy alias \<longrightarrow> ur_alias r = alias)
      \<and> (truthy user \<longrightarrow> Some (ur_user r) = user)
      \<and> (code \<noteq> None \<longrightarrow> Some (ur_status r) = code))"

definition newest_first :: "('r \<Rightarrow> int) \<Rightarrow> 'r list \<Rightarrow> 'r list" where
  "newest_first created rows = sort_key (\<lambda>r. - created r) rows"

definition get_requests ::
  "usage_row list \<Rightarrow> int \<Rightarrow> int \<Rightarrow> nat \<Rightarrow> nat \<Rightarrow> string option \<Rightarrow> string option \<Rightarrow> nat option \<Rightarrow> usage_list" where
  "get_requests rows from until page limit alias user code =
     (let lim = min limit MAX_QUERY_ROWS;
          offset = (max page 1 - 1) * lim;
          found = filter (usage_filter from until alias user code) rows
      in \<lparr>ul_items = page_rows lim offset (newest_first ur_created found),
          ul_total = length found, ul_page = page, ul_limit = lim\<rparr>)"

subsection \<open>The tab of requests\<close>

text \<open>What a load asks for; the range is given by the page around the tab.\<close>

record usage_query =
  uq_start :: int
  uq_end :: int
  uq_page :: nat
  uq_alias :: "string option"
  uq_user :: "string option"

record requests_tab =
  rt_start :: int
  rt_end :: int
  rt_data :: "usage_list option"
  rt_loading :: bool
  rt_error :: "string option"
  rt_page :: nat
  rt_expanded :: "string option"
  rt_model :: string
  rt_user :: string
  rt_pending :: "usage_query list"

definition requests_start :: "int \<Rightarrow> int \<Rightarrow> requests_tab" where
  "requests_start from until =
     \<lparr>rt_start = from, rt_end = until, rt_data = None, rt_loading = True, rt_error = None,
      rt_page = 1, rt_expanded = None, rt_model = [], rt_user = [], rt_pending = []\<rparr>"

definition or_undefined :: "string \<Rightarrow> string option" where
  "or_undefined s = (if s = [] then None else Some s)"

definition requests_query :: "requests_tab \<Rightarrow> usage_query" where
  "requests_query s =
     \<lparr>uq_start = rt_start s, uq_end = rt_end s, uq_page = rt_page s,
      uq_alias = or_undefined (rt_model s), uq_user = or_undefined (rt_user s)\<rparr>"

definition load_requests :: "requests_tab \<Rightarrow> requests_tab" where
  "load_requests s =
     s\<lparr>rt_loading := True, rt_error := None, rt_pending := rt_pending s @ [requests_query s]\<rparr>"

definition requests_answered :: "nat \<Rightarrow> string + usage_list \<Rightarrow> requests_tab \<Rightarrow> requests_tab" where
  "requests_answered i a s =
     (let s' = s\<lparr>rt_pending := take i (rt_pending s) @ drop (Suc i) (rt_pending s), rt_loading := False\<rparr>
      in case a of Inl m \<Rightarrow> s'\<lparr>rt_error := Some m\<rparr> | Inr d \<Rightarrow> s'\<lparr>rt_data := Some d\<rparr>)"

definition set_model :: "string \<Rightarrow> requests_tab \<Rightarrow> requests_tab" where
  "set_model v s = s\<lparr>rt_model := v, rt_page := 1\<rparr>"

definition set_user :: "string \<Rightarrow> requests_tab \<Rightarrow> requests_tab" where
  "set_user v s = s\<lparr>rt_user := v, rt_page := 1\<rparr>"

definition set_page :: "nat \<Rightarrow> requests_tab \<Rightarrow> requests_tab" where
  "set_page v s = s\<lparr>rt_page := v\<rparr>"

definition set_range :: "int \<Rightarrow> requests_tab \<Rightarrow> requests_tab" where
  "set_range from s = s\<lparr>rt_start := from\<rparr>"

definition toggle_row :: "string \<Rightarrow> requests_tab \<Rightarrow> requests_tab" where
  "toggle_row k s = s\<lparr>rt_expanded := (if rt_expanded s = Some k then None else Some k)\<rparr>"

definition totalPages :: "requests_tab \<Rightarrow> nat" where
  "totalPages s = (case rt_data s of None \<Rightarrow> 0 | Some d \<Rightarrow> page_count (ul_total d) (ul_limit d))"

text \<open>What the tab shows below the filters; the pages can be chosen beside rows only.\<close>

datatype requests_view = Spinner | No_requests | Rows "usage_row list" "(nat \<times> nat) option"

definition requests_shown :: "requests_tab \<Rightarrow> requests_view" where
  "requests_shown s =
     (if rt_loading s then Spinner
      else case rt_data s of
             None \<Rightarrow> No_requests
           | Some d \<Rightarrow>
               if ul_items d = [] then No_requests
               else Rows (ul_items d)
                 (if totalPages s > 1 then Some (totalPages s, rt_page s) else None))"

text \<open>The effect after a change: a new query is loaded.\<close>

definition requests_effect :: "requests_tab \<Rightarrow> requests_tab \<Rightarrow> requests_tab" where
  "requests_effect old s = (if requests_query s = requests_query old then s else load_requests s)"

datatype requests_input =
    Type_model string | Type_user string | Choose_page nat | Choose_range int | Search
  | Toggle string | Answer nat "string + usage_list"

fun requests_event :: "requests_input \<Rightarrow> requests_tab \<Rightarrow> requests_tab" where
  "requests_event (Type_model v) s = requests_effect s (set_model v s)"
| "requests_event (Type_user v) s = requests_effect s (set_user v s)"
| "requests_event (Choose_page v) s = requests_effect s (set_page v s)"
| "requests_event (Choose_range from) s = requests_effect s (set_range from s)"
| "requests_event Search s = load_requests s"
| "requests_event (Toggle k) s = toggle_row k s"
| "requests_event (Answer i a) s = requests_answered i a s"

definition requests_mount :: "int \<Rightarrow> int \<Rightarrow> requests_tab" where
  "requests_mount from until = load_requests (requests_start from until)"

subsection \<open>The tool calls of a row\<close>

record row_detail =
  rd_expanded :: bool
  rd_tab :: nat
  rd_calls :: "string list option"
  rd_loading :: bool
  rd_asked :: nat

definition row_effect :: "row_detail \<Rightarrow> row_detail" where
  "row_effect s =
     (if rd_expanded s \<and> rd_tab s = 1 \<and> rd_calls s = None \<and> \<not> rd_loading s
      then s\<lparr>rd_loading := True, rd_asked := rd_asked s + 1\<rparr> else s)"

definition calls_answered :: "string + string list \<Rightarrow> row_detail \<Rightarrow> row_detail" where
  "calls_answered a s =
     s\<lparr>rd_calls := (case a of Inl e \<Rightarrow> Some [] | Inr cs \<Rightarrow> Some cs), rd_loading := False\<rparr>"

datatype row_input = Expand bool | Detail_tab nat | Calls "string + string list"

text \<open>An answer comes for a request that is under way only.\<close>

fun row_event :: "row_input \<Rightarrow> row_detail \<Rightarrow> row_detail" where
  "row_event (Expand b) s = row_effect (s\<lparr>rd_expanded := b\<rparr>)"
| "row_event (Detail_tab k) s = row_effect (s\<lparr>rd_tab := k\<rparr>)"
| "row_event (Calls a) s = (if rd_loading s then row_effect (calls_answered a s) else s)"

definition row_start :: row_detail where
  "row_start = \<lparr>rd_expanded = False, rd_tab = 0, rd_calls = None, rd_loading = False, rd_asked = 0\<rparr>"

datatype chip = Success | Warning | Error

definition statusColor :: "nat \<Rightarrow> chip" where
  "statusColor code =
     (if 200 \<le> code \<and> code < 300 then Success
      else if 400 \<le> code \<and> code < 500 then Warning else Error)"

subsection \<open>The page around the tabs\<close>

datatype range_key = D7 | D14 | D30 | D90

fun RANGES :: "range_key \<Rightarrow> nat" where
  "RANGES D7 = 7" | "RANGES D14 = 14" | "RANGES D30 = 30" | "RANGES D90 = 90"

definition daysAgo :: "int \<Rightarrow> nat \<Rightarrow> int" where
  "daysAgo now n = now - int n * 86400000"

record overview =
  ov_range :: range_key
  ov_start :: int
  ov_end :: int
  ov_loading :: bool
  ov_error :: "string option"
  ov_data :: "(int \<times> int \<times> string) option"
  ov_pending :: "(int \<times> int \<times> string) list"

text \<open>
  The three requests of an overview ask for the same range; an answer stands for the three of
  them and is represented by the query it is for.
\<close>

definition granularity :: "range_key \<Rightarrow> string" where
  "granularity k = (if RANGES k \<le> 7 then ''hour'' else ''day'')"

definition overview_query :: "overview \<Rightarrow> int \<times> int \<times> string" where
  "overview_query s = (ov_start s, ov_end s, granularity (ov_range s))"

definition loadOverview :: "overview \<Rightarrow> overview" where
  "loadOverview s = s\<lparr>ov_loading := True, ov_error := None, ov_pending := ov_pending s @ [overview_query s]\<rparr>"

definition overview_answered :: "nat \<Rightarrow> string option \<Rightarrow> overview \<Rightarrow> overview" where
  "overview_answered i failed s =
     (let s' = s\<lparr>ov_pending := take i (ov_pending s) @ drop (Suc i) (ov_pending s), ov_loading := False\<rparr>
      in case failed of Some m \<Rightarrow> s'\<lparr>ov_error := Some m\<rparr>
         | None \<Rightarrow> s'\<lparr>ov_data := Some (ov_pending s ! i)\<rparr>)"

definition overview_mount :: "int \<Rightarrow> overview" where
  "overview_mount now =
     loadOverview \<lparr>ov_range = D7, ov_start = daysAgo now (RANGES D7), ov_end = now, ov_loading = True,
       ov_error = None, ov_data = None, ov_pending = []\<rparr>"

definition setRange :: "int \<Rightarrow> range_key \<Rightarrow> overview \<Rightarrow> overview" where
  "setRange now k s =
     (if k = ov_range s then s
      else loadOverview (s\<lparr>ov_range := k, ov_start := daysAgo now (RANGES k)\<rparr>))"

datatype overview_input = Range int range_key | Refresh | Loaded nat "string option"

fun overview_event :: "overview_input \<Rightarrow> overview \<Rightarrow> overview" where
  "overview_event (Range now k) s = setRange now k s"
| "overview_event Refresh s = loadOverview s"
| "overview_event (Loaded i failed) s = (if i < length (ov_pending s) then overview_answered i failed s else s)"

subsection \<open>The log of the privacy service\<close>

record pii_event =
  pe_operation :: string
  pe_source :: string
  pe_detected :: bool
  pe_created :: int

definition event_filter :: "string option \<Rightarrow> string option \<Rightarrow> bool \<Rightarrow> pii_event \<Rightarrow> bool" where
  "event_filter operation source only e =
     ((truthy operation \<longrightarrow> Some (pe_operation e) = operation)
      \<and> (truthy source \<longrightarrow> Some (pe_source e) = source)
      \<and> (only \<longrightarrow> pe_detected e))"

definition list_events ::
  "pii_event list \<Rightarrow> string option \<Rightarrow> string option \<Rightarrow> bool \<Rightarrow> nat \<Rightarrow> nat \<Rightarrow> pii_event list" where
  "list_events rows operation source only limit offset =
     page_rows limit offset (newest_first pe_created (filter (event_filter operation source only) rows))"

definition count_events :: "pii_event list \<Rightarrow> string option \<Rightarrow> string option \<Rightarrow> bool \<Rightarrow> nat" where
  "count_events rows operation source only = length (filter (event_filter operation source only) rows)"

definition PAGE_SIZE :: nat where
  "PAGE_SIZE = 25"

record pii_log =
  pl_operation :: string
  pl_source :: string
  pl_only :: bool
  pl_page :: nat

definition set_operation :: "string \<Rightarrow> pii_log \<Rightarrow> pii_log" where
  "set_operation v s = s\<lparr>pl_operation := v, pl_page := 0\<rparr>"

definition set_source :: "string \<Rightarrow> pii_log \<Rightarrow> pii_log" where
  "set_source v s = s\<lparr>pl_source := v, pl_page := 0\<rparr>"

definition set_only :: "bool \<Rightarrow> pii_log \<Rightarrow> pii_log" where
  "set_only b s = s\<lparr>pl_only := b, pl_page := 0\<rparr>"

text \<open>What a reload gets from the server, and the number of events shown beside the pages.\<close>

definition reload :: "pii_event list \<Rightarrow> pii_log \<Rightarrow> pii_event list \<times> nat" where
  "reload rows s =
     (list_events rows (or_undefined (pl_operation s)) (or_undefined (pl_source s)) (pl_only s)
        PAGE_SIZE (pl_page s * PAGE_SIZE),
      count_events rows (or_undefined (pl_operation s)) (or_undefined (pl_source s)) (pl_only s))"

subsection \<open>Lemmas\<close>

definition serve :: "usage_row list \<Rightarrow> usage_query \<Rightarrow> usage_list" where
  "serve rows q = get_requests rows (uq_start q) (uq_end q) (uq_page q) 50 (uq_alias q) (uq_user q) None"

definition tab_served :: "usage_row list \<Rightarrow> usage_query \<Rightarrow> string + usage_list \<Rightarrow> bool" where
  "tab_served rows q a = (case a of Inl m \<Rightarrow> True | Inr d \<Rightarrow> d = serve rows q)"

definition tab_shows :: "usage_row list \<Rightarrow> requests_tab \<Rightarrow> usage_query \<Rightarrow> bool" where
  "tab_shows rows s q = (rt_error s = None \<longrightarrow> rt_data s = Some (serve rows q))"

interpretation tab: page_load requests_query rt_pending "tab_shows rows" load_requests
  requests_answered "tab_served rows" for rows
  by unfold_locales
    (auto simp: load_requests_def requests_query_def requests_answered_def tab_served_def
      tab_shows_def Let_def split: sum.splits)

text \<open>The sessions of the tab in which answers come in the order of their requests.\<close>

fun by_user :: "requests_input \<Rightarrow> bool" where
  "by_user (Answer i a) = False"
| "by_user _ = True"

inductive tab_session :: "usage_row list \<Rightarrow> int \<Rightarrow> int \<Rightarrow> requests_tab \<Rightarrow> bool"
  for rows :: "usage_row list" and since until :: int where
  mounted: "tab_session rows since until (requests_mount from until)"
| acted: "tab_session rows since until s \<Longrightarrow> by_user e \<Longrightarrow> tab_session rows since until (requests_event e s)"
| first_answered: "tab_session rows since until s \<Longrightarrow> rt_pending s \<noteq> [] \<Longrightarrow>
    tab_served rows (hd (rt_pending s)) a \<Longrightarrow> tab_session rows since until (requests_event (Answer 0 a) s)"

lemma effect_after_change: "requests_effect old s = tab.after_change old s"
  by (simp add: requests_effect_def tab.after_change_def)

lemma same_view:
  assumes "rt_data s = rt_data old" "rt_error s = rt_error old"
  shows "tab_shows rows s q = tab_shows rows old q"
  using assms by (simp add: tab_shows_def)

lemma toggle_in_step: "tab.in_step rows s \<Longrightarrow> tab.in_step rows (toggle_row k s)"
  by (auto simp: tab.in_step_def toggle_row_def requests_query_def tab_shows_def split: if_splits)

lemma user_in_step: "tab.in_step rows s \<Longrightarrow> by_user e \<Longrightarrow> tab.in_step rows (requests_event e s)"
  by (cases e)
    (auto simp: effect_after_change set_model_def set_user_def set_page_def set_range_def
      intro!: tab.change_in_step tab.load_in_step toggle_in_step same_view)

lemma session_in_step: "tab_session rows from until s \<Longrightarrow> tab.in_step rows s"
  by (induction rule: tab_session.induct)
    (auto simp: requests_mount_def intro: tab.load_in_step user_in_step tab.first_answer_in_step)

lemma newest_first_set: "set (newest_first f xs) = set xs" "length (newest_first f xs) = length xs"
  by (simp_all add: newest_first_def)

lemma served_items:
  "ul_items (get_requests rows from until p 50 alias user code) =
     page_rows 50 ((max p 1 - 1) * 50) (newest_first ur_created (filter (usage_filter from until alias user code) rows))"
  "ul_total (get_requests rows from until p 50 alias user code) =
     length (filter (usage_filter from until alias user code) rows)"
  "ul_limit (get_requests rows from until p 50 alias user code) = 50"
  by (simp_all add: get_requests_def MAX_QUERY_ROWS_def Let_def)

subsection \<open>Properties\<close>

text \<open>
  When nothing is in flight and no error is shown, the rows are those of the range, the page
  and the filters the tab stands at, provided answers arrive in order.
\<close>

theorem requests_tab_current:
  assumes "tab_session rows from until s" "rt_pending s = []" "rt_error s = None"
  shows "rt_data s = Some (get_requests rows (rt_start s) (rt_end s) (rt_page s) 50
           (or_undefined (rt_model s)) (or_undefined (rt_user s)) None)"
  using session_in_step [OF assms(1)] assms(2,3)
  by (simp add: tab.in_step_def tab_shows_def serve_def requests_query_def)

definition three_rows :: "usage_row list" where
  "three_rows =
     [\<lparr>ur_id = ''1'', ur_request = ''a'', ur_alias = Some ''m'', ur_user = ''u'', ur_status = 200, ur_created = 5\<rparr>,
      \<lparr>ur_id = ''2'', ur_request = ''b'', ur_alias = None, ur_user = ''u'', ur_status = 500, ur_created = 7\<rparr>]"

theorem requests_tab_current_witness:
  "\<exists>s. tab_session three_rows 0 9 s \<and> rt_pending s = [] \<and> rt_error s = None
     \<and> rt_data s = Some (get_requests three_rows 0 9 1 50 (Some ''m'') None None)"
proof -
  let ?m = "requests_mount 0 9"
  let ?t = "requests_event (Type_model ''m'') ?m"
  let ?a = "requests_event (Answer 0 (Inl ''x'')) ?t"
  let ?s = "requests_event (Answer 0 (Inr (serve three_rows (requests_query ?t)))) ?a"
  let ?f = "requests_event (Answer 0 (Inr (serve three_rows (requests_query ?t)))) (requests_event Search ?s)"
  note d = requests_mount_def requests_start_def load_requests_def requests_query_def
    requests_effect_def set_model_def or_undefined_def requests_answered_def Let_def
  have t: "tab_session three_rows 0 9 ?t" by (intro tab_session.intros) simp
  have a: "tab_session three_rows 0 9 ?a"
    by (rule tab_session.first_answered [OF t]) (simp_all add: d tab_served_def)
  have s: "tab_session three_rows 0 9 ?s"
    by (rule tab_session.first_answered [OF a]) (simp_all add: d tab_served_def)
  have r: "tab_session three_rows 0 9 (requests_event Search ?s)"
    by (rule tab_session.acted [OF s]) simp
  have f: "tab_session three_rows 0 9 ?f"
    by (rule tab_session.first_answered [OF r]) (simp_all add: d tab_served_def)
  have "rt_pending ?f = []" "rt_error ?f = None" by (simp_all add: d)
  moreover from requests_tab_current [OF f this]
  have "rt_data ?f = Some (get_requests three_rows 0 9 1 50 (Some ''m'') None None)"
    by (simp add: d)
  ultimately show ?thesis using f by blast
qed

text \<open>Out of order it is otherwise: the first page is shown while the second is selected.\<close>

lemma late_page_shown:
  assumes "rt_pending s = []" "rt_page s = 1"
  shows "rt_data (requests_event (Answer 0 (Inr d1)) (requests_event (Answer 1 (Inr d2))
           (requests_event (Choose_page 2) (requests_event Search s)))) = Some d1"
    and "rt_page (requests_event (Answer 0 (Inr d1)) (requests_event (Answer 1 (Inr d2))
           (requests_event (Choose_page 2) (requests_event Search s)))) = 2"
  using assms
  by (simp_all add: requests_effect_def load_requests_def set_page_def requests_query_def
      requests_answered_def Let_def)

text \<open>Turning through all pages shows every matching request once, the newest first.\<close>

lemma request_pages_cover:
  "concat (map (\<lambda>p. ul_items (get_requests rows from until (Suc p) 50 alias user None))
     [0..<page_count (ul_total (get_requests rows from until 1 50 alias user None)) 50])
   = newest_first ur_created (filter (usage_filter from until alias user None) rows)"
  using pages_cover [of 50 "newest_first ur_created (filter (usage_filter from until alias user None) rows)"]
  by (simp add: served_items newest_first_set)

text \<open>
  A change of the range keeps the page. When the new range has fewer pages, the tab says that
  there are no requests, although there are, and offers no way to another page.
\<close>

lemma served_beyond:
  "1 \<le> p \<Longrightarrow>
   (ul_items (get_requests rows from until p 50 alias user code) = []) =
     (page_count (ul_total (get_requests rows from until p 50 alias user code)) 50 < p)"
  using page_beyond_empty [of 50 "p - 1"
      "newest_first ur_created (filter (usage_filter from until alias user code) rows)"]
  by (auto simp: served_items newest_first_set max_def)

lemma range_strands_page:
  assumes "rt_pending s = []" "from \<noteq> rt_start s" "1 \<le> rt_page s"
    and d: "d = serve rows (requests_query (set_range from s))"
    and few: "page_count (ul_total d) 50 < rt_page s"
  shows "requests_shown (requests_event (Answer 0 (Inr d)) (requests_event (Choose_range from) s)) = No_requests"
proof -
  have "ul_items d = []"
    using few assms(3) unfolding d serve_def
    by (subst served_beyond) (simp_all add: requests_query_def set_range_def)
  then show ?thesis
    using assms(1,2)
    by (simp add: requests_shown_def requests_effect_def requests_query_def set_range_def
        load_requests_def requests_answered_def Let_def)
qed

text \<open>A change of a filter goes to the first page, which has rows when any request matches.\<close>

lemma filter_shows_first:
  assumes "rt_pending s = []" "v \<noteq> rt_model s"
    and d: "d = serve rows (requests_query (set_model v s))" and "0 < ul_total d"
  shows "\<exists>pages. requests_shown (requests_event (Answer 0 (Inr d)) (requests_event (Type_model v) s))
           = Rows (ul_items d) pages \<and> ul_items d \<noteq> []"
proof -
  have "ul_items d \<noteq> []"
  proof
    assume "ul_items d = []"
    then have "page_count (ul_total d) 50 < 1"
      unfolding d serve_def by (subst (asm) served_beyond) (simp_all add: requests_query_def set_model_def)
    then show False using assms(4) by (simp add: page_count_def)
  qed
  then show ?thesis
    using assms(1,2)
    by (simp add: requests_shown_def requests_effect_def requests_query_def set_model_def
        or_undefined_def load_requests_def requests_answered_def Let_def)
qed

text \<open>The tool calls of a row are asked for once, however often it is opened.\<close>

lemma row_invariant:
  "rd_asked (fold row_event es row_start) =
     (if rd_loading (fold row_event es row_start) \<or> rd_calls (fold row_event es row_start) \<noteq> None
      then 1 else 0)
   \<and> \<not> (rd_loading (fold row_event es row_start) \<and> rd_calls (fold row_event es row_start) \<noteq> None)"
proof (induction es rule: rev_induct)
  case (snoc e es)
  then show ?case
    by (cases e) (auto simp: row_effect_def calls_answered_def split: sum.splits if_splits)
qed (simp add: row_start_def)

text \<open>
  The end of the range is the time the page was opened. No refresh and no range brings a
  request that was made later, in the overview, the list or the export.
\<close>

lemma overview_end: "ov_end (fold overview_event es (overview_mount now)) = now"
proof (induction es rule: rev_induct)
  case (snoc e es)
  then show ?case
    by (cases e) (auto simp: setRange_def loadOverview_def overview_answered_def Let_def split: option.splits)
qed (simp add: overview_mount_def loadOverview_def)

lemma refresh_never_newer:
  assumes "s = fold overview_event es (overview_mount now)"
    and "r \<in> set (ul_items (get_requests rows (ov_start s) (ov_end s) p 50 alias user None))"
  shows "ur_created r < now"
proof -
  have "r \<in> set (newest_first ur_created (filter (usage_filter (ov_start s) (ov_end s) alias user None) rows))"
    using assms(2) by (auto simp: served_items page_rows_def dest: in_set_takeD in_set_dropD)
  then show ?thesis
    using overview_end [of es now] assms(1) by (simp add: newest_first_set usage_filter_def)
qed

text \<open>The overview follows its range as the list does.\<close>

interpretation ov: page_load overview_query ov_pending "\<lambda>s q. ov_error s = None \<longrightarrow> ov_data s = Some q"
  loadOverview overview_answered "\<lambda>q a. True"
  by unfold_locales
    (auto simp: loadOverview_def overview_query_def overview_answered_def Let_def split: option.splits)

lemma old_range_shown:
  assumes "ov_pending s = []" "k \<noteq> ov_range s"
  shows "ov_error (overview_event (Loaded 0 None) (overview_event (Loaded 1 None)
           (overview_event (Range now k) (overview_event Refresh s)))) = None \<longrightarrow>
         ov_data (overview_event (Loaded 0 None) (overview_event (Loaded 1 None)
           (overview_event (Range now k) (overview_event Refresh s)))) = Some (overview_query s)"
  using assms
  by (simp add: setRange_def loadOverview_def overview_answered_def overview_query_def Let_def)

text \<open>
  The log of the privacy service: its pages give all matching events once, the count is
  their number, and each filter starts again at the first page.
\<close>

lemma event_pages_cover:
  "concat (map (\<lambda>p. fst (reload rows (s\<lparr>pl_page := p\<rparr>))) [0..<page_count (snd (reload rows s)) PAGE_SIZE])
   = newest_first pe_created (filter (event_filter (or_undefined (pl_operation s))
       (or_undefined (pl_source s)) (pl_only s)) rows)"
  using pages_cover [of PAGE_SIZE "newest_first pe_created (filter (event_filter
      (or_undefined (pl_operation s)) (or_undefined (pl_source s)) (pl_only s)) rows)"]
  by (simp add: reload_def list_events_def count_events_def newest_first_set PAGE_SIZE_def)

lemma event_filter_first_page:
  assumes "t = set_operation v s \<or> t = set_source v s \<or> t = set_only b s"
  shows "(fst (reload rows t) = []) = (snd (reload rows t) = 0)"
  using assms
  by (auto simp: reload_def list_events_def count_events_def set_operation_def set_source_def
      set_only_def page_rows_def PAGE_SIZE_def newest_first_def)

end
