(* ===== verification/Stack_Pages.thy ===== *)
theory Stack_Pages
  imports Prelude
begin

text \<open>
  Stacks and their revisions: \<^verbatim>\<open>pages/admin/StacksPage.tsx\<close> with the store of the backend,
  \<^verbatim>\<open>db/dao/stacks_dao.py\<close> and \<^verbatim>\<open>web/api/admin/stacks/views.py\<close>. Permissions, the policy of
  root mode and the audit entries are left out; the requests are those of a user who may, and
  the server is taken to handle them one after the other.

  The answer to a change is made from the new row before it is written (\<open>StackRevisionDTO\<close>), and it has to
  have the time the row was made at, which the database fills in. \<open>filled\<close> says that the mapper
  gives such a default to a row that is not written yet. SQLAlchemy does not: the
  attribute is null until the row is flushed. An answer that cannot be made is an error of the request, and the
  session is rolled back (\<^verbatim>\<open>db/dependencies.py\<close>).
\<close>

subsection \<open>The store\<close>

record revision =
  rv_stack :: string
  rv_rev :: nat
  rv_yaml :: string
  rv_env :: "string option"
  rv_digests :: "string option"

type_synonym revision_store = "revision list"

definition list_revisions :: "revision_store \<Rightarrow> string \<Rightarrow> revision list" where
  "list_revisions db sid = rev (sort_key rv_rev (filter (\<lambda>r. rv_stack r = sid) db))"

definition next_rev :: "revision_store \<Rightarrow> string \<Rightarrow> nat" where
  "next_rev db sid = (case list_revisions db sid of [] \<Rightarrow> 0 | r # rs \<Rightarrow> rv_rev r) + 1"

definition create_revision ::
  "revision_store \<Rightarrow> string \<Rightarrow> string \<Rightarrow> string option \<Rightarrow> string option \<Rightarrow> revision_store" where
  "create_revision db sid yaml env digests =
     db @ [\<lparr>rv_stack = sid, rv_rev = next_rev db sid, rv_yaml = yaml, rv_env = env, rv_digests = digests\<rparr>]"

definition get_revision :: "revision_store \<Rightarrow> string \<Rightarrow> nat \<Rightarrow> revision option" where
  "get_revision db sid n = List.find (\<lambda>r. rv_stack r = sid \<and> rv_rev r = n) db"

definition latest :: "revision_store \<Rightarrow> string \<Rightarrow> revision option" where
  "latest db sid = (case list_revisions db sid of [] \<Rightarrow> None | r # rs \<Rightarrow> Some r)"

subsection \<open>The requests\<close>

datatype stack_error = Stack_not_found | Revision_not_found nat | Answer_invalid

definition answered :: "bool \<Rightarrow> revision_store \<Rightarrow> stack_error + revision_store" where
  "answered filled db' = (if filled then Inr db' else Inl Answer_invalid)"

definition deploy_stack ::
  "bool \<Rightarrow> string \<Rightarrow> string \<Rightarrow> string option \<Rightarrow> string option \<Rightarrow> revision_store \<Rightarrow> stack_error + revision_store" where
  "deploy_stack filled sid yaml env digests db = answered filled (create_revision db sid yaml env digests)"

definition update_stack ::
  "bool \<Rightarrow> string \<Rightarrow> string \<Rightarrow> string option \<Rightarrow> string option \<Rightarrow> revision_store \<Rightarrow> stack_error + revision_store" where
  "update_stack filled sid yaml env digests db =
     (if latest db sid = None then Inl Stack_not_found
      else answered filled (create_revision db sid yaml env digests))"

definition rollback_stack :: "bool \<Rightarrow> string \<Rightarrow> nat \<Rightarrow> revision_store \<Rightarrow> stack_error + revision_store" where
  "rollback_stack filled sid n db =
     (case get_revision db sid n of
        None \<Rightarrow> Inl (Revision_not_found n)
      | Some t \<Rightarrow> answered filled (create_revision db sid (rv_yaml t) (rv_env t) (rv_digests t)))"

definition stack_diff ::
  "string \<Rightarrow> nat \<Rightarrow> nat \<Rightarrow> revision_store \<Rightarrow> stack_error + revision \<times> revision" where
  "stack_diff sid m n db =
     (case get_revision db sid m of
        None \<Rightarrow> Inl (Revision_not_found m)
      | Some a \<Rightarrow>
          (case get_revision db sid n of
             None \<Rightarrow> Inl (Revision_not_found n)
           | Some b \<Rightarrow> Inr (a, b)))"

datatype stack_request =
    Deploy string string "string option" "string option"
  | Update string string "string option" "string option"
  | Rollback string nat

fun handle :: "bool \<Rightarrow> stack_request \<Rightarrow> revision_store \<Rightarrow> stack_error + revision_store" where
  "handle filled (Deploy sid yaml env digests) db = deploy_stack filled sid yaml env digests db"
| "handle filled (Update sid yaml env digests) db = update_stack filled sid yaml env digests db"
| "handle filled (Rollback sid n) db = rollback_stack filled sid n db"

text \<open>A request that fails changes nothing.\<close>

definition after :: "bool \<Rightarrow> revision_store \<Rightarrow> stack_request \<Rightarrow> revision_store" where
  "after filled db q = (case handle filled q db of Inl e \<Rightarrow> db | Inr db' \<Rightarrow> db')"

inductive stored :: "revision_store \<Rightarrow> bool" where
  nothing: "stored []"
| handled: "stored db \<Longrightarrow> stored (after filled db q)"

subsection \<open>The page\<close>

datatype stack_view = List_view | Deploy_view | Revisions_view

record stacks_page =
  sp_view :: stack_view
  sp_selected :: "string option"
  sp_revisions :: "revision list"
  sp_stackId :: string
  sp_yaml :: string
  sp_deploying :: bool
  sp_deployError :: "string option"
  sp_diff :: "(revision \<times> revision) option"
  sp_diffError :: "string option"
  sp_asked :: "string list"

definition stacks_start :: stacks_page where
  "stacks_start =
     \<lparr>sp_view = List_view, sp_selected = None, sp_revisions = [], sp_stackId = [], sp_yaml = [],
      sp_deploying = False, sp_deployError = None, sp_diff = None, sp_diffError = None, sp_asked = []\<rparr>"

text \<open>The request of the form; environment and digests are never sent.\<close>

definition handleDeploy :: "stacks_page \<Rightarrow> stacks_page \<times> stack_request" where
  "handleDeploy p =
     (p\<lparr>sp_deployError := None, sp_deploying := True\<rparr>, Deploy (sp_stackId p) (sp_yaml p) None None)"

definition deploy_answered :: "string option \<Rightarrow> stacks_page \<Rightarrow> stacks_page" where
  "deploy_answered failed p =
     (case failed of
        None \<Rightarrow> p\<lparr>sp_view := List_view, sp_stackId := [], sp_yaml := [], sp_deploying := False\<rparr>
      | Some m \<Rightarrow> p\<lparr>sp_deployError := Some m, sp_deploying := False\<rparr>)"

definition handleLoadRevisions :: "string \<Rightarrow> stacks_page \<Rightarrow> stacks_page" where
  "handleLoadRevisions sid p = p\<lparr>sp_selected := Some sid, sp_asked := sp_asked p @ [sid]\<rparr>"

text \<open>The answer to a request for revisions; a failure is not handled.\<close>

definition revisions_answered :: "nat \<Rightarrow> unit + revision list \<Rightarrow> stacks_page \<Rightarrow> stacks_page" where
  "revisions_answered i a p =
     (let p' = p\<lparr>sp_asked := take i (sp_asked p) @ drop (Suc i) (sp_asked p)\<rparr>
      in case a of Inl _ \<Rightarrow> p' | Inr rs \<Rightarrow> p'\<lparr>sp_revisions := rs, sp_view := Revisions_view\<rparr>)"

definition handleRollback :: "nat \<Rightarrow> bool \<Rightarrow> stacks_page \<Rightarrow> stack_request option" where
  "handleRollback n confirmed p =
     (case sp_selected p of
        None \<Rightarrow> None
      | Some sid \<Rightarrow> if confirmed then Some (Rollback sid n) else None)"

text \<open>After a successful rollback the revisions are loaded again.\<close>

definition rollback_answered :: "string \<Rightarrow> stacks_page \<Rightarrow> stacks_page" where
  "rollback_answered sid p = handleLoadRevisions sid p"

definition diff_answered :: "string + revision \<times> revision \<Rightarrow> stacks_page \<Rightarrow> stacks_page" where
  "diff_answered a p =
     (case a of Inl m \<Rightarrow> p\<lparr>sp_diffError := Some m\<rparr> | Inr d \<Rightarrow> p\<lparr>sp_diff := Some d\<rparr>)"

definition handleDiff :: "nat \<Rightarrow> nat \<Rightarrow> stacks_page \<Rightarrow> stacks_page \<times> (string \<times> nat \<times> nat) option" where
  "handleDiff m n p =
     (case sp_selected p of
        None \<Rightarrow> (p, None)
      | Some sid \<Rightarrow> (p\<lparr>sp_diffError := None\<rparr>, Some (sid, m, n)))"

text \<open>What the view of revisions shows: the heading, the rows and the comparison.\<close>

definition revisions_shown ::
  "stacks_page \<Rightarrow> (string \<times> revision list \<times> (revision \<times> revision) option) option" where
  "revisions_shown p =
     (case (sp_view p, sp_selected p) of
        (Revisions_view, Some sid) \<Rightarrow> Some (sid, sp_revisions p, sp_diff p)
      | _ \<Rightarrow> None)"

subsection \<open>Lemmas\<close>

definition of_stack :: "revision_store \<Rightarrow> string \<Rightarrow> revision list" where
  "of_stack db sid = filter (\<lambda>r. rv_stack r = sid) db"

text \<open>The revisions of a stack are numbered from one, in the order they were made.\<close>

definition numbered :: "revision_store \<Rightarrow> bool" where
  "numbered db = (\<forall>sid. map rv_rev (of_stack db sid) = [1..<Suc (length (of_stack db sid))])"

lemma numbered_listed:
  assumes "numbered db"
  shows "list_revisions db sid = rev (of_stack db sid)"
proof -
  have "sorted (map rv_rev (of_stack db sid))" using assms by (simp add: numbered_def del: upt_Suc)
  then show ?thesis by (simp add: list_revisions_def of_stack_def sorted_sort_id sort_key_id_if_sorted)
qed

lemma numbered_nth:
  assumes "numbered db" "i < length (of_stack db sid)"
  shows "rv_rev (of_stack db sid ! i) = Suc i"
proof -
  have "map rv_rev (of_stack db sid) ! i = [1..<Suc (length (of_stack db sid))] ! i"
    using assms(1) by (simp add: numbered_def del: upt_Suc)
  then show ?thesis using assms(2) by (simp del: upt_Suc)
qed

lemma numbered_next:
  assumes "numbered db"
  shows "next_rev db sid = Suc (length (of_stack db sid))"
proof (cases "of_stack db sid" rule: rev_cases)
  case Nil
  then show ?thesis using numbered_listed [OF assms] by (simp add: next_rev_def)
next
  case (snoc rs r)
  then have "rv_rev r = length (of_stack db sid)"
    using numbered_nth [OF assms, of "length rs" sid] by simp
  with snoc show ?thesis using numbered_listed [OF assms, of sid] by (simp add: next_rev_def)
qed

lemma of_stack_create:
  "of_stack (create_revision db sid yaml env digests) k =
     (if k = sid then of_stack db sid @ [\<lparr>rv_stack = sid, rv_rev = next_rev db sid, rv_yaml = yaml,
        rv_env = env, rv_digests = digests\<rparr>] else of_stack db k)"
  by (simp add: create_revision_def of_stack_def)

lemma numbered_create:
  assumes "numbered db"
  shows "numbered (create_revision db sid yaml env digests)"
proof -
  have "[1..<Suc (Suc n)] = [1..<Suc n] @ [Suc n]" for n by simp
  then show ?thesis
    using assms by (simp add: numbered_def of_stack_create numbered_next [OF assms] del: upt_Suc)
qed

lemma after_cases:
  "after filled db q = db \<or> (\<exists>sid yaml env digests. after filled db q = create_revision db sid yaml env digests)"
  by (cases q) (auto simp: after_def deploy_stack_def update_stack_def rollback_stack_def answered_def split: option.splits)

lemma stored_numbered: "stored db \<Longrightarrow> numbered db"
proof (induction rule: stored.induct)
  case nothing
  then show ?case by (simp add: numbered_def of_stack_def)
next
  case (handled db filled q)
  then show ?case using after_cases [of filled db q] numbered_create by auto
qed

text \<open>A stored revision is found by its number.\<close>

lemma find_unique:
  assumes "P x" "x \<in> set xs" "\<And>y. y \<in> set xs \<Longrightarrow> P y \<Longrightarrow> y = x"
  shows "List.find P xs = Some x"
  using assms(2,3)
proof (induction xs)
  case (Cons y xs)
  show ?case
  proof (cases "P y")
    case True
    then show ?thesis using Cons.prems(2) [of y] by simp
  next
    case False
    then have "x \<noteq> y" using assms(1) by blast
    with Cons False show ?thesis by simp
  qed
qed simp

lemma numbered_get:
  assumes "numbered db" "i < length (of_stack db sid)"
  shows "get_revision db sid (Suc i) = Some (of_stack db sid ! i)"
  unfolding get_revision_def
proof (rule find_unique)
  have i: "of_stack db sid ! i \<in> set (of_stack db sid)" using assms(2) by simp
  then show "of_stack db sid ! i \<in> set db" by (simp add: of_stack_def)
  show "rv_stack (of_stack db sid ! i) = sid \<and> rv_rev (of_stack db sid ! i) = Suc i"
    using i numbered_nth [OF assms] by (auto simp: of_stack_def)
  fix y
  assume y: "y \<in> set db" "rv_stack y = sid \<and> rv_rev y = Suc i"
  then have "y \<in> set (of_stack db sid)" by (simp add: of_stack_def)
  then obtain j where j: "j < length (of_stack db sid)" "of_stack db sid ! j = y"
    by (auto simp: in_set_conv_nth)
  with y numbered_nth [OF assms(1) j(1)] show "y = of_stack db sid ! i" by simp
qed

lemma numbered_get_range:
  assumes "numbered db" "get_revision db sid n = Some r"
  shows "1 \<le> n \<and> n \<le> length (of_stack db sid) \<and> r = of_stack db sid ! (n - 1)"
proof -
  have "r \<in> set (of_stack db sid)" "rv_rev r = n"
    using assms(2) by (auto simp: get_revision_def of_stack_def find_Some_iff)
  then obtain i where i: "i < length (of_stack db sid)" "of_stack db sid ! i = r"
    by (auto simp: in_set_conv_nth)
  then have "n = Suc i" using numbered_nth [OF assms(1) i(1)] \<open>rv_rev r = n\<close> by simp
  with i show ?thesis by simp
qed

subsection \<open>Properties\<close>

text \<open>
  Whatever requests are handled, the revisions of every stack are numbered from one without a
  gap, and the list shows them with the newest first.
\<close>

theorem revisions_numbered:
  assumes "stored db"
  shows "map rv_rev (list_revisions db sid) = rev [1..<Suc (length (list_revisions db sid))]"
proof -
  have n: "numbered db" by (rule stored_numbered [OF assms])
  then show ?thesis
    using numbered_listed [OF n, of sid] by (simp add: numbered_def rev_map [symmetric] del: upt_Suc)
qed

text \<open>History is only added to: no request removes or changes a revision of any stack.\<close>

lemma history_kept: "\<exists>new. of_stack (after filled db q) sid = of_stack db sid @ new"
  using after_cases [of filled db q] by (auto simp: of_stack_create)

text \<open>
  C17: A rollback is exact or does nothing. To a number that does not exist it is refused; to one that
  does it makes a new latest revision with everything of the old one, which stays, provided that the answer
  can be made, and otherwise it ends with an error. In both failures the store is as before.
\<close>

theorem rollback_restores:
  assumes "stored db"
  shows "(case (get_revision db sid n, filled) of
            (None, _) \<Rightarrow> handle filled (Rollback sid n) db = Inl (Revision_not_found n) \<and> after filled db (Rollback sid n) = db
          | (Some t, False) \<Rightarrow> handle filled (Rollback sid n) db = Inl Answer_invalid \<and> after filled db (Rollback sid n) = db
          | (Some t, True) \<Rightarrow>
              latest (after filled db (Rollback sid n)) sid
                = Some (t\<lparr>rv_rev := Suc (length (list_revisions db sid))\<rparr>)
              \<and> get_revision (after filled db (Rollback sid n)) sid n = Some t
              \<and> length (after filled db (Rollback sid n)) = Suc (length db))"
proof (cases "get_revision db sid n")
  case None
  then show ?thesis by (simp add: after_def rollback_stack_def)
next
  case (Some t)
  have n: "numbered db" by (rule stored_numbered [OF assms])
  let ?new = "create_revision db sid (rv_yaml t) (rv_env t) (rv_digests t)"
  have t: "rv_stack t = sid" using Some by (auto simp: get_revision_def find_Some_iff)
  have latest: "latest ?new sid = Some (t\<lparr>rv_rev := Suc (length (list_revisions db sid))\<rparr>)"
    using numbered_listed [OF numbered_create [OF n], of sid "rv_yaml t" "rv_env t" "rv_digests t" sid]
      numbered_listed [OF n, of sid] t
    by (simp add: latest_def of_stack_create numbered_next [OF n])
  have r: "1 \<le> n" "n \<le> length (of_stack db sid)" "t = of_stack db sid ! (n - 1)"
    using numbered_get_range [OF n Some] by auto
  have "get_revision ?new sid (Suc (n - 1)) = Some (of_stack ?new sid ! (n - 1))"
    by (rule numbered_get [OF numbered_create [OF n]]) (use r in \<open>simp add: of_stack_create\<close>)
  then have "get_revision ?new sid n = Some t" using r by (simp add: of_stack_create nth_append)
  moreover have "length ?new = Suc (length db)" by (simp add: create_revision_def)
  ultimately show ?thesis
    using Some latest by (simp add: after_def rollback_stack_def answered_def split: bool.split)
qed

theorem rollback_restores_witness:
  "latest (after True (after True (after True [] (Deploy ''s'' ''a'' (Some ''e'') None)) (Deploy ''s'' ''b'' None None))
     (Rollback ''s'' 1)) ''s''
   = Some \<lparr>rv_stack = ''s'', rv_rev = 3, rv_yaml = ''a'', rv_env = Some ''e'', rv_digests = None\<rparr>"
proof -
  let ?db = "after True (after True [] (Deploy ''s'' ''a'' (Some ''e'') None)) (Deploy ''s'' ''b'' None None)"
  have "stored ?db" by (intro stored.intros)
  note r = rollback_restores [OF this, where sid = "''s''" and n = 1 and filled = True]
  have "get_revision ?db ''s'' 1
      = Some \<lparr>rv_stack = ''s'', rv_rev = 1, rv_yaml = ''a'', rv_env = Some ''e'', rv_digests = None\<rparr>"
    by code_simp
  moreover have "length (list_revisions ?db ''s'') = 2" by code_simp
  ultimately show ?thesis using r by simp
qed

text \<open>
  With a mapper that leaves the defaults to the database no request makes a revision: every deployment, update and
  rollback ends with an error, and the store never changes.
\<close>

theorem no_revision_stored: "(\<exists>e. handle False q db = Inl e) \<and> after False db q = db"
  by (cases q)
    (auto simp: after_def deploy_stack_def update_stack_def rollback_stack_def answered_def split: option.split)

text \<open>A comparison shows the two revisions asked for.\<close>

lemma diff_shows:
  assumes "stored db" "stack_diff sid m n db = Inr (a, b)"
  shows "rv_stack a = sid \<and> rv_rev a = m \<and> rv_stack b = sid \<and> rv_rev b = n"
  using assms by (auto simp: stack_diff_def get_revision_def find_Some_iff split: option.splits)

text \<open>
  The page cannot send an environment, so deploying a stack again from it makes a revision
  without one; only a rollback brings it back.
\<close>

lemma redeploy_drops_environment:
  assumes "stored db" "snd (handleDeploy p) = q"
  shows "\<exists>r. latest (after True db q) (sp_stackId p) = Some r \<and> rv_env r = None \<and> rv_digests r = None
    \<and> rv_yaml r = sp_yaml p"
proof -
  have n: "numbered db" by (rule stored_numbered [OF assms(1)])
  have "after True db q = create_revision db (sp_stackId p) (sp_yaml p) None None"
    using assms(2) by (auto simp: handleDeploy_def after_def deploy_stack_def answered_def)
  then show ?thesis
    using numbered_listed [OF numbered_create [OF n]] by (simp add: latest_def of_stack_create)
qed

text \<open>
  The heading changes with the click and the rows with the answer: when the answers of two
  clicks come in the other order, a rollback of a row of the first stack is asked for the second.
\<close>

lemma late_revisions_rollback:
  fixes db :: revision_store and a b :: string
  assumes "sp_asked p = []"
  defines "p' \<equiv> revisions_answered 0 (Inr (list_revisions db a))
    (revisions_answered 1 (Inr (list_revisions db b)) (handleLoadRevisions b (handleLoadRevisions a p)))"
  shows "revisions_shown p' = Some (b, list_revisions db a, sp_diff p)"
    and "handleRollback n True p' = Some (Rollback b n)"
  using assms(1)
  by (simp_all add: p'_def revisions_answered_def handleLoadRevisions_def revisions_shown_def handleRollback_def)

text \<open>In order the rows are those of the heading.\<close>

lemma revisions_in_order:
  fixes db :: revision_store and a b :: string
  assumes "sp_asked p = []"
  defines "p' \<equiv> revisions_answered 0 (Inr (list_revisions db b))
    (revisions_answered 0 (Inr (list_revisions db a)) (handleLoadRevisions b (handleLoadRevisions a p)))"
  shows "revisions_shown p' = Some (b, list_revisions db b, sp_diff p)"
  using assms(1)
  by (simp add: p'_def revisions_answered_def handleLoadRevisions_def revisions_shown_def)

text \<open>A comparison stays when the revisions of another stack are opened.\<close>

lemma diff_of_other_stack:
  assumes "sp_asked p = []" "sp_diff p = Some (x, y)"
  shows "revisions_shown (revisions_answered 0 (Inr rs) (handleLoadRevisions b p)) = Some (b, rs, Some (x, y))"
  using assms by (simp add: revisions_answered_def handleLoadRevisions_def revisions_shown_def)

text \<open>When the revisions cannot be loaded the page stays as it was, without a message.\<close>

lemma failed_revisions_silent:
  assumes "sp_asked p = []" "sp_view p = List_view"
  shows "sp_view (revisions_answered 0 (Inl ()) (handleLoadRevisions b p)) = List_view
    \<and> sp_deployError (revisions_answered 0 (Inl ()) (handleLoadRevisions b p)) = sp_deployError p"
  using assms by (simp add: revisions_answered_def handleLoadRevisions_def)

end
