(* ===== verification/Api_Routes.thy ===== *)
theory Api_Routes
  imports Prelude
begin

text \<open>
  The routes of the backend: the routers under \<^verbatim>\<open>web/api\<close> with the methods, paths and handlers
  of their decorators in the order of the files, and \<^verbatim>\<open>router.py\<close>, \<^verbatim>\<open>admin/__init__.py\<close>,
  \<^verbatim>\<open>llm/__init__.py\<close>, which mount them. Paths leave out the common \<^verbatim>\<open>/api\<close>. The routers of the
  library for users, which are not in the repository, and the sockets are left out. The
  framework is documented to try the routes in the order they were added and to take the
  first whose method and whole path fit, a parameter standing for one piece that is not empty.
\<close>

subsection \<open>Routes\<close>

datatype verb = GET | POST | PUT | PATCH | DELETE

text \<open>A piece of a path between slashes: fixed, or a parameter.\<close>

datatype piece = Lit string | Arg

type_synonym route = "verb \<times> piece list \<times> string"

definition monitoring_routes :: "route list" where
  "monitoring_routes =
     [(GET, [Lit ''health''], ''monitoring.health_check'')]"

definition account_routes :: "route list" where
  "account_routes =
     [(POST, [Lit ''auth'', Lit ''dev-login''], ''account.dev_login'')]"

definition docs_routes :: "route list" where
  "docs_routes =
     [(GET, [Lit ''docs''], ''docs.swagger_ui_html''),
      (GET, [Lit ''swagger-redirect''], ''docs.swagger_ui_redirect''),
      (GET, [Lit ''redoc''], ''docs.redoc_html'')]"

definition bootstrap_routes :: "route list" where
  "bootstrap_routes =
     [(GET, [Lit ''bootstrap'', Lit ''status''], ''bootstrap.bootstrap_status''),
      (POST, [Lit ''bootstrap''], ''bootstrap.bootstrap'')]"

definition containers_routes :: "route list" where
  "containers_routes =
     [(POST, [Lit []], ''containers.create_container''),
      (GET, [Lit []], ''containers.list_containers''),
      (GET, [Arg], ''containers.get_container''),
      (POST, [Arg, Arg], ''containers.container_lifecycle''),
      (GET, [Arg, Lit ''logs''], ''containers.container_logs''),
      (POST, [Arg, Lit ''exec''], ''containers.container_exec''),
      (DELETE, [Arg], ''containers.delete_container''),
      (PUT, [Arg, Lit ''register''], ''containers.register_container'')]"

definition dashboard_routes :: "route list" where
  "dashboard_routes =
     [(GET, [Lit ''overview''], ''dashboard.overview''),
      (GET, [Lit ''health''], ''dashboard.health''),
      (GET, [Lit ''grafana'', Lit ''panels''], ''dashboard.grafana_panels'')]"

definition hardware_routes :: "route list" where
  "hardware_routes =
     [(GET, [], ''hardware.hardware_info''),
      (POST, [Lit ''rescan''], ''hardware.hardware_rescan'')]"

definition images_routes :: "route list" where
  "images_routes =
     [(GET, [Lit []], ''images.list_images''),
      (GET, [Lit ''check''], ''images.check_image''),
      (POST, [Lit ''pull''], ''images.pull_image''),
      (GET, [Lit ''pull'', Arg, Lit ''progress''], ''images.pull_progress''),
      (POST, [Lit ''prune''], ''images.prune_images'')]"

definition stacks_routes :: "route list" where
  "stacks_routes =
     [(GET, [Lit []], ''stacks.list_stacks''),
      (POST, [Lit ''deploy''], ''stacks.deploy_stack''),
      (POST, [Arg, Lit ''update''], ''stacks.update_stack''),
      (POST, [Arg, Lit ''rollback''], ''stacks.rollback_stack''),
      (GET, [Arg, Lit ''revisions''], ''stacks.list_stack_revisions''),
      (GET, [Arg, Lit ''diff''], ''stacks.stack_diff'')]"

definition networks_routes :: "route list" where
  "networks_routes =
     [(GET, [Lit []], ''networks.list_networks''),
      (GET, [Arg], ''networks.get_network''),
      (POST, [Lit []], ''networks.create_network''),
      (DELETE, [Arg], ''networks.delete_network'')]"

definition root_mode_routes :: "route list" where
  "root_mode_routes =
     [(POST, [Lit ''start''], ''root_mode.start_root_mode''),
      (POST, [Lit ''stop''], ''root_mode.stop_root_mode''),
      (GET, [Lit ''status''], ''root_mode.root_mode_status'')]"

definition audit_routes :: "route list" where
  "audit_routes =
     [(GET, [Lit []], ''audit.list_audit_events'')]"

definition preferences_routes :: "route list" where
  "preferences_routes =
     [(GET, [Lit ''me'', Lit ''preferences''], ''preferences.get_preferences''),
      (PATCH, [Lit ''me'', Lit ''preferences''], ''preferences.update_preferences'')]"

definition admin_users_routes :: "route list" where
  "admin_users_routes =
     [(GET, [Lit ''me'', Lit ''access''], ''admin_users.me_access''),
      (GET, [Lit ''roles''], ''admin_users.list_roles''),
      (GET, [Lit ''roles'', Arg], ''admin_users.get_role''),
      (POST, [Lit ''roles''], ''admin_users.create_role''),
      (PATCH, [Lit ''roles'', Arg], ''admin_users.update_role''),
      (DELETE, [Lit ''roles'', Arg], ''admin_users.delete_role''),
      (GET, [Lit ''permissions''], ''admin_users.list_permissions''),
      (GET, [Lit []], ''admin_users.list_users_with_roles''),
      (PUT, [Arg, Lit ''roles''], ''admin_users.set_user_roles''),
      (POST, [Lit []], ''admin_users.create_user''),
      (DELETE, [Arg], ''admin_users.delete_user''),
      (POST, [Lit ''me'', Lit ''change-password''], ''admin_users.change_password''),
      (POST, [Lit ''me'', Lit ''api-token''], ''admin_users.generate_api_token'')]"

definition system_routes :: "route list" where
  "system_routes =
     [(GET, [Lit ''settings'', Lit ''schema''], ''system.system_settings_schema''),
      (GET, [Lit ''settings'', Lit ''values''], ''system.system_settings_values''),
      (PUT, [Lit ''settings'', Lit ''values'', Arg], ''system.system_settings_update''),
      (GET, [Lit ''apply'', Arg], ''system.system_apply_job''),
      (GET, [Lit ''wizard'', Lit ''steps''], ''system.wizard_steps''),
      (POST, [Lit ''wizard'', Lit ''apply''], ''system.wizard_apply''),
      (POST, [Lit ''agents'', Lit ''register''], ''system.system_agent_register''),
      (POST, [Lit ''agents'', Lit ''heartbeat''], ''system.system_agent_heartbeat''),
      (GET, [Lit ''agents''], ''system.system_agents_list''),
      (POST, [Lit ''agents'', Arg, Lit ''apply''], ''system.system_agent_apply''),
      (GET, [Lit ''agents'', Arg, Lit ''jobs'', Arg], ''system.system_agent_job_status''),
      (POST, [Lit ''nodes'', Lit ''enrollment-tokens''], ''system.system_node_enrollment_token_create''),
      (POST, [Lit ''nodes'', Lit ''enroll''], ''system.system_node_enroll''),
      (POST, [Lit ''nodes'', Lit ''credentials'', Lit ''rotate''], ''system.system_node_rotate_credential''),
      (GET, [Lit ''nodes''], ''system.system_nodes_list''),
      (GET, [Lit ''nodes'', Arg], ''system.system_node_get''),
      (GET, [Lit ''nodes'', Arg, Lit ''hardware''], ''system.system_node_hardware''),
      (DELETE, [Lit ''nodes'', Arg], ''system.system_node_delete''),
      (POST, [Lit ''nodes'', Arg, Lit ''maintenance''], ''system.system_node_maintenance''),
      (POST, [Lit ''nodes'', Arg, Lit ''drain''], ''system.system_node_drain''),
      (POST, [Lit ''nodes'', Arg, Lit ''commands''], ''system.system_node_command_issue''),
      (GET, [Lit ''nodes'', Arg, Lit ''commands''], ''system.system_node_commands_list''),
      (GET, [Lit ''nodes'', Arg, Lit ''commands'', Arg], ''system.system_node_command_timeline''),
      (POST, [Lit ''alerts'', Lit ''grafana'', Lit ''webhook''], ''system.system_grafana_webhook''),
      (POST, [Lit ''node-profiles''], ''system.system_node_profile_create''),
      (GET, [Lit ''node-profiles''], ''system.system_node_profiles_list''),
      (GET, [Lit ''node-profiles'', Arg], ''system.system_node_profile_get''),
      (PUT, [Lit ''node-profiles'', Arg], ''system.system_node_profile_update''),
      (DELETE, [Lit ''node-profiles'', Arg], ''system.system_node_profile_delete''),
      (PUT, [Lit ''nodes'', Arg, Lit ''profile''], ''system.system_node_profile_assign''),
      (DELETE, [Lit ''nodes'', Arg, Lit ''profile''], ''system.system_node_profile_unassign'')]"

definition tls_routes :: "route list" where
  "tls_routes =
     [(GET, [Lit ''status''], ''tls.tls_status''),
      (POST, [Lit ''upload''], ''tls.tls_upload''),
      (POST, [Lit ''test''], ''tls.tls_test''),
      (POST, [Lit ''activate''], ''tls.tls_activate''),
      (DELETE, [], ''tls.tls_delete'')]"

definition services_routes :: "route list" where
  "services_routes =
     [(GET, [Lit ''services''], ''services.list_services''),
      (PUT, [Lit ''services'', Arg, Lit ''enable''], ''services.enable_module''),
      (PUT, [Lit ''services'', Arg, Lit ''disable''], ''services.disable_module''),
      (GET, [Lit ''services'', Arg, Lit ''logs'', Arg], ''services.module_container_logs'')]"

definition scheduler_routes :: "route list" where
  "scheduler_routes =
     [(GET, [Lit ''jobs''], ''scheduler.list_all_jobs''),
      (POST, [Lit ''jobs'', Arg, Lit ''cancel''], ''scheduler.cancel_job''),
      (POST, [Lit ''jobs'', Arg, Lit ''retry''], ''scheduler.retry_job'')]"

definition groups_routes :: "route list" where
  "groups_routes =
     [(GET, [Lit []], ''groups.list_groups''),
      (GET, [Arg], ''groups.get_group''),
      (POST, [Lit []], ''groups.create_group''),
      (PATCH, [Arg], ''groups.update_group''),
      (DELETE, [Arg], ''groups.delete_group''),
      (GET, [Arg, Lit ''members''], ''groups.list_group_members''),
      (PUT, [Arg, Lit ''members''], ''groups.set_group_members''),
      (POST, [Arg, Lit ''members''], ''groups.add_group_members''),
      (DELETE, [Arg, Lit ''members'', Arg], ''groups.remove_group_member'')]"

definition auth_providers_routes :: "route list" where
  "auth_providers_routes =
     [(GET, [Lit ''public''], ''auth_providers.list_enabled_providers''),
      (GET, [Lit []], ''auth_providers.list_auth_providers''),
      (GET, [Arg], ''auth_providers.get_auth_provider''),
      (POST, [Lit []], ''auth_providers.create_auth_provider''),
      (PATCH, [Arg], ''auth_providers.update_auth_provider''),
      (DELETE, [Arg], ''auth_providers.delete_auth_provider''),
      (GET, [Arg, Lit ''authorize''], ''auth_providers.oauth_authorize''),
      (GET, [Arg, Lit ''callback''], ''auth_providers.oauth_callback''),
      (GET, [Lit ''external-callback''], ''auth_providers.oauth_external_callback'')]"

definition pii_routes :: "route list" where
  "pii_routes =
     [(GET, [Lit ''config'', Lit ''options''], ''pii.get_pii_config_options''),
      (GET, [Lit ''policies'', Lit ''tenants''], ''pii.list_policy_tenants''),
      (GET, [Lit ''policies'', Lit ''tenants'', Arg], ''pii.get_tenant_policy''),
      (PUT, [Lit ''policies'', Lit ''tenants'', Arg], ''pii.upsert_tenant_policy''),
      (DELETE, [Lit ''policies'', Lit ''tenants'', Arg], ''pii.clear_tenant_policy''),
      (GET, [Lit ''stats''], ''pii.get_pii_stats''),
      (GET, [Lit ''events''], ''pii.list_pii_events''),
      (POST, [Lit ''events'', Lit ''log''], ''pii.log_pii_event'')]"

definition rag_routes :: "route list" where
  "rag_routes =
     [(GET, [Lit ''health''], ''rag.rag_health''),
      (GET, [Lit ''runtime-config''], ''rag.get_runtime_config''),
      (POST, [Lit ''runtime-config''], ''rag.update_runtime_config''),
      (POST, [Lit ''knowledge'', Lit ''search''], ''rag.search_knowledge''),
      (GET, [Lit ''collectors''], ''rag.list_collectors''),
      (POST, [Lit ''collectors'', Arg, Lit ''run''], ''rag.run_collector''),
      (POST, [Lit ''containers''], ''rag.create_container''),
      (GET, [Lit ''containers'', Lit ''tree''], ''rag.list_container_tree''),
      (PATCH, [Lit ''containers'', Arg], ''rag.update_container''),
      (DELETE, [Lit ''containers'', Arg], ''rag.delete_container''),
      (POST, [Lit ''uploads'', Lit ''presign''], ''rag.create_upload_presign''),
      (POST, [Lit ''uploads'', Lit ''complete''], ''rag.complete_upload''),
      (POST, [Lit ''drafts''], ''rag.create_draft''),
      (GET, [Lit ''drafts'', Arg], ''rag.get_draft''),
      (PATCH, [Lit ''drafts'', Arg], ''rag.patch_draft''),
      (POST, [Lit ''drafts'', Arg, Lit ''publish''], ''rag.publish_draft''),
      (GET, [Lit ''publishes''], ''rag.list_publishes''),
      (GET, [Lit ''publishes'', Arg], ''rag.get_publish''),
      (GET, [Lit ''jobs''], ''rag.list_jobs''),
      (GET, [Lit ''jobs'', Arg], ''rag.get_job'')]"

definition rag_lite_routes :: "route list" where
  "rag_lite_routes =
     [(GET, [Lit ''health''], ''rag_lite.rag_lite_health''),
      (GET, [Lit ''config''], ''rag_lite.get_rag_lite_config''),
      (POST, [Lit ''upload''], ''rag_lite.upload_file''),
      (GET, [Lit ''documents''], ''rag_lite.list_documents''),
      (GET, [Lit ''documents'', Lit ''all''], ''rag_lite.list_all_documents''),
      (GET, [Lit ''documents'', Arg], ''rag_lite.get_document''),
      (DELETE, [Lit ''documents'', Arg], ''rag_lite.delete_document''),
      (POST, [Lit ''documents'', Arg, Lit ''retry''], ''rag_lite.retry_document''),
      (POST, [Lit ''search''], ''rag_lite.search''),
      (POST, [Lit ''collections''], ''rag_lite.create_collection''),
      (GET, [Lit ''collections''], ''rag_lite.list_collections''),
      (PATCH, [Lit ''collections'', Arg], ''rag_lite.update_collection''),
      (DELETE, [Lit ''collections'', Arg], ''rag_lite.delete_collection''),
      (GET, [Lit ''jobs''], ''rag_lite.list_jobs''),
      (GET, [Lit ''jobs'', Arg], ''rag_lite.get_job''),
      (PATCH, [Lit ''documents'', Arg, Lit ''move''], ''rag_lite.move_document''),
      (PATCH, [Lit ''documents'', Arg, Lit ''summary''], ''rag_lite.update_document_summary''),
      (POST, [Lit ''collections'', Arg, Lit ''generate-summary''], ''rag_lite.generate_collection_summary''),
      (POST, [Lit ''documents'', Arg, Lit ''generate-summary''], ''rag_lite.generate_document_summary''),
      (POST, [Lit ''search'', Lit ''graph''], ''rag_lite.graph_search'')]"

definition admin_chat_routes :: "route list" where
  "admin_chat_routes =
     [(GET, [Lit ''projects''], ''admin_chat.list_projects''),
      (DELETE, [Lit ''projects'', Arg], ''admin_chat.delete_project''),
      (GET, [Lit ''sessions''], ''admin_chat.list_sessions''),
      (DELETE, [Lit ''sessions'', Arg], ''admin_chat.delete_session''),
      (GET, [Lit ''attachments''], ''admin_chat.list_attachments''),
      (DELETE, [Lit ''attachments'', Arg], ''admin_chat.delete_attachment''),
      (GET, [Lit ''stats''], ''admin_chat.chat_stats'')]"

definition mcp_routes :: "route list" where
  "mcp_routes =
     [(GET, [Lit ''servers''], ''mcp.list_servers''),
      (POST, [Lit ''servers''], ''mcp.register_server''),
      (GET, [Lit ''servers'', Arg], ''mcp.get_server''),
      (PATCH, [Lit ''servers'', Arg], ''mcp.update_server''),
      (DELETE, [Lit ''servers'', Arg], ''mcp.delete_server''),
      (POST, [Lit ''servers'', Arg, Lit ''refresh''], ''mcp.refresh_server''),
      (POST, [Lit ''servers'', Arg, Lit ''test''], ''mcp.test_server''),
      (GET, [Lit ''servers'', Arg, Lit ''tools''], ''mcp.list_server_tools''),
      (PATCH, [Lit ''tools'', Arg], ''mcp.update_tool''),
      (GET, [Lit ''servers'', Arg, Lit ''settings'', Lit ''schema''], ''mcp.get_server_settings_schema''),
      (GET, [Lit ''servers'', Arg, Lit ''settings''], ''mcp.get_server_settings''),
      (PUT, [Lit ''servers'', Arg, Lit ''settings''], ''mcp.update_server_settings''),
      (POST, [Lit ''scan''], ''mcp.scan_for_servers'')]"

definition skills_routes :: "route list" where
  "skills_routes =
     [(GET, [], ''skills.list_skills''),
      (POST, [], ''skills.create_skill''),
      (GET, [Lit ''completions''], ''skills.completions''),
      (GET, [Arg], ''skills.get_skill''),
      (PATCH, [Arg], ''skills.update_skill''),
      (DELETE, [Arg], ''skills.delete_skill''),
      (POST, [Arg, Lit ''publish''], ''skills.publish_skill''),
      (POST, [Arg, Lit ''archive''], ''skills.archive_skill''),
      (GET, [Arg, Lit ''versions''], ''skills.list_versions''),
      (GET, [Arg, Lit ''versions'', Arg], ''skills.get_version''),
      (GET, [Arg, Lit ''assignments''], ''skills.list_assignments''),
      (POST, [Arg, Lit ''assignments''], ''skills.create_assignment''),
      (DELETE, [Arg, Lit ''assignments'', Arg], ''skills.delete_assignment''),
      (GET, [Arg, Lit ''export''], ''skills.export_skill''),
      (POST, [Lit ''import''], ''skills.import_skill'')]"

definition observability_routes :: "route list" where
  "observability_routes =
     [(GET, [Lit ''summary''], ''observability.get_summary''),
      (GET, [Lit ''timeseries''], ''observability.get_timeseries''),
      (GET, [Lit ''performance''], ''observability.get_performance''),
      (GET, [Lit ''requests''], ''observability.list_requests''),
      (GET, [Lit ''requests'', Arg], ''observability.get_request_detail''),
      (GET, [Lit ''requests'', Lit ''by-trace'', Arg], ''observability.get_request_by_trace''),
      (GET, [Lit ''requests'', Arg, Lit ''tool-calls''], ''observability.get_tool_calls''),
      (GET, [Lit ''sessions'', Arg], ''observability.get_session_cost''),
      (GET, [Lit ''export.csv''], ''observability.export_csv''),
      (GET, [Lit ''model-names''], ''observability.list_model_names''),
      (GET, [Lit ''provider-names''], ''observability.list_provider_names''),
      (POST, [Lit ''recalculate-costs''], ''observability.recalculate_costs''),
      (GET, [Lit ''pricing''], ''observability.list_pricing''),
      (POST, [Lit ''pricing''], ''observability.create_pricing''),
      (PUT, [Lit ''pricing'', Arg], ''observability.update_pricing''),
      (DELETE, [Lit ''pricing'', Arg], ''observability.deactivate_pricing''),
      (GET, [Lit ''pricing'', Arg, Arg, Lit ''history''], ''observability.pricing_history''),
      (POST, [Lit ''budgets''], ''observability.budgets_stub''),
      (GET, [Lit ''forecast''], ''observability.forecast_stub''),
      (POST, [Lit ''alerts''], ''observability.alerts_stub''),
      (GET, [Lit ''chargeback''], ''observability.chargeback_stub'')]"

definition providers_routes :: "route list" where
  "providers_routes =
     [(POST, [Lit ''test-endpoint''], ''providers.test_endpoint''),
      (GET, [Lit []], ''providers.list_providers''),
      (POST, [Lit []], ''providers.create_provider''),
      (GET, [Arg], ''providers.get_provider''),
      (PATCH, [Arg], ''providers.update_provider''),
      (DELETE, [Arg], ''providers.delete_provider'')]"

definition models_routes :: "route list" where
  "models_routes =
     [(GET, [Lit []], ''models.list_models''),
      (GET, [Arg], ''models.get_model''),
      (POST, [Lit ''download''], ''models.download_model''),
      (POST, [Lit ''register''], ''models.register_model''),
      (POST, [Lit ''scan-local''], ''models.scan_local_models''),
      (DELETE, [Arg], ''models.delete_model''),
      (GET, [Arg, Lit ''artifacts''], ''models.list_artifacts'')]"

definition runtimes_routes :: "route list" where
  "runtimes_routes =
     [(GET, [Lit []], ''runtimes.list_runtimes''),
      (GET, [Arg, Lit ''monitoring-stats''], ''runtimes.runtime_monitoring_stats''),
      (POST, [Lit []], ''runtimes.create_runtime''),
      (GET, [Arg], ''runtimes.get_runtime''),
      (POST, [Arg, Lit ''start''], ''runtimes.start_runtime''),
      (POST, [Arg, Lit ''stop''], ''runtimes.stop_runtime''),
      (POST, [Arg, Lit ''restart''], ''runtimes.restart_runtime''),
      (DELETE, [Arg], ''runtimes.delete_runtime''),
      (PATCH, [Arg], ''runtimes.update_runtime''),
      (GET, [Arg, Lit ''health''], ''runtimes.runtime_health''),
      (GET, [Arg, Lit ''logs''], ''runtimes.runtime_logs'')]"

definition llm_jobs_routes :: "route list" where
  "llm_jobs_routes =
     [(GET, [Lit []], ''llm_jobs.list_jobs''),
      (GET, [Arg], ''llm_jobs.get_job''),
      (POST, [Arg, Lit ''cancel''], ''llm_jobs.cancel_job''),
      (POST, [Arg, Lit ''retry''], ''llm_jobs.retry_job'')]"

definition search_routes :: "route list" where
  "search_routes =
     [(GET, [Lit ''hf-search''], ''search.search_hf_models'')]"

definition llm_settings_routes :: "route list" where
  "llm_settings_routes =
     [(GET, [Lit ''hf-token''], ''llm_settings.get_hf_token_status''),
      (PUT, [Lit ''hf-token''], ''llm_settings.set_hf_token'')]"

definition graph_routes :: "route list" where
  "graph_routes =
     [(GET, [Lit ''topology''], ''graph.get_graph_topology''),
      (GET, [Lit ''traces''], ''graph.get_recent_traces''),
      (GET, [Lit ''data-usage''], ''graph.get_data_usage''),
      (GET, [Lit ''traces'', Lit ''stream''], ''graph.stream_traces'')]"

definition chat_routes :: "route list" where
  "chat_routes =
     [(POST, [Lit ''completions''], ''chat.chat_completions''),
      (GET, [Lit ''models''], ''chat.list_models''),
      (GET, [Lit ''capacity''], ''chat.get_capacity''),
      (GET, [Lit ''projects''], ''chat.list_projects''),
      (POST, [Lit ''projects''], ''chat.create_project''),
      (GET, [Lit ''projects'', Arg], ''chat.get_project''),
      (PATCH, [Lit ''projects'', Arg], ''chat.update_project''),
      (DELETE, [Lit ''projects'', Arg], ''chat.delete_project''),
      (GET, [Lit ''sessions''], ''chat.list_sessions''),
      (POST, [Lit ''sessions''], ''chat.create_session''),
      (GET, [Lit ''sessions'', Arg], ''chat.get_session''),
      (PATCH, [Lit ''sessions'', Arg], ''chat.update_session''),
      (DELETE, [Lit ''sessions'', Arg], ''chat.delete_session''),
      (GET, [Lit ''sessions'', Arg, Lit ''messages''], ''chat.list_messages''),
      (GET, [Lit ''sessions'', Arg, Lit ''stream'', Lit ''status''], ''chat.stream_status''),
      (GET, [Lit ''sessions'', Arg, Lit ''stream''], ''chat.stream_resume''),
      (POST, [Lit ''sessions'', Arg, Lit ''attachments''], ''chat.upload_attachment''),
      (GET, [Lit ''sessions'', Arg, Lit ''attachments''], ''chat.list_attachments''),
      (DELETE, [Lit ''attachments'', Arg], ''chat.delete_attachment''),
      (GET, [Lit ''tools'', Lit ''catalog''], ''chat.get_tool_catalog''),
      (GET, [Lit ''tools'', Lit ''available''], ''chat.get_available_tools''),
      (GET, [Lit ''sessions'', Arg, Lit ''tool-policy''], ''chat.get_session_tool_policy''),
      (PATCH, [Lit ''sessions'', Arg, Lit ''tool-policy''], ''chat.patch_session_tool_policy''),
      (GET, [Lit ''pii-defaults''], ''chat.get_pii_defaults''),
      (GET, [Lit ''sessions'', Arg, Lit ''pii-policy''], ''chat.get_session_pii_policy''),
      (PATCH, [Lit ''sessions'', Arg, Lit ''pii-policy''], ''chat.patch_session_pii_policy''),
      (DELETE, [Lit ''sessions'', Arg, Lit ''pii-policy''], ''chat.delete_session_pii_policy'')]"

definition logs_routes :: "route list" where
  "logs_routes =
     [(GET, [Lit ''labels''], ''logs.list_labels''),
      (GET, [Lit ''label'', Arg, Lit ''values''], ''logs.list_label_values''),
      (GET, [Lit ''query_range''], ''logs.query_range'')]"

definition i18n_routes :: "route list" where
  "i18n_routes =
     [(GET, [Lit ''languages''], ''i18n.list_languages''),
      (GET, [Arg, Arg], ''i18n.get_bundle'')]"

definition node_files_routes :: "route list" where
  "node_files_routes =
     [(GET, [Lit ''models'', Arg, Lit ''manifest''], ''node_files.model_manifest''),
      (GET, [Lit ''models'', Arg, Lit ''blob'', Arg], ''node_files.model_blob''),
      (GET, [Lit ''images'', Lit ''save''], ''node_files.image_save'')]"

text \<open>The application: the routers with their prefixes, in the order they are mounted.\<close>

definition app_before :: "(string list \<times> route list) list" where
  "app_before =
     [([], monitoring_routes),
      ([], account_routes),
      ([], docs_routes),
      ([], bootstrap_routes),
      ([''admin'', ''containers''], containers_routes),
      ([''admin'', ''dashboard''], dashboard_routes),
      ([''admin'', ''hardware''], hardware_routes),
      ([''admin'', ''images''], images_routes),
      ([''admin'', ''stacks''], stacks_routes),
      ([''admin'', ''networks''], networks_routes),
      ([''admin'', ''root-mode''], root_mode_routes),
      ([''admin'', ''audit''], audit_routes),
      ([''admin'', ''users''], preferences_routes),
      ([''admin'', ''users''], admin_users_routes),
      ([''admin'', ''system''], system_routes),
      ([''admin'', ''tls''], tls_routes),
      ([''admin''], services_routes),
      ([''admin'', ''scheduler''], scheduler_routes),
      ([''admin'', ''groups''], groups_routes),
      ([''admin'', ''auth-providers''], auth_providers_routes),
      ([''admin'', ''pii''], pii_routes)]"

definition app_after :: "(string list \<times> route list) list" where
  "app_after =
     [([''admin'', ''chat''], admin_chat_routes),
      ([''admin'', ''mcp''], mcp_routes),
      ([''admin'', ''skills''], skills_routes),
      ([''admin'', ''observability''], observability_routes),
      ([''llm'', ''providers''], providers_routes),
      ([''llm'', ''models''], models_routes),
      ([''llm'', ''runtimes''], runtimes_routes),
      ([''llm'', ''jobs''], llm_jobs_routes),
      ([''llm'', ''search''], search_routes),
      ([''llm'', ''settings''], llm_settings_routes),
      ([''llm'', ''graph''], graph_routes),
      ([''chat''], chat_routes),
      ([''logs''], logs_routes),
      ([''i18n''], i18n_routes),
      ([''node-files''], node_files_routes)]"

text \<open>One of two routers serves the knowledge base.\<close>

definition app :: "bool \<Rightarrow> (string list \<times> route list) list" where
  "app rag_enabled =
     app_before @ [([''admin'', ''rag''], if rag_enabled then rag_routes else rag_lite_routes)] @ app_after"

definition mounted :: "string list \<times> route list \<Rightarrow> route list" where
  "mounted m = map (\<lambda>(v, p, h). (v, map Lit (fst m) @ p, h)) (snd m)"

definition all_routes :: "bool \<Rightarrow> route list" where
  "all_routes rag_enabled = concat (map mounted (app rag_enabled))"

subsection \<open>Dispatch\<close>

fun fits :: "piece list \<Rightarrow> string list \<Rightarrow> bool" where
  "fits [] [] = True"
| "fits (Lit a # ps) (s # ss) = (a = s \<and> fits ps ss)"
| "fits (Arg # ps) (s # ss) = (s \<noteq> [] \<and> fits ps ss)"
| "fits _ _ = False"

fun route_in :: "route list \<Rightarrow> verb \<Rightarrow> string list \<Rightarrow> string option" where
  "route_in [] v ss = None"
| "route_in ((w, p, h) # rs) v ss = (if w = v \<and> fits p ss then Some h else route_in rs v ss)"

definition dispatch :: "bool \<Rightarrow> verb \<Rightarrow> string list \<Rightarrow> string option" where
  "dispatch rag_enabled v ss = route_in (all_routes rag_enabled) v ss"

subsection \<open>Paths with identifiers left open\<close>

text \<open>
  A piece of the path of a request: fixed text, an identifier as it is, or one that is encoded.
  The identifiers of a path are filled in from a list.
\<close>

datatype call_piece = Fixed string | Raw | Enc

fun fill :: "call_piece list \<Rightarrow> string list \<Rightarrow> string list option" where
  "fill [] [] = Some []"
| "fill (Fixed a # cs) xs = map_option (\<lambda>ss. a # ss) (fill cs xs)"
| "fill (_ # cs) (x # xs) = map_option (\<lambda>ss. x # ss) (fill cs xs)"
| "fill _ _ = None"

text \<open>Whether a route fits some of the paths, and whether it fits all of them.\<close>

fun may_fit :: "piece list \<Rightarrow> call_piece list \<Rightarrow> bool" where
  "may_fit [] [] = True"
| "may_fit (Lit a # ps) (Fixed b # cs) = (a = b \<and> may_fit ps cs)"
| "may_fit (Lit a # ps) (_ # cs) = (a \<noteq> [] \<and> may_fit ps cs)"
| "may_fit (Arg # ps) (Fixed b # cs) = (b \<noteq> [] \<and> may_fit ps cs)"
| "may_fit (Arg # ps) (_ # cs) = may_fit ps cs"
| "may_fit _ _ = False"

fun must_fit :: "piece list \<Rightarrow> call_piece list \<Rightarrow> bool" where
  "must_fit [] [] = True"
| "must_fit (Lit a # ps) (Fixed b # cs) = (a = b \<and> must_fit ps cs)"
| "must_fit (Arg # ps) (Fixed b # cs) = (b \<noteq> [] \<and> must_fit ps cs)"
| "must_fit (Arg # ps) (_ # cs) = must_fit ps cs"
| "must_fit _ _ = False"

text \<open>The handler that serves a request whatever the identifiers are, if there is one.\<close>

fun sure_route :: "route list \<Rightarrow> verb \<Rightarrow> call_piece list \<Rightarrow> string option" where
  "sure_route [] v cs = None"
| "sure_route ((w, p, h) # rs) v cs =
     (if w = v \<and> may_fit p cs then (if must_fit p cs then Some h else None) else sure_route rs v cs)"

lemma fits_may: "fill cs xs = Some ss \<Longrightarrow> \<forall>x \<in> set xs. x \<noteq> [] \<Longrightarrow> fits p ss \<Longrightarrow> may_fit p cs"
proof (induction cs arbitrary: xs p ss)
  case Nil
  then show ?case by (cases xs; cases p) (auto elim: fits.elims)
next
  case (Cons c cs)
  then show ?case by (cases c; cases xs; cases p rule: list.exhaust; cases "hd p") auto
qed

lemma must_fits: "fill cs xs = Some ss \<Longrightarrow> \<forall>x \<in> set xs. x \<noteq> [] \<Longrightarrow> must_fit p cs \<Longrightarrow> fits p ss"
proof (induction cs arbitrary: xs p ss)
  case Nil
  then show ?case by (cases xs; cases p) (auto elim: must_fit.elims)
next
  case (Cons c cs)
  then show ?case by (cases c; cases xs; cases p rule: list.exhaust; cases "hd p") auto
qed

lemma sure_route_in:
  assumes "fill cs xs = Some ss" "\<forall>x \<in> set xs. x \<noteq> []"
  shows "sure_route rs v cs = Some h \<Longrightarrow> route_in rs v ss = Some h"
proof (induction rs)
  case (Cons r rs)
  obtain w p k where r: "r = (w, p, k)" by (cases r)
  show ?case
  proof (cases "w = v \<and> may_fit p cs")
    case True
    with Cons.prems r have "must_fit p cs" "k = h" by (simp_all split: if_splits)
    with True r show ?thesis using must_fits [OF assms] by simp
  next
    case False
    then have "\<not> (w = v \<and> fits p ss)" using fits_may [OF assms] by blast
    moreover have "route_in rs v ss = Some h" using False Cons r by auto
    ultimately show ?thesis using r by auto
  qed
qed simp

text \<open>Routers whose prefix differs from the beginning of a path can be skipped.\<close>

fun differs :: "string list \<Rightarrow> call_piece list \<Rightarrow> bool" where
  "differs (a # as) (Fixed b # cs) = (a \<noteq> b \<or> differs as cs)"
| "differs (a # as) (_ # cs) = differs as cs"
| "differs _ _ = False"

lemma differs_may: "differs pre cs \<Longrightarrow> \<not> may_fit (map Lit pre @ p) (cs @ ds)"
  by (induction pre cs rule: differs.induct) auto

lemma sure_route_skip:
  "\<forall>r \<in> set xs. \<not> may_fit (fst (snd r)) cs \<Longrightarrow> sure_route (xs @ ys) v cs = sure_route ys v cs"
  by (induction xs) auto

lemma sure_route_cong:
  "sure_route ys v cs = sure_route zs v cs \<Longrightarrow> sure_route (xs @ ys) v cs = sure_route (xs @ zs) v cs"
  by (induction xs) auto

definition relevant :: "bool \<Rightarrow> call_piece list \<Rightarrow> route list" where
  "relevant b base = concat (map mounted (filter (\<lambda>m. \<not> differs (fst m) base) (app b)))"

lemma sure_relevant: "sure_route (relevant b base) v (base @ cs) = sure_route (all_routes b) v (base @ cs)"
proof -
  have "sure_route (concat (map mounted (filter (\<lambda>m. \<not> differs (fst m) base) ms))) v (base @ cs) =
      sure_route (concat (map mounted ms)) v (base @ cs)" for ms
  proof (induction ms)
    case (Cons m ms)
    show ?case
    proof (cases "differs (fst m) base")
      case True
      then have "\<forall>r \<in> set (mounted m). \<not> may_fit (fst (snd r)) (base @ cs)"
        using differs_may by (auto simp: mounted_def)
      from sure_route_skip [OF this] True Cons.IH show ?thesis by simp
    next
      case False
      then have "filter (\<lambda>m. \<not> differs (fst m) base) (m # ms) = m # filter (\<lambda>m. \<not> differs (fst m) base) ms"
        by simp
      then show ?thesis by (simp only: list.map concat.simps sure_route_cong [OF Cons.IH])
    qed
  qed simp
  then show ?thesis by (simp add: relevant_def all_routes_def)
qed

subsection \<open>Shadowed routes\<close>

text \<open>A route covers another when every path of the other is one of its own.\<close>

fun covers :: "piece list \<Rightarrow> piece list \<Rightarrow> bool" where
  "covers [] [] = True"
| "covers (Arg # ps) (Lit a # qs) = (a \<noteq> [] \<and> covers ps qs)"
| "covers (Arg # ps) (Arg # qs) = covers ps qs"
| "covers (Lit a # ps) (Lit b # qs) = (a = b \<and> covers ps qs)"
| "covers _ _ = False"

lemma covers_fits: "covers p q \<Longrightarrow> fits q ss \<Longrightarrow> fits p ss"
  by (induction p q arbitrary: ss rule: covers.induct) (auto elim: fits.elims)

text \<open>The routes that some earlier route of the same method does not cover.\<close>

fun live :: "route list \<Rightarrow> route list \<Rightarrow> route list" where
  "live seen [] = []"
| "live seen ((v, p, h) # rs) =
     (if \<exists>r \<in> set seen. fst r = v \<and> covers (fst (snd r)) p then live seen rs
      else (v, p, h) # live ((v, p, h) # seen) rs)"

lemma live_sound:
  "\<forall>r \<in> set seen. \<not> (fst r = v \<and> fits (fst (snd r)) ss) \<Longrightarrow>
   route_in (live seen rs) v ss = route_in rs v ss"
proof (induction seen rs rule: live.induct)
  case (2 seen w p h rs)
  show ?case
  proof (cases "\<exists>r \<in> set seen. fst r = w \<and> covers (fst (snd r)) p")
    case True
    then have "\<not> (w = v \<and> fits p ss)" using 2(3) covers_fits by blast
    with True 2 show ?thesis by auto
  next
    case False
    with 2 show ?thesis by auto
  qed
qed simp

lemma route_in_handler: "route_in rs v ss = Some h \<Longrightarrow> h \<in> (snd \<circ> snd) ` set rs"
  by (induction rs v ss rule: route_in.induct) (auto split: if_splits)

text \<open>No request reaches a handler of shadowed routes only.\<close>

lemma shadowed_unreached:
  assumes "h \<notin> (snd \<circ> snd) ` set (live [] rs)"
  shows "route_in rs v ss \<noteq> Some h"
  using assms live_sound [of "[]" v ss rs] route_in_handler by force

text \<open>A handler is reached from a list of lists only through one of them.\<close>

lemma route_in_append:
  "route_in (xs @ ys) v ss = (case route_in xs v ss of None \<Rightarrow> route_in ys v ss | Some h \<Rightarrow> Some h)"
  by (induction xs) auto

lemma route_in_concat: "route_in (concat rss) v ss = Some h \<Longrightarrow> \<exists>rs \<in> set rss. route_in rs v ss = Some h"
  by (induction rss) (auto simp: route_in_append split: option.splits)

lemma fits_mounted: "fits (map Lit pre @ p) ss = (take (length pre) ss = pre \<and> fits p (drop (length pre) ss))"
proof (induction pre arbitrary: ss)
  case (Cons a pre)
  then show ?case by (cases ss) auto
qed simp

lemma route_in_mounted:
  "route_in (mounted m) v ss =
     (if take (length (fst m)) ss = fst m then route_in (snd m) v (drop (length (fst m)) ss) else None)"
proof -
  have "route_in (map (\<lambda>(v, p, h). (v, map Lit pre @ p, h)) rs) v ss =
      (if take (length pre) ss = pre then route_in rs v (drop (length pre) ss) else None)" for pre rs
    by (induction rs) (auto simp: fits_mounted)
  then show ?thesis by (simp add: mounted_def)
qed

text \<open>The handlers that some request can reach are those of routes which are not shadowed in their router.\<close>

lemma dispatch_live:
  assumes "dispatch b v ss = Some h"
  shows "\<exists>m \<in> set (app b). h \<in> (snd \<circ> snd) ` set (live [] (snd m))"
proof -
  obtain m where m: "m \<in> set (app b)" "route_in (mounted m) v ss = Some h"
    using assms route_in_concat by (fastforce simp: dispatch_def all_routes_def)
  then have "route_in (snd m) v (drop (length (fst m)) ss) = Some h"
    by (simp add: route_in_mounted split: if_splits)
  then have "h \<in> (snd \<circ> snd) ` set (live [] (snd m))" using shadowed_unreached by blast
  with m show ?thesis by blast
qed

definition reaches :: "string \<Rightarrow> string list \<times> route list \<Rightarrow> bool" where
  "reaches h m = list_ex (\<lambda>r. snd (snd r) = h) (live [] (snd m))"

lemma dispatch_reaches: "dispatch b v ss = Some h \<Longrightarrow> list_ex (reaches h) (app b)"
proof -
  assume "dispatch b v ss = Some h"
  then obtain m where "m \<in> set (app b)" "h \<in> (snd \<circ> snd) ` set (live [] (snd m))"
    using dispatch_live by blast
  then show ?thesis by (auto simp: reaches_def list_ex_iff intro!: bexI [of _ m])
qed

text \<open>A path of which the beginning is known is tried on the routers that can have it only.\<close>

lemma differs_take: "differs a (map Fixed pre) \<Longrightarrow> take (length a) (pre @ ss) \<noteq> a"
proof (induction a arbitrary: pre)
  case (Cons x a)
  then show ?case by (cases pre) auto
qed simp

lemma route_relevant: "route_in (relevant b (map Fixed pre)) v (pre @ ss) = dispatch b v (pre @ ss)"
proof -
  have "route_in (concat (map mounted (filter (\<lambda>m. \<not> differs (fst m) (map Fixed pre)) ms))) v (pre @ ss) =
      route_in (concat (map mounted ms)) v (pre @ ss)" for ms
  proof (induction ms)
    case (Cons m ms)
    then show ?case
      using differs_take [of "fst m" pre ss]
      by (cases "differs (fst m) (map Fixed pre)")
        (simp_all add: route_in_append route_in_mounted del: take_append drop_append split: option.split)
  qed simp
  then show ?thesis by (simp add: relevant_def dispatch_def all_routes_def)
qed

lemmas dispatch_relevant = route_relevant [symmetric, THEN trans]

end
