(* ===== verification/Api_Calls.thy ===== *)
theory Api_Calls
  imports Api_Requests Api_Routes
begin

text \<open>
  Every request of the wrappers under \<^verbatim>\<open>api\<close>: its method and its path, with the identifiers
  that go into it as they are or encoded, and the handler of the backend it is meant for. The
  parts of a path after a question mark are those of \<^verbatim>\<open>Api_Requests\<close>. The requests for signing
  in go to routers of a library and are left out; the chat is taken at its default address.
\<close>

subsection \<open>The requests\<close>












































subsection \<open>The handlers they are meant for\<close>













































subsection \<open>From identifiers to pieces\<close>

text \<open>The text of a path, and the pieces the server makes of it: it decodes the path first.\<close>

fun call_path :: "call_piece list \<Rightarrow> string list \<Rightarrow> string" where
  "call_path (Fixed a # cs) xs = CHR ''/'' # a @ call_path cs xs"
| "call_path (Raw # cs) (x # xs) = CHR ''/'' # x @ call_path cs xs"
| "call_path (Enc # cs) (x # xs) = CHR ''/'' # encodeURIComponent x @ call_path cs xs"
| "call_path _ _ = []"

definition server_pieces :: "string \<Rightarrow> string list" where
  "server_pieces url = tl (split_on CHR ''/'' (percent_decode (takeWhile (\<lambda>c. c \<noteq> CHR ''?'') url)))"

text \<open>
  Identifiers that can go into a path: none is empty, one that is not encoded has plain
  characters only, as those the server makes up have, and one that is encoded has no slash.
\<close>

fun good_ids :: "call_piece list \<Rightarrow> string list \<Rightarrow> bool" where
  "good_ids [] [] = True"
| "good_ids (Fixed a # cs) xs = good_ids cs xs"
| "good_ids (Raw # cs) (x # xs) = (x \<noteq> [] \<and> list_all uri_unreserved x \<and> good_ids cs xs)"
| "good_ids (Enc # cs) (x # xs) = (x \<noteq> [] \<and> CHR ''/'' \<notin> set x \<and> good_ids cs xs)"
| "good_ids _ _ = False"

fun plain_call :: "call_piece list \<Rightarrow> bool" where
  "plain_call [] = True"
| "plain_call (Fixed a # cs) = (list_all uri_unreserved a \<and> plain_call cs)"
| "plain_call (_ # cs) = plain_call cs"

subsection \<open>Lemmas\<close>

lemma plain_chars:
  assumes "list_all uri_unreserved a"
  shows "CHR ''/'' \<notin> set a" "CHR ''?'' \<notin> set a" "CHR ''%'' \<notin> set a"
proof -
  have "\<not> uri_unreserved CHR ''%''" by code_simp
  with assms reserved_chars(1,2) show "CHR ''/'' \<notin> set a" "CHR ''?'' \<notin> set a" "CHR ''%'' \<notin> set a"
    by (auto simp: list_all_iff)
qed

definition joined :: "string list \<Rightarrow> string" where
  "joined ss = concat (map (\<lambda>s. CHR ''/'' # s) ss)"

lemma filled_clean:
  "good_ids cs xs \<Longrightarrow> plain_call cs \<Longrightarrow>
   \<exists>ss. fill cs xs = Some ss \<and> (\<forall>s \<in> set ss. CHR ''/'' \<notin> set s)
     \<and> percent_decode (call_path cs xs) = joined ss \<and> CHR ''?'' \<notin> set (call_path cs xs)"
proof (induction cs xs rule: good_ids.induct)
  case 1
  then show ?case by (simp add: joined_def)
next
  case (2 a cs xs)
  then obtain ss where ss: "fill cs xs = Some ss" "\<forall>s \<in> set ss. CHR ''/'' \<notin> set s"
    "percent_decode (call_path cs xs) = joined ss" "CHR ''?'' \<notin> set (call_path cs xs)" by auto
  have a: "list_all uri_unreserved a" using 2 by simp
  then show ?case using ss plain_chars [OF a] percent_decode_plain [of a]
    by (auto simp: joined_def)
next
  case (3 cs x xs)
  then obtain ss where ss: "fill cs xs = Some ss" "\<forall>s \<in> set ss. CHR ''/'' \<notin> set s"
    "percent_decode (call_path cs xs) = joined ss" "CHR ''?'' \<notin> set (call_path cs xs)" by auto
  have a: "list_all uri_unreserved x" using 3 by simp
  then show ?case using ss plain_chars [OF a] percent_decode_plain [of x]
    by (auto simp: joined_def)
next
  case (4 cs x xs)
  then obtain ss where ss: "fill cs xs = Some ss" "\<forall>s \<in> set ss. CHR ''/'' \<notin> set s"
    "percent_decode (call_path cs xs) = joined ss" "CHR ''?'' \<notin> set (call_path cs xs)" by auto
  then show ?case using 4 percent_decode_encode [of x] by (auto simp: joined_def)
qed auto

lemma split_joined:
  "\<forall>s \<in> set ss. CHR ''/'' \<notin> set s \<Longrightarrow> split_on CHR ''/'' (joined ss) = [] # ss"
proof (induction ss)
  case (Cons s ss)
  then have ih: "split_on CHR ''/'' (joined ss) = [] # ss" by simp
  have "split_on CHR ''/'' (s @ joined ss) = s # ss"
  proof (cases ss)
    case Nil
    then show ?thesis using Cons.prems by (simp add: joined_def)
  next
    case (Cons t ts)
    then have "joined ss = CHR ''/'' # t @ joined ts" by (simp add: joined_def)
    moreover from this ih have "split_on CHR ''/'' (t @ joined ts) = ss" by simp
    ultimately show ?thesis using Cons.prems \<open>\<forall>s \<in> set (s # ss). CHR ''/'' \<notin> set s\<close>
      by (simp add: split_on_line)
  qed
  then show ?case by (simp add: joined_def)
qed (simp add: joined_def)

text \<open>The server gets the pieces with the identifiers, whatever query follows the path.\<close>

lemma server_pieces_filled:
  assumes "good_ids cs xs" "plain_call cs" "q = [] \<or> hd q = CHR ''?''"
  shows "\<exists>ss. fill cs xs = Some ss \<and> server_pieces (call_path cs xs @ q) = ss"
proof -
  obtain ss where ss: "fill cs xs = Some ss" "\<forall>s \<in> set ss. CHR ''/'' \<notin> set s"
    "percent_decode (call_path cs xs) = joined ss" "CHR ''?'' \<notin> set (call_path cs xs)"
    using filled_clean [OF assms(1,2)] by blast
  have "takeWhile (\<lambda>c. c \<noteq> CHR ''?'') q = []" using assms(3) by (cases q) auto
  then have "takeWhile (\<lambda>c. c \<noteq> CHR ''?'') (call_path cs xs @ q) = call_path cs xs"
    using ss(4) by (subst takeWhile_append2) auto
  then have "server_pieces (call_path cs xs @ q) = ss"
    using ss split_joined by (simp add: server_pieces_def)
  with ss show ?thesis by blast
qed








text \<open>The two modes of the knowledge base differ in one router only.\<close>

lemma relevant_modes: "differs [''admin'', ''rag''] base \<Longrightarrow> relevant b base = relevant True base"
  by (simp add: relevant_def app_def)


subsection \<open>The closed checks\<close>














































subsection \<open>Properties\<close>





theorem exec_is_lifecycle:
  assumes "good_ids [Raw] [k]"
  shows "dispatch b POST (server_pieces (call_path
      [Fixed ''admin'', Fixed ''containers'', Raw, Fixed ''exec''] [k])) = Some ''containers.container_lifecycle''"
proof -
  let ?c = "[Fixed ''admin'', Fixed ''containers'', Raw, Fixed ''exec'']"
  have "good_ids ?c [k]" using assms by simp
  moreover have "plain_call ?c" by code_simp
  ultimately obtain ss where ss: "fill ?c [k] = Some ss" "server_pieces (call_path ?c [k] @ []) = ss"
    using server_pieces_filled [of ?c "[k]" "[]"] by blast
  have "sure_route (relevant True [Fixed ''admin'', Fixed ''containers'']) POST ?c
      = Some ''containers.container_lifecycle''" by code_simp
  moreover have "differs [''admin'', ''rag''] [Fixed ''admin'', Fixed ''containers'']" by code_simp
  ultimately have "sure_route (all_routes b) POST ?c = Some ''containers.container_lifecycle''"
    using sure_relevant [of b "[Fixed ''admin'', Fixed ''containers'']" POST "[Raw, Fixed ''exec'']"]
      relevant_modes [of "[Fixed ''admin'', Fixed ''containers'']" b] by simp
  then show ?thesis
    using sure_route_in [OF ss(1)] ss(2) assms by (simp add: dispatch_def)
qed

text \<open>The three other requests of \<open>caught\<close> go astray for one identifier each.\<close>

lemma caught_words:
  "dispatch b GET ([''admin'', ''auth-providers''] @ [''public'']) = Some ''auth_providers.list_enabled_providers''"
  "dispatch b GET ([''admin'', ''skills''] @ [''completions'']) = Some ''skills.completions''"
  "dispatch b GET ([''admin'', ''observability''] @ [''requests'', ''by-trace'', ''tool-calls''])
     = Some ''observability.get_request_by_trace''"
  by (rule dispatch_relevant; cases b; simp only:; code_simp)+

text \<open>
  With a slash in the name of its model the request for a history of prices reaches no handler.
\<close>

lemma slashed_history_unrouted:
  "dispatch b GET ([''admin'', ''observability''] @ [''pricing'', ''hub'', ''org'', ''model'', ''history'']) = None"
  by (rule dispatch_relevant; cases b; simp only:; code_simp)

end
