(* ===== verification/Node_Profiles.thy ===== *)
theory Node_Profiles
  imports Prelude "HOL-Library.AList"
begin

text \<open>
  Node profiles: the dialog \<^verbatim>\<open>pages/admin/nodes/NodeProfileFormDialog.tsx\<close>, the page
  \<^verbatim>\<open>NodeProfilesPage.tsx\<close>, and what the backend does with their requests
  (\<^verbatim>\<open>web/api/admin/system/views.py\<close>, \<^verbatim>\<open>services/nodes/service.py\<close>,
  \<^verbatim>\<open>db/dao/node_control_dao.py\<close>). A profile is an identifier with its columns; times, the
  constraints of the table and the commands sent to nodes are left out. The engine's JSON functions and the reader of
  identifiers of the server are parameters.
\<close>

subsection \<open>Profiles\<close>

definition CONFIG_SECTIONS :: "(string \<times> string) list" where
  "CONFIG_SECTIONS =
     [(''runtime_config'', ''Runtime''), (''gpu_config'', ''GPU''), (''storage_config'', ''Storage''),
      (''network_config'', ''Network''), (''logging_config'', ''Logging''),
      (''security_config'', ''Security''), (''update_config'', ''Updates'')]"

definition section_keys :: "string list" where
  "section_keys = map fst CONFIG_SECTIONS"

definition profile_fields :: "string list" where
  "profile_fields = [''name'', ''description'', ''is_default''] @ section_keys"

record profile =
  np_id :: string
  np_cols :: "(string \<times> json) list"

definition column :: "profile \<Rightarrow> string \<Rightarrow> json option" where
  "column p k = map_of (np_cols p) k"

definition is_default :: "profile \<Rightarrow> bool" where
  "is_default p = (column p ''is_default'' = Some (JBool True))"

definition set_column :: "string \<Rightarrow> json \<Rightarrow> profile \<Rightarrow> profile" where
  "set_column k v p = p\<lparr>np_cols := AList.update k v (np_cols p)\<rparr>"

record profile_db =
  db_profiles :: "profile list"
  db_nodes :: "(string \<times> string option) list"

subsection \<open>The store\<close>

definition clear_default :: "profile list \<Rightarrow> profile list" where
  "clear_default ps = map (\<lambda>p. if is_default p then set_column ''is_default'' (JBool False) p else p) ps"

text \<open>\<open>x or {}\<close> for a configuration.\<close>

definition or_empty :: "json option \<Rightarrow> json" where
  "or_empty v = (case v of Some (JObject (e # es)) \<Rightarrow> JObject (e # es) | _ \<Rightarrow> JObject [])"

definition dao_create :: "string \<Rightarrow> (string \<times> json) list \<Rightarrow> profile_db \<Rightarrow> profile_db" where
  "dao_create new args db =
     (let ps = (if map_of args ''is_default'' = Some (JBool True) then clear_default (db_profiles db)
                else db_profiles db);
          given = (\<lambda>k. case map_of args k of None \<Rightarrow> JNull | Some v \<Rightarrow> v)
      in db\<lparr>db_profiles := ps @ [\<lparr>np_id = new,
           np_cols = map (\<lambda>k. (k, given k)) [''name'', ''description'', ''is_default'']
             @ map (\<lambda>k. (k, or_empty (map_of args k))) section_keys\<rparr>]\<rparr>)"

definition set_columns :: "(string \<times> json) list \<Rightarrow> profile \<Rightarrow> profile" where
  "set_columns updates p = fold (\<lambda>(k, v) p. if k \<in> set profile_fields then set_column k v p else p) updates p"

definition dao_update :: "string \<Rightarrow> (string \<times> json) list \<Rightarrow> profile_db \<Rightarrow> profile_db" where
  "dao_update pid updates db =
     (let ps = (if json_truthy (map_of updates ''is_default'') then clear_default (db_profiles db)
                else db_profiles db)
      in db\<lparr>db_profiles := map (\<lambda>p. if np_id p = pid then set_columns updates p else p) ps\<rparr>)"

definition has_profile :: "string \<Rightarrow> profile_db \<Rightarrow> bool" where
  "has_profile pid db = (pid \<in> np_id ` set (db_profiles db))"

definition dao_delete :: "string \<Rightarrow> profile_db \<Rightarrow> profile_db" where
  "dao_delete pid db =
     \<lparr>db_profiles = filter (\<lambda>p. np_id p \<noteq> pid) (db_profiles db),
      db_nodes = map (\<lambda>(n, q). (n, if q = Some pid then None else q)) (db_nodes db)\<rparr>"

definition dao_assign :: "string \<Rightarrow> string option \<Rightarrow> profile_db \<Rightarrow> profile_db" where
  "dao_assign node pid db =
     db\<lparr>db_nodes := map (\<lambda>(n, q). (n, if n = node then pid else q)) (db_nodes db)\<rparr>"

subsection \<open>The service\<close>

definition svc_create :: "string \<Rightarrow> (string \<times> json) list \<Rightarrow> profile_db \<Rightarrow> profile_db" where
  "svc_create new data db =
     dao_create new
       ([(''name'', JString (py_strip (case map_of data ''name'' of None \<Rightarrow> [] | Some v \<Rightarrow> js_text v))),
         (''description'', case map_of data ''description'' of None \<Rightarrow> JNull | Some v \<Rightarrow> v),
         (''is_default'', JBool (json_truthy (map_of data ''is_default'')))]
        @ filter (\<lambda>(k, v). k \<in> set section_keys) data) db"

definition svc_update :: "string \<Rightarrow> (string \<times> json) list \<Rightarrow> profile_db \<Rightarrow> profile_db option" where
  "svc_update pid data db = (if has_profile pid db then Some (dao_update pid data db) else None)"

definition svc_delete :: "string \<Rightarrow> profile_db \<Rightarrow> bool \<times> profile_db" where
  "svc_delete pid db = (if has_profile pid db then (True, dao_delete pid db) else (False, db))"

text \<open>Assigning raises an error when the node or the profile is missing.\<close>

definition svc_assign :: "string \<Rightarrow> string \<Rightarrow> profile_db \<Rightarrow> profile_db option" where
  "svc_assign node pid db =
     (if node \<notin> fst ` set (db_nodes db) then None
      else if \<not> has_profile pid db then None
      else Some (dao_assign node (Some pid) db))"

definition svc_unassign :: "string \<Rightarrow> profile_db \<Rightarrow> profile_db option" where
  "svc_unassign node db =
     (if node \<notin> fst ` set (db_nodes db) then None else Some (dao_assign node None db))"

subsection \<open>The views\<close>

datatype profile_error = Invalid_id | Invalid_body | Missing_object | Server_error

text \<open>A call with keywords fails for one that is no parameter, and for a parameter without one.\<close>

datatype type_error = Unexpected string | Missing_argument string

definition bind_keywords :: "string list \<Rightarrow> (string \<times> 'v) list \<Rightarrow> type_error + (string \<times> 'v) list" where
  "bind_keywords params args =
     (case find (\<lambda>a. fst a \<notin> set params) args of
        Some a \<Rightarrow> Inl (Unexpected (fst a))
      | None \<Rightarrow>
          (case find (\<lambda>k. k \<notin> fst ` set args) params of
             Some k \<Rightarrow> Inl (Missing_argument k)
           | None \<Rightarrow> Inr args))"

fun field_ok :: "bool \<Rightarrow> string \<Rightarrow> json option \<Rightarrow> bool" where
  "field_ok creating k None = (\<not> (creating \<and> k = ''name''))"
| "field_ok creating k (Some JNull) = (\<not> creating \<or> k = ''description'')"
| "field_ok creating k (Some (JString _)) = (k \<in> {''name'', ''description''})"
| "field_ok creating k (Some (JBool _)) = (k = ''is_default'')"
| "field_ok creating k (Some (JObject _)) = (k \<in> set section_keys)"
| "field_ok creating k (Some _) = False"

definition body_ok :: "bool \<Rightarrow> (string \<times> json) list \<Rightarrow> bool" where
  "body_ok creating body = (\<forall>k \<in> set profile_fields. field_ok creating k (map_of body k))"

text \<open>The fields of the request in the order of its class; only those set are dumped for an update.\<close>

definition dumped :: "(string \<times> json) list \<Rightarrow> (string \<times> json) list" where
  "dumped body = List.map_filter (\<lambda>k. map_option (Pair k) (map_of body k)) profile_fields"

definition body_field :: "(string \<times> json) list \<Rightarrow> string \<Rightarrow> json" where
  "body_field body k =
     (case map_of body k of
        Some v \<Rightarrow> v
      | None \<Rightarrow> if k = ''is_default'' then JBool False
          else if k \<in> set section_keys then JObject [] else JNull)"

definition data_argument :: "(string \<times> json) list \<Rightarrow> (string \<times> json) list" where
  "data_argument args = (case map_of args ''data'' of Some (JObject d) \<Rightarrow> d | _ \<Rightarrow> [])"

definition system_node_profile_create ::
  "string \<Rightarrow> (string \<times> json) list \<Rightarrow> profile_db \<Rightarrow> profile_error + profile_db" where
  "system_node_profile_create new body db =
     (if \<not> body_ok True body then Inl Invalid_body
      else (case bind_keywords [''data''] (map (\<lambda>k. (k, body_field body k)) profile_fields) of
              Inl _ \<Rightarrow> Inl Server_error
            | Inr args \<Rightarrow> Inr (svc_create new (data_argument args) db)))"

definition system_node_profile_update ::
  "(string \<Rightarrow> bool) \<Rightarrow> string \<Rightarrow> (string \<times> json) list \<Rightarrow> profile_db \<Rightarrow> profile_error + profile_db" where
  "system_node_profile_update is_uuid pid body db =
     (if \<not> body_ok False body then Inl Invalid_body
      else if \<not> is_uuid pid then Inl Invalid_id
      else (case bind_keywords [''profile_id'', ''data''] ((''profile_id'', JString pid) # dumped body) of
              Inl _ \<Rightarrow> Inl Server_error
            | Inr args \<Rightarrow>
                (case svc_update pid (data_argument args) db of
                   None \<Rightarrow> Inl Server_error
                 | Some db' \<Rightarrow> Inr db')))"

definition system_node_profile_delete ::
  "(string \<Rightarrow> bool) \<Rightarrow> string \<Rightarrow> profile_db \<Rightarrow> profile_error + profile_db" where
  "system_node_profile_delete is_uuid pid db =
     (if \<not> is_uuid pid then Inl Invalid_id else Inr (snd (svc_delete pid db)))"

definition system_node_profile_assign ::
  "(string \<Rightarrow> bool) \<Rightarrow> string \<Rightarrow> string \<Rightarrow> profile_db \<Rightarrow> profile_error + profile_db" where
  "system_node_profile_assign is_uuid node pid db =
     (if \<not> is_uuid node \<or> \<not> is_uuid pid then Inl Invalid_id
      else (case svc_assign node pid db of None \<Rightarrow> Inl Missing_object | Some db' \<Rightarrow> Inr db'))"

definition system_node_profile_unassign ::
  "(string \<Rightarrow> bool) \<Rightarrow> string \<Rightarrow> profile_db \<Rightarrow> profile_error + profile_db" where
  "system_node_profile_unassign is_uuid node db =
     (if \<not> is_uuid node then Inl Invalid_id
      else (case svc_unassign node db of None \<Rightarrow> Inl Missing_object | Some db' \<Rightarrow> Inr db'))"

datatype profile_request =
    Create_profile string "(string \<times> json) list"
  | Update_profile string "(string \<times> json) list"
  | Delete_profile string
  | Assign_profile string string
  | Unassign_profile string

fun answer :: "(string \<Rightarrow> bool) \<Rightarrow> profile_request \<Rightarrow> profile_db \<Rightarrow> profile_error + profile_db" where
  "answer is_uuid (Create_profile new body) db = system_node_profile_create new body db"
| "answer is_uuid (Update_profile pid body) db = system_node_profile_update is_uuid pid body db"
| "answer is_uuid (Delete_profile pid) db = system_node_profile_delete is_uuid pid db"
| "answer is_uuid (Assign_profile node pid) db = system_node_profile_assign is_uuid node pid db"
| "answer is_uuid (Unassign_profile node) db = system_node_profile_unassign is_uuid node db"

text \<open>The transaction of a request that fails is rolled back.\<close>

definition serve :: "(string \<Rightarrow> bool) \<Rightarrow> profile_request \<Rightarrow> profile_db \<Rightarrow> profile_db" where
  "serve is_uuid q db = (case answer is_uuid q db of Inl e \<Rightarrow> db | Inr db' \<Rightarrow> db')"

subsection \<open>The dialog\<close>

record profile_dialog =
  pd_name :: string
  pd_description :: string
  pd_isDefault :: bool
  pd_configTexts :: "(string \<times> string) list"
  pd_configErrors :: "string list"
  pd_activeTab :: nat
  pd_saving :: bool

definition section_text :: "(json \<Rightarrow> string) \<Rightarrow> json option \<Rightarrow> string" where
  "section_text json_stringify raw =
     (case raw of Some (JObject (e # es)) \<Rightarrow> json_stringify (JObject (e # es)) | _ \<Rightarrow> ''{}'')"

definition text_column :: "profile \<Rightarrow> string \<Rightarrow> string" where
  "text_column p k = (case column p k of Some (JString t) \<Rightarrow> t | _ \<Rightarrow> [])"

text \<open>The effect of opening, for a profile or for none.\<close>

definition open_effect ::
  "(json \<Rightarrow> string) \<Rightarrow> bool \<Rightarrow> profile option \<Rightarrow> profile_dialog \<Rightarrow> profile_dialog" where
  "open_effect json_stringify open prof d =
     (if \<not> open then d
      else (case prof of
              Some p \<Rightarrow>
                d\<lparr>pd_name := text_column p ''name'', pd_description := text_column p ''description'',
                  pd_isDefault := is_default p,
                  pd_configTexts := map (\<lambda>k. (k, section_text json_stringify (column p k))) section_keys,
                  pd_configErrors := [], pd_activeTab := 0\<rparr>
            | None \<Rightarrow>
                d\<lparr>pd_name := [], pd_description := [], pd_isDefault := False,
                  pd_configTexts := map (\<lambda>k. (k, ''{}'')) section_keys,
                  pd_configErrors := [], pd_activeTab := 0\<rparr>))"

definition edit_section :: "string \<Rightarrow> string \<Rightarrow> profile_dialog \<Rightarrow> profile_dialog" where
  "edit_section k v d = d\<lparr>pd_configTexts := AList.update k v (pd_configTexts d)\<rparr>"

definition config_text :: "profile_dialog \<Rightarrow> string \<Rightarrow> string" where
  "config_text d k = (case map_of (pd_configTexts d) k of Some (c # cs) \<Rightarrow> c # cs | _ \<Rightarrow> ''{}'')"

definition validate :: "(string \<Rightarrow> json option) \<Rightarrow> profile_dialog \<Rightarrow> bool \<times> profile_dialog" where
  "validate json_parse d =
     (let errors = filter (\<lambda>k. json_parse (config_text d k) = None) section_keys
      in (errors = [] \<and> trim (pd_name d) \<noteq> [], d\<lparr>pd_configErrors := errors\<rparr>))"

definition profile_payload :: "(string \<Rightarrow> json option) \<Rightarrow> profile_dialog \<Rightarrow> (string \<times> json) list" where
  "profile_payload json_parse d =
     [(''name'', JString (trim (pd_name d))),
      (''description'', let t = trim (pd_description d) in if t = [] then JNull else JString t),
      (''is_default'', JBool (pd_isDefault d))]
     @ map (\<lambda>k. (k, the (json_parse (config_text d k)))) section_keys"

definition handleSubmit ::
  "(string \<Rightarrow> json option) \<Rightarrow> profile_dialog \<Rightarrow> profile_dialog \<times> (string \<times> json) list option" where
  "handleSubmit json_parse d =
     (let (ok, d') = validate json_parse d
      in if ok then (d'\<lparr>pd_saving := True\<rparr>, Some (profile_payload json_parse d')) else (d', None))"

subsection \<open>The page\<close>

record profiles_page =
  pp_data :: "profile list"
  pp_formOpen :: bool
  pp_editing :: "profile option"
  pp_deleteTarget :: "profile option"
  pp_deleting :: bool
  pp_error :: "string option"

definition openCreate :: "profiles_page \<Rightarrow> profiles_page" where
  "openCreate p = p\<lparr>pp_editing := None, pp_formOpen := True\<rparr>"

definition openEdit :: "profile \<Rightarrow> profiles_page \<Rightarrow> profiles_page" where
  "openEdit x p = p\<lparr>pp_editing := Some x, pp_formOpen := True\<rparr>"

text \<open>The request of a save; \<open>new\<close> is the identifier the server makes up.\<close>

definition handleSave :: "string \<Rightarrow> (string \<times> json) list \<Rightarrow> profiles_page \<Rightarrow> profile_request" where
  "handleSave new payload p =
     (case pp_editing p of
        Some x \<Rightarrow> Update_profile (np_id x) payload
      | None \<Rightarrow> Create_profile new payload)"

definition save_answered :: "string option \<Rightarrow> profiles_page \<Rightarrow> profiles_page" where
  "save_answered failed p =
     (case failed of None \<Rightarrow> p\<lparr>pp_formOpen := False\<rparr> | Some m \<Rightarrow> p\<lparr>pp_error := Some m\<rparr>)"

definition handleDelete :: "profiles_page \<Rightarrow> profiles_page \<times> profile_request option" where
  "handleDelete p =
     (case pp_deleteTarget p of
        None \<Rightarrow> (p, None)
      | Some x \<Rightarrow> (p\<lparr>pp_deleting := True\<rparr>, Some (Delete_profile (np_id x))))"

definition delete_answered :: "string option \<Rightarrow> profiles_page \<Rightarrow> profiles_page" where
  "delete_answered failed p =
     (case failed of
        None \<Rightarrow> p\<lparr>pp_deleteTarget := None, pp_deleting := False\<rparr>
      | Some m \<Rightarrow> p\<lparr>pp_error := Some m, pp_deleting := False\<rparr>)"

subsection \<open>Lemmas\<close>

lemma column_set [simp]: "column (set_column k v p) j = (if j = k then Some v else column p j)"
  by (simp add: column_def set_column_def update_Some_unfold update_conv)

lemma np_id_set [simp]: "np_id (set_column k v p) = np_id p"
  by (simp add: set_column_def)

lemma np_id_sets [simp]: "np_id (set_columns us p) = np_id p"
proof -
  have "np_id (fold (\<lambda>(k, v) p. if k \<in> set profile_fields then set_column k v p else p) us p) = np_id p" for p
    by (induction us arbitrary: p) (auto split: prod.splits)
  then show ?thesis by (simp add: set_columns_def)
qed

lemma is_default_set: "k \<noteq> ''is_default'' \<Longrightarrow> is_default (set_column k v p) = is_default p"
  by (simp add: is_default_def)

lemma clear_default_none: "x \<in> set (clear_default ps) \<Longrightarrow> \<not> is_default x"
  by (auto simp: clear_default_def is_default_def)

lemma clear_default_ids [simp]: "map np_id (clear_default ps) = map np_id ps"
  by (simp add: clear_default_def)

text \<open>The view of a creation hands the service keywords it does not have, that of an update too.\<close>

lemma create_arguments:
  "bind_keywords [''data''] (map (\<lambda>k. (k, body_field body k)) profile_fields) = Inl (Unexpected ''name'')"
  by (simp add: bind_keywords_def profile_fields_def)

lemma update_arguments:
  "\<exists>e. bind_keywords [''profile_id'', ''data''] ((''profile_id'', JString pid) # dumped body) = Inl e"
proof -
  have "fst a \<in> set profile_fields" if "a \<in> set (dumped body)" for a
    using that by (auto simp: dumped_def set_map_filter)
  moreover have "''data'' \<notin> set profile_fields" by code_simp
  ultimately have "''data'' \<notin> fst ` set (dumped body)" by auto
  then show ?thesis by (auto simp: bind_keywords_def split: option.split)
qed

lemma trim_Nil [simp]: "trim [] = []"
  by (simp add: trim_def)

text \<open>Columns after an update, and two profiles with the same columns in the same order.\<close>

lemma column_sets:
  assumes "distinct (map fst us)"
  shows "column (set_columns us p) k =
    (if k \<in> set profile_fields then (case map_of us k of None \<Rightarrow> column p k | v \<Rightarrow> v) else column p k)"
  using assms
proof (induction us arbitrary: p)
  case Nil
  then show ?case by (simp add: set_columns_def)
next
  case (Cons u us)
  obtain j v where u: "u = (j, v)" by (cases u)
  have "set_columns (u # us) p = set_columns us (if j \<in> set profile_fields then set_column j v p else p)"
    by (simp add: set_columns_def u)
  moreover have "map_of us j = None" using Cons.prems u by (simp add: map_of_eq_None_iff)
  ultimately show ?case using Cons u by (auto split: option.split)
qed

lemma keys_sets:
  "set profile_fields \<subseteq> set (map fst (np_cols p)) \<Longrightarrow> map fst (np_cols (set_columns us p)) = map fst (np_cols p)"
proof -
  have "set profile_fields \<subseteq> set (map fst (np_cols p)) \<Longrightarrow>
    map fst (np_cols (fold (\<lambda>(k, v) p. if k \<in> set profile_fields then set_column k v p else p) us p))
      = map fst (np_cols p)" for p
  proof (induction us arbitrary: p)
    case (Cons u us)
    obtain j v where u: "u = (j, v)" by (cases u)
    have s: "map fst (np_cols (set_column j v p)) = map fst (np_cols p)" if "j \<in> set profile_fields"
      using that Cons.prems by (auto simp: set_column_def update_keys)
    show ?case
    proof (cases "j \<in> set profile_fields")
      case True
      with Cons.IH [of "set_column j v p"] Cons.prems s u show ?thesis by (simp del: set_map)
    next
      case False
      with Cons u show ?thesis by simp
    qed
  qed simp
  then show "set profile_fields \<subseteq> set (map fst (np_cols p)) \<Longrightarrow> ?thesis" by (simp add: set_columns_def)
qed

lemma alist_ext:
  "map fst xs = map fst ys \<Longrightarrow> distinct (map fst xs) \<Longrightarrow> map_of xs = map_of ys \<Longrightarrow> xs = ys"
proof (induction xs ys rule: list_induct2')
  case (4 x xs y ys)
  obtain k v w where xy: "x = (k, v)" "y = (k, w)" using 4 by (cases x; cases y) auto
  have "v = w" using fun_cong [OF 4(4), of k] xy by simp
  moreover have "map_of xs = map_of ys"
  proof
    fix j
    have "k \<notin> set (map fst xs)" "map fst xs = map fst ys" using 4(2,3) xy by auto
    then have "k \<notin> fst ` set xs" "k \<notin> fst ` set ys" by (metis set_map)+
    then have "map_of xs k = None" "map_of ys k = None" by (simp_all add: map_of_eq_None_iff)
    then show "map_of xs j = map_of ys j"
      using fun_cong [OF 4(4), of j] xy by (cases "j = k") auto
  qed
  ultimately show ?case using 4 xy by simp
qed auto

text \<open>A profile as the table holds it.\<close>

definition stored_profile :: "profile \<Rightarrow> bool" where
  "stored_profile p =
     (map fst (np_cols p) = profile_fields
      \<and> (\<exists>n. column p ''name'' = Some (JString n) \<and> trim n = n \<and> n \<noteq> [])
      \<and> (column p ''description'' = Some JNull
           \<or> (\<exists>t. column p ''description'' = Some (JString t) \<and> trim t = t \<and> t \<noteq> []))
      \<and> (\<exists>b. column p ''is_default'' = Some (JBool b))
      \<and> (\<forall>k \<in> set section_keys. \<exists>es. column p k = Some (JObject es)))"

definition one_default :: "profile list \<Rightarrow> bool" where
  "one_default ps = (length (filter is_default ps) \<le> 1)"

definition refs_ok :: "profile_db \<Rightarrow> bool" where
  "refs_ok db = (\<forall>(n, q) \<in> set (db_nodes db). \<forall>pid. q = Some pid \<longrightarrow> has_profile pid db)"

lemma fields_distinct: "distinct profile_fields"
  by code_simp

lemma payload_keys: "map fst (profile_payload json_parse d) = profile_fields"
  by (simp add: profile_payload_def profile_fields_def o_def)

lemma one_default_other:
  "one_default ps \<Longrightarrow> p \<in> set ps \<Longrightarrow> q \<in> set ps \<Longrightarrow> is_default p \<Longrightarrow> is_default q \<Longrightarrow> p = q"
proof -
  assume a: "one_default ps" "p \<in> set ps" "q \<in> set ps" "is_default p" "is_default q"
  then have "p \<in> set (filter is_default ps)" "q \<in> set (filter is_default ps)" by auto
  moreover have "filter is_default ps = [] \<or> (\<exists>x. filter is_default ps = [x])"
    using a(1) by (cases "filter is_default ps"; cases "tl (filter is_default ps)") (auto simp: one_default_def)
  ultimately show "p = q" by (auto simp del: set_filter)
qed

text \<open>The text of a section that was not edited is read back as its configuration.\<close>

lemma opened_section:
  assumes "k \<in> set section_keys" "column p k = Some (JObject es)"
    and "json_parse ''{}'' = Some (JObject [])"
    and "es \<noteq> [] \<Longrightarrow> json_stringify (JObject es) \<noteq> [] \<and> json_parse (json_stringify (JObject es)) = Some (JObject es)"
  shows "json_parse (config_text (open_effect json_stringify True (Some p) d) k) = Some (JObject es)"
proof -
  have "map_of (pd_configTexts (open_effect json_stringify True (Some p) d)) k
      = Some (section_text json_stringify (column p k))"
    using assms(1) by (simp add: open_effect_def map_of_map_restrict)
  then show ?thesis using assms(2-4)
    by (cases es; cases "json_stringify (JObject es)") (auto simp: config_text_def section_text_def)
qed

subsection \<open>Properties\<close>

text \<open>
  No profile can be created or changed: whatever the dialog sends, the server answers with an
  error, and every sequence of requests does nothing to the profiles but delete some.
\<close>

lemma profiles_not_saved:
  "\<exists>e. answer is_uuid (Create_profile new body) db = Inl e"
  "\<exists>e. answer is_uuid (Update_profile pid body) db = Inl e"
  using create_arguments [of body] update_arguments [of pid body]
  by (auto simp: system_node_profile_create_def system_node_profile_update_def)

theorem profiles_only_deleted:
  "db_profiles (fold (serve is_uuid) qs db) =
     filter (\<lambda>p. \<not> (is_uuid (np_id p) \<and> Delete_profile (np_id p) \<in> set qs)) (db_profiles db)"
proof (induction qs arbitrary: db)
  case (Cons q qs)
  have "db_profiles (serve is_uuid q db) =
      filter (\<lambda>p. \<not> (is_uuid (np_id p) \<and> q = Delete_profile (np_id p))) (db_profiles db)"
  proof (cases q)
    case (Create_profile new body)
    then show ?thesis using profiles_not_saved(1) [of is_uuid new body db] by (auto simp: serve_def)
  next
    case (Update_profile pid body)
    then show ?thesis using profiles_not_saved(2) [of is_uuid pid body db] by (auto simp: serve_def)
  next
    case (Delete_profile pid)
    have "db_profiles (serve is_uuid q db)
        = (if is_uuid pid then filter (\<lambda>p. np_id p \<noteq> pid) (db_profiles db) else db_profiles db)"
      using Delete_profile
      by (auto simp: serve_def system_node_profile_delete_def svc_delete_def dao_delete_def has_profile_def
          intro!: filter_True [symmetric])
    with Delete_profile show ?thesis by (auto intro!: filter_cong filter_True [symmetric])
  next
    case (Assign_profile node pid)
    then show ?thesis
      by (auto simp: serve_def system_node_profile_assign_def svc_assign_def dao_assign_def)
  next
    case (Unassign_profile node)
    then show ?thesis
      by (auto simp: serve_def system_node_profile_unassign_def svc_unassign_def dao_assign_def)
  qed
  then show ?case using Cons.IH [of "serve is_uuid q db"] by (auto intro!: filter_cong)
qed simp

text \<open>A save always ends with an error, and the dialog stays open.\<close>

lemma save_stays_open:
  assumes "pp_formOpen p"
  shows "\<exists>e. answer is_uuid (handleSave new payload p) db = Inl e \<and> pp_formOpen (save_answered (Some m) p)
    \<and> pp_error (save_answered (Some m) p) = Some m"
  using assms profiles_not_saved [of is_uuid] by (auto simp: handleSave_def save_answered_def split: option.split)

lemma refs_assign:
  "refs_ok db \<Longrightarrow> (\<And>p. q = Some p \<Longrightarrow> has_profile p db) \<Longrightarrow> refs_ok (dao_assign node q db)"
  by (auto simp: refs_ok_def dao_assign_def has_profile_def split: if_splits)

lemma refs_delete:
  assumes "refs_ok db"
  shows "refs_ok (dao_delete pid db)"
proof -
  have "has_profile q (dao_delete pid db)" if "(n, Some q) \<in> set (db_nodes db)" "q \<noteq> pid" for n q
    using assms that by (fastforce simp: refs_ok_def has_profile_def dao_delete_def)
  then show ?thesis by (auto simp: refs_ok_def dao_delete_def split: if_splits)
qed

text \<open>No node refers to a profile that is not there, whatever requests are handled.\<close>

theorem assigned_profiles_exist:
  assumes "refs_ok db"
  shows "refs_ok (fold (serve is_uuid) qs db)"
  using assms
proof (induction qs arbitrary: db)
  case (Cons q qs)
  have "refs_ok (serve is_uuid q db)"
  proof (cases q)
    case (Create_profile new body)
    then show ?thesis using Cons.prems profiles_not_saved(1) [of is_uuid new body db] by (auto simp: serve_def)
  next
    case (Update_profile pid body)
    then show ?thesis using Cons.prems profiles_not_saved(2) [of is_uuid pid body db] by (auto simp: serve_def)
  next
    case (Delete_profile pid)
    with Cons.prems refs_delete show ?thesis
      by (simp add: serve_def system_node_profile_delete_def svc_delete_def)
  next
    case (Assign_profile node pid)
    with Cons.prems refs_assign [of db "Some pid" node] show ?thesis
      by (simp add: serve_def system_node_profile_assign_def svc_assign_def)
  next
    case (Unassign_profile node)
    with Cons.prems refs_assign [of db None node] show ?thesis
      by (simp add: serve_def system_node_profile_unassign_def svc_unassign_def)
  qed
  then show ?case using Cons.IH by simp
qed simp

text \<open>
  The service, called with the argument it has, keeps at most one default, and an update gives
  the profile the columns of the dialog.
\<close>

lemma filter_one:
  "distinct (map np_id ps) \<Longrightarrow> (\<And>p. p \<in> set ps \<Longrightarrow> is_default (f p) \<Longrightarrow> np_id p = pid) \<Longrightarrow>
   length (filter is_default (map f ps)) \<le> 1"
proof (induction ps)
  case (Cons p ps)
  show ?case
  proof (cases "is_default (f p)")
    case True
    then have "np_id p = pid" using Cons.prems by simp
    moreover have "np_id q \<noteq> np_id p" if "q \<in> set ps" for q
      using Cons.prems(1) that by (force simp: image_iff)
    ultimately have "\<not> is_default (f q)" if "q \<in> set ps" for q
      using Cons.prems(2) [of q] that by fastforce
    then show ?thesis by (simp add: filter_empty_conv)
  next
    case False
    with Cons show ?thesis by simp
  qed
qed simp

theorem service_one_default:
  assumes "one_default (db_profiles db)" "distinct (map np_id (db_profiles db))"
  shows "one_default (db_profiles (svc_create new data db))"
    and "distinct (map fst us) \<Longrightarrow> svc_update pid us db = Some db' \<Longrightarrow> one_default (db_profiles db')"
proof -
  let ?ps = "db_profiles db"
  show "one_default (db_profiles (svc_create new data db))"
    using assms(1)
    by (auto simp: svc_create_def dao_create_def one_default_def Let_def is_default_def column_def
        filter_empty_conv clear_default_none [unfolded is_default_def column_def])
  assume us: "distinct (map fst us)" "svc_update pid us db = Some db'"
  let ?f = "\<lambda>p. if np_id p = pid then set_columns us p else p"
  have field: "''is_default'' \<in> set profile_fields" by code_simp
  show "one_default (db_profiles db')"
  proof (cases "json_truthy (map_of us ''is_default'')")
    case True
    then have db': "db_profiles db' = map ?f (clear_default ?ps)"
      using us(2) by (auto simp: svc_update_def dao_update_def split: if_splits)
    have only: "np_id p = pid" if "p \<in> set (clear_default ?ps)" "is_default (?f p)" for p
      using that(2) clear_default_none [OF that(1)] by (simp split: if_splits)
    have "distinct (map np_id (clear_default ?ps))" using assms(2) by (simp only: clear_default_ids)
    then show ?thesis unfolding one_default_def db' by (rule filter_one) (rule only)
  next
    case False
    then have db': "db_profiles db' = map ?f ?ps"
      using us(2) by (auto simp: svc_update_def dao_update_def split: if_splits)
    have still: "is_default p" if "is_default (?f p)" for p
    proof (cases "np_id p = pid")
      case True
      then show ?thesis
        using that False field column_sets [OF us(1), of p "''is_default''"]
        by (auto simp: is_default_def split: option.splits)
    next
      case False
      then show ?thesis using that by simp
    qed
    have "length (filter is_default (map ?f ps)) \<le> length (filter is_default ps)" for ps
    proof (induction ps)
      case (Cons p ps)
      then show ?case using still [of p] by (cases "is_default (?f p)") (simp_all add: le_SucI)
    qed simp
    from le_trans [OF this] show ?thesis using assms(1) unfolding one_default_def db' by blast
  qed
qed

text \<open>Opening a profile and saving it as it is would leave the store as it is.\<close>

theorem unchanged_save_same:
  assumes p: "stored_profile p" "p \<in> set (db_profiles db)"
    and db: "one_default (db_profiles db)" "distinct (map np_id (db_profiles db))"
    and json: "json_parse ''{}'' = Some (JObject [])"
      "\<And>k es. column p k = Some (JObject es) \<Longrightarrow> es \<noteq> [] \<Longrightarrow>
         json_stringify (JObject es) \<noteq> [] \<and> json_parse (json_stringify (JObject es)) = Some (JObject es)"
  shows "\<exists>payload. snd (handleSubmit json_parse (open_effect json_stringify True (Some p) d)) = Some payload
    \<and> svc_update (np_id p) payload db = Some db"
proof -
  let ?d = "open_effect json_stringify True (Some p) d"
  let ?u = "profile_payload json_parse ?d"
  obtain n b where n: "column p ''name'' = Some (JString n)" "trim n = n" "n \<noteq> []"
    and b: "column p ''is_default'' = Some (JBool b)"
    using p(1) by (auto simp: stored_profile_def)
  have sec: "\<exists>es. column p k = Some (JObject es) \<and> json_parse (config_text ?d k) = Some (JObject es)"
    if k: "k \<in> set section_keys" for k
  proof -
    obtain es where es: "column p k = Some (JObject es)" using k p(1) by (auto simp: stored_profile_def)
    show ?thesis using opened_section [of k p es json_parse json_stringify d] k es json(1) json(2) [OF es] by blast
  qed
  have name: "pd_name ?d = n" using n by (simp add: open_effect_def text_column_def)
  have errors: "filter (\<lambda>k. json_parse (config_text ?d k) = None) section_keys = []"
    using sec by (auto simp: filter_empty_conv)
  have "config_text (?d\<lparr>pd_configErrors := []\<rparr>) = config_text ?d" by (simp add: config_text_def fun_eq_iff)
  then have submit: "snd (handleSubmit json_parse ?d) = Some ?u"
    using errors name n by (simp add: handleSubmit_def validate_def profile_payload_def)
  have same: "map_of ?u k = column p k" if "k \<in> set profile_fields" for k
  proof -
    consider "k = ''name''" | "k = ''description''" | "k = ''is_default''" | "k \<in> set section_keys"
      using \<open>k \<in> set profile_fields\<close> by (auto simp: profile_fields_def)
    then show ?thesis
    proof cases
      case 4
      then have "k \<noteq> ''name''" "k \<noteq> ''description''" "k \<noteq> ''is_default''"
        by (auto simp: section_keys_def CONFIG_SECTIONS_def)
      with 4 sec [OF 4] show ?thesis by (auto simp: profile_payload_def map_of_map_restrict)
    qed (use n b name p(1) in \<open>auto simp: profile_payload_def open_effect_def text_column_def is_default_def
          stored_profile_def Let_def\<close>)
  qed
  have keys: "map fst (np_cols p) = profile_fields" using p(1) by (simp add: stored_profile_def)
  have restored: "set_columns ?u q = p"
    if "np_id q = np_id p" "map fst (np_cols q) = profile_fields" for q
  proof -
    have k: "map fst (np_cols (set_columns ?u q)) = map fst (np_cols p)"
      using keys_sets [of q ?u] that(2) keys by simp
    have "column (set_columns ?u q) k = column p k" for k
    proof (cases "k \<in> set profile_fields")
      case True
      have "column p k \<noteq> None" using True keys by (metis column_def map_of_eq_None_iff set_map)
      with True column_sets [of ?u q k] same [OF True] fields_distinct show ?thesis
        by (auto simp: payload_keys split: option.splits)
    next
      case False
      have "k \<notin> fst ` set (np_cols q)" "k \<notin> fst ` set (np_cols p)" using False that(2) keys by (metis set_map)+
      then have "column q k = None" "column p k = None" by (simp_all add: column_def map_of_eq_None_iff)
      with False column_sets [of ?u q k] fields_distinct show ?thesis by (simp add: payload_keys)
    qed
    then have "np_cols (set_columns ?u q) = np_cols p"
      using alist_ext [OF k] k keys fields_distinct by (simp add: column_def fun_eq_iff)
    then show ?thesis using that(1) by (intro profile.equality) simp_all
  qed
  have only: "q = p" if "q \<in> set (db_profiles db)" "np_id q = np_id p" for q
    using that p(2) db(2) by (simp add: distinct_map inj_on_def)
  have truthy: "json_truthy (map_of ?u ''is_default'') = is_default p"
    using b same [of "''is_default''"] by (simp add: profile_fields_def is_default_def)
  have clear: "map (\<lambda>q. if np_id q = np_id p then set_columns ?u q else q) (clear_default (db_profiles db))
      = db_profiles db" if "is_default p"
    unfolding clear_default_def map_map o_def
  proof (rule map_idI)
    fix q
    assume q: "q \<in> set (db_profiles db)"
    have "set_columns ?u (set_column ''is_default'' (JBool False) p) = p"
      using keys by (intro restored) (simp_all add: set_column_def update_keys profile_fields_def)
    moreover have "set_columns ?u p = p" using keys by (intro restored) simp_all
    moreover have "q = p" if "is_default q"
      using one_default_other [OF db(1) q p(2) that \<open>is_default p\<close>] .
    ultimately show "(if np_id (if is_default q then set_column ''is_default'' (JBool False) q else q) = np_id p
        then set_columns ?u (if is_default q then set_column ''is_default'' (JBool False) q else q)
        else if is_default q then set_column ''is_default'' (JBool False) q else q) = q"
      using only [OF q] by auto
  qed
  have keep: "map (\<lambda>q. if np_id q = np_id p then set_columns ?u q else q) (db_profiles db) = db_profiles db"
    using only restored keys by (intro map_idI) auto
  have "has_profile (np_id p) db" using p(2) by (auto simp: has_profile_def)
  then have "svc_update (np_id p) ?u db = Some db"
    using clear keep truthy by (simp add: svc_update_def dao_update_def Let_def)
  with submit show ?thesis by blast
qed

text \<open>
  The dialog takes every JSON value for a section, the server objects only; and deleting a
  profile that is not there is answered like a deletion.
\<close>

lemma non_object_refused:
  assumes "k \<in> set section_keys" "json_parse (config_text d k) = Some v" "\<And>es. v \<noteq> JObject es" "v \<noteq> JNull"
  shows "\<not> body_ok creating (profile_payload json_parse d)"
proof -
  have k: "k \<noteq> ''name''" "k \<noteq> ''description''" "k \<noteq> ''is_default''"
    using assms(1) by (auto simp: section_keys_def CONFIG_SECTIONS_def)
  then have "map_of (profile_payload json_parse d) k = Some v"
    using assms(1,2) by (simp add: profile_payload_def map_of_map_restrict)
  moreover have "\<not> field_ok creating k (Some v)" using k assms(3,4) by (cases v) auto
  ultimately show ?thesis using assms(1) by (auto simp: body_ok_def profile_fields_def intro!: bexI [of _ k])
qed

lemma unknown_deleted_silently:
  "\<not> has_profile pid db \<Longrightarrow> is_uuid pid \<Longrightarrow> system_node_profile_delete is_uuid pid db = Inr db"
  by (simp add: system_node_profile_delete_def svc_delete_def)

end
