(* ===== verification/Sign_On.thy ===== *)
theory Sign_On
  imports Prelude
begin

text \<open>
  Sign-on through other services: the page \<^verbatim>\<open>pages/admin/AuthProvidersPage.tsx\<close> with the store
  of the backend (\<^verbatim>\<open>web/api/admin/auth_providers/views.py\<close>, \<^verbatim>\<open>db/dao/auth_provider_dao.py\<close>) in
  its local mode, and the end of a sign-on, which finds or creates the user. Encryption, the
  services that are asked, identifiers made up and the text of a value are parameters; the
  mapping of groups, which the page does not send, is left out.
\<close>

subsection \<open>Providers\<close>

record provider_dto =
  ap_id :: string
  ap_name :: string
  ap_type :: string
  ap_client_id :: string
  ap_discovery_url :: "string option"
  ap_authorize_url :: "string option"
  ap_token_url :: "string option"
  ap_userinfo_url :: "string option"
  ap_scopes :: string
  ap_enabled :: bool
  ap_auto_register :: bool
  ap_role_ids :: "string list"

record stored_provider = provider_dto +
  ap_secret :: string

text \<open>The fields of a request; \<open>None\<close> is a field that is not there.\<close>

record provider_request =
  pr_name :: "string option"
  pr_type :: "string option"
  pr_client_id :: "string option"
  pr_client_secret :: "string option"
  pr_discovery_url :: "string option"
  pr_authorize_url :: "string option"
  pr_token_url :: "string option"
  pr_userinfo_url :: "string option"
  pr_scopes :: "string option"
  pr_enabled :: "bool option"
  pr_auto_register :: "bool option"

datatype provider_error = Invalid_request | Name_taken | Provider_missing

definition provider_type_ok :: "string \<Rightarrow> bool" where
  "provider_type_ok t = (t = ''oidc'' \<or> t = ''oauth2'')"

definition opt_ok :: "('a \<Rightarrow> bool) \<Rightarrow> 'a option \<Rightarrow> bool" where
  "opt_ok P v = (case v of None \<Rightarrow> True | Some x \<Rightarrow> P x)"

definition text_between :: "nat \<Rightarrow> nat \<Rightarrow> string \<Rightarrow> bool" where
  "text_between m n s = (m \<le> length s \<and> length s \<le> n)"

definition create_ok :: "provider_request \<Rightarrow> bool" where
  "create_ok q =
     (pr_name q \<noteq> None \<and> opt_ok (text_between 1 128) (pr_name q)
      \<and> pr_type q \<noteq> None \<and> opt_ok provider_type_ok (pr_type q)
      \<and> pr_client_id q \<noteq> None \<and> opt_ok (text_between 1 512) (pr_client_id q)
      \<and> pr_client_secret q \<noteq> None \<and> opt_ok (\<lambda>s. s \<noteq> []) (pr_client_secret q))"

definition update_ok :: "provider_request \<Rightarrow> bool" where
  "update_ok q = (opt_ok (text_between 1 128) (pr_name q) \<and> opt_ok provider_type_ok (pr_type q))"

definition or_else :: "'a option \<Rightarrow> 'a \<Rightarrow> 'a" where
  "or_else v d = (case v of None \<Rightarrow> d | Some x \<Rightarrow> x)"

definition or_keep :: "'a option \<Rightarrow> 'a option \<Rightarrow> 'a option" where
  "or_keep v d = (case v of None \<Rightarrow> d | Some x \<Rightarrow> Some x)"

definition create_auth_provider ::
  "(string \<Rightarrow> string) \<Rightarrow> string \<Rightarrow> provider_request \<Rightarrow> stored_provider list
   \<Rightarrow> provider_error + stored_provider list" where
  "create_auth_provider encrypt new q ps =
     (if \<not> create_ok q then Inl Invalid_request
      else if the (pr_name q) \<in> ap_name ` set ps then Inl Name_taken
      else Inr (ps @ [\<lparr>ap_id = new, ap_name = the (pr_name q), ap_type = the (pr_type q),
        ap_client_id = the (pr_client_id q), ap_discovery_url = pr_discovery_url q,
        ap_authorize_url = pr_authorize_url q, ap_token_url = pr_token_url q,
        ap_userinfo_url = pr_userinfo_url q,
        ap_scopes = or_else (pr_scopes q) ''openid email profile'',
        ap_enabled = or_else (pr_enabled q) True,
        ap_auto_register = or_else (pr_auto_register q) True, ap_role_ids = [],
        ap_secret = encrypt (the (pr_client_secret q))\<rparr>]))"

definition updated_provider ::
  "(string \<Rightarrow> string) \<Rightarrow> provider_request \<Rightarrow> stored_provider \<Rightarrow> stored_provider" where
  "updated_provider encrypt q p =
     p\<lparr>ap_name := or_else (pr_name q) (ap_name p),
       ap_type := or_else (pr_type q) (ap_type p),
       ap_client_id := or_else (pr_client_id q) (ap_client_id p),
       ap_secret := or_else (map_option encrypt (pr_client_secret q)) (ap_secret p),
       ap_discovery_url := or_keep (pr_discovery_url q) (ap_discovery_url p),
       ap_authorize_url := or_keep (pr_authorize_url q) (ap_authorize_url p),
       ap_token_url := or_keep (pr_token_url q) (ap_token_url p),
       ap_userinfo_url := or_keep (pr_userinfo_url q) (ap_userinfo_url p),
       ap_scopes := or_else (pr_scopes q) (ap_scopes p),
       ap_enabled := or_else (pr_enabled q) (ap_enabled p),
       ap_auto_register := or_else (pr_auto_register q) (ap_auto_register p)\<rparr>"

definition update_auth_provider ::
  "(string \<Rightarrow> string) \<Rightarrow> string \<Rightarrow> provider_request \<Rightarrow> stored_provider list
   \<Rightarrow> provider_error + stored_provider list" where
  "update_auth_provider encrypt pid q ps =
     (if \<not> update_ok q then Inl Invalid_request
      else if pid \<notin> ap_id ` set ps then Inl Provider_missing
      else Inr (map (\<lambda>p. if ap_id p = pid then updated_provider encrypt q p else p) ps))"

definition delete_auth_provider ::
  "string \<Rightarrow> stored_provider list \<Rightarrow> provider_error + stored_provider list" where
  "delete_auth_provider pid ps =
     (if pid \<notin> ap_id ` set ps then Inl Provider_missing else Inr (filter (\<lambda>p. ap_id p \<noteq> pid) ps))"

text \<open>The lists: for an administrator everything but the secret, for everyone names of those enabled.\<close>

definition list_auth_providers :: "stored_provider list \<Rightarrow> provider_dto list" where
  "list_auth_providers ps = map provider_dto.truncate ps"

definition list_enabled_providers :: "stored_provider list \<Rightarrow> (string \<times> string \<times> string) list" where
  "list_enabled_providers ps = map (\<lambda>p. (ap_id p, ap_name p, ap_type p)) (filter ap_enabled ps)"

subsection \<open>The page\<close>

record provider_form =
  pf_name :: string
  pf_type :: string
  pf_client_id :: string
  pf_client_secret :: string
  pf_discovery_url :: string
  pf_authorize_url :: string
  pf_token_url :: string
  pf_userinfo_url :: string
  pf_scopes :: string
  pf_enabled :: bool
  pf_auto_register :: bool

record providers_page =
  av_open :: bool
  av_editing :: "provider_dto option"
  av_form :: provider_form
  av_saving :: bool
  av_delete_target :: "provider_dto option"
  av_deleting :: bool
  av_error :: "string option"

definition openCreate :: "providers_page \<Rightarrow> providers_page" where
  "openCreate s = s\<lparr>av_editing := None, av_open := True,
     av_form := \<lparr>pf_name = [], pf_type = ''oidc'', pf_client_id = [], pf_client_secret = [],
       pf_discovery_url = [], pf_authorize_url = [], pf_token_url = [], pf_userinfo_url = [],
       pf_scopes = ''openid email profile'', pf_enabled = True, pf_auto_register = True\<rparr>\<rparr>"

definition openEdit :: "provider_dto \<Rightarrow> providers_page \<Rightarrow> providers_page" where
  "openEdit p s = s\<lparr>av_editing := Some p, av_open := True,
     av_form := \<lparr>pf_name = ap_name p, pf_type = ap_type p, pf_client_id = ap_client_id p,
       pf_client_secret = [], pf_discovery_url = or_else (ap_discovery_url p) [],
       pf_authorize_url = or_else (ap_authorize_url p) [], pf_token_url = or_else (ap_token_url p) [],
       pf_userinfo_url = or_else (ap_userinfo_url p) [], pf_scopes = ap_scopes p,
       pf_enabled = ap_enabled p, pf_auto_register = ap_auto_register p\<rparr>\<rparr>"

definition or_undefined :: "string \<Rightarrow> string option" where
  "or_undefined s = (if s = [] then None else Some s)"

definition form_request :: "bool \<Rightarrow> provider_form \<Rightarrow> provider_request" where
  "form_request editing f =
     \<lparr>pr_name = Some (pf_name f), pr_type = Some (pf_type f), pr_client_id = Some (pf_client_id f),
      pr_client_secret =
        (if editing then or_undefined (pf_client_secret f) else Some (pf_client_secret f)),
      pr_discovery_url = or_undefined (pf_discovery_url f),
      pr_authorize_url = or_undefined (pf_authorize_url f),
      pr_token_url = or_undefined (pf_token_url f),
      pr_userinfo_url = or_undefined (pf_userinfo_url f),
      pr_scopes = Some (pf_scopes f), pr_enabled = Some (pf_enabled f),
      pr_auto_register = Some (pf_auto_register f)\<rparr>"

text \<open>The request of a save: with an identifier an update, without one a creation.\<close>

definition handleSave :: "providers_page \<Rightarrow> providers_page \<times> string option \<times> provider_request" where
  "handleSave s =
     (s\<lparr>av_saving := True\<rparr>, map_option ap_id (av_editing s), form_request (av_editing s \<noteq> None) (av_form s))"

definition save_answered :: "string option \<Rightarrow> providers_page \<Rightarrow> providers_page" where
  "save_answered failed s =
     (case failed of
        None \<Rightarrow> s\<lparr>av_open := False, av_saving := False\<rparr>
      | Some m \<Rightarrow> s\<lparr>av_error := Some m, av_saving := False\<rparr>)"

definition handleDelete :: "providers_page \<Rightarrow> providers_page \<times> string option" where
  "handleDelete s =
     (case av_delete_target s of
        None \<Rightarrow> (s, None)
      | Some p \<Rightarrow> (s\<lparr>av_deleting := True\<rparr>, Some (ap_id p)))"

definition delete_answered :: "string option \<Rightarrow> providers_page \<Rightarrow> providers_page" where
  "delete_answered failed s =
     (case failed of
        None \<Rightarrow> s\<lparr>av_delete_target := None, av_deleting := False\<rparr>
      | Some m \<Rightarrow> s\<lparr>av_error := Some m, av_deleting := False\<rparr>)"

definition handle_save_request ::
  "(string \<Rightarrow> string) \<Rightarrow> string \<Rightarrow> string option \<times> provider_request \<Rightarrow> stored_provider list
   \<Rightarrow> provider_error + stored_provider list" where
  "handle_save_request encrypt new r ps =
     (case r of
        (Some pid, q) \<Rightarrow> update_auth_provider encrypt pid q ps
      | (None, q) \<Rightarrow> create_auth_provider encrypt new q ps)"

subsection \<open>The end of a sign-on\<close>

record signed_user =
  su_id :: string
  su_email :: string
  su_superuser :: bool

record oauth_account =
  oa_id :: string
  oa_user :: string
  oa_provider :: string
  oa_account :: string
  oa_email :: string
  oa_token :: string

record sign_on_db =
  so_users :: "signed_user list"
  so_roles :: "(string \<times> string) list"
  so_user_roles :: "(string \<times> string) list"
  so_accounts :: "oauth_account list"

record claims =
  cl_provider :: string
  cl_account :: string
  cl_email :: string
  cl_token :: string
  cl_auto_register :: bool
  cl_role_ids :: "string list"

text \<open>The answer is a redirection, with the user of the cookie if one is set.\<close>

type_synonym redirect = "string \<times> string option"

definition get_role_by_name :: "string \<Rightarrow> sign_on_db \<Rightarrow> string option" where
  "get_role_by_name n db = map_of (map (\<lambda>(i, m). (m, i)) (so_roles db)) n"

definition assign_role :: "string \<Rightarrow> string \<Rightarrow> (string \<times> string) list \<Rightarrow> (string \<times> string) list" where
  "assign_role u r urs = (if (u, r) \<in> set urs then urs else urs @ [(u, r)])"

definition set_user_roles ::
  "string \<Rightarrow> string list \<Rightarrow> (string \<times> string) list \<Rightarrow> (string \<times> string) list" where
  "set_user_roles u rs urs = filter (\<lambda>x. fst x \<noteq> u) urs @ map (Pair u) (rev (remdups (rev rs)))"

definition default_roles :: "string \<Rightarrow> claims \<Rightarrow> sign_on_db \<Rightarrow> (string \<times> string) list" where
  "default_roles u c db =
     (if cl_role_ids c \<noteq> []
      then (let rs = filter (\<lambda>r. r \<noteq> []) (cl_role_ids c)
            in if rs \<noteq> [] then set_user_roles u rs (so_user_roles db) else so_user_roles db)
      else (case get_role_by_name ''default_user'' db of
              None \<Rightarrow> so_user_roles db
            | Some r \<Rightarrow> assign_role u r (so_user_roles db)))"

text \<open>
  The insertion of the account updates instead when one with its identifier is there; the
  identifier is made up for each sign-on.
\<close>

definition upsert_account :: "oauth_account \<Rightarrow> oauth_account list \<Rightarrow> oauth_account list" where
  "upsert_account a as =
     (if oa_id a \<in> oa_id ` set as
      then map (\<lambda>b. if oa_id b = oa_id a then b\<lparr>oa_token := oa_token a, oa_email := oa_email a\<rparr> else b) as
      else as @ [a])"

definition process_oauth_login ::
  "string \<times> string \<Rightarrow> claims \<Rightarrow> sign_on_db \<Rightarrow> redirect \<times> sign_on_db" where
  "process_oauth_login fresh c db =
     (let known = find (\<lambda>u. su_email u = cl_email c) (so_users db)
      in if known = None \<and> \<not> cl_auto_register c then ((''/login?error=registration_disabled'', None), db)
         else
           (let u = (case known of
                       Some u \<Rightarrow> u
                     | None \<Rightarrow> \<lparr>su_id = fst fresh, su_email = cl_email c, su_superuser = False\<rparr>);
                db' = (if known = None
                       then db\<lparr>so_users := so_users db @ [u], so_user_roles := default_roles (su_id u) c db\<rparr>
                       else db)
            in ((''/admin/dashboard'', Some (su_id u)),
                db'\<lparr>so_accounts := upsert_account
                  \<lparr>oa_id = snd fresh, oa_user = su_id u, oa_provider = cl_provider c,
                   oa_account = cl_account c, oa_email = cl_email c, oa_token = cl_token c\<rparr>
                  (so_accounts db')\<rparr>)))"

text \<open>
  The callback of the local mode: the token for the code, and the answers of the addresses
  that are asked for the user, come from outside.
\<close>

definition userinfo_address ::
  "(string \<Rightarrow> json option) \<Rightarrow> stored_provider \<Rightarrow> string option" where
  "userinfo_address fetch p =
     (case ap_userinfo_url p of
        Some (c # cs) \<Rightarrow> Some (c # cs)
      | _ \<Rightarrow>
          if ap_type p = ''oidc'' \<and> truthy (ap_discovery_url p)
          then json_string (Option.bind (fetch (the (ap_discovery_url p))) (\<lambda>d. json_get d ''userinfo_endpoint''))
          else None)"

definition account_claims ::
  "(json \<Rightarrow> string) \<Rightarrow> json option \<Rightarrow> string \<times> string" where
  "account_claims py_str info =
     (case info of
        None \<Rightarrow> ([], [])
      | Some i \<Rightarrow>
          (py_str (case json_get i ''sub'' of
             Some v \<Rightarrow> v
           | None \<Rightarrow> (case json_get i ''id'' of Some v \<Rightarrow> v | None \<Rightarrow> JString [])),
           or_else (json_string (json_get i ''email'')) []))"

definition oauth_callback ::
  "(json \<Rightarrow> string) \<Rightarrow> (string \<Rightarrow> json option) \<Rightarrow> string \<times> string \<Rightarrow> string option \<Rightarrow> string
   \<Rightarrow> stored_provider list \<Rightarrow> sign_on_db \<Rightarrow> (nat + redirect) \<times> sign_on_db" where
  "oauth_callback py_str fetch fresh token pid ps db =
     (case find (\<lambda>p. ap_id p = pid) ps of
        None \<Rightarrow> (Inl 404, db)
      | Some p \<Rightarrow>
          if \<not> ap_enabled p then (Inl 404, db)
          else if \<not> (ap_type p = ''oidc'' \<and> truthy (ap_discovery_url p))
             \<and> (\<not> truthy (ap_authorize_url p) \<or> \<not> truthy (ap_token_url p)) then (Inl 400, db)
          else (case token of
                  None \<Rightarrow> (Inr (''/login?error=oauth_failed'', None), db)
                | Some t \<Rightarrow>
                    (let (account, email) =
                       account_claims py_str (Option.bind (userinfo_address fetch p) fetch)
                     in if email = [] then (Inr (''/login?error=no_email'', None), db)
                        else (let (r, db') = process_oauth_login fresh
                                \<lparr>cl_provider = ap_name p, cl_account = account, cl_email = email,
                                 cl_token = t, cl_auto_register = ap_auto_register p,
                                 cl_role_ids = ap_role_ids p\<rparr> db
                              in (Inr r, db')))))"

subsection \<open>Lemmas\<close>

lemma or_simps [simp]:
  "or_else None d = d" "or_else (Some x) d = x" "or_keep None v = v" "or_keep (Some x) v = Some x"
  by (simp_all add: or_else_def or_keep_def)

lemma or_keep_undefined: "or_keep (or_undefined s) v = (if s = [] then v else Some s)"
  by (simp add: or_undefined_def)

text \<open>An optional text that is shown and sent back as it is stays what it was.\<close>

lemma or_keep_shown: "or_keep (or_undefined (or_else v [])) v = v"
  by (cases v) (auto simp: or_undefined_def)

text \<open>The user of the cookie: the one with the address of the claims, or a new one.\<close>

lemma login_cases:
  obtains (refused) "find (\<lambda>u. su_email u = cl_email c) (so_users db) = None" "\<not> cl_auto_register c"
      "process_oauth_login fresh c db = ((''/login?error=registration_disabled'', None), db)"
  | (known) u a where "find (\<lambda>u. su_email u = cl_email c) (so_users db) = Some u"
      "process_oauth_login fresh c db =
         ((''/admin/dashboard'', Some (su_id u)), db\<lparr>so_accounts := upsert_account a (so_accounts db)\<rparr>)"
      "oa_id a = snd fresh"
  | (created) urs a where "find (\<lambda>u. su_email u = cl_email c) (so_users db) = None" "cl_auto_register c"
      "process_oauth_login fresh c db =
         ((''/admin/dashboard'', Some (fst fresh)),
          db\<lparr>so_users := so_users db @ [\<lparr>su_id = fst fresh, su_email = cl_email c, su_superuser = False\<rparr>],
             so_user_roles := urs, so_accounts := upsert_account a (so_accounts db)\<rparr>)"
      "oa_id a = snd fresh"
proof (cases "find (\<lambda>u. su_email u = cl_email c) (so_users db)")
  case None
  then show ?thesis
    using refused created by (cases "cl_auto_register c") (auto simp: process_oauth_login_def Let_def)
next
  case (Some u)
  then show ?thesis using known by (auto simp: process_oauth_login_def Let_def)
qed

text \<open>A callback either does nothing, or is the end of a sign-on at a provider that is enabled.\<close>

lemma callback_cases:
  obtains (nothing) r where "oauth_callback py_str fetch fresh token pid ps db = (r, db)"
      "\<forall>to uid. r \<noteq> Inr (to, Some uid)"
  | (login) p c where "find (\<lambda>p. ap_id p = pid) ps = Some p" "ap_enabled p"
      "cl_email c = snd (account_claims py_str (Option.bind (userinfo_address fetch p) fetch))"
      "cl_auto_register c = ap_auto_register p" "cl_provider c = ap_name p"
      "oauth_callback py_str fetch fresh token pid ps db =
         (Inr (fst (process_oauth_login fresh c db)), snd (process_oauth_login fresh c db))"
proof (cases "find (\<lambda>p. ap_id p = pid) ps")
  case None
  then have "oauth_callback py_str fetch fresh token pid ps db = (Inl 404, db)" by (simp add: oauth_callback_def)
  then show ?thesis by (rule nothing) simp
next
  case (Some p)
  let ?a = "account_claims py_str (Option.bind (userinfo_address fetch p) fetch)"
  let ?ok = "ap_enabled p \<and> \<not> (\<not> (ap_type p = ''oidc'' \<and> truthy (ap_discovery_url p))
      \<and> (\<not> truthy (ap_authorize_url p) \<or> \<not> truthy (ap_token_url p)))"
  show ?thesis
  proof (cases "?ok \<and> token \<noteq> None \<and> snd ?a \<noteq> []")
    case True
    then obtain t where t: "token = Some t" by blast
    let ?c = "\<lparr>cl_provider = ap_name p, cl_account = fst ?a, cl_email = snd ?a, cl_token = t,
      cl_auto_register = ap_auto_register p, cl_role_ids = ap_role_ids p\<rparr>"
    show ?thesis
      by (rule login [of p ?c]) (use Some True t in
        \<open>simp_all add: oauth_callback_def case_prod_beta del: de_Morgan_conj de_Morgan_disj\<close>)
  next
    case False
    have "\<exists>r. oauth_callback py_str fetch fresh token pid ps db = (r, db) \<and> (\<forall>to uid. r \<noteq> Inr (to, Some uid))"
    proof (cases ?ok)
      case ok: True
      show ?thesis
      proof (cases token)
        case None
        with ok Some show ?thesis by (simp add: oauth_callback_def del: de_Morgan_conj de_Morgan_disj)
      next
        case (Some t)
        with False ok have "snd ?a = []" by blast
        with ok Some \<open>find (\<lambda>p. ap_id p = pid) ps = Some p\<close> show ?thesis
          by (simp add: oauth_callback_def case_prod_beta del: de_Morgan_conj de_Morgan_disj)
      qed
    next
      case bad: False
      with Some show ?thesis
        by (cases "ap_enabled p") (simp_all add: oauth_callback_def del: de_Morgan_conj de_Morgan_disj)
    qed
    then obtain r where "oauth_callback py_str fetch fresh token pid ps db = (r, db)"
      "\<forall>to uid. r \<noteq> Inr (to, Some uid)" by auto
    then show ?thesis by (rule nothing)
  qed
qed

subsection \<open>Properties\<close>

text \<open>
  Opening a provider and saving it as it is changes nothing, not even the secret, which the page
  never gets.
\<close>

theorem reopen_save_same:
  assumes "p \<in> set ps" "distinct (map ap_id ps)"
    and "text_between 1 128 (ap_name p)" "provider_type_ok (ap_type p)"
  shows "handle_save_request encrypt new (snd (handleSave (openEdit (provider_dto.truncate p) s))) ps = Inr ps"
proof -
  let ?q = "form_request True (av_form (openEdit (provider_dto.truncate p) s))"
  have "snd (handleSave (openEdit (provider_dto.truncate p) s)) = (Some (ap_id p), ?q)"
    by (simp add: handleSave_def openEdit_def provider_dto.defs)
  moreover have "update_ok ?q"
    using assms(3,4) by (simp add: update_ok_def form_request_def openEdit_def opt_ok_def provider_dto.defs)
  moreover have same: "updated_provider encrypt ?q p = p"
    by (simp add: updated_provider_def form_request_def openEdit_def provider_dto.defs or_keep_shown)
      (simp add: or_undefined_def)
  moreover have "map (\<lambda>q. if ap_id q = ap_id p then updated_provider encrypt ?q q else q) ps = ps"
  proof (rule map_idI)
    fix q
    assume "q \<in> set ps"
    then have "q = p" if "ap_id q = ap_id p" using that assms(1,2) by (simp add: distinct_map inj_on_def)
    then show "(if ap_id q = ap_id p then updated_provider encrypt ?q q else q) = q" using same by auto
  qed
  ultimately show ?thesis using assms(1) by (simp add: handle_save_request_def update_auth_provider_def)
qed

text \<open>
  What an edit stores: the fields of the form, a secret only when one was typed; but an address
  that was emptied stays as it was.
\<close>

theorem edit_stores:
  assumes "av_editing s = Some d" "handle_save_request encrypt new (snd (handleSave s)) ps = Inr ps'"
    and "p \<in> set ps" "ap_id p = ap_id d"
  shows "\<exists>p' \<in> set ps'. ap_id p' = ap_id p \<and> ap_name p' = pf_name (av_form s)
    \<and> ap_enabled p' = pf_enabled (av_form s)
    \<and> ap_secret p' = (if pf_client_secret (av_form s) = [] then ap_secret p
                      else encrypt (pf_client_secret (av_form s)))
    \<and> ap_discovery_url p' = (if pf_discovery_url (av_form s) = [] then ap_discovery_url p
                             else Some (pf_discovery_url (av_form s)))
    \<and> ap_userinfo_url p' = (if pf_userinfo_url (av_form s) = [] then ap_userinfo_url p
                            else Some (pf_userinfo_url (av_form s)))"
proof -
  let ?q = "form_request True (av_form s)"
  have "ps' = map (\<lambda>p. if ap_id p = ap_id d then updated_provider encrypt ?q p else p) ps"
    using assms(1,2) by (simp add: handle_save_request_def handleSave_def update_auth_provider_def split: if_splits)
  then have "updated_provider encrypt ?q p \<in> set ps'" using assms(3,4) by force
  then show ?thesis
    by (rule bexI [rotated]) (simp add: updated_provider_def form_request_def or_undefined_def)
qed

lemma public_list_enabled:
  "(i, n, t) \<in> set (list_enabled_providers ps) \<longleftrightarrow>
     (\<exists>p \<in> set ps. ap_enabled p \<and> ap_id p = i \<and> ap_name p = n \<and> ap_type p = t)"
  by (auto simp: list_enabled_providers_def)

text \<open>Names of providers stay different through creation; an edit does not look at the names taken.\<close>

lemma create_distinct:
  "distinct (map ap_name ps) \<Longrightarrow> create_auth_provider encrypt new q ps = Inr ps' \<Longrightarrow> distinct (map ap_name ps')"
  by (auto simp: create_auth_provider_def split: if_splits)

text \<open>
  C9: A callback sets a cookie only for a provider that is enabled, and only for the user with the
  address its service gave; a user it creates is no superuser, and is created only when the
  provider may.
\<close>

theorem sign_on_sound:
  assumes "oauth_callback py_str fetch fresh token pid ps db = (Inr (to, Some uid), db')"
  shows "\<exists>p \<in> set ps. ap_id p = pid \<and> ap_enabled p \<and>
    (\<exists>u \<in> set (so_users db'). su_id u = uid
      \<and> su_email u = snd (account_claims py_str (Option.bind (userinfo_address fetch p) fetch))
      \<and> (u \<in> set (so_users db) \<or> ap_auto_register p \<and> \<not> su_superuser u))"
proof (cases rule: callback_cases [of py_str fetch fresh token pid ps db])
  case (nothing r)
  then show ?thesis using assms by auto
next
  case (login p c)
  have p: "p \<in> set ps" "ap_id p = pid" using login(1) find_SomeD by fastforce+
  have "\<exists>u \<in> set (so_users db'). su_id u = uid \<and> su_email u = cl_email c
      \<and> (u \<in> set (so_users db) \<or> cl_auto_register c \<and> \<not> su_superuser u)"
  proof (cases rule: login_cases [of c db fresh])
    case refused
    then show ?thesis using assms login(6) by simp
  next
    case (known u a)
    then show ?thesis using assms login(6) find_SomeD [OF known(1)] by auto
  next
    case (created urs a)
    then show ?thesis using assms login(6) by auto
  qed
  with p login show ?thesis by auto
qed

theorem sign_on_sound_witness:
  "\<exists>u \<in> set (so_users (snd (oauth_callback js_text
       (\<lambda>a. if a = ''https://i/u'' then Some (JObject [(''sub'', JNum 7), (''email'', JString ''a@b'')]) else None)
       (''u2'', ''a1'') (Some ''t'') ''p''
       [\<lparr>ap_id = ''p'', ap_name = ''I'', ap_type = ''oidc'', ap_client_id = ''c'',
         ap_discovery_url = Some ''https://i/d'', ap_authorize_url = None, ap_token_url = None,
         ap_userinfo_url = Some ''https://i/u'', ap_scopes = ''openid'', ap_enabled = True,
         ap_auto_register = True, ap_role_ids = [], ap_secret = ''x''\<rparr>]
       \<lparr>so_users = [\<lparr>su_id = ''u1'', su_email = ''r@b'', su_superuser = True\<rparr>], so_roles = [],
        so_user_roles = [], so_accounts = []\<rparr>))). su_id u = ''u2'' \<and> su_email u = ''a@b''"
  (is "\<exists>u \<in> set (so_users (snd (oauth_callback _ ?f _ _ _ ?ps ?db))). _ u")
proof -
  let ?r = "oauth_callback js_text ?f (''u2'', ''a1'') (Some ''t'') ''p'' ?ps ?db"
  have "fst ?r = Inr (''/admin/dashboard'', Some ''u2'')" by code_simp
  then have r: "?r = (Inr (''/admin/dashboard'', Some ''u2''), snd ?r)" by (simp add: prod_eq_iff)
  have "snd (account_claims js_text (Option.bind (userinfo_address ?f p) ?f)) = ''a@b''" if "p \<in> set ?ps" for p
  proof -
    have "p = hd ?ps" using that by simp
    moreover have "snd (account_claims js_text (Option.bind (userinfo_address ?f (hd ?ps)) ?f)) = ''a@b''"
      by code_simp
    ultimately show ?thesis by simp
  qed
  with sign_on_sound [OF r] show ?thesis by fastforce
qed

text \<open>The state after a list of callbacks.\<close>

definition callbacks ::
  "(json \<Rightarrow> string) \<Rightarrow> (string \<Rightarrow> json option) \<Rightarrow> ((string \<times> string) \<times> string option \<times> string) list
   \<Rightarrow> stored_provider list \<Rightarrow> sign_on_db \<Rightarrow> sign_on_db" where
  "callbacks py_str fetch es ps db =
     fold (\<lambda>(fresh, token, pid) db. snd (oauth_callback py_str fetch fresh token pid ps db)) es db"

lemma sign_ons_keep_users:
  "filter su_superuser (so_users (callbacks py_str fetch es ps db)) = filter su_superuser (so_users db)
   \<and> (distinct (map su_email (so_users db)) \<longrightarrow>
        distinct (map su_email (so_users (callbacks py_str fetch es ps db))))"
proof (induction es arbitrary: db)
  case Nil
  then show ?case by (simp add: callbacks_def)
next
  case (Cons e es)
  obtain fresh token pid where e: "e = (fresh, token, pid)" by (cases e)
  let ?db = "snd (oauth_callback py_str fetch fresh token pid ps db)"
  have step: "filter su_superuser (so_users ?db) = filter su_superuser (so_users db)
      \<and> (distinct (map su_email (so_users db)) \<longrightarrow> distinct (map su_email (so_users ?db)))"
  proof (cases rule: callback_cases [of py_str fetch fresh token pid ps db])
    case (login p c)
    then show ?thesis
      by (cases rule: login_cases [of c db fresh]) (auto simp: find_None_iff)
  qed simp
  have "callbacks py_str fetch (e # es) ps db = callbacks py_str fetch es ps ?db"
    by (simp add: callbacks_def e)
  with Cons.IH [of ?db] step show ?case by simp
qed

text \<open>
  However many callbacks end, whatever the services answer, the superusers stay the same.
\<close>

theorem no_new_superusers:
  "filter su_superuser (so_users (callbacks py_str fetch es ps db)) = filter su_superuser (so_users db)"
  using sign_ons_keep_users by blast

text \<open>Every sign-on of a user leaves one more account: the update on conflict never happens.\<close>

lemma accounts_grow:
  assumes "process_oauth_login fresh c db = ((to, Some uid), db')" "snd fresh \<notin> oa_id ` set (so_accounts db)"
  shows "length (so_accounts db') = Suc (length (so_accounts db))"
  using assms by (cases rule: login_cases [of c db fresh]) (auto simp: upsert_account_def)

text \<open>
  The address alone decides who is signed in: a service that reports the address of an
  administrator signs in as the administrator, whatever account of it this is.
\<close>

lemma address_signs_in:
  assumes "find (\<lambda>u. su_email u = cl_email c) (so_users db) = Some u"
  shows "fst (process_oauth_login fresh c db) = (''/admin/dashboard'', Some (su_id u))"
  using assms by (simp add: process_oauth_login_def Let_def)

end
