(* ===== verification/Profile_Page.thy ===== *)
theory Profile_Page
  imports Prelude
begin

text \<open>
  The profile of the user, \<^verbatim>\<open>pages/admin/ProfilePage.tsx\<close>, with the two requests of the backend,
  \<^verbatim>\<open>web/api/admin/users/views.py\<close>: changing the password and making a token for the gateway.
  The hash of passwords and its check, and the encoding of a token, are parameters.
\<close>

subsection \<open>The page\<close>

definition EXPIRY_OPTIONS :: "(string \<times> int option) list" where
  "EXPIRY_OPTIONS =
     [(''1 hour'', Some 3600), (''24 hours'', Some 86400), (''7 days'', Some 604800),
      (''30 days'', Some 2592000), (''90 days'', Some 7776000), (''No expiry'', None)]"

datatype password_error = Mismatch | Too_short | Refused string

record profile_page =
  pw_current :: string
  pw_new :: string
  pw_confirm :: string
  pw_error :: "password_error option"
  pw_success :: bool
  pw_loading :: bool
  tk_tenant :: string
  tk_expires :: "int option"
  tk_token :: "string option"
  tk_error :: "string option"
  tk_loading :: bool
  tk_copied :: bool

definition profile_start :: profile_page where
  "profile_start =
     \<lparr>pw_current = [], pw_new = [], pw_confirm = [], pw_error = None, pw_success = False,
      pw_loading = False, tk_tenant = ''default'', tk_expires = Some 86400, tk_token = None,
      tk_error = None, tk_loading = False, tk_copied = False\<rparr>"

text \<open>When the button of the form can be pressed.\<close>

definition change_enabled :: "profile_page \<Rightarrow> bool" where
  "change_enabled p = (\<not> (pw_loading p \<or> pw_current p = [] \<or> pw_new p = [] \<or> pw_confirm p = []))"

definition handleChangePassword :: "profile_page \<Rightarrow> profile_page \<times> (string \<times> string) option" where
  "handleChangePassword p =
     (let p' = p\<lparr>pw_error := None, pw_success := False\<rparr>
      in if pw_new p \<noteq> pw_confirm p then (p'\<lparr>pw_error := Some Mismatch\<rparr>, None)
         else if length (pw_new p) < 6 then (p'\<lparr>pw_error := Some Too_short\<rparr>, None)
         else (p'\<lparr>pw_loading := True\<rparr>, Some (pw_current p, pw_new p)))"

definition change_answered :: "string option \<Rightarrow> profile_page \<Rightarrow> profile_page" where
  "change_answered failed p =
     (case failed of
        None \<Rightarrow> p\<lparr>pw_success := True, pw_current := [], pw_new := [], pw_confirm := [], pw_loading := False\<rparr>
      | Some m \<Rightarrow> p\<lparr>pw_error := Some (Refused m), pw_loading := False\<rparr>)"

text \<open>The entry of the menu: \<open>none\<close> stands for no expiry.\<close>

definition expiry_value :: "int option \<Rightarrow> string" where
  "expiry_value e = (case e of None \<Rightarrow> ''none'' | Some n \<Rightarrow> show_int n)"

definition choose_expiry :: "(string \<Rightarrow> int) \<Rightarrow> string \<Rightarrow> profile_page \<Rightarrow> profile_page" where
  "choose_expiry js_number v p = p\<lparr>tk_expires := (if v = ''none'' then None else Some (js_number v))\<rparr>"

definition generate_enabled :: "profile_page \<Rightarrow> bool" where
  "generate_enabled p = (\<not> (tk_loading p \<or> trim (tk_tenant p) = []))"

definition handleGenerateToken :: "profile_page \<Rightarrow> profile_page \<times> string \<times> int option" where
  "handleGenerateToken p =
     (p\<lparr>tk_error := None, tk_token := None, tk_copied := False, tk_loading := True\<rparr>,
      tk_tenant p, tk_expires p)"

definition generate_answered :: "string + string \<Rightarrow> profile_page \<Rightarrow> profile_page" where
  "generate_answered a p =
     (case a of
        Inr t \<Rightarrow> p\<lparr>tk_token := Some t, tk_loading := False\<rparr>
      | Inl m \<Rightarrow> p\<lparr>tk_error := Some m, tk_loading := False\<rparr>)"

definition handleCopyToken :: "profile_page \<Rightarrow> profile_page \<times> string option" where
  "handleCopyToken p =
     (case tk_token p of
        Some (c # cs) \<Rightarrow> (p\<lparr>tk_copied := True\<rparr>, Some (c # cs))
      | _ \<Rightarrow> (p, None))"

subsection \<open>The backend\<close>

datatype account_error = Invalid_fields | Wrong_password | No_secret

definition change_password ::
  "(string \<Rightarrow> 'h) \<Rightarrow> (string \<Rightarrow> 'h \<Rightarrow> bool) \<Rightarrow> string \<times> string \<Rightarrow> 'h \<Rightarrow> account_error + 'h" where
  "change_password hash verify q stored =
     (let (current, new) = q
      in if current = [] \<or> length new < 6 then Inl Invalid_fields
         else if \<not> verify current stored then Inl Wrong_password
         else Inr (hash new))"

record account =
  ac_id :: string
  ac_email :: string

definition token_claims :: "account \<Rightarrow> int \<Rightarrow> string \<Rightarrow> string \<Rightarrow> int option \<Rightarrow> (string \<times> json) list" where
  "token_claims u now jti tenant expires =
     [(''sub'', JString (ac_id u)), (''tenant_id'', JString tenant), (''email'', JString (ac_email u)),
      (''iat'', JNum now), (''jti'', JString jti)]
     @ (case expires of None \<Rightarrow> [] | Some n \<Rightarrow> [(''exp'', JNum (now + n))])"

definition generate_api_token ::
  "(string \<Rightarrow> (string \<times> json) list \<Rightarrow> string) \<Rightarrow> string option \<Rightarrow> account \<Rightarrow> int \<Rightarrow> string
   \<Rightarrow> string \<times> int option \<Rightarrow> account_error + string" where
  "generate_api_token encode secret u now jti q =
     (let (tenant, expires) = q
      in if tenant = [] \<or> 128 < length tenant then Inl Invalid_fields
         else if \<not> truthy secret then Inl No_secret
         else Inr (encode (the secret) (token_claims u now jti tenant expires)))"

subsection \<open>Properties\<close>

text \<open>
  A change that the server makes is to the password typed twice, by one who knows the old one;
  and a form that passes the checks of the page is refused for a wrong password only.
\<close>

theorem password_change_exact:
  assumes "change_enabled p" "\<And>s. verify s (hash s)"
  shows "(case snd (handleChangePassword p) of
            None \<Rightarrow> pw_new p \<noteq> pw_confirm p \<or> length (pw_new p) < 6
          | Some q \<Rightarrow>
              q = (pw_current p, pw_confirm p)
              \<and> (case change_password hash verify q stored of
                   Inl e \<Rightarrow> e = Wrong_password \<and> \<not> verify (pw_current p) stored
                 | Inr h \<Rightarrow> verify (pw_current p) stored \<and> verify (pw_confirm p) h))"
proof (cases "pw_new p \<noteq> pw_confirm p \<or> length (pw_new p) < 6")
  case True
  then show ?thesis by (cases "pw_new p \<noteq> pw_confirm p") (simp_all add: handleChangePassword_def Let_def)
next
  case False
  then have c: "pw_confirm p = pw_new p" "\<not> length (pw_new p) < 6" "pw_current p \<noteq> []"
    using assms(1) by (simp_all add: change_enabled_def)
  have h: "verify (pw_new p) (hash (pw_new p))" by (rule assms(2))
  have "snd (handleChangePassword p) = Some (pw_current p, pw_new p)"
    using c by (simp add: handleChangePassword_def Let_def)
  moreover have "change_password hash verify (pw_current p, pw_new p) stored =
      (if verify (pw_current p) stored then Inr (hash (pw_new p)) else Inl Wrong_password)"
    using c by (simp add: change_password_def)
  ultimately show ?thesis using c h by simp
qed

text \<open>A refused change keeps what was typed, a successful one clears it.\<close>

lemma change_answered_fields:
  "pw_new (change_answered (Some m) p) = pw_new p" "pw_new (change_answered None p) = []"
  "pw_current (change_answered None p) = []" "\<not> pw_loading (change_answered a p)"
  by (cases a; simp add: change_answered_def)+

text \<open>Every entry of the menu sets the lifetime it stands for.\<close>

lemma expiry_chosen:
  assumes "(l, e) \<in> set EXPIRY_OPTIONS" "\<And>n. js_number (show_int n) = n"
  shows "tk_expires (choose_expiry js_number (expiry_value e) p) = e"
proof -
  have "\<not> list_all is_digit ''none''" by code_simp
  then have "show_nat n \<noteq> ''none''" for n using is_digit_show [of n] by metis
  then have "show_int n \<noteq> ''none''" if "0 \<le> n" for n using that by (simp add: show_int_def)
  moreover have "e = None \<or> (\<exists>n. e = Some n \<and> 0 \<le> n)" using assms(1) by (auto simp: EXPIRY_OPTIONS_def)
  ultimately show ?thesis using assms(2) by (auto simp: choose_expiry_def expiry_value_def)
qed

text \<open>A token ends when the entry says, or never for the last entry.\<close>

theorem token_lifetime:
  "snd (snd (handleGenerateToken p)) = tk_expires p
   \<and> map_of (token_claims u now jti (tk_tenant p) (tk_expires p)) ''exp''
       = map_option (\<lambda>n. JNum (now + n)) (tk_expires p)
   \<and> map_of (token_claims u now jti (tk_tenant p) (tk_expires p)) ''tenant_id'' = Some (JString (tk_tenant p))"
  by (simp add: handleGenerateToken_def token_claims_def split: option.split)

text \<open>The tenant of the token is the text of the field; no tenant is refused to a user.\<close>

lemma any_tenant:
  assumes "truthy secret" "tenant \<noteq> []" "length tenant \<le> 128"
  shows "generate_api_token encode secret u now jti (tenant, e)
    = Inr (encode (the secret) (token_claims u now jti tenant e))"
  using assms by (simp add: generate_api_token_def)

end
