(* ===== verification/Llm_Providers.thy ===== *)
theory Llm_Providers
  imports Prelude
begin

text \<open>
  Providers of models: the page \<^verbatim>\<open>pages/admin/llm/ProvidersPage.tsx\<close> and what its requests do on the
  server for providers at a remote address: \<^verbatim>\<open>web/api/llm/providers.py\<close>, the service
  \<^verbatim>\<open>services/llm/service.py\<close>, the stores of \<^verbatim>\<open>db/dao/llm_dao.py\<close>, and the routing records of the
  gateway kept by \<^verbatim>\<open>services/llm/gateway_sync.py\<close>. Containers and nodes are left out; the probe
  of an address, whether a runtime can be made and which writes to the gateway go through are parameters;
  addresses have no line breaks.
\<close>

subsection \<open>Records\<close>

record llm_provider =
  lp_id :: string
  lp_name :: string
  lp_remote :: bool
  lp_url :: "string option"
  lp_key :: "string option"
  lp_remote_model :: "string option"
  lp_litellm :: "string option"

record llm_model =
  lm_id :: string
  lm_name :: string
  lm_auto :: bool
  lm_available :: bool
  lm_remote :: bool

record llm_runtime =
  lr_id :: string
  lr_name :: string
  lr_provider :: string
  lr_model :: string
  lr_url :: string

text \<open>The routing records: names that are enabled, instances with their addresses, and who serves which name.\<close>

record gateway =
  gw_aliases :: "string \<rightharpoonup> bool"
  gw_instances :: "string \<rightharpoonup> string"
  gw_members :: "(string \<times> string) list"

record llm_db =
  db_providers :: "llm_provider list"
  db_models :: "llm_model list"
  db_runtimes :: "llm_runtime list"
  db_gateway :: gateway

subsection \<open>The gateway\<close>

definition normalize_base_url :: "string \<Rightarrow> string" where
  "normalize_base_url url =
     (let u = rev (dropWhile (\<lambda>c. c = CHR ''/'') (rev url))
      in if take 3 (rev u) = rev ''/v1'' then take (length u - 3) u else u)"

text \<open>
  Each change of the records is one transaction of its own. It is left out when no gateway is configured, and
  when it fails the exception is only logged; \<open>ok i\<close> says whether the one for the instance \<open>i\<close> goes through.
\<close>

definition publish_runtime :: "(string \<Rightarrow> bool) \<Rightarrow> string \<Rightarrow> string \<Rightarrow> string \<Rightarrow> gateway \<Rightarrow> gateway" where
  "publish_runtime ok rid alias url g =
     (if \<not> ok rid then g
      else g\<lparr>gw_aliases := (gw_aliases g)(alias \<mapsto> True),
             gw_instances := (gw_instances g)(rid \<mapsto> normalize_base_url url),
             gw_members := (if (alias, rid) \<in> set (gw_members g) then gw_members g
                            else gw_members g @ [(alias, rid)])\<rparr>)"

text \<open>The memberships of an instance that is removed go with it.\<close>

definition unpublish_runtime :: "(string \<Rightarrow> bool) \<Rightarrow> string \<Rightarrow> string \<Rightarrow> gateway \<Rightarrow> gateway" where
  "unpublish_runtime ok rid alias g =
     (if \<not> ok rid then g
      else let ms = filter (\<lambda>m. snd m \<noteq> rid) (filter (\<lambda>m. m \<noteq> (alias, rid)) (gw_members g))
      in \<lparr>gw_aliases =
            (if alias \<in> fst ` set ms \<or> gw_aliases g alias = None then gw_aliases g
             else (gw_aliases g)(alias \<mapsto> False)),
          gw_instances = (gw_instances g)(rid := None), gw_members = ms\<rparr>)"

subsection \<open>Creating\<close>

record create_request =
  cq_name :: string
  cq_remote :: bool
  cq_url :: "string option"
  cq_key :: "string option"
  cq_remote_model :: "string option"
  cq_litellm :: "string option"
  cq_litellm_model :: "string option"

datatype llm_error = Bad_request | Over_capacity | No_provider | Failed

definition stripped :: "string option \<Rightarrow> string" where
  "stripped v = (case v of None \<Rightarrow> [] | Some s \<Rightarrow> py_strip s)"

definition nonblank :: "string option \<Rightarrow> string option" where
  "nonblank v = (if stripped v = [] then None else Some (stripped v))"

definition create_llm_provider ::
  "nat option \<Rightarrow> string \<Rightarrow> create_request \<Rightarrow> llm_provider list \<Rightarrow> llm_error + llm_provider" where
  "create_llm_provider limit pid q ps =
     (if cq_remote q \<and> \<not> truthy (cq_url q) \<and> \<not> truthy (cq_litellm q) then Inl Failed
      else if cq_remote q \<and> (case limit of None \<Rightarrow> False | Some n \<Rightarrow> n \<le> length (filter lp_remote ps))
      then Inl Over_capacity
      else Inr \<lparr>lp_id = pid, lp_name = cq_name q, lp_remote = cq_remote q,
        lp_url = (if truthy (cq_url q) then map_option normalize_base_url (cq_url q) else cq_url q),
        lp_key = cq_key q,
        lp_remote_model = (if cq_remote q then nonblank (cq_remote_model q) else None),
        lp_litellm = cq_litellm q\<rparr>)"

text \<open>The name under which a remote model is offered.\<close>

definition alias_name :: "(string \<Rightarrow> string option) \<Rightarrow> create_request \<Rightarrow> string" where
  "alias_name probe q =
     (let a1 = stripped (cq_remote_model q);
          a2 = (if a1 = [] then stripped (cq_litellm_model q) else a1);
          a3 = (if a2 = [] \<and> truthy (cq_url q)
                then (case probe (the (cq_url q)) of None \<Rightarrow> [] | Some m \<Rightarrow> m) else a2);
          a4 = (if a3 = [] then stripped (cq_litellm q) else a3)
      in if a4 = [] then py_strip (cq_name q) else a4)"

definition find_by_display_name :: "string \<Rightarrow> llm_model list \<Rightarrow> llm_model option" where
  "find_by_display_name n ms = find (\<lambda>m. lm_name m = n \<and> lm_available m) ms"

text \<open>The model of the name, which is made when there is none and becomes remote when there is one.\<close>

definition placeholder_model :: "string \<Rightarrow> string \<Rightarrow> llm_model list \<Rightarrow> string \<times> llm_model list" where
  "placeholder_model mid n ms =
     (case find_by_display_name n ms of
        None \<Rightarrow> (mid, ms @ [\<lparr>lm_id = mid, lm_name = n, lm_auto = True, lm_available = True, lm_remote = True\<rparr>])
      | Some m \<Rightarrow> (lm_id m, map (\<lambda>x. if lm_id x = lm_id m then x\<lparr>lm_remote := True\<rparr> else x) ms))"

definition remote_address :: "llm_provider \<Rightarrow> string" where
  "remote_address p =
     (case lp_url p of
        Some (c # cs) \<Rightarrow> c # cs
      | _ \<Rightarrow> ''litellm://'' @ (case lp_litellm p of None \<Rightarrow> [] | Some l \<Rightarrow> l))"

text \<open>
  The provider is committed first. When its runtime cannot be created (\<open>made\<close> is false) the exception is
  logged, and the provider and the model stay without one.
\<close>

definition create_provider ::
  "nat option \<Rightarrow> (string \<Rightarrow> string option) \<Rightarrow> bool \<Rightarrow> (string \<Rightarrow> bool) \<Rightarrow> string \<times> string \<times> string
   \<Rightarrow> create_request \<Rightarrow> llm_db \<Rightarrow> llm_error + llm_db" where
  "create_provider limit probe made ok fresh q db =
     (let (pid, mid, rid) = fresh
      in if cq_name q = [] \<or> 256 < length (cq_name q) then Inl Bad_request
         else (case create_llm_provider limit pid q (db_providers db) of
                 Inl e \<Rightarrow> Inl e
               | Inr p \<Rightarrow>
                   (if \<not> cq_remote q then Inr (db\<lparr>db_providers := db_providers db @ [p]\<rparr>)
                    else (let n = alias_name probe q;
                              (m, ms) = placeholder_model mid n (db_models db);
                              url = remote_address p;
                              db' = db\<lparr>db_providers := db_providers db @ [p], db_models := ms\<rparr>
                          in Inr (if \<not> made then db'
                               else db'\<lparr>db_runtimes := db_runtimes db
                                   @ [\<lparr>lr_id = rid, lr_name = n, lr_provider = pid, lr_model = m, lr_url = url\<rparr>],
                                 db_gateway := publish_runtime ok rid n url (db_gateway db)\<rparr>)))))"

subsection \<open>Changing\<close>

text \<open>A change: the remote model may be left out, emptied or given.\<close>

record update_request =
  uq_name :: string
  uq_url :: "string option"
  uq_key :: "string option"
  uq_remote_model :: "string option option"

definition rename_cascade :: "string \<Rightarrow> string \<Rightarrow> string \<Rightarrow> llm_db \<Rightarrow> llm_db" where
  "rename_cascade pid old new db =
     (let rts = filter (\<lambda>r. lr_provider r = pid) (db_runtimes db)
      in db\<lparr>db_models := map (\<lambda>m. if lm_id m \<in> lr_model ` set rts \<and> lm_auto m \<and> lm_name m = old
                               then m\<lparr>lm_name := new\<rparr> else m) (db_models db),
            db_runtimes := map (\<lambda>r. if lr_provider r = pid \<and> lr_name r = old
                                 then r\<lparr>lr_name := new\<rparr> else r) (db_runtimes db)\<rparr>)"

definition updated :: "update_request \<Rightarrow> llm_provider \<Rightarrow> llm_provider" where
  "updated q p =
     p\<lparr>lp_name := uq_name q,
       lp_url := (case uq_url q of None \<Rightarrow> lp_url p | Some u \<Rightarrow> Some u),
       lp_key := (case uq_key q of None \<Rightarrow> lp_key p | Some k \<Rightarrow> Some k),
       lp_remote_model := (case uq_remote_model q of None \<Rightarrow> lp_remote_model p | Some v \<Rightarrow> nonblank v)\<rparr>"

definition update_provider :: "string \<Rightarrow> update_request \<Rightarrow> llm_db \<Rightarrow> llm_error + llm_db" where
  "update_provider pid q db =
     (if uq_name q = [] \<or> 256 < length (uq_name q) then Inl Bad_request
      else (case find (\<lambda>p. lp_id p = pid) (db_providers db) of
              None \<Rightarrow> Inl No_provider
            | Some p \<Rightarrow>
                (let db' = db\<lparr>db_providers := map (\<lambda>x. if lp_id x = pid then updated q x else x) (db_providers db)\<rparr>
                 in Inr (case (lp_remote_model p, Option.bind (uq_remote_model q) nonblank) of
                           (Some old, Some new) \<Rightarrow>
                             if new \<noteq> old \<and> lp_remote p then rename_cascade pid old new db' else db'
                         | _ \<Rightarrow> db'))))"

subsection \<open>Deleting\<close>

definition delete_runtime :: "(string \<Rightarrow> bool) \<Rightarrow> llm_runtime \<Rightarrow> llm_db \<Rightarrow> llm_db" where
  "delete_runtime ok r db =
     db\<lparr>db_gateway := unpublish_runtime ok (lr_id r) (lr_name r) (db_gateway db),
        db_runtimes := filter (\<lambda>x. lr_id x \<noteq> lr_id r) (db_runtimes db)\<rparr>"

definition remove_orphans :: "string list \<Rightarrow> llm_db \<Rightarrow> llm_db" where
  "remove_orphans mids db =
     db\<lparr>db_models := filter (\<lambda>m. \<not> (lm_id m \<in> set mids \<and> lm_auto m \<and> lm_id m \<notin> lr_model ` set (db_runtimes db)))
       (db_models db)\<rparr>"

definition delete_provider :: "(string \<Rightarrow> bool) \<Rightarrow> string \<Rightarrow> llm_db \<Rightarrow> llm_error + llm_db" where
  "delete_provider ok pid db =
     (if pid \<notin> lp_id ` set (db_providers db) then Inl No_provider
      else (let rts = filter (\<lambda>r. lr_provider r = pid) (db_runtimes db);
                db1 = fold (delete_runtime ok) rts db;
                db2 = db1\<lparr>db_providers := filter (\<lambda>p. lp_id p \<noteq> pid) (db_providers db1)\<rparr>
            in Inr (remove_orphans (map lr_model rts) db2)))"

datatype llm_request =
    Create_provider "string \<times> string \<times> string" create_request
  | Update_provider string update_request
  | Delete_provider string

definition serve_llm ::
  "nat option \<Rightarrow> (string \<Rightarrow> string option) \<Rightarrow> bool \<Rightarrow> (string \<Rightarrow> bool) \<Rightarrow> llm_request \<Rightarrow> llm_db \<Rightarrow> llm_db" where
  "serve_llm limit probe made ok q db =
     (case (case q of
              Create_provider fresh c \<Rightarrow> create_provider limit probe made ok fresh c db
            | Update_provider pid u \<Rightarrow> update_provider pid u db
            | Delete_provider pid \<Rightarrow> delete_provider ok pid db) of
        Inl e \<Rightarrow> db
      | Inr db' \<Rightarrow> db')"

subsection \<open>The page\<close>

record provider_row =
  row_provider :: llm_provider
  row_runtime :: "llm_runtime option"
  row_model :: "llm_model option"

text \<open>A map is filled from the list: a later entry replaces an earlier one.\<close>

definition runtimeByProvider :: "llm_runtime list \<Rightarrow> string \<Rightarrow> llm_runtime option" where
  "runtimeByProvider rs = fold (\<lambda>r f. f(lr_provider r \<mapsto> r)) rs Map.empty"

definition modelMap :: "llm_model list \<Rightarrow> string \<Rightarrow> llm_model option" where
  "modelMap ms = fold (\<lambda>m f. f(lm_id m \<mapsto> m)) ms Map.empty"

definition provider_rows ::
  "llm_provider list \<Rightarrow> llm_runtime list \<Rightarrow> llm_model list \<Rightarrow> provider_row list" where
  "provider_rows ps rs ms =
     map (\<lambda>p. let rt = runtimeByProvider rs (lp_id p)
              in \<lparr>row_provider = p, row_runtime = rt,
                  row_model = Option.bind rt (\<lambda>r. modelMap ms (lr_model r))\<rparr>) ps"

record edit_dialog =
  ed_target :: llm_provider
  ed_name :: string
  ed_url :: string
  ed_key :: string
  ed_remote_model :: string

definition open_edit :: "llm_provider \<Rightarrow> edit_dialog" where
  "open_edit p =
     \<lparr>ed_target = p, ed_name = lp_name p,
      ed_url = (case lp_url p of
                  Some u \<Rightarrow> if starts_with u ''litellm://'' then [] else u
                | None \<Rightarrow> []),
      ed_key = [], ed_remote_model = (case lp_remote_model p of None \<Rightarrow> [] | Some m \<Rightarrow> m)\<rparr>"

definition save_disabled :: "edit_dialog \<Rightarrow> bool" where
  "save_disabled d =
     (trim (ed_name d) = []
      \<or> lp_remote (ed_target d) \<and> trim (ed_url d) = [] \<and> \<not> truthy (lp_litellm (ed_target d)))"

definition or_undefined :: "string \<Rightarrow> string option" where
  "or_undefined s = (if s = [] then None else Some s)"

definition handleUpdate :: "edit_dialog \<Rightarrow> string \<times> update_request" where
  "handleUpdate d =
     (lp_id (ed_target d),
      if lp_remote (ed_target d)
      then \<lparr>uq_name = trim (ed_name d), uq_url = or_undefined (trim (ed_url d)),
            uq_key = or_undefined (trim (ed_key d)),
            uq_remote_model = Some (or_undefined (trim (ed_remote_model d)))\<rparr>
      else \<lparr>uq_name = trim (ed_name d), uq_url = None, uq_key = None, uq_remote_model = None\<rparr>)"

subsection \<open>Lemmas\<close>

lemma fold_map_last:
  "fold (\<lambda>r f. f(key r \<mapsto> r)) rs g k =
     (case filter (\<lambda>r. key r = k) rs of [] \<Rightarrow> g k | _ \<Rightarrow> Some (last (filter (\<lambda>r. key r = k) rs)))"
  by (induction rs arbitrary: g) (auto split: list.splits)

text \<open>The records of the gateway agree with the runtimes.\<close>

definition routed :: "llm_runtime list \<Rightarrow> gateway \<Rightarrow> bool" where
  "routed rs g =
     (distinct (map lr_id rs)
      \<and> set (gw_members g) = (\<lambda>r. (lr_name r, lr_id r)) ` set rs
      \<and> (\<forall>a. gw_aliases g a = Some True \<longleftrightarrow> a \<in> lr_name ` set rs)
      \<and> (\<forall>r \<in> set rs. gw_instances g (lr_id r) = Some (normalize_base_url (lr_url r)))
      \<and> dom (gw_instances g) = lr_id ` set rs)"

lemma publish_routed:
  assumes "routed rs g" "lr_id r \<notin> lr_id ` set rs" "ok (lr_id r)"
  shows "routed (rs @ [r]) (publish_runtime ok (lr_id r) (lr_name r) (lr_url r) g)"
  unfolding routed_def
proof (intro conjI)
  note a = assms(1) [unfolded routed_def]
  show "distinct (map lr_id (rs @ [r]))" using a assms(2) by simp
  show "set (gw_members (publish_runtime ok (lr_id r) (lr_name r) (lr_url r) g))
      = (\<lambda>r. (lr_name r, lr_id r)) ` set (rs @ [r])" using a assms(3) by (auto simp: publish_runtime_def)
  show "\<forall>b. gw_aliases (publish_runtime ok (lr_id r) (lr_name r) (lr_url r) g) b = Some True
      \<longleftrightarrow> b \<in> lr_name ` set (rs @ [r])" using a assms(3) by (auto simp: publish_runtime_def)
  show "\<forall>x \<in> set (rs @ [r]). gw_instances (publish_runtime ok (lr_id r) (lr_name r) (lr_url r) g) (lr_id x)
      = Some (normalize_base_url (lr_url x))"
  proof
    fix x
    assume x: "x \<in> set (rs @ [r])"
    have "lr_id x \<noteq> lr_id r" if "x \<in> set rs" using that assms(2) by (metis image_eqI)
    then show "gw_instances (publish_runtime ok (lr_id r) (lr_name r) (lr_url r) g) (lr_id x)
        = Some (normalize_base_url (lr_url x))" using a x assms(3) by (auto simp: publish_runtime_def)
  qed
  show "dom (gw_instances (publish_runtime ok (lr_id r) (lr_name r) (lr_url r) g)) = lr_id ` set (rs @ [r])"
    using a assms(3) by (auto simp: publish_runtime_def)
qed

lemma unpublish_routed:
  assumes "routed rs g" "r \<in> set rs" "ok (lr_id r)"
  shows "routed (filter (\<lambda>x. lr_id x \<noteq> lr_id r) rs) (unpublish_runtime ok (lr_id r) (lr_name r) g)"
  unfolding routed_def
proof (intro conjI)
  note a = assms(1) [unfolded routed_def]
  let ?g = "unpublish_runtime ok (lr_id r) (lr_name r) g"
  let ?rs = "filter (\<lambda>x. lr_id x \<noteq> lr_id r) rs"
  have m: "set (gw_members ?g) = {x \<in> set (gw_members g). snd x \<noteq> lr_id r}"
    using assms(3) by (auto simp: unpublish_runtime_def Let_def)
  show "distinct (map lr_id ?rs)" using a by (simp add: distinct_map_filter)
  show members: "set (gw_members ?g) = (\<lambda>r. (lr_name r, lr_id r)) ` set ?rs" using a m by auto
  have only: "lr_name x = lr_name r" if "x \<in> set rs" "lr_id x = lr_id r" for x
    using inj_onD [of lr_id "set rs" x r] that a assms(2) by (simp add: distinct_map)
  have al: "gw_aliases ?g b = (if b = lr_name r \<and> lr_name r \<notin> fst ` set (gw_members ?g) \<and> gw_aliases g b \<noteq> None
      then Some False else gw_aliases g b)" for b
    using assms(3) by (auto simp: unpublish_runtime_def Let_def)
  have names: "fst ` set (gw_members ?g) = lr_name ` set ?rs" unfolding members by force
  have r: "gw_aliases g (lr_name r) = Some True" using a assms(2) by auto
  show "\<forall>b. gw_aliases ?g b = Some True \<longleftrightarrow> b \<in> lr_name ` set ?rs"
  proof
    fix b
    show "gw_aliases ?g b = Some True \<longleftrightarrow> b \<in> lr_name ` set ?rs"
    proof (cases "b = lr_name r")
      case True
      then show ?thesis using al [of b] names r by auto
    next
      case False
      have "b \<in> lr_name ` set rs \<longleftrightarrow> b \<in> lr_name ` set ?rs" using False only by auto
      then show ?thesis using False al [of b] a by auto
    qed
  qed
  show "\<forall>x \<in> set ?rs. gw_instances ?g (lr_id x) = Some (normalize_base_url (lr_url x))"
    using a assms(3) by (auto simp: unpublish_runtime_def Let_def)
  show "dom (gw_instances ?g) = lr_id ` set ?rs"
    using a assms(3) by (auto simp: unpublish_runtime_def Let_def)
qed

text \<open>Deleting the runtimes of a provider, one after the other.\<close>

lemma delete_runtime_simps [simp]:
  "db_providers (delete_runtime ok r db) = db_providers db" "db_models (delete_runtime ok r db) = db_models db"
  "db_runtimes (delete_runtime ok r db) = filter (\<lambda>x. lr_id x \<noteq> lr_id r) (db_runtimes db)"
  "db_gateway (delete_runtime ok r db) = unpublish_runtime ok (lr_id r) (lr_name r) (db_gateway db)"
  by (simp_all add: delete_runtime_def)

lemma delete_runtimes:
  assumes "distinct (map lr_id (db_runtimes db))"
  shows "db_runtimes (fold (delete_runtime ok) rts db) = filter (\<lambda>x. lr_id x \<notin> lr_id ` set rts) (db_runtimes db)
    \<and> db_providers (fold (delete_runtime ok) rts db) = db_providers db
    \<and> db_models (fold (delete_runtime ok) rts db) = db_models db"
  using assms
proof (induction rts arbitrary: db)
  case (Cons r rts)
  from Cons.IH [of "delete_runtime ok r db"] Cons.prems show ?case
    by (auto simp: distinct_map_filter intro: filter_cong)
qed simp

lemma delete_runtimes_routed:
  assumes "routed (db_runtimes db) (db_gateway db)" "set rts \<subseteq> set (db_runtimes db)" "distinct (map lr_id rts)"
  shows "routed (db_runtimes (fold (delete_runtime (\<lambda>_. True)) rts db)) (db_gateway (fold (delete_runtime (\<lambda>_. True)) rts db))"
  using assms
proof (induction rts arbitrary: db)
  case (Cons r rts)
  have r: "r \<in> set (db_runtimes db)" using Cons.prems by simp
  have sub: "set rts \<subseteq> set (db_runtimes (delete_runtime (\<lambda>_. True) r db))"
    using Cons.prems(2,3) by (auto simp: image_iff)
  from Cons.IH [of "delete_runtime (\<lambda>_. True) r db"] sub Cons.prems(3) unpublish_routed [OF Cons.prems(1) r]
  show ?case by auto
qed simp

text \<open>The runtimes of a provider are those with its identifier, so nothing else is deleted.\<close>

lemma delete_provider_exact:
  assumes "distinct (map lr_id (db_runtimes db))" "delete_provider ok pid db = Inr db'"
  shows "db_runtimes db' = filter (\<lambda>r. lr_provider r \<noteq> pid) (db_runtimes db)"
    and "db_providers db' = filter (\<lambda>p. lp_id p \<noteq> pid) (db_providers db)"
    and "db_models db' = filter (\<lambda>m. \<not> (lm_auto m \<and> (\<exists>r \<in> set (db_runtimes db). lr_provider r = pid \<and> lr_model r = lm_id m)
           \<and> lm_id m \<notin> lr_model ` set (db_runtimes db'))) (db_models db)"
proof -
  let ?rts = "filter (\<lambda>r. lr_provider r = pid) (db_runtimes db)"
  let ?db1 = "fold (delete_runtime ok) ?rts db"
  note d = assms(1)
  note f = delete_runtimes [OF d, of ok ?rts]
  have "lr_id x \<notin> lr_id ` set ?rts \<longleftrightarrow> lr_provider x \<noteq> pid" if "x \<in> set (db_runtimes db)" for x
    using that d by (auto simp: distinct_map inj_on_def image_iff)
  then have rts: "db_runtimes ?db1 = filter (\<lambda>r. lr_provider r \<noteq> pid) (db_runtimes db)"
    using f by (auto intro: filter_cong)
  have db': "db' = remove_orphans (map lr_model ?rts) (?db1\<lparr>db_providers := filter (\<lambda>p. lp_id p \<noteq> pid) (db_providers ?db1)\<rparr>)"
    using assms(2) by (simp add: delete_provider_def Let_def split: if_splits)
  show r': "db_runtimes db' = filter (\<lambda>r. lr_provider r \<noteq> pid) (db_runtimes db)"
    using rts db' by (simp add: remove_orphans_def)
  show "db_providers db' = filter (\<lambda>p. lp_id p \<noteq> pid) (db_providers db)"
    using f db' by (simp add: remove_orphans_def)
  have "db_models db' = filter (\<lambda>m. \<not> (lm_id m \<in> lr_model ` set ?rts \<and> lm_auto m
      \<and> lm_id m \<notin> lr_model ` set (db_runtimes db'))) (db_models db)"
    using f rts r' db' by (simp add: remove_orphans_def)
  also have "\<dots> = filter (\<lambda>m. \<not> (lm_auto m \<and> (\<exists>r \<in> set (db_runtimes db). lr_provider r = pid \<and> lr_model r = lm_id m)
      \<and> lm_id m \<notin> lr_model ` set (db_runtimes db'))) (db_models db)"
    by (rule filter_cong) (auto simp: image_iff)
  finally show "db_models db' = \<dots>" .
qed

lemma delete_provider_routed:
  assumes "routed (db_runtimes db) (db_gateway db)" "delete_provider (\<lambda>_. True) pid db = Inr db'"
  shows "routed (db_runtimes db') (db_gateway db')"
proof -
  let ?rts = "filter (\<lambda>r. lr_provider r = pid) (db_runtimes db)"
  have "distinct (map lr_id (db_runtimes db))" using assms(1) by (simp add: routed_def)
  then have "set ?rts \<subseteq> set (db_runtimes db)" "distinct (map lr_id ?rts)" by (auto simp: distinct_map_filter)
  from delete_runtimes_routed [of db, OF assms(1) this]
  have r: "routed (db_runtimes (fold (delete_runtime (\<lambda>_. True)) ?rts db)) (db_gateway (fold (delete_runtime (\<lambda>_. True)) ?rts db))" .
  have "db_runtimes db' = db_runtimes (fold (delete_runtime (\<lambda>_. True)) ?rts db)"
    "db_gateway db' = db_gateway (fold (delete_runtime (\<lambda>_. True)) ?rts db)"
    using assms(2) by (auto simp: delete_provider_def Let_def remove_orphans_def split: if_splits)
  with r show ?thesis by simp
qed

text \<open>A creation adds a provider, and a runtime that is published when it is at a remote address.\<close>

lemma placeholder_known:
  assumes "placeholder_model mid n ms = (m, ms')"
  shows "m \<in> lm_id ` set ms' \<and> lm_id ` set ms \<subseteq> lm_id ` set ms' \<and> (\<forall>x \<in> set ms'. lm_id x = mid \<or> lm_id x \<in> lm_id ` set ms)"
proof (cases "find_by_display_name n ms")
  case None
  then show ?thesis using assms by (auto simp: placeholder_model_def)
next
  case (Some x)
  then have x: "x \<in> set ms" using find_SomeD by (fastforce simp: find_by_display_name_def)
  have "map lm_id ms' = map lm_id ms" "m = lm_id x"
    using assms Some by (auto simp: placeholder_model_def)
  then have "lm_id ` set ms' = lm_id ` set ms" "m = lm_id x" by (metis set_map)+
  then show ?thesis using x by blast
qed

lemma create_cases:
  assumes "create_provider limit probe made ok (pid, mid, rid) q db = Inr db'"
  obtains (docker) p where "lp_id p = pid" "\<not> cq_remote q" "db' = db\<lparr>db_providers := db_providers db @ [p]\<rparr>"
  | (bare) p m ms where "lp_id p = pid" "\<not> made"
      "placeholder_model mid (alias_name probe q) (db_models db) = (m, ms)"
      "db' = db\<lparr>db_providers := db_providers db @ [p], db_models := ms\<rparr>"
  | (remote) p m ms r where "lp_id p = pid" "placeholder_model mid (alias_name probe q) (db_models db) = (m, ms)"
      "lr_id r = rid" "lr_name r = alias_name probe q" "lr_provider r = pid" "lr_model r = m"
      "db' = \<lparr>db_providers = db_providers db @ [p], db_models = ms, db_runtimes = db_runtimes db @ [r],
        db_gateway = publish_runtime ok (lr_id r) (lr_name r) (lr_url r) (db_gateway db)\<rparr>"
proof -
  obtain p where p: "create_llm_provider limit pid q (db_providers db) = Inr p"
    using assms by (auto simp: create_provider_def split: sum.splits if_splits)
  then have i: "lp_id p = pid" by (auto simp: create_llm_provider_def split: if_splits)
  obtain m ms where m: "placeholder_model mid (alias_name probe q) (db_models db) = (m, ms)" by fastforce
  consider "\<not> cq_remote q" | "cq_remote q" "\<not> made" | "cq_remote q" "made" by blast
  then show ?thesis
  proof cases
    case 1
    show ?thesis
      by (rule docker [of p]) (use assms p i 1 in \<open>auto simp: create_provider_def split: if_splits\<close>)
  next
    case 2
    show ?thesis
      by (rule bare [of p m ms]) (use assms p i m 2 in \<open>auto simp: create_provider_def Let_def split: if_splits\<close>)
  next
    case 3
    let ?r = "\<lparr>lr_id = rid, lr_name = alias_name probe q, lr_provider = pid, lr_model = m, lr_url = remote_address p\<rparr>"
    show ?thesis
      by (rule remote [of p m ms ?r]) (use assms p i m 3 in \<open>auto simp: create_provider_def Let_def split: if_splits\<close>)
  qed
qed

text \<open>When a change renames: the remote model was one and becomes another.\<close>

definition renames :: "string \<Rightarrow> update_request \<Rightarrow> llm_db \<Rightarrow> bool" where
  "renames pid q db =
     (case find (\<lambda>p. lp_id p = pid) (db_providers db) of
        None \<Rightarrow> False
      | Some p \<Rightarrow> lp_remote p \<and> lp_remote_model p \<noteq> None \<and> Option.bind (uq_remote_model q) nonblank \<noteq> None
          \<and> Option.bind (uq_remote_model q) nonblank \<noteq> lp_remote_model p)"

lemma update_keeps:
  assumes "update_provider pid q db = Inr db'" "\<not> renames pid q db"
  shows "db' = db\<lparr>db_providers := map (\<lambda>x. if lp_id x = pid then updated q x else x) (db_providers db)\<rparr>"
  using assms by (auto simp: update_provider_def renames_def Let_def split: if_splits option.splits)

lemma update_shape:
  assumes "update_provider pid q db = Inr db'"
    and d: "db\<lparr>db_providers := map (\<lambda>x. if lp_id x = pid then updated q x else x) (db_providers db)\<rparr> = d"
  shows "db' = d \<or> (\<exists>old new. db' = rename_cascade pid old new d)"
proof (cases "uq_name q = [] \<or> 256 < length (uq_name q)")
  case True
  then show ?thesis using assms(1) by (simp add: update_provider_def)
next
  case ok: False
  show ?thesis
  proof (cases "find (\<lambda>p. lp_id p = pid) (db_providers db)")
    case None
    then show ?thesis using assms(1) ok by (simp add: update_provider_def)
  next
    case (Some p)
    then have "db' = (case (lp_remote_model p, Option.bind (uq_remote_model q) nonblank) of
        (Some old, Some new) \<Rightarrow> if new \<noteq> old \<and> lp_remote p then rename_cascade pid old new d else d
      | _ \<Rightarrow> d)" using assms(1) ok by (simp add: update_provider_def d Let_def)
    then show ?thesis
      by (cases "lp_remote_model p"; cases "Option.bind (uq_remote_model q) nonblank") (simp_all, metis)
  qed
qed

lemma serve_routed:
  assumes "routed (db_runtimes db) (db_gateway db)"
    and "(case q of Create_provider (pid, mid, rid) c \<Rightarrow> rid \<notin> lr_id ` set (db_runtimes db)
          | Update_provider pid u \<Rightarrow> \<not> renames pid u db | Delete_provider pid \<Rightarrow> True)"
    and ok: "ok = (\<lambda>_. True)"
  shows "routed (db_runtimes (serve_llm limit probe made ok q db)) (db_gateway (serve_llm limit probe made ok q db))"
proof (cases q)
  case (Create_provider fresh c)
  obtain pid mid rid where f: "fresh = (pid, mid, rid)" by (cases fresh)
  show ?thesis
  proof (cases "create_provider limit probe made ok (pid, mid, rid) c db")
    case (Inl e)
    then show ?thesis using assms(1) Create_provider f by (simp add: serve_llm_def)
  next
    case (Inr db')
    have rid: "rid \<notin> lr_id ` set (db_runtimes db)" using assms(2) Create_provider f by simp
    from Inr have "routed (db_runtimes db') (db_gateway db')"
    proof (cases rule: create_cases)
      case (docker p)
      then show ?thesis using assms(1) by simp
    next
      case (bare p m ms)
      then show ?thesis using assms(1) by simp
    next
      case (remote p m ms r)
      then show ?thesis using publish_routed [OF assms(1), of r ok] rid ok by simp
    qed
    then show ?thesis using Inr Create_provider f by (simp add: serve_llm_def)
  qed
next
  case (Update_provider pid u)
  then show ?thesis
    using assms update_keeps [of pid u db] by (auto simp: serve_llm_def split: sum.splits)
next
  case (Delete_provider pid)
  then show ?thesis
    using assms(1) delete_provider_routed [OF assms(1), of pid] ok by (auto simp: serve_llm_def split: sum.splits)
qed

lemma delete_runtimes_any:
  "db_providers (fold (delete_runtime ok) rts db) = db_providers db"
  "db_models (fold (delete_runtime ok) rts db) = db_models db"
  "db_runtimes (fold (delete_runtime ok) rts db) = fold (\<lambda>r. filter (\<lambda>x. lr_id x \<noteq> lr_id r)) rts (db_runtimes db)"
  by (induction rts arbitrary: db) simp_all

lemma serve_same:
  "(serve_llm limit probe made ok q db)\<lparr>db_gateway := g\<rparr> = (serve_llm limit probe made ok' q db)\<lparr>db_gateway := g\<rparr>"
proof (cases q)
  case (Create_provider fresh c)
  then show ?thesis
    by (cases fresh) (simp add: serve_llm_def create_provider_def Let_def split: sum.split prod.split)
next
  case (Update_provider pid u)
  then show ?thesis by (simp add: serve_llm_def)
next
  case (Delete_provider pid)
  then show ?thesis
    by (simp add: serve_llm_def delete_provider_def Let_def remove_orphans_def delete_runtimes_any)
qed

lemma serve_lost:
  assumes "\<forall>i. \<not> ok i"
  shows "db_gateway (serve_llm limit probe made ok q db) = db_gateway db"
proof -
  have f: "db_gateway (fold (delete_runtime ok) rts d) = db_gateway d" for rts d
    using assms by (induction rts arbitrary: d) (simp_all add: unpublish_runtime_def)
  show ?thesis
  proof (cases q)
    case (Create_provider fresh c)
    then show ?thesis using assms
      by (cases fresh) (simp add: serve_llm_def create_provider_def publish_runtime_def Let_def split: sum.split prod.split)
  next
    case (Update_provider pid u)
    show ?thesis
    proof (cases "update_provider pid u db")
      case (Inr db')
      with update_shape [OF Inr refl] show ?thesis
        using Update_provider by (auto simp: serve_llm_def rename_cascade_def Let_def)
    qed (simp add: Update_provider serve_llm_def)
  next
    case (Delete_provider pid)
    then show ?thesis by (simp add: serve_llm_def delete_provider_def Let_def remove_orphans_def f)
  qed
qed

subsection \<open>Properties\<close>

text \<open>
  C5: the gateway routes exactly the runtimes there are, under their names and addresses. Creating and
  deleting providers keep this, whether or not the runtime of a new one can be made, as long as the
  writes to the gateway go through, and so does every change that does not rename the remote model. When a write is lost
  nobody is told: whichever writes are lost, the providers, models and runtimes are the same, and when all are,
  the gateway stays as it was.
\<close>

theorem requests_keep_routed:
  assumes "routed (db_runtimes db) (db_gateway db)"
    and "(case q of Create_provider (pid, mid, rid) c \<Rightarrow> rid \<notin> lr_id ` set (db_runtimes db)
          | Update_provider pid u \<Rightarrow> \<not> renames pid u db | Delete_provider pid \<Rightarrow> True)"
  shows "((\<forall>i. ok i) \<longrightarrow> routed (db_runtimes (serve_llm limit probe made ok q db)) (db_gateway (serve_llm limit probe made ok q db)))
    \<and> (serve_llm limit probe made ok q db)\<lparr>db_gateway := g\<rparr> = (serve_llm limit probe made (\<lambda>_. True) q db)\<lparr>db_gateway := g\<rparr>
    \<and> ((\<forall>i. \<not> ok i) \<longrightarrow> db_gateway (serve_llm limit probe made ok q db) = db_gateway db)"
proof (intro conjI impI)
  show "routed (db_runtimes (serve_llm limit probe made ok q db)) (db_gateway (serve_llm limit probe made ok q db))"
    if "\<forall>i. ok i"
    using that by (intro serve_routed [OF assms]) auto
qed (rule serve_same, rule serve_lost)

theorem requests_keep_routed_witness:
  "let db = serve_llm None (\<lambda>_. None) True (\<lambda>_. True) (Create_provider (''p'', ''m'', ''r'')
         \<lparr>cq_name = ''box'', cq_remote = True, cq_url = Some ''http://h:8000/v1/'', cq_key = None,
          cq_remote_model = Some '' qwen '', cq_litellm = None, cq_litellm_model = None\<rparr>)
       \<lparr>db_providers = [], db_models = [], db_runtimes = [],
        db_gateway = \<lparr>gw_aliases = Map.empty, gw_instances = Map.empty, gw_members = []\<rparr>\<rparr>
   in routed (db_runtimes db) (db_gateway db) \<and> gw_members (db_gateway db) = [(''qwen'', ''r'')]
      \<and> gw_instances (db_gateway db) ''r'' = Some ''http://h:8000''"
proof -
  let ?db = "\<lparr>db_providers = [], db_models = [], db_runtimes = [],
    db_gateway = \<lparr>gw_aliases = Map.empty, gw_instances = Map.empty, gw_members = []\<rparr>\<rparr>"
  let ?q = "Create_provider (''p'', ''m'', ''r'')
    \<lparr>cq_name = ''box'', cq_remote = True, cq_url = Some ''http://h:8000/v1/'', cq_key = None,
     cq_remote_model = Some '' qwen '', cq_litellm = None, cq_litellm_model = None\<rparr>"
  let ?d = "serve_llm None (\<lambda>_. None) True (\<lambda>_. True) ?q ?db"
  have "routed (db_runtimes ?db) (db_gateway ?db)" by (simp add: routed_def)
  from requests_keep_routed [where db = ?db and q = ?q and ok = "\<lambda>_. True" and limit = None and probe = "\<lambda>_. None"
      and made = True, OF this]
  have "routed (db_runtimes ?d) (db_gateway ?d)" by simp
  moreover have "gw_members (db_gateway ?d) = [(''qwen'', ''r'')]" by code_simp
  moreover have "gw_instances (db_gateway ?d) ''r'' = Some ''http://h:8000''" by code_simp
  ultimately show ?thesis unfolding Let_def by blast
qed

text \<open>
  A change that renames does not tell the gateway: a runtime of the old name gets the new one,
  and the gateway goes on with the old.
\<close>

lemma rename_unrouted:
  assumes "routed (db_runtimes db) (db_gateway db)" "update_provider pid q db = Inr db'"
    and "find (\<lambda>p. lp_id p = pid) (db_providers db) = Some p" "lp_remote p" "lp_remote_model p = Some old"
    and "Option.bind (uq_remote_model q) nonblank = Some new" "new \<noteq> old"
    and "r \<in> set (db_runtimes db)" "lr_provider r = pid" "lr_name r = old"
  shows "\<exists>r' \<in> set (db_runtimes db'). lr_id r' = lr_id r \<and> lr_name r' = new
      \<and> (new, lr_id r) \<notin> set (gw_members (db_gateway db')) \<and> (old, lr_id r) \<in> set (gw_members (db_gateway db'))"
    and "\<not> routed (db_runtimes db') (db_gateway db')"
proof -
  have db': "db_gateway db' = db_gateway db"
    "db_runtimes db' = map (\<lambda>r. if lr_provider r = pid \<and> lr_name r = old then r\<lparr>lr_name := new\<rparr> else r) (db_runtimes db)"
    using assms(2-7) by (auto simp: update_provider_def rename_cascade_def Let_def split: if_splits)
  let ?r = "r\<lparr>lr_name := new\<rparr>"
  have r: "?r \<in> set (db_runtimes db')" using db'(2) assms(8-10) by force
  have m: "set (gw_members (db_gateway db)) = (\<lambda>r. (lr_name r, lr_id r)) ` set (db_runtimes db)"
    "distinct (map lr_id (db_runtimes db))" using assms(1) by (simp_all add: routed_def)
  have "lr_name x = old" if "x \<in> set (db_runtimes db)" "lr_id x = lr_id r" for x
    using inj_onD [of lr_id "set (db_runtimes db)" x r] that m(2) assms(8,10) by (simp add: distinct_map)
  then have no: "(new, lr_id r) \<notin> set (gw_members (db_gateway db'))" using db'(1) m(1) assms(7) by auto
  moreover have "(old, lr_id r) \<in> set (gw_members (db_gateway db'))" using db'(1) m(1) assms(8,10) by force
  ultimately show "\<exists>r' \<in> set (db_runtimes db'). lr_id r' = lr_id r \<and> lr_name r' = new
      \<and> (new, lr_id r) \<notin> set (gw_members (db_gateway db')) \<and> (old, lr_id r) \<in> set (gw_members (db_gateway db'))"
    using r by (intro bexI [of _ ?r]) simp_all
  have "(new, lr_id r) \<in> (\<lambda>r. (lr_name r, lr_id r)) ` set (db_runtimes db')"
    using r by (rule image_eqI [rotated]) simp
  with no show "\<not> routed (db_runtimes db') (db_gateway db')" unfolding routed_def by blast
qed

text \<open>
  Deleting the provider after a rename leaves the old name enabled although nothing serves it.
\<close>

lemma renamed_alias_left:
  assumes "unpublish_runtime ok (lr_id r) new g = g'" "ok (lr_id r)" "gw_aliases g old = Some True" "new \<noteq> old"
    and "\<And>a i. (a, i) \<in> set (gw_members g) \<Longrightarrow> i = lr_id r"
  shows "gw_aliases g' old = Some True \<and> gw_members g' = []"
  using assms by (auto simp: unpublish_runtime_def Let_def filter_empty_conv split: if_splits)

text \<open>A new address or key of a provider never gets to its runtimes or the gateway.\<close>

lemma change_not_published:
  assumes "update_provider pid q db = Inr db'" "uq_remote_model q = None \<or> \<not> renames pid q db"
  shows "db_gateway db' = db_gateway db \<and> db_runtimes db' = db_runtimes db"
proof -
  have "\<not> renames pid q db" using assms(2) by (auto simp: renames_def split: option.split)
  from update_keeps [OF assms(1) this] show ?thesis by simp
qed

text \<open>Every runtime has its provider and its model, through all requests with new identifiers.\<close>

definition refs_ok :: "llm_db \<Rightarrow> bool" where
  "refs_ok db = (\<forall>r \<in> set (db_runtimes db).
     lr_provider r \<in> lp_id ` set (db_providers db) \<and> lr_model r \<in> lm_id ` set (db_models db))"

lemma update_refs:
  assumes "refs_ok db" "update_provider pid q db = Inr db'"
  shows "refs_ok db'"
proof -
  let ?d = "db\<lparr>db_providers := map (\<lambda>x. if lp_id x = pid then updated q x else x) (db_providers db)\<rparr>"
  have u: "lp_id (updated q x) = lp_id x" for x by (simp add: updated_def)
  have "db' = ?d \<or> (\<exists>old new. db' = rename_cascade pid old new ?d)" by (rule update_shape [OF assms(2) refl])
  then have p: "map lp_id (db_providers db') = map lp_id (db_providers db)"
    and m: "map lm_id (db_models db') = map lm_id (db_models db)"
    and r: "map (\<lambda>r. (lr_provider r, lr_model r)) (db_runtimes db')
      = map (\<lambda>r. (lr_provider r, lr_model r)) (db_runtimes db)"
    by (auto simp: rename_cascade_def u)
  have ids: "lp_id ` set (db_providers db') = lp_id ` set (db_providers db)"
    "lm_id ` set (db_models db') = lm_id ` set (db_models db)"
    using p m by (metis set_map)+
  have refs: "refs_ok d \<longleftrightarrow> (\<lambda>r. (lr_provider r, lr_model r)) ` set (db_runtimes d)
      \<subseteq> lp_id ` set (db_providers d) \<times> lm_id ` set (db_models d)" for d
    by (auto simp: refs_ok_def)
  have "(\<lambda>r. (lr_provider r, lr_model r)) ` set (db_runtimes db')
      = (\<lambda>r. (lr_provider r, lr_model r)) ` set (db_runtimes db)"
    using arg_cong [OF r, of set] by (simp only: set_map)
  with assms(1) ids show ?thesis by (simp only: refs)
qed

theorem runtimes_have_models:
  assumes "refs_ok db" "distinct (map lr_id (db_runtimes db))"
  shows "refs_ok (serve_llm limit probe made ok q db)"
proof (cases q)
  case (Create_provider fresh c)
  obtain pid mid rid where f: "fresh = (pid, mid, rid)" by (cases fresh)
  show ?thesis
  proof (cases "create_provider limit probe made ok (pid, mid, rid) c db")
    case (Inl e)
    then show ?thesis using assms(1) Create_provider f by (simp add: serve_llm_def)
  next
    case (Inr db')
    from Inr have "refs_ok db'"
    proof (cases rule: create_cases)
      case (docker p)
      then show ?thesis using assms(1) by (auto simp: refs_ok_def)
    next
      case (bare p m ms)
      then show ?thesis using assms(1) placeholder_known [OF bare(3)] by (auto simp: refs_ok_def)
    next
      case (remote p m ms r)
      then show ?thesis using assms(1) placeholder_known [OF remote(2)] by (auto simp: refs_ok_def)
    qed
    then show ?thesis using Inr Create_provider f by (simp add: serve_llm_def)
  qed
next
  case (Update_provider pid u)
  then show ?thesis using assms(1) update_refs [OF assms(1), of pid u] by (auto simp: serve_llm_def split: sum.splits)
next
  case (Delete_provider pid)
  show ?thesis
  proof (cases "delete_provider ok pid db")
    case (Inl e)
    then show ?thesis using assms(1) Delete_provider by (simp add: serve_llm_def)
  next
    case (Inr db')
    note d = delete_provider_exact [OF assms(2) Inr]
    have "lr_provider r \<in> lp_id ` set (db_providers db') \<and> lr_model r \<in> lm_id ` set (db_models db')"
      if r: "r \<in> set (db_runtimes db')" for r
    proof -
      have r0: "r \<in> set (db_runtimes db)" "lr_provider r \<noteq> pid" using r d(1) by auto
      then obtain p m where "p \<in> set (db_providers db)" "lp_id p = lr_provider r"
        "m \<in> set (db_models db)" "lm_id m = lr_model r" using assms(1) by (fastforce simp: refs_ok_def)
      moreover from this have "m \<in> set (db_models db')" using r by (subst d(3)) auto
      moreover have "p \<in> set (db_providers db')" using calculation r0 by (simp add: d(2))
      ultimately show ?thesis by (metis image_eqI)
    qed
    then show ?thesis using Inr Delete_provider by (simp add: serve_llm_def refs_ok_def)
  qed
qed

text \<open>Opening a provider and saving it as it is changes nothing.\<close>

theorem provider_edit_same:
  assumes p: "p \<in> set (db_providers db)" "distinct (map lp_id (db_providers db))"
    and name: "trim (lp_name p) = lp_name p" "lp_name p \<noteq> []" "length (lp_name p) \<le> 256"
    and url: "\<And>u. lp_url p = Some u \<Longrightarrow> trim u = u"
    and model: "\<And>m. lp_remote_model p = Some m \<Longrightarrow> trim m = m \<and> py_strip m = m \<and> m \<noteq> []"
  shows "update_provider (fst (handleUpdate (open_edit p))) (snd (handleUpdate (open_edit p))) db = Inr db"
proof -
  let ?q = "snd (handleUpdate (open_edit p))"
  have t: "trim [] = []" by (simp add: trim_def)
  have f: "find (\<lambda>x. lp_id x = lp_id p) (db_providers db) = Some p"
  proof -
    have "\<exists>x. find (\<lambda>x. lp_id x = lp_id p) (db_providers db) = Some x"
      using p(1) by (metis (mono_tags, lifting) find_None_iff not_Some_eq)
    then obtain x where x: "find (\<lambda>x. lp_id x = lp_id p) (db_providers db) = Some x" by blast
    then have "x \<in> set (db_providers db)" "lp_id x = lp_id p" using find_SomeD [OF x] by auto
    then have "x = p" using inj_onD [of lp_id "set (db_providers db)" x p] p by (simp add: distinct_map)
    with x show ?thesis by simp
  qed
  have m: "Option.bind (uq_remote_model ?q) nonblank = (if lp_remote p then lp_remote_model p else None)"
    using model by (cases "lp_remote_model p")
      (auto simp: handleUpdate_def open_edit_def or_undefined_def nonblank_def stripped_def t)
  have u: "updated ?q p = p"
    using name url m
    by (cases "lp_url p"; cases "lp_remote p")
      (auto simp: updated_def handleUpdate_def open_edit_def or_undefined_def t split: option.splits)
  have "map (\<lambda>x. if lp_id x = lp_id p then updated ?q x else x) (db_providers db) = db_providers db"
  proof (rule map_idI)
    fix x
    assume x: "x \<in> set (db_providers db)"
    then have "x = p" if "lp_id x = lp_id p"
      using that inj_onD [of lp_id "set (db_providers db)" x p] p by (simp add: distinct_map)
    then show "(if lp_id x = lp_id p then updated ?q x else x) = x" using u by auto
  qed
  then have same: "db\<lparr>db_providers := map (\<lambda>x. if lp_id x = lp_id p then updated ?q x else x) (db_providers db)\<rparr> = db"
    by simp
  have n: "uq_name ?q = lp_name p" "fst (handleUpdate (open_edit p)) = lp_id p"
    using name by (simp_all add: handleUpdate_def open_edit_def)
  have nr: "\<not> renames (lp_id p) ?q db" using f m by (simp add: renames_def)
  have "\<exists>db'. update_provider (lp_id p) ?q db = Inr db'"
    unfolding update_provider_def f n(1) Let_def using name(2,3) by simp
  then obtain db' where db': "update_provider (lp_id p) ?q db = Inr db'" by blast
  then have "db' = db" using update_keeps [OF db' nr] same by simp
  with db' n(2) show ?thesis by simp
qed

text \<open>
  A row shows one runtime of its provider, the last of the list; as the list has the newest
  first, that is the oldest.
\<close>

lemma row_shows_last:
  "runtimeByProvider rs pid =
     (if filter (\<lambda>r. lr_provider r = pid) rs = [] then None else Some (last (filter (\<lambda>r. lr_provider r = pid) rs)))"
  unfolding runtimeByProvider_def fold_map_last by (simp split: list.split)

end
