(* ===== verification/Table_Columns.thy ===== *)
theory Table_Columns
  imports Data_Table
begin

text \<open>
  What the tables of the admin pages share: a column with what its cells show, the chips of
  \<^verbatim>\<open>components/Chips.tsx\<close>, and what follows for searching and sorting. A page passes its columns to
  the table of \<open>Data_Table\<close>; a column that offers sorting without a value to sort by is dead, and a
  table none of whose columns has a text to search by finds nothing. The theories of the tables
  (\<open>Resource_Tables\<close>, \<open>Llm_Tables\<close>, \<open>Admin_Tables\<close>) give the columns of each page. Icons, widths,
  alignment and fonts are not modelled, and translations and the text of a date are arguments.
\<close>

subsection \<open>Cells\<close>

text \<open>
  What a cell shows: a text, a chip with its colour, a link, a bar, a button that may be disabled, a
  choice, or a switch with its state. A chip or a text that reacts to a click is a button as well.
\<close>

datatype el =
    Words string
  | Tag string string
  | Goto string string
  | Progress int
  | Press string bool
  | Pick string bool "string list"
  | Flip bool

type_synonym 'r shown_column = "'r column \<times> ('r \<Rightarrow> el list)"

definition dash :: string where "dash = [CHR 0xE2, CHR 0x80, CHR 0x94]"
definition ndash :: string where "ndash = [CHR 0xE2, CHR 0x80, CHR 0x93]"
definition dots :: string where "dots = [CHR 0xE2, CHR 0x80, CHR 0xA6]"

definition some_or :: "string \<Rightarrow> string option \<Rightarrow> string" where
  "some_or d s = (case s of None \<Rightarrow> d | Some v \<Rightarrow> v)"

definition filled_or :: "string \<Rightarrow> string \<Rightarrow> string" where
  "filled_or d s = (if s = [] then d else s)"

definition shown_if :: "bool \<Rightarrow> el list \<Rightarrow> el list" where
  "shown_if b es = (if b then es else [])"

definition colour_in :: "(string \<times> string) list \<Rightarrow> string \<Rightarrow> string" where
  "colour_in table v = some_or ''default'' (map_of table v)"

text \<open>A column, and what a page may add to it.\<close>

definition plain :: "string \<Rightarrow> string \<Rightarrow> ('r \<Rightarrow> el list) \<Rightarrow> 'r shown_column" where
  "plain k l f =
     (\<lparr>col_key = k, col_label = l, col_sortable = None, searchValue = None, sortValue = None, col_width = None,
       hideable = None\<rparr>, f)"

definition searched :: "('r \<Rightarrow> string) \<Rightarrow> 'r shown_column \<Rightarrow> 'r shown_column" where
  "searched f c = ((fst c)\<lparr>searchValue := Some f\<rparr>, snd c)"

definition sortable :: "'r shown_column \<Rightarrow> 'r shown_column" where
  "sortable c = ((fst c)\<lparr>col_sortable := Some True\<rparr>, snd c)"

definition sorted_by :: "('r \<Rightarrow> sort_value) \<Rightarrow> 'r shown_column \<Rightarrow> 'r shown_column" where
  "sorted_by f c = ((fst c)\<lparr>col_sortable := Some True, sortValue := Some f\<rparr>, snd c)"

definition always_shown :: "'r shown_column \<Rightarrow> 'r shown_column" where
  "always_shown c = ((fst c)\<lparr>hideable := Some False\<rparr>, snd c)"

lemmas column_defs = plain_def searched_def sortable_def sorted_by_def always_shown_def

subsection \<open>Chips\<close>

definition ClassChip :: "string \<Rightarrow> el" where
  "ClassChip v =
     Tag v (colour_in [(''SYSTEM_CORE'', ''error''), (''SYSTEM_AUX'', ''warning''), (''MCP'', ''secondary''),
       (''TENANT_APP'', ''success''), (''UNTRUSTED'', ''default'')] v)"

definition stateColor :: "string \<Rightarrow> string" where
  "stateColor state =
     (let s = to_lower state
      in if s = ''running'' then ''success''
         else if s = ''exited'' then ''default''
         else if s = ''paused'' then ''warning''
         else ''info'')"

definition StateChip :: "string \<Rightarrow> el" where
  "StateChip v = Tag v (stateColor v)"

definition ResultChip :: "string \<Rightarrow> el" where
  "ResultChip v = Tag v (if v = ''allow'' then ''success'' else ''error'')"

definition SeverityChip :: "string \<Rightarrow> el" where
  "SeverityChip v = Tag v (if v = ''high'' then ''error'' else ''default'')"

definition PolicyChip :: "string \<Rightarrow> el" where
  "PolicyChip v =
     Tag v (colour_in [(''locked'', ''error''), (''restricted'', ''warning''), (''free'', ''success'')] v)"

definition MODEL_STATUS_COLOR :: "(string \<times> string) list" where
  "MODEL_STATUS_COLOR =
     [(''available'', ''success''), (''downloading'', ''info''), (''failed'', ''error''), (''deleting'', ''warning'')]"

text \<open>The chip of a model's status can be clicked when it gets a handler.\<close>

definition ModelStatusChip :: "string \<Rightarrow> bool \<Rightarrow> el list" where
  "ModelStatusChip v click =
     Tag v (colour_in MODEL_STATUS_COLOR v) # shown_if click [Press v True]"

definition RUNTIME_STATUS_COLOR :: "(string \<times> string) list" where
  "RUNTIME_STATUS_COLOR =
     [(''creating'', ''info''), (''starting'', ''info''), (''running'', ''success''), (''stopping'', ''warning''),
      (''stopped'', ''default''), (''error'', ''error'')]"

definition RuntimeStatusChip :: "string \<Rightarrow> el" where
  "RuntimeStatusChip v = Tag v (colour_in RUNTIME_STATUS_COLOR v)"

definition JOB_STATUS_COLOR :: "(string \<times> string) list" where
  "JOB_STATUS_COLOR =
     [(''queued'', ''default''), (''running'', ''info''), (''success'', ''success''), (''failed'', ''error''),
      (''canceled'', ''warning'')]"

definition JobStatusChip :: "string \<Rightarrow> el" where
  "JobStatusChip v = Tag v (colour_in JOB_STATUS_COLOR v)"

definition FormatChip :: "string \<Rightarrow> el" where
  "FormatChip v =
     Tag v (colour_in [(''safetensors'', ''primary''), (''gguf'', ''secondary''), (''other'', ''default'')] v)"

definition EngineChip :: "string \<Rightarrow> el" where
  "EngineChip v =
     Tag v (colour_in [(''vllm'', ''primary''), (''llamacpp'', ''secondary''), (''tgi'', ''info''),
       (''ollama'', ''warning''), (''cloud'', ''info'')] v)"

subsection \<open>Searching and sorting\<close>

definition data_columns :: "'r shown_column list \<Rightarrow> 'r column list" where
  "data_columns cols = map fst cols"

definition table_keys :: "'r shown_column list \<Rightarrow> string list" where
  "table_keys cols = map col_key (data_columns cols)"

text \<open>The texts of a row that the search looks at.\<close>

definition row_texts :: "'r shown_column list \<Rightarrow> 'r \<Rightarrow> string list" where
  "row_texts cols r = map (\<lambda>f. f r) (List.map_filter searchValue (data_columns cols))"

text \<open>The columns that offer sorting, and those of them without a value to sort by.\<close>

definition sort_offered :: "'r shown_column list \<Rightarrow> string list" where
  "sort_offered cols = map col_key (filter (\<lambda>c. col_sortable c = Some True) (data_columns cols))"

definition dead_sorts :: "'r shown_column list \<Rightarrow> string list" where
  "dead_sorts cols =
     map col_key (filter (\<lambda>c. col_sortable c = Some True \<and> sortValue c = None) (data_columns cols))"

text \<open>
  What is assumed of the table library: it sorts by the value of the column, in one direction or the
  other, and leaves rows with the same value in their order.
\<close>

definition keeps_equal :: "(('r \<Rightarrow> sort_value) \<Rightarrow> bool \<Rightarrow> 'r list \<Rightarrow> 'r list) \<Rightarrow> bool" where
  "keeps_equal sort_rows =
     (\<forall>f desc rs. (\<forall>x \<in> set rs. \<forall>y \<in> set rs. f x = f y) \<longrightarrow> sort_rows f desc rs = rs)"

text \<open>A sort that meets this, by insertion.\<close>

fun value_le :: "sort_value \<Rightarrow> sort_value \<Rightarrow> bool" where
  "value_le (SNumber m) (SNumber n) = (m \<le> n)"
| "value_le (SNumber m) (SText s) = True"
| "value_le (SText s) (SNumber n) = False"
| "value_le (SText s) (SText u) = (length s \<le> length u)"

definition sort_rows_by :: "('r \<Rightarrow> sort_value) \<Rightarrow> bool \<Rightarrow> 'r list \<Rightarrow> 'r list" where
  "sort_rows_by f desc rs = sort_by (\<lambda>x y. if desc then value_le (f y) (f x) else value_le (f x) (f y)) rs"

subsection \<open>Lemmas\<close>

lemma value_le_refl [simp]: "value_le v v"
  by (cases v) auto

lemma sort_by_all_le: "(\<And>x y. x \<in> set rs \<Longrightarrow> y \<in> set rs \<Longrightarrow> le x y) \<Longrightarrow> sort_by le rs = rs"
proof (induction rs)
  case (Cons r rs)
  then have "sort_by le rs = rs" by simp
  then have "sort_by le (r # rs) = insert_by le r rs" by (simp add: sort_by_def)
  then show ?case using Cons.prems by (cases rs) simp_all
qed (simp add: sort_by_def)

lemma sort_rows_by_equal: "keeps_equal sort_rows_by"
  unfolding keeps_equal_def sort_rows_by_def
  by (intro allI impI, rule sort_by_all_le) (metis value_le_refl)

lemma filteredRows_texts:
  "filteredRows (data_columns cols) q rows =
     (if trim q = [] then rows
      else filter (\<lambda>r. list_ex (\<lambda>s. has_infix (to_lower s) (to_lower (trim q))) (row_texts cols r)) rows)"
proof -
  have "list_ex (column_matches p r) cs
      = list_ex (\<lambda>s. has_infix (to_lower s) p) (map (\<lambda>f. f r) (List.map_filter searchValue cs))"
    for p and r :: 'a and cs :: "'a column list"
    by (induction cs) (auto simp: column_matches_def List.map_filter_simps split: option.splits)
  then show ?thesis
    by (simp add: filteredRows_def row_texts_def Let_def to_lower_Nil)
qed

lemma nothing_searched:
  assumes "\<And>r. row_texts cols r = []" "trim q \<noteq> []"
  shows "filteredRows (data_columns cols) q rows = []"
  using assms by (simp add: filteredRows_texts)

lemma dead_sort_keeps:
  assumes "keeps_equal sort_rows" "k \<in> set (dead_sorts cols)" "distinct (table_keys cols)"
    and "c \<in> set (data_columns cols)" "col_key c = k"
  shows "sort_rows (accessorFn (tan_column_of c)) desc rs = rs \<and> enableSorting (tan_column_of c)"
proof -
  obtain d where d: "d \<in> set (data_columns cols)" "col_key d = k" "col_sortable d = Some True" "sortValue d = None"
    using assms(2) by (auto simp: dead_sorts_def)
  have "d = c" using assms(3-5) d(1,2) by (auto simp: table_keys_def distinct_map inj_on_def)
  then have "accessorFn (tan_column_of c) = (\<lambda>r. SText [])" "enableSorting (tan_column_of c)"
    using d by (simp_all add: tan_column_of_def)
  with assms(1) show ?thesis by (auto simp: keeps_equal_def)
qed

end
