(* ===== verification/Network_Page.thy ===== *)
theory Network_Page
  imports Table_Columns
begin

text \<open>
  The networks: \<^verbatim>\<open>pages/admin/NetworksPage.tsx\<close> with its table, the dialog that creates a network and
  the one that inspects one, against the routes of the server
  (\<^verbatim>\<open>web/api/admin/networks/views.py\<close> of the backend). The engine is an argument: \<open>inspect\<close> tells of a
  network, and what it answers to a creation or a deletion. An attribute the engine does not
  give is empty. Permissions, the bounds of the request's schema and the JSX are not modelled.
\<close>

subsection \<open>The server\<close>

record net_container =
  nc_id :: string
  nc_name :: string
  nc_ipv4 :: string
  nc_mac :: string

record raw_network =
  rn_id :: string
  rn_name :: string
  rn_driver :: string
  rn_scope :: string
  rn_internal :: bool
  rn_created :: string
  rn_containers :: "net_container list"
  rn_ipam :: "(string \<times> string) list"
  rn_labels :: "(string \<times> string) list"
  rn_options :: "(string \<times> string) list"

definition BUILTIN_NETWORKS :: "string list" where
  "BUILTIN_NETWORKS = [''bridge'', ''host'', ''none'']"

definition SYSTEM_CONTAINER_WORDS :: "string list" where
  "SYSTEM_CONTAINER_WORDS =
     [''postgres'', ''clickhouse'', ''redis'', ''grafana'', ''loki'', ''alloy'', ''minio'', ''langfuse'',
      ''rabbitmq'', ''rmq'']"

definition is_system_network :: "raw_network \<Rightarrow> bool" where
  "is_system_network n =
     (rn_name n \<in> set BUILTIN_NETWORKS
      \<or> list_ex (\<lambda>c. list_ex (\<lambda>w. has_infix (to_lower (nc_name c)) w) SYSTEM_CONTAINER_WORDS) (rn_containers n))"

record net_summary =
  ns_id :: string
  ns_name :: string
  ns_driver :: string
  ns_scope :: string
  ns_internal :: bool
  ns_created :: string
  ns_system :: bool
  ns_count :: nat

record net_detail = net_summary +
  nd_subnet :: string
  nd_gateway :: string
  nd_containers :: "net_container list"
  nd_labels :: "(string \<times> string) list"
  nd_options :: "(string \<times> string) list"

definition detail_from_raw :: "raw_network \<Rightarrow> net_detail" where
  "detail_from_raw n =
     (let (subnet, gateway) = (case rn_ipam n of [] \<Rightarrow> ([], []) | c # cs \<Rightarrow> c)
      in \<lparr>ns_id = rn_id n, ns_name = rn_name n, ns_driver = rn_driver n, ns_scope = rn_scope n,
          ns_internal = rn_internal n, ns_created = rn_created n, ns_system = is_system_network n,
          ns_count = length (rn_containers n), nd_subnet = subnet, nd_gateway = gateway,
          nd_containers = rn_containers n, nd_labels = rn_labels n, nd_options = rn_options n\<rparr>)"

definition summary_from_raw :: "raw_network \<Rightarrow> net_summary" where
  "summary_from_raw n = net_summary.truncate (detail_from_raw n)"

text \<open>The list: the engine's own list knows no containers, so each network is inspected.\<close>

definition list_networks :: "(string \<Rightarrow> raw_network option) \<Rightarrow> raw_network list \<Rightarrow> net_summary list" where
  "list_networks inspect shallow =
     map (\<lambda>n. summary_from_raw (case inspect (rn_id n) of None \<Rightarrow> n | Some full \<Rightarrow> full)) shallow"

datatype net_error = No_network | Reserved_name | System_network | Engine_failed

record audit_entry =
  au_action :: string
  au_target :: string
  au_allowed :: bool
  au_high :: bool

definition get_network :: "(string \<Rightarrow> raw_network option) \<Rightarrow> string \<Rightarrow> net_error + net_detail" where
  "get_network inspect i =
     (case inspect i of None \<Rightarrow> Inl No_network | Some n \<Rightarrow> Inr (detail_from_raw n))"

record create_net =
  cn_name :: string
  cn_driver :: string
  cn_internal :: bool
  cn_subnet :: "string option"
  cn_gateway :: "string option"

text \<open>What the engine is asked for: a configuration of addresses only when there is one.\<close>

definition ipam_of :: "create_net \<Rightarrow> (string option \<times> string option) list" where
  "ipam_of q =
     (if truthy (cn_subnet q) \<or> truthy (cn_gateway q)
      then [(if truthy (cn_subnet q) then cn_subnet q else None,
             if truthy (cn_gateway q) then cn_gateway q else None)]
      else [])"

definition create_network ::
  "(create_net \<Rightarrow> raw_network option) \<Rightarrow> create_net \<Rightarrow> audit_entry list
     \<Rightarrow> (net_error + net_detail) \<times> audit_entry list" where
  "create_network engine q log =
     (if to_lower (cn_name q) \<in> set BUILTIN_NETWORKS then (Inl Reserved_name, log)
      else (case engine q of
              None \<Rightarrow> (Inl Engine_failed, log)
            | Some n \<Rightarrow> (Inr (detail_from_raw n),
                log @ [\<lparr>au_action = ''network.create'', au_target = rn_id n, au_allowed = True, au_high = False\<rparr>])))"

text \<open>A deletion: what it answers, whether the engine deletes the network, and the log.\<close>

definition delete_network ::
  "(string \<Rightarrow> raw_network option) \<Rightarrow> bool \<Rightarrow> string \<Rightarrow> audit_entry list
     \<Rightarrow> (net_error + unit) \<times> bool \<times> audit_entry list" where
  "delete_network inspect ok i log =
     (case inspect i of
        None \<Rightarrow> (Inl No_network, False, log)
      | Some n \<Rightarrow>
          if is_system_network n
          then (Inl System_network, False,
                log @ [\<lparr>au_action = ''network.delete'', au_target = i, au_allowed = False, au_high = True\<rparr>])
          else if \<not> ok then (Inl Engine_failed, False, log)
          else (Inr (), True,
                log @ [\<lparr>au_action = ''network.delete'', au_target = i, au_allowed = True, au_high = False\<rparr>]))"

subsection \<open>The table\<close>

definition yes_or_dash :: "(string \<Rightarrow> string) \<Rightarrow> bool \<Rightarrow> el" where
  "yes_or_dash t b = (if b then Tag (t ''common.yes'') ''info'' else Words dash)"

text \<open>The buttons of a row.\<close>

definition network_actions :: "(string \<Rightarrow> string) \<Rightarrow> string option \<Rightarrow> bool \<Rightarrow> net_summary \<Rightarrow> el list" where
  "network_actions t busy inspecting n =
     Press (t ''networks.inspect'') (\<not> inspecting)
     # shown_if (\<not> ns_system n) [Press (t ''common.delete'') (busy \<noteq> Some (ns_id n))]"

definition network_columns :: "(string \<Rightarrow> string) \<Rightarrow> string option \<Rightarrow> bool \<Rightarrow> net_summary shown_column list" where
  "network_columns t busy inspecting =
     [searched (\<lambda>n. ns_name n @ '' '' @ ns_id n)
        (sortable (plain ''name'' (t ''common.name'') (\<lambda>n. [Words (ns_name n), Words (take 12 (ns_id n))]))),
      searched ns_driver
        (plain ''driver'' (t ''networks.driver'') (\<lambda>n. [Tag (filled_or dash (ns_driver n)) ''default''])),
      searched ns_scope (sortable (plain ''scope'' (t ''containers.scope'') (\<lambda>n. [Words (ns_scope n)]))),
      plain ''internal'' (t ''networks.internal'') (\<lambda>n. [yes_or_dash t (ns_internal n)]),
      sorted_by (\<lambda>n. SNumber (int (ns_count n)))
        (plain ''containers'' (t ''containers.title'')
          (\<lambda>n. [Tag (show_nat (ns_count n)) (if 0 < ns_count n then ''primary'' else ''default'')])),
      plain ''type'' (t ''networks.type'')
        (\<lambda>n. [if ns_system n then Tag (t ''networks.system'') ''warning'' else Tag (t ''networks.user'') ''success'']),
      plain ''actions'' (t ''common.actions'') (network_actions t busy inspecting)]"

definition network_type :: "net_summary \<Rightarrow> string" where
  "network_type n = (if ns_system n then ''system'' else ''user'')"

definition filteredData :: "string list \<Rightarrow> net_summary list \<Rightarrow> net_summary list" where
  "filteredData types ns = filter (\<lambda>n. network_type n \<in> set types) ns"

text \<open>The lines of the dialog that inspects a network, and its lists.\<close>

definition detail_lines :: "(string \<Rightarrow> string) \<Rightarrow> net_detail \<Rightarrow> (string \<times> string) list" where
  "detail_lines t d =
     [(''ID'', ns_id d), (t ''networks.driver'', ns_driver d), (t ''containers.scope'', ns_scope d),
      (t ''networks.subnet'', filled_or dash (nd_subnet d)), (t ''networks.gateway'', filled_or dash (nd_gateway d)),
      (t ''networks.internal'', if ns_internal d then t ''common.yes'' else t ''common.no''),
      (t ''common.created'', ns_created d)]"

definition middle_dot :: string where "middle_dot = [CHR '' '', CHR 0xC2, CHR 0xB7, CHR '' '']"

definition connected_lines :: "(string \<Rightarrow> string) \<Rightarrow> net_detail \<Rightarrow> (string \<times> string) list" where
  "connected_lines t d =
     map (\<lambda>c. (filled_or (take 12 (nc_id c)) (nc_name c),
               filled_or (t ''networks.no_ip'') (nc_ipv4 c) @ middle_dot
               @ filled_or (t ''networks.no_mac'') (nc_mac c)))
       (nd_containers d)"

subsection \<open>The page\<close>

text \<open>The page: \<open>creates\<close> are the creations the server has not answered.\<close>

record network_form =
  nf_name :: string
  nf_driver :: string
  nf_internal :: bool
  nf_subnet :: "string option"
  nf_gateway :: "string option"

record network_page =
  showCreate :: bool
  createForm :: network_form
  createError :: "string option"
  creating :: bool
  inspectNet :: "net_detail option"
  inspectLoading :: bool
  net_busy :: "string option"
  net_alert :: "string option"
  creates :: "create_net list"
  list_loads :: nat

definition empty_net_form :: network_form where
  "empty_net_form =
     \<lparr>nf_name = [], nf_driver = ''bridge'', nf_internal = False, nf_subnet = None, nf_gateway = None\<rparr>"

definition networks_opened :: network_page where
  "networks_opened =
     \<lparr>showCreate = False, createForm = empty_net_form, createError = None, creating = False, inspectNet = None,
      inspectLoading = False, net_busy = None, net_alert = None, creates = [], list_loads = 1\<rparr>"

definition create_payload :: "network_form \<Rightarrow> create_net" where
  "create_payload f =
     \<lparr>cn_name = trim (nf_name f), cn_driver = filled_or ''bridge'' (nf_driver f), cn_internal = nf_internal f,
      cn_subnet = (if truthy (nf_subnet f) then nf_subnet f else None),
      cn_gateway = (if truthy (nf_gateway f) then nf_gateway f else None)\<rparr>"

definition create_disabled :: "network_page \<Rightarrow> bool" where
  "create_disabled p = (creating p \<or> trim (nf_name (createForm p)) = [])"

definition handleCreate :: "network_page \<Rightarrow> network_page" where
  "handleCreate p =
     p\<lparr>createError := None, creating := True, creates := creates p @ [create_payload (createForm p)]\<rparr>"

text \<open>The answer, with the loading of the list that follows a success.\<close>

definition create_answered :: "string option \<Rightarrow> network_page \<Rightarrow> network_page" where
  "create_answered failed p =
     (let q = p\<lparr>creates := tl (creates p)\<rparr>
      in case failed of
           Some msg \<Rightarrow> q\<lparr>createError := Some msg, creating := False\<rparr>
         | None \<Rightarrow> q\<lparr>showCreate := False, createForm := empty_net_form, list_loads := list_loads q + 1,
                     creating := False\<rparr>)"

definition close_create :: "network_page \<Rightarrow> network_page" where
  "close_create p = p\<lparr>showCreate := False, createError := None\<rparr>"

definition set_field :: "string \<Rightarrow> string option" where
  "set_field s = (if s = [] then None else Some s)"

definition handleDelete :: "bool \<Rightarrow> string \<Rightarrow> network_page \<Rightarrow> network_page" where
  "handleDelete confirmed i p = (if \<not> confirmed then p else p\<lparr>net_busy := Some i\<rparr>)"

definition delete_answered :: "string option \<Rightarrow> network_page \<Rightarrow> network_page" where
  "delete_answered failed p =
     (case failed of Some msg \<Rightarrow> p\<lparr>net_alert := Some msg\<rparr> | None \<Rightarrow> p\<lparr>list_loads := list_loads p + 1\<rparr>)
     \<lparr>net_busy := None\<rparr>"

definition handleInspect :: "network_page \<Rightarrow> network_page" where
  "handleInspect p = p\<lparr>inspectLoading := True\<rparr>"

definition inspect_answered :: "string + net_detail \<Rightarrow> network_page \<Rightarrow> network_page" where
  "inspect_answered a p =
     (case a of Inl msg \<Rightarrow> p\<lparr>net_alert := Some msg\<rparr> | Inr d \<Rightarrow> p\<lparr>inspectNet := Some d\<rparr>)
     \<lparr>inspectLoading := False\<rparr>"

text \<open>The steps of the dialog; while it is closed its form cannot be changed.\<close>

inductive network_step :: "network_page \<Rightarrow> network_page \<Rightarrow> bool" where
  open_dialog: "network_step p (p\<lparr>showCreate := True\<rparr>)"
| typing: "showCreate p \<Longrightarrow> network_step p (p\<lparr>createForm :=
    \<lparr>nf_name = n, nf_driver = d, nf_internal = b, nf_subnet = set_field s, nf_gateway = set_field g\<rparr>\<rparr>)"
| cancel: "showCreate p \<Longrightarrow> network_step p (close_create p)"
| submit: "showCreate p \<Longrightarrow> \<not> create_disabled p \<Longrightarrow> network_step p (handleCreate p)"
| answer: "creates p \<noteq> [] \<Longrightarrow> network_step p (create_answered failed p)"
| inspect: "\<not> inspectLoading p \<Longrightarrow> network_step p (handleInspect p)"
| inspected: "inspectLoading p \<Longrightarrow> network_step p (inspect_answered a p)"
| close_detail: "network_step p (p\<lparr>inspectNet := None\<rparr>)"
| delete: "net_busy p \<noteq> Some i \<Longrightarrow> network_step p (handleDelete confirmed i p)"
| deleted: "network_step p (delete_answered failed p)"

definition network_reachable :: "network_page \<Rightarrow> bool" where
  "network_reachable p = network_step\<^sup>*\<^sup>* networks_opened p"

subsection \<open>Lemmas\<close>

lemma summary_fields [simp]:
  "ns_id (summary_from_raw n) = rn_id n" "ns_name (summary_from_raw n) = rn_name n"
  "ns_system (summary_from_raw n) = is_system_network n"
  "ns_count (summary_from_raw n) = length (rn_containers n)"
  by (simp_all add: summary_from_raw_def detail_from_raw_def net_summary.truncate_def Let_def split: prod.split)

text \<open>One creation at a time, exactly while the button says so, and none without a name.\<close>

definition one_create :: "network_page \<Rightarrow> bool" where
  "one_create p =
     (length (creates p) = (if creating p then 1 else 0)
      \<and> list_all (\<lambda>q. cn_name q \<noteq> [] \<and> trim (cn_name q) = cn_name q \<and> cn_driver q \<noteq> []
          \<and> cn_subnet q \<noteq> Some [] \<and> cn_gateway q \<noteq> Some []) (creates p))"

lemma one_create_step: "network_step p q \<Longrightarrow> one_create p \<Longrightarrow> one_create q"
proof (induction rule: network_step.induct)
  case (submit p)
  then show ?case
    by (auto simp: one_create_def handleCreate_def create_payload_def create_disabled_def filled_or_def
        truthy_def split: option.splits)
next
  case (answer p failed)
  then show ?case by (cases "creates p"; cases failed) (auto simp: one_create_def create_answered_def Let_def split: if_splits)
qed (auto simp: one_create_def close_create_def handleInspect_def inspect_answered_def handleDelete_def
      delete_answered_def split: sum.splits option.splits)

subsection \<open>Properties\<close>

text \<open>
  The engine never deletes a system network, every deletion of one is refused with a record of it, and
  a deletion that happens is recorded too.
\<close>

theorem system_networks_stay:
  assumes "delete_network inspect ok i log = (r, deleted, log')"
  shows "(deleted \<longrightarrow> (\<exists>n. inspect i = Some n \<and> \<not> is_system_network n) \<and> au_allowed (last log'))
    \<and> (\<forall>n. inspect i = Some n \<and> is_system_network n
        \<longrightarrow> r = Inl System_network \<and> \<not> au_allowed (last log') \<and> length log' = Suc (length log))"
  using assms by (auto simp: delete_network_def split: option.splits if_splits)

theorem system_networks_stay_witness:
  "fst (delete_network (\<lambda>_. Some \<lparr>rn_id = ''n'', rn_name = ''app'', rn_driver = ''bridge'', rn_scope = ''local'',
       rn_internal = False, rn_created = [],
       rn_containers = [\<lparr>nc_id = ''c'', nc_name = ''App-Postgres-1'', nc_ipv4 = [], nc_mac = []\<rparr>],
       rn_ipam = [], rn_labels = [], rn_options = []\<rparr>) True ''n'' []) = Inl System_network"
  (is "fst ?r = _")
proof -
  obtain r d l where r: "?r = (r, d, l)" using prod_cases3 by blast
  have "is_system_network \<lparr>rn_id = ''n'', rn_name = ''app'', rn_driver = ''bridge'', rn_scope = ''local'',
       rn_internal = False, rn_created = [],
       rn_containers = [\<lparr>nc_id = ''c'', nc_name = ''App-Postgres-1'', nc_ipv4 = [], nc_mac = []\<rparr>],
       rn_ipam = [], rn_labels = [], rn_options = []\<rparr>" by code_simp
  then show ?thesis using system_networks_stay [OF r] r by auto
qed

text \<open>
  Where the inspection of a network answers the same as when it was listed, its row has a button to
  delete it exactly when the server does not refuse to.
\<close>

theorem delete_offered_as_allowed:
  assumes "s \<in> set (list_networks inspect shallow)" "inspect (ns_id s) = Some n" "rn_id n = ns_id s"
    and "\<And>m k. m \<in> set shallow \<Longrightarrow> inspect (rn_id m) = Some k \<Longrightarrow> rn_id k = rn_id m"
  shows "(\<exists>b. Press (t ''common.delete'') b \<in> set (tl (network_actions t busy insp s)))
    \<longleftrightarrow> fst (delete_network inspect True (ns_id s) log) = Inr ()"
proof -
  obtain m where m: "m \<in> set shallow" "s = summary_from_raw (case inspect (rn_id m) of None \<Rightarrow> m | Some f \<Rightarrow> f)"
    using assms(1) by (auto simp: list_networks_def)
  have "s = summary_from_raw n"
  proof (cases "inspect (rn_id m)")
    case None
    then show ?thesis using m assms(2) by simp
  next
    case (Some f)
    then show ?thesis using m assms(2) assms(4) [OF m(1) Some] by simp
  qed
  then show ?thesis
    using assms(2) by (auto simp: network_actions_def shown_if_def delete_network_def)
qed

theorem delete_offered_as_allowed_witness:
  "\<exists>inspect s. (\<exists>b. Press ''common.delete'' b \<in> set (tl (network_actions id None False s)))
     \<and> fst (delete_network inspect True (ns_id s) []) = Inr ()"
proof -
  let ?n = "\<lparr>rn_id = ''n'', rn_name = ''app'', rn_driver = ''bridge'', rn_scope = ''local'', rn_internal = False,
    rn_created = [], rn_containers = [], rn_ipam = [], rn_labels = [], rn_options = []\<rparr>"
  let ?i = "\<lambda>i. if i = ''n'' then Some ?n else None"
  let ?s = "hd (list_networks ?i [?n])"
  have "?s \<in> set (list_networks ?i [?n])" "?i (ns_id ?s) = Some ?n" "rn_id ?n = ns_id ?s"
    "\<And>m k. m \<in> set [?n] \<Longrightarrow> ?i (rn_id m) = Some k \<Longrightarrow> rn_id k = rn_id m"
    by (simp_all add: list_networks_def split: if_splits)
  note r = delete_offered_as_allowed [OF this, of id None False "[]"]
  have "fst (delete_network ?i True (ns_id ?s) []) = Inr ()" by code_simp
  with r show ?thesis by auto
qed

text \<open>
  A network whose inspection failed while the list was made is listed without its containers: as a
  user's network with a button the server then refuses.
\<close>

theorem uninspected_offers_delete:
  assumes "rn_name n \<notin> set BUILTIN_NETWORKS" "rn_containers n = []" "is_system_network full"
  shows "list_networks (\<lambda>_. None) [n] = [summary_from_raw n]
    \<and> Press (t ''common.delete'') True \<in> set (network_actions t None False (summary_from_raw n))
    \<and> fst (delete_network (\<lambda>_. Some full) True (rn_id n) log) = Inl System_network"
  using assms by (simp add: list_networks_def network_actions_def shown_if_def is_system_network_def delete_network_def)

text \<open>
  A container that is protected by its class need not protect its network: the words of the two
  lists differ.
\<close>

theorem proxy_network_not_system:
  assumes "rn_name n \<notin> set BUILTIN_NETWORKS"
    and "\<forall>c \<in> set (rn_containers n). nc_name c \<in> {''llm-port-nginx'', ''llm-port-backend'', ''llm-port-worker''}"
  shows "\<not> is_system_network n"
proof -
  have "\<not> list_ex (\<lambda>w. has_infix (to_lower s) w) SYSTEM_CONTAINER_WORDS"
    if "s \<in> {''llm-port-nginx'', ''llm-port-backend'', ''llm-port-worker''}" for s
  proof -
    have "list_all (\<lambda>s. \<not> list_ex (\<lambda>w. has_infix (to_lower s) w) SYSTEM_CONTAINER_WORDS)
        [''llm-port-nginx'', ''llm-port-backend'', ''llm-port-worker'']" by code_simp
    with that show ?thesis by (auto simp: list_all_iff)
  qed
  with assms show ?thesis by (auto simp: is_system_network_def list_ex_iff)
qed

text \<open>Of the columns that offer sorting two do not sort; the search looks at names, drivers and scopes.\<close>

theorem network_table:
  "dead_sorts (network_columns t busy i) = [''name'', ''scope'']
   \<and> sort_offered (network_columns t busy i) = [''name'', ''scope'', ''containers'']
   \<and> distinct (table_keys (network_columns t busy i))
   \<and> row_texts (network_columns t busy i) n = [ns_name n @ '' '' @ ns_id n, ns_driver n, ns_scope n]"
  by (simp add: network_columns_def dead_sorts_def sort_offered_def table_keys_def row_texts_def data_columns_def
      column_defs List.map_filter_simps)

text \<open>Every network is shown under exactly one of the two types, and both types show all.\<close>

theorem types_partition:
  "set (filteredData [''system''] ns) \<union> set (filteredData [''user''] ns) = set ns
   \<and> set (filteredData [''system''] ns) \<inter> set (filteredData [''user''] ns) = {}
   \<and> filteredData [''system'', ''user''] ns = ns"
  by (auto simp: filteredData_def network_type_def filter_filter_id)

text \<open>
  In every reachable state at most one creation waits, exactly while the button says so, and what is
  sent has a name without white space around it and no empty address.
\<close>

theorem creations_well_formed:
  assumes "network_reachable p"
  shows "length (creates p) = (if creating p then 1 else 0)
    \<and> (\<forall>q \<in> set (creates p). cn_name q \<noteq> [] \<and> trim (cn_name q) = cn_name q
        \<and> cn_subnet q \<noteq> Some [] \<and> cn_gateway q \<noteq> Some []
        \<and> (ipam_of q = [] \<longleftrightarrow> cn_subnet q = None \<and> cn_gateway q = None))"
proof -
  have "one_create p"
    using assms unfolding network_reachable_def
  proof (induction rule: rtranclp_induct)
    case base
    then show ?case by (simp add: one_create_def networks_opened_def)
  next
    case (step y z)
    then show ?case by (blast intro: one_create_step)
  qed
  then show ?thesis by (auto simp: one_create_def list_all_iff ipam_of_def truthy_def split: option.splits)
qed

text \<open>
  The dialog can be closed while a creation waits: its answer closes the dialog that was opened again
  since and drops what was typed into it.
\<close>

theorem late_creation_closes_dialog:
  assumes "network_reachable p" "showCreate p" "\<not> create_disabled p"
  shows "\<exists>q. network_step\<^sup>*\<^sup>* p q \<and> showCreate q \<and> nf_name (createForm q) = n
    \<and> network_step q (create_answered None q)
    \<and> \<not> showCreate (create_answered None q) \<and> createForm (create_answered None q) = empty_net_form"
proof -
  let ?p1 = "handleCreate p"
  let ?p2 = "close_create ?p1"
  let ?p3 = "?p2\<lparr>showCreate := True\<rparr>"
  let ?q = "?p3\<lparr>createForm := \<lparr>nf_name = n, nf_driver = ''bridge'', nf_internal = False,
    nf_subnet = set_field [], nf_gateway = set_field []\<rparr>\<rparr>"
  have "network_step p ?p1" using assms(2,3) by (rule network_step.submit)
  moreover have "network_step ?p1 ?p2" by (rule network_step.cancel) (simp add: handleCreate_def assms(2))
  moreover have "network_step ?p2 ?p3" by (rule network_step.open_dialog)
  moreover have "network_step ?p3 ?q" by (rule network_step.typing) simp
  ultimately have "network_step\<^sup>*\<^sup>* p ?q" by (meson rtranclp.rtrancl_into_rtrancl rtranclp.rtrancl_refl)
  moreover have "creates ?q \<noteq> []" by (simp add: close_create_def handleCreate_def)
  then have "network_step ?q (create_answered None ?q)" by (rule network_step.answer)
  ultimately show ?thesis by (intro exI [of _ ?q]) (simp add: create_answered_def)
qed

end
