(* ===== verification/Container_Logs.thy ===== *)
theory Container_Logs
  imports Page_Load
begin

text \<open>
  The logs of a module's containers: \<^verbatim>\<open>components/ContainerLogsDialog.tsx\<close>, a dialog with a tab and a
  panel per container, against the list of services and the route of the logs
  (\<^verbatim>\<open>web/api/admin/services/views.py\<close> of the backend). Requests in flight are kept with what they ask
  for. The scrolling, the clipboard and the JSX are not modelled, and the engine's list of containers
  is an argument.
\<close>

subsection \<open>The server\<close>

record module_def =
  mo_name :: string
  mo_plugin :: bool
  mo_containers :: "string list"

record engine_container =
  ec_id :: string
  ec_names :: "string list"
  ec_state :: string

definition clean_name :: "string \<Rightarrow> string" where
  "clean_name n = dropWhile (\<lambda>c. c = CHR ''/'') n"

text \<open>The states of the containers of a module; a name given twice has the state given last.\<close>

definition name_map :: "engine_container list \<Rightarrow> string \<Rightarrow> string option" where
  "name_map cs = map_of (rev (concat (map (\<lambda>c. map (\<lambda>n. (clean_name n, ec_state c)) (ec_names c)) cs)))"

definition listed_containers :: "engine_container list option \<Rightarrow> module_def \<Rightarrow> (string \<times> string) list" where
  "listed_containers engine m =
     (if mo_plugin m then []
      else (case engine of
              None \<Rightarrow> map (\<lambda>n. (n, ''unknown'')) (mo_containers m)
            | Some cs \<Rightarrow> map (\<lambda>n. (n, case name_map cs n of None \<Rightarrow> ''not_found'' | Some s \<Rightarrow> s)) (mo_containers m)))"

datatype logs_error = Unknown_module | No_containers | Not_of_module | Engine_unreachable | Not_running | Bad_tail

text \<open>The container whose logs are sent.\<close>

definition module_container_logs ::
  "module_def list \<Rightarrow> engine_container list option \<Rightarrow> string \<Rightarrow> string \<Rightarrow> nat \<Rightarrow> logs_error + string" where
  "module_container_logs registry engine name container tail =
     (if \<not> (1 \<le> tail \<and> tail \<le> 10000) then Inl Bad_tail
      else case find (\<lambda>m. mo_name m = name) registry of
        None \<Rightarrow> Inl Unknown_module
      | Some m \<Rightarrow>
          if mo_plugin m then Inl No_containers
          else if container \<notin> set (mo_containers m) then Inl Not_of_module
          else (case engine of
                  None \<Rightarrow> Inl Engine_unreachable
                | Some cs \<Rightarrow>
                    (case find (\<lambda>c. container \<in> set (map clean_name (ec_names c))) cs of
                       None \<Rightarrow> Inl Not_running
                     | Some c \<Rightarrow> if ec_id c = [] then Inl Not_running else Inr (ec_id c))))"

subsection \<open>A panel\<close>

definition TAIL_OPTIONS :: "nat list" where
  "TAIL_OPTIONS = [50, 100, 200, 500, 1000]"

type_synonym log_query = "string \<times> string \<times> nat"

text \<open>\<open>lp_shown\<close> is the question whose answer the panel holds; it is there for the statements only.\<close>

record log_panel =
  lp_module :: string
  lp_container :: string
  lp_tail :: nat
  lp_logs :: string
  lp_error :: "string option"
  lp_loading :: bool
  autoScroll :: bool
  lp_flying :: "log_query list"
  lp_shown :: "log_query option"

definition new_panel :: "string \<Rightarrow> string \<Rightarrow> log_panel" where
  "new_panel module c =
     \<lparr>lp_module = module, lp_container = c, lp_tail = 200, lp_logs = [], lp_error = None, lp_loading = False,
      autoScroll = True, lp_flying = [], lp_shown = None\<rparr>"

definition log_query :: "log_panel \<Rightarrow> log_query" where
  "log_query p = (lp_module p, lp_container p, lp_tail p)"

definition fetchLogs :: "log_panel \<Rightarrow> log_panel" where
  "fetchLogs p = p\<lparr>lp_loading := True, lp_error := None, lp_flying := lp_flying p @ [log_query p]\<rparr>"

definition logs_answered :: "nat \<Rightarrow> string + string \<Rightarrow> log_panel \<Rightarrow> log_panel" where
  "logs_answered i a p =
     (let q = p\<lparr>lp_flying := take i (lp_flying p) @ drop (Suc i) (lp_flying p), lp_shown := Some (lp_flying p ! i)\<rparr>
      in (case a of
            Inr s \<Rightarrow> q\<lparr>lp_logs := s\<rparr>
          | Inl msg \<Rightarrow> q\<lparr>lp_error := Some msg, lp_logs := []\<rparr>)\<lparr>lp_loading := False\<rparr>)"

text \<open>The effect that follows a change of what the panel asks for or of its tab.\<close>

definition panel_effect :: "bool \<Rightarrow> bool \<Rightarrow> log_panel \<Rightarrow> log_panel \<Rightarrow> log_panel" where
  "panel_effect was_active active old p =
     (if active \<and> (\<not> was_active \<or> log_query p \<noteq> log_query old) then fetchLogs p else p)"

definition setTail :: "nat \<Rightarrow> log_panel \<Rightarrow> log_panel" where
  "setTail n p = panel_effect True True p (p\<lparr>lp_tail := n\<rparr>)"

text \<open>What the box shows: the spinner, the error, the note that there is nothing, and the logs.\<close>

datatype log_box = Spinner | ErrorLine string | NoOutput

definition box_notes :: "log_panel \<Rightarrow> log_box list" where
  "box_notes p =
     (if lp_loading p \<and> lp_logs p = [] then [Spinner] else [])
     @ (if truthy (lp_error p) then [ErrorLine (the (lp_error p))] else [])
     @ (if \<not> lp_loading p \<and> \<not> truthy (lp_error p) \<and> lp_logs p = [] then [NoOutput] else [])"

subsection \<open>The dialog\<close>

record logs_dialog =
  ld_open :: bool
  ld_tab :: nat
  ld_panels :: "log_panel list"

definition logs_closed :: logs_dialog where
  "logs_closed = \<lparr>ld_open = False, ld_tab = 0, ld_panels = []\<rparr>"

definition select_tab :: "nat \<Rightarrow> logs_dialog \<Rightarrow> logs_dialog" where
  "select_tab j d =
     d\<lparr>ld_tab := j,
       ld_panels := map (\<lambda>(i, p). panel_effect (i = ld_tab d) (i = j) p p) (enumerate 0 (ld_panels d))\<rparr>"

text \<open>
  Opening mounts the panels, closing removes them with what they wait for. At the first render the index
  of the tab is the one of the last time, then the effect sets it to the first.
\<close>

definition open_logs :: "nat \<Rightarrow> string \<Rightarrow> string list \<Rightarrow> logs_dialog" where
  "open_logs last_tab module names =
     select_tab 0 \<lparr>ld_open = True, ld_tab = last_tab,
       ld_panels = map (\<lambda>(i, n). panel_effect False (i = last_tab) (new_panel module n) (new_panel module n))
         (enumerate 0 names)\<rparr>"

definition close_logs :: "logs_dialog \<Rightarrow> logs_dialog" where
  "close_logs d = \<lparr>ld_open = False, ld_tab = ld_tab d, ld_panels = []\<rparr>"

definition tabs_shown :: "logs_dialog \<Rightarrow> string list" where
  "tabs_shown d = (if 1 < length (ld_panels d) then map lp_container (ld_panels d) else [])"

definition rendered :: "logs_dialog \<Rightarrow> log_panel list" where
  "rendered d = map snd (filter (\<lambda>(i, p). i = ld_tab d) (enumerate 0 (ld_panels d)))"

definition on_panel :: "nat \<Rightarrow> (log_panel \<Rightarrow> log_panel) \<Rightarrow> logs_dialog \<Rightarrow> logs_dialog" where
  "on_panel i f d = d\<lparr>ld_panels := (ld_panels d)[i := f (ld_panels d ! i)]\<rparr>"

text \<open>The steps; \<open>services\<close> is what the page of the modules lists.\<close>

inductive logs_step :: "(string \<times> string list) list \<Rightarrow> logs_dialog \<Rightarrow> logs_dialog \<Rightarrow> bool" for services where
  opened: "\<not> ld_open d \<Longrightarrow> (m, names) \<in> set services \<Longrightarrow> logs_step services d (open_logs (ld_tab d) m names)"
| closed: "ld_open d \<Longrightarrow> logs_step services d (close_logs d)"
| tab: "j < length (tabs_shown d) \<Longrightarrow> logs_step services d (select_tab j d)"
| tail: "ld_tab d < length (ld_panels d) \<Longrightarrow> n \<in> set TAIL_OPTIONS
    \<Longrightarrow> logs_step services d (on_panel (ld_tab d) (setTail n) d)"
| refresh: "ld_tab d < length (ld_panels d) \<Longrightarrow> \<not> lp_loading (ld_panels d ! ld_tab d)
    \<Longrightarrow> logs_step services d (on_panel (ld_tab d) fetchLogs d)"
| answer: "i < length (ld_panels d) \<Longrightarrow> k < length (lp_flying (ld_panels d ! i))
    \<Longrightarrow> logs_step services d (on_panel i (logs_answered k a) d)"

definition logs_reachable :: "(string \<times> string list) list \<Rightarrow> logs_dialog \<Rightarrow> bool" where
  "logs_reachable services d = (logs_step services)\<^sup>*\<^sup>* logs_closed d"

subsection \<open>Lemmas\<close>

interpretation panel: page_load log_query lp_flying "\<lambda>p q. lp_shown p = Some q" fetchLogs logs_answered "\<lambda>q a. True"
  by unfold_locales
    (auto simp: log_query_def fetchLogs_def logs_answered_def Let_def split: sum.splits)

lemma panel_effect_same: "panel_effect was active p p = (if active \<and> \<not> was then fetchLogs p else p)"
  by (simp add: panel_effect_def)

text \<open>A panel asks for its own container of the module with a tail that is offered.\<close>

definition panel_sound :: "(string \<times> string list) list \<Rightarrow> log_panel \<Rightarrow> bool" where
  "panel_sound services p =
     ((\<exists>ns. (lp_module p, ns) \<in> set services \<and> lp_container p \<in> set ns) \<and> lp_tail p \<in> set TAIL_OPTIONS
      \<and> list_all (\<lambda>(m, c, n). m = lp_module p \<and> c = lp_container p \<and> n \<in> set TAIL_OPTIONS) (lp_flying p))"

lemma fetch_sound: "panel_sound sv p \<Longrightarrow> panel_sound sv (fetchLogs p)"
  by (simp add: panel_sound_def fetchLogs_def log_query_def)

lemma setTail_sound: "panel_sound sv p \<Longrightarrow> n \<in> set TAIL_OPTIONS \<Longrightarrow> panel_sound sv (setTail n p)"
  by (auto simp: setTail_def panel_effect_def intro!: fetch_sound) (auto simp: panel_sound_def)

lemma answered_sound: "panel_sound sv p \<Longrightarrow> panel_sound sv (logs_answered k a p)"
  unfolding panel_sound_def list_all_iff
  by (cases a) (auto simp: logs_answered_def Let_def dest!: in_set_takeD in_set_dropD)

lemma new_sound: "(m, ns) \<in> set sv \<Longrightarrow> c \<in> set ns \<Longrightarrow> panel_sound sv (new_panel m c)"
  by (auto simp: panel_sound_def new_panel_def TAIL_OPTIONS_def)

definition dialog_sound :: "(string \<times> string list) list \<Rightarrow> logs_dialog \<Rightarrow> bool" where
  "dialog_sound sv d =
     (list_all (panel_sound sv) (ld_panels d) \<and> (ld_panels d \<noteq> [] \<longrightarrow> ld_tab d < length (ld_panels d)))"

lemma on_panel_sound:
  assumes "dialog_sound sv d" "\<And>p. panel_sound sv p \<Longrightarrow> panel_sound sv (f p)" "i < length (ld_panels d)"
  shows "dialog_sound sv (on_panel i f d)"
  using assms by (auto simp: dialog_sound_def on_panel_def list_all_iff dest!: set_update_subset_insert [THEN subsetD])

lemma dialog_sound_step:
  assumes "logs_step sv d d'" "dialog_sound sv d"
  shows "dialog_sound sv d'"
  using assms
proof (cases rule: logs_step.cases)
  case (opened m names)
  have e: "panel_sound sv (panel_effect w b p p)" if "panel_sound sv p" for w b p
    using that by (auto simp: panel_effect_same intro: fetch_sound)
  have "panel_sound sv (panel_effect False b (new_panel m n) (new_panel m n))" if "n \<in> set names" for n b
    by (rule e, rule new_sound [OF opened(3) that])
  with e show ?thesis
    using opened(1)
    by (auto simp: dialog_sound_def open_logs_def select_tab_def list_all_iff in_set_enumerate_eq nth_enumerate_eq)
next
  case (tab j)
  have "panel_sound sv (panel_effect a b p p)" if "p \<in> set (ld_panels d)" for a b p
    using assms(2) that by (auto simp: dialog_sound_def list_all_iff panel_effect_same intro: fetch_sound)
  then show ?thesis
    using tab by (auto simp: dialog_sound_def select_tab_def tabs_shown_def list_all_iff in_set_enumerate_eq
        split: if_splits)
next
  case (tail n)
  show ?thesis
    unfolding tail(1) by (rule on_panel_sound [OF assms(2)]) (use tail setTail_sound in auto)
next
  case refresh
  show ?thesis unfolding refresh(1) by (rule on_panel_sound [OF assms(2)]) (use refresh fetch_sound in auto)
next
  case (answer i k a)
  show ?thesis unfolding answer(1) by (rule on_panel_sound [OF assms(2)]) (use answer answered_sound in auto)
qed (simp add: dialog_sound_def close_logs_def)

lemma reachable_dialog_sound: "logs_reachable sv d \<Longrightarrow> dialog_sound sv d"
  unfolding logs_reachable_def
  by (induction rule: rtranclp_induct) (simp add: dialog_sound_def logs_closed_def, rule dialog_sound_step)

lemma rendered_eq: "ld_tab d < length (ld_panels d) \<Longrightarrow> rendered d = [ld_panels d ! ld_tab d]"
proof -
  have "map snd (filter (\<lambda>(i, p). i = n) (enumerate k ps)) = (if k \<le> n \<and> n < k + length ps then [ps ! (n - k)] else [])"
    for ps :: "log_panel list" and k n
  proof (induction ps arbitrary: k)
    case (Cons p ps)
    then show ?case by (cases "k = n") (auto simp: nth_Cons')
  qed simp
  then show "ld_tab d < length (ld_panels d) \<Longrightarrow> rendered d = [ld_panels d ! ld_tab d]"
    by (simp add: rendered_def)
qed

subsection \<open>Properties\<close>

text \<open>
  C20: Every request of the dialog for a module the list of services names is answered by the server unless
  the engine fails or the container does not run: it never asks for a container of another module.
\<close>

theorem dialog_asks_its_module:
  assumes "logs_reachable (map (\<lambda>m. (mo_name m, map fst (listed_containers engine m))) registry) d"
    and "distinct (map mo_name registry)"
    and "p \<in> set (ld_panels d)" "(name, c, n) \<in> set (lp_flying p)"
  shows "module_container_logs registry engine' name c n
    \<notin> {Inl Unknown_module, Inl No_containers, Inl Not_of_module, Inl Bad_tail}"
proof -
  let ?sv = "map (\<lambda>m. (mo_name m, map fst (listed_containers engine m))) registry"
  have "panel_sound ?sv p" using reachable_dialog_sound [OF assms(1)] assms(3) by (auto simp: dialog_sound_def list_all_iff)
  then obtain ns where ns: "(name, ns) \<in> set ?sv" "c \<in> set ns" "n \<in> set TAIL_OPTIONS"
    using assms(4) unfolding panel_sound_def list_all_iff by fastforce
  then obtain m where m: "m \<in> set registry" "name = mo_name m" "c \<in> fst ` set (listed_containers engine m)" by auto
  have "\<not> mo_plugin m" "c \<in> set (mo_containers m)"
    using m(3) by (auto simp: listed_containers_def split: if_splits option.splits)
  moreover have "find (\<lambda>x. mo_name x = name) registry = Some m"
    using m(1,2) assms(2) by (induction registry) auto
  moreover have "1 \<le> n \<and> n \<le> 10000" using ns(3) by (auto simp: TAIL_OPTIONS_def)
  ultimately show ?thesis by (simp add: module_container_logs_def split: option.split)
qed

theorem dialog_asks_its_module_witness:
  "module_container_logs [\<lparr>mo_name = ''rag'', mo_plugin = False, mo_containers = [''w'']\<rparr>]
     (Some [\<lparr>ec_id = ''1'', ec_names = [''/w''], ec_state = ''running''\<rparr>]) ''rag'' ''w'' 200 \<noteq> Inl Not_of_module"
proof -
  let ?r = "[\<lparr>mo_name = ''rag'', mo_plugin = False, mo_containers = [''w'']\<rparr>]"
  let ?sv = "map (\<lambda>m. (mo_name m, map fst (listed_containers None m))) ?r"
  have "logs_step ?sv logs_closed (open_logs (ld_tab logs_closed) ''rag'' [''w''])"
    by (rule logs_step.opened) (simp_all add: logs_closed_def listed_containers_def)
  then have "logs_step ?sv logs_closed (open_logs 0 ''rag'' [''w''])" by (simp add: logs_closed_def)
  then have r: "logs_reachable ?sv (open_logs 0 ''rag'' [''w''])"
    unfolding logs_reachable_def by (rule r_into_rtranclp)
  show ?thesis
    using dialog_asks_its_module [OF r, of "hd (ld_panels (open_logs 0 ''rag'' [''w'']))" "''rag''" "''w''" 200]
    by (simp add: open_logs_def select_tab_def panel_effect_same fetchLogs_def new_panel_def log_query_def)
qed

text \<open>An open dialog of a module with containers shows exactly one panel, that of the tab.\<close>

theorem one_panel_rendered:
  assumes "logs_reachable services d" "ld_panels d \<noteq> []"
  shows "rendered d = [ld_panels d ! ld_tab d]"
  using reachable_dialog_sound [OF assms(1)] assms(2) by (simp add: rendered_eq dialog_sound_def)

text \<open>Selecting a tab loads its logs again; the other panels keep theirs.\<close>

theorem tab_reloads:
  assumes "j < length (ld_panels d)" "i < length (ld_panels d)" "j \<noteq> ld_tab d"
  shows "ld_panels (select_tab j d) ! i = (if i = j then fetchLogs (ld_panels d ! i) else ld_panels d ! i)"
  using assms by (auto simp: select_tab_def nth_enumerate_eq panel_effect_same)

text \<open>While the answers come in the order of the requests, a panel that waits for none shows what it asks for.\<close>

theorem panel_current_in_order:
  assumes "panel.in_step p" "lp_flying p \<noteq> []"
  shows "panel.in_step (logs_answered 0 a p) \<and> panel.in_step (setTail n p) \<and> panel.in_step (fetchLogs p)"
proof (intro conjI)
  show "panel.in_step (logs_answered 0 a p)" using panel.first_answer_in_step assms by blast
  show "panel.in_step (fetchLogs p)" by (rule panel.load_in_step)
  have "panel.in_step (panel.after_change p (p\<lparr>lp_tail := n\<rparr>))"
    by (rule panel.change_in_step [OF assms(1)]) simp_all
  moreover have "setTail n p = panel.after_change p (p\<lparr>lp_tail := n\<rparr>)"
    by (simp add: setTail_def panel_effect_def panel.after_change_def)
  ultimately show "panel.in_step (setTail n p)" by simp
qed

text \<open>
  An answer that comes late is shown: after a change of the number of lines and answers in the other
  order the panel shows the old number of lines under the new choice, and no sign of loading.
\<close>

theorem late_logs_of_other_tail:
  assumes "lp_flying p = []" "n \<noteq> lp_tail p"
  shows "let q = logs_answered 0 (Inr old) (logs_answered 1 (Inr new) (setTail n (fetchLogs p)))
    in lp_tail q = n \<and> lp_logs q = old \<and> \<not> lp_loading q \<and> lp_flying q = [] \<and> lp_shown q = Some (log_query p)"
  using assms
  by (simp add: setTail_def panel_effect_def fetchLogs_def logs_answered_def log_query_def Let_def)

text \<open>
  A failure of the first of two requests stays on the panel above the logs of the second, although
  every request clears it at its start.
\<close>

theorem failure_over_logs:
  assumes "lp_flying p = []" "n \<noteq> lp_tail p" "s \<noteq> []" "msg \<noteq> []"
  shows "let q = logs_answered 0 (Inr s) (logs_answered 0 (Inl msg) (setTail n (fetchLogs p)))
    in lp_logs q = s \<and> lp_shown q = Some (log_query q) \<and> box_notes q = [ErrorLine msg]"
  using assms
  by (simp add: setTail_def panel_effect_def fetchLogs_def logs_answered_def log_query_def box_notes_def Let_def)

end
