(* ===== verification/Resource_Tables.thy ===== *)
theory Resource_Tables
  imports Table_Columns Image_Page Logs_Table
begin

text \<open>
  The tables of the engine's resources and of what is recorded: the columns of
  \<^verbatim>\<open>pages/admin/ContainersPage.tsx\<close>, \<^verbatim>\<open>ImagesPage.tsx\<close>, \<^verbatim>\<open>StacksPage.tsx\<close>, \<^verbatim>\<open>AuditLogsTab.tsx\<close> and
  \<^verbatim>\<open>logs/LogsTable.tsx\<close>. The audit log is joined with the query the server answers
  (\<^verbatim>\<open>db/dao/audit_dao.py\<close> of the backend). Times are numbers on the server; what a date looks like is
  an argument.
\<close>

subsection \<open>Containers\<close>

record container_row = container +
  ct_image :: string
  ct_status :: string
  ct_endpoint :: string

fun class_text :: "container_class \<Rightarrow> string" where
  "class_text SystemCore = ''SYSTEM_CORE''"
| "class_text SystemAux = ''SYSTEM_AUX''"
| "class_text Mcp = ''MCP''"
| "class_text TenantApp = ''TENANT_APP''"
| "class_text Untrusted = ''UNTRUSTED''"

definition class_cell :: "containers_page \<Rightarrow> container_row \<Rightarrow> el list" where
  "class_cell p c =
     (if ct_class c \<in> set LOCKED_CLASSES then [ClassChip (class_text (ct_class c))]
      else [Pick (class_text (ct_class c)) (actionLoading p \<noteq> Some (action_key (ct_id c) ''class''))
              (map class_text CLASS_OPTIONS)])"

definition container_columns :: "(string \<Rightarrow> string) \<Rightarrow> containers_page \<Rightarrow> container_row shown_column list" where
  "container_columns t p =
     [searched (\<lambda>c. ct_name c @ '' '' @ ct_id c) (sorted_by (\<lambda>c. SText (ct_name c))
        (plain ''name'' (t ''common.name'')
          (\<lambda>c. [Goto (''/admin/containers/'' @ ct_id c) (ct_name c), Words (take 12 (ct_id c))]))),
      searched ct_image (sorted_by (\<lambda>c. SText (ct_image c))
        (plain ''image'' (t ''containers.image'') (\<lambda>c. [Words (ct_image c)]))),
      searched ct_state (sorted_by (\<lambda>c. SText (ct_state c))
        (plain ''state'' (t ''containers.state'') (\<lambda>c. [StateChip (ct_state c), Words (ct_status c)]))),
      searched (\<lambda>c. class_text (ct_class c)) (sorted_by (\<lambda>c. SText (class_text (ct_class c)))
        (plain ''container_class'' (t ''containers.class'') (class_cell p))),
      searched ct_endpoint (sorted_by (\<lambda>c. SText (ct_endpoint c))
        (plain ''endpoint'' (t ''containers.endpoint'') (\<lambda>c. [Words (filled_or ndash (ct_endpoint c))]))),
      searched ct_scope (sorted_by (\<lambda>c. SText (ct_scope c))
        (plain ''owner_scope'' (t ''containers.scope'') (\<lambda>c. [Words (ct_scope c)])))]"

text \<open>The last column: the buttons of \<open>Container_Policy\<close>, all disabled while the row is busy, and the page of the container.\<close>

definition action_title :: "action \<Rightarrow> string" where
  "action_title a = ''common.'' @ action_name a"

definition container_actions ::
  "(string \<Rightarrow> string) \<Rightarrow> bool \<Rightarrow> containers_page \<Rightarrow> container_row shown_column" where
  "container_actions t rootMode p =
     always_shown (plain ''actions'' (t ''common.actions'')
       (\<lambda>c. map (\<lambda>a. Press (t (action_title a)) (\<not> row_busy p (container.truncate c)))
               (row_buttons rootMode (container.truncate c))
            @ [Goto (''/admin/containers/'' @ ct_id c) (t ''common.details'')]))"

definition container_table ::
  "(string \<Rightarrow> string) \<Rightarrow> bool \<Rightarrow> containers_page \<Rightarrow> container_row shown_column list" where
  "container_table t rootMode p = container_columns t p @ [container_actions t rootMode p]"

subsection \<open>Images and stacks\<close>

record image_row =
  ir_id :: string
  ir_tags :: "string list"
  ir_size :: nat
  ir_created :: string

definition image_columns :: "(string \<Rightarrow> string) \<Rightarrow> (string \<Rightarrow> string) \<Rightarrow> image_row shown_column list" where
  "image_columns t day =
     [searched (\<lambda>i. join '' '' (ir_tags i))
        (plain ''tags'' (t ''images.tags'')
          (\<lambda>i. if ir_tags i \<noteq> [] then map (\<lambda>g. Tag g ''default'') (ir_tags i) else [Words (t ''common.none'')])),
      searched ir_id (plain ''id'' ''ID'' (\<lambda>i. [Words (take 12 (drop 7 (ir_id i)))])),
      sorted_by (\<lambda>i. SNumber (int (ir_size i)))
        (plain ''size'' (t ''common.size'') (\<lambda>i. [Words (bytes (ir_size i))])),
      sorted_by (\<lambda>i. SText (ir_created i))
        (plain ''created'' (t ''common.created'')
          (\<lambda>i. [Words (if ir_created i \<noteq> [] then day (ir_created i) else dash)]))]"

record stack_row =
  sr_id :: string
  sr_rev :: nat
  sr_created :: string

definition stack_columns ::
  "(string \<Rightarrow> string) \<Rightarrow> (string \<Rightarrow> int) \<Rightarrow> (string \<Rightarrow> string) \<Rightarrow> stack_row shown_column list" where
  "stack_columns t ms date =
     [searched sr_id (sortable (plain ''stack_id'' (t ''stacks.stack_id'') (\<lambda>s. [Words (sr_id s)]))),
      sorted_by (\<lambda>s. SNumber (int (sr_rev s)))
        (plain ''latest_rev'' (t ''stacks.latest_rev'') (\<lambda>s. [Words (CHR ''v'' # show_nat (sr_rev s))])),
      sorted_by (\<lambda>s. SNumber (ms (sr_created s)))
        (plain ''created_at'' (t ''stacks.updated'') (\<lambda>s. [Words (date (sr_created s))]))]"

subsection \<open>The audit log\<close>

text \<open>An event, with the moment of its time.\<close>

record audit_event =
  ae_id :: string
  ae_time :: string
  ae_moment :: int
  ae_actor :: "string option"
  ae_action :: string
  ae_target_type :: string
  ae_target :: string
  ae_result :: string
  ae_severity :: string

definition audit_columns ::
  "(string \<Rightarrow> int) \<Rightarrow> (string \<Rightarrow> string) \<Rightarrow> audit_event shown_column list" where
  "audit_columns ms date =
     [sorted_by (\<lambda>e. SNumber (ms (ae_time e))) (plain ''time'' ''Time'' (\<lambda>e. [Words (date (ae_time e))])),
      searched ae_action (sortable (plain ''action'' ''Action'' (\<lambda>e. [Words (ae_action e)]))),
      searched (\<lambda>e. ae_target_type e @ '' '' @ ae_target e)
        (plain ''target'' ''Target'' (\<lambda>e. [Words (ae_target_type e @ ''/''), Words (take 24 (ae_target e))])),
      plain ''result'' ''Result'' (\<lambda>e. [ResultChip (ae_result e)]),
      plain ''severity'' ''Severity'' (\<lambda>e. [SeverityChip (ae_severity e)]),
      searched (\<lambda>e. some_or [] (ae_actor e))
        (plain ''actor'' ''Actor'' (\<lambda>e. [Words (some_or dash (map_option (take 8) (ae_actor e)))]))]"

record audit_query =
  aq_action :: "string option"
  aq_target :: "string option"
  aq_limit :: nat

record audit_tab =
  filterAction :: string
  filterTarget :: string
  at_data :: "audit_event list"
  at_loading :: bool
  at_error :: "string option"
  at_flying :: "audit_query list"

definition undefined_if_empty :: "string \<Rightarrow> string option" where
  "undefined_if_empty s = (if s = [] then None else Some s)"

definition audit_load :: "audit_tab \<Rightarrow> audit_tab" where
  "audit_load a =
     a\<lparr>at_loading := True, at_error := None,
       at_flying := at_flying a @ [\<lparr>aq_action = undefined_if_empty (filterAction a),
         aq_target = undefined_if_empty (filterTarget a), aq_limit = 200\<rparr>]\<rparr>"

definition audit_opened :: audit_tab where
  "audit_opened =
     audit_load \<lparr>filterAction = [], filterTarget = [], at_data = [], at_loading = True, at_error = None, at_flying = []\<rparr>"

definition audit_answered :: "nat \<Rightarrow> string + audit_event list \<Rightarrow> audit_tab \<Rightarrow> audit_tab" where
  "audit_answered i ans a =
     (let b = a\<lparr>at_flying := take i (at_flying a) @ drop (Suc i) (at_flying a)\<rparr>
      in (case ans of Inl msg \<Rightarrow> b\<lparr>at_error := Some msg\<rparr> | Inr es \<Rightarrow> b\<lparr>at_data := es\<rparr>)\<lparr>at_loading := False\<rparr>)"

text \<open>What the server answers: the latest events that agree with the query.\<close>

definition list_events :: "audit_query \<Rightarrow> audit_event list \<Rightarrow> audit_event list" where
  "list_events q evs =
     take (aq_limit q)
       (filter (\<lambda>e. (truthy (aq_action q) \<longrightarrow> Some (ae_action e) = aq_action q)
                  \<and> (truthy (aq_target q) \<longrightarrow> Some (ae_target e) = aq_target q))
         (sort_key (\<lambda>e. - ae_moment e) evs))"

subsection \<open>The lines of the log\<close>

fun level_color_text :: "level_color \<Rightarrow> string" where
  "level_color_text ErrorColor = ''error''"
| "level_color_text WarningColor = ''warning''"
| "level_color_text DefaultColor = ''default''"
| "level_color_text InfoColor = ''info''"

definition log_columns ::
  "(string \<Rightarrow> string) \<Rightarrow> (string \<Rightarrow> string) \<Rightarrow> (string \<Rightarrow> string) \<Rightarrow> flat_log shown_column list" where
  "log_columns t clock encode =
     [sorted_by (\<lambda>r. SNumber (fl_ms r)) (plain ''time'' (t ''logs.time'') (\<lambda>r. [Words (clock (ts (fl_entry r)))])),
      searched fl_level (sorted_by (\<lambda>r. SText (fl_level r))
        (plain ''level'' (t ''logs.level'')
          (\<lambda>r. [Tag (to_upper (fst (levelUi (fl_level r)))) (level_color_text (snd (levelUi (fl_level r))))]))),
      searched fl_container (sorted_by (\<lambda>r. SText (fl_container r))
        (plain ''container'' (t ''logs.container'')
          (\<lambda>r. if fl_container r = [] then [Words dash]
                else [Goto (''/admin/containers?highlight='' @ encode (fl_container r)) (fl_container r)]))),
      searched (\<lambda>r. line (fl_entry r)) (plain ''message'' (t ''logs.message'') (\<lambda>r. [Words (line (fl_entry r))])),
      plain ''copy'' (t ''common.actions'') (\<lambda>r. [Press (t ''logs.copy'') True])]"

lemmas resource_tables =
  container_table_def container_columns_def container_actions_def image_columns_def stack_columns_def
  audit_columns_def log_columns_def

lemmas table_evals =
  dead_sorts_def sort_offered_def table_keys_def row_texts_def data_columns_def column_defs List.map_filter_simps

subsection \<open>Properties\<close>

text \<open>The keys of each table differ; the columns that offer sorting without sorting are the id of a stack and the action of an event.\<close>

theorem resource_tables_sorts:
  "distinct (table_keys (container_table t rootMode p)) \<and> dead_sorts (container_table t rootMode p) = []
   \<and> distinct (table_keys (image_columns t day)) \<and> dead_sorts (image_columns t day) = []
   \<and> distinct (table_keys (stack_columns t ms date)) \<and> dead_sorts (stack_columns t ms date) = [''stack_id'']
   \<and> distinct (table_keys (audit_columns ms date)) \<and> dead_sorts (audit_columns ms date) = [''action'']
   \<and> distinct (table_keys (log_columns t clock enc)) \<and> dead_sorts (log_columns t clock enc) = []"
  by (simp add: resource_tables table_evals)

text \<open>The texts that the search of each table looks at.\<close>

theorem resource_tables_search:
  "row_texts (container_table t rootMode p) c =
     [ct_name c @ '' '' @ ct_id c, ct_image c, ct_state c, class_text (ct_class c), ct_endpoint c, ct_scope c]
   \<and> row_texts (image_columns t day) i = [join '' '' (ir_tags i), ir_id i]
   \<and> row_texts (stack_columns t ms date) s = [sr_id s]
   \<and> row_texts (audit_columns ms date) e =
       [ae_action e, ae_target_type e @ '' '' @ ae_target e, some_or [] (ae_actor e)]
   \<and> row_texts (log_columns t clock enc) r = [fl_level r, fl_container r, line (fl_entry r)]"
  by (simp add: resource_tables table_evals)

text \<open>
  A line without a level is shown as \<open>INFO\<close>, but a search for that finds it only by its other texts.
\<close>

theorem info_shown_not_found:
  assumes "fl_level r = []" "\<not> has_infix (to_lower (fl_container r)) ''info''"
    and "\<not> has_infix (to_lower (line (fl_entry r))) ''info''"
  shows "snd (log_columns t clock enc ! 1) r = [Tag ''INFO'' ''info'']
    \<and> Data_Table.filteredRows (data_columns (log_columns t clock enc)) ''info'' [r] = []"
proof -
  have "to_upper ''info'' = ''INFO''" "to_lower (trim ''info'') = ''info''" "trim ''info'' \<noteq> []" by code_simp+
  moreover have "to_lower [] = []" by (simp add: to_lower_def)
  ultimately show ?thesis
    using assms by (simp add: filteredRows_texts resource_tables_search [THEN conjunct2, THEN conjunct2, THEN conjunct2, THEN conjunct2])
      (simp add: log_columns_def column_defs levelUi_def)
qed

text \<open>
  The buttons of a container's row do what its row offers and no more, and each is disabled while the
  row waits for an action.
\<close>

theorem container_buttons:
  assumes "Press l b \<in> set (snd (container_actions t rootMode p) c)"
  shows "\<exists>a \<in> set (row_buttons rootMode (container.truncate c)). l = t (action_title a)
    \<and> (b \<longleftrightarrow> \<not> row_busy p (container.truncate c))"
  using assms by (auto simp: container_actions_def column_defs)

theorem container_buttons_witness:
  "\<exists>a. l = id (action_title a) \<longrightarrow> a \<in> set (row_buttons False \<lparr>ct_id = ''a'', ct_name = ''a'', ct_state = ''exited'',
     ct_class = TenantApp, ct_policy = Free, ct_scope = []\<rparr>)"
proof -
  let ?c = "\<lparr>ct_id = ''a'', ct_name = ''a'', ct_state = ''exited'', ct_class = TenantApp, ct_policy = Free,
    ct_scope = [], ct_image = ''i'', ct_status = ''Exited'', ct_endpoint = []\<rparr>"
  have r: "row_buttons False (container.truncate ?c) = [Start, Delete]" by code_simp
  have "Press (id (action_title Start)) True \<in> set (snd (container_actions id False containers_opened) ?c)"
    by (simp add: container_actions_def column_defs r row_busy_def containers_opened_def)
  from container_buttons [OF this] show ?thesis by (auto simp: container.truncate_def)
qed

text \<open>
  The answer of the audit log to the query of the page: the events agree with the filters in full, at
  most two hundred, and none that agrees and is left out is later than one that is shown.
\<close>

theorem audit_answer:
  assumes "q = last (at_flying (audit_load a))" "e \<in> set (list_events q evs)"
  shows "(filterAction a \<noteq> [] \<longrightarrow> ae_action e = filterAction a) \<and> (filterTarget a \<noteq> [] \<longrightarrow> ae_target e = filterTarget a)
    \<and> length (list_events q evs) \<le> 200 \<and> sorted_wrt (\<lambda>x y. ae_moment y \<le> ae_moment x) (list_events q evs)"
proof -
  have q: "q = \<lparr>aq_action = undefined_if_empty (filterAction a), aq_target = undefined_if_empty (filterTarget a),
      aq_limit = 200\<rparr>"
    using assms(1) by (simp add: audit_load_def)
  have e: "e \<in> set (filter (\<lambda>e. (truthy (aq_action q) \<longrightarrow> Some (ae_action e) = aq_action q)
                  \<and> (truthy (aq_target q) \<longrightarrow> Some (ae_target e) = aq_target q)) (sort_key (\<lambda>e. - ae_moment e) evs))"
    using assms(2) by (auto simp: list_events_def dest: in_set_takeD)
  have "sorted_wrt (\<lambda>x y. ae_moment y \<le> ae_moment x) (sort_key (\<lambda>e. - ae_moment e) evs)"
    using sorted_sort_key [of "\<lambda>e. - ae_moment e" evs] by (simp add: sorted_map)
  then have "sorted_wrt (\<lambda>x y. ae_moment y \<le> ae_moment x) (list_events q evs)"
    unfolding list_events_def by (intro sorted_wrt_take sorted_wrt_filter)
  moreover have "length (list_events q evs) \<le> 200" by (simp add: list_events_def q)
  ultimately show ?thesis using e by (auto simp: q undefined_if_empty_def)
qed

theorem audit_answer_witness:
  "let a = audit_opened\<lparr>filterAction := ''container.stop''\<rparr>;
       ev = (\<lambda>i act m. \<lparr>ae_id = i, ae_time = [], ae_moment = m, ae_actor = None, ae_action = act, ae_target_type = ''container'',
              ae_target = ''c'', ae_result = ''allow'', ae_severity = ''normal''\<rparr>);
       shown = list_events (last (at_flying (audit_load a))) [ev ''1'' ''container.stop'' 5, ev ''2'' ''image.pull'' 6]
   in ae_action (hd shown) = ''container.stop''"
proof -
  let ?a = "audit_opened\<lparr>filterAction := ''container.stop''\<rparr>"
  let ?ev = "\<lambda>i act m. \<lparr>ae_id = i, ae_time = [], ae_moment = m, ae_actor = None, ae_action = act,
    ae_target_type = ''container'', ae_target = ''c'', ae_result = ''allow'', ae_severity = ''normal''\<rparr>"
  let ?l = "list_events (last (at_flying (audit_load ?a))) [?ev ''1'' ''container.stop'' 5, ?ev ''2'' ''image.pull'' 6]"
  have "?l \<noteq> []" by code_simp
  then have "hd ?l \<in> set ?l" by simp
  from audit_answer [OF refl this] show ?thesis
    by (simp add: Let_def)
qed

text \<open>Filters that are typed are not sent before they are applied, and a late answer is shown under other filters.\<close>

theorem late_audit_answer:
  assumes "at_flying a = []" "filterAction a \<noteq> s"
  shows "let b = audit_answered 0 (Inr old) (audit_answered 1 (Inr new) (audit_load ((audit_load a)\<lparr>filterAction := s\<rparr>)))
    in filterAction b = s \<and> at_data b = old \<and> \<not> at_loading b \<and> at_flying b = []"
  using assms by (simp add: audit_load_def audit_answered_def Let_def)

end
