(* ===== verification/Llm_Tables.thy ===== *)
theory Llm_Tables
  imports Table_Columns Models_Page Node_Fleet Job_Pages Image_Page
begin

text \<open>
  The tables of the model pages and the nodes: the columns of \<^verbatim>\<open>pages/admin/llm/ProvidersPage.tsx\<close>,
  \<^verbatim>\<open>ModelsPage.tsx\<close>, \<^verbatim>\<open>ModelDetailPage.tsx\<close>, \<^verbatim>\<open>JobsPage.tsx\<close>, of \<^verbatim>\<open>pages/admin/SchedulerPage.tsx\<close> and
  of \<^verbatim>\<open>pages/admin/nodes/NodeFleetPage.tsx\<close> and \<^verbatim>\<open>NodeProfilesPage.tsx\<close>, with the actions on the
  runtimes of the providers. Texts of dates are arguments; a column without a key has the empty one.
\<close>

subsection \<open>Providers\<close>

record table_runtime =
  tr_id :: string
  tr_status :: string
  tr_url :: "string option"

record table_provider =
  tp_id :: string
  tp_name :: string
  tp_target :: string
  tp_type :: string
  tp_url :: "string option"
  tp_remote_model :: "string option"
  tp_runtime :: "table_runtime option"
  tp_model :: "string option"

definition remote_target :: "table_provider \<Rightarrow> bool" where
  "remote_target r = (tp_target r = ''remote_endpoint'')"

definition provider_link :: "table_provider \<Rightarrow> el" where
  "provider_link r =
     (case tp_runtime r of
        Some rt \<Rightarrow> Goto (''/admin/llm/runtimes/'' @ tr_id rt) (tp_name r)
      | None \<Rightarrow> Words (tp_name r))"

definition model_cell :: "(string \<Rightarrow> string) \<Rightarrow> table_provider \<Rightarrow> el" where
  "model_cell t r =
     (case tp_model r of
        Some m \<Rightarrow> Words m
      | None \<Rightarrow>
          if remote_target r then Words (if truthy (tp_remote_model r) then the (tp_remote_model r) else dash)
          else Words (t ''llm_providers.no_runtime''))"

definition status_cell :: "(string \<Rightarrow> string) \<Rightarrow> table_provider \<Rightarrow> el list" where
  "status_cell t r =
     (case tp_runtime r of
        Some rt \<Rightarrow> [RuntimeStatusChip (tr_status rt)]
      | None \<Rightarrow> shown_if (remote_target r) [Tag (t ''llm_providers.target_remote_endpoint'') ''info''])"

definition status_value :: "table_provider \<Rightarrow> string" where
  "status_value r =
     (case tp_runtime r of Some rt \<Rightarrow> tr_status rt | None \<Rightarrow> if remote_target r then ''remote'' else [])"

definition endpoint_cell :: "table_provider \<Rightarrow> el list" where
  "endpoint_cell r =
     (let url = (case Option.bind (tp_runtime r) tr_url of None \<Rightarrow> tp_url r | Some u \<Rightarrow> Some u)
      in if truthy url then [Words (the url), Goto (the url) []] else [Words dash])"

definition provider_columns :: "(string \<Rightarrow> string) \<Rightarrow> table_provider shown_column list" where
  "provider_columns t =
     [searched tp_name (sorted_by (\<lambda>r. SText (tp_name r)) (plain ''name'' (t ''common.name'') (\<lambda>r. [provider_link r]))),
      sorted_by (\<lambda>r. SText (tp_target r))
        (plain ''target'' (t ''llm_providers.target'')
          (\<lambda>r. [if tp_target r = ''local_docker'' then EngineChip (tp_type r)
                else Tag (t ''llm_providers.target_remote_endpoint'') ''info''])),
      searched (\<lambda>r. some_or [] (tp_model r)) (sorted_by (\<lambda>r. SText (some_or [] (tp_model r)))
        (plain ''model'' (t ''llm_common.model'') (\<lambda>r. [model_cell t r]))),
      sorted_by (\<lambda>r. SText (status_value r)) (plain ''status'' (t ''common.status'') (status_cell t)),
      plain [] (t ''llm_runtimes.endpoint'') endpoint_cell]"

text \<open>The buttons of a row, and the request that each keeps busy.\<close>

definition provider_busy :: "string option \<Rightarrow> table_provider \<Rightarrow> bool" where
  "provider_busy acting r =
     (case acting of
        None \<Rightarrow> False
      | Some k \<Rightarrow> starts_with k (case tp_runtime r of Some rt \<Rightarrow> tr_id rt | None \<Rightarrow> tp_id r))"

definition runs :: "table_provider \<Rightarrow> bool" where
  "runs r = (case tp_runtime r of None \<Rightarrow> False | Some rt \<Rightarrow> tr_status rt \<in> {''running'', ''starting''})"

definition stands :: "table_provider \<Rightarrow> bool" where
  "stands r = (case tp_runtime r of None \<Rightarrow> False | Some rt \<Rightarrow> tr_status rt \<in> {''stopped'', ''error''})"

definition provider_actions :: "(string \<Rightarrow> string) \<Rightarrow> string option \<Rightarrow> table_provider \<Rightarrow> el list" where
  "provider_actions t acting r =
     (let busy = provider_busy acting r
      in shown_if (stands r) [Press (t ''common.start'') (\<not> busy)]
       @ shown_if (runs r) [Press (t ''common.stop'') (\<not> busy), Press (t ''common.restart'') (\<not> busy)]
       @ [Press (t ''common.edit'') True, Press (t ''common.delete'') (\<not> (busy \<or> runs r))])"

definition provider_table :: "(string \<Rightarrow> string) \<Rightarrow> string option \<Rightarrow> table_provider shown_column list" where
  "provider_table t acting =
     provider_columns t @ [plain ''actions'' (t ''common.actions'') (provider_actions t acting)]"

definition handleRuntimeAction :: "string \<Rightarrow> string \<Rightarrow> string" where
  "handleRuntimeAction rid action = rid @ ''-'' @ action"

definition handleDelete :: "bool \<Rightarrow> table_provider \<Rightarrow> string option" where
  "handleDelete confirmed r = (if confirmed then Some (tp_id r @ ''-delete'') else None)"

subsection \<open>Models and their files\<close>

record model_row =
  mr_id :: string
  mr_name :: string
  mr_repo :: "string option"
  mr_source :: string
  mr_status :: string
  mr_instances :: "instance_of list"
  mr_created :: string

definition instance_chips :: "(string \<Rightarrow> string) \<Rightarrow> instance_of list \<Rightarrow> el list" where
  "instance_chips t xs =
     (if xs = [] then [Words (t ''llm_models.not_deployed'')]
      else map (\<lambda>i. Tag (instance_label i) (instance_color i)) xs)"

definition model_columns :: "(string \<Rightarrow> string) \<Rightarrow> (string \<Rightarrow> string) \<Rightarrow> model_row shown_column list" where
  "model_columns t date =
     [searched (\<lambda>m. mr_name m @ '' '' @ some_or [] (mr_repo m)) (sorted_by (\<lambda>m. SText (mr_name m))
        (plain ''display_name'' (t ''common.name'')
          (\<lambda>m. Goto (''/admin/llm/models/'' @ mr_id m) (mr_name m)
               # shown_if (truthy (mr_repo m)) [Words (the (mr_repo m))]))),
      searched mr_source (sorted_by (\<lambda>m. SText (mr_source m))
        (plain ''source'' (t ''llm_common.source'') (\<lambda>m. [Words (mr_source m)]))),
      plain ''instances'' (t ''llm_models.deployed_on'') (\<lambda>m. instance_chips t (mr_instances m)),
      sorted_by (\<lambda>m. SText (mr_status m))
        (plain ''status'' (t ''common.status'') (\<lambda>m. ModelStatusChip (mr_status m) (mr_status m = ''downloading''))),
      sorted_by (\<lambda>m. SText (mr_created m))
        (plain ''created_at'' (t ''common.created'') (\<lambda>m. [Words (date (mr_created m))])),
      plain ''actions'' [] (\<lambda>m. [Press (t ''common.delete'') True])]"

record artifact =
  ar_path :: string
  ar_format :: string
  ar_size :: nat
  ar_sha :: "string option"
  ar_engines :: "string list option"

definition humanSize :: "nat \<Rightarrow> string" where
  "humanSize n =
     (if n < 1024 then show_nat n @ '' B''
      else if n < 1024 * 1024 then toFixed (of_nat n / 1024) 1 @ '' KB''
      else if n < 1024 * 1024 * 1024 then toFixed (of_nat n / (1024 * 1024)) 1 @ '' MB''
      else toFixed (of_nat n / (1024 * 1024 * 1024)) 2 @ '' GB'')"

definition artifact_columns :: "(string \<Rightarrow> string) \<Rightarrow> artifact shown_column list" where
  "artifact_columns t =
     [searched ar_path (sorted_by (\<lambda>a. SText (ar_path a))
        (plain ''path'' (t ''llm_model_detail.file'') (\<lambda>a. [Words (last (split_on CHR ''/'' (ar_path a)))]))),
      sorted_by (\<lambda>a. SText (ar_format a))
        (plain ''format'' (t ''llm_model_detail.format'') (\<lambda>a. [FormatChip (ar_format a)])),
      sorted_by (\<lambda>a. SNumber (int (ar_size a)))
        (plain ''size'' (t ''common.size'') (\<lambda>a. [Words (humanSize (ar_size a))])),
      plain ''engines'' (t ''llm_model_detail.compatible_engines'')
        (\<lambda>a. map (\<lambda>e. Tag e ''default'') (case ar_engines a of None \<Rightarrow> [] | Some es \<Rightarrow> es)),
      plain ''sha256'' ''SHA-256''
        (\<lambda>a. [Words (if truthy (ar_sha a) then take 16 (the (ar_sha a)) @ dots else dash)])]"

subsection \<open>Jobs\<close>

fun status_text :: "job_status \<Rightarrow> string" where
  "status_text Queued = ''queued''"
| "status_text Running = ''running''"
| "status_text Succeeded = ''success''"
| "status_text Failed = ''failed''"
| "status_text Canceled = ''canceled''"

fun type_text :: "job_type \<Rightarrow> string" where
  "type_text ModelDownload = ''model_download''"
| "type_text RagIngest = ''rag_ingest''"

fun TypeChip :: "job_type \<Rightarrow> el" where
  "TypeChip ModelDownload = Tag ''Model Download'' ''primary''"
| "TypeChip RagIngest = Tag ''RAG Ingest'' ''secondary''"

definition STATUS_COLOR :: "(string \<times> string) list" where
  "STATUS_COLOR =
     [(''queued'', ''default''), (''running'', ''info''), (''success'', ''success''), (''failed'', ''error''),
      (''canceled'', ''warning'')]"

definition StatusChip :: "string \<Rightarrow> el" where
  "StatusChip v = Tag v (colour_in STATUS_COLOR v)"

definition error_cell :: "string option \<Rightarrow> el list" where
  "error_cell e = [Words (if truthy e then the e else dash)]"

definition progress_cell :: "int \<Rightarrow> el list" where
  "progress_cell n = [Progress n, Words (show_int n @ ''%'')]"

record job_row = unified_job +
  jr_repo :: "string option"
  jr_error :: "string option"
  jr_created :: string

definition scheduler_actions :: "(string \<Rightarrow> string) \<Rightarrow> job_row \<Rightarrow> el list" where
  "scheduler_actions t j =
     shown_if (retryable (unified_job.truncate j)) [Press (t ''scheduler.retry'') True]
     @ shown_if (cancelable (unified_job.truncate j)) [Press (t ''common.cancel'') True]"

definition scheduler_columns :: "(string \<Rightarrow> string) \<Rightarrow> (string \<Rightarrow> string) \<Rightarrow> job_row shown_column list" where
  "scheduler_columns t date =
     [searched (\<lambda>j. j_label j @ '' '' @ some_or [] (jr_repo j)) (sorted_by (\<lambda>j. SText (j_label j))
        (plain ''label'' (t ''scheduler.job_name'') (\<lambda>j. [Words (j_label j)]))),
      sorted_by (\<lambda>j. SText (type_text (j_type j)))
        (plain ''job_type'' (t ''scheduler.type'') (\<lambda>j. [TypeChip (j_type j)])),
      sorted_by (\<lambda>j. SText (status_text (j_status j)))
        (plain ''status'' (t ''common.status'') (\<lambda>j. [StatusChip (status_text (j_status j))])),
      sorted_by (\<lambda>j. SNumber (j_progress j))
        (plain ''progress'' (t ''scheduler.progress'')
          (\<lambda>j. if 0 \<le> j_progress j then progress_cell (j_progress j) else [Words dash])),
      searched (\<lambda>j. some_or [] (jr_error j)) (plain ''error'' (t ''common.error'') (\<lambda>j. error_cell (jr_error j))),
      sorted_by (\<lambda>j. SText (jr_created j))
        (plain ''created_at'' (t ''scheduler.started'') (\<lambda>j. [Words (date (jr_created j))])),
      plain ''actions'' [] (scheduler_actions t)]"

record download_row = download_job +
  dr_progress :: int
  dr_error :: "string option"
  dr_created :: string

definition download_actions :: "(string \<Rightarrow> string) \<Rightarrow> download_row \<Rightarrow> el list" where
  "download_actions t j =
     shown_if (download_retryable (download_job.truncate j)) [Press (t ''llm_jobs.retry'') True]
     @ shown_if (download_cancelable (download_job.truncate j)) [Press (t ''common.cancel'') True]"

text \<open>\<open>names\<close> gives the name of a model that is there.\<close>

definition download_columns ::
  "(string \<Rightarrow> string) \<Rightarrow> (string \<Rightarrow> string) \<Rightarrow> (string \<Rightarrow> string option) \<Rightarrow> download_row shown_column list" where
  "download_columns t date names =
     [searched (\<lambda>j. some_or (d_model j) (names (d_model j))) (sorted_by (\<lambda>j. SText (some_or [] (names (d_model j))))
        (plain ''model'' (t ''llm_common.model'')
          (\<lambda>j. [Words (some_or (take 8 (d_model j)) (names (d_model j)))]))),
      sorted_by (\<lambda>j. SText (status_text (d_status j)))
        (plain ''status'' (t ''common.status'') (\<lambda>j. [JobStatusChip (status_text (d_status j))])),
      sorted_by (\<lambda>j. SNumber (dr_progress j))
        (plain ''progress'' (t ''llm_jobs.progress'') (\<lambda>j. progress_cell (dr_progress j))),
      searched (\<lambda>j. some_or [] (dr_error j)) (plain ''error'' (t ''common.error'') (\<lambda>j. error_cell (dr_error j))),
      sorted_by (\<lambda>j. SText (dr_created j))
        (plain ''created_at'' (t ''llm_jobs.started'') (\<lambda>j. [Words (date (dr_created j))])),
      plain ''actions'' [] (download_actions t)]"

subsection \<open>Nodes and their profiles\<close>

record fleet_row =
  fw_id :: string
  fw_host :: string
  fw_agent :: string
  fw_status :: string
  fw_caps :: json
  fw_maintenance :: bool
  fw_draining :: bool
  fw_seen :: "string option"

fun chip_color_text :: "chip_color \<Rightarrow> string" where
  "chip_color_text Success = ''success''"
| "chip_color_text Warning = ''warning''"
| "chip_color_text Error_color = ''error''"
| "chip_color_text Info_color = ''info''"
| "chip_color_text Default_color = ''default''"

definition flag_text :: "fleet_row \<Rightarrow> string" where
  "flag_text r =
     trim ((if fw_maintenance r then ''maintenance'' else []) @ '' '' @ (if fw_draining r then ''draining'' else []))"

definition flag_cell :: "fleet_row \<Rightarrow> el list" where
  "flag_cell r =
     shown_if (fw_maintenance r) [Tag ''maintenance'' ''warning'']
     @ shown_if (fw_draining r) [Tag ''draining'' ''warning'']
     @ shown_if (\<not> fw_maintenance r \<and> \<not> fw_draining r) [Words ''-'']"

definition fleet_columns ::
  "(string \<Rightarrow> string) \<Rightarrow> (string \<Rightarrow> string) \<Rightarrow> (string \<Rightarrow> int) \<Rightarrow> (json \<Rightarrow> int option) \<Rightarrow> fleet_row shown_column list" where
  "fleet_columns t date ms to_num =
     [searched (\<lambda>r. fw_host r @ '' '' @ fw_agent r) (sorted_by (\<lambda>r. SText (fw_host r))
        (plain ''host'' (t ''nodes.host'') (\<lambda>r. [Words (fw_host r), Words (fw_agent r)]))),
      searched fw_status (sorted_by (\<lambda>r. SText (fw_status r))
        (plain ''status'' (t ''nodes.status'')
          (\<lambda>r. [Tag (fw_status r) (chip_color_text (node_status_color (fw_status r)))]))),
      sorted_by (\<lambda>r. SNumber (gpuCount to_num (fw_caps r)))
        (plain ''gpu'' (t ''nodes.gpu'') (\<lambda>r. [Words (show_int (gpuCount to_num (fw_caps r)))])),
      searched flag_text (plain ''flags'' (t ''nodes.state'') flag_cell),
      sorted_by (\<lambda>r. SNumber (if truthy (fw_seen r) then ms (the (fw_seen r)) else 0))
        (plain ''last_seen'' (t ''nodes.last_seen'')
          (\<lambda>r. [Words (if truthy (fw_seen r) then date (the (fw_seen r)) else ''-'')]))]"

definition busy_key :: "fleet_row \<Rightarrow> string \<Rightarrow> string" where
  "busy_key r k = fw_id r @ '':'' @ k"

definition fleet_actions :: "(string \<Rightarrow> string) \<Rightarrow> string option \<Rightarrow> fleet_row shown_column" where
  "fleet_actions t busy =
     always_shown (plain ''actions'' (t ''common.actions'')
       (\<lambda>r. [Goto (''/admin/nodes/'' @ fw_id r) (t ''nodes.details''),
             Press (t (if fw_maintenance r then ''nodes.disable_maintenance'' else ''nodes.enable_maintenance''))
               (busy \<noteq> Some (busy_key r ''maintenance'')),
             Press (t (if fw_draining r then ''nodes.disable_drain'' else ''nodes.enable_drain''))
               (busy \<noteq> Some (busy_key r ''drain'')),
             Press (t ''nodes.refresh_inventory'') (busy \<noteq> Some (busy_key r ''inventory'')),
             Press (t ''nodes.delete_node'') True]))"

record profile_row =
  pw_name :: string
  pw_description :: "string option"
  pw_default :: bool
  pw_runtime :: json
  pw_gpu :: json
  pw_created :: string

text \<open>\<open>String(o.k ?? d)\<close>\<close>

definition text_or :: "string \<Rightarrow> json option \<Rightarrow> string" where
  "text_or d v = (case v of None \<Rightarrow> d | Some JNull \<Rightarrow> d | Some j \<Rightarrow> js_text j)"

definition profile_columns ::
  "(string \<Rightarrow> string) \<Rightarrow> (string \<Rightarrow> string) \<Rightarrow> (string \<Rightarrow> int) \<Rightarrow> profile_row shown_column list" where
  "profile_columns t day ms =
     [searched (\<lambda>r. pw_name r @ '' '' @ some_or [] (pw_description r)) (sorted_by (\<lambda>r. SText (pw_name r))
        (plain ''name'' (t ''node_profiles.name'')
          (\<lambda>r. Words (pw_name r) # shown_if (pw_default r) [Tag (t ''node_profiles.default'') ''primary'']
               @ shown_if (truthy (pw_description r)) [Words (the (pw_description r))]))),
      searched (\<lambda>r. text_or [] (json_get (pw_runtime r) ''runtime_type''))
        (plain ''runtime'' (t ''node_profiles.runtime'')
          (\<lambda>r. [Words (text_or ''auto'' (json_get (pw_runtime r) ''runtime_type''))])),
      searched (\<lambda>r. text_or [] (json_get (pw_gpu r) ''vendor''))
        (plain ''gpu'' (t ''node_profiles.gpu_vendor'')
          (\<lambda>r. [Words (text_or ''auto'' (json_get (pw_gpu r) ''vendor''))])),
      sorted_by (\<lambda>r. SNumber (ms (pw_created r)))
        (plain ''created'' (t ''node_profiles.created'') (\<lambda>r. [Words (day (pw_created r))])),
      always_shown (plain ''actions'' (t ''common.actions'')
        (\<lambda>r. [Press (t ''common.edit'') True, Press (t ''common.delete'') True]))]"

lemmas llm_tables =
  provider_table_def provider_columns_def model_columns_def artifact_columns_def scheduler_columns_def
  download_columns_def fleet_columns_def fleet_actions_def profile_columns_def

lemmas llm_evals =
  dead_sorts_def sort_offered_def table_keys_def row_texts_def data_columns_def column_defs List.map_filter_simps

subsection \<open>Properties\<close>

text \<open>In these tables every column that offers sorting sorts, and the keys of each differ.\<close>

theorem llm_tables_sorts:
  "distinct (table_keys (provider_table t l)) \<and> dead_sorts (provider_table t l) = []
   \<and> distinct (table_keys (model_columns t date)) \<and> dead_sorts (model_columns t date) = []
   \<and> distinct (table_keys (artifact_columns t)) \<and> dead_sorts (artifact_columns t) = []
   \<and> distinct (table_keys (scheduler_columns t date)) \<and> dead_sorts (scheduler_columns t date) = []
   \<and> distinct (table_keys (download_columns t date names)) \<and> dead_sorts (download_columns t date names) = []
   \<and> distinct (table_keys (fleet_columns t date ms num @ [fleet_actions t b]))
   \<and> dead_sorts (fleet_columns t date ms num @ [fleet_actions t b]) = []
   \<and> distinct (table_keys (profile_columns t day ms)) \<and> dead_sorts (profile_columns t day ms) = []"
  by (simp add: llm_tables llm_evals)

text \<open>The texts that the search of each table looks at.\<close>

theorem llm_tables_search:
  "row_texts (provider_table t l) p = [tp_name p, some_or [] (tp_model p)]
   \<and> row_texts (model_columns t date) m = [mr_name m @ '' '' @ some_or [] (mr_repo m), mr_source m]
   \<and> row_texts (artifact_columns t) a = [ar_path a]
   \<and> row_texts (scheduler_columns t date) j = [j_label j @ '' '' @ some_or [] (jr_repo j), some_or [] (jr_error j)]
   \<and> row_texts (download_columns t date names) d = [some_or (d_model d) (names (d_model d)), some_or [] (dr_error d)]
   \<and> row_texts (fleet_columns t date ms num @ [fleet_actions t b]) f =
       [fw_host f @ '' '' @ fw_agent f, fw_status f, flag_text f]
   \<and> row_texts (profile_columns t day ms) w =
       [pw_name w @ '' '' @ some_or [] (pw_description w), text_or [] (json_get (pw_runtime w) ''runtime_type''),
        text_or [] (json_get (pw_gpu w) ''vendor'')]"
  by (simp add: llm_tables llm_evals)

text \<open>
  A provider whose runtime is up can be stopped and restarted but not started or deleted, one whose
  runtime is down the other way round; all of this only while the row is not busy.
\<close>

theorem provider_buttons:
  assumes "distinct (map t [''common.start'', ''common.stop'', ''common.restart'', ''common.edit'', ''common.delete''])"
  shows "(Press (t ''common.start'') True \<in> set (provider_actions t l r) \<longleftrightarrow> stands r \<and> \<not> provider_busy l r)
    \<and> (Press (t ''common.stop'') True \<in> set (provider_actions t l r) \<longleftrightarrow> runs r \<and> \<not> provider_busy l r)
    \<and> (Press (t ''common.delete'') True \<in> set (provider_actions t l r) \<longleftrightarrow> \<not> runs r \<and> \<not> provider_busy l r)
    \<and> \<not> (stands r \<and> runs r)"
  using assms by (auto simp: provider_actions_def shown_if_def stands_def runs_def Let_def split: option.splits)

theorem provider_buttons_witness:
  "\<not> (stands r \<and> runs r)"
  using provider_buttons [of id None r] by simp

text \<open>
  The row of a provider with a runtime is not busy while the provider is deleted: its button can be
  pressed again, as can the one that starts the runtime.
\<close>

theorem deletion_not_busy:
  assumes "tp_runtime r = Some rt" "stands r" "\<not> starts_with (tp_id r @ ''-delete'') (tr_id rt)"
  shows "Press (t ''common.delete'') True \<in> set (provider_actions t (handleDelete True r) r)
    \<and> Press (t ''common.start'') True \<in> set (provider_actions t (handleDelete True r) r)
    \<and> provider_busy (Some (handleRuntimeAction (tr_id rt) a)) r"
  using assms
  by (auto simp: provider_actions_def shown_if_def stands_def runs_def provider_busy_def handleDelete_def
      handleRuntimeAction_def Let_def)

text \<open>A download has the same buttons, colours and texts on the page of the downloads and on that of all jobs.\<close>

theorem same_job_same_cells:
  assumes "j_type j = ModelDownload" "j_status j = d_status d" "j_progress j = dr_progress d" "0 \<le> dr_progress d"
    and "jr_error j = dr_error d" "t ''scheduler.retry'' = t ''llm_jobs.retry''"
  shows "scheduler_actions t j = download_actions t d
    \<and> snd (scheduler_columns t date ! 2) j = snd (download_columns t date names ! 1) d
    \<and> snd (scheduler_columns t date ! 3) j = snd (download_columns t date names ! 2) d
    \<and> snd (scheduler_columns t date ! 4) j = snd (download_columns t date names ! 3) d"
  using assms
  by (simp add: scheduler_actions_def download_actions_def scheduler_columns_def download_columns_def column_defs
      retryable_def cancelable_def isDownload_def download_retryable_def download_cancelable_def
      unified_job.truncate_def download_job.truncate_def StatusChip_def JobStatusChip_def STATUS_COLOR_def
      JOB_STATUS_COLOR_def)

theorem same_job_same_cells_witness:
  "scheduler_actions id \<lparr>j_id = ''1'', j_type = ModelDownload, j_status = Queued, j_label = ''m'', j_progress = 0,
     jr_repo = None, jr_error = None, jr_created = []\<rparr> \<noteq> []
   \<longleftrightarrow> download_actions (id(''llm_jobs.retry'' := ''scheduler.retry'')) \<lparr>d_id = ''1'', d_model = ''m'', d_status = Queued,
     dr_progress = 0, dr_error = None, dr_created = []\<rparr> \<noteq> []"
proof -
  let ?t = "id(''llm_jobs.retry'' := ''scheduler.retry'')"
  let ?j = "\<lparr>j_id = ''1'', j_type = ModelDownload, j_status = Queued, j_label = ''m'', j_progress = 0,
    jr_repo = None, jr_error = None, jr_created = []\<rparr>"
  let ?d = "\<lparr>d_id = ''1'', d_model = ''m'', d_status = Queued, dr_progress = 0, dr_error = None, dr_created = []\<rparr>"
  have "scheduler_actions ?t ?j = download_actions ?t ?d"
    by (rule same_job_same_cells [of ?j ?d ?t id "\<lambda>_. None", THEN conjunct1]) simp_all
  moreover have "scheduler_actions ?t ?j = scheduler_actions id ?j"
    by (simp add: scheduler_actions_def)
  ultimately show ?thesis by simp
qed

text \<open>
  A model that is gone: the search finds its downloads by the whole id, of which the row shows the
  start, and sorting puts them together.
\<close>

theorem gone_model_found_by_id:
  assumes "names (d_model d) = None"
  shows "hd (row_texts (download_columns t date names) d) = d_model d
    \<and> snd (hd (download_columns t date names)) d = [Words (take 8 (d_model d))]
    \<and> accessorFn (tan_column_of (fst (hd (download_columns t date names)))) d = SText []"
  using assms by (simp add: llm_tables_search) (simp add: download_columns_def column_defs some_or_def tan_column_of_def)

text \<open>A profile that leaves a choice open is shown as \<open>auto\<close>, which the search does not find.\<close>

theorem auto_not_found:
  assumes "json_get (pw_runtime w) ''runtime_type'' = None" "json_get (pw_gpu w) ''vendor'' = None"
    and "\<not> has_infix (to_lower (pw_name w @ '' '' @ some_or [] (pw_description w))) ''auto''"
  shows "snd (profile_columns t day ms ! 1) w = [Words ''auto''] \<and> snd (profile_columns t day ms ! 2) w = [Words ''auto'']
    \<and> filteredRows (data_columns (profile_columns t day ms)) ''auto'' [w] = []"
proof -
  have l: "to_lower (trim ''auto'') = ''auto''" "trim ''auto'' \<noteq> []" by code_simp+
  have n: "to_lower [] = []" by (simp add: to_lower_def)
  show ?thesis
    using assms l n llm_tables_search [THEN conjunct2, THEN conjunct2, THEN conjunct2, THEN conjunct2, THEN conjunct2,
        THEN conjunct2, of t day ms w]
    by (simp add: filteredRows_texts text_or_def) (simp add: profile_columns_def column_defs text_or_def)
qed

text \<open>The endpoint of the providers has no key of its own, so that it cannot be told from another column without one.\<close>

theorem endpoint_without_key:
  "table_keys (provider_table t l) = [''name'', ''target'', ''model'', ''status'', [], ''actions'']"
  by (simp add: llm_tables llm_evals)

text \<open>Two copies of the text of a size agree.\<close>

theorem sizes_agree: "humanSize n = bytes n"
  by (simp add: humanSize_def bytes_def power2_eq_square power3_eq_cube numeral_3_eq_3)

end
