(* ===== verification/Admin_Tables.thy ===== *)
theory Admin_Tables
  imports Table_Columns Formats
begin

text \<open>
  The tables of the accounts, the skills and the chats: the columns of \<^verbatim>\<open>pages/admin/UsersPage.tsx\<close>,
  \<^verbatim>\<open>RolesPage.tsx\<close>, \<^verbatim>\<open>GroupsPage.tsx\<close>, \<^verbatim>\<open>AuthProvidersPage.tsx\<close>, \<^verbatim>\<open>skills/SkillsListPage.tsx\<close> and of
  the three pages of \<^verbatim>\<open>pages/admin/chat\<close>, whose deletion with a confirmation is modelled as well.
  Texts of dates are arguments, the other parts of the pages are in \<open>User_Admin\<close>, \<open>Sign_On\<close> and
  \<open>Skill_Pages\<close>.
\<close>

subsection \<open>Accounts\<close>

record user_row =
  us_id :: string
  us_email :: string
  us_active :: bool
  us_superuser :: bool
  us_verified :: bool
  us_roles :: "string list"
  us_permissions :: "(string \<times> string) list"

definition bool_text :: "bool \<Rightarrow> string" where
  "bool_text b = (if b then ''true'' else ''false'')"

definition user_flags :: "(string \<Rightarrow> string) \<Rightarrow> user_row \<Rightarrow> el list" where
  "user_flags t u =
     shown_if (us_superuser u) [Tag (t ''users.superuser'') ''warning'']
     @ [if us_active u then Tag (t ''common.active'') ''success'' else Tag (t ''common.inactive'') ''default'',
        if us_verified u then Tag (t ''users.verified'') ''info'' else Tag (t ''users.unverified'') ''default'']"

definition user_columns :: "(string \<Rightarrow> string) \<Rightarrow> user_row shown_column list" where
  "user_columns t =
     [searched us_email (sorted_by (\<lambda>u. SText (us_email u))
        (plain ''email'' (t ''users.user'') (\<lambda>u. [Words (us_email u), Words (us_id u)]))),
      searched (\<lambda>u. bool_text (us_active u) @ '' '' @ bool_text (us_superuser u) @ '' '' @ bool_text (us_verified u))
        (plain ''flags'' (t ''users.flags'') (user_flags t)),
      searched (\<lambda>u. join '' '' (us_roles u))
        (plain ''roles'' (t ''users.roles'')
          (\<lambda>u. if us_roles u \<noteq> [] then map (\<lambda>r. Tag r ''default'') (us_roles u) else [Words (t ''users.no_roles'')])),
      searched (\<lambda>u. join '' '' (map (\<lambda>(r, a). r @ '':'' @ a) (us_permissions u)))
        (sorted_by (\<lambda>u. SNumber (int (length (us_permissions u))))
          (plain ''permissions'' (t ''users.permissions'') (\<lambda>u. [Words (show_nat (length (us_permissions u)))]))),
      plain ''actions'' (t ''common.actions'')
        (\<lambda>u. [Press (t ''users.edit_roles'') True, Press (t ''common.delete'') True])]"

record role_row =
  ro_name :: string
  ro_builtin :: bool
  ro_description :: "string option"
  ro_permissions :: nat
  ro_users :: nat

definition role_actions :: "(string \<Rightarrow> string) \<Rightarrow> role_row \<Rightarrow> el list" where
  "role_actions t r =
     shown_if (\<not> ro_builtin r) [Press (t ''common.edit'') True, Press (t ''common.delete'') True]
     @ shown_if (ro_builtin r) [Words (t ''roles.readonly'')]"

definition role_columns :: "(string \<Rightarrow> string) \<Rightarrow> role_row shown_column list" where
  "role_columns t =
     [searched ro_name (sorted_by (\<lambda>r. SText (ro_name r))
        (plain ''name'' (t ''roles.name'')
          (\<lambda>r. Words (ro_name r) # shown_if (ro_builtin r) [Tag (t ''roles.builtin'') ''default'']))),
      searched (\<lambda>r. some_or [] (ro_description r))
        (plain ''description'' (t ''roles.description'') (\<lambda>r. [Words (filled_or dash (some_or [] (ro_description r)))])),
      sorted_by (\<lambda>r. SNumber (int (ro_permissions r)))
        (plain ''permissions'' (t ''roles.permissions_count'') (\<lambda>r. [Words (show_nat (ro_permissions r))])),
      sorted_by (\<lambda>r. SNumber (int (ro_users r)))
        (plain ''users'' (t ''roles.users_count'') (\<lambda>r. [Words (show_nat (ro_users r))])),
      plain ''actions'' (t ''common.actions'') (role_actions t)]"

record group_row =
  gr_name :: string
  gr_description :: "string option"
  gr_roles :: "string list"
  gr_members :: nat

definition group_columns :: "(string \<Rightarrow> string) \<Rightarrow> group_row shown_column list" where
  "group_columns t =
     [sortable (plain ''name'' (t ''groups.name'') (\<lambda>g. [Words (gr_name g)])),
      plain ''description'' (t ''groups.description'') (\<lambda>g. [Words (some_or dash (gr_description g))]),
      sorted_by (\<lambda>g. SNumber (int (length (gr_roles g))))
        (plain ''roles'' (t ''groups.roles_count'')
          (\<lambda>g. map (\<lambda>r. Tag r ''default'') (gr_roles g) @ shown_if (gr_roles g = []) [Words dash])),
      sorted_by (\<lambda>g. SNumber (int (gr_members g)))
        (plain ''members'' (t ''groups.members_count'') (\<lambda>g. [Words (show_nat (gr_members g))])),
      plain ''actions'' []
        (\<lambda>g. [Press (t ''groups.members'') True, Press (t ''groups.edit_title'') True,
              Press (t ''groups.delete_title'') True])]"

record auth_row =
  aw_name :: string
  aw_type :: string
  aw_enabled :: bool
  aw_auto :: bool

definition auth_columns :: "(string \<Rightarrow> string) \<Rightarrow> auth_row shown_column list" where
  "auth_columns t =
     [sortable (plain ''name'' (t ''auth_providers.name'') (\<lambda>a. [Words (aw_name a)])),
      plain ''type'' (t ''auth_providers.type'') (\<lambda>a. [Tag (to_upper (aw_type a)) ''default'']),
      plain ''status'' (t ''auth_providers.status'')
        (\<lambda>a. [if aw_enabled a then Tag (t ''auth_providers.enabled'') ''success''
              else Tag (t ''auth_providers.disabled'') ''default'']),
      plain ''auto_register'' (t ''auth_providers.auto_register'')
        (\<lambda>a. [Words (if aw_auto a then ''Yes'' else ''No'')]),
      plain ''actions'' []
        (\<lambda>a. [Press (t ''auth_providers.edit_title'') True, Press (t ''auth_providers.delete_title'') True])]"

subsection \<open>Skills\<close>

record skill_row =
  kw_id :: string
  kw_name :: string
  kw_slug :: string
  kw_scope :: string
  kw_status :: string
  kw_version :: nat
  kw_priority :: int
  kw_tags :: "string list"

definition SKILL_STATUS_COLOR :: "(string \<times> string) list" where
  "SKILL_STATUS_COLOR = [(''draft'', ''info''), (''published'', ''success''), (''archived'', ''default'')]"

definition SCOPE_COLOR :: "(string \<times> string) list" where
  "SCOPE_COLOR =
     [(''global'', ''primary''), (''tenant'', ''secondary''), (''workspace'', ''info''), (''assistant'', ''info''),
      (''user'', ''default'')]"

definition tag_cell :: "string list \<Rightarrow> el list" where
  "tag_cell tags =
     map (\<lambda>g. Tag g ''default'') (take 3 tags)
     @ shown_if (3 < length tags) [Tag (CHR ''+'' # show_nat (length tags - 3)) ''default'']"

definition skill_actions :: "(string \<Rightarrow> string) \<Rightarrow> skill_row \<Rightarrow> el list" where
  "skill_actions t s =
     [Goto (''/admin/skills/'' @ kw_id s) (t ''skills.view_details'')]
     @ shown_if (kw_status s = ''draft'') [Press (t ''skills.publish'') True]
     @ shown_if (kw_status s = ''published'') [Press (t ''skills.archive'') True]
     @ [Press (t ''common.delete'') True]"

definition skill_columns :: "(string \<Rightarrow> string) \<Rightarrow> skill_row shown_column list" where
  "skill_columns t =
     [searched (\<lambda>s. kw_name s @ '' '' @ kw_slug s) (sorted_by (\<lambda>s. SText (kw_name s))
        (plain ''name'' (t ''skills.name'') (\<lambda>s. [Words (kw_name s), Words (kw_slug s)]))),
      sorted_by (\<lambda>s. SText (kw_scope s))
        (plain ''scope'' (t ''skills.scope'') (\<lambda>s. [Tag (kw_scope s) (colour_in SCOPE_COLOR (kw_scope s))])),
      sorted_by (\<lambda>s. SText (kw_status s))
        (plain ''status'' (t ''skills.status'') (\<lambda>s. [Tag (kw_status s) (colour_in SKILL_STATUS_COLOR (kw_status s))])),
      sorted_by (\<lambda>s. SNumber (int (kw_version s)))
        (plain ''version'' (t ''skills.version'') (\<lambda>s. [Words (CHR ''v'' # show_nat (kw_version s))])),
      sorted_by (\<lambda>s. SNumber (kw_priority s))
        (plain ''priority'' (t ''skills.priority'') (\<lambda>s. [Words (show_int (kw_priority s))])),
      plain ''tags'' (t ''skills.tags'') (\<lambda>s. tag_cell (kw_tags s)),
      plain ''actions'' (t ''common.actions'') (skill_actions t)]"

subsection \<open>Chats\<close>

record session_row =
  sw_title :: "string option"
  sw_user :: string
  sw_status :: string
  sw_project :: "string option"
  sw_created :: string

text \<open>A translation with a fallback: \<open>tr k d\<close> is \<open>d\<close> where the language has no text for \<open>k\<close>.\<close>

definition session_status_color :: "string \<Rightarrow> string" where
  "session_status_color s =
     (if s = ''active'' then ''success'' else if s = ''archived'' then ''default'' else ''warning'')"

definition delete_cell :: "(string \<Rightarrow> string) \<Rightarrow> el list" where
  "delete_cell t = [Press (t ''common.delete'') True]"

definition session_columns ::
  "(string \<Rightarrow> string) \<Rightarrow> (string \<Rightarrow> string \<Rightarrow> string) \<Rightarrow> (string \<Rightarrow> string) \<Rightarrow> session_row shown_column list" where
  "session_columns t tr date =
     [searched (\<lambda>r. some_or [] (sw_title r)) (sorted_by (\<lambda>r. SText (some_or [] (sw_title r)))
        (plain ''title'' (t ''chat_admin.col_title'')
          (\<lambda>r. [Words (filled_or (t ''chat_admin.untitled_session'') (some_or [] (sw_title r)))]))),
      searched sw_user (sorted_by (\<lambda>r. SText (sw_user r))
        (plain ''user_id'' (t ''chat_admin.col_user'') (\<lambda>r. [Words (sw_user r)]))),
      sorted_by (\<lambda>r. SText (sw_status r))
        (plain ''status'' (t ''chat_admin.col_status'')
          (\<lambda>r. [Tag (tr (''chat_admin.status_'' @ sw_status r) (sw_status r)) (session_status_color (sw_status r))])),
      searched (\<lambda>r. some_or [] (sw_project r))
        (plain ''project_id'' (t ''chat_admin.col_project'')
          (\<lambda>r. [Words (if truthy (sw_project r) then take 8 (the (sw_project r)) @ dots else dash)])),
      sorted_by (\<lambda>r. SText (sw_created r))
        (plain ''created_at'' (t ''chat_admin.col_created'') (\<lambda>r. [Words (date (sw_created r))])),
      plain ''actions'' [] (\<lambda>r. delete_cell t)]"

record project_row =
  jw_name :: string
  jw_user :: string
  jw_tenant :: string
  jw_model :: "string option"
  jw_created :: string

definition project_columns :: "(string \<Rightarrow> string) \<Rightarrow> (string \<Rightarrow> string) \<Rightarrow> project_row shown_column list" where
  "project_columns t date =
     [searched jw_name (sorted_by (\<lambda>r. SText (jw_name r))
        (plain ''name'' (t ''chat_admin.col_name'') (\<lambda>r. [Words (jw_name r)]))),
      searched jw_user (sorted_by (\<lambda>r. SText (jw_user r))
        (plain ''user_id'' (t ''chat_admin.col_user'') (\<lambda>r. [Words (jw_user r)]))),
      searched jw_tenant (sorted_by (\<lambda>r. SText (jw_tenant r))
        (plain ''tenant_id'' (t ''chat_admin.col_tenant'') (\<lambda>r. [Words (jw_tenant r)]))),
      plain ''model_alias'' (t ''chat_admin.col_model'') (\<lambda>r. [Words (some_or dash (jw_model r))]),
      sorted_by (\<lambda>r. SText (jw_created r))
        (plain ''created_at'' (t ''chat_admin.col_created'') (\<lambda>r. [Words (date (jw_created r))])),
      plain ''actions'' [] (\<lambda>r. delete_cell t)]"

text \<open>
  The size of an attachment: the power of 1024 is the whole part of a quotient of logarithms, here the
  exact one, and there are four units; beyond them the text says \<open>undefined\<close>.
\<close>

fun power_index :: "nat \<Rightarrow> nat" where
  "power_index n = (if n < 1024 then 0 else Suc (power_index (n div 1024)))"

declare power_index.simps [simp del]

definition unit_text :: "nat \<Rightarrow> string" where
  "unit_text i = (if i < 4 then [''B'', ''KB'', ''MB'', ''GB''] ! i else ''undefined'')"

definition formatBytes :: "nat \<Rightarrow> string" where
  "formatBytes n =
     (if n = 0 then ''0 B''
      else let i = power_index n in toFixed (of_nat n / 1024 ^ i) 1 @ '' '' @ unit_text i)"

record attachment_row =
  tw_filename :: string
  tw_user :: string
  tw_size :: nat
  tw_type :: string
  tw_extraction :: string
  tw_scope :: string
  tw_created :: string

definition extraction_color :: "string \<Rightarrow> string" where
  "extraction_color s =
     (if s = ''completed'' then ''success'' else if s = ''failed'' then ''error''
      else if s = ''skipped'' then ''default'' else ''warning'')"

definition attachment_columns ::
  "(string \<Rightarrow> string) \<Rightarrow> (string \<Rightarrow> string \<Rightarrow> string) \<Rightarrow> (string \<Rightarrow> string) \<Rightarrow> attachment_row shown_column list" where
  "attachment_columns t tr date =
     [searched tw_filename (sorted_by (\<lambda>r. SText (tw_filename r))
        (plain ''filename'' (t ''chat_admin.col_filename'') (\<lambda>r. [Words (tw_filename r)]))),
      searched tw_user (sorted_by (\<lambda>r. SText (tw_user r))
        (plain ''user_id'' (t ''chat_admin.col_user'') (\<lambda>r. [Words (tw_user r)]))),
      sorted_by (\<lambda>r. SNumber (int (tw_size r)))
        (plain ''size'' (t ''chat_admin.col_size'') (\<lambda>r. [Words (formatBytes (tw_size r))])),
      searched tw_type (plain ''content_type'' (t ''chat_admin.col_type'') (\<lambda>r. [Words (tw_type r)])),
      sorted_by (\<lambda>r. SText (tw_extraction r))
        (plain ''extraction_status'' (t ''chat_admin.col_extraction'')
          (\<lambda>r. [Tag (tr (''chat_admin.extraction_'' @ tw_extraction r) (tw_extraction r))
                  (extraction_color (tw_extraction r))])),
      plain ''scope'' (t ''chat_admin.col_scope'') (\<lambda>r. [Words (tr (''chat_admin.scope_'' @ tw_scope r) (tw_scope r))]),
      sorted_by (\<lambda>r. SText (tw_created r))
        (plain ''created_at'' (t ''chat_admin.col_created'') (\<lambda>r. [Words (date (tw_created r))])),
      plain ''actions'' [] (\<lambda>r. delete_cell t)]"

record chat_stats =
  total_projects :: nat
  total_sessions :: nat
  total_attachments :: nat
  total_attachment_bytes :: nat

definition statCards :: "(string \<Rightarrow> string) \<Rightarrow> chat_stats \<Rightarrow> (string \<times> string) list" where
  "statCards t s =
     [(t ''chat_admin.stat_projects'', show_nat (total_projects s)),
      (t ''chat_admin.stat_sessions'', show_nat (total_sessions s)),
      (t ''chat_admin.stat_attachments'', show_nat (total_attachments s)),
      (t ''chat_admin.stat_storage'', formatBytes (total_attachment_bytes s))]"

subsection \<open>Deleting with a confirmation\<close>

text \<open>
  What the pages of the chats share: \<open>sent\<close> is the row whose deletion waits for its answer and
  \<open>reloading\<close> says that the list is loaded again after a success.
\<close>

record 'r deletion =
  deleteTarget :: "'r option"
  deleting :: bool
  page_error :: "string option"
  sent :: "'r option"
  reloading :: bool
  deleted_rows :: "'r list"

definition no_deletion :: "'r deletion" where
  "no_deletion =
     \<lparr>deleteTarget = None, deleting = False, page_error = None, sent = None, reloading = False, deleted_rows = []\<rparr>"

definition ask_delete :: "'r \<Rightarrow> 'r deletion \<Rightarrow> 'r deletion" where
  "ask_delete r d = d\<lparr>deleteTarget := Some r\<rparr>"

definition confirm_delete :: "'r deletion \<Rightarrow> 'r deletion" where
  "confirm_delete d =
     (case deleteTarget d of None \<Rightarrow> d | Some r \<Rightarrow> d\<lparr>deleting := True, sent := Some r\<rparr>)"

definition delete_refused :: "string \<Rightarrow> 'r deletion \<Rightarrow> 'r deletion" where
  "delete_refused msg d = d\<lparr>sent := None, page_error := Some msg, deleting := False\<rparr>"

definition delete_accepted :: "'r deletion \<Rightarrow> 'r deletion" where
  "delete_accepted d =
     d\<lparr>sent := None, deleted_rows := deleted_rows d @ (case sent d of None \<Rightarrow> [] | Some r \<Rightarrow> [r]),
       deleteTarget := None, reloading := True, page_error := None\<rparr>"

definition delete_reloaded :: "string option \<Rightarrow> 'r deletion \<Rightarrow> 'r deletion" where
  "delete_reloaded failed d = d\<lparr>reloading := False, page_error := failed, deleting := False\<rparr>"

text \<open>The steps. The dialog covers the page while it is open, and nothing closes it while a deletion waits.\<close>

inductive delete_step :: "'r deletion \<Rightarrow> 'r deletion \<Rightarrow> bool" where
  ask: "deleteTarget d = None \<Longrightarrow> delete_step d (ask_delete r d)"
| close: "deleteTarget d \<noteq> None \<Longrightarrow> \<not> deleting d \<Longrightarrow> delete_step d (d\<lparr>deleteTarget := None\<rparr>)"
| confirm: "deleteTarget d \<noteq> None \<Longrightarrow> \<not> deleting d \<Longrightarrow> delete_step d (confirm_delete d)"
| refused: "sent d \<noteq> None \<Longrightarrow> delete_step d (delete_refused msg d)"
| accepted: "sent d \<noteq> None \<Longrightarrow> delete_step d (delete_accepted d)"
| reloaded: "reloading d \<Longrightarrow> delete_step d (delete_reloaded failed d)"

definition delete_reachable :: "'r deletion \<Rightarrow> bool" where
  "delete_reachable d = delete_step\<^sup>*\<^sup>* no_deletion d"

subsection \<open>Lemmas\<close>

lemmas admin_tables =
  user_columns_def role_columns_def group_columns_def auth_columns_def skill_columns_def session_columns_def
  project_columns_def attachment_columns_def

lemmas admin_evals =
  dead_sorts_def sort_offered_def table_keys_def row_texts_def data_columns_def column_defs List.map_filter_simps

text \<open>The row that is being deleted is the one the dialog shows.\<close>

definition one_deletion :: "'r deletion \<Rightarrow> bool" where
  "one_deletion d =
     ((sent d \<noteq> None \<longrightarrow> sent d = deleteTarget d \<and> \<not> reloading d)
      \<and> (deleting d \<longleftrightarrow> sent d \<noteq> None \<or> reloading d))"

lemma one_deletion_step: "delete_step d e \<Longrightarrow> one_deletion d \<Longrightarrow> one_deletion e"
  by (induction rule: delete_step.induct)
    (auto simp: one_deletion_def ask_delete_def confirm_delete_def delete_refused_def delete_accepted_def
      delete_reloaded_def split: option.splits)

lemma reachable_one_deletion: "delete_reachable d \<Longrightarrow> one_deletion d"
  unfolding delete_reachable_def
  by (induction rule: rtranclp_induct) (simp add: one_deletion_def no_deletion_def, rule one_deletion_step)

lemma power_index_bounds: "0 < n \<Longrightarrow> 1024 ^ power_index n \<le> n \<and> n < 1024 ^ Suc (power_index n)"
proof (induction n rule: power_index.induct)
  case (1 n)
  show ?case
  proof (cases "n < 1024")
    case True
    with 1 show ?thesis by (simp add: power_index.simps)
  next
    case False
    then have "1024 ^ power_index (n div 1024) \<le> n div 1024" "n div 1024 < 1024 ^ Suc (power_index (n div 1024))"
      using 1 by auto
    then have "1024 ^ power_index (n div 1024) * 1024 \<le> n" "n < 1024 ^ Suc (power_index (n div 1024)) * 1024"
      by (simp_all add: less_eq_div_iff_mult_less_eq div_less_iff_less_mult)
    with False show ?thesis by (subst (1 2) power_index.simps) (simp add: mult.commute)
  qed
qed

subsection \<open>Properties\<close>

text \<open>The keys of each table differ; the names of groups and of sign-on providers offer sorting and do not sort.\<close>

theorem admin_tables_sorts:
  "distinct (table_keys (user_columns t)) \<and> dead_sorts (user_columns t) = []
   \<and> distinct (table_keys (role_columns t)) \<and> dead_sorts (role_columns t) = []
   \<and> distinct (table_keys (group_columns t)) \<and> dead_sorts (group_columns t) = [''name'']
   \<and> distinct (table_keys (auth_columns t)) \<and> dead_sorts (auth_columns t) = [''name'']
   \<and> distinct (table_keys (skill_columns t)) \<and> dead_sorts (skill_columns t) = []
   \<and> distinct (table_keys (session_columns t tr date)) \<and> dead_sorts (session_columns t tr date) = []
   \<and> distinct (table_keys (project_columns t date)) \<and> dead_sorts (project_columns t date) = []
   \<and> distinct (table_keys (attachment_columns t tr date)) \<and> dead_sorts (attachment_columns t tr date) = []"
  by (simp add: admin_tables admin_evals)

text \<open>Whatever is typed into the search of the groups or of the sign-on providers, the table is empty.\<close>

theorem search_finds_no_group:
  assumes "trim q \<noteq> []"
  shows "filteredRows (data_columns (group_columns t)) q gs = []
    \<and> filteredRows (data_columns (auth_columns t)) q ps = []"
proof -
  have "row_texts (group_columns t) g = []" "row_texts (auth_columns t) p = []" for g p
    by (simp_all add: admin_tables admin_evals)
  with assms show ?thesis by (simp add: nothing_searched)
qed

theorem search_finds_no_group_witness:
  "filteredRows (data_columns (group_columns id)) ''ops''
     [\<lparr>gr_name = ''ops'', gr_description = None, gr_roles = [], gr_members = 1\<rparr>] = []"
  using search_finds_no_group [where q = "''ops''" and t = id and gs = "[\<lparr>gr_name = ''ops'', gr_description = None, gr_roles = [], gr_members = 1\<rparr>]"] by (simp add: trim_def is_ws_def)

text \<open>The texts that the search of the other tables looks at.\<close>

theorem admin_tables_search:
  "row_texts (user_columns t) u =
     [us_email u, bool_text (us_active u) @ '' '' @ bool_text (us_superuser u) @ '' '' @ bool_text (us_verified u),
      join '' '' (us_roles u), join '' '' (map (\<lambda>(r, a). r @ '':'' @ a) (us_permissions u))]
   \<and> row_texts (role_columns t) r = [ro_name r, some_or [] (ro_description r)]
   \<and> row_texts (skill_columns t) s = [kw_name s @ '' '' @ kw_slug s]
   \<and> row_texts (session_columns t tr date) w = [some_or [] (sw_title w), sw_user w, some_or [] (sw_project w)]
   \<and> row_texts (project_columns t date) p = [jw_name p, jw_user p, jw_tenant p]
   \<and> row_texts (attachment_columns t tr date) a = [tw_filename a, tw_user a, tw_type a]"
  by (simp add: admin_tables admin_evals)

text \<open>
  The flags of a user are searched as \<open>true\<close> and \<open>false\<close>: the first finds every active user, and the second
  every user who is not all of active, superuser and verified.
\<close>

theorem flags_searched_as_booleans:
  "(us_active u \<longrightarrow> filteredRows (data_columns (user_columns t)) ''true'' [u] = [u])
   \<and> (\<not> (us_active u \<and> us_superuser u \<and> us_verified u)
        \<longrightarrow> filteredRows (data_columns (user_columns t)) ''false'' [u] = [u])"
proof -
  have l: "to_lower (trim ''true'') = ''true''" "to_lower (trim ''false'') = ''false''" "trim ''true'' \<noteq> []"
    "trim ''false'' \<noteq> []" by code_simp+
  let ?f = "\<lambda>a s v. to_lower (bool_text a @ '' '' @ bool_text s @ '' '' @ bool_text v)"
  have "has_infix (?f True s v) ''true''" for s v by (cases s; cases v; code_simp)
  moreover have "\<not> (a \<and> s \<and> v) \<Longrightarrow> has_infix (?f a s v) ''false''" for a s v
    by (cases a; cases s; cases v; simp; code_simp)
  ultimately show ?thesis
    using l admin_tables_search [where t = t and u = u, THEN conjunct1] by (auto simp: filteredRows_texts)
qed

text \<open>Built-in roles cannot be edited or deleted from the table, all others can.\<close>

theorem builtin_roles_readonly:
  "(\<exists>l b. Press l b \<in> set (role_actions t r)) \<longleftrightarrow> \<not> ro_builtin r"
  by (auto simp: role_actions_def shown_if_def)

text \<open>
  In every run at most one deletion waits, for the row the dialog shows, which stays open until
  the answer: no other row can be deleted by it.
\<close>

theorem deletion_as_shown:
  assumes "delete_reachable d"
  shows "(sent d \<noteq> None \<longrightarrow> sent d = deleteTarget d \<and> deleting d)
    \<and> (delete_step d e \<and> sent d \<noteq> None \<longrightarrow> e \<in> {delete_accepted d} \<union> range (\<lambda>msg. delete_refused msg d))
    \<and> (sent d \<noteq> None \<longrightarrow> deleted_rows (delete_accepted d) = deleted_rows d @ [the (deleteTarget d)])"
proof -
  have "one_deletion d" by (rule reachable_one_deletion [OF assms])
  then show ?thesis
    by (auto simp: one_deletion_def delete_accepted_def elim: delete_step.cases split: option.splits)
qed

text \<open>
  While the list is loaded after a deletion another row can be asked for, but its deletion cannot be
  confirmed or given up before the list is there.
\<close>

theorem reload_locks_dialog:
  assumes "delete_reachable d" "reloading d" "delete_step (ask_delete r d) e"
  shows "\<exists>failed. e = delete_reloaded failed (ask_delete r d)"
proof -
  have "one_deletion d" by (rule reachable_one_deletion [OF assms(1)])
  then have "deleting (ask_delete r d)" "sent (ask_delete r d) = None" "deleteTarget (ask_delete r d) \<noteq> None"
    using assms(2) by (auto simp: one_deletion_def ask_delete_def)
  with assms(3) show ?thesis by (auto elim: delete_step.cases)
qed

text \<open>
  The text of a size has a unit up to a terabyte, from where it says \<open>undefined\<close> instead.
\<close>

theorem large_sizes_undefined:
  "(\<exists>s. formatBytes n = s @ '' undefined'') \<longleftrightarrow> 1024 ^ 4 \<le> n"
proof -
  have b: "1024 ^ power_index n \<le> n \<and> n < 1024 ^ Suc (power_index n)" if "0 < n"
    using that by (rule power_index_bounds)
  have "4 \<le> power_index n \<longleftrightarrow> 1024 ^ 4 \<le> n" if "0 < n"
  proof
    assume "4 \<le> power_index n"
    then have "(1024 :: nat) ^ 4 \<le> 1024 ^ power_index n" by (rule power_increasing) simp
    with b that show "1024 ^ 4 \<le> n" by linarith
  next
    assume "1024 ^ 4 \<le> n"
    then have "(1024 :: nat) ^ 4 < 1024 ^ Suc (power_index n)" using b that by linarith
    then have "4 < Suc (power_index n)" by (rule power_less_imp_less_exp [rotated]) simp
    then show "4 \<le> power_index n" by simp
  qed
  moreover have "\<not> (\<exists>s. x @ '' '' @ unit_text i = s @ '' undefined'')" if "i < 4" for x i
  proof -
    have "i \<in> {0, 1, 2, 3}" using that by auto
    then have b: "last (x @ '' '' @ unit_text i) = CHR ''B''" by (auto simp: unit_text_def)
    show ?thesis
    proof
      assume "\<exists>s. x @ '' '' @ unit_text i = s @ '' undefined''"
      then obtain s where "x @ '' '' @ unit_text i = s @ '' undefined''" by blast
      then have "last (x @ '' '' @ unit_text i) = CHR ''d''" by simp
      with b show False by simp
    qed
  qed
  moreover have "\<exists>s. x @ '' '' @ unit_text i = s @ '' undefined''" if "4 \<le> i" for x i
    using that by (simp add: unit_text_def)
  moreover have "\<not> (\<exists>s. ''0 B'' = s @ '' undefined'')"
  proof
    assume "\<exists>s. ''0 B'' = s @ '' undefined''"
    then obtain s where "''0 B'' = s @ '' undefined''" by blast
    from arg_cong [OF this, of length] show False by simp
  qed
  ultimately show ?thesis by (cases "n = 0") (auto simp: formatBytes_def Let_def not_le)
qed

end
