(* ===== verification/Service_Tables.thy ===== *)
theory Service_Tables
  imports Table_Columns Page_Load
begin

text \<open>
  The pages of the tool servers, the collectors and a single model:
  \<^verbatim>\<open>pages/admin/mcp/MCPServerDetailPage.tsx\<close> with the tables of tools and of servers
  (\<^verbatim>\<open>MCPServersPage.tsx\<close>), the tables of \<^verbatim>\<open>pages/admin/rag/RagCollectorsPage.tsx\<close> and
  \<^verbatim>\<open>RagPublishesPage.tsx\<close> with their polling, and \<^verbatim>\<open>pages/admin/llm/ModelDetailPage.tsx\<close>, whose files are
  in \<open>Llm_Tables\<close>. The texts of dates are arguments. The settings of a tool server are in \<open>Mcp_Servers\<close>.
\<close>

subsection \<open>Tool servers\<close>

record mcp_server =
  ms_id :: string
  ms_name :: string
  ms_transport :: string
  ms_prefix :: string
  ms_status :: string
  ms_pii :: string
  ms_enabled :: bool
  ms_tools :: nat
  ms_settings :: bool
  ms_timeout :: nat
  ms_url :: "string option"
  ms_command :: "string list option"

definition MCP_STATUS_COLOR :: "(string \<times> string) list" where
  "MCP_STATUS_COLOR =
     [(''active'', ''success''), (''degraded'', ''warning''), (''error'', ''error''), (''disconnected'', ''default''),
      (''disabled'', ''default''), (''registering'', ''info'')]"

definition server_actions :: "(string \<Rightarrow> string) \<Rightarrow> mcp_server \<Rightarrow> el list" where
  "server_actions t s =
     shown_if (ms_settings s) [Goto (''/admin/mcp/servers/'' @ ms_id s) (t ''mcp.provider_settings'')]
     @ [Goto (''/admin/mcp/servers/'' @ ms_id s) (t ''mcp.view_details''), Press (t ''mcp.refresh'') True,
        Press (t ''common.delete'') True]"

definition server_columns :: "(string \<Rightarrow> string) \<Rightarrow> mcp_server shown_column list" where
  "server_columns t =
     [searched (\<lambda>s. ms_name s @ '' '' @ ms_prefix s) (sorted_by (\<lambda>s. SText (ms_name s))
        (plain ''name'' (t ''mcp.name'') (\<lambda>s. [Words (ms_name s), Words (ms_prefix s)]))),
      sorted_by (\<lambda>s. SText (ms_transport s))
        (plain ''transport'' (t ''mcp.transport'') (\<lambda>s. [Tag (to_upper (ms_transport s)) ''default''])),
      sorted_by (\<lambda>s. SText (ms_status s))
        (plain ''status'' (t ''mcp.status'') (\<lambda>s. [Tag (ms_status s) (colour_in MCP_STATUS_COLOR (ms_status s))])),
      sorted_by (\<lambda>s. SNumber (int (ms_tools s)))
        (plain ''tools'' (t ''mcp.tool_count'') (\<lambda>s. [Words (show_nat (ms_tools s))])),
      plain ''pii_mode'' (t ''mcp.pii_mode'') (\<lambda>s. [Tag (ms_pii s) ''default'']),
      plain ''actions'' (t ''common.actions'') (server_actions t)]"

record mcp_tool =
  mt_id :: string
  mt_name :: string
  mt_description :: string
  mt_enabled :: bool
  mt_version :: string
  mt_seen :: string

definition tool_columns :: "(string \<Rightarrow> string) \<Rightarrow> (string \<Rightarrow> string) \<Rightarrow> mcp_tool shown_column list" where
  "tool_columns t date =
     [searched (\<lambda>w. mt_name w @ '' '' @ mt_description w) (sorted_by (\<lambda>w. SText (mt_name w))
        (plain ''name'' (t ''mcp.tool_name'') (\<lambda>w. [Words (mt_name w), Words (mt_description w)]))),
      plain ''version'' (t ''mcp.version'') (\<lambda>w. [Words (mt_version w)]),
      sorted_by (\<lambda>w. SNumber (if mt_enabled w then 1 else 0))
        (plain ''enabled'' (t ''common.enabled'') (\<lambda>w. [Flip (mt_enabled w)])),
      sorted_by (\<lambda>w. SText (mt_seen w)) (plain ''last_seen'' (t ''mcp.last_seen'') (\<lambda>w. [Words (date (mt_seen w))]))]"


text \<open>
  The page of a server: \<open>m_clicks\<close> and \<open>t_clicks\<close> are the changes that were sent, the oldest first, and
  the server and the tools are what the last loads answered. A load clears the error of the server;
  what goes wrong with the tools is not shown.
\<close>

record test_result =
  te_success :: bool
  te_tools :: nat
  te_message :: string

record mcp_page =
  m_server :: "mcp_server option"
  m_loading :: bool
  m_error :: "string option"
  m_tools :: "mcp_tool list"
  m_tools_error :: "string option"
  testResult :: "test_result option"
  testing :: bool
  m_clicks :: "bool list"
  t_clicks :: "(string \<times> bool) list"

definition handleToggleEnabled :: "mcp_page \<Rightarrow> mcp_page" where
  "handleToggleEnabled p =
     (case m_server p of None \<Rightarrow> p | Some s \<Rightarrow> p\<lparr>m_clicks := m_clicks p @ [\<not> ms_enabled s]\<rparr>)"

definition handleToggleTool :: "mcp_tool \<Rightarrow> mcp_page \<Rightarrow> mcp_page" where
  "handleToggleTool w p = p\<lparr>t_clicks := t_clicks p @ [(mt_id w, \<not> mt_enabled w)]\<rparr>"

definition server_loaded :: "string + mcp_server \<Rightarrow> mcp_page \<Rightarrow> mcp_page" where
  "server_loaded a p =
     (case a of Inl msg \<Rightarrow> p\<lparr>m_error := Some msg\<rparr> | Inr s \<Rightarrow> p\<lparr>m_error := None, m_server := Some s\<rparr>)
     \<lparr>m_loading := False\<rparr>"

definition tools_loaded :: "string + mcp_tool list \<Rightarrow> mcp_page \<Rightarrow> mcp_page" where
  "tools_loaded a p =
     (case a of Inl msg \<Rightarrow> p\<lparr>m_tools_error := Some msg\<rparr> | Inr ws \<Rightarrow> p\<lparr>m_tools_error := None, m_tools := ws\<rparr>)"

text \<open>The answer of a refresh or of a change, with the loads that follow a success.\<close>

definition refreshed ::
  "string option \<Rightarrow> string + mcp_server \<Rightarrow> string + mcp_tool list \<Rightarrow> mcp_page \<Rightarrow> mcp_page" where
  "refreshed failed s ws p =
     (case failed of Some msg \<Rightarrow> p\<lparr>m_error := Some msg\<rparr> | None \<Rightarrow> tools_loaded ws (server_loaded s p))"

definition toggle_answered :: "string option \<Rightarrow> string + mcp_server \<Rightarrow> mcp_page \<Rightarrow> mcp_page" where
  "toggle_answered failed s p =
     (case failed of Some msg \<Rightarrow> p\<lparr>m_error := Some msg\<rparr> | None \<Rightarrow> server_loaded s p)"

definition tool_answered :: "string option \<Rightarrow> string + mcp_tool list \<Rightarrow> mcp_page \<Rightarrow> mcp_page" where
  "tool_answered failed ws p =
     (case failed of Some msg \<Rightarrow> p\<lparr>m_error := Some msg\<rparr> | None \<Rightarrow> tools_loaded ws p)"

definition handleTest :: "mcp_page \<Rightarrow> mcp_page" where
  "handleTest p = p\<lparr>testing := True, testResult := None\<rparr>"

definition tested :: "string + test_result \<Rightarrow> mcp_page \<Rightarrow> mcp_page" where
  "tested a p =
     p\<lparr>testing := False,
       testResult := Some (case a of
         Inr r \<Rightarrow> r | Inl msg \<Rightarrow> \<lparr>te_success = False, te_tools = 0, te_message = msg\<rparr>)\<rparr>"

text \<open>What the page shows of the test, and of the server.\<close>

definition test_alert :: "test_result \<Rightarrow> string \<times> string" where
  "test_alert r =
     (if te_success r then ''success'' else ''error'',
      te_message r @ (if te_success r then '' ('' @ show_nat (te_tools r) @ '' tools discovered)'' else []))"

definition server_card :: "(string \<Rightarrow> string) \<Rightarrow> mcp_server \<Rightarrow> (string \<times> el) list" where
  "server_card t s =
     [(t ''mcp.status'', Tag (ms_status s) (colour_in MCP_STATUS_COLOR (ms_status s))),
      (t ''mcp.transport'', Words (to_upper (ms_transport s))), (t ''mcp.tool_prefix'', Words (ms_prefix s)),
      (t ''mcp.pii_mode'', Words (ms_pii s)), (t ''common.enabled'', Flip (ms_enabled s)),
      (t ''mcp.timeout'', Words (show_nat (ms_timeout s) @ ''s''))]
     @ (if truthy (ms_url s) then [(t ''mcp.url'', Words (the (ms_url s)))] else [])
     @ (case ms_command s of None \<Rightarrow> [] | Some ws \<Rightarrow> [(t ''mcp.command'', Words (join '' '' ws))])"

definition settings_shown :: "mcp_page \<Rightarrow> bool" where
  "settings_shown p = (case m_server p of None \<Rightarrow> False | Some s \<Rightarrow> truthy (ms_url s))"

text \<open>What the server does with a change.\<close>

definition serve_enabled :: "bool \<Rightarrow> mcp_server \<Rightarrow> mcp_server" where
  "serve_enabled b s =
     (if b then s\<lparr>ms_enabled := True\<rparr> else s\<lparr>ms_enabled := False, ms_status := ''disabled''\<rparr>)"

definition serve_tool :: "string \<times> bool \<Rightarrow> mcp_tool list \<Rightarrow> mcp_tool list" where
  "serve_tool c ws = map (\<lambda>w. if mt_id w = fst c then w\<lparr>mt_enabled := snd c\<rparr> else w) ws"

subsection \<open>Collectors and publishes\<close>

record collector =
  co_id :: string
  co_type :: string
  co_tenant :: string
  co_workspace :: "string option"
  co_enabled :: bool
  co_schedule :: string

record ingest_job =
  ij_id :: string
  ij_collector :: string
  ij_type :: string
  ij_source :: "string option"
  ij_status :: string
  ij_error :: "string option"
  ij_created :: string

record publish =
  pb_id :: string
  pb_container :: string
  pb_scheduled :: "string option"
  pb_status :: string
  pb_error :: "string option"
  pb_created :: string

definition statusColor :: "string \<Rightarrow> string" where
  "statusColor s =
     (let n = to_lower s
      in if n \<in> {''success'', ''succeeded'', ''completed'', ''done''} then ''success''
         else if n \<in> {''running'', ''queued'', ''pending'', ''created''} then ''warning''
         else if n \<in> {''failed'', ''error''} then ''error''
         else ''default'')"

definition publishColor :: "string \<Rightarrow> string" where
  "publishColor s =
     (let n = to_lower s
      in if n \<in> {''success'', ''succeeded'', ''completed'', ''done''} then ''success''
         else if n \<in> {''running'', ''queued'', ''pending'', ''scheduled'', ''created''} then ''warning''
         else if n \<in> {''failed'', ''error'', ''partial''} then ''error''
         else ''default'')"

definition collector_columns :: "(string \<Rightarrow> string) \<Rightarrow> string option \<Rightarrow> collector shown_column list" where
  "collector_columns t busy =
     [searched co_id (sorted_by (\<lambda>c. SText (co_id c))
        (plain ''id'' (t ''rag_collectors.collector_id'') (\<lambda>c. [Words (co_id c)]))),
      searched co_type (sorted_by (\<lambda>c. SText (co_type c))
        (plain ''type'' (t ''rag_collectors.type'') (\<lambda>c. [Words (co_type c)]))),
      searched co_tenant (sorted_by (\<lambda>c. SText (co_tenant c))
        (plain ''tenant'' (t ''rag_collectors.tenant'') (\<lambda>c. [Words (co_tenant c)]))),
      searched (\<lambda>c. some_or [] (co_workspace c)) (sorted_by (\<lambda>c. SText (some_or [] (co_workspace c)))
        (plain ''workspace'' (t ''rag_collectors.workspace'')
          (\<lambda>c. [Words (some_or (t ''common.none'') (co_workspace c))]))),
      sorted_by (\<lambda>c. SNumber (if co_enabled c then 1 else 0))
        (plain ''enabled'' (t ''common.status'')
          (\<lambda>c. [Tag (if co_enabled c then t ''common.active'' else t ''common.inactive'')
                    (if co_enabled c then ''success'' else ''default'')])),
      searched co_schedule (plain ''schedule'' (t ''rag_collectors.schedule'') (\<lambda>c. [Words (co_schedule c)])),
      plain ''actions'' (t ''common.actions'')
        (\<lambda>c. [Press (t ''rag_collectors.run_now'') (\<not> (\<not> co_enabled c \<or> busy = Some (co_id c)))])]"

definition collector_job_columns ::
  "(string \<Rightarrow> string) \<Rightarrow> (string \<Rightarrow> string) \<Rightarrow> ingest_job shown_column list" where
  "collector_job_columns t date =
     [searched (\<lambda>j. ij_id j @ '' '' @ ij_collector j @ '' '' @ some_or [] (ij_source j))
        (sorted_by (\<lambda>j. SText (ij_created j))
          (plain ''job_id'' (t ''rag_collectors.job_id'') (\<lambda>j. [Words (take 12 (ij_id j))]))),
      sorted_by (\<lambda>j. SText (ij_collector j))
        (plain ''collector'' (t ''rag_collectors.collector_id'') (\<lambda>j. [Words (ij_collector j)])),
      sorted_by (\<lambda>j. SText (ij_status j))
        (plain ''status'' (t ''common.status'') (\<lambda>j. [Tag (ij_status j) (statusColor (ij_status j))])),
      sorted_by (\<lambda>j. SText (ij_created j))
        (plain ''created'' (t ''common.created'') (\<lambda>j. [Words (date (ij_created j))])),
      searched (\<lambda>j. some_or [] (ij_error j))
        (plain ''error'' (t ''common.error'') (\<lambda>j. [Words (some_or dash (ij_error j))]))]"

definition publish_columns ::
  "(string \<Rightarrow> string) \<Rightarrow> (string \<Rightarrow> string) \<Rightarrow> publish shown_column list" where
  "publish_columns t date =
     [sorted_by (\<lambda>p. SText (pb_created p)) (plain ''id'' ''Publish'' (\<lambda>p. [Words (take 12 (pb_id p))])),
      searched pb_container (plain ''container'' ''Container'' (\<lambda>p. [Words (take 12 (pb_container p))])),
      sorted_by (\<lambda>p. SText (pb_status p))
        (plain ''status'' (t ''common.status'') (\<lambda>p. [Tag (pb_status p) (publishColor (pb_status p))])),
      plain ''scheduled'' ''Scheduled''
        (\<lambda>p. [Words (if truthy (pb_scheduled p) then date (the (pb_scheduled p)) else ''now'')]),
      plain ''error'' (t ''common.error'') (\<lambda>p. [Words (some_or dash (pb_error p))])]"

definition publish_job_columns ::
  "(string \<Rightarrow> string) \<Rightarrow> (string \<Rightarrow> string) \<Rightarrow> ingest_job shown_column list" where
  "publish_job_columns t date =
     [sorted_by (\<lambda>j. SText (ij_created j)) (plain ''job_id'' ''Job'' (\<lambda>j. [Words (take 12 (ij_id j))])),
      sorted_by (\<lambda>j. SText (ij_type j)) (plain ''job_type'' ''Type'' (\<lambda>j. [Words (ij_type j)])),
      sorted_by (\<lambda>j. SText (ij_status j))
        (plain ''status'' (t ''common.status'') (\<lambda>j. [Tag (ij_status j) (publishColor (ij_status j))])),
      sorted_by (\<lambda>j. SText (ij_created j))
        (plain ''created_at'' (t ''common.created'') (\<lambda>j. [Words (date (ij_created j))])),
      plain ''error'' (t ''common.error'') (\<lambda>j. [Words (some_or dash (ij_error j))])]"

text \<open>The two pages with their polling: while something is active the page loads every five seconds.\<close>

definition job_active :: "ingest_job \<Rightarrow> bool" where
  "job_active j = (to_lower (ij_status j) \<in> {''queued'', ''running'', ''pending''})"

definition publish_active :: "publish \<Rightarrow> bool" where
  "publish_active p = (to_lower (pb_status p) \<in> {''scheduled'', ''queued'', ''running''})"

record ('a, 'b) polled_page =
  po_first :: "'a list"
  po_second :: "'b list"
  po_loading :: bool
  po_error :: "string option"
  po_flying :: nat
  po_timer :: bool

definition hasActiveJobs :: "(collector, ingest_job) polled_page \<Rightarrow> bool" where
  "hasActiveJobs s = list_ex job_active (po_second s)"

definition hasActiveItems :: "(publish, ingest_job) polled_page \<Rightarrow> bool" where
  "hasActiveItems s = (list_ex publish_active (po_first s) \<or> list_ex job_active (po_second s))"

definition poll_load :: "('a, 'b) polled_page \<Rightarrow> ('a, 'b) polled_page" where
  "poll_load s = s\<lparr>po_loading := True, po_error := None, po_flying := Suc (po_flying s)\<rparr>"

definition poll_opened :: "('a, 'b) polled_page" where
  "poll_opened =
     poll_load \<lparr>po_first = [], po_second = [], po_loading = True, po_error = None, po_flying = 0, po_timer = False\<rparr>"

text \<open>The answer of both lists together, and the effect that follows a change of what is active.\<close>

definition poll_answered ::
  "(('a, 'b) polled_page \<Rightarrow> bool) \<Rightarrow> string + 'a list \<times> 'b list \<Rightarrow> ('a, 'b) polled_page \<Rightarrow> ('a, 'b) polled_page" where
  "poll_answered active a s =
     (let r = (case a of
                 Inl msg \<Rightarrow> s\<lparr>po_error := Some msg\<rparr>
               | Inr (xs, ys) \<Rightarrow> s\<lparr>po_first := xs, po_second := ys\<rparr>)\<lparr>po_loading := False, po_flying := po_flying s - 1\<rparr>
      in r\<lparr>po_timer := active r\<rparr>)"

inductive poll_step :: "(('a, 'b) polled_page \<Rightarrow> bool) \<Rightarrow> ('a, 'b) polled_page \<Rightarrow> ('a, 'b) polled_page \<Rightarrow> bool"
  for active where
  tick: "po_timer s \<Longrightarrow> poll_step active s (poll_load s)"
| refresh: "\<not> po_loading s \<Longrightarrow> poll_step active s (poll_load s)"
| answer: "0 < po_flying s \<Longrightarrow> poll_step active s (poll_answered active a s)"

definition poll_reachable :: "(('a, 'b) polled_page \<Rightarrow> bool) \<Rightarrow> ('a, 'b) polled_page \<Rightarrow> bool" where
  "poll_reachable active s = (poll_step active)\<^sup>*\<^sup>* poll_opened s"

subsection \<open>A single model\<close>

text \<open>
  The page of a model: \<open>dp_id\<close> is the id of the address, \<open>dp_model\<close> the id of the model that is shown, with its
  status.
\<close>

record detail_page =
  dp_id :: string
  dp_model :: "(string \<times> string) option"
  dp_loading :: bool
  dp_error :: "string option"
  dp_flying :: "string list"

definition detail_load :: "detail_page \<Rightarrow> detail_page" where
  "detail_load d =
     (if dp_id d = [] then d
      else d\<lparr>dp_loading := True, dp_error := None, dp_flying := dp_flying d @ [dp_id d]\<rparr>)"

definition detail_answered :: "nat \<Rightarrow> string + string \<Rightarrow> detail_page \<Rightarrow> detail_page" where
  "detail_answered i a d =
     (let e = d\<lparr>dp_flying := take i (dp_flying d) @ drop (Suc i) (dp_flying d)\<rparr>
      in (case a of
            Inl msg \<Rightarrow> e\<lparr>dp_error := Some msg\<rparr>
          | Inr status \<Rightarrow> e\<lparr>dp_model := Some (dp_flying d ! i, status)\<rparr>)\<lparr>dp_loading := False\<rparr>)"

definition detail_moved :: "string \<Rightarrow> detail_page \<Rightarrow> detail_page" where
  "detail_moved i d = (if i = dp_id d then d else detail_load (d\<lparr>dp_id := i\<rparr>))"

datatype detail_view = DetailSpinner | DetailError string | ShownModel string

definition detail_shown :: "(string \<Rightarrow> string) \<Rightarrow> detail_page \<Rightarrow> detail_view" where
  "detail_shown t d =
     (if dp_loading d then DetailSpinner
      else case (dp_error d, dp_model d) of
             (None, Some (m, st)) \<Rightarrow> ShownModel m
           | (e, _) \<Rightarrow> if truthy e \<or> dp_model d = None then DetailError (some_or (t ''llm_model_detail.not_found'') e)
                       else ShownModel (fst (the (dp_model d))))"

definition detail_delete_disabled :: "detail_page \<Rightarrow> bool" where
  "detail_delete_disabled d = (case dp_model d of Some (m, st) \<Rightarrow> st = ''downloading'' | None \<Rightarrow> False)"

text \<open>What the button asks the server to delete.\<close>

definition detail_delete :: "bool \<Rightarrow> detail_page \<Rightarrow> string option" where
  "detail_delete confirmed d = (if dp_id d = [] \<or> \<not> confirmed then None else Some (dp_id d))"

subsection \<open>Lemmas\<close>

lemmas service_tables =
  server_columns_def tool_columns_def collector_columns_def collector_job_columns_def publish_columns_def
  publish_job_columns_def

lemmas service_evals =
  dead_sorts_def sort_offered_def table_keys_def row_texts_def data_columns_def column_defs List.map_filter_simps

text \<open>The timer runs exactly while something is active.\<close>

lemma poll_timer:
  assumes "poll_reachable active s" "active poll_opened = False"
    and "\<And>s. active (poll_load s) = active s" "\<And>s b. active (s\<lparr>po_timer := b\<rparr>) = active s"
  shows "po_timer s = active s"
  using assms(1) unfolding poll_reachable_def
proof (induction rule: rtranclp_induct)
  case base
  then show ?case using assms(2) by (simp add: poll_opened_def poll_load_def)
next
  case (step y z)
  from step(2) show ?case
    using step(3) assms(3,4) by cases (simp_all add: poll_load_def poll_answered_def Let_def)
qed

subsection \<open>Properties\<close>

text \<open>In these tables every column that offers sorting sorts; the jobs of the publishes cannot be searched.\<close>

theorem service_tables_evaluated:
  "distinct (table_keys (server_columns t)) \<and> dead_sorts (server_columns t) = []
   \<and> distinct (table_keys (tool_columns t date)) \<and> dead_sorts (tool_columns t date) = []
   \<and> distinct (table_keys (collector_columns t b)) \<and> dead_sorts (collector_columns t b) = []
   \<and> distinct (table_keys (collector_job_columns t date)) \<and> dead_sorts (collector_job_columns t date) = []
   \<and> distinct (table_keys (publish_columns t date)) \<and> dead_sorts (publish_columns t date) = []
   \<and> distinct (table_keys (publish_job_columns t date)) \<and> dead_sorts (publish_job_columns t date) = []"
  by (simp add: service_tables service_evals)

theorem publish_jobs_not_searched:
  assumes "trim q \<noteq> []"
  shows "filteredRows (data_columns (publish_job_columns t date)) q js = []"
proof -
  have "row_texts (publish_job_columns t date) j = []" for j by (simp add: service_tables service_evals)
  with assms show ?thesis by (simp add: nothing_searched)
qed

text \<open>
  However often the switch of a server is pressed before the list is loaded again, the server ends in the
  state the first press asked for; the same for the switch of a tool.
\<close>

theorem presses_agree:
  assumes "m_server p = Some s" "m_clicks p = []"
  shows "fold serve_enabled (m_clicks ((handleToggleEnabled ^^ Suc n) p)) s = serve_enabled (\<not> ms_enabled s) s"
proof -
  have k: "m_server ((handleToggleEnabled ^^ k) p) = Some s
      \<and> m_clicks ((handleToggleEnabled ^^ k) p) = replicate k (\<not> ms_enabled s)" for k
    by (induction k) (simp_all add: assms handleToggleEnabled_def replicate_append_same [symmetric] del: replicate_append_same)
  have "fold serve_enabled (replicate (Suc n) b) s = serve_enabled b s" for b
    by (induction n) (auto simp: serve_enabled_def)
  then show ?thesis using k [of "Suc n"] by simp
qed

theorem tool_presses_agree:
  "fold serve_tool (replicate (Suc n) (mt_id w, \<not> mt_enabled w)) ws
     = map (\<lambda>x. if mt_id x = mt_id w then x\<lparr>mt_enabled := \<not> mt_enabled w\<rparr> else x) ws"
proof -
  have i: "serve_tool c (serve_tool c ws) = serve_tool c ws" for c by (auto simp: serve_tool_def)
  have "fold serve_tool (replicate (Suc n) c) ws = serve_tool c ws" for c
    by (induction n) (simp_all add: i)
  then have "fold serve_tool (replicate (Suc n) (mt_id w, \<not> mt_enabled w)) ws = serve_tool (mt_id w, \<not> mt_enabled w) ws" .
  also have "\<dots> = map (\<lambda>x. if mt_id x = mt_id w then x\<lparr>mt_enabled := \<not> mt_enabled w\<rparr> else x) ws"
    by (simp add: serve_tool_def)
  finally show ?thesis .
qed

text \<open>A failure to load the tools is nowhere shown: the page keeps the old ones and its error is that of the server.\<close>

theorem tools_failure_silent:
  assumes "refreshed None (Inr s) (Inl msg) p = q"
  shows "m_error q = None \<and> m_tools q = m_tools p \<and> m_server q = Some s"
  using assms by (auto simp: refreshed_def server_loaded_def tools_loaded_def)

text \<open>A test that ended is told from one that failed by its colour only; the number of tools is shown for the first.\<close>

theorem test_reported:
  "testing (tested a p) = False
   \<and> (fst (test_alert (the (testResult (tested a p)))) = ''success'' \<longleftrightarrow> (\<exists>r. a = Inr r \<and> te_success r))
   \<and> testResult (handleTest p) = None"
  by (auto simp: tested_def test_alert_def handleTest_def split: sum.splits)

text \<open>
  The pages poll exactly while something they show is active, so that once everything has ended no
  further load is made without a click.
\<close>

theorem collectors_poll:
  assumes "poll_reachable hasActiveJobs s"
  shows "po_timer s \<longleftrightarrow> list_ex job_active (po_second s)"
  using poll_timer [OF assms] by (simp add: hasActiveJobs_def poll_opened_def poll_load_def)

theorem publishes_poll:
  assumes "poll_reachable hasActiveItems s"
  shows "po_timer s \<longleftrightarrow> list_ex publish_active (po_first s) \<or> list_ex job_active (po_second s)"
  using poll_timer [OF assms] by (simp add: hasActiveItems_def poll_opened_def poll_load_def)

text \<open>
  A job that was created and not queued yet has the colour of one that runs, and the page does not poll
  for it.
\<close>

theorem created_not_polled:
  "statusColor ''created'' = statusColor ''running''
   \<and> (list_all (\<lambda>j. ij_status j = ''created'') js
        \<longrightarrow> \<not> po_timer (poll_answered hasActiveJobs (Inr (cs, js)) s))"
proof -
  have "to_lower ''created'' = ''created''" "to_lower ''running'' = ''running''" by code_simp+
  then show ?thesis
    by (auto simp: statusColor_def poll_answered_def hasActiveJobs_def job_active_def list_ex_iff list_all_iff Let_def)
qed

text \<open>A collector can be run exactly while it is enabled and not already being run.\<close>

theorem run_offered:
  "snd (collector_columns t busy ! 6) c = [Press (t ''rag_collectors.run_now'') (co_enabled c \<and> busy \<noteq> Some (co_id c))]"
  by (simp add: collector_columns_def column_defs)

text \<open>
  The page of a model shows what came last: after a move from one model to another and answers in the
  other order it shows the first, while its button deletes the second.
\<close>

theorem other_model_deleted:
  assumes "dp_id d = i" "i \<noteq> []" "j \<noteq> []" "i \<noteq> j" "dp_flying d = [i]"
  shows "let e = detail_answered 0 (Inr sa) (detail_answered 1 (Inr sb) (detail_moved j d))
    in detail_shown t e = ShownModel i \<and> detail_delete True e = Some j \<and> dp_flying e = []"
  using assms
  by (simp add: detail_moved_def detail_load_def detail_answered_def detail_shown_def detail_delete_def Let_def)

text \<open>With one load at a time it shows the model of the address, and that is what it deletes.\<close>

theorem shown_model_deleted:
  assumes "dp_flying d = [dp_id d]" "dp_id d \<noteq> []" "dp_error d = None"
  shows "detail_shown t (detail_answered 0 (Inr st) d) = ShownModel (dp_id d)
    \<and> detail_delete True (detail_answered 0 (Inr st) d) = Some (dp_id d)
    \<and> (detail_delete_disabled (detail_answered 0 (Inr st) d) \<longleftrightarrow> st = ''downloading'')"
  using assms by (simp add: detail_answered_def detail_shown_def detail_delete_def detail_delete_disabled_def Let_def)

end
