(* ===== verification/Root_Mode.thy ===== *)
theory Root_Mode
  imports Container_Policy
begin

text \<open>
  Root mode, the time-limited session in which a superuser may touch the system's own containers: the
  routes and the store of the server (\<^verbatim>\<open>web/api/admin/root_mode/views.py\<close>, \<^verbatim>\<open>schema.py\<close>,
  \<^verbatim>\<open>db/dao/root_session_dao.py\<close> of the backend), and the admin shell's dialog and top bar
  (\<^verbatim>\<open>routes/admin.tsx\<close>, \<^verbatim>\<open>components/RootModeDialog.tsx\<close>, \<^verbatim>\<open>components/AdminTopbar.tsx\<close>). Time is in
  seconds, and one request is served at a time. What root mode allows is in \<open>Container_Policy\<close>.

  As for the stacks (\<open>Stack_Pages\<close>) the answer of a start is made from a row that is not written yet and has
  to have the time of its start, a default of the database: \<open>filled\<close> says that the mapper gives it. SQLAlchemy does
  not, so that by its documentation no start succeeds (\<open>unfilled_never_starts\<close>), although the tests of the
  backend expect it to; what is shown of runs holds for either.
\<close>

subsection \<open>The server\<close>

record root_session =
  rs_id :: string
  rs_actor :: string
  rs_start :: nat
  rs_ended :: "nat option"
  rs_reason :: string
  rs_scope :: string
  rs_duration :: nat

record start_request =
  sq_reason :: string
  sq_scope :: string
  sq_duration :: nat

record root_audit =
  ra_action :: string
  ra_session :: string
  ra_actor :: string
  ra_time :: nat
  ra_metadata :: "start_request option"

record root_db =
  rd_sessions :: "root_session list"
  rd_log :: "root_audit list"

datatype root_error = Invalid_request | Already_active | Not_active | Answer_invalid

text \<open>A session that is open counts until its time has passed.\<close>

definition open_at :: "nat \<Rightarrow> string \<Rightarrow> root_session \<Rightarrow> bool" where
  "open_at now a s = (rs_actor s = a \<and> rs_ended s = None \<and> now - rs_start s < rs_duration s)"

definition get_active :: "string \<Rightarrow> nat \<Rightarrow> root_db \<Rightarrow> root_session option" where
  "get_active a now db = find (open_at now a) (rd_sessions db)"

definition root_mode_status :: "string \<Rightarrow> nat \<Rightarrow> root_db \<Rightarrow> bool" where
  "root_mode_status a now db = (get_active a now db \<noteq> None)"

definition request_ok :: "start_request \<Rightarrow> bool" where
  "request_ok q = (10 \<le> length (sq_reason q) \<and> 60 \<le> sq_duration q \<and> sq_duration q \<le> 3600)"

definition start_root_mode :: "bool \<Rightarrow> string \<Rightarrow> string \<Rightarrow> start_request \<Rightarrow> nat \<Rightarrow> root_db \<Rightarrow> root_error + root_db" where
  "start_root_mode filled fresh a q now db =
     (if \<not> request_ok q then Inl Invalid_request
      else if get_active a now db \<noteq> None then Inl Already_active
      else if \<not> filled then Inl Answer_invalid
      else Inr \<lparr>rd_sessions = rd_sessions db @
             [\<lparr>rs_id = fresh, rs_actor = a, rs_start = now, rs_ended = None, rs_reason = sq_reason q,
               rs_scope = sq_scope q, rs_duration = sq_duration q\<rparr>],
           rd_log = rd_log db @
             [\<lparr>ra_action = ''root_mode.start'', ra_session = fresh, ra_actor = a, ra_time = now,
               ra_metadata = Some q\<rparr>]\<rparr>)"

definition end_session :: "string \<Rightarrow> nat \<Rightarrow> root_session list \<Rightarrow> root_session list" where
  "end_session i now ss = map (\<lambda>s. if rs_id s = i then s\<lparr>rs_ended := Some now\<rparr> else s) ss"

definition stop_root_mode :: "string \<Rightarrow> nat \<Rightarrow> root_db \<Rightarrow> root_error + root_db" where
  "stop_root_mode a now db =
     (case get_active a now db of
        None \<Rightarrow> Inl Not_active
      | Some s \<Rightarrow> Inr \<lparr>rd_sessions = end_session (rs_id s) now (rd_sessions db),
          rd_log = rd_log db @
            [\<lparr>ra_action = ''root_mode.stop'', ra_session = rs_id s, ra_actor = a, ra_time = now, ra_metadata = None\<rparr>]\<rparr>)"

text \<open>Runs: time passes, and users start and stop sessions.\<close>

inductive root_run :: "nat \<Rightarrow> root_db \<Rightarrow> bool" where
  empty: "root_run t \<lparr>rd_sessions = [], rd_log = []\<rparr>"
| wait: "root_run t db \<Longrightarrow> t \<le> t' \<Longrightarrow> root_run t' db"
| start: "root_run t db \<Longrightarrow> fresh \<notin> rs_id ` set (rd_sessions db) \<Longrightarrow> start_root_mode filled fresh a q t db = Inr db'
    \<Longrightarrow> root_run t db'"
| stop: "root_run t db \<Longrightarrow> stop_root_mode a t db = Inr db' \<Longrightarrow> root_run t db'"

subsection \<open>The admin shell\<close>

record root_panel =
  rootStatus :: "bool option"
  showRootForm :: bool
  reason :: string
  duration :: nat
  form_error :: "root_error option"

definition panel_start :: root_panel where
  "panel_start = \<lparr>rootStatus = None, showRootForm = False, reason = [], duration = 600, form_error = None\<rparr>"

definition isRootActive :: "root_panel \<Rightarrow> bool" where
  "isRootActive p = (case rootStatus p of None \<Rightarrow> False | Some b \<Rightarrow> b)"

text \<open>What the top bar offers.\<close>

datatype root_control = ActivateButton | ActiveChip | DeactivateButton

definition root_controls :: "bool \<Rightarrow> root_panel \<Rightarrow> root_control list" where
  "root_controls superuser p =
     (if \<not> superuser then [] else if isRootActive p then [ActiveChip, DeactivateButton] else [ActivateButton])"

text \<open>The form is not sent while a field is out of its bounds.\<close>

definition form_valid :: "root_panel \<Rightarrow> bool" where
  "form_valid p = (10 \<le> length (reason p) \<and> 60 \<le> duration p \<and> duration p \<le> 3600)"

definition loadRootStatus :: "string \<Rightarrow> nat \<Rightarrow> root_db \<Rightarrow> root_panel \<Rightarrow> root_panel" where
  "loadRootStatus a now db p = p\<lparr>rootStatus := Some (root_mode_status a now db)\<rparr>"

text \<open>
  The two handlers against the server. The form shows the error the server answers, by the status of the
  answer and its text; what the second does not catch leaves the shell as it was.
\<close>

definition handleActivateRoot ::
  "bool \<Rightarrow> string \<Rightarrow> string \<Rightarrow> nat \<Rightarrow> root_panel \<times> root_db \<Rightarrow> root_panel \<times> root_db" where
  "handleActivateRoot filled fresh a now = (\<lambda>(p, db).
     case start_root_mode filled fresh a \<lparr>sq_reason = reason p, sq_scope = ''all'', sq_duration = duration p\<rparr> now db of
       Inl e \<Rightarrow> (p\<lparr>form_error := Some e\<rparr>, db)
     | Inr db' \<Rightarrow> (loadRootStatus a now db' (p\<lparr>form_error := None, showRootForm := False, reason := []\<rparr>), db'))"

definition handleDeactivateRoot :: "string \<Rightarrow> nat \<Rightarrow> root_panel \<times> root_db \<Rightarrow> root_panel \<times> root_db" where
  "handleDeactivateRoot a now = (\<lambda>(p, db).
     case stop_root_mode a now db of
       Inl e \<Rightarrow> (p, db)
     | Inr db' \<Rightarrow> (loadRootStatus a now db' p, db'))"

definition close_root_form :: "root_panel \<Rightarrow> root_panel" where
  "close_root_form p = p\<lparr>showRootForm := False, form_error := None\<rparr>"

subsection \<open>Lemmas\<close>

lemma open_later: "open_at t' a s \<Longrightarrow> t \<le> t' \<Longrightarrow> open_at t a s"
  by (auto simp: open_at_def)

lemma active_iff: "get_active a t db \<noteq> None \<longleftrightarrow> (\<exists>s \<in> set (rd_sessions db). open_at t a s)"
  by (auto simp: get_active_def find_None_iff)

lemma status_iff: "root_mode_status a t db \<longleftrightarrow> (\<exists>s \<in> set (rd_sessions db). open_at t a s)"
  unfolding root_mode_status_def by (rule active_iff)

lemma active_SomeD: "get_active a t db = Some s \<Longrightarrow> s \<in> set (rd_sessions db) \<and> open_at t a s"
  unfolding get_active_def by (rule find_SomeD)

text \<open>
  In a run the sessions have ids of their own, a duration within bounds and a record in the log, have
  begun, and of each user at most one is open.
\<close>

definition root_sound :: "nat \<Rightarrow> root_db \<Rightarrow> bool" where
  "root_sound t db =
     (distinct (map rs_id (rd_sessions db))
      \<and> (\<forall>s \<in> set (rd_sessions db). rs_start s \<le> t \<and> 60 \<le> rs_duration s \<and> rs_duration s \<le> 3600
          \<and> 10 \<le> length (rs_reason s)
          \<and> \<lparr>ra_action = ''root_mode.start'', ra_session = rs_id s, ra_actor = rs_actor s, ra_time = rs_start s,
              ra_metadata = Some \<lparr>sq_reason = rs_reason s, sq_scope = rs_scope s, sq_duration = rs_duration s\<rparr>\<rparr> \<in> set (rd_log db))
      \<and> (\<forall>a. \<forall>s \<in> set (rd_sessions db). \<forall>s' \<in> set (rd_sessions db). open_at t a s \<and> open_at t a s' \<longrightarrow> s = s'))"

lemma start_sound:
  assumes "root_sound t db" "fresh \<notin> rs_id ` set (rd_sessions db)" "start_root_mode filled fresh a q t db = Inr db'"
  shows "root_sound t db'"
proof -
  let ?n = "\<lparr>rs_id = fresh, rs_actor = a, rs_start = t, rs_ended = None, rs_reason = sq_reason q, rs_scope = sq_scope q, rs_duration = sq_duration q\<rparr>"
  let ?l = "\<lparr>ra_action = ''root_mode.start'', ra_session = fresh, ra_actor = a, ra_time = t, ra_metadata = Some q\<rparr>"
  have d: "db' = \<lparr>rd_sessions = rd_sessions db @ [?n], rd_log = rd_log db @ [?l]\<rparr>" and ok: "request_ok q"
    and none: "get_active a t db = None"
    using assms(3) by (auto simp: start_root_mode_def split: if_splits)
  have "\<not> open_at t a s" if "s \<in> set (rd_sessions db)" for s using none that active_iff [of a t db] by blast
  moreover have "open_at t b ?n \<Longrightarrow> b = a" for b by (simp add: open_at_def)
  ultimately show ?thesis
    using assms(1,2) ok by (auto simp: root_sound_def d request_ok_def)
qed

lemma stop_sound:
  assumes "root_sound t db" "stop_root_mode a t db = Inr db'"
  shows "root_sound t db'"
proof -
  obtain s where s: "get_active a t db = Some s"
    and d: "rd_sessions db' = end_session (rs_id s) t (rd_sessions db)"
    using assms(2) by (auto simp: stop_root_mode_def split: option.splits)
  have l: "set (rd_log db) \<subseteq> set (rd_log db')"
    using assms(2) by (auto simp: stop_root_mode_def split: option.splits)
  have ids: "map rs_id (rd_sessions db') = map rs_id (rd_sessions db)" by (simp add: d end_session_def)
  have old: "\<exists>y \<in> set (rd_sessions db). rs_id x = rs_id y \<and> rs_actor x = rs_actor y \<and> rs_start x = rs_start y
      \<and> rs_duration x = rs_duration y \<and> rs_reason x = rs_reason y \<and> rs_scope x = rs_scope y \<and> (\<forall>a. open_at t a x \<longrightarrow> x = y)"
    if "x \<in> set (rd_sessions db')" for x
  proof -
    from that obtain y where "y \<in> set (rd_sessions db)" "x = (if rs_id y = rs_id s then y\<lparr>rs_ended := Some t\<rparr> else y)"
      by (auto simp: d end_session_def)
    then show ?thesis by (intro bexI [of _ y]) (auto simp: open_at_def)
  qed
  have kept: "rs_start x \<le> t \<and> 60 \<le> rs_duration x \<and> rs_duration x \<le> 3600 \<and> 10 \<le> length (rs_reason x)
      \<and> \<lparr>ra_action = ''root_mode.start'', ra_session = rs_id x, ra_actor = rs_actor x, ra_time = rs_start x,
            ra_metadata = Some \<lparr>sq_reason = rs_reason x, sq_scope = rs_scope x, sq_duration = rs_duration x\<rparr>\<rparr>
          \<in> set (rd_log db')"
    if x: "x \<in> set (rd_sessions db')" for x
  proof -
    obtain y where y: "y \<in> set (rd_sessions db)" "rs_id x = rs_id y" "rs_actor x = rs_actor y"
      "rs_start x = rs_start y" "rs_duration x = rs_duration y" "rs_reason x = rs_reason y" "rs_scope x = rs_scope y"
      using old [OF x] by blast
    with assms(1) l show ?thesis unfolding root_sound_def by (simp only: y(2-7)) blast
  qed
  show ?thesis
    unfolding root_sound_def
  proof (intro conjI ballI allI impI)
    show "distinct (map rs_id (rd_sessions db'))" using assms(1) ids by (simp add: root_sound_def)
  next
    fix b x y assume "x \<in> set (rd_sessions db')" "y \<in> set (rd_sessions db')" "open_at t b x \<and> open_at t b y"
    then show "x = y" using old assms(1) unfolding root_sound_def by metis
  qed (use kept in blast)+
qed

lemma run_sound: "root_run t db \<Longrightarrow> root_sound t db"
proof (induction rule: root_run.induct)
  case (wait t db t')
  then show ?case using open_later unfolding root_sound_def by (meson le_trans)
next
  case start
  then show ?case by (blast intro: start_sound)
next
  case stop
  then show ?case by (blast intro: stop_sound)
qed (simp add: root_sound_def)

subsection \<open>Properties\<close>

text \<open>
  C10: Root mode is never on without a reason of ten characters in the log, given by the same user at most an
  hour before, and no user has two sessions at a time.
\<close>

theorem root_mode_audited:
  assumes "root_run t db" "root_mode_status a t db"
  shows "(\<exists>e \<in> set (rd_log db). ra_action e = ''root_mode.start'' \<and> ra_actor e = a \<and> ra_time e \<le> t \<and> t < ra_time e + 3600
      \<and> (\<exists>q. ra_metadata e = Some q \<and> 10 \<le> length (sq_reason q)))
    \<and> (\<exists>!s. s \<in> set (rd_sessions db) \<and> open_at t a s)"
proof -
  have sound: "root_sound t db" by (rule run_sound [OF assms(1)])
  obtain s where s: "s \<in> set (rd_sessions db)" "open_at t a s"
    using assms(2) active_iff by (auto simp: root_mode_status_def)
  let ?e = "\<lparr>ra_action = ''root_mode.start'', ra_session = rs_id s, ra_actor = rs_actor s, ra_time = rs_start s,
    ra_metadata = Some \<lparr>sq_reason = rs_reason s, sq_scope = rs_scope s, sq_duration = rs_duration s\<rparr>\<rparr>"
  have "?e \<in> set (rd_log db)" "rs_start s \<le> t" "rs_duration s \<le> 3600" "10 \<le> length (rs_reason s)"
    using sound s(1) by (auto simp: root_sound_def)
  moreover have "rs_actor s = a" "t < rs_start s + 3600" using s(2) calculation by (auto simp: open_at_def)
  ultimately have "\<exists>e \<in> set (rd_log db). ra_action e = ''root_mode.start'' \<and> ra_actor e = a \<and> ra_time e \<le> t
      \<and> t < ra_time e + 3600 \<and> (\<exists>q. ra_metadata e = Some q \<and> 10 \<le> length (sq_reason q))"
    by (intro bexI [of _ ?e]) auto
  moreover have "\<exists>!s. s \<in> set (rd_sessions db) \<and> open_at t a s"
    using s sound unfolding root_sound_def by blast
  ultimately show ?thesis by blast
qed

theorem root_mode_audited_witness:
  "\<exists>db. root_run 700 db \<and> root_mode_status ''u'' 700 db \<and> (\<exists>e \<in> set (rd_log db). ra_actor e = ''u'')"
proof -
  let ?q = "\<lparr>sq_reason = ''disk is full'', sq_scope = ''all'', sq_duration = 600\<rparr>"
  let ?e = "\<lparr>rd_sessions = [], rd_log = []\<rparr>"
  let ?db = "projr (start_root_mode True ''s'' ''u'' ?q 200 ?e)"
  have st: "start_root_mode True ''s'' ''u'' ?q 200 ?e = Inr ?db"
    by (simp add: start_root_mode_def request_ok_def get_active_def)
  have "root_run 200 ?db" by (rule root_run.start [OF root_run.empty _ st]) simp
  then have r: "root_run 700 ?db" by (rule root_run.wait) simp
  have on: "root_mode_status ''u'' 700 ?db"
    by (simp add: root_mode_status_def get_active_def open_at_def start_root_mode_def request_ok_def)
  show ?thesis using root_mode_audited [OF r on] r on by blast
qed

text \<open>Stopping ends it at once and for good: it is off until another session is started.\<close>

theorem stop_ends_root_mode:
  assumes "root_run t db" "stop_root_mode a t db = Inr db'" "t \<le> t'"
  shows "\<not> root_mode_status a t' db' \<and> (\<forall>b. b \<noteq> a \<longrightarrow> root_mode_status b t' db' = root_mode_status b t' db)"
proof -
  have sound: "root_sound t db" by (rule run_sound [OF assms(1)])
  obtain s where s: "get_active a t db = Some s" and d: "rd_sessions db' = end_session (rs_id s) t (rd_sessions db)"
    using assms(2) by (auto simp: stop_root_mode_def split: option.splits)
  have a: "s \<in> set (rd_sessions db)" "open_at t a s" using active_SomeD [OF s] by auto
  have inj: "x = s" if "x \<in> set (rd_sessions db)" "rs_id x = rs_id s" for x
    using that a(1) sound by (auto simp: root_sound_def distinct_map inj_on_def)
  have "\<not> open_at t' a x" if "x \<in> set (rd_sessions db')" for x
  proof
    assume o: "open_at t' a x"
    from that obtain y where y: "y \<in> set (rd_sessions db)" "x = (if rs_id y = rs_id s then y\<lparr>rs_ended := Some t\<rparr> else y)"
      by (auto simp: d end_session_def)
    with o have "rs_id y \<noteq> rs_id s" by (auto simp: open_at_def)
    with y o have "open_at t a y" using open_later assms(3) by auto
    then have "y = s" using y(1) a sound by (auto simp: root_sound_def)
    with \<open>rs_id y \<noteq> rs_id s\<close> show False by simp
  qed
  moreover have "(\<exists>x \<in> set (rd_sessions db'). open_at t' b x) \<longleftrightarrow> (\<exists>x \<in> set (rd_sessions db). open_at t' b x)"
    if "b \<noteq> a" for b
  proof -
    have "rs_id x \<noteq> rs_id s" if "x \<in> set (rd_sessions db)" "open_at t' b x" for x
      using that inj [of x] a(2) \<open>b \<noteq> a\<close> by (auto simp: open_at_def)
    then have keep: "x \<in> set (rd_sessions db) \<and> open_at t' b x \<longleftrightarrow> x \<in> set (rd_sessions db') \<and> open_at t' b x" for x
      by (cases "rs_ended x") (force simp: d end_session_def open_at_def)+
    show ?thesis using keep by (simp add: Bex_def)
  qed
  ultimately show ?thesis unfolding status_iff by blast
qed

theorem stop_ends_root_mode_witness:
  "\<exists>db db'. stop_root_mode ''u'' 300 db = Inr db' \<and> \<not> root_mode_status ''u'' 301 db'"
proof -
  let ?q = "\<lparr>sq_reason = ''disk is full'', sq_scope = ''all'', sq_duration = 600\<rparr>"
  let ?e = "\<lparr>rd_sessions = [], rd_log = []\<rparr>"
  let ?db = "projr (start_root_mode True ''s'' ''u'' ?q 200 ?e)"
  have st: "start_root_mode True ''s'' ''u'' ?q 200 ?e = Inr ?db"
    by (simp add: start_root_mode_def request_ok_def get_active_def)
  have "root_run 200 ?db" by (rule root_run.start [OF root_run.empty _ st]) simp
  then have r: "root_run 300 ?db" by (rule root_run.wait) simp
  have "\<exists>db'. stop_root_mode ''u'' 300 ?db = Inr db'"
    by (simp add: stop_root_mode_def get_active_def open_at_def start_root_mode_def request_ok_def)
  then show ?thesis using stop_ends_root_mode [OF r, of "''u''" _ 301] by fastforce
qed

text \<open>With a mapper that leaves the defaults to the database root mode is never started.\<close>

theorem unfilled_never_starts:
  "\<exists>e. start_root_mode False fresh a q now db = Inl e
     \<and> fst (handleActivateRoot False fresh a now (p, db)) = p\<lparr>form_error := form_error (fst (handleActivateRoot False fresh a now (p, db)))\<rparr>
     \<and> snd (handleActivateRoot False fresh a now (p, db)) = db"
  by (auto simp: start_root_mode_def handleActivateRoot_def)

text \<open>What the dialog lets through is what the server asks for; ten spaces are reason enough for both.\<close>

theorem root_form_as_server:
  "(form_valid p \<longleftrightarrow> request_ok \<lparr>sq_reason = reason p, sq_scope = ''all'', sq_duration = duration p\<rparr>)
   \<and> request_ok \<lparr>sq_reason = replicate 10 CHR '' '', sq_scope = ''all'', sq_duration = 600\<rparr>"
  by (auto simp: form_valid_def request_ok_def)

text \<open>Activating and deactivating leave the top bar with what the server says at that moment.\<close>

theorem root_panel_current:
  assumes "form_valid p" "\<not> root_mode_status a now db" "handleActivateRoot True fresh a now (p, db) = (p', db')"
  shows "isRootActive p' \<and> root_mode_status a now db' \<and> \<not> showRootForm p'
    \<and> (\<forall>later p'' db''. handleDeactivateRoot a later (p', db') = (p'', db'') \<and> root_mode_status a later db'
         \<longrightarrow> isRootActive p'' = root_mode_status a later db'')"
proof -
  have g: "get_active a now db = None" using assms(2) by (simp add: root_mode_status_def)
  have ok: "request_ok \<lparr>sq_reason = reason p, sq_scope = ''all'', sq_duration = duration p\<rparr>"
    using assms(1) by (simp add: form_valid_def request_ok_def)
  obtain d where d: "start_root_mode True fresh a \<lparr>sq_reason = reason p, sq_scope = ''all'', sq_duration = duration p\<rparr> now db = Inr d"
    using g ok by (simp add: start_root_mode_def)
  have on: "root_mode_status a now d"
    using d g ok unfolding root_mode_status_def active_iff
    by (auto simp: start_root_mode_def open_at_def request_ok_def)
  have "p' = loadRootStatus a now d (p\<lparr>form_error := None, showRootForm := False, reason := []\<rparr>)" "db' = d"
    using assms(3) d by (auto simp: handleActivateRoot_def)
  with on show ?thesis
    by (auto simp: loadRootStatus_def isRootActive_def handleDeactivateRoot_def stop_root_mode_def
        root_mode_status_def split: option.splits sum.splits)
qed

text \<open>
  When the time of a session has passed the top bar still says that root mode is on, and the button that
  ends it does nothing: its request fails and the status is not loaded again.
\<close>

theorem expired_root_stuck:
  assumes "isRootActive p" "\<not> root_mode_status a later db"
  shows "handleDeactivateRoot a later (p, db) = (p, db)
    \<and> root_controls True p = [ActiveChip, DeactivateButton]
    \<and> canStop SystemCore (isRootActive p) \<and> \<not> check Stop SystemCore Free (root_mode_status a later db)"
  using assms
  by (simp add: handleDeactivateRoot_def stop_root_mode_def root_mode_status_def root_controls_def canStop_def
      check_def core_allow_def)

theorem expired_root_stuck_witness:
  "\<exists>p db. handleDeactivateRoot ''u'' 800 (p, db) = (p, db) \<and> isRootActive p"
proof -
  let ?p0 = "panel_start\<lparr>reason := ''disk is full''\<rparr>"
  let ?r = "handleActivateRoot True ''s'' ''u'' 200 (?p0, \<lparr>rd_sessions = [], rd_log = []\<rparr>)"
  obtain p db where r: "?r = (p, db)" by (cases ?r)
  have "isRootActive (fst ?r)" "\<not> root_mode_status ''u'' 800 (snd ?r)" by code_simp+
  with r expired_root_stuck [of p "''u''" 800 db] show ?thesis by auto
qed

end
