(* ===== verification/Spec2Isabelle.thy ===== *)
theory Spec2Isabelle
  imports Dashboard_Layout Vllm_Panel Access_Cache Services Page_Help Admin_Layout Chat_Stream
    Chat_Page System_Update Auth_Client Async_Data Data_Table Service_Urls Provider_Finish
    Pipeline_Graph Trace_Stream Topology_Graph Guided_Tour
    Create_Container Logs_Table System_Settings Pii_Admin Rag_Tree Formats
    Runtime_Page Residency User_Admin Job_Pages Module_Choice Node_Page
    Mcp_Servers Skill_Pages Dashboard_Page
    Container_Policy Image_Page Node_Fleet Models_Page Chat_View Rag_Pages
    Api_Requests Usage_Pages Stack_Pages Api_Calls Node_Profiles
    Sign_On Profile_Page Llm_Providers
    Network_Page Container_Logs Resource_Tables Llm_Tables Admin_Tables Service_Tables Root_Mode
begin

text \<open>
  Verification library for the front end of LLM Port, the React application under
  \<^verbatim>\<open>src/llm_port_frontend/app\<close>. File names below are relative to that directory.

  \<^bold>\<open>The program.\<close> The front end has two areas. The admin shell (\<^verbatim>\<open>routes/admin.tsx\<close>) checks on
  mount that the user is a superuser, builds a sidebar from a table of navigation entries, the
  user's permissions and the enabled modules, and shows a page of the route table. The chat
  (\<^verbatim>\<open>routes/chat.tsx\<close>, \<^verbatim>\<open>pages/chat\<close>) keeps sessions and projects, streams completions as
  server-sent events, and lets the user adjust the PII policy and the tools of a session.
  Hooks and providers keep state that survives a reload in the storage of the browser.

  \<^bold>\<open>How the code is modelled.\<close> The state of a hook or component is a record with the state
  variables and references as fields. A handler is a function on that record; a request is an
  event whose answer is an argument (\<open>Inl\<close> the error, \<open>Inr\<close> the value), and the requests a
  handler issues are part of its result where a property is about them. Effects that
  React runs after a change are functions of their own. Where the order of answers matters
  (\<open>System_Update\<close>, \<open>Auth_Client\<close>, \<open>Async_Data\<close>, \<open>Provider_Wizard\<close>, \<open>Guided_Tour\<close>,
  \<open>Logs_Page\<close>, \<open>Container_Logs\<close>, \<open>Dashboard_Page\<close>, \<open>Image_Page\<close>, \<open>Job_Pages\<close>, \<open>Models_Page\<close>,
  \<open>Network_Page\<close>, \<open>Node_Fleet\<close>, \<open>Node_Page\<close>, \<open>Pii_Admin\<close>, \<open>Rag_Pages\<close>, \<open>Root_Mode\<close>, \<open>Service_Tables\<close>,
  \<open>Skill_Pages\<close>, \<open>Usage_Pages\<close>, \<open>User_Admin\<close>, \<open>Chat_View\<close> and others) the handlers
  are steps of a relation, or events of a run, whose state holds the requests and timers in flight. The
  routes and stores of the backend in \<^verbatim>\<open>src/llm_port_backend\<close> that a page depends on are functions from a store and a
  request to an error or a new store. JSON is the datatype \<open>json\<close>; objects are association
  lists in insertion order. Strings are lists of characters with codes below 256. Times are
  integers in milliseconds. Almost every recursion is structural or over a finite list of events or
  chunks; the walk of a task flow (\<open>advanceToStep\<close>) ends because its step grows. There is no fuel
  and every function returns.

  \<^bold>\<open>Shared theories.\<close> \<open>Prelude\<close>: JSON, truthiness, strings, shared list and map lemmas, the
  locale of toggles. \<open>Browser\<close>: the storage of the browser, which may be disabled.
  \<open>Stored_Order\<close>: the locale of reconciling a stored order with the current entries.
  \<open>Page_Load\<close>: the locale of pages that load on every change, and paging.
  \<open>Ttl_Cache\<close>: the locale of caches with a time to live. \<open>Route_Match\<close>: first match in a table
  of prefixes and its locale.

  \<^bold>\<open>The admin area.\<close>
  \<^item> \<open>Auth_Client\<close>, \<^verbatim>\<open>api/auth.ts\<close>: the cached and shared identity request against the
    session on the server, which also changes elsewhere; how old a cached identity can be, and a late
    answer after a logout that revives the user.
  \<^item> \<open>Access_Cache\<close>, \<^verbatim>\<open>lib/adminConstants.tsx\<close>: the two-level cache of the access answer; reads
    return the last write within its time to live.
  \<^item> \<open>Services\<close>, \<^verbatim>\<open>lib/ServicesContext.tsx\<close>, \<^verbatim>\<open>lib/useRagMode.ts\<close>,
    \<^verbatim>\<open>components/ModuleGuard.tsx\<close>, \<^verbatim>\<open>routes/chat.tsx\<close>: the module manifest, its caches and
    the guards; a guarded page is shown only for an enabled module, and who enters the chat exactly.
  \<^item> \<open>Admin_Nav\<close>, \<^verbatim>\<open>lib/adminConstants.tsx\<close>, \<^verbatim>\<open>routes.ts\<close>: the navigation entries, the route
    table and the titles as data.
  \<^item> \<open>Page_Help\<close>, \<^verbatim>\<open>lib/pageHelp.ts\<close>: the help entries and their resolution; the first match is
    the most specific one.
  \<^item> \<open>Admin_Layout\<close>, \<^verbatim>\<open>routes/admin.tsx\<close>, \<^verbatim>\<open>routes/login.tsx\<close>: authentication on mount, visible
    navigation, onboarding, the way through the login page and back.
  \<^item> \<open>Nav_Order\<close>, \<^verbatim>\<open>lib/useNavOrder.ts\<close>, \<^verbatim>\<open>components/AdminSidebar.tsx\<close>, and \<open>Dashboard_Layout\<close>,
    \<^verbatim>\<open>lib/useDashboardLayout.ts\<close>: orders the user arranges by dragging; every session keeps
    every entry exactly once and a reload restores it.
  \<^item> \<open>Vllm_Registry\<close>, \<open>Vllm_Recipes\<close>, \<open>Vllm_Args\<close> (\<^verbatim>\<open>lib/vllm\<close>) and \<open>Vllm_Panel\<close>
    (\<^verbatim>\<open>components/VllmEngineArgsPanel.tsx\<close>): the catalogue of engine arguments and the recipes
    with their consistency, the suggestion of a recipe (its regular expressions through a matcher of
    the model), the parser of raw arguments with what it lets through, and the panel that edits values.
  \<^item> \<open>System_Update\<close>, \<^verbatim>\<open>pages/admin/nodes/SystemUpdateDialog.tsx\<close>: the update dialog of a node
    with its polling, its invariants, and a run in which a late reply loses an update.
  \<^item> \<open>Provider_Wizard\<close> and \<open>Provider_Finish\<close>, \<^verbatim>\<open>components/ProviderWizardDialog.tsx\<close>: the choice,
    check and pull of the image with an invariant of what is in flight, the payloads, and the
    sequence of requests that creates a provider, with what is left on the server whichever fail.
  \<^item> \<open>Pipeline_Graph\<close>, \<^verbatim>\<open>components/PipelineGraph.tsx\<close>: the stages of a request, their states and
    places, and the graph as a tree.
  \<^item> \<open>Trace_Stream\<close> and \<open>Topology_Graph\<close>, \<^verbatim>\<open>pages/admin/llm/GraphPage.tsx\<close>: the live traces against
    a specification of their rows, the reconnection, and the places of the topology.
  \<^item> \<open>Guided_Tour\<close>, \<^verbatim>\<open>lib/tourEngine.ts\<close>, \<^verbatim>\<open>components/GuidedSetupTour.tsx\<close>,
    \<^verbatim>\<open>components/TaskFlowTour.tsx\<close>: the catalogues of steps, the tour over pages with its timers,
    and the walk over targets that appear late or are given up.
  \<^item> \<open>Data_Table\<close>, \<^verbatim>\<open>components/DataTable.tsx\<close>, \<open>Async_Data\<close>, \<^verbatim>\<open>lib/useAsyncData.ts\<close>, and
    \<open>Service_Urls\<close>, \<^verbatim>\<open>lib/serviceUrls.ts\<close>: the table, the loading of data and the links that all
    admin pages share.
  \<^item> \<open>Create_Container\<close>, \<^verbatim>\<open>pages/admin/CreateContainerPage.tsx\<close>: the rows of the form, the
    command line with its quotes, and the payload that is sent.
  \<^item> \<open>Logs_Page\<close> and \<open>Logs_Table\<close>, \<^verbatim>\<open>pages/admin/LogsPage.tsx\<close>, \<^verbatim>\<open>pages/admin/logs/LogsTable.tsx\<close>:
    the query against a reader of its language, the merge of streams, the live tail as a step
    relation over its connections, and the rows with filters and pages.
  \<^item> \<open>System_Settings\<close>, \<^verbatim>\<open>pages/admin/SettingsPage.tsx\<close>, \<^verbatim>\<open>components/ModulesTab.tsx\<close>: which page
    shows a setting, editing, loading and saving, generated secrets and switching modules.
  \<^item> \<open>Pii_Admin\<close>, \<^verbatim>\<open>api/pii.ts\<close>, \<^verbatim>\<open>components/PiiPolicyForm.tsx\<close>,
    \<^verbatim>\<open>pages/admin/pii/PIITenantPoliciesPage.tsx\<close>: the normalisation of a policy of any shape, its
    form, and the page of the tenants as a step relation over its requests.
  \<^item> \<open>Rag_Tree\<close>, \<^verbatim>\<open>pages/admin/rag/RagLiteKnowledgeBasePage.tsx\<close>: the tree of collections and
    documents, complete without cycles, and moving, creating, uploading and describing.
  \<^item> \<open>Runtime_Page\<close>, \<^verbatim>\<open>pages/admin/llm/RuntimeDetailPage.tsx\<close>: the progress of a deployment
    against its events, the editor of the configuration, which is stable under saving, and
    loading and polling.
  \<^item> \<open>Residency\<close>, \<^verbatim>\<open>pages/admin/SecurityMapPage.tsx\<close>, \<^verbatim>\<open>components/DataResidencyCard.tsx\<close>: how
    providers and their usage are counted, shown alike on the card and on the page.
  \<^item> \<open>User_Admin\<close>, \<^verbatim>\<open>pages/admin/RolesPage.tsx\<close>, \<^verbatim>\<open>UsersPage.tsx\<close>, \<^verbatim>\<open>GroupsPage.tsx\<close>: the editors
    down to what the server stores, and the members of a group against its dialogs and requests.
  \<^item> \<open>Sign_On\<close>, \<^verbatim>\<open>pages/admin/AuthProvidersPage.tsx\<close>, and \<open>Profile_Page\<close>,
    \<^verbatim>\<open>pages/admin/ProfilePage.tsx\<close>: the providers of sign-on with the callback of the server, which
    makes no superusers, and changing a password and making a token.
  \<^item> \<open>Job_Pages\<close>, \<^verbatim>\<open>pages/admin/SchedulerPage.tsx\<close>, \<^verbatim>\<open>pages/admin/llm/JobsPage.tsx\<close>,
    \<^verbatim>\<open>pages/admin/observability/PricingTab.tsx\<close>: a filtered list that polls, its timer and answers.
  \<^item> \<open>Module_Choice\<close>, \<^verbatim>\<open>components/ModuleRecommendationDialog.tsx\<close>: from the recommendation of a
    profile and the manifest to the modules that run after Apply.
  \<^item> \<open>Node_Page\<close>, \<^verbatim>\<open>pages/admin/nodes/NodeDetailPage.tsx\<close>: the last deployment, the newest lines
    of the logs, and the locks of the actions.
  \<^item> \<open>Mcp_Servers\<close>, \<^verbatim>\<open>pages/admin/mcp/MCPServersPage.tsx\<close>, \<^verbatim>\<open>MCPSettingsPanel.tsx\<close>: the prefixes of
    tools, registration, the scan of a host and the settings of a server.
  \<^item> \<open>Skill_Pages\<close>, \<^verbatim>\<open>pages/admin/skills\<close>: the wizard, the page of a skill with what a save
    shows after it, and the document the server composes and reads.
  \<^item> \<open>Dashboard_Page\<close>, \<^verbatim>\<open>pages/admin/DashboardPage.tsx\<close>: its requests as a step relation whose refresh
    ends with the last answer, the gauges, and the cards of the nodes.
  \<^item> \<open>Container_Policy\<close>, \<^verbatim>\<open>pages/admin/ContainersPage.tsx\<close> and the tests of \<^verbatim>\<open>api/admin.ts\<close>: what is
    offered for a container against what the server's policy allows.
  \<^item> \<open>Image_Page\<close>, \<^verbatim>\<open>pages/admin/ImagesPage.tsx\<close>: pulls with their stream of events, and pruning.
  \<^item> \<open>Node_Fleet\<close>, \<^verbatim>\<open>pages/admin/nodes/NodeFleetPage.tsx\<close>: the deletion of a node with what runs on it.
  \<^item> \<open>Node_Profiles\<close>, \<^verbatim>\<open>pages/admin/nodes/NodeProfileFormDialog.tsx\<close>, \<^verbatim>\<open>NodeProfilesPage.tsx\<close>: the
    dialog, which is stable under saving, and its requests down to the store, where none succeeds.
  \<^item> \<open>Llm_Providers\<close>, \<^verbatim>\<open>pages/admin/llm/ProvidersPage.tsx\<close>: providers at a remote address from the
    page down to the routing records of the gateway, which every request but a rename keeps right while the
    writes to them go through.
  \<^item> \<open>Models_Page\<close>, \<^verbatim>\<open>pages/admin/llm/ModelsPage.tsx\<close>, \<^verbatim>\<open>components/HfModelSearch.tsx\<close>: the list of models with
    its guarded loading, and the search that waits for the typing to pause.
  \<^item> \<open>Rag_Pages\<close>, \<^verbatim>\<open>pages/admin/rag/RagExplorerPage.tsx\<close>, \<^verbatim>\<open>RagSearchPage.tsx\<close>, \<^verbatim>\<open>RagRuntimeConfigPage.tsx\<close>:
    uploads to drafts, the request of a search, and the configuration.
  \<^item> \<open>Api_Requests\<close>, \<^verbatim>\<open>api\<close>: answers of the server, query strings read back, and paths.
  \<^item> \<open>Api_Routes\<close> and \<open>Api_Calls\<close>: the routes of the backend and the requests of all wrappers
    under \<^verbatim>\<open>api\<close>; a request reaches the handler it is meant for, with four exceptions, and two
    handlers are reached by none.
  \<^item> \<open>Usage_Pages\<close>, \<^verbatim>\<open>pages/admin/observability\<close>, \<^verbatim>\<open>pages/admin/pii/PIIActivityLogPage.tsx\<close>: paged lists
    with the lists of the server, and the range they are asked for.
  \<^item> \<open>Stack_Pages\<close>, \<^verbatim>\<open>pages/admin/StacksPage.tsx\<close>: the revisions of a stack on the server, which only
    grow, and the page over them with its answers in any order.
  \<^item> \<open>Root_Mode\<close>, \<^verbatim>\<open>components/RootModeDialog.tsx\<close>, \<^verbatim>\<open>routes/admin.tsx\<close>: the sessions of root mode on the server,
    never without a reason in the log, and the panel that shows and ends them.
  \<^item> \<open>Network_Page\<close>, \<^verbatim>\<open>pages/admin/NetworksPage.tsx\<close>: the networks the server lists and lets be deleted, and
    the dialog that makes one.
  \<^item> \<open>Container_Logs\<close>, \<^verbatim>\<open>components/ContainerLogsDialog.tsx\<close>: the panels of a module's containers against the
    checks of the server.
  \<^item> \<open>Table_Columns\<close>: columns of the shared table as data, with what sorting and searching do. The
    tables of all pages over it, with their buttons and cells: \<open>Resource_Tables\<close> (containers, images, stacks, audit, logs),
    \<open>Llm_Tables\<close> (providers, models, jobs, nodes), \<open>Admin_Tables\<close> (users, groups, roles, skills, chat)
    and \<open>Service_Tables\<close> (tools servers with their page, RAG, the page of a model).
  \<^item> \<open>Formats\<close>: sizes, ages and colours on the pages of nodes, dashboard and knowledge base.

  \<^bold>\<open>The chat.\<close>
  \<^item> \<open>Api_Error\<close> and \<open>Sse_Stream\<close>, \<^verbatim>\<open>api/chatClient.ts\<close>: messages for failed requests, and the
    two readers of server-sent events; chunking is irrelevant, and what is encoded comes back.
  \<^item> \<open>Chat_Stream\<close>, \<^verbatim>\<open>pages/chat/hooks/useChatStream.ts\<close>: the hook that loads, sends, stops,
    retries and resumes; replies are complete, the text shown is a prefix of the text read,
    and the hook is idle after every send.
  \<^item> \<open>Pii_Policy\<close>, \<^verbatim>\<open>pages/chat/hooks/useSessionPiiPolicy.ts\<close> and \<^verbatim>\<open>components/PiiPanel.tsx\<close>: overrides
    before and in a session, and what the panel's controls guarantee of the floor.
  \<^item> \<open>Tool_Policy\<close>, \<^verbatim>\<open>pages/chat/hooks/useToolPolicy.ts\<close> and \<^verbatim>\<open>components/ToolPanel.tsx\<close>: tools,
    groups and switches under the policy.
  \<^item> \<open>Chat_Page\<close>, \<^verbatim>\<open>pages/chat/ChatPage.tsx\<close>, \<^verbatim>\<open>components/ChatSidebar.tsx\<close>: sessions and
    projects, and what becomes of the choices made before and while a session is created.
  \<^item> \<open>Chat_View\<close>, \<^verbatim>\<open>pages/chat/components\<close>: the input, the first message, the selectors, the settings of a
    project, and the debug panel as a step relation over its requests.

  \<^bold>\<open>Parameters.\<close> \<open>json_parse\<close> (the parser of the engine), \<open>num_str\<close> (the text of a number) and
  the comparison of names in \<open>buildGroups\<close> are arguments of the definitions that use them, as
  are the list move of the drag library, the sorting and paging of the table library, the
  translation of texts, the reading of numbers and dates, the environment of the build and the times at which a
  target appears; what a property needs of them is a hypothesis of it. In \<open>Stack_Pages\<close> and \<open>Root_Mode\<close>
  \<open>filled\<close> says whether the database mapper gives a new row the defaults of the database before it is
  written out, which the answers need; both cases are modelled. In \<open>Llm_Providers\<close> it is an argument whether a runtime can be
  made and which writes to the gateway go through, in \<open>Auth_Client\<close> how long an answer is under way.
  The decoding of a stream of UTF-8 is the identity on the strings of the model.

  \<^bold>\<open>Not modelled.\<close> The JSX and styles of all components apart from what tables, buttons and fields show; the menus
  of the top bar, the drawer of the onboarding, the statistics of PII, the cards that monitor a runtime, the
  dialogs of prices; the translation files; and of the Python services all that no modelled page
  depends on: containers and nodes themselves, the gateway, workers, and the checking of request bodies against
  their schemas except where a theory says so. Requests to the server are handled one after the other.

  \<^bold>\<open>Plan.\<close> Next are the prices with the cache of the gateway and their recalculation
  (\<^verbatim>\<open>pages/admin/observability/PricingTab.tsx\<close>), the onboarding drawer, and the bodies of the requests against the
  schemas of the server.
\<close>

end
